(* ===== verification/Arch_Prelude.thy ===== *)
theory Arch_Prelude
  imports Complex_Main "HOL-Library.AList"
begin

text \<open>
  Shared vocabulary of the development.

  \<^item> \<open>('e, 's, 'a) op\<close>: a Python coroutine or method that reads and writes the
    state \<open>'s\<close>, and either returns a value or raises an exception. An exception
    does not undo the writes made before it, so both outcomes carry the state.
  \<^item> \<open>keeps\<close>: an invariant is kept by an operation, whichever way it ends.
  \<^item> Insertion-ordered dictionaries are association lists with \<open>AList.update\<close>
    (overwrite in place, else append) and \<open>AList.delete\<close>, as in Python.
  \<^item> Python's \<open>int()\<close> and \<open>round()\<close> on exact rationals.
  \<^item> \<open>lifecycle\<close> and \<open>ranked_lifecycle\<close>: the contract of a status table.
\<close>

named_theorems op_simps \<open>symbolic execution of the operations\<close>
named_theorems keeps_intros \<open>invariant preservation, one rule per construct\<close>

section \<open>Operations that may raise\<close>

type_synonym ('e, 's, 'a) op = "'s \<Rightarrow> ('e + 'a) \<times> 's"

definition ret :: "'a \<Rightarrow> ('e, 's, 'a) op" where
  "ret x = (\<lambda>s. (Inr x, s))"

definition raise :: "'e \<Rightarrow> ('e, 's, 'a) op" where
  "raise e = (\<lambda>s. (Inl e, s))"

definition chain :: "('e, 's, 'a) op \<Rightarrow> ('a \<Rightarrow> ('e, 's, 'b) op) \<Rightarrow> ('e, 's, 'b) op" where
  "chain m f = (\<lambda>s. case m s of (Inl e, s') \<Rightarrow> (Inl e, s') | (Inr x, s') \<Rightarrow> f x s')"

definition reads :: "('s \<Rightarrow> 'a) \<Rightarrow> ('e, 's, 'a) op" where
  "reads f = (\<lambda>s. (Inr (f s), s))"

definition writes :: "('s \<Rightarrow> 's) \<Rightarrow> ('e, 's, unit) op" where
  "writes f = (\<lambda>s. (Inr (), f s))"

definition lift_sum :: "('s \<Rightarrow> 'e + 'a) \<Rightarrow> ('e, 's, 'a) op" where
  "lift_sum f = (\<lambda>s. (f s, s))"

lemma ret_run [op_simps, simp]: "ret x s = (Inr x, s)"
  by (simp add: ret_def)

lemma raise_run [op_simps, simp]: "raise e s = (Inl e, s)"
  by (simp add: raise_def)

lemma reads_run [op_simps, simp]: "reads f s = (Inr (f s), s)"
  by (simp add: reads_def)

lemma writes_run [op_simps, simp]: "writes f s = (Inr (), f s)"
  by (simp add: writes_def)

lemma lift_sum_run [op_simps, simp]: "lift_sum f s = (f s, s)"
  by (simp add: lift_sum_def)

lemma chain_run [op_simps]:
  "chain m f s = (case m s of (Inl e, s') \<Rightarrow> (Inl e, s') | (Inr x, s') \<Rightarrow> f x s')"
  by (simp add: chain_def)

lemma chain_ret [simp]: "chain (ret x) f = f x"
  by (rule ext) (simp add: chain_run)

lemma chain_assoc: "chain (chain m f) g = chain m (\<lambda>x. chain (f x) g)"
  by (rule ext) (auto simp: chain_run split: prod.splits sum.splits)

definition keeps :: "('s \<Rightarrow> bool) \<Rightarrow> ('e, 's, 'a) op \<Rightarrow> bool" where
  "keeps P m \<longleftrightarrow> (\<forall>s. P s \<longrightarrow> P (snd (m s)))"

lemma keepsI: "(\<And>s. P s \<Longrightarrow> P (snd (m s))) \<Longrightarrow> keeps P m"
  by (simp add: keeps_def)

lemma keepsD: "keeps P m \<Longrightarrow> P s \<Longrightarrow> P (snd (m s))"
  by (simp add: keeps_def)

lemma keeps_run: "keeps P m \<Longrightarrow> P s \<Longrightarrow> m s = (r, s') \<Longrightarrow> P s'"
  by (force simp: keeps_def)

lemma keeps_ret [keeps_intros]: "keeps P (ret x)"
  by (simp add: keeps_def)

lemma keeps_raise [keeps_intros]: "keeps P (raise e)"
  by (simp add: keeps_def)

lemma keeps_reads [keeps_intros]: "keeps P (reads f)"
  by (simp add: keeps_def)

lemma keeps_lift_sum [keeps_intros]: "keeps P (lift_sum f)"
  by (simp add: keeps_def)

lemma keeps_writes: "(\<And>s. P s \<Longrightarrow> P (f s)) \<Longrightarrow> keeps P (writes f)"
  by (simp add: keeps_def)

lemma keeps_chain [keeps_intros]:
  assumes "keeps P m" and "\<And>x. keeps P (f x)"
  shows "keeps P (chain m f)"
proof (rule keepsI)
  fix s
  assume "P s"
  with assms(1) have "P (snd (m s))" by (rule keepsD)
  then show "P (snd (chain m f s))"
    using assms(2) by (auto simp: chain_run keeps_def split: prod.splits sum.splits)
qed

lemma keeps_if [keeps_intros]: "keeps P m \<Longrightarrow> keeps P n \<Longrightarrow> keeps P (if b then m else n)"
  by simp

text \<open>
  Running an operation of a part on the whole (\<open>zoom\<close>), \<^verbatim>\<open>try: ... except Exception\<close>
  (\<open>attempt\<close>) and \<^verbatim>\<open>try: ... finally\<close> (\<open>finally_do\<close>; an exception of the clean-up
  replaces the result of the body).
\<close>

definition zoom :: "('s \<Rightarrow> 't) \<Rightarrow> ('t \<Rightarrow> 's \<Rightarrow> 's) \<Rightarrow> ('e, 't, 'a) op \<Rightarrow> ('e, 's, 'a) op" where
  "zoom part put m = (\<lambda>s. case m (part s) of (r, t) \<Rightarrow> (r, put t s))"

definition attempt :: "('e, 's, 'a) op \<Rightarrow> ('e \<Rightarrow> ('e, 's, 'a) op) \<Rightarrow> ('e, 's, 'a) op" where
  "attempt m h = (\<lambda>s. case m s of (Inl e, s') \<Rightarrow> h e s' | (Inr x, s') \<Rightarrow> (Inr x, s'))"

definition finally_do :: "('e, 's, 'a) op \<Rightarrow> ('e, 's, unit) op \<Rightarrow> ('e, 's, 'a) op" where
  "finally_do m c = (\<lambda>s. case m s of (r, s') \<Rightarrow>
     (case c s' of (Inl e, s'') \<Rightarrow> (Inl e, s'') | (Inr _, s'') \<Rightarrow> (r, s'')))"

lemma zoom_run [op_simps]: "zoom part put m s = (case m (part s) of (r, t) \<Rightarrow> (r, put t s))"
  by (simp add: zoom_def)

lemma attempt_run [op_simps]:
  "attempt m h s = (case m s of (Inl e, s') \<Rightarrow> h e s' | (Inr x, s') \<Rightarrow> (Inr x, s'))"
  by (simp add: attempt_def)

lemma finally_do_run [op_simps]:
  "finally_do m c s = (case m s of (r, s') \<Rightarrow>
     (case c s' of (Inl e, s'') \<Rightarrow> (Inl e, s'') | (Inr _, s'') \<Rightarrow> (r, s'')))"
  by (simp add: finally_do_def)

lemma keeps_zoom: "(\<And>s t. P s \<Longrightarrow> P (put t s)) \<Longrightarrow> keeps P (zoom part put m)"
  by (auto simp: keeps_def zoom_run split: prod.splits)

lemma keeps_attempt [keeps_intros]:
  "keeps P m \<Longrightarrow> (\<And>e. keeps P (h e)) \<Longrightarrow> keeps P (attempt m h)"
  by (fastforce simp: keeps_def attempt_run split: prod.splits sum.splits)

lemma keeps_finally_do [keeps_intros]:
  "keeps P m \<Longrightarrow> keeps P c \<Longrightarrow> keeps P (finally_do m c)"
  by (fastforce simp: keeps_def finally_do_run split: prod.splits sum.splits)

text \<open>A Hoare triple for the operations that return: the result and the new state.\<close>

definition returns :: "('s \<Rightarrow> bool) \<Rightarrow> ('e, 's, 'a) op \<Rightarrow> ('a \<Rightarrow> 's \<Rightarrow> bool) \<Rightarrow> bool" where
  "returns P m Q \<longleftrightarrow> (\<forall>s x s'. P s \<longrightarrow> m s = (Inr x, s') \<longrightarrow> Q x s')"

lemma returnsI: "(\<And>s x s'. P s \<Longrightarrow> m s = (Inr x, s') \<Longrightarrow> Q x s') \<Longrightarrow> returns P m Q"
  by (simp add: returns_def)

lemma returnsD: "returns P m Q \<Longrightarrow> P s \<Longrightarrow> m s = (Inr x, s') \<Longrightarrow> Q x s'"
  by (simp add: returns_def)

lemma returns_chain:
  "returns P m R \<Longrightarrow> (\<And>x. returns (R x) (f x) Q) \<Longrightarrow> returns P (chain m f) Q"
  by (fastforce simp: returns_def chain_run split: prod.splits sum.splits)

section \<open>Pure code that may raise\<close>

definition bind_sum :: "'e + 'a \<Rightarrow> ('a \<Rightarrow> 'e + 'b) \<Rightarrow> 'e + 'b" where
  "bind_sum r f = (case r of Inl e \<Rightarrow> Inl e | Inr x \<Rightarrow> f x)"

lemma bind_sum_simps [simp]: "bind_sum (Inl e) f = Inl e" "bind_sum (Inr x) f = f x"
  by (simp_all add: bind_sum_def)

lemma bind_sum_Inr: "bind_sum r f = Inr y \<longleftrightarrow> (\<exists>x. r = Inr x \<and> f x = Inr y)"
  by (cases r) auto

text \<open>A list comprehension whose element expression may raise: the first exception wins.\<close>

primrec map_sum_list :: "('a \<Rightarrow> 'e + 'b) \<Rightarrow> 'a list \<Rightarrow> 'e + 'b list" where
  "map_sum_list f [] = Inr []"
| "map_sum_list f (x # xs) = bind_sum (f x) (\<lambda>y. bind_sum (map_sum_list f xs) (\<lambda>ys. Inr (y # ys)))"

lemma map_sum_list_Inr: "map_sum_list f xs = Inr ys \<longleftrightarrow> map f xs = map Inr ys"
  by (induction xs arbitrary: ys) (auto simp: bind_sum_Inr)

lemma map_sum_list_all: "map_sum_list f xs = Inr ys \<Longrightarrow> (\<And>x y. f x = Inr y \<Longrightarrow> P y) \<Longrightarrow> list_all P ys"
  by (induction xs arbitrary: ys) (auto simp: bind_sum_Inr)

lemma map_sum_list_ok: "(\<And>x. x \<in> set xs \<Longrightarrow> f x = Inr (g x)) \<Longrightarrow> map_sum_list f xs = Inr (map g xs)"
  by (induction xs) auto

text \<open>\<^verbatim>\<open>for x in xs: await f(x)\<close>.\<close>

primrec for_each :: "('a \<Rightarrow> ('e, 's, unit) op) \<Rightarrow> 'a list \<Rightarrow> ('e, 's, unit) op" where
  "for_each f [] = ret ()"
| "for_each f (x # xs) = chain (f x) (\<lambda>_. for_each f xs)"

lemma keeps_for_each [keeps_intros]: "(\<And>x. keeps P (f x)) \<Longrightarrow> keeps P (for_each f xs)"
  by (induction xs) (auto intro: keeps_intros)

section \<open>Ordered dictionaries\<close>

abbreviation keys :: "('k \<times> 'v) list \<Rightarrow> 'k list" where
  "keys d \<equiv> map fst d"

definition get_or :: "'v \<Rightarrow> ('k \<times> 'v) list \<Rightarrow> 'k \<Rightarrow> 'v" where
  "get_or v d k = (case map_of d k of None \<Rightarrow> v | Some w \<Rightarrow> w)"

lemma map_of_update [simp]: "map_of (AList.update k v d) = (map_of d)(k \<mapsto> v)"
  by (rule ext) (simp add: update_conv)

lemma map_of_delete [simp]: "map_of (AList.delete k d) = (map_of d)(k := None)"
  by (rule ext) (simp add: delete_conv)

lemma get_or_update [simp]: "get_or u (AList.update k v d) k' = (if k' = k then v else get_or u d k')"
  by (simp add: get_or_def)

lemma keys_update: "keys (AList.update k v d) = (if k \<in> set (keys d) then keys d else keys d @ [k])"
  by (rule update_keys)

lemma update_absent: "k \<notin> set (keys d) \<Longrightarrow> AList.update k v d = d @ [(k, v)]"
  by (induction d) auto

lemma set_update_subset: "set (AList.update k v d) \<subseteq> insert (k, v) (set d)"
  by (induction d) auto

lemma distinct_keys_update [simp]: "distinct (keys d) \<Longrightarrow> distinct (keys (AList.update k v d))"
  by (rule distinct_update)

lemma distinct_keys_delete [simp]: "distinct (keys d) \<Longrightarrow> distinct (keys (AList.delete k d))"
  by (rule distinct_delete)

lemma map_of_eq_None_keys: "map_of d k = None \<longleftrightarrow> k \<notin> set (keys d)"
  by (simp add: map_of_eq_None_iff)

lemma map_of_in_keys: "k \<in> set (keys d) \<Longrightarrow> \<exists>v. map_of d k = Some v"
  by (metis map_of_eq_None_keys not_None_eq)

lemma in_keysI: "map_of d k = Some v \<Longrightarrow> k \<in> set (keys d)"
  by (metis map_of_eq_None_keys option.distinct(1))

lemma update_present:
  "distinct (keys d) \<Longrightarrow> k \<in> set (keys d) \<Longrightarrow>
     AList.update k v d = map (\<lambda>(k', w). (k', if k' = k then v else w)) d"
proof (induction d)
  case Nil
  then show ?case by simp
next
  case (Cons p d)
  then show ?case
  proof (cases "fst p = k")
    case True
    with Cons.prems have "k \<notin> fst ` set d" by auto
    then have "map (\<lambda>(k', w). (k', if k' = k then v else w)) d = d"
      by (auto intro!: map_idI) (metis fst_conv image_eqI)
    with True show ?thesis by (cases p) simp
  next
    case False
    with Cons show ?thesis by (cases p) auto
  qed
qed

section \<open>Python arithmetic on exact numbers\<close>

text \<open>
  The code computes with floats. The model takes the exact rational value of every
  expression and applies the rounding calls of the source (\<open>int()\<close>, \<open>round(x, n)\<close>)
  to it, so the last bit of a float is not modelled.
\<close>

definition py_int :: "rat \<Rightarrow> int" where
  "py_int x = (if x < 0 then - \<lfloor>- x\<rfloor> else \<lfloor>x\<rfloor>)"

definition round_half_even :: "rat \<Rightarrow> int" where
  "round_half_even x =
     (let f = \<lfloor>x\<rfloor>; d = x - of_int f
      in if d < 1/2 then f else if 1/2 < d then f + 1 else if even f then f else f + 1)"

definition py_round :: "nat \<Rightarrow> rat \<Rightarrow> rat" where
  "py_round n x = of_int (round_half_even (x * 10 ^ n)) / 10 ^ n"

lemma py_int_nonneg: "0 \<le> x \<Longrightarrow> py_int x = \<lfloor>x\<rfloor>"
  by (simp add: py_int_def)

lemma py_int_le: "0 \<le> x \<Longrightarrow> of_int (py_int x) \<le> x"
  by (simp add: py_int_nonneg)

lemma py_int_ge0: "0 \<le> x \<Longrightarrow> 0 \<le> py_int x"
  by (simp add: py_int_nonneg)

lemma py_int_of_int [simp]: "py_int (of_int n) = n"
  by (simp add: py_int_def)

lemma py_int_mono_nonneg: "0 \<le> x \<Longrightarrow> x \<le> y \<Longrightarrow> py_int x \<le> py_int y"
  by (simp add: py_int_nonneg floor_mono)

lemma round_half_even_near: "\<bar>of_int (round_half_even x) - x\<bar> \<le> 1/2"
proof -
  have "of_int \<lfloor>x\<rfloor> \<le> x" and "x < of_int \<lfloor>x\<rfloor> + 1"
    by linarith+
  then show ?thesis
    by (auto simp: round_half_even_def Let_def abs_le_iff)
qed

lemma round_half_even_of_int [simp]: "round_half_even (of_int n) = n"
  by (simp add: round_half_even_def)

lemma round_half_even_mono:
  assumes "x \<le> y"
  shows "round_half_even x \<le> round_half_even y"
proof (cases "\<lfloor>x\<rfloor> = \<lfloor>y\<rfloor>")
  case True
  with assms show ?thesis by (auto simp: round_half_even_def Let_def)
next
  case False
  with assms have "\<lfloor>x\<rfloor> + 1 \<le> \<lfloor>y\<rfloor>"
    using floor_mono [OF assms] by linarith
  moreover have "round_half_even x \<le> \<lfloor>x\<rfloor> + 1" and "\<lfloor>y\<rfloor> \<le> round_half_even y"
    by (auto simp: round_half_even_def Let_def)
  ultimately show ?thesis by linarith
qed

lemma py_round_mono: "x \<le> y \<Longrightarrow> py_round n x \<le> py_round n y"
  by (simp add: py_round_def divide_right_mono round_half_even_mono)

lemma py_round_near: "\<bar>py_round n x - x\<bar> \<le> 1 / (2 * 10 ^ n)"
proof -
  define p :: rat where "p = 10 ^ n"
  have p: "0 < p" by (simp add: p_def)
  have "\<bar>py_round n x - x\<bar> = \<bar>of_int (round_half_even (x * p)) - x * p\<bar> / p"
    using p by (simp add: py_round_def p_def [symmetric] abs_divide [symmetric] field_simps)
  also have "\<dots> \<le> (1/2) / p"
    using round_half_even_near p by (intro divide_right_mono) auto
  finally show ?thesis by (simp add: p_def)
qed

lemma py_round_nonneg: "0 \<le> x \<Longrightarrow> 0 \<le> py_round n x"
  using py_round_mono [of 0 x n] by (simp add: py_round_def round_half_even_def)

lemma py_round_of_int [simp]: "py_round n (of_int k) = of_int k"
proof -
  have "(of_int k :: rat) * 10 ^ n = of_int (k * 10 ^ n)" by simp
  then show ?thesis by (simp only: py_round_def round_half_even_of_int) simp
qed

lemma py_round_ge_int: "of_int k \<le> x \<Longrightarrow> of_int k \<le> py_round n x"
  using py_round_mono [of "of_int k" x n] by simp

lemma py_round_le_int: "x \<le> of_int k \<Longrightarrow> py_round n x \<le> of_int k"
  using py_round_mono [of x "of_int k" n] by simp

section \<open>Status tables\<close>

text \<open>
  A status table says which statuses may follow a status. The handlers that change the
  status are clients of the table: whatever sequence of them runs, the statuses follow
  the table, so a status without successors is never left.
\<close>

locale lifecycle =
  fixes allowed :: "'s \<Rightarrow> 's \<Rightarrow> bool"
    and final :: "'s \<Rightarrow> bool"
  assumes final_stuck: "final a \<Longrightarrow> \<not> allowed a b"
begin

lemma final_absorbing: "allowed\<^sup>*\<^sup>* a b \<Longrightarrow> final a \<Longrightarrow> b = a"
  by (erule converse_rtranclpE) (auto dest: final_stuck)

lemma never_leaves_final: "allowed\<^sup>*\<^sup>* a b \<Longrightarrow> final a \<Longrightarrow> \<not> final b \<Longrightarrow> False"
  using final_absorbing by blast

end

locale ranked_lifecycle = lifecycle +
  fixes rank :: "'s \<Rightarrow> nat"
  assumes rank_step: "allowed a b \<Longrightarrow> rank a < rank b"
begin

lemma rank_run: "allowed\<^sup>*\<^sup>* a b \<Longrightarrow> rank a \<le> rank b"
  by (induction rule: rtranclp_induct) (auto dest: rank_step)

lemma rank_run_strict: "allowed\<^sup>+\<^sup>+ a b \<Longrightarrow> rank a < rank b"
  by (induction rule: tranclp_induct) (auto dest: rank_step)

lemma no_return: "allowed\<^sup>+\<^sup>+ a b \<Longrightarrow> a \<noteq> b"
  using rank_run_strict by blast

lemma run_length: "(allowed ^^ n) a b \<Longrightarrow> rank a + n \<le> rank b"
proof (induction n arbitrary: b)
  case 0
  then show ?case by simp
next
  case (Suc n)
  then obtain c where "(allowed ^^ n) a c" and "allowed c b" by auto
  with Suc.IH [of c] rank_step [of c b] show ?case by simp
qed

end

end
