(* ===== verification/Enums.thy ===== *)
theory Enums
  imports Arch_Prelude
begin

text \<open>
  The string enumerations of \<^verbatim>\<open>libs/architect-common/src/architect_common/enums.py\<close>.

  Each \<^verbatim>\<open>StrEnum\<close> class is a datatype with the members' names; \<open>*_value\<close> is the
  member's string, which the code stores in database rows, event payloads and stream
  names, and \<open>*_of\<close> is the class called on a string (\<^verbatim>\<open>StatusEnum("pending")\<close>), \<open>None\<close>
  where Python raises \<^verbatim>\<open>ValueError\<close>. The locale \<open>str_enum\<close> holds what a client of any
  of these classes relies on: members have distinct strings and the lookup inverts
  them. It is interpreted for every enumeration.
\<close>

definition parse_enum :: "('a \<Rightarrow> string) \<Rightarrow> 'a list \<Rightarrow> string \<Rightarrow> 'a option" where
  "parse_enum value members s = find (\<lambda>m. value m = s) members"

locale str_enum =
  fixes value_of :: "'a \<Rightarrow> string"
    and members :: "'a list"
  assumes values_distinct: "distinct (map value_of members)"
    and members_complete: "x \<in> set members"
begin

lemma value_inj: "value_of x = value_of y \<longleftrightarrow> x = y"
  using values_distinct members_complete by (auto simp: distinct_map inj_on_def)

lemma parse_Some: "parse_enum value_of members s = Some x \<longleftrightarrow> value_of x = s"
proof
  assume "parse_enum value_of members s = Some x"
  then show "value_of x = s" by (auto simp: parse_enum_def find_Some_iff)
next
  assume s: "value_of x = s"
  have "find (\<lambda>m. value_of m = s) members \<noteq> None"
    using s members_complete [of x] by (auto simp: find_None_iff)
  then obtain y where y: "find (\<lambda>m. value_of m = s) members = Some y" by blast
  then have "value_of y = s" by (auto simp: find_Some_iff)
  with s y show "parse_enum value_of members s = Some x"
    by (auto simp: parse_enum_def value_inj [symmetric])
qed

lemma parse_value [simp]: "parse_enum value_of members (value_of x) = Some x"
  by (simp add: parse_Some)

lemma parse_None: "parse_enum value_of members s = None \<longleftrightarrow> s \<notin> range value_of"
proof -
  have "parse_enum value_of members s = None \<longleftrightarrow> (\<forall>x. parse_enum value_of members s \<noteq> Some x)"
    by (cases "parse_enum value_of members s") auto
  then show ?thesis by (auto simp: parse_Some)
qed

end

datatype StatusEnum =
    PENDING | RUNNING | COMPLETED | FAILED | BLOCKED | CANCELLED

primrec status_value :: "StatusEnum \<Rightarrow> string" where
  "status_value StatusEnum.PENDING = ''pending''"
| "status_value StatusEnum.RUNNING = ''running''"
| "status_value StatusEnum.COMPLETED = ''completed''"
| "status_value StatusEnum.FAILED = ''failed''"
| "status_value StatusEnum.BLOCKED = ''blocked''"
| "status_value StatusEnum.CANCELLED = ''cancelled''"

definition all_status :: "StatusEnum list" where
  "all_status = [StatusEnum.PENDING, StatusEnum.RUNNING, StatusEnum.COMPLETED, StatusEnum.FAILED,
     StatusEnum.BLOCKED, StatusEnum.CANCELLED]"

definition status_of :: "string \<Rightarrow> StatusEnum option" where
  "status_of = parse_enum status_value all_status"

lemma status_distinct: "distinct (map status_value all_status)"
  by code_simp

lemma status_complete: "x \<in> set all_status"
  by (cases x) (simp_all add: all_status_def)

interpretation status: str_enum status_value all_status
  by unfold_locales (rule status_distinct, rule status_complete)

datatype ProposalVerdict =
    PENDING | ACCEPTED | REJECTED

primrec proposal_verdict_value :: "ProposalVerdict \<Rightarrow> string" where
  "proposal_verdict_value ProposalVerdict.PENDING = ''pending''"
| "proposal_verdict_value ProposalVerdict.ACCEPTED = ''accepted''"
| "proposal_verdict_value ProposalVerdict.REJECTED = ''rejected''"

definition all_proposal_verdict :: "ProposalVerdict list" where
  "all_proposal_verdict = [ProposalVerdict.PENDING, ProposalVerdict.ACCEPTED,
     ProposalVerdict.REJECTED]"

definition proposal_verdict_of :: "string \<Rightarrow> ProposalVerdict option" where
  "proposal_verdict_of = parse_enum proposal_verdict_value all_proposal_verdict"

lemma proposal_verdict_distinct: "distinct (map proposal_verdict_value all_proposal_verdict)"
  by code_simp

lemma proposal_verdict_complete: "x \<in> set all_proposal_verdict"
  by (cases x) (simp_all add: all_proposal_verdict_def)

interpretation proposal_verdict: str_enum proposal_verdict_value all_proposal_verdict
  by unfold_locales (rule proposal_verdict_distinct, rule proposal_verdict_complete)

datatype EvalVerdict =
    PASS | FAIL_SOFT | FAIL_HARD

primrec eval_verdict_value :: "EvalVerdict \<Rightarrow> string" where
  "eval_verdict_value EvalVerdict.PASS = ''pass''"
| "eval_verdict_value EvalVerdict.FAIL_SOFT = ''fail_soft''"
| "eval_verdict_value EvalVerdict.FAIL_HARD = ''fail_hard''"

definition all_eval_verdict :: "EvalVerdict list" where
  "all_eval_verdict = [EvalVerdict.PASS, EvalVerdict.FAIL_SOFT, EvalVerdict.FAIL_HARD]"

definition eval_verdict_of :: "string \<Rightarrow> EvalVerdict option" where
  "eval_verdict_of = parse_enum eval_verdict_value all_eval_verdict"

lemma eval_verdict_distinct: "distinct (map eval_verdict_value all_eval_verdict)"
  by code_simp

lemma eval_verdict_complete: "x \<in> set all_eval_verdict"
  by (cases x) (simp_all add: all_eval_verdict_def)

interpretation eval_verdict: str_enum eval_verdict_value all_eval_verdict
  by unfold_locales (rule eval_verdict_distinct, rule eval_verdict_complete)

datatype TaskType =
    IMPLEMENT_FEATURE | WRITE_TEST | REVIEW_CODE | FIX_BUG | REFACTOR

primrec task_type_value :: "TaskType \<Rightarrow> string" where
  "task_type_value TaskType.IMPLEMENT_FEATURE = ''implement_feature''"
| "task_type_value TaskType.WRITE_TEST = ''write_test''"
| "task_type_value TaskType.REVIEW_CODE = ''review_code''"
| "task_type_value TaskType.FIX_BUG = ''fix_bug''"
| "task_type_value TaskType.REFACTOR = ''refactor''"

definition all_task_type :: "TaskType list" where
  "all_task_type = [TaskType.IMPLEMENT_FEATURE, TaskType.WRITE_TEST, TaskType.REVIEW_CODE,
     TaskType.FIX_BUG, TaskType.REFACTOR]"

definition task_type_of :: "string \<Rightarrow> TaskType option" where
  "task_type_of = parse_enum task_type_value all_task_type"

lemma task_type_distinct: "distinct (map task_type_value all_task_type)"
  by code_simp

lemma task_type_complete: "x \<in> set all_task_type"
  by (cases x) (simp_all add: all_task_type_def)

interpretation task_type: str_enum task_type_value all_task_type
  by unfold_locales (rule task_type_distinct, rule task_type_complete)

datatype AgentType =
    CODER | REVIEWER | TESTER | PLANNER

primrec agent_type_value :: "AgentType \<Rightarrow> string" where
  "agent_type_value AgentType.CODER = ''coder''"
| "agent_type_value AgentType.REVIEWER = ''reviewer''"
| "agent_type_value AgentType.TESTER = ''tester''"
| "agent_type_value AgentType.PLANNER = ''planner''"

definition all_agent_type :: "AgentType list" where
  "all_agent_type = [AgentType.CODER, AgentType.REVIEWER, AgentType.TESTER, AgentType.PLANNER]"

definition agent_type_of :: "string \<Rightarrow> AgentType option" where
  "agent_type_of = parse_enum agent_type_value all_agent_type"

lemma agent_type_distinct: "distinct (map agent_type_value all_agent_type)"
  by code_simp

lemma agent_type_complete: "x \<in> set all_agent_type"
  by (cases x) (simp_all add: all_agent_type_def)

interpretation agent_type: str_enum agent_type_value all_agent_type
  by unfold_locales (rule agent_type_distinct, rule agent_type_complete)

datatype ModelTier =
    TIER_1 | TIER_2 | TIER_3

primrec model_tier_value :: "ModelTier \<Rightarrow> string" where
  "model_tier_value ModelTier.TIER_1 = ''tier_1''"
| "model_tier_value ModelTier.TIER_2 = ''tier_2''"
| "model_tier_value ModelTier.TIER_3 = ''tier_3''"

definition all_model_tier :: "ModelTier list" where
  "all_model_tier = [ModelTier.TIER_1, ModelTier.TIER_2, ModelTier.TIER_3]"

definition model_tier_of :: "string \<Rightarrow> ModelTier option" where
  "model_tier_of = parse_enum model_tier_value all_model_tier"

lemma model_tier_distinct: "distinct (map model_tier_value all_model_tier)"
  by code_simp

lemma model_tier_complete: "x \<in> set all_model_tier"
  by (cases x) (simp_all add: all_model_tier_def)

interpretation model_tier: str_enum model_tier_value all_model_tier
  by unfold_locales (rule model_tier_distinct, rule model_tier_complete)

datatype EnvironmentName =
    DEV | STAGING | PROD

primrec environment_name_value :: "EnvironmentName \<Rightarrow> string" where
  "environment_name_value EnvironmentName.DEV = ''dev''"
| "environment_name_value EnvironmentName.STAGING = ''staging''"
| "environment_name_value EnvironmentName.PROD = ''prod''"

definition all_environment_name :: "EnvironmentName list" where
  "all_environment_name = [EnvironmentName.DEV, EnvironmentName.STAGING, EnvironmentName.PROD]"

definition environment_name_of :: "string \<Rightarrow> EnvironmentName option" where
  "environment_name_of = parse_enum environment_name_value all_environment_name"

lemma environment_name_distinct: "distinct (map environment_name_value all_environment_name)"
  by code_simp

lemma environment_name_complete: "x \<in> set all_environment_name"
  by (cases x) (simp_all add: all_environment_name_def)

interpretation environment_name: str_enum environment_name_value all_environment_name
  by unfold_locales (rule environment_name_distinct, rule environment_name_complete)

datatype HealthStatus =
    HEALTHY | DEGRADED | DOWN | UNKNOWN

primrec health_status_value :: "HealthStatus \<Rightarrow> string" where
  "health_status_value HealthStatus.HEALTHY = ''healthy''"
| "health_status_value HealthStatus.DEGRADED = ''degraded''"
| "health_status_value HealthStatus.DOWN = ''down''"
| "health_status_value HealthStatus.UNKNOWN = ''unknown''"

definition all_health_status :: "HealthStatus list" where
  "all_health_status = [HealthStatus.HEALTHY, HealthStatus.DEGRADED, HealthStatus.DOWN,
     HealthStatus.UNKNOWN]"

definition health_status_of :: "string \<Rightarrow> HealthStatus option" where
  "health_status_of = parse_enum health_status_value all_health_status"

lemma health_status_distinct: "distinct (map health_status_value all_health_status)"
  by code_simp

lemma health_status_complete: "x \<in> set all_health_status"
  by (cases x) (simp_all add: all_health_status_def)

interpretation health_status: str_enum health_status_value all_health_status
  by unfold_locales (rule health_status_distinct, rule health_status_complete)

datatype BuildResult =
    PASS | FAIL

primrec build_result_value :: "BuildResult \<Rightarrow> string" where
  "build_result_value BuildResult.PASS = ''pass''"
| "build_result_value BuildResult.FAIL = ''fail''"

definition all_build_result :: "BuildResult list" where
  "all_build_result = [BuildResult.PASS, BuildResult.FAIL]"

definition build_result_of :: "string \<Rightarrow> BuildResult option" where
  "build_result_of = parse_enum build_result_value all_build_result"

lemma build_result_distinct: "distinct (map build_result_value all_build_result)"
  by code_simp

lemma build_result_complete: "x \<in> set all_build_result"
  by (cases x) (simp_all add: all_build_result_def)

interpretation build_result: str_enum build_result_value all_build_result
  by unfold_locales (rule build_result_distinct, rule build_result_complete)

datatype LintStatus =
    CLEAN | WARNINGS | ERRORS

primrec lint_status_value :: "LintStatus \<Rightarrow> string" where
  "lint_status_value LintStatus.CLEAN = ''clean''"
| "lint_status_value LintStatus.WARNINGS = ''warnings''"
| "lint_status_value LintStatus.ERRORS = ''errors''"

definition all_lint_status :: "LintStatus list" where
  "all_lint_status = [LintStatus.CLEAN, LintStatus.WARNINGS, LintStatus.ERRORS]"

definition lint_status_of :: "string \<Rightarrow> LintStatus option" where
  "lint_status_of = parse_enum lint_status_value all_lint_status"

lemma lint_status_distinct: "distinct (map lint_status_value all_lint_status)"
  by code_simp

lemma lint_status_complete: "x \<in> set all_lint_status"
  by (cases x) (simp_all add: all_lint_status_def)

interpretation lint_status: str_enum lint_status_value all_lint_status
  by unfold_locales (rule lint_status_distinct, rule lint_status_complete)

datatype SandboxStatus =
    CREATING | READY | RUNNING | COMPLETED | TIMED_OUT | ERROR | DESTROYED

primrec sandbox_status_value :: "SandboxStatus \<Rightarrow> string" where
  "sandbox_status_value SandboxStatus.CREATING = ''creating''"
| "sandbox_status_value SandboxStatus.READY = ''ready''"
| "sandbox_status_value SandboxStatus.RUNNING = ''running''"
| "sandbox_status_value SandboxStatus.COMPLETED = ''completed''"
| "sandbox_status_value SandboxStatus.TIMED_OUT = ''timed_out''"
| "sandbox_status_value SandboxStatus.ERROR = ''error''"
| "sandbox_status_value SandboxStatus.DESTROYED = ''destroyed''"

definition all_sandbox_status :: "SandboxStatus list" where
  "all_sandbox_status = [SandboxStatus.CREATING, SandboxStatus.READY, SandboxStatus.RUNNING,
     SandboxStatus.COMPLETED, SandboxStatus.TIMED_OUT, SandboxStatus.ERROR,
     SandboxStatus.DESTROYED]"

definition sandbox_status_of :: "string \<Rightarrow> SandboxStatus option" where
  "sandbox_status_of = parse_enum sandbox_status_value all_sandbox_status"

lemma sandbox_status_distinct: "distinct (map sandbox_status_value all_sandbox_status)"
  by code_simp

lemma sandbox_status_complete: "x \<in> set all_sandbox_status"
  by (cases x) (simp_all add: all_sandbox_status_def)

interpretation sandbox_status: str_enum sandbox_status_value all_sandbox_status
  by unfold_locales (rule sandbox_status_distinct, rule sandbox_status_complete)

datatype EventType =
    LEDGER_UPDATED | PROPOSAL_CREATED | PROPOSAL_ACCEPTED | PROPOSAL_REJECTED | TASK_CREATED
  | TASK_STARTED | TASK_COMPLETED | TASK_FAILED | TASK_RETRIED | AGENT_SPAWNED
  | AGENT_HEARTBEAT | AGENT_COMPLETED | AGENT_FAILED | SANDBOX_CREATED | SANDBOX_COMMAND
  | SANDBOX_DESTROYED | EVAL_STARTED | EVAL_LAYER_COMPLETED | EVAL_COMPLETED | BUDGET_WARNING
  | BUDGET_EXHAUSTED | SPEC_CREATED | SPEC_CLARIFICATION_NEEDED | SPEC_FINALIZED
  | ROUTING_DECISION | ROUTING_ESCALATION | MESSAGE_PUBLISHED | MESSAGE_DEAD_LETTERED
  | KNOWLEDGE_ACQUIRED | KNOWLEDGE_PATTERN_EXTRACTED | KNOWLEDGE_HEURISTIC_CREATED
  | KNOWLEDGE_COMPRESSION_COMPLETED | BUDGET_THRESHOLD_ALERT | BUDGET_TIER_DOWNGRADE
  | BUDGET_TASK_PAUSED | BUDGET_HALT | BUDGET_SPIN_DETECTED | EFFICIENCY_UPDATED
  | ESCALATION_CREATED | ESCALATION_RESOLVED | APPROVAL_REQUESTED | APPROVAL_GRANTED
  | APPROVAL_DENIED | SECURITY_SCAN_STARTED | SECURITY_SCAN_COMPLETED
  | SECURITY_FINDING_CREATED | SECURITY_POLICY_VIOLATION | SECURITY_GATE_BLOCKED
  | DEPLOYMENT_STARTED | DEPLOYMENT_STAGE_CHANGED | DEPLOYMENT_COMPLETED
  | DEPLOYMENT_ROLLED_BACK | FAILURE_CLASSIFIED | IMPROVEMENT_PROPOSED | POST_MORTEM_COMPLETED

primrec event_type_value :: "EventType \<Rightarrow> string" where
  "event_type_value EventType.LEDGER_UPDATED = ''ledger.updated''"
| "event_type_value EventType.PROPOSAL_CREATED = ''proposal.created''"
| "event_type_value EventType.PROPOSAL_ACCEPTED = ''proposal.accepted''"
| "event_type_value EventType.PROPOSAL_REJECTED = ''proposal.rejected''"
| "event_type_value EventType.TASK_CREATED = ''task.created''"
| "event_type_value EventType.TASK_STARTED = ''task.started''"
| "event_type_value EventType.TASK_COMPLETED = ''task.completed''"
| "event_type_value EventType.TASK_FAILED = ''task.failed''"
| "event_type_value EventType.TASK_RETRIED = ''task.retried''"
| "event_type_value EventType.AGENT_SPAWNED = ''agent.spawned''"
| "event_type_value EventType.AGENT_HEARTBEAT = ''agent.heartbeat''"
| "event_type_value EventType.AGENT_COMPLETED = ''agent.completed''"
| "event_type_value EventType.AGENT_FAILED = ''agent.failed''"
| "event_type_value EventType.SANDBOX_CREATED = ''sandbox.created''"
| "event_type_value EventType.SANDBOX_COMMAND = ''sandbox.command''"
| "event_type_value EventType.SANDBOX_DESTROYED = ''sandbox.destroyed''"
| "event_type_value EventType.EVAL_STARTED = ''eval.started''"
| "event_type_value EventType.EVAL_LAYER_COMPLETED = ''eval.layer_completed''"
| "event_type_value EventType.EVAL_COMPLETED = ''eval.completed''"
| "event_type_value EventType.BUDGET_WARNING = ''budget.warning''"
| "event_type_value EventType.BUDGET_EXHAUSTED = ''budget.exhausted''"
| "event_type_value EventType.SPEC_CREATED = ''spec.created''"
| "event_type_value EventType.SPEC_CLARIFICATION_NEEDED = ''spec.clarification_needed''"
| "event_type_value EventType.SPEC_FINALIZED = ''spec.finalized''"
| "event_type_value EventType.ROUTING_DECISION = ''routing.decision''"
| "event_type_value EventType.ROUTING_ESCALATION = ''routing.escalation''"
| "event_type_value EventType.MESSAGE_PUBLISHED = ''message.published''"
| "event_type_value EventType.MESSAGE_DEAD_LETTERED = ''message.dead_lettered''"
| "event_type_value EventType.KNOWLEDGE_ACQUIRED = ''knowledge.acquired''"
| "event_type_value EventType.KNOWLEDGE_PATTERN_EXTRACTED = ''knowledge.pattern_extracted''"
| "event_type_value EventType.KNOWLEDGE_HEURISTIC_CREATED = ''knowledge.heuristic_created''"
| "event_type_value EventType.KNOWLEDGE_COMPRESSION_COMPLETED = ''knowledge.compression_completed''"
| "event_type_value EventType.BUDGET_THRESHOLD_ALERT = ''budget.threshold_alert''"
| "event_type_value EventType.BUDGET_TIER_DOWNGRADE = ''budget.tier_downgrade''"
| "event_type_value EventType.BUDGET_TASK_PAUSED = ''budget.task_paused''"
| "event_type_value EventType.BUDGET_HALT = ''budget.halt''"
| "event_type_value EventType.BUDGET_SPIN_DETECTED = ''budget.spin_detected''"
| "event_type_value EventType.EFFICIENCY_UPDATED = ''efficiency.updated''"
| "event_type_value EventType.ESCALATION_CREATED = ''escalation.created''"
| "event_type_value EventType.ESCALATION_RESOLVED = ''escalation.resolved''"
| "event_type_value EventType.APPROVAL_REQUESTED = ''approval.requested''"
| "event_type_value EventType.APPROVAL_GRANTED = ''approval.granted''"
| "event_type_value EventType.APPROVAL_DENIED = ''approval.denied''"
| "event_type_value EventType.SECURITY_SCAN_STARTED = ''security.scan_started''"
| "event_type_value EventType.SECURITY_SCAN_COMPLETED = ''security.scan_completed''"
| "event_type_value EventType.SECURITY_FINDING_CREATED = ''security.finding_created''"
| "event_type_value EventType.SECURITY_POLICY_VIOLATION = ''security.policy_violation''"
| "event_type_value EventType.SECURITY_GATE_BLOCKED = ''security.gate_blocked''"
| "event_type_value EventType.DEPLOYMENT_STARTED = ''deployment.started''"
| "event_type_value EventType.DEPLOYMENT_STAGE_CHANGED = ''deployment.stage_changed''"
| "event_type_value EventType.DEPLOYMENT_COMPLETED = ''deployment.completed''"
| "event_type_value EventType.DEPLOYMENT_ROLLED_BACK = ''deployment.rolled_back''"
| "event_type_value EventType.FAILURE_CLASSIFIED = ''failure.classified''"
| "event_type_value EventType.IMPROVEMENT_PROPOSED = ''improvement.proposed''"
| "event_type_value EventType.POST_MORTEM_COMPLETED = ''post_mortem.completed''"

definition all_event_type :: "EventType list" where
  "all_event_type = [EventType.LEDGER_UPDATED, EventType.PROPOSAL_CREATED,
     EventType.PROPOSAL_ACCEPTED, EventType.PROPOSAL_REJECTED, EventType.TASK_CREATED,
     EventType.TASK_STARTED, EventType.TASK_COMPLETED, EventType.TASK_FAILED,
     EventType.TASK_RETRIED, EventType.AGENT_SPAWNED, EventType.AGENT_HEARTBEAT,
     EventType.AGENT_COMPLETED, EventType.AGENT_FAILED, EventType.SANDBOX_CREATED,
     EventType.SANDBOX_COMMAND, EventType.SANDBOX_DESTROYED, EventType.EVAL_STARTED,
     EventType.EVAL_LAYER_COMPLETED, EventType.EVAL_COMPLETED, EventType.BUDGET_WARNING,
     EventType.BUDGET_EXHAUSTED, EventType.SPEC_CREATED, EventType.SPEC_CLARIFICATION_NEEDED,
     EventType.SPEC_FINALIZED, EventType.ROUTING_DECISION, EventType.ROUTING_ESCALATION,
     EventType.MESSAGE_PUBLISHED, EventType.MESSAGE_DEAD_LETTERED, EventType.KNOWLEDGE_ACQUIRED,
     EventType.KNOWLEDGE_PATTERN_EXTRACTED, EventType.KNOWLEDGE_HEURISTIC_CREATED,
     EventType.KNOWLEDGE_COMPRESSION_COMPLETED, EventType.BUDGET_THRESHOLD_ALERT,
     EventType.BUDGET_TIER_DOWNGRADE, EventType.BUDGET_TASK_PAUSED, EventType.BUDGET_HALT,
     EventType.BUDGET_SPIN_DETECTED, EventType.EFFICIENCY_UPDATED, EventType.ESCALATION_CREATED,
     EventType.ESCALATION_RESOLVED, EventType.APPROVAL_REQUESTED, EventType.APPROVAL_GRANTED,
     EventType.APPROVAL_DENIED, EventType.SECURITY_SCAN_STARTED,
     EventType.SECURITY_SCAN_COMPLETED, EventType.SECURITY_FINDING_CREATED,
     EventType.SECURITY_POLICY_VIOLATION, EventType.SECURITY_GATE_BLOCKED,
     EventType.DEPLOYMENT_STARTED, EventType.DEPLOYMENT_STAGE_CHANGED,
     EventType.DEPLOYMENT_COMPLETED, EventType.DEPLOYMENT_ROLLED_BACK,
     EventType.FAILURE_CLASSIFIED, EventType.IMPROVEMENT_PROPOSED,
     EventType.POST_MORTEM_COMPLETED]"

definition event_type_of :: "string \<Rightarrow> EventType option" where
  "event_type_of = parse_enum event_type_value all_event_type"

lemma event_type_distinct: "distinct (map event_type_value all_event_type)"
  by code_simp

lemma event_type_complete: "x \<in> set all_event_type"
  by (cases x) (simp_all add: all_event_type_def)

interpretation event_type: str_enum event_type_value all_event_type
  by unfold_locales (rule event_type_distinct, rule event_type_complete)

datatype EvalLayer =
    COMPILATION | UNIT_TESTS | INTEGRATION_TESTS | ADVERSARIAL | SPEC_COMPLIANCE | ARCHITECTURE
  | REGRESSION

primrec eval_layer_value :: "EvalLayer \<Rightarrow> string" where
  "eval_layer_value EvalLayer.COMPILATION = ''compilation''"
| "eval_layer_value EvalLayer.UNIT_TESTS = ''unit_tests''"
| "eval_layer_value EvalLayer.INTEGRATION_TESTS = ''integration_tests''"
| "eval_layer_value EvalLayer.ADVERSARIAL = ''adversarial''"
| "eval_layer_value EvalLayer.SPEC_COMPLIANCE = ''spec_compliance''"
| "eval_layer_value EvalLayer.ARCHITECTURE = ''architecture''"
| "eval_layer_value EvalLayer.REGRESSION = ''regression''"

definition all_eval_layer :: "EvalLayer list" where
  "all_eval_layer = [EvalLayer.COMPILATION, EvalLayer.UNIT_TESTS, EvalLayer.INTEGRATION_TESTS,
     EvalLayer.ADVERSARIAL, EvalLayer.SPEC_COMPLIANCE, EvalLayer.ARCHITECTURE,
     EvalLayer.REGRESSION]"

definition eval_layer_of :: "string \<Rightarrow> EvalLayer option" where
  "eval_layer_of = parse_enum eval_layer_value all_eval_layer"

lemma eval_layer_distinct: "distinct (map eval_layer_value all_eval_layer)"
  by code_simp

lemma eval_layer_complete: "x \<in> set all_eval_layer"
  by (cases x) (simp_all add: all_eval_layer_def)

interpretation eval_layer: str_enum eval_layer_value all_eval_layer
  by unfold_locales (rule eval_layer_distinct, rule eval_layer_complete)

datatype EnforcementLevel =
    NONE | ALERT | RESTRICT | HALT

primrec enforcement_level_value :: "EnforcementLevel \<Rightarrow> string" where
  "enforcement_level_value EnforcementLevel.NONE = ''none''"
| "enforcement_level_value EnforcementLevel.ALERT = ''alert''"
| "enforcement_level_value EnforcementLevel.RESTRICT = ''restrict''"
| "enforcement_level_value EnforcementLevel.HALT = ''halt''"

definition all_enforcement_level :: "EnforcementLevel list" where
  "all_enforcement_level = [EnforcementLevel.NONE, EnforcementLevel.ALERT,
     EnforcementLevel.RESTRICT, EnforcementLevel.HALT]"

definition enforcement_level_of :: "string \<Rightarrow> EnforcementLevel option" where
  "enforcement_level_of = parse_enum enforcement_level_value all_enforcement_level"

lemma enforcement_level_distinct: "distinct (map enforcement_level_value all_enforcement_level)"
  by code_simp

lemma enforcement_level_complete: "x \<in> set all_enforcement_level"
  by (cases x) (simp_all add: all_enforcement_level_def)

interpretation enforcement_level: str_enum enforcement_level_value all_enforcement_level
  by unfold_locales (rule enforcement_level_distinct, rule enforcement_level_complete)

datatype BudgetPhase =
    SPECIFICATION | PLANNING | IMPLEMENTATION | TESTING | REVIEW | DEBUGGING | CONTINGENCY

primrec budget_phase_value :: "BudgetPhase \<Rightarrow> string" where
  "budget_phase_value BudgetPhase.SPECIFICATION = ''specification''"
| "budget_phase_value BudgetPhase.PLANNING = ''planning''"
| "budget_phase_value BudgetPhase.IMPLEMENTATION = ''implementation''"
| "budget_phase_value BudgetPhase.TESTING = ''testing''"
| "budget_phase_value BudgetPhase.REVIEW = ''review''"
| "budget_phase_value BudgetPhase.DEBUGGING = ''debugging''"
| "budget_phase_value BudgetPhase.CONTINGENCY = ''contingency''"

definition all_budget_phase :: "BudgetPhase list" where
  "all_budget_phase = [BudgetPhase.SPECIFICATION, BudgetPhase.PLANNING,
     BudgetPhase.IMPLEMENTATION, BudgetPhase.TESTING, BudgetPhase.REVIEW, BudgetPhase.DEBUGGING,
     BudgetPhase.CONTINGENCY]"

definition budget_phase_of :: "string \<Rightarrow> BudgetPhase option" where
  "budget_phase_of = parse_enum budget_phase_value all_budget_phase"

lemma budget_phase_distinct: "distinct (map budget_phase_value all_budget_phase)"
  by code_simp

lemma budget_phase_complete: "x \<in> set all_budget_phase"
  by (cases x) (simp_all add: all_budget_phase_def)

interpretation budget_phase: str_enum budget_phase_value all_budget_phase
  by unfold_locales (rule budget_phase_distinct, rule budget_phase_complete)

datatype MemoryLayer =
    L0_WORKING | L1_PROJECT | L2_PATTERN | L3_HEURISTIC | L4_META

primrec memory_layer_value :: "MemoryLayer \<Rightarrow> string" where
  "memory_layer_value MemoryLayer.L0_WORKING = ''l0_working''"
| "memory_layer_value MemoryLayer.L1_PROJECT = ''l1_project''"
| "memory_layer_value MemoryLayer.L2_PATTERN = ''l2_pattern''"
| "memory_layer_value MemoryLayer.L3_HEURISTIC = ''l3_heuristic''"
| "memory_layer_value MemoryLayer.L4_META = ''l4_meta''"

definition all_memory_layer :: "MemoryLayer list" where
  "all_memory_layer = [MemoryLayer.L0_WORKING, MemoryLayer.L1_PROJECT, MemoryLayer.L2_PATTERN,
     MemoryLayer.L3_HEURISTIC, MemoryLayer.L4_META]"

definition memory_layer_of :: "string \<Rightarrow> MemoryLayer option" where
  "memory_layer_of = parse_enum memory_layer_value all_memory_layer"

lemma memory_layer_distinct: "distinct (map memory_layer_value all_memory_layer)"
  by code_simp

lemma memory_layer_complete: "x \<in> set all_memory_layer"
  by (cases x) (simp_all add: all_memory_layer_def)

interpretation memory_layer: str_enum memory_layer_value all_memory_layer
  by unfold_locales (rule memory_layer_distinct, rule memory_layer_complete)

datatype ContentType =
    DOCUMENTATION | EXAMPLE | PATTERN | HEURISTIC | STRATEGY

primrec content_type_value :: "ContentType \<Rightarrow> string" where
  "content_type_value ContentType.DOCUMENTATION = ''documentation''"
| "content_type_value ContentType.EXAMPLE = ''example''"
| "content_type_value ContentType.PATTERN = ''pattern''"
| "content_type_value ContentType.HEURISTIC = ''heuristic''"
| "content_type_value ContentType.STRATEGY = ''strategy''"

definition all_content_type :: "ContentType list" where
  "all_content_type = [ContentType.DOCUMENTATION, ContentType.EXAMPLE, ContentType.PATTERN,
     ContentType.HEURISTIC, ContentType.STRATEGY]"

definition content_type_of :: "string \<Rightarrow> ContentType option" where
  "content_type_of = parse_enum content_type_value all_content_type"

lemma content_type_distinct: "distinct (map content_type_value all_content_type)"
  by code_simp

lemma content_type_complete: "x \<in> set all_content_type"
  by (cases x) (simp_all add: all_content_type_def)

interpretation content_type: str_enum content_type_value all_content_type
  by unfold_locales (rule content_type_distinct, rule content_type_complete)

datatype ObservationType =
    SUCCESS | FAILURE | PERFORMANCE | WORKAROUND

primrec observation_type_value :: "ObservationType \<Rightarrow> string" where
  "observation_type_value ObservationType.SUCCESS = ''success''"
| "observation_type_value ObservationType.FAILURE = ''failure''"
| "observation_type_value ObservationType.PERFORMANCE = ''performance''"
| "observation_type_value ObservationType.WORKAROUND = ''workaround''"

definition all_observation_type :: "ObservationType list" where
  "all_observation_type = [ObservationType.SUCCESS, ObservationType.FAILURE,
     ObservationType.PERFORMANCE, ObservationType.WORKAROUND]"

definition observation_type_of :: "string \<Rightarrow> ObservationType option" where
  "observation_type_of = parse_enum observation_type_value all_observation_type"

lemma observation_type_distinct: "distinct (map observation_type_value all_observation_type)"
  by code_simp

lemma observation_type_complete: "x \<in> set all_observation_type"
  by (cases x) (simp_all add: all_observation_type_def)

interpretation observation_type: str_enum observation_type_value all_observation_type
  by unfold_locales (rule observation_type_distinct, rule observation_type_complete)

datatype EscalationCategory =
    CONFIDENCE | SECURITY | BUDGET | ARCHITECTURAL

primrec escalation_category_value :: "EscalationCategory \<Rightarrow> string" where
  "escalation_category_value EscalationCategory.CONFIDENCE = ''confidence''"
| "escalation_category_value EscalationCategory.SECURITY = ''security''"
| "escalation_category_value EscalationCategory.BUDGET = ''budget''"
| "escalation_category_value EscalationCategory.ARCHITECTURAL = ''architectural''"

definition all_escalation_category :: "EscalationCategory list" where
  "all_escalation_category = [EscalationCategory.CONFIDENCE, EscalationCategory.SECURITY,
     EscalationCategory.BUDGET, EscalationCategory.ARCHITECTURAL]"

definition escalation_category_of :: "string \<Rightarrow> EscalationCategory option" where
  "escalation_category_of = parse_enum escalation_category_value all_escalation_category"

lemma escalation_category_distinct: "distinct (map escalation_category_value all_escalation_category)"
  by code_simp

lemma escalation_category_complete: "x \<in> set all_escalation_category"
  by (cases x) (simp_all add: all_escalation_category_def)

interpretation escalation_category: str_enum escalation_category_value all_escalation_category
  by unfold_locales (rule escalation_category_distinct, rule escalation_category_complete)

datatype EscalationSeverity =
    LOW | MEDIUM | HIGH | CRITICAL

primrec escalation_severity_value :: "EscalationSeverity \<Rightarrow> string" where
  "escalation_severity_value EscalationSeverity.LOW = ''low''"
| "escalation_severity_value EscalationSeverity.MEDIUM = ''medium''"
| "escalation_severity_value EscalationSeverity.HIGH = ''high''"
| "escalation_severity_value EscalationSeverity.CRITICAL = ''critical''"

definition all_escalation_severity :: "EscalationSeverity list" where
  "all_escalation_severity = [EscalationSeverity.LOW, EscalationSeverity.MEDIUM,
     EscalationSeverity.HIGH, EscalationSeverity.CRITICAL]"

definition escalation_severity_of :: "string \<Rightarrow> EscalationSeverity option" where
  "escalation_severity_of = parse_enum escalation_severity_value all_escalation_severity"

lemma escalation_severity_distinct: "distinct (map escalation_severity_value all_escalation_severity)"
  by code_simp

lemma escalation_severity_complete: "x \<in> set all_escalation_severity"
  by (cases x) (simp_all add: all_escalation_severity_def)

interpretation escalation_severity: str_enum escalation_severity_value all_escalation_severity
  by unfold_locales (rule escalation_severity_distinct, rule escalation_severity_complete)

datatype EscalationStatus =
    PENDING | RESOLVED | EXPIRED | AUTO_RESOLVED

primrec escalation_status_value :: "EscalationStatus \<Rightarrow> string" where
  "escalation_status_value EscalationStatus.PENDING = ''pending''"
| "escalation_status_value EscalationStatus.RESOLVED = ''resolved''"
| "escalation_status_value EscalationStatus.EXPIRED = ''expired''"
| "escalation_status_value EscalationStatus.AUTO_RESOLVED = ''auto_resolved''"

definition all_escalation_status :: "EscalationStatus list" where
  "all_escalation_status = [EscalationStatus.PENDING, EscalationStatus.RESOLVED,
     EscalationStatus.EXPIRED, EscalationStatus.AUTO_RESOLVED]"

definition escalation_status_of :: "string \<Rightarrow> EscalationStatus option" where
  "escalation_status_of = parse_enum escalation_status_value all_escalation_status"

lemma escalation_status_distinct: "distinct (map escalation_status_value all_escalation_status)"
  by code_simp

lemma escalation_status_complete: "x \<in> set all_escalation_status"
  by (cases x) (simp_all add: all_escalation_status_def)

interpretation escalation_status: str_enum escalation_status_value all_escalation_status
  by unfold_locales (rule escalation_status_distinct, rule escalation_status_complete)

datatype ApprovalGateStatus =
    PENDING | APPROVED | DENIED | EXPIRED

primrec approval_gate_status_value :: "ApprovalGateStatus \<Rightarrow> string" where
  "approval_gate_status_value ApprovalGateStatus.PENDING = ''pending''"
| "approval_gate_status_value ApprovalGateStatus.APPROVED = ''approved''"
| "approval_gate_status_value ApprovalGateStatus.DENIED = ''denied''"
| "approval_gate_status_value ApprovalGateStatus.EXPIRED = ''expired''"

definition all_approval_gate_status :: "ApprovalGateStatus list" where
  "all_approval_gate_status = [ApprovalGateStatus.PENDING, ApprovalGateStatus.APPROVED,
     ApprovalGateStatus.DENIED, ApprovalGateStatus.EXPIRED]"

definition approval_gate_status_of :: "string \<Rightarrow> ApprovalGateStatus option" where
  "approval_gate_status_of = parse_enum approval_gate_status_value all_approval_gate_status"

lemma approval_gate_status_distinct: "distinct (map approval_gate_status_value all_approval_gate_status)"
  by code_simp

lemma approval_gate_status_complete: "x \<in> set all_approval_gate_status"
  by (cases x) (simp_all add: all_approval_gate_status_def)

interpretation approval_gate_status: str_enum approval_gate_status_value all_approval_gate_status
  by unfold_locales (rule approval_gate_status_distinct, rule approval_gate_status_complete)

datatype ScanType =
    DEPENDENCY_AUDIT | CODE_SCAN | PROMPT_INJECTION | RUNTIME_ANOMALY | POLICY_CHECK

primrec scan_type_value :: "ScanType \<Rightarrow> string" where
  "scan_type_value ScanType.DEPENDENCY_AUDIT = ''dependency_audit''"
| "scan_type_value ScanType.CODE_SCAN = ''code_scan''"
| "scan_type_value ScanType.PROMPT_INJECTION = ''prompt_injection''"
| "scan_type_value ScanType.RUNTIME_ANOMALY = ''runtime_anomaly''"
| "scan_type_value ScanType.POLICY_CHECK = ''policy_check''"

definition all_scan_type :: "ScanType list" where
  "all_scan_type = [ScanType.DEPENDENCY_AUDIT, ScanType.CODE_SCAN, ScanType.PROMPT_INJECTION,
     ScanType.RUNTIME_ANOMALY, ScanType.POLICY_CHECK]"

definition scan_type_of :: "string \<Rightarrow> ScanType option" where
  "scan_type_of = parse_enum scan_type_value all_scan_type"

lemma scan_type_distinct: "distinct (map scan_type_value all_scan_type)"
  by code_simp

lemma scan_type_complete: "x \<in> set all_scan_type"
  by (cases x) (simp_all add: all_scan_type_def)

interpretation scan_type: str_enum scan_type_value all_scan_type
  by unfold_locales (rule scan_type_distinct, rule scan_type_complete)

datatype FindingSeverity =
    INFO | LOW | MEDIUM | HIGH | CRITICAL

primrec finding_severity_value :: "FindingSeverity \<Rightarrow> string" where
  "finding_severity_value FindingSeverity.INFO = ''info''"
| "finding_severity_value FindingSeverity.LOW = ''low''"
| "finding_severity_value FindingSeverity.MEDIUM = ''medium''"
| "finding_severity_value FindingSeverity.HIGH = ''high''"
| "finding_severity_value FindingSeverity.CRITICAL = ''critical''"

definition all_finding_severity :: "FindingSeverity list" where
  "all_finding_severity = [FindingSeverity.INFO, FindingSeverity.LOW, FindingSeverity.MEDIUM,
     FindingSeverity.HIGH, FindingSeverity.CRITICAL]"

definition finding_severity_of :: "string \<Rightarrow> FindingSeverity option" where
  "finding_severity_of = parse_enum finding_severity_value all_finding_severity"

lemma finding_severity_distinct: "distinct (map finding_severity_value all_finding_severity)"
  by code_simp

lemma finding_severity_complete: "x \<in> set all_finding_severity"
  by (cases x) (simp_all add: all_finding_severity_def)

interpretation finding_severity: str_enum finding_severity_value all_finding_severity
  by unfold_locales (rule finding_severity_distinct, rule finding_severity_complete)

datatype FindingStatus =
    OPEN | ACKNOWLEDGED | MITIGATED | FALSE_POSITIVE

primrec finding_status_value :: "FindingStatus \<Rightarrow> string" where
  "finding_status_value FindingStatus.OPEN = ''open''"
| "finding_status_value FindingStatus.ACKNOWLEDGED = ''acknowledged''"
| "finding_status_value FindingStatus.MITIGATED = ''mitigated''"
| "finding_status_value FindingStatus.FALSE_POSITIVE = ''false_positive''"

definition all_finding_status :: "FindingStatus list" where
  "all_finding_status = [FindingStatus.OPEN, FindingStatus.ACKNOWLEDGED, FindingStatus.MITIGATED,
     FindingStatus.FALSE_POSITIVE]"

definition finding_status_of :: "string \<Rightarrow> FindingStatus option" where
  "finding_status_of = parse_enum finding_status_value all_finding_status"

lemma finding_status_distinct: "distinct (map finding_status_value all_finding_status)"
  by code_simp

lemma finding_status_complete: "x \<in> set all_finding_status"
  by (cases x) (simp_all add: all_finding_status_def)

interpretation finding_status: str_enum finding_status_value all_finding_status
  by unfold_locales (rule finding_status_distinct, rule finding_status_complete)

datatype ScanVerdict =
    PASS | WARN | FAIL

primrec scan_verdict_value :: "ScanVerdict \<Rightarrow> string" where
  "scan_verdict_value ScanVerdict.PASS = ''pass''"
| "scan_verdict_value ScanVerdict.WARN = ''warn''"
| "scan_verdict_value ScanVerdict.FAIL = ''fail''"

definition all_scan_verdict :: "ScanVerdict list" where
  "all_scan_verdict = [ScanVerdict.PASS, ScanVerdict.WARN, ScanVerdict.FAIL]"

definition scan_verdict_of :: "string \<Rightarrow> ScanVerdict option" where
  "scan_verdict_of = parse_enum scan_verdict_value all_scan_verdict"

lemma scan_verdict_distinct: "distinct (map scan_verdict_value all_scan_verdict)"
  by code_simp

lemma scan_verdict_complete: "x \<in> set all_scan_verdict"
  by (cases x) (simp_all add: all_scan_verdict_def)

interpretation scan_verdict: str_enum scan_verdict_value all_scan_verdict
  by unfold_locales (rule scan_verdict_distinct, rule scan_verdict_complete)

datatype PolicyAction =
    BLOCK | WARN | LOG

primrec policy_action_value :: "PolicyAction \<Rightarrow> string" where
  "policy_action_value PolicyAction.BLOCK = ''block''"
| "policy_action_value PolicyAction.WARN = ''warn''"
| "policy_action_value PolicyAction.LOG = ''log''"

definition all_policy_action :: "PolicyAction list" where
  "all_policy_action = [PolicyAction.BLOCK, PolicyAction.WARN, PolicyAction.LOG]"

definition policy_action_of :: "string \<Rightarrow> PolicyAction option" where
  "policy_action_of = parse_enum policy_action_value all_policy_action"

lemma policy_action_distinct: "distinct (map policy_action_value all_policy_action)"
  by code_simp

lemma policy_action_complete: "x \<in> set all_policy_action"
  by (cases x) (simp_all add: all_policy_action_def)

interpretation policy_action: str_enum policy_action_value all_policy_action
  by unfold_locales (rule policy_action_distinct, rule policy_action_complete)

datatype DeploymentStatus =
    PENDING | STAGING | SMOKE_TESTING | AWAITING_APPROVAL | CANARY | ROLLING_OUT | VERIFYING
  | COMPLETED | ROLLED_BACK | FAILED

primrec deployment_status_value :: "DeploymentStatus \<Rightarrow> string" where
  "deployment_status_value DeploymentStatus.PENDING = ''pending''"
| "deployment_status_value DeploymentStatus.STAGING = ''staging''"
| "deployment_status_value DeploymentStatus.SMOKE_TESTING = ''smoke_testing''"
| "deployment_status_value DeploymentStatus.AWAITING_APPROVAL = ''awaiting_approval''"
| "deployment_status_value DeploymentStatus.CANARY = ''canary''"
| "deployment_status_value DeploymentStatus.ROLLING_OUT = ''rolling_out''"
| "deployment_status_value DeploymentStatus.VERIFYING = ''verifying''"
| "deployment_status_value DeploymentStatus.COMPLETED = ''completed''"
| "deployment_status_value DeploymentStatus.ROLLED_BACK = ''rolled_back''"
| "deployment_status_value DeploymentStatus.FAILED = ''failed''"

definition all_deployment_status :: "DeploymentStatus list" where
  "all_deployment_status = [DeploymentStatus.PENDING, DeploymentStatus.STAGING,
     DeploymentStatus.SMOKE_TESTING, DeploymentStatus.AWAITING_APPROVAL, DeploymentStatus.CANARY,
     DeploymentStatus.ROLLING_OUT, DeploymentStatus.VERIFYING, DeploymentStatus.COMPLETED,
     DeploymentStatus.ROLLED_BACK, DeploymentStatus.FAILED]"

definition deployment_status_of :: "string \<Rightarrow> DeploymentStatus option" where
  "deployment_status_of = parse_enum deployment_status_value all_deployment_status"

lemma deployment_status_distinct: "distinct (map deployment_status_value all_deployment_status)"
  by code_simp

lemma deployment_status_complete: "x \<in> set all_deployment_status"
  by (cases x) (simp_all add: all_deployment_status_def)

interpretation deployment_status: str_enum deployment_status_value all_deployment_status
  by unfold_locales (rule deployment_status_distinct, rule deployment_status_complete)

datatype DeploymentStage =
    STAGING | CANARY_5 | ROLLOUT_25 | ROLLOUT_50 | ROLLOUT_100

primrec deployment_stage_value :: "DeploymentStage \<Rightarrow> string" where
  "deployment_stage_value DeploymentStage.STAGING = ''staging''"
| "deployment_stage_value DeploymentStage.CANARY_5 = ''canary_5''"
| "deployment_stage_value DeploymentStage.ROLLOUT_25 = ''rollout_25''"
| "deployment_stage_value DeploymentStage.ROLLOUT_50 = ''rollout_50''"
| "deployment_stage_value DeploymentStage.ROLLOUT_100 = ''rollout_100''"

definition all_deployment_stage :: "DeploymentStage list" where
  "all_deployment_stage = [DeploymentStage.STAGING, DeploymentStage.CANARY_5,
     DeploymentStage.ROLLOUT_25, DeploymentStage.ROLLOUT_50, DeploymentStage.ROLLOUT_100]"

definition deployment_stage_of :: "string \<Rightarrow> DeploymentStage option" where
  "deployment_stage_of = parse_enum deployment_stage_value all_deployment_stage"

lemma deployment_stage_distinct: "distinct (map deployment_stage_value all_deployment_stage)"
  by code_simp

lemma deployment_stage_complete: "x \<in> set all_deployment_stage"
  by (cases x) (simp_all add: all_deployment_stage_def)

interpretation deployment_stage: str_enum deployment_stage_value all_deployment_stage
  by unfold_locales (rule deployment_stage_distinct, rule deployment_stage_complete)

datatype RollbackReason =
    ERROR_RATE_EXCEEDED | LATENCY_EXCEEDED | SMOKE_TEST_FAILED | VERIFICATION_FAILED | MANUAL
  | APPROVAL_DENIED

primrec rollback_reason_value :: "RollbackReason \<Rightarrow> string" where
  "rollback_reason_value RollbackReason.ERROR_RATE_EXCEEDED = ''error_rate_exceeded''"
| "rollback_reason_value RollbackReason.LATENCY_EXCEEDED = ''latency_exceeded''"
| "rollback_reason_value RollbackReason.SMOKE_TEST_FAILED = ''smoke_test_failed''"
| "rollback_reason_value RollbackReason.VERIFICATION_FAILED = ''verification_failed''"
| "rollback_reason_value RollbackReason.MANUAL = ''manual''"
| "rollback_reason_value RollbackReason.APPROVAL_DENIED = ''approval_denied''"

definition all_rollback_reason :: "RollbackReason list" where
  "all_rollback_reason = [RollbackReason.ERROR_RATE_EXCEEDED, RollbackReason.LATENCY_EXCEEDED,
     RollbackReason.SMOKE_TEST_FAILED, RollbackReason.VERIFICATION_FAILED, RollbackReason.MANUAL,
     RollbackReason.APPROVAL_DENIED]"

definition rollback_reason_of :: "string \<Rightarrow> RollbackReason option" where
  "rollback_reason_of = parse_enum rollback_reason_value all_rollback_reason"

lemma rollback_reason_distinct: "distinct (map rollback_reason_value all_rollback_reason)"
  by code_simp

lemma rollback_reason_complete: "x \<in> set all_rollback_reason"
  by (cases x) (simp_all add: all_rollback_reason_def)

interpretation rollback_reason: str_enum rollback_reason_value all_rollback_reason
  by unfold_locales (rule rollback_reason_distinct, rule rollback_reason_complete)

datatype FailureCode =
    F1_SPEC_AMBIGUITY | F2_ARCHITECTURE_ERROR | F3_HALLUCINATION | F4_TOOL_FAILURE
  | F5_DEPENDENCY_ISSUE | F6_LOGIC_BUG | F7_UX_REJECTION | F8_PERF_REGRESSION
  | F9_SECURITY_VULN

primrec failure_code_value :: "FailureCode \<Rightarrow> string" where
  "failure_code_value FailureCode.F1_SPEC_AMBIGUITY = ''f1_spec_ambiguity''"
| "failure_code_value FailureCode.F2_ARCHITECTURE_ERROR = ''f2_architecture_error''"
| "failure_code_value FailureCode.F3_HALLUCINATION = ''f3_hallucination''"
| "failure_code_value FailureCode.F4_TOOL_FAILURE = ''f4_tool_failure''"
| "failure_code_value FailureCode.F5_DEPENDENCY_ISSUE = ''f5_dependency_issue''"
| "failure_code_value FailureCode.F6_LOGIC_BUG = ''f6_logic_bug''"
| "failure_code_value FailureCode.F7_UX_REJECTION = ''f7_ux_rejection''"
| "failure_code_value FailureCode.F8_PERF_REGRESSION = ''f8_perf_regression''"
| "failure_code_value FailureCode.F9_SECURITY_VULN = ''f9_security_vuln''"

definition all_failure_code :: "FailureCode list" where
  "all_failure_code = [FailureCode.F1_SPEC_AMBIGUITY, FailureCode.F2_ARCHITECTURE_ERROR,
     FailureCode.F3_HALLUCINATION, FailureCode.F4_TOOL_FAILURE, FailureCode.F5_DEPENDENCY_ISSUE,
     FailureCode.F6_LOGIC_BUG, FailureCode.F7_UX_REJECTION, FailureCode.F8_PERF_REGRESSION,
     FailureCode.F9_SECURITY_VULN]"

definition failure_code_of :: "string \<Rightarrow> FailureCode option" where
  "failure_code_of = parse_enum failure_code_value all_failure_code"

lemma failure_code_distinct: "distinct (map failure_code_value all_failure_code)"
  by code_simp

lemma failure_code_complete: "x \<in> set all_failure_code"
  by (cases x) (simp_all add: all_failure_code_def)

interpretation failure_code: str_enum failure_code_value all_failure_code
  by unfold_locales (rule failure_code_distinct, rule failure_code_complete)

datatype ImprovementType =
    PROMPT_IMPROVEMENT | ADVERSARIAL_TEST | HEURISTIC_UPDATE | TOPOLOGY_RECOMMENDATION

primrec improvement_type_value :: "ImprovementType \<Rightarrow> string" where
  "improvement_type_value ImprovementType.PROMPT_IMPROVEMENT = ''prompt_improvement''"
| "improvement_type_value ImprovementType.ADVERSARIAL_TEST = ''adversarial_test''"
| "improvement_type_value ImprovementType.HEURISTIC_UPDATE = ''heuristic_update''"
| "improvement_type_value ImprovementType.TOPOLOGY_RECOMMENDATION = ''topology_recommendation''"

definition all_improvement_type :: "ImprovementType list" where
  "all_improvement_type = [ImprovementType.PROMPT_IMPROVEMENT, ImprovementType.ADVERSARIAL_TEST,
     ImprovementType.HEURISTIC_UPDATE, ImprovementType.TOPOLOGY_RECOMMENDATION]"

definition improvement_type_of :: "string \<Rightarrow> ImprovementType option" where
  "improvement_type_of = parse_enum improvement_type_value all_improvement_type"

lemma improvement_type_distinct: "distinct (map improvement_type_value all_improvement_type)"
  by code_simp

lemma improvement_type_complete: "x \<in> set all_improvement_type"
  by (cases x) (simp_all add: all_improvement_type_def)

interpretation improvement_type: str_enum improvement_type_value all_improvement_type
  by unfold_locales (rule improvement_type_distinct, rule improvement_type_complete)

datatype PostMortemStatus =
    PENDING | ANALYZING | COMPLETED

primrec post_mortem_status_value :: "PostMortemStatus \<Rightarrow> string" where
  "post_mortem_status_value PostMortemStatus.PENDING = ''pending''"
| "post_mortem_status_value PostMortemStatus.ANALYZING = ''analyzing''"
| "post_mortem_status_value PostMortemStatus.COMPLETED = ''completed''"

definition all_post_mortem_status :: "PostMortemStatus list" where
  "all_post_mortem_status = [PostMortemStatus.PENDING, PostMortemStatus.ANALYZING,
     PostMortemStatus.COMPLETED]"

definition post_mortem_status_of :: "string \<Rightarrow> PostMortemStatus option" where
  "post_mortem_status_of = parse_enum post_mortem_status_value all_post_mortem_status"

lemma post_mortem_status_distinct: "distinct (map post_mortem_status_value all_post_mortem_status)"
  by code_simp

lemma post_mortem_status_complete: "x \<in> set all_post_mortem_status"
  by (cases x) (simp_all add: all_post_mortem_status_def)

interpretation post_mortem_status: str_enum post_mortem_status_value all_post_mortem_status
  by unfold_locales (rule post_mortem_status_distinct, rule post_mortem_status_complete)

text \<open>
  The exceptions of the modelled code: the classes of
  \<^verbatim>\<open>libs/architect-common/src/architect_common/errors.py\<close>, in the order of that
  file, and the built-in and library exceptions that escape from the code. A constructor
  carries the details the code passes as data (ids, statuses, versions), or the message.
\<close>

datatype exn =
    \<comment> \<open>Python and pydantic\<close>
    ValueError string
  | KeyError string
  | IndexError string
  | RuntimeError string
  | AttributeError string
  | ValidationError string
  | ZeroDivisionError
    \<comment> \<open>an exception out of a service the code calls (database, Redis, HTTP)\<close>
  | ExternalError string
  | ArchitectError string
    \<comment> \<open>World State\<close>
  | LedgerError string
  | ProposalRejectedError string
  | OptimisticConcurrencyError int int
  | LedgerVersionNotFoundError string
    \<comment> \<open>Task Graph\<close>
  | TaskGraphError string
  | TaskNotFoundError string
  | CircularDependencyError "string list"
  | InvalidTransitionError string StatusEnum StatusEnum
    \<comment> \<open>Sandbox\<close>
  | SandboxError string
  | SandboxTimeoutError string
  | SandboxResourceError string
  | SandboxSecurityError string
    \<comment> \<open>Evaluation\<close>
  | EvaluationError string
  | CompilationError string
  | TestExecutionError string
    \<comment> \<open>Agent\<close>
  | AgentError string
  | AgentBudgetExhaustedError string
  | AgentContextOverflowError string
  | GitCommitError string
    \<comment> \<open>LLM\<close>
  | LLMError string
  | LLMRateLimitError string
  | LLMResponseError string
    \<comment> \<open>Budget\<close>
  | BudgetError string
  | BudgetExhaustedError string
  | BudgetExceededError string
  | BudgetWarningError string
    \<comment> \<open>Specification Engine\<close>
  | SpecError string
  | SpecAmbiguousError string
  | SpecValidationError string
    \<comment> \<open>Communication Bus\<close>
  | CommBusError string
  | MessageDeliveryError string
  | MessageTimeoutError string
    \<comment> \<open>Routing\<close>
  | RoutingError string
  | NoAvailableTierError string
    \<comment> \<open>Knowledge and Memory\<close>
  | KnowledgeMemoryError string
  | KnowledgeNotFoundError string
  | PatternExtractionError string
  | CompressionError string
    \<comment> \<open>Human Interface\<close>
  | EscalationError string
  | EscalationNotFoundError string
  | ApprovalGateError string

end
