(* ===== verification/Task_Graph.thy ===== *)
theory Task_Graph
  imports Enums
begin

text \<open>
  The domain models of the Task Graph Engine
  (\<^verbatim>\<open>services/task-graph-engine/src/task_graph_engine/models.py\<close>). A pydantic class is a
  record; its field constraints (\<open>ge\<close>, \<open>le\<close>) are checked by the \<open>mk_*\<close>
  constructors, as pydantic does when the class is called, and \<open>model_copy(update=...)\<close>,
  which does not validate, is a record update. Times are integers (microseconds).
\<close>

type_synonym task_id = string
type_synonym agent_id = string
type_synonym time = int

record task_budget =
  max_tokens :: int
  max_time :: time
  max_retries :: int
  max_output_size_bytes :: int

definition default_budget :: task_budget where
  "default_budget =
     \<lparr>max_tokens = 100000, max_time = 30 * 60 * 1000000, max_retries = 3,
      max_output_size_bytes = 1000000\<rparr>"

definition budget_ok :: "task_budget \<Rightarrow> bool" where
  "budget_ok b \<longleftrightarrow> 0 \<le> max_tokens b \<and> 0 \<le> max_retries b \<and> max_retries b \<le> 10 \<and>
     0 \<le> max_output_size_bytes b"

definition mk_budget :: "task_budget \<Rightarrow> exn + task_budget" where
  "mk_budget b = (if budget_ok b then Inr b else Inl (ValidationError ''TaskBudget''))"

record task_input =
  in_key :: string
  in_artifact_uri :: string
  in_content_hash :: string

record task_output =
  out_key :: string
  out_artifact_uri :: string
  out_content_hash :: string
  size_bytes :: int

record task_retry_record =
  rr_attempt :: int
  rr_started_at :: time
  rr_ended_at :: "time option"
  rr_verdict :: "EvalVerdict option"
  failure_reason :: "string option"
  rr_tokens_consumed :: int

definition mk_retry_record :: "task_retry_record \<Rightarrow> exn + task_retry_record" where
  "mk_retry_record r =
     (if 1 \<le> rr_attempt r \<and> 0 \<le> rr_tokens_consumed r then Inr r
      else Inl (ValidationError ''TaskRetryRecord''))"

record task_timestamps =
  created_at :: time
  started_at :: "time option"
  completed_at :: "time option"

record task =
  t_id :: task_id
  t_type :: TaskType
  agent_type :: AgentType
  model_tier :: ModelTier
  dependencies :: "task_id list"
  dependents :: "task_id list"
  inputs :: "task_input list"
  outputs :: "task_output list"
  budget :: task_budget
  status :: StatusEnum
  assigned_agent :: "agent_id option"
  priority :: int
  timestamps :: task_timestamps
  current_attempt :: int
  retry_history :: "task_retry_record list"
  verdict :: "EvalVerdict option"
  error_message :: "string option"
  description :: string

text \<open>The task with every field left to its default, given the id and the clock.\<close>

definition default_task :: "task_id \<Rightarrow> time \<Rightarrow> task" where
  "default_task tid now =
     \<lparr>t_id = tid, t_type = TaskType.IMPLEMENT_FEATURE, agent_type = AgentType.CODER,
      model_tier = ModelTier.TIER_2, dependencies = [], dependents = [], inputs = [], outputs = [],
      budget = default_budget, status = StatusEnum.PENDING, assigned_agent = None, priority = 0,
      timestamps = \<lparr>created_at = now, started_at = None, completed_at = None\<rparr>,
      current_attempt = 0, retry_history = [], verdict = None, error_message = None,
      description = []\<rparr>"

definition mk_task :: "task \<Rightarrow> exn + task" where
  "mk_task t =
     (if 0 \<le> priority t \<and> 0 \<le> current_attempt t then Inr t
      else Inl (ValidationError ''Task''))"

record task_graph =
  tg_tasks :: "task list"
  execution_order :: "task_id list"
  tg_created_at :: time

lemma mk_budget_Inr [simp]: "mk_budget b = Inr b' \<longleftrightarrow> budget_ok b \<and> b' = b"
  by (auto simp: mk_budget_def)

lemma mk_retry_record_Inr [simp]:
  "mk_retry_record r = Inr r' \<longleftrightarrow> 1 \<le> rr_attempt r \<and> 0 \<le> rr_tokens_consumed r \<and> r' = r"
  by (auto simp: mk_retry_record_def)

lemma mk_task_Inr [simp]:
  "mk_task t = Inr t' \<longleftrightarrow> 0 \<le> priority t \<and> 0 \<le> current_attempt t \<and> t' = t"
  by (auto simp: mk_task_def)

lemma default_budget_ok [simp]: "budget_ok default_budget"
  by (simp add: budget_ok_def default_budget_def)

text \<open>
  The dependency graph of the Task Graph Engine
  (\<^verbatim>\<open>services/task-graph-engine/src/task_graph_engine/graph.py\<close>).

  \<^verbatim>\<open>TaskDAG\<close> keeps a \<^verbatim>\<open>networkx.DiGraph\<close> whose nodes carry a task. The
  record \<open>dag\<close> is that graph as data: the nodes in insertion order with their task, the
  edges in insertion order. The graph algorithms of networkx (topological sort, cycle
  search, acyclicity test) are a parameter, the record \<open>networkx\<close>; \<open>nx_contract\<close> is what
  networkx documents about them.
\<close>

record dag =
  nodes :: "(task_id \<times> task) list"
  edges :: "(task_id \<times> task_id) list"

definition empty_dag :: dag where
  "empty_dag = \<lparr>nodes = [], edges = []\<rparr>"

abbreviation task_ids :: "dag \<Rightarrow> task_id list" where
  "task_ids d \<equiv> keys (nodes d)"

definition node_set :: "dag \<Rightarrow> task_id set" where
  "node_set d = set (task_ids d)"

abbreviation has_node :: "dag \<Rightarrow> task_id \<Rightarrow> bool" where
  "has_node d t \<equiv> t \<in> node_set d"

definition add_node :: "task \<Rightarrow> dag \<Rightarrow> dag" where
  "add_node t d = d\<lparr>nodes := AList.update (t_id t) t (nodes d)\<rparr>"

definition add_edge :: "task_id \<Rightarrow> task_id \<Rightarrow> dag \<Rightarrow> dag" where
  "add_edge u v d = (if (u, v) \<in> set (edges d) then d else d\<lparr>edges := edges d @ [(u, v)]\<rparr>)"

definition predecessors :: "dag \<Rightarrow> task_id \<Rightarrow> task_id list" where
  "predecessors d t = map fst (filter (\<lambda>(u, v). v = t) (edges d))"

definition successors :: "dag \<Rightarrow> task_id \<Rightarrow> task_id list" where
  "successors d t = map snd (filter (\<lambda>(u, v). u = t) (edges d))"

section \<open>Mutation\<close>

definition add_task :: "dag \<Rightarrow> task \<Rightarrow> exn + dag" where
  "add_task d t =
     (if has_node d (t_id t)
      then Inl (ValueError (''Task '' @ t_id t @ '' already exists in the graph''))
      else Inr (add_node t d))"

definition add_dependency :: "dag \<Rightarrow> task_id \<Rightarrow> task_id \<Rightarrow> exn + dag" where
  "add_dependency d from_task to_task =
     (if \<not> has_node d from_task then Inl (TaskNotFoundError from_task)
      else if \<not> has_node d to_task then Inl (TaskNotFoundError to_task)
      else Inr (add_edge from_task to_task d))"

definition replace_node :: "task_id \<Rightarrow> task \<Rightarrow> dag \<Rightarrow> dag" where
  "replace_node tid updated d = d\<lparr>nodes := AList.update tid updated (nodes d)\<rparr>"

definition update_task :: "dag \<Rightarrow> task_id \<Rightarrow> task \<Rightarrow> exn + dag" where
  "update_task d tid updated =
     (if \<not> has_node d tid then Inl (TaskNotFoundError tid)
      else Inr (replace_node tid updated d))"

section \<open>Queries\<close>

definition get_task :: "dag \<Rightarrow> task_id \<Rightarrow> exn + task" where
  "get_task d tid = (case map_of (nodes d) tid of
      None \<Rightarrow> Inl (TaskNotFoundError tid) | Some t \<Rightarrow> Inr t)"

definition task_priority :: "dag \<Rightarrow> task_id \<Rightarrow> int" where
  "task_priority d tid = (case map_of (nodes d) tid of None \<Rightarrow> 0 | Some t \<Rightarrow> priority t)"

definition is_ready :: "dag \<Rightarrow> task_id set \<Rightarrow> task_id \<Rightarrow> bool" where
  "is_ready d completed t \<longleftrightarrow> t \<notin> completed \<and> set (predecessors d t) \<subseteq> completed"

text \<open>\<^verbatim>\<open>sort(key=priority, reverse=True)\<close> is stable: it sorts by the negated priority.\<close>

definition get_ready_tasks :: "dag \<Rightarrow> task_id set \<Rightarrow> task_id list" where
  "get_ready_tasks d completed =
     sort_key (\<lambda>t. - task_priority d t) (filter (is_ready d completed) (task_ids d))"

definition get_dependents :: "dag \<Rightarrow> task_id \<Rightarrow> exn + task_id list" where
  "get_dependents d t =
     (if \<not> has_node d t then Inl (TaskNotFoundError t) else Inr (successors d t))"

definition get_dependencies :: "dag \<Rightarrow> task_id \<Rightarrow> exn + task_id list" where
  "get_dependencies d t =
     (if \<not> has_node d t then Inl (TaskNotFoundError t) else Inr (predecessors d t))"

section \<open>The graph algorithms of networkx\<close>

record networkx =
  topological_sort :: "dag \<Rightarrow> task_id list option"   \<comment> \<open>None: NetworkXUnfeasible\<close>
  find_cycle :: "dag \<Rightarrow> (task_id \<times> task_id) list option"   \<comment> \<open>None: NetworkXNoCycle\<close>
  is_dag :: "dag \<Rightarrow> bool"

definition get_execution_order :: "networkx \<Rightarrow> dag \<Rightarrow> exn + task_id list" where
  "get_execution_order nx d = (case topological_sort nx d of
      Some order \<Rightarrow> Inr order
    | None \<Rightarrow> (case find_cycle nx d of
        Some cycle \<Rightarrow> Inl (CircularDependencyError (map (\<lambda>(u, v). u @ ''->'' @ v) cycle))
      | None \<Rightarrow> Inl (ExternalError ''NetworkXNoCycle'')))"

fun join :: "string \<Rightarrow> string list \<Rightarrow> string" where
  "join sep [] = []"
| "join sep [x] = x"
| "join sep (x # xs) = x @ sep @ join sep xs"

definition isolates :: "dag \<Rightarrow> task_id list" where
  "isolates d = filter (\<lambda>t. predecessors d t = [] \<and> successors d t = []) (task_ids d)"

definition cycle_errors :: "networkx \<Rightarrow> dag \<Rightarrow> string list" where
  "cycle_errors nx d =
     (if is_dag nx d then []
      else case find_cycle nx d of
        Some cycle \<Rightarrow> [''Cycle detected: '' @ join '' -> '' (map fst cycle)]
      | None \<Rightarrow> [])"

definition dangling_errors :: "dag \<Rightarrow> string list" where
  "dangling_errors d =
     concat (map (\<lambda>(_, t). map (\<lambda>dep. ''Task '' @ t_id t @ '' references missing dependency '' @ dep)
                    (filter (\<lambda>dep. \<not> has_node d dep) (dependencies t))) (nodes d))"

definition isolated_errors :: "dag \<Rightarrow> string list" where
  "isolated_errors d =
     (if 1 < length (nodes d)
      then map (\<lambda>t. ''Task '' @ t @ '' is isolated (no dependencies or dependents)'') (isolates d)
      else [])"

definition validate :: "networkx \<Rightarrow> dag \<Rightarrow> string list" where
  "validate nx d = cycle_errors nx d @ dangling_errors d @ isolated_errors d"

section \<open>Reconstruction and export\<close>

definition add_known_edges :: "task \<Rightarrow> dag \<Rightarrow> dag" where
  "add_known_edges t d =
     fold (\<lambda>dep d. if has_node d dep then add_edge dep (t_id t) d else d) (dependencies t) d"

definition from_tasks :: "task list \<Rightarrow> dag" where
  "from_tasks tasks = fold add_known_edges tasks (fold add_node tasks empty_dag)"

definition to_task_graph :: "networkx \<Rightarrow> time \<Rightarrow> dag \<Rightarrow> exn + task_graph" where
  "to_task_graph nx now d = (case get_execution_order nx d of
      Inl e \<Rightarrow> Inl e
    | Inr order \<Rightarrow>
        (case those (map (map_of (nodes d)) order) of
          None \<Rightarrow> Inl (KeyError ''task'')
        | Some tasks \<Rightarrow>
            Inr \<lparr>tg_tasks = tasks, execution_order = order, tg_created_at = now\<rparr>))"


section \<open>Well-formed graphs\<close>

abbreviation edge_set :: "dag \<Rightarrow> (task_id \<times> task_id) set" where
  "edge_set d \<equiv> set (edges d)"

definition dag_wf :: "dag \<Rightarrow> bool" where
  "dag_wf d \<longleftrightarrow> distinct (task_ids d) \<and> distinct (edges d) \<and>
     edge_set d \<subseteq> node_set d \<times> node_set d"

lemma set_predecessors [simp]: "set (predecessors d t) = {u. (u, t) \<in> edge_set d}"
  by (force simp: predecessors_def)

lemma set_successors [simp]: "set (successors d t) = {v. (t, v) \<in> edge_set d}"
  by (force simp: successors_def)

lemma nodes_add_edge [simp]: "nodes (add_edge u v d) = nodes d"
  by (simp add: add_edge_def)

lemma edge_set_add_edge [simp]: "edge_set (add_edge u v d) = insert (u, v) (edge_set d)"
  by (auto simp: add_edge_def)

lemma edges_add_node [simp]: "edges (add_node t d) = edges d"
  by (simp add: add_node_def)

lemma ids_add_node [simp]: "node_set (add_node t d) = insert (t_id t) (node_set d)"
  by (simp add: node_set_def add_node_def keys_update insert_absorb)

lemma node_set_cong: "nodes d' = nodes d \<Longrightarrow> node_set d' = node_set d"
  by (simp add: node_set_def)

lemma node_set_add_edge [simp]: "node_set (add_edge u v d) = node_set d"
  by (simp add: node_set_def)

lemma node_set_empty [simp]: "node_set empty_dag = {}"
  by (simp add: node_set_def empty_dag_def)

lemma edges_empty [simp]: "edges empty_dag = []"
  by (simp add: empty_dag_def)

lemma in_node_set: "has_node d t \<longleftrightarrow> (\<exists>v. map_of (nodes d) t = Some v)"
  by (metis node_set_def in_keysI map_of_in_keys)

lemma dag_wf_empty [simp]: "dag_wf empty_dag"
  by (simp add: dag_wf_def) (simp add: empty_dag_def)

lemma dag_wf_add_node: "dag_wf d \<Longrightarrow> dag_wf (add_node t d)"
  by (auto simp: dag_wf_def) (auto simp: add_node_def)

lemma dag_wf_add_edge: "dag_wf d \<Longrightarrow> has_node d u \<Longrightarrow> has_node d v \<Longrightarrow> dag_wf (add_edge u v d)"
  by (auto simp: dag_wf_def add_edge_def node_set_def)

lemma add_task_wf: "dag_wf d \<Longrightarrow> add_task d t = Inr d' \<Longrightarrow> dag_wf d'"
  by (auto simp: add_task_def dag_wf_add_node split: if_splits)

lemma add_dependency_wf: "dag_wf d \<Longrightarrow> add_dependency d u v = Inr d' \<Longrightarrow> dag_wf d'"
  by (auto simp: add_dependency_def intro: dag_wf_add_edge split: if_splits)

lemma update_task_ids: "update_task d tid t = Inr d' \<Longrightarrow> task_ids d' = task_ids d"
  using keys_update [of tid t "nodes d"]
  by (auto simp: update_task_def replace_node_def node_set_def simp del: set_map split: if_splits)

lemma update_task_node_set: "update_task d tid t = Inr d' \<Longrightarrow> node_set d' = node_set d"
  by (simp add: node_set_def update_task_ids)

lemma update_task_edges: "update_task d tid t = Inr d' \<Longrightarrow> edges d' = edges d"
  by (auto simp: update_task_def replace_node_def split: if_splits)

lemma update_task_wf: "dag_wf d \<Longrightarrow> update_task d tid t = Inr d' \<Longrightarrow> dag_wf d'"
  using update_task_ids [of d tid t d'] update_task_edges [of d tid t d'] by (simp add: dag_wf_def node_set_def)

lemma get_task_Inr: "get_task d tid = Inr t \<longleftrightarrow> map_of (nodes d) tid = Some t"
  by (simp add: get_task_def split: option.splits)

lemma get_task_has: "(\<exists>t. get_task d tid = Inr t) \<longleftrightarrow> has_node d tid"
  by (simp add: get_task_Inr in_node_set)

lemma get_task_Inl: "get_task d tid = Inl e \<longleftrightarrow> \<not> has_node d tid \<and> e = TaskNotFoundError tid"
  using get_task_has [of d tid] by (auto simp: get_task_def split: option.splits)

lemma update_task_Inr: "(\<exists>d'. update_task d tid t = Inr d') \<longleftrightarrow> has_node d tid"
  by (auto simp: update_task_def)

lemma get_update_task:
  "update_task d tid t = Inr d' \<Longrightarrow> get_task d' u = (if u = tid then Inr t else get_task d u)"
  by (auto simp: update_task_def replace_node_def get_task_def split: if_splits)

subsection \<open>Rebuilding from persisted tasks\<close>

lemma fold_add_node_ids:
  "node_set (fold add_node ts d) = node_set d \<union> t_id ` set ts"
  by (induction ts arbitrary: d) auto

lemma fold_add_node_wf: "dag_wf d \<Longrightarrow> dag_wf (fold add_node ts d)"
  by (induction ts arbitrary: d) (auto simp: dag_wf_add_node)

lemma fold_add_node_edges: "edges (fold add_node ts d) = edges d"
  by (induction ts arbitrary: d) auto

lemma add_known_edges_nodes [simp]: "nodes (add_known_edges t d) = nodes d"
proof -
  have "nodes (fold (\<lambda>dep d. if has_node d dep then add_edge dep tid d else d) deps d) = nodes d"
    for tid deps by (induction deps arbitrary: d) auto
  then show ?thesis by (simp add: add_known_edges_def)
qed

lemma add_known_edges_set:
  "edge_set (add_known_edges t d) =
     edge_set d \<union> {(dep, t_id t) | dep. dep \<in> set (dependencies t) \<and> has_node d dep}"
proof -
  have "edge_set (fold (\<lambda>dep d. if has_node d dep then add_edge dep tid d else d) deps d) =
      edge_set d \<union> {(dep, tid) | dep. dep \<in> set deps \<and> has_node d dep}" for tid deps
    by (induction deps arbitrary: d) auto
  then show ?thesis by (simp add: add_known_edges_def)
qed

lemma add_known_edges_wf: "dag_wf d \<Longrightarrow> has_node d (t_id t) \<Longrightarrow> dag_wf (add_known_edges t d)"
proof -
  have "dag_wf d \<Longrightarrow> has_node d tid \<Longrightarrow>
      dag_wf (fold (\<lambda>dep d. if has_node d dep then add_edge dep tid d else d) deps d)" for tid deps
    by (induction deps arbitrary: d) (auto simp: dag_wf_add_edge)
  then show "dag_wf d \<Longrightarrow> has_node d (t_id t) \<Longrightarrow> dag_wf (add_known_edges t d)"
    by (simp add: add_known_edges_def)
qed

lemma add_known_edges_node_set [simp]: "node_set (add_known_edges t d) = node_set d"
  by (simp add: node_set_def)

lemma fold_known_edges_nodes [simp]: "nodes (fold add_known_edges ts d) = nodes d"
  by (induction ts arbitrary: d) auto

lemma fold_known_edges_node_set [simp]: "node_set (fold add_known_edges ts d) = node_set d"
  by (simp add: node_set_def)

lemma fold_known_edges_set:
  "edge_set (fold add_known_edges ts d) =
     edge_set d \<union> {(dep, t_id t) | dep t. t \<in> set ts \<and> dep \<in> set (dependencies t) \<and> has_node d dep}"
proof (induction ts arbitrary: d)
  case Nil
  then show ?case by simp
next
  case (Cons u ts)
  show ?case by (auto simp: Cons.IH add_known_edges_set)
qed

lemma fold_known_edges_wf:
  "dag_wf d \<Longrightarrow> t_id ` set ts \<subseteq> node_set d \<Longrightarrow> dag_wf (fold add_known_edges ts d)"
  by (induction ts arbitrary: d) (auto simp: add_known_edges_wf)

lemma from_tasks_ids: "node_set (from_tasks ts) = t_id ` set ts"
  by (simp add: from_tasks_def fold_add_node_ids)

lemma from_tasks_wf: "dag_wf (from_tasks ts)"
  unfolding from_tasks_def
  by (rule fold_known_edges_wf) (auto simp: fold_add_node_wf fold_add_node_ids)

lemma from_tasks_edges:
  "edge_set (from_tasks ts) =
     {(dep, t_id t) | dep t. t \<in> set ts \<and> dep \<in> set (dependencies t) \<and> dep \<in> t_id ` set ts}"
  by (simp add: from_tasks_def fold_known_edges_set fold_add_node_edges fold_add_node_ids)

lemma map_of_add_nodes:
  "distinct (map t_id ts) \<Longrightarrow>
     map_of (nodes (fold add_node ts d)) tid =
       (case find (\<lambda>t. t_id t = tid) ts of Some t \<Rightarrow> Some t | None \<Rightarrow> map_of (nodes d) tid)"
proof (induction ts arbitrary: d)
  case Nil
  then show ?case by simp
next
  case (Cons t ts)
  have "find (\<lambda>u. t_id u = t_id t) ts = None"
    using Cons.prems by (simp add: find_None_iff) (metis image_eqI)
  with Cons show ?case by (auto simp: add_node_def split: option.splits)
qed

lemma from_tasks_get:
  assumes "distinct (map t_id ts)" and "t \<in> set ts"
  shows "get_task (from_tasks ts) (t_id t) = Inr t"
proof -
  have "find (\<lambda>u. t_id u = t_id t) ts \<noteq> None"
    using assms(2) by (auto simp: find_None_iff)
  then obtain u where u: "find (\<lambda>u. t_id u = t_id t) ts = Some u" by blast
  then have "u \<in> set ts" and "t_id u = t_id t" by (auto simp: find_Some_iff)
  with assms have "u = t" by (auto simp: distinct_map inj_on_def)
  with u assms(1) show ?thesis
    by (simp add: get_task_Inr from_tasks_def fold_known_edges_nodes map_of_add_nodes)
qed

end
