(* ===== verification/Task_Ready.thy ===== *)
theory Task_Ready
  imports Task_Graph
begin

text \<open>
  Readiness and execution order in the task graph: what \<^verbatim>\<open>get_ready_tasks\<close> returns,
  why an acyclic graph always has a ready task, and the order in which repeatedly taking
  the first ready task runs the graph. \<open>task_source\<close> is the interface the scheduler uses
  (lookup, replacement, readiness); \<open>topological\<close> is the contract of networkx's sort.
\<close>

section \<open>Orders that respect dependencies\<close>

text \<open>\<open>dep_order E D xs\<close>: running \<open>xs\<close> from left to right, with the tasks in \<open>D\<close> done
  before, starts each task only after everything it depends on.\<close>

fun dep_order :: "('a \<times> 'a) set \<Rightarrow> 'a set \<Rightarrow> 'a list \<Rightarrow> bool" where
  "dep_order E D [] \<longleftrightarrow> True"
| "dep_order E D (x # xs) \<longleftrightarrow> (\<forall>u. (u, x) \<in> E \<longrightarrow> u \<in> D) \<and> dep_order E (insert x D) xs"

definition position :: "'a list \<Rightarrow> 'a \<Rightarrow> nat" where
  "position xs x = length (takeWhile (\<lambda>y. y \<noteq> x) xs)"

lemma position_Cons [simp]: "position (y # xs) x = (if y = x then 0 else Suc (position xs x))"
  by (simp add: position_def)

lemma dep_order_position:
  "dep_order E D xs \<Longrightarrow> (u, x) \<in> E \<Longrightarrow> x \<in> set xs \<Longrightarrow> u \<in> D \<or> position xs u < position xs x"
proof (induction xs arbitrary: D)
  case Nil
  then show ?case by simp
next
  case (Cons y ys)
  show ?case
  proof (cases "x = y")
    case True
    with Cons.prems show ?thesis by simp
  next
    case False
    with Cons.prems have "u \<in> insert y D \<or> position ys u < position ys x"
      by (intro Cons.IH) auto
    with False show ?thesis by auto
  qed
qed

lemma dep_order_acyclic:
  assumes "dep_order E {} xs" and "snd ` E \<subseteq> set xs"
  shows "acyclic E"
proof (rule acyclicI_order [where f = "\<lambda>x. - int (position xs x)"])
  fix a b
  assume "(a, b) \<in> E"
  with assms have "position xs a < position xs b"
    using dep_order_position [of E "{}" xs a b] by force
  then show "- int (position xs b) < - int (position xs a)" by simp
qed

lemma dep_order_append:
  "dep_order E D (xs @ ys) \<longleftrightarrow> dep_order E D xs \<and> dep_order E (D \<union> set xs) ys"
  by (induction xs arbitrary: D) auto

lemma dep_order_mono: "dep_order E D xs \<Longrightarrow> D \<subseteq> D' \<Longrightarrow> dep_order E D' xs"
proof (induction xs arbitrary: D D')
  case Nil
  then show ?case by simp
next
  case (Cons x xs)
  then have "dep_order E (insert x D') xs" by (auto elim: Cons.IH)
  with Cons.prems show ?case by auto
qed

section \<open>Ready tasks\<close>

lemma set_ready: "set (get_ready_tasks d C) = {t \<in> node_set d. is_ready d C t}"
  by (auto simp: get_ready_tasks_def node_set_def)

lemma ready_iff:
  "t \<in> set (get_ready_tasks d C) \<longleftrightarrow>
     has_node d t \<and> t \<notin> C \<and> (\<forall>u. (u, t) \<in> edge_set d \<longrightarrow> u \<in> C)"
  by (auto simp: set_ready is_ready_def)

lemma ready_sorted: "sorted (map (\<lambda>t. - task_priority d t) (get_ready_tasks d C))"
  by (simp add: get_ready_tasks_def)

lemma ready_distinct: "dag_wf d \<Longrightarrow> distinct (get_ready_tasks d C)"
  by (simp add: get_ready_tasks_def dag_wf_def)

lemma ready_head_max:
  assumes "get_ready_tasks d C = t # ts" and "u \<in> set (get_ready_tasks d C)"
  shows "task_priority d u \<le> task_priority d t"
  using ready_sorted [of d C] assms by (auto simp: image_iff)

lemma ready_exists:
  assumes wf: "dag_wf d" and ac: "acyclic (edge_set d)" and x: "x \<in> node_set d - C"
  shows "get_ready_tasks d C \<noteq> []"
proof -
  have "wf (edge_set d)"
    using ac by (intro finite_acyclic_wf) auto
  then obtain z where z: "z \<in> node_set d - C"
    and least: "\<And>y. (y, z) \<in> edge_set d \<Longrightarrow> y \<notin> node_set d - C"
    using x wfE_min [of "edge_set d" x "node_set d - C"] by blast
  have "u \<in> C" if "(u, z) \<in> edge_set d" for u
    using least [OF that] that wf by (auto simp: dag_wf_def)
  with z have "z \<in> set (get_ready_tasks d C)" by (simp add: ready_iff)
  then show ?thesis by auto
qed

text \<open>Taking the first ready task and completing it, up to \<open>n\<close> times.\<close>

fun ready_run :: "nat \<Rightarrow> dag \<Rightarrow> task_id set \<Rightarrow> task_id list" where
  "ready_run 0 d C = []"
| "ready_run (Suc n) d C = (case get_ready_tasks d C of
      [] \<Rightarrow> []
    | t # _ \<Rightarrow> t # ready_run n d (insert t C))"

lemma ready_run_sound:
  "distinct (ready_run n d C) \<and> set (ready_run n d C) \<subseteq> node_set d - C \<and>
   dep_order (edge_set d) C (ready_run n d C)"
proof (induction n arbitrary: C)
  case 0
  then show ?case by simp
next
  case (Suc n)
  show ?case
  proof (cases "get_ready_tasks d C")
    case Nil
    then show ?thesis by simp
  next
    case (Cons t ts)
    then have "t \<in> set (get_ready_tasks d C)" by simp
    then have t: "has_node d t" "t \<notin> C" "\<And>u. (u, t) \<in> edge_set d \<Longrightarrow> u \<in> C"
      by (auto simp: ready_iff)
    with Cons Suc.IH [of "insert t C"] show ?thesis by auto
  qed
qed

lemma finite_node_set [simp]: "finite (node_set d)"
  by (simp add: node_set_def)

lemma ready_run_complete:
  assumes "dag_wf d" and "acyclic (edge_set d)" and "card (node_set d - C) \<le> n"
  shows "set (ready_run n d C) = node_set d - C"
  using assms(3)
proof (induction n arbitrary: C)
  case 0
  then show ?case by simp
next
  case (Suc n)
  show ?case
  proof (cases "get_ready_tasks d C")
    case Nil
    with ready_exists [OF assms(1,2)] show ?thesis by force
  next
    case (Cons t ts)
    then have "t \<in> set (get_ready_tasks d C)" by simp
    then have t: "t \<in> node_set d - C" by (simp add: ready_iff)
    have eq: "node_set d - insert t C = (node_set d - C) - {t}" by auto
    have "card (node_set d - insert t C) \<le> n"
      using Suc.prems t by (simp add: eq card_Diff_singleton_if)
    then show ?thesis using Suc.IH [of "insert t C"] Cons t by auto
  qed
qed

lemma card_node_set: "dag_wf d \<Longrightarrow> card (node_set d) = length (nodes d)"
  by (simp add: node_set_def dag_wf_def distinct_card del: set_map)

lemma ready_run_full_iff:
  assumes "dag_wf d"
  shows "length (ready_run (length (nodes d)) d {}) = length (nodes d) \<longleftrightarrow> acyclic (edge_set d)"
proof
  let ?r = "ready_run (length (nodes d)) d {}"
  assume "length ?r = length (nodes d)"
  with ready_run_sound [of "length (nodes d)" d "{}"] have "set ?r = node_set d"
    by (intro card_subset_eq) (auto simp: card_node_set [OF assms] distinct_card)
  with assms ready_run_sound [of "length (nodes d)" d "{}"] show "acyclic (edge_set d)"
    by (intro dep_order_acyclic [of _ ?r]) (auto simp: dag_wf_def)
next
  let ?r = "ready_run (length (nodes d)) d {}"
  assume "acyclic (edge_set d)"
  with assms have "set ?r = node_set d"
    by (subst ready_run_complete) (auto simp: card_node_set)
  with ready_run_sound [of "length (nodes d)" d "{}"] show "length ?r = length (nodes d)"
    by (metis card_node_set [OF assms] distinct_card)
qed

section \<open>The contract of the topological sort\<close>

locale topological =
  fixes sort_op :: "dag \<Rightarrow> task_id list option"
  assumes sort_Some: "dag_wf d \<Longrightarrow> sort_op d = Some xs \<Longrightarrow>
      distinct xs \<and> set xs = node_set d \<and> dep_order (edge_set d) {} xs"
    and sort_None: "dag_wf d \<Longrightarrow> sort_op d = None \<Longrightarrow> \<not> acyclic (edge_set d)"
begin

lemma sort_Some_acyclic: "dag_wf d \<Longrightarrow> sort_op d = Some xs \<Longrightarrow> acyclic (edge_set d)"
  using sort_Some [of d xs] by (intro dep_order_acyclic [of _ xs]) (auto simp: dag_wf_def)

lemma sort_defined_iff: "dag_wf d \<Longrightarrow> sort_op d \<noteq> None \<longleftrightarrow> acyclic (edge_set d)"
  using sort_Some_acyclic sort_None by fastforce

lemma sort_before:
  "dag_wf d \<Longrightarrow> sort_op d = Some xs \<Longrightarrow> (u, v) \<in> edge_set d \<Longrightarrow> position xs u < position xs v"
  using sort_Some [of d xs] dep_order_position [of "edge_set d" "{}" xs u v]
  by (auto simp: dag_wf_def)

end

text \<open>What networkx documents about the three functions the code calls.\<close>

definition nx_contract :: "networkx \<Rightarrow> bool" where
  "nx_contract nx \<longleftrightarrow>
     topological (topological_sort nx) \<and>
     (\<forall>d. dag_wf d \<longrightarrow> is_dag nx d = acyclic (edge_set d)) \<and>
     (\<forall>d. dag_wf d \<longrightarrow> (find_cycle nx d = None) = acyclic (edge_set d)) \<and>
     (\<forall>d c. find_cycle nx d = Some c \<longrightarrow> set c \<subseteq> edge_set d)"

text \<open>
  The scheduler's own primitive gives such a sort: the order in which ready tasks are
  taken. It shows that the contract can be met.
\<close>

definition ready_sort :: "dag \<Rightarrow> task_id list option" where
  "ready_sort d =
     (let xs = ready_run (length (nodes d)) d {}
      in if length xs = length (nodes d) then Some xs else None)"

definition ready_nx :: networkx where
  "ready_nx = \<lparr>topological_sort = ready_sort,
     find_cycle = (\<lambda>d. if ready_sort d = None
        then Some (filter (\<lambda>(u, v). v \<notin> set (ready_run (length (nodes d)) d {})) (edges d)) else None),
     is_dag = (\<lambda>d. ready_sort d \<noteq> None)\<rparr>"

interpretation ready_topo: topological ready_sort
proof
  fix d :: dag and xs
  assume wf: "dag_wf d" and xs: "ready_sort d = Some xs"
  then have full: "length (ready_run (length (nodes d)) d {}) = length (nodes d)"
    and eq: "xs = ready_run (length (nodes d)) d {}"
    by (auto simp: ready_sort_def Let_def split: if_splits)
  have "acyclic (edge_set d)" using full ready_run_full_iff [OF wf] by simp
  then have "set xs = node_set d"
    using wf eq by (simp add: ready_run_complete card_node_set)
  with ready_run_sound [of "length (nodes d)" d "{}"] eq
  show "distinct xs \<and> set xs = node_set d \<and> dep_order (edge_set d) {} xs" by simp
next
  fix d :: dag
  assume "dag_wf d" and "ready_sort d = None"
  then show "\<not> acyclic (edge_set d)"
    using ready_run_full_iff [of d] by (auto simp: ready_sort_def Let_def split: if_splits)
qed

lemma ready_nx_contract: "nx_contract ready_nx"
  unfolding nx_contract_def ready_nx_def
  by (auto simp: ready_topo.topological_axioms ready_topo.sort_defined_iff [symmetric]
      split: if_splits)

section \<open>The interface of the scheduler\<close>

text \<open>
  The scheduler reads a task, replaces it, and asks for ready tasks. Whatever stores the
  tasks, replacing one leaves the others alone, keeps the set of tasks, and keeps any
  property that all stored tasks have and the new one has too.
\<close>

locale task_source =
  fixes get :: "'g \<Rightarrow> task_id \<Rightarrow> exn + task"
    and update :: "'g \<Rightarrow> task_id \<Rightarrow> task \<Rightarrow> exn + 'g"
    and ids :: "'g \<Rightarrow> task_id set"
  assumes get_defined: "(\<exists>t. get g u = Inr t) \<longleftrightarrow> u \<in> ids g"
    and update_defined: "(\<exists>g'. update g u t = Inr g') \<longleftrightarrow> u \<in> ids g"
    and get_update: "update g u t = Inr g' \<Longrightarrow> get g' v = (if v = u then Inr t else get g v)"
    and ids_update: "update g u t = Inr g' \<Longrightarrow> ids g' = ids g"
begin

lemma update_after_get: "get g u = Inr t \<Longrightarrow> \<exists>g'. update g u t' = Inr g'"
  using get_defined update_defined by blast

lemma update_all:
  assumes "\<And>v t. get g v = Inr t \<Longrightarrow> P v t" and "P u t'" and "update g u t' = Inr g'"
  shows "get g' v = Inr t \<Longrightarrow> P v t"
  using assms get_update [OF assms(3), of v] by (auto split: if_splits)

lemma update_related:
  assumes "get g u = Inr t" and "R t t'" and "\<And>x. R x x" and "update g u t' = Inr g'"
  shows "get g' v = Inr y \<Longrightarrow> \<exists>x. get g v = Inr x \<and> R x y"
  using assms get_update [OF assms(4), of v] by (auto split: if_splits)

end

locale ready_source = task_source +
  fixes deps :: "'a \<Rightarrow> (task_id \<times> task_id) set"
    and ready :: "'a \<Rightarrow> task_id set \<Rightarrow> task_id list"
    and prio :: "'a \<Rightarrow> task_id \<Rightarrow> int"
  assumes ready_members: "t \<in> set (ready g C) \<longleftrightarrow>
      t \<in> ids g \<and> t \<notin> C \<and> (\<forall>u. (u, t) \<in> deps g \<longrightarrow> u \<in> C)"
    and ready_by_prio: "sorted (map (\<lambda>t. - prio g t) (ready g C))"
begin

lemma ready_get: "t \<in> set (ready g C) \<Longrightarrow> \<exists>v. get g t = Inr v"
  using ready_members get_defined by blast

lemma first_ready_best:
  assumes "ready g C = t # ts" and "u \<in> ids g" and "u \<notin> C" and "\<forall>w. (w, u) \<in> deps g \<longrightarrow> w \<in> C"
  shows "prio g u \<le> prio g t"
proof -
  have "u \<in> set (t # ts)" using assms ready_members [of u g C] by simp
  then show ?thesis using ready_by_prio [of g C] assms(1) by auto
qed

end

interpretation dag_source: ready_source get_task update_task node_set edge_set get_ready_tasks
  task_priority
proof
  show "\<And>g u. (\<exists>t. get_task g u = Inr t) = (u \<in> node_set g)" by (rule get_task_has)
  show "\<And>g u t. (\<exists>g'. update_task g u t = Inr g') = (u \<in> node_set g)" by (rule update_task_Inr)
  show "\<And>g u t g' v. update_task g u t = Inr g' \<Longrightarrow>
      get_task g' v = (if v = u then Inr t else get_task g v)" by (rule get_update_task)
  show "\<And>g u t g'. update_task g u t = Inr g' \<Longrightarrow> node_set g' = node_set g"
    by (rule update_task_node_set)
  show "\<And>t g C. (t \<in> set (get_ready_tasks g C)) =
      (t \<in> node_set g \<and> t \<notin> C \<and> (\<forall>u. (u, t) \<in> edge_set g \<longrightarrow> u \<in> C))" by (rule ready_iff)
  show "\<And>g C. sorted (map (\<lambda>t. - task_priority g t) (get_ready_tasks g C))"
    by (rule ready_sorted)
qed

end
