(* ===== verification/Distributed_Lock.thy ===== *)
theory Distributed_Lock
  imports Enums
begin

text \<open>
  Locking and claim coordination between scheduler instances
  (\<^verbatim>\<open>services/task-graph-engine/src/task_graph_engine/distributed_lock.py\<close>).

  Redis is a parameter: the record \<open>redis_ops\<close> holds the commands the class sends, over an
  unknown keyspace \<open>'r\<close>; \<open>redis_contract\<close> is what Redis documents about them.
  \<open>coordinator\<close> is the contract the scheduler relies on, and \<open>exclusive_coordinator\<close>
  the stronger one that only the Redis-backed instance gives: a claimed task is not claimed
  again before it is completed.
\<close>

definition lock_key :: string where "lock_key = ''architect:scheduler:lock''"
definition claimed_prefix :: string where "claimed_prefix = ''architect:scheduler:claimed:''"
definition completed_key :: string where "completed_key = ''architect:scheduler:completed''"

record 'r redis_ops =
  set_nx :: "string \<Rightarrow> nat \<Rightarrow> (exn, 'r, bool) op"   \<comment> \<open>\<open>SET key 1 NX EX seconds\<close>\<close>
  del_key :: "string \<Rightarrow> (exn, 'r, unit) op"
  sadd :: "string \<Rightarrow> string \<Rightarrow> (exn, 'r, unit) op"
  smembers :: "string \<Rightarrow> (exn, 'r, string set) op"

record 'r dlock =
  redis :: "'r option"
  local_completed :: "string set"

definition new_dlock :: "'r option \<Rightarrow> 'r dlock" where
  "new_dlock r = \<lparr>redis = r, local_completed = {}\<rparr>"

text \<open>A command on the connection; the code tests for the connection first.\<close>

definition on_redis :: "(exn, 'r, 'a) op \<Rightarrow> 'a \<Rightarrow> (exn, 'r dlock, 'a) op" where
  "on_redis cmd dflt = (\<lambda>l. case redis l of
      None \<Rightarrow> (Inr dflt, l)
    | Some r \<Rightarrow> (case cmd r of (res, r') \<Rightarrow> (res, l\<lparr>redis := Some r'\<rparr>)))"

definition try_claim_task :: "'r redis_ops \<Rightarrow> string \<Rightarrow> (exn, 'r dlock, bool) op" where
  "try_claim_task rd tid = on_redis (set_nx rd (claimed_prefix @ tid) 3600) True"

definition dist_mark_completed :: "'r redis_ops \<Rightarrow> string \<Rightarrow> (exn, 'r dlock, unit) op" where
  "dist_mark_completed rd tid =
     chain (on_redis (sadd rd completed_key tid) ()) (\<lambda>_.
     chain (on_redis (del_key rd (claimed_prefix @ tid)) ()) (\<lambda>_.
     writes (\<lambda>l. l\<lparr>local_completed := insert tid (local_completed l)\<rparr>)))"

definition get_completed :: "'r redis_ops \<Rightarrow> (exn, 'r dlock, string set) op" where
  "get_completed rd = (\<lambda>l. case redis l of
      None \<Rightarrow> (Inr (local_completed l), l)
    | Some _ \<Rightarrow> on_redis (smembers rd completed_key) {} l)"

section \<open>The scheduling lock\<close>

text \<open>
  The retry loop of \<^verbatim>\<open>schedule_lock\<close> reads the monotonic clock before each try. The
  model takes the readings as a list: \<open>None\<close> if they run out while the loop still waits,
  else whether the lock was acquired. \<open>tries\<close> counts the \<open>SET NX\<close> commands sent.
\<close>

fun acquire_loop :: "'r redis_ops \<Rightarrow> rat \<Rightarrow> rat list \<Rightarrow> nat \<Rightarrow>
    (exn, 'r dlock, (bool \<times> nat) option) op" where
  "acquire_loop rd deadline [] tries = ret None"
| "acquire_loop rd deadline (now # clock) tries =
     (if now < deadline
      then chain (on_redis (set_nx rd lock_key 30) True) (\<lambda>acquired.
             if acquired then ret (Some (True, Suc tries))
             else acquire_loop rd deadline clock (Suc tries))
      else ret (Some (False, tries)))"

definition release_lock :: "'r redis_ops \<Rightarrow> (exn, 'r dlock, unit) op" where
  "release_lock rd = on_redis (del_key rd lock_key) ()"

text \<open>
  \<^verbatim>\<open>async with schedule_lock(): body\<close>. In-process (no Redis) the body runs under an
  \<^verbatim>\<open>asyncio.Lock\<close>, which the single event loop grants in turn.
\<close>

definition with_schedule_lock ::
    "'r redis_ops \<Rightarrow> rat \<Rightarrow> rat \<Rightarrow> rat list \<Rightarrow> ('s \<Rightarrow> 'r dlock) \<Rightarrow> ('r dlock \<Rightarrow> 's \<Rightarrow> 's) \<Rightarrow>
     (exn, 's, 'a) op \<Rightarrow> (exn, 's, 'a) op" where
  "with_schedule_lock rd timeout start clock part put body = (\<lambda>s.
     if redis (part s) = None then body s
     else chain (zoom part put (acquire_loop rd (start + timeout) clock 0)) (\<lambda>got.
       case got of
         Some (True, _) \<Rightarrow> finally_do body (zoom part put (release_lock rd))
       | _ \<Rightarrow> raise (RuntimeError ''Could not acquire scheduler lock'')) s)"

section \<open>The contract of Redis\<close>

text \<open>
  What the class relies on of a Redis keyspace, for commands that do not fail: \<open>present\<close>
  is the set of live string keys, \<open>members\<close> the content of the set keys. Keys expire by
  themselves, which \<open>present\<close> may reflect between commands.
\<close>

locale redis_contract =
  fixes rd :: "'r redis_ops"
    and present :: "'r \<Rightarrow> string set"
    and members :: "'r \<Rightarrow> string \<Rightarrow> string set"
  assumes set_nx_result: "set_nx rd k ex r = (Inr b, r') \<Longrightarrow> b \<longleftrightarrow> k \<notin> present r"
    and set_nx_present: "set_nx rd k ex r = (Inr b, r') \<Longrightarrow> present r' = insert k (present r)"
    and set_nx_members: "set_nx rd k ex r = (Inr b, r') \<Longrightarrow> members r' = members r"
    and del_present: "del_key rd k r = (Inr u, r') \<Longrightarrow> present r' = present r - {k}"
    and del_members: "del_key rd k r = (Inr u, r') \<Longrightarrow> k' \<noteq> k \<Longrightarrow> members r' k' = members r k'"
    and sadd_members: "sadd rd k v r = (Inr u, r') \<Longrightarrow>
        members r' = (members r)(k := insert v (members r k))"
    and sadd_present: "sadd rd k v r = (Inr u, r') \<Longrightarrow> present r' = present r"
    and smembers_result: "smembers rd k r = (Inr m, r') \<Longrightarrow> m = members r k \<and> r' = r"
begin

lemma claim_key_neq: "claimed_prefix @ t \<noteq> completed_key"
  by (simp add: claimed_prefix_def completed_key_def)

lemma claim_fresh:
  assumes "redis l = Some r" and "try_claim_task rd t l = (Inr b, l')"
  obtains r' where "redis l' = Some r'" and "b \<longleftrightarrow> claimed_prefix @ t \<notin> present r"
    and "present r' = insert (claimed_prefix @ t) (present r)" and "members r' = members r"
proof -
  from assms obtain r' where c: "set_nx rd (claimed_prefix @ t) 3600 r = (Inr b, r')"
    and l': "l' = l\<lparr>redis := Some r'\<rparr>"
    by (auto simp: try_claim_task_def on_redis_def split: prod.splits)
  show ?thesis
    by (rule that [of r']) (simp_all add: l' set_nx_result [OF c] set_nx_present [OF c]
        set_nx_members [OF c])
qed

lemma complete_redis:
  assumes "redis l = Some r" and "dist_mark_completed rd t l = (Inr u, l')"
  obtains r' where "redis l' = Some r'"
    and "members r' completed_key = insert t (members r completed_key)"
    and "present r' = present r - {claimed_prefix @ t}"
    and "local_completed l' = insert t (local_completed l)"
proof -
  from assms obtain r1 r2 where s: "sadd rd completed_key t r = (Inr (), r1)"
    and d: "del_key rd (claimed_prefix @ t) r1 = (Inr (), r2)"
    and l': "l' = l\<lparr>redis := Some r2, local_completed := insert t (local_completed l)\<rparr>"
    by (auto simp: dist_mark_completed_def on_redis_def chain_run split: prod.splits sum.splits)
  have "members r2 completed_key = insert t (members r completed_key)"
    using sadd_members [OF s] del_members [OF d, of completed_key] claim_key_neq [of t] by simp
  moreover have "present r2 = present r - {claimed_prefix @ t}"
    using sadd_present [OF s] del_present [OF d] by simp
  ultimately show ?thesis using that [of r2] l' by simp
qed

end

section \<open>The contract of the scheduler\<close>

locale coordinator =
  fixes claim :: "string \<Rightarrow> (exn, 'l, bool) op"
    and complete :: "string \<Rightarrow> (exn, 'l, unit) op"
    and completed :: "(exn, 'l, string set) op"
    and view :: "'l \<Rightarrow> string set"
    and ok :: "'l \<Rightarrow> bool"
  assumes completed_view: "ok l \<Longrightarrow> completed l = (Inr m, l') \<Longrightarrow> m = view l \<and> view l' = view l \<and> ok l'"
    and claim_view: "ok l \<Longrightarrow> claim t l = (Inr b, l') \<Longrightarrow> view l' = view l \<and> ok l'"
    and complete_view: "ok l \<Longrightarrow> complete t l = (Inr u, l') \<Longrightarrow> view l' = insert t (view l) \<and> ok l'"
begin

lemma view_grows:
  "ok l \<Longrightarrow> complete t l = (Inr u, l') \<Longrightarrow> view l \<subseteq> view l'"
  using complete_view by blast

end

locale exclusive_coordinator = coordinator +
  fixes taken :: "'a \<Rightarrow> string set"
  assumes claim_taken: "ok l \<Longrightarrow> claim t l = (Inr b, l') \<Longrightarrow>
      (b \<longleftrightarrow> t \<notin> taken l) \<and> taken l' = insert t (taken l)"
    and complete_taken: "ok l \<Longrightarrow> complete t l = (Inr u, l') \<Longrightarrow> taken l' = taken l - {t}"
begin

lemma second_claim_refused:
  "ok l \<Longrightarrow> claim t l = (Inr b, l1) \<Longrightarrow> claim t l1 = (Inr b', l2) \<Longrightarrow> \<not> b'"
  using claim_taken [of l t b l1] claim_taken [of l1 t b' l2] claim_view [of l t b l1] by simp

lemma claim_after_completion:
  "ok l \<Longrightarrow> complete t l = (Inr u, l1) \<Longrightarrow> claim t l1 = (Inr b, l2) \<Longrightarrow> b"
  using complete_taken [of l t u l1] claim_taken [of l1 t b l2] complete_view [of l t u l1] by simp

lemma claim_other:
  "ok l \<Longrightarrow> claim t l = (Inr b, l1) \<Longrightarrow> u \<noteq> t \<Longrightarrow> claim u l1 = (Inr b', l2) \<Longrightarrow> b' \<longleftrightarrow> u \<notin> taken l"
  using claim_taken [of l t b l1] claim_taken [of l1 u b' l2] claim_view [of l t b l1] by simp

end

text \<open>Without Redis the object itself is the coordinator; it never refuses a claim.\<close>

interpretation local_lock: coordinator "try_claim_task rd" "dist_mark_completed rd"
  "get_completed rd" local_completed "\<lambda>l. redis l = None" for rd
  by unfold_locales
    (auto simp: get_completed_def try_claim_task_def dist_mark_completed_def on_redis_def chain_run)

text \<open>With a Redis that keeps its contract the claims are exclusive.\<close>

definition redis_view :: "('r \<Rightarrow> string \<Rightarrow> string set) \<Rightarrow> 'r dlock \<Rightarrow> string set" where
  "redis_view members l = (case redis l of None \<Rightarrow> {} | Some r \<Rightarrow> members r completed_key)"

definition redis_taken :: "('r \<Rightarrow> string set) \<Rightarrow> 'r dlock \<Rightarrow> string set" where
  "redis_taken present l = (case redis l of None \<Rightarrow> {} | Some r \<Rightarrow>
     {t. claimed_prefix @ t \<in> present r})"

sublocale redis_contract \<subseteq> shared: exclusive_coordinator "try_claim_task rd"
  "dist_mark_completed rd" "get_completed rd" "redis_view members" "\<lambda>l. redis l \<noteq> None"
  "redis_taken present"
proof
  fix l :: "'r dlock" and m l'
  assume "redis l \<noteq> None" and "get_completed rd l = (Inr m, l')"
  then show "m = redis_view members l \<and> redis_view members l' = redis_view members l \<and>
      redis l' \<noteq> None"
    by (auto simp: get_completed_def on_redis_def redis_view_def split: prod.splits
        dest!: smembers_result)
next
  fix l :: "'r dlock" and t b l'
  assume l: "redis l \<noteq> None" and c: "try_claim_task rd t l = (Inr b, l')"
  from l obtain r where r: "redis l = Some r" by blast
  from claim_fresh [OF r c] obtain r' where "redis l' = Some r'"
    "b \<longleftrightarrow> claimed_prefix @ t \<notin> present r"
    "present r' = insert (claimed_prefix @ t) (present r)" "members r' = members r" .
  with r show "redis_view members l' = redis_view members l \<and> redis l' \<noteq> None"
    and "(b \<longleftrightarrow> t \<notin> redis_taken present l) \<and>
      redis_taken present l' = insert t (redis_taken present l)"
    by (auto simp: redis_view_def redis_taken_def)
next
  fix l :: "'r dlock" and t u l'
  assume l: "redis l \<noteq> None" and c: "dist_mark_completed rd t l = (Inr u, l')"
  from l obtain r where r: "redis l = Some r" by blast
  from complete_redis [OF r c] obtain r' where "redis l' = Some r'"
    "members r' completed_key = insert t (members r completed_key)"
    "present r' = present r - {claimed_prefix @ t}"
    "local_completed l' = insert t (local_completed l)" .
  with r show "redis_view members l' = insert t (redis_view members l) \<and> redis l' \<noteq> None"
    and "redis_taken present l' = redis_taken present l - {t}"
    by (auto simp: redis_view_def redis_taken_def)
qed

section \<open>A Redis keyspace\<close>

text \<open>
  A keyspace in which no command fails and no key expires: the string keys and the set
  keys. It shows that the contract can be met and is the Redis of the concrete examples.
\<close>

record keyspace =
  strings :: "string set"
  sets :: "string \<Rightarrow> string set"

definition empty_keyspace :: keyspace where
  "empty_keyspace = \<lparr>strings = {}, sets = (\<lambda>_. {})\<rparr>"

definition keyspace_ops :: "keyspace redis_ops" where
  "keyspace_ops =
     \<lparr>set_nx = (\<lambda>k ex r. (Inr (k \<notin> strings r), r\<lparr>strings := insert k (strings r)\<rparr>)),
      del_key = (\<lambda>k r. (Inr (), r\<lparr>strings := strings r - {k}, sets := (sets r)(k := {})\<rparr>)),
      sadd = (\<lambda>k v r. (Inr (), r\<lparr>sets := (sets r)(k := insert v (sets r k))\<rparr>)),
      smembers = (\<lambda>k r. (Inr (sets r k), r))\<rparr>"

interpretation keyspace: redis_contract keyspace_ops strings sets
  by unfold_locales (auto simp: keyspace_ops_def)

section \<open>Two processes and the scheduling lock\<close>

text \<open>
  The lock key seen by several scheduler processes: each enters its critical section when
  its \<open>SET NX\<close> succeeds and deletes the key when it leaves. The key also disappears by
  itself when its 30 seconds are over (\<open>expire\<close>).
\<close>

record lock_sys =
  key_set :: bool
  inside :: "nat set"

definition lock_init :: lock_sys where
  "lock_init = \<lparr>key_set = False, inside = {}\<rparr>"

inductive lock_step :: "bool \<Rightarrow> lock_sys \<Rightarrow> lock_sys \<Rightarrow> bool" for expiry :: bool where
  enter: "\<not> key_set s \<Longrightarrow> i \<notin> inside s \<Longrightarrow>
     lock_step expiry s \<lparr>key_set = True, inside = insert i (inside s)\<rparr>"
| refused: "key_set s \<Longrightarrow> lock_step expiry s s"
| leave: "i \<in> inside s \<Longrightarrow> lock_step expiry s \<lparr>key_set = False, inside = inside s - {i}\<rparr>"
| expire: "expiry \<Longrightarrow> key_set s \<Longrightarrow> lock_step expiry s (s\<lparr>key_set := False\<rparr>)"

inductive_cases lock_stepE: "lock_step expiry s t"

definition lock_inv :: "lock_sys \<Rightarrow> bool" where
  "lock_inv s \<longleftrightarrow> (if key_set s then \<exists>i. inside s = {i} else inside s = {})"

lemma lock_step_inv: "lock_step False s t \<Longrightarrow> lock_inv s \<Longrightarrow> lock_inv t"
  by (erule lock_stepE) (auto simp: lock_inv_def split: if_splits)

lemma lock_run_inv: "(lock_step False)\<^sup>*\<^sup>* lock_init t \<Longrightarrow> lock_inv t"
  by (induction rule: rtranclp_induct)
    (auto simp: lock_inv_def lock_init_def dest: lock_step_inv)

end
