(* ===== verification/Json.thy ===== *)
theory Json
  imports Enums
begin

text \<open>
  JSON documents as Python holds them after \<^verbatim>\<open>model_dump(mode="json")\<close> or
  \<^verbatim>\<open>json.loads\<close>: event payloads, persisted mutations, LLM replies. Objects are
  insertion-ordered dictionaries. \<open>py_eq\<close> is Python's \<open>==\<close> on them: numbers and booleans
  compare by value, objects regardless of order.
\<close>

datatype json =
    JNull
  | JBool bool
  | JInt int
  | JFloat rat
  | JStr string
  | JArr "json list"
  | JObj "(string \<times> json) list"

fun number_of :: "json \<Rightarrow> rat option" where
  "number_of (JBool b) = Some (if b then 1 else 0)"
| "number_of (JInt i) = Some (of_int i)"
| "number_of (JFloat r) = Some r"
| "number_of _ = None"

definition number_eq :: "json \<Rightarrow> json \<Rightarrow> bool" where
  "number_eq a b \<longleftrightarrow> number_of a \<noteq> None \<and> number_of a = number_of b"

lemma size_member_arr: "x \<in> set xs \<Longrightarrow> size x < size (JArr xs)"
  by (induction xs) auto

lemma size_member_obj: "p \<in> set xs \<Longrightarrow> size (snd p) < size (JObj xs)"
  by (induction xs) auto

function py_eq :: "json \<Rightarrow> json \<Rightarrow> bool" where
  "py_eq JNull b = (b = JNull)"
| "py_eq (JBool x) b = number_eq (JBool x) b"
| "py_eq (JInt x) b = number_eq (JInt x) b"
| "py_eq (JFloat x) b = number_eq (JFloat x) b"
| "py_eq (JStr x) b = (b = JStr x)"
| "py_eq (JArr xs) b = (case b of
      JArr ys \<Rightarrow> length xs = length ys \<and> (\<forall>p\<in>set (zip xs ys). py_eq (fst p) (snd p))
    | _ \<Rightarrow> False)"
| "py_eq (JObj xs) b = (case b of
      JObj ys \<Rightarrow> length xs = length ys \<and>
        (\<forall>p\<in>set xs. case map_of ys (fst p) of None \<Rightarrow> False | Some w \<Rightarrow> py_eq (snd p) w)
    | _ \<Rightarrow> False)"
  by pat_completeness auto

termination
  by (relation "measure (\<lambda>(a, b). size a)")
    (auto dest!: set_zip_leftD size_member_arr size_member_obj simp del: json.size)

text \<open>An event as the services hand it to the publisher: its type and payload.\<close>

record event =
  ev_type :: EventType
  ev_payload :: "(string \<times> json) list"

text \<open>\<^verbatim>\<open>d.get(k)\<close> on a document that may not be an object.\<close>

fun obj_get :: "json \<Rightarrow> string \<Rightarrow> json option" where
  "obj_get (JObj d) k = map_of d k"
| "obj_get _ k = None"

text \<open>\<^verbatim>\<open>s.split(sep)\<close> for a one-character separator.\<close>

fun split_on :: "char \<Rightarrow> string \<Rightarrow> string list" where
  "split_on c [] = [[]]"
| "split_on c (x # xs) =
     (if x = c then [] # split_on c xs
      else case split_on c xs of p # ps \<Rightarrow> (x # p) # ps | [] \<Rightarrow> [[x]])"

lemma split_on_nonempty [simp]: "split_on c s \<noteq> []"
  by (induction s) (auto split: list.splits)

text \<open>\<^verbatim>\<open>s.strip()\<close>.\<close>

definition is_space :: "char \<Rightarrow> bool" where
  "is_space c \<longleftrightarrow> c \<in> {CHR '' '', CHR 0x09, CHR 0x0A, CHR 0x0B, CHR 0x0C, CHR 0x0D,
     CHR 0x1C, CHR 0x1D, CHR 0x1E, CHR 0x1F, CHR 0x85, CHR 0xA0}"

definition strip :: "string \<Rightarrow> string" where
  "strip s = rev (dropWhile is_space (rev (dropWhile is_space s)))"

lemma dropWhile_idem [simp]: "dropWhile P (dropWhile P xs) = dropWhile P xs"
  by (induction xs) auto

lemma strip_head: "strip s \<noteq> [] \<Longrightarrow> \<not> is_space (hd (strip s))"
proof -
  assume ne: "strip s \<noteq> []"
  let ?ys = "dropWhile is_space s"
  have "?ys = strip s @ rev (takeWhile is_space (rev ?ys))"
    unfolding strip_def by (metis rev_append rev_rev_ident takeWhile_dropWhile_id)
  then have "?ys \<noteq> []" and "hd ?ys = hd (strip s)" using ne by (metis append_is_Nil_conv, metis hd_append2)
  then show ?thesis using hd_dropWhile [of is_space s] by (metis dropWhile_eq_Nil_conv)
qed

lemma strip_idem [simp]: "strip (strip s) = strip s"
proof -
  have "dropWhile is_space (strip s) = strip s"
    using strip_head [of s] by (cases "strip s") auto
  then show ?thesis by (subst (1) strip_def) (simp add: strip_def)
qed

end
