(* ===== verification/Task_Scheduler.thy ===== *)
theory Task_Scheduler
  imports Task_Ready Distributed_Lock Json
begin

text \<open>
  The scheduler (\<^verbatim>\<open>services/task-graph-engine/src/task_graph_engine/scheduler.py\<close>).

  The record \<open>sched\<close> is the object's state together with what it talks to: the DAG, the
  completed set, the distributed lock, the task table and the event stream. The last two
  are of unknown types; the calls on them are the parameters \<open>update_status\<close> and
  \<open>publish\<close> of the record \<open>sched_env\<close>, and either call may raise. An exception leaves the
  writes made before it in place, as in Python. \<open>now\<close> is the value of \<^verbatim>\<open>utcnow()\<close>.
\<close>

record ('r, 'd, 'p) sched_env =
  env_redis :: "'r redis_ops"
  update_status :: "task_id \<Rightarrow> StatusEnum \<Rightarrow> string option \<Rightarrow> (exn, 'd, unit) op"
  publish :: "event \<Rightarrow> (exn, 'p, string) op"

record ('r, 'd, 'p) sched =
  s_dag :: dag
  s_completed :: "task_id set"
  s_lock :: "'r dlock"
  s_db :: 'd
  s_bus :: 'p

section \<open>Transitions\<close>

fun valid_transitions :: "StatusEnum \<Rightarrow> StatusEnum list" where
  "valid_transitions StatusEnum.PENDING = [StatusEnum.RUNNING, StatusEnum.CANCELLED, StatusEnum.BLOCKED]"
| "valid_transitions StatusEnum.BLOCKED = [StatusEnum.PENDING, StatusEnum.CANCELLED]"
| "valid_transitions StatusEnum.RUNNING =
     [StatusEnum.COMPLETED, StatusEnum.FAILED, StatusEnum.CANCELLED]"
| "valid_transitions StatusEnum.FAILED = [StatusEnum.PENDING, StatusEnum.CANCELLED]"
| "valid_transitions StatusEnum.COMPLETED = []"
| "valid_transitions StatusEnum.CANCELLED = []"

definition may_become :: "StatusEnum \<Rightarrow> StatusEnum \<Rightarrow> bool" where
  "may_become a b \<longleftrightarrow> b \<in> set (valid_transitions a)"

definition terminal :: "StatusEnum \<Rightarrow> bool" where
  "terminal s \<longleftrightarrow> s = StatusEnum.COMPLETED \<or> s = StatusEnum.CANCELLED"

interpretation task_life: lifecycle may_become terminal
  by unfold_locales (auto simp: may_become_def terminal_def)

section \<open>Access to the parts of the state\<close>

definition fetch :: "task_id \<Rightarrow> (exn, ('r, 'd, 'p) sched, task) op" where
  "fetch tid = lift_sum (\<lambda>s. get_task (s_dag s) tid)"

definition store :: "task_id \<Rightarrow> task \<Rightarrow> (exn, ('r, 'd, 'p) sched, unit) op" where
  "store tid t = (\<lambda>s. case update_task (s_dag s) tid t of
      Inl e \<Rightarrow> (Inl e, s) | Inr d \<Rightarrow> (Inr (), s\<lparr>s_dag := d\<rparr>))"

definition on_lock :: "(exn, 'r dlock, 'a) op \<Rightarrow> (exn, ('r, 'd, 'p) sched, 'a) op" where
  "on_lock = zoom s_lock (\<lambda>l s. s\<lparr>s_lock := l\<rparr>)"

definition persist :: "('r, 'd, 'p) sched_env \<Rightarrow> task_id \<Rightarrow> StatusEnum \<Rightarrow> string option \<Rightarrow>
    (exn, ('r, 'd, 'p) sched, unit) op" where
  "persist env tid st msg = zoom s_db (\<lambda>d s. s\<lparr>s_db := d\<rparr>) (update_status env tid st msg)"

definition publish_event :: "('r, 'd, 'p) sched_env \<Rightarrow> EventType \<Rightarrow> (string \<times> json) list \<Rightarrow>
    (exn, ('r, 'd, 'p) sched, unit) op" where
  "publish_event env ty payload =
     attempt (chain (zoom s_bus (\<lambda>b s. s\<lparr>s_bus := b\<rparr>)
                      (publish env \<lparr>ev_type = ty, ev_payload = payload\<rparr>)) (\<lambda>_. ret ()))
       (\<lambda>_. ret ())"

definition assert_transition :: "task \<Rightarrow> StatusEnum \<Rightarrow> (exn, ('r, 'd, 'p) sched, unit) op" where
  "assert_transition t target =
     (if target \<in> set (valid_transitions (status t)) then ret ()
      else raise (InvalidTransitionError (t_id t) (status t) target))"

section \<open>Lifecycle operations\<close>

text \<open>The \<^verbatim>\<open>model_copy(update=...)\<close> of each operation.\<close>

definition start_task :: "time \<Rightarrow> agent_id \<Rightarrow> task \<Rightarrow> task" where
  "start_task now agent t =
     t\<lparr>status := StatusEnum.RUNNING, assigned_agent := Some agent,
       current_attempt := current_attempt t + 1,
       timestamps := (timestamps t)\<lparr>started_at := Some now\<rparr>\<rparr>"

definition complete_task :: "time \<Rightarrow> EvalVerdict \<Rightarrow> task \<Rightarrow> task" where
  "complete_task now v t =
     t\<lparr>status := StatusEnum.COMPLETED, verdict := Some v,
       timestamps := (timestamps t)\<lparr>completed_at := Some now\<rparr>\<rparr>"

definition failure_record :: "time \<Rightarrow> string \<Rightarrow> task \<Rightarrow> task_retry_record" where
  "failure_record now err t =
     \<lparr>rr_attempt = current_attempt t,
      rr_started_at = (case started_at (timestamps t) of None \<Rightarrow> now | Some x \<Rightarrow> x),
      rr_ended_at = Some now, rr_verdict = Some EvalVerdict.FAIL_SOFT,
      failure_reason = Some err, rr_tokens_consumed = 0\<rparr>"

definition fail_task :: "time \<Rightarrow> string \<Rightarrow> task_retry_record \<Rightarrow> task \<Rightarrow> task" where
  "fail_task now err rec t =
     t\<lparr>status := StatusEnum.FAILED, error_message := Some err,
       timestamps := (timestamps t)\<lparr>completed_at := Some now\<rparr>,
       retry_history := retry_history t @ [rec]\<rparr>"

definition reset_task :: "task \<Rightarrow> task" where
  "reset_task t =
     t\<lparr>status := StatusEnum.PENDING, error_message := None, assigned_agent := None,
       timestamps := \<lparr>created_at = created_at (timestamps t), started_at = None,
                      completed_at = None\<rparr>\<rparr>"

definition mark_running :: "('r, 'd, 'p) sched_env \<Rightarrow> time \<Rightarrow> task_id \<Rightarrow> agent_id \<Rightarrow>
    (exn, ('r, 'd, 'p) sched, unit) op" where
  "mark_running env now tid agent =
     chain (fetch tid) (\<lambda>t.
     chain (assert_transition t StatusEnum.RUNNING) (\<lambda>_.
     chain (store tid (start_task now agent t)) (\<lambda>_.
     chain (persist env tid StatusEnum.RUNNING None) (\<lambda>_.
     publish_event env EventType.TASK_STARTED
       [(''task_id'', JStr tid), (''agent_id'', JStr agent)]))))"

definition mark_completed :: "('r, 'd, 'p) sched_env \<Rightarrow> time \<Rightarrow> task_id \<Rightarrow> EvalVerdict \<Rightarrow>
    (exn, ('r, 'd, 'p) sched, unit) op" where
  "mark_completed env now tid v =
     chain (fetch tid) (\<lambda>t.
     chain (assert_transition t StatusEnum.COMPLETED) (\<lambda>_.
     chain (store tid (complete_task now v t)) (\<lambda>_.
     chain (writes (\<lambda>s. s\<lparr>s_completed := insert tid (s_completed s)\<rparr>)) (\<lambda>_.
     chain (on_lock (dist_mark_completed (env_redis env) tid)) (\<lambda>_.
     chain (persist env tid StatusEnum.COMPLETED None) (\<lambda>_.
     publish_event env EventType.TASK_COMPLETED
       [(''task_id'', JStr tid), (''verdict'', JStr (eval_verdict_value v))]))))))"

definition mark_failed :: "('r, 'd, 'p) sched_env \<Rightarrow> time \<Rightarrow> task_id \<Rightarrow> string \<Rightarrow>
    (exn, ('r, 'd, 'p) sched, unit) op" where
  "mark_failed env now tid err =
     chain (fetch tid) (\<lambda>t.
     chain (assert_transition t StatusEnum.FAILED) (\<lambda>_.
     chain (lift_sum (\<lambda>_. mk_retry_record (failure_record now err t))) (\<lambda>rec.
     chain (store tid (fail_task now err rec t)) (\<lambda>_.
     chain (persist env tid StatusEnum.FAILED (Some err)) (\<lambda>_.
     publish_event env EventType.TASK_FAILED
       [(''task_id'', JStr tid), (''error_message'', JStr err)])))))"

definition should_retry :: "('r, 'd, 'p) sched_env \<Rightarrow> task_id \<Rightarrow>
    (exn, ('r, 'd, 'p) sched, bool) op" where
  "should_retry env tid =
     chain (fetch tid) (\<lambda>t.
     if status t \<noteq> StatusEnum.FAILED then ret False
     else if max_retries (budget t) \<le> current_attempt t then ret False
     else
       chain (store tid (reset_task t)) (\<lambda>_.
       chain (persist env tid StatusEnum.PENDING None) (\<lambda>_.
       chain (publish_event env EventType.TASK_RETRIED
          [(''task_id'', JStr tid), (''attempt'', JInt (current_attempt t + 1))]) (\<lambda>_.
       ret True))))"

section \<open>Scheduling\<close>

definition schedule_next :: "(exn, ('r, 'd, 'p) sched, task option) op" where
  "schedule_next =
     chain (reads (\<lambda>s. get_ready_tasks (s_dag s) (s_completed s))) (\<lambda>ready.
     case ready of
       [] \<Rightarrow> ret None
     | tid # _ \<Rightarrow> chain (fetch tid) (\<lambda>t. ret (Some t)))"

definition claim_ready :: "('r, 'd, 'p) sched_env \<Rightarrow> time \<Rightarrow> agent_id \<Rightarrow>
    (exn, ('r, 'd, 'p) sched, task option) op" where
  "claim_ready env now agent =
     chain schedule_next (\<lambda>next.
     case next of
       None \<Rightarrow> ret None
     | Some t \<Rightarrow>
         chain (on_lock (try_claim_task (env_redis env) (t_id t))) (\<lambda>claimed.
         if \<not> claimed then ret None
         else chain (mark_running env now (t_id t) agent) (\<lambda>_.
              chain (fetch (t_id t)) (\<lambda>u. ret (Some u)))))"

definition claim_body :: "('r, 'd, 'p) sched_env \<Rightarrow> time \<Rightarrow> agent_id \<Rightarrow>
    (exn, ('r, 'd, 'p) sched, task option) op" where
  "claim_body env now agent =
     chain (on_lock (get_completed (env_redis env))) (\<lambda>done.
     chain (writes (\<lambda>s. s\<lparr>s_completed := s_completed s \<union> done\<rparr>)) (\<lambda>_.
     claim_ready env now agent))"

definition schedule_and_claim :: "('r, 'd, 'p) sched_env \<Rightarrow> rat \<Rightarrow> rat list \<Rightarrow> time \<Rightarrow> agent_id \<Rightarrow>
    (exn, ('r, 'd, 'p) sched, task option) op" where
  "schedule_and_claim env start clock now agent =
     with_schedule_lock (env_redis env) 5 start clock s_lock (\<lambda>l s. s\<lparr>s_lock := l\<rparr>)
       (claim_body env now agent)"

section \<open>What each operation does to the graph\<close>

lemma fetch_run [op_simps]: "fetch tid s = (get_task (s_dag s) tid, s)"
  by (simp add: fetch_def)

lemma assert_transition_run [op_simps]:
  "assert_transition t target s =
     (if may_become (status t) target then (Inr (), s)
      else (Inl (InvalidTransitionError (t_id t) (status t) target), s))"
  by (simp add: assert_transition_def may_become_def)

lemma store_run [op_simps]:
  "get_task (s_dag s) tid = Inr t \<Longrightarrow>
     store tid t' s = (Inr (), s\<lparr>s_dag := replace_node tid t' (s_dag s)\<rparr>)"
  using get_task_has [of "s_dag s" tid] by (auto simp: store_def update_task_def)

text \<open>An operation is quiet if it leaves the graph and the completed set alone.\<close>

definition quiet :: "(exn, ('r, 'd, 'p) sched, 'a) op \<Rightarrow> bool" where
  "quiet m \<longleftrightarrow> (\<forall>s. s_dag (snd (m s)) = s_dag s \<and> s_completed (snd (m s)) = s_completed s)"

lemma quietD: "quiet m \<Longrightarrow> s_dag (snd (m s)) = s_dag s"
  "quiet m \<Longrightarrow> s_completed (snd (m s)) = s_completed s"
  by (auto simp: quiet_def)

lemma quiet_run: "quiet m \<Longrightarrow> m s = (r, s') \<Longrightarrow> s_dag s' = s_dag s \<and> s_completed s' = s_completed s"
  by (metis quiet_def snd_conv)

lemma quiet_ret [intro]: "quiet (ret x)"
  by (simp add: quiet_def)

lemma quiet_fetch [intro]: "quiet (fetch tid)"
  by (simp add: quiet_def fetch_run)

lemma quiet_persist [intro]: "quiet (persist env tid st msg)"
  by (auto simp: quiet_def persist_def zoom_run split: prod.splits)

lemma quiet_publish [intro]: "quiet (publish_event env ty payload)"
  by (auto simp: quiet_def publish_event_def attempt_run chain_run zoom_run
      split: prod.splits sum.splits)

lemma quiet_on_lock [intro]: "quiet (on_lock m)"
  by (auto simp: quiet_def on_lock_def zoom_run split: prod.splits)

lemma quiet_chain [intro]:
  assumes "quiet m" and "\<And>x. quiet (f x)"
  shows "quiet (chain m f)"
  using assms by (auto simp: quiet_def chain_run split: prod.splits sum.splits)
    (metis snd_conv)+

lemma publish_event_returns: "fst (publish_event env ty payload s) = Inr ()"
  by (auto simp: publish_event_def attempt_run chain_run zoom_run split: prod.splits sum.splits)

lemma mark_running_effect:
  "s_dag (snd (mark_running env now tid agent s)) =
     (case get_task (s_dag s) tid of
        Inl _ \<Rightarrow> s_dag s
      | Inr t \<Rightarrow> if may_become (status t) StatusEnum.RUNNING
          then replace_node tid (start_task now agent t) (s_dag s) else s_dag s)"
  "s_completed (snd (mark_running env now tid agent s)) = s_completed s"
proof -
  define rest :: "(exn, ('a, 'b, 'c) sched, unit) op" where
    "rest = chain (persist env tid StatusEnum.RUNNING None) (\<lambda>_.
       publish_event env EventType.TASK_STARTED
         [(''task_id'', JStr tid), (''agent_id'', JStr agent)])"
  have "quiet rest" unfolding rest_def by blast
  then show "s_dag (snd (mark_running env now tid agent s)) =
     (case get_task (s_dag s) tid of
        Inl _ \<Rightarrow> s_dag s
      | Inr t \<Rightarrow> if may_become (status t) StatusEnum.RUNNING
          then replace_node tid (start_task now agent t) (s_dag s) else s_dag s)"
    and "s_completed (snd (mark_running env now tid agent s)) = s_completed s"
    by (simp_all add: mark_running_def rest_def [symmetric] chain_run [of "fetch tid"]
        chain_run [of "assert_transition _ _"] op_simps quietD chain_run [of "store _ _"] store_run split: sum.splits)
qed

lemma mark_failed_effect:
  "s_dag (snd (mark_failed env now tid err s)) =
     (case get_task (s_dag s) tid of
        Inl _ \<Rightarrow> s_dag s
      | Inr t \<Rightarrow> if may_become (status t) StatusEnum.FAILED \<and> 1 \<le> current_attempt t
          then replace_node tid (fail_task now err (failure_record now err t) t) (s_dag s)
          else s_dag s)"
  "s_completed (snd (mark_failed env now tid err s)) = s_completed s"
proof -
  define rest :: "(exn, ('a, 'b, 'c) sched, unit) op" where
    "rest = chain (persist env tid StatusEnum.FAILED (Some err)) (\<lambda>_.
       publish_event env EventType.TASK_FAILED
         [(''task_id'', JStr tid), (''error_message'', JStr err)])"
  have "quiet rest" unfolding rest_def by blast
  moreover have "mk_retry_record (failure_record now err t) =
      (if 1 \<le> current_attempt t then Inr (failure_record now err t)
       else Inl (ValidationError ''TaskRetryRecord''))" for t
    by (simp add: mk_retry_record_def failure_record_def)
  ultimately show "s_dag (snd (mark_failed env now tid err s)) =
     (case get_task (s_dag s) tid of
        Inl _ \<Rightarrow> s_dag s
      | Inr t \<Rightarrow> if may_become (status t) StatusEnum.FAILED \<and> 1 \<le> current_attempt t
          then replace_node tid (fail_task now err (failure_record now err t) t) (s_dag s)
          else s_dag s)"
    and "s_completed (snd (mark_failed env now tid err s)) = s_completed s"
    by (simp_all add: mark_failed_def rest_def [symmetric] chain_run [of "fetch tid"]
        chain_run [of "assert_transition _ _"] chain_run [of "lift_sum _"] op_simps quietD
        chain_run [of "store _ _"] store_run split: sum.splits)
qed

lemma should_retry_effect:
  "s_dag (snd (should_retry env tid s)) =
     (case get_task (s_dag s) tid of
        Inl _ \<Rightarrow> s_dag s
      | Inr t \<Rightarrow> if status t = StatusEnum.FAILED \<and> current_attempt t < max_retries (budget t)
          then replace_node tid (reset_task t) (s_dag s) else s_dag s)"
  "s_completed (snd (should_retry env tid s)) = s_completed s"
proof -
  define rest :: "task \<Rightarrow> (exn, ('a, 'b, 'c) sched, bool) op" where
    "rest t = chain (persist env tid StatusEnum.PENDING None) (\<lambda>_.
       chain (publish_event env EventType.TASK_RETRIED
          [(''task_id'', JStr tid), (''attempt'', JInt (current_attempt t + 1))]) (\<lambda>_.
       ret True))" for t
  have "quiet (rest t)" for t unfolding rest_def by blast
  then show "s_dag (snd (should_retry env tid s)) =
     (case get_task (s_dag s) tid of
        Inl _ \<Rightarrow> s_dag s
      | Inr t \<Rightarrow> if status t = StatusEnum.FAILED \<and> current_attempt t < max_retries (budget t)
          then replace_node tid (reset_task t) (s_dag s) else s_dag s)"
    and "s_completed (snd (should_retry env tid s)) = s_completed s"
    by (simp_all add: should_retry_def rest_def [symmetric] chain_run [of "fetch tid"]
        op_simps quietD chain_run [of "store _ _"] store_run split: sum.splits)
qed

lemma mark_completed_effect:
  "s_dag (snd (mark_completed env now tid v s)) =
     (case get_task (s_dag s) tid of
        Inl _ \<Rightarrow> s_dag s
      | Inr t \<Rightarrow> if may_become (status t) StatusEnum.COMPLETED
          then replace_node tid (complete_task now v t) (s_dag s) else s_dag s)"
  "s_completed (snd (mark_completed env now tid v s)) =
     (case get_task (s_dag s) tid of
        Inl _ \<Rightarrow> s_completed s
      | Inr t \<Rightarrow> if may_become (status t) StatusEnum.COMPLETED
          then insert tid (s_completed s) else s_completed s)"
proof -
  define rest :: "(exn, ('a, 'b, 'c) sched, unit) op" where
    "rest = chain (on_lock (dist_mark_completed (env_redis env) tid)) (\<lambda>_.
       chain (persist env tid StatusEnum.COMPLETED None) (\<lambda>_.
       publish_event env EventType.TASK_COMPLETED
         [(''task_id'', JStr tid), (''verdict'', JStr (eval_verdict_value v))]))"
  have "quiet rest" unfolding rest_def by blast
  then show "s_dag (snd (mark_completed env now tid v s)) =
     (case get_task (s_dag s) tid of
        Inl _ \<Rightarrow> s_dag s
      | Inr t \<Rightarrow> if may_become (status t) StatusEnum.COMPLETED
          then replace_node tid (complete_task now v t) (s_dag s) else s_dag s)"
    and "s_completed (snd (mark_completed env now tid v s)) =
     (case get_task (s_dag s) tid of
        Inl _ \<Rightarrow> s_completed s
      | Inr t \<Rightarrow> if may_become (status t) StatusEnum.COMPLETED
          then insert tid (s_completed s) else s_completed s)"
    by (simp_all add: mark_completed_def rest_def [symmetric] chain_run [of "fetch tid"]
        chain_run [of "assert_transition _ _"] chain_run [of "store _ _"]
        chain_run [of "writes _"] op_simps store_run quietD split: sum.splits)
qed

lemma schedule_next_run:
  "schedule_next s =
     (case get_ready_tasks (s_dag s) (s_completed s) of
        [] \<Rightarrow> (Inr None, s)
      | tid # _ \<Rightarrow> (case get_task (s_dag s) tid of Inl e \<Rightarrow> (Inl e, s) | Inr t \<Rightarrow> (Inr (Some t), s)))"
  by (simp add: schedule_next_def chain_run op_simps split: list.splits sum.splits)

lemmas scheduler_effects =
  mark_running_effect mark_completed_effect mark_failed_effect should_retry_effect

end
