(* ===== verification/Scheduler_Safety.thy ===== *)
theory Scheduler_Safety
  imports Task_Scheduler
begin

text \<open>
  Safety of the scheduler. \<open>task_move\<close> is the abstract step of one task and \<open>dag_move\<close> of
  the graph; every operation of the scheduler, however it ends, is such a step
  (\<open>exec_dag_move\<close>), so the invariants are proved once, on the abstract steps.
\<close>

section \<open>The abstract steps\<close>

inductive task_move :: "task \<Rightarrow> task \<Rightarrow> bool" where
  move_start: "status t = StatusEnum.PENDING \<Longrightarrow> task_move t (start_task now agent t)"
| move_complete: "status t = StatusEnum.RUNNING \<Longrightarrow> task_move t (complete_task now v t)"
| move_fail: "status t = StatusEnum.RUNNING \<Longrightarrow> 1 \<le> current_attempt t \<Longrightarrow>
    task_move t (fail_task now err (failure_record now err t) t)"
| move_reset: "status t = StatusEnum.FAILED \<Longrightarrow> current_attempt t < max_retries (budget t) \<Longrightarrow>
    task_move t (reset_task t)"

inductive_cases task_moveE: "task_move t t'"

inductive dag_move :: "dag \<Rightarrow> dag \<Rightarrow> bool" where
  stay: "dag_move d d"
| move: "get_task d u = Inr t \<Longrightarrow> task_move t t' \<Longrightarrow> dag_move d (replace_node u t' d)"

inductive_cases dag_moveE: "dag_move d d'"

lemma may_become_RUNNING: "may_become a StatusEnum.RUNNING \<longleftrightarrow> a = StatusEnum.PENDING"
  by (cases a) (simp_all add: may_become_def)

lemma may_become_COMPLETED: "may_become a StatusEnum.COMPLETED \<longleftrightarrow> a = StatusEnum.RUNNING"
  by (cases a) (simp_all add: may_become_def)

lemma may_become_FAILED: "may_become a StatusEnum.FAILED \<longleftrightarrow> a = StatusEnum.RUNNING"
  by (cases a) (simp_all add: may_become_def)

lemmas may_become_from = may_become_RUNNING may_become_COMPLETED may_become_FAILED

lemma task_move_status: "task_move t t' \<Longrightarrow> may_become (status t) (status t')"
  by (erule task_moveE)
    (simp_all add: start_task_def complete_task_def fail_task_def reset_task_def may_become_def)

lemma task_move_frame:
  "task_move t t' \<Longrightarrow> t_id t' = t_id t \<and> budget t' = budget t \<and> dependencies t' = dependencies t \<and>
     priority t' = priority t"
  by (erule task_moveE)
    (simp_all add: start_task_def complete_task_def fail_task_def reset_task_def)

lemma update_of_get: "get_task d u = Inr t \<Longrightarrow> update_task d u t' = Inr (replace_node u t' d)"
  using get_task_has [of d u] by (auto simp: update_task_def)

lemma dag_move_cases:
  "dag_move d d' \<Longrightarrow> d' = d \<or>
     (\<exists>v w w'. get_task d v = Inr w \<and> task_move w w' \<and> d' = replace_node v w' d)"
  by (erule dag_moveE) blast+

lemma dag_move_tasks:
  assumes "dag_move d d'" and "get_task d u = Inr t"
  obtains t' where "get_task d' u = Inr t'" and "t' = t \<or> task_move t t'"
  using dag_move_cases [OF assms(1)]
proof
  assume "d' = d"
  with assms(2) that show ?thesis by simp
next
  assume "\<exists>v w w'. get_task d v = Inr w \<and> task_move w w' \<and> d' = replace_node v w' d"
  then obtain v w w' where v: "get_task d v = Inr w" "task_move w w'" "d' = replace_node v w' d"
    by blast
  with get_update_task [OF update_of_get [OF v(1)], of w' u] assms(2) that show ?thesis
    by (cases "u = v") simp_all
qed

lemma dag_move_frame:
  assumes "dag_move d d'"
  shows "edges d' = edges d" and "node_set d' = node_set d" and "dag_wf d \<Longrightarrow> dag_wf d'"
proof -
  have "d' = d \<or> (\<exists>u t'. update_task d u t' = Inr d')"
    using assms by (auto elim!: dag_moveE dest: update_of_get)
  then show "edges d' = edges d" and "node_set d' = node_set d" and "dag_wf d \<Longrightarrow> dag_wf d'"
    by (auto dest: update_task_edges update_task_node_set intro: update_task_wf)
qed

section \<open>Every operation is an abstract step\<close>

datatype sched_cmd =
    Claim rat "rat list" time agent_id
  | MarkRunning time task_id agent_id
  | MarkCompleted time task_id EvalVerdict
  | MarkFailed time task_id string
  | ShouldRetry task_id

text \<open>The state after a call; an exception goes to the caller and the object lives on.\<close>

fun exec :: "('r, 'd, 'p) sched_env \<Rightarrow> sched_cmd \<Rightarrow> ('r, 'd, 'p) sched \<Rightarrow> ('r, 'd, 'p) sched" where
  "exec env (Claim start clock now agent) s = snd (schedule_and_claim env start clock now agent s)"
| "exec env (MarkRunning now tid agent) s = snd (mark_running env now tid agent s)"
| "exec env (MarkCompleted now tid v) s = snd (mark_completed env now tid v s)"
| "exec env (MarkFailed now tid err) s = snd (mark_failed env now tid err s)"
| "exec env (ShouldRetry tid) s = snd (should_retry env tid s)"

definition exec_all :: "('r, 'd, 'p) sched_env \<Rightarrow> sched_cmd list \<Rightarrow> ('r, 'd, 'p) sched \<Rightarrow>
    ('r, 'd, 'p) sched" where
  "exec_all env cmds s = fold (exec env) cmds s"

text \<open>
  A step of the object: the graph moves as above, the completed set only grows, and a task
  that becomes COMPLETED is in it.
\<close>

definition sched_move :: "('r, 'd, 'p) sched \<Rightarrow> ('r, 'd, 'p) sched \<Rightarrow> bool" where
  "sched_move s s' \<longleftrightarrow> dag_move (s_dag s) (s_dag s') \<and> s_completed s \<subseteq> s_completed s' \<and>
     (\<forall>u t'. get_task (s_dag s') u = Inr t' \<and> status t' = StatusEnum.COMPLETED \<longrightarrow>
        get_task (s_dag s) u = Inr t' \<or> u \<in> s_completed s')"

lemma get_replaced:
  "get_task d u = Inr t \<Longrightarrow> get_task (replace_node u t' d) v = (if v = u then Inr t' else get_task d v)"
  by (rule get_update_task [OF update_of_get])

lemma sched_move_refl: "s_dag s' = s_dag s \<Longrightarrow> s_completed s \<subseteq> s_completed s' \<Longrightarrow> sched_move s s'"
  by (simp add: sched_move_def stay)

lemma sched_move_same:
  "sched_move s t \<Longrightarrow> s_dag s' = s_dag t \<Longrightarrow> s_completed s' = s_completed t \<Longrightarrow> sched_move s s'"
  by (simp add: sched_move_def)

lemma sched_move_start:
  assumes "get_task (s_dag s) u = Inr t" and "status t = StatusEnum.PENDING"
    and "s_dag s' = replace_node u (start_task now agent t) (s_dag s)"
    and "s_completed s \<subseteq> s_completed s'"
  shows "sched_move s s'"
  using assms
  by (auto simp: sched_move_def get_replaced start_task_def intro!: move [OF assms(1)]
      move_start [of t now agent, unfolded start_task_def] split: if_splits)

lemma mark_running_move: "sched_move s (snd (mark_running env now tid agent s))"
proof (cases "\<exists>t. get_task (s_dag s) tid = Inr t \<and> status t = StatusEnum.PENDING")
  case True
  then show ?thesis
    by (auto simp: mark_running_effect may_become_from intro: sched_move_start)
next
  case False
  then show ?thesis
    by (auto simp: mark_running_effect may_become_from intro: sched_move_refl split: sum.splits)
qed

lemma mark_completed_move: "sched_move s (snd (mark_completed env now tid v s))"
proof (cases "get_task (s_dag s) tid")
  case (Inr t)
  then show ?thesis
    by (auto simp: sched_move_def mark_completed_effect may_become_from get_replaced
        intro!: stay intro: move move_complete split: if_splits)
qed (simp add: mark_completed_effect sched_move_refl)

lemma mark_failed_move: "sched_move s (snd (mark_failed env now tid err s))"
proof (cases "get_task (s_dag s) tid")
  case (Inr t)
  then show ?thesis
    by (auto simp: sched_move_def mark_failed_effect may_become_from get_replaced fail_task_def
        intro!: stay intro: move move_fail [unfolded fail_task_def] split: if_splits)
qed (simp add: mark_failed_effect sched_move_refl)

lemma should_retry_move: "sched_move s (snd (should_retry env tid s))"
proof (cases "get_task (s_dag s) tid")
  case (Inr t)
  then show ?thesis
    by (auto simp: sched_move_def should_retry_effect get_replaced reset_task_def
        intro!: stay intro: move move_reset [unfolded reset_task_def] split: if_splits)
qed (simp add: should_retry_effect sched_move_refl)

subsection \<open>Claiming\<close>

lemma on_lock_run: "on_lock m s = (r, s') \<Longrightarrow> s_dag s' = s_dag s \<and> s_completed s' = s_completed s"
  by (rule quiet_run [OF quiet_on_lock])

lemmas zoom_lock_run = on_lock_run [unfolded on_lock_def]

lemma claim_ready_move: "sched_move s (snd (claim_ready env now agent s))"
proof (cases "\<exists>tid tids t. get_ready_tasks (s_dag s) (s_completed s) = tid # tids \<and>
    get_task (s_dag s) tid = Inr t")
  case False
  then show ?thesis
    by (auto simp: claim_ready_def chain_run op_simps schedule_next_run intro: sched_move_refl
        split: list.splits sum.splits)
next
  case True
  then obtain tid tids t where ready: "get_ready_tasks (s_dag s) (s_completed s) = tid # tids"
    and t: "get_task (s_dag s) tid = Inr t" by blast
  obtain rc s3 where cl: "on_lock (try_claim_task (env_redis env) (t_id t)) s = (rc, s3)"
    by fastforce
  note f = on_lock_run [OF cl]
  have move: "sched_move s (snd (mark_running env now (t_id t) agent s3))"
    using mark_running_move [of s3 env now "t_id t" agent] f by (simp add: sched_move_def)
  have "snd (claim_ready env now agent s) \<in> {s3, snd (mark_running env now (t_id t) agent s3)}"
    using ready t cl
    by (auto simp: claim_ready_def chain_run op_simps schedule_next_run
        split: sum.splits prod.splits)
  with f move show ?thesis by (auto intro: sched_move_refl)
qed

lemma claim_body_move: "sched_move s (snd (claim_body env now agent s))"
proof -
  obtain r s1 where lk: "on_lock (get_completed (env_redis env)) s = (r, s1)" by fastforce
  note f = on_lock_run [OF lk]
  show ?thesis
  proof (cases r)
    case (Inl e)
    with lk f show ?thesis by (simp add: claim_body_def chain_run sched_move_refl)
  next
    case (Inr D)
    then have "snd (claim_body env now agent s) =
        snd (claim_ready env now agent (s1\<lparr>s_completed := s_completed s1 \<union> D\<rparr>))"
      using lk by (simp add: claim_body_def chain_run op_simps)
    with claim_ready_move [of "s1\<lparr>s_completed := s_completed s1 \<union> D\<rparr>" env now agent] f
    show ?thesis by (auto simp: sched_move_def)
  qed
qed

lemma schedule_and_claim_move: "sched_move s (snd (schedule_and_claim env start clock now agent s))"
proof (cases "redis (s_lock s)")
  case None
  then show ?thesis
    by (simp add: schedule_and_claim_def with_schedule_lock_def claim_body_move)
next
  case (Some rr)
  obtain r s1 where acq: "zoom s_lock (\<lambda>l s. s\<lparr>s_lock := l\<rparr>)
      (acquire_loop (env_redis env) (start + 5) clock 0) s = (r, s1)" by fastforce
  note f1 = zoom_lock_run [OF acq]
  obtain b s2 where body: "claim_body env now agent s1 = (b, s2)" by fastforce
  have m: "sched_move s s2"
    using claim_body_move [of s1 env now agent] body f1 by (simp add: sched_move_def)
  obtain c s3 where rel: "zoom s_lock (\<lambda>l s. s\<lparr>s_lock := l\<rparr>) (release_lock (env_redis env)) s2 = (c, s3)"
    by fastforce
  note f3 = zoom_lock_run [OF rel]
  have "snd (schedule_and_claim env start clock now agent s) \<in> {s1, s3}"
    using Some acq body rel
    by (auto simp: schedule_and_claim_def with_schedule_lock_def chain_run finally_do_run
        split: sum.splits option.splits bool.splits)
  then show ?thesis
    using f1 f3 m by (auto intro: sched_move_refl sched_move_same)
qed

lemma exec_move: "sched_move s (exec env c s)"
  by (cases c) (simp_all add: schedule_and_claim_move mark_running_move mark_completed_move
      mark_failed_move should_retry_move)

lemma exec_dag_move: "dag_move (s_dag s) (s_dag (exec env c s))"
  using exec_move [of s env c] by (simp add: sched_move_def)

section \<open>Invariants\<close>

text \<open>How often a task has run, against its retry budget.\<close>

definition attempt_limit :: "task \<Rightarrow> int" where
  "attempt_limit t = max 1 (max_retries (budget t))"

definition attempts_ok :: "task \<Rightarrow> bool" where
  "attempts_ok t \<longleftrightarrow>
     int (length (retry_history t)) \<le> current_attempt t \<and>
     current_attempt t \<le> attempt_limit t \<and>
     (status t = StatusEnum.PENDING \<longrightarrow> current_attempt t < attempt_limit t) \<and>
     (status t = StatusEnum.RUNNING \<longrightarrow> int (length (retry_history t)) < current_attempt t)"

lemma attempts_ok_move: "task_move t t' \<Longrightarrow> attempts_ok t \<Longrightarrow> attempts_ok t'"
  by (erule task_moveE)
    (simp_all add: attempts_ok_def attempt_limit_def start_task_def complete_task_def fail_task_def
      reset_task_def max_def split: if_splits)

definition sched_inv :: "('r, 'd, 'p) sched \<Rightarrow> bool" where
  "sched_inv s \<longleftrightarrow> dag_wf (s_dag s) \<and>
     (\<forall>u t. get_task (s_dag s) u = Inr t \<longrightarrow>
        t_id t = u \<and> attempts_ok t \<and> (status t = StatusEnum.COMPLETED \<longrightarrow> u \<in> s_completed s))"

lemma sched_move_inv:
  assumes m: "sched_move s s'" and inv: "sched_inv s"
  shows "sched_inv s'"
proof -
  have d: "dag_move (s_dag s) (s_dag s')" and c: "s_completed s \<subseteq> s_completed s'"
    using m by (auto simp: sched_move_def)
  have "t_id t' = u \<and> attempts_ok t' \<and> (status t' = StatusEnum.COMPLETED \<longrightarrow> u \<in> s_completed s')"
    if t': "get_task (s_dag s') u = Inr t'" for u t'
  proof -
    have "has_node (s_dag s) u"
      using t' get_task_has [of "s_dag s'" u] dag_move_frame(2) [OF d] by auto
    then obtain t where t: "get_task (s_dag s) u = Inr t"
      using get_task_has [of "s_dag s" u] by auto
    then obtain t'' where "get_task (s_dag s') u = Inr t''" "t'' = t \<or> task_move t t''"
      by (rule dag_move_tasks [OF d])
    with t' have tt: "t' = t \<or> task_move t t'" by simp
    have "t_id t = u" and "attempts_ok t" and "status t = StatusEnum.COMPLETED \<longrightarrow> u \<in> s_completed s"
      using inv t by (auto simp: sched_inv_def)
    then have "t_id t' = u" and "attempts_ok t'"
      using tt task_move_frame [of t t'] attempts_ok_move [of t t'] by auto
    moreover have "u \<in> s_completed s'" if "status t' = StatusEnum.COMPLETED"
      using m t' that t inv c unfolding sched_move_def sched_inv_def by blast
    ultimately show ?thesis by blast
  qed
  moreover have "dag_wf (s_dag s')" using dag_move_frame(3) [OF d] inv by (simp add: sched_inv_def)
  ultimately show ?thesis by (simp add: sched_inv_def)
qed

lemma exec_all_induct [consumes 1, case_names step]:
  assumes "P s" and "\<And>c s. P s \<Longrightarrow> P (exec env c s)"
  shows "P (exec_all env cmds s)"
  using assms(1) unfolding exec_all_def
  by (induction cmds arbitrary: s) (auto intro: assms(2))

lemma exec_all_inv: "sched_inv s \<Longrightarrow> sched_inv (exec_all env cmds s)"
proof (induction rule: exec_all_induct)
  case (step c s)
  show ?case by (rule sched_move_inv [OF exec_move step])
qed

text \<open>Following one task through a run.\<close>

definition evolves :: "task \<Rightarrow> task \<Rightarrow> bool" where
  "evolves t t' \<longleftrightarrow> may_become\<^sup>*\<^sup>* (status t) (status t') \<and> t_id t' = t_id t \<and> budget t' = budget t \<and>
     dependencies t' = dependencies t \<and> priority t' = priority t"

lemma evolves_refl: "evolves t t"
  by (simp add: evolves_def)

lemma evolves_step: "evolves t t' \<Longrightarrow> task_move t' t'' \<Longrightarrow> evolves t t''"
  using task_move_status [of t' t''] task_move_frame [of t' t'']
  by (auto simp: evolves_def intro: rtranclp.rtrancl_into_rtrancl)

lemma exec_all_evolves:
  assumes "get_task (s_dag s) u = Inr t"
  shows "\<exists>t'. get_task (s_dag (exec_all env cmds s)) u = Inr t' \<and> evolves t t'"
proof (rule exec_all_induct [of "\<lambda>s. \<exists>t'. get_task (s_dag s) u = Inr t' \<and> evolves t t'"])
  show "\<exists>t'. get_task (s_dag s) u = Inr t' \<and> evolves t t'"
    using assms evolves_refl by blast
next
  fix c and s :: "('a, 'b, 'c) sched"
  assume "\<exists>t'. get_task (s_dag s) u = Inr t' \<and> evolves t t'"
  then obtain t' where t': "get_task (s_dag s) u = Inr t'" and e: "evolves t t'" by blast
  from dag_move_tasks [OF exec_dag_move t'] obtain t''
    where "get_task (s_dag (exec env c s)) u = Inr t''" and "t'' = t' \<or> task_move t' t''" .
  with e show "\<exists>t'. get_task (s_dag (exec env c s)) u = Inr t' \<and> evolves t t'"
    using evolves_step by blast
qed

lemma exec_all_graph:
  "edges (s_dag (exec_all env cmds s)) = edges (s_dag s) \<and>
   node_set (s_dag (exec_all env cmds s)) = node_set (s_dag s) \<and>
   s_completed s \<subseteq> s_completed (exec_all env cmds s)"
proof (rule exec_all_induct [of "\<lambda>s'. edges (s_dag s') = edges (s_dag s) \<and>
    node_set (s_dag s') = node_set (s_dag s) \<and> s_completed s \<subseteq> s_completed s'"])
  fix c and s' :: "('a, 'b, 'c) sched"
  assume "edges (s_dag s') = edges (s_dag s) \<and> node_set (s_dag s') = node_set (s_dag s) \<and>
      s_completed s \<subseteq> s_completed s'"
  with dag_move_frame(1,2) [OF exec_dag_move [of s' env c]] exec_move [of s' env c]
  show "edges (s_dag (exec env c s')) = edges (s_dag s) \<and>
      node_set (s_dag (exec env c s')) = node_set (s_dag s) \<and>
      s_completed s \<subseteq> s_completed (exec env c s')"
    by (auto simp: sched_move_def)
qed simp

end
