(* ===== verification/Scheduler_Claim.thy ===== *)
theory Scheduler_Claim
  imports Scheduler_Safety
begin

text \<open>
  Claiming: what \<^verbatim>\<open>schedule_and_claim\<close> returns in a single process, the loop of an agent
  that claims and completes until nothing is ready, and the exclusion of claims between
  schedulers that share a Redis.
\<close>

section \<open>One process\<close>

text \<open>The task table accepts every update.\<close>

definition reliable :: "('r, 'd, 'p) sched_env \<Rightarrow> bool" where
  "reliable env \<longleftrightarrow> (\<forall>tid st msg d. fst (update_status env tid st msg d) = Inr ())"

lemma persist_reliable:
  assumes "reliable env"
  shows "fst (persist env tid st msg s) = Inr ()"
proof -
  have "fst (update_status env tid st msg (s_db s)) = Inr ()" using assms by (simp add: reliable_def)
  then show ?thesis by (cases "update_status env tid st msg (s_db s)") (simp add: persist_def zoom_run)
qed

lemma returns_unit: "fst (m s) = Inr () \<Longrightarrow> m s = (Inr (), snd (m s))"
  by (cases "m s") simp

lemma persist_publish_reliable:
  assumes "reliable env"
  shows "fst (chain (persist env tid st msg) (\<lambda>_. publish_event env ty pl) s) = Inr ()"
  using persist_reliable [OF assms, of tid st msg s]
  by (cases "persist env tid st msg s") (simp add: chain_run publish_event_returns)

lemma mark_running_result:
  assumes "reliable env" and "get_task (s_dag s) tid = Inr t"
  shows "fst (mark_running env now tid agent s) =
    (if status t = StatusEnum.PENDING then Inr ()
     else Inl (InvalidTransitionError (t_id t) (status t) StatusEnum.RUNNING))"
  using assms persist_publish_reliable [OF assms(1)]
  by (simp add: mark_running_def chain_run [of "fetch tid"] chain_run [of "assert_transition _ _"]
      chain_run [of "store _ _"] op_simps store_run may_become_from)

lemma persist_publish_lock:
  "s_lock (snd (chain (persist env tid st msg) (\<lambda>_. publish_event env ty pl) s)) = s_lock s"
  by (auto simp: persist_def publish_event_def attempt_run chain_run zoom_run
      split: prod.splits sum.splits)

lemma mark_running_lock: "s_lock (snd (mark_running env now tid agent s)) = s_lock s"
  by (cases "get_task (s_dag s) tid")
    (simp_all add: mark_running_def chain_run [of "fetch tid"] chain_run [of "assert_transition _ _"]
      chain_run [of "store _ _"] fetch_run assert_transition_run store_run persist_publish_lock)

lemma zoom_id: "put (part s) s = s \<Longrightarrow> m (part s) = (r, part s) \<Longrightarrow> zoom part put m s = (r, s)"
  by (simp add: zoom_run)

lemma mark_completed_local:
  assumes "reliable env" and "get_task (s_dag s) tid = Inr t" and "status t = StatusEnum.RUNNING"
    and "redis (s_lock s) = None"
  shows "fst (mark_completed env now tid v s) = Inr ()"
    and "s_lock (snd (mark_completed env now tid v s)) =
      (s_lock s)\<lparr>local_completed := insert tid (local_completed (s_lock s))\<rparr>"
proof -
  define s1 where "s1 = s\<lparr>s_dag := replace_node tid (complete_task now v t) (s_dag s),
    s_completed := insert tid (s_completed s)\<rparr>"
  define s2 where "s2 = s1\<lparr>s_lock := (s_lock s)\<lparr>local_completed :=
    insert tid (local_completed (s_lock s))\<rparr>\<rparr>"
  have "on_lock (dist_mark_completed (env_redis env) tid) s1 = (Inr (), s2)"
    using assms(4) by (simp add: on_lock_def zoom_run dist_mark_completed_def chain_run on_redis_def
        s1_def s2_def)
  then have *: "mark_completed env now tid v s =
      chain (persist env tid StatusEnum.COMPLETED None) (\<lambda>_.
        publish_event env EventType.TASK_COMPLETED
          [(''task_id'', JStr tid), (''verdict'', JStr (eval_verdict_value v))]) s2"
    using assms(2,3)
    by (simp add: mark_completed_def chain_run [of "fetch tid"] chain_run [of "assert_transition _ _"]
      chain_run [of "store _ _"] chain_run [of "writes _"] chain_run [of "on_lock _"]
      op_simps store_run may_become_from s1_def)
  then show "fst (mark_completed env now tid v s) = Inr ()"
    by (simp add: persist_publish_reliable [OF assms(1)])
  show "s_lock (snd (mark_completed env now tid v s)) =
      (s_lock s)\<lparr>local_completed := insert tid (local_completed (s_lock s))\<rparr>"
    by (simp add: * persist_publish_lock) (simp add: s2_def)
qed

lemma claim_local:
  assumes "redis (s_lock s) = None"
  shows "schedule_and_claim env start clock now agent s =
    claim_ready env now agent (s\<lparr>s_completed := s_completed s \<union> local_completed (s_lock s)\<rparr>)"
proof -
  have "on_lock (get_completed (env_redis env)) s = (Inr (local_completed (s_lock s)), s)"
    using assms by (simp add: on_lock_def zoom_run get_completed_def)
  with assms show ?thesis
    by (simp add: schedule_and_claim_def with_schedule_lock_def claim_body_def chain_run op_simps)
qed

lemma claim_ready_local:
  assumes "redis (s_lock s) = None"
  shows "claim_ready env now agent s =
    (case get_ready_tasks (s_dag s) (s_completed s) of
       [] \<Rightarrow> (Inr None, s)
     | tid # _ \<Rightarrow> (case get_task (s_dag s) tid of
         Inl e \<Rightarrow> (Inl e, s)
       | Inr t \<Rightarrow> chain (mark_running env now (t_id t) agent)
           (\<lambda>_. chain (fetch (t_id t)) (\<lambda>u. ret (Some u))) s))"
proof -
  have "on_lock (try_claim_task (env_redis env) tid) s = (Inr True, s)" for tid
    using assms by (simp add: on_lock_def zoom_run try_claim_task_def on_redis_def)
  then show ?thesis
    by (simp add: claim_ready_def chain_run [of schedule_next] schedule_next_run
        chain_run [of "on_lock _"] split: list.splits sum.splits)
qed

lemma claim_local_outcome:
  assumes inv: "sched_inv s" and loc: "redis (s_lock s) = None" and rel: "reliable env"
  shows "fst (schedule_and_claim env start clock now agent s) =
    (case get_ready_tasks (s_dag s) (s_completed s \<union> local_completed (s_lock s)) of
       [] \<Rightarrow> Inr None
     | tid # _ \<Rightarrow> (case get_task (s_dag s) tid of
         Inl e \<Rightarrow> Inl e
       | Inr t \<Rightarrow> if status t = StatusEnum.PENDING then Inr (Some (start_task now agent t))
           else Inl (InvalidTransitionError tid (status t) StatusEnum.RUNNING)))"
proof -
  define s1 where "s1 = s\<lparr>s_completed := s_completed s \<union> local_completed (s_lock s)\<rparr>"
  have s1: "s_dag s1 = s_dag s" "redis (s_lock s1) = None"
    "s_completed s1 = s_completed s \<union> local_completed (s_lock s)"
    using loc by (simp_all add: s1_def)
  have claim: "schedule_and_claim env start clock now agent s = claim_ready env now agent s1"
    using claim_local [OF loc] by (simp add: s1_def)
  have run: "fst (chain (mark_running env now tid agent)
        (\<lambda>_. chain (fetch tid) (\<lambda>u. ret (Some u))) s1) =
      (if status t = StatusEnum.PENDING then Inr (Some (start_task now agent t))
       else Inl (InvalidTransitionError tid (status t) StatusEnum.RUNNING))"
    if t: "get_task (s_dag s) tid = Inr t" for tid t
  proof -
    have id: "t_id t = tid" using inv t by (auto simp: sched_inv_def)
    obtain r s2 where m: "mark_running env now tid agent s1 = (r, s2)" by fastforce
    have r: "r = (if status t = StatusEnum.PENDING then Inr ()
        else Inl (InvalidTransitionError tid (status t) StatusEnum.RUNNING))"
      using mark_running_result [OF rel, of s1 tid t now agent] t m s1 id by simp
    have "s_dag s2 = replace_node tid (start_task now agent t) (s_dag s)"
      if "status t = StatusEnum.PENDING"
      using mark_running_effect(1) [of env now tid agent s1] t m s1 that
      by (simp add: may_become_from)
    with m r t show ?thesis by (auto simp: chain_run op_simps get_replaced)
  qed
  show ?thesis
  proof (cases "get_ready_tasks (s_dag s) (s_completed s \<union> local_completed (s_lock s))")
    case Nil
    then show ?thesis by (simp add: claim claim_ready_local s1)
  next
    case (Cons tid tids)
    show ?thesis
    proof (cases "get_task (s_dag s) tid")
      case (Inl e)
      with Cons show ?thesis by (simp add: claim claim_ready_local s1)
    next
      case (Inr t)
      moreover have "t_id t = tid" using inv Inr by (auto simp: sched_inv_def)
      ultimately show ?thesis using Cons run [OF Inr] by (simp add: claim claim_ready_local s1)
    qed
  qed
qed

section \<open>An agent that works until nothing is ready\<close>

text \<open>Claim the next task, complete it with verdict PASS, up to \<open>n\<close> times.\<close>

fun work :: "('r, 'd, 'p) sched_env \<Rightarrow> agent_id \<Rightarrow> nat \<Rightarrow> (exn, ('r, 'd, 'p) sched, task_id list) op" where
  "work env agent 0 = ret []"
| "work env agent (Suc n) =
     chain (schedule_and_claim env 0 [] 0 agent) (\<lambda>next. case next of
       None \<Rightarrow> ret []
     | Some t \<Rightarrow>
         chain (mark_completed env 0 (t_id t) EvalVerdict.PASS) (\<lambda>_.
         chain (work env agent n) (\<lambda>ts. ret (t_id t # ts))))"

text \<open>The state between two rounds: whatever is not completed is pending.\<close>

definition between_rounds :: "('r, 'd, 'p) sched \<Rightarrow> bool" where
  "between_rounds s \<longleftrightarrow> sched_inv s \<and> redis (s_lock s) = None \<and>
     local_completed (s_lock s) \<subseteq> s_completed s \<and>
     (\<forall>u t. get_task (s_dag s) u = Inr t \<longrightarrow>
        status t = (if u \<in> s_completed s then StatusEnum.COMPLETED else StatusEnum.PENDING))"

lemma between_rounds_status:
  "between_rounds s \<Longrightarrow> get_task (s_dag s) u = Inr t \<Longrightarrow>
     status t = (if u \<in> s_completed s then StatusEnum.COMPLETED else StatusEnum.PENDING)"
  unfolding between_rounds_def by blast

lemma sched_inv_id: "sched_inv s \<Longrightarrow> get_task (s_dag s) u = Inr t \<Longrightarrow> t_id t = u"
  unfolding sched_inv_def by blast

lemma ready_replace:
  assumes "get_task d u = Inr t" and "priority t' = priority t"
  shows "get_ready_tasks (replace_node u t' d) C = get_ready_tasks d C"
proof -
  have up: "update_task d u t' = Inr (replace_node u t' d)" using assms(1) by (rule update_of_get)
  have "task_priority (replace_node u t' d) v = task_priority d v" for v
    using assms by (simp add: task_priority_def replace_node_def get_task_Inr)
  moreover have "is_ready (replace_node u t' d) C = is_ready d C"
    by (rule ext) (simp add: is_ready_def predecessors_def update_task_edges [OF up])
  ultimately show ?thesis by (simp add: get_ready_tasks_def update_task_ids [OF up])
qed

lemma ready_run_replace:
  assumes "get_task d u = Inr t" and "priority t' = priority t"
  shows "ready_run n (replace_node u t' d) C = ready_run n d C"
  by (induction n arbitrary: C) (simp_all add: ready_replace [OF assms] split: list.splits)

text \<open>One round: the first ready task is claimed and completed.\<close>

lemma one_round:
  assumes b: "between_rounds s" and rel: "reliable env"
    and ready: "get_ready_tasks (s_dag s) (s_completed s) = tid # tids"
  obtains t s1 s2 where "schedule_and_claim env 0 [] 0 agent s = (Inr (Some t), s1)"
    and "t_id t = tid" and "mark_completed env 0 tid EvalVerdict.PASS s1 = (Inr (), s2)"
    and "between_rounds s2" and "s_completed s2 = insert tid (s_completed s)"
    and "\<And>n C. ready_run n (s_dag s2) C = ready_run n (s_dag s) C"
    and "edges (s_dag s2) = edges (s_dag s)" and "node_set (s_dag s2) = node_set (s_dag s)"
proof -
  have inv: "sched_inv s" and loc: "redis (s_lock s) = None"
    and un: "s_completed s \<union> local_completed (s_lock s) = s_completed s"
    using b by (auto simp: between_rounds_def)
  have tid: "tid \<in> set (get_ready_tasks (s_dag s) (s_completed s))" using ready by simp
  from dag_source.ready_get [OF this] obtain t0 where t0: "get_task (s_dag s) tid = Inr t0"
    by blast
  have notin: "tid \<notin> s_completed s" using tid by (simp add: ready_iff)
  have pend: "status t0 = StatusEnum.PENDING"
    using between_rounds_status [OF b t0] notin by simp
  have id: "t_id t0 = tid" by (rule sched_inv_id [OF inv t0])
  define t where "t = start_task 0 agent t0"
  obtain r s1 where cl: "schedule_and_claim env 0 [] 0 agent s = (r, s1)" by fastforce
  have r: "r = Inr (Some t)"
    using claim_local_outcome [OF inv loc rel, of 0 "[]" 0 agent] cl un ready t0 pend
    by (simp add: t_def)
  define s0 where "s0 = s\<lparr>s_completed := s_completed s \<union> local_completed (s_lock s)\<rparr>"
  have s0: "s0 = s" using un by (simp add: s0_def)
  obtain x sx where run: "mark_running env 0 tid agent s = (x, sx)" by fastforce
  have "snd (schedule_and_claim env 0 [] 0 agent s) = snd (mark_running env 0 tid agent s)"
    using claim_local [OF loc, of env 0 "[]" 0 agent] claim_ready_local [OF loc, of env 0 agent]
      ready t0 id run s0
    by (auto simp: s0_def chain_run op_simps split: sum.splits)
  then have s1run: "s1 = snd (mark_running env 0 tid agent s)" using cl by simp
  have d1: "s_dag s1 = replace_node tid t (s_dag s)" and c1: "s_completed s1 = s_completed s"
    using t0 pend by (simp_all add: s1run mark_running_effect may_become_from t_def)
  have l1: "s_lock s1 = s_lock s" by (simp add: s1run mark_running_lock)
  have t1: "get_task (s_dag s1) tid = Inr t" using t0 by (simp add: d1 get_replaced)
  have run1: "status t = StatusEnum.RUNNING" by (simp add: t_def start_task_def)
  obtain y s2 where mc: "mark_completed env 0 tid EvalVerdict.PASS s1 = (y, s2)" by fastforce
  have l1r: "redis (s_lock s1) = None" using loc l1 by simp
  note comp = mark_completed_local [OF rel t1 run1 l1r, of 0 EvalVerdict.PASS, unfolded mc]
  define u where "u = complete_task 0 EvalVerdict.PASS t"
  have d2: "s_dag s2 = replace_node tid u (s_dag s1)"
    and c2: "s_completed s2 = insert tid (s_completed s)"
    using mark_completed_effect [of env 0 tid EvalVerdict.PASS s1, unfolded mc] t1 run1 c1
    by (simp_all add: may_become_from u_def)
  have l2: "s_lock s2 = (s_lock s)\<lparr>local_completed := insert tid (local_completed (s_lock s))\<rparr>"
    using comp(2) l1 by simp
  have get2: "get_task (s_dag s2) v = (if v = tid then Inr u else get_task (s_dag s) v)" for v
    using t0 t1 by (simp add: d2 d1 get_replaced)
  have inv2: "sched_inv s2"
  proof -
    have "sched_inv s1" using sched_move_inv [OF schedule_and_claim_move inv] cl
      by (metis snd_conv)
    then show ?thesis using sched_move_inv [OF mark_completed_move] mc by (metis snd_conv)
  qed
  have "status w = (if v \<in> s_completed s2 then StatusEnum.COMPLETED else StatusEnum.PENDING)"
    if "get_task (s_dag s2) v = Inr w" for v w
    using that between_rounds_status [OF b, of v w]
    by (auto simp: get2 c2 u_def complete_task_def split: if_splits)
  then have "between_rounds s2"
    using inv2 l2 c2 loc b unfolding between_rounds_def by auto
  moreover have "ready_run n (s_dag s2) C = ready_run n (s_dag s) C" for n C
    using t0 t1
    by (simp add: d2 d1 ready_run_replace u_def t_def complete_task_def start_task_def)
  moreover have "edges (s_dag s2) = edges (s_dag s)" and "node_set (s_dag s2) = node_set (s_dag s)"
    using t0 t1 update_task_edges [OF update_of_get] update_task_node_set [OF update_of_get]
    by (simp_all add: d2 d1)
  moreover have "t_id t = tid" by (simp add: t_def start_task_def id)
  moreover have "mark_completed env 0 tid EvalVerdict.PASS s1 = (Inr (), s2)"
    using comp(1) mc by simp
  ultimately show ?thesis using that [of t s1 s2] cl r c2 by blast
qed

lemma work_run:
  assumes "between_rounds s" and "reliable env"
  shows "\<exists>s'. work env agent n s = (Inr (ready_run n (s_dag s) (s_completed s)), s') \<and>
    between_rounds s' \<and>
    s_completed s' = s_completed s \<union> set (ready_run n (s_dag s) (s_completed s)) \<and>
    node_set (s_dag s') = node_set (s_dag s)"
  using assms(1)
proof (induction n arbitrary: s)
  case 0
  then show ?case by simp
next
  case (Suc n)
  show ?case
  proof (cases "get_ready_tasks (s_dag s) (s_completed s)")
    case Nil
    have loc: "redis (s_lock s) = None" and inv: "sched_inv s"
      and un: "s_completed s \<union> local_completed (s_lock s) = s_completed s"
      using Suc.prems by (auto simp: between_rounds_def)
    then have "s\<lparr>s_completed := s_completed s \<union> local_completed (s_lock s)\<rparr> = s" by simp
    then have "schedule_and_claim env 0 [] 0 agent s = (Inr None, s)"
      using Nil loc by (simp add: claim_local claim_ready_local)
    with Nil Suc.prems show ?thesis by (simp add: chain_run)
  next
    case (Cons tid tids)
    from one_round [OF Suc.prems assms(2) Cons, of agent] obtain t s1 s2
      where cl: "schedule_and_claim env 0 [] 0 agent s = (Inr (Some t), s1)" and id: "t_id t = tid"
        and mc: "mark_completed env 0 tid EvalVerdict.PASS s1 = (Inr (), s2)"
        and b2: "between_rounds s2" and c2: "s_completed s2 = insert tid (s_completed s)"
        and rr: "\<And>n C. ready_run n (s_dag s2) C = ready_run n (s_dag s) C"
        and ns: "node_set (s_dag s2) = node_set (s_dag s)" by metis
    from Suc.IH [OF b2] obtain s' where
      "work env agent n s2 = (Inr (ready_run n (s_dag s2) (s_completed s2)), s')"
      "between_rounds s'"
      "s_completed s' = s_completed s2 \<union> set (ready_run n (s_dag s2) (s_completed s2))"
      "node_set (s_dag s') = node_set (s_dag s2)" by blast
    with cl mc id Cons show ?thesis by (auto simp: chain_run c2 rr ns)
  qed
qed

section \<open>Schedulers that share a Redis\<close>

context redis_contract
begin

lemma on_redis_present:
  assumes "redis l = Some r" and "set_nx rd k ex r = (Inr b, r')"
  shows "present r \<subseteq> present r'"
  using set_nx_present [OF assms(2)] by auto

lemma acquire_present:
  "redis l = Some r \<Longrightarrow> acquire_loop rd dl clock n l = (Inr got, l') \<Longrightarrow>
     \<exists>r'. redis l' = Some r' \<and> present r \<subseteq> present r'"
proof (induction clock arbitrary: n l r)
  case Nil
  then show ?case by auto
next
  case (Cons now clock)
  show ?case
  proof (cases "now < dl")
    case False
    with Cons.prems show ?thesis by auto
  next
    case True
    obtain b r1 where sn: "set_nx rd lock_key 30 r = (b, r1)" by fastforce
    show ?thesis
    proof (cases b)
      case (Inl e)
      with True Cons.prems sn show ?thesis by (simp add: chain_run on_redis_def)
    next
      case (Inr ok)
      have sub: "present r \<subseteq> present r1" using set_nx_present [of lock_key 30 r ok r1] sn Inr by auto
      show ?thesis
      proof (cases ok)
        case True': True
        with True Cons.prems sn Inr sub show ?thesis by (auto simp: chain_run on_redis_def)
      next
        case False
        with True Cons.prems sn Inr
        have "acquire_loop rd dl clock (Suc n) (l\<lparr>redis := Some r1\<rparr>) = (Inr got, l')"
          by (simp add: chain_run on_redis_def)
        with Cons.IH [of "l\<lparr>redis := Some r1\<rparr>" r1 "Suc n"] obtain r'
          where "redis l' = Some r'" and "present r1 \<subseteq> present r'" by auto
        with sub show ?thesis by auto
      qed
    qed
  qed
qed

lemma release_present:
  assumes "redis l = Some r" and "release_lock rd l = (Inr u, l')"
  obtains r' where "redis l' = Some r'" and "present r' = present r - {lock_key}"
  using assms by (auto simp: release_lock_def on_redis_def split: prod.splits dest: del_present)

lemma claim_key_not_lock: "claimed_prefix @ t \<noteq> lock_key"
  by (simp add: claimed_prefix_def lock_key_def)

lemma claim_ready_exclusive:
  assumes env: "env_redis env = rd" and inv: "sched_inv s" and r: "redis (s_lock s) = Some r"
    and cl: "claim_ready env now agent s = (Inr (Some t), s')"
  shows "claimed_prefix @ t_id t \<notin> present r"
    and "\<exists>r'. redis (s_lock s') = Some r' \<and> claimed_prefix @ t_id t \<in> present r'"
proof -
  from cl obtain tid tids t0 where ready: "get_ready_tasks (s_dag s) (s_completed s) = tid # tids"
    and t0: "get_task (s_dag s) tid = Inr t0"
    by (auto simp: claim_ready_def chain_run op_simps schedule_next_run split: list.splits sum.splits)
  have id: "t_id t0 = tid" by (rule sched_inv_id [OF inv t0])
  obtain c s1 where c: "on_lock (try_claim_task rd tid) s = (c, s1)" by fastforce
  have c_True: "c = Inr True" and run: "chain (mark_running env now tid agent)
      (\<lambda>_. chain (fetch tid) (\<lambda>u. ret (Some u))) s1 = (Inr (Some t), s')"
    using cl ready t0 id c env
    by (auto simp: claim_ready_def chain_run [of schedule_next] schedule_next_run
        chain_run [of "on_lock _"] split: sum.splits if_splits)
  obtain l1 where tc: "try_claim_task rd tid (s_lock s) = (Inr True, l1)" and l1: "s_lock s1 = l1"
    using c c_True by (auto simp: on_lock_def zoom_run split: prod.splits)
  from claim_fresh [OF r tc] obtain r1 where r1: "redis l1 = Some r1"
    "claimed_prefix @ tid \<notin> present r" "present r1 = insert (claimed_prefix @ tid) (present r)"
    by auto
  obtain s2 where mr: "mark_running env now tid agent s1 = (Inr (), s2)"
    and ft: "get_task (s_dag s2) tid = Inr t" and s': "s' = s2"
    using run by (auto simp: chain_run op_simps split: prod.splits sum.splits)
  have l2: "s_lock s2 = l1" using mark_running_lock [of env now tid agent s1] mr l1 by simp
  have "sched_inv s2"
    using sched_move_inv [OF claim_ready_move [of s env now agent] inv] cl s' by simp
  then have "t_id t = tid" using ft by (rule sched_inv_id)
  with r1 l2 s' show "claimed_prefix @ t_id t \<notin> present r"
    and "\<exists>r'. redis (s_lock s') = Some r' \<and> claimed_prefix @ t_id t \<in> present r'" by auto
qed

lemma claim_exclusive:
  assumes env: "env_redis env = rd" and inv: "sched_inv s" and r: "redis (s_lock s) = Some r"
    and cl: "schedule_and_claim env start clock now agent s = (Inr (Some t), s')"
  shows "claimed_prefix @ t_id t \<notin> present r"
    and "\<exists>r'. redis (s_lock s') = Some r' \<and> claimed_prefix @ t_id t \<in> present r'"
proof -
  let ?z = "zoom s_lock (\<lambda>l s. s\<lparr>s_lock := l\<rparr>)"
  from cl r env obtain got s1 s2 u s3 where
    acq: "?z (acquire_loop rd (start + 5) clock 0) s = (Inr got, s1)"
    and body: "claim_body env now agent s1 = (Inr (Some t), s2)"
    and rel: "?z (release_lock rd) s2 = (Inr u, s3)" and s': "s' = s3"
    by (auto simp: schedule_and_claim_def with_schedule_lock_def chain_run finally_do_run
        split: prod.splits sum.splits option.splits bool.splits)
  obtain l1 where al: "acquire_loop rd (start + 5) clock 0 (s_lock s) = (Inr got, l1)"
    and l1: "s_lock s1 = l1"
    using acq by (auto simp: zoom_run split: prod.splits)
  from acquire_present [OF r al] obtain r1 where r1: "redis l1 = Some r1" "present r \<subseteq> present r1"
    by blast
  obtain D l2 where gc: "get_completed rd (s_lock s1) = (Inr D, l2)"
    and cr: "claim_ready env now agent (s1\<lparr>s_lock := l2, s_completed := s_completed s1 \<union> D\<rparr>) =
      (Inr (Some t), s2)"
    using body env
    by (auto simp: claim_body_def chain_run op_simps on_lock_def split: prod.splits sum.splits)
  have r2: "redis l2 = Some r1"
    using gc r1(1) l1
    by (auto simp: get_completed_def on_redis_def split: prod.splits dest!: smembers_result)
  have inv2: "sched_inv (s1\<lparr>s_lock := l2, s_completed := s_completed s1 \<union> D\<rparr>)"
    using inv zoom_lock_run [OF acq] by (auto simp: sched_inv_def)
  have "redis (s_lock (s1\<lparr>s_lock := l2, s_completed := s_completed s1 \<union> D\<rparr>)) = Some r1"
    using r2 by simp
  note ex = claim_ready_exclusive [OF env inv2 this cr]
  from ex(1) r1(2) show "claimed_prefix @ t_id t \<notin> present r" by blast
  from ex(2) obtain r3 where r3: "redis (s_lock s2) = Some r3" "claimed_prefix @ t_id t \<in> present r3"
    by blast
  obtain l3 where "release_lock rd (s_lock s2) = (Inr u, l3)" and l3: "s_lock s3 = l3"
    using rel by (auto simp: zoom_run split: prod.splits)
  from release_present [OF r3(1) this(1)] obtain r4
    where "redis l3 = Some r4" "present r4 = present r3 - {lock_key}" .
  with r3 l3 s' claim_key_not_lock [of "t_id t"]
  show "\<exists>r'. redis (s_lock s') = Some r' \<and> claimed_prefix @ t_id t \<in> present r'" by auto
qed

end

end
