(* ===== verification/Task_Properties.thy ===== *)
theory Task_Properties
  imports Scheduler_Claim
begin

text \<open>
  The properties of the task graph, the scheduler and the distributed lock, over the
  definitions of \<^verbatim>\<open>Task_Graph\<close>, \<^verbatim>\<open>Task_Scheduler\<close> and
  \<^verbatim>\<open>Distributed_Lock\<close>, each with a concrete instance.
\<close>

section \<open>Concrete inputs\<close>

text \<open>Three tasks: \<open>b\<close> needs \<open>a\<close>, \<open>c\<close> needs both and has the highest priority.\<close>

definition task_a :: task where
  "task_a = default_task ''a'' 0"

definition task_b :: task where
  "task_b = (default_task ''b'' 0)\<lparr>dependencies := [''a''], priority := 2\<rparr>"

definition task_c :: task where
  "task_c = (default_task ''c'' 0)\<lparr>dependencies := [''a'', ''b''], priority := 5\<rparr>"

definition sample_dag :: dag where
  "sample_dag = from_tasks [task_c, task_a, task_b]"

definition sample_env :: "(keyspace, unit, unit) sched_env" where
  "sample_env = \<lparr>env_redis = keyspace_ops, update_status = (\<lambda>tid st msg d. (Inr (), d)),
     publish = (\<lambda>e p. (Inr [], p))\<rparr>"

text \<open>\<^verbatim>\<open>TaskScheduler.__init__\<close>.\<close>

definition new_sched :: "dag \<Rightarrow> 'r option \<Rightarrow> 'd \<Rightarrow> 'p \<Rightarrow> ('r, 'd, 'p) sched" where
  "new_sched d r db bus =
     \<lparr>s_dag = d, s_completed = {}, s_lock = new_dlock r, s_db = db, s_bus = bus\<rparr>"

lemmas sample_defs = task_a_def task_b_def task_c_def default_task_def sample_dag_def
  from_tasks_def add_node_def add_known_edges_def add_edge_def empty_dag_def node_set_def

lemma sample_dag_eval:
  "sample_dag = \<lparr>nodes = [(''c'', task_c), (''a'', task_a), (''b'', task_b)],
     edges = [(''a'', ''c''), (''b'', ''c''), (''a'', ''b'')]\<rparr>"
  by (simp add: sample_defs)

lemma sample_wf: "dag_wf sample_dag"
  by (simp add: sample_dag_def from_tasks_wf)

lemma sample_acyclic: "acyclic (edge_set sample_dag)"
  by (rule dep_order_acyclic [of _ "[''a'', ''b'', ''c'']"]) (auto simp: sample_dag_eval)

lemma sample_get:
  "get_task sample_dag u = Inr t \<longleftrightarrow>
     (u = ''a'' \<and> t = task_a) \<or> (u = ''b'' \<and> t = task_b) \<or> (u = ''c'' \<and> t = task_c)"
  by (auto simp: get_task_Inr sample_dag_eval)

lemma new_sample_inv: "sched_inv (new_sched sample_dag r db bus)"
  by (auto simp: sched_inv_def new_sched_def sample_wf sample_get attempts_ok_def attempt_limit_def
      task_a_def task_b_def task_c_def default_task_def default_budget_def)

lemma sample_reliable: "reliable sample_env"
  by (simp add: reliable_def sample_env_def)

section \<open>The graph\<close>

text \<open>
  C1: rebuilding the graph from a list of tasks gives a well-formed graph whose nodes are
  exactly the tasks, whose edges are exactly the dependencies between listed tasks (a
  dependency on an unlisted task is dropped), and which returns each task under its id.
\<close>

theorem rebuilt_graph_faithful:
  assumes "distinct (map t_id ts)"
  shows "dag_wf (from_tasks ts) \<and> node_set (from_tasks ts) = t_id ` set ts \<and>
    edge_set (from_tasks ts) =
      {(dep, t_id t) | dep t. t \<in> set ts \<and> dep \<in> set (dependencies t) \<and> dep \<in> t_id ` set ts} \<and>
    (\<forall>t \<in> set ts. get_task (from_tasks ts) (t_id t) = Inr t)"
  using from_tasks_get [OF assms] by (simp add: from_tasks_wf from_tasks_ids from_tasks_edges)

theorem rebuilt_graph_faithful_witness:
  "edge_set (from_tasks [task_c, task_a]) = {(''a'', ''c'')} \<and>
   get_task (from_tasks [task_c, task_a]) ''c'' = Inr task_c"
proof -
  have h: "distinct (map t_id [task_c, task_a])"
    by (simp add: task_a_def task_c_def default_task_def)
  have ids: "t_id task_c = ''c''" "t_id task_a = ''a''" "dependencies task_c = [''a'', ''b'']"
    "dependencies task_a = []"
    by (simp_all add: task_a_def task_c_def default_task_def)
  note * = rebuilt_graph_faithful [OF h]
  have "get_task (from_tasks [task_c, task_a]) ''c'' = Inr task_c"
    using * by (simp add: ids)
  moreover have "edge_set (from_tasks [task_c, task_a]) = {(''a'', ''c'')}"
    unfolding conjunct1 [OF conjunct2 [OF conjunct2 [OF *]]]
    by (auto simp: ids intro!: exI [of _ task_c])
  ultimately show ?thesis by simp
qed

text \<open>
  C2: the ready list has no duplicates, holds exactly the tasks that are not completed and
  whose dependencies all are, in descending priority; and in an acyclic graph it is
  empty only when every task is completed.
\<close>

theorem ready_tasks_exact:
  assumes "dag_wf d"
  shows "distinct (get_ready_tasks d C) \<and>
    set (get_ready_tasks d C) =
      {t \<in> node_set d. t \<notin> C \<and> (\<forall>u. (u, t) \<in> edge_set d \<longrightarrow> u \<in> C)} \<and>
    sorted (map (\<lambda>t. - task_priority d t) (get_ready_tasks d C)) \<and>
    (acyclic (edge_set d) \<longrightarrow> (get_ready_tasks d C = [] \<longleftrightarrow> node_set d \<subseteq> C))"
proof -
  have "get_ready_tasks d C = []" if "node_set d \<subseteq> C"
    using that ready_iff [of _ d C] by (metis list.set_intros(1) list.exhaust subset_iff)
  then show ?thesis
    using assms ready_exists [of d _ C]
    by (auto simp: ready_distinct ready_sorted ready_iff)
qed

theorem ready_tasks_exact_witness:
  "set (get_ready_tasks sample_dag {}) = {''a''} \<and> set (get_ready_tasks sample_dag {''a''}) = {''b''} \<and>
   get_ready_tasks sample_dag {''a'', ''b'', ''c''} = []"
proof -
  note * = ready_tasks_exact [OF sample_wf]
  have "set (get_ready_tasks sample_dag {}) = {''a''}"
    using * [of "{}"] by (auto simp: sample_dag_eval node_set_def)
  moreover have "set (get_ready_tasks sample_dag {''a''}) = {''b''}"
    using * [of "{''a''}"] by (auto simp: sample_dag_eval node_set_def)
  moreover have "get_ready_tasks sample_dag {''a'', ''b'', ''c''} = []"
    using * [of "{''a'', ''b'', ''c''}"] sample_acyclic by (auto simp: sample_dag_eval node_set_def)
  ultimately show ?thesis by blast
qed

lemma graph_tasks:
  "set xs \<subseteq> node_set d \<Longrightarrow>
     \<exists>ts. those (map (map_of (nodes d)) xs) = Some ts \<and> map (get_task d) xs = map Inr ts"
proof (induction xs)
  case (Cons x xs)
  then obtain t ts where "map_of (nodes d) x = Some t" "those (map (map_of (nodes d)) xs) = Some ts"
    "map (get_task d) xs = map Inr ts"
    by (auto simp: in_node_set)
  then have "those (map (map_of (nodes d)) (x # xs)) = Some (t # ts) \<and>
      map (get_task d) (x # xs) = map Inr (t # ts)"
    by (simp add: get_task_def)
  then show ?case by blast
qed simp

text \<open>
  With networkx as documented, the execution order exists exactly for acyclic graphs.
  It lists every task once, each after its dependencies, and \<^verbatim>\<open>to_task_graph\<close> returns
  the tasks in that order; for a cyclic graph the error carries edges of the graph.
\<close>

theorem execution_order_correct:
  assumes "nx_contract nx" and "dag_wf d"
  shows "case get_execution_order nx d of
      Inr xs \<Rightarrow> acyclic (edge_set d) \<and> distinct xs \<and> set xs = node_set d \<and>
        (\<forall>u v. (u, v) \<in> edge_set d \<longrightarrow> position xs u < position xs v) \<and>
        (\<exists>ts. to_task_graph nx now d =
           Inr \<lparr>tg_tasks = ts, execution_order = xs, tg_created_at = now\<rparr> \<and>
           map (get_task d) xs = map Inr ts)
    | Inl e \<Rightarrow> \<not> acyclic (edge_set d) \<and>
        (\<exists>c. set c \<subseteq> edge_set d \<and> e = CircularDependencyError (map (\<lambda>(u, v). u @ ''->'' @ v) c))"
proof (cases "topological_sort nx d")
  case None
  have t: "topological (topological_sort nx)" using assms(1) by (simp add: nx_contract_def)
  have "\<not> acyclic (edge_set d)" using topological.sort_None [OF t assms(2) None] by simp
  with assms obtain c where c: "find_cycle nx d = Some c" and "set c \<subseteq> edge_set d"
    unfolding nx_contract_def by blast
  then show ?thesis using None \<open>\<not> acyclic (edge_set d)\<close>
    by (simp add: get_execution_order_def) (rule exI [of _ c], simp)
next
  case (Some xs)
  have t: "topological (topological_sort nx)" using assms(1) by (simp add: nx_contract_def)
  note sorted = topological.sort_Some [OF t assms(2) Some]
  then obtain ts where "those (map (map_of (nodes d)) xs) = Some ts" "map (get_task d) xs = map Inr ts"
    using graph_tasks [of xs d] by blast
  then show ?thesis
    using sorted Some topological.sort_Some_acyclic [OF t assms(2) Some]
      topological.sort_before [OF t assms(2) Some]
    by (auto simp: get_execution_order_def to_task_graph_def)
qed

theorem execution_order_correct_witness:
  "acyclic (edge_set sample_dag) \<and> get_execution_order ready_nx sample_dag = Inr [''a'', ''b'', ''c'']"
proof -
  have "get_execution_order ready_nx sample_dag = Inr [''a'', ''b'', ''c'']"
    by code_simp
  with execution_order_correct [OF ready_nx_contract sample_wf, of 0] show ?thesis by simp
qed

lemma update_fresh: "k \<notin> set (keys d) \<Longrightarrow> AList.update k v d = d @ [(k, v)]"
  by (induction d) auto

lemma add_nodes_distinct:
  "distinct (map t_id ts) \<Longrightarrow> t_id ` set ts \<inter> node_set d = {} \<Longrightarrow>
     nodes (fold add_node ts d) = nodes d @ map (\<lambda>t. (t_id t, t)) ts"
proof (induction ts arbitrary: d)
  case (Cons t ts)
  have fresh: "AList.update (t_id t) t (nodes d) = nodes d @ [(t_id t, t)]"
    using Cons.prems(2) by (intro update_fresh) (auto simp: node_set_def)
  have "nodes (fold add_node ts (add_node t d)) = nodes (add_node t d) @ map (\<lambda>t. (t_id t, t)) ts"
    using Cons.prems by (intro Cons.IH) auto
  with fresh show ?case by (simp add: add_node_def [of t])
qed simp

lemma from_tasks_nodes:
  "distinct (map t_id ts) \<Longrightarrow> nodes (from_tasks ts) = map (\<lambda>t. (t_id t, t)) ts"
  using add_nodes_distinct [of ts empty_dag] by (simp add: from_tasks_def) (simp add: empty_dag_def)

lemma empty_neighbours:
  "predecessors d t = [] \<longleftrightarrow> (\<forall>u. (u, t) \<notin> edge_set d)"
  "successors d t = [] \<longleftrightarrow> (\<forall>u. (t, u) \<notin> edge_set d)"
  by (metis (no_types, lifting) set_predecessors mem_Collect_eq set_empty empty_iff ex_in_conv,
      metis (no_types, lifting) set_successors mem_Collect_eq set_empty empty_iff ex_in_conv)

lemma cycle_errors_none:
  assumes "nx_contract nx" and "dag_wf d"
  shows "cycle_errors nx d = [] \<longleftrightarrow> acyclic (edge_set d)"
proof -
  have "is_dag nx d = acyclic (edge_set d)" and "(find_cycle nx d = None) = acyclic (edge_set d)"
    using assms unfolding nx_contract_def by blast+
  then show ?thesis by (auto simp: cycle_errors_def split: option.splits)
qed

lemma dangling_errors_none:
  "distinct (map t_id ts) \<Longrightarrow>
     dangling_errors (from_tasks ts) = [] \<longleftrightarrow> (\<forall>t \<in> set ts. set (dependencies t) \<subseteq> t_id ` set ts)"
  by (auto simp: dangling_errors_def from_tasks_nodes from_tasks_ids filter_empty_conv subset_iff)

lemma isolates_none:
  assumes "distinct (map t_id ts)" and "\<forall>t \<in> set ts. set (dependencies t) \<subseteq> t_id ` set ts"
  shows "isolates (from_tasks ts) = [] \<longleftrightarrow>
    (\<forall>t \<in> set ts. dependencies t \<noteq> [] \<or> (\<exists>u \<in> set ts. t_id t \<in> set (dependencies u)))"
proof -
  have same: "u = t" if "t \<in> set ts" "u \<in> set ts" "t_id u = t_id t" for t u
    using that assms(1) by (auto simp: distinct_map inj_on_def)
  have "predecessors (from_tasks ts) (t_id t) = [] \<longleftrightarrow> dependencies t = []" if t: "t \<in> set ts" for t
  proof
    assume "predecessors (from_tasks ts) (t_id t) = []"
    moreover have "(dep, t_id t) \<in> edge_set (from_tasks ts)" if "dep \<in> set (dependencies t)" for dep
      using that t assms(2) unfolding from_tasks_edges by blast
    ultimately have "dep \<notin> set (dependencies t)" for dep by (auto simp: empty_neighbours)
    then show "dependencies t = []" by (cases "dependencies t") auto
  next
    assume "dependencies t = []"
    then show "predecessors (from_tasks ts) (t_id t) = []"
      using same [OF t] by (auto simp: empty_neighbours from_tasks_edges)
  qed
  moreover have "successors (from_tasks ts) (t_id t) = [] \<longleftrightarrow> (\<forall>u \<in> set ts. t_id t \<notin> set (dependencies u))"
    if "t \<in> set ts" for t
    using that by (auto simp: empty_neighbours from_tasks_edges)
  ultimately show ?thesis
    by (auto simp: isolates_def from_tasks_nodes [OF assms(1)] filter_empty_conv)
qed

text \<open>
  On a graph rebuilt from tasks with distinct ids, \<^verbatim>\<open>validate\<close> returns no error
  exactly when the graph is acyclic, every dependency names a listed task, and no task
  of several stands alone.
\<close>

theorem validate_complete:
  assumes "nx_contract nx" and "distinct (map t_id ts)"
  shows "validate nx (from_tasks ts) = [] \<longleftrightarrow>
    acyclic (edge_set (from_tasks ts)) \<and>
    (\<forall>t \<in> set ts. set (dependencies t) \<subseteq> t_id ` set ts) \<and>
    (1 < length ts \<longrightarrow> (\<forall>t \<in> set ts. dependencies t \<noteq> [] \<or> (\<exists>u \<in> set ts. t_id t \<in> set (dependencies u))))"
proof -
  have "isolated_errors (from_tasks ts) = [] \<longleftrightarrow>
      (1 < length ts \<longrightarrow> isolates (from_tasks ts) = [])"
    by (simp add: isolated_errors_def from_tasks_nodes [OF assms(2)])
  then show ?thesis
    using cycle_errors_none [OF assms(1) from_tasks_wf] dangling_errors_none [OF assms(2)]
      isolates_none [OF assms(2)]
    by (auto simp: validate_def)
qed

theorem validate_complete_witness:
  "validate ready_nx (from_tasks [task_c, task_a, task_b]) = [] \<and>
   validate ready_nx (from_tasks [task_c, task_a]) \<noteq> []"
proof -
  have h: "distinct (map t_id [task_c, task_a, task_b])" "distinct (map t_id [task_c, task_a])"
    by (simp_all add: task_a_def task_b_def task_c_def default_task_def)
  show ?thesis
    using sample_acyclic validate_complete [OF ready_nx_contract h(1)]
      validate_complete [OF ready_nx_contract h(2)]
    by (simp add: sample_dag_def) (simp add: task_a_def task_b_def task_c_def default_task_def)
qed



text \<open>
  C4: starting from tasks within their budget, after any sequence of calls no task has been
  started more often than its retry budget allows (once if the budget is zero), its retry
  history is no longer than the number of its attempts, and a completed task is in the
  completed set that releases its dependents.
\<close>

theorem attempts_bounded:
  assumes "sched_inv s" and "get_task (s_dag (exec_all env cmds s)) u = Inr t"
  shows "current_attempt t \<le> max 1 (max_retries (budget t)) \<and>
    int (length (retry_history t)) \<le> current_attempt t \<and>
    (status t = StatusEnum.COMPLETED \<longrightarrow> u \<in> s_completed (exec_all env cmds s))"
  using exec_all_inv [OF assms(1), of env cmds] assms(2)
  by (auto simp: sched_inv_def attempts_ok_def attempt_limit_def)

theorem attempts_bounded_witness:
  "\<exists>t. get_task (s_dag (exec_all sample_env [MarkRunning 1 ''a'' ''x''] (new_sched sample_dag None () ())))
      ''a'' = Inr t \<and> current_attempt t \<le> max 1 (max_retries (budget t))"
proof -
  let ?s = "new_sched sample_dag None () ()"
  have h: "get_task (s_dag ?s) ''a'' = Inr task_a" by (simp add: new_sched_def sample_get)
  obtain t where t: "get_task (s_dag (exec_all sample_env [MarkRunning 1 ''a'' ''x''] ?s)) ''a'' = Inr t"
    using exec_all_evolves [OF h] by blast
  then show ?thesis using attempts_bounded [OF new_sample_inv t] by blast
qed

section \<open>Claiming\<close>

text \<open>
  The outcome of \<^verbatim>\<open>schedule_and_claim\<close> in a single process with a working
  database. It looks at the first ready task only: if that task is pending it is returned
  running, and if it is running, failed, blocked or cancelled the call raises
  \<^verbatim>\<open>InvalidTransitionError\<close>, whatever other task could run.
\<close>

theorem claim_outcome:
  assumes "sched_inv s" and "redis (s_lock s) = None" and "reliable env"
  shows "fst (schedule_and_claim env start clock now agent s) =
    (case get_ready_tasks (s_dag s) (s_completed s \<union> local_completed (s_lock s)) of
       [] \<Rightarrow> Inr None
     | tid # _ \<Rightarrow> (case get_task (s_dag s) tid of
         Inl e \<Rightarrow> Inl e
       | Inr t \<Rightarrow> if status t = StatusEnum.PENDING then Inr (Some (start_task now agent t))
           else Inl (InvalidTransitionError tid (status t) StatusEnum.RUNNING)))"
  by (rule claim_local_outcome [OF assms])

theorem claim_outcome_witness:
  "fst (schedule_and_claim sample_env 0 [] 7 ''x'' (new_sched sample_dag None () ())) =
     Inr (Some (start_task 7 ''x'' task_a)) \<and>
   fst (schedule_and_claim sample_env 0 [] 9 ''y''
     (snd (mark_running sample_env 7 ''a'' ''x'' (new_sched sample_dag None () ())))) =
     Inl (InvalidTransitionError ''a'' StatusEnum.RUNNING StatusEnum.RUNNING)"
proof -
  let ?s = "new_sched sample_dag None () () :: (keyspace, unit, unit) sched"
  let ?r = "snd (mark_running sample_env 7 ''a'' ''x'' ?s)"
  have inv: "sched_inv ?r" by (rule sched_move_inv [OF mark_running_move new_sample_inv])
  have loc: "redis (s_lock ?s) = None" "local_completed (s_lock ?s) = {}"
    by (simp_all add: new_sched_def new_dlock_def)
  have ready: "get_ready_tasks sample_dag {} = [''a'']" by code_simp
  have a: "status task_a = StatusEnum.PENDING" by (simp add: task_a_def default_task_def)
  have ga: "get_task (s_dag ?s) ''a'' = Inr task_a" by (simp add: new_sched_def sample_get)
  have rd: "s_dag ?r = replace_node ''a'' (start_task 7 ''x'' task_a) sample_dag"
    using ga by (simp add: mark_running_effect a may_become_from) (simp add: new_sched_def)
  have rready: "get_ready_tasks (s_dag ?r) {} = [''a'']"
    unfolding rd by (subst ready_replace [of _ _ task_a])
      (simp_all add: ready sample_get start_task_def)
  have rget: "get_task (s_dag ?r) ''a'' = Inr (start_task 7 ''x'' task_a)"
    unfolding rd by (subst get_replaced [of _ _ task_a]) (simp_all add: sample_get)
  have d: "s_dag ?s = sample_dag" "s_completed ?s = {}" by (simp_all add: new_sched_def)
  have lr: "s_lock ?r = s_lock ?s" "s_completed ?r = {}"
    by (simp_all add: mark_running_lock mark_running_effect d)
  have st: "status (start_task 7 ''x'' task_a) = StatusEnum.RUNNING" by (simp add: start_task_def)
  have "fst (schedule_and_claim sample_env 0 [] 7 ''x'' ?s) = Inr (Some (start_task 7 ''x'' task_a))"
    unfolding claim_outcome [OF new_sample_inv loc(1) sample_reliable] using ga
    by (simp add: loc d ready a)
  moreover have "fst (schedule_and_claim sample_env 0 [] 9 ''y'' ?r) =
      Inl (InvalidTransitionError ''a'' StatusEnum.RUNNING StatusEnum.RUNNING)"
    unfolding claim_outcome [OF inv loc(1) [folded lr(1)] sample_reliable]
    by (simp add: lr loc rready rget st)
  ultimately show ?thesis by blast
qed

text \<open>
  C5: an agent that keeps claiming and completing tasks of an acyclic graph in a single
  process finishes every task exactly once, each after its dependencies, and no call raises.
\<close>

theorem agent_completes_graph:
  assumes "dag_wf d" and "acyclic (edge_set d)" and "reliable env"
    and "\<And>u t. get_task d u = Inr t \<Longrightarrow>
      t_id t = u \<and> status t = StatusEnum.PENDING \<and> current_attempt t = 0 \<and> retry_history t = []"
  shows "\<exists>order s'. work env agent (length (nodes d)) (new_sched d None db bus) = (Inr order, s') \<and>
    distinct order \<and> set order = node_set d \<and> dep_order (edge_set d) {} order \<and>
    (\<forall>u \<in> node_set d. \<exists>t. get_task (s_dag s') u = Inr t \<and> status t = StatusEnum.COMPLETED)"
proof -
  let ?s = "new_sched d None db bus"
  have b: "between_rounds ?s"
    using assms(1,4) by (auto simp: between_rounds_def sched_inv_def new_sched_def new_dlock_def
        attempts_ok_def attempt_limit_def)
  obtain s' where w: "work env agent (length (nodes d)) ?s =
      (Inr (ready_run (length (nodes d)) d {}), s')" and b': "between_rounds s'"
    and c: "s_completed s' = set (ready_run (length (nodes d)) d {})"
    and n: "node_set (s_dag s') = node_set d"
    using work_run [OF b assms(3), of agent "length (nodes d)"] by (auto simp: new_sched_def)
  have all: "set (ready_run (length (nodes d)) d {}) = node_set d"
    using ready_run_complete [OF assms(1,2), of "{}"] by (simp add: card_node_set [OF assms(1)])
  have "\<exists>t. get_task (s_dag s') u = Inr t \<and> status t = StatusEnum.COMPLETED" if "u \<in> node_set d" for u
    using that n all c get_task_has [of "s_dag s'" u] between_rounds_status [OF b', of u] by auto
  then show ?thesis
    using w all ready_run_sound [of "length (nodes d)" d "{}"] by blast
qed

theorem agent_completes_graph_witness:
  "\<exists>order s'. work sample_env ''x'' (length (nodes sample_dag)) (new_sched sample_dag None () ()) =
      (Inr order, s') \<and> set order = {''a'', ''b'', ''c''}"
proof -
  have h: "t_id t = u \<and> status t = StatusEnum.PENDING \<and> current_attempt t = 0 \<and> retry_history t = []"
    if "get_task sample_dag u = Inr t" for u t
    using that by (auto simp: sample_get task_a_def task_b_def task_c_def default_task_def)
  have n: "node_set sample_dag = {''a'', ''b'', ''c''}" by (auto simp: node_set_def sample_dag_eval)
  show ?thesis
    using agent_completes_graph [OF sample_wf sample_acyclic sample_reliable h, of "''x''" "()" "()"]
    unfolding n by blast
qed


definition one_task_sched :: "task \<Rightarrow> keyspace option \<Rightarrow> (keyspace, unit, unit) sched" where
  "one_task_sched t r = new_sched (from_tasks [t]) r () ()"

lemma one_task_inv: "attempts_ok t \<Longrightarrow> status t = StatusEnum.PENDING \<Longrightarrow> sched_inv (one_task_sched t r)"
  by (auto simp: sched_inv_def one_task_sched_def new_sched_def from_tasks_wf)
    (auto simp: get_task_Inr from_tasks_nodes split: if_splits)

lemma one_task_claim:
  assumes "t_id t \<notin> set (dependencies t)" and "status t = StatusEnum.PENDING"
    and "lock_key \<notin> strings r" and "claimed_prefix @ t_id t \<notin> strings r"
    and "sets r completed_key = {}"
  shows "\<exists>s'. schedule_and_claim sample_env 0 [0] 1 ag (one_task_sched t (Some r)) =
      (Inr (Some (start_task 1 ag t)), s') \<and>
    redis (s_lock s') = Some (r\<lparr>strings := insert (claimed_prefix @ t_id t) (strings r),
      sets := (sets r)(lock_key := {})\<rparr>)"
proof -
  have d: "from_tasks [t] = \<lparr>nodes = [(t_id t, t)], edges = []\<rparr>"
    using assms(1) from_tasks_edges [of "[t]"] from_tasks_nodes [of "[t]"]
    by (cases "from_tasks [t]") auto
  have ready: "get_ready_tasks \<lparr>nodes = [(t_id t, t)], edges = []\<rparr> {} = [t_id t]"
    by (simp add: get_ready_tasks_def is_ready_def predecessors_def)
  have neq: "completed_key \<noteq> lock_key" by (simp add: completed_key_def lock_key_def)
  show ?thesis
    using assms(2-5) neq keyspace.claim_key_not_lock [of "t_id t"]
    by (simp add: schedule_and_claim_def with_schedule_lock_def claim_body_def claim_ready_def
        mark_running_def op_simps on_lock_def on_redis_def get_completed_def try_claim_task_def
        release_lock_def sample_env_def one_task_sched_def new_sched_def new_dlock_def
        keyspace_ops_def persist_def publish_event_def schedule_next_run d ready get_task_def
        store_def update_task_def node_set_def replace_node_def may_become_def start_task_def insert_Diff_if)
qed


section \<open>The lock\<close>

text \<open>
  C7: as long as the lock key does not expire inside a critical section, at most one process
  is in it; once it may expire, two processes can be inside together, since a process
  releases the lock without checking that it still owns it.
\<close>

theorem lock_mutual_exclusion:
  "((lock_step False)\<^sup>*\<^sup>* lock_init s \<longrightarrow> card (inside s) \<le> 1) \<and>
   (\<exists>s'. (lock_step True)\<^sup>*\<^sup>* lock_init s' \<and> card (inside s') = 2)"
proof
  show "(lock_step False)\<^sup>*\<^sup>* lock_init s \<longrightarrow> card (inside s) \<le> 1"
    by (auto simp: lock_inv_def dest!: lock_run_inv split: if_splits)
  have "lock_step True lock_init \<lparr>key_set = True, inside = {0}\<rparr>"
    using lock_step.enter [of lock_init 0 True] by (simp add: lock_init_def)
  moreover have "lock_step True \<lparr>key_set = True, inside = {0}\<rparr> \<lparr>key_set = False, inside = {0}\<rparr>"
    using lock_step.expire [of True "\<lparr>key_set = True, inside = {0}\<rparr>"] by simp
  moreover have "lock_step True \<lparr>key_set = False, inside = {0}\<rparr> \<lparr>key_set = True, inside = {1, 0}\<rparr>"
    using lock_step.enter [of "\<lparr>key_set = False, inside = {0}\<rparr>" 1 True] by simp
  ultimately have "(lock_step True)\<^sup>*\<^sup>* lock_init \<lparr>key_set = True, inside = {1, 0}\<rparr>"
    by (meson rtranclp.rtrancl_refl rtranclp.rtrancl_into_rtrancl)
  then show "\<exists>s'. (lock_step True)\<^sup>*\<^sup>* lock_init s' \<and> card (inside s') = 2"
    by (rule exI [of _ "\<lparr>key_set = True, inside = {1, 0}\<rparr>", OF conjI]) simp
qed

theorem lock_mutual_exclusion_witness:
  "(lock_step False)\<^sup>*\<^sup>* lock_init \<lparr>key_set = True, inside = {3}\<rparr> \<and> card {3::nat} \<le> 1"
proof -
  have "(lock_step False)\<^sup>*\<^sup>* lock_init \<lparr>key_set = True, inside = {3}\<rparr>"
    using lock_step.enter [of lock_init 3 False] by (auto simp: lock_init_def)
  with lock_mutual_exclusion [of "\<lparr>key_set = True, inside = {3}\<rparr>"] show ?thesis by simp
qed

lemma acquire_bounded:
  "(\<And>i. i < length clock \<Longrightarrow> start + of_nat (k + i) / 10 \<le> clock ! i) \<Longrightarrow> k \<le> 50 \<Longrightarrow>
     50 < k + length clock \<Longrightarrow> fst (acquire_loop rd (start + 5) clock k l) = Inr res \<Longrightarrow>
     \<exists>b n. res = Some (b, n) \<and> n \<le> 50"
proof (induction clock arbitrary: k l)
  case (Cons now clock)
  have now: "start + of_nat k / 10 \<le> now" using Cons.prems(1) [of 0] by simp
  show ?case
  proof (cases "now < start + 5")
    case False
    with Cons.prems show ?thesis by (auto simp: not_less)
  next
    case True
    with now have "of_nat k / 10 < (5 :: rat)" by linarith
    then have k: "Suc k \<le> 50" by (simp add: less_divide_eq)
    have "start + of_nat (Suc k + i) / 10 \<le> clock ! i" if "i < length clock" for i
      using Cons.prems(1) [of "Suc i"] that by simp
    with Cons.IH [of "Suc k"] k Cons.prems(3,4) True show ?thesis
      by (auto simp: chain_run split: prod.splits sum.splits if_splits)
  qed
qed simp

text \<open>
  With the 0.1 s pause after each refusal, waiting for the scheduling lock ends: the loop
  sends at most 50 \<^verbatim>\<open>SET NX\<close> commands in its 5 seconds, and 51 clock readings
  decide it.
\<close>

theorem lock_wait_bounded:
  assumes "51 \<le> length clock"
    and "\<And>i. i < length clock \<Longrightarrow> start + of_nat i / 10 \<le> clock ! i"
  shows "case fst (acquire_loop rd (start + 5) clock 0 l) of
      Inl e \<Rightarrow> True
    | Inr None \<Rightarrow> False
    | Inr (Some (acquired, tries)) \<Rightarrow> tries \<le> 50"
  using acquire_bounded [of clock start 0 rd l] assms
  by (fastforce split: sum.splits option.splits)

theorem lock_wait_bounded_witness:
  "case fst (acquire_loop keyspace_ops (0 + 5) (map (\<lambda>i. of_nat i / 10) [0..<51]) 0
       (new_dlock (Some (empty_keyspace\<lparr>strings := {lock_key}\<rparr>)))) of
      Inl e \<Rightarrow> True
    | Inr None \<Rightarrow> False
    | Inr (Some (acquired, tries)) \<Rightarrow> tries \<le> 50"
  by (rule lock_wait_bounded) simp_all

end
