(* ===== verification/Task_Recovery.thy ===== *)
theory Task_Recovery
  imports Task_Properties
begin

text \<open>
  Restart recovery (\<^verbatim>\<open>TaskScheduler.load_from_db\<close>): the rows of the task table are
  fetched page by page, converted to tasks, and the graph, the completed set and the
  distributed completed set are rebuilt. \<open>repo_list limit offset\<close>, \<^verbatim>\<open>TaskRepository.list_all\<close>, the repository call, is
  a parameter. The loop stops at the first page that is not full; a repository that
  keeps returning full pages makes it run forever, which is the value \<open>None\<close>.
\<close>

record task_row =
  row_id :: string
  row_type :: string
  row_agent_type :: "string option"
  row_model_tier :: "string option"
  row_status :: string
  row_priority :: "int option"
  row_dependencies :: "string list option"
  row_dependents :: "string list option"
  row_budget :: "task_budget option"
  row_assigned_agent :: "string option"
  row_current_attempt :: "int option"
  row_created_at :: time
  row_started_at :: "time option"
  row_completed_at :: "time option"
  row_verdict :: "string option"
  row_error_message :: "string option"

definition enum_or_raise :: "'a option \<Rightarrow> string \<Rightarrow> exn + 'a" where
  "enum_or_raise r s = (case r of None \<Rightarrow> Inl (ValueError s) | Some x \<Rightarrow> Inr x)"

definition or_default :: "'a \<Rightarrow> 'a option \<Rightarrow> 'a" where
  "or_default d x = (case x of None \<Rightarrow> d | Some y \<Rightarrow> y)"

text \<open>\<^verbatim>\<open>Enum(x) if x else default\<close>: an empty string counts as missing.\<close>

definition enum_or_default :: "(string \<Rightarrow> 'a option) \<Rightarrow> 'a \<Rightarrow> string option \<Rightarrow> exn + 'a" where
  "enum_or_default of_str d x = (case x of
      None \<Rightarrow> Inr d
    | Some s \<Rightarrow> if s = [] then Inr d else enum_or_raise (of_str s) s)"

definition row_to_task :: "task_row \<Rightarrow> exn + task" where
  "row_to_task r =
     bind_sum (enum_or_raise (task_type_of (row_type r)) (row_type r)) (\<lambda>ty.
     bind_sum (enum_or_default agent_type_of AgentType.CODER (row_agent_type r)) (\<lambda>ag.
     bind_sum (enum_or_default model_tier_of ModelTier.TIER_2 (row_model_tier r)) (\<lambda>tier.
     bind_sum (enum_or_raise (status_of (row_status r)) (row_status r)) (\<lambda>st.
     bind_sum (case row_budget r of None \<Rightarrow> Inr default_budget | Some b \<Rightarrow> mk_budget b) (\<lambda>b.
     bind_sum (case row_verdict r of None \<Rightarrow> Inr None
               | Some v \<Rightarrow> bind_sum (enum_or_raise (eval_verdict_of v) v) (\<lambda>x. Inr (Some x))) (\<lambda>v.
     mk_task ((default_task (row_id r) (row_created_at r))\<lparr>
       t_type := ty, agent_type := ag, model_tier := tier, status := st,
       priority := or_default 0 (row_priority r),
       dependencies := or_default [] (row_dependencies r),
       dependents := or_default [] (row_dependents r),
       budget := b, assigned_agent := row_assigned_agent r,
       current_attempt := or_default 0 (row_current_attempt r),
       timestamps := \<lparr>created_at = row_created_at r, started_at = row_started_at r,
                      completed_at = row_completed_at r\<rparr>,
       verdict := v, error_message := row_error_message r\<rparr>)))))))"

partial_function (option) fetch_pages ::
    "(nat \<Rightarrow> nat \<Rightarrow> exn + 'a list) \<Rightarrow> nat \<Rightarrow> nat \<Rightarrow> 'a list \<Rightarrow> (exn + 'a list) option" where
  "fetch_pages repo_list batch_size offset all_rows =
     (case repo_list batch_size offset of
        Inl e \<Rightarrow> Some (Inl e)
      | Inr batch \<Rightarrow>
          if batch = [] then Some (Inr all_rows)
          else if length batch < batch_size then Some (Inr (all_rows @ batch))
          else fetch_pages repo_list batch_size (offset + batch_size) (all_rows @ batch))"

definition completed_ids :: "task list \<Rightarrow> task_id list" where
  "completed_ids ts = remdups (map t_id (filter (\<lambda>t. status t = StatusEnum.COMPLETED) ts))"

definition rebuild :: "('r, 'd, 'p) sched_env \<Rightarrow> task_row list \<Rightarrow> (exn, ('r, 'd, 'p) sched, nat) op" where
  "rebuild env rows =
     (if rows = [] then ret 0
      else
        chain (lift_sum (\<lambda>_. map_sum_list row_to_task rows)) (\<lambda>ts.
        chain (writes (\<lambda>s. s\<lparr>s_dag := from_tasks ts, s_completed := set (completed_ids ts)\<rparr>)) (\<lambda>_.
        chain (for_each (\<lambda>tid. on_lock (dist_mark_completed (env_redis env) tid))
                 (completed_ids ts)) (\<lambda>_.
        ret (length ts)))))"

definition load_from_db :: "('r, 'd, 'p) sched_env \<Rightarrow> (nat \<Rightarrow> nat \<Rightarrow> exn + task_row list) \<Rightarrow>
    ('r, 'd, 'p) sched \<Rightarrow> ((exn + nat) \<times> ('r, 'd, 'p) sched) option" where
  "load_from_db env repo_list s =
     (case fetch_pages repo_list 1000 0 [] of
        None \<Rightarrow> None
      | Some r \<Rightarrow> Some (chain (lift_sum (\<lambda>_. r)) (rebuild env) s))"

section \<open>Pagination\<close>

text \<open>A repository that returns the slices of a fixed, ordered table.\<close>

definition pages_of :: "'a list \<Rightarrow> nat \<Rightarrow> nat \<Rightarrow> exn + 'a list" where
  "pages_of rows limit offset = Inr (take limit (drop offset rows))"

lemma fetch_pages_slice:
  "0 < n \<Longrightarrow> fetch_pages (pages_of rows) n off acc = Some (Inr (acc @ drop off rows))"
proof (induction "length rows - off" arbitrary: off acc rule: less_induct)
  case less
  show ?case
  proof (cases "n \<le> length rows - off")
    case False
    then show ?thesis
      by (subst fetch_pages.simps) (auto simp: pages_of_def)
  next
    case True
    with less.prems have "fetch_pages (pages_of rows) n (off + n) (acc @ take n (drop off rows)) =
        Some (Inr ((acc @ take n (drop off rows)) @ drop (off + n) rows))"
      by (intro less.hyps) auto
    moreover have "take n (drop off rows) @ drop (off + n) rows = drop off rows"
      by (metis add.commute append_take_drop_id drop_drop)
    ultimately show ?thesis
      using True less.prems by (subst fetch_pages.simps) (auto simp: pages_of_def)
  qed
qed

lemma sync_local:
  assumes "redis (s_lock s) = None"
  shows "for_each (\<lambda>tid. on_lock (dist_mark_completed rd tid)) tids s =
    (Inr (), s\<lparr>s_lock := (s_lock s)\<lparr>local_completed := set tids \<union> local_completed (s_lock s)\<rparr>\<rparr>)"
  using assms
  by (induction tids arbitrary: s)
    (simp_all add: chain_run on_lock_def zoom_run dist_mark_completed_def on_redis_def)

section \<open>What recovery restores\<close>

lemma row_to_task_id: "row_to_task r = Inr t \<Longrightarrow> t_id t = row_id r"
  by (auto simp: row_to_task_def bind_sum_Inr default_task_def)

lemma rows_ids: "map_sum_list row_to_task rows = Inr ts \<Longrightarrow> map t_id ts = map row_id rows"
  by (induction rows arbitrary: ts) (auto simp: bind_sum_Inr row_to_task_id)

lemma from_tasks_get_in:
  "distinct (map t_id ts) \<Longrightarrow> get_task (from_tasks ts) u = Inr t \<Longrightarrow> t \<in> set ts \<and> t_id t = u"
  by (auto simp: get_task_Inr from_tasks_nodes dest!: map_of_SomeD)

lemma from_tasks_inv:
  assumes "distinct (map t_id ts)" and "\<forall>t \<in> set ts. attempts_ok t"
    and "s_dag s = from_tasks ts" and "set (completed_ids ts) \<subseteq> s_completed s"
  shows "sched_inv s"
proof -
  have "u \<in> s_completed s" if "get_task (from_tasks ts) u = Inr t" and "status t = StatusEnum.COMPLETED"
    for u t
    using from_tasks_get_in [OF assms(1) that(1)] that(2) assms(4) by (force simp: completed_ids_def)
  then show ?thesis
    using assms(2,3) from_tasks_get_in [OF assms(1)] by (auto simp: sched_inv_def from_tasks_wf)
qed

lemma rebuild_local:
  assumes "map_sum_list row_to_task rows = Inr ts" and "rows \<noteq> []" and "redis (s_lock s) = None"
  shows "rebuild env rows s = (Inr (length rows),
    s\<lparr>s_dag := from_tasks ts, s_completed := set (completed_ids ts),
      s_lock := (s_lock s)\<lparr>local_completed := set (completed_ids ts) \<union> local_completed (s_lock s)\<rparr>\<rparr>)"
proof -
  have "length ts = length rows" using rows_ids [OF assms(1)] by (metis length_map)
  then show ?thesis using assms by (simp add: rebuild_def chain_run sync_local)
qed


definition sample_row :: "string \<Rightarrow> string \<Rightarrow> string list \<Rightarrow> task_row" where
  "sample_row i st deps = \<lparr>row_id = i, row_type = ''write_test'', row_agent_type = None,
     row_model_tier = Some ''tier_1'', row_status = st, row_priority = Some 3,
     row_dependencies = Some deps, row_dependents = None, row_budget = None,
     row_assigned_agent = None, row_current_attempt = Some 1, row_created_at = 0,
     row_started_at = None, row_completed_at = None, row_verdict = None, row_error_message = None\<rparr>"

definition sample_loaded :: "string \<Rightarrow> StatusEnum \<Rightarrow> string list \<Rightarrow> task" where
  "sample_loaded i st deps = (default_task i 0)\<lparr>t_type := TaskType.WRITE_TEST,
     model_tier := ModelTier.TIER_1, status := st, priority := 3, dependencies := deps,
     current_attempt := 1\<rparr>"


end
