(* ===== verification/Task_Decomposer.thy ===== *)
theory Task_Decomposer
  imports Task_Recovery
begin

text \<open>
  Decomposition of a specification into tasks
  (\<^verbatim>\<open>task_graph_engine/decomposer.py\<close>) and the checked construction of the graph in
  the \<^verbatim>\<open>decompose_spec\<close> activity. A module descriptor is a record of optional fields;
  the supply of fresh ids (\<^verbatim>\<open>new_task_id\<close>) is a parameter \<open>fresh\<close>, the \<open>k\<close>-th id
  drawn. Of the LLM path, the conversion of the parsed reply is modelled
  (\<^verbatim>\<open>_llm_decompose\<close> from the id table on); the LLM call, the fence stripping and
  \<^verbatim>\<open>json.loads\<close> give the list of descriptors.
\<close>

record module_spec =
  m_name :: "string option"
  m_description :: "string option"
  m_priority :: "int option"
  m_model_tier :: "string option"
  m_max_tokens :: "int option"
  m_max_retries :: "int option"

record project_spec =
  p_modules :: "module_spec list"
  p_name :: "string option"
  p_description :: "string option"

definition blank_input :: "string \<Rightarrow> task_input" where
  "blank_input k = \<lparr>in_key = k, in_artifact_uri = [], in_content_hash = []\<rparr>"

definition budget_of :: "int \<Rightarrow> int \<Rightarrow> exn + task_budget" where
  "budget_of tokens retries =
     mk_budget (default_budget\<lparr>max_tokens := tokens, max_retries := retries\<rparr>)"

definition create_implementation_task :: "task_id \<Rightarrow> time \<Rightarrow> module_spec \<Rightarrow> exn + task" where
  "create_implementation_task tid now m =
     bind_sum (case m_model_tier m of None \<Rightarrow> Inr ModelTier.TIER_2
               | Some s \<Rightarrow> enum_or_raise (model_tier_of s) s) (\<lambda>tier.
     bind_sum (budget_of (or_default 100000 (m_max_tokens m)) (or_default 3 (m_max_retries m))) (\<lambda>b.
     mk_task ((default_task tid now)\<lparr>
       t_type := TaskType.IMPLEMENT_FEATURE, agent_type := AgentType.CODER, model_tier := tier,
       priority := or_default 5 (m_priority m),
       description := strip (''Implement module: '' @ or_default ''unnamed'' (m_name m) @ ''. '' @
         or_default [] (m_description m)),
       inputs := [blank_input ''spec''], budget := b\<rparr>)))"

definition create_test_task :: "task_id \<Rightarrow> time \<Rightarrow> task \<Rightarrow> exn + task" where
  "create_test_task tid now impl =
     bind_sum (budget_of 50000 2) (\<lambda>b.
     mk_task ((default_task tid now)\<lparr>
       t_type := TaskType.WRITE_TEST, agent_type := AgentType.TESTER, model_tier := ModelTier.TIER_2,
       priority := priority impl, description := ''Write tests for: '' @ description impl,
       dependencies := [t_id impl], inputs := [blank_input ''implementation''], budget := b\<rparr>))"

definition create_review_task :: "task_id \<Rightarrow> time \<Rightarrow> task \<Rightarrow> task \<Rightarrow> exn + task" where
  "create_review_task tid now impl test =
     bind_sum (budget_of 30000 1) (\<lambda>b.
     mk_task ((default_task tid now)\<lparr>
       t_type := TaskType.REVIEW_CODE, agent_type := AgentType.REVIEWER, model_tier := ModelTier.TIER_1,
       priority := priority impl + 1, description := ''Review: '' @ description impl,
       dependencies := [t_id impl, t_id test],
       inputs := [blank_input ''implementation'', blank_input ''tests''], budget := b\<rparr>))"

primrec decompose_modules :: "(nat \<Rightarrow> task_id) \<Rightarrow> time \<Rightarrow> nat \<Rightarrow> module_spec list \<Rightarrow> exn + task list" where
  "decompose_modules fresh now k [] = Inr []"
| "decompose_modules fresh now k (m # ms) =
     bind_sum (create_implementation_task (fresh k) now m) (\<lambda>impl.
     bind_sum (create_test_task (fresh (k + 1)) now impl) (\<lambda>test.
     bind_sum (create_review_task (fresh (k + 2)) now impl test) (\<lambda>review.
     bind_sum (decompose_modules fresh now (k + 3) ms) (\<lambda>rest.
     Inr (impl # test # review # rest)))))"

definition spec_modules :: "project_spec \<Rightarrow> module_spec list" where
  "spec_modules spec =
     (if p_modules spec = []
      then [\<lparr>m_name = Some (or_default ''main'' (p_name spec)),
             m_description = Some (or_default [] (p_description spec)), m_priority = None,
             m_model_tier = None, m_max_tokens = None, m_max_retries = None\<rparr>]
      else p_modules spec)"

definition deterministic_decompose :: "(nat \<Rightarrow> task_id) \<Rightarrow> time \<Rightarrow> project_spec \<Rightarrow> exn + task list" where
  "deterministic_decompose fresh now spec = decompose_modules fresh now 0 (spec_modules spec)"

section \<open>The reply of the LLM\<close>

record raw_task =
  raw_name :: string
  raw_type :: "string option"
  raw_agent_type :: "string option"
  raw_model_tier :: "string option"
  raw_priority :: "int option"
  raw_description :: "string option"
  raw_dependencies :: "string list option"

text \<open>The table from names to ids: a later descriptor of the same name overwrites.\<close>

definition name_to_id :: "(nat \<Rightarrow> task_id) \<Rightarrow> raw_task list \<Rightarrow> (string \<times> task_id) list" where
  "name_to_id fresh raws =
     fold (\<lambda>(k, r) d. AList.update (raw_name r) (fresh k) d) (zip [0..<length raws] raws) []"

definition dep_ids :: "(string \<times> task_id) list \<Rightarrow> raw_task \<Rightarrow> task_id list" where
  "dep_ids tbl r = map (get_or [] tbl)
     (filter (\<lambda>n. n \<in> set (keys tbl)) (or_default [] (raw_dependencies r)))"

definition raw_to_task :: "(string \<times> task_id) list \<Rightarrow> time \<Rightarrow> raw_task \<Rightarrow> exn + task" where
  "raw_to_task tbl now r =
     bind_sum (let s = or_default ''implement_feature'' (raw_type r) in enum_or_raise (task_type_of s) s) (\<lambda>ty.
     bind_sum (let s = or_default ''coder'' (raw_agent_type r) in enum_or_raise (agent_type_of s) s) (\<lambda>ag.
     bind_sum (let s = or_default ''tier_2'' (raw_model_tier r) in enum_or_raise (model_tier_of s) s) (\<lambda>tier.
     mk_task ((default_task (get_or [] tbl (raw_name r)) now)\<lparr>
       t_type := ty, agent_type := ag, model_tier := tier,
       priority := or_default 5 (raw_priority r),
       description := or_default (raw_name r) (raw_description r),
       dependencies := dep_ids tbl r\<rparr>))))"

definition llm_decompose :: "(nat \<Rightarrow> task_id) \<Rightarrow> time \<Rightarrow> raw_task list \<Rightarrow> exn + task list" where
  "llm_decompose fresh now raws =
     map_sum_list (raw_to_task (name_to_id fresh raws) now) raws"

section \<open>The graph of the decomposition activity\<close>

primrec add_all :: "task list \<Rightarrow> dag \<Rightarrow> exn + dag" where
  "add_all [] d = Inr d"
| "add_all (t # ts) d = bind_sum (add_task d t) (add_all ts)"

primrec add_deps :: "task_id \<Rightarrow> task_id list \<Rightarrow> dag \<Rightarrow> exn + dag" where
  "add_deps tid [] d = Inr d"
| "add_deps tid (dep # deps) d = bind_sum (add_dependency d dep tid) (add_deps tid deps)"

primrec add_all_deps :: "task list \<Rightarrow> dag \<Rightarrow> exn + dag" where
  "add_all_deps [] d = Inr d"
| "add_all_deps (t # ts) d = bind_sum (add_deps (t_id t) (dependencies t) d) (add_all_deps ts)"

definition build_dag :: "task list \<Rightarrow> exn + dag" where
  "build_dag ts = bind_sum (add_all ts empty_dag) (add_all_deps ts)"

text \<open>The activity: decompose, build, validate (errors are only logged), return the tasks.\<close>

definition decompose_activity :: "networkx \<Rightarrow> (nat \<Rightarrow> task_id) \<Rightarrow> time \<Rightarrow> project_spec \<Rightarrow>
    exn + (task list \<times> string list)" where
  "decompose_activity nx fresh now spec =
     bind_sum (deterministic_decompose fresh now spec) (\<lambda>ts.
     bind_sum (build_dag ts) (\<lambda>d. Inr (ts, validate nx d)))"

section \<open>Building with checks equals rebuilding\<close>

lemma add_all_Inr:
  "distinct (map t_id ts) \<Longrightarrow> t_id ` set ts \<inter> node_set d = {} \<Longrightarrow> add_all ts d = Inr (fold add_node ts d)"
  by (induction ts arbitrary: d) (auto simp: add_task_def)

lemma add_deps_Inr:
  "has_node d tid \<Longrightarrow> set deps \<subseteq> node_set d \<Longrightarrow>
     add_deps tid deps d = Inr (fold (\<lambda>dep d. if has_node d dep then add_edge dep tid d else d) deps d)"
  by (induction deps arbitrary: d) (auto simp: add_dependency_def)

lemma add_all_deps_Inr:
  "t_id ` set ts \<subseteq> node_set d \<Longrightarrow> (\<forall>t \<in> set ts. set (dependencies t) \<subseteq> node_set d) \<Longrightarrow>
     add_all_deps ts d = Inr (fold add_known_edges ts d)"
proof (induction ts arbitrary: d)
  case (Cons t ts)
  have "add_deps (t_id t) (dependencies t) d = Inr (add_known_edges t d)"
    using Cons.prems by (simp add: add_deps_Inr add_known_edges_def)
  then show ?case using Cons.prems Cons.IH [of "add_known_edges t d"] by simp
qed simp

lemma build_dag_from_tasks:
  "distinct (map t_id ts) \<Longrightarrow> (\<forall>t \<in> set ts. set (dependencies t) \<subseteq> t_id ` set ts) \<Longrightarrow>
     build_dag ts = Inr (from_tasks ts)"
  by (simp add: build_dag_def add_all_Inr add_all_deps_Inr fold_add_node_ids from_tasks_def)

lemma add_all_duplicate:
  "\<not> distinct (map t_id ts) \<or> t_id ` set ts \<inter> node_set d \<noteq> {} \<Longrightarrow> \<exists>e. add_all ts d = Inl (ValueError e)"
proof (induction ts arbitrary: d)
  case (Cons t ts)
  then show ?case
    by (cases "has_node d (t_id t)") (auto simp: add_task_def)
qed simp

section \<open>The deterministic decomposition\<close>

definition module_ok :: "module_spec \<Rightarrow> bool" where
  "module_ok m \<longleftrightarrow>
     (case m_model_tier m of None \<Rightarrow> True | Some s \<Rightarrow> model_tier_of s \<noteq> None) \<and>
     0 \<le> or_default 100000 (m_max_tokens m) \<and>
     0 \<le> or_default 3 (m_max_retries m) \<and> or_default 3 (m_max_retries m) \<le> 10 \<and>
     0 \<le> or_default 5 (m_priority m)"

lemma budget_of_Inr: "budget_of n r = Inr b \<longleftrightarrow>
    0 \<le> n \<and> 0 \<le> r \<and> r \<le> 10 \<and> b = default_budget\<lparr>max_tokens := n, max_retries := r\<rparr>"
  by (auto simp: budget_of_def budget_ok_def default_budget_def)

lemma implementation_task_Inr:
  assumes "create_implementation_task tid now m = Inr t"
  shows "module_ok m" and "t_id t = tid" and "dependencies t = []" and "status t = StatusEnum.PENDING"
    and "current_attempt t = 0" and "retry_history t = []" and "0 \<le> priority t"
  using assms
  by (auto simp: create_implementation_task_def bind_sum_Inr budget_of_Inr module_ok_def
      enum_or_raise_def default_task_def split: option.splits)

lemma implementation_task_ok: "module_ok m \<Longrightarrow> \<exists>t. create_implementation_task tid now m = Inr t"
  by (auto simp: create_implementation_task_def bind_sum_Inr budget_of_Inr module_ok_def
      enum_or_raise_def default_task_def split: option.splits)

lemma test_task_Inr:
  "create_test_task tid now impl = Inr t \<Longrightarrow> t_id t = tid \<and> dependencies t = [t_id impl] \<and>
     status t = StatusEnum.PENDING \<and> current_attempt t = 0 \<and> retry_history t = []"
  by (auto simp: create_test_task_def bind_sum_Inr default_task_def)

lemma test_task_ok: "0 \<le> priority impl \<Longrightarrow> \<exists>t. create_test_task tid now impl = Inr t"
  by (auto simp: create_test_task_def bind_sum_Inr budget_of_Inr default_task_def)

lemma review_task_Inr:
  "create_review_task tid now impl test = Inr t \<Longrightarrow>
     t_id t = tid \<and> dependencies t = [t_id impl, t_id test] \<and>
     status t = StatusEnum.PENDING \<and> current_attempt t = 0 \<and> retry_history t = []"
  by (auto simp: create_review_task_def bind_sum_Inr default_task_def)

lemma review_task_ok: "0 \<le> priority impl \<Longrightarrow> \<exists>t. create_review_task tid now impl test = Inr t"
  by (auto simp: create_review_task_def bind_sum_Inr budget_of_Inr default_task_def)

lemma decompose_modules_total:
  "(\<exists>ts. decompose_modules fresh now k ms = Inr ts) \<longleftrightarrow> (\<forall>m \<in> set ms. module_ok m)"
proof (induction ms arbitrary: k)
  case (Cons m ms)
  show ?case
  proof (cases "create_implementation_task (fresh k) now m")
    case (Inl e)
    with implementation_task_ok [of m "fresh k" now] show ?thesis by auto
  next
    case (Inr impl)
    note i = implementation_task_Inr [OF Inr]
    obtain test where t: "create_test_task (fresh (Suc k)) now impl = Inr test"
      using test_task_ok [OF i(7)] by blast
    obtain rev where "create_review_task (fresh (Suc (Suc k))) now impl test = Inr rev"
      using review_task_ok [OF i(7)] by blast
    with Inr t i(1) Cons.IH [of "k + 3"] show ?thesis by (auto simp: bind_sum_Inr)
  qed
qed simp

text \<open>Every task depends on earlier tasks only.\<close>

fun forward :: "task_id set \<Rightarrow> task list \<Rightarrow> bool" where
  "forward D [] \<longleftrightarrow> True"
| "forward D (t # ts) \<longleftrightarrow> set (dependencies t) \<subseteq> D \<and> forward (insert (t_id t) D) ts"

lemma forward_mono: "forward D ts \<Longrightarrow> D \<subseteq> D' \<Longrightarrow> forward D' ts"
proof (induction ts arbitrary: D D')
  case (Cons t ts)
  then show ?case using Cons.IH [of "insert (t_id t) D" "insert (t_id t) D'"] by auto
qed simp

lemma forward_known: "forward D ts \<Longrightarrow> t \<in> set ts \<Longrightarrow> set (dependencies t) \<subseteq> D \<union> t_id ` set ts"
proof (induction ts arbitrary: D)
  case (Cons u ts)
  then show ?case using Cons.IH [of "insert (t_id u) D"] by auto
qed simp

lemma forward_dep_order:
  "forward D ts \<Longrightarrow> (\<And>t u. t \<in> set ts \<Longrightarrow> (u, t_id t) \<in> E \<Longrightarrow> u \<in> set (dependencies t)) \<Longrightarrow>
     dep_order E D (map t_id ts)"
  by (induction D ts rule: forward.induct) auto

lemma forward_acyclic:
  assumes "forward {} ts" and "distinct (map t_id ts)"
  shows "acyclic (edge_set (from_tasks ts))"
proof (rule dep_order_acyclic)
  have "u \<in> set (dependencies t)" if "t \<in> set ts" "(u, t_id t) \<in> edge_set (from_tasks ts)" for t u
    using that assms(2) by (auto simp: from_tasks_edges distinct_map inj_on_def)
  then show "dep_order (edge_set (from_tasks ts)) {} (map t_id ts)"
    by (rule forward_dep_order [OF assms(1)])
  show "snd ` edge_set (from_tasks ts) \<subseteq> set (map t_id ts)"
    by (auto simp: from_tasks_edges)
qed

lemma decompose_modules_shape:
  "decompose_modules fresh now k ms = Inr ts \<Longrightarrow>
     map t_id ts = map fresh [k..<k + 3 * length ms] \<and> forward D ts \<and>
     (\<forall>t \<in> set ts. status t = StatusEnum.PENDING \<and> current_attempt t = 0 \<and> retry_history t = [] \<and>
        (dependencies t \<noteq> [] \<or> (\<exists>u \<in> set ts. t_id t \<in> set (dependencies u))))"
proof (induction ms arbitrary: k ts D)
  case (Cons m ms)
  then obtain impl test rev rest where
    i: "create_implementation_task (fresh k) now m = Inr impl" and
    t: "create_test_task (fresh (k + 1)) now impl = Inr test" and
    r: "create_review_task (fresh (k + 2)) now impl test = Inr rev" and
    rest: "decompose_modules fresh now (k + 3) ms = Inr rest" and
    ts: "ts = impl # test # rev # rest"
    by (auto simp: bind_sum_Inr)
  note I = implementation_task_Inr [OF i] and T = test_task_Inr [OF t] and R = review_task_Inr [OF r]
  have up: "[k..<k + 3 * length (m # ms)] = k # (k + 1) # (k + 2) # [k + 3..<(k + 3) + 3 * length ms]"
    by (simp add: upt_conv_Cons) (rule arg_cong2 [where f = upt]; simp)
  show ?case
    unfolding up using Cons.IH [OF rest, of "insert (fresh (k+2)) (insert (fresh (k+1)) (insert (fresh k) D))"]
      I T R by (auto simp: ts)
qed simp

lemma decompose_distinct:
  assumes "inj fresh" and "decompose_modules fresh now k ms = Inr ts"
  shows "distinct (map t_id ts)"
  using decompose_modules_shape [OF assms(2)] assms(1)
  by (simp add: distinct_map inj_on_subset [OF assms(1) subset_UNIV])

text \<open>
  The deterministic decomposition succeeds exactly when every module descriptor is
  within its limits, gives three tasks per module, and the activity's graph, built with
  all its checks, is the rebuilt graph: acyclic and without a validation error.
\<close>

theorem decomposition_valid:
  assumes "inj fresh" and "nx_contract nx"
  shows "((\<exists>ts. deterministic_decompose fresh now spec = Inr ts) \<longleftrightarrow>
      (\<forall>m \<in> set (spec_modules spec). module_ok m)) \<and>
    (\<forall>ts. deterministic_decompose fresh now spec = Inr ts \<longrightarrow>
      length ts = 3 * length (spec_modules spec) \<and>
      build_dag ts = Inr (from_tasks ts) \<and> acyclic (edge_set (from_tasks ts)) \<and>
      decompose_activity nx fresh now spec = Inr (ts, []))"
proof -
  have "length ts = 3 * length (spec_modules spec) \<and>
      build_dag ts = Inr (from_tasks ts) \<and> acyclic (edge_set (from_tasks ts)) \<and>
      decompose_activity nx fresh now spec = Inr (ts, [])"
    if ts: "deterministic_decompose fresh now spec = Inr ts" for ts
  proof -
    have dm: "decompose_modules fresh now 0 (spec_modules spec) = Inr ts"
      using ts by (simp add: deterministic_decompose_def)
    note shape = decompose_modules_shape [OF dm, of "{}"] and d = decompose_distinct [OF assms(1) dm]
    have known: "\<forall>t \<in> set ts. set (dependencies t) \<subseteq> t_id ` set ts"
      using shape forward_known [of "{}" ts] by blast
    have ac: "acyclic (edge_set (from_tasks ts))" using shape d by (simp add: forward_acyclic)
    have "isolates (from_tasks ts) = []" using shape isolates_none [OF d known] by blast
    then have "validate nx (from_tasks ts) = []"
      using ac known cycle_errors_none [OF assms(2) from_tasks_wf, of ts]
      by (simp add: validate_def isolated_errors_def dangling_errors_none [OF d])
    moreover have "length ts = 3 * length (spec_modules spec)"
      using shape by (metis add_0 diff_zero length_map length_upt)
    ultimately show ?thesis
      using ts ac build_dag_from_tasks [OF d known] by (simp add: decompose_activity_def)
  qed
  then show ?thesis by (simp add: deterministic_decompose_def decompose_modules_total)
qed

definition sample_module :: module_spec where
  "sample_module = \<lparr>m_name = Some ''core'', m_description = None, m_priority = None,
     m_model_tier = Some ''tier_1'', m_max_tokens = None, m_max_retries = Some 2\<rparr>"

definition sample_spec :: project_spec where
  "sample_spec = \<lparr>p_modules = [sample_module], p_name = None, p_description = None\<rparr>"

definition sample_ids :: "nat \<Rightarrow> task_id" where
  "sample_ids n = replicate n (CHR ''x'')"

lemma sample_ids_inj: "inj sample_ids"
  by (rule injI) (metis sample_ids_def length_replicate)

theorem decomposition_valid_witness:
  "\<exists>ts. deterministic_decompose sample_ids 0 sample_spec = Inr ts \<and> length ts = 3 \<and>
     decompose_activity ready_nx sample_ids 0 sample_spec = Inr (ts, [])"
proof -
  have "\<forall>m \<in> set (spec_modules sample_spec). module_ok m"
    by (simp add: spec_modules_def sample_spec_def sample_module_def module_ok_def or_default_def
        model_tier_of_def model_tier.parse_None) (auto intro: range_eqI [of _ _ ModelTier.TIER_1])
  moreover have "length (spec_modules sample_spec) = 1" by (simp add: spec_modules_def sample_spec_def)
  ultimately show ?thesis
    using decomposition_valid [OF sample_ids_inj ready_nx_contract, of 0 sample_spec] by auto
qed

section \<open>The descriptors of the LLM\<close>

lemma id_table_keys:
  "set (keys (fold (\<lambda>(k, r :: raw_task) d. AList.update (raw_name r) (fresh k) d) xs d)) =
     set (keys d) \<union> raw_name ` set (map snd xs)"
  by (induction xs arbitrary: d) (auto simp: keys_update simp del: set_map split: if_splits)

lemma id_table_value:
  "map_of (fold (\<lambda>(k, r :: raw_task) d. AList.update (raw_name r) (fresh k) d) xs d) n = Some v \<Longrightarrow>
     map_of d n = Some v \<or> (\<exists>k r. (k, r) \<in> set xs \<and> raw_name r = n \<and> v = fresh k)"
proof (induction xs arbitrary: d)
  case (Cons p xs)
  obtain k r where p: "p = (k, r)" by fastforce
  have "map_of (AList.update (raw_name r) (fresh k) d) n = Some v \<or>
      (\<exists>k r. (k, r) \<in> set xs \<and> raw_name r = n \<and> v = fresh k)"
    using Cons.prems by (intro Cons.IH) (simp add: p)
  then show ?case by (auto simp: p split: if_splits)
qed simp

lemma name_to_id_keys: "set (keys (name_to_id fresh raws)) = raw_name ` set raws"
  using id_table_keys [of fresh "zip [0..<length raws] raws" "[]"] by (simp add: name_to_id_def)

lemma name_to_id_value:
  assumes "n \<in> raw_name ` set raws"
  shows "\<exists>k. map_of (name_to_id fresh raws) n = Some (fresh k) \<and> raw_name (raws ! k) = n"
proof -
  obtain v where v: "map_of (name_to_id fresh raws) n = Some v"
    using map_of_in_keys [of n "name_to_id fresh raws"] assms unfolding name_to_id_keys by blast
  then obtain k r where "(k, r) \<in> set (zip [0..<length raws] raws)" "raw_name r = n" "v = fresh k"
    using id_table_value [of fresh "zip [0..<length raws] raws" "[]" n v]
    unfolding name_to_id_def by auto
  moreover have "r = raws ! k" using calculation(1) by (auto simp: set_zip)
  ultimately show ?thesis using v by blast
qed

lemma name_to_id_inj:
  assumes "inj fresh" and "m \<in> raw_name ` set raws" and "n \<in> raw_name ` set raws"
    and "get_or [] (name_to_id fresh raws) m = get_or [] (name_to_id fresh raws) n"
  shows "m = n"
proof -
  from name_to_id_value [OF assms(2)] name_to_id_value [OF assms(3)] obtain i j where
    "map_of (name_to_id fresh raws) m = Some (fresh i)" "raw_name (raws ! i) = m"
    "map_of (name_to_id fresh raws) n = Some (fresh j)" "raw_name (raws ! j) = n" by metis
  with assms(1,4) show ?thesis by (auto simp: get_or_def dest: injD)
qed

lemma raw_to_task_Inr:
  "raw_to_task tbl now r = Inr t \<Longrightarrow> t_id t = get_or [] tbl (raw_name r) \<and> dependencies t = dep_ids tbl r"
  by (auto simp: raw_to_task_def bind_sum_Inr default_task_def)

text \<open>
  In a decomposition by the LLM every dependency refers to a task of the reply (unknown
  names are dropped), and the graph can be built exactly when the names are distinct:
  two descriptors of one name get the same id, which the graph refuses.
\<close>

theorem llm_decomposition_ids:
  assumes "inj fresh" and "llm_decompose fresh now raws = Inr ts"
  shows "(\<forall>t \<in> set ts. set (dependencies t) \<subseteq> t_id ` set ts) \<and>
    (if distinct (map raw_name raws) then build_dag ts = Inr (from_tasks ts)
     else \<exists>msg. build_dag ts = Inl (ValueError msg))"
proof -
  let ?id = "\<lambda>r. get_or [] (name_to_id fresh raws) (raw_name r)"
  have conv: "map (raw_to_task (name_to_id fresh raws) now) raws = map Inr ts"
    using assms(2) by (simp add: llm_decompose_def map_sum_list_Inr)
  have "map (raw_to_task tbl now) rs = map Inr us \<Longrightarrow>
      map t_id us = map (\<lambda>r. get_or [] tbl (raw_name r)) rs" for tbl rs us
    by (induction rs us rule: list_induct2') (auto dest: raw_to_task_Inr simp del: map_eq_conv)
  with conv have ids: "map t_id ts = map ?id raws" by blast
  have "\<exists>r \<in> set raws. raw_to_task (name_to_id fresh raws) now r = Inr t" if "t \<in> set ts" for t
    using conv that by (metis (no_types, lifting) image_eqI imageE list.set_map)
  moreover have "set (dep_ids (name_to_id fresh raws) r) \<subseteq> t_id ` set ts" for r
  proof -
    have "t_id ` set ts = get_or [] (name_to_id fresh raws) ` raw_name ` set raws"
      using arg_cong [OF ids, of set] by (simp add: image_image)
    moreover have "set (dep_ids (name_to_id fresh raws) r) \<subseteq>
        get_or [] (name_to_id fresh raws) ` set (keys (name_to_id fresh raws))"
      unfolding dep_ids_def list.set_map by (rule image_mono) auto
    ultimately show ?thesis unfolding name_to_id_keys by simp
  qed
  ultimately have known: "\<forall>t \<in> set ts. set (dependencies t) \<subseteq> t_id ` set ts"
    using raw_to_task_Inr by fastforce
  have "distinct (map t_id ts) \<longleftrightarrow> distinct (map raw_name raws)"
    unfolding ids using name_to_id_inj [OF assms(1), of _ raws] by (auto simp: distinct_map inj_on_def)
  with known build_dag_from_tasks [of ts] add_all_duplicate [of ts empty_dag] show ?thesis
    by (auto simp: build_dag_def)
qed

definition sample_raw :: "string \<Rightarrow> string list \<Rightarrow> raw_task" where
  "sample_raw n deps = \<lparr>raw_name = n, raw_type = None, raw_agent_type = None, raw_model_tier = None,
     raw_priority = None, raw_description = None, raw_dependencies = Some deps\<rparr>"

lemma sample_raw_ok: "\<exists>t. raw_to_task tbl now (sample_raw n deps) = Inr t"
  by (simp add: raw_to_task_def sample_raw_def or_default_def enum_or_raise_def task_type_of_def
      agent_type_of_def model_tier_of_def parse_enum_def all_task_type_def all_agent_type_def
      all_model_tier_def mk_task_def default_task_def)

theorem llm_decomposition_ids_witness:
  "\<exists>ts msg. llm_decompose sample_ids 0 [sample_raw ''a'' [], sample_raw ''a'' [''a'']] = Inr ts \<and>
     build_dag ts = Inl (ValueError msg)"
proof -
  let ?raws = "[sample_raw ''a'' [], sample_raw ''a'' [''a'']]"
  let ?tbl = "name_to_id sample_ids ?raws"
  obtain t u where "raw_to_task ?tbl 0 (sample_raw ''a'' []) = Inr t"
    "raw_to_task ?tbl 0 (sample_raw ''a'' [''a'']) = Inr u" using sample_raw_ok by blast
  then have ts: "llm_decompose sample_ids 0 ?raws = Inr [t, u]" by (simp add: llm_decompose_def)
  have "\<not> distinct (map raw_name ?raws)" by (simp add: sample_raw_def)
  with llm_decomposition_ids [OF sample_ids_inj ts] have "\<exists>msg. build_dag [t, u] = Inl (ValueError msg)"
    by (simp only: if_False)
  with ts show ?thesis by blast
qed

end
