(* ===== verification/Task_Workflow.thy ===== *)
theory Task_Workflow
  imports Task_Decomposer
begin

text \<open>
  The Temporal workflow \<^verbatim>\<open>TaskOrchestrationWorkflow.run\<close>
  (\<^verbatim>\<open>task_graph_engine/temporal/workflows.py\<close>). The activities it calls are a
  record of operations over an unknown world \<open>'w\<close>; any of them may raise. The loop has
  the code's own bound, four iterations per task. \<open>shipped\<close> is the record of the
  activities in \<^verbatim>\<open>temporal/activities.py\<close>.
\<close>

record next_task =
  nt_id :: task_id

record task_outcome =
  oc_status :: StatusEnum
  oc_verdict :: "string option"
  oc_error :: "exn option"

record 'w activities =
  act_check_budget :: "(exn, 'w, bool) op"   \<comment> \<open>the \<open>exhausted\<close> flag\<close>
  act_schedule_next :: "(exn, 'w, next_task option) op"
  act_update_status :: "task_id \<Rightarrow> StatusEnum \<Rightarrow> (exn, 'w, unit) op"
  act_execute :: "next_task \<Rightarrow> (exn, 'w, string option) op"   \<comment> \<open>the \<open>verdict\<close> entry\<close>

record wf_state =
  wf_completed :: "task_id set"
  wf_failed :: "task_id set"
  wf_results :: "(task_id \<times> task_outcome) list"
  wf_budget_checked :: bool
  wf_iteration :: nat
  wf_sleeps :: nat

definition wf_init :: wf_state where
  "wf_init = \<lparr>wf_completed = {}, wf_failed = {}, wf_results = [], wf_budget_checked = False,
     wf_iteration = 0, wf_sleeps = 0\<rparr>"

definition next_iteration :: "wf_state \<Rightarrow> wf_state" where
  "next_iteration w = w\<lparr>wf_iteration := wf_iteration w + 1, wf_budget_checked := True\<rparr>"

definition record_failed :: "task_id \<Rightarrow> task_outcome \<Rightarrow> wf_state \<Rightarrow> wf_state" where
  "record_failed tid oc w =
     w\<lparr>wf_failed := insert tid (wf_failed w), wf_results := AList.update tid oc (wf_results w)\<rparr>"

definition record_completed :: "task_id \<Rightarrow> task_outcome \<Rightarrow> wf_state \<Rightarrow> wf_state" where
  "record_completed tid oc w =
     w\<lparr>wf_completed := insert tid (wf_completed w),
       wf_results := AList.update tid oc (wf_results w)\<rparr>"

text \<open>
  Steps 4 to 6 for one task. Only a hard failure and a soft failure that the retry policy
  gave up on differ by their verdict; both mark the task failed.
\<close>

definition run_task :: "'w activities \<Rightarrow> next_task \<Rightarrow> wf_state \<Rightarrow> (exn, 'w, wf_state) op" where
  "run_task acts nt w =
     chain (act_update_status acts (nt_id nt) StatusEnum.RUNNING) (\<lambda>_.
     chain (attempt (chain (act_execute acts nt) (\<lambda>v. ret (Inr v))) (\<lambda>e. ret (Inl e))) (\<lambda>result.
     case result of
       Inl e \<Rightarrow>
         chain (act_update_status acts (nt_id nt) StatusEnum.FAILED) (\<lambda>_.
         ret (record_failed (nt_id nt)
           \<lparr>oc_status = StatusEnum.FAILED, oc_verdict = None, oc_error = Some e\<rparr> w))
     | Inr v \<Rightarrow>
         (let verdict = or_default (eval_verdict_value EvalVerdict.PASS) v
          in if verdict = eval_verdict_value EvalVerdict.PASS
             then chain (act_update_status acts (nt_id nt) StatusEnum.COMPLETED) (\<lambda>_.
                  ret (record_completed (nt_id nt)
                    \<lparr>oc_status = StatusEnum.COMPLETED, oc_verdict = Some verdict, oc_error = None\<rparr> w))
             else chain (act_update_status acts (nt_id nt) StatusEnum.FAILED) (\<lambda>_.
                  ret (record_failed (nt_id nt)
                    \<lparr>oc_status = StatusEnum.FAILED, oc_verdict = Some verdict, oc_error = None\<rparr> w)))))"

text \<open>The loop; the number of iterations left is the first argument after the task count.\<close>

fun orchestrate :: "'w activities \<Rightarrow> nat \<Rightarrow> nat \<Rightarrow> wf_state \<Rightarrow> (exn, 'w, wf_state) op" where
  "orchestrate acts ntasks 0 w = ret w"
| "orchestrate acts ntasks (Suc left) w =
     (if card (wf_completed w) + card (wf_failed w) < ntasks
      then
        chain (act_check_budget acts) (\<lambda>exhausted.
        if exhausted then ret (next_iteration w)
        else
          chain (act_schedule_next acts) (\<lambda>next. case next of
            None \<Rightarrow>
              if wf_failed w \<noteq> {} then ret (next_iteration w)
              else orchestrate acts ntasks left
                     ((next_iteration w)\<lparr>wf_sleeps := wf_sleeps w + 1\<rparr>)
          | Some nt \<Rightarrow>
              chain (run_task acts nt (next_iteration w)) (orchestrate acts ntasks left)))
      else ret w)"

record wf_summary =
  sum_total :: nat
  sum_completed :: nat
  sum_failed :: nat
  sum_all_passed :: bool
  sum_results :: "(task_id \<times> task_outcome) list"

definition wf_run :: "'w activities \<Rightarrow> task_id list \<Rightarrow> (exn, 'w, wf_summary) op" where
  "wf_run acts ids =
     chain (orchestrate acts (length ids) (length ids * 4) wf_init) (\<lambda>w.
     ret \<lparr>sum_total = length ids, sum_completed = card (wf_completed w),
          sum_failed = card (wf_failed w), sum_all_passed = (card (wf_completed w) = length ids),
          sum_results = wf_results w\<rparr>)"

text \<open>The shipped activities: nothing is ever scheduled, no status is stored.\<close>

definition shipped :: "'w activities" where
  "shipped = \<lparr>act_check_budget = ret False, act_schedule_next = ret None,
     act_update_status = (\<lambda>_ _. ret ()), act_execute = (\<lambda>_. ret (Some ''pass''))\<rparr>"

section \<open>What the loop keeps\<close>

text \<open>The results are exactly the tasks counted, with the status they were counted under.\<close>

definition wf_inv :: "task_id set \<Rightarrow> wf_state \<Rightarrow> bool" where
  "wf_inv ids w \<longleftrightarrow> wf_completed w \<subseteq> ids \<and> wf_failed w \<subseteq> ids \<and>
     set (keys (wf_results w)) = wf_completed w \<union> wf_failed w \<and>
     (\<forall>t oc. map_of (wf_results w) t = Some oc \<longrightarrow>
        (oc_status oc = StatusEnum.COMPLETED \<longrightarrow> t \<in> wf_completed w) \<and>
        (oc_status oc = StatusEnum.FAILED \<longrightarrow> t \<in> wf_failed w))"

lemma wf_init_inv: "wf_inv ids wf_init"
  by (simp add: wf_inv_def wf_init_def)

lemma wf_inv_counts [simp]:
  "wf_inv ids (next_iteration w) = wf_inv ids w"
  "wf_inv ids (w\<lparr>wf_sleeps := n\<rparr>) = wf_inv ids w"
  by (simp_all add: wf_inv_def next_iteration_def)

lemma record_failed_inv:
  "wf_inv ids w \<Longrightarrow> t \<in> ids \<Longrightarrow> oc_status oc = StatusEnum.FAILED \<Longrightarrow> wf_inv ids (record_failed t oc w)"
  by (auto simp: wf_inv_def record_failed_def keys_update simp del: set_map split: if_splits)

lemma record_completed_inv:
  "wf_inv ids w \<Longrightarrow> t \<in> ids \<Longrightarrow> oc_status oc = StatusEnum.COMPLETED \<Longrightarrow> wf_inv ids (record_completed t oc w)"
  by (auto simp: wf_inv_def record_completed_def keys_update simp del: set_map split: if_splits)

lemma run_task_inv:
  assumes "wf_inv ids w" and "nt_id nt \<in> ids" and "run_task acts nt w s = (Inr w', s')"
  shows "wf_inv ids w'"
  using assms
  by (auto simp: run_task_def op_simps Let_def split: prod.splits sum.splits if_splits
      intro!: record_failed_inv record_completed_inv)

definition schedules_from :: "'w activities \<Rightarrow> task_id set \<Rightarrow> bool" where
  "schedules_from acts ids \<longleftrightarrow>
     (\<forall>s nt s'. act_schedule_next acts s = (Inr (Some nt), s') \<longrightarrow> nt_id nt \<in> ids)"

lemma orchestrate_inv:
  assumes "schedules_from acts ids"
  shows "wf_inv ids w \<Longrightarrow> orchestrate acts n k w s = (Inr w', s') \<Longrightarrow> wf_inv ids w'"
proof (induction k arbitrary: w s)
  case (Suc k)
  have sched: "act_schedule_next acts s = (Inr (Some nt), s'') \<Longrightarrow> nt_id nt \<in> ids" for s nt s''
    using assms by (auto simp: schedules_from_def)
  have rt: "nt_id nt \<in> ids \<Longrightarrow> run_task acts nt (next_iteration w) s = (Inr u, s'') \<Longrightarrow> wf_inv ids u"
    for nt s u s''
    using Suc.prems(1) run_task_inv [of ids "next_iteration w"] by simp
  show ?case
    using Suc.prems
    by (auto simp: chain_run split: if_splits prod.splits sum.splits option.splits
        elim!: Suc.IH [rotated] dest!: sched intro: rt)
qed auto

lemma orchestrate_shipped:
  "card (wf_completed w) + card (wf_failed w) < n \<Longrightarrow> wf_failed w = {} \<Longrightarrow>
     orchestrate shipped n k w s =
       (Inr (if k = 0 then w else w\<lparr>wf_iteration := wf_iteration w + k, wf_budget_checked := True,
           wf_sleeps := wf_sleeps w + k\<rparr>), s)"
  by (induction k arbitrary: w) (auto simp: shipped_def next_iteration_def)

lemma run_task_iteration:
  "run_task acts nt w s = (Inr w', s') \<Longrightarrow> wf_iteration w' = wf_iteration w"
  by (auto simp: run_task_def op_simps Let_def record_failed_def record_completed_def
      split: prod.splits sum.splits if_splits)

lemma orchestrate_iterations:
  "orchestrate acts n k w s = (Inr w', s') \<Longrightarrow> wf_iteration w' \<le> wf_iteration w + k"
proof (induction k arbitrary: w s)
  case (Suc k)
  have next_it: "wf_iteration (next_iteration w) = Suc (wf_iteration w)" by (simp add: next_iteration_def)
  show ?case
    using Suc.prems next_it
    by (auto simp: chain_run split: if_splits prod.splits sum.splits option.splits
        dest!: Suc.IH run_task_iteration)
qed auto

text \<open>
  Whatever the activities do, the workflow ends within four iterations per task, and
  when it returns, its summary is honest: the results are the tasks it counted, each with
  the status it was counted under, and \<^verbatim>\<open>all_passed\<close> means that every task of the
  decomposition completed.
\<close>

theorem workflow_summary_honest:
  assumes "schedules_from acts (set ids)" and "distinct ids"
    and "wf_run acts ids s = (Inr r, s')"
  shows "(\<exists>w. orchestrate acts (length ids) (length ids * 4) wf_init s = (Inr w, s') \<and>
      wf_iteration w \<le> 4 * length ids) \<and>
    sum_total r = length ids \<and> sum_completed r \<le> length ids \<and> sum_failed r \<le> length ids \<and>
    set (keys (sum_results r)) \<subseteq> set ids \<and>
    (sum_all_passed r \<longrightarrow> set (keys (sum_results r)) = set ids) \<and>
    (sum_all_passed r \<and> sum_failed r = 0 \<longrightarrow>
       (\<forall>t \<in> set ids. \<forall>oc. map_of (sum_results r) t = Some oc \<longrightarrow> oc_status oc \<noteq> StatusEnum.FAILED))"
proof -
  obtain w where w: "orchestrate acts (length ids) (length ids * 4) wf_init s = (Inr w, s')"
    and r: "r = \<lparr>sum_total = length ids, sum_completed = card (wf_completed w),
      sum_failed = card (wf_failed w), sum_all_passed = (card (wf_completed w) = length ids),
      sum_results = wf_results w\<rparr>"
    using assms(3) by (auto simp: wf_run_def chain_run split: prod.splits sum.splits)
  have inv: "wf_inv (set ids) w" by (rule orchestrate_inv [OF assms(1) wf_init_inv w])
  then have sub: "wf_completed w \<subseteq> set ids" "wf_failed w \<subseteq> set ids" by (auto simp: wf_inv_def)
  then have fin: "finite (wf_completed w)" "finite (wf_failed w)" using finite_subset by blast+
  have "card (wf_completed w) = length ids \<longrightarrow> wf_completed w = set ids"
    using sub(1) by (simp add: card_subset_eq distinct_card [OF assms(2), symmetric])
  moreover have "card (wf_completed w) \<le> length ids" "card (wf_failed w) \<le> length ids"
    using card_mono [OF _ sub(1)] card_mono [OF _ sub(2)] by (simp_all add: distinct_card [OF assms(2)])
  ultimately show ?thesis
    using inv fin sub w orchestrate_iterations [OF w] unfolding r wf_inv_def
    by (auto simp: wf_init_def simp del: set_map)
qed

theorem workflow_summary_honest_witness:
  "\<exists>r. wf_run shipped [''a'', ''b''] () = (Inr r, ()) \<and> sum_total r = 2 \<and> \<not> sum_all_passed r"
proof -
  have h: "schedules_from (shipped :: unit activities) (set [''a'', ''b''])"
    by (simp add: schedules_from_def shipped_def)
  obtain r where r: "wf_run shipped [''a'', ''b''] () = (Inr r, ())" and np: "\<not> sum_all_passed r"
    using orchestrate_shipped [of wf_init "Suc (Suc 0)" 8 "()"] by (simp add: wf_run_def chain_run wf_init_def)
  have "sum_total r = 2" using workflow_summary_honest [OF h _ r] by simp
  with r np show ?thesis by blast
qed

text \<open>
  With the activities the repository ships, the workflow never runs a task: for every
  decomposition it sleeps through all its iterations and reports zero completed and zero
  failed tasks, and \<^verbatim>\<open>all_passed\<close> false.
\<close>

theorem shipped_workflow_idle:
  assumes "ids \<noteq> []"
  shows "wf_run shipped ids s = (Inr \<lparr>sum_total = length ids, sum_completed = 0, sum_failed = 0,
      sum_all_passed = False, sum_results = []\<rparr>, s) \<and>
    (\<exists>w. orchestrate shipped (length ids) (length ids * 4) wf_init s = (Inr w, s) \<and>
      wf_sleeps w = 4 * length ids)"
  using assms orchestrate_shipped [of wf_init "length ids" "length ids * 4" s]
  by (simp add: wf_run_def chain_run wf_init_def)

theorem shipped_workflow_idle_witness:
  "fst (wf_run shipped [''a''] ()) = Inr \<lparr>sum_total = 1, sum_completed = 0, sum_failed = 0,
      sum_all_passed = False, sum_results = []\<rparr>"
  using shipped_workflow_idle [of "[''a'']" "()"] by simp

text \<open>A world where the tasks of the sample graph are scheduled by readiness and pass.\<close>

definition ready_activities :: "dag \<Rightarrow> task_id set activities" where
  "ready_activities d = \<lparr>act_check_budget = ret False,
     act_schedule_next = reads (\<lambda>C. case get_ready_tasks d C of [] \<Rightarrow> None | t # _ \<Rightarrow> Some \<lparr>nt_id = t\<rparr>),
     act_update_status = (\<lambda>t st. if st = StatusEnum.COMPLETED then writes (insert t) else ret ()),
     act_execute = (\<lambda>_. ret None)\<rparr>"

lemma orchestrate_ready:
  assumes "dag_wf d" and "acyclic (edge_set d)" and "n = card (node_set d)"
  shows "wf_failed w = {} \<Longrightarrow> wf_completed w = C \<Longrightarrow> C \<subseteq> node_set d \<Longrightarrow> card (node_set d - C) \<le> k \<Longrightarrow>
    \<exists>w'. orchestrate (ready_activities d) n k w C = (Inr w', node_set d) \<and>
      wf_completed w' = node_set d \<and> wf_failed w' = {}"
proof (induction k arbitrary: w C)
  case 0
  then show ?case by auto
next
  case (Suc k)
  show ?case
  proof (cases "C = node_set d")
    case True
    with Suc.prems assms(3) show ?thesis by auto
  next
    case False
    then obtain x where "x \<in> node_set d - C" using Suc.prems(3) by blast
    then obtain t ts where ready: "get_ready_tasks d C = t # ts"
      using ready_exists [OF assms(1,2)] by (metis list.exhaust)
    then have t: "t \<in> node_set d - C" using ready_iff [of t d C] by simp
    have "card C < card (node_set d)"
      using False Suc.prems(3) by (intro psubset_card_mono) auto
    moreover have "node_set d - insert t C = node_set d - C - {t}" by auto
    then have "card (node_set d - insert t C) \<le> k" using Suc.prems(4) t by simp
    ultimately show ?thesis
      using Suc.IH [of _ "insert t C"] Suc.prems t ready assms(3)
      by (auto simp: run_task_def chain_run attempt_run ready_activities_def next_iteration_def
          record_completed_def or_default_def)
  qed
qed

text \<open>
  With activities that schedule ready tasks of an acyclic graph and a worker that
  passes every task, the loop bound is enough: the workflow completes every task and
  reports \<^verbatim>\<open>all_passed\<close>.
\<close>

theorem workflow_completes_graph:
  assumes "dag_wf d" and "acyclic (edge_set d)"
  shows "\<exists>r s'. wf_run (ready_activities d) (task_ids d) {} = (Inr r, s') \<and> sum_all_passed r \<and>
    sum_completed r = length (nodes d) \<and> sum_failed r = 0"
proof -
  have n: "length (task_ids d) = card (node_set d)" by (simp add: card_node_set [OF assms(1)])
  obtain w where "orchestrate (ready_activities d) (card (node_set d)) (card (node_set d) * 4) wf_init {} =
      (Inr w, node_set d)" and w: "wf_completed w = node_set d" "wf_failed w = {}"
    using orchestrate_ready [OF assms refl, of wf_init "{}" "card (node_set d) * 4"]
    by (auto simp: wf_init_def)
  then show ?thesis
    by (simp add: wf_run_def chain_run n w card_node_set [OF assms(1)])
qed

theorem workflow_completes_graph_witness:
  "\<exists>r s'. wf_run (ready_activities sample_dag) (task_ids sample_dag) {} = (Inr r, s') \<and>
     sum_all_passed r \<and> sum_completed r = 3"
proof -
  have "length (nodes sample_dag) = 3" by (simp add: sample_dag_eval)
  with workflow_completes_graph [OF sample_wf sample_acyclic] show ?thesis by metis
qed

end
