(* ===== verification/Schema.thy ===== *)
theory Schema
  imports Json
begin

text \<open>
  Validation of JSON documents against declared classes, as pydantic does it in lax mode:
  whole floats and decimal strings are accepted for integers, decimal strings for floats,
  the usual words for booleans; strings of an \<^verbatim>\<open>ArchitectBase\<close> are stripped
  (\<open>SStr\<close>), those of a plain \<^verbatim>\<open>BaseModel\<close> are not (\<open>SRaw\<close>); unknown keys are
  dropped. Number strings with an exponent, an underscore or \<^verbatim>\<open>inf\<close> are refused, where
  pydantic reads some of them. A validated document validates to itself.
\<close>

datatype schema =
    SInt "int option" "int option"       \<comment> \<open>\<open>ge\<close>, \<open>le\<close>\<close>
  | SFloat "rat option" "rat option"
  | SBool
  | SStr
  | SRaw
  | STime
  | SAny
  | SObject                              \<comment> \<open>any object\<close>
  | SHash nat
  | SEnum "string list"
  | SOpt schema
  | SList schema
  | SStrMap
  | SModel fields
and fields =
    FNil
  | FCons string schema "json option" fields   \<comment> \<open>name, type, default, the rest\<close>

abbreviation invalid :: "exn + 'a" where
  "invalid \<equiv> Inl (ValidationError ''invalid value'')"

definition digit :: "char \<Rightarrow> bool" where
  "digit c \<longleftrightarrow> c \<in> set ''0123456789''"

definition digits_value :: "string \<Rightarrow> int" where
  "digits_value s = foldl (\<lambda>n c. 10 * n + (of_char c - 48)) 0 s"

definition unsigned :: "string \<Rightarrow> bool \<times> string" where
  "unsigned s = (case strip s of
      [] \<Rightarrow> (False, [])
    | c # ds \<Rightarrow> if c = CHR ''-'' then (True, ds) else if c = CHR ''+'' then (False, ds) else (False, c # ds))"

text \<open>An optional sign and decimal digits.\<close>

definition parse_int :: "string \<Rightarrow> int option" where
  "parse_int s = (case unsigned s of (neg, ds) \<Rightarrow>
     if ds \<noteq> [] \<and> list_all digit ds
     then Some (if neg then - digits_value ds else digits_value ds) else None)"

text \<open>The same, with an optional point.\<close>

definition parse_decimal :: "string \<Rightarrow> rat option" where
  "parse_decimal s = (case unsigned s of (neg, ds) \<Rightarrow>
     (case split_on CHR ''.'' ds of
        [ds1] \<Rightarrow> if ds1 \<noteq> [] \<and> list_all digit ds1
          then Some ((if neg then - 1 else 1) * of_int (digits_value ds1)) else None
      | [ds1, ds2] \<Rightarrow> if ds1 @ ds2 \<noteq> [] \<and> list_all digit (ds1 @ ds2)
          then Some ((if neg then - 1 else 1) * of_int (digits_value (ds1 @ ds2)) / 10 ^ length ds2) else None
      | _ \<Rightarrow> None))"

definition in_range :: "'a :: linorder option \<Rightarrow> 'a option \<Rightarrow> 'a \<Rightarrow> bool" where
  "in_range lo hi x \<longleftrightarrow> (case lo of None \<Rightarrow> True | Some l \<Rightarrow> l \<le> x) \<and> (case hi of None \<Rightarrow> True | Some h \<Rightarrow> x \<le> h)"

definition lax_int :: "json \<Rightarrow> int option" where
  "lax_int j = (case j of
      JInt n \<Rightarrow> Some n
    | JBool b \<Rightarrow> Some (if b then 1 else 0)
    | JFloat r \<Rightarrow> if of_int \<lfloor>r\<rfloor> = r then Some \<lfloor>r\<rfloor> else None
    | JStr s \<Rightarrow> parse_int s
    | _ \<Rightarrow> None)"

definition check_int :: "int option \<Rightarrow> int option \<Rightarrow> json \<Rightarrow> exn + json" where
  "check_int lo hi j = (case lax_int j of
      Some n \<Rightarrow> if in_range lo hi n then Inr (JInt n) else invalid | None \<Rightarrow> invalid)"

definition lax_float :: "json \<Rightarrow> rat option" where
  "lax_float j = (case j of JStr s \<Rightarrow> parse_decimal s | _ \<Rightarrow> number_of j)"

definition check_float :: "rat option \<Rightarrow> rat option \<Rightarrow> json \<Rightarrow> exn + json" where
  "check_float lo hi j = (case lax_float j of
      Some q \<Rightarrow> if in_range lo hi q then Inr (JFloat q) else invalid | None \<Rightarrow> invalid)"

definition lower_char :: "char \<Rightarrow> char" where
  "lower_char c = (if 65 \<le> (of_char c :: nat) \<and> (of_char c :: nat) \<le> 90 then char_of ((of_char c :: nat) + 32) else c)"

definition lower :: "string \<Rightarrow> string" where
  "lower s = map lower_char s"

definition check_bool :: "json \<Rightarrow> exn + json" where
  "check_bool j = (case j of
      JBool b \<Rightarrow> Inr (JBool b)
    | JStr s \<Rightarrow> if lower s \<in> {''1'', ''on'', ''t'', ''true'', ''y'', ''yes''} then Inr (JBool True)
        else if lower s \<in> {''0'', ''off'', ''f'', ''false'', ''n'', ''no''} then Inr (JBool False) else invalid
    | _ \<Rightarrow> if number_of j = Some 1 then Inr (JBool True)
        else if number_of j = Some 0 then Inr (JBool False) else invalid)"

definition hex_digit :: "char \<Rightarrow> bool" where
  "hex_digit c \<longleftrightarrow> c \<in> set ''0123456789abcdef''"

fun str_of :: "json \<Rightarrow> string option" where
  "str_of (JStr s) = Some s"
| "str_of _ = None"

definition check_entry :: "string \<times> json \<Rightarrow> exn + (string \<times> json)" where
  "check_entry p = (case str_of (snd p) of
      Some s \<Rightarrow> Inr (fst p, JStr (strip s)) | None \<Rightarrow> invalid)"

primrec check :: "schema \<Rightarrow> json \<Rightarrow> exn + json"
  and check_fields :: "fields \<Rightarrow> (string \<times> json) list \<Rightarrow> exn + (string \<times> json) list" where
  "check (SInt lo hi) = check_int lo hi"
| "check (SFloat lo hi) = check_float lo hi"
| "check SStr = (\<lambda>j. case str_of j of Some s \<Rightarrow> Inr (JStr (strip s)) | None \<Rightarrow> invalid)"
| "check SBool = check_bool"
| "check SRaw = (\<lambda>j. case str_of j of Some s \<Rightarrow> Inr (JStr s) | None \<Rightarrow> invalid)"
| "check SAny = Inr"
| "check SObject = (\<lambda>j. case j of JObj d \<Rightarrow> Inr j | _ \<Rightarrow> invalid)"
| "check STime = (\<lambda>j. case str_of j of Some s \<Rightarrow> Inr (JStr s) | None \<Rightarrow> invalid)"
| "check (SHash n) = (\<lambda>j. case str_of j of
      Some s \<Rightarrow> if length (strip s) = n \<and> list_all hex_digit (strip s) then Inr (JStr (strip s)) else invalid
    | None \<Rightarrow> invalid)"
| "check (SEnum vs) = (\<lambda>j. case str_of j of
      Some s \<Rightarrow> if s \<in> set vs then Inr (JStr s) else invalid | None \<Rightarrow> invalid)"
| "check (SOpt s) = (\<lambda>j. if j = JNull then Inr JNull else check s j)"
| "check (SList s) = (\<lambda>j. case j of
      JArr xs \<Rightarrow> bind_sum (map_sum_list (check s) xs) (\<lambda>ys. Inr (JArr ys)) | _ \<Rightarrow> invalid)"
| "check SStrMap = (\<lambda>j. case j of
      JObj d \<Rightarrow> bind_sum (map_sum_list check_entry d) (\<lambda>d'. Inr (JObj d'))
    | _ \<Rightarrow> invalid)"
| "check (SModel fs) = (\<lambda>j. case j of
      JObj d \<Rightarrow> bind_sum (check_fields fs d) (\<lambda>w. Inr (JObj w)) | _ \<Rightarrow> invalid)"
| "check_fields FNil = (\<lambda>d. Inr [])"
| "check_fields (FCons f s dflt rest) = (\<lambda>d.
     bind_sum (case map_of d f of Some j \<Rightarrow> check s j
               | None \<Rightarrow> (case dflt of Some v \<Rightarrow> Inr v | None \<Rightarrow> invalid)) (\<lambda>v.
     bind_sum (check_fields rest d) (\<lambda>w. Inr ((f, v) # w))))"

section \<open>Validating twice changes nothing\<close>

primrec field_names :: "fields \<Rightarrow> string list" where
  "field_names FNil = []"
| "field_names (FCons f s dflt rest) = f # field_names rest"

primrec schema_ok :: "schema \<Rightarrow> bool" and fields_ok :: "fields \<Rightarrow> bool" where
  "schema_ok (SInt lo hi) = True"
| "schema_ok (SFloat lo hi) = True"
| "schema_ok SStr = True"
| "schema_ok SBool = True"
| "schema_ok SRaw = True"
| "schema_ok SAny = True"
| "schema_ok SObject = True"
| "schema_ok STime = True"
| "schema_ok (SHash n) = True"
| "schema_ok (SEnum vs) = True"
| "schema_ok (SOpt s) = schema_ok s"
| "schema_ok (SList s) = schema_ok s"
| "schema_ok SStrMap = True"
| "schema_ok (SModel fs) = (distinct (field_names fs) \<and> fields_ok fs)"
| "fields_ok FNil = True"
| "fields_ok (FCons f s dflt rest) =
     ((case dflt of None \<Rightarrow> True | Some v \<Rightarrow> check s v = Inr v) \<and> schema_ok s \<and> fields_ok rest)"

lemma check_int_idem: "check_int lo hi j = Inr v \<Longrightarrow> check_int lo hi v = Inr v"
  by (auto simp: check_int_def lax_int_def split: option.splits if_splits)

lemma check_bool_idem: "check_bool j = Inr v \<Longrightarrow> check_bool v = Inr v"
  by (auto simp: check_bool_def split: json.splits if_splits)

lemma check_float_idem: "check_float lo hi j = Inr v \<Longrightarrow> check_float lo hi v = Inr v"
  by (auto simp: check_float_def lax_float_def split: option.splits if_splits)

lemma check_entry_idem: "check_entry p = Inr q \<Longrightarrow> check_entry q = Inr q"
  by (auto simp: check_entry_def split: option.splits)

lemma map_sum_list_idem:
  assumes "\<And>x y. f x = Inr y \<Longrightarrow> f y = Inr y" and "map_sum_list f xs = Inr ys"
  shows "map_sum_list f ys = Inr ys"
  using assms(2) by (induction xs arbitrary: ys) (auto simp: bind_sum_Inr assms(1))

lemma check_idem_both:
  "schema_ok s \<Longrightarrow> check s j = Inr v \<Longrightarrow> check s v = Inr v"
  "fields_ok fs \<Longrightarrow> distinct (field_names fs) \<Longrightarrow> check_fields fs d = Inr w \<Longrightarrow>
     keys w = field_names fs \<and>
     (\<forall>w'. (\<forall>f \<in> set (field_names fs). map_of w' f = map_of w f) \<longrightarrow> check_fields fs w' = Inr w)"
proof (induction s and fs arbitrary: j v and d w)
  case (SList s)
  then show ?case
    by (auto simp: bind_sum_Inr split: json.splits intro!: map_sum_list_idem [of "check s"])
next
  case SStrMap
  then show ?case
    by (auto simp: bind_sum_Inr split: json.splits
        intro!: map_sum_list_idem [of check_entry] check_entry_idem)
next
  case (SModel fs)
  from SModel.prems(2) obtain d w where w: "check_fields fs d = Inr w" and v: "v = JObj w"
    by (auto simp: bind_sum_Inr split: json.splits)
  have "check_fields fs w = Inr w" using SModel.IH [OF _ _ w] SModel.prems(1) by simp
  then show ?case by (simp add: v)
next
  case (FCons f s dflt rest)
  from FCons.prems(3) obtain v w0 where v: "(case map_of d f of Some j \<Rightarrow> check s j
      | None \<Rightarrow> (case dflt of Some v \<Rightarrow> Inr v | None \<Rightarrow> invalid)) = Inr v"
    and w0: "check_fields rest d = Inr w0" and w: "w = (f, v) # w0"
    by (auto simp: bind_sum_Inr)
  have vv: "check s v = Inr v"
    using v FCons.prems(1) FCons.IH(1) by (auto split: option.splits)
  have rest: "keys w0 = field_names rest"
    "\<forall>w'. (\<forall>g \<in> set (field_names rest). map_of w' g = map_of w0 g) \<longrightarrow> check_fields rest w' = Inr w0"
    using FCons.IH(2) [OF _ _ w0] FCons.prems(1,2) by auto
  have "check_fields (FCons f s dflt rest) w' = Inr w"
    if w': "\<forall>g \<in> set (field_names (FCons f s dflt rest)). map_of w' g = map_of w g" for w'
  proof -
    have "map_of w' f = Some v" using w' by (simp add: w)
    moreover have "\<forall>g \<in> set (field_names rest). map_of w' g = map_of w0 g"
      using w' FCons.prems(2) by (auto simp: w)
    then have "check_fields rest w' = Inr w0" using rest(2) by blast
    ultimately show ?thesis by (simp add: vv w)
  qed
  with rest(1) show ?case by (auto simp: w)
qed (auto simp: check_int_idem check_float_idem check_bool_idem bind_sum_Inr split: option.splits if_splits json.splits)

lemmas check_idem = check_idem_both(1)

section \<open>Reading a validated object\<close>

definition int_field :: "(string \<times> json) list \<Rightarrow> string \<Rightarrow> int" where
  "int_field d k = (case map_of d k of Some (JInt n) \<Rightarrow> n | _ \<Rightarrow> 0)"

definition float_field :: "(string \<times> json) list \<Rightarrow> string \<Rightarrow> rat" where
  "float_field d k = (case map_of d k of Some (JFloat q) \<Rightarrow> q | _ \<Rightarrow> 0)"

definition str_field :: "(string \<times> json) list \<Rightarrow> string \<Rightarrow> string" where
  "str_field d k = (case map_of d k of Some (JStr s) \<Rightarrow> s | _ \<Rightarrow> [])"

definition bool_field :: "(string \<times> json) list \<Rightarrow> string \<Rightarrow> bool" where
  "bool_field d k = (map_of d k = Some (JBool True))"

section \<open>Printing numbers\<close>

fun nat_str :: "nat \<Rightarrow> string" where
  "nat_str n = (if n < 10 then [char_of (48 + n)] else nat_str (n div 10) @ [char_of (48 + n mod 10)])"

declare nat_str.simps [simp del]

definition int_str :: "int \<Rightarrow> string" where
  "int_str i = (if i < 0 then CHR ''-'' # nat_str (nat (- i)) else nat_str (nat i))"

text \<open>The float of two decimals, as an f-string shows it.\<close>

definition cents_str :: "rat \<Rightarrow> string" where
  "cents_str q =
     (let n = nat \<lfloor>\<bar>q\<bar> * 100\<rfloor>; c = n mod 100
      in (if q < 0 then ''-'' else []) @ nat_str (n div 100) @ ''.'' @
         (if c mod 10 = 0 then nat_str (c div 10) else nat_str (c div 10) @ nat_str (c mod 10)))"

text \<open>
  What the HTTP routes of the services share: a route answers with a value or with a status
  code and a detail (\<^verbatim>\<open>HTTPException\<close>), and lists are cut to a page.
\<close>

datatype 'a reply = Reply 'a | Http_Error nat string

text \<open>\<^verbatim>\<open>xs[offset : offset + limit]\<close> for numbers that are not negative.\<close>

definition page :: "nat \<Rightarrow> nat \<Rightarrow> 'a list \<Rightarrow> 'a list" where
  "page offset limit xs = take limit (drop offset xs)"

lemma length_page: "length (page offset limit xs) \<le> limit"
  by (simp add: page_def)

lemma set_page: "set (page offset limit xs) \<subseteq> set xs"
  by (auto simp: page_def dest: in_set_takeD in_set_dropD)

text \<open>Pages of one size, one after the other, give the list back.\<close>

lemma pages_cover: "0 < limit \<Longrightarrow> length xs \<le> n * limit \<Longrightarrow> concat (map (\<lambda>i. page (i * limit) limit xs) [0..<n]) = xs"
proof (induction n arbitrary: xs)
  case 0
  then show ?case by simp
next
  case (Suc n)
  have "map (\<lambda>i. page (i * limit) limit xs) [0..<Suc n] =
      page 0 limit xs # map (\<lambda>i. page (i * limit) limit (drop limit xs)) [0..<n]"
    by (simp add: upt_conv_Cons map_Suc_upt [symmetric] comp_def page_def ac_simps del: upt_Suc)
  moreover have "concat (map (\<lambda>i. page (i * limit) limit (drop limit xs)) [0..<n]) = drop limit xs"
    using Suc by (intro Suc.IH) auto
  ultimately show ?case by (simp add: page_def del: upt_Suc)
qed

text \<open>Python's truth of a JSON value.\<close>

fun truthy :: "json \<Rightarrow> bool" where
  "truthy JNull = False"
| "truthy (JBool b) = b"
| "truthy (JInt n) = (n \<noteq> 0)"
| "truthy (JFloat q) = (q \<noteq> 0)"
| "truthy (JStr s) = (s \<noteq> [])"
| "truthy (JArr xs) = (xs \<noteq> [])"
| "truthy (JObj d) = (d \<noteq> [])"

end
