(* ===== verification/World_State.thy ===== *)
theory World_State
  imports Json Schema
begin

text \<open>
  World state documents (\<^verbatim>\<open>world_state_ledger/models.py\<close> and the document
  functions of \<^verbatim>\<open>state_manager.py\<close>).

  A \<^verbatim>\<open>WorldState\<close> is held as its JSON dump: an object with the class's eight fields in
  declaration order. \<^verbatim>\<open>WorldState.model_validate\<close> validates field by field and drops
  unknown keys; the validation of one field by pydantic is the parameter \<open>vf\<close>, which gets
  the field's value or \<open>None\<close> if it is missing. \<open>field_validation\<close> is what the code relies
  on: the dump of a validated field validates to itself, any integer is a version, any time
  stamp the code writes is one, and every field has a default.

  Values are copied, not shared: the model does not track that the code stores the very
  object \<^verbatim>\<open>mutation.new_value\<close> into the document.
\<close>

record mutation =
  mut_path :: string
  old_value :: json   \<comment> \<open>\<open>JNull\<close>: no expectation\<close>
  new_value :: json

definition core_fields :: "string list" where
  "core_fields = [''spec'', ''repo'', ''build'', ''infra'', ''agents'', ''budget'']"

definition world_fields :: "string list" where
  "world_fields = ''version'' # ''updated_at'' # core_fields"

type_synonym validator = "string \<Rightarrow> json option \<Rightarrow> exn + json"

definition model_validate :: "validator \<Rightarrow> (string \<times> json) list \<Rightarrow> exn + (string \<times> json) list" where
  "model_validate vf d =
     map_sum_list (\<lambda>f. bind_sum (vf f (map_of d f)) (\<lambda>v. Inr (f, v))) world_fields"

definition pristine :: "validator \<Rightarrow> json \<Rightarrow> exn + (string \<times> json) list" where
  "pristine vf now = model_validate vf [(''updated_at'', now)]"

section \<open>Paths\<close>

fun set_at :: "string list \<Rightarrow> json \<Rightarrow> json \<Rightarrow> json" where
  "set_at [] v t = t"
| "set_at [k] v t = (case t of JObj d \<Rightarrow> JObj (AList.update k v d) | _ \<Rightarrow> t)"
| "set_at (k # ks) v t = (case t of
      JObj d \<Rightarrow> JObj (AList.update k (set_at ks v (case map_of d k of None \<Rightarrow> JObj [] | Some w \<Rightarrow> w)) d)
    | _ \<Rightarrow> t)"

fun get_at :: "string list \<Rightarrow> json \<Rightarrow> json" where
  "get_at [] t = t"
| "get_at (k # ks) t = (case t of
      JObj d \<Rightarrow> get_at ks (case map_of d k of None \<Rightarrow> JNull | Some w \<Rightarrow> w)
    | _ \<Rightarrow> JNull)"

definition path_parts :: "string \<Rightarrow> string list" where
  "path_parts p = split_on (CHR ''.'') p"

definition set_at_path :: "json \<Rightarrow> string \<Rightarrow> json \<Rightarrow> json" where
  "set_at_path data path v = set_at (path_parts path) v data"

definition apply_all :: "mutation list \<Rightarrow> json \<Rightarrow> json" where
  "apply_all ms data = fold (\<lambda>m d. set_at_path d (mut_path m) (new_value m)) ms data"

fun obj_fields :: "json \<Rightarrow> (string \<times> json) list" where
  "obj_fields (JObj d) = d"
| "obj_fields _ = []"

definition apply_mutations :: "validator \<Rightarrow> (string \<times> json) list \<Rightarrow> mutation list \<Rightarrow>
    exn + (string \<times> json) list" where
  "apply_mutations vf state ms = model_validate vf (obj_fields (apply_all ms (JObj state)))"

datatype rejection =
    StaleValue string json json   \<comment> \<open>path, expected, found\<close>
  | BudgetViolated json

definition stale :: "json \<Rightarrow> mutation \<Rightarrow> bool" where
  "stale data m \<longleftrightarrow> old_value m \<noteq> JNull \<and>
     \<not> py_eq (get_at (path_parts (mut_path m)) data) (old_value m)"

definition validate_mutations :: "(string \<times> json) list \<Rightarrow> mutation list \<Rightarrow> exn + rejection option" where
  "validate_mutations state ms =
     (case find (stale (JObj state)) ms of
        Some m \<Rightarrow> Inr (Some (StaleValue (mut_path m) (old_value m)
                    (get_at (path_parts (mut_path m)) (JObj state))))
      | None \<Rightarrow>
          (case obj_get (apply_all ms (JObj state)) ''budget'' of
             None \<Rightarrow> Inr None
           | Some (JObj b) \<Rightarrow>
               (case map_of b ''remaining_tokens'' of
                  None \<Rightarrow> Inr None
                | Some r \<Rightarrow>
                    (case number_of r of
                       None \<Rightarrow> Inr None
                     | Some q \<Rightarrow> if q < 0 then Inr (Some (BudgetViolated r)) else Inr None))
           | Some _ \<Rightarrow> Inl (AttributeError ''get'')))"

section \<open>Documents field by field\<close>

lemma world_fields_distinct: "distinct world_fields"
  by (simp add: world_fields_def core_fields_def)

lemma map_sum_fields:
  "map_sum_list (\<lambda>f. bind_sum (g f) (\<lambda>v. Inr (f, v))) fs = Inr w \<Longrightarrow>
     keys w = fs \<and> (distinct fs \<longrightarrow> (\<forall>f \<in> set fs. \<exists>v. g f = Inr v \<and> map_of w f = Some v))"
proof (induction fs arbitrary: w)
  case (Cons f fs)
  then obtain v w' where "g f = Inr v"
    and w': "map_sum_list (\<lambda>f. bind_sum (g f) (\<lambda>v. Inr (f, v))) fs = Inr w'" "w = (f, v) # w'"
    by (auto simp: bind_sum_Inr)
  with Cons.IH [OF w'(1)] show ?case by auto
qed simp

lemma map_sum_fields_ok:
  "(\<And>f. f \<in> set fs \<Longrightarrow> \<exists>v. g f = Inr v) \<Longrightarrow>
     \<exists>w. map_sum_list (\<lambda>f. bind_sum (g f) (\<lambda>v. Inr (f, v))) fs = Inr w"
  by (induction fs) (auto simp: bind_sum_Inr)

lemma model_validate_Inr:
  assumes "model_validate vf d = Inr w"
  shows "keys w = world_fields"
    and "f \<in> set world_fields \<Longrightarrow> \<exists>v. vf f (map_of d f) = Inr v \<and> map_of w f = Some v"
  using map_sum_fields [OF assms [unfolded model_validate_def]] world_fields_distinct by auto

lemma model_validate_ok:
  "(\<And>f. f \<in> set world_fields \<Longrightarrow> \<exists>v. vf f (map_of d f) = Inr v) \<Longrightarrow>
     \<exists>w. model_validate vf d = Inr w"
  unfolding model_validate_def by (rule map_sum_fields_ok)

lemma fields_of_map:
  "keys w = fs \<Longrightarrow> distinct fs \<Longrightarrow> map (\<lambda>f. (f, the (map_of w f))) fs = w"
proof (induction w arbitrary: fs)
  case (Cons p w)
  then obtain gs where fs: "fs = fst p # gs" "keys w = gs" "fst p \<notin> set gs" "distinct gs" by auto
  then have "map (\<lambda>f. (f, the (map_of (p # w) f))) gs = map (\<lambda>f. (f, the (map_of w f))) gs"
    by (intro map_cong) auto
  with Cons.IH [OF fs(2,4)] show ?case by (simp add: fs(1))
qed simp

text \<open>A document is valid if validating it changes nothing.\<close>

definition world_ok :: "validator \<Rightarrow> (string \<times> json) list \<Rightarrow> bool" where
  "world_ok vf w \<longleftrightarrow> keys w = world_fields \<and>
     (\<forall>f \<in> set world_fields. \<exists>v. map_of w f = Some v \<and> vf f (Some v) = Inr v)"

lemma world_okD: "world_ok vf w \<Longrightarrow> f \<in> set world_fields \<Longrightarrow> \<exists>v. map_of w f = Some v \<and> vf f (Some v) = Inr v"
  by (simp add: world_ok_def)

lemma world_ok_validate:
  assumes "world_ok vf w"
  shows "model_validate vf w = Inr w"
proof -
  have "bind_sum (vf f (map_of w f)) (\<lambda>v. Inr (f, v)) = Inr (f, the (map_of w f))"
    if "f \<in> set world_fields" for f
    using world_okD [OF assms that] by auto
  then have "model_validate vf w = Inr (map (\<lambda>f. (f, the (map_of w f))) world_fields)"
    unfolding model_validate_def by (rule map_sum_list_ok)
  then show ?thesis
    using fields_of_map [of w world_fields] assms world_fields_distinct by (simp add: world_ok_def)
qed

text \<open>The effect of mutations on one top-level field.\<close>

definition mut_field :: "string \<Rightarrow> mutation \<Rightarrow> json \<Rightarrow> json" where
  "mut_field f m j = (case path_parts (mut_path m) of
      [] \<Rightarrow> j
    | k # ks \<Rightarrow> if k \<noteq> f then j else if ks = [] then new_value m else set_at ks (new_value m) j)"

lemma set_at_obj: "\<exists>d'. set_at ks v (JObj d) = JObj d'"
  by (cases "(ks, v, JObj d)" rule: set_at.cases) auto

lemma set_at_path_field:
  assumes "map_of d f = Some j"
  shows "\<exists>d'. set_at_path (JObj d) (mut_path m) (new_value m) = JObj d' \<and>
    map_of d' f = Some (mut_field f m j)"
proof (cases "path_parts (mut_path m)")
  case Nil
  then show ?thesis using assms by (simp add: set_at_path_def mut_field_def)
next
  case (Cons k ks)
  then show ?thesis
    using assms by (cases ks) (auto simp: set_at_path_def mut_field_def)
qed

lemma apply_all_field:
  "map_of d f = Some j \<Longrightarrow>
     \<exists>d'. apply_all ms (JObj d) = JObj d' \<and> map_of d' f = Some (fold (mut_field f) ms j)"
proof (induction ms arbitrary: d j)
  case (Cons m ms)
  obtain d' where "set_at_path (JObj d) (mut_path m) (new_value m) = JObj d'"
    "map_of d' f = Some (mut_field f m j)" using set_at_path_field [OF Cons.prems] by blast
  with Cons.IH [of d'] show ?case by (simp add: apply_all_def)
qed (simp add: apply_all_def)

lemma apply_all_obj_fields:
  "map_of d f = Some j \<Longrightarrow>
     map_of (obj_fields (apply_all ms (JObj d))) f = Some (fold (mut_field f) ms j)"
  using apply_all_field [of d f j ms] by auto

text \<open>On a field that is no object, mutations either do nothing or overwrite it.\<close>

definition scalar :: "json \<Rightarrow> bool" where
  "scalar j \<longleftrightarrow> (\<forall>d. j \<noteq> JObj d)"

lemma set_at_scalar: "scalar j \<Longrightarrow> set_at ks v j = j"
  by (cases "(ks, v, j)" rule: set_at.cases) (auto simp: scalar_def split: json.splits)

lemma mut_field_scalar:
  "scalar i \<Longrightarrow> scalar j \<Longrightarrow>
     (mut_field f m i = i \<and> mut_field f m j = j) \<or> mut_field f m i = mut_field f m j"
  by (auto simp: mut_field_def set_at_scalar split: list.splits)

lemma fold_mut_scalar:
  "scalar i \<Longrightarrow> scalar j \<Longrightarrow>
     (fold (mut_field f) ms i = i \<and> fold (mut_field f) ms j = j) \<or>
     fold (mut_field f) ms i = fold (mut_field f) ms j"
proof (induction ms)
  case (Cons m ms)
  then show ?case using mut_field_scalar [OF Cons.prems, of f m] by auto
qed simp

text \<open>Equal up to the version and the time stamp.\<close>

definition same_core :: "(string \<times> json) list \<Rightarrow> (string \<times> json) list \<Rightarrow> bool" where
  "same_core s t \<longleftrightarrow> (\<forall>f \<in> set core_fields. map_of s f = map_of t f)"

lemma same_core_refl [simp]: "same_core s s"
  by (simp add: same_core_def)

lemma same_core_sym: "same_core s t \<Longrightarrow> same_core t s"
  by (simp add: same_core_def)

lemma same_core_trans: "same_core s t \<Longrightarrow> same_core t u \<Longrightarrow> same_core s u"
  by (simp add: same_core_def)

section \<open>The contract of field validation\<close>

locale field_validation =
  fixes vf :: validator
    and stamp :: "json \<Rightarrow> bool"
  assumes idem: "vf f x = Inr v \<Longrightarrow> vf f (Some v) = Inr v"
    and defaults: "f \<noteq> ''updated_at'' \<Longrightarrow> \<exists>v. vf f None = Inr v"
    and default_version: "vf ''version'' None = Inr (JInt 0)"
    and int_version: "vf ''version'' (Some (JInt n)) = Inr (JInt n)"
    and scalar_version: "vf ''version'' x = Inr v \<Longrightarrow> scalar v"
    and stamp_ok: "stamp t \<Longrightarrow> vf ''updated_at'' (Some t) = Inr t"
    and scalar_stamp: "vf ''updated_at'' x = Inr v \<Longrightarrow> scalar v"
begin

lemma validate_world_ok: "model_validate vf d = Inr w \<Longrightarrow> world_ok vf w"
  using model_validate_Inr [of vf d w] idem unfolding world_ok_def by blast

lemma pristine_ok: "stamp now \<Longrightarrow> \<exists>w. pristine vf now = Inr w"
  unfolding pristine_def
  by (rule model_validate_ok) (metis defaults stamp_ok map_of.simps(1) map_of_Cons_code(2))

lemma apply_ok_fields:
  assumes "world_ok vf s" and "apply_mutations vf s ms = Inr w" and "f \<in> set world_fields"
    and "map_of s f = Some j"
  shows "\<exists>v. vf f (Some (fold (mut_field f) ms j)) = Inr v \<and> map_of w f = Some v"
  using model_validate_Inr(2) [OF assms(2) [unfolded apply_mutations_def] assms(3)]
    apply_all_obj_fields [OF assms(4), of ms] by simp

text \<open>Replaying mutations does not depend on the version and time stamp of the state.\<close>

lemma head_field_ok:
  assumes f: "f = ''version'' \<or> f = ''updated_at''"
    and i: "vf f (Some i) = Inr i" and j: "vf f (Some j) = Inr j"
    and v: "vf f (Some (fold (mut_field f) ms i)) = Inr v"
  shows "\<exists>u. vf f (Some (fold (mut_field f) ms j)) = Inr u"
proof -
  have "scalar i" "scalar j" using f i j scalar_version scalar_stamp by blast+
  from fold_mut_scalar [OF this, of f ms] v j show ?thesis by auto
qed

lemma apply_same_core:
  assumes s: "world_ok vf s" and t: "world_ok vf t" and st: "same_core s t"
    and w: "apply_mutations vf s ms = Inr w"
  shows "\<exists>w'. apply_mutations vf t ms = Inr w' \<and> same_core w w'"
proof -
  have field: "\<exists>v. vf f (map_of (obj_fields (apply_all ms (JObj t))) f) = Inr v \<and>
      (f \<in> set core_fields \<longrightarrow> map_of w f = Some v)" if f: "f \<in> set world_fields" for f
  proof -
    obtain i where i: "map_of s f = Some i" "vf f (Some i) = Inr i" using world_okD [OF s f] by blast
    obtain j where j: "map_of t f = Some j" "vf f (Some j) = Inr j" using world_okD [OF t f] by blast
    obtain v where v: "vf f (Some (fold (mut_field f) ms i)) = Inr v" "map_of w f = Some v"
      using apply_ok_fields [OF s w f i(1)] by blast
    show ?thesis
    proof (cases "f \<in> set core_fields")
      case True
      with st i j have "i = j" by (simp add: same_core_def)
      with v show ?thesis by (simp add: apply_all_obj_fields [OF j(1)])
    next
      case False
      with f have "f = ''version'' \<or> f = ''updated_at''" by (auto simp: world_fields_def)
      with head_field_ok [OF this i(2) j(2) v(1)] False show ?thesis
        by (simp add: apply_all_obj_fields [OF j(1)])
    qed
  qed
  then obtain w' where w': "apply_mutations vf t ms = Inr w'"
    unfolding apply_mutations_def using model_validate_ok by blast
  have "map_of w f = map_of w' f" if "f \<in> set core_fields" for f
    using field [of f] that model_validate_Inr(2) [OF w' [unfolded apply_mutations_def], of f]
    by (auto simp: world_fields_def)
  with w' show ?thesis by (auto simp: same_core_def)
qed

end

text \<open>
  The declared classes of \<^verbatim>\<open>world_state_ledger/models.py\<close> as schemas. Checking a field
  against them interprets \<open>field_validation\<close> on the fields the code declares.
\<close>

section \<open>The declared classes\<close>

definition spec_state :: schema where
  "spec_state = SModel (FCons ''spec_version'' (SHash 64) None FNil)"

definition repo_state :: schema where
  "repo_state = SModel
     (FCons ''commit_hash'' (SHash 40) None
     (FCons ''branch_topology'' SStrMap (Some (JObj []))
     (FCons ''file_manifest'' SStrMap (Some (JObj []))
     (FCons ''dependency_lock_hash'' (SOpt (SHash 64)) (Some JNull) FNil))))"

definition test_result :: schema where
  "test_result = SModel
     (FCons ''suite'' SStr None
     (FCons ''passed'' (SInt None None) (Some (JInt 0))
     (FCons ''failed'' (SInt None None) (Some (JInt 0))
     (FCons ''skipped'' (SInt None None) (Some (JInt 0))
     (FCons ''duration_seconds'' (SFloat None None) (Some (JFloat 0)) FNil)))))"

definition build_state :: schema where
  "build_state = SModel
     (FCons ''last_build'' (SOpt (SEnum (map build_result_value all_build_result))) (Some JNull)
     (FCons ''test_results'' (SList test_result) (Some (JArr []))
     (FCons ''coverage'' (SFloat (Some 0) (Some 100)) (Some (JFloat 0))
     (FCons ''lint_status'' (SEnum (map lint_status_value all_lint_status))
        (Some (JStr (lint_status_value LintStatus.CLEAN))) FNil))))"

definition environment_info :: schema where
  "environment_info = SModel
     (FCons ''name'' (SEnum (map environment_name_value all_environment_name)) None
     (FCons ''status'' (SEnum (map health_status_value all_health_status))
        (Some (JStr (health_status_value HealthStatus.UNKNOWN)))
     (FCons ''deployed_version'' (SOpt SStr) (Some JNull) FNil)))"

definition infra_state :: schema where
  "infra_state = SModel (FCons ''environments'' (SList environment_info) (Some (JArr [])) FNil)"

definition active_agent :: schema where
  "active_agent = SModel
     (FCons ''agent_id'' SStr None
     (FCons ''task_id'' SStr None
     (FCons ''status'' (SEnum (map status_value all_status))
        (Some (JStr (status_value StatusEnum.RUNNING))) FNil)))"

definition agent_state :: schema where
  "agent_state = SModel
     (FCons ''active_agents'' (SList active_agent) (Some (JArr []))
     (FCons ''completed_task_ids'' (SList SStr) (Some (JArr []))
     (FCons ''blocked_task_ids'' (SList SStr) (Some (JArr [])) FNil)))"

definition budget_state :: schema where
  "budget_state = SModel
     (FCons ''allocated_tokens'' (SInt None None) (Some (JInt 0))
     (FCons ''consumed_tokens'' (SInt None None) (Some (JInt 0))
     (FCons ''remaining_tokens'' (SInt None None) (Some (JInt 0))
     (FCons ''burn_rate'' (SFloat (Some 0) None) (Some (JFloat 0)) FNil))))"

definition world_schema :: "string \<Rightarrow> schema" where
  "world_schema f =
     (if f = ''version'' then SInt None None else if f = ''updated_at'' then STime
      else if f = ''spec'' then SOpt spec_state else if f = ''repo'' then SOpt repo_state
      else if f = ''build'' then build_state else if f = ''infra'' then infra_state
      else if f = ''agents'' then agent_state else budget_state)"

text \<open>A missing field: \<open>default_factory\<close> builds the class without arguments.\<close>

definition world_default :: "string \<Rightarrow> exn + json" where
  "world_default f =
     (if f = ''version'' then Inr (JInt 0) else if f = ''updated_at'' then invalid
      else if f = ''spec'' \<or> f = ''repo'' then Inr JNull
      else check (world_schema f) (JObj []))"

definition schema_vf :: validator where
  "schema_vf f x = (case x of None \<Rightarrow> world_default f | Some j \<Rightarrow> check (world_schema f) j)"

lemma check_int_scalar: "check_int lo hi j = Inr v \<Longrightarrow> scalar v"
  by (auto simp: check_int_def scalar_def split: option.splits if_splits)

lemma world_schema_ok: "schema_ok (world_schema f)"
  by (simp add: world_schema_def spec_state_def repo_state_def build_state_def infra_state_def
      agent_state_def budget_state_def test_result_def environment_info_def active_agent_def
      check_int_def lax_int_def in_range_def check_float_def lax_float_def all_lint_status_def all_health_status_def all_status_def)

lemma world_default_ok: "f \<noteq> ''updated_at'' \<Longrightarrow> \<exists>v. world_default f = Inr v"
  by (simp add: world_default_def world_schema_def build_state_def infra_state_def
      agent_state_def budget_state_def)

lemma world_default_fixed: "world_default f = Inr v \<Longrightarrow> check (world_schema f) v = Inr v"
  using check_idem [OF world_schema_ok [of f], of "JObj []" v]
  by (auto simp: world_default_def check_int_def lax_int_def in_range_def split: if_splits) (simp_all add: world_schema_def check_int_def lax_int_def in_range_def)

definition is_stamp :: "json \<Rightarrow> bool" where
  "is_stamp j \<longleftrightarrow> str_of j \<noteq> None"

interpretation world_models: field_validation schema_vf is_stamp
proof
  fix f x v
  assume "schema_vf f x = Inr v"
  then show "schema_vf f (Some v) = Inr v"
    using check_idem [OF world_schema_ok, of f] world_default_fixed [of f v]
    by (auto simp: schema_vf_def split: option.splits)
next
  fix f
  assume "f \<noteq> ''updated_at''"
  then show "\<exists>v. schema_vf f None = Inr v" by (simp add: schema_vf_def world_default_ok)
next
  show "schema_vf ''version'' None = Inr (JInt 0)" by (simp add: schema_vf_def world_default_def)
next
  fix n
  show "schema_vf ''version'' (Some (JInt n)) = Inr (JInt n)"
    by (simp add: schema_vf_def world_schema_def check_int_def lax_int_def in_range_def)
next
  fix x v
  assume "schema_vf ''version'' x = Inr v"
  then show "scalar v"
    by (auto simp: schema_vf_def world_schema_def world_default_def scalar_def dest: check_int_scalar
        split: option.splits)
next
  fix t
  assume "is_stamp t"
  then show "schema_vf ''updated_at'' (Some t) = Inr t"
    by (cases t) (simp_all add: is_stamp_def schema_vf_def world_schema_def)
next
  fix x v
  assume "schema_vf ''updated_at'' x = Inr v"
  then show "scalar v"
    by (auto simp: schema_vf_def world_schema_def world_default_def scalar_def split: option.splits)
qed

end
