(* ===== verification/World_Ledger.thy ===== *)
theory World_Ledger
  imports World_State
begin

text \<open>
  The state manager of the World State Ledger
  (\<^verbatim>\<open>world_state_ledger/state_manager.py\<close>).

  The ledger table is the list of its rows in the order of insertion, the proposal table
  an association list. A database session commits all of its writes or none, so each
  commit is one \<open>writes\<close>. The Redis cache and the event publisher are parameters of
  unknown state, and a call on them may raise after the commit.
\<close>

record ledger_row =
  lr_version :: int
  state_snapshot :: "(string \<times> json) list option"
  lr_mutations :: "mutation list"
  is_checkpoint :: bool
  lr_updated_at :: json
  lr_proposal_id :: string

record proposal_row =
  pr_agent_id :: string
  pr_task_id :: string
  pr_mutations :: "mutation list"
  pr_rationale :: string
  pr_verdict :: ProposalVerdict
  pr_reason :: "rejection option"
  pr_verdict_at :: "json option"
  pr_before :: int
  pr_after :: "int option"

record proposal =
  p_id :: string
  p_agent_id :: string
  p_task_id :: string
  p_mutations :: "mutation list"
  p_rationale :: string

record ('c, 'p) wsl_env =
  wsl_vf :: validator
  cache_get :: "(exn, 'c, (string \<times> json) list option) op"
  cache_set :: "(string \<times> json) list \<Rightarrow> int \<Rightarrow> (exn, 'c, unit) op"
  wsl_publish :: "event \<Rightarrow> (exn, 'p, unit) op"
  reason_text :: "rejection \<Rightarrow> string"   \<comment> \<open>the message, with the \<^verbatim>\<open>repr\<close> of the values\<close>

record ('c, 'p) ledger =
  l_rows :: "ledger_row list"
  l_proposals :: "(string \<times> proposal_row) list"
  l_cache :: 'c
  l_bus :: 'p

definition checkpoint_interval :: int where
  "checkpoint_interval = 20"

section \<open>Queries on the rows\<close>

text \<open>\<^verbatim>\<open>ORDER BY version DESC LIMIT 1\<close> and \<^verbatim>\<open>ORDER BY version ASC\<close>.\<close>

definition latest :: "ledger_row list \<Rightarrow> ledger_row option" where
  "latest rows = fold (\<lambda>r best. case best of
      None \<Rightarrow> Some r
    | Some b \<Rightarrow> if lr_version b < lr_version r then Some r else best) rows None"

definition checkpoint_before :: "int \<Rightarrow> ledger_row list \<Rightarrow> ledger_row option" where
  "checkpoint_before v rows = latest (filter (\<lambda>r. is_checkpoint r \<and> lr_version r \<le> v) rows)"

definition deltas :: "int \<Rightarrow> int \<Rightarrow> ledger_row list \<Rightarrow> ledger_row list" where
  "deltas lo hi rows = sort_key lr_version (filter (\<lambda>r. lo < lr_version r \<and> lr_version r \<le> hi) rows)"

definition validate_snapshot :: "validator \<Rightarrow> ledger_row \<Rightarrow> exn + (string \<times> json) list" where
  "validate_snapshot vf r = (case state_snapshot r of
      None \<Rightarrow> Inl (ValidationError ''WorldState'') | Some d \<Rightarrow> model_validate vf d)"

definition version_of :: "(string \<times> json) list \<Rightarrow> int" where
  "version_of w = (case map_of w ''version'' of Some (JInt n) \<Rightarrow> n | _ \<Rightarrow> 0)"

definition set_version :: "int \<Rightarrow> (string \<times> json) list \<Rightarrow> (string \<times> json) list" where
  "set_version v w = AList.update ''version'' (JInt v) w"

definition replay_row :: "validator \<Rightarrow> (string \<times> json) list \<Rightarrow> ledger_row \<Rightarrow> exn + (string \<times> json) list" where
  "replay_row vf s r =
     (if is_checkpoint r \<and> state_snapshot r \<noteq> None then validate_snapshot vf r
      else if lr_mutations r \<noteq> [] then apply_mutations vf s (lr_mutations r)
      else Inr s)"

primrec replay :: "validator \<Rightarrow> (string \<times> json) list \<Rightarrow> ledger_row list \<Rightarrow> exn + (string \<times> json) list" where
  "replay vf s [] = Inr s"
| "replay vf s (r # rs) = bind_sum (replay_row vf s r) (\<lambda>s'. replay vf s' rs)"

text \<open>The nearest checkpoint's state and version; the pristine state at version 0 if none.\<close>

definition replay_start :: "validator \<Rightarrow> json \<Rightarrow> int \<Rightarrow> ledger_row list \<Rightarrow>
    exn + ((string \<times> json) list \<times> int)" where
  "replay_start vf now v rows = (case checkpoint_before v rows of
      None \<Rightarrow> bind_sum (pristine vf now) (\<lambda>s. Inr (s, 0))
    | Some c \<Rightarrow> bind_sum (validate_snapshot vf c) (\<lambda>s. Inr (s, lr_version c)))"

definition get_version :: "validator \<Rightarrow> json \<Rightarrow> int \<Rightarrow> ledger_row list \<Rightarrow> exn + (string \<times> json) list" where
  "get_version vf now v rows =
     bind_sum (replay_start vf now v rows) (\<lambda>(s, start).
     if start = v then Inr s
     else if deltas start v rows = [] then Inl (LedgerVersionNotFoundError ''Ledger version not found'')
     else bind_sum (replay vf s (deltas start v rows)) (\<lambda>s'. Inr (set_version v s')))"

definition reconstruct_version :: "validator \<Rightarrow> json \<Rightarrow> int \<Rightarrow> ledger_row list \<Rightarrow>
    exn + (string \<times> json) list" where
  "reconstruct_version vf now v rows =
     bind_sum (replay_start vf now v rows) (\<lambda>(s, start).
     if start = v then Inr s
     else bind_sum (replay vf s (deltas start v rows)) (\<lambda>s'. Inr (set_version v s')))"

section \<open>Reads\<close>

definition with_cache :: "(exn, 'c, 'a) op \<Rightarrow> (exn, ('c, 'p) ledger, 'a) op" where
  "with_cache = zoom l_cache (\<lambda>c s. s\<lparr>l_cache := c\<rparr>)"

definition announce :: "('c, 'p) wsl_env \<Rightarrow> EventType \<Rightarrow> (string \<times> json) list \<Rightarrow>
    (exn, ('c, 'p) ledger, unit) op" where
  "announce env ty payload =
     zoom l_bus (\<lambda>b s. s\<lparr>l_bus := b\<rparr>) (wsl_publish env \<lparr>ev_type = ty, ev_payload = payload\<rparr>)"

definition load_current :: "validator \<Rightarrow> json \<Rightarrow> ledger_row list \<Rightarrow> exn + (string \<times> json) list" where
  "load_current vf now rows = (case latest rows of
      None \<Rightarrow> pristine vf now
    | Some r \<Rightarrow>
        if is_checkpoint r \<and> state_snapshot r \<noteq> None then validate_snapshot vf r
        else get_version vf now (lr_version r) rows)"

definition get_current :: "('c, 'p) wsl_env \<Rightarrow> json \<Rightarrow> (exn, ('c, 'p) ledger, (string \<times> json) list) op" where
  "get_current env now =
     chain (with_cache (cache_get env)) (\<lambda>cached. case cached of
       Some d \<Rightarrow> lift_sum (\<lambda>_. model_validate (wsl_vf env) d)
     | None \<Rightarrow>
         chain (lift_sum (\<lambda>s. load_current (wsl_vf env) now (l_rows s))) (\<lambda>state.
         chain (with_cache (cache_set env state (version_of state))) (\<lambda>_.
         ret state)))"

section \<open>Proposals\<close>

definition proposal_row_of :: "proposal \<Rightarrow> int \<Rightarrow> proposal_row" where
  "proposal_row_of p version =
     \<lparr>pr_agent_id = p_agent_id p, pr_task_id = p_task_id p, pr_mutations = p_mutations p,
      pr_rationale = p_rationale p, pr_verdict = ProposalVerdict.PENDING, pr_reason = None,
      pr_verdict_at = None, pr_before = version, pr_after = None\<rparr>"

text \<open>Inserting a row whose primary key exists fails in the database.\<close>

definition insert_proposal :: "string \<Rightarrow> proposal_row \<Rightarrow> (exn, ('c, 'p) ledger, unit) op" where
  "insert_proposal pid row = (\<lambda>s.
     if map_of (l_proposals s) pid \<noteq> None then (Inl (ExternalError ''IntegrityError''), s)
     else (Inr (), s\<lparr>l_proposals := l_proposals s @ [(pid, row)]\<rparr>))"

definition submit_proposal :: "('c, 'p) wsl_env \<Rightarrow> json \<Rightarrow> proposal \<Rightarrow> (exn, ('c, 'p) ledger, string) op" where
  "submit_proposal env now p =
     chain (get_current env now) (\<lambda>cur.
     chain (insert_proposal (p_id p) (proposal_row_of p (version_of cur))) (\<lambda>_.
     chain (announce env EventType.PROPOSAL_CREATED
       [(''proposal_id'', JStr (p_id p)), (''agent_id'', JStr (p_agent_id p)),
        (''task_id'', JStr (p_task_id p)), (''mutation_count'', JInt (int (length (p_mutations p))))]) (\<lambda>_.
     ret (p_id p))))"

definition locked_state :: "validator \<Rightarrow> json \<Rightarrow> ledger_row list \<Rightarrow> exn + (string \<times> json) list" where
  "locked_state vf now rows = (case latest rows of
      None \<Rightarrow> pristine vf now
    | Some r \<Rightarrow>
        if is_checkpoint r \<and> state_snapshot r \<noteq> None then validate_snapshot vf r
        else reconstruct_version vf now (lr_version r) rows)"

definition reject :: "json \<Rightarrow> rejection \<Rightarrow> proposal_row \<Rightarrow> proposal_row" where
  "reject now reason p =
     p\<lparr>pr_verdict := ProposalVerdict.REJECTED, pr_reason := Some reason, pr_verdict_at := Some now\<rparr>"

definition accept :: "json \<Rightarrow> int \<Rightarrow> proposal_row \<Rightarrow> proposal_row" where
  "accept now v p =
     p\<lparr>pr_verdict := ProposalVerdict.ACCEPTED, pr_verdict_at := Some now, pr_after := Some v\<rparr>"

definition next_state :: "validator \<Rightarrow> json \<Rightarrow> (string \<times> json) list \<Rightarrow> mutation list \<Rightarrow>
    exn + (string \<times> json) list" where
  "next_state vf now cur ms =
     bind_sum (apply_mutations vf cur ms) (\<lambda>new.
     Inr (AList.update ''updated_at'' now (set_version (version_of cur + 1) new)))"

definition new_row :: "json \<Rightarrow> string \<Rightarrow> mutation list \<Rightarrow> (string \<times> json) list \<Rightarrow> ledger_row" where
  "new_row now pid ms new =
     (let v = version_of new; cp = v mod checkpoint_interval = 0
      in \<lparr>lr_version = v, state_snapshot = (if cp then Some new else None), lr_mutations = ms,
          is_checkpoint = cp, lr_updated_at = now, lr_proposal_id = pid\<rparr>)"

definition update_proposal :: "string \<Rightarrow> proposal_row \<Rightarrow> ('c, 'p) ledger \<Rightarrow> ('c, 'p) ledger" where
  "update_proposal pid row s = s\<lparr>l_proposals := AList.update pid row (l_proposals s)\<rparr>"

definition commit_row :: "string \<Rightarrow> proposal_row \<Rightarrow> ledger_row \<Rightarrow> (exn, ('c, 'p) ledger, unit) op" where
  "commit_row pid prow row = (\<lambda>s.
     if lr_version row \<in> lr_version ` set (l_rows s) then (Inl (ExternalError ''IntegrityError''), s)
     else (Inr (), update_proposal pid prow (s\<lparr>l_rows := l_rows s @ [row]\<rparr>)))"

definition publish_commit :: "('c, 'p) wsl_env \<Rightarrow> string \<Rightarrow> (string \<times> json) list \<Rightarrow>
    (exn, ('c, 'p) ledger, bool) op" where
  "publish_commit env pid new =
     chain (with_cache (cache_set env new (version_of new))) (\<lambda>_.
     chain (announce env EventType.PROPOSAL_ACCEPTED
       [(''proposal_id'', JStr pid), (''ledger_version'', JInt (version_of new))]) (\<lambda>_.
     chain (announce env EventType.LEDGER_UPDATED
       [(''version'', JInt (version_of new)), (''proposal_id'', JStr pid)]) (\<lambda>_.
     ret True)))"

definition decide :: "('c, 'p) wsl_env \<Rightarrow> json \<Rightarrow> string \<Rightarrow> proposal_row \<Rightarrow>
    (exn, ('c, 'p) ledger, bool) op" where
  "decide env now pid p =
     chain (lift_sum (\<lambda>s. locked_state (wsl_vf env) now (l_rows s))) (\<lambda>cur.
     if version_of cur \<noteq> pr_before p
     then raise (OptimisticConcurrencyError (pr_before p) (version_of cur))
     else
       chain (lift_sum (\<lambda>_. validate_mutations cur (pr_mutations p))) (\<lambda>rejected. case rejected of
         Some reason \<Rightarrow>
           chain (writes (update_proposal pid (reject now reason p))) (\<lambda>_.
           chain (announce env EventType.PROPOSAL_REJECTED
             [(''proposal_id'', JStr pid), (''reason'', JStr (reason_text env reason))]) (\<lambda>_.
           ret False))
       | None \<Rightarrow>
           chain (lift_sum (\<lambda>_. next_state (wsl_vf env) now cur (pr_mutations p))) (\<lambda>new.
           chain (commit_row pid (accept now (version_of new) p) (new_row now pid (pr_mutations p) new)) (\<lambda>_.
           publish_commit env pid new))))"

definition validate_and_commit :: "('c, 'p) wsl_env \<Rightarrow> json \<Rightarrow> string \<Rightarrow> (exn, ('c, 'p) ledger, bool) op" where
  "validate_and_commit env now pid =
     chain (reads (\<lambda>s. map_of (l_proposals s) pid)) (\<lambda>prow. case prow of
       None \<Rightarrow> raise (LedgerVersionNotFoundError (''Proposal '' @ pid @ '' not found''))
     | Some p \<Rightarrow>
         if pr_verdict p \<noteq> ProposalVerdict.PENDING
         then ret (pr_verdict p = ProposalVerdict.ACCEPTED)
         else decide env now pid p)"

end
