(* ===== verification/Ledger_History.thy ===== *)
theory Ledger_History
  imports World_Ledger
begin

text \<open>
  Correctness of delta storage. \<open>full_replay\<close> is the specification: the state after the
  first versions is the pristine state with all their mutations applied, no checkpoint
  involved. \<open>ledger_hist\<close> describes the tables a ledger can reach; on them reconstruction
  from the nearest checkpoint agrees with the specification up to the time stamp.
\<close>

primrec apply_each :: "validator \<Rightarrow> (string \<times> json) list \<Rightarrow> mutation list list \<Rightarrow>
    exn + (string \<times> json) list" where
  "apply_each vf w [] = Inr w"
| "apply_each vf w (ms # mss) = bind_sum (apply_mutations vf w ms) (\<lambda>w'. apply_each vf w' mss)"

definition full_replay :: "validator \<Rightarrow> json \<Rightarrow> mutation list list \<Rightarrow> exn + (string \<times> json) list" where
  "full_replay vf now mss = bind_sum (pristine vf now) (\<lambda>w. apply_each vf w mss)"

lemma apply_each_append:
  "apply_each vf w (mss @ mss') = bind_sum (apply_each vf w mss) (\<lambda>w'. apply_each vf w' mss')"
  by (induction mss arbitrary: w) (auto simp: bind_sum_def split: sum.splits)

text \<open>The row of a commit on top of \<open>n\<close> rows that ends in state \<open>w\<close>.\<close>

definition row_ok :: "validator \<Rightarrow> nat \<Rightarrow> (string \<times> json) list \<Rightarrow> ledger_row \<Rightarrow> bool" where
  "row_ok vf n w r \<longleftrightarrow> lr_version r = int n + 1 \<and> is_checkpoint r = (20 dvd lr_version r) \<and>
     (if is_checkpoint r
      then \<exists>c. state_snapshot r = Some c \<and> world_ok vf c \<and> same_core c w \<and> version_of c = lr_version r
      else state_snapshot r = None)"

inductive ledger_hist :: "validator \<Rightarrow> json \<Rightarrow> ledger_row list \<Rightarrow> (string \<times> json) list \<Rightarrow> bool"
  for vf :: validator and now :: json where
  hist_init: "pristine vf now = Inr w \<Longrightarrow> ledger_hist vf now [] w"
| hist_commit: "ledger_hist vf now rows w \<Longrightarrow> apply_mutations vf w (lr_mutations r) = Inr w' \<Longrightarrow>
    row_ok vf (length rows) w' r \<Longrightarrow> ledger_hist vf now (rows @ [r]) w'"

inductive_cases hist_emptyE: "ledger_hist vf now [] w"
inductive_cases hist_snocE: "ledger_hist vf now (rows @ [r]) w"

lemma hist_full_replay: "ledger_hist vf now rows w \<Longrightarrow> full_replay vf now (map lr_mutations rows) = Inr w"
proof (induction rule: ledger_hist.induct)
  case (hist_init w)
  then show ?case by (simp add: full_replay_def)
next
  case (hist_commit rows w r w')
  then show ?case
    by (auto simp: full_replay_def apply_each_append bind_sum_Inr)
qed

lemma hist_versions: "ledger_hist vf now rows w \<Longrightarrow> r \<in> set rows \<Longrightarrow> 1 \<le> lr_version r \<and> lr_version r \<le> int (length rows)"
  by (induction rule: ledger_hist.induct) (auto simp: row_ok_def)

lemma hist_prefix:
  "ledger_hist vf now rows w \<Longrightarrow> n \<le> length rows \<Longrightarrow> \<exists>w'. ledger_hist vf now (take n rows) w'"
proof (induction rule: ledger_hist.induct)
  case (hist_init w)
  then show ?case using ledger_hist.hist_init by auto
next
  case (hist_commit rows w r w')
  then show ?case
    using ledger_hist.hist_commit [OF hist_commit.hyps] by (cases "n = Suc (length rows)") auto
qed

section \<open>The queries on a growing table\<close>

lemma latest_snoc:
  "latest (rs @ [r]) = (case latest rs of None \<Rightarrow> Some r
     | Some b \<Rightarrow> if lr_version b < lr_version r then Some r else Some b)"
  by (simp add: latest_def split: option.splits)

lemma latest_in: "latest rs = Some b \<Longrightarrow> b \<in> set rs"
  by (induction rs rule: rev_induct) (auto simp: latest_snoc latest_def split: option.splits if_splits)

lemma latest_None: "latest rs = None \<longleftrightarrow> rs = []"
  by (induction rs rule: rev_induct) (auto simp: latest_snoc latest_def split: option.splits)

lemma latest_snoc_above:
  "\<forall>b \<in> set rs. lr_version b < lr_version r \<Longrightarrow> latest (rs @ [r]) = Some r"
  using latest_in [of rs] by (auto simp: latest_snoc split: option.splits)

lemma checkpoint_before_snoc_above:
  "v < lr_version r \<Longrightarrow> checkpoint_before v (rs @ [r]) = checkpoint_before v rs"
  by (simp add: checkpoint_before_def)

lemma checkpoint_before_snoc_delta:
  "\<not> is_checkpoint r \<Longrightarrow> checkpoint_before v (rs @ [r]) = checkpoint_before v rs"
  by (simp add: checkpoint_before_def)

lemma checkpoint_before_top:
  "\<forall>b \<in> set rs. lr_version b \<le> v \<Longrightarrow> v \<le> u \<Longrightarrow> checkpoint_before u rs = checkpoint_before v rs"
  unfolding checkpoint_before_def by (rule arg_cong [where f = latest]) (auto intro!: filter_cong)

lemma deltas_snoc_above: "hi < lr_version r \<Longrightarrow> deltas lo hi (rs @ [r]) = deltas lo hi rs"
  by (simp add: deltas_def)

lemma deltas_top:
  "\<forall>b \<in> set rs. lr_version b \<le> v \<Longrightarrow> v \<le> u \<Longrightarrow> deltas lo u rs = deltas lo v rs"
  unfolding deltas_def by (rule arg_cong [where f = "sort_key lr_version"]) (auto intro!: filter_cong)

lemma hist_sorted: "ledger_hist vf now rows w \<Longrightarrow> sorted (map lr_version rows)"
proof (induction rule: ledger_hist.induct)
  case (hist_commit rows w r w')
  then show ?case using hist_versions [OF hist_commit.hyps(1)] by (force simp: sorted_append row_ok_def)
qed simp

lemma deltas_sorted:
  "sorted (map lr_version rows) \<Longrightarrow>
     deltas lo hi rows = filter (\<lambda>r. lo < lr_version r \<and> lr_version r \<le> hi) rows"
  unfolding deltas_def by (rule sort_key_id_if_sorted) (simp add: sorted_filter)

lemma deltas_snoc_top:
  assumes "sorted (map lr_version (rs @ [r]))" and "lo < lr_version r" and "lr_version r \<le> hi"
  shows "deltas lo hi (rs @ [r]) = deltas lo hi rs @ [r]"
  using assms by (simp add: deltas_sorted sorted_append)

lemma replay_append: "replay vf s (rs @ rs') = bind_sum (replay vf s rs) (\<lambda>t. replay vf t rs')"
  by (induction rs arbitrary: s) (auto simp: bind_sum_def split: sum.splits)

section \<open>Reconstruction agrees with the full replay\<close>

text \<open>Replay up to version \<open>v\<close> without the final version stamp.\<close>

definition replayed :: "validator \<Rightarrow> json \<Rightarrow> int \<Rightarrow> ledger_row list \<Rightarrow> exn + (string \<times> json) list" where
  "replayed vf now v rows = bind_sum (replay_start vf now v rows) (\<lambda>(s, start).
     replay vf s (deltas start v rows))"

lemma version_set [simp]: "version_of (set_version v w) = v"
  by (simp add: version_of_def set_version_def)

lemma same_core_head [simp]:
  "same_core (AList.update ''version'' x s) t = same_core s t"
  "same_core (AList.update ''updated_at'' x s) t = same_core s t"
  "same_core t (AList.update ''version'' x s) = same_core t s"
  "same_core t (AList.update ''updated_at'' x s) = same_core t s"
  by (simp_all add: same_core_def core_fields_def)

context field_validation
begin

lemma world_ok_update:
  "world_ok vf s \<Longrightarrow> f \<in> set world_fields \<Longrightarrow> vf f (Some v) = Inr v \<Longrightarrow> world_ok vf (AList.update f v s)"
  by (auto simp: world_ok_def keys_update)

lemma set_version_ok: "world_ok vf s \<Longrightarrow> world_ok vf (set_version v s)"
  unfolding set_version_def
  by (rule world_ok_update) (auto simp: world_fields_def int_version)

lemma pristine_core:
  assumes "pristine vf n1 = Inr w1" and "pristine vf n2 = Inr w2"
  shows "same_core w1 w2"
proof -
  have "map_of w1 f = map_of w2 f" if "f \<in> set core_fields" for f
    using model_validate_Inr(2) [OF assms(1) [unfolded pristine_def], of f]
      model_validate_Inr(2) [OF assms(2) [unfolded pristine_def], of f] that
    by (auto simp: world_fields_def core_fields_def)
  then show ?thesis by (simp add: same_core_def)
qed

lemma hist_world_ok: "ledger_hist vf now rows w \<Longrightarrow> world_ok vf w"
  by (induction rule: ledger_hist.induct)
    (auto simp: pristine_def apply_mutations_def dest: validate_world_ok)

lemma apply_no_mutations: "world_ok vf s \<Longrightarrow> apply_mutations vf s [] = Inr s"
  by (simp add: apply_mutations_def apply_all_def world_ok_validate)

lemma replay_row_core:
  assumes w: "world_ok vf w" "apply_mutations vf w (lr_mutations r) = Inr w'"
    and r: "row_ok vf n w' r" and s: "world_ok vf s" "same_core s w"
  shows "\<exists>s'. replay_row vf s r = Inr s' \<and> world_ok vf s' \<and> same_core s' w'"
proof (cases "is_checkpoint r")
  case True
  with r obtain c where "state_snapshot r = Some c" "world_ok vf c" "same_core c w'"
    by (auto simp: row_ok_def)
  with True show ?thesis by (simp add: replay_row_def validate_snapshot_def world_ok_validate)
next
  case False
  show ?thesis
  proof (cases "lr_mutations r = []")
    case True
    with w have "w' = w" by (simp add: apply_no_mutations)
    with True False s show ?thesis by (simp add: replay_row_def)
  next
    case nonempty: False
    obtain s' where s': "apply_mutations vf s (lr_mutations r) = Inr s'" "same_core w' s'"
      using apply_same_core [OF w(1) s(1) same_core_sym [OF s(2)] w(2)] by blast
    moreover have "world_ok vf s'"
      using s'(1) unfolding apply_mutations_def by (rule validate_world_ok)
    ultimately show ?thesis using False nonempty same_core_sym by (auto simp: replay_row_def)
  qed
qed

lemma replayed_top:
  assumes "stamp t"
  shows "ledger_hist vf now rows w \<Longrightarrow>
    \<exists>s. replayed vf t (int (length rows)) rows = Inr s \<and> world_ok vf s \<and> same_core s w"
proof (induction rule: ledger_hist.induct)
  case (hist_init w)
  obtain p where p: "pristine vf t = Inr p" using pristine_ok [OF assms] by blast
  then have "world_ok vf p" by (simp add: pristine_def validate_world_ok)
  with p pristine_core [OF p hist_init] show ?case
    by (simp add: replayed_def replay_start_def checkpoint_before_def latest_def deltas_def)
next
  case (hist_commit rows w r w')
  note hist = ledger_hist.hist_commit [OF hist_commit.hyps]
  let ?n = "int (length rows)"
  have v: "lr_version r = ?n + 1" using hist_commit.hyps(3) by (simp add: row_ok_def)
  have below: "\<forall>b \<in> set rows. lr_version b \<le> ?n" using hist_versions [OF hist_commit.hyps(1)] by blast
  show ?case
  proof (cases "is_checkpoint r")
    case True
    then obtain c where c: "state_snapshot r = Some c" "world_ok vf c" "same_core c w'"
      using hist_commit.hyps(3) by (auto simp: row_ok_def)
    have "checkpoint_before (?n + 1) (rows @ [r]) = Some r"
      using True v below unfolding checkpoint_before_def
      by simp (rule latest_snoc_above, force)
    moreover have "deltas (lr_version r) (?n + 1) (rows @ [r]) = []"
      using v below by (auto simp: deltas_def filter_empty_conv)
    ultimately show ?thesis
      using c by (simp add: replayed_def replay_start_def validate_snapshot_def world_ok_validate add.commute)
  next
    case False
    from hist_commit.IH obtain s where s: "replayed vf t ?n rows = Inr s" "world_ok vf s" "same_core s w"
      by blast
    have cp: "checkpoint_before (?n + 1) (rows @ [r]) = checkpoint_before ?n rows"
      using False checkpoint_before_top [OF below, of "?n + 1"] by (simp add: checkpoint_before_snoc_delta)
    have start: "replay_start vf t (?n + 1) (rows @ [r]) = replay_start vf t ?n rows"
      by (simp add: replay_start_def cp)
    have ds: "deltas lo (?n + 1) (rows @ [r]) = deltas lo ?n rows @ [r]" if "lo < ?n + 1" for lo
      using that deltas_snoc_top [OF hist_sorted [OF hist], of lo "?n + 1"] v
        deltas_top [OF below, of "?n + 1" lo] by simp
    have lo: "start < ?n + 1" if "replay_start vf t ?n rows = Inr (x, start)" for x start
      using that below by (auto simp: replay_start_def bind_sum_Inr checkpoint_before_def
          split: option.splits dest!: latest_in)
    have "replayed vf t (?n + 1) (rows @ [r]) = bind_sum (replayed vf t ?n rows) (\<lambda>s. replay_row vf s r)"
      unfolding replayed_def start
      by (cases "replay_start vf t ?n rows")
        (auto simp: ds [OF lo] replay_append bind_sum_def split: sum.splits prod.splits)
    with replay_row_core [OF hist_world_ok [OF hist_commit.hyps(1)] hist_commit.hyps(2,3) s(2,3)] s(1)
    show ?thesis by (simp add: add.commute)
  qed
qed

lemma pristine_version: "pristine vf t = Inr p \<Longrightarrow> version_of p = 0"
  using model_validate_Inr(2) [of vf "[(''updated_at'', t)]" p "''version''"] default_version
  by (simp add: pristine_def world_fields_def version_of_def)

lemma hist_row:
  "ledger_hist vf now rows w \<Longrightarrow> r \<in> set rows \<Longrightarrow>
     is_checkpoint r = (20 dvd lr_version r) \<and>
     (is_checkpoint r \<longrightarrow> (\<exists>c. state_snapshot r = Some c \<and> world_ok vf c \<and> version_of c = lr_version r))"
  by (induction rule: ledger_hist.induct) (auto simp: row_ok_def split: if_splits)

lemma hist_all_versions:
  "ledger_hist vf now rows w \<Longrightarrow> 1 \<le> v \<Longrightarrow> v \<le> int (length rows) \<Longrightarrow> \<exists>r \<in> set rows. lr_version r = v"
proof (induction rule: ledger_hist.induct)
  case (hist_commit rows w r w')
  then show ?case by (cases "v = int (length rows) + 1") (auto simp: row_ok_def)
qed simp

text \<open>Where replay starts: at a checkpoint, and at the top if the top is one.\<close>

lemma checkpoint_before_top_row:
  assumes "ledger_hist vf now rows w" and "20 dvd int (length rows)" and "rows \<noteq> []"
    and "int (length rows) \<le> v"
  shows "\<exists>r. checkpoint_before v rows = Some r \<and> lr_version r = int (length rows)"
proof -
  obtain rs r where rows: "rows = rs @ [r]" using assms(3) by (cases rows rule: rev_cases) auto
  with assms(1) obtain u where hist: "ledger_hist vf now rs u" and r: "row_ok vf (length rs) w r"
    by (auto elim: hist_snocE)
  have "lr_version b < lr_version r" if "b \<in> set rs" for b
    using hist_versions [OF hist that] r by (simp add: row_ok_def)
  moreover have "is_checkpoint r \<and> lr_version r \<le> v"
    using assms(2,4) r by (simp add: row_ok_def rows add.commute)
  ultimately have "checkpoint_before v rows = Some r"
    unfolding checkpoint_before_def rows by simp (rule latest_snoc_above, simp)
  with r show ?thesis by (simp add: rows row_ok_def)
qed

lemma replay_start_props:
  assumes h: "ledger_hist vf now rows w" and s: "replay_start vf t v rows = Inr (x, start)"
    and v: "0 \<le> v"
  shows "0 \<le> start" and "start \<le> v" and "start \<le> int (length rows)" and "20 dvd start"
    and "version_of x = start"
    and "int (length rows) \<le> v \<Longrightarrow> 20 dvd int (length rows) \<Longrightarrow> start = int (length rows)"
proof -
  have "0 \<le> start \<and> start \<le> v \<and> start \<le> int (length rows) \<and> 20 dvd start \<and> version_of x = start"
  proof (cases "checkpoint_before v rows")
    case None
    with s v pristine_version show ?thesis by (auto simp: replay_start_def bind_sum_Inr)
  next
    case (Some c)
    then have c: "c \<in> set rows" "is_checkpoint c" "lr_version c \<le> v"
      by (auto simp: checkpoint_before_def dest: latest_in)
    with hist_row [OF h c(1)] Some s hist_versions [OF h c(1)] show ?thesis
      by (auto simp: replay_start_def bind_sum_Inr validate_snapshot_def world_ok_validate)
  qed
  then show "0 \<le> start" "start \<le> v" "start \<le> int (length rows)" "20 dvd start" "version_of x = start"
    by blast+
  show "start = int (length rows)" if "int (length rows) \<le> v" "20 dvd int (length rows)"
  proof (cases "rows = []")
    case True
    with s show ?thesis by (auto simp: replay_start_def checkpoint_before_def latest_def bind_sum_Inr)
  next
    case False
    from checkpoint_before_top_row [OF h that(2) False that(1)] s show ?thesis
      by (auto simp: replay_start_def bind_sum_Inr)
  qed
qed

lemma replay_start_ok:
  assumes "ledger_hist vf now rows w" and "stamp t"
  shows "\<exists>x start. replay_start vf t v rows = Inr (x, start)"
proof (cases "checkpoint_before v rows")
  case None
  then show ?thesis using pristine_ok [OF assms(2)] by (auto simp: replay_start_def)
next
  case (Some c)
  then have c: "c \<in> set rows" "is_checkpoint c" by (auto simp: checkpoint_before_def dest: latest_in)
  with hist_row [OF assms(1) c(1)] obtain d where "state_snapshot c = Some d" "world_ok vf d" by blast
  with Some show ?thesis
    by (simp add: replay_start_def validate_snapshot_def world_ok_validate)
qed

lemma deltas_empty_iff:
  assumes "ledger_hist vf now rows w" and "0 \<le> start" and "start \<le> int (length rows)"
    and "int (length rows) \<le> v"
  shows "deltas start v rows = [] \<longleftrightarrow> start = int (length rows)"
proof -
  have "deltas start v rows = [] \<longleftrightarrow> (\<forall>r \<in> set rows. \<not> (start < lr_version r \<and> lr_version r \<le> v))"
    unfolding deltas_sorted [OF hist_sorted [OF assms(1)]] by (auto simp: filter_empty_conv)
  then show ?thesis
    using hist_versions [OF assms(1)] hist_all_versions [OF assms(1), of "int (length rows)"] assms
    by fastforce
qed

text \<open>Asking for the newest version, or for one beyond it.\<close>

lemma get_version_from_top:
  assumes h: "ledger_hist vf now rows w" and t: "stamp t" and v: "int (length rows) \<le> v"
  shows "if 20 dvd int (length rows)
    then get_version vf t v rows =
      (if v = int (length rows) then replayed vf t v rows
       else Inl (LedgerVersionNotFoundError ''Ledger version not found''))
    else get_version vf t v rows = bind_sum (replayed vf t (int (length rows)) rows) (\<lambda>s. Inr (set_version v s))"
proof -
  let ?n = "int (length rows)"
  obtain x start where s: "replay_start vf t v rows = Inr (x, start)"
    using replay_start_ok [OF h t] by blast
  have "checkpoint_before ?n rows = checkpoint_before v rows"
    using v hist_versions [OF h] by (intro checkpoint_before_top [symmetric]) auto
  then have sn: "replay_start vf t ?n rows = Inr (x, start)" using s by (simp add: replay_start_def)
  have dn: "deltas start v rows = deltas start ?n rows"
    using v hist_versions [OF h] by (intro deltas_top) auto
  note props = replay_start_props [OF h s]
  have 0: "0 \<le> v" using v by simp
  show ?thesis
  proof (cases "20 dvd ?n")
    case True
    then have "start = ?n" using props(6) 0 v by simp
    moreover have "deltas start v rows = []"
      using deltas_empty_iff [OF h props(1,3) v] 0 calculation by simp
    ultimately show ?thesis
      using True s sn dn by (simp add: get_version_def replayed_def)
  next
    case False
    then have "start \<noteq> ?n" using props(4) 0 by auto
    moreover have "start \<le> ?n" using props(3) 0 by simp
    moreover have "deltas start v rows \<noteq> []"
      using deltas_empty_iff [OF h props(1,3) v] 0 calculation(1) by simp
    ultimately show ?thesis
      using False s sn dn v by (simp add: get_version_def replayed_def)
  qed
qed

end

end
