(* ===== verification/Ledger_Properties.thy ===== *)
theory Ledger_Properties
  imports Ledger_History World_State
begin

text \<open>
  The World State Ledger as a whole: every call keeps the tables reachable in the sense of
  \<open>ledger_hist\<close>, so the history can be reconstructed; a proposal is decided once; the guards
  of \<^verbatim>\<open>validate_and_commit\<close>. \<open>wsl_cmd\<close> are the calls, and \<open>Expire\<close>
  is Redis dropping or changing the cached document on its own.
\<close>

datatype 'c wsl_cmd =
    Read json
  | Submit json proposal
  | Commit json string
  | Expire 'c

fun wsl_exec :: "('c, 'p) wsl_env \<Rightarrow> 'c wsl_cmd \<Rightarrow> ('c, 'p) ledger \<Rightarrow> ('c, 'p) ledger" where
  "wsl_exec env (Read now) s = snd (get_current env now s)"
| "wsl_exec env (Submit now p) s = snd (submit_proposal env now p s)"
| "wsl_exec env (Commit now pid) s = snd (validate_and_commit env now pid s)"
| "wsl_exec env (Expire c) s = s\<lparr>l_cache := c\<rparr>"

definition wsl_exec_all :: "('c, 'p) wsl_env \<Rightarrow> 'c wsl_cmd list \<Rightarrow> ('c, 'p) ledger \<Rightarrow> ('c, 'p) ledger" where
  "wsl_exec_all env cmds s = fold (wsl_exec env) cmds s"

definition new_ledger :: "'c \<Rightarrow> 'p \<Rightarrow> ('c, 'p) ledger" where
  "new_ledger c b = \<lparr>l_rows = [], l_proposals = [], l_cache = c, l_bus = b\<rparr>"

text \<open>The times the calls are made at are time stamps.\<close>

fun stamped :: "(json \<Rightarrow> bool) \<Rightarrow> 'c wsl_cmd \<Rightarrow> bool" where
  "stamped stamp (Commit now pid) = stamp now"
| "stamped stamp _ = True"

section \<open>What each call does to the tables\<close>

lemma with_cache_tables [simp]:
  "l_rows (snd (with_cache m s)) = l_rows s" "l_proposals (snd (with_cache m s)) = l_proposals s"
  by (auto simp: with_cache_def zoom_run split: prod.splits)

lemma announce_tables [simp]:
  "l_rows (snd (announce env ty pl s)) = l_rows s"
  "l_proposals (snd (announce env ty pl s)) = l_proposals s"
  by (auto simp: announce_def zoom_run split: prod.splits)

definition table_quiet :: "(exn, ('c, 'p) ledger, 'a) op \<Rightarrow> bool" where
  "table_quiet m \<longleftrightarrow> (\<forall>s. l_rows (snd (m s)) = l_rows s \<and> l_proposals (snd (m s)) = l_proposals s)"

lemma table_quiet_intros [intro]:
  "table_quiet (ret x)" "table_quiet (raise e)" "table_quiet (lift_sum g)"
  "table_quiet (with_cache n)" "table_quiet (announce env ty pl)"
  by (simp_all add: table_quiet_def)

lemma table_quiet_chain [intro]:
  "table_quiet m \<Longrightarrow> (\<And>x. table_quiet (f x)) \<Longrightarrow> table_quiet (chain m f)"
  unfolding table_quiet_def chain_run by (auto split: prod.splits sum.splits) (metis snd_conv)+

lemma table_quietD:
  "table_quiet m \<Longrightarrow> l_rows (snd (m s)) = l_rows s" "table_quiet m \<Longrightarrow> l_proposals (snd (m s)) = l_proposals s"
  by (simp_all add: table_quiet_def)

lemma get_current_quiet: "table_quiet (get_current env now)"
  unfolding get_current_def by (intro table_quiet_chain) (auto split: option.split)

lemma publish_commit_quiet: "table_quiet (publish_commit env pid new)"
  unfolding publish_commit_def by blast

text \<open>
  The three ways a decision changes the tables: not at all, the proposal is rejected, or a
  row is added and the proposal accepted.
\<close>

definition commit_effect :: "('c, 'p) wsl_env \<Rightarrow> json \<Rightarrow> string \<Rightarrow> proposal_row \<Rightarrow>
    ('c, 'p) ledger \<Rightarrow> ('c, 'p) ledger \<Rightarrow> bool" where
  "commit_effect env now pid p s s' \<longleftrightarrow>
     (l_rows s' = l_rows s \<and> l_proposals s' = l_proposals s) \<or>
     (\<exists>reason. l_rows s' = l_rows s \<and>
        l_proposals s' = AList.update pid (reject now reason p) (l_proposals s)) \<or>
     (\<exists>cur new. locked_state (wsl_vf env) now (l_rows s) = Inr cur \<and> version_of cur = pr_before p \<and>
        next_state (wsl_vf env) now cur (pr_mutations p) = Inr new \<and>
        validate_mutations cur (pr_mutations p) = Inr None \<and>
        version_of new \<notin> lr_version ` set (l_rows s) \<and>
        l_rows s' = l_rows s @ [new_row now pid (pr_mutations p) new] \<and>
        l_proposals s' = AList.update pid (accept now (version_of new) p) (l_proposals s))"

lemma new_row_version [simp]: "lr_version (new_row now pid ms new) = version_of new"
  by (simp add: new_row_def Let_def)

lemma commit_row_run:
  "commit_row pid prow row s =
     (if lr_version row \<in> lr_version ` set (l_rows s) then (Inl (ExternalError ''IntegrityError''), s)
      else (Inr (), update_proposal pid prow (s\<lparr>l_rows := l_rows s @ [row]\<rparr>)))"
  by (simp add: commit_row_def)

lemma decide_effect: "commit_effect env now pid p s (snd (decide env now pid p s))"
proof (cases "locked_state (wsl_vf env) now (l_rows s)")
  case (Inl e)
  then show ?thesis by (simp add: commit_effect_def decide_def chain_run)
next
  case cur: (Inr cur)
  show ?thesis
  proof (cases "version_of cur = pr_before p")
    case False
    with cur show ?thesis by (simp add: commit_effect_def decide_def chain_run)
  next
    case before: True
    show ?thesis
    proof (cases "validate_mutations cur (pr_mutations p)")
      case (Inl e)
      with cur before show ?thesis by (simp add: commit_effect_def decide_def chain_run)
    next
      case valid: (Inr rej)
      show ?thesis
      proof (cases rej)
        case (Some reason)
        have "table_quiet (chain (announce env EventType.PROPOSAL_REJECTED
            [(''proposal_id'', JStr pid), (''reason'', JStr (reason_text env reason))]) (\<lambda>_. ret False))"
          by blast
        from table_quietD [OF this] have "l_rows (snd (decide env now pid p s)) = l_rows s"
          "l_proposals (snd (decide env now pid p s)) =
             AList.update pid (reject now reason p) (l_proposals s)"
          using cur before valid Some
          by (simp_all add: decide_def chain_run [of "lift_sum _"] chain_run [of "writes _"]
              update_proposal_def)
        then show ?thesis by (auto simp: commit_effect_def)
      next
        case None
        show ?thesis
        proof (cases "next_state (wsl_vf env) now cur (pr_mutations p)")
          case (Inl e)
          with cur before valid None show ?thesis by (simp add: commit_effect_def decide_def chain_run)
        next
          case (Inr new)
          then show ?thesis
            using cur before valid None table_quietD [OF publish_commit_quiet [of env pid new]]
            by (simp add: commit_effect_def decide_def chain_run [of "lift_sum _"]
                chain_run [of "commit_row _ _ _"] commit_row_run update_proposal_def
                new_row_version)
        qed
      qed
    qed
  qed
qed

lemma validate_and_commit_effect:
  "(l_rows (snd (validate_and_commit env now pid s)) = l_rows s \<and>
    l_proposals (snd (validate_and_commit env now pid s)) = l_proposals s) \<or>
   (\<exists>p. map_of (l_proposals s) pid = Some p \<and> pr_verdict p = ProposalVerdict.PENDING \<and>
      commit_effect env now pid p s (snd (validate_and_commit env now pid s)))"
  using decide_effect [of env now pid _ s]
  by (auto simp: validate_and_commit_def chain_run split: option.splits)

lemma insert_proposal_run:
  "insert_proposal pid row s =
     (if map_of (l_proposals s) pid \<noteq> None then (Inl (ExternalError ''IntegrityError''), s)
      else (Inr (), s\<lparr>l_proposals := l_proposals s @ [(pid, row)]\<rparr>))"
  by (simp add: insert_proposal_def)

lemma submit_effect:
  "l_rows (snd (submit_proposal env now p s)) = l_rows s \<and>
   (l_proposals (snd (submit_proposal env now p s)) = l_proposals s \<or>
    (map_of (l_proposals s) (p_id p) = None \<and>
     (\<exists>n. l_proposals (snd (submit_proposal env now p s)) =
        l_proposals s @ [(p_id p, proposal_row_of p n)])))"
proof -
  obtain r s1 where g: "get_current env now s = (r, s1)" by fastforce
  have s1: "l_rows s1 = l_rows s" "l_proposals s1 = l_proposals s"
    using table_quietD [OF get_current_quiet, of env now s] g by simp_all
  have q: "table_quiet (chain (announce env EventType.PROPOSAL_CREATED
       [(''proposal_id'', JStr (p_id p)), (''agent_id'', JStr (p_agent_id p)),
        (''task_id'', JStr (p_task_id p)), (''mutation_count'', JInt (int (length (p_mutations p))))])
       (\<lambda>_. ret (p_id p)))" by blast
  show ?thesis
    using g s1 table_quietD [OF q]
    by (cases r; cases "map_of (l_proposals s) (p_id p)")
      (auto simp: submit_proposal_def chain_run [of "get_current _ _"]
        chain_run [of "insert_proposal _ _"] insert_proposal_run)
qed

section \<open>Reachable ledgers\<close>

definition ledger_inv :: "validator \<Rightarrow> json \<Rightarrow> ('c, 'p) ledger \<Rightarrow> bool" where
  "ledger_inv vf t0 s \<longleftrightarrow> (\<exists>w. ledger_hist vf t0 (l_rows s) w)"

context field_validation
begin

lemma locked_state_ok:
  assumes h: "ledger_hist vf t0 rows w" and t: "stamp t"
  shows "\<exists>s. locked_state vf t rows = Inr s \<and> world_ok vf s \<and> same_core s w \<and>
    version_of s = int (length rows)"
proof (cases "rows = []")
  case True
  obtain p where p: "pristine vf t = Inr p" using pristine_ok [OF t] by blast
  have "pristine vf t0 = Inr w" using h True by (auto elim: hist_emptyE)
  with p True pristine_core [OF p] pristine_version [OF p] show ?thesis
    by (simp add: locked_state_def latest_def pristine_def validate_world_ok)
next
  case False
  then obtain rs r where rows: "rows = rs @ [r]" by (cases rows rule: rev_cases) auto
  with h obtain u where hist: "ledger_hist vf t0 rs u" and r: "row_ok vf (length rs) w r"
    by (auto elim: hist_snocE)
  have last: "latest rows = Some r"
    using hist_versions [OF hist] r unfolding rows by (intro latest_snoc_above) (force simp: row_ok_def)
  show ?thesis
  proof (cases "is_checkpoint r")
    case True
    with r obtain c where "state_snapshot r = Some c" "world_ok vf c" "same_core c w"
      "version_of c = lr_version r" by (auto simp: row_ok_def)
    with True last r show ?thesis
      by (simp add: locked_state_def validate_snapshot_def world_ok_validate row_ok_def rows)
  next
    case False
    obtain s where s: "replayed vf t (int (length rows)) rows = Inr s" "world_ok vf s" "same_core s w"
      using replayed_top [OF t h] by blast
    obtain x start where st: "replay_start vf t (int (length rows)) rows = Inr (x, start)"
      using replay_start_ok [OF h t] by blast
    have lv: "lr_version r = int (length rows)" using r by (simp add: row_ok_def rows)
    have "\<not> 20 dvd int (length rows)" using False r unfolding lv [symmetric] row_ok_def by simp
    then have "start \<noteq> int (length rows)" using replay_start_props(4) [OF h st] by auto
    then have "reconstruct_version vf t (int (length rows)) rows = Inr (set_version (int (length rows)) s)"
      using s(1) st by (simp add: reconstruct_version_def replayed_def)
    then show ?thesis
      using False last lv s(2,3) set_version_ok by (simp add: locked_state_def) (simp add: set_version_def)
  qed
qed

lemma next_state_ok:
  assumes cur: "world_ok vf cur" "same_core cur w" "world_ok vf w" and t: "stamp t"
    and n: "next_state vf t cur ms = Inr new"
  shows "\<exists>w'. apply_mutations vf w ms = Inr w' \<and> same_core new w' \<and> world_ok vf new \<and>
    version_of new = version_of cur + 1"
proof -
  obtain a where a: "apply_mutations vf cur ms = Inr a"
    and new: "new = AList.update ''updated_at'' t (set_version (version_of cur + 1) a)"
    using n by (auto simp: next_state_def bind_sum_Inr)
  obtain w' where "apply_mutations vf w ms = Inr w'" "same_core a w'"
    using apply_same_core [OF cur(1,3,2) a] by blast
  moreover have "world_ok vf new"
    using a stamp_ok [OF t] unfolding new apply_mutations_def
    by (intro world_ok_update set_version_ok validate_world_ok) (auto simp: world_fields_def)
  moreover have "version_of new = version_of cur + 1"
    by (simp add: new version_of_def set_version_def)
  ultimately show ?thesis by (auto simp: new set_version_def)
qed

lemma new_row_ok:
  assumes "world_ok vf new" and "same_core new w'" and "version_of new = int n + 1"
  shows "row_ok vf n w' (new_row t pid ms new)"
  using assms by (auto simp: row_ok_def new_row_def Let_def checkpoint_interval_def dvd_eq_mod_eq_0)

lemma commit_effect_inv:
  assumes "commit_effect env t pid p s s'" and "wsl_vf env = vf" and "stamp t" and "ledger_inv vf t0 s"
  shows "ledger_inv vf t0 s'"
proof -
  from assms(4) obtain w where w: "ledger_hist vf t0 (l_rows s) w" by (auto simp: ledger_inv_def)
  obtain cur where cur: "locked_state vf t (l_rows s) = Inr cur" "world_ok vf cur" "same_core cur w"
    "version_of cur = int (length (l_rows s))" using locked_state_ok [OF w assms(3)] by blast
  show ?thesis
  proof (cases "l_rows s' = l_rows s")
    case True
    with w show ?thesis by (auto simp: ledger_inv_def)
  next
    case False
    with assms(1,2) cur(1) obtain new where new: "next_state vf t cur (pr_mutations p) = Inr new"
      and rows: "l_rows s' = l_rows s @ [new_row t pid (pr_mutations p) new]"
      by (auto simp: commit_effect_def)
    obtain w' where w': "apply_mutations vf w (pr_mutations p) = Inr w'" "same_core new w'"
      "world_ok vf new" "version_of new = version_of cur + 1"
      using next_state_ok [OF cur(2,3) hist_world_ok [OF w] assms(3) new] by blast
    have "row_ok vf (length (l_rows s)) w' (new_row t pid (pr_mutations p) new)"
      using w'(2-4) cur(4) by (intro new_row_ok) simp_all
    moreover have "lr_mutations (new_row t pid (pr_mutations p) new) = pr_mutations p"
      by (simp add: new_row_def Let_def)
    ultimately have "ledger_hist vf t0 (l_rows s') w'"
      unfolding rows using w w'(1) by (intro hist_commit) simp_all
    then show ?thesis by (auto simp: ledger_inv_def)
  qed
qed

lemma wsl_exec_inv:
  assumes "wsl_vf env = vf" and "stamped stamp c" and "ledger_inv vf t0 s"
  shows "ledger_inv vf t0 (wsl_exec env c s)"
proof (cases c)
  case (Commit now pid)
  with assms validate_and_commit_effect [of env now pid s] show ?thesis
    by (auto simp: ledger_inv_def dest: commit_effect_inv [unfolded ledger_inv_def])
next
  case (Read now)
  with assms table_quietD(1) [OF get_current_quiet, of env now s] show ?thesis by (simp add: ledger_inv_def)
next
  case (Submit now p)
  with assms submit_effect [of env now p s] show ?thesis by (simp add: ledger_inv_def)
qed (use assms in \<open>simp add: ledger_inv_def\<close>)

lemma wsl_exec_all_inv:
  assumes "wsl_vf env = vf"
  shows "\<forall>c \<in> set cmds. stamped stamp c \<Longrightarrow> ledger_inv vf t0 s \<Longrightarrow>
     ledger_inv vf t0 (wsl_exec_all env cmds s)"
  unfolding wsl_exec_all_def
  by (induction cmds arbitrary: s) (simp_all add: wsl_exec_inv [OF assms])

lemma new_ledger_inv: "stamp t0 \<Longrightarrow> ledger_inv vf t0 (new_ledger c b)"
  using pristine_ok by (auto simp: ledger_inv_def new_ledger_def intro: hist_init)

end

section \<open>Proposals are decided once\<close>

definition accepted_as :: "proposal_row \<Rightarrow> ledger_row \<Rightarrow> bool" where
  "accepted_as p r \<longleftrightarrow> pr_verdict p = ProposalVerdict.ACCEPTED \<and> lr_mutations r = pr_mutations p \<and>
     pr_after p = Some (lr_version r) \<and> lr_version r = pr_before p + 1"

definition proposals_inv :: "('c, 'p) ledger \<Rightarrow> bool" where
  "proposals_inv s \<longleftrightarrow>
     distinct (map lr_version (l_rows s)) \<and> distinct (map lr_proposal_id (l_rows s)) \<and>
     (\<forall>r \<in> set (l_rows s). \<exists>p. map_of (l_proposals s) (lr_proposal_id r) = Some p \<and> accepted_as p r) \<and>
     (\<forall>pid p. map_of (l_proposals s) pid = Some p \<longrightarrow> pr_verdict p = ProposalVerdict.ACCEPTED \<longrightarrow>
        pid \<in> lr_proposal_id ` set (l_rows s))"

lemma new_row_accepted:
  assumes "next_state vf now cur (pr_mutations p) = Inr new" and "version_of cur = pr_before p"
  shows "accepted_as (accept now (version_of new) p) (new_row now pid (pr_mutations p) new)"
proof -
  have "version_of new = version_of cur + 1"
    using assms(1) by (auto simp: next_state_def bind_sum_Inr version_of_def set_version_def)
  with assms(2) show ?thesis by (simp add: accepted_as_def accept_def new_row_def Let_def)
qed

lemma proposals_inv_update:
  assumes "proposals_inv s" and "map_of (l_proposals s) pid = Some p"
    and "pr_verdict p = ProposalVerdict.PENDING" and "pr_verdict q \<noteq> ProposalVerdict.ACCEPTED"
    and "l_rows s' = l_rows s" and "l_proposals s' = AList.update pid q (l_proposals s)"
  shows "proposals_inv s'"
proof -
  have "lr_proposal_id r \<noteq> pid" if "r \<in> set (l_rows s)" for r
    using assms(1-3) that by (fastforce simp: proposals_inv_def accepted_as_def)
  with assms show ?thesis by (simp add: proposals_inv_def)
qed

lemma proposals_inv_commit:
  assumes inv: "proposals_inv s" and p: "map_of (l_proposals s) pid = Some p"
    "pr_verdict p = ProposalVerdict.PENDING" and e: "commit_effect env now pid p s s'"
  shows "proposals_inv s'"
proof -
  have fresh: "lr_proposal_id r \<noteq> pid" if "r \<in> set (l_rows s)" for r
    using inv p that by (fastforce simp: proposals_inv_def accepted_as_def)
  have "proposals_inv s'" if "l_rows s' = l_rows s"
      "l_proposals s' = AList.update pid (reject now reason p) (l_proposals s)" for reason
    using that by (intro proposals_inv_update [OF inv p]) (simp_all add: reject_def)
  moreover have "proposals_inv s'" if
    n: "next_state (wsl_vf env) now cur (pr_mutations p) = Inr new" "version_of cur = pr_before p" and
    v: "version_of new \<notin> lr_version ` set (l_rows s)" and
    rows: "l_rows s' = l_rows s @ [new_row now pid (pr_mutations p) new]" and
    props: "l_proposals s' = AList.update pid (accept now (version_of new) p) (l_proposals s)" for cur new
  proof -
    have id: "lr_proposal_id (new_row now pid (pr_mutations p) new) = pid"
      by (simp add: new_row_def Let_def)
    show ?thesis
      using inv fresh v new_row_accepted [OF n, of pid]
      unfolding proposals_inv_def rows props by (auto simp: id image_iff)
  qed
  moreover have "proposals_inv s'" if "l_rows s' = l_rows s" "l_proposals s' = l_proposals s"
    using inv that by (simp add: proposals_inv_def)
  ultimately show ?thesis using e unfolding commit_effect_def by blast
qed

lemma wsl_exec_proposals: "proposals_inv s \<Longrightarrow> proposals_inv (wsl_exec env c s)"
proof (cases c)
  case (Commit now pid)
  assume inv: "proposals_inv s"
  from validate_and_commit_effect [of env now pid s] show ?thesis
    unfolding Commit wsl_exec.simps
    using inv proposals_inv_commit [OF inv, of pid _ env now] by (auto simp: proposals_inv_def)
next
  case (Submit now p)
  assume inv: "proposals_inv s"
  have "proposals_inv s'" if "l_rows s' = l_rows s" "map_of (l_proposals s) pid = None"
      "l_proposals s' = l_proposals s @ [(pid, proposal_row_of p n)]" for s' :: "('a, 'b) ledger" and pid n
    using inv that
    by (fastforce simp: proposals_inv_def map_add_Some_iff proposal_row_of_def split: if_splits)
  with inv submit_effect [of env now p s] show ?thesis
    unfolding Submit wsl_exec.simps by (auto simp: proposals_inv_def)
next
  case (Read now)
  assume "proposals_inv s"
  with Read table_quietD [OF get_current_quiet, of env now s] show ?thesis
    by (simp add: proposals_inv_def)
qed (simp add: proposals_inv_def)

lemma wsl_exec_all_proposals: "proposals_inv s \<Longrightarrow> proposals_inv (wsl_exec_all env cmds s)"
  unfolding wsl_exec_all_def by (induction cmds arbitrary: s) (simp_all add: wsl_exec_proposals)

text \<open>A decided proposal is never touched again.\<close>

definition decided :: "ProposalVerdict \<Rightarrow> bool" where
  "decided v \<longleftrightarrow> v \<noteq> ProposalVerdict.PENDING"

definition verdict_step :: "ProposalVerdict \<Rightarrow> ProposalVerdict \<Rightarrow> bool" where
  "verdict_step a b \<longleftrightarrow> \<not> decided a \<and> decided b"

interpretation verdict_life: ranked_lifecycle verdict_step decided "\<lambda>v. if decided v then 1 else 0"
  by unfold_locales (auto simp: verdict_step_def)

definition proposal_step :: "proposal_row \<Rightarrow> proposal_row \<Rightarrow> bool" where
  "proposal_step p q \<longleftrightarrow> q = p \<or>
     (verdict_step (pr_verdict p) (pr_verdict q) \<and> pr_mutations q = pr_mutations p \<and> pr_before q = pr_before p)"

lemma commit_effect_step:
  assumes "commit_effect env now pid p s s'" and "map_of (l_proposals s) pid = Some p"
    and "pr_verdict p = ProposalVerdict.PENDING" and "map_of (l_proposals s) u = Some q"
  shows "\<exists>q'. map_of (l_proposals s') u = Some q' \<and> proposal_step q q'"
  using assms
  by (auto simp: commit_effect_def proposal_step_def verdict_step_def decided_def reject_def accept_def)

lemma wsl_exec_step:
  assumes "map_of (l_proposals s) u = Some q"
  shows "\<exists>q'. map_of (l_proposals (wsl_exec env c s)) u = Some q' \<and> proposal_step q q'"
proof (cases c)
  case (Commit now pid)
  with assms validate_and_commit_effect [of env now pid s] commit_effect_step [of env now pid _ s _ u q]
  show ?thesis by (auto simp: proposal_step_def)
next
  case (Submit now p)
  with assms submit_effect [of env now p s] show ?thesis
    by (auto simp: proposal_step_def map_add_Some_iff)
next
  case (Read now)
  with assms table_quietD [OF get_current_quiet, of env now s] show ?thesis
    by (simp add: proposal_step_def)
qed (use assms in \<open>simp add: proposal_step_def\<close>)

lemma wsl_exec_all_step:
  "map_of (l_proposals s) u = Some q \<Longrightarrow>
     \<exists>q'. map_of (l_proposals (wsl_exec_all env cmds s)) u = Some q' \<and> proposal_step\<^sup>*\<^sup>* q q'"
proof (induction cmds arbitrary: s q)
  case (Cons c cmds)
  obtain q1 where q1: "map_of (l_proposals (wsl_exec env c s)) u = Some q1" "proposal_step q q1"
    using wsl_exec_step [OF Cons.prems] by blast
  from Cons.IH [OF q1(1)] q1(2) show ?case
    by (auto simp: wsl_exec_all_def intro: converse_rtranclp_into_rtranclp)
qed (auto simp: wsl_exec_all_def)

lemma proposal_steps: "proposal_step\<^sup>*\<^sup>* p q \<Longrightarrow> q = p \<or> (\<not> decided (pr_verdict p) \<and> decided (pr_verdict q))"
  by (induction rule: rtranclp_induct) (auto simp: proposal_step_def verdict_step_def)

section \<open>Versions in range\<close>

lemma get_version_prefix:
  "ledger_hist vf t0 rows w \<Longrightarrow> v \<le> int n \<Longrightarrow> n \<le> length rows \<Longrightarrow>
     get_version vf t v rows = get_version vf t v (take n rows)"
proof (induction rule: ledger_hist.induct)
  case (hist_commit rows w r w')
  then have r: "lr_version r = int (length rows) + 1" by (simp add: row_ok_def)
  show ?case
  proof (cases "n = Suc (length rows)")
    case False
    then have "n \<le> length rows" "v < lr_version r" using hist_commit.prems r by auto
    have "deltas lo v (rows @ [r]) = deltas lo v rows" for lo
      using \<open>v < lr_version r\<close> by (rule deltas_snoc_above)
    moreover have "checkpoint_before v (rows @ [r]) = checkpoint_before v rows"
      using \<open>v < lr_version r\<close> by (rule checkpoint_before_snoc_above)
    ultimately have "get_version vf t v (rows @ [r]) = get_version vf t v rows"
      by (simp only: get_version_def replay_start_def)
    with hist_commit.IH hist_commit.prems(1) \<open>n \<le> length rows\<close> show ?thesis by simp
  qed simp
qed simp

context field_validation
begin

lemma get_version_top:
  assumes h: "ledger_hist vf t0 rows w" and t: "stamp t"
  shows "\<exists>s. get_version vf t (int (length rows)) rows = Inr s \<and> version_of s = int (length rows) \<and>
    world_ok vf s \<and> same_core s w"
proof -
  obtain s where s: "replayed vf t (int (length rows)) rows = Inr s" "world_ok vf s" "same_core s w"
    using replayed_top [OF t h] by blast
  obtain x start where st: "replay_start vf t (int (length rows)) rows = Inr (x, start)"
    using replay_start_ok [OF h t] by blast
  note props = replay_start_props [OF h st, simplified]
  show ?thesis
  proof (cases "20 dvd int (length rows)")
    case True
    then have "start = int (length rows)" by (rule props(6))
    moreover have "deltas start (int (length rows)) rows = []"
      using deltas_empty_iff [OF h props(1,3)] calculation by simp
    ultimately have "s = x" using s(1) st by (simp add: replayed_def)
    with True s get_version_from_top [OF h t order_refl] props(5) \<open>start = _\<close> show ?thesis by simp
  next
    case False
    with s get_version_from_top [OF h t order_refl] set_version_ok show ?thesis
      by simp (simp add: set_version_def)
  qed
qed

lemma get_version_in_range:
  assumes h: "ledger_hist vf t0 rows w" and t: "stamp t" and n: "n \<le> length rows"
  shows "\<exists>s w'. get_version vf t (int n) rows = Inr s \<and> version_of s = int n \<and>
    full_replay vf t0 (map lr_mutations (take n rows)) = Inr w' \<and> same_core s w'"
proof -
  obtain w' where w': "ledger_hist vf t0 (take n rows) w'" using hist_prefix [OF h n] by blast
  from get_version_top [OF w' t] n get_version_prefix [OF h _ n, of "int n" t] hist_full_replay [OF w']
  show ?thesis by (auto simp: min_absorb2)
qed

end

section \<open>Properties\<close>


text \<open>
  A version beyond the newest one, which the documentation says is refused, is refused
  only if the newest version is a checkpoint. Otherwise the newest state is returned,
  labelled with the version number that was asked for.
\<close>

theorem future_version_mislabelled:
  assumes "field_validation vf stamp" and "stamp t" and "ledger_inv vf t0 s"
    and "int (length (l_rows s)) < v"
  shows "if 20 dvd int (length (l_rows s))
    then get_version vf t v (l_rows s) = Inl (LedgerVersionNotFoundError ''Ledger version not found'')
    else \<exists>st w. get_version vf t v (l_rows s) = Inr st \<and> version_of st = v \<and>
      full_replay vf t0 (map lr_mutations (l_rows s)) = Inr w \<and> same_core st w"
proof -
  obtain w where h: "ledger_hist vf t0 (l_rows s) w" using assms(3) by (auto simp: ledger_inv_def)
  obtain st where st: "replayed vf t (int (length (l_rows s))) (l_rows s) = Inr st" "same_core st w"
    using field_validation.replayed_top [OF assms(1,2) h] by blast
  note top = field_validation.get_version_from_top [OF assms(1) h assms(2), of v]
  show ?thesis
  proof (cases "20 dvd int (length (l_rows s))")
    case True
    with top assms(4) show ?thesis by simp
  next
    case False
    with top assms(4) st(1) have "get_version vf t v (l_rows s) = Inr (set_version v st)" by simp
    moreover have "same_core (set_version v st) w" using st(2) by (simp add: set_version_def)
    ultimately show ?thesis
      using False hist_full_replay [OF h] version_set [of v st] by auto
  qed
qed

text \<open>
  Whatever calls are made, each ledger row belongs to exactly one proposal, which is
  accepted with the row's mutations and version, one above the version it was submitted
  at; every accepted proposal has its row; versions are unique. So of all proposals
  submitted at one version at most one is accepted.
\<close>

theorem accepted_proposals_are_rows:
  assumes "s = wsl_exec_all env cmds (new_ledger cache bus)"
  shows "distinct (map lr_version (l_rows s)) \<and> distinct (map lr_proposal_id (l_rows s)) \<and>
    (\<forall>r \<in> set (l_rows s). \<exists>p. map_of (l_proposals s) (lr_proposal_id r) = Some p \<and>
       pr_verdict p = ProposalVerdict.ACCEPTED \<and> lr_mutations r = pr_mutations p \<and>
       pr_after p = Some (lr_version r) \<and> lr_version r = pr_before p + 1) \<and>
    (\<forall>i j p q. map_of (l_proposals s) i = Some p \<and> map_of (l_proposals s) j = Some q \<and>
       pr_verdict p = ProposalVerdict.ACCEPTED \<and> pr_verdict q = ProposalVerdict.ACCEPTED \<and>
       pr_before p = pr_before q \<longrightarrow> i = j)"
proof -
  have "proposals_inv (new_ledger cache bus)" by (simp add: proposals_inv_def new_ledger_def)
  then have inv: "proposals_inv s" unfolding assms by (rule wsl_exec_all_proposals)
  have "i = j" if p: "map_of (l_proposals s) i = Some p" "pr_verdict p = ProposalVerdict.ACCEPTED"
      and q: "map_of (l_proposals s) j = Some q" "pr_verdict q = ProposalVerdict.ACCEPTED"
      and b: "pr_before p = pr_before q" for i j p q
  proof -
    have "i \<in> lr_proposal_id ` set (l_rows s)" "j \<in> lr_proposal_id ` set (l_rows s)"
      using inv p q unfolding proposals_inv_def by blast+
    then obtain r r' where r: "r \<in> set (l_rows s)" "lr_proposal_id r = i"
      and r': "r' \<in> set (l_rows s)" "lr_proposal_id r' = j" by blast
    with inv p q have "accepted_as p r" "accepted_as q r'" unfolding proposals_inv_def by fastforce+
    with b have "lr_version r = lr_version r'" by (simp add: accepted_as_def)
    with inv r(1) r'(1) have "r = r'" by (auto simp: proposals_inv_def distinct_map inj_on_def)
    with r r' show ?thesis by simp
  qed
  with inv show ?thesis unfolding proposals_inv_def accepted_as_def by blast
qed

text \<open>
  Once a proposal is accepted or rejected, no sequence of calls changes its row, and
  asking for its decision again returns the same answer without any change.
\<close>

theorem verdict_final:
  assumes "map_of (l_proposals s) pid = Some p" and "pr_verdict p \<noteq> ProposalVerdict.PENDING"
  shows "map_of (l_proposals (wsl_exec_all env cmds s)) pid = Some p \<and>
    validate_and_commit env now pid s = (Inr (pr_verdict p = ProposalVerdict.ACCEPTED), s)"
proof -
  obtain q where "map_of (l_proposals (wsl_exec_all env cmds s)) pid = Some q" "proposal_step\<^sup>*\<^sup>* p q"
    using wsl_exec_all_step [OF assms(1)] by blast
  moreover have "decided (pr_verdict p)" using assms(2) by (simp add: decided_def)
  ultimately have "map_of (l_proposals (wsl_exec_all env cmds s)) pid = Some p"
    using proposal_steps by metis
  then show ?thesis using assms by (simp add: validate_and_commit_def chain_run)
qed

text \<open>The cache and the publisher answer every call.\<close>

definition wsl_reliable :: "('c, 'p) wsl_env \<Rightarrow> bool" where
  "wsl_reliable env \<longleftrightarrow> (\<forall>d v c. fst (cache_set env d v c) = Inr ()) \<and>
     (\<forall>e b. fst (wsl_publish env e b) = Inr ())"

lemma announce_reliable: "wsl_reliable env \<Longrightarrow> fst (announce env ty pl s) = Inr ()"
  unfolding wsl_reliable_def announce_def zoom_run by (auto split: prod.splits) (metis fst_conv)

lemma chain_reliable: "fst (m s) = Inr () \<Longrightarrow> chain m f s = f () (snd (m s))"
  by (cases "m s") (simp add: chain_run)

lemma publish_commit_reliable: "wsl_reliable env \<Longrightarrow> fst (publish_commit env pid new s) = Inr True"
proof -
  assume r: "wsl_reliable env"
  then have "fst (with_cache (cache_set env new v) s) = Inr ()" for v
    unfolding wsl_reliable_def with_cache_def zoom_run by (auto split: prod.splits) (metis fst_conv)
  then show ?thesis
    by (simp add: publish_commit_def chain_reliable announce_reliable [OF r])
qed

lemma decide_outcome:
  assumes cur: "locked_state (wsl_vf env) now (l_rows s) = Inr cur" and r: "wsl_reliable env"
    and fresh: "version_of cur + 1 \<notin> lr_version ` set (l_rows s)"
  shows "fst (decide env now pid p s) =
      (if version_of cur \<noteq> pr_before p then Inl (OptimisticConcurrencyError (pr_before p) (version_of cur))
       else case validate_mutations cur (pr_mutations p) of
         Inl e \<Rightarrow> Inl e
       | Inr (Some _) \<Rightarrow> Inr False
       | Inr None \<Rightarrow> (case apply_mutations (wsl_vf env) cur (pr_mutations p) of
           Inl e \<Rightarrow> Inl e | Inr _ \<Rightarrow> Inr True))"
    and "length (l_rows (snd (decide env now pid p s))) =
      length (l_rows s) + (if fst (decide env now pid p s) = Inr True then 1 else 0)"
proof -
  have v: "version_of (AList.update ''updated_at'' now (set_version k a)) = k" for k a
    by (simp add: version_of_def set_version_def)
  note steps = decide_def chain_run [of "lift_sum _"] chain_run [of "commit_row _ _ _"] commit_row_run
    next_state_def v chain_reliable announce_reliable [OF r] publish_commit_reliable [OF r]
    table_quietD [OF publish_commit_quiet] update_proposal_def
  show "fst (decide env now pid p s) =
      (if version_of cur \<noteq> pr_before p then Inl (OptimisticConcurrencyError (pr_before p) (version_of cur))
       else case validate_mutations cur (pr_mutations p) of
         Inl e \<Rightarrow> Inl e
       | Inr (Some _) \<Rightarrow> Inr False
       | Inr None \<Rightarrow> (case apply_mutations (wsl_vf env) cur (pr_mutations p) of
           Inl e \<Rightarrow> Inl e | Inr _ \<Rightarrow> Inr True))"
    using fresh by (cases "apply_mutations (wsl_vf env) cur (pr_mutations p)")
      (auto simp: steps cur split: sum.split option.split)
  show "length (l_rows (snd (decide env now pid p s))) =
      length (l_rows s) + (if fst (decide env now pid p s) = Inr True then 1 else 0)"
    using fresh by (cases "apply_mutations (wsl_vf env) cur (pr_mutations p)")
      (auto simp: steps cur split: sum.split option.split)
qed


section \<open>A concrete ledger\<close>

definition sample_wsl :: "((string \<times> json) list option, event list) wsl_env" where
  "sample_wsl = \<lparr>wsl_vf = schema_vf, cache_get = reads (\<lambda>c. c),
     cache_set = (\<lambda>d v. writes (\<lambda>_. Some d)), wsl_publish = (\<lambda>e. writes (\<lambda>b. b @ [e])),
     reason_text = (\<lambda>_. ''rejected'')\<rparr>"

definition noon :: json where
  "noon = JStr ''12:00''"

definition budget_proposal :: "string \<Rightarrow> json \<Rightarrow> proposal" where
  "budget_proposal pid v = \<lparr>p_id = pid, p_agent_id = ''agent'', p_task_id = ''task'',
     p_mutations = [\<lparr>mut_path = ''budget.remaining_tokens'', old_value = JNull, new_value = v\<rparr>],
     p_rationale = []\<rparr>"

definition sample_cmds :: "(string \<times> json) list option wsl_cmd list" where
  "sample_cmds = [Submit noon (budget_proposal ''p'' (JInt 100)),
     Submit noon (budget_proposal ''q'' (JInt 50)), Commit noon ''p'', Commit noon ''q'']"

definition sample_ledger :: "((string \<times> json) list option, event list) ledger" where
  "sample_ledger = wsl_exec_all sample_wsl sample_cmds (new_ledger None [])"

lemma sample_ledger_rows: "length (l_rows sample_ledger) = 1"
  by code_simp

definition sample_world :: "(string \<times> json) list" where
  "sample_world = (case pristine schema_vf noon of Inr w \<Rightarrow> w | Inl _ \<Rightarrow> [])"

definition set_remaining :: "json \<Rightarrow> mutation list" where
  "set_remaining v = p_mutations (budget_proposal ''p'' v)"

text \<open>
  A set of mutations that passes validation never leaves a negative number of remaining
  tokens in the simulated document. The guard looks at the value before the model is
  validated: a negative number written as a string passes it and is stored as a number.
\<close>

theorem overdraft_guard:
  "(validate_mutations cur ms = Inr None \<and> obj_get (apply_all ms (JObj cur)) ''budget'' = Some (JObj b) \<and>
    map_of b ''remaining_tokens'' = Some r \<and> number_of r = Some q \<longrightarrow> 0 \<le> q) \<and>
   (\<exists>cur ms new. validate_mutations cur ms = Inr None \<and> model_validate schema_vf cur = Inr cur \<and>
      apply_mutations schema_vf cur ms = Inr new \<and>
      get_at [''budget'', ''remaining_tokens''] (JObj new) = JInt (-5))"
proof
  show "validate_mutations cur ms = Inr None \<and> obj_get (apply_all ms (JObj cur)) ''budget'' = Some (JObj b) \<and>
    map_of b ''remaining_tokens'' = Some r \<and> number_of r = Some q \<longrightarrow> 0 \<le> q"
    by (auto simp: validate_mutations_def split: option.splits if_splits)
  have "validate_mutations sample_world (set_remaining (JStr ''-5'')) = Inr None"
    "model_validate schema_vf sample_world = Inr sample_world" by code_simp+
  moreover have "case apply_mutations schema_vf sample_world (set_remaining (JStr ''-5'')) of
      Inr new \<Rightarrow> get_at [''budget'', ''remaining_tokens''] (JObj new) = JInt (-5) | Inl _ \<Rightarrow> False"
    by code_simp
  ultimately show "\<exists>cur ms new. validate_mutations cur ms = Inr None \<and> model_validate schema_vf cur = Inr cur \<and>
      apply_mutations schema_vf cur ms = Inr new \<and>
      get_at [''budget'', ''remaining_tokens''] (JObj new) = JInt (-5)"
    by (auto split: sum.splits)
qed

theorem overdraft_guard_witness:
  "(0 :: rat) \<le> 100 \<and> validate_mutations sample_world (set_remaining (JInt 100)) = Inr None"
proof -
  have v: "validate_mutations sample_world (set_remaining (JInt 100)) = Inr None" by code_simp
  have "case obj_get (apply_all (set_remaining (JInt 100)) (JObj sample_world)) ''budget'' of
      Some (JObj b) \<Rightarrow> map_of b ''remaining_tokens'' = Some (JInt 100) | _ \<Rightarrow> False" by code_simp
  then obtain b where "obj_get (apply_all (set_remaining (JInt 100)) (JObj sample_world)) ''budget'' = Some (JObj b)"
    "map_of b ''remaining_tokens'' = Some (JInt 100)"
    by (auto split: option.splits json.splits)
  with v overdraft_guard [of sample_world "set_remaining (JInt 100)" b "JInt 100" 100] show ?thesis by simp
qed



lemma sample_ledger_inv: "ledger_inv schema_vf noon sample_ledger"
  unfolding sample_ledger_def
  by (rule world_models.wsl_exec_all_inv [OF _ _ world_models.new_ledger_inv])
    (simp_all add: sample_wsl_def noon_def is_stamp_def sample_cmds_def)

theorem future_version_mislabelled_witness:
  "\<exists>st. get_version schema_vf noon 7 (l_rows sample_ledger) = Inr st \<and> version_of st = 7"
proof -
  have st: "is_stamp noon" by (simp add: noon_def is_stamp_def)
  have n: "int (length (l_rows sample_ledger)) < 7" by (simp add: sample_ledger_rows)
  show ?thesis
    using future_version_mislabelled [OF world_models.field_validation_axioms st sample_ledger_inv n]
    by (auto simp: sample_ledger_rows)
qed

theorem accepted_proposals_are_rows_witness:
  "list_all (\<lambda>r. \<exists>p. map_of (l_proposals sample_ledger) (lr_proposal_id r) = Some p \<and>
     pr_after p = Some (lr_version r) \<and> lr_version r = pr_before p + 1) (l_rows sample_ledger)"
  unfolding list_all_iff using accepted_proposals_are_rows [OF sample_ledger_def] by fastforce

theorem verdict_final_witness:
  "\<exists>p. map_of (l_proposals (wsl_exec_all sample_wsl [Commit noon ''p'', Commit noon ''q''] sample_ledger)) ''p'' =
     Some p \<and> validate_and_commit sample_wsl noon ''p'' sample_ledger = (Inr True, sample_ledger)"
proof -
  have "case map_of (l_proposals sample_ledger) ''p'' of
      Some p \<Rightarrow> pr_verdict p = ProposalVerdict.ACCEPTED | None \<Rightarrow> False" by code_simp
  then obtain p where "map_of (l_proposals sample_ledger) ''p'' = Some p"
    "pr_verdict p = ProposalVerdict.ACCEPTED" by (auto split: option.splits)
  with verdict_final [of sample_ledger "''p''" p] show ?thesis by auto
qed


end
