(* ===== verification/Budget_Tracker.thy ===== *)
theory Budget_Tracker
  imports Json
begin

text \<open>
  Budget tracking of the Economic Governor
  (\<^verbatim>\<open>economic_governor/budget_tracker.py\<close>, with the thresholds and phase shares of
  \<^verbatim>\<open>config.py\<close>). The clock readings (\<^verbatim>\<open>time.monotonic()\<close>) and whether the
  database write succeeds are arguments; a failed write is swallowed by the code. The asyncio
  lock makes each call atomic, so the calls are functions on the tracker.
\<close>

section \<open>Configuration\<close>

record gov_config =
  total_tokens :: int
  alert_threshold_pct :: rat
  restrict_threshold_pct :: rat
  halt_threshold_pct :: rat
  phase_pct :: "BudgetPhase \<Rightarrow> rat"
  restrict_max_tier :: string
  spin_max_retries :: int

definition default_gov_config :: gov_config where
  "default_gov_config =
     \<lparr>total_tokens = 10000000, alert_threshold_pct = 80, restrict_threshold_pct = 95,
      halt_threshold_pct = 100,
      phase_pct = (\<lambda>p. case p of
          BudgetPhase.SPECIFICATION \<Rightarrow> 5 | BudgetPhase.PLANNING \<Rightarrow> 10
        | BudgetPhase.IMPLEMENTATION \<Rightarrow> 40 | BudgetPhase.TESTING \<Rightarrow> 20
        | BudgetPhase.REVIEW \<Rightarrow> 5 | BudgetPhase.DEBUGGING \<Rightarrow> 15 | BudgetPhase.CONTINGENCY \<Rightarrow> 5),
      restrict_max_tier = ''tier_3'', spin_max_retries = 3\<rparr>"

definition pct_ok :: "rat \<Rightarrow> bool" where
  "pct_ok x \<longleftrightarrow> 0 \<le> x \<and> x \<le> 100"

definition phase_total :: "gov_config \<Rightarrow> rat" where
  "phase_total c = sum_list (map (phase_pct c) all_budget_phase)"

text \<open>The field constraints and the two model validators.\<close>

definition mk_gov_config :: "gov_config \<Rightarrow> exn + gov_config" where
  "mk_gov_config c =
     (if \<not> (0 \<le> total_tokens c \<and> pct_ok (alert_threshold_pct c) \<and> pct_ok (restrict_threshold_pct c) \<and>
            pct_ok (halt_threshold_pct c) \<and> list_all (\<lambda>p. pct_ok (phase_pct c p)) all_budget_phase \<and>
            1 \<le> spin_max_retries c)
      then Inl (ValidationError ''EconomicGovernorConfig'')
      else if \<not> (alert_threshold_pct c \<le> restrict_threshold_pct c \<and>
                 restrict_threshold_pct c \<le> halt_threshold_pct c)
      then Inl (ValidationError ''Budget thresholds must satisfy alert <= restrict <= halt'')
      else if \<bar>phase_total c - 100\<bar> > 1 / 100
      then Inl (ValidationError ''Phase budget percentages must sum to 100.0'')
      else Inr c)"

definition config_ok :: "gov_config \<Rightarrow> bool" where
  "config_ok c \<longleftrightarrow> mk_gov_config c = Inr c"

section \<open>State\<close>

record budget_record =
  br_allocated :: int
  br_consumed :: int
  br_allocated_usd :: rat
  br_consumed_usd :: rat
  br_burn_rate :: rat
  br_level :: EnforcementLevel
  br_phases :: "(BudgetPhase \<times> int \<times> int) list"

record tracker =
  bt_config :: gov_config
  has_session :: bool
  allocated_tokens :: int
  consumed_tokens :: int
  consumed_usd :: rat
  enforcement_level :: EnforcementLevel
  phase_allocated :: "BudgetPhase \<Rightarrow> int"
  phase_consumed :: "BudgetPhase \<Rightarrow> int"
  window :: "(rat \<times> int) list"

definition compute_phase_allocations :: "gov_config \<Rightarrow> int \<Rightarrow> BudgetPhase \<Rightarrow> int" where
  "compute_phase_allocations c tokens p = py_int (of_int tokens * phase_pct c p / 100)"

definition new_tracker :: "gov_config \<Rightarrow> bool \<Rightarrow> tracker" where
  "new_tracker c session =
     \<lparr>bt_config = c, has_session = session, allocated_tokens = total_tokens c, consumed_tokens = 0,
      consumed_usd = 0, enforcement_level = EnforcementLevel.NONE,
      phase_allocated = compute_phase_allocations c (total_tokens c), phase_consumed = (\<lambda>_. 0),
      window = []\<rparr>"

section \<open>Derived figures\<close>

definition consumed_pct :: "tracker \<Rightarrow> rat" where
  "consumed_pct t =
     (if allocated_tokens t = 0 then 0
      else py_round 2 (of_int (consumed_tokens t) / of_int (allocated_tokens t) * 100))"

definition level_for :: "gov_config \<Rightarrow> rat \<Rightarrow> EnforcementLevel" where
  "level_for c pct =
     (if halt_threshold_pct c \<le> pct then EnforcementLevel.HALT
      else if restrict_threshold_pct c \<le> pct then EnforcementLevel.RESTRICT
      else if alert_threshold_pct c \<le> pct then EnforcementLevel.ALERT
      else EnforcementLevel.NONE)"

definition compute_enforcement_level :: "tracker \<Rightarrow> EnforcementLevel" where
  "compute_enforcement_level t = level_for (bt_config t) (consumed_pct t)"

definition prune_window :: "rat \<Rightarrow> (rat \<times> int) list \<Rightarrow> (rat \<times> int) list" where
  "prune_window now w = dropWhile (\<lambda>(ts, n). ts < now - 300) w"

definition burn_rate :: "rat \<Rightarrow> tracker \<Rightarrow> rat" where
  "burn_rate now t = (case window t of
      [] \<Rightarrow> 0
    | (oldest, _) # _ \<Rightarrow>
        (let minutes = (now - oldest) / 60
         in if minutes < 1 / 1000 then 0
            else py_round 2 (of_int (sum_list (map snd (window t))) / minutes)))"

record phase_status =
  ps_phase :: BudgetPhase
  ps_allocated :: int
  ps_allocated_pct :: rat
  ps_consumed :: int
  ps_consumed_pct :: rat

definition build_phase_breakdown :: "tracker \<Rightarrow> phase_status list" where
  "build_phase_breakdown t = map (\<lambda>p.
     \<lparr>ps_phase = p, ps_allocated = phase_allocated t p,
      ps_allocated_pct = (if 0 < allocated_tokens t
        then py_round 2 (of_int (phase_allocated t p) / of_int (allocated_tokens t) * 100) else 0),
      ps_consumed = phase_consumed t p,
      ps_consumed_pct = (if 0 < phase_allocated t p
        then py_round 2 (of_int (phase_consumed t p) / of_int (phase_allocated t p) * 100) else 0)\<rparr>)
     all_budget_phase"

section \<open>Operations\<close>

definition snapshot_record :: "rat \<Rightarrow> tracker \<Rightarrow> budget_record" where
  "snapshot_record now t =
     \<lparr>br_allocated = allocated_tokens t, br_consumed = consumed_tokens t,
      br_allocated_usd = py_round 4 (of_int (allocated_tokens t) / 1000000),
      br_consumed_usd = consumed_usd t, br_burn_rate = burn_rate now t,
      br_level = enforcement_level t,
      br_phases = map (\<lambda>p. (p, phase_allocated t p, phase_consumed t p)) all_budget_phase\<rparr>"

text \<open>The table, newest record first; \<open>db_up\<close> tells whether this write succeeds.\<close>

definition persist_snapshot :: "bool \<Rightarrow> rat \<Rightarrow> tracker \<Rightarrow> budget_record list \<Rightarrow> budget_record list" where
  "persist_snapshot db_up now t db =
     (if has_session t \<and> db_up then snapshot_record now t # db else db)"

definition consume :: "rat \<Rightarrow> int \<Rightarrow> rat \<Rightarrow> BudgetPhase \<Rightarrow> tracker \<Rightarrow> tracker" where
  "consume now tokens usd phase t =
     t\<lparr>consumed_tokens := consumed_tokens t + tokens, consumed_usd := consumed_usd t + usd,
       phase_consumed := (phase_consumed t)(phase := phase_consumed t phase + tokens),
       window := prune_window now (window t @ [(now, tokens)])\<rparr>"

definition record_consumption :: "bool \<Rightarrow> rat \<Rightarrow> int \<Rightarrow> rat \<Rightarrow> BudgetPhase \<Rightarrow>
    tracker \<times> budget_record list \<Rightarrow> EnforcementLevel \<times> (tracker \<times> budget_record list)" where
  "record_consumption db_up now tokens usd phase s = (case s of (t, db) \<Rightarrow>
     let t1 = consume now tokens usd phase t;
         new_level = compute_enforcement_level t1;
         t2 = t1\<lparr>enforcement_level := new_level\<rparr>;
         db' = (if new_level \<noteq> enforcement_level t then persist_snapshot db_up now t2 db else db)
     in (new_level, (t2, db')))"

record snapshot =
  sn_allocated :: int
  sn_consumed :: int
  sn_consumed_pct :: rat
  sn_consumed_usd :: rat
  sn_burn_rate :: rat
  sn_level :: EnforcementLevel
  sn_phases :: "phase_status list"

definition get_snapshot :: "rat \<Rightarrow> tracker \<Rightarrow> snapshot \<times> tracker" where
  "get_snapshot now t =
     (let t' = t\<lparr>window := prune_window now (window t)\<rparr>
      in (\<lparr>sn_allocated = allocated_tokens t', sn_consumed = consumed_tokens t',
           sn_consumed_pct = consumed_pct t', sn_consumed_usd = consumed_usd t',
           sn_burn_rate = burn_rate now t', sn_level = enforcement_level t',
           sn_phases = build_phase_breakdown t'\<rparr>, t'))"

definition threshold_crossed :: "tracker \<Rightarrow> EnforcementLevel option \<times> tracker" where
  "threshold_crossed t =
     (let new_level = compute_enforcement_level t
      in if new_level \<noteq> enforcement_level t
         then (Some new_level, t\<lparr>enforcement_level := new_level\<rparr>) else (None, t))"

record allocation_request =
  ar_complexity :: rat
  ar_priority :: int

definition mk_allocation_request :: "allocation_request \<Rightarrow> exn + allocation_request" where
  "mk_allocation_request r =
     (if 0 \<le> ar_complexity r \<and> ar_complexity r \<le> 1 \<and> 1 \<le> ar_priority r \<and> ar_priority r \<le> 5
      then Inr r else Inl (ValidationError ''BudgetAllocationRequest''))"

record allocation_result =
  al_total_tokens :: int
  al_total_usd :: rat
  al_phases :: "(BudgetPhase \<times> int \<times> rat) list"

definition allocate_project_budget :: "gov_config \<Rightarrow> allocation_request \<Rightarrow> allocation_result" where
  "allocate_project_budget c r =
     (let complexity_factor = 1 / 2 + ar_complexity r;
          priority_factor = 8 / 10 + of_int (ar_priority r - 1) / 10;
          tokens = py_int (of_int (total_tokens c) * complexity_factor * priority_factor)
      in \<lparr>al_total_tokens = tokens, al_total_usd = py_round 4 (of_int tokens / 1000000),
          al_phases = map (\<lambda>p. (p, compute_phase_allocations c tokens p, phase_pct c p)) all_budget_phase\<rparr>)"

text \<open>Startup: only the totals and the level come back from the newest record.\<close>

definition load_persisted_state :: "gov_config \<Rightarrow> bool \<Rightarrow> budget_record list \<Rightarrow> tracker" where
  "load_persisted_state c db_up db =
     (let t = new_tracker c True
      in case db of
           [] \<Rightarrow> t
         | r # _ \<Rightarrow> if db_up then t\<lparr>consumed_tokens := br_consumed r, consumed_usd := br_consumed_usd r,
                                 enforcement_level := br_level r\<rparr> else t)"

section \<open>Thresholds\<close>

fun level_rank :: "EnforcementLevel \<Rightarrow> nat" where
  "level_rank EnforcementLevel.NONE = 0"
| "level_rank EnforcementLevel.ALERT = 1"
| "level_rank EnforcementLevel.RESTRICT = 2"
| "level_rank EnforcementLevel.HALT = 3"

lemma config_okD:
  assumes "config_ok c"
  shows "0 \<le> total_tokens c" and "alert_threshold_pct c \<le> restrict_threshold_pct c"
    and "restrict_threshold_pct c \<le> halt_threshold_pct c" and "0 \<le> phase_pct c p"
    and "\<bar>phase_total c - 100\<bar> \<le> 1 / 100" and "0 \<le> alert_threshold_pct c" and "halt_threshold_pct c \<le> 100"
    and "1 \<le> spin_max_retries c"
  using assms budget_phase_complete [of p]
  by (auto simp: config_ok_def mk_gov_config_def pct_ok_def list_all_iff split: if_splits)

lemma level_for_mono:
  "config_ok c \<Longrightarrow> x \<le> y \<Longrightarrow> level_rank (level_for c x) \<le> level_rank (level_for c y)"
  using config_okD(2,3) [of c] by (auto simp: level_for_def)

lemma consumed_pct_mono:
  assumes "allocated_tokens t = allocated_tokens u" and "0 \<le> allocated_tokens u"
    and "consumed_tokens t \<le> consumed_tokens u"
  shows "consumed_pct t \<le> consumed_pct u"
  using assms by (auto simp: consumed_pct_def intro!: py_round_mono divide_right_mono)

section \<open>Runs of consumptions\<close>

record usage =
  u_db_up :: bool
  u_now :: rat
  u_tokens :: int
  u_usd :: rat
  u_phase :: BudgetPhase

definition record_usage :: "usage \<Rightarrow> tracker \<times> budget_record list \<Rightarrow> tracker \<times> budget_record list" where
  "record_usage u s = snd (record_consumption (u_db_up u) (u_now u) (u_tokens u) (u_usd u) (u_phase u) s)"

definition record_all :: "usage list \<Rightarrow> tracker \<times> budget_record list \<Rightarrow> tracker \<times> budget_record list" where
  "record_all us s = fold record_usage us s"

definition phases_sum :: "(BudgetPhase \<Rightarrow> int) \<Rightarrow> int" where
  "phases_sum f = sum_list (map f all_budget_phase)"

lemma phases_sum_upd: "phases_sum (f(p := f p + n)) = phases_sum f + n"
  by (cases p) (simp_all add: phases_sum_def all_budget_phase_def)

text \<open>The figures agree with each other, and the newest record with the level.\<close>

definition tracker_inv :: "gov_config \<Rightarrow> tracker \<times> budget_record list \<Rightarrow> bool" where
  "tracker_inv c s \<longleftrightarrow>
     bt_config (fst s) = c \<and> allocated_tokens (fst s) = total_tokens c \<and>
     phases_sum (phase_consumed (fst s)) = consumed_tokens (fst s) \<and>
     enforcement_level (fst s) = compute_enforcement_level (fst s)"

lemma record_usage_tracker:
  "fst (record_usage u (t, db)) =
     (let t1 = consume (u_now u) (u_tokens u) (u_usd u) (u_phase u) t
      in t1\<lparr>enforcement_level := compute_enforcement_level t1\<rparr>)"
  by (simp add: record_usage_def record_consumption_def Let_def)

lemma compute_level_upd [simp]:
  "compute_enforcement_level (t\<lparr>enforcement_level := l\<rparr>) = compute_enforcement_level t"
  by (simp add: compute_enforcement_level_def consumed_pct_def)

lemma record_usage_inv: "tracker_inv c s \<Longrightarrow> tracker_inv c (record_usage u s)"
  by (cases s) (simp add: tracker_inv_def record_usage_tracker Let_def consume_def phases_sum_upd)

lemma record_usage_consumed:
  "consumed_tokens (fst (record_usage u s)) = consumed_tokens (fst s) + u_tokens u"
  by (cases s) (simp add: record_usage_tracker Let_def consume_def)

lemma record_all_inv: "tracker_inv c s \<Longrightarrow> tracker_inv c (record_all us s)"
  unfolding record_all_def by (induction us arbitrary: s) (simp_all add: record_usage_inv)

lemma record_all_consumed:
  "consumed_tokens (fst (record_all us s)) = consumed_tokens (fst s) + sum_list (map u_tokens us)"
  unfolding record_all_def by (induction us arbitrary: s) (simp_all add: record_usage_consumed)

lemma new_tracker_inv:
  assumes "config_ok c" and "0 < alert_threshold_pct c"
  shows "tracker_inv c (new_tracker c session, db)"
proof -
  have "0 < restrict_threshold_pct c" "0 < halt_threshold_pct c"
    using config_okD(2,3) [OF assms(1)] assms(2) by linarith+
  with assms(2) show ?thesis
    by (simp add: tracker_inv_def new_tracker_def phases_sum_def all_budget_phase_def
        compute_enforcement_level_def level_for_def consumed_pct_def py_round_def round_half_even_def)
qed

lemma tracker_level:
  "tracker_inv c s \<Longrightarrow> enforcement_level (fst s) = level_for c (consumed_pct (fst s))"
  by (simp add: tracker_inv_def compute_enforcement_level_def)

lemma record_all_level_mono:
  assumes "config_ok c" and "tracker_inv c s" and "\<forall>u \<in> set us. 0 \<le> u_tokens u"
  shows "level_rank (enforcement_level (fst s)) \<le> level_rank (enforcement_level (fst (record_all us s)))"
proof -
  have "0 \<le> sum_list (map u_tokens us)" using assms(3) by (intro sum_list_nonneg) auto
  then have "consumed_pct (fst s) \<le> consumed_pct (fst (record_all us s))"
    using assms(2) record_all_inv [OF assms(2), of us] config_okD(1) [OF assms(1)]
    by (intro consumed_pct_mono) (auto simp: tracker_inv_def record_all_consumed)
  then show ?thesis
    using level_for_mono [OF assms(1)] tracker_level [OF assms(2)]
      tracker_level [OF record_all_inv [OF assms(2), of us]] by simp
qed

section \<open>What the rounding of the percentage means\<close>

lemma consumed_pct_near:
  assumes "0 < allocated_tokens t"
  shows "\<bar>consumed_pct t - of_int (consumed_tokens t) / of_int (allocated_tokens t) * 100\<bar> \<le> 1 / 200"
  using py_round_near [of 2 "of_int (consumed_tokens t) / of_int (allocated_tokens t) * 100"] assms
  by (simp add: consumed_pct_def)

lemma exhausted_halts:
  assumes "config_ok c" and "tracker_inv c s" and "0 < total_tokens c"
    and "total_tokens c \<le> consumed_tokens (fst s)"
  shows "enforcement_level (fst s) = EnforcementLevel.HALT"
proof -
  have a: "allocated_tokens (fst s) = total_tokens c" using assms(2) by (simp add: tracker_inv_def)
  have "(100 :: rat) \<le> of_int (consumed_tokens (fst s)) / of_int (total_tokens c) * 100"
    using assms(3,4) by (simp add: le_divide_eq)
  then have "of_int 100 \<le> consumed_pct (fst s)"
    using assms(3) a py_round_ge_int [of 100 _ 2] by (simp add: consumed_pct_def)
  then show ?thesis
    using tracker_level [OF assms(2)] config_okD(7) [OF assms(1)] by (simp add: level_for_def)
qed

section \<open>Phase shares\<close>

lemma floor_sum_bounds:
  "sum_list (map (\<lambda>x. \<lfloor>f x\<rfloor>) xs) \<le> \<lfloor>sum_list (map f xs)\<rfloor> \<and>
   sum_list (map f xs) - of_nat (length xs) \<le> of_int (sum_list (map (\<lambda>x. \<lfloor>f x\<rfloor>) xs))" for f :: "'a \<Rightarrow> rat"
proof (induction xs)
  case (Cons x xs)
  have "\<lfloor>f x\<rfloor> + \<lfloor>sum_list (map f xs)\<rfloor> \<le> \<lfloor>f x + sum_list (map f xs)\<rfloor>" by (rule le_floor_add)
  moreover have "f x - 1 \<le> of_int \<lfloor>f x\<rfloor>" by linarith
  ultimately show ?case using Cons.IH by (auto simp: algebra_simps)
qed simp

lemma phase_allocations_sum:
  assumes "config_ok c" and "0 \<le> n"
  shows "of_int (phases_sum (compute_phase_allocations c n)) \<le> of_int n * phase_total c / 100"
    and "of_int n * phase_total c / 100 - 7 \<le> of_int (phases_sum (compute_phase_allocations c n))"
    and "0 \<le> compute_phase_allocations c n p"
proof -
  have nonneg: "0 \<le> (of_int n :: rat) * phase_pct c p / 100" for p
    using assms config_okD(4) by simp
  then have alloc: "compute_phase_allocations c n p = \<lfloor>of_int n * phase_pct c p / 100\<rfloor>" for p
    by (simp add: compute_phase_allocations_def py_int_nonneg)
  have total: "sum_list (map (\<lambda>p. of_int n * phase_pct c p / 100) all_budget_phase) = of_int n * phase_total c / 100"
    by (simp add: phase_total_def all_budget_phase_def add_divide_distrib distrib_left)
  have len: "length all_budget_phase = 7" by (simp add: all_budget_phase_def)
  note b = floor_sum_bounds [of "\<lambda>p. of_int n * phase_pct c p / 100" all_budget_phase,
      unfolded total len, folded alloc, folded phases_sum_def]
  show "of_int (phases_sum (compute_phase_allocations c n)) \<le> of_int n * phase_total c / 100"
    using b by (simp add: le_floor_iff)
  show "of_int n * phase_total c / 100 - 7 \<le> of_int (phases_sum (compute_phase_allocations c n))"
    using b by simp
  show "0 \<le> compute_phase_allocations c n p" using nonneg by (simp add: alloc)
qed

end
