(* ===== verification/Efficiency_Scorer.thy ===== *)
theory Efficiency_Scorer
  imports Budget_Tracker
begin

text \<open>
  Efficiency scores of the agents (\<^verbatim>\<open>economic_governor/efficiency_scorer.py\<close>). The
  accumulators are an insertion-ordered dictionary keyed by agent; the leaderboard is the
  stable descending sort on the raw efficiency, normalised by the best one. Persisted rows
  are written newest last; \<open>load_persisted_scores\<close> takes the newest row of each agent.
\<close>

record agent_stats =
  st_completed :: int
  st_failed :: int
  st_quality_sum :: rat
  st_tokens :: int
  st_cost :: rat
  st_agent_type :: AgentType
  st_model_tier :: ModelTier

definition new_stats :: agent_stats where
  "new_stats = \<lparr>st_completed = 0, st_failed = 0, st_quality_sum = 0, st_tokens = 0, st_cost = 0,
     st_agent_type = AgentType.CODER, st_model_tier = ModelTier.TIER_2\<rparr>"

record score =
  sc_agent_id :: string
  sc_efficiency :: rat
  sc_completed :: int
  sc_failed :: int
  sc_quality :: rat
  sc_tokens :: int
  sc_cost :: rat
  sc_rank :: nat

record leaderboard =
  lb_entries :: "score list"
  lb_computed_at :: int

record scorer =
  es_has_session :: bool
  es_agents :: "(string \<times> agent_stats) list"
  es_cached :: "leaderboard option"

definition new_scorer :: "bool \<Rightarrow> scorer" where
  "new_scorer session = \<lparr>es_has_session = session, es_agents = [], es_cached = None\<rparr>"

section \<open>Data ingestion\<close>

definition retag :: "AgentType option \<Rightarrow> ModelTier option \<Rightarrow> agent_stats \<Rightarrow> agent_stats" where
  "retag ty tier st =
     st\<lparr>st_agent_type := (case ty of Some x \<Rightarrow> x | None \<Rightarrow> st_agent_type st),
        st_model_tier := (case tier of Some x \<Rightarrow> x | None \<Rightarrow> st_model_tier st)\<rparr>"

definition update_agent :: "string \<Rightarrow> (agent_stats \<Rightarrow> agent_stats) \<Rightarrow> scorer \<Rightarrow> scorer" where
  "update_agent agent f s =
     s\<lparr>es_agents := AList.update agent (f (get_or new_stats (es_agents s) agent)) (es_agents s),
       es_cached := None\<rparr>"

definition record_task_completed :: "string \<Rightarrow> rat \<Rightarrow> int \<Rightarrow> rat \<Rightarrow> AgentType option \<Rightarrow>
    ModelTier option \<Rightarrow> scorer \<Rightarrow> scorer" where
  "record_task_completed agent quality tokens cost ty tier =
     update_agent agent (\<lambda>st. retag ty tier
       (st\<lparr>st_completed := st_completed st + 1, st_quality_sum := st_quality_sum st + quality,
           st_tokens := st_tokens st + tokens, st_cost := st_cost st + cost\<rparr>))"

definition record_task_failed :: "string \<Rightarrow> int \<Rightarrow> rat \<Rightarrow> AgentType option \<Rightarrow>
    ModelTier option \<Rightarrow> scorer \<Rightarrow> scorer" where
  "record_task_failed agent tokens cost ty tier =
     update_agent agent (\<lambda>st. retag ty tier
       (st\<lparr>st_failed := st_failed st + 1,
           st_tokens := st_tokens st + tokens, st_cost := st_cost st + cost\<rparr>))"

section \<open>Scoring\<close>

definition avg_quality :: "agent_stats \<Rightarrow> rat" where
  "avg_quality st = (if 0 < st_completed st then st_quality_sum st / of_int (st_completed st) else 0)"

definition raw_efficiency :: "agent_stats \<Rightarrow> rat" where
  "raw_efficiency st = (of_int (st_completed st) * avg_quality st) / of_int (max (st_tokens st) 1)"

text \<open>The stable descending sort.\<close>

definition ranking :: "(string \<times> agent_stats) list \<Rightarrow> (string \<times> agent_stats) list" where
  "ranking d = sort_key (\<lambda>(a, st). - raw_efficiency st) d"

definition best_efficiency :: "(string \<times> agent_stats) list \<Rightarrow> rat" where
  "best_efficiency d =
     (let m = (case ranking d of [] \<Rightarrow> 1 | (a, st) # _ \<Rightarrow> raw_efficiency st)
      in if m \<le> 0 then 1 else m)"

definition entry_of :: "rat \<Rightarrow> nat \<Rightarrow> string \<times> agent_stats \<Rightarrow> score" where
  "entry_of best rank p = (case p of (agent, st) \<Rightarrow>
     \<lparr>sc_agent_id = agent, sc_efficiency = py_round 4 (raw_efficiency st / best),
      sc_completed = st_completed st, sc_failed = st_failed st,
      sc_quality = py_round 4 (avg_quality st), sc_tokens = st_tokens st,
      sc_cost = py_round 6 (st_cost st), sc_rank = rank\<rparr>)"

definition compute_scores :: "int \<Rightarrow> scorer \<Rightarrow> leaderboard \<times> scorer" where
  "compute_scores now s =
     (let ranked = ranking (es_agents s);
          best = best_efficiency (es_agents s);
          lb = \<lparr>lb_entries = map (\<lambda>(rank, p). entry_of best rank p) (enumerate 1 ranked),
                lb_computed_at = now\<rparr>
      in (lb, s\<lparr>es_cached := Some lb\<rparr>))"

text \<open>A leaderboard object is always true in Python, also when it has no entries.\<close>

definition get_agent_score :: "int \<Rightarrow> string \<Rightarrow> scorer \<Rightarrow> score \<times> scorer" where
  "get_agent_score now agent s =
     (case (case es_cached s of Some lb \<Rightarrow> (lb, s) | None \<Rightarrow> compute_scores now s) of (lb, s') \<Rightarrow>
       (case find (\<lambda>e. sc_agent_id e = agent) (lb_entries lb) of
          Some e \<Rightarrow> (e, s')
        | None \<Rightarrow> (\<lparr>sc_agent_id = agent, sc_efficiency = 0, sc_completed = 0, sc_failed = 0,
                   sc_quality = 0, sc_tokens = 0, sc_cost = 0,
                   sc_rank = length (lb_entries lb) + 1\<rparr>, s')))"

section \<open>Persistence\<close>

record efficiency_row =
  er_agent_id :: string
  er_agent_type :: AgentType
  er_model_tier :: ModelTier
  er_completed :: int
  er_failed :: int
  er_tokens :: int
  er_cost :: rat
  er_quality :: rat
  er_efficiency :: rat
  er_window_start :: int
  er_window_end :: int

definition efficiency_row_of :: "int \<Rightarrow> scorer \<Rightarrow> score \<Rightarrow> efficiency_row" where
  "efficiency_row_of now s e =
     (let st = map_of (es_agents s) (sc_agent_id e)
      in \<lparr>er_agent_id = sc_agent_id e,
          er_agent_type = (case st of Some x \<Rightarrow> st_agent_type x | None \<Rightarrow> AgentType.CODER),
          er_model_tier = (case st of Some x \<Rightarrow> st_model_tier x | None \<Rightarrow> ModelTier.TIER_2),
          er_completed = sc_completed e, er_failed = sc_failed e, er_tokens = sc_tokens e,
          er_cost = sc_cost e, er_quality = sc_quality e, er_efficiency = sc_efficiency e,
          er_window_start = now - 3600 * 1000000, er_window_end = now\<rparr>)"

definition persist_scores :: "bool \<Rightarrow> leaderboard \<Rightarrow> scorer \<Rightarrow> efficiency_row list \<Rightarrow> efficiency_row list" where
  "persist_scores db_up lb s db =
     (if es_has_session s \<and> db_up
      then db @ map (efficiency_row_of (lb_computed_at lb) s) (lb_entries lb) else db)"

definition stats_of_row :: "efficiency_row \<Rightarrow> agent_stats" where
  "stats_of_row r =
     \<lparr>st_completed = er_completed r, st_failed = er_failed r,
      st_quality_sum = er_quality r * of_int (max (er_completed r) 1),
      st_tokens = er_tokens r, st_cost = er_cost r,
      st_agent_type = er_agent_type r, st_model_tier = er_model_tier r\<rparr>"

text \<open>
  The join against the newest row of each agent, at most 10000 rows: the rows are in order of
  insertion, and a row is selected when no later one has its agent.
\<close>

fun newest_rows :: "efficiency_row list \<Rightarrow> efficiency_row list" where
  "newest_rows [] = []"
| "newest_rows (r # rs) =
     (if er_agent_id r \<in> er_agent_id ` set rs then newest_rows rs else r # newest_rows rs)"

definition load_row :: "efficiency_row \<Rightarrow> scorer \<Rightarrow> scorer" where
  "load_row r s = s\<lparr>es_agents := AList.update (er_agent_id r) (stats_of_row r) (es_agents s)\<rparr>"

definition load_persisted_scores :: "bool \<Rightarrow> efficiency_row list \<Rightarrow> scorer" where
  "load_persisted_scores db_up db =
     (let s = new_scorer True
      in if db_up
         then fold load_row (take 10000 (newest_rows db)) s
         else s)"

section \<open>The ranking\<close>

definition stats_ok :: "agent_stats \<Rightarrow> bool" where
  "stats_ok st \<longleftrightarrow> 0 \<le> st_completed st \<and> 0 \<le> st_quality_sum st"

lemma set_ranking [simp]: "set (ranking d) = set d"
  by (simp add: ranking_def)

lemma length_ranking [simp]: "length (ranking d) = length d"
  by (simp add: ranking_def)

lemma ranking_sorted: "sorted (map (\<lambda>p. - raw_efficiency (snd p)) (ranking d))"
  using sorted_sort_key [of "\<lambda>(a, st). - raw_efficiency st" d] by (simp add: ranking_def case_prod_beta')

lemma ranking_nth_mono:
  "i \<le> j \<Longrightarrow> j < length d \<Longrightarrow> raw_efficiency (snd (ranking d ! j)) \<le> raw_efficiency (snd (ranking d ! i))"
  using sorted_nth_mono [OF ranking_sorted, of i j d] by simp

lemma raw_efficiency_nonneg: "stats_ok st \<Longrightarrow> 0 \<le> raw_efficiency st"
  by (simp add: stats_ok_def raw_efficiency_def avg_quality_def)

lemma best_efficiency_pos: "0 < best_efficiency d"
  by (simp add: best_efficiency_def Let_def split: list.splits prod.splits)

lemma best_efficiency_head: "d \<noteq> [] \<Longrightarrow> best_efficiency d = (let m = raw_efficiency (snd (ranking d ! 0)) in if m \<le> 0 then 1 else m)"
proof -
  assume "d \<noteq> []"
  then have "ranking d \<noteq> []" by (metis length_0_conv length_ranking)
  then obtain p ps where "ranking d = p # ps" by (cases "ranking d") auto
  then show ?thesis by (cases p) (simp add: best_efficiency_def)
qed

lemma raw_le_best:
  assumes "i < length d"
  shows "raw_efficiency (snd (ranking d ! i)) \<le> best_efficiency d"
proof -
  have "d \<noteq> []" using assms by auto
  then show ?thesis
    using ranking_nth_mono [of 0 i d] assms by (auto simp: best_efficiency_head Let_def)
qed

lemma entries_nth:
  "i < length (es_agents s) \<Longrightarrow>
     lb_entries (fst (compute_scores now s)) ! i =
       entry_of (best_efficiency (es_agents s)) (i + 1) (ranking (es_agents s) ! i)"
  by (simp add: compute_scores_def Let_def nth_enumerate_eq)

lemma entries_length [simp]: "length (lb_entries (fst (compute_scores now s))) = length (es_agents s)"
  by (simp add: compute_scores_def Let_def)

lemma entry_of_simps [simp]:
  "sc_agent_id (entry_of b k p) = fst p" "sc_rank (entry_of b k p) = k"
  "sc_efficiency (entry_of b k p) = py_round 4 (raw_efficiency (snd p) / b)"
  "sc_completed (entry_of b k p) = st_completed (snd p)" "sc_failed (entry_of b k p) = st_failed (snd p)"
  "sc_quality (entry_of b k p) = py_round 4 (avg_quality (snd p))"
  "sc_tokens (entry_of b k p) = st_tokens (snd p)" "sc_cost (entry_of b k p) = py_round 6 (st_cost (snd p))"
  by (cases p; simp add: entry_of_def)+

lemma entries_ids: "map sc_agent_id (lb_entries (fst (compute_scores now s))) = map fst (ranking (es_agents s))"
  by (rule nth_equalityI) (simp_all add: entries_nth)

section \<open>Restart\<close>

lemma newest_rows_ids: "er_agent_id ` set (newest_rows db) = er_agent_id ` set db"
  by (induction db) auto

lemma newest_rows_distinct: "distinct (map er_agent_id (newest_rows db))"
proof (induction db)
  case (Cons r db)
  then show ?case using newest_rows_ids [of db] by auto
qed simp

lemma newest_rows_id: "distinct (map er_agent_id new) \<Longrightarrow> newest_rows new = new"
  by (induction new) auto

lemma newest_rows_mem:
  "distinct (map er_agent_id new) \<Longrightarrow> r \<in> set new \<Longrightarrow> r \<in> set (newest_rows (db @ new))"
  by (induction db) (auto simp: newest_rows_id)

lemma load_rows_other:
  "a \<notin> er_agent_id ` set rs \<Longrightarrow> map_of (es_agents (fold load_row rs s)) a = map_of (es_agents s) a"
  by (induction rs arbitrary: s) (auto simp: load_row_def)

lemma load_rows_row:
  "distinct (map er_agent_id rs) \<Longrightarrow> r \<in> set rs \<Longrightarrow>
     map_of (es_agents (fold load_row rs s)) (er_agent_id r) = Some (stats_of_row r)"
proof (induction rs arbitrary: s)
  case (Cons x rs)
  show ?case
  proof (cases "r = x")
    case True
    with Cons.prems show ?thesis by (simp add: load_rows_other) (simp add: load_row_def)
  next
    case False
    with Cons show ?thesis by simp
  qed
qed simp

lemma load_persisted_scores_row:
  assumes "r \<in> set (newest_rows db)" and "length (newest_rows db) \<le> 10000"
  shows "map_of (es_agents (load_persisted_scores True db)) (er_agent_id r) = Some (stats_of_row r)"
  using load_rows_row [OF newest_rows_distinct assms(1)] assms(2)
  by (simp add: load_persisted_scores_def Let_def)

end
