(* ===== verification/Enforcer.thy ===== *)
theory Enforcer
  imports Budget_Tracker Schema
begin

text \<open>
  Spin detection (\<^verbatim>\<open>economic_governor/spin_detector.py\<close>): per agent and task, the
  retries and tokens since the last code change, in an insertion-ordered dictionary bounded
  by evicting the least recently updated pairs. \<open>streak\<close> is the specification: the count
  read off the whole event history.
\<close>

type_synonym spin_key = "string \<times> string"

record spin_state =
  sp_max_retries :: int
  sp_state :: "(spin_key \<times> (int \<times> int)) list"

definition max_tracked :: nat where
  "max_tracked = 10000"

definition new_spin_detector :: "gov_config \<Rightarrow> spin_state" where
  "new_spin_detector c = \<lparr>sp_max_retries = spin_max_retries c, sp_state = []\<rparr>"

record spin_detection =
  sd_agent_id :: string
  sd_task_id :: string
  is_spinning :: bool
  retry_count :: int
  tokens_since_last_diff :: int

text \<open>Assign the key and move it to the end.\<close>

definition put_last :: "'k \<Rightarrow> 'v \<Rightarrow> ('k \<times> 'v) list \<Rightarrow> ('k \<times> 'v) list" where
  "put_last k v d = AList.delete k d @ [(k, v)]"

text \<open>\<^verbatim>\<open>while len > n: popitem(last=False)\<close>.\<close>

definition evict :: "nat \<Rightarrow> 'a list \<Rightarrow> 'a list" where
  "evict n d = drop (length d - n) d"

definition record_retry :: "string \<Rightarrow> string \<Rightarrow> bool \<Rightarrow> int \<Rightarrow> spin_state \<Rightarrow> spin_detection \<times> spin_state" where
  "record_retry agent tid has_diff tokens s =
     (let key = (agent, tid)
      in if has_diff
         then (\<lparr>sd_agent_id = agent, sd_task_id = tid, is_spinning = False, retry_count = 0,
                tokens_since_last_diff = 0\<rparr>,
               s\<lparr>sp_state := AList.delete key (sp_state s)\<rparr>)
         else
           let prev = get_or (0, 0) (sp_state s) key;
               new_count = fst prev + 1; new_tokens = snd prev + tokens
           in (\<lparr>sd_agent_id = agent, sd_task_id = tid,
                is_spinning = (sp_max_retries s \<le> new_count), retry_count = new_count,
                tokens_since_last_diff = new_tokens\<rparr>,
               s\<lparr>sp_state := evict max_tracked (put_last key (new_count, new_tokens) (sp_state s))\<rparr>))"

definition reset_agent :: "string \<Rightarrow> spin_state \<Rightarrow> spin_state" where
  "reset_agent agent s = s\<lparr>sp_state := filter (\<lambda>(k, v). fst k \<noteq> agent) (sp_state s)\<rparr>"

section \<open>The specification\<close>

datatype spin_event =
    Retry string string bool int
  | Reset string

fun spin_exec :: "spin_event \<Rightarrow> spin_state \<Rightarrow> spin_state" where
  "spin_exec (Retry a t d n) s = snd (record_retry a t d n s)"
| "spin_exec (Reset a) s = reset_agent a s"

definition spin_run :: "spin_event list \<Rightarrow> spin_state \<Rightarrow> spin_state" where
  "spin_run evs s = fold spin_exec evs s"

fun streak_step :: "spin_key \<Rightarrow> spin_event \<Rightarrow> int \<times> int \<Rightarrow> int \<times> int" where
  "streak_step key (Retry a t d n) p =
     (if (a, t) \<noteq> key then p else if d then (0, 0) else (fst p + 1, snd p + n))"
| "streak_step key (Reset a) p = (if fst key = a then (0, 0) else p)"

definition streak :: "spin_event list \<Rightarrow> spin_key \<Rightarrow> int \<times> int" where
  "streak evs key = fold (streak_step key) evs (0, 0)"

fun event_keys :: "spin_event \<Rightarrow> spin_key set" where
  "event_keys (Retry a t d n) = {(a, t)}"
| "event_keys (Reset a) = {}"

section \<open>Ordered dictionaries with eviction\<close>

lemma keys_put_last: "keys (put_last k v d) = keys (AList.delete k d) @ [k]"
  by (simp add: put_last_def)

lemma distinct_put_last: "distinct (keys d) \<Longrightarrow> distinct (keys (put_last k v d))"
  using distinct_delete [of d k] by (auto simp: keys_put_last delete_keys)

lemma get_put_last:
  "get_or u (put_last k v d) k' = (if k' = k then v else get_or u d k')"
  by (auto simp: get_or_def put_last_def map_add_def split: option.splits)

lemma set_keys_put_last: "set (keys (put_last k v d)) = insert k (set (keys d))"
  by (auto simp: keys_put_last delete_keys)

lemma fst_put_last: "fst ` set (put_last k v d) = insert k (fst ` set d)"
  using set_keys_put_last [of k v d] by simp

lemma evict_id: "length d \<le> n \<Longrightarrow> evict n d = d"
  by (simp add: evict_def)

lemma length_evict: "length (evict n d) \<le> n"
  by (simp add: evict_def)

lemma evict_keys: "set (keys (evict n d)) \<subseteq> set (keys d)" "distinct (keys d) \<Longrightarrow> distinct (keys (evict n d))"
  by (auto simp: evict_def drop_map [symmetric] distinct_drop dest: in_set_dropD)

lemma get_or_delete [simp]: "get_or u (AList.delete k d) k' = (if k' = k then u else get_or u d k')"
  by (simp add: get_or_def)

lemma get_or_filter_agent:
  "distinct (keys d) \<Longrightarrow> get_or u (filter (\<lambda>(k, v). fst k \<noteq> a) d) key = (if fst key = a then u else get_or u d key)"
  by (induction d) (auto simp: get_or_def split: option.splits)

text \<open>The state after a run with few enough pairs is the specification.\<close>

definition spin_rel :: "spin_event list \<Rightarrow> spin_state \<Rightarrow> bool" where
  "spin_rel evs s \<longleftrightarrow> distinct (keys (sp_state s)) \<and>
     set (keys (sp_state s)) \<subseteq> \<Union> (event_keys ` set evs) \<and>
     (\<forall>key. get_or (0, 0) (sp_state s) key = streak evs key)"

lemma spin_rel_init: "spin_rel [] (new_spin_detector c)"
  by (simp add: spin_rel_def new_spin_detector_def streak_def get_or_def)

lemma streak_snoc: "streak (evs @ [e]) key = streak_step key e (streak evs key)"
  by (simp add: streak_def)

lemma spin_rel_step:
  assumes rel: "spin_rel evs s" and few: "card (\<Union> (event_keys ` set (evs @ [e]))) \<le> max_tracked"
  shows "spin_rel (evs @ [e]) (spin_exec e s)"
proof (cases e)
  case (Reset a)
  with rel show ?thesis
    by (auto simp: spin_rel_def reset_agent_def streak_snoc get_or_filter_agent distinct_map
        inj_on_def intro: filter_is_subset [THEN subsetD])
next
  case (Retry a t d n)
  show ?thesis
  proof (cases d)
    case True
    with Retry rel show ?thesis
      by (auto simp: spin_rel_def record_retry_def streak_snoc delete_keys distinct_removeAll)
  next
    case False
    define st where "st = put_last (a, t) (fst (streak evs (a, t)) + 1, snd (streak evs (a, t)) + n) (sp_state s)"
    have keys: "set (keys st) \<subseteq> \<Union> (event_keys ` set (evs @ [e]))" and dist: "distinct (keys st)"
      using rel Retry by (simp_all add: st_def fst_put_last spin_rel_def distinct_put_last subset_insertI2)
    have "length st = card (set (keys st))" using dist by (metis distinct_card length_map)
    also have "\<dots> \<le> card (\<Union> (event_keys ` set (evs @ [e])))"
    proof (rule card_mono [OF _ keys])
      have "finite (event_keys x)" for x by (cases x) auto
      then show "finite (\<Union> (event_keys ` set (evs @ [e])))" by blast
    qed
    finally have ev: "evict max_tracked st = st" using few by (intro evict_id) linarith
    have "sp_state (spin_exec e s) = st"
      using Retry False rel by (simp add: record_retry_def Let_def spin_rel_def st_def [symmetric] ev)
    moreover have "get_or (0, 0) st key = streak (evs @ [e]) key" for key
      using Retry False rel by (cases key) (simp add: st_def get_put_last streak_snoc spin_rel_def)
    ultimately show ?thesis using keys dist by (simp add: spin_rel_def)
  qed
qed

lemma spin_run_rel:
  "card (\<Union> (event_keys ` set evs)) \<le> max_tracked \<Longrightarrow> spin_rel evs (spin_run evs (new_spin_detector c))"
proof (induction evs rule: rev_induct)
  case Nil
  then show ?case by (simp add: spin_run_def spin_rel_init)
next
  case (snoc e evs)
  have "finite (event_keys x)" for x by (cases x) auto
  then have "card (\<Union> (event_keys ` set evs)) \<le> card (\<Union> (event_keys ` set (evs @ [e])))"
    by (intro card_mono) auto
  with snoc show ?case
    using spin_rel_step [of evs "spin_run evs (new_spin_detector c)" e] by (simp add: spin_run_def)
qed

lemma spin_size: "length (sp_state s) \<le> max_tracked \<Longrightarrow> length (sp_state (spin_exec e s)) \<le> max_tracked"
  by (cases e) (auto simp: record_retry_def Let_def reset_agent_def length_evict
      intro: order_trans [OF length_delete_le] order_trans [OF length_filter_le])

lemma spin_run_size: "length (sp_state (spin_run evs (new_spin_detector c))) \<le> max_tracked"
proof (induction evs rule: rev_induct)
  case (snoc e evs)
  then show ?case by (simp add: spin_run_def spin_size)
qed (simp add: spin_run_def new_spin_detector_def)

lemma spin_run_max: "sp_max_retries (spin_run evs s) = sp_max_retries s"
proof (induction evs rule: rev_induct)
  case (snoc e evs)
  then show ?case by (cases e) (simp_all add: spin_run_def record_retry_def Let_def reset_agent_def)
qed (simp add: spin_run_def)

text \<open>
  Enforcement actions (\<^verbatim>\<open>economic_governor/enforcer.py\<close>). Publishing is a parameter
  that may raise; then neither the history nor the action table gets the record. A failed
  write of the table is swallowed. Ids are drawn from the supply \<open>fresh\<close>, the \<open>n\<close>-th id
  being the one of the \<open>n\<close>-th record.
\<close>

record enforcement_record =
  en_id :: string
  en_level :: EnforcementLevel
  en_action_type :: string
  en_target_id :: "string option"
  en_details :: "(string \<times> json) list"
  en_consumed_pct :: rat

record enforcement_action =
  ea_level :: EnforcementLevel
  ea_action_type :: string
  ea_target_id :: "string option"
  ea_details :: "(string \<times> json) list"
  ea_consumed_pct :: rat

record 'p enforcer_env =
  env_publish :: "event \<Rightarrow> (exn, 'p, string) op"
  env_fresh :: "nat \<Rightarrow> string"

record 'p enforcer =
  ef_config :: gov_config
  ef_has_session :: bool
  ef_history :: "enforcement_record list"
  ef_drawn :: nat
  ef_actions :: "enforcement_action list"
  ef_bus :: 'p

definition history_max :: nat where
  "history_max = 1000"

definition new_enforcer :: "gov_config \<Rightarrow> bool \<Rightarrow> 'p \<Rightarrow> 'p enforcer" where
  "new_enforcer c session bus =
     \<lparr>ef_config = c, ef_has_session = session, ef_history = [], ef_drawn = 0, ef_actions = [],
      ef_bus = bus\<rparr>"

definition persist_action :: "bool \<Rightarrow> enforcement_record \<Rightarrow> 'p enforcer \<Rightarrow> 'p enforcer" where
  "persist_action db_up r s =
     (if ef_has_session s \<and> db_up
      then s\<lparr>ef_actions := ef_actions s @
        [\<lparr>ea_level = en_level r, ea_action_type = en_action_type r, ea_target_id = en_target_id r,
          ea_details = en_details r, ea_consumed_pct = en_consumed_pct r\<rparr>]\<rparr>
      else s)"

definition keep_record :: "bool \<Rightarrow> enforcement_record \<Rightarrow> 'p enforcer \<Rightarrow> 'p enforcer" where
  "keep_record db_up r s =
     persist_action db_up r
       (s\<lparr>ef_history := evict history_max (ef_history s @ [r]), ef_drawn := ef_drawn s + 1\<rparr>)"

definition enforce :: "'p enforcer_env \<Rightarrow> bool \<Rightarrow> EnforcementLevel \<Rightarrow> string \<Rightarrow> EventType \<Rightarrow>
    (string \<times> json) list \<Rightarrow> (string \<times> json) list \<Rightarrow> rat \<Rightarrow> string option \<Rightarrow>
    (exn, 'p enforcer, unit) op" where
  "enforce env db_up level action ety payload details pct target =
     chain (zoom ef_bus (\<lambda>b s. s\<lparr>ef_bus := b\<rparr>)
       (env_publish env \<lparr>ev_type = ety, ev_payload = payload\<rparr>)) (\<lambda>_.
     writes (\<lambda>s. keep_record db_up
       \<lparr>en_id = env_fresh env (ef_drawn s), en_level = level, en_action_type = action,
        en_target_id = target, en_details = details, en_consumed_pct = pct\<rparr> s))"

section \<open>The actions\<close>

abbreviation level_json :: "EnforcementLevel \<Rightarrow> json" where
  "level_json l \<equiv> JStr (enforcement_level_value l)"

definition alert_payload :: "snapshot \<Rightarrow> (string \<times> json) list" where
  "alert_payload sn =
     [(''level'', level_json EnforcementLevel.ALERT), (''consumed_pct'', JFloat (sn_consumed_pct sn)),
      (''consumed_tokens'', JInt (sn_consumed sn)),
      (''remaining_tokens'', JInt (sn_allocated sn - sn_consumed sn)),
      (''burn_rate_tokens_per_min'', JFloat (sn_burn_rate sn))]"

definition enforce_alert :: "'p enforcer_env \<Rightarrow> bool \<Rightarrow> snapshot \<Rightarrow> (exn, 'p enforcer, unit) op" where
  "enforce_alert env db_up sn =
     enforce env db_up EnforcementLevel.ALERT ''budget_alert'' EventType.BUDGET_THRESHOLD_ALERT
       (alert_payload sn) [(''consumed_pct'', JFloat (sn_consumed_pct sn))] (sn_consumed_pct sn) None"

text \<open>The long dash of the message is three bytes of UTF-8.\<close>

definition downgrade_payload :: "ModelTier \<Rightarrow> snapshot \<Rightarrow> (string \<times> json) list" where
  "downgrade_payload tier sn =
     [(''previous_max_tier'', JStr (model_tier_value ModelTier.TIER_1)),
      (''enforced_max_tier'', JStr (model_tier_value tier)),
      (''reason'', JStr (''Budget at '' @ cents_str (sn_consumed_pct sn) @ ''% '' @
         [CHR 0xE2, CHR 0x80, CHR 0x94] @ '' restricting to cheaper tiers''))]"

definition pause_payload :: "snapshot \<Rightarrow> (string \<times> json) list" where
  "pause_payload sn =
     [(''task_id'', JStr ''*''),
      (''reason'', JStr (''Budget restriction at '' @ cents_str (sn_consumed_pct sn) @ ''%''))]"

definition restrict_details :: "gov_config \<Rightarrow> snapshot \<Rightarrow> (string \<times> json) list" where
  "restrict_details c sn =
     [(''consumed_pct'', JFloat (sn_consumed_pct sn)), (''enforced_max_tier'', JStr (restrict_max_tier c))]"

definition enforce_restrict :: "'p enforcer_env \<Rightarrow> bool \<Rightarrow> snapshot \<Rightarrow> (exn, 'p enforcer, unit) op" where
  "enforce_restrict env db_up sn =
     chain (reads ef_config) (\<lambda>c.
     case model_tier_of (restrict_max_tier c) of
       None \<Rightarrow> raise (ValueError ''ModelTier'')
     | Some tier \<Rightarrow>
         chain (enforce env db_up EnforcementLevel.RESTRICT ''budget_tier_downgrade''
           EventType.BUDGET_TIER_DOWNGRADE (downgrade_payload tier sn) (restrict_details c sn)
           (sn_consumed_pct sn) None) (\<lambda>_.
         enforce env db_up EnforcementLevel.RESTRICT ''budget_restrict'' EventType.BUDGET_TASK_PAUSED
           (pause_payload sn) (restrict_details c sn) (sn_consumed_pct sn) None))"

definition halt_payload :: "snapshot \<Rightarrow> (string \<times> json) list" where
  "halt_payload sn =
     [(''consumed_pct'', JFloat (sn_consumed_pct sn)), (''tasks_cancelled'', JInt 0),
      (''progress_report'', JObj [(''consumed_tokens'', JInt (sn_consumed sn)),
         (''allocated_tokens'', JInt (sn_allocated sn)), (''enforcement_level'', level_json (sn_level sn))])]"

definition enforce_halt :: "'p enforcer_env \<Rightarrow> bool \<Rightarrow> snapshot \<Rightarrow> (exn, 'p enforcer, unit) op" where
  "enforce_halt env db_up sn =
     enforce env db_up EnforcementLevel.HALT ''budget_halt'' EventType.BUDGET_HALT (halt_payload sn)
       [(''consumed_pct'', JFloat (sn_consumed_pct sn))] (sn_consumed_pct sn) None"

definition kill_spinning_agent :: "'p enforcer_env \<Rightarrow> bool \<Rightarrow> spin_detection \<Rightarrow> (exn, 'p enforcer, unit) op" where
  "kill_spinning_agent env db_up d =
     enforce env db_up EnforcementLevel.RESTRICT ''spin_kill'' EventType.BUDGET_SPIN_DETECTED
       [(''agent_id'', JStr (sd_agent_id d)), (''task_id'', JStr (sd_task_id d)),
        (''retry_count'', JInt (retry_count d)), (''tokens_wasted'', JInt (tokens_since_last_diff d))]
       [(''task_id'', JStr (sd_task_id d)), (''retry_count'', JInt (retry_count d)),
        (''tokens_wasted'', JInt (tokens_since_last_diff d))] 0 (Some (sd_agent_id d))"

section \<open>History\<close>

text \<open>The history is the newest part of the action log, and at most \<open>history_max\<close> long.\<close>

definition record_action :: "enforcement_record \<Rightarrow> enforcement_action" where
  "record_action r = \<lparr>ea_level = en_level r, ea_action_type = en_action_type r, ea_target_id = en_target_id r,
     ea_details = en_details r, ea_consumed_pct = en_consumed_pct r\<rparr>"

lemma evict_append: "evict n (evict n xs @ ys) = evict n (xs @ ys)"
  by (cases "n \<le> length xs") (simp_all add: evict_def add.commute)

lemma keep_record_history: "ef_history (keep_record db_up r s) = evict history_max (ef_history s @ [r])"
  by (simp add: keep_record_def persist_action_def)

lemma keep_record_drawn [simp]: "ef_drawn (keep_record db_up r s) = ef_drawn s + 1"
  by (simp add: keep_record_def persist_action_def)

lemma keep_record_bus [simp]:
  "ef_bus (keep_record db_up r s) = ef_bus s" "ef_config (keep_record db_up r s) = ef_config s"
  by (simp_all add: keep_record_def persist_action_def)

lemma enforce_run [op_simps]:
  "enforce env db_up level action ety payload details pct target s =
     (case env_publish env \<lparr>ev_type = ety, ev_payload = payload\<rparr> (ef_bus s) of
        (Inl e, b) \<Rightarrow> (Inl e, s\<lparr>ef_bus := b\<rparr>)
      | (Inr _, b) \<Rightarrow> (Inr (), keep_record db_up
          \<lparr>en_id = env_fresh env (ef_drawn s), en_level = level, en_action_type = action,
           en_target_id = target, en_details = details, en_consumed_pct = pct\<rparr> (s\<lparr>ef_bus := b\<rparr>)))"
  by (auto simp: enforce_def op_simps split: prod.splits sum.splits)

end
