(* ===== verification/Governor_Monitor.thy ===== *)
theory Governor_Monitor
  imports Efficiency_Scorer Enforcer
begin

text \<open>
  The event handlers and the periodic check of the Economic Governor
  (\<^verbatim>\<open>economic_governor/monitor.py\<close>), composed of the tracker, the spin detector, the
  scorer and the enforcer. A \<open>moment\<close> is what a handler reads from outside: the monotonic
  clock and whether the database is up.
\<close>

record moment =
  mo_now :: rat
  mo_db_up :: bool

record 'p monitor =
  mon_budget :: "tracker \<times> budget_record list"
  mon_spin :: spin_state
  mon_scorer :: scorer
  mon_scores_db :: "efficiency_row list"
  mon_enforcer :: "'p enforcer"

definition new_monitor :: "gov_config \<Rightarrow> bool \<Rightarrow> 'p \<Rightarrow> 'p monitor" where
  "new_monitor c session bus =
     \<lparr>mon_budget = (new_tracker c session, []), mon_spin = new_spin_detector c,
      mon_scorer = new_scorer session, mon_scores_db = [], mon_enforcer = new_enforcer c session bus\<rparr>"

section \<open>Event payloads\<close>

definition agent_completed_payload :: fields where
  "agent_completed_payload =
     FCons ''agent_id'' SRaw None
    (FCons ''tokens_consumed'' (SInt (Some 0) None) None
    (FCons ''cost_usd'' (SFloat (Some 0) None) None FNil))"

definition routing_decision_payload :: fields where
  "routing_decision_payload =
     FCons ''cost_usd'' (SFloat (Some 0) None) (Some (JFloat 0))
    (FCons ''input_tokens'' (SInt (Some 0) None) (Some (JInt 0))
    (FCons ''output_tokens'' (SInt (Some 0) None) (Some (JInt 0))
    (FCons ''agent_id'' SRaw (Some (JStr ''router'')) FNil)))"

definition task_failed_payload :: fields where
  "task_failed_payload =
     FCons ''agent_id'' SRaw None
    (FCons ''task_id'' SRaw None
    (FCons ''tokens_consumed'' (SInt (Some 0) None) (Some (JInt 0))
    (FCons ''has_diff'' SBool (Some (JBool False))
    (FCons ''cost_usd'' (SFloat (Some 0) None) (Some (JFloat 0)) FNil))))"

text \<open>\<^verbatim>\<open>architect_events.schemas.TaskCompletedPayload\<close>.\<close>

definition task_completed_payload :: fields where
  "task_completed_payload =
     FCons ''task_id'' SStr (Some (JStr []))
    (FCons ''agent_id'' SStr (Some (JStr []))
    (FCons ''verdict'' SStr (Some (JStr []))
    (FCons ''quality_score'' (SFloat None None) (Some (JFloat 1))
    (FCons ''tokens_consumed'' (SInt (Some 0) None) (Some (JInt 0))
    (FCons ''cost_usd'' (SFloat (Some 0) None) (Some (JFloat 0)) FNil)))))"

section \<open>Handlers\<close>

definition on_enforcer :: "(exn, 'p enforcer, 'a) op \<Rightarrow> (exn, 'p monitor, 'a) op" where
  "on_enforcer = zoom mon_enforcer (\<lambda>e m. m\<lparr>mon_enforcer := e\<rparr>)"

definition take_snapshot :: "rat \<Rightarrow> (exn, 'p monitor, snapshot) op" where
  "take_snapshot now = (\<lambda>m. case mon_budget m of (t, db) \<Rightarrow>
     (case get_snapshot now t of (sn, t') \<Rightarrow> (Inr sn, m\<lparr>mon_budget := (t', db)\<rparr>)))"

definition enforce_if_needed :: "'p enforcer_env \<Rightarrow> moment \<Rightarrow> EnforcementLevel \<Rightarrow> (exn, 'p monitor, unit) op" where
  "enforce_if_needed env mo level =
     (if level = EnforcementLevel.NONE then ret ()
      else chain (take_snapshot (mo_now mo)) (\<lambda>sn.
        on_enforcer
          (if level = EnforcementLevel.ALERT then enforce_alert env (mo_db_up mo) sn
           else if level = EnforcementLevel.RESTRICT then enforce_restrict env (mo_db_up mo) sn
           else enforce_halt env (mo_db_up mo) sn)))"

definition consume_tokens :: "moment \<Rightarrow> int \<Rightarrow> rat \<Rightarrow> (exn, 'p monitor, EnforcementLevel) op" where
  "consume_tokens mo tokens cost = (\<lambda>m.
     case record_consumption (mo_db_up mo) (mo_now mo) tokens cost BudgetPhase.IMPLEMENTATION (mon_budget m) of
       (level, b) \<Rightarrow> (Inr level, m\<lparr>mon_budget := b\<rparr>))"

definition handle_agent_completed :: "'p enforcer_env \<Rightarrow> moment \<Rightarrow> (string \<times> json) list \<Rightarrow> (exn, 'p monitor, unit) op" where
  "handle_agent_completed env mo payload =
     (case check_fields agent_completed_payload payload of
        Inl e \<Rightarrow> ret ()
      | Inr d \<Rightarrow>
          chain (consume_tokens mo (int_field d ''tokens_consumed'') (float_field d ''cost_usd'')) (\<lambda>level.
          if level \<noteq> EnforcementLevel.NONE then enforce_if_needed env mo level else ret ()))"

definition handle_routing_decision :: "'p enforcer_env \<Rightarrow> moment \<Rightarrow> (string \<times> json) list \<Rightarrow> (exn, 'p monitor, unit) op" where
  "handle_routing_decision env mo payload =
     (case check_fields routing_decision_payload payload of
        Inl e \<Rightarrow> ret ()
      | Inr d \<Rightarrow>
          let tokens = int_field d ''input_tokens'' + int_field d ''output_tokens''; cost = float_field d ''cost_usd''
          in if tokens > 0 \<or> cost > 0
             then chain (consume_tokens mo tokens cost) (\<lambda>level.
               if level \<noteq> EnforcementLevel.NONE then enforce_if_needed env mo level else ret ())
             else ret ())"

definition handle_task_completed :: "(string \<times> json) list \<Rightarrow> (exn, 'p monitor, unit) op" where
  "handle_task_completed payload =
     (case check_fields task_completed_payload payload of
        Inl e \<Rightarrow> ret ()
      | Inr d \<Rightarrow>
          let quality = (if str_field d ''verdict'' = ''pass'' then 1 else 1 / 2)
          in writes (\<lambda>m. m\<lparr>mon_scorer := record_task_completed (str_field d ''agent_id'') quality
               (int_field d ''tokens_consumed'') (float_field d ''cost_usd'') None None (mon_scorer m)\<rparr>))"

definition record_spin :: "string \<Rightarrow> string \<Rightarrow> bool \<Rightarrow> int \<Rightarrow> (exn, 'p monitor, spin_detection) op" where
  "record_spin agent tid has_diff tokens = (\<lambda>m.
     case record_retry agent tid has_diff tokens (mon_spin m) of (d, s) \<Rightarrow> (Inr d, m\<lparr>mon_spin := s\<rparr>))"

definition handle_task_failed :: "'p enforcer_env \<Rightarrow> moment \<Rightarrow> (string \<times> json) list \<Rightarrow> (exn, 'p monitor, unit) op" where
  "handle_task_failed env mo payload =
     (case check_fields task_failed_payload payload of
        Inl e \<Rightarrow> ret ()
      | Inr d \<Rightarrow>
          let agent = str_field d ''agent_id''; tokens = int_field d ''tokens_consumed''
          in chain (writes (\<lambda>m. m\<lparr>mon_scorer :=
               record_task_failed agent tokens (float_field d ''cost_usd'') None None (mon_scorer m)\<rparr>)) (\<lambda>_.
             chain (record_spin agent (str_field d ''task_id'') (bool_field d ''has_diff'') tokens) (\<lambda>detection.
             if is_spinning detection then on_enforcer (kill_spinning_agent env (mo_db_up mo) detection) else ret ())))"

section \<open>The monitoring loop\<close>

text \<open>
  One pass of the loop body after the sleep; the counter is the local variable of the loop.
  An exception is logged and the loop goes on with the counter as it was when it was raised.
\<close>

definition check_thresholds :: "'p enforcer_env \<Rightarrow> moment \<Rightarrow> (exn, 'p monitor, unit) op" where
  "check_thresholds env mo =
     chain (\<lambda>m. case mon_budget m of (t, db) \<Rightarrow>
       (case threshold_crossed t of (r, t') \<Rightarrow> (Inr r, m\<lparr>mon_budget := (t', db)\<rparr>))) (\<lambda>r.
     case r of None \<Rightarrow> ret () | Some level \<Rightarrow> enforce_if_needed env mo level)"

definition recalculate :: "moment \<Rightarrow> int \<Rightarrow> (exn, 'p monitor, unit) op" where
  "recalculate mo now_utc = writes (\<lambda>m.
     case compute_scores now_utc (mon_scorer m) of (lb, sc) \<Rightarrow>
       m\<lparr>mon_scorer := sc, mon_scores_db := persist_scores (mo_db_up mo) lb sc (mon_scores_db m)\<rparr>)"

definition loop_pass :: "'p enforcer_env \<Rightarrow> int \<Rightarrow> int \<Rightarrow> moment \<Rightarrow> int \<Rightarrow> int \<times> 'p monitor \<Rightarrow> int \<times> 'p monitor" where
  "loop_pass env poll_interval efficiency_interval mo now_utc s = (case s of (counter, m) \<Rightarrow>
     (case check_thresholds env mo m of
        (Inl e, m') \<Rightarrow> (counter, m')
      | (Inr _, m') \<Rightarrow>
          if counter + poll_interval \<ge> efficiency_interval
          then (0, snd (recalculate mo now_utc m')) else (counter + poll_interval, m')))"

end
