(* ===== verification/Governor_Properties.thy ===== *)
theory Governor_Properties
  imports Governor_Monitor "HOL-Library.Multiset"
begin

text \<open>
  The properties of the Economic Governor: bookkeeping and levels of the budget tracker,
  phase shares, restart, spin detection, the leaderboard and the enforcement of levels.
\<close>

section \<open>Concrete inputs\<close>

definition small_config :: gov_config where
  "small_config = default_gov_config\<lparr>total_tokens := 1000\<rparr>"

definition usage_of :: "int \<Rightarrow> BudgetPhase \<Rightarrow> usage" where
  "usage_of n p = \<lparr>u_db_up = True, u_now = 0, u_tokens = n, u_usd = 0, u_phase = p\<rparr>"

lemma small_config_ok: "config_ok small_config"
  by (simp add: config_ok_def mk_gov_config_def small_config_def default_gov_config_def pct_ok_def
      phase_total_def all_budget_phase_def)

lemma small_config_fields [simp]:
  "alert_threshold_pct small_config = 80" "restrict_threshold_pct small_config = 95"
  "halt_threshold_pct small_config = 100" "total_tokens small_config = 1000"
  "spin_max_retries small_config = 3"
  by (simp_all add: small_config_def default_gov_config_def)

section \<open>Budget\<close>

definition level_of_run :: "gov_config \<Rightarrow> bool \<Rightarrow> usage list \<Rightarrow> EnforcementLevel" where
  "level_of_run c session us = enforcement_level (fst (record_all us (new_tracker c session, [])))"

lemma record_all_append: "record_all (us @ vs) s = record_all vs (record_all us s)"
  by (simp add: record_all_def)

lemma level_of_run_eq:
  assumes "config_ok c" and "0 < alert_threshold_pct c"
  shows "level_of_run c session us = level_for c (if total_tokens c = 0 then 0
      else py_round 2 (of_int (sum_list (map u_tokens us)) / of_int (total_tokens c) * 100))"
proof -
  note inv = record_all_inv [OF new_tracker_inv [OF assms, of session "[]"], of us]
  have "consumed_tokens (fst (record_all us (new_tracker c session, []))) = sum_list (map u_tokens us)"
    by (simp add: record_all_consumed new_tracker_def)
  with inv show ?thesis
    unfolding level_of_run_def
    using tracker_level [OF inv] by (simp add: consumed_pct_def tracker_inv_def)
qed

text \<open>
  C11: after any sequence of consumptions from a fresh tracker the consumed tokens are the sum
  of the recorded ones and the phases add up to them; the level is the one the thresholds
  give for the rounded percentage, it never falls while consumptions are nonnegative, and it
  is HALT whenever the budget is used up.
\<close>

theorem budget_accounting:
  assumes "config_ok c" and "0 < alert_threshold_pct c" and "0 < total_tokens c"
    and "s = record_all us (new_tracker c session, [])"
    and "\<forall>u \<in> set vs. 0 \<le> u_tokens u"
  shows "consumed_tokens (fst s) = sum_list (map u_tokens us) \<and>
    phases_sum (phase_consumed (fst s)) = consumed_tokens (fst s) \<and>
    enforcement_level (fst s) = level_for c
      (py_round 2 (of_int (consumed_tokens (fst s)) / of_int (total_tokens c) * 100)) \<and>
    level_rank (enforcement_level (fst s)) \<le> level_rank (enforcement_level (fst (record_all vs s))) \<and>
    (total_tokens c \<le> consumed_tokens (fst s) \<longrightarrow> enforcement_level (fst s) = EnforcementLevel.HALT)"
proof -
  have inv: "tracker_inv c s"
    unfolding assms(4) by (rule record_all_inv [OF new_tracker_inv [OF assms(1,2)]])
  have "consumed_tokens (fst s) = sum_list (map u_tokens us)"
    by (simp add: assms(4) record_all_consumed new_tracker_def)
  moreover have "enforcement_level (fst s) = level_for c
      (py_round 2 (of_int (consumed_tokens (fst s)) / of_int (total_tokens c) * 100))"
    using tracker_level [OF inv] inv assms(3) by (simp add: tracker_inv_def consumed_pct_def)
  moreover have "level_rank (enforcement_level (fst s)) \<le> level_rank (enforcement_level (fst (record_all vs s)))"
    by (rule record_all_level_mono [OF assms(1) inv assms(5)])
  moreover have "total_tokens c \<le> consumed_tokens (fst s) \<Longrightarrow> enforcement_level (fst s) = EnforcementLevel.HALT"
    by (rule exhausted_halts [OF assms(1) inv assms(3)])
  ultimately show ?thesis using inv by (simp add: tracker_inv_def)
qed

theorem budget_accounting_witness:
  "enforcement_level (fst (record_all [usage_of 600 BudgetPhase.TESTING, usage_of 400 BudgetPhase.REVIEW]
     (new_tracker small_config True, []))) = EnforcementLevel.HALT \<and>
   phases_sum (phase_consumed (fst (record_all [usage_of 600 BudgetPhase.TESTING, usage_of 400 BudgetPhase.REVIEW]
     (new_tracker small_config True, [])))) = 1000"
  using budget_accounting [OF small_config_ok _ _ refl, where vs = "[]" and session = True
      and us = "[usage_of 600 BudgetPhase.TESTING, usage_of 400 BudgetPhase.REVIEW]"]
  by (simp add: usage_of_def level_for_def py_round_def round_half_even_def)

section \<open>Phase shares\<close>

definition allocated_sum :: "allocation_result \<Rightarrow> int" where
  "allocated_sum a = sum_list (map (\<lambda>(p, n, pct). n) (al_phases a))"

lemma allocated_sum_eq:
  "allocated_sum (allocate_project_budget c r) =
     phases_sum (compute_phase_allocations c (al_total_tokens (allocate_project_budget c r)))"
  by (simp add: allocated_sum_def allocate_project_budget_def Let_def phases_sum_def all_budget_phase_def)

lemma factor_bounds:
  assumes "0 \<le> x" and "x \<le> 1" and "1 \<le> (n :: int)" and "n \<le> 5"
  shows "2 / 5 \<le> (1 / 2 + x) * (8 / 10 + of_int (n - 1) / 10 :: rat)"
    and "(1 / 2 + x) * (8 / 10 + of_int (n - 1) / 10 :: rat) \<le> 9 / 5"
proof -
  let ?f = "8 / 10 + of_int (n - 1) / 10 :: rat"
  have f: "4 / 5 \<le> ?f" "?f \<le> 6 / 5" using assms(3,4) by simp_all
  show "2 / 5 \<le> (1 / 2 + x) * ?f"
    using mult_mono [of "1 / 2" "1 / 2 + x" "4 / 5" ?f] f assms(1) by simp
  show "(1 / 2 + x) * ?f \<le> 9 / 5"
    using mult_mono [of "1 / 2 + x" "3 / 2" ?f "6 / 5"] f assms(2) by simp
qed

text \<open>
  A project allocation for a valid request lies between 0.4 and 1.8 times the configured
  budget, no phase gets a negative share, and the shares add up to the configured
  percentage of the total less at most seven tokens lost to rounding.
\<close>

theorem phase_budgets:
  assumes "config_ok c" and "mk_allocation_request r = Inr r"
    and "a = allocate_project_budget c r"
  shows "2 / 5 * of_int (total_tokens c) - 1 < (of_int (al_total_tokens a) :: rat) \<and>
    of_int (al_total_tokens a) \<le> (9 / 5 * of_int (total_tokens c) :: rat) \<and>
    list_all (\<lambda>(p, n, pct). 0 \<le> n) (al_phases a) \<and>
    of_int (allocated_sum a) \<le> of_int (al_total_tokens a) * phase_total c / 100 \<and>
    of_int (al_total_tokens a) * phase_total c / 100 - 7 \<le> of_int (allocated_sum a)"
proof -
  define k where "k = (1 / 2 + ar_complexity r) * (8 / 10 + of_int (ar_priority r - 1) / 10)"
  have k: "2 / 5 \<le> k" "k \<le> 9 / 5"
    using assms(2) factor_bounds [of "ar_complexity r" "ar_priority r"]
    by (simp_all add: mk_allocation_request_def k_def split: if_splits)
  have T: "(0 :: rat) \<le> of_int (total_tokens c)" using config_okD(1) [OF assms(1)] by simp
  have lo: "of_int (total_tokens c) * (2 / 5) \<le> of_int (total_tokens c) * k"
    and hi: "of_int (total_tokens c) * k \<le> of_int (total_tokens c) * (9 / 5)"
    using k T by (simp_all only: mult_left_mono)
  have pos: "0 \<le> of_int (total_tokens c) * k" using lo T by linarith
  have tot: "al_total_tokens a = \<lfloor>of_int (total_tokens c) * k\<rfloor>"
    using pos by (simp add: assms(3) allocate_project_budget_def Let_def k_def py_int_nonneg mult.assoc)
  have n: "0 \<le> al_total_tokens a" using pos by (simp add: tot)
  have "2 / 5 * of_int (total_tokens c) - 1 < (of_int (al_total_tokens a) :: rat)"
    using lo unfolding tot by linarith
  moreover have "of_int (al_total_tokens a) \<le> (9 / 5 * of_int (total_tokens c) :: rat)"
    using hi of_int_floor_le [of "of_int (total_tokens c) * k"] unfolding tot by linarith
  moreover have "list_all (\<lambda>(p, n, pct). 0 \<le> n) (al_phases a)"
    using phase_allocations_sum(3) [OF assms(1) n]
    by (simp add: assms(3) allocate_project_budget_def Let_def list_all_iff)
  ultimately show ?thesis
    using phase_allocations_sum(1,2) [OF assms(1) n] by (simp add: assms(3) allocated_sum_eq)
qed

theorem phase_budgets_witness:
  "of_int (al_total_tokens (allocate_project_budget small_config \<lparr>ar_complexity = 1 / 3, ar_priority = 2\<rparr>))
     \<le> (1800 :: rat) \<and>
   allocated_sum (allocate_project_budget small_config \<lparr>ar_complexity = 1 / 3, ar_priority = 2\<rparr>) = 748"
proof -
  have "\<lfloor>75 / 2 :: rat\<rfloor> = 37" "\<lfloor>225 / 2 :: rat\<rfloor> = 112" by (rule floor_unique; simp)+
  then have "allocated_sum (allocate_project_budget small_config \<lparr>ar_complexity = 1 / 3, ar_priority = 2\<rparr>) = 748"
    by (simp add: allocated_sum_def allocate_project_budget_def Let_def all_budget_phase_def
        compute_phase_allocations_def py_int_def small_config_def default_gov_config_def)
  then show ?thesis
    using phase_budgets [OF small_config_ok _ refl, of "\<lparr>ar_complexity = 1 / 3, ar_priority = 2\<rparr>"]
    by (simp add: mk_allocation_request_def)
qed

section \<open>Restart\<close>

text \<open>The newest record was written at the last change of the level.\<close>

definition saved_inv :: "gov_config \<Rightarrow> tracker \<times> budget_record list \<Rightarrow> bool" where
  "saved_inv c s \<longleftrightarrow> tracker_inv c s \<and> has_session (fst s) \<and> 0 \<le> consumed_tokens (fst s) \<and>
     (case snd s of
        [] \<Rightarrow> enforcement_level (fst s) = EnforcementLevel.NONE
      | r # _ \<Rightarrow> br_level r = enforcement_level (fst s) \<and> br_consumed r \<le> consumed_tokens (fst s) \<and>
          br_level r = compute_enforcement_level (fst s\<lparr>consumed_tokens := br_consumed r\<rparr>))"

lemma compute_level_cong:
  "bt_config t = bt_config u \<Longrightarrow> allocated_tokens t = allocated_tokens u \<Longrightarrow>
   consumed_tokens t = consumed_tokens u \<Longrightarrow> compute_enforcement_level t = compute_enforcement_level u"
  by (simp add: compute_enforcement_level_def consumed_pct_def)

lemma saved_inv_step:
  assumes "config_ok c" and "saved_inv c s" and "u_db_up u" and "0 \<le> u_tokens u"
  shows "saved_inv c (record_usage u s)"
proof -
  obtain t db where s: "s = (t, db)" by (cases s)
  define t1 where "t1 = consume (u_now u) (u_tokens u) (u_usd u) (u_phase u) t"
  define t2 where "t2 = t1\<lparr>enforcement_level := compute_enforcement_level t1\<rparr>"
  have run: "record_usage u s = (t2, if compute_enforcement_level t1 \<noteq> enforcement_level t
      then persist_snapshot True (u_now u) t2 db else db)"
    using assms(3) by (simp add: s record_usage_def record_consumption_def Let_def t1_def t2_def)
  have f: "has_session t2 = has_session t" "consumed_tokens t2 = consumed_tokens t + u_tokens u"
    "bt_config t2 = bt_config t" "allocated_tokens t2 = allocated_tokens t"
    by (simp_all add: t2_def t1_def consume_def)
  have inv: "tracker_inv c (t2, d)" for d
    using record_usage_inv [of c s u] assms(2) by (simp add: saved_inv_def tracker_inv_def run)
  have session: "has_session t" using assms(2) by (simp add: saved_inv_def s)
  show ?thesis
  proof (cases "compute_enforcement_level t1 = enforcement_level t")
    case True
    then have "record_usage u s = (t2, db)" and "enforcement_level t2 = enforcement_level t"
      by (simp_all add: run, simp add: t2_def)
    then show ?thesis using assms(2,4) inv f
      by (auto simp: saved_inv_def s compute_enforcement_level_def consumed_pct_def split: list.splits)
  next
    case False
    have "compute_enforcement_level (t2\<lparr>consumed_tokens := consumed_tokens t2\<rparr>) = enforcement_level t2"
      using inv [of db] by (simp add: tracker_inv_def)
    moreover have "record_usage u s = (t2, snapshot_record (u_now u) t2 # db)"
      using False f(1) session by (simp add: run persist_snapshot_def)
    ultimately show ?thesis using assms(2,4) inv f
      by (simp add: saved_inv_def s snapshot_record_def)
  qed
qed

lemma saved_inv_run:
  "config_ok c \<Longrightarrow> saved_inv c s \<Longrightarrow> \<forall>u \<in> set us. u_db_up u \<and> 0 \<le> u_tokens u \<Longrightarrow>
     saved_inv c (record_all us s)"
  unfolding record_all_def by (induction us arbitrary: s) (simp_all add: saved_inv_step)

lemma saved_inv_new: "config_ok c \<Longrightarrow> 0 < alert_threshold_pct c \<Longrightarrow> saved_inv c (new_tracker c True, [])"
  by (simp add: saved_inv_def new_tracker_inv) (simp add: new_tracker_def)

text \<open>
  A tracker restored after a run in which every write succeeded has the enforcement
  level of the run and a consumption that justifies it, but not more than that: its total is
  the one of the last change of the level, never above the true one, and the consumption of
  every phase is forgotten.
\<close>

theorem restart_keeps_level:
  assumes "config_ok c" and "0 < alert_threshold_pct c"
    and "\<forall>u \<in> set us. u_db_up u \<and> 0 \<le> u_tokens u"
    and "s = record_all us (new_tracker c True, [])"
    and "t = load_persisted_state c True (snd s)"
  shows "enforcement_level t = enforcement_level (fst s) \<and> compute_enforcement_level t = enforcement_level t \<and>
    consumed_tokens t \<le> consumed_tokens (fst s) \<and> phases_sum (phase_consumed t) = 0"
proof -
  have inv: "saved_inv c s"
    unfolding assms(4) by (rule saved_inv_run [OF assms(1) saved_inv_new [OF assms(1,2)] assms(3)])
  have zero: "phases_sum (\<lambda>_. 0) = 0" by (simp add: phases_sum_def all_budget_phase_def)
  show ?thesis
  proof (cases "snd s")
    case Nil
    then have t: "t = new_tracker c True" by (simp add: assms(5) load_persisted_state_def)
    have new: "enforcement_level t = EnforcementLevel.NONE" "consumed_tokens t = 0" "phase_consumed t = (\<lambda>_. 0)"
      by (simp_all add: t new_tracker_def)
    have "compute_enforcement_level t = enforcement_level t"
      using new_tracker_inv [OF assms(1,2), of True "[]"] by (simp add: tracker_inv_def t)
    with Nil inv zero new show ?thesis by (simp add: saved_inv_def)
  next
    case (Cons r rs)
    then have t: "t = new_tracker c True\<lparr>consumed_tokens := br_consumed r, consumed_usd := br_consumed_usd r,
        enforcement_level := br_level r\<rparr>"
      by (simp add: assms(5) load_persisted_state_def)
    have "compute_enforcement_level t = compute_enforcement_level (fst s\<lparr>consumed_tokens := br_consumed r\<rparr>)"
      using inv by (intro compute_level_cong) (simp_all add: t saved_inv_def tracker_inv_def new_tracker_def)
    moreover have "enforcement_level t = br_level r" "consumed_tokens t = br_consumed r" "phase_consumed t = (\<lambda>_. 0)"
      by (simp_all add: t new_tracker_def)
    moreover have "br_level r = enforcement_level (fst s)" "br_consumed r \<le> consumed_tokens (fst s)"
      "compute_enforcement_level (fst s\<lparr>consumed_tokens := br_consumed r\<rparr>) = br_level r"
      using inv unfolding saved_inv_def Cons list.case by metis+
    ultimately show ?thesis using zero by simp
  qed
qed

theorem restart_keeps_level_witness:
  "consumed_tokens (load_persisted_state small_config True
     (snd (record_all [usage_of 500 BudgetPhase.TESTING] (new_tracker small_config True, [])))) = 0 \<and>
   enforcement_level (load_persisted_state small_config True
     (snd (record_all [usage_of 900 BudgetPhase.TESTING, usage_of 10 BudgetPhase.REVIEW] (new_tracker small_config True, []))))
     = EnforcementLevel.ALERT"
proof -
  have "snd (record_all [usage_of 500 BudgetPhase.TESTING] (new_tracker small_config True, [])) = []"
    by (simp add: record_all_def record_usage_def record_consumption_def usage_of_def new_tracker_def consume_def
        compute_enforcement_level_def consumed_pct_def level_for_def py_round_def round_half_even_def)
  moreover have "level_of_run small_config True [usage_of 900 BudgetPhase.TESTING, usage_of 10 BudgetPhase.REVIEW]
      = EnforcementLevel.ALERT"
    by (subst level_of_run_eq [OF small_config_ok])
      (simp_all add: usage_of_def level_for_def py_round_def round_half_even_def)
  ultimately show ?thesis
    using restart_keeps_level [OF small_config_ok _ _ refl refl, of
        "[usage_of 900 BudgetPhase.TESTING, usage_of 10 BudgetPhase.REVIEW]"]
    by (simp add: level_of_run_def usage_of_def load_persisted_state_def new_tracker_def)
qed

section \<open>Spin detection\<close>

text \<open>
  C12: whatever retries and resets came before, as long as no more than 10000 agent and task
  pairs occurred, a retry is reported with the exact number of retries and tokens since the
  pair's last code change or reset, and as spinning exactly when that number reaches the
  limit. The detector never holds more than 10000 pairs.
\<close>

theorem spin_detection_exact:
  assumes "card (\<Union> (event_keys ` set evs)) \<le> max_tracked"
    and "d = fst (record_retry agent tid False tokens (spin_run evs (new_spin_detector c)))"
  shows "retry_count d = fst (streak evs (agent, tid)) + 1 \<and>
    tokens_since_last_diff d = snd (streak evs (agent, tid)) + tokens \<and>
    (is_spinning d \<longleftrightarrow> spin_max_retries c \<le> fst (streak evs (agent, tid)) + 1) \<and>
    length (sp_state (spin_run evs (new_spin_detector c))) \<le> max_tracked"
  using spin_run_rel [OF assms(1), of c] spin_run_max [of evs "new_spin_detector c"]
  by (simp add: assms(2) record_retry_def Let_def spin_rel_def spin_run_size)
     (simp add: new_spin_detector_def)

theorem spin_detection_exact_witness:
  "is_spinning (fst (record_retry ''a'' ''t'' False 10
     (spin_run [Retry ''a'' ''t'' False 5, Retry ''a'' ''t'' True 5, Retry ''a'' ''t'' False 5, Retry ''a'' ''t'' False 5]
       (new_spin_detector small_config)))) \<and>
   \<not> is_spinning (fst (record_retry ''a'' ''t'' False 10
     (spin_run [Retry ''a'' ''t'' False 5, Retry ''a'' ''t'' False 5, Reset ''a'']
       (new_spin_detector small_config))))"
  using spin_detection_exact [OF _ refl, of "[Retry ''a'' ''t'' False 5, Retry ''a'' ''t'' True 5, Retry ''a'' ''t'' False 5, Retry ''a'' ''t'' False 5]"
      "''a''" "''t''" 10 small_config]
    spin_detection_exact [OF _ refl, of "[Retry ''a'' ''t'' False 5, Retry ''a'' ''t'' False 5, Reset ''a'']"
      "''a''" "''t''" 10 small_config]
  by (simp add: streak_def max_tracked_def)

section \<open>The leaderboard\<close>

text \<open>
  The leaderboard has one entry per tracked agent, ranks count from one, and the scores
  do not increase with the rank. If qualities and counts are nonnegative the scores lie in
  [0, 1], and the first is exactly 1 when any agent has a positive efficiency.
\<close>

theorem leaderboard_ranked:
  assumes "\<forall>p \<in> set (es_agents s). stats_ok (snd p)"
    and "es = lb_entries (fst (compute_scores now s))"
  shows "mset (map sc_agent_id es) = mset (keys (es_agents s)) \<and>
    map sc_rank es = [1..<length es + 1] \<and>
    sorted (map (\<lambda>e. - sc_efficiency e) es) \<and>
    (\<forall>e \<in> set es. 0 \<le> sc_efficiency e \<and> sc_efficiency e \<le> 1) \<and>
    ((\<exists>p \<in> set (es_agents s). 0 < raw_efficiency (snd p)) \<longrightarrow> sc_efficiency (hd es) = 1)"
proof -
  let ?d = "es_agents s"
  let ?b = "best_efficiency ?d"
  have len: "length es = length ?d" by (simp add: assms(2))
  have nth: "es ! i = entry_of ?b (i + 1) (ranking ?d ! i)" if "i < length ?d" for i
    using that by (simp add: assms(2) entries_nth)
  have "mset (map sc_agent_id es) = mset (keys ?d)"
    unfolding assms(2) entries_ids by (simp add: ranking_def)
  moreover have "map sc_rank es = [1..<length es + 1]"
    by (rule nth_equalityI) (simp_all add: len nth del: upt_Suc)
  moreover have "sorted (map (\<lambda>e. - sc_efficiency e) es)"
    unfolding sorted_iff_nth_mono
    using best_efficiency_pos [of ?d]
    by (auto simp: len nth intro!: py_round_mono divide_right_mono ranking_nth_mono)
  moreover have "0 \<le> sc_efficiency (es ! i) \<and> sc_efficiency (es ! i) \<le> 1" if "i < length ?d" for i
  proof -
    have "ranking ?d ! i \<in> set ?d" using that by (metis length_ranking nth_mem set_ranking)
    then have "0 \<le> raw_efficiency (snd (ranking ?d ! i))" using assms(1) by (intro raw_efficiency_nonneg) auto
    moreover have "raw_efficiency (snd (ranking ?d ! i)) / ?b \<le> of_int 1"
      using raw_le_best [OF that] best_efficiency_pos [of ?d] by (simp add: divide_le_eq)
    ultimately show ?thesis
      using best_efficiency_pos [of ?d] py_round_le_int [of _ 1 4]
      by (simp add: nth that py_round_nonneg)
  qed
  then have "\<forall>e \<in> set es. 0 \<le> sc_efficiency e \<and> sc_efficiency e \<le> 1"
    by (simp add: all_set_conv_all_nth len)
  moreover have "sc_efficiency (hd es) = 1" if pos: "\<exists>p \<in> set ?d. 0 < raw_efficiency (snd p)"
  proof -
    from pos obtain j where j: "j < length ?d" "0 < raw_efficiency (snd (ranking ?d ! j))"
      by (metis in_set_conv_nth length_ranking set_ranking)
    then have ne: "?d \<noteq> []" by auto
    have "0 < raw_efficiency (snd (ranking ?d ! 0))" using ranking_nth_mono [of 0 j ?d] j by simp
    then have "?b = raw_efficiency (snd (ranking ?d ! 0))" using ne by (simp add: best_efficiency_head Let_def)
    moreover have "hd es = es ! 0" using ne len by (intro hd_conv_nth) auto
    ultimately show ?thesis
      using ne best_efficiency_pos [of ?d] nth [of 0] py_round_of_int [of 4 1] by simp
  qed
  ultimately show ?thesis by blast
qed

definition sample_scorer :: scorer where
  "sample_scorer =
     record_task_completed ''slow'' (1 / 2) 400 0 None None
    (record_task_completed ''fast'' 1 100 0 None None
    (record_task_failed ''slow'' 100 0 None None (new_scorer True)))"

lemma sample_scorer_eval:
  "es_agents sample_scorer =
     [(''slow'', new_stats\<lparr>st_completed := 1, st_failed := 1, st_quality_sum := 1 / 2, st_tokens := 500\<rparr>),
      (''fast'', new_stats\<lparr>st_completed := 1, st_quality_sum := 1, st_tokens := 100\<rparr>)]"
  by (simp add: sample_scorer_def record_task_completed_def record_task_failed_def update_agent_def
      new_scorer_def new_stats_def retag_def get_or_def)

theorem leaderboard_ranked_witness:
  "map sc_rank (lb_entries (fst (compute_scores 0 sample_scorer))) = [1, 2] \<and>
   sc_efficiency (hd (lb_entries (fst (compute_scores 0 sample_scorer)))) = 1"
proof -
  have ok: "\<forall>p \<in> set (es_agents sample_scorer). stats_ok (snd p)"
    by (simp add: sample_scorer_eval stats_ok_def new_stats_def)
  have "\<exists>p \<in> set (es_agents sample_scorer). 0 < raw_efficiency (snd p)"
    by (simp add: sample_scorer_eval raw_efficiency_def avg_quality_def new_stats_def)
  moreover have "length (es_agents sample_scorer) = 2" by (simp add: sample_scorer_eval)
  ultimately show ?thesis
    using leaderboard_ranked [OF ok refl, of 0] by (simp add: numeral_2_eq_2)
qed

text \<open>
  A scorer restored from the table right after its scores were persisted knows every
  agent of the leaderboard with its exact counts and tokens; the cost is the one rounded to
  six digits, and the quality sum is off by at most 0.00005 per completed task.
\<close>

theorem scores_survive_restart:
  assumes "distinct (keys (es_agents s))" and "map_of (es_agents s) agent = Some st"
    and "es_has_session s" and "compute_scores now s = (lb, s')"
    and "db' = persist_scores True lb s' db" and "length (newest_rows db') \<le> 10000"
  shows "\<exists>r. map_of (es_agents (load_persisted_scores True db')) agent = Some r \<and>
    st_completed r = st_completed st \<and> st_failed r = st_failed st \<and> st_tokens r = st_tokens st \<and>
    st_cost r = py_round 6 (st_cost st) \<and>
    (0 < st_completed st \<longrightarrow>
       \<bar>st_quality_sum r - st_quality_sum st\<bar> \<le> of_int (st_completed st) / 20000)"
proof -
  have lb: "lb = fst (compute_scores now s)" and s': "s' = s\<lparr>es_cached := Some lb\<rparr>"
    using assms(4) by (auto simp: compute_scores_def Let_def)
  let ?rows = "map (efficiency_row_of (lb_computed_at lb) s') (lb_entries lb)"
  have db': "db' = db @ ?rows" using assms(3) by (simp add: assms(5) persist_scores_def s')
  have ids: "map er_agent_id ?rows = map fst (ranking (es_agents s))"
    using entries_ids [of now s] by (simp add: lb efficiency_row_of_def Let_def comp_def)
  have "distinct (map fst (ranking (es_agents s)))"
    using assms(1) by (simp add: distinct_map ranking_def)
  then have dist: "distinct (map er_agent_id ?rows)" by (simp only: ids)
  have "(agent, st) \<in> set (ranking (es_agents s))" using assms(2) by (simp add: map_of_SomeD)
  then obtain i where i: "i < length (es_agents s)" "ranking (es_agents s) ! i = (agent, st)"
    by (metis in_set_conv_nth length_ranking)
  define e where "e = lb_entries lb ! i"
  have e: "e = entry_of (best_efficiency (es_agents s)) (i + 1) (agent, st)"
    using i by (simp add: e_def lb entries_nth)
  have mem: "e \<in> set (lb_entries lb)" using i(1) unfolding e_def lb by (intro nth_mem) simp
  define row where "row = efficiency_row_of (lb_computed_at lb) s' e"
  have id: "er_agent_id row = agent" by (simp add: row_def efficiency_row_of_def Let_def e)
  have "row \<in> set ?rows" using mem by (simp add: row_def)
  then have "row \<in> set (newest_rows db')" unfolding db' by (rule newest_rows_mem [OF dist])
  then have load: "map_of (es_agents (load_persisted_scores True db')) agent = Some (stats_of_row row)"
    using load_persisted_scores_row [of row, OF _ assms(6)] id by simp
  have "\<bar>py_round 4 (st_quality_sum st / n) * n - st_quality_sum st\<bar> \<le> n / 20000"
    if "0 < st_completed st" and n: "n = of_int (st_completed st)" for n
  proof -
    have pos: "0 < n" using that by simp
    have "\<bar>(py_round 4 (st_quality_sum st / n) - st_quality_sum st / n) * n\<bar> \<le> 1 / 20000 * n"
      using py_round_near [of 4 "st_quality_sum st / n"] pos unfolding abs_mult by (intro mult_mono) auto
    then show ?thesis using pos by (simp add: left_diff_distrib)
  qed
  then have q: "0 < st_completed st \<Longrightarrow> \<bar>py_round 4 (st_quality_sum st / of_int (st_completed st)) * of_int (st_completed st)
      - st_quality_sum st\<bar> \<le> of_int (st_completed st) / 20000" by blast
  have mx: "0 < st_completed st \<Longrightarrow> max (st_completed st) 1 = st_completed st" by simp
  show ?thesis
    using q by (simp add: load stats_of_row_def row_def efficiency_row_of_def Let_def e avg_quality_def mx)
qed

theorem scores_survive_restart_witness:
  "\<exists>r. map_of (es_agents (load_persisted_scores True
      (persist_scores True (fst (compute_scores 0 sample_scorer)) (snd (compute_scores 0 sample_scorer)) []))) ''slow'' = Some r \<and>
     st_completed r = 1 \<and> st_failed r = 1 \<and> st_tokens r = 500"
proof -
  define db where "db = persist_scores True (fst (compute_scores 0 sample_scorer)) (snd (compute_scores 0 sample_scorer)) []"
  have session: "es_has_session sample_scorer" "es_has_session (snd (compute_scores 0 sample_scorer))"
    by (simp_all add: compute_scores_def Let_def sample_scorer_def record_task_completed_def record_task_failed_def
        update_agent_def new_scorer_def)
  have "length (newest_rows rs) \<le> length rs" for rs by (induction rs) auto
  moreover have "length db = 2"
    using session by (simp add: db_def persist_scores_def sample_scorer_eval)
  ultimately have "length (newest_rows db) \<le> 2" by metis
  then have "length (newest_rows db) \<le> 10000" by linarith
  then have "\<exists>r. map_of (es_agents (load_persisted_scores True db)) ''slow'' = Some r \<and>
      st_completed r = 1 \<and> st_failed r = 1 \<and> st_tokens r = 500 \<and> st_cost r = py_round 6 0 \<and>
      (0 < (1 :: int) \<longrightarrow> \<bar>st_quality_sum r - 1 / 2\<bar> \<le> of_int 1 / 20000)"
    using scores_survive_restart [of sample_scorer "''slow''"
        "new_stats\<lparr>st_completed := 1, st_failed := 1, st_quality_sum := 1 / 2, st_tokens := 500\<rparr>" 0
        "fst (compute_scores 0 sample_scorer)" "snd (compute_scores 0 sample_scorer)" db "[]"] session(1)
    by (simp add: sample_scorer_eval db_def [symmetric]) (simp add: new_stats_def)
  then show ?thesis unfolding db_def by blast
qed

section \<open>Enforcement\<close>

text \<open>A bus that keeps what is published, oldest first.\<close>

definition log_env :: "event list enforcer_env" where
  "log_env = \<lparr>env_publish = (\<lambda>e b. (Inr [], b @ [e])), env_fresh = (\<lambda>n. [])\<rparr>"

primrec level_events :: "EnforcementLevel \<Rightarrow> EventType list" where
  "level_events EnforcementLevel.NONE = []"
| "level_events EnforcementLevel.ALERT = [EventType.BUDGET_THRESHOLD_ALERT]"
| "level_events EnforcementLevel.RESTRICT = [EventType.BUDGET_TIER_DOWNGRADE, EventType.BUDGET_TASK_PAUSED]"
| "level_events EnforcementLevel.HALT = [EventType.BUDGET_HALT]"

abbreviation bus_types :: "event list monitor \<Rightarrow> EventType list" where
  "bus_types m \<equiv> map ev_type (ef_bus (mon_enforcer m))"

lemma enforce_if_needed_log:
  assumes "model_tier_of (restrict_max_tier (ef_config (mon_enforcer m))) \<noteq> None \<or> level \<noteq> EnforcementLevel.RESTRICT"
  shows "fst (enforce_if_needed log_env mo level m) = Inr () \<and>
    bus_types (snd (enforce_if_needed log_env mo level m)) = bus_types m @ level_events level \<and>
    enforcement_level (fst (mon_budget (snd (enforce_if_needed log_env mo level m)))) =
      enforcement_level (fst (mon_budget m)) \<and>
    consumed_tokens (fst (mon_budget (snd (enforce_if_needed log_env mo level m)))) =
      consumed_tokens (fst (mon_budget m))"
  using assms
  by (cases level) (auto simp: enforce_if_needed_def op_simps take_snapshot_def on_enforcer_def get_snapshot_def Let_def
      enforce_alert_def enforce_restrict_def enforce_halt_def log_env_def split: prod.splits)

lemma enforce_if_needed_bad_tier:
  assumes "model_tier_of (restrict_max_tier (ef_config (mon_enforcer m))) = None"
  shows "fst (enforce_if_needed env mo EnforcementLevel.RESTRICT m) = Inl (ValueError ''ModelTier'')"
    and "ef_bus (mon_enforcer (snd (enforce_if_needed env mo EnforcementLevel.RESTRICT m))) = ef_bus (mon_enforcer m)"
    and "enforcement_level (fst (mon_budget (snd (enforce_if_needed env mo EnforcementLevel.RESTRICT m)))) =
      enforcement_level (fst (mon_budget m))"
    and "consumed_tokens (fst (mon_budget (snd (enforce_if_needed env mo EnforcementLevel.RESTRICT m)))) =
      consumed_tokens (fst (mon_budget m))"
  using assms
  by (auto simp: enforce_if_needed_def op_simps take_snapshot_def on_enforcer_def get_snapshot_def Let_def
      enforce_restrict_def split: prod.splits)

lemma consume_tokens_run:
  "\<exists>m1. consume_tokens mo n cost m = (Inr (enforcement_level (fst (mon_budget m1))), m1) \<and>
     mon_enforcer m1 = mon_enforcer m \<and>
     consumed_tokens (fst (mon_budget m1)) = consumed_tokens (fst (mon_budget m)) + n"
  by (cases "mon_budget m") (simp add: consume_tokens_def record_consumption_def Let_def, simp add: consume_def)

lemma spend_and_enforce:
  assumes "f = chain (consume_tokens mo n cost) (\<lambda>level.
      if level \<noteq> EnforcementLevel.NONE then enforce_if_needed log_env mo level else ret ())"
    and "m' = snd (f m)"
    and "cfg = restrict_max_tier (ef_config (mon_enforcer m))"
  shows "consumed_tokens (fst (mon_budget m')) = consumed_tokens (fst (mon_budget m)) + n \<and>
    (if model_tier_of cfg = None \<and> enforcement_level (fst (mon_budget m')) = EnforcementLevel.RESTRICT
     then fst (f m) = Inl (ValueError ''ModelTier'') \<and> bus_types m' = bus_types m
     else fst (f m) = Inr () \<and>
       bus_types m' = bus_types m @ level_events (enforcement_level (fst (mon_budget m'))))"
proof -
  obtain m1 where m1: "consume_tokens mo n cost m = (Inr (enforcement_level (fst (mon_budget m1))), m1)"
    "mon_enforcer m1 = mon_enforcer m" "consumed_tokens (fst (mon_budget m1)) = consumed_tokens (fst (mon_budget m)) + n"
    using consume_tokens_run by blast
  let ?l = "enforcement_level (fst (mon_budget m1))"
  have run: "f m = (if ?l \<noteq> EnforcementLevel.NONE then enforce_if_needed log_env mo ?l m1 else (Inr (), m1))"
    by (simp add: assms(1) chain_run m1(1))
  show ?thesis
  proof (cases "model_tier_of cfg = None \<and> ?l = EnforcementLevel.RESTRICT")
    case True
    then show ?thesis
      using enforce_if_needed_bad_tier [of m1 log_env mo] m1(2,3) by (simp add: assms(2,3) run)
  next
    case False
    then show ?thesis
      using enforce_if_needed_log [of m1 ?l mo] m1(2,3) by (cases ?l) (simp_all add: assms(2,3) run)
  qed
qed

text \<open>
  A valid AGENT_COMPLETED event adds its tokens to the budget and publishes the events of
  the resulting level, on every event while the level is not NONE and not only when the
  level changes; an invalid one changes nothing. With a configured tier that is no
  \<^verbatim>\<open>ModelTier\<close>, reaching RESTRICT raises and publishes nothing.
\<close>

theorem level_enforced_each_event:
  assumes "m' = snd (handle_agent_completed log_env mo payload m)"
    and "cfg = restrict_max_tier (ef_config (mon_enforcer m))"
  shows "(case check_fields agent_completed_payload payload of
      Inl e \<Rightarrow> m' = m
    | Inr d \<Rightarrow>
        consumed_tokens (fst (mon_budget m')) = consumed_tokens (fst (mon_budget m)) + int_field d ''tokens_consumed'' \<and>
        (if model_tier_of cfg = None \<and> enforcement_level (fst (mon_budget m')) = EnforcementLevel.RESTRICT
         then fst (handle_agent_completed log_env mo payload m) = Inl (ValueError ''ModelTier'') \<and>
           bus_types m' = bus_types m
         else fst (handle_agent_completed log_env mo payload m) = Inr () \<and>
           bus_types m' = bus_types m @ level_events (enforcement_level (fst (mon_budget m')))))"
proof (cases "check_fields agent_completed_payload payload")
  case (Inl e)
  then show ?thesis by (simp add: assms handle_agent_completed_def)
next
  case (Inr d)
  then have run: "handle_agent_completed log_env mo payload =
      chain (consume_tokens mo (int_field d ''tokens_consumed'') (float_field d ''cost_usd'')) (\<lambda>level.
        if level \<noteq> EnforcementLevel.NONE then enforce_if_needed log_env mo level else ret ())"
    by (simp add: handle_agent_completed_def)
  show ?thesis
    using spend_and_enforce [OF run assms] by (simp add: Inr)
qed

theorem level_enforced_each_event_witness:
  "map ev_type (ef_bus (mon_enforcer (snd (handle_agent_completed log_env \<lparr>mo_now = 0, mo_db_up = True\<rparr>
      [(''agent_id'', JStr ''a''), (''tokens_consumed'', JInt 970), (''cost_usd'', JInt 0)]
      (new_monitor small_config True []))))) =
   [EventType.BUDGET_TIER_DOWNGRADE, EventType.BUDGET_TASK_PAUSED]"
proof -
  let ?p = "[(''agent_id'', JStr ''a''), (''tokens_consumed'', JInt 970), (''cost_usd'', JInt 0)]"
  define m' where "m' = snd (handle_agent_completed log_env \<lparr>mo_now = 0, mo_db_up = True\<rparr> ?p
      (new_monitor small_config True []))"
  have p: "check_fields agent_completed_payload ?p = Inr [(''agent_id'', JStr ''a''), (''tokens_consumed'', JInt 970), (''cost_usd'', JFloat 0)]"
    by (simp add: agent_completed_payload_def check_int_def lax_int_def check_float_def lax_float_def in_range_def)
  have l: "enforcement_level (fst (mon_budget m')) = EnforcementLevel.RESTRICT"
  proof -
    let ?m = "new_monitor small_config True ([] :: event list)"
    obtain m1 where m1: "consume_tokens \<lparr>mo_now = 0, mo_db_up = True\<rparr> 970 0 ?m = (Inr EnforcementLevel.RESTRICT, m1)"
      "mon_enforcer m1 = mon_enforcer ?m" "enforcement_level (fst (mon_budget m1)) = EnforcementLevel.RESTRICT"
      by (simp add: consume_tokens_def record_consumption_def Let_def new_monitor_def new_tracker_def consume_def
          compute_enforcement_level_def consumed_pct_def level_for_def py_round_def round_half_even_def)
    have "m' = snd (enforce_if_needed log_env \<lparr>mo_now = 0, mo_db_up = True\<rparr> EnforcementLevel.RESTRICT m1)"
      by (simp add: m'_def handle_agent_completed_def p chain_run int_field_def float_field_def m1(1))
    then show ?thesis
      using enforce_if_needed_log [of m1 EnforcementLevel.RESTRICT "\<lparr>mo_now = 0, mo_db_up = True\<rparr>"] m1(2,3)
      by (simp add: new_monitor_def new_enforcer_def small_config_def default_gov_config_def
          model_tier_of_def all_model_tier_def parse_enum_def)
  qed
  have c: "restrict_max_tier (ef_config (mon_enforcer (new_monitor small_config True []))) = ''tier_3''"
    by (simp add: new_monitor_def new_enforcer_def small_config_def default_gov_config_def)
  show ?thesis
    using level_enforced_each_event [OF m'_def c [symmetric]] p l unfolding m'_def [symmetric]
    by (simp add: model_tier_of_def all_model_tier_def parse_enum_def) (simp add: new_monitor_def new_enforcer_def)
qed

end
