(* ===== verification/Rate_Limiter.thy ===== *)
theory Rate_Limiter
  imports Json
begin

text \<open>
  The dual token bucket of the LLM client (\<^verbatim>\<open>architect_llm/rate_limiter.py\<close>).

  \<open>poll\<close> is one pass of the loop in \<^verbatim>\<open>acquire\<close>, which the lock makes atomic. The
  monotonic clock is an argument. \<open>acquire\<close> is the loop of one caller: the sleep
  takes the computed time and \<open>late k\<close> seconds more the \<open>k\<close>-th time. It may run forever,
  which is the value \<open>None\<close>.
\<close>

record limiter =
  max_tokens_pm :: int
  max_requests_pm :: int
  available_tokens :: rat
  available_requests :: rat
  last_refill :: rat

definition new_limiter :: "int \<Rightarrow> int \<Rightarrow> rat \<Rightarrow> limiter" where
  "new_limiter tokens requests now =
     \<lparr>max_tokens_pm = tokens, max_requests_pm = requests, available_tokens = of_int tokens,
      available_requests = of_int requests, last_refill = now\<rparr>"

definition refill :: "rat \<Rightarrow> limiter \<Rightarrow> limiter" where
  "refill now s =
     (let elapsed_minutes = (now - last_refill s) / 60
      in s\<lparr>last_refill := now,
           available_tokens := min (of_int (max_tokens_pm s))
             (available_tokens s + elapsed_minutes * of_int (max_tokens_pm s)),
           available_requests := min (of_int (max_requests_pm s))
             (available_requests s + elapsed_minutes * of_int (max_requests_pm s))\<rparr>)"

datatype poll_result =
    Granted
  | Wait rat

text \<open>The wait for one bucket; dividing by a zero limit raises.\<close>

definition bucket_wait :: "rat \<Rightarrow> rat \<Rightarrow> int \<Rightarrow> exn + rat" where
  "bucket_wait need available limit =
     (if available < need
      then if limit = 0 then Inl ZeroDivisionError else Inr ((need - available) / of_int limit * 60)
      else Inr 0)"

definition poll :: "int \<Rightarrow> rat \<Rightarrow> (exn, limiter, poll_result) op" where
  "poll est now = (\<lambda>s0.
     let s = refill now s0
     in if of_int est \<le> available_tokens s \<and> 1 \<le> available_requests s
        then (Inr Granted, s\<lparr>available_tokens := available_tokens s - of_int est,
                             available_requests := available_requests s - 1\<rparr>)
        else (bind_sum (bucket_wait (of_int est) (available_tokens s) (max_tokens_pm s)) (\<lambda>wait_tokens.
              bind_sum (bucket_wait 1 (available_requests s) (max_requests_pm s)) (\<lambda>wait_requests.
              Inr (Wait (max (max wait_tokens wait_requests) (1 / 100))))), s))"

text \<open>The result: the time of the grant, or the exception, with the buckets.\<close>

partial_function (option) acquire ::
    "(nat \<Rightarrow> rat) \<Rightarrow> int \<Rightarrow> nat \<Rightarrow> rat \<Rightarrow> limiter \<Rightarrow> ((exn + rat) \<times> limiter) option" where
  "acquire late est k now s =
     (case poll est now s of
        (Inl e, s') \<Rightarrow> Some (Inl e, s')
      | (Inr Granted, s') \<Rightarrow> Some (Inr now, s')
      | (Inr (Wait w), s') \<Rightarrow> acquire late est (Suc k) (now + w + late k) s')"

section \<open>The buckets\<close>

definition limiter_ok :: "limiter \<Rightarrow> bool" where
  "limiter_ok s \<longleftrightarrow> 0 \<le> max_tokens_pm s \<and> 0 \<le> max_requests_pm s \<and>
     0 \<le> available_tokens s \<and> available_tokens s \<le> of_int (max_tokens_pm s) \<and>
     0 \<le> available_requests s \<and> available_requests s \<le> of_int (max_requests_pm s)"

lemma refill_simps [simp]:
  "max_tokens_pm (refill now s) = max_tokens_pm s" "max_requests_pm (refill now s) = max_requests_pm s"
  "last_refill (refill now s) = now"
  by (simp_all add: refill_def Let_def)

lemma poll_simps:
  "max_tokens_pm (snd (poll est now s)) = max_tokens_pm s" "max_requests_pm (snd (poll est now s)) = max_requests_pm s"
  "last_refill (snd (poll est now s)) = now"
  by (simp_all add: poll_def Let_def)

lemma refill_ok: "limiter_ok s \<Longrightarrow> last_refill s \<le> now \<Longrightarrow> limiter_ok (refill now s)"
  by (simp add: limiter_ok_def refill_def Let_def)

lemma poll_ok: "limiter_ok s \<Longrightarrow> last_refill s \<le> now \<Longrightarrow> 0 \<le> est \<Longrightarrow> limiter_ok (snd (poll est now s))"
  using refill_ok [of s now] by (auto simp: poll_def Let_def limiter_ok_def)

lemma new_limiter_ok: "0 \<le> tokens \<Longrightarrow> 0 \<le> requests \<Longrightarrow> limiter_ok (new_limiter tokens requests now)"
  by (simp add: limiter_ok_def new_limiter_def)

lemma refill_tokens_le:
  "available_tokens (refill now s) \<le> available_tokens s + (now - last_refill s) / 60 * of_int (max_tokens_pm s)"
  "available_requests (refill now s) \<le> available_requests s + (now - last_refill s) / 60 * of_int (max_requests_pm s)"
  by (simp_all add: refill_def Let_def)

section \<open>Any number of callers\<close>

text \<open>
  The polls of all callers in the order in which they get the lock: time and estimate. What
  is granted is counted.
\<close>

definition granted :: "(exn + poll_result) \<Rightarrow> bool" where
  "granted r \<longleftrightarrow> r = Inr Granted"

fun polls :: "(rat \<times> int) list \<Rightarrow> limiter \<Rightarrow> int \<times> nat \<times> limiter" where
  "polls [] s = (0, 0, s)"
| "polls ((now, est) # ps) s =
     (case poll est now s of (r, s') \<Rightarrow>
      case polls ps s' of (tokens, requests, s'') \<Rightarrow>
        if granted r then (tokens + est, requests + 1, s'') else (tokens, requests, s''))"

definition in_order :: "rat \<Rightarrow> (rat \<times> int) list \<Rightarrow> bool" where
  "in_order t ps \<longleftrightarrow> sorted (t # map fst ps) \<and> list_all (\<lambda>p. 0 \<le> snd p) ps"

lemma in_order_Cons: "in_order t ((now, est) # ps) \<longleftrightarrow> t \<le> now \<and> 0 \<le> est \<and> in_order now ps"
  by (auto simp: in_order_def)

lemma poll_budget:
  assumes "poll est now s = (r, s')" and "limiter_ok s"
  shows "(if granted r then of_int est else 0) + available_tokens s' \<le>
      available_tokens s + (now - last_refill s) / 60 * of_int (max_tokens_pm s)"
    and "(if granted r then 1 else 0) + available_requests s' \<le>
      available_requests s + (now - last_refill s) / 60 * of_int (max_requests_pm s)"
  using refill_tokens_le [of now s] assms
  by (auto simp: poll_def Let_def granted_def bind_sum_Inr split: if_splits)

lemma polls_budget:
  assumes "limiter_ok s" and "in_order (last_refill s) ps" and "polls ps s = (tokens, requests, s')"
  shows "of_int tokens + available_tokens s' \<le>
      available_tokens s + (last_refill s' - last_refill s) / 60 * of_int (max_tokens_pm s) \<and>
    of_nat requests + available_requests s' \<le>
      available_requests s + (last_refill s' - last_refill s) / 60 * of_int (max_requests_pm s) \<and>
    limiter_ok s' \<and> last_refill s' = last (last_refill s # map fst ps)"
  using assms
proof (induction ps arbitrary: s tokens requests)
  case (Cons p ps)
  obtain now est where p: "p = (now, est)" by (cases p)
  obtain r s1 where r: "poll est now s = (r, s1)" by (cases "poll est now s")
  have s1: "max_tokens_pm s1 = max_tokens_pm s" "max_requests_pm s1 = max_requests_pm s" "last_refill s1 = now"
    using poll_simps [of est now s] by (simp_all add: r)
  have ord: "last_refill s \<le> now" "0 \<le> est" "in_order (last_refill s1) ps"
    using Cons.prems(2) by (simp_all add: p in_order_Cons s1)
  have ok: "limiter_ok s1" using poll_ok [OF Cons.prems(1) ord(1,2)] by (simp add: r)
  obtain t1 q1 where rest: "polls ps s1 = (t1, q1, s')" using Cons.prems(3) by (cases "polls ps s1") (auto simp: p r split: if_splits)
  have tq: "tokens = t1 + (if granted r then est else 0)" "requests = q1 + (if granted r then 1 else 0)"
    using Cons.prems(3) by (auto simp: p r rest split: if_splits)
  note IH = Cons.IH [OF ok ord(3) rest, unfolded s1]
  have split: "(last_refill s' - now) / 60 * m + (now - last_refill s) / 60 * m = (last_refill s' - last_refill s) / 60 * m" for m :: rat
    by (simp add: algebra_simps add_divide_distrib diff_divide_distrib)
  show ?case
    using IH poll_budget [OF r Cons.prems(1)] split [of "of_int (max_tokens_pm s)"] split [of "of_int (max_requests_pm s)"]
    by (auto simp: tq p s1 split: if_splits)
qed simp

section \<open>One caller\<close>

lemma bucket_wait_enough:
  assumes "bucket_wait need a m = Inr w" and "0 \<le> m" and "need \<le> of_int m" and "w \<le> d"
  shows "need \<le> min (of_int m) (a + d / 60 * of_int m)"
proof (cases "a < need")
  case True
  with assms(1) have m: "m \<noteq> 0" and w: "w = (need - a) / of_int m * 60"
    by (auto simp: bucket_wait_def split: if_splits)
  have pos: "0 < (of_int m :: rat)" using m assms(2) by simp
  have "x * 60 / 60 = x" for x :: rat by simp
  from this [of "(need - a) / of_int m"] have "w / 60 = (need - a) / of_int m" by (simp only: w)
  then have "w / 60 * of_int m = need - a" using pos by (simp only:) simp
  then have "a + w / 60 * of_int m = a + (need - a)" by (simp only:)
  then have "need = a + w / 60 * of_int m" by (simp only: add_diff_cancel_left' add.commute [of a] diff_add_cancel)
  also have "\<dots> \<le> a + d / 60 * of_int m" using pos assms(4) by (simp add: mult_right_mono divide_right_mono)
  finally show ?thesis using assms(3) by simp
next
  case False
  with assms(1) have "w = 0" by (simp add: bucket_wait_def)
  then have "0 \<le> d / 60 * of_int m" using assms(2,4) by simp
  with False assms(3) show ?thesis by simp
qed

lemma bucket_wait_le:
  assumes "bucket_wait need a m = Inr w" and "0 \<le> a" and "0 \<le> m" and "need \<le> of_int m"
  shows "w \<le> 60"
proof (cases "a < need")
  case True
  with assms(1) have m: "m \<noteq> 0" and w: "w = (need - a) / of_int m * 60"
    by (auto simp: bucket_wait_def split: if_splits)
  have pos: "0 < (of_int m :: rat)" using m assms(3) by simp
  have "(need - a) / of_int m \<le> 1" using pos assms(2,4) by (simp add: divide_le_eq)
  then have "60 * ((need - a) / of_int m) \<le> 60" by linarith
  then show ?thesis by (simp only: w mult.commute)
qed (use assms(1) in \<open>simp add: bucket_wait_def\<close>)

lemma bucket_wait_ok: "0 < m \<Longrightarrow> \<exists>w. bucket_wait need a m = Inr w"
  by (simp add: bucket_wait_def)

lemma poll_wait:
  assumes "limiter_ok s" and "0 < max_tokens_pm s" and "1 \<le> max_requests_pm s"
    and "fst (poll est now s) \<noteq> Inr Granted"
  obtains wt wr where "poll est now s = (Inr (Wait (max (max wt wr) (1 / 100))), refill now s)"
    and "bucket_wait (of_int est) (available_tokens (refill now s)) (max_tokens_pm s) = Inr wt"
    and "bucket_wait 1 (available_requests (refill now s)) (max_requests_pm s) = Inr wr"
proof -
  obtain wt where wt: "bucket_wait (of_int est) (available_tokens (refill now s)) (max_tokens_pm s) = Inr wt"
    using bucket_wait_ok [OF assms(2)] by blast
  have "0 < max_requests_pm s" using assms(3) by simp
  then obtain wr where wr: "bucket_wait 1 (available_requests (refill now s)) (max_requests_pm s) = Inr wr"
    using bucket_wait_ok by blast
  have "poll est now s = (Inr (Wait (max (max wt wr) (1 / 100))), refill now s)"
    using assms(4) by (auto simp: poll_def Let_def wt wr split: if_splits)
  with wt wr show ?thesis using that by blast
qed

lemma refill_twice:
  "available_tokens (refill (now + w + d) (refill now s)) =
     min (of_int (max_tokens_pm s)) (available_tokens (refill now s) + (w + d) / 60 * of_int (max_tokens_pm s))"
  "available_requests (refill (now + w + d) (refill now s)) =
     min (of_int (max_requests_pm s)) (available_requests (refill now s) + (w + d) / 60 * of_int (max_requests_pm s))"
  by (simp_all add: refill_def [of "now + w + d"] Let_def)

lemma second_poll_grants:
  assumes "limiter_ok s" and "last_refill s \<le> now" and "0 < max_tokens_pm s" and "est \<le> max_tokens_pm s"
    and "1 \<le> max_requests_pm s" and "poll est now s = (Inr (Wait w), s1)" and "0 \<le> d"
  shows "fst (poll est (now + w + d) s1) = Inr Granted \<and> w \<le> 60"
proof -
  have ng: "fst (poll est now s) \<noteq> Inr Granted" using assms(6) by simp
  obtain wt wr where eq: "poll est now s = (Inr (Wait (max (max wt wr) (1 / 100))), refill now s)"
    and wt: "bucket_wait (of_int est) (available_tokens (refill now s)) (max_tokens_pm s) = Inr wt"
    and wr: "bucket_wait 1 (available_requests (refill now s)) (max_requests_pm s) = Inr wr"
    by (rule poll_wait [OF assms(1,3,5) ng])
  have s1: "s1 = refill now s" and w: "w = max (max wt wr) (1 / 100)" using assms(6) eq by auto
  have ok: "limiter_ok (refill now s)" by (rule refill_ok [OF assms(1,2)])
  have le: "(of_int est :: rat) \<le> of_int (max_tokens_pm s)" "(1 :: rat) \<le> of_int (max_requests_pm s)"
    "0 \<le> max_tokens_pm s" "0 \<le> max_requests_pm s"
    using assms(3-5) by simp_all
  have t: "wt \<le> w + d" "wr \<le> w + d" using assms(7) by (simp_all add: w)
  have "of_int est \<le> available_tokens (refill (now + w + d) s1)"
    using bucket_wait_enough [OF wt le(3,1) t(1)] by (simp add: s1 refill_twice)
  moreover have "1 \<le> available_requests (refill (now + w + d) s1)"
    using bucket_wait_enough [OF wr le(4,2) t(2)] by (simp add: s1 refill_twice)
  moreover have "w \<le> 60"
    using bucket_wait_le [OF wt _ le(3,1)] bucket_wait_le [OF wr _ le(4,2)] ok by (simp add: w limiter_ok_def)
  ultimately show ?thesis by (simp add: poll_def Let_def)
qed

lemma acquire_returns:
  assumes "limiter_ok s" and "last_refill s \<le> now" and "0 < max_tokens_pm s" and "est \<le> max_tokens_pm s"
    and "1 \<le> max_requests_pm s" and "0 \<le> late k"
  shows "\<exists>t s'. acquire late est k now s = Some (Inr t, s') \<and> now \<le> t \<and> t \<le> now + 60 + late k"
proof (cases "fst (poll est now s) = Inr Granted")
  case True
  then have "acquire late est k now s = Some (Inr now, snd (poll est now s))"
    by (cases "poll est now s") (simp add: acquire.simps [of late est k])
  with assms(6) show ?thesis by simp
next
  case False
  obtain wt wr where eq: "poll est now s = (Inr (Wait (max (max wt wr) (1 / 100))), refill now s)"
    by (rule poll_wait [OF assms(1,3,5) False])
  define w where "w = max (max wt wr) (1 / 100)"
  have eq: "poll est now s = (Inr (Wait w), refill now s)" using eq by (simp add: w_def)
  have g: "fst (poll est (now + w + late k) (refill now s)) = Inr Granted" and w: "w \<le> 60"
    using second_poll_grants [OF assms(1-5) eq assms(6)] by simp_all
  have "acquire late est k now s = acquire late est (Suc k) (now + w + late k) (refill now s)"
    by (simp add: acquire.simps [of late est k] eq)
  also have "\<dots> = Some (Inr (now + w + late k), snd (poll est (now + w + late k) (refill now s)))"
    using g by (cases "poll est (now + w + late k) (refill now s)") (simp add: acquire.simps [of late est "Suc k"])
  finally have run: "acquire late est k now s = Some (Inr (now + w + late k), snd (poll est (now + w + late k) (refill now s)))" .
  have "0 \<le> w" by (simp add: w_def max_def)
  with run assms(6) w show ?thesis by simp
qed

lemma poll_too_big:
  assumes "max_tokens_pm s < est"
  shows "poll est now s = (Inl ZeroDivisionError, refill now s) \<or>
    (\<exists>w. poll est now s = (Inr (Wait w), refill now s))"
proof -
  have "available_tokens (refill now s) \<le> of_int (max_tokens_pm s)" by (simp add: refill_def Let_def)
  moreover have "(of_int (max_tokens_pm s) :: rat) < of_int est" using assms by simp
  ultimately have "\<not> of_int est \<le> available_tokens (refill now s)" by linarith
  then show ?thesis by (auto simp: poll_def Let_def bucket_wait_def)
qed

lemma acquire_never:
  assumes "0 < max_tokens_pm s" and "max_tokens_pm s < est" and "0 < max_requests_pm s"
  shows "acquire late est k now s = None"
proof -
  define P where "P = (\<lambda>(late :: nat \<Rightarrow> rat) est (k :: nat) (now :: rat) (s :: limiter) (y :: (exn + rat) \<times> limiter).
    \<not> (0 < max_tokens_pm s \<and> max_tokens_pm s < est \<and> 0 < max_requests_pm s))"
  have "P late est k now s y" if "acquire late est k now s = Some y" for y
  proof (rule acquire.raw_induct [of P, OF _ that])
    fix acq late est k now s y
    assume IH: "\<And>late est k now s y. acq late est k now s = Some y \<Longrightarrow> P late est k now s y"
      and run: "(case poll est now s of (Inl e, s') \<Rightarrow> Some (Inl e, s')
        | (Inr Granted, s') \<Rightarrow> Some (Inr now, s')
        | (Inr (Wait w), s') \<Rightarrow> acq late est (Suc k) (now + w + late k) s') = Some y"
    show "P late est k now s y"
      unfolding P_def
    proof
      assume h: "0 < max_tokens_pm s \<and> max_tokens_pm s < est \<and> 0 < max_requests_pm s"
      then have "poll est now s \<noteq> (Inl ZeroDivisionError, refill now s)"
        by (auto simp: poll_def Let_def bucket_wait_def)
      then obtain w where "acq late est (Suc k) (now + w + late k) (refill now s) = Some y"
        using poll_too_big [of s est now] h run by auto
      from IH [OF this] h show False by (simp add: P_def)
    qed
  qed
  with assms show ?thesis by (cases "acquire late est k now s") (auto simp: P_def)
qed

end
