(* ===== verification/Cost_Tracker.thy ===== *)
theory Cost_Tracker
  imports Json
begin

text \<open>
  Cost accounting of the LLM client (\<^verbatim>\<open>architect_llm/cost_tracker.py\<close>). Prices and
  costs are exact rationals. The guard raises when the projected spend exceeds the limit;
  with a limit of zero and nothing spent, the ratio behind the warnings divides by zero.
\<close>

definition model_pricing :: "(string \<times> (rat \<times> rat)) list" where
  "model_pricing =
     [(''claude-opus-4'', (15 / 1000000, 75 / 1000000)),
      (''claude-sonnet-4'', (3 / 1000000, 15 / 1000000)),
      (''claude-haiku-3'', (25 / 100000000, 125 / 100000000))]"

definition default_pricing :: "rat \<times> rat" where
  "default_pricing = (3 / 1000000, 15 / 1000000)"

definition starts_with :: "string \<Rightarrow> string \<Rightarrow> bool" where
  "starts_with s p \<longleftrightarrow> take (length p) s = p"

definition resolve_pricing :: "string \<Rightarrow> rat \<times> rat" where
  "resolve_pricing model =
     (case find (\<lambda>(prefix, pricing). starts_with model prefix) model_pricing of
        Some (prefix, pricing) \<Rightarrow> pricing
      | None \<Rightarrow> default_pricing)"

definition token_cost :: "string \<Rightarrow> int \<Rightarrow> int \<Rightarrow> rat" where
  "token_cost model input_tokens output_tokens =
     of_int input_tokens * fst (resolve_pricing model) + of_int output_tokens * snd (resolve_pricing model)"

record model_acc =
  ma_input :: int
  ma_output :: int
  ma_cost :: rat
  ma_requests :: int

definition new_acc :: model_acc where
  "new_acc = \<lparr>ma_input = 0, ma_output = 0, ma_cost = 0, ma_requests = 0\<rparr>"

record cost_tracker =
  ct_models :: "(string \<times> model_acc) list"
  max_budget_usd :: "rat option"
  warn_thresholds :: "rat \<times> rat"
  warned_thresholds :: "rat list"

definition new_cost_tracker :: "rat option \<Rightarrow> cost_tracker" where
  "new_cost_tracker limit =
     \<lparr>ct_models = [], max_budget_usd = limit, warn_thresholds = (3 / 4, 9 / 10), warned_thresholds = []\<rparr>"

definition record_call :: "string \<Rightarrow> int \<Rightarrow> int \<Rightarrow> cost_tracker \<Rightarrow> rat \<times> cost_tracker" where
  "record_call model input_tokens output_tokens s =
     (let cost = token_cost model input_tokens output_tokens;
          acc = get_or new_acc (ct_models s) model
      in (cost, s\<lparr>ct_models := AList.update model
           (acc\<lparr>ma_input := ma_input acc + input_tokens, ma_output := ma_output acc + output_tokens,
                ma_cost := ma_cost acc + cost, ma_requests := ma_requests acc + 1\<rparr>) (ct_models s)\<rparr>))"

definition total_cost :: "cost_tracker \<Rightarrow> rat" where
  "total_cost s = sum_list (map (\<lambda>(m, acc). ma_cost acc) (ct_models s))"

definition total_tokens_used :: "cost_tracker \<Rightarrow> int" where
  "total_tokens_used s = sum_list (map (\<lambda>(m, acc). ma_input acc + ma_output acc) (ct_models s))"

definition check_budget :: "rat \<Rightarrow> (exn, cost_tracker, unit) op" where
  "check_budget estimate = (\<lambda>s. case max_budget_usd s of
      None \<Rightarrow> (Inr (), s)
    | Some limit \<Rightarrow>
        if limit < total_cost s + estimate then (Inl (BudgetExceededError ''Budget exceeded''), s)
        else if limit = 0 then (Inl ZeroDivisionError, s)
        else
          let ratio = total_cost s / limit; warn = fst (warn_thresholds s); urgent = snd (warn_thresholds s)
          in if urgent \<le> ratio \<and> urgent \<notin> set (warned_thresholds s)
             then (Inr (), s\<lparr>warned_thresholds := urgent # warned_thresholds s\<rparr>)
             else if warn \<le> ratio \<and> warn \<notin> set (warned_thresholds s)
             then (Inr (), s\<lparr>warned_thresholds := warn # warned_thresholds s\<rparr>)
             else (Inr (), s))"

definition get_breakdown :: "cost_tracker \<Rightarrow> (string \<times> model_acc) list" where
  "get_breakdown s = ct_models s"

section \<open>The totals\<close>

lemma sum_update:
  fixes g :: "'v \<Rightarrow> 'n :: ab_group_add"
  assumes "distinct (keys d)" and "g u = 0"
  shows "sum_list (map (\<lambda>(k, v). g v) (AList.update k w d)) =
    sum_list (map (\<lambda>(k, v). g v) d) - g (get_or u d k) + g w"
  using assms(1)
proof (induction d)
  case Nil
  then show ?case by (simp add: get_or_def assms(2))
next
  case (Cons p d)
  then show ?case by (cases p) (auto simp: get_or_def algebra_simps)
qed

lemma record_call_total:
  "distinct (keys (ct_models s)) \<Longrightarrow>
     total_cost (snd (record_call m i out s)) = total_cost s + token_cost m i out \<and>
     total_tokens_used (snd (record_call m i out s)) = total_tokens_used s + i + out"
  using sum_update [of "ct_models s" ma_cost new_acc m] sum_update [of "ct_models s" "\<lambda>a. ma_input a + ma_output a" new_acc m]
  by (simp add: record_call_def Let_def total_cost_def total_tokens_used_def new_acc_def)

lemma record_call_keys: "distinct (keys (ct_models s)) \<Longrightarrow> distinct (keys (ct_models (snd (record_call m i out s))))"
  by (simp add: record_call_def Let_def)

lemma record_call_budget [simp]: "max_budget_usd (snd (record_call m i out s)) = max_budget_usd s"
  by (simp add: record_call_def Let_def)

lemma check_budget_models:
  "ct_models (snd (check_budget e s)) = ct_models s" "max_budget_usd (snd (check_budget e s)) = max_budget_usd s"
  "warn_thresholds (snd (check_budget e s)) = warn_thresholds s"
  by (simp_all add: check_budget_def Let_def split: option.splits)

lemma check_budget_total [simp]: "total_cost (snd (check_budget e s)) = total_cost s"
  by (simp add: total_cost_def check_budget_models)

lemma check_budget_passes:
  "fst (check_budget e s) = Inr () \<longleftrightarrow>
     (case max_budget_usd s of None \<Rightarrow> True | Some l \<Rightarrow> total_cost s + e \<le> l \<and> l \<noteq> 0)"
  by (auto simp: check_budget_def Let_def split: option.splits)

lemma resolve_pricing_nonneg: "0 \<le> fst (resolve_pricing m) \<and> 0 \<le> snd (resolve_pricing m)"
  by (simp add: resolve_pricing_def model_pricing_def default_pricing_def split: option.splits)

lemma token_cost_nonneg: "0 \<le> i \<Longrightarrow> 0 \<le> out \<Longrightarrow> 0 \<le> token_cost m i out"
  using resolve_pricing_nonneg [of m] by (simp add: token_cost_def)

end
