(* ===== verification/LLM_Client.thy ===== *)
theory LLM_Client
  imports Rate_Limiter Cost_Tracker
begin

text \<open>
  The LLM client (\<^verbatim>\<open>architect_llm/client.py\<close>). The Anthropic SDK call is the
  parameter \<open>api_create\<close> over an unknown state; it raises one of the three error classes the code
  handles, or any other exception, which escapes. A request carries the lengths of the
  printed message contents, from which the code estimates tokens.
\<close>

datatype api_error =
    RateLimitError
  | APIStatusError int
  | APIConnectionError
  | OtherError exn

datatype content_block =
    TextBlock string
  | ToolUseBlock json
  | OtherBlock

record message =
  msg_blocks :: "content_block list"
  msg_input_tokens :: int
  msg_output_tokens :: int
  msg_stop_reason :: "string option"

record llm_request =
  rq_model_id :: string
  rq_max_tokens :: int
  rq_content_lengths :: "nat list"

record llm_response =
  rs_content :: string
  rs_model_id :: string
  rs_input_tokens :: int
  rs_output_tokens :: int
  rs_stop_reason :: string
  rs_tool_calls :: "json list option"

record 'w llm_env =
  api_create :: "string \<Rightarrow> llm_request \<Rightarrow> (api_error, 'w, message) op"
  default_model :: string
  max_retries_llm :: nat
  max_tool_calls :: nat

record 'w client =
  cl_cost :: cost_tracker
  cl_world :: 'w

text \<open>Joining the text blocks with newlines.\<close>

fun join_lines :: "string list \<Rightarrow> string" where
  "join_lines [] = []"
| "join_lines [s] = s"
| "join_lines (s # ss) = s @ CHR 0x0A # join_lines ss"

definition text_parts :: "content_block list \<Rightarrow> string list" where
  "text_parts bs = concat (map (\<lambda>b. case b of TextBlock t \<Rightarrow> [t] | _ \<Rightarrow> []) bs)"

definition tool_uses :: "content_block list \<Rightarrow> json list" where
  "tool_uses bs = concat (map (\<lambda>b. case b of ToolUseBlock j \<Rightarrow> [j] | _ \<Rightarrow> []) bs)"

text \<open>The cost is recorded before the response is looked at.\<close>

definition parse_response :: "string \<Rightarrow> message \<Rightarrow> (exn, 'w client, llm_response) op" where
  "parse_response model m =
     chain (writes (\<lambda>s. s\<lparr>cl_cost := snd (record_call model (msg_input_tokens m) (msg_output_tokens m) (cl_cost s))\<rparr>)) (\<lambda>_.
     let content = join_lines (text_parts (msg_blocks m)); tools = tool_uses (msg_blocks m)
     in if content = [] \<and> tools = [] then raise (LLMResponseError ''Empty response from model'')
        else ret \<lparr>rs_content = content, rs_model_id = model, rs_input_tokens = msg_input_tokens m,
          rs_output_tokens = msg_output_tokens m,
          rs_stop_reason = (case msg_stop_reason m of None \<Rightarrow> ''unknown'' | Some r \<Rightarrow> if r = [] then ''unknown'' else r),
          rs_tool_calls = (if tools = [] then None else Some tools)\<rparr>)"

definition on_cost :: "(exn, cost_tracker, 'a) op \<Rightarrow> (exn, 'w client, 'a) op" where
  "on_cost = zoom cl_cost (\<lambda>c s. s\<lparr>cl_cost := c\<rparr>)"

text \<open>The outcome of one attempt: the response, or the SDK's error.\<close>

definition create_message :: "'w llm_env \<Rightarrow> string \<Rightarrow> llm_request \<Rightarrow> (exn, 'w client, api_error + message) op" where
  "create_message env model rq = (\<lambda>s. case api_create env model rq (cl_world s) of
      (r, w) \<Rightarrow> (Inr r, s\<lparr>cl_world := w\<rparr>))"

definition accept_message :: "'w llm_env \<Rightarrow> string \<Rightarrow> message \<Rightarrow> (exn, 'w client, llm_response) op" where
  "accept_message env model m =
     chain (parse_response model m) (\<lambda>r.
     case rs_tool_calls r of
       Some tools \<Rightarrow>
         if max_tool_calls env < length tools
         then raise (BudgetExceededError ''too many tool calls'') else ret r
     | None \<Rightarrow> ret r)"

text \<open>The exception raised when there is no further attempt.\<close>

definition final_error :: "api_error \<Rightarrow> exn" where
  "final_error e = (case e of
      RateLimitError \<Rightarrow> LLMRateLimitError ''Rate limit exceeded''
    | APIStatusError code \<Rightarrow> LLMError ''API error''
    | APIConnectionError \<Rightarrow> LLMError ''Failed to connect to Anthropic API''
    | OtherError x \<Rightarrow> x)"

definition retryable :: "api_error \<Rightarrow> bool" where
  "retryable e = (case e of RateLimitError \<Rightarrow> True | APIStatusError code \<Rightarrow> 500 \<le> code
     | APIConnectionError \<Rightarrow> True | OtherError x \<Rightarrow> False)"

text \<open>\<open>n\<close> attempts are left.\<close>

fun attempts :: "'w llm_env \<Rightarrow> string \<Rightarrow> llm_request \<Rightarrow> nat \<Rightarrow> (exn, 'w client, llm_response) op" where
  "attempts env model rq 0 = raise (LLMError ''Exhausted retries'')"
| "attempts env model rq (Suc n) =
     chain (create_message env model rq) (\<lambda>r.
     case r of
       Inr m \<Rightarrow> accept_message env model m
     | Inl e \<Rightarrow>
         if retryable e \<and> n \<noteq> 0
         then chain (on_cost (check_budget 0)) (\<lambda>_. attempts env model rq n)
         else raise (final_error e))"

definition estimated_input :: "llm_request \<Rightarrow> int" where
  "estimated_input rq = sum_list (map (\<lambda>n. int n div 4) (rq_content_lengths rq))"

definition request_model :: "'w llm_env \<Rightarrow> llm_request \<Rightarrow> string" where
  "request_model env rq = (if rq_model_id rq = [] then default_model env else rq_model_id rq)"

definition estimated_cost :: "'w llm_env \<Rightarrow> llm_request \<Rightarrow> rat" where
  "estimated_cost env rq = token_cost (request_model env rq) (estimated_input rq) (rq_max_tokens rq)"

text \<open>
  The whole call. \<open>None\<close>: the rate limiter waits forever. A refused budget check takes nothing
  from the buckets.
\<close>

definition generate :: "'w llm_env \<Rightarrow> (nat \<Rightarrow> rat) \<Rightarrow> rat \<Rightarrow> llm_request \<Rightarrow> limiter \<Rightarrow> 'w client \<Rightarrow>
    ((exn + llm_response) \<times> limiter \<times> 'w client) option" where
  "generate env late now rq l s =
     (case on_cost (check_budget (estimated_cost env rq)) s of
        (Inl e, s') \<Rightarrow> Some (Inl e, l, s')
      | (Inr _, s') \<Rightarrow>
          (case acquire late (rq_max_tokens rq + estimated_input rq) 0 now l of
             None \<Rightarrow> None
           | Some (Inl e, l') \<Rightarrow> Some (Inl e, l', s')
           | Some (Inr t, l') \<Rightarrow>
               (case attempts env (request_model env rq) rq (max_retries_llm env) s' of
                  (r, s'') \<Rightarrow> Some (r, l', s''))))"

record token_usage =
  tu_input :: int
  tu_output :: int
  tu_total :: int
  tu_cost :: rat

definition total_usage :: "'w client \<Rightarrow> token_usage" where
  "total_usage s =
     (let d = get_breakdown (cl_cost s);
          i = sum_list (map (\<lambda>(m, a). ma_input a) d); out = sum_list (map (\<lambda>(m, a). ma_output a) d)
      in \<lparr>tu_input = i, tu_output = out, tu_total = i + out, tu_cost = total_cost (cl_cost s)\<rparr>)"

section \<open>What an attempt does to the costs\<close>

definition spent :: "'w client \<Rightarrow> rat" where
  "spent s = total_cost (cl_cost s)"

definition costs_ok :: "'w client \<Rightarrow> bool" where
  "costs_ok s \<longleftrightarrow> distinct (keys (ct_models (cl_cost s)))"

lemma accept_message_cost:
  "cl_cost (snd (accept_message env model m s)) = snd (record_call model (msg_input_tokens m) (msg_output_tokens m) (cl_cost s)) \<and>
   cl_world (snd (accept_message env model m s)) = cl_world s"
  by (simp add: accept_message_def parse_response_def op_simps Let_def split: option.splits)

lemma on_cost_check:
  "on_cost (check_budget e) s = (fst (check_budget e (cl_cost s)), s\<lparr>cl_cost := snd (check_budget e (cl_cost s))\<rparr>)"
  by (simp add: on_cost_def op_simps split: prod.splits)

lemma create_message_run:
  "create_message env model rq s = (Inr (fst (api_create env model rq (cl_world s))),
     s\<lparr>cl_world := snd (api_create env model rq (cl_world s))\<rparr>)"
  by (simp add: create_message_def split: prod.splits)

text \<open>One bound on the cost of a message bounds the cost of all attempts: at most one counts.\<close>

lemma attempts_cost:
  assumes "\<And>w m w'. api_create env model rq w = (Inr m, w') \<Longrightarrow> token_cost model (msg_input_tokens m) (msg_output_tokens m) \<le> c"
    and "0 \<le> c" and "costs_ok s"
  shows "spent (snd (attempts env model rq n s)) \<le> spent s + c \<and> costs_ok (snd (attempts env model rq n s)) \<and>
    max_budget_usd (cl_cost (snd (attempts env model rq n s))) = max_budget_usd (cl_cost s)"
  using assms(3)
proof (induction n arbitrary: s)
  case (Suc n)
  obtain r w where call: "api_create env model rq (cl_world s) = (r, w)" by (cases "api_create env model rq (cl_world s)")
  define s1 where "s1 = s\<lparr>cl_world := w\<rparr>"
  have s1: "spent s1 = spent s" "costs_ok s1" "cl_cost s1 = cl_cost s" using Suc.prems by (simp_all add: s1_def spent_def costs_ok_def)
  show ?case
  proof (cases r)
    case (Inr m)
    then have run: "attempts env model rq (Suc n) s = accept_message env model m s1"
      by (simp add: chain_run create_message_run call s1_def)
    have "distinct (keys (ct_models (cl_cost s1)))" using s1(2) by (simp add: costs_ok_def)
    from record_call_total [OF this, of model "msg_input_tokens m" "msg_output_tokens m"]
      record_call_keys [OF this, of model "msg_input_tokens m" "msg_output_tokens m"]
    show ?thesis
      using assms(1) [OF call [unfolded Inr]] s1 accept_message_cost [of env model m s1]
      unfolding run by (simp add: spent_def costs_ok_def record_call_budget)
  next
    case (Inl e)
    define s2 where "s2 = s1\<lparr>cl_cost := snd (check_budget 0 (cl_cost s1))\<rparr>"
    have s2: "spent s2 = spent s" "costs_ok s2" "max_budget_usd (cl_cost s2) = max_budget_usd (cl_cost s)"
      using s1 by (simp_all add: s2_def spent_def costs_ok_def check_budget_models)
    have run: "attempts env model rq (Suc n) s =
        (if retryable e \<and> n \<noteq> 0
         then (case fst (check_budget 0 (cl_cost s1)) of Inl x \<Rightarrow> (Inl x, s2) | Inr _ \<Rightarrow> attempts env model rq n s2)
         else (Inl (final_error e), s1))"
      by (simp add: chain_run create_message_run call s1_def Inl on_cost_check s2_def split: sum.splits)
    show ?thesis
    proof (cases "retryable e \<and> n \<noteq> 0")
      case True
      with Suc.IH [OF s2(2)] s2 assms(2) show ?thesis
        unfolding run by (cases "fst (check_budget 0 (cl_cost s1))") simp_all
    next
      case False
      with s1 assms(2) show ?thesis unfolding run by (simp only: if_False snd_conv) simp
    qed
  qed
qed (use assms(2) in simp)

end
