(* ===== verification/LLM_Properties.thy ===== *)
theory LLM_Properties
  imports LLM_Client
begin

text \<open>
  The properties of the LLM client: the token bucket, the retries and the spend limit.
\<close>

section \<open>The token bucket\<close>

text \<open>
  C14: in any interleaving of the polls of any number of callers, over any stretch of time
  that starts with a consistent limiter, the estimates granted sum to at most one full
  bucket plus the refill of the elapsed minutes, and so do the granted requests.
\<close>

theorem rate_limit_respected:
  assumes "limiter_ok s" and "in_order (last_refill s) ps" and "polls ps s = (tokens, requests, s')"
    and "minutes = (last (last_refill s # map fst ps) - last_refill s) / 60"
  shows "of_int tokens \<le> (1 + minutes) * of_int (max_tokens_pm s) \<and>
    of_nat requests \<le> (1 + minutes) * of_int (max_requests_pm s) \<and> limiter_ok s'"
proof -
  note b = polls_budget [OF assms(1-3)]
  have m: "(last_refill s' - last_refill s) / 60 = minutes" using b assms(4) by simp
  have "0 \<le> available_tokens s'" "0 \<le> available_requests s'"
    "available_tokens s \<le> of_int (max_tokens_pm s)" "available_requests s \<le> of_int (max_requests_pm s)"
    using b assms(1) by (simp_all add: limiter_ok_def)
  then show ?thesis using b unfolding m by (simp add: distrib_right)
qed

theorem rate_limit_respected_witness:
  "\<exists>s'. polls [(0, 70), (30, 70), (60, 70)] (new_limiter 100 60 0) = (140, 2, s') \<and> limiter_ok s'"
proof -
  have run: "\<exists>s'. polls [(0, 70), (30, 70), (60, 70)] (new_limiter 100 60 0) = (140, 2, s')"
    by (simp add: poll_def new_limiter_def refill_def Let_def granted_def bucket_wait_def)
  then obtain s' where s': "polls [(0, 70), (30, 70), (60, 70)] (new_limiter 100 60 0) = (140, 2, s')" by blast
  have "limiter_ok (new_limiter 100 60 0)" by (simp add: new_limiter_ok)
  moreover have "in_order (last_refill (new_limiter 100 60 0)) [(0, 70), (30, 70), (60, 70)]"
    by (simp add: in_order_def new_limiter_def)
  ultimately have "limiter_ok s'" using rate_limit_respected [OF _ _ s' refl] by blast
  with s' show ?thesis by blast
qed

text \<open>
  A caller that is alone at a consistent limiter with positive limits gets an estimate
  that fits the bucket within 60 seconds plus the lateness of one sleep, and waits forever
  for an estimate that exceeds the bucket.
\<close>

theorem acquire_terminates:
  assumes "limiter_ok s" and "last_refill s \<le> now" and "0 < max_tokens_pm s" and "1 \<le> max_requests_pm s"
    and "0 \<le> late 0"
  shows "if est \<le> max_tokens_pm s
    then \<exists>t s'. acquire late est 0 now s = Some (Inr t, s') \<and> now \<le> t \<and> t \<le> now + 60 + late 0
    else acquire late est 0 now s = None"
  using acquire_returns [OF assms(1-3) _ assms(4), of est late 0] acquire_never [OF assms(3), of est late 0 now] assms(4,5)
  by simp

theorem acquire_terminates_witness:
  "acquire (\<lambda>_. 0) 101 0 5 (new_limiter 100 60 0) = None \<and>
   (\<exists>t s'. acquire (\<lambda>_. 0) 100 0 5 (new_limiter 100 60 0) = Some (Inr t, s') \<and> t \<le> 65)"
proof -
  have s: "limiter_ok (new_limiter 100 60 0)" "last_refill (new_limiter 100 60 0) \<le> 5"
    "0 < max_tokens_pm (new_limiter 100 60 0)" "1 \<le> max_requests_pm (new_limiter 100 60 0)"
    "max_tokens_pm (new_limiter 100 60 0) = 100"
    by (simp_all add: new_limiter_ok) (simp_all add: new_limiter_def)
  show ?thesis
    using acquire_terminates [OF s(1-4), of "\<lambda>_. 0" 101] acquire_terminates [OF s(1-4), of "\<lambda>_. 0" 100]
    by (auto simp: s(5))
qed

section \<open>The spend limit\<close>

text \<open>Several calls in a row; each has its own clock and starts from the limiter the last one left.\<close>

record call =
  ca_late :: "nat \<Rightarrow> rat"
  ca_now :: rat
  ca_request :: llm_request

fun calls :: "'w llm_env \<Rightarrow> call list \<Rightarrow> limiter \<Rightarrow> 'w client \<Rightarrow> 'w client option" where
  "calls env [] l s = Some s"
| "calls env (c # cs) l s = (case generate env (ca_late c) (ca_now c) (ca_request c) l s of
      None \<Rightarrow> None | Some (r, l', s') \<Rightarrow> calls env cs l' s')"

text \<open>The API honours the estimates: no message is longer than asked for, nor its prompt than estimated.\<close>

definition honours_estimates :: "'w llm_env \<Rightarrow> bool" where
  "honours_estimates env \<longleftrightarrow> (\<forall>model rq w m w'. api_create env model rq w = (Inr m, w') \<longrightarrow>
     msg_input_tokens m \<le> estimated_input rq \<and> msg_output_tokens m \<le> rq_max_tokens rq)"

lemma token_cost_mono: "i \<le> i' \<Longrightarrow> out \<le> out' \<Longrightarrow> token_cost m i out \<le> token_cost m i' out'"
  using resolve_pricing_nonneg [of m] by (simp add: token_cost_def add_mono mult_right_mono)

lemma generate_cost:
  assumes "honours_estimates env" and "costs_ok s" and "1 \<le> rq_max_tokens rq"
    and "max_budget_usd (cl_cost s) = Some b" and "spent s \<le> b"
    and "generate env late now rq l s = Some (r, l', s')"
  shows "spent s' \<le> b \<and> costs_ok s' \<and> max_budget_usd (cl_cost s') = Some b"
proof -
  define s1 where "s1 = s\<lparr>cl_cost := snd (check_budget (estimated_cost env rq) (cl_cost s))\<rparr>"
  have s1: "spent s1 = spent s" "costs_ok s1" "max_budget_usd (cl_cost s1) = Some b"
    using assms(2,4) by (simp_all add: s1_def spent_def costs_ok_def check_budget_models)
  consider "s' = s1" | "fst (check_budget (estimated_cost env rq) (cl_cost s)) = Inr ()"
      "s' = snd (attempts env (request_model env rq) rq (max_retries_llm env) s1)"
    using assms(6) by (auto simp: generate_def on_cost_check s1_def split: sum.splits option.splits prod.splits)
  then show ?thesis
  proof cases
    case 1
    then show ?thesis using s1 assms(5) by simp
  next
    case 2
    have "0 \<le> estimated_input rq" unfolding estimated_input_def by (rule sum_list_nonneg) auto
    then have c0: "0 \<le> estimated_cost env rq" using assms(3) by (simp add: estimated_cost_def token_cost_nonneg)
    have "token_cost (request_model env rq) (msg_input_tokens m) (msg_output_tokens m) \<le> estimated_cost env rq"
      if "api_create env (request_model env rq) rq w = (Inr m, w')" for w m w'
      using assms(1) that unfolding estimated_cost_def honours_estimates_def by (blast intro: token_cost_mono)
    from attempts_cost [OF this c0 s1(2), where n = "max_retries_llm env"]
    have "spent s' \<le> spent s1 + estimated_cost env rq" "costs_ok s'" "max_budget_usd (cl_cost s') = Some b"
      using s1(3) by (simp_all add: 2(2))
    moreover have "spent s + estimated_cost env rq \<le> b"
      using 2(1) assms(4) by (simp add: check_budget_passes spent_def)
    ultimately show ?thesis using s1(1) by simp
  qed
qed


definition echo_env :: "unit llm_env" where
  "echo_env = \<lparr>api_create = (\<lambda>model rq w. (Inr \<lparr>msg_blocks = [TextBlock ''ok''], msg_input_tokens = estimated_input rq,
      msg_output_tokens = rq_max_tokens rq, msg_stop_reason = None\<rparr>, w)),
    default_model = ''claude-sonnet-4-20250514'', max_retries_llm = 3, max_tool_calls = 10\<rparr>"

definition big_request :: llm_request where
  "big_request = \<lparr>rq_model_id = ''claude-opus-4-20250514'', rq_max_tokens = 1000, rq_content_lengths = [400]\<rparr>"

definition fresh_client :: "rat option \<Rightarrow> 'w \<Rightarrow> 'w client" where
  "fresh_client limit w = \<lparr>cl_cost = new_cost_tracker limit, cl_world = w\<rparr>"

lemma generate_answers:
  assumes "limiter_ok l" and "last_refill l \<le> now" and "0 < max_tokens_pm l" and "1 \<le> max_requests_pm l"
    and "rq_max_tokens rq + estimated_input rq \<le> max_tokens_pm l" and "0 \<le> late 0"
  shows "generate env late now rq l s \<noteq> None"
  using acquire_returns [OF assms(1-3,5,4), of late 0] assms(6)
  by (auto simp: generate_def split: sum.splits prod.splits)


section \<open>Retries\<close>

text \<open>An API that plays a script of outcomes, and then fails to connect.\<close>

definition script_env :: "nat \<Rightarrow> nat \<Rightarrow> (api_error + message) list llm_env" where
  "script_env retries tools =
     \<lparr>api_create = (\<lambda>model rq w. case w of [] \<Rightarrow> (Inl APIConnectionError, []) | x # xs \<Rightarrow> (x, xs)),
      default_model = ''claude-sonnet-4-20250514'', max_retries_llm = retries, max_tool_calls = tools\<rparr>"

lemma unlimited_check: "max_budget_usd c = None \<Longrightarrow> check_budget e c = (Inr (), c)"
  by (simp add: check_budget_def)

lemma attempts_script:
  assumes "max_budget_usd (cl_cost s) = None" and "list_all retryable es"
  shows "length es < n \<Longrightarrow> cl_world s = map Inl es @ Inr m # rest \<Longrightarrow>
      attempts (script_env k tools) model rq n s = accept_message (script_env k tools) model m (s\<lparr>cl_world := rest\<rparr>)"
    and "0 < n \<Longrightarrow> n \<le> length es \<Longrightarrow> cl_world s = map Inl es @ rest \<Longrightarrow>
      attempts (script_env k tools) model rq n s =
        (Inl (final_error (es ! (n - 1))), s\<lparr>cl_world := map Inl (drop n es) @ rest\<rparr>)"
proof -
  have check: "on_cost (check_budget 0) s' = (Inr (), s')" if "cl_cost s' = cl_cost s" for s'
    using assms(1) by (simp add: on_cost_check unlimited_check that)
  show "length es < n \<Longrightarrow> cl_world s = map Inl es @ Inr m # rest \<Longrightarrow>
      attempts (script_env k tools) model rq n s = accept_message (script_env k tools) model m (s\<lparr>cl_world := rest\<rparr>)"
    using assms
  proof (induction n arbitrary: s es)
    case (Suc n)
    then show ?case
      by (cases es) (auto simp: chain_run create_message_run script_env_def on_cost_check unlimited_check)
  qed simp
  show "0 < n \<Longrightarrow> n \<le> length es \<Longrightarrow> cl_world s = map Inl es @ rest \<Longrightarrow>
      attempts (script_env k tools) model rq n s =
        (Inl (final_error (es ! (n - 1))), s\<lparr>cl_world := map Inl (drop n es) @ rest\<rparr>)"
    using assms
  proof (induction n arbitrary: s es)
    case (Suc n)
    then obtain e es' where es: "es = e # es'" by (cases es) auto
    show ?case
    proof (cases "n = 0")
      case True
      with Suc.prems show ?thesis by (simp add: es chain_run create_message_run script_env_def)
    next
      case False
      with Suc.IH [of es' "s\<lparr>cl_world := map Inl es' @ rest\<rparr>"] Suc.prems show ?thesis
        by (simp add: es chain_run create_message_run on_cost_check unlimited_check)
           (simp add: script_env_def chain_run on_cost_check unlimited_check)
    qed
  qed simp
qed

text \<open>
  Without a spend limit, retryable errors before a message are retried away while there
  are fewer of them than attempts: the message is parsed, its cost recorded once, and the
  rest of the script untouched. With as many retryable errors as attempts, exactly that many
  calls are made and the exception of the last one is raised, and nothing is charged. An
  error that is not retryable ends the call at once.
\<close>

theorem retry_policy:
  assumes "max_budget_usd (cl_cost s) = None" and "list_all retryable es" and "0 < n"
    and "f = attempts (script_env k tools) model rq n"
  shows "(length es < n \<longrightarrow> cl_world s = map Inl es @ Inr m # rest \<longrightarrow>
      f s = accept_message (script_env k tools) model m (s\<lparr>cl_world := rest\<rparr>)) \<and>
    (n \<le> length es \<longrightarrow> cl_world s = map Inl es @ rest \<longrightarrow>
      f s = (Inl (final_error (es ! (n - 1))), s\<lparr>cl_world := map Inl (drop n es) @ rest\<rparr>)) \<and>
    (\<not> retryable e \<longrightarrow> cl_world s = Inl e # rest \<longrightarrow> f s = (Inl (final_error e), s\<lparr>cl_world := rest\<rparr>))"
proof -
  have "attempts (script_env k tools) model rq n s = (Inl (final_error e), s\<lparr>cl_world := rest\<rparr>)"
    if "\<not> retryable e" and "cl_world s = Inl e # rest"
    using assms(3) that by (cases n) (simp_all add: chain_run create_message_run, simp add: script_env_def)
  with attempts_script [OF assms(1,2)] assms(3) show ?thesis by (simp add: assms(4))
qed

definition short_message :: message where
  "short_message = \<lparr>msg_blocks = [TextBlock ''ok''], msg_input_tokens = 100, msg_output_tokens = 10, msg_stop_reason = None\<rparr>"

theorem retry_policy_witness:
  "attempts (script_env 3 10) ''claude-opus-4'' big_request 3
     (fresh_client None [Inl RateLimitError, Inl (APIStatusError 503), Inl (APIStatusError 500), Inr short_message])
   = (Inl (LLMError ''API error''), fresh_client None [Inr short_message]) \<and>
   fst (attempts (script_env 3 10) ''claude-opus-4'' big_request 3
     (fresh_client None [Inl RateLimitError, Inr short_message])) \<noteq> Inl (LLMError ''API error'')"
proof -
  have a: "max_budget_usd (cl_cost (fresh_client None w)) = None" for w :: "(api_error + message) list"
    by (simp add: fresh_client_def new_cost_tracker_def)
  have b: "list_all retryable [RateLimitError, APIStatusError 503, APIStatusError 500]" "list_all retryable [RateLimitError]"
    by (simp_all add: retryable_def)
  show ?thesis
    using conjunct1 [OF conjunct2 [OF retry_policy [OF a [of "[Inl RateLimitError, Inl (APIStatusError 503), Inl (APIStatusError 500), Inr short_message]"]
          b(1) _ refl, where n = 3 and k = 3 and tools = 10 and model = "''claude-opus-4''" and rq = big_request and rest = "[Inr short_message]"]]]
      conjunct1 [OF retry_policy [OF a [of "[Inl RateLimitError, Inr short_message]"] b(2) _ refl, where n = 3 and k = 3 and tools = 10
          and model = "''claude-opus-4''" and rq = big_request and rest = "[]" and m = short_message]]
    by (simp add: fresh_client_def final_error_def accept_message_def parse_response_def op_simps Let_def short_message_def
        text_parts_def tool_uses_def)
qed

end
