(* ===== verification/Model_Router.thy ===== *)
theory Model_Router
  imports Schema Cost_Tracker
begin

text \<open>
  Routing of tasks to model tiers: complexity scoring, threshold routing and failure-driven
  escalation (\<^verbatim>\<open>multi_model_router/scorer.py\<close>, \<^verbatim>\<open>router.py\<close>,
  \<^verbatim>\<open>escalation.py\<close>). Scores are exact rationals before the code's own rounding;
  strings are sequences of eight-bit characters, and \<^verbatim>\<open>lower()\<close> is the one of ASCII.
\<close>

section \<open>Complexity\<close>

definition complex_keywords :: "string list" where
  "complex_keywords = [''security'', ''concurrent'', ''migration'', ''distributed'', ''cryptography'',
     ''optimisation'', ''optimization'', ''architecture'', ''performance'', ''scalability'']"

record scorer_config =
  review_code_weight :: rat
  fix_bug_weight :: rat
  implement_feature_weight :: rat
  refactor_weight :: rat
  write_test_weight :: rat
  default_task_weight :: rat
  token_cap :: int
  desc_short_max :: nat
  desc_medium_max :: nat
  desc_long_max :: nat
  desc_short_factor :: rat
  desc_medium_factor :: rat
  desc_long_factor :: rat
  desc_very_long_factor :: rat
  keyword_increment :: rat
  weight_task_type :: rat
  weight_token_estimate :: rat
  weight_description :: rat
  weight_keywords :: rat
  sc_tier_1_threshold :: rat
  sc_tier_2_threshold :: rat

definition default_scorer_config :: scorer_config where
  "default_scorer_config =
     \<lparr>review_code_weight = 8/10, fix_bug_weight = 7/10, implement_feature_weight = 5/10,
      refactor_weight = 4/10, write_test_weight = 2/10, default_task_weight = 5/10,
      token_cap = 100000, desc_short_max = 50, desc_medium_max = 200, desc_long_max = 500,
      desc_short_factor = 1/10, desc_medium_factor = 3/10, desc_long_factor = 5/10,
      desc_very_long_factor = 8/10, keyword_increment = 2/10,
      weight_task_type = 35/100, weight_token_estimate = 25/100, weight_description = 20/100,
      weight_keywords = 20/100, sc_tier_1_threshold = 7/10, sc_tier_2_threshold = 3/10\<rparr>"

definition task_type_weight :: "scorer_config \<Rightarrow> TaskType \<Rightarrow> rat" where
  "task_type_weight c ty =
     (if ty = TaskType.REVIEW_CODE then review_code_weight c
      else if ty = TaskType.FIX_BUG then fix_bug_weight c
      else if ty = TaskType.IMPLEMENT_FEATURE then implement_feature_weight c
      else if ty = TaskType.REFACTOR then refactor_weight c
      else if ty = TaskType.WRITE_TEST then write_test_weight c
      else default_task_weight c)"

record complexity =
  cx_score :: rat
  cx_factors :: "(string \<times> rat) list"
  cx_tier :: ModelTier

definition token_factor :: "scorer_config \<Rightarrow> int \<Rightarrow> rat" where
  "token_factor c n =
     (if n \<le> 0 then 0 else if token_cap c \<le> n then 1 else of_int n / of_int (token_cap c))"

definition desc_factor :: "scorer_config \<Rightarrow> nat \<Rightarrow> rat" where
  "desc_factor c n =
     (if n < desc_short_max c then desc_short_factor c
      else if n < desc_medium_max c then desc_medium_factor c
      else if n < desc_long_max c then desc_long_factor c else desc_very_long_factor c)"

text \<open>\<^verbatim>\<open>s.split()\<close>: the maximal runs of characters that are not white space.\<close>

fun split_ws :: "string \<Rightarrow> string \<Rightarrow> string list" where
  "split_ws cur [] = (if cur = [] then [] else [rev cur])"
| "split_ws cur (c # cs) =
     (if is_space c then (if cur = [] then [] else [rev cur]) @ split_ws [] cs else split_ws (c # cur) cs)"

definition words :: "string \<Rightarrow> string list" where
  "words s = split_ws [] s"

definition keyword_matches :: "string list \<Rightarrow> string \<Rightarrow> string list" where
  "keyword_matches keywords description =
     filter (\<lambda>k. k \<in> set (map lower keywords) \<or> k \<in> set (map lower (words description))) complex_keywords"

definition keyword_factor :: "scorer_config \<Rightarrow> nat \<Rightarrow> rat" where
  "keyword_factor c n = min (of_nat n * keyword_increment c) 1"

definition tier_for :: "rat \<Rightarrow> rat \<Rightarrow> rat \<Rightarrow> ModelTier" where
  "tier_for t1 t2 x =
     (if t1 \<le> x then ModelTier.TIER_1 else if t2 \<le> x then ModelTier.TIER_2 else ModelTier.TIER_3)"

definition score_task :: "scorer_config \<Rightarrow> TaskType \<Rightarrow> string \<Rightarrow> int \<Rightarrow> string list \<Rightarrow> complexity" where
  "score_task c ty description token_estimate keywords =
     (let f1 = task_type_weight c ty;
          f2 = py_round 4 (token_factor c token_estimate);
          f3 = desc_factor c (length description);
          f4 = py_round 4 (keyword_factor c (length (keyword_matches keywords description)));
          raw = f1 * weight_task_type c + f2 * weight_token_estimate c + f3 * weight_description c + f4 * weight_keywords c;
          final = py_round 4 (min (max raw 0) 1)
      in \<lparr>cx_score = final,
          cx_factors = [(''task_type'', f1), (''token_estimate'', f2), (''description'', f3), (''keywords'', f4)],
          cx_tier = tier_for (sc_tier_1_threshold c) (sc_tier_2_threshold c) final\<rparr>)"

section \<open>Routing\<close>

record router_config =
  tier_1_threshold :: rat
  tier_2_threshold :: rat
  max_tier_failures :: nat
  max_total_failures :: nat

definition default_router_config :: router_config where
  "default_router_config = \<lparr>tier_1_threshold = 7/10, tier_2_threshold = 3/10, max_tier_failures = 2, max_total_failures = 5\<rparr>"

definition mk_router_config :: "router_config \<Rightarrow> exn + router_config" where
  "mk_router_config c =
     (if 0 \<le> tier_1_threshold c \<and> tier_1_threshold c \<le> 1 \<and> 0 \<le> tier_2_threshold c \<and> tier_2_threshold c \<le> 1 \<and>
         1 \<le> max_tier_failures c \<and> 1 \<le> max_total_failures c
      then Inr c else Inl (ValidationError ''MultiModelRouterConfig''))"

primrec tier_model :: "ModelTier \<Rightarrow> string" where
  "tier_model ModelTier.TIER_1 = ''claude-opus-4-20250514''"
| "tier_model ModelTier.TIER_2 = ''claude-sonnet-4-20250514''"
| "tier_model ModelTier.TIER_3 = ''claude-haiku-3-20250305''"

definition task_override :: "TaskType \<Rightarrow> ModelTier option" where
  "task_override ty =
     (if ty = TaskType.REVIEW_CODE then Some ModelTier.TIER_1
      else if ty = TaskType.WRITE_TEST then Some ModelTier.TIER_3 else None)"

record decision =
  de_task_id :: string
  de_tier :: ModelTier
  de_model_id :: string
  de_complexity :: complexity
  de_override :: "string option"

definition route :: "router_config \<Rightarrow> string \<Rightarrow> TaskType \<Rightarrow> complexity \<Rightarrow> decision" where
  "route c tid ty cx =
     (let tier = (case task_override ty of Some t \<Rightarrow> t
                  | None \<Rightarrow> tier_for (tier_1_threshold c) (tier_2_threshold c) (cx_score cx))
      in \<lparr>de_task_id = tid, de_tier = tier, de_model_id = tier_model tier, de_complexity = cx,
          de_override = (case task_override ty of
             Some t \<Rightarrow> Some (''static override for '' @ task_type_value ty) | None \<Rightarrow> None)\<rparr>)"

section \<open>Escalation\<close>

primrec next_tier :: "ModelTier \<Rightarrow> ModelTier option" where
  "next_tier ModelTier.TIER_3 = Some ModelTier.TIER_2"
| "next_tier ModelTier.TIER_2 = Some ModelTier.TIER_1"
| "next_tier ModelTier.TIER_1 = None"

record escalation =
  ec_failure_count :: nat
  ec_tier :: ModelTier
  ec_history :: "(string \<times> string) list"   \<comment> \<open>tier and reason\<close>
  ec_needs_human :: bool

record policy =
  po_max_tier :: nat
  po_max_total :: nat
  po_records :: "(string \<times> escalation) list"

definition new_policy :: "nat \<Rightarrow> nat \<Rightarrow> policy" where
  "new_policy m t = \<lparr>po_max_tier = m, po_max_total = t, po_records = []\<rparr>"

text \<open>The entries of a tier at the end of the history.\<close>

definition run_length :: "ModelTier \<Rightarrow> (string \<times> string) list \<Rightarrow> nat" where
  "run_length tier h = length (takeWhile (\<lambda>e. fst e = model_tier_value tier) (rev h))"

definition record_failure :: "string \<Rightarrow> ModelTier \<Rightarrow> policy \<Rightarrow> escalation \<times> policy" where
  "record_failure tid tier p =
     (let existing = map_of (po_records p) tid;
          count = (case existing of Some r \<Rightarrow> ec_failure_count r | None \<Rightarrow> 0) + 1;
          history = (case existing of Some r \<Rightarrow> ec_history r | None \<Rightarrow> []);
          tier_failures = 1 + run_length tier history;
          escalate = po_max_tier p \<le> tier_failures;
          r = \<lparr>ec_failure_count = count,
               ec_tier = (if escalate then (case next_tier tier of None \<Rightarrow> tier | Some t \<Rightarrow> t) else tier),
               ec_history = history @ [(model_tier_value tier,
                 if escalate then ''escalated after '' @ nat_str tier_failures @ '' failures'' else ''failure recorded'')],
               ec_needs_human = (po_max_total p \<le> count \<or> (escalate \<and> next_tier tier = None))\<rparr>
      in (r, p\<lparr>po_records := AList.update tid r (po_records p)\<rparr>))"

definition get_record :: "string \<Rightarrow> policy \<Rightarrow> escalation option" where
  "get_record tid p = map_of (po_records p) tid"

definition should_escalate :: "string \<Rightarrow> policy \<Rightarrow> bool" where
  "should_escalate tid p = (case map_of (po_records p) tid of
      None \<Rightarrow> False
    | Some r \<Rightarrow> po_max_tier p \<le> run_length (ec_tier r) (ec_history r))"

definition reset_policy :: "string \<Rightarrow> policy \<Rightarrow> policy" where
  "reset_policy tid p = p\<lparr>po_records := AList.delete tid (po_records p)\<rparr>"

text \<open>
  Cost accounting of the router (\<^verbatim>\<open>multi_model_router/cost_collector.py\<close>): the actual
  cost per tier and the cost the same tokens would have had at Tier 1.
\<close>

record tier_acc =
  ta_input :: int
  ta_output :: int
  ta_cost :: rat
  ta_requests :: int

definition new_tier_acc :: tier_acc where
  "new_tier_acc = \<lparr>ta_input = 0, ta_output = 0, ta_cost = 0, ta_requests = 0\<rparr>"

record collector =
  cc_tiers :: "(ModelTier \<times> tier_acc) list"
  cc_requests :: int
  cc_complexity_sum :: rat
  cc_escalations :: int
  cc_tier1_cost :: rat

definition new_collector :: collector where
  "new_collector = \<lparr>cc_tiers = [], cc_requests = 0, cc_complexity_sum = 0, cc_escalations = 0, cc_tier1_cost = 0\<rparr>"

definition record_routing :: "decision \<Rightarrow> int \<Rightarrow> int \<Rightarrow> collector \<Rightarrow> rat \<times> collector" where
  "record_routing d input_tokens output_tokens s =
     (let cost = token_cost (de_model_id d) input_tokens output_tokens;
          acc = get_or new_tier_acc (cc_tiers s) (de_tier d)
      in (cost, s\<lparr>cc_tiers := AList.update (de_tier d)
             (acc\<lparr>ta_input := ta_input acc + input_tokens, ta_output := ta_output acc + output_tokens,
                  ta_cost := ta_cost acc + cost, ta_requests := ta_requests acc + 1\<rparr>) (cc_tiers s),
           cc_tier1_cost := cc_tier1_cost s + token_cost (tier_model ModelTier.TIER_1) input_tokens output_tokens,
           cc_requests := cc_requests s + 1,
           cc_complexity_sum := cc_complexity_sum s + cx_score (de_complexity d)\<rparr>))"

definition record_escalation :: "collector \<Rightarrow> collector" where
  "record_escalation s = s\<lparr>cc_escalations := cc_escalations s + 1\<rparr>"

definition actual_cost :: "collector \<Rightarrow> rat" where
  "actual_cost s = sum_list (map (\<lambda>(t, acc). ta_cost acc) (cc_tiers s))"

record tier_cost =
  tc_tier :: ModelTier
  tc_total_tokens :: int
  tc_input :: int
  tc_output :: int
  tc_cost :: rat

record cost_summary =
  cs_total :: rat
  cs_tiers :: "tier_cost list"
  cs_requests :: int

definition get_cost_summary :: "collector \<Rightarrow> cost_summary" where
  "get_cost_summary s =
     (let present = filter (\<lambda>t. map_of (cc_tiers s) t \<noteq> None) [ModelTier.TIER_1, ModelTier.TIER_2, ModelTier.TIER_3];
          acc = (\<lambda>t. get_or new_tier_acc (cc_tiers s) t)
      in \<lparr>cs_total = py_round 8 (sum_list (map (\<lambda>t. ta_cost (acc t)) present)),
          cs_tiers = map (\<lambda>t. \<lparr>tc_tier = t, tc_total_tokens = ta_input (acc t) + ta_output (acc t),
             tc_input = ta_input (acc t), tc_output = ta_output (acc t), tc_cost = py_round 8 (ta_cost (acc t))\<rparr>) present,
          cs_requests = cc_requests s\<rparr>)"

record savings_report =
  sv_actual :: rat
  sv_hypothetical :: rat
  sv_savings :: rat
  sv_percentage :: rat

definition get_cost_savings :: "collector \<Rightarrow> savings_report" where
  "get_cost_savings s =
     (let actual = actual_cost s; hypothetical = cc_tier1_cost s; savings = hypothetical - actual;
          percentage = (if 0 < hypothetical then savings / hypothetical * 100 else 0)
      in \<lparr>sv_actual = py_round 8 actual, sv_hypothetical = py_round 8 hypothetical,
          sv_savings = py_round 8 savings, sv_percentage = py_round 2 percentage\<rparr>)"

record routing_stats =
  ro_requests :: int
  ro_distribution :: "(string \<times> int) list"
  ro_escalations :: int
  ro_average :: rat
  ro_cost :: rat
  ro_savings :: rat

definition get_stats :: "collector \<Rightarrow> routing_stats" where
  "get_stats s =
     \<lparr>ro_requests = cc_requests s,
      ro_distribution = map (\<lambda>(t, acc). (model_tier_value t, ta_requests acc)) (filter (\<lambda>(t, acc). 0 < ta_requests acc) (cc_tiers s)),
      ro_escalations = cc_escalations s,
      ro_average = py_round 4 (if 0 < cc_requests s then cc_complexity_sum s / of_int (cc_requests s) else 0),
      ro_cost = py_round 8 (actual_cost s),
      ro_savings = py_round 8 (max (cc_tier1_cost s - actual_cost s) 0)\<rparr>"

section \<open>Routes\<close>

record route_request =
  rt_task :: string
  rt_type :: TaskType
  rt_description :: string
  rt_estimate :: int
  rt_keywords :: "string list"
  rt_input :: int
  rt_output :: int

text \<open>The texts of a request are stripped. The escalation policy has no part in it.\<close>

definition route_task :: "scorer_config \<Rightarrow> router_config \<Rightarrow> route_request \<Rightarrow> collector \<Rightarrow> decision reply \<times> collector" where
  "route_task sc rc r s =
     (if rt_input r < 0 \<or> rt_output r < 0 then (Http_Error 422 ''validation error'', s)
      else let cx = score_task sc (rt_type r) (strip (rt_description r)) (rt_estimate r) (map strip (rt_keywords r));
               d = route rc (strip (rt_task r)) (rt_type r) cx
           in (Reply d, snd (if 0 < rt_input r \<or> 0 < rt_output r then record_routing d (rt_input r) (rt_output r) s
                             else record_routing d 0 0 s)))"

definition route_costs :: "collector \<Rightarrow> cost_summary" where
  "route_costs s = get_cost_summary s"

definition route_stats :: "collector \<Rightarrow> routing_stats" where
  "route_stats s = get_stats s"

text \<open>Whatever is asked, the statistics count every accepted request and never an escalation.\<close>

lemma routing_never_escalates:
  "route_stats (fold (\<lambda>r s. snd (route_task sc rc r s)) rs new_collector) = st \<Longrightarrow>
     ro_escalations st = 0 \<and> ro_requests st = int (length (filter (\<lambda>r. 0 \<le> rt_input r \<and> 0 \<le> rt_output r) rs))"
proof -
  have "cc_escalations (fold (\<lambda>r s. snd (route_task sc rc r s)) rs s) = cc_escalations s \<and>
      cc_requests (fold (\<lambda>r s. snd (route_task sc rc r s)) rs s) =
        cc_requests s + int (length (filter (\<lambda>r. 0 \<le> rt_input r \<and> 0 \<le> rt_output r) rs))" for s
    by (induction rs arbitrary: s) (auto simp: route_task_def record_routing_def Let_def)
  from this [of new_collector] show "route_stats (fold (\<lambda>r s. snd (route_task sc rc r s)) rs new_collector) = st \<Longrightarrow>
     ro_escalations st = 0 \<and> ro_requests st = int (length (filter (\<lambda>r. 0 \<le> rt_input r \<and> 0 \<le> rt_output r) rs))"
    by (auto simp: route_stats_def get_stats_def new_collector_def)
qed

end
