(* ===== verification/Router_Properties.thy ===== *)
theory Router_Properties
  imports Model_Router
begin

text \<open>
  The properties of the router: scores and tiers, the escalation chain, and the savings.
\<close>

section \<open>Scores and tiers\<close>

primrec tier_rank :: "ModelTier \<Rightarrow> nat" where
  "tier_rank ModelTier.TIER_3 = 0"
| "tier_rank ModelTier.TIER_2 = 1"
| "tier_rank ModelTier.TIER_1 = 2"

lemma tier_for_mono:
  "x \<le> y \<Longrightarrow> tier_rank (tier_for t1 t2 x) \<le> tier_rank (tier_for t1 t2 y)"
  by (auto simp: tier_for_def)

text \<open>Configurations in which more work never scores lower.\<close>

definition scorer_ok :: "scorer_config \<Rightarrow> bool" where
  "scorer_ok c \<longleftrightarrow> 0 < token_cap c \<and> 0 \<le> keyword_increment c \<and>
     desc_short_factor c \<le> desc_medium_factor c \<and> desc_medium_factor c \<le> desc_long_factor c \<and>
     desc_long_factor c \<le> desc_very_long_factor c \<and>
     desc_short_max c \<le> desc_medium_max c \<and> desc_medium_max c \<le> desc_long_max c \<and>
     0 \<le> weight_token_estimate c \<and> 0 \<le> weight_description c \<and> 0 \<le> weight_keywords c"

lemma token_factor_mono: "scorer_ok c \<Longrightarrow> m \<le> n \<Longrightarrow> token_factor c m \<le> token_factor c n"
  by (auto simp: token_factor_def scorer_ok_def divide_right_mono divide_le_eq le_divide_eq)

lemma desc_factor_mono: "scorer_ok c \<Longrightarrow> m \<le> n \<Longrightarrow> desc_factor c m \<le> desc_factor c n"
  by (auto simp: desc_factor_def scorer_ok_def)

lemma keyword_factor_mono:
  assumes "scorer_ok c" and "m \<le> n"
  shows "keyword_factor c m \<le> keyword_factor c n"
proof -
  have "of_nat m * keyword_increment c \<le> of_nat n * keyword_increment c"
    using assms by (intro mult_right_mono) (simp_all add: scorer_ok_def)
  then show ?thesis unfolding keyword_factor_def by (rule min.mono) simp
qed

lemma length_filter_mono: "(\<And>x. P x \<Longrightarrow> Q x) \<Longrightarrow> length (filter P xs) \<le> length (filter Q xs)"
  by (induction xs) auto

lemma score_range: "0 \<le> cx_score (score_task c ty d n ks) \<and> cx_score (score_task c ty d n ks) \<le> 1"
  using py_round_nonneg py_round_le_int [of _ 1 4]
  by (simp add: score_task_def Let_def)

lemma keyword_matches_mono:
  assumes "set (map lower ks) \<subseteq> set (map lower ks')" and "set (words d) \<subseteq> set (words d')"
  shows "length (keyword_matches ks d) \<le> length (keyword_matches ks' d')"
  unfolding keyword_matches_def by (rule length_filter_mono) (use assms in auto)

lemma score_mono:
  assumes "scorer_ok c" and "length d \<le> length d'" and "n \<le> n'"
    and "length (keyword_matches ks d) \<le> length (keyword_matches ks' d')"
  shows "cx_score (score_task c ty d n ks) \<le> cx_score (score_task c ty d' n' ks')"
proof -
  let ?raw = "\<lambda>d n ks. task_type_weight c ty * weight_task_type c + py_round 4 (token_factor c n) * weight_token_estimate c
     + desc_factor c (length d) * weight_description c
     + py_round 4 (keyword_factor c (length (keyword_matches ks d))) * weight_keywords c"
  have "?raw d n ks \<le> ?raw d' n' ks'"
    using assms(1) by (intro add_mono mult_right_mono py_round_mono order_refl token_factor_mono [OF assms(1,3)]
        desc_factor_mono [OF assms(1,2)] keyword_factor_mono [OF assms(1,4)]) (simp_all add: scorer_ok_def)
  then show ?thesis
    by (simp only: score_task_def Let_def complexity.simps) (intro py_round_mono, auto simp: min_def max_def)
qed

text \<open>
  Every score lies between 0 and 1. A task of the same type with a longer description,
  a larger token estimate or more of the signal words is never routed to a weaker tier;
  and with equal thresholds the router follows the scorer's recommendation unless the type
  has an override.
\<close>

theorem routing_monotone:
  assumes "scorer_ok c" and "length d \<le> length d'" and "n \<le> n'"
    and "set (map lower ks) \<subseteq> set (map lower ks')" and "set (words d) \<subseteq> set (words d')"
    and "x = score_task c ty d n ks" and "x' = score_task c ty d' n' ks'"
  shows "0 \<le> cx_score x \<and> cx_score x \<le> 1 \<and>
    tier_rank (de_tier (route rc tid ty x)) \<le> tier_rank (de_tier (route rc tid ty x')) \<and>
    (task_override ty = None \<longrightarrow> tier_1_threshold rc = sc_tier_1_threshold c \<longrightarrow>
      tier_2_threshold rc = sc_tier_2_threshold c \<longrightarrow> de_tier (route rc tid ty x) = cx_tier x)"
proof -
  have "cx_score x \<le> cx_score x'"
    unfolding assms(6,7) by (rule score_mono [OF assms(1-3) keyword_matches_mono [OF assms(4,5)]])
  then show ?thesis
    using score_range [of c ty d n ks]
    by (auto simp: assms(6) route_def Let_def tier_for_mono split: option.splits) (simp_all add: score_task_def Let_def)
qed

lemma default_scorer_ok: "scorer_ok default_scorer_config"
  by (simp add: scorer_ok_def default_scorer_config_def)

theorem routing_monotone_witness:
  "tier_rank (de_tier (route default_router_config ''t'' TaskType.FIX_BUG (score_task default_scorer_config TaskType.FIX_BUG ''typo'' 10 []))) \<le>
   tier_rank (de_tier (route default_router_config ''t'' TaskType.FIX_BUG
     (score_task default_scorer_config TaskType.FIX_BUG ''typo in the Security layer'' 90000 [''performance''])))"
proof -
  have w: "set (words ''typo'') \<subseteq> set (words ''typo in the Security layer'')"
    by (simp add: words_def is_space_def)
  show ?thesis
    using routing_monotone [OF default_scorer_ok _ _ _ w refl refl, where n = 10 and n' = 90000 and ks = "[]"
        and ks' = "[''performance'']"] by simp
qed

section \<open>Escalation\<close>

text \<open>The caller always reports the tier of the last record, and starts at Tier 3.\<close>

primrec fail_times :: "string \<Rightarrow> nat \<Rightarrow> policy \<Rightarrow> policy" where
  "fail_times tid 0 p = p"
| "fail_times tid (Suc n) p =
     (let q = fail_times tid n p;
          tier = (case get_record tid q of None \<Rightarrow> ModelTier.TIER_3 | Some r \<Rightarrow> ec_tier r)
      in snd (record_failure tid tier q))"

definition chain_tier :: "nat \<Rightarrow> nat \<Rightarrow> ModelTier" where
  "chain_tier m n = (if n < m then ModelTier.TIER_3 else if n < 2 * m then ModelTier.TIER_2 else ModelTier.TIER_1)"

text \<open>The tiers of the entries after \<open>n\<close> failures.\<close>

definition chain_log :: "nat \<Rightarrow> nat \<Rightarrow> string list" where
  "chain_log m n = map (\<lambda>k. model_tier_value (chain_tier m k)) [0..<n]"

lemma model_tier_value_inj: "model_tier_value a = model_tier_value b \<longleftrightarrow> a = b"
  by (cases a; cases b) simp_all

definition tier_start :: "nat \<Rightarrow> nat \<Rightarrow> nat" where
  "tier_start m n = (if n < m then 0 else if n < 2 * m then m else 2 * m)"

lemma takeWhile_rev_upt:
  assumes "a \<le> n" and "\<And>k. a \<le> k \<Longrightarrow> k < n \<Longrightarrow> P k" and "0 < a \<Longrightarrow> \<not> P (a - 1)"
  shows "length (takeWhile P (rev [0..<n])) = n - a"
  using assms
proof (induction n)
  case (Suc n)
  show ?case
  proof (cases "a = Suc n")
    case True
    with Suc.prems(3) show ?thesis by simp
  next
    case False
    with Suc.prems have "a \<le> n" by simp
    with Suc show ?thesis by simp
  qed
qed simp

lemma run_length_log:
  assumes "map fst h = chain_log m n" and "1 \<le> m"
  shows "run_length (chain_tier m n) h = n - tier_start m n"
proof -
  have "run_length (chain_tier m n) h = length (takeWhile (\<lambda>v. v = model_tier_value (chain_tier m n)) (rev (map fst h)))"
    by (simp add: run_length_def rev_map takeWhile_map comp_def)
  also have "\<dots> = length (takeWhile (\<lambda>k. chain_tier m k = chain_tier m n) (rev [0..<n]))"
    by (simp add: assms(1) chain_log_def rev_map takeWhile_map comp_def model_tier_value_inj)
  also have "\<dots> = n - tier_start m n"
    using assms(2) by (intro takeWhile_rev_upt) (auto simp: chain_tier_def tier_start_def split: if_splits)
  finally show ?thesis .
qed

definition chain_record :: "nat \<Rightarrow> nat \<Rightarrow> nat \<Rightarrow> escalation \<Rightarrow> bool" where
  "chain_record m t n r \<longleftrightarrow> ec_failure_count r = n \<and> ec_tier r = chain_tier m n \<and>
     map fst (ec_history r) = chain_log m n \<and> ec_needs_human r = (t \<le> n \<or> 3 * m \<le> n)"

lemma record_failure_chain:
  assumes "1 \<le> m" and "po_max_tier p = m" and "po_max_total p = t"
    and "n = 0 \<and> get_record tid p = None \<or> (\<exists>r. get_record tid p = Some r \<and> chain_record m t n r)"
  shows "chain_record m t (Suc n) (fst (record_failure tid (chain_tier m n) p))"
proof -
  define h where "h = (case get_record tid p of Some r \<Rightarrow> ec_history r | None \<Rightarrow> [])"
  have h: "map fst h = chain_log m n"
    and c: "(case get_record tid p of Some r \<Rightarrow> ec_failure_count r | None \<Rightarrow> 0) = n"
    using assms(4) by (auto simp: h_def chain_log_def chain_record_def)
  have esc: "m \<le> 1 + run_length (chain_tier m n) h \<longleftrightarrow> Suc n = m \<or> Suc n = 2 * m \<or> 3 * m \<le> Suc n"
    using assms(1) unfolding run_length_log [OF h assms(1)] by (auto simp: tier_start_def)
  have "(if Suc n = m \<or> Suc n = 2 * m \<or> 3 * m \<le> Suc n
      then (case next_tier (chain_tier m n) of None \<Rightarrow> chain_tier m n | Some t \<Rightarrow> t) else chain_tier m n) = chain_tier m (Suc n)"
    using assms(1) by (auto simp: chain_tier_def)
  moreover have "(Suc n = m \<or> Suc n = 2 * m \<or> 3 * m \<le> Suc n) \<and> next_tier (chain_tier m n) = None \<longleftrightarrow> 3 * m \<le> Suc n"
    using assms(1) by (auto simp: chain_tier_def)
  moreover have "chain_log m n @ [model_tier_value (chain_tier m n)] = chain_log m (Suc n)"
    by (simp add: chain_log_def)
  ultimately show ?thesis
    using h c esc by (simp add: chain_record_def record_failure_def Let_def get_record_def [symmetric] h_def [symmetric] assms(2,3))
qed

lemma fail_times_chain:
  assumes "1 \<le> m"
  shows "po_max_tier (fail_times tid n (new_policy m t)) = m \<and> po_max_total (fail_times tid n (new_policy m t)) = t \<and>
    (if n = 0 then get_record tid (fail_times tid n (new_policy m t)) = None
     else \<exists>r. get_record tid (fail_times tid n (new_policy m t)) = Some r \<and> chain_record m t n r)"
proof (induction n)
  case (Suc n)
  let ?p = "fail_times tid n (new_policy m t)"
  have tier: "(case get_record tid ?p of None \<Rightarrow> ModelTier.TIER_3 | Some r \<Rightarrow> ec_tier r) = chain_tier m n"
    using Suc assms by (auto simp: chain_tier_def chain_record_def split: if_splits)
  have "chain_record m t (Suc n) (fst (record_failure tid (chain_tier m n) ?p))"
    using Suc by (intro record_failure_chain [OF assms]) (auto split: if_splits)
  moreover have "fail_times tid (Suc n) (new_policy m t) = snd (record_failure tid (chain_tier m n) ?p)"
    by (simp add: Let_def tier)
  moreover have "get_record tid (snd (record_failure tid x q)) = Some (fst (record_failure tid x q))"
    "po_max_tier (snd (record_failure tid x q)) = po_max_tier q" "po_max_total (snd (record_failure tid x q)) = po_max_total q" for x q
    by (simp_all add: record_failure_def Let_def get_record_def)
  ultimately show ?case using Suc by simp
qed (simp add: new_policy_def get_record_def)

text \<open>
  C15: a task that fails again and again at the tier it was last assigned, starting at
  Tier 3, moves up one tier every \<open>m\<close> failures and stays at Tier 1; a human is asked for from
  the \<open>t\<close>-th failure or the \<open>3m\<close>-th on. \<^verbatim>\<open>should_escalate\<close> says yes only from the \<open>3m\<close>-th
  failure on, when there is no tier left, and not when the task was moved.
\<close>

theorem escalation_chain:
  assumes "1 \<le> m" and "1 \<le> n" and "p = fail_times tid n (new_policy m t)"
  shows "\<exists>r. get_record tid p = Some r \<and> ec_failure_count r = n \<and>
    ec_tier r = (if n < m then ModelTier.TIER_3 else if n < 2 * m then ModelTier.TIER_2 else ModelTier.TIER_1) \<and>
    ec_needs_human r = (t \<le> n \<or> 3 * m \<le> n) \<and> length (ec_history r) = n \<and>
    should_escalate tid p = (3 * m \<le> n)"
proof -
  have p: "po_max_tier p = m" using fail_times_chain [OF assms(1)] by (simp add: assms(3))
  obtain r where r: "get_record tid p = Some r" "chain_record m t n r"
    using fail_times_chain [OF assms(1), of tid n t] assms(2) by (auto simp: assms(3))
  have "length (ec_history r) = n" using r(2) by (metis chain_record_def chain_log_def length_map length_upt diff_zero)
  moreover have "should_escalate tid p \<longleftrightarrow> m \<le> n - tier_start m n"
    using r p run_length_log [OF _ assms(1), of "ec_history r" n]
    by (simp add: should_escalate_def get_record_def chain_record_def)
  moreover have "m \<le> n - tier_start m n \<longleftrightarrow> 3 * m \<le> n"
    using assms(1) by (auto simp: tier_start_def)
  ultimately show ?thesis using r by (simp add: chain_record_def chain_tier_def)
qed

theorem escalation_chain_witness:
  "\<exists>r. get_record ''t'' (fail_times ''t'' 2 (new_policy 2 5)) = Some r \<and> ec_tier r = ModelTier.TIER_2 \<and>
     \<not> should_escalate ''t'' (fail_times ''t'' 2 (new_policy 2 5))"
  using escalation_chain [of 2 2 _ "''t''" 5, OF _ _ refl] by auto

section \<open>Savings\<close>

text \<open>Routings with the model of the selected tier, as \<open>route\<close> makes them.\<close>

fun collect :: "(decision \<times> int \<times> int) list \<Rightarrow> collector \<Rightarrow> collector" where
  "collect [] s = s"
| "collect ((d, i, out) # ds) s = collect ds (snd (record_routing d i out s))"

definition decision_ok :: "decision \<times> int \<times> int \<Rightarrow> bool" where
  "decision_ok p \<longleftrightarrow> 0 \<le> fst (snd p) \<and> 0 \<le> snd (snd p) \<and> 0 \<le> cx_score (de_complexity (fst p)) \<and>
     cx_score (de_complexity (fst p)) \<le> 1"

lemma tier1_dearest: "0 \<le> i \<Longrightarrow> 0 \<le> out \<Longrightarrow> token_cost model i out \<le> token_cost (tier_model ModelTier.TIER_1) i out"
proof -
  assume nn: "0 \<le> i" "0 \<le> out"
  have t1: "resolve_pricing (tier_model ModelTier.TIER_1) = (15 / 1000000, 75 / 1000000)"
    by (simp add: resolve_pricing_def model_pricing_def starts_with_def)
  have "fst (resolve_pricing model) \<le> 15 / 1000000 \<and> snd (resolve_pricing model) \<le> 75 / 1000000"
    by (simp add: resolve_pricing_def model_pricing_def default_pricing_def split: option.splits)
  then show ?thesis using nn unfolding token_cost_def t1 by (intro add_mono mult_left_mono) auto
qed

definition collector_inv :: "collector \<Rightarrow> bool" where
  "collector_inv s \<longleftrightarrow> distinct (keys (cc_tiers s)) \<and> 0 \<le> actual_cost s \<and> actual_cost s \<le> cc_tier1_cost s \<and>
     0 \<le> cc_requests s \<and> 0 \<le> cc_complexity_sum s \<and> cc_complexity_sum s \<le> of_int (cc_requests s)"

lemma record_routing_inv:
  assumes "collector_inv s" and "decision_ok (d, i, out)"
  shows "collector_inv (snd (record_routing d i out s))"
  using sum_update [of "cc_tiers s" ta_cost new_tier_acc "de_tier d"] assms
    tier1_dearest [of i out "de_model_id d"] token_cost_nonneg [of i out "de_model_id d"]
  by (auto simp: collector_inv_def record_routing_def Let_def actual_cost_def new_tier_acc_def decision_ok_def)

lemma collect_inv: "collector_inv s \<Longrightarrow> list_all decision_ok ds \<Longrightarrow> collector_inv (collect ds s)"
  by (induction ds s rule: collect.induct) (auto intro: record_routing_inv)

lemma collect_requests: "cc_requests (collect ds s) = cc_requests s + int (length ds)"
  by (induction ds s rule: collect.induct) (simp_all add: record_routing_def Let_def)

lemma new_collector_inv: "collector_inv new_collector"
  by (simp add: collector_inv_def new_collector_def actual_cost_def)

text \<open>
  Whatever decisions are recorded, with nonnegative token counts, the savings over
  sending everything to Tier 1 are never negative, the percentage lies between 0 and 100, the
  average complexity between 0 and 1, and every request is counted.
\<close>

theorem savings_bounds:
  assumes "list_all decision_ok ds" and "s = collect ds new_collector"
  shows "0 \<le> sv_savings (get_cost_savings s) \<and> 0 \<le> sv_percentage (get_cost_savings s) \<and>
    sv_percentage (get_cost_savings s) \<le> 100 \<and> sv_actual (get_cost_savings s) \<le> sv_hypothetical (get_cost_savings s) \<and>
    0 \<le> ro_average (get_stats s) \<and> ro_average (get_stats s) \<le> 1 \<and>
    cs_requests (get_cost_summary s) = int (length ds)"
proof -
  have inv: "collector_inv s" unfolding assms(2) by (rule collect_inv [OF new_collector_inv assms(1)])
  have n: "cc_requests s = int (length ds)" by (simp add: assms(2) collect_requests) (simp add: new_collector_def)
  have pct: "(cc_tier1_cost s - actual_cost s) / cc_tier1_cost s * 100 \<le> of_int 100" if "0 < cc_tier1_cost s"
    using that inv by (simp add: collector_inv_def divide_le_eq)
  have avg: "cc_complexity_sum s / of_int (cc_requests s) \<le> of_int 1" if "0 < cc_requests s"
    using that inv by (simp add: collector_inv_def divide_le_eq)
  show ?thesis
    using inv py_round_le_int [OF pct, of 2] py_round_le_int [OF avg, of 4]
    by (auto simp: get_cost_savings_def get_stats_def get_cost_summary_def Let_def n collector_inv_def
        intro!: py_round_nonneg py_round_mono) (simp_all add: py_round_def round_half_even_def)
qed

theorem savings_bounds_witness:
  "0 \<le> sv_savings (get_cost_savings (collect
     [(route default_router_config ''t'' TaskType.WRITE_TEST (score_task default_scorer_config TaskType.WRITE_TEST ''x'' 5 []), 1000, 200)]
     new_collector))"
  using savings_bounds [OF _ refl, of "[(route default_router_config ''t'' TaskType.WRITE_TEST
      (score_task default_scorer_config TaskType.WRITE_TEST ''x'' 5 []), 1000, 200)]"]
    score_range [of default_scorer_config TaskType.WRITE_TEST "''x''" 5 "[]"]
  by (simp add: decision_ok_def route_def Let_def)

end
