(* ===== verification/Event_Streams.thy ===== *)
theory Event_Streams
  imports Schema
begin

text \<open>
  Event envelopes and their transport: serialisation
  (\<^verbatim>\<open>architect_events/serialization.py\<close>), the Redis stream operations the code calls, and
  the publisher (\<^verbatim>\<open>publisher.py\<close>). Redis is a parameter: \<open>stream_ops\<close> are the calls, each
  of which may raise, and \<open>streams\<close> is the contract of those that return, over the entries
  of each stream and the delivered, unacknowledged ones of each group. Printing and
  reading JSON text (\<open>dumps\<close>, \<open>loads\<close>) are parameters too, inverse on the documents at hand.
\<close>

section \<open>Envelopes\<close>

record envelope =
  en_event_id :: string
  en_type :: EventType
  en_timestamp :: string
  en_correlation :: "string option"
  en_payload :: "(string \<times> json) list"

definition envelope_fields :: "string \<Rightarrow> string \<Rightarrow> fields" where
  "envelope_fields fresh_id now =
     FCons ''id'' SStr (Some (JStr fresh_id))
    (FCons ''type'' (SEnum (map event_type_value all_event_type)) None
    (FCons ''timestamp'' STime (Some (JStr now))
    (FCons ''correlation_id'' (SOpt SStr) (Some JNull)
    (FCons ''payload'' SObject (Some (JObj [])) FNil))))"

definition dump_envelope :: "envelope \<Rightarrow> json" where
  "dump_envelope e = JObj
     [(''id'', JStr (en_event_id e)), (''type'', JStr (event_type_value (en_type e))),
      (''timestamp'', JStr (en_timestamp e)),
      (''correlation_id'', (case en_correlation e of None \<Rightarrow> JNull | Some c \<Rightarrow> JStr c)),
      (''payload'', JObj (en_payload e))]"

definition load_envelope :: "string \<Rightarrow> string \<Rightarrow> json \<Rightarrow> exn + envelope" where
  "load_envelope fresh_id now j =
     bind_sum (check (SModel (envelope_fields fresh_id now)) j) (\<lambda>v. case v of
       JObj d \<Rightarrow>
         (case event_type_of (str_field d ''type'') of
            None \<Rightarrow> invalid
          | Some ty \<Rightarrow> Inr \<lparr>en_event_id = str_field d ''id'', en_type = ty, en_timestamp = str_field d ''timestamp'',
              en_correlation = (case map_of d ''correlation_id'' of Some (JStr c) \<Rightarrow> Some c | _ \<Rightarrow> None),
              en_payload = (case map_of d ''payload'' of Some (JObj p) \<Rightarrow> p | _ \<Rightarrow> [])\<rparr>)
     | _ \<Rightarrow> invalid)"

type_synonym stream_fields = "(string \<times> string) list"

definition serialize_event :: "(json \<Rightarrow> string) \<Rightarrow> envelope \<Rightarrow> stream_fields" where
  "serialize_event dumps e = [(''data'', dumps (dump_envelope e))]"

definition deserialize_event :: "(string \<Rightarrow> exn + json) \<Rightarrow> string \<Rightarrow> string \<Rightarrow> stream_fields \<Rightarrow> exn + envelope" where
  "deserialize_event loads fresh_id now d =
     (case map_of d ''data'' of
        None \<Rightarrow> Inl (KeyError ''data'')
      | Some raw \<Rightarrow> bind_sum (loads raw) (load_envelope fresh_id now))"

text \<open>A missing id or time stamp is filled in by a fresh one. The strings of a constructed envelope are stripped.\<close>

definition envelope_ok :: "envelope \<Rightarrow> bool" where
  "envelope_ok e \<longleftrightarrow> strip (en_event_id e) = en_event_id e \<and>
     (case en_correlation e of None \<Rightarrow> True | Some c \<Rightarrow> strip c = c)"

lemma load_dump_envelope: "envelope_ok e \<Longrightarrow> load_envelope fresh_id now (dump_envelope e) = Inr e"
  by (cases e; cases "en_correlation e")
    (simp_all add: load_envelope_def dump_envelope_def envelope_fields_def envelope_ok_def str_field_def
      event_type_complete event_type.parse_value event_type_of_def)

section \<open>Streams\<close>

record 'r stream_ops =
  xadd :: "string \<Rightarrow> stream_fields \<Rightarrow> (exn, 'r, string) op"
  xadd_capped :: "nat \<Rightarrow> string \<Rightarrow> stream_fields \<Rightarrow> (exn, 'r, string) op"   \<comment> \<open>\<^verbatim>\<open>maxlen\<close>, approximate\<close>
  xack :: "string \<Rightarrow> string \<Rightarrow> string \<Rightarrow> (exn, 'r, unit) op"   \<comment> \<open>stream, group, message\<close>
  xrange :: "string \<Rightarrow> nat \<Rightarrow> (exn, 'r, (string \<times> stream_fields) list) op"
  xdel :: "string \<Rightarrow> string \<Rightarrow> (exn, 'r, unit) op"
  xlen :: "string \<Rightarrow> (exn, 'r, nat) op"
  del_stream :: "string \<Rightarrow> (exn, 'r, unit) op"
  xautoclaim :: "string \<Rightarrow> string \<Rightarrow> string \<Rightarrow> int \<Rightarrow> string \<Rightarrow> (exn, 'r, string \<times> (string \<times> stream_fields) list) op"

locale streams =
  fixes ops :: "'r stream_ops"
    and entries :: "'r \<Rightarrow> string \<Rightarrow> (string \<times> stream_fields) list"
    and pending :: "'r \<Rightarrow> string \<Rightarrow> string \<Rightarrow> string set"
    and valid :: "'r \<Rightarrow> bool"
  assumes xadd_law: "valid r \<Longrightarrow> xadd ops s f r = (Inr i, r') \<Longrightarrow>
      valid r' \<and> i \<notin> set (keys (entries r s)) \<and> entries r' = (entries r)(s := entries r s @ [(i, f)]) \<and> pending r' = pending r"
    and xadd_capped_law: "valid r \<Longrightarrow> xadd_capped ops n s f r = (Inr i, r') \<Longrightarrow>
      valid r' \<and> i \<notin> set (keys (entries r s)) \<and> pending r' = pending r \<and>
      (\<exists>k. (length (entries r s) < n \<longrightarrow> k = 0) \<and> entries r' = (entries r)(s := drop k (entries r s) @ [(i, f)]))"
    and xack_law: "valid r \<Longrightarrow> xack ops s g i r = (Inr u, r') \<Longrightarrow>
      valid r' \<and> entries r' = entries r \<and> pending r' = (pending r)(s := (pending r s)(g := pending r s g - {i}))"
    and xrange_law: "valid r \<Longrightarrow> xrange ops s n r = (Inr es, r') \<Longrightarrow> r' = r \<and> es = take n (entries r s)"
    and xdel_law: "valid r \<Longrightarrow> xdel ops s i r = (Inr u, r') \<Longrightarrow>
      valid r' \<and> entries r' = (entries r)(s := filter (\<lambda>e. fst e \<noteq> i) (entries r s)) \<and> pending r' = pending r"
    and distinct_ids: "valid r \<Longrightarrow> distinct (keys (entries r s))"

section \<open>An executable store\<close>

text \<open>Ids are drawn from one counter; every command succeeds.\<close>

record stream_store =
  st_next :: nat
  st_entries :: "string \<Rightarrow> (string \<times> stream_fields) list"
  st_pending :: "string \<Rightarrow> string \<Rightarrow> string set"

definition store_ops :: "stream_store stream_ops" where
  "store_ops = \<lparr>
     xadd = (\<lambda>s f r. (Inr (nat_str (st_next r)), r\<lparr>st_next := st_next r + 1,
        st_entries := (st_entries r)(s := st_entries r s @ [(nat_str (st_next r), f)])\<rparr>)),
     xadd_capped = (\<lambda>n s f r. (Inr (nat_str (st_next r)), r\<lparr>st_next := st_next r + 1,
        st_entries := (st_entries r)(s := drop (length (st_entries r s) + 1 - n) (st_entries r s) @ [(nat_str (st_next r), f)])\<rparr>)),
     xack = (\<lambda>s g i r. (Inr (), r\<lparr>st_pending := (st_pending r)(s := (st_pending r s)(g := st_pending r s g - {i}))\<rparr>)),
     xrange = (\<lambda>s n r. (Inr (take n (st_entries r s)), r)),
     xdel = (\<lambda>s i r. (Inr (), r\<lparr>st_entries := (st_entries r)(s := filter (\<lambda>e. fst e \<noteq> i) (st_entries r s))\<rparr>)),
     xlen = (\<lambda>s r. (Inr (length (st_entries r s)), r)),
     del_stream = (\<lambda>s r. (Inr (), r\<lparr>st_entries := (st_entries r)(s := [])\<rparr>)),
     xautoclaim = (\<lambda>s g c idle start r. (Inr (''0-0'', []), r))\<rparr>"

definition store_ok :: "stream_store \<Rightarrow> bool" where
  "store_ok r \<longleftrightarrow> (\<forall>s. distinct (keys (st_entries r s)) \<and>
     (\<forall>i \<in> set (keys (st_entries r s)). \<exists>n < st_next r. i = nat_str n))"

lemma nat_str_value: "foldl (\<lambda>n c. 10 * n + (of_char c - 48)) 0 (nat_str n) = n"
proof (induction n rule: nat_str.induct)
  case (1 n)
  show ?case
  proof (cases "n < 10")
    case True
    then show ?thesis by (subst nat_str.simps) simp
  next
    case False
    with 1 show ?thesis by (subst nat_str.simps) simp
  qed
qed

lemma nat_str_inj [simp]: "nat_str m = nat_str n \<longleftrightarrow> m = n"
  by (metis nat_str_value)

lemma store_ok_fresh: "store_ok r \<Longrightarrow> nat_str (st_next r) \<notin> set (keys (st_entries r t))"
  unfolding store_ok_def by (metis nat_str_inj less_irrefl)

lemma store_ok_add:
  assumes "store_ok r"
  shows "store_ok (r\<lparr>st_next := st_next r + 1, st_entries := (st_entries r)(s := drop k (st_entries r s) @ [(nat_str (st_next r), f)])\<rparr>)"
    (is "store_ok ?r")
  unfolding store_ok_def
proof (intro allI conjI ballI)
  fix t
  have "nat_str (st_next r) \<notin> fst ` set (drop k (st_entries r s))"
    using store_ok_fresh [OF assms, of s] by (auto dest: in_set_dropD)
  moreover have "distinct (keys (drop k (st_entries r s)))" and "distinct (keys (st_entries r t))"
    using assms by (simp_all add: store_ok_def drop_map [symmetric] distinct_drop)
  ultimately show "distinct (keys (st_entries ?r t))" by simp
next
  fix t j
  assume "j \<in> set (keys (st_entries ?r t))"
  then have "j \<in> set (keys (st_entries r t)) \<or> j = nat_str (st_next r)"
    by (auto split: if_splits dest: in_set_dropD)
  moreover have "\<exists>n < st_next r. j = nat_str n" if "j \<in> set (keys (st_entries r t))"
    using assms that unfolding store_ok_def by blast
  ultimately show "\<exists>n < st_next ?r. j = nat_str n" by (auto intro: less_SucI)
qed

interpretation store: streams store_ops st_entries st_pending store_ok
proof
  fix r s f i r'
  assume ok: "store_ok r" and run: "xadd store_ops s f r = (Inr i, r')"
  with store_ok_add [OF ok, of s 0 f] store_ok_fresh [OF ok]
  show "store_ok r' \<and> i \<notin> set (keys (st_entries r s)) \<and>
      st_entries r' = (st_entries r)(s := st_entries r s @ [(i, f)]) \<and> st_pending r' = st_pending r"
    by (auto simp: store_ops_def)
next
  fix r n s f i r'
  assume ok: "store_ok r" and run: "xadd_capped store_ops n s f r = (Inr i, r')"
  have "(length (st_entries r s) < n \<longrightarrow> length (st_entries r s) + 1 - n = 0)" by simp
  with run store_ok_add [OF ok, of s _ f] store_ok_fresh [OF ok, of s]
  show "store_ok r' \<and> i \<notin> set (keys (st_entries r s)) \<and> st_pending r' = st_pending r \<and>
      (\<exists>k. (length (st_entries r s) < n \<longrightarrow> k = 0) \<and> st_entries r' = (st_entries r)(s := drop k (st_entries r s) @ [(i, f)]))"
    by (auto simp: store_ops_def intro!: exI [of _ "Suc (length (st_entries r s)) - n"])
next
  fix r s i u r'
  assume "store_ok r" and "xdel store_ops s i r = (Inr u, r')"
  then show "store_ok r' \<and> st_entries r' = (st_entries r)(s := filter (\<lambda>e. fst e \<noteq> i) (st_entries r s)) \<and> st_pending r' = st_pending r"
    by (force simp: store_ops_def store_ok_def distinct_map_filter split: if_splits)
qed (force simp: store_ops_def store_ok_def)+

section \<open>The publisher\<close>

record 'r publisher =
  pb_connected :: bool
  pb_redis :: 'r

definition stream_name :: "string \<Rightarrow> EventType \<Rightarrow> string" where
  "stream_name prefix ty = prefix @ '':'' @ event_type_value ty"

definition publish_envelope :: "'r stream_ops \<Rightarrow> (json \<Rightarrow> string) \<Rightarrow> string \<Rightarrow> envelope \<Rightarrow> (exn, 'r publisher, string) op" where
  "publish_envelope rd dumps prefix e = (\<lambda>s.
     if \<not> pb_connected s then (Inl (RuntimeError ''EventPublisher is not connected. Call connect() first.''), s)
     else zoom pb_redis (\<lambda>r s. s\<lparr>pb_redis := r\<rparr>) 
       (xadd_capped rd 10000 (stream_name prefix (en_type e)) (serialize_event dumps e)) s)"

definition connect_publisher :: "'r publisher \<Rightarrow> 'r publisher" where
  "connect_publisher s = s\<lparr>pb_connected := True\<rparr>"

definition close_publisher :: "'r publisher \<Rightarrow> 'r publisher" where
  "close_publisher s = s\<lparr>pb_connected := False\<rparr>"

end
