(* ===== verification/Event_Subscriber.thy ===== *)
theory Event_Subscriber
  imports Event_Streams
begin

text \<open>
  The consumer of the event bus (\<^verbatim>\<open>architect_events/subscriber.py\<close>) and the processor
  of the dead-letter queues (\<^verbatim>\<open>dlq.py\<close>). A handler is an operation on the service's state
  \<open>'w\<close>; it may raise any exception, whose text \<open>show_exn\<close> gives. A batch is what one
  \<^verbatim>\<open>XREADGROUP\<close> returned; a Redis error while a batch is processed ends the read loop,
  as in the code.
\<close>

type_synonym 'w handler = "string \<times> (envelope \<Rightarrow> (exn, 'w, unit) op)"   \<comment> \<open>name and code\<close>

type_synonym delivery = "string \<times> stream_fields"   \<comment> \<open>message id and data\<close>

record ('r, 'w) subscriber =
  sb_redis :: "'r option"
  sb_handlers :: "(EventType \<times> 'w handler list) list"
  sb_retry_counts :: "(string \<times> nat) list"
  sb_world :: 'w

record 'r sub_env =
  se_ops :: "'r stream_ops"
  se_loads :: "string \<Rightarrow> exn + json"
  se_fresh :: "string \<times> string"   \<comment> \<open>a fresh event id and the time, for envelopes without\<close>
  se_show_exn :: "exn \<Rightarrow> string"
  se_group :: string
  se_consumer :: string
  se_prefix :: string
  se_max_retries :: nat

definition max_retry_tracking :: nat where
  "max_retry_tracking = 10000"

definition new_subscriber :: "'w \<Rightarrow> ('r, 'w) subscriber" where
  "new_subscriber w = \<lparr>sb_redis = None, sb_handlers = [], sb_retry_counts = [], sb_world = w\<rparr>"

definition on_event :: "EventType \<Rightarrow> 'w handler \<Rightarrow> ('r, 'w) subscriber \<Rightarrow> ('r, 'w) subscriber" where
  "on_event ty h s = s\<lparr>sb_handlers := AList.update ty (get_or [] (sb_handlers s) ty @ [h]) (sb_handlers s)\<rparr>"

definition dlq_name :: "string \<Rightarrow> EventType \<Rightarrow> string" where
  "dlq_name prefix ty = prefix @ '':dlq:'' @ event_type_value ty"

text \<open>A call on Redis; \<open>msg\<close> is raised when there is no connection.\<close>

definition on_redis_sub :: "string \<Rightarrow> (exn, 'r, 'a) op \<Rightarrow> (exn, ('r, 'w) subscriber, 'a) op" where
  "on_redis_sub msg m = (\<lambda>s. case sb_redis s of
      None \<Rightarrow> (Inl (RuntimeError msg), s)
    | Some r \<Rightarrow> (case m r of (x, r') \<Rightarrow> (x, s\<lparr>sb_redis := Some r'\<rparr>)))"

text \<open>Building a dictionary: later assignments overwrite in place.\<close>

definition assign_all :: "stream_fields \<Rightarrow> stream_fields \<Rightarrow> stream_fields" where
  "assign_all kvs d = fold (\<lambda>(k, v). AList.update k v) kvs d"

definition dlq_fields :: "string \<Rightarrow> string \<Rightarrow> string \<Rightarrow> stream_fields \<Rightarrow> stream_fields" where
  "dlq_fields stream mid err data =
     assign_all data [(''original_stream'', stream), (''original_id'', mid), (''error'', err)]"

definition move_to_dlq :: "'r sub_env \<Rightarrow> string \<Rightarrow> EventType \<Rightarrow> string \<Rightarrow> stream_fields \<Rightarrow> string \<Rightarrow>
    (exn, ('r, 'w) subscriber, unit) op" where
  "move_to_dlq env stream ty mid data err =
     chain (on_redis_sub ''Not connected. Call start() first.''
       (xadd (se_ops env) (dlq_name (se_prefix env) ty) (dlq_fields stream mid err data))) (\<lambda>_.
     on_redis_sub ''Not connected. Call start() first.'' (xack (se_ops env) stream (se_group env) mid))"

text \<open>The handlers in order; the first one that raises ends the loop. The result is its error text.\<close>

fun run_handlers :: "'r sub_env \<Rightarrow> 'w handler list \<Rightarrow> envelope \<Rightarrow> 'w \<Rightarrow> string option \<times> 'w" where
  "run_handlers env [] e w = (None, w)"
| "run_handlers env ((name, h) # hs) e w =
     (case h e w of
        (Inl x, w') \<Rightarrow> (Some (name @ '': '' @ se_show_exn env x), w')
      | (Inr _, w') \<Rightarrow> run_handlers env hs e w')"

definition prune_retries :: "(string \<times> nat) list \<Rightarrow> (string \<times> nat) list" where
  "prune_retries d = (if max_retry_tracking < length d then drop (length d div 2) d else d)"

definition forget_retry :: "string \<Rightarrow> (exn, ('r, 'w) subscriber, unit) op" where
  "forget_retry mid = writes (\<lambda>s. s\<lparr>sb_retry_counts := AList.delete mid (sb_retry_counts s)\<rparr>)"

definition handle_failure :: "'r sub_env \<Rightarrow> string \<Rightarrow> EventType \<Rightarrow> string \<Rightarrow> stream_fields \<Rightarrow> string \<Rightarrow>
    (exn, ('r, 'w) subscriber, unit) op" where
  "handle_failure env stream ty mid data err =
     chain (reads (\<lambda>s. get_or 0 (sb_retry_counts s) mid + 1)) (\<lambda>retry_count.
     chain (writes (\<lambda>s. s\<lparr>sb_retry_counts := prune_retries (AList.update mid retry_count (sb_retry_counts s))\<rparr>)) (\<lambda>_.
     if se_max_retries env \<le> retry_count
     then chain (move_to_dlq env stream ty mid data err) (\<lambda>_. forget_retry mid)
     else ret ()))"

definition process_message :: "'r sub_env \<Rightarrow> string \<Rightarrow> EventType \<Rightarrow> delivery \<Rightarrow> (exn, ('r, 'w) subscriber, unit) op" where
  "process_message env stream ty msg = (case msg of (mid, data) \<Rightarrow>
     (case deserialize_event (se_loads env) (fst (se_fresh env)) (snd (se_fresh env)) data of
        Inl x \<Rightarrow> move_to_dlq env stream ty mid data ''deserialization_error''
      | Inr e \<Rightarrow>
          chain (\<lambda>s. case run_handlers env (get_or [] (sb_handlers s) ty) e (sb_world s) of
                       (r, w) \<Rightarrow> (Inr r, s\<lparr>sb_world := w\<rparr>)) (\<lambda>failed.
          case failed of
            Some err \<Rightarrow> handle_failure env stream ty mid data err
          | None \<Rightarrow>
              chain (on_redis_sub ''Not connected. Call start() first.'' (xack (se_ops env) stream (se_group env) mid)) (\<lambda>_.
              forget_retry mid))))"

text \<open>\<^verbatim>\<open>s.removeprefix(p)\<close>.\<close>

definition remove_prefix :: "string \<Rightarrow> string \<Rightarrow> string" where
  "remove_prefix p s = (if take (length p) s = p then drop (length p) s else s)"

text \<open>The messages of one stream; a stream of no known event type is skipped.\<close>

definition process_stream :: "'r sub_env \<Rightarrow> string \<times> delivery list \<Rightarrow> (exn, ('r, 'w) subscriber, unit) op" where
  "process_stream env p = (case p of (stream, msgs) \<Rightarrow>
     (case event_type_of (remove_prefix (se_prefix env @ '':'') stream) of
        None \<Rightarrow> ret ()
      | Some ty \<Rightarrow> for_each (process_message env stream ty) msgs))"

definition process_batch :: "'r sub_env \<Rightarrow> (string \<times> delivery list) list \<Rightarrow> (exn, ('r, 'w) subscriber, unit) op" where
  "process_batch env batch = for_each (process_stream env) batch"

text \<open>
  The read loop, on the batches that arrive until it is stopped; a failed read sleeps and is
  no batch.
\<close>

definition read_loop :: "'r sub_env \<Rightarrow> (string \<times> delivery list) list list \<Rightarrow> (exn, ('r, 'w) subscriber, unit) op" where
  "read_loop env batches =
     chain (\<lambda>s. (if sb_redis s = None then Inl (RuntimeError ''Not connected. Call start() first.'') else Inr (), s)) (\<lambda>_.
     for_each (process_batch env) batches)"

text \<open>
  Starting: connect and create the consumer group of each stream; a group that exists
  already is fine, another error is raised and leaves the connection open.
\<close>

datatype group_reply = GroupCreated | BusyGroup | GroupError exn

definition ensure_group :: "(string \<Rightarrow> string \<Rightarrow> 'r \<Rightarrow> group_reply \<times> 'r) \<Rightarrow> 'r sub_env \<Rightarrow> EventType \<Rightarrow> (exn, 'r, unit) op" where
  "ensure_group create env ty = (\<lambda>r. case create (stream_name (se_prefix env) ty) (se_group env) r of
      (GroupError e, r') \<Rightarrow> (Inl e, r') | (_, r') \<Rightarrow> (Inr (), r'))"

definition start_subscriber :: "(string \<Rightarrow> string \<Rightarrow> 'r \<Rightarrow> group_reply \<times> 'r) \<Rightarrow> 'r \<Rightarrow> 'r sub_env \<Rightarrow> EventType list \<Rightarrow>
    (exn, ('r, 'w) subscriber, unit) op" where
  "start_subscriber create conn env tys =
     chain (writes (\<lambda>s. s\<lparr>sb_redis := Some conn\<rparr>)) (\<lambda>_.
     on_redis_sub ''Not connected. Call start() first.'' (for_each (ensure_group create env) tys))"

definition stop_subscriber :: "('r, 'w) subscriber \<Rightarrow> ('r, 'w) subscriber" where
  "stop_subscriber s = s\<lparr>sb_redis := None\<rparr>"

section \<open>Reclaiming\<close>

text \<open>
  Repeated \<^verbatim>\<open>XAUTOCLAIM\<close> on one stream: the number of messages claimed. The claimed
  messages are not processed. The loop ends when Redis returns the start cursor or nothing;
  \<open>None\<close> when it never does.
\<close>

partial_function (option) claim_stream ::
    "'r sub_env \<Rightarrow> string \<Rightarrow> int \<Rightarrow> string \<Rightarrow> nat \<Rightarrow> ('r, 'w) subscriber \<Rightarrow> ((exn + nat) \<times> ('r, 'w) subscriber) option" where
  "claim_stream env stream idle start n0 s =
     (case on_redis_sub ''Subscriber not started'' (xautoclaim (se_ops env) stream (se_group env) (se_consumer env) idle start) s of
        (Inl e, s') \<Rightarrow> Some (Inl e, s')
      | (Inr (next, claimed), s') \<Rightarrow>
          if next = ''0-0'' \<or> claimed = [] then Some (Inr (n0 + length claimed), s')
          else claim_stream env stream idle next (n0 + length claimed) s')"

fun claim_stale_messages :: "'r sub_env \<Rightarrow> EventType list \<Rightarrow> int \<Rightarrow> nat \<Rightarrow> ('r, 'w) subscriber \<Rightarrow>
    ((exn + nat) \<times> ('r, 'w) subscriber) option" where
  "claim_stale_messages env [] idle n0 s =
     Some (if sb_redis s = None then (Inl (RuntimeError ''Subscriber not started''), s) else (Inr n0, s))"
| "claim_stale_messages env (ty # tys) idle n0 s =
     (case claim_stream env (stream_name (se_prefix env) ty) idle ''0-0'' n0 s of
        None \<Rightarrow> None
      | Some (Inl e, s') \<Rightarrow> Some (Inl e, s')
      | Some (Inr n, s') \<Rightarrow> claim_stale_messages env tys idle n s')"

definition get_dlq_messages :: "'r sub_env \<Rightarrow> EventType \<Rightarrow> nat \<Rightarrow> (exn, ('r, 'w) subscriber, delivery list) op" where
  "get_dlq_messages env ty count =
     on_redis_sub ''Subscriber not started'' (xrange (se_ops env) (dlq_name (se_prefix env) ty) count)"

section \<open>The dead-letter processor\<close>

definition dlq_keys :: "string set" where
  "dlq_keys = {''original_stream'', ''original_id'', ''error''}"

definition strip_metadata :: "stream_fields \<Rightarrow> stream_fields" where
  "strip_metadata data = assign_all (filter (\<lambda>(k, v). k \<notin> dlq_keys) data) []"

definition on_conn :: "(exn, 'r, 'a) op \<Rightarrow> (exn, 'r option, 'a) op" where
  "on_conn m = (\<lambda>c. case c of
      None \<Rightarrow> (Inl (RuntimeError ''Not connected. Call connect() first.''), c)
    | Some r \<Rightarrow> (case m r of (x, r') \<Rightarrow> (x, Some r')))"

definition reprocess_one :: "'r stream_ops \<Rightarrow> string \<Rightarrow> EventType \<Rightarrow> delivery \<Rightarrow> (exn, 'r, unit) op" where
  "reprocess_one ops prefix ty msg = (case msg of (mid, data) \<Rightarrow>
     let clean = strip_metadata data
     in chain (if clean \<noteq> [] then chain (xadd ops (stream_name prefix ty) clean) (\<lambda>_. ret ()) else ret ()) (\<lambda>_.
        xdel ops (dlq_name prefix ty) mid))"

definition reprocess :: "'r stream_ops \<Rightarrow> string \<Rightarrow> EventType \<Rightarrow> nat \<Rightarrow> (exn, 'r option, nat) op" where
  "reprocess ops prefix ty count =
     on_conn (chain (xrange ops (dlq_name prefix ty) count) (\<lambda>msgs.
       chain (for_each (reprocess_one ops prefix ty) msgs) (\<lambda>_. ret (length msgs))))"

definition dlq_count :: "'r stream_ops \<Rightarrow> string \<Rightarrow> EventType \<Rightarrow> (exn, 'r option, nat) op" where
  "dlq_count ops prefix ty = on_conn (xlen ops (dlq_name prefix ty))"

definition purge :: "'r stream_ops \<Rightarrow> string \<Rightarrow> EventType \<Rightarrow> (exn, 'r option, unit) op" where
  "purge ops prefix ty = on_conn (del_stream ops (dlq_name prefix ty))"

end
