(* ===== verification/Event_Properties.thy ===== *)
theory Event_Properties
  imports Event_Subscriber
begin

text \<open>
  The properties of the event bus, for any Redis that keeps the \<open>streams\<close> contract.
\<close>

section \<open>A concrete bus\<close>

text \<open>An event, an empty store, and a subscriber with one handler that fails; for the witnesses.\<close>

definition demo_event :: envelope where
  "demo_event = \<lparr>en_event_id = ''evt-1'', en_type = EventType.TASK_COMPLETED, en_timestamp = ''t'',
     en_correlation = None, en_payload = [(''task_id'', JStr ''a'')]\<rparr>"

definition demo_loads :: "string \<Rightarrow> exn + json" where
  "demo_loads s = (if s = ''json'' then Inr (dump_envelope demo_event) else Inl (ValueError s))"

definition empty_store :: stream_store where
  "empty_store = \<lparr>st_next = 0, st_entries = (\<lambda>_. []), st_pending = (\<lambda>_ _. {})\<rparr>"

lemma empty_store_ok: "store_ok empty_store"
  by (simp add: store_ok_def empty_store_def)

definition demo_env :: "stream_store sub_env" where
  "demo_env = \<lparr>se_ops = store_ops, se_loads = demo_loads, se_fresh = (''f'', ''now''), se_show_exn = (\<lambda>_. ''boom''),
     se_group = ''g'', se_consumer = ''c'', se_prefix = ''architect'', se_max_retries = 3\<rparr>"

definition demo_subscriber :: "(stream_store, nat) subscriber" where
  "demo_subscriber = (on_event EventType.TASK_COMPLETED (''h'', \<lambda>e w. (Inl (RuntimeError ''no''), w + 1)) (new_subscriber 0))
     \<lparr>sb_redis := Some empty_store\<rparr>"

lemma demo_streams: "streams (se_ops demo_env) st_entries st_pending store_ok"
  using store.streams_axioms by (simp add: demo_env_def)

lemma demo_connected: "sb_redis demo_subscriber = Some empty_store"
  by (simp add: demo_subscriber_def on_event_def new_subscriber_def)

definition demo_msg :: delivery where
  "demo_msg = (''1-0'', [(''data'', ''json'')])"

lemmas demo_simps = demo_event_def demo_loads_def empty_store_def demo_env_def demo_subscriber_def demo_msg_def
  store_ops_def stream_name_def dlq_name_def on_event_def new_subscriber_def

lemma demo_decodes: "deserialize_event demo_loads f n [(''data'', ''json'')] = Inr demo_event"
proof -
  have "envelope_ok demo_event" by (simp add: envelope_ok_def demo_event_def strip_def is_space_def)
  from load_dump_envelope [OF this] show ?thesis by (simp add: deserialize_event_def demo_loads_def)
qed

section \<open>Publishing\<close>

text \<open>JSON text of a document: what is printed is read back.\<close>

definition reads_back :: "(json \<Rightarrow> string) \<Rightarrow> (string \<Rightarrow> exn + json) \<Rightarrow> json \<Rightarrow> bool" where
  "reads_back dumps loads j \<longleftrightarrow> loads (dumps j) = Inr j"

text \<open>
  A published envelope ends up as the newest entry of the stream of its type, other
  streams are untouched, and a consumer decodes that entry to the envelope. Without a
  connection publishing raises and writes nothing.
\<close>

theorem publish_roundtrip:
  assumes "streams ops entries pending valid" and "valid (pb_redis s)" and "envelope_ok e"
    and "reads_back dumps loads (dump_envelope e)" and "publish_envelope ops dumps prefix e s = (Inr mid, s')"
  shows "pb_connected s \<and>
    (\<exists>f. last (entries (pb_redis s') (stream_name prefix (en_type e))) = (mid, f) \<and>
      deserialize_event loads fresh now f = Inr e) \<and>
    (\<forall>t. t \<noteq> stream_name prefix (en_type e) \<longrightarrow> entries (pb_redis s') t = entries (pb_redis s) t)"
proof -
  have conn: "pb_connected s" using assms(5) by (auto simp: publish_envelope_def split: if_splits)
  obtain r' where add: "xadd_capped ops 10000 (stream_name prefix (en_type e)) (serialize_event dumps e) (pb_redis s) = (Inr mid, r')"
    and s': "s' = s\<lparr>pb_redis := r'\<rparr>"
    using assms(5) conn by (auto simp: publish_envelope_def zoom_run split: prod.splits)
  have "deserialize_event loads fresh now (serialize_event dumps e) = Inr e"
    using load_dump_envelope [OF assms(3)] assms(4) by (simp add: deserialize_event_def serialize_event_def reads_back_def)
  with streams.xadd_capped_law [OF assms(1,2) add] conn show ?thesis by (auto simp: s')
qed

theorem publish_roundtrip_witness:
  "pb_connected (\<lparr>pb_connected = True, pb_redis = empty_store\<rparr> :: stream_store publisher) \<and>
   (\<exists>f. last (st_entries (pb_redis (snd (publish_envelope store_ops (\<lambda>_. ''json'') ''architect'' demo_event
       \<lparr>pb_connected = True, pb_redis = empty_store\<rparr>))) (stream_name ''architect'' EventType.TASK_COMPLETED)) = (nat_str 0, f) \<and>
     deserialize_event demo_loads ''f'' ''now'' f = Inr demo_event)"
proof -
  let ?s = "\<lparr>pb_connected = True, pb_redis = empty_store\<rparr> :: stream_store publisher"
  have ok: "envelope_ok demo_event" by (simp add: envelope_ok_def demo_event_def strip_def is_space_def)
  have ty: "en_type demo_event = EventType.TASK_COMPLETED" by (simp add: demo_event_def)
  have run: "publish_envelope store_ops (\<lambda>_. ''json'') ''architect'' demo_event ?s =
      (Inr (nat_str 0), snd (publish_envelope store_ops (\<lambda>_. ''json'') ''architect'' demo_event ?s))"
    by (simp add: publish_envelope_def zoom_run store_ops_def empty_store_def)
  show ?thesis
    using publish_roundtrip [OF store.streams_axioms _ ok _ run, of demo_loads "''f''" "''now''"]
    by (simp add: empty_store_ok reads_back_def demo_loads_def ty)
qed

section \<open>What happens to a message\<close>

lemma on_redis_run: "sb_redis s = Some r \<Longrightarrow> on_redis_sub msg m s = (fst (m r), s\<lparr>sb_redis := Some (snd (m r))\<rparr>)"
  by (simp add: on_redis_sub_def split: prod.splits)

lemma move_to_dlq_ok:
  assumes "streams ops entries pending valid" and "se_ops env = ops" and "sb_redis s = Some r" and "valid r"
    and "move_to_dlq env stream ty mid data err s = (Inr (), s')"
  shows "\<exists>r' i. sb_redis s' = Some r' \<and> valid r' \<and>
    entries r' = (entries r)(dlq_name (se_prefix env) ty :=
      entries r (dlq_name (se_prefix env) ty) @ [(i, dlq_fields stream mid err data)]) \<and>
    pending r' = (pending r)(stream := (pending r stream)(se_group env := pending r stream (se_group env) - {mid})) \<and>
    sb_retry_counts s' = sb_retry_counts s \<and> sb_world s' = sb_world s"
proof -
  let ?add = "xadd ops (dlq_name (se_prefix env) ty) (dlq_fields stream mid err data)"
  obtain x r1 where add: "?add r = (x, r1)" by (cases "?add r")
  from assms(5) obtain i where i: "x = Inr i"
    by (cases x) (auto simp: move_to_dlq_def chain_run on_redis_run [OF assms(3)] assms(2) add)
  have s1: "sb_redis (s\<lparr>sb_redis := Some r1\<rparr>) = Some r1" by simp
  obtain y r2 where ack: "xack ops stream (se_group env) mid r1 = (y, r2)" by (cases "xack ops stream (se_group env) mid r1")
  from assms(5) have y: "y = Inr ()" and s': "s' = s\<lparr>sb_redis := Some r2\<rparr>"
    by (auto simp: move_to_dlq_def chain_run on_redis_run [OF assms(3)] on_redis_run [OF s1] assms(2) add i ack)
  note a = streams.xadd_law [OF assms(1,4) add [unfolded i]]
  have v: "valid r1" using a by simp
  note b = streams.xack_law [OF assms(1) v ack [unfolded y]]
  show ?thesis using a b by (auto simp: s')
qed

text \<open>Acknowledged, and moved to the queue of dead letters with its original data.\<close>

definition acked :: "'r sub_env \<Rightarrow> string \<Rightarrow> string \<Rightarrow> (string \<Rightarrow> string \<Rightarrow> string set) \<Rightarrow> (string \<Rightarrow> string \<Rightarrow> string set) \<Rightarrow> bool" where
  "acked env stream mid P P' \<longleftrightarrow>
     P' = P(stream := (P stream)(se_group env := P stream (se_group env) - {mid}))"

definition dead_lettered :: "'r sub_env \<Rightarrow> EventType \<Rightarrow> stream_fields \<Rightarrow>
    (string \<Rightarrow> delivery list) \<Rightarrow> (string \<Rightarrow> delivery list) \<Rightarrow> bool" where
  "dead_lettered env ty d E E' \<longleftrightarrow>
     (\<exists>i. E' = E(dlq_name (se_prefix env) ty := E (dlq_name (se_prefix env) ty) @ [(i, d)]))"

text \<open>
  C16: a message that is processed without a Redis error ends in exactly one way. If it
  cannot be decoded, it is dead-lettered and acknowledged and no handler runs. If all
  handlers succeed, it is acknowledged and its retry count forgotten. If one raises, the
  later ones do not run; below the retry limit the message stays pending with its count
  increased, and at the limit it is dead-lettered with the error, acknowledged and forgotten.
\<close>

theorem message_disposition:
  assumes "streams (se_ops env) entries pending valid" and "sb_redis s = Some r" and "valid r"
    and "process_message env stream ty (mid, data) s = (Inr (), s')"
  shows "\<exists>r'. sb_redis s' = Some r' \<and> valid r' \<and>
    (case deserialize_event (se_loads env) (fst (se_fresh env)) (snd (se_fresh env)) data of
      Inl x \<Rightarrow> sb_world s' = sb_world s \<and> acked env stream mid (pending r) (pending r') \<and>
        dead_lettered env ty (dlq_fields stream mid ''deserialization_error'' data) (entries r) (entries r')
    | Inr e \<Rightarrow>
        (case run_handlers env (get_or [] (sb_handlers s) ty) e (sb_world s) of
          (None, w) \<Rightarrow> sb_world s' = w \<and> entries r' = entries r \<and> acked env stream mid (pending r) (pending r') \<and>
            sb_retry_counts s' = AList.delete mid (sb_retry_counts s)
        | (Some err, w) \<Rightarrow> sb_world s' = w \<and>
            (let k = get_or 0 (sb_retry_counts s) mid + 1;
                 counts = prune_retries (AList.update mid k (sb_retry_counts s))
             in if se_max_retries env \<le> k
                then acked env stream mid (pending r) (pending r') \<and> sb_retry_counts s' = AList.delete mid counts \<and>
                  dead_lettered env ty (dlq_fields stream mid err data) (entries r) (entries r')
                else r' = r \<and> sb_retry_counts s' = counts)))"
proof (cases "deserialize_event (se_loads env) (fst (se_fresh env)) (snd (se_fresh env)) data")
  case (Inl x)
  with assms(4) have "move_to_dlq env stream ty mid data ''deserialization_error'' s = (Inr (), s')"
    by (simp add: process_message_def)
  from move_to_dlq_ok [OF assms(1) refl assms(2,3) this] Inl show ?thesis
    by (auto simp: acked_def dead_lettered_def)
next
  case (Inr e)
  obtain failed w where h: "run_handlers env (get_or [] (sb_handlers s) ty) e (sb_world s) = (failed, w)"
    by (cases "run_handlers env (get_or [] (sb_handlers s) ty) e (sb_world s)")
  define s1 where "s1 = s\<lparr>sb_world := w\<rparr>"
  have r1: "sb_redis s1 = Some r" using assms(2) by (simp add: s1_def)
  show ?thesis
  proof (cases failed)
    case None
    obtain y r2 where ack: "xack (se_ops env) stream (se_group env) mid r = (y, r2)"
      by (cases "xack (se_ops env) stream (se_group env) mid r")
    have run: "chain (on_redis_sub ''Not connected. Call start() first.'' (xack (se_ops env) stream (se_group env) mid))
        (\<lambda>_. forget_retry mid) s1 = (Inr (), s')"
      using assms(4) by (simp add: process_message_def Inr chain_run h None s1_def)
    then have y: "y = Inr ()" by (cases y) (simp_all add: chain_run on_redis_run [OF r1] ack)
    have s': "s' = s1\<lparr>sb_redis := Some r2, sb_retry_counts := AList.delete mid (sb_retry_counts s1)\<rparr>"
      using run by (simp add: chain_run on_redis_run [OF r1] ack y forget_retry_def)
    from streams.xack_law [OF assms(1,3) ack [unfolded y]] show ?thesis
      by (simp add: Inr h None s' acked_def s1_def)
  next
    case (Some err)
    define k where "k = get_or 0 (sb_retry_counts s) mid + 1"
    have k: "Suc (get_or 0 (sb_retry_counts s) mid) = k" by (simp add: k_def)
    define s2 where "s2 = s1\<lparr>sb_retry_counts := prune_retries (AList.update mid k (sb_retry_counts s))\<rparr>"
    have run: "(if se_max_retries env \<le> k then chain (move_to_dlq env stream ty mid data err) (\<lambda>_. forget_retry mid) else ret ()) s2 = (Inr (), s')"
      using assms(4) by (simp add: process_message_def Inr chain_run h Some s1_def handle_failure_def k_def s2_def)
    show ?thesis
    proof (cases "se_max_retries env \<le> k")
      case True
      obtain x s3 where d: "move_to_dlq env stream ty mid data err s2 = (x, s3)" by (cases "move_to_dlq env stream ty mid data err s2")
      have x: "x = Inr ()" using run True d by (cases x) (simp_all add: chain_run)
      have s': "s' = s3\<lparr>sb_retry_counts := AList.delete mid (sb_retry_counts s3)\<rparr>"
        using run True d by (simp add: chain_run x forget_retry_def)
      have r2: "sb_redis s2 = Some r" using r1 by (simp add: s2_def)
      from move_to_dlq_ok [OF assms(1) refl r2 assms(3) d [unfolded x]] True show ?thesis
        by (auto simp: Inr h Some Let_def k s' s2_def s1_def acked_def dead_lettered_def)
    next
      case False
      with run r1 assms(3) show ?thesis by (auto simp: Inr h Some Let_def k s2_def s1_def)
    qed
  qed
qed


theorem message_disposition_witness:
  "\<exists>s'. process_message demo_env ''architect:task.completed'' EventType.TASK_COMPLETED demo_msg demo_subscriber = (Inr (), s') \<and>
     sb_world s' = 1 \<and> sb_retry_counts s' = [(''1-0'', 1)] \<and> sb_redis s' = Some empty_store"
proof -
  let ?p = "process_message demo_env ''architect:task.completed'' EventType.TASK_COMPLETED (''1-0'', [(''data'', ''json'')]) demo_subscriber"
  have dec: "deserialize_event (se_loads demo_env) (fst (se_fresh demo_env)) (snd (se_fresh demo_env)) [(''data'', ''json'')] = Inr demo_event"
    by (simp add: demo_env_def demo_decodes)
  have run: "run_handlers demo_env (get_or [] (sb_handlers demo_subscriber) EventType.TASK_COMPLETED) demo_event (sb_world demo_subscriber)
      = (Some ''h: boom'', 1)"
    by (simp add: demo_subscriber_def on_event_def new_subscriber_def get_or_def demo_env_def)
  have ret: "?p = (Inr (), snd ?p)"
    by (simp add: process_message_def dec chain_run run handle_failure_def)
      (simp add: demo_env_def demo_subscriber_def on_event_def new_subscriber_def get_or_def)
  have zero: "get_or 0 [] x = (0 :: nat)" for x :: string by (simp add: get_or_def)
  have more: "sb_retry_counts demo_subscriber = []" "se_max_retries demo_env = 3"
    by (simp_all add: demo_subscriber_def on_event_def new_subscriber_def demo_env_def)
  from message_disposition [where valid = store_ok and entries = st_entries and pending = st_pending, OF demo_streams demo_connected empty_store_ok ret,
    simplified dec, simplified run, simplified] ret more run
  show ?thesis by (auto simp: demo_msg_def run zero prune_retries_def max_retry_tracking_def Let_def)
qed

section \<open>Retries\<close>

lemma prune_retries_keys: "set (keys (prune_retries d)) \<subseteq> set (keys d)"
  by (auto simp: prune_retries_def dest: in_set_dropD)

lemma keys_fresh_get_or: "k \<notin> set (keys d) \<Longrightarrow> get_or v d k = v"
  by (auto simp: get_or_def map_of_eq_None_iff [symmetric] split: option.splits)

lemma delete_keys_subset: "set (keys (AList.delete k d)) \<subseteq> set (keys d)"
  by (induction d) auto

definition decodable :: "'r sub_env \<Rightarrow> delivery \<Rightarrow> bool" where
  "decodable env m \<longleftrightarrow> (case deserialize_event (se_loads env) (fst (se_fresh env)) (snd (se_fresh env)) (snd m) of
     Inl _ \<Rightarrow> False | Inr _ \<Rightarrow> True)"

text \<open>What a run leaves as it was: the entries of all streams; only new message ids gain a retry count.\<close>

definition quiet :: "('r \<Rightarrow> string \<Rightarrow> delivery list) \<Rightarrow> ('r \<Rightarrow> bool) \<Rightarrow> string set \<Rightarrow>
    ('r, 'w) subscriber \<Rightarrow> ('r, 'w) subscriber \<Rightarrow> bool" where
  "quiet entries valid ids s s' \<longleftrightarrow>
     (\<forall>r. sb_redis s = Some r \<and> valid r \<longrightarrow>
        (\<exists>r'. sb_redis s' = Some r' \<and> valid r' \<and> entries r' = entries r)) \<and>
     set (keys (sb_retry_counts s')) \<subseteq> set (keys (sb_retry_counts s)) \<union> ids"

lemma quiet_refl: "quiet entries valid ids s s"
  by (simp add: quiet_def)

lemma quiet_trans: "quiet entries valid A s s1 \<Longrightarrow> quiet entries valid B s1 s2 \<Longrightarrow> quiet entries valid (A \<union> B) s s2"
proof -
  assume a: "quiet entries valid A s s1" and b: "quiet entries valid B s1 s2"
  have "\<exists>r'. sb_redis s2 = Some r' \<and> valid r' \<and> entries r' = entries r" if r: "sb_redis s = Some r" "valid r" for r
  proof -
    obtain r1 where r1: "sb_redis s1 = Some r1" "valid r1" "entries r1 = entries r" using a r by (auto simp: quiet_def)
    with b show ?thesis by (auto simp: quiet_def)
  qed
  moreover have "set (keys (sb_retry_counts s2)) \<subseteq> set (keys (sb_retry_counts s)) \<union> (A \<union> B)"
    using a b by (simp add: quiet_def del: set_map) blast
  ultimately show ?thesis by (simp add: quiet_def)
qed

lemma quiet_keys: "quiet entries valid ids s s' \<Longrightarrow> set (keys (sb_retry_counts s')) \<subseteq> set (keys (sb_retry_counts s)) \<union> ids"
  by (simp add: quiet_def)

lemma process_message_quiet:
  assumes st: "streams (se_ops env) entries pending valid" and lim: "2 \<le> se_max_retries env"
    and dec: "decodable env m" and fresh: "fst m \<notin> set (keys (sb_retry_counts s))"
    and run: "process_message env stream ty m s = (Inr (), s')"
  shows "quiet entries valid {fst m} s s'"
proof -
  obtain mid data where m: "m = (mid, data)" by (cases m)
  obtain e where e: "deserialize_event (se_loads env) (fst (se_fresh env)) (snd (se_fresh env)) data = Inr e"
    using dec by (auto simp: decodable_def m split: sum.splits)
  obtain failed w where h: "run_handlers env (get_or [] (sb_handlers s) ty) e (sb_world s) = (failed, w)"
    by (cases "run_handlers env (get_or [] (sb_handlers s) ty) e (sb_world s)")
  have zero: "get_or 0 (sb_retry_counts s) mid = 0" using fresh by (simp add: m keys_fresh_get_or)
  show ?thesis
  proof (cases failed)
    case None
    have run: "chain (on_redis_sub ''Not connected. Call start() first.'' (xack (se_ops env) stream (se_group env) mid))
        (\<lambda>_. forget_retry mid) (s\<lparr>sb_world := w\<rparr>) = (Inr (), s')"
      using run by (simp add: m process_message_def e chain_run h None)
    then obtain r r2 where r: "sb_redis s = Some r" and ack: "xack (se_ops env) stream (se_group env) mid r = (Inr (), r2)"
      and s': "s' = s\<lparr>sb_world := w, sb_redis := Some r2, sb_retry_counts := AList.delete mid (sb_retry_counts s)\<rparr>"
      by (cases "sb_redis s") (auto simp: chain_run on_redis_sub_def forget_retry_def split: prod.splits sum.splits)
    show ?thesis using streams.xack_law [OF st _ ack] delete_keys_subset [of mid "sb_retry_counts s"]
      by (auto simp: quiet_def r s')
  next
    case (Some err)
    have "s' = s\<lparr>sb_world := w, sb_retry_counts := prune_retries (AList.update mid 1 (sb_retry_counts s))\<rparr>"
      using run lim by (simp add: m process_message_def e chain_run h Some handle_failure_def zero)
    moreover have "set (keys (prune_retries (AList.update mid 1 (sb_retry_counts s)))) \<subseteq> set (keys (sb_retry_counts s)) \<union> {mid}"
      using prune_retries_keys [of "AList.update mid 1 (sb_retry_counts s)"] by (auto simp: keys_update split: if_splits)
    ultimately show ?thesis by (simp add: quiet_def m)
  qed
qed

text \<open>The ids of the messages of a batch, and of all batches.\<close>

definition batch_ids :: "(string \<times> delivery list) list \<Rightarrow> string list" where
  "batch_ids batch = concat (map (\<lambda>(_, ms). keys ms) batch)"

lemma for_each_quiet:
  assumes step: "\<And>x s s'. x \<in> set xs \<Longrightarrow> set (ids x) \<inter> set (keys (sb_retry_counts s)) = {} \<Longrightarrow> f x s = (Inr (), s') \<Longrightarrow>
      quiet entries valid (set (ids x)) s s'"
    and "distinct (concat (map ids xs))" and "set (concat (map ids xs)) \<inter> set (keys (sb_retry_counts s)) = {}"
    and "for_each f xs s = (Inr (), s')"
  shows "quiet entries valid (set (concat (map ids xs))) s s'"
  using assms
proof (induction xs arbitrary: s)
  case Nil
  then show ?case by (simp add: quiet_def)
next
  case (Cons x xs)
  obtain y s1 where fx: "f x s = (y, s1)" by (cases "f x s")
  with Cons.prems(4) have y: "y = Inr ()" by (cases y) (auto simp: chain_run)
  with fx Cons.prems(4) have rest: "for_each f xs s1 = (Inr (), s')" by (simp add: chain_run)
  have "set (ids x) \<inter> set (keys (sb_retry_counts s)) = {}" using Cons.prems(3) by auto
  then have q: "quiet entries valid (set (ids x)) s s1"
    by (intro Cons.prems(1)) (simp_all add: fx y)
  have d: "distinct (concat (map ids xs))" using Cons.prems(2) by simp
  have "set (ids x) \<inter> set (concat (map ids xs)) = {}" using Cons.prems(2) by auto
  then have "set (concat (map ids xs)) \<inter> set (keys (sb_retry_counts s1)) = {}"
    using quiet_keys [OF q] Cons.prems(3) by (simp del: set_concat set_map) blast
  then have "quiet entries valid (set (concat (map ids xs))) s1 s'"
    by (intro Cons.IH [OF _ d _ rest]) (rule Cons.prems(1), simp_all)
  from quiet_trans [OF q this] show ?case by simp
qed

lemma process_stream_quiet:
  assumes "streams (se_ops env) entries pending valid" and "2 \<le> se_max_retries env"
    and "list_all (decodable env) (snd p)" and "distinct (keys (snd p))"
    and "set (keys (snd p)) \<inter> set (keys (sb_retry_counts s)) = {}"
    and "process_stream env p s = (Inr (), s')"
  shows "quiet entries valid (set (keys (snd p))) s s'"
proof -
  obtain stream ms where p: "p = (stream, ms)" by (cases p)
  show ?thesis
  proof (cases "event_type_of (remove_prefix (se_prefix env @ '':'') stream)")
    case None
    with assms(6) show ?thesis by (simp add: p process_stream_def quiet_def)
  next
    case (Some ty)
    have run: "for_each (process_message env stream ty) ms s = (Inr (), s')"
      using assms(6) by (simp add: p process_stream_def Some)
    have c: "concat (map (\<lambda>m. [fst m]) ms) = keys ms" by (induction ms) simp_all
    have "quiet entries valid (set (concat (map (\<lambda>m. [fst m]) ms))) s s'"
      by (rule for_each_quiet [OF _ _ _ run])
        (use assms(3,4,5) in \<open>auto simp: p c list_all_iff intro: process_message_quiet [OF assms(1,2), simplified]\<close>)
    then show ?thesis by (simp add: p c)
  qed
qed



section \<open>Out of the dead-letter queue\<close>

lemma assign_all_fresh:
  "distinct (keys kvs) \<Longrightarrow> set (keys kvs) \<inter> set (keys d) = {} \<Longrightarrow> assign_all kvs d = d @ kvs"
proof (induction kvs arbitrary: d)
  case Nil
  then show ?case by (simp add: assign_all_def)
next
  case (Cons x kvs)
  obtain k v where x: "x = (k, v)" by (cases x)
  have "k \<notin> set (keys d)" using Cons.prems by (auto simp: x)
  then have "AList.update k v d = d @ [(k, v)]" by (induction d) (auto split: prod.splits)
  with Cons.prems Cons.IH [of "d @ [(k, v)]"] show ?case by (auto simp: assign_all_def x)
qed

lemma strip_metadata_dlq_fields:
  assumes "distinct (keys data)" and "set (keys data) \<inter> dlq_keys = {}"
  shows "strip_metadata (dlq_fields stream mid err data) = data"
proof -
  have "dlq_fields stream mid err data = [(''original_stream'', stream), (''original_id'', mid), (''error'', err)] @ data"
    unfolding dlq_fields_def by (rule assign_all_fresh) (use assms in \<open>auto simp: dlq_keys_def\<close>)
  moreover have "filter (\<lambda>(k, v). k \<notin> dlq_keys) data = data"
    using assms(2) by (auto simp: filter_id_conv)
  ultimately show ?thesis
    by (simp add: strip_metadata_def dlq_keys_def assign_all_fresh assms(1))
qed

text \<open>
  Reprocessing undoes dead-lettering. A message moved to an empty dead-letter queue and
  reprocessed is appended to the stream of its type with exactly its original data, the
  queue is empty again, and no other stream has changed.
\<close>

theorem dlq_roundtrip:
  assumes "streams (se_ops env) entries pending valid" and "sb_redis s = Some r" and "valid r"
    and "entries r (dlq_name (se_prefix env) ty) = []" and "0 < count"
    and "data \<noteq> []" and "distinct (keys data)" and "set (keys data) \<inter> dlq_keys = {}"
    and "move_to_dlq env stream ty mid data err s = (Inr (), s')"
    and "reprocess (se_ops env) (se_prefix env) ty count (sb_redis s') = (Inr n, c)"
  shows "n = 1 \<and> (\<exists>r' i. c = Some r' \<and>
    entries r' = (entries r)(stream_name (se_prefix env) ty := entries r (stream_name (se_prefix env) ty) @ [(i, data)]))"
proof -
  let ?q = "dlq_name (se_prefix env) ty" and ?t = "stream_name (se_prefix env) ty" and ?ops = "se_ops env"
  have ne: "?t \<noteq> ?q" by (simp add: stream_name_def dlq_name_def)
  from move_to_dlq_ok [OF assms(1) refl assms(2,3,9)] obtain r1 j where r1: "sb_redis s' = Some r1" "valid r1"
    "entries r1 = (entries r)(?q := [(j, dlq_fields stream mid err data)])" by (auto simp: assms(4))
  obtain x r2 where rng: "xrange ?ops ?q count r1 = (x, r2)" by (cases "xrange ?ops ?q count r1")
  with assms(10) obtain es where x: "x = Inr es" by (cases x) (auto simp: reprocess_def on_conn_def r1 chain_run)
  from streams.xrange_law [OF assms(1) r1(2) rng [unfolded x]] assms(5)
  have es: "r2 = r1" "es = [(j, dlq_fields stream mid err data)]" by (auto simp: r1(3))
  obtain y r3 where add: "xadd ?ops ?t data r1 = (y, r3)" by (cases "xadd ?ops ?t data r1")
  obtain z r4 where del: "xdel ?ops ?q j r3 = (z, r4)" by (cases "xdel ?ops ?q j r3")
  from assms(10) obtain i where y: "y = Inr i"
    by (cases y) (simp_all add: reprocess_def on_conn_def r1(1) chain_run rng x es reprocess_one_def Let_def
      strip_metadata_dlq_fields [OF assms(7,8)] assms(6) add)
  from assms(10) have z: "z = Inr ()" and out: "n = 1 \<and> c = Some r4"
    by (cases z; simp add: reprocess_def on_conn_def r1(1) chain_run rng x es reprocess_one_def Let_def
      strip_metadata_dlq_fields [OF assms(7,8)] assms(6) add y del)+
  from streams.xadd_law [OF assms(1) r1(2) add [unfolded y]]
  have a: "valid r3" "entries r3 = (entries r1)(?t := entries r1 ?t @ [(i, data)])" by auto
  from streams.xdel_law [OF assms(1) a(1) del [unfolded z]] a(2) r1(3) ne assms(4)
  have "entries r4 = (entries r)(?t := entries r ?t @ [(i, data)])" by (auto simp: fun_eq_iff)
  with out show ?thesis by blast
qed


theorem dlq_roundtrip_witness:
  "\<exists>n c r' i. reprocess store_ops ''architect'' EventType.TASK_COMPLETED 10
      (sb_redis (snd (move_to_dlq demo_env ''architect:task.completed'' EventType.TASK_COMPLETED ''1-0'' [(''data'', ''json'')] ''boom'' demo_subscriber)))
      = (Inr n, c) \<and> n = 1 \<and> c = Some r' \<and>
    st_entries r' = (st_entries empty_store)(stream_name ''architect'' EventType.TASK_COMPLETED := [(i, [(''data'', ''json'')])])"
proof -
  let ?m = "move_to_dlq demo_env ''architect:task.completed'' EventType.TASK_COMPLETED ''1-0'' [(''data'', ''json'')] ''boom'' demo_subscriber"
  let ?r = "reprocess store_ops ''architect'' EventType.TASK_COMPLETED 10 (sb_redis (snd ?m))"
  have e: "se_ops demo_env = store_ops" "se_prefix demo_env = ''architect''" by (simp_all add: demo_env_def)
  have m: "?m = (Inr (), snd ?m)"
    by (simp add: move_to_dlq_def chain_run demo_env_def demo_subscriber_def on_redis_sub_def store_ops_def)
  have d: "dlq_name ''architect'' EventType.TASK_COMPLETED \<noteq> stream_name ''architect'' EventType.TASK_COMPLETED"
    by (simp add: dlq_name_def stream_name_def)
  have "\<exists>n c. ?r = (Inr n, c)"
    by (simp add: move_to_dlq_def chain_run demo_env_def demo_subscriber_def on_redis_sub_def store_ops_def reprocess_def on_conn_def
        empty_store_def reprocess_one_def Let_def)
  then obtain n c where r: "?r = (Inr n, c)" by blast
  have "n = 1 \<and> (\<exists>r' i. c = Some r' \<and>
    st_entries r' = (st_entries empty_store)(stream_name ''architect'' EventType.TASK_COMPLETED := [(i, [(''data'', ''json'')])]))"
    using dlq_roundtrip [where valid = store_ok and entries = st_entries and pending = st_pending,
      OF demo_streams demo_connected empty_store_ok _ _ _ _ _ m, of 10 n c] r
    by (simp add: e dlq_keys_def empty_store_def)
  with r show ?thesis by blast
qed

end
