(* ===== verification/Text.thy ===== *)
theory Text
  imports Schema
begin

text \<open>
  The string operations and regular expressions of Python that the code uses, on strings
  of characters below 256. A pattern is a term of \<open>rx\<close>; \<open>rx_matches\<close> lists its matches
  at a position in the order in which Python's backtracking matcher tries them, and
  \<open>rx_search\<close> takes the first of the leftmost position. \<open>rx_sem\<close> is the declarative meaning;
  \<open>rx_matches_sem\<close> shows that the matcher finds nothing else.
\<close>

section \<open>Strings\<close>

definition is_line_break :: "char \<Rightarrow> bool" where
  "is_line_break c \<longleftrightarrow> c \<in> {CHR 0x0A, CHR 0x0B, CHR 0x0C, CHR 0x0D, CHR 0x1C, CHR 0x1D, CHR 0x1E, CHR 0x85}"

text \<open>\<^verbatim>\<open>s.splitlines()\<close>: a break ends a line, CR LF is one break.\<close>

fun split_lines :: "string \<Rightarrow> string \<Rightarrow> string list" where
  "split_lines acc [] = (if acc = [] then [] else [rev acc])"
| "split_lines acc (c # s) =
     (if is_line_break c
      then rev acc # (if c = CHR 0x0D \<and> s \<noteq> [] \<and> hd s = CHR 0x0A then split_lines [] (tl s) else split_lines [] s)
      else split_lines (c # acc) s)"

definition splitlines :: "string \<Rightarrow> string list" where
  "splitlines s = split_lines [] s"

definition has_prefix :: "string \<Rightarrow> string \<Rightarrow> bool" where
  "has_prefix s p \<longleftrightarrow> take (length p) s = p"

definition has_suffix :: "string \<Rightarrow> string \<Rightarrow> bool" where
  "has_suffix s p \<longleftrightarrow> length p \<le> length s \<and> drop (length s - length p) s = p"

text \<open>\<^verbatim>\<open>p in s\<close>.\<close>

fun occurs_in :: "string \<Rightarrow> string \<Rightarrow> bool" where
  "occurs_in p [] = (p = [])"
| "occurs_in p (c # s) = (has_prefix (c # s) p \<or> occurs_in p s)"

text \<open>\<^verbatim>\<open>sep.join(xs)\<close>.\<close>

fun join_with :: "string \<Rightarrow> string list \<Rightarrow> string" where
  "join_with sep [] = []"
| "join_with sep [x] = x"
| "join_with sep (x # y # xs) = x @ sep @ join_with sep (y # xs)"

text \<open>\<^verbatim>\<open>s.split()\<close>.\<close>

fun split_space :: "string \<Rightarrow> string \<Rightarrow> string list" where
  "split_space acc [] = (if acc = [] then [] else [rev acc])"
| "split_space acc (c # s) =
     (if is_space c then (if acc = [] then split_space [] s else rev acc # split_space [] s)
      else split_space (c # acc) s)"

definition words_of :: "string \<Rightarrow> string list" where
  "words_of s = split_space [] s"

lemma occurs_in_iff: "occurs_in p s \<longleftrightarrow> (\<exists>u v. s = u @ p @ v)"
proof (induction s)
  case Nil
  show ?case by auto
next
  case (Cons c s)
  have "has_prefix (c # s) p \<longleftrightarrow> (\<exists>v. c # s = p @ v)"
    by (metis append_eq_conv_conj append_take_drop_id has_prefix_def)
  moreover have "(\<exists>u v. c # s = u @ p @ v) \<longleftrightarrow> (\<exists>v. c # s = p @ v) \<or> (\<exists>u v. s = u @ p @ v)"
    by (metis append_Cons append_Nil neq_Nil_conv list.inject)
  ultimately show ?case using Cons.IH by simp
qed

lemma split_on_append: "split_on c (xs @ c # ys) = split_on c xs @ split_on c ys"
proof (induction xs)
  case (Cons x xs)
  then show ?case by (cases "split_on c xs") auto
qed simp

lemma split_on_free: "x \<in> set (split_on c s) \<Longrightarrow> c \<notin> set x"
  by (induction s arbitrary: x) (auto split: list.splits if_splits)

lemma split_on_single: "c \<notin> set s \<Longrightarrow> split_on c s = [s]"
  by (induction s) auto

section \<open>Character classes\<close>

datatype citem = Chr char | Range char char | Digit | Word | Space

definition is_digit :: "char \<Rightarrow> bool" where
  "is_digit c \<longleftrightarrow> 48 \<le> (of_char c :: nat) \<and> (of_char c :: nat) \<le> 57"

text \<open>Alphanumeric or underscore, Latin-1 letters and numerals included.\<close>

definition is_word :: "char \<Rightarrow> bool" where
  "is_word c \<longleftrightarrow> (let n = (of_char c :: nat) in
     (48 \<le> n \<and> n \<le> 57) \<or> (65 \<le> n \<and> n \<le> 90) \<or> n = 95 \<or> (97 \<le> n \<and> n \<le> 122) \<or>
     n \<in> {170, 178, 179, 181, 185, 186, 188, 189, 190} \<or> (192 \<le> n \<and> n \<noteq> 215 \<and> n \<noteq> 247))"

fun in_item :: "char \<Rightarrow> citem \<Rightarrow> bool" where
  "in_item c (Chr d) = (c = d)"
| "in_item c (Range a b) = ((of_char a :: nat) \<le> of_char c \<and> (of_char c :: nat) \<le> of_char b)"
| "in_item c Digit = is_digit c"
| "in_item c Word = is_word c"
| "in_item c Space = is_space c"

text \<open>The other case of an ASCII letter, for \<^verbatim>\<open>re.IGNORECASE\<close>.\<close>

definition swap_case :: "char \<Rightarrow> char" where
  "swap_case c = (let n = (of_char c :: nat) in
     if 65 \<le> n \<and> n \<le> 90 then char_of (n + 32) else if 97 \<le> n \<and> n \<le> 122 then char_of (n - 32) else c)"

text \<open>The same on the bits of a character, for evaluation.\<close>

definition letter_bits :: "bool \<Rightarrow> bool \<Rightarrow> bool \<Rightarrow> bool \<Rightarrow> bool \<Rightarrow> bool" where
  "letter_bits b0 b1 b2 b3 b4 \<longleftrightarrow> (b0 \<or> b1 \<or> b2 \<or> b3 \<or> b4) \<and> \<not> (b4 \<and> b3 \<and> (b2 \<or> b1 \<and> b0))"

lemma swap_case_code [code]: "swap_case (Char b0 b1 b2 b3 b4 b5 b6 b7) =
    Char b0 b1 b2 b3 b4 (b5 \<noteq> (b6 \<and> \<not> b7 \<and> letter_bits b0 b1 b2 b3 b4)) b6 b7"
  by (cases b0; cases b1; cases b2; cases b3; cases b4; cases b5; cases b6; cases b7;
      simp add: swap_case_def letter_bits_def char_of_def bit_iff_odd)

lemma is_word_code [code]: "is_word (Char b0 b1 b2 b3 b4 b5 b6 b7) \<longleftrightarrow>
    (if b7 then
       if b6 then \<not> (b4 \<and> \<not> b3 \<and> b2 \<and> b1 \<and> b0)
       else b5 \<and> (if b4 then (if b3 then \<not> (b1 \<and> b0) \<and> (b2 \<or> b1 \<or> b0) else \<not> b2 \<and> b1 \<or> b2 \<and> \<not> b1 \<and> b0)
                  else b3 \<and> \<not> b2 \<and> b1 \<and> \<not> b0)
     else if b6 then letter_bits b0 b1 b2 b3 b4 \<or> (\<not> b5 \<and> b4 \<and> b3 \<and> b2 \<and> b1 \<and> b0)
     else b5 \<and> b4 \<and> \<not> (b3 \<and> (b2 \<or> b1)))"
  by (cases b0; cases b1; cases b2; cases b3; cases b4; cases b5; cases b6; cases b7; simp add: is_word_def letter_bits_def)

lemma is_space_code [code]: "is_space (Char b0 b1 b2 b3 b4 b5 b6 b7) \<longleftrightarrow> \<not> b6 \<and>
    (if b5 then \<not> b4 \<and> \<not> b3 \<and> \<not> b2 \<and> \<not> b1 \<and> \<not> b0
     else if b7 then \<not> b4 \<and> \<not> b3 \<and> b2 \<and> \<not> b1 \<and> b0
     else b3 \<and> (if b4 then b2 else if b2 then \<not> b1 else b1 \<or> b0))"
  by (cases b0; cases b1; cases b2; cases b3; cases b4; cases b5; cases b6; cases b7; simp add: is_space_def)

definition in_class :: "bool \<Rightarrow> citem list \<Rightarrow> char \<Rightarrow> bool" where
  "in_class icase items c \<longleftrightarrow> list_ex (in_item c) items \<or> (icase \<and> list_ex (in_item (swap_case c)) items)"

section \<open>Patterns\<close>

datatype rx =
    Eps
  | Cls bool "citem list"                  \<comment> \<open>negated, items\<close>
  | Dot                                    \<comment> \<open>no newline\<close>
  | Seq rx rx
  | Alt rx rx
  | Rep bool nat "nat option" rx           \<comment> \<open>greedy, least and largest number\<close>
  | Grp nat rx
  | Word_Edge
  | At_Start
  | At_End
  | Ahead bool rx                          \<comment> \<open>lookahead, negative if False\<close>

definition lit :: "string \<Rightarrow> rx" where
  "lit s = foldr (\<lambda>c. Seq (Cls False [Chr c])) s Eps"

definition seqs :: "rx list \<Rightarrow> rx" where
  "seqs rs = foldr Seq rs Eps"

fun alts :: "rx list \<Rightarrow> rx" where
  "alts [] = Eps"
| "alts [r] = r"
| "alts (r # s # rs) = Alt r (alts (s # rs))"

abbreviation "optional r \<equiv> Rep True 0 (Some 1) r"
abbreviation "many r \<equiv> Rep True 0 None r"
abbreviation "some_of r \<equiv> Rep True 1 None r"

text \<open>A position: the character before it, the rest of the string, and the groups so far.\<close>

type_synonym place = "char option \<times> string \<times> (nat \<times> string) list"

abbreviation rest_of :: "place \<Rightarrow> string" where
  "rest_of p \<equiv> fst (snd p)"

definition one_char :: "(char \<Rightarrow> bool) \<Rightarrow> place \<Rightarrow> place list" where
  "one_char ok p = (case p of (b, s, g) \<Rightarrow> (case s of c # s' \<Rightarrow> if ok c then [(Some c, s', g)] else [] | [] \<Rightarrow> []))"

definition at_word :: "place \<Rightarrow> bool" where
  "at_word p = (case p of (b, s, g) \<Rightarrow>
     (case b of None \<Rightarrow> False | Some c \<Rightarrow> is_word c) \<noteq> (case s of [] \<Rightarrow> False | c # _ \<Rightarrow> is_word c))"

definition at_end :: "place \<Rightarrow> bool" where
  "at_end p \<longleftrightarrow> rest_of p = [] \<or> rest_of p = [CHR 0x0A]"

definition close_group :: "nat \<Rightarrow> place \<Rightarrow> place \<Rightarrow> place" where
  "close_group n p q = (case q of (b, s, g) \<Rightarrow> (b, s, (n, take (length (rest_of p) - length s) (rest_of p)) # g))"

text \<open>
  Repetition of a matcher \<open>m\<close>; \<open>fuel\<close> is at least the length of the rest plus the least
  number, and an optional round that consumes nothing is not taken.
\<close>

fun rounds :: "bool \<Rightarrow> (place \<Rightarrow> place list) \<Rightarrow> nat \<Rightarrow> nat \<Rightarrow> nat option \<Rightarrow> place \<Rightarrow> place list" where
  "rounds greedy m 0 lo hi p = (if lo = 0 then [p] else [])"
| "rounds greedy m (Suc fuel) lo hi p =
     (if 0 < lo then concat (map (rounds greedy m fuel (lo - 1) (map_option (\<lambda>h. h - Suc 0) hi)) (m p))
      else if hi = Some 0 then [p]
      else (let more = concat (map (rounds greedy m fuel 0 (map_option (\<lambda>h. h - Suc 0) hi))
                         (filter (\<lambda>q. length (rest_of q) < length (rest_of p)) (m p)))
            in if greedy then more @ [p] else p # more))"

primrec rx_matches :: "bool \<Rightarrow> rx \<Rightarrow> place \<Rightarrow> place list" where
  "rx_matches i Eps = (\<lambda>p. [p])"
| "rx_matches i (Cls neg items) = one_char (\<lambda>c. in_class i items c \<noteq> neg)"
| "rx_matches i Dot = one_char (\<lambda>c. c \<noteq> CHR 0x0A)"
| "rx_matches i (Seq r s) = (\<lambda>p. concat (map (rx_matches i s) (rx_matches i r p)))"
| "rx_matches i (Alt r s) = (\<lambda>p. rx_matches i r p @ rx_matches i s p)"
| "rx_matches i (Rep greedy lo hi r) = (\<lambda>p. rounds greedy (rx_matches i r) (length (rest_of p) + lo) lo hi p)"
| "rx_matches i (Grp n r) = (\<lambda>p. map (close_group n p) (rx_matches i r p))"
| "rx_matches i Word_Edge = (\<lambda>p. if at_word p then [p] else [])"
| "rx_matches i At_Start = (\<lambda>p. if fst p = None then [p] else [])"
| "rx_matches i At_End = (\<lambda>p. if at_end p then [p] else [])"
| "rx_matches i (Ahead pos r) = (\<lambda>p. if (rx_matches i r p \<noteq> []) = pos then [p] else [])"

text \<open>\<^verbatim>\<open>re.search\<close>: the groups of the match and the rest after it.\<close>

fun search_from :: "bool \<Rightarrow> rx \<Rightarrow> char option \<Rightarrow> string \<Rightarrow> place option" where
  "search_from i r b [] = (case rx_matches i r (b, [], []) of [] \<Rightarrow> None | q # _ \<Rightarrow> Some q)"
| "search_from i r b (c # s) =
     (case rx_matches i r (b, c # s, []) of q # _ \<Rightarrow> Some q | [] \<Rightarrow> search_from i r (Some c) s)"

definition rx_search :: "bool \<Rightarrow> rx \<Rightarrow> string \<Rightarrow> (nat \<times> string) list option" where
  "rx_search i r s = map_option (snd \<circ> snd) (search_from i r None s)"

definition rx_found :: "bool \<Rightarrow> rx \<Rightarrow> string \<Rightarrow> bool" where
  "rx_found i r s \<longleftrightarrow> rx_search i r s \<noteq> None"

text \<open>\<^verbatim>\<open>re.match\<close>: at the start.\<close>

definition rx_match :: "bool \<Rightarrow> rx \<Rightarrow> string \<Rightarrow> bool" where
  "rx_match i r s \<longleftrightarrow> rx_matches i r (None, s, []) \<noteq> []"

section \<open>Meaning\<close>

text \<open>Which positions a pattern can lead to, without an order; lookahead is left out.\<close>

fun plain :: "rx \<Rightarrow> bool" where
  "plain (Ahead _ _) = False"
| "plain (Seq r s) = (plain r \<and> plain s)"
| "plain (Alt r s) = (plain r \<and> plain s)"
| "plain (Rep _ _ _ r) = plain r"
| "plain (Grp _ r) = plain r"
| "plain _ = True"

inductive rx_sem :: "bool \<Rightarrow> rx \<Rightarrow> place \<Rightarrow> place \<Rightarrow> bool" for i where
  Eps: "rx_sem i Eps p p"
| Cls: "in_class i items c \<noteq> neg \<Longrightarrow> rx_sem i (Cls neg items) (b, c # s, g) (Some c, s, g)"
| Dot: "c \<noteq> CHR 0x0A \<Longrightarrow> rx_sem i Dot (b, c # s, g) (Some c, s, g)"
| Seq: "rx_sem i r p q \<Longrightarrow> rx_sem i s q t \<Longrightarrow> rx_sem i (Seq r s) p t"
| AltL: "rx_sem i r p q \<Longrightarrow> rx_sem i (Alt r s) p q"
| AltR: "rx_sem i s p q \<Longrightarrow> rx_sem i (Alt r s) p q"
| Stop: "rx_sem i (Rep greedy 0 hi r) p p"
| Must: "rx_sem i r p q \<Longrightarrow> rx_sem i (Rep greedy lo (map_option (\<lambda>h. h - Suc 0) hi) r) q t \<Longrightarrow> rx_sem i (Rep greedy (Suc lo) hi r) p t"
| May: "hi \<noteq> Some 0 \<Longrightarrow> rx_sem i r p q \<Longrightarrow> rx_sem i (Rep greedy 0 (map_option (\<lambda>h. h - Suc 0) hi) r) q t \<Longrightarrow> rx_sem i (Rep greedy 0 hi r) p t"
| Grp: "rx_sem i r p q \<Longrightarrow> rx_sem i (Grp n r) p (close_group n p q)"
| Word: "at_word p \<Longrightarrow> rx_sem i Word_Edge p p"
| Start: "fst p = None \<Longrightarrow> rx_sem i At_Start p p"
| End: "at_end p \<Longrightarrow> rx_sem i At_End p p"

lemma rounds_sem:
  assumes "\<And>p q. q \<in> set (m p) \<Longrightarrow> rx_sem i r p q" and "q \<in> set (rounds greedy m fuel lo hi p)"
  shows "rx_sem i (Rep greedy lo hi r) p q"
  using assms(2)
proof (induction fuel arbitrary: lo hi p)
  case 0
  then show ?case by (auto intro: rx_sem.Stop split: if_splits)
next
  case (Suc fuel)
  show ?case
  proof (cases lo)
    case (Suc n)
    with Suc.prems obtain t where "t \<in> set (m p)" "q \<in> set (rounds greedy m fuel n (map_option (\<lambda>h. h - Suc 0) hi) t)" by auto
    then show ?thesis unfolding Suc by (blast intro: rx_sem.Must Suc.IH assms(1))
  next
    case 0
    with Suc.prems consider "q = p" | t where "hi \<noteq> Some 0" "t \<in> set (m p)"
        "q \<in> set (rounds greedy m fuel 0 (map_option (\<lambda>h. h - Suc 0) hi) t)"
      by (auto simp: Let_def split: if_splits)
    then show ?thesis
    proof cases
      case 1
      then show ?thesis by (simp add: 0 rx_sem.Stop)
    next
      case 2
      then show ?thesis unfolding 0 by (blast intro: rx_sem.May Suc.IH assms(1))
    qed
  qed
qed

lemma rx_matches_sem: "plain r \<Longrightarrow> q \<in> set (rx_matches i r p) \<Longrightarrow> rx_sem i r p q"
proof (induction r arbitrary: p q)
  case (Seq r s)
  then obtain t where "t \<in> set (rx_matches i r p)" and "q \<in> set (rx_matches i s t)" by auto
  with Seq show ?case by (blast intro: rx_sem.Seq dest: plain.simps(2) [THEN iffD1])
next
  case (Grp n r)
  then obtain t where "t \<in> set (rx_matches i r p)" and "q = close_group n p t" by auto
  with Grp show ?case by (simp add: rx_sem.Grp)
next
  case (Rep greedy lo hi r)
  then show ?case using rounds_sem [of "rx_matches i r" i r q greedy _ lo hi p] by simp
qed (auto simp: one_char_def split: prod.splits list.splits if_splits intro: rx_sem.intros)

text \<open>
  JSON text as \<^verbatim>\<open>json.loads\<close> reads it, and \<^verbatim>\<open>str\<close> of a document. Strings hold characters
  below 256, so a \<^verbatim>\<open>\u\<close> escape beyond them is refused, as are the non-standard
  words for infinities. The scanner has fuel for two steps per character: a step into a value
  consumes a character, and so does a step to the next element or member.
\<close>

section \<open>Scanning\<close>

definition json_space :: "char \<Rightarrow> bool" where
  "json_space c \<longleftrightarrow> c \<in> {CHR '' '', CHR 0x09, CHR 0x0A, CHR 0x0D}"

abbreviation skip_space :: "string \<Rightarrow> string" where
  "skip_space \<equiv> dropWhile json_space"

definition hex_value :: "char \<Rightarrow> nat" where
  "hex_value c = (if is_digit c then of_char c - 48 else of_char (lower_char c) - 87)"

definition hex_number :: "string \<Rightarrow> nat option" where
  "hex_number ds = (if list_all (\<lambda>c. hex_digit (lower_char c)) ds then Some (foldl (\<lambda>n c. 16 * n + hex_value c) 0 ds) else None)"

definition escapes :: "(char \<times> char) list" where
  "escapes = [(CHR 0x22, CHR 0x22), (CHR 0x5C, CHR 0x5C), (CHR ''/'', CHR ''/''), (CHR ''b'', CHR 0x08), (CHR ''f'', CHR 0x0C),
     (CHR ''n'', CHR 0x0A), (CHR ''r'', CHR 0x0D), (CHR ''t'', CHR 0x09)]"

text \<open>One character of a string after its opening quote: the end, or the character it stands for.\<close>

definition scan_char :: "string \<Rightarrow> (char option \<times> string) option" where
  "scan_char s = (case s of
      [] \<Rightarrow> None
    | c # s1 \<Rightarrow>
        if c = CHR 0x22 then Some (None, s1)
        else if c \<noteq> CHR 0x5C then (if (of_char c :: nat) < 32 then None else Some (Some c, s1))
        else (case s1 of
            [] \<Rightarrow> None
          | e # s2 \<Rightarrow>
              if e = CHR ''u''
              then (case hex_number (take 4 s2) of
                  Some n \<Rightarrow> if 4 \<le> length s2 \<and> n < 256 then Some (Some (char_of n), drop 4 s2) else None
                | None \<Rightarrow> None)
              else map_option (\<lambda>x. (Some x, s2)) (map_of escapes e)))"

lemma scan_char_shorter: "scan_char s = Some (c, r) \<Longrightarrow> length r < length s"
  by (auto simp: scan_char_def split: list.splits if_splits option.splits)

function scan_string :: "string \<Rightarrow> string \<Rightarrow> (string \<times> string) option" where
  "scan_string acc s = (case scan_char s of
      None \<Rightarrow> None
    | Some (None, r) \<Rightarrow> Some (rev acc, r)
    | Some (Some c, r) \<Rightarrow> scan_string (c # acc) r)"
  by pat_completeness auto

termination
  by (relation "measure (\<lambda>(acc, s). length s)") (auto dest: scan_char_shorter)

declare scan_string.simps [simp del]

section \<open>Numbers\<close>

definition digit_run :: "string \<Rightarrow> string" where
  "digit_run s = takeWhile is_digit s"

text \<open>The fraction and the exponent that follow an integer, if they are complete.\<close>

definition scan_fraction :: "string \<Rightarrow> string \<times> string" where
  "scan_fraction s = (case s of
      c # s1 \<Rightarrow> if c = CHR ''.'' \<and> digit_run s1 \<noteq> [] then (digit_run s1, drop (length (digit_run s1)) s1) else ([], s)
    | [] \<Rightarrow> ([], []))"

definition scan_exponent :: "string \<Rightarrow> int option \<times> string" where
  "scan_exponent s = (case s of
      [] \<Rightarrow> (None, [])
    | c # s1 \<Rightarrow>
        let sign = (case s1 of d # _ \<Rightarrow> d = CHR ''+'' \<or> d = CHR ''-'' | [] \<Rightarrow> False);
            s2 = (if sign then tl s1 else s1); ds = digit_run s2
        in if (c = CHR ''e'' \<or> c = CHR ''E'') \<and> ds \<noteq> []
           then (Some (if sign \<and> hd s1 = CHR ''-'' then - digits_value ds else digits_value ds), drop (length ds) s2)
           else (None, s))"

definition ten_to :: "int \<Rightarrow> rat" where
  "ten_to e = (if 0 \<le> e then 10 ^ nat e else 1 / 10 ^ nat (- e))"

definition number_json :: "bool \<Rightarrow> string \<Rightarrow> string \<Rightarrow> int option \<Rightarrow> json" where
  "number_json neg whole decimals e =
     (if decimals = [] \<and> e = None then JInt (if neg then - digits_value whole else digits_value whole)
      else JFloat ((if neg then - 1 else 1) * of_int (digits_value (whole @ decimals)) / 10 ^ length decimals * ten_to (case e of None \<Rightarrow> 0 | Some n \<Rightarrow> n)))"

definition scan_number :: "string \<Rightarrow> (json \<times> string) option" where
  "scan_number s =
     (let neg = has_prefix s ''-''; s1 = (if neg then tl s else s); ds = digit_run s1;
          whole = (if has_prefix ds ''0'' then ''0'' else ds)
      in if ds = [] then None
         else case scan_fraction (drop (length whole) s1) of (decimals, s2) \<Rightarrow>
              (case scan_exponent s2 of (e, s3) \<Rightarrow> Some (number_json neg whole decimals e, s3)))"

section \<open>Documents\<close>

text \<open>The three words, and the rest after a given character.\<close>

definition scan_word :: "string \<Rightarrow> (json \<times> string) option" where
  "scan_word s =
     (if has_prefix s ''null'' then Some (JNull, drop 4 s)
      else if has_prefix s ''true'' then Some (JBool True, drop 4 s)
      else if has_prefix s ''false'' then Some (JBool False, drop 5 s) else None)"

definition after_char :: "char \<Rightarrow> string \<Rightarrow> string option" where
  "after_char c s = (case s of d # r \<Rightarrow> if d = c then Some r else None | [] \<Rightarrow> None)"

text \<open>A value, an array after the first bracket, and an object after the first brace.\<close>

fun scan_value :: "nat \<Rightarrow> string \<Rightarrow> (json \<times> string) option"
  and scan_items :: "nat \<Rightarrow> json list \<Rightarrow> string \<Rightarrow> (json \<times> string) option"
  and scan_members :: "nat \<Rightarrow> (string \<times> json) list \<Rightarrow> string \<Rightarrow> (json \<times> string) option" where
  "scan_value 0 s = None"
| "scan_value (Suc f) s =
     (case after_char (CHR 0x22) s of Some r \<Rightarrow> map_option (\<lambda>(t, r). (JStr t, r)) (scan_string [] r)
      | None \<Rightarrow>
     (case after_char (CHR ''['') s of Some r \<Rightarrow>
        (case after_char (CHR '']'') (skip_space r) of Some q \<Rightarrow> Some (JArr [], q) | None \<Rightarrow> scan_items f [] (skip_space r))
      | None \<Rightarrow>
     (case after_char (CHR ''{'') s of Some r \<Rightarrow>
        (case after_char (CHR ''}'') (skip_space r) of Some q \<Rightarrow> Some (JObj [], q) | None \<Rightarrow> scan_members f [] (skip_space r))
      | None \<Rightarrow>
     (case scan_word s of Some p \<Rightarrow> Some p | None \<Rightarrow> scan_number s))))"
| "scan_items 0 acc s = None"
| "scan_items (Suc f) acc s = (case scan_value f s of
      None \<Rightarrow> None
    | Some (j, r) \<Rightarrow>
        (case after_char (CHR '']'') (skip_space r) of Some q \<Rightarrow> Some (JArr (rev (j # acc)), q)
         | None \<Rightarrow> (case after_char (CHR '','') (skip_space r) of Some q \<Rightarrow> scan_items f (j # acc) (skip_space q) | None \<Rightarrow> None)))"
| "scan_members 0 d s = None"
| "scan_members (Suc f) d s = (case after_char (CHR 0x22) s of
      None \<Rightarrow> None
    | Some s1 \<Rightarrow>
     (case scan_string [] s1 of
      None \<Rightarrow> None
    | Some (k, s2) \<Rightarrow>
     (case after_char (CHR '':'') (skip_space s2) of
      None \<Rightarrow> None
    | Some s3 \<Rightarrow>
     (case scan_value f (skip_space s3) of
      None \<Rightarrow> None
    | Some (j, s4) \<Rightarrow>
     (case after_char (CHR ''}'') (skip_space s4) of Some q \<Rightarrow> Some (JObj (AList.update k j d), q)
      | None \<Rightarrow> (case after_char (CHR '','') (skip_space s4) of Some q \<Rightarrow> scan_members f (AList.update k j d) (skip_space q) | None \<Rightarrow> None))))))"

definition json_loads :: "string \<Rightarrow> json option" where
  "json_loads s = (case scan_value (2 * length s + 2) (skip_space s) of
      Some (j, r) \<Rightarrow> if skip_space r = [] then Some j else None
    | None \<Rightarrow> None)"

text \<open>Reading a document with every construct, nested and with white space.\<close>

lemma json_loads_sample:
  "json_loads (''{'' @ [CHR 0x22] @ ''a'' @ [CHR 0x22] @ '' : [1, -2.5e1 ,true],'' @ [CHR 0x22, CHR 0x5C] @ ''u0062'' @ [CHR 0x22] @ '':{} }'')
   = Some (JObj [(''a'', JArr [JInt 1, JFloat (- 25), JBool True]), (''b'', JObj [])])"
  by code_simp

lemma json_loads_refuses: "json_loads ''[1,]'' = None" "json_loads ''01'' = None" "json_loads ''{} x'' = None"
  by code_simp+

section \<open>Printing\<close>

text \<open>\<^verbatim>\<open>repr\<close> of a string: double quotes only for a text with a single quote and no double one.\<close>

definition hex_char :: "nat \<Rightarrow> char" where
  "hex_char n = ''0123456789abcdef'' ! n"

definition repr_char :: "char \<Rightarrow> char \<Rightarrow> string" where
  "repr_char q c =
     (if c = q \<or> c = CHR 0x5C then [CHR 0x5C, c]
      else if c = CHR 0x0A then [CHR 0x5C, CHR ''n'']
      else if c = CHR 0x0D then [CHR 0x5C, CHR ''r'']
      else if c = CHR 0x09 then [CHR 0x5C, CHR ''t'']
      else let n = (of_char c :: nat)
           in if n < 32 \<or> (127 \<le> n \<and> n \<le> 160) \<or> n = 173 then [CHR 0x5C, CHR ''x'', hex_char (n div 16), hex_char (n mod 16)] else [c])"

definition repr_string :: "string \<Rightarrow> string" where
  "repr_string s =
     (let q = (if CHR 0x27 \<in> set s \<and> CHR 0x22 \<notin> set s then CHR 0x22 else CHR 0x27)
      in q # concat (map (repr_char q) s) @ [q])"

definition int_str :: "int \<Rightarrow> string" where
  "int_str n = (if n < 0 then CHR ''-'' # nat_str (nat (- n)) else nat_str (nat n))"

primrec py_repr :: "(rat \<Rightarrow> string) \<Rightarrow> json \<Rightarrow> string" where
  "py_repr show_float JNull = ''None''"
| "py_repr show_float (JBool b) = (if b then ''True'' else ''False'')"
| "py_repr show_float (JInt n) = int_str n"
| "py_repr show_float (JFloat q) = show_float q"
| "py_repr show_float (JStr s) = repr_string s"
| "py_repr show_float (JArr xs) = ''['' @ join_with '', '' (map (py_repr show_float) xs) @ '']''"
| "py_repr show_float (JObj d) =
     ''{'' @ join_with '', '' (map (\<lambda>(k, v). repr_string k @ '': '' @ v) (map (map_prod id (py_repr show_float)) d)) @ ''}''"

text \<open>\<^verbatim>\<open>str(x)\<close>.\<close>

definition py_str :: "(rat \<Rightarrow> string) \<Rightarrow> json \<Rightarrow> string" where
  "py_str show_float j = (case j of JStr s \<Rightarrow> s | _ \<Rightarrow> py_repr show_float j)"

end
