(* ===== verification/Evaluation_Layers.thy ===== *)
theory Evaluation_Layers
  imports Text
begin

text \<open>
  The layers of the Evaluation Engine (\<^verbatim>\<open>evaluation_engine/layers/\<close>). The sandbox, the
  LLM and the clock are operations on an unknown world \<open>'w\<close>; a shell command is named by a
  constructor of \<open>command\<close>, its text is not modelled. The classes \<^verbatim>\<open>UnitTestLayer\<close> and
  \<^verbatim>\<open>IntegrationTestLayer\<close> have the same body, \<open>pytest_layer\<close>. Conversion to lower case
  is that of ASCII.
\<close>

section \<open>Results\<close>

record compilation_result =
  co_success :: bool
  co_errors :: "string list"
  co_warnings :: "string list"
  co_duration :: rat

record failure_detail =
  fd_test :: string
  fd_file :: string
  fd_message :: string

record suite_result =
  su_total :: int
  su_passed :: int
  su_failed :: int
  su_skipped :: int
  su_errors :: int
  su_duration :: rat
  su_failures :: "failure_detail list"

record adversarial_result =
  ad_vectors :: nat
  ad_found :: nat
  ad_findings :: "string list"
  ad_severity :: string
  ad_duration :: rat

record compliance_result =
  sc_total :: nat
  sc_met :: nat
  sc_unmet :: "string list"
  sc_score :: rat

record architecture_result =
  ar_violations :: "string list"
  ar_checked :: nat
  ar_violated :: nat
  ar_imports :: "string list"

record regression_result =
  re_baseline :: int
  re_found :: int
  re_details :: "string list"
  re_duration :: rat

datatype layer_details =
    Compiled compilation_result
  | Unit_Tests suite_result
  | Integration_Tests suite_result
  | Attacked adversarial_result
  | Complies compliance_result
  | Architecture architecture_result
  | Regression regression_result

record layer_eval =
  le_layer :: EvalLayer
  le_verdict :: EvalVerdict
  le_details :: layer_details
  le_started :: rat
  le_completed :: rat

section \<open>The sandbox\<close>

datatype command = Compile_All | Pytest | Pytest_Integration | Read_Sources | Run_Adversarial | Collect_Tests | Grep_Imports | Ruff

record exec_request =
  xr_task :: string
  xr_agent :: string
  xr_files :: "(string \<times> string) list"
  xr_commands :: "command list"
  xr_timeout :: int

record cmd_result =
  cr_exit :: int
  cr_stdout :: string
  cr_stderr :: string

record 'w eval_env =
  ee_session :: "string \<Rightarrow> (exn, 'w, (string \<times> json) list) op"
  ee_execute :: "exec_request \<Rightarrow> (exn, 'w, cmd_result list) op"
  ee_generate :: "string \<Rightarrow> (exn, 'w, string) op"   \<comment> \<open>the LLM, on the source code\<close>
  ee_now :: "(exn, 'w, rat) op"

text \<open>\<^verbatim>\<open>session_info.get(key, default)\<close> as a field of an \<^verbatim>\<open>ExecutionRequest\<close>.\<close>

definition session_id :: "(string \<times> json) list \<Rightarrow> string \<Rightarrow> string \<Rightarrow> exn + string" where
  "session_id info k dflt = (case get_or (JStr dflt) info k of JStr s \<Rightarrow> Inr (strip s) | _ \<Rightarrow> invalid)"

definition execute_in :: "'w eval_env \<Rightarrow> (string \<times> json) list \<Rightarrow> (string \<times> string) list \<Rightarrow> command list \<Rightarrow> int \<Rightarrow> (exn, 'w, cmd_result list) op" where
  "execute_in env info files cmds timeout =
     chain (lift_sum (\<lambda>_. bind_sum (session_id info ''task_id'' ''task-000000000000'') (\<lambda>t.
              bind_sum (session_id info ''agent_id'' ''agent-000000000000'') (\<lambda>a.
              Inr \<lparr>xr_task = t, xr_agent = a, xr_files = map (\<lambda>(p, c). (strip p, strip c)) files,
                   xr_commands = cmds, xr_timeout = timeout\<rparr>)))) (\<lambda>rq.
     ee_execute env rq)"

definition run_commands :: "'w eval_env \<Rightarrow> string \<Rightarrow> command list \<Rightarrow> int \<Rightarrow> (exn, 'w, cmd_result list) op" where
  "run_commands env sid cmds timeout = chain (ee_session env sid) (\<lambda>info. execute_in env info [] cmds timeout)"

text \<open>A class with a field \<^verbatim>\<open>duration_seconds: float = Field(ge=0)\<close> refuses a clock that went back.\<close>

definition duration_field :: "rat \<Rightarrow> (exn, 'w, unit) op" where
  "duration_field d = (if d < 0 then raise (ValidationError ''duration_seconds'') else ret ())"

definition or_text :: "string \<Rightarrow> string \<Rightarrow> string" where
  "or_text a b = (if a \<noteq> [] then a else b)"

section \<open>Compilation\<close>

definition stripped_lines :: "string \<Rightarrow> string list" where
  "stripped_lines s = filter (\<lambda>l. l \<noteq> []) (map strip (splitlines s))"

definition is_warning_line :: "string \<Rightarrow> bool" where
  "is_warning_line l \<longleftrightarrow> \<not> (occurs_in ''SyntaxError'' l \<or> occurs_in ''Error'' l) \<and> occurs_in ''Warning'' l"

definition compile_lines :: "cmd_result list \<Rightarrow> string list" where
  "compile_lines rs = concat (map (\<lambda>r. stripped_lines (or_text (cr_stderr r) (cr_stdout r))) (filter (\<lambda>r. cr_exit r \<noteq> 0) rs))"

definition compilation_layer :: "'w eval_env \<Rightarrow> string \<Rightarrow> (exn, 'w, layer_eval) op" where
  "compilation_layer env sid =
     chain (ee_now env) (\<lambda>started.
     chain (run_commands env sid [Compile_All] 120) (\<lambda>results.
     chain (ee_now env) (\<lambda>completed.
     let lines = compile_lines results;
         errors = filter (\<lambda>l. \<not> is_warning_line l) lines;
         warnings = filter is_warning_line lines
     in chain (duration_field (completed - started)) (\<lambda>_.
        ret \<lparr>le_layer = EvalLayer.COMPILATION,
             le_verdict = (if errors = [] then EvalVerdict.PASS else EvalVerdict.FAIL_HARD),
             le_details = Compiled \<lparr>co_success = (errors = []), co_errors = errors, co_warnings = warnings,
               co_duration = completed - started\<rparr>,
             le_started = started, le_completed = completed\<rparr>))))"

section \<open>Test suites\<close>

definition digits_rx :: rx where
  "digits_rx = some_of (Cls False [Digit])"

text \<open>
  \<^verbatim>\<open>(?:(\d+) passed)?(?:,?\s*(\d+) failed)?(?:,?\s*(\d+) skipped)?(?:,?\s*(\d+) error)?\s+in\s+([\d.]+)s\<close>
\<close>

definition summary_rx :: rx where
  "summary_rx = seqs
     [optional (seqs [Grp 1 digits_rx, lit '' passed'']),
      optional (seqs [optional (lit '',''), many (Cls False [Space]), Grp 2 digits_rx, lit '' failed'']),
      optional (seqs [optional (lit '',''), many (Cls False [Space]), Grp 3 digits_rx, lit '' skipped'']),
      optional (seqs [optional (lit '',''), many (Cls False [Space]), Grp 4 digits_rx, lit '' error'']),
      some_of (Cls False [Space]), lit ''in'', some_of (Cls False [Space]), Grp 5 (some_of (Cls False [Digit, Chr CHR ''.''])), lit ''s'']"

text \<open>\<^verbatim>\<open>FAILED\s+([\w/.]+)::(\w+)\s*(?:-\s*(.*))?\<close>\<close>

definition failure_rx :: rx where
  "failure_rx = seqs
     [lit ''FAILED'', some_of (Cls False [Space]), Grp 1 (some_of (Cls False [Word, Chr CHR ''/'', Chr CHR ''.''])), lit ''::'',
      Grp 2 (some_of (Cls False [Word])), many (Cls False [Space]),
      optional (seqs [lit ''-'', many (Cls False [Space]), Grp 3 (many Dot)])]"

definition group_int :: "(nat \<times> string) list \<Rightarrow> nat \<Rightarrow> int" where
  "group_int g n = (case map_of g n of None \<Rightarrow> 0 | Some s \<Rightarrow> digits_value s)"

fun first_some :: "('a \<Rightarrow> 'b option) \<Rightarrow> 'a list \<Rightarrow> 'b option" where
  "first_some f [] = None"
| "first_some f (x # xs) = (case f x of None \<Rightarrow> first_some f xs | Some y \<Rightarrow> Some y)"

text \<open>Passed, failed, skipped, errors and seconds of the first summary line.\<close>

definition summary_counts :: "rat \<Rightarrow> string list \<Rightarrow> exn + int \<times> int \<times> int \<times> int \<times> rat" where
  "summary_counts duration lines =
     (case first_some (rx_search False summary_rx) lines of
        None \<Rightarrow> Inr (0, 0, 0, 0, duration)
      | Some g \<Rightarrow>
          (case parse_decimal (get_or [] g 5) of
             None \<Rightarrow> Inl (ValueError ''could not convert string to float'')
           | Some d \<Rightarrow> Inr (group_int g 1, group_int g 2, group_int g 3, group_int g 4, d)))"

definition failure_detail_of :: "string \<Rightarrow> failure_detail option" where
  "failure_detail_of line = map_option (\<lambda>g. \<lparr>fd_test = get_or [] g 2, fd_file = get_or [] g 1, fd_message = strip (get_or [] g 3)\<rparr>)
     (rx_search False failure_rx line)"

definition parse_pytest_output :: "string \<Rightarrow> rat \<Rightarrow> exn + suite_result" where
  "parse_pytest_output output duration =
     bind_sum (summary_counts duration (splitlines output)) (\<lambda>(passed, failed, skipped, errors, seconds).
     Inr \<lparr>su_total = passed + failed + skipped + errors, su_passed = passed, su_failed = failed, su_skipped = skipped,
          su_errors = errors, su_duration = seconds,
          su_failures = List.map_filter failure_detail_of (splitlines output)\<rparr>)"

definition no_suite :: "rat \<Rightarrow> suite_result" where
  "no_suite duration = \<lparr>su_total = 0, su_passed = 0, su_failed = 0, su_skipped = 0, su_errors = 1, su_duration = duration, su_failures = []\<rparr>"

definition suite_verdict :: "cmd_result list \<Rightarrow> rat \<Rightarrow> exn + EvalVerdict \<times> suite_result" where
  "suite_verdict results duration = (case results of
      [] \<Rightarrow> Inr (EvalVerdict.FAIL_HARD, no_suite duration)
    | r # _ \<Rightarrow> bind_sum (parse_pytest_output (or_text (cr_stdout r) (cr_stderr r)) duration) (\<lambda>parsed.
        if 2 \<le> cr_exit r
        then Inr (EvalVerdict.FAIL_HARD, parsed\<lparr>su_errors := max (su_errors parsed) 1, su_duration := duration\<rparr>)
        else if 0 < su_failed parsed then Inr (EvalVerdict.FAIL_SOFT, parsed)
        else Inr (EvalVerdict.PASS, parsed)))"

definition pytest_layer :: "EvalLayer \<Rightarrow> (suite_result \<Rightarrow> layer_details) \<Rightarrow> command \<Rightarrow> 'w eval_env \<Rightarrow> string \<Rightarrow> (exn, 'w, layer_eval) op" where
  "pytest_layer name wrap cmd env sid =
     chain (ee_now env) (\<lambda>started.
     chain (run_commands env sid [cmd] 300) (\<lambda>results.
     chain (ee_now env) (\<lambda>completed.
     chain (duration_field (completed - started)) (\<lambda>_.
     chain (lift_sum (\<lambda>_. suite_verdict results (completed - started))) (\<lambda>(verdict, result).
     ret \<lparr>le_layer = name, le_verdict = verdict, le_details = wrap result, le_started = started, le_completed = completed\<rparr>)))))"

definition unit_test_layer :: "'w eval_env \<Rightarrow> string \<Rightarrow> (exn, 'w, layer_eval) op" where
  "unit_test_layer = pytest_layer EvalLayer.UNIT_TESTS Unit_Tests Pytest"

definition integration_test_layer :: "'w eval_env \<Rightarrow> string \<Rightarrow> (exn, 'w, layer_eval) op" where
  "integration_test_layer = pytest_layer EvalLayer.INTEGRATION_TESTS Integration_Tests Pytest_Integration"

section \<open>Adversarial tests\<close>

definition classify_severity :: "nat \<Rightarrow> string" where
  "classify_severity n =
     (if n = 0 then ''none'' else if n \<le> 2 then ''low'' else if n \<le> 5 then ''medium'' else if n \<le> 10 then ''high'' else ''critical'')"

definition severity_to_verdict :: "string \<Rightarrow> EvalVerdict" where
  "severity_to_verdict s =
     (if s = ''none'' then EvalVerdict.PASS else if s \<in> {''low'', ''medium''} then EvalVerdict.FAIL_SOFT else EvalVerdict.FAIL_HARD)"

definition failed_lines :: "string \<Rightarrow> string list" where
  "failed_lines s = filter (\<lambda>l. has_prefix l ''FAILED'') (map strip (splitlines s))"

definition vulnerabilities :: "cmd_result list \<Rightarrow> string list" where
  "vulnerabilities results = (case results of
      [] \<Rightarrow> []
    | r # _ \<Rightarrow> if cr_exit r \<noteq> 0 then failed_lines (or_text (cr_stdout r) (cr_stderr r)) else [])"

definition adversarial_layer :: "'w eval_env \<Rightarrow> string \<Rightarrow> (exn, 'w, layer_eval) op" where
  "adversarial_layer env sid =
     chain (ee_now env) (\<lambda>started.
     chain (ee_session env sid) (\<lambda>info.
     chain (execute_in env info [] [Read_Sources] 60) (\<lambda>sources.
     chain (attempt (chain (ee_generate env (case sources of [] \<Rightarrow> [] | r # _ \<Rightarrow> cr_stdout r)) (\<lambda>c. ret (Some c))) (\<lambda>_. ret None)) (\<lambda>generated.
     case generated of
       None \<Rightarrow>
         chain (ee_now env) (\<lambda>completed.
         chain (duration_field (completed - started)) (\<lambda>_.
         ret \<lparr>le_layer = EvalLayer.ADVERSARIAL, le_verdict = EvalVerdict.FAIL_HARD,
              le_details = Attacked \<lparr>ad_vectors = 0, ad_found = 0, ad_findings = [], ad_severity = ''none'', ad_duration = completed - started\<rparr>,
              le_started = started, le_completed = completed\<rparr>))
     | Some test_code \<Rightarrow>
         chain (execute_in env info [(''/tmp/test_adversarial_generated.py'', test_code)] [Run_Adversarial] 120) (\<lambda>results.
         chain (ee_now env) (\<lambda>completed.
         let found = vulnerabilities results; severity = classify_severity (length found)
         in chain (duration_field (completed - started)) (\<lambda>_.
            ret \<lparr>le_layer = EvalLayer.ADVERSARIAL, le_verdict = severity_to_verdict severity,
                 le_details = Attacked \<lparr>ad_vectors = 1, ad_found = length found, ad_findings = found, ad_severity = severity,
                   ad_duration = completed - started\<rparr>,
                 le_started = started, le_completed = completed\<rparr>)))))))"

section \<open>Compliance with the specification\<close>

definition criterion_has_test :: "string list \<Rightarrow> string \<Rightarrow> bool" where
  "criterion_has_test tests criterion =
     (let keywords = map lower (filter (\<lambda>w. 2 < length w) (words_of criterion))
      in keywords = [] \<or> list_ex (\<lambda>t. list_all (\<lambda>k. occurs_in k t) keywords) tests)"

definition collected_tests :: "cmd_result list \<Rightarrow> string list" where
  "collected_tests results = (case results of
      [] \<Rightarrow> []
    | r # _ \<Rightarrow> map lower (filter (occurs_in ''::'') (map strip (splitlines (cr_stdout r)))))"

definition compliance_score :: "string list \<Rightarrow> string list \<Rightarrow> rat" where
  "compliance_score tests criteria =
     (if criteria = [] then 1 else of_nat (length (filter (criterion_has_test tests) criteria)) / of_nat (length criteria))"

definition compliance_verdict :: "string list \<Rightarrow> string list \<Rightarrow> EvalVerdict" where
  "compliance_verdict tests criteria =
     (if length (filter (criterion_has_test tests) criteria) = length criteria then EvalVerdict.PASS
      else if 1 / 2 \<le> compliance_score tests criteria then EvalVerdict.FAIL_SOFT
      else EvalVerdict.FAIL_HARD)"

definition spec_compliance_layer :: "string list \<Rightarrow> 'w eval_env \<Rightarrow> string \<Rightarrow> (exn, 'w, layer_eval) op" where
  "spec_compliance_layer criteria env sid =
     chain (ee_now env) (\<lambda>started.
     if criteria = []
     then chain (ee_now env) (\<lambda>completed.
          ret \<lparr>le_layer = EvalLayer.SPEC_COMPLIANCE, le_verdict = EvalVerdict.PASS,
               le_details = Complies \<lparr>sc_total = 0, sc_met = 0, sc_unmet = [], sc_score = 1\<rparr>,
               le_started = started, le_completed = completed\<rparr>)
     else
       chain (run_commands env sid [Collect_Tests] 120) (\<lambda>results.
       chain (ee_now env) (\<lambda>completed.
       let tests = collected_tests results
       in ret \<lparr>le_layer = EvalLayer.SPEC_COMPLIANCE, le_verdict = compliance_verdict tests criteria,
               le_details = Complies \<lparr>sc_total = length criteria,
                 sc_met = length (filter (criterion_has_test tests) criteria),
                 sc_unmet = filter (\<lambda>c. \<not> criterion_has_test tests c) criteria,
                 sc_score = compliance_score tests criteria\<rparr>,
               le_started = started, le_completed = completed\<rparr>)))"

section \<open>Architecture\<close>

definition import_violations :: "cmd_result list \<Rightarrow> string list" where
  "import_violations results = (case results of [] \<Rightarrow> [] | r # _ \<Rightarrow> stripped_lines (cr_stdout r))"

definition lint_violations :: "cmd_result list \<Rightarrow> string list" where
  "lint_violations results = (case results of
      _ # r # _ \<Rightarrow> filter (\<lambda>l. \<not> has_prefix l ''Found'') (stripped_lines (cr_stdout r)) | _ \<Rightarrow> [])"

definition architecture_layer :: "'w eval_env \<Rightarrow> string \<Rightarrow> (exn, 'w, layer_eval) op" where
  "architecture_layer env sid =
     chain (ee_now env) (\<lambda>started.
     chain (run_commands env sid [Grep_Imports, Ruff] 120) (\<lambda>results.
     chain (ee_now env) (\<lambda>completed.
     let imports = import_violations results; lint = lint_violations results
     in ret \<lparr>le_layer = EvalLayer.ARCHITECTURE,
             le_verdict = (if imports \<noteq> [] then EvalVerdict.FAIL_HARD else if lint \<noteq> [] then EvalVerdict.FAIL_SOFT else EvalVerdict.PASS),
             le_details = Architecture \<lparr>ar_violations = imports @ lint, ar_checked = 2,
               ar_violated = (if imports \<noteq> [] then 1 else 0) + (if lint \<noteq> [] then 1 else 0), ar_imports = imports\<rparr>,
             le_started = started, le_completed = completed\<rparr>)))"

section \<open>Regression\<close>

text \<open>Passed, failed, errors and seconds; no result is no regression.\<close>

definition regression_counts :: "cmd_result list \<Rightarrow> rat \<Rightarrow> exn + int \<times> int \<times> int \<times> rat" where
  "regression_counts results duration = (case results of
      [] \<Rightarrow> Inr (0, 0, 0, duration)
    | r # _ \<Rightarrow> bind_sum (summary_counts duration (splitlines (or_text (cr_stdout r) (cr_stderr r))))
        (\<lambda>(passed, failed, skipped, errors, seconds). Inr (passed, failed, errors, seconds)))"

definition regression_verdict :: "int \<Rightarrow> int \<Rightarrow> int \<Rightarrow> EvalVerdict" where
  "regression_verdict baseline regressions count =
     (if 0 < regressions then EvalVerdict.FAIL_HARD
      else if 0 < baseline \<and> count < baseline then EvalVerdict.FAIL_SOFT
      else EvalVerdict.PASS)"

definition regression_layer :: "int \<Rightarrow> 'w eval_env \<Rightarrow> string \<Rightarrow> (exn, 'w, layer_eval) op" where
  "regression_layer baseline env sid =
     chain (ee_now env) (\<lambda>started.
     chain (run_commands env sid [Pytest] 600) (\<lambda>results.
     chain (ee_now env) (\<lambda>completed.
     chain (lift_sum (\<lambda>_. regression_counts results (completed - started))) (\<lambda>(passed, failed, errors, seconds).
     chain (if baseline < 0 then raise (ValidationError ''baseline_test_count'') else duration_field seconds) (\<lambda>_.
     ret \<lparr>le_layer = EvalLayer.REGRESSION, le_verdict = regression_verdict baseline (failed + errors) (passed + failed + errors),
          le_details = Regression \<lparr>re_baseline = baseline, re_found = failed + errors,
            re_details = (case results of [] \<Rightarrow> [] | r # _ \<Rightarrow> failed_lines (or_text (cr_stdout r) (cr_stderr r))),
            re_duration = seconds\<rparr>,
          le_started = started, le_completed = completed\<rparr>)))))"

end
