(* ===== verification/Evaluation_Engine.thy ===== *)
theory Evaluation_Engine
  imports Evaluation_Layers
begin

text \<open>
  The evaluator (\<^verbatim>\<open>evaluation_engine/evaluator.py\<close>), the report and its overall verdict
  (\<^verbatim>\<open>models.py\<close>), the report store of the API, and the properties of the engine. A layer is
  any operation on the world that returns a \<open>layer_eval\<close>; \<open>default_layers\<close> are the code's.
\<close>

section \<open>Reports\<close>

record report =
  rp_task :: string
  rp_layers :: "layer_eval list"
  rp_verdict :: EvalVerdict
  rp_created :: rat

definition compute_overall_verdict :: "EvalVerdict list \<Rightarrow> EvalVerdict" where
  "compute_overall_verdict vs =
     (if vs = [] then EvalVerdict.PASS
      else if EvalVerdict.FAIL_HARD \<in> set vs then EvalVerdict.FAIL_HARD
      else if EvalVerdict.FAIL_SOFT \<in> set vs then EvalVerdict.FAIL_SOFT
      else EvalVerdict.PASS)"

section \<open>The evaluator\<close>

record 'w layer =
  la_name :: EvalLayer
  la_run :: "string \<Rightarrow> (exn, 'w, layer_eval) op"

definition default_layers :: "bool \<Rightarrow> string list \<Rightarrow> 'w eval_env \<Rightarrow> 'w layer list" where
  "default_layers has_llm criteria env =
     [\<lparr>la_name = EvalLayer.COMPILATION, la_run = compilation_layer env\<rparr>,
      \<lparr>la_name = EvalLayer.UNIT_TESTS, la_run = unit_test_layer env\<rparr>,
      \<lparr>la_name = EvalLayer.INTEGRATION_TESTS, la_run = integration_test_layer env\<rparr>] @
     (if has_llm then [\<lparr>la_name = EvalLayer.ADVERSARIAL, la_run = adversarial_layer env\<rparr>] else []) @
     [\<lparr>la_name = EvalLayer.SPEC_COMPLIANCE, la_run = spec_compliance_layer criteria env\<rparr>,
      \<lparr>la_name = EvalLayer.ARCHITECTURE, la_run = architecture_layer env\<rparr>,
      \<lparr>la_name = EvalLayer.REGRESSION, la_run = regression_layer 0 env\<rparr>]"

record 'w evaluator =
  ev_layers :: "'w layer list"
  ev_fail_fast :: bool
  ev_publish :: "EventType \<Rightarrow> json \<Rightarrow> (exn, 'w, unit) op"
  ev_now :: "(exn, 'w, rat) op"

definition layer_payload :: "string \<Rightarrow> layer_eval \<Rightarrow> json" where
  "layer_payload task e = JObj [(''task_id'', JStr task), (''layer'', JStr (eval_layer_value (le_layer e))),
     (''verdict'', JStr (eval_verdict_value (le_verdict e)))]"

definition completed_payload :: "report \<Rightarrow> json" where
  "completed_payload r = JObj [(''task_id'', JStr (rp_task r)), (''verdict'', JStr (eval_verdict_value (rp_verdict r))),
     (''layer_results'', JArr (map (\<lambda>e. JObj [(''layer'', JStr (eval_layer_value (le_layer e))),
        (''verdict'', JStr (eval_verdict_value (le_verdict e)))]) (rp_layers r)))]"

primrec run_layers :: "'w evaluator \<Rightarrow> string \<Rightarrow> string \<Rightarrow> 'w layer list \<Rightarrow> (exn, 'w, layer_eval list) op" where
  "run_layers ev task sid [] = ret []"
| "run_layers ev task sid (l # ls) =
     chain (la_run l sid) (\<lambda>e.
     chain (ev_publish ev EventType.EVAL_LAYER_COMPLETED (layer_payload task e)) (\<lambda>_.
     if ev_fail_fast ev \<and> le_verdict e = EvalVerdict.FAIL_HARD then ret [e]
     else chain (run_layers ev task sid ls) (\<lambda>es. ret (e # es))))"

definition run_evaluation :: "'w evaluator \<Rightarrow> string \<Rightarrow> string \<Rightarrow> (exn, 'w, report) op" where
  "run_evaluation ev task sid =
     chain (ev_now ev) (\<lambda>created.
     chain (run_layers ev task sid (ev_layers ev)) (\<lambda>es.
     let r = \<lparr>rp_task = task, rp_layers = es, rp_verdict = compute_overall_verdict (map le_verdict es), rp_created = created\<rparr>
     in chain (ev_publish ev EventType.EVAL_COMPLETED (completed_payload r)) (\<lambda>_. ret r)))"

section \<open>The API\<close>

type_synonym report_store = "(string \<times> report) list"

definition run_evaluation_route :: "'w evaluator \<Rightarrow> string \<Rightarrow> string \<Rightarrow> (exn, report_store \<times> 'w, report) op" where
  "run_evaluation_route ev task sid =
     chain (zoom snd (\<lambda>w (st, _). (st, w)) (run_evaluation ev task sid)) (\<lambda>r.
     chain (writes (\<lambda>(st, w). (AList.update task r st, w))) (\<lambda>_. ret r))"

definition get_report :: "string \<Rightarrow> report_store \<Rightarrow> report option" where
  "get_report task st = map_of st task"

section \<open>The verdict\<close>

text \<open>How bad a verdict is.\<close>

primrec severity :: "EvalVerdict \<Rightarrow> nat" where
  "severity EvalVerdict.PASS = 0"
| "severity EvalVerdict.FAIL_SOFT = 1"
| "severity EvalVerdict.FAIL_HARD = 2"

lemma severity_inj: "severity v = severity u \<longleftrightarrow> v = u"
  by (cases v; cases u) simp_all

lemma severity_le2 [simp]: "severity v \<le> 2"
  by (cases v) simp_all

definition worst :: "EvalVerdict list \<Rightarrow> nat" where
  "worst vs = foldr (\<lambda>v. max (severity v)) vs 0"

lemma worst_simps [simp]: "worst [] = 0" "worst (v # vs) = max (severity v) (worst vs)" "worst (us @ vs) = max (worst us) (worst vs)"
proof -
  show "worst (us @ vs) = max (worst us) (worst vs)" by (induction us) (simp_all add: worst_def)
qed (simp_all add: worst_def)

lemma worst_le2 [simp]: "worst vs \<le> 2"
  by (induction vs) simp_all

lemma overall_worst: "severity (compute_overall_verdict vs) = worst vs"
proof (induction vs)
  case (Cons v vs)
  then show ?case by (cases v) (auto simp: compute_overall_verdict_def split: if_splits)
qed (simp add: compute_overall_verdict_def)

section \<open>Runs of the layers\<close>

text \<open>The contract of the publisher over a log of events, and of layers that do not publish.\<close>

definition publishes :: "('w \<Rightarrow> (EventType \<times> json) list) \<Rightarrow> 'w evaluator \<Rightarrow> bool" where
  "publishes sent ev \<longleftrightarrow>
     (\<forall>ty p w w'. ev_publish ev ty p w = (Inr (), w') \<longrightarrow> sent w' = sent w @ [(ty, p)]) \<and>
     (\<forall>w x w'. ev_now ev w = (Inr x, w') \<longrightarrow> sent w' = sent w) \<and>
     (\<forall>l \<in> set (ev_layers ev). \<forall>sid w e w'. la_run l sid w = (Inr e, w') \<longrightarrow> sent w' = sent w \<and> le_layer e = la_name l)"

lemma run_layers_ok:
  assumes "publishes sent ev" and "set ls \<subseteq> set (ev_layers ev)" and "run_layers ev task sid ls w = (Inr es, w')"
  shows "sent w' = sent w @ map (\<lambda>e. (EventType.EVAL_LAYER_COMPLETED, layer_payload task e)) es \<and>
    map le_layer es = take (length es) (map la_name ls) \<and>
    (\<forall>e \<in> set (butlast es). ev_fail_fast ev \<longrightarrow> le_verdict e \<noteq> EvalVerdict.FAIL_HARD) \<and>
    (length es < length ls \<longrightarrow> ev_fail_fast ev \<and> es \<noteq> [] \<and> le_verdict (last es) = EvalVerdict.FAIL_HARD)"
  using assms(2,3)
proof (induction ls arbitrary: w es)
  case Nil
  then show ?case by simp
next
  case (Cons l ls)
  obtain x w1 where l: "la_run l sid w = (x, w1)" by (cases "la_run l sid w")
  with Cons.prems(2) obtain e where x: "x = Inr e" by (cases x) (simp_all add: chain_run)
  let ?pub = "ev_publish ev EventType.EVAL_LAYER_COMPLETED (layer_payload task e) w1"
  obtain y w2 where p: "?pub = (y, w2)" by (cases ?pub)
  with Cons.prems(2) l x have y: "y = Inr ()" by (cases y) (simp_all add: chain_run)
  have log1: "sent w1 = sent w" and nm: "le_layer e = la_name l"
    using assms(1) Cons.prems(1) l x unfolding publishes_def by auto
  have log2: "sent w2 = sent w @ [(EventType.EVAL_LAYER_COMPLETED, layer_payload task e)]"
    using assms(1) p y log1 unfolding publishes_def by auto
  show ?case
  proof (cases "ev_fail_fast ev \<and> le_verdict e = EvalVerdict.FAIL_HARD")
    case True
    with Cons.prems(2) l x p y have "es = [e]" and "w' = w2" by (simp_all add: chain_run)
    with log2 nm True show ?thesis by simp
  next
    case False
    with Cons.prems(2) l x p y obtain es' where es: "es = e # es'" and rest: "run_layers ev task sid ls w2 = (Inr es', w')"
      by (cases "run_layers ev task sid ls w2"; cases "fst (run_layers ev task sid ls w2)") (auto simp: chain_run)
    from Cons.IH [OF _ rest] Cons.prems(1) log2 nm False show ?thesis by (auto simp: es)
  qed
qed

text \<open>
  C18: whatever its layers do, an evaluation that returns has run a prefix of the layers in
  order, published one event per layer and then the final one, and its verdict is the worst
  of the layer verdicts. With \<^verbatim>\<open>fail_fast\<close> it stopped at the first hard failure; only a hard
  failure under \<^verbatim>\<open>fail_fast\<close> skips layers.
\<close>

theorem evaluation_faithful:
  assumes "publishes sent ev" and "run_evaluation ev task sid w = (Inr r, w')"
  shows "sent w' = sent w @ map (\<lambda>e. (EventType.EVAL_LAYER_COMPLETED, layer_payload task e)) (rp_layers r) @
      [(EventType.EVAL_COMPLETED, completed_payload r)] \<and>
    severity (rp_verdict r) = worst (map le_verdict (rp_layers r)) \<and>
    map le_layer (rp_layers r) = take (length (rp_layers r)) (map la_name (ev_layers ev)) \<and>
    (\<forall>e \<in> set (butlast (rp_layers r)). ev_fail_fast ev \<longrightarrow> le_verdict e \<noteq> EvalVerdict.FAIL_HARD) \<and>
    (length (rp_layers r) < length (ev_layers ev) \<longrightarrow>
       ev_fail_fast ev \<and> rp_layers r \<noteq> [] \<and> le_verdict (last (rp_layers r)) = EvalVerdict.FAIL_HARD)"
proof -
  obtain c w1 where now: "ev_now ev w = (Inr c, w1)"
    using assms(2) by (auto simp: run_evaluation_def chain_run split: prod.splits sum.splits)
  with assms(2) obtain es w2 where run: "run_layers ev task sid (ev_layers ev) w1 = (Inr es, w2)"
    by (auto simp: run_evaluation_def chain_run split: prod.splits sum.splits)
  with assms(2) now have pub: "ev_publish ev EventType.EVAL_COMPLETED (completed_payload r) w2 = (Inr (), w')"
    and r: "rp_layers r = es" "rp_verdict r = compute_overall_verdict (map le_verdict es)"
    by (auto simp: run_evaluation_def chain_run Let_def split: prod.splits sum.splits)
  have "sent w1 = sent w" and "sent w' = sent w2 @ [(EventType.EVAL_COMPLETED, completed_payload r)]"
    using assms(1) now pub unfolding publishes_def by auto
  with run_layers_ok [OF assms(1) order_refl run] show ?thesis by (simp add: r overall_worst)
qed

text \<open>Layers whose result does not depend on when they run.\<close>

definition steady :: "'w layer \<Rightarrow> string \<Rightarrow> layer_eval \<Rightarrow> bool" where
  "steady l sid e \<longleftrightarrow> (\<forall>w. fst (la_run l sid w) = Inr e)"

lemma run_layers_steady:
  assumes "list_all2 (\<lambda>l e. steady l sid e) ls es" and "run_layers ev task sid ls w = (Inr rs, w')"
  shows "worst (map le_verdict rs) = worst (map le_verdict es)"
  using assms
proof (induction ls es arbitrary: w rs rule: list_all2_induct)
  case Nil
  then show ?case by simp
next
  case (Cons l ls e es)
  obtain x w1 where l: "la_run l sid w = (x, w1)" by (cases "la_run l sid w")
  with Cons.hyps(1) have x: "x = Inr e" unfolding steady_def by (metis fst_conv)
  obtain y w2 where p: "ev_publish ev EventType.EVAL_LAYER_COMPLETED (layer_payload task e) w1 = (y, w2)"
    by (cases "ev_publish ev EventType.EVAL_LAYER_COMPLETED (layer_payload task e) w1")
  with Cons.prems l x have y: "y = Inr ()" by (cases y) (simp_all add: chain_run)
  show ?case
  proof (cases "ev_fail_fast ev \<and> le_verdict e = EvalVerdict.FAIL_HARD")
    case True
    with Cons.prems l x p y have "rs = [e]" by (simp add: chain_run)
    with True worst_le2 [of "map le_verdict es"] show ?thesis by simp
  next
    case False
    with Cons.prems l x p y obtain rs' where rs: "rs = e # rs'" and rest: "run_layers ev task sid ls w2 = (Inr rs', w')"
      by (cases "run_layers ev task sid ls w2"; cases "fst (run_layers ev task sid ls w2)") (auto simp: chain_run)
    from Cons.IH [OF rest] show ?thesis by (simp add: rs)
  qed
qed

text \<open>
  Stopping early does not change the outcome. If each layer gives the same result
  whenever it runs, the evaluations of one task with and without \<^verbatim>\<open>fail_fast\<close> end in the
  same overall verdict.
\<close>

theorem fail_fast_same_verdict:
  assumes "list_all2 (\<lambda>l e. steady l sid e) (ev_layers ev) es"
    and "run_evaluation (ev\<lparr>ev_fail_fast := True\<rparr>) task sid w = (Inr r, w')"
    and "run_evaluation (ev\<lparr>ev_fail_fast := False\<rparr>) task sid u = (Inr r2, u')"
  shows "rp_verdict r = rp_verdict r2"
proof -
  have "severity (rp_verdict r) = worst (map le_verdict es)"
    if "run_evaluation e2 task sid v = (Inr r, v')" and "ev_layers e2 = ev_layers ev" for e2 :: "'a evaluator" and v r v'
    using that run_layers_steady [OF assms(1), of e2 task]
    by (auto simp: run_evaluation_def chain_run Let_def overall_worst split: prod.splits sum.splits)
  from this [OF assms(2)] this [OF assms(3)] show ?thesis by (simp flip: severity_inj)
qed


section \<open>The layers\<close>

lemma severity_compliance: "severity (compliance_verdict tests criteria) =
   (let n = length (filter (criterion_has_test tests) criteria)
    in if n = length criteria then 0 else if length criteria \<le> 2 * n then 1 else 2)"
proof (cases "criteria = []")
  case True
  then show ?thesis by (simp add: compliance_verdict_def)
next
  case False
  let ?n = "length (filter (criterion_has_test tests) criteria)"
  have "(1 / 2 \<le> (of_nat ?n / of_nat (length criteria) :: rat)) \<longleftrightarrow> (of_nat (length criteria) :: rat) \<le> of_nat (2 * ?n)"
    using False by (simp add: field_simps)
  also have "\<dots> \<longleftrightarrow> length criteria \<le> 2 * ?n" by (rule of_nat_le_iff)
  finally show ?thesis using False by (simp add: compliance_verdict_def compliance_score_def Let_def)
qed

lemma share_mono: "(a :: nat) \<le> b \<Longrightarrow> b \<le> c \<Longrightarrow>
   (if b = c then 0 else if c \<le> 2 * b then 1 else 2) \<le> (if a = c then 0 else if c \<le> 2 * a then 1 else (2 :: nat))"
  by auto

lemma criterion_has_test_mono: "set tests \<subseteq> set tests' \<Longrightarrow> criterion_has_test tests c \<Longrightarrow> criterion_has_test tests' c"
  by (auto simp: criterion_has_test_def Let_def list_ex_iff)

text \<open>
  The compliance layer passes exactly when every criterion has a test, fails hard exactly
  when fewer than half of them have one, its score is the fraction of those that do, and
  more tests never make a verdict worse or a score lower.
\<close>

theorem compliance_monotone:
  assumes "set tests \<subseteq> set tests'"
  shows "(compliance_verdict tests criteria = EvalVerdict.PASS \<longleftrightarrow> list_all (criterion_has_test tests) criteria) \<and>
    (compliance_verdict tests criteria = EvalVerdict.FAIL_HARD \<longleftrightarrow>
       2 * length (filter (criterion_has_test tests) criteria) < length criteria) \<and>
    severity (compliance_verdict tests' criteria) \<le> severity (compliance_verdict tests criteria) \<and>
    0 \<le> compliance_score tests criteria \<and> compliance_score tests criteria \<le> compliance_score tests' criteria \<and>
    compliance_score tests' criteria \<le> 1"
proof -
  let ?n = "\<lambda>ts. length (filter (criterion_has_test ts) criteria)"
  have le: "?n ts \<le> length criteria" for ts by (rule length_filter_le)
  have mono: "?n tests \<le> ?n tests'"
    using criterion_has_test_mono [OF assms] by (induction criteria) auto
  have all: "?n tests = length criteria \<longleftrightarrow> list_all (criterion_has_test tests) criteria"
    by (simp add: list_all_iff length_filter_conv_card filter_id_conv) (metis filter_id_conv length_filter_conv_card length_filter_less less_irrefl)
  have "compliance_verdict tests criteria = EvalVerdict.PASS \<longleftrightarrow> severity (compliance_verdict tests criteria) = 0"
    and "compliance_verdict tests criteria = EvalVerdict.FAIL_HARD \<longleftrightarrow> severity (compliance_verdict tests criteria) = 2"
    by (cases "compliance_verdict tests criteria"; simp)+
  then have "compliance_verdict tests criteria = EvalVerdict.PASS \<longleftrightarrow> ?n tests = length criteria"
    and "compliance_verdict tests criteria = EvalVerdict.FAIL_HARD \<longleftrightarrow> 2 * ?n tests < length criteria"
    using le [of tests] by (auto simp: severity_compliance Let_def)
  moreover have "severity (compliance_verdict tests' criteria) \<le> severity (compliance_verdict tests criteria)"
    using share_mono [OF mono le] by (simp only: severity_compliance Let_def)
  moreover have "compliance_score tests criteria \<le> compliance_score tests' criteria" "0 \<le> compliance_score tests criteria"
      "compliance_score tests' criteria \<le> 1"
    using mono le [of tests'] by (auto simp: compliance_score_def field_simps)
  ultimately show ?thesis using all by blast
qed

theorem compliance_monotone_witness:
  "compliance_verdict [''t.py::test_user_login''] [''User login'', ''Export report''] = EvalVerdict.FAIL_SOFT \<and>
   severity (compliance_verdict [''t.py::test_user_login'', ''t.py::test_export''] [''User login'', ''Export report'']) \<le> 1"
proof -
  have soft: "compliance_verdict [''t.py::test_user_login''] [''User login'', ''Export report''] = EvalVerdict.FAIL_SOFT"
    by code_simp
  have "set [''t.py::test_user_login''] \<subseteq> set [''t.py::test_user_login'', ''t.py::test_export'']" by simp
  from compliance_monotone [OF this, of "[''User login'', ''Export report'']"] soft show ?thesis by simp
qed

text \<open>
  The suite layers pass a run with failed tests. Pytest prints the failures first
  (2 failed, 3 passed in 0.12s) and exits with status 1; the pattern of the summary finds
  only what follows the failures, and the verdict is PASS. In the other order the verdict is
  FAIL_SOFT. The regression layer, whose verdict uses the same counts, finds no regression.
\<close>

theorem failing_suite_passes:
  "(\<exists>parsed. suite_verdict (\<lparr>cr_exit = 1, cr_stdout = ''2 failed, 3 passed in 0.12s'', cr_stderr = err\<rparr> # rs) d =
      Inr (EvalVerdict.PASS, parsed) \<and> su_failed parsed = 0 \<and> su_passed parsed = 3) \<and>
   (\<exists>parsed. suite_verdict (\<lparr>cr_exit = 1, cr_stdout = ''3 passed, 2 failed in 0.12s'', cr_stderr = err\<rparr> # rs) d =
      Inr (EvalVerdict.FAIL_SOFT, parsed) \<and> su_failed parsed = 2 \<and> su_passed parsed = 3) \<and>
   regression_counts (\<lparr>cr_exit = 1, cr_stdout = ''2 failed, 3 passed in 0.12s'', cr_stderr = err\<rparr> # rs) d =
      Inr (3, 0, 0, 3 / 25)"
proof -
  have a: "summary_counts d (splitlines ''2 failed, 3 passed in 0.12s'') = Inr (3, 0, 0, 0, 3 / 25)"
    and b: "summary_counts d (splitlines ''3 passed, 2 failed in 0.12s'') = Inr (3, 2, 0, 0, 3 / 25)"
    by code_simp+
  have "or_text ''2 failed, 3 passed in 0.12s'' err = ''2 failed, 3 passed in 0.12s''"
    "or_text ''3 passed, 2 failed in 0.12s'' err = ''3 passed, 2 failed in 0.12s''" by (simp_all add: or_text_def)
  then show ?thesis by (simp add: suite_verdict_def regression_counts_def parse_pytest_output_def a b)
qed

text \<open>
  What the layers conclude from a sandbox that returns no command result at all. The test
  layers fail hard; compilation, the adversarial layer, architecture and regression pass, and so
  does compilation when the compiler fails without any output.
\<close>

theorem no_evidence_verdicts:
  "suite_verdict [] d = Inr (EvalVerdict.FAIL_HARD, no_suite d) \<and>
   compile_lines [] = [] \<and>
   compile_lines [\<lparr>cr_exit = 1, cr_stdout = [], cr_stderr = []\<rparr>] = [] \<and>
   severity_to_verdict (classify_severity (length (vulnerabilities []))) = EvalVerdict.PASS \<and>
   import_violations [] = [] \<and> lint_violations [] = [] \<and>
   regression_counts [] d = Inr (0, 0, 0, d) \<and> regression_verdict 0 0 0 = EvalVerdict.PASS \<and>
   (\<exists>e s s'. compilation_layer \<lparr>ee_session = (\<lambda>_. ret []), ee_execute = (\<lambda>_. ret []), ee_generate = (\<lambda>_. ret []), ee_now = ret t\<rparr> sid s = (Inr e, s') \<and>
      le_verdict e = EvalVerdict.PASS)"
  by (simp add: suite_verdict_def compile_lines_def stripped_lines_def or_text_def splitlines_def vulnerabilities_def
    classify_severity_def severity_to_verdict_def import_violations_def lint_violations_def regression_counts_def regression_verdict_def
    compilation_layer_def run_commands_def execute_in_def session_id_def get_or_def chain_run duration_field_def Let_def)

section \<open>A concrete evaluation\<close>

text \<open>A world that records the events; two layers, the first of which fails hard.\<close>

definition demo_layer :: "EvalLayer \<Rightarrow> EvalVerdict \<Rightarrow> layer_eval" where
  "demo_layer n v = \<lparr>le_layer = n, le_verdict = v,
     le_details = Compiled \<lparr>co_success = False, co_errors = [], co_warnings = [], co_duration = 0\<rparr>, le_started = 0, le_completed = 0\<rparr>"

definition demo_evaluator :: "bool \<Rightarrow> (EventType \<times> json) list evaluator" where
  "demo_evaluator ff = \<lparr>ev_layers =
     [\<lparr>la_name = EvalLayer.COMPILATION, la_run = (\<lambda>_. ret (demo_layer EvalLayer.COMPILATION EvalVerdict.FAIL_HARD))\<rparr>,
      \<lparr>la_name = EvalLayer.UNIT_TESTS, la_run = (\<lambda>_. ret (demo_layer EvalLayer.UNIT_TESTS EvalVerdict.FAIL_SOFT))\<rparr>],
     ev_fail_fast = ff, ev_publish = (\<lambda>ty p. writes (\<lambda>l. l @ [(ty, p)])), ev_now = ret 0\<rparr>"

lemma demo_run: "run_evaluation (demo_evaluator ff) ''task-1'' ''s'' [] =
   (Inr (fst (the (case run_evaluation (demo_evaluator ff) ''task-1'' ''s'' [] of (Inr r, w) \<Rightarrow> Some (r, w) | _ \<Rightarrow> None))),
    snd (run_evaluation (demo_evaluator ff) ''task-1'' ''s'' []))"
  by (cases ff) (simp_all add: run_evaluation_def demo_evaluator_def chain_run Let_def demo_layer_def)

theorem evaluation_faithful_witness:
  "\<exists>r w'. run_evaluation (demo_evaluator True) ''task-1'' ''s'' [] = (Inr r, w') \<and> length w' = 2 \<and>
     severity (rp_verdict r) = 2 \<and> map le_layer (rp_layers r) = [EvalLayer.COMPILATION]"
proof -
  let ?e = "run_evaluation (demo_evaluator True) ''task-1'' ''s'' []"
  obtain r w' where r: "?e = (Inr r, w')" using demo_run [of True] by metis
  then have "rp_layers r = [demo_layer EvalLayer.COMPILATION EvalVerdict.FAIL_HARD]"
    by (auto simp: run_evaluation_def demo_evaluator_def chain_run Let_def demo_layer_def)
  moreover have "publishes id (demo_evaluator True)" by (simp add: publishes_def demo_evaluator_def demo_layer_def)
  ultimately show ?thesis using evaluation_faithful [OF _ r, of id] r by (simp add: demo_layer_def)
qed

theorem fail_fast_same_verdict_witness:
  "\<exists>r r2 w w2. run_evaluation (demo_evaluator True) ''task-1'' ''s'' [] = (Inr r, w) \<and>
     run_evaluation (demo_evaluator False) ''task-1'' ''s'' [] = (Inr r2, w2) \<and>
     length (rp_layers r) = 1 \<and> length (rp_layers r2) = 2 \<and> rp_verdict r = rp_verdict r2"
proof -
  obtain r w where r: "run_evaluation (demo_evaluator True) ''task-1'' ''s'' [] = (Inr r, w)" using demo_run [of True] by metis
  obtain r2 w2 where r2: "run_evaluation (demo_evaluator False) ''task-1'' ''s'' [] = (Inr r2, w2)" using demo_run [of False] by metis
  have up: "(demo_evaluator ff)\<lparr>ev_fail_fast := b\<rparr> = demo_evaluator b" for ff b by (simp add: demo_evaluator_def)
  have "list_all2 (\<lambda>l e. steady l ''s'' e) (ev_layers (demo_evaluator True))
      [demo_layer EvalLayer.COMPILATION EvalVerdict.FAIL_HARD, demo_layer EvalLayer.UNIT_TESTS EvalVerdict.FAIL_SOFT]"
    by (simp add: demo_evaluator_def steady_def)
  from fail_fast_same_verdict [OF this, unfolded up, OF r r2] have "rp_verdict r = rp_verdict r2" .
  moreover have "length (rp_layers r) = 1" "length (rp_layers r2) = 2"
    using r r2 by (auto simp: run_evaluation_def demo_evaluator_def chain_run Let_def demo_layer_def)
  ultimately show ?thesis using r r2 by blast
qed

end
