(* ===== verification/Deployment_Workflow.thy ===== *)
theory Deployment_Workflow
  imports Schema
begin

text \<open>
  The models and activities of the Deployment Pipeline
  (\<^verbatim>\<open>deployment_pipeline/models.py\<close>, \<^verbatim>\<open>temporal/activities.py\<close>). An HTTP call to another
  service is an operation that returns the decoded body or raises (transport errors, error
  statuses and undecodable bodies alike); every activity catches what it raises. A result of an
  activity is a dictionary, as in the code.
\<close>

section \<open>Models\<close>

record artifact =
  af_task :: string
  af_ref :: string
  af_summary :: string

record rollout_step =
  rs_traffic :: int
  rs_duration :: int
  rs_interval :: int

definition mk_rollout_step :: "int \<Rightarrow> int \<Rightarrow> int \<Rightarrow> exn + rollout_step" where
  "mk_rollout_step traffic duration interval =
     (if traffic < 1 \<or> 100 < traffic \<or> duration < 0 \<or> interval < 5 then invalid
      else Inr \<lparr>rs_traffic = traffic, rs_duration = duration, rs_interval = interval\<rparr>)"

record deployment_plan =
  pl_id :: string
  pl_artifact :: artifact
  pl_steps :: "rollout_step list"
  pl_sigma :: rat
  pl_multiplier :: rat

section \<open>The world of an activity\<close>

datatype http_call =
    Create_Staging artifact string            \<comment> \<open>image, deployment id\<close>
  | Smoke_Tests string
  | Create_Escalation string rat artifact
  | Post_Traffic string int
  | Get_Metrics string
  | Get_Baseline
  | Put_Traffic string int
  | Post_Rollback string string
  | Acceptance string

record 'w dep_env =
  dp_http :: "http_call \<Rightarrow> (exn, 'w, json) op"
  dp_publish :: "EventType \<Rightarrow> json \<Rightarrow> (exn, 'w, unit) op"   \<comment> \<open>\<open>ret\<close> without a publisher\<close>
  dp_now :: "'w \<Rightarrow> string"
  dp_show :: "exn \<Rightarrow> string"

type_synonym dict = "(string \<times> json) list"

text \<open>\<^verbatim>\<open>body.get(k, default)\<close>; a body that is no object raises.\<close>

definition body_get :: "json \<Rightarrow> string \<Rightarrow> json \<Rightarrow> exn + json" where
  "body_get body k dflt = (case body of JObj d \<Rightarrow> Inr (get_or dflt d k) | _ \<Rightarrow> Inl (AttributeError ''get''))"

definition body_fields :: "json \<Rightarrow> (string \<times> json) list \<Rightarrow> exn + dict" where
  "body_fields body defaults = map_sum_list (\<lambda>(k, dflt). bind_sum (body_get body k dflt) (\<lambda>v. Inr (k, v))) defaults"

section \<open>Activities\<close>

definition started_payload :: "string \<Rightarrow> artifact \<Rightarrow> json" where
  "started_payload i a = JObj [(''deployment_id'', JStr (strip i)), (''task_id'', JStr (strip (af_task a))), (''artifact_ref'', JStr (strip (af_ref a)))]"

definition deploy_to_staging :: "'w dep_env \<Rightarrow> string \<Rightarrow> artifact \<Rightarrow> (exn, 'w, dict) op" where
  "deploy_to_staging env i a =
     attempt (chain (dp_http env (Create_Staging a i)) (\<lambda>_.
              chain (dp_publish env EventType.DEPLOYMENT_STARTED (started_payload i a)) (\<lambda>_.
              ret [(''success'', JBool True), (''deployment_id'', JStr i)])))
       (\<lambda>e. ret [(''success'', JBool False), (''error'', JStr (dp_show env e))])"

definition smoke_defaults :: dict where
  "smoke_defaults = [(''passed'', JBool False), (''tests_run'', JInt 0), (''tests_failed'', JInt 0),
     (''failure_details'', JArr []), (''duration_seconds'', JFloat 0)]"

definition run_smoke_tests :: "'w dep_env \<Rightarrow> string \<Rightarrow> (exn, 'w, dict) op" where
  "run_smoke_tests env i =
     attempt (chain (dp_http env (Smoke_Tests i)) (\<lambda>body. lift_sum (\<lambda>_. body_fields body smoke_defaults)))
       (\<lambda>e. ret (AList.update ''failure_details'' (JArr [JStr (dp_show env e)]) smoke_defaults))"

definition request_approval :: "'w dep_env \<Rightarrow> string \<Rightarrow> rat \<Rightarrow> artifact \<Rightarrow> (exn, 'w, dict) op" where
  "request_approval env i confidence a =
     attempt (chain (dp_http env (Create_Escalation i confidence a)) (\<lambda>body.
              lift_sum (\<lambda>_. bind_sum (body_get body ''escalation_id'' (JStr [])) (\<lambda>v.
                Inr [(''approval_requested'', JBool True), (''escalation_id'', v)]))))
       (\<lambda>e. ret [(''approval_requested'', JBool False), (''error'', JStr (dp_show env e))])"

definition traffic_result :: "'w dep_env \<Rightarrow> int \<Rightarrow> (exn, 'w, json) op \<Rightarrow> (exn, 'w, dict) op" where
  "traffic_result env pct call =
     attempt (chain call (\<lambda>_. ret [(''success'', JBool True), (''traffic_pct'', JInt pct)]))
       (\<lambda>e. ret [(''success'', JBool False), (''error'', JStr (dp_show env e))])"

definition deploy_canary :: "'w dep_env \<Rightarrow> string \<Rightarrow> int \<Rightarrow> (exn, 'w, dict) op" where
  "deploy_canary env i pct = traffic_result env pct (dp_http env (Post_Traffic i pct))"

definition set_traffic :: "'w dep_env \<Rightarrow> string \<Rightarrow> int \<Rightarrow> (exn, 'w, dict) op" where
  "set_traffic env i pct = traffic_result env pct (dp_http env (Put_Traffic i pct))"

definition health_defaults :: dict where
  "health_defaults = [(''error_rate'', JFloat 0), (''p50_latency_ms'', JFloat 0), (''p95_latency_ms'', JFloat 0),
     (''p99_latency_ms'', JFloat 0), (''request_count'', JInt 0)]"

definition collect_health_metrics :: "'w dep_env \<Rightarrow> string \<Rightarrow> (exn, 'w, dict) op" where
  "collect_health_metrics env i =
     chain (attempt (chain (dp_http env (Get_Metrics i)) (\<lambda>body. lift_sum (\<lambda>_. body_fields body health_defaults)))
              (\<lambda>_. ret health_defaults)) (\<lambda>d.
     chain (reads (dp_now env)) (\<lambda>t. ret (d @ [(''timestamp'', JStr t)])))"

definition baseline_defaults :: dict where
  "baseline_defaults = [(''error_rate_mean'', JFloat (1 / 100)), (''error_rate_stddev'', JFloat (5 / 1000)), (''p95_latency_ms'', JFloat 100)]"

definition collect_baseline_metrics :: "'w dep_env \<Rightarrow> (exn, 'w, dict) op" where
  "collect_baseline_metrics env =
     attempt (chain (dp_http env Get_Baseline) (\<lambda>body. lift_sum (\<lambda>_. body_fields body baseline_defaults)))
       (\<lambda>_. ret baseline_defaults)"

text \<open>A number out of a dictionary; arithmetic or comparison with anything else raises.\<close>

definition num_of :: "dict \<Rightarrow> string \<Rightarrow> rat \<Rightarrow> exn + rat" where
  "num_of d k dflt = (case number_of (get_or (JFloat dflt) d k) of Some q \<Rightarrow> Inr q | None \<Rightarrow> Inl (ValueError ''not a number''))"

text \<open>
  Rollback criteria: \<open>None\<close>, or the reason. The detail text is left out; formatting it cannot
  fail on numbers.
\<close>

definition check_rollback_criteria :: "dict \<Rightarrow> dict \<Rightarrow> rat \<Rightarrow> rat \<Rightarrow> exn + RollbackReason option" where
  "check_rollback_criteria health baseline sigma multiplier =
     bind_sum (num_of baseline ''error_rate_mean'' (1 / 100)) (\<lambda>mean.
     bind_sum (num_of baseline ''error_rate_stddev'' (5 / 1000)) (\<lambda>stddev.
     bind_sum (num_of health ''error_rate'' 0) (\<lambda>error_rate.
     if mean + sigma * stddev < error_rate then Inr (Some RollbackReason.ERROR_RATE_EXCEEDED)
     else
       bind_sum (num_of baseline ''p95_latency_ms'' 100) (\<lambda>base_p95.
       bind_sum (num_of health ''p95_latency_ms'' 0) (\<lambda>p95.
       if base_p95 * multiplier < p95 then Inr (Some RollbackReason.LATENCY_EXCEEDED)
       else Inr None)))))"

definition rollback_call :: "'w dep_env \<Rightarrow> string \<Rightarrow> string \<Rightarrow> (exn, 'w, dict) op" where
  "rollback_call env i reason =
     attempt (chain (dp_http env (Post_Rollback i reason)) (\<lambda>_.
              ret [(''success'', JBool True), (''deployment_id'', JStr i), (''reason'', JStr reason)]))
       (\<lambda>e. ret [(''success'', JBool False), (''error'', JStr (dp_show env e))])"

definition run_acceptance_verification :: "'w dep_env \<Rightarrow> string \<Rightarrow> (exn, 'w, dict) op" where
  "run_acceptance_verification env i =
     attempt (chain (dp_http env (Acceptance i)) (\<lambda>body. lift_sum (\<lambda>_. body_fields body [(''passed'', JBool False), (''details'', JStr [])])))
       (\<lambda>e. ret [(''passed'', JBool False), (''details'', JStr (dp_show env e))])"

text \<open>The events the workflow publishes.\<close>

datatype deployment_event =
    Stage_Changed DeploymentStage int
  | Deployment_Completed string
  | Deployment_Rolled_Back string DeploymentStage

definition event_payload :: "string \<Rightarrow> deployment_event \<Rightarrow> exn + EventType \<times> json" where
  "event_payload i ev = (case ev of
      Stage_Changed st pct \<Rightarrow> Inr (EventType.DEPLOYMENT_STAGE_CHANGED, JObj [(''deployment_id'', JStr (strip i)),
        (''stage'', JStr (deployment_stage_value st)), (''traffic_pct'', JInt pct)])
    | Deployment_Completed task \<Rightarrow> Inr (EventType.DEPLOYMENT_COMPLETED, JObj [(''deployment_id'', JStr (strip i)),
        (''task_id'', JStr (strip task)), (''duration_seconds'', JFloat 0)])
    | Deployment_Rolled_Back reason st \<Rightarrow>
        (case rollback_reason_of reason of
           None \<Rightarrow> Inl (ValueError ''not a valid RollbackReason'')
         | Some r \<Rightarrow> Inr (EventType.DEPLOYMENT_ROLLED_BACK, JObj [(''deployment_id'', JStr (strip i)),
             (''reason'', JStr (rollback_reason_value r)), (''stage_at_rollback'', JStr (deployment_stage_value st))])))"

definition publish_deployment_event :: "'w dep_env \<Rightarrow> string \<Rightarrow> deployment_event \<Rightarrow> (exn, 'w, dict) op" where
  "publish_deployment_event env i ev =
     attempt (chain (lift_sum (\<lambda>_. event_payload i ev)) (\<lambda>(ty, p).
              chain (dp_publish env ty p) (\<lambda>_. ret [(''published'', JBool True)])))
       (\<lambda>e. ret [(''published'', JBool False), (''error'', JStr (dp_show env e))])"

text \<open>Every activity but the comparison of metrics returns, whatever the services do.\<close>

lemma activities_return:
  "\<exists>d w'. deploy_to_staging env i a w = (Inr d, w')"
  "\<exists>d w'. run_smoke_tests env i w = (Inr d, w')"
  "\<exists>d w'. request_approval env i c a w = (Inr d, w')"
  "\<exists>d w'. deploy_canary env i pct w = (Inr d, w')"
  "\<exists>d w'. set_traffic env i pct w = (Inr d, w')"
  "\<exists>d w'. collect_health_metrics env i w = (Inr d, w')"
  "\<exists>d w'. collect_baseline_metrics env w = (Inr d, w')"
  "\<exists>d w'. rollback_call env i reason w = (Inr d, w')"
  "\<exists>d w'. run_acceptance_verification env i w = (Inr d, w')"
  "\<exists>d w'. publish_deployment_event env i ev w = (Inr d, w')"
  by (simp_all add: deploy_to_staging_def run_smoke_tests_def request_approval_def deploy_canary_def set_traffic_def traffic_result_def
    collect_health_metrics_def collect_baseline_metrics_def rollback_call_def run_acceptance_verification_def publish_deployment_event_def
    attempt_run chain_run split: prod.splits sum.splits)

text \<open>
  The Temporal workflow \<^verbatim>\<open>DeploymentWorkflow\<close>
  (\<^verbatim>\<open>deployment_pipeline/temporal/workflows.py\<close>). The state is the world and the fields of
  the workflow object; \<open>dw_history\<close> is the list of the activities and timers it awaited, which
  Temporal keeps. While the workflow awaits, signals arrive; Temporal may also end the wait
  with an exception (a cancellation, or an activity it gave up on). The plan is one that
  \<^verbatim>\<open>PipelineManager\<close> built, so that no key is missing. The health loop is a partial function:
  it runs forever on an interval of zero.
\<close>

section \<open>State\<close>

datatype act =
    Did_Staging | Did_Smoke | Did_Approval | Did_Baseline | Did_Traffic int | Did_Announce deployment_event
  | Did_Sleep int | Did_Health | Did_Criteria | Did_Accept | Did_Rollback string

datatype signal = Approval_Received string | Rollback_Requested string

record dwf =
  dw_approval :: bool
  dw_decision :: string
  dw_rollback :: bool
  dw_reason :: string
  dw_status :: DeploymentStatus
  dw_stage :: "DeploymentStage option"
  dw_traffic :: int
  dw_stages :: "DeploymentStage list"
  dw_history :: "act list"

definition dw_init :: dwf where
  "dw_init = \<lparr>dw_approval = False, dw_decision = ''pending'', dw_rollback = False, dw_reason = [],
     dw_status = DeploymentStatus.PENDING, dw_stage = None, dw_traffic = 0, dw_stages = [], dw_history = []\<rparr>"

primrec on_signal :: "signal \<Rightarrow> dwf \<Rightarrow> dwf" where
  "on_signal (Approval_Received decision) s = s\<lparr>dw_approval := True, dw_decision := decision\<rparr>"
| "on_signal (Rollback_Requested reason) s = s\<lparr>dw_rollback := True, dw_reason := reason\<rparr>"

record wf_params =
  wp_plan :: deployment_plan
  wp_confidence :: rat
  wp_first_human :: bool
  wp_threshold :: rat
  wp_timeout :: int

record deploy_result =
  dr_id :: string
  dr_status :: DeploymentStatus
  dr_reason :: "string option"
  dr_stages :: "DeploymentStage list"

record 'w temporal =
  tm_env :: "'w dep_env"
  tm_between :: "(exn, 'w, signal list) op"              \<comment> \<open>at the end of an activity or timer\<close>
  tm_wait :: "int \<Rightarrow> (exn, 'w, signal list) op"          \<comment> \<open>until a signal or the timeout, in minutes\<close>

type_synonym ('w, 'a) wf = "(exn, 'w \<times> dwf, 'a) op"

definition await :: "'w temporal \<Rightarrow> act \<Rightarrow> (exn, 'w, 'a) op \<Rightarrow> ('w, 'a) wf" where
  "await tm a m = (\<lambda>(w, s).
     let s1 = s\<lparr>dw_history := dw_history s @ [a]\<rparr>
     in case m w of
          (Inl e, w1) \<Rightarrow> (Inl e, (w1, s1))
        | (Inr x, w1) \<Rightarrow>
            (case tm_between tm w1 of
               (Inl e, w2) \<Rightarrow> (Inl e, (w2, s1))
             | (Inr sigs, w2) \<Rightarrow> (Inr x, (w2, fold on_signal sigs s1))))"

definition upd :: "(dwf \<Rightarrow> dwf) \<Rightarrow> ('w, unit) wf" where
  "upd f = writes (\<lambda>(w, s). (w, f s))"

definition resolve_stage :: "int \<Rightarrow> DeploymentStage" where
  "resolve_stage pct =
     (if pct \<le> 5 then DeploymentStage.CANARY_5 else if pct \<le> 25 then DeploymentStage.ROLLOUT_25
      else if pct \<le> 50 then DeploymentStage.ROLLOUT_50 else DeploymentStage.ROLLOUT_100)"

definition workflow_state :: "dwf \<Rightarrow> json" where
  "workflow_state s = JObj
     [(''status'', JStr (deployment_status_value (dw_status s))),
      (''current_stage'', (case dw_stage s of None \<Rightarrow> JNull | Some st \<Rightarrow> JStr (deployment_stage_value st))),
      (''current_traffic_pct'', JInt (dw_traffic s)),
      (''stages_completed'', JArr (map (JStr \<circ> deployment_stage_value) (dw_stages s)))]"

section \<open>Steps\<close>

definition do_rollback :: "'w temporal \<Rightarrow> string \<Rightarrow> string \<Rightarrow> ('w, deploy_result) wf" where
  "do_rollback tm i reason =
     chain (upd (\<lambda>s. s\<lparr>dw_status := DeploymentStatus.ROLLED_BACK\<rparr>)) (\<lambda>_.
     chain (await tm (Did_Rollback reason) (rollback_call (tm_env tm) i reason)) (\<lambda>_.
     chain (reads (\<lambda>(w, s). Deployment_Rolled_Back reason (case dw_stage s of None \<Rightarrow> DeploymentStage.STAGING | Some st \<Rightarrow> st))) (\<lambda>ev.
     chain (await tm (Did_Announce ev) (publish_deployment_event (tm_env tm) i ev)) (\<lambda>_.
     reads (\<lambda>(w, s). \<lparr>dr_id = i, dr_status = DeploymentStatus.ROLLED_BACK, dr_reason = Some reason, dr_stages = dw_stages s\<rparr>)))))"

text \<open>\<^verbatim>\<open>return await self._do_rollback(...)\<close>: the run ends with the result.\<close>

definition give_up :: "'w temporal \<Rightarrow> string \<Rightarrow> string \<Rightarrow> ('w, deploy_result option) wf" where
  "give_up tm i reason = chain (do_rollback tm i reason) (\<lambda>r. ret (Some r))"

definition reason_text :: "RollbackReason \<Rightarrow> string" where
  "reason_text r = rollback_reason_value r"

definition requested_reason :: "dwf \<Rightarrow> string" where
  "requested_reason s = (if dw_reason s \<noteq> [] then dw_reason s else reason_text RollbackReason.MANUAL)"

definition if_requested :: "'w temporal \<Rightarrow> string \<Rightarrow> ('w, deploy_result option) wf \<Rightarrow> ('w, deploy_result option) wf" where
  "if_requested tm i m = (\<lambda>(w, s). if dw_rollback s then give_up tm i (requested_reason s) (w, s) else m (w, s))"

text \<open>One part of the run after another, unless a part ended the run.\<close>

definition next_part :: "('w, 'a option) wf \<Rightarrow> ('w, 'a option) wf \<Rightarrow> ('w, 'a option) wf" where
  "next_part m n = chain m (\<lambda>r. case r of Some x \<Rightarrow> ret (Some x) | None \<Rightarrow> n)"

definition ok_flag :: "dict \<Rightarrow> string \<Rightarrow> bool" where
  "ok_flag d k = truthy (get_or (JBool False) d k)"

definition staging_part :: "'w temporal \<Rightarrow> deployment_plan \<Rightarrow> ('w, deploy_result option) wf" where
  "staging_part tm pl =
     chain (upd (\<lambda>s. s\<lparr>dw_status := DeploymentStatus.STAGING, dw_stage := Some DeploymentStage.STAGING\<rparr>)) (\<lambda>_.
     chain (await tm Did_Staging (deploy_to_staging (tm_env tm) (pl_id pl) (pl_artifact pl))) (\<lambda>d.
     if \<not> ok_flag d ''success'' then give_up tm (pl_id pl) (reason_text RollbackReason.SMOKE_TEST_FAILED)
     else chain (upd (\<lambda>s. s\<lparr>dw_stages := dw_stages s @ [DeploymentStage.STAGING]\<rparr>)) (\<lambda>_. ret None)))"

definition smoke_part :: "'w temporal \<Rightarrow> deployment_plan \<Rightarrow> ('w, deploy_result option) wf" where
  "smoke_part tm pl =
     chain (upd (\<lambda>s. s\<lparr>dw_status := DeploymentStatus.SMOKE_TESTING\<rparr>)) (\<lambda>_.
     chain (await tm Did_Smoke (run_smoke_tests (tm_env tm) (pl_id pl))) (\<lambda>d.
     if \<not> ok_flag d ''passed'' then give_up tm (pl_id pl) (reason_text RollbackReason.SMOKE_TEST_FAILED) else ret None))"

text \<open>\<^verbatim>\<open>wait_condition\<close>: whether the condition holds when the wait ends.\<close>

definition wait_for_signal :: "'w temporal \<Rightarrow> int \<Rightarrow> ('w, bool) wf" where
  "wait_for_signal tm minutes = (\<lambda>(w, s).
     if dw_approval s \<or> dw_rollback s then (Inr True, (w, s))
     else (case tm_wait tm minutes w of
             (Inl e, w') \<Rightarrow> (Inl e, (w', s))
           | (Inr sigs, w') \<Rightarrow>
               (let s' = fold on_signal sigs s in (Inr (dw_approval s' \<or> dw_rollback s'), (w', s')))))"

definition needs_approval :: "wf_params \<Rightarrow> bool" where
  "needs_approval p \<longleftrightarrow> wp_first_human p \<or> wp_confidence p < wp_threshold p"

definition approval_part :: "'w temporal \<Rightarrow> wf_params \<Rightarrow> ('w, deploy_result option) wf" where
  "approval_part tm p =
     (let pl = wp_plan p; denied = give_up tm (pl_id pl) (reason_text RollbackReason.APPROVAL_DENIED)
      in if \<not> needs_approval p then ret None
         else
           chain (upd (\<lambda>s. s\<lparr>dw_status := DeploymentStatus.AWAITING_APPROVAL\<rparr>)) (\<lambda>_.
           chain (await tm Did_Approval (request_approval (tm_env tm) (pl_id pl) (wp_confidence p) (pl_artifact pl))) (\<lambda>_.
           chain (wait_for_signal tm (wp_timeout p)) (\<lambda>signalled.
           if \<not> signalled then denied
           else if_requested tm (pl_id pl)
             (chain (reads (\<lambda>(w, s). dw_decision s)) (\<lambda>decision.
              if decision = ''denied'' then denied else ret None))))))"

definition health_round :: "'w temporal \<Rightarrow> deployment_plan \<Rightarrow> dict \<Rightarrow> int \<Rightarrow> ('w, deploy_result option) wf" where
  "health_round tm pl baseline interval =
     chain (await tm (Did_Sleep interval) (ret ())) (\<lambda>_.
     chain (await tm Did_Health (collect_health_metrics (tm_env tm) (pl_id pl))) (\<lambda>health.
     chain (await tm Did_Criteria (lift_sum (\<lambda>_. check_rollback_criteria health baseline (pl_sigma pl) (pl_multiplier pl)))) (\<lambda>check.
     case check of None \<Rightarrow> ret None | Some reason \<Rightarrow> give_up tm (pl_id pl) (reason_text reason))))"

text \<open>A part that may not end; \<open>then_part\<close> continues after a part that did.\<close>

type_synonym ('w, 'a) run = "'w \<times> dwf \<Rightarrow> ((exn + 'a) \<times> ('w \<times> dwf)) option"

definition ends :: "('w, 'a) wf \<Rightarrow> ('w, 'a) run" where
  "ends m = (\<lambda>s. Some (m s))"

definition then_part :: "('w, 'a option) run \<Rightarrow> ('w, 'a option) run \<Rightarrow> ('w, 'a option) run" where
  "then_part m n = (\<lambda>s. case m s of
      None \<Rightarrow> None
    | Some (Inr None, s') \<Rightarrow> n s'
    | Some r \<Rightarrow> Some r)"

partial_function (option) monitor_health :: "'w temporal \<Rightarrow> deployment_plan \<Rightarrow> dict \<Rightarrow> rollout_step \<Rightarrow> int \<Rightarrow> 'w \<times> dwf \<Rightarrow>
    ((exn + deploy_result option) \<times> ('w \<times> dwf)) option" where
  "monitor_health tm pl baseline step elapsed s =
     (if rs_duration step \<le> elapsed then Some (Inr None, s)
      else if dw_rollback (snd s) then Some (give_up tm (pl_id pl) (requested_reason (snd s)) s)
      else (case health_round tm pl baseline (rs_interval step) s of
              (Inr None, s') \<Rightarrow> monitor_health tm pl baseline step (elapsed + rs_interval step) s'
            | r \<Rightarrow> Some r))"

definition shift_traffic :: "'w temporal \<Rightarrow> deployment_plan \<Rightarrow> rollout_step \<Rightarrow> ('w, deploy_result option) wf" where
  "shift_traffic tm pl step =
     (let pct = rs_traffic step; stage = resolve_stage pct; env = tm_env tm
      in if_requested tm (pl_id pl)
        (chain (upd (\<lambda>s. s\<lparr>dw_stage := Some stage, dw_traffic := pct,
           dw_status := (if pct \<le> 5 then DeploymentStatus.CANARY else DeploymentStatus.ROLLING_OUT)\<rparr>)) (\<lambda>_.
         chain (await tm (Did_Traffic pct) (if pct \<le> 5 then deploy_canary env (pl_id pl) pct else set_traffic env (pl_id pl) pct)) (\<lambda>_.
         chain (await tm (Did_Announce (Stage_Changed stage pct)) (publish_deployment_event env (pl_id pl) (Stage_Changed stage pct))) (\<lambda>_.
         ret None)))))"

definition run_step :: "'w temporal \<Rightarrow> deployment_plan \<Rightarrow> dict \<Rightarrow> rollout_step \<Rightarrow> ('w, deploy_result option) run" where
  "run_step tm pl baseline step =
     then_part (ends (shift_traffic tm pl step))
     (then_part (monitor_health tm pl baseline step 0)
     (ends (chain (upd (\<lambda>s. s\<lparr>dw_stages := dw_stages s @ [resolve_stage (rs_traffic step)]\<rparr>)) (\<lambda>_. ret None))))"

primrec rollout :: "'w temporal \<Rightarrow> deployment_plan \<Rightarrow> dict \<Rightarrow> rollout_step list \<Rightarrow> ('w, deploy_result option) run" where
  "rollout tm pl baseline [] = ends (ret None)"
| "rollout tm pl baseline (step # steps) = then_part (run_step tm pl baseline step) (rollout tm pl baseline steps)"

definition final_part :: "'w temporal \<Rightarrow> deployment_plan \<Rightarrow> ('w, deploy_result option) wf" where
  "final_part tm pl =
     chain (upd (\<lambda>s. s\<lparr>dw_status := DeploymentStatus.VERIFYING\<rparr>)) (\<lambda>_.
     chain (await tm Did_Accept (run_acceptance_verification (tm_env tm) (pl_id pl))) (\<lambda>d.
     if \<not> ok_flag d ''passed'' then give_up tm (pl_id pl) (reason_text RollbackReason.VERIFICATION_FAILED)
     else
       chain (upd (\<lambda>s. s\<lparr>dw_status := DeploymentStatus.COMPLETED\<rparr>)) (\<lambda>_.
       chain (await tm (Did_Announce (Deployment_Completed (af_task (pl_artifact pl))))
         (publish_deployment_event (tm_env tm) (pl_id pl) (Deployment_Completed (af_task (pl_artifact pl))))) (\<lambda>_.
       reads (\<lambda>(w, s). Some \<lparr>dr_id = pl_id pl, dr_status = DeploymentStatus.COMPLETED, dr_reason = None, dr_stages = dw_stages s\<rparr>)))))"

definition rollout_part :: "'w temporal \<Rightarrow> deployment_plan \<Rightarrow> ('w, deploy_result option) run" where
  "rollout_part tm pl = (\<lambda>s. case await tm Did_Baseline (collect_baseline_metrics (tm_env tm)) s of
      (Inl e, s') \<Rightarrow> Some (Inl e, s')
    | (Inr baseline, s') \<Rightarrow> rollout tm pl baseline (pl_steps pl) s')"

definition deployment_workflow :: "'w temporal \<Rightarrow> wf_params \<Rightarrow> ('w, deploy_result option) run" where
  "deployment_workflow tm p =
     (let pl = wp_plan p
      in then_part (ends (next_part (staging_part tm pl) (next_part (smoke_part tm pl) (approval_part tm p))))
         (then_part (rollout_part tm pl)
         (ends (final_part tm pl))))"

end
