(* ===== verification/Deployment_Properties.thy ===== *)
theory Deployment_Properties
  imports Deployment_Workflow "HOL-Library.Sublist"
begin

text \<open>
  The properties of the deployment workflow, over the history of the activities it awaited.
\<close>

section \<open>Histories\<close>

definition traffic_of :: "act list \<Rightarrow> int list" where
  "traffic_of h = List.map_filter (\<lambda>a. case a of Did_Traffic p \<Rightarrow> Some p | _ \<Rightarrow> None) h"

primrec is_rollback :: "act \<Rightarrow> bool" where
  "is_rollback (Did_Rollback r) = True"
| "is_rollback Did_Staging = False"
| "is_rollback Did_Smoke = False"
| "is_rollback Did_Approval = False"
| "is_rollback Did_Baseline = False"
| "is_rollback (Did_Traffic p) = False"
| "is_rollback (Did_Announce e) = False"
| "is_rollback (Did_Sleep n) = False"
| "is_rollback Did_Health = False"
| "is_rollback Did_Criteria = False"
| "is_rollback Did_Accept = False"

definition clean :: "act list \<Rightarrow> bool" where
  "clean h \<longleftrightarrow> list_all (\<lambda>a. \<not> is_rollback a) h"

lemma traffic_of_simps [simp]: "traffic_of [] = []" "traffic_of (a # h) = (case a of Did_Traffic p \<Rightarrow> [p] | _ \<Rightarrow> []) @ traffic_of h"
  "traffic_of (g @ h) = traffic_of g @ traffic_of h"
proof -
  show "traffic_of [] = []" by (simp add: traffic_of_def map_filter_simps)
  show cons: "traffic_of (a # h) = (case a of Did_Traffic p \<Rightarrow> [p] | _ \<Rightarrow> []) @ traffic_of h" for a h
    by (simp add: traffic_of_def map_filter_simps split: act.split)
  show "traffic_of (g @ h) = traffic_of g @ traffic_of h"
    by (induction g) (simp_all add: cons, simp add: traffic_of_def map_filter_simps)
qed

lemma clean_simps [simp]: "clean []" "clean (a # h) \<longleftrightarrow> \<not> is_rollback a \<and> clean h" "clean (g @ h) \<longleftrightarrow> clean g \<and> clean h"
  by (auto simp: clean_def)

lemma on_signals [simp]:
  "dw_history (fold on_signal sigs s) = dw_history s" "dw_stages (fold on_signal sigs s) = dw_stages s"
  "dw_stage (fold on_signal sigs s) = dw_stage s"
proof -
  have "dw_history (on_signal g s) = dw_history s \<and> dw_stages (on_signal g s) = dw_stages s \<and> dw_stage (on_signal g s) = dw_stage s" for g s
    by (cases g) simp_all
  then show "dw_history (fold on_signal sigs s) = dw_history s" "dw_stages (fold on_signal sigs s) = dw_stages s"
      "dw_stage (fold on_signal sigs s) = dw_stage s"
    by (induction sigs arbitrary: s) simp_all
qed

section \<open>What a part does\<close>

text \<open>
  \<open>part_ok ts stg s r s'\<close>: from \<open>s\<close> to \<open>s'\<close> a part either went through, after shifting the traffic
  through \<open>ts\<close> and completing the stages \<open>stg\<close>, or ended the run with a rollback somewhere on the way.
\<close>

definition rolled_back :: "int list \<Rightarrow> DeploymentStage list \<Rightarrow> string \<Rightarrow> dwf \<Rightarrow> deploy_result \<Rightarrow> dwf \<Rightarrow> bool" where
  "rolled_back ts stg i s x s' \<longleftrightarrow>
     (\<exists>h reason ev done. dw_history s' = dw_history s @ h @ [Did_Rollback reason, Did_Announce ev] \<and> clean h \<and>
        prefix (traffic_of h) ts \<and> prefix done stg \<and> dw_stages s' = dw_stages s @ done \<and>
        x = \<lparr>dr_id = i, dr_status = DeploymentStatus.ROLLED_BACK, dr_reason = Some reason, dr_stages = dw_stages s'\<rparr>)"

definition went_through :: "int list \<Rightarrow> DeploymentStage list \<Rightarrow> dwf \<Rightarrow> dwf \<Rightarrow> bool" where
  "went_through ts stg s s' \<longleftrightarrow>
     (\<exists>h. dw_history s' = dw_history s @ h \<and> clean h \<and> traffic_of h = ts) \<and> dw_stages s' = dw_stages s @ stg"

definition part_ok :: "int list \<Rightarrow> DeploymentStage list \<Rightarrow> string \<Rightarrow> dwf \<Rightarrow> deploy_result option \<Rightarrow> dwf \<Rightarrow> bool" where
  "part_ok ts stg i s r s' \<longleftrightarrow> (case r of None \<Rightarrow> went_through ts stg s s' | Some x \<Rightarrow> rolled_back ts stg i s x s')"

lemma went_through_trans:
  "went_through ts stg s s1 \<Longrightarrow> went_through us stg' s1 s2 \<Longrightarrow> went_through (ts @ us) (stg @ stg') s s2"
  unfolding went_through_def by (auto intro: exI [of _ "g @ h" for g h])

lemma part_ok_then:
  assumes "went_through ts stg s s1" and "part_ok us stg' i s1 r s2"
  shows "part_ok (ts @ us) (stg @ stg') i s r s2"
proof (cases r)
  case None
  with assms show ?thesis by (simp add: part_ok_def went_through_trans)
next
  case (Some x)
  with assms(2) obtain h reason ev stages where b: "dw_history s2 = dw_history s1 @ h @ [Did_Rollback reason, Did_Announce ev]" "clean h"
    "prefix (traffic_of h) us" "prefix stages stg'" "dw_stages s2 = dw_stages s1 @ stages"
    "x = \<lparr>dr_id = i, dr_status = DeploymentStatus.ROLLED_BACK, dr_reason = Some reason, dr_stages = dw_stages s2\<rparr>"
    by (auto simp: part_ok_def rolled_back_def)
  from assms(1) obtain g where g: "dw_history s1 = dw_history s @ g" "clean g" "traffic_of g = ts" "dw_stages s1 = dw_stages s @ stg"
    by (auto simp: went_through_def)
  have "rolled_back (ts @ us) (stg @ stg') i s x s2"
    unfolding rolled_back_def
    by (rule exI [of _ "g @ h"], rule exI [of _ reason], rule exI [of _ ev], rule exI [of _ "stg @ stages"]) (simp add: b g)
  then show ?thesis by (simp add: Some part_ok_def)
qed

lemma part_ok_more: "part_ok ts stg i s (Some x) s' \<Longrightarrow> part_ok (ts @ us) (stg @ stg') i s (Some x) s'"
  unfolding part_ok_def rolled_back_def by (auto intro: prefix_prefix)

lemma went_through_refl: "dw_history s' = dw_history s \<Longrightarrow> dw_stages s' = dw_stages s \<Longrightarrow> went_through [] [] s s'"
  by (simp add: went_through_def)

lemma await_ok:
  "await tm a m (w, s) = (Inr x, (w', s')) \<Longrightarrow> dw_history s' = dw_history s @ [a] \<and> dw_stages s' = dw_stages s"
  by (auto simp: await_def Let_def split: prod.splits sum.splits)

lemma await_cases:
  obtains e v where "await tm a m (w, s) = (Inl e, v)"
  | x w' s' where "await tm a m (w, s) = (Inr x, (w', s'))" "dw_history s' = dw_history s @ [a]" "dw_stages s' = dw_stages s"
proof -
  obtain r w' s' where r: "await tm a m (w, s) = (r, (w', s'))" by (metis prod.exhaust)
  show ?thesis
  proof (cases r)
    case (Inl e)
    with r show ?thesis by (intro that(1)) simp
  next
    case (Inr x)
    with r have "await tm a m (w, s) = (Inr x, (w', s'))" by simp
    with await_ok [OF this] show ?thesis using that(2) by blast
  qed
qed

lemma upd_run [simp]: "upd f (w, s) = (Inr (), (w, f s))"
  by (simp add: upd_def)

lemma give_up_ok:
  assumes "give_up tm i reason (w, s) = (Inr r, (w', s'))"
  shows "\<exists>x. r = Some x \<and> part_ok ts stg i s (Some x) s'"
proof -
  let ?s = "s\<lparr>dw_status := DeploymentStatus.ROLLED_BACK\<rparr>"
  obtain x w1 s1 where a: "await tm (Did_Rollback reason) (rollback_call (tm_env tm) i reason) (w, ?s) = (Inr x, (w1, s1))"
    and s1: "dw_history s1 = dw_history s @ [Did_Rollback reason]" "dw_stages s1 = dw_stages s"
    by (rule await_cases [of tm "Did_Rollback reason" "rollback_call (tm_env tm) i reason" w ?s])
      (use assms in \<open>auto simp: give_up_def do_rollback_def chain_run\<close>)
  let ?ev = "Deployment_Rolled_Back reason (case dw_stage s1 of None \<Rightarrow> DeploymentStage.STAGING | Some st \<Rightarrow> st)"
  obtain y w2 s2 where b: "await tm (Did_Announce ?ev) (publish_deployment_event (tm_env tm) i ?ev) (w1, s1) = (Inr y, (w2, s2))"
    and s2: "dw_history s2 = dw_history s1 @ [Did_Announce ?ev]" "dw_stages s2 = dw_stages s1"
    by (rule await_cases [of tm "Did_Announce ?ev" "publish_deployment_event (tm_env tm) i ?ev" w1 s1])
      (use assms a in \<open>auto simp: give_up_def do_rollback_def chain_run\<close>)
  from assms a b have "r = Some \<lparr>dr_id = i, dr_status = DeploymentStatus.ROLLED_BACK, dr_reason = Some reason, dr_stages = dw_stages s2\<rparr>"
    and "s' = s2" by (auto simp: give_up_def do_rollback_def chain_run)
  then show ?thesis using s1 s2 by (auto simp: part_ok_def rolled_back_def)
qed

lemma if_requested_ok:
  assumes "if_requested tm i m (w, s) = (Inr r, (w', s'))"
    and "m (w, s) = (Inr r, (w', s')) \<Longrightarrow> part_ok ts stg i s r s'"
  shows "part_ok ts stg i s r s'"
  using assms give_up_ok [of tm i "requested_reason s" w s r w' s' ts stg]
  by (auto simp: if_requested_def split: if_splits)


lemma part_ok_trans:
  assumes "\<And>w' s'. m (w, s) = (Inr None, (w', s')) \<Longrightarrow> went_through ts stg s s'"
    and "\<And>x w' s'. m (w, s) = (Inr (Some x), (w', s')) \<Longrightarrow> part_ok ts stg i s (Some x) s'"
    and "\<And>w1 s1 w' s' r. m (w, s) = (Inr None, (w1, s1)) \<Longrightarrow> n (w1, s1) = Some (Inr r, (w', s')) \<Longrightarrow> part_ok us stg' i s1 r s'"
    and "then_part (ends m) n (w, s) = Some (Inr r, (w', s'))"
  shows "part_ok (ts @ us) (stg @ stg') i s r s'"
proof -
  obtain r1 w1 s1 where m: "m (w, s) = (r1, (w1, s1))" by (metis prod.exhaust)
  show ?thesis
  proof (cases r1)
    case (Inl e)
    with assms(4) m show ?thesis by (simp add: then_part_def ends_def)
  next
    case (Inr q)
    show ?thesis
    proof (cases q)
      case None
      with assms(4) m Inr have "n (w1, s1) = Some (Inr r, (w', s'))" by (simp add: then_part_def ends_def)
      then show ?thesis using part_ok_then [OF assms(1) assms(3)] m Inr None by blast
    next
      case (Some x)
      with assms(4) m Inr have "r = Some x" "s' = s1" by (auto simp: then_part_def ends_def)
      then show ?thesis using assms(2) m Inr Some part_ok_more by blast
    qed
  qed
qed

section \<open>The parts before the rollout\<close>

lemma staging_ok:
  assumes "staging_part tm pl (w, s) = (Inr r, (w', s'))"
  shows "part_ok [] [DeploymentStage.STAGING] (pl_id pl) s r s' \<and> (r = None \<longrightarrow> dw_history s' = dw_history s @ [Did_Staging])"
proof -
  let ?s = "s\<lparr>dw_status := DeploymentStatus.STAGING, dw_stage := Some DeploymentStage.STAGING\<rparr>"
  let ?m = "deploy_to_staging (tm_env tm) (pl_id pl) (pl_artifact pl)"
  obtain d w1 s1 where a: "await tm Did_Staging ?m (w, ?s) = (Inr d, (w1, s1))"
    and s1: "dw_history s1 = dw_history s @ [Did_Staging]" "dw_stages s1 = dw_stages s"
    by (rule await_cases [of tm Did_Staging ?m w ?s]) (use assms in \<open>auto simp: staging_part_def chain_run\<close>)
  have w: "went_through [] [] s s1" by (auto simp: went_through_def s1)
  show ?thesis
  proof (cases "ok_flag d ''success''")
    case True
    with assms a s1 show ?thesis by (auto simp: staging_part_def chain_run part_ok_def went_through_def)
  next
    case False
    with assms a have "give_up tm (pl_id pl) (reason_text RollbackReason.SMOKE_TEST_FAILED) (w1, s1) = (Inr r, (w', s'))"
      by (simp add: staging_part_def chain_run)
    from give_up_ok [OF this, of "[]" "[DeploymentStage.STAGING]"] part_ok_then [OF w] show ?thesis by auto
  qed
qed

lemma smoke_ok:
  assumes "smoke_part tm pl (w, s) = (Inr r, (w', s'))"
  shows "part_ok [] [] (pl_id pl) s r s' \<and> (r = None \<longrightarrow> dw_history s' = dw_history s @ [Did_Smoke])"
proof -
  let ?s = "s\<lparr>dw_status := DeploymentStatus.SMOKE_TESTING\<rparr>"
  obtain d w1 s1 where a: "await tm Did_Smoke (run_smoke_tests (tm_env tm) (pl_id pl)) (w, ?s) = (Inr d, (w1, s1))"
    and s1: "dw_history s1 = dw_history s @ [Did_Smoke]" "dw_stages s1 = dw_stages s"
    by (rule await_cases [of tm Did_Smoke "run_smoke_tests (tm_env tm) (pl_id pl)" w ?s]) (use assms in \<open>auto simp: smoke_part_def chain_run\<close>)
  have w: "went_through [] [] s s1" by (auto simp: went_through_def s1)
  show ?thesis
  proof (cases "ok_flag d ''passed''")
    case True
    with assms a s1 show ?thesis by (auto simp: smoke_part_def chain_run part_ok_def went_through_def)
  next
    case False
    with assms a have "give_up tm (pl_id pl) (reason_text RollbackReason.SMOKE_TEST_FAILED) (w1, s1) = (Inr r, (w', s'))"
      by (simp add: smoke_part_def chain_run)
    from give_up_ok [OF this, of "[]" "[]"] part_ok_then [OF w] show ?thesis by auto
  qed
qed

text \<open>The wait changes neither history nor stages.\<close>

lemma wait_ok: "wait_for_signal tm minutes (w, s) = (Inr b, (w', s')) \<Longrightarrow> dw_history s' = dw_history s \<and> dw_stages s' = dw_stages s"
  by (auto simp: wait_for_signal_def Let_def split: if_splits prod.splits sum.splits)

lemma approval_ok:
  assumes "approval_part tm p (w, s) = (Inr r, (w', s'))"
  shows "part_ok [] [] (pl_id (wp_plan p)) s r s' \<and>
    (r = None \<longrightarrow> dw_history s' = dw_history s @ (if needs_approval p then [Did_Approval] else []))"
proof (cases "needs_approval p")
  case False
  with assms show ?thesis by (simp add: approval_part_def Let_def part_ok_def went_through_def)
next
  case True
  let ?i = "pl_id (wp_plan p)" and ?s = "s\<lparr>dw_status := DeploymentStatus.AWAITING_APPROVAL\<rparr>"
  let ?m = "request_approval (tm_env tm) ?i (wp_confidence p) (pl_artifact (wp_plan p))"
  obtain d w1 s1 where a: "await tm Did_Approval ?m (w, ?s) = (Inr d, (w1, s1))"
    and s1: "dw_history s1 = dw_history s @ [Did_Approval]" "dw_stages s1 = dw_stages s"
    by (rule await_cases [of tm Did_Approval ?m w ?s]) (use assms True in \<open>auto simp: approval_part_def Let_def chain_run\<close>)
  obtain x w2 s2 where wt: "wait_for_signal tm (wp_timeout p) (w1, s1) = (x, (w2, s2))" by (metis prod.exhaust)
  with assms a True obtain b where b: "x = Inr b" by (cases x) (auto simp: approval_part_def Let_def chain_run)
  have w: "went_through [] [] s s2" and h: "dw_history s2 = dw_history s @ [Did_Approval]"
    using wait_ok [OF wt [unfolded b]] s1 by (auto simp: went_through_def)
  let ?no = "give_up tm ?i (reason_text RollbackReason.APPROVAL_DENIED)"
  have run: "(if \<not> b then ?no (w2, s2) else if_requested tm ?i (chain (reads (\<lambda>(w, s). dw_decision s)) (\<lambda>decision.
      if decision = ''denied'' then ?no else ret None)) (w2, s2)) = (Inr r, (w', s'))"
    using assms a True wt b by (simp add: approval_part_def Let_def chain_run split: if_splits)
  have "part_ok [] [] ?i s2 r s' \<and> (r = None \<longrightarrow> dw_history s' = dw_history s2)"
  proof (cases "b \<and> \<not> dw_rollback s2 \<and> dw_decision s2 \<noteq> ''denied''")
    case True
    with run show ?thesis by (auto simp: if_requested_def chain_run part_ok_def went_through_def)
  next
    case False
    with run obtain reason where "give_up tm ?i reason (w2, s2) = (Inr r, (w', s'))"
      by (auto simp: if_requested_def chain_run split: if_splits)
    from give_up_ok [OF this, of "[]" "[]"] show ?thesis by auto
  qed
  with part_ok_then [OF w] h True show ?thesis by auto
qed


section \<open>The rollout\<close>

lemma health_round_ok:
  assumes "health_round tm pl baseline interval (w, s) = (Inr r, (w', s'))"
  shows "part_ok [] [] (pl_id pl) s r s'"
proof -
  obtain x w1 s1 where a: "await tm (Did_Sleep interval) (ret ()) (w, s) = (Inr x, (w1, s1))"
    and s1: "dw_history s1 = dw_history s @ [Did_Sleep interval]" "dw_stages s1 = dw_stages s"
    by (rule await_cases [of tm "Did_Sleep interval" "ret ()" w s]) (use assms in \<open>auto simp: health_round_def chain_run\<close>)
  let ?m = "collect_health_metrics (tm_env tm) (pl_id pl)"
  obtain d w2 s2 where b: "await tm Did_Health ?m (w1, s1) = (Inr d, (w2, s2))"
    and s2: "dw_history s2 = dw_history s1 @ [Did_Health]" "dw_stages s2 = dw_stages s1"
    by (rule await_cases [of tm Did_Health ?m w1 s1]) (use assms a in \<open>auto simp: health_round_def chain_run\<close>)
  let ?n = "lift_sum (\<lambda>_. check_rollback_criteria d baseline (pl_sigma pl) (pl_multiplier pl))"
  obtain c w3 s3 where cr: "await tm Did_Criteria ?n (w2, s2) = (Inr c, (w3, s3))"
    and s3: "dw_history s3 = dw_history s2 @ [Did_Criteria]" "dw_stages s3 = dw_stages s2"
    by (rule await_cases [of tm Did_Criteria ?n w2 s2]) (use assms a b in \<open>auto simp: health_round_def chain_run\<close>)
  have w: "went_through [] [] s s3" by (auto simp: went_through_def s1 s2 s3)
  show ?thesis
  proof (cases c)
    case None
    with assms a b cr w show ?thesis by (simp add: health_round_def chain_run part_ok_def)
  next
    case (Some reason)
    with assms a b cr have "give_up tm (pl_id pl) (reason_text reason) (w3, s3) = (Inr r, (w', s'))"
      by (simp add: health_round_def chain_run)
    from give_up_ok [OF this, of "[]" "[]"] part_ok_then [OF w] show ?thesis by auto
  qed
qed

lemma monitor_ok:
  assumes "monitor_health tm pl baseline step elapsed (w, s) = Some (Inr r, (w', s'))"
  shows "part_ok [] [] (pl_id pl) s r s'"
proof -
  define P where "P = (\<lambda>(tm :: 'a temporal) (pl :: deployment_plan) (baseline :: dict) (step :: rollout_step) (elapsed :: int) (ws :: 'a \<times> dwf)
    (y :: (exn + deploy_result option) \<times> ('a \<times> dwf)).
    \<forall>q v. y = (Inr q, v) \<longrightarrow> part_ok [] [] (pl_id pl) (snd ws) q (snd v))"
  have "P tm pl baseline step elapsed (w, s) (Inr r, (w', s'))"
  proof (rule monitor_health.raw_induct [of P, OF _ assms])
    fix go tm pl baseline step elapsed ws y
    assume IH: "\<And>tm pl baseline step elapsed ws y. go tm pl baseline step elapsed ws = Some y \<Longrightarrow> P tm pl baseline step elapsed ws y"
      and run: "(if rs_duration step \<le> elapsed then Some (Inr None, ws)
        else if dw_rollback (snd ws) then Some (give_up tm (pl_id pl) (requested_reason (snd ws)) ws)
        else (case health_round tm pl baseline (rs_interval step) ws of
                (Inr None, s') \<Rightarrow> go tm pl baseline step (elapsed + rs_interval step) s'
              | r \<Rightarrow> Some r)) = Some y"
    obtain w s where ws: "ws = (w, s)" by (cases ws)
    obtain h w1 s1 where r: "health_round tm pl baseline (rs_interval step) (w, s) = (h, (w1, s1))" by (metis prod.exhaust)
    show "P tm pl baseline step elapsed ws y"
      unfolding P_def
    proof (intro allI impI)
      fix q v
      assume y: "y = (Inr q, v)"
      obtain w' s' where v: "v = (w', s')" by (cases v)
      consider "q = None" "s' = s" | "give_up tm (pl_id pl) (requested_reason s) (w, s) = (Inr q, (w', s'))"
        | "h = Inr None" "go tm pl baseline step (elapsed + rs_interval step) (w1, s1) = Some y"
        | x where "h = Inr (Some x)" "q = Some x" "s' = s1"
        using run y r by (auto simp: ws v split: if_splits sum.splits option.splits)
      then have "part_ok [] [] (pl_id pl) s q s'"
      proof cases
        case 1
        then show ?thesis by (simp add: part_ok_def went_through_def)
      next
        case 2
        from give_up_ok [OF this, of "[]" "[]"] show ?thesis by auto
      next
        case 3
        from IH [OF 3(2)] y v have b: "part_ok [] [] (pl_id pl) s1 q s'" by (simp add: P_def)
        have "went_through [] [] s s1" using health_round_ok [OF r [unfolded 3(1)]] by (simp add: part_ok_def)
        from part_ok_then [OF this b] show ?thesis by simp
      next
        case 4
        with health_round_ok r show ?thesis by auto
      qed
      then show "part_ok [] [] (pl_id pl) (snd ws) q (snd v)" by (simp add: ws v)
    qed
  qed
  then show ?thesis by (simp add: P_def)
qed

lemma shift_ok:
  assumes "shift_traffic tm pl step (w, s) = (Inr r, (w', s'))"
  shows "part_ok [rs_traffic step] [] (pl_id pl) s r s'"
proof -
  let ?pct = "rs_traffic step" and ?env = "tm_env tm" and ?ev = "Stage_Changed (resolve_stage (rs_traffic step)) (rs_traffic step)"
  let ?call = "if ?pct \<le> 5 then deploy_canary ?env (pl_id pl) ?pct else set_traffic ?env (pl_id pl) ?pct"
  let ?s = "s\<lparr>dw_stage := Some (resolve_stage ?pct), dw_traffic := ?pct,
     dw_status := (if ?pct \<le> 5 then DeploymentStatus.CANARY else DeploymentStatus.ROLLING_OUT)\<rparr>"
  show ?thesis
  proof (cases "dw_rollback s")
    case True
    with assms have "give_up tm (pl_id pl) (requested_reason s) (w, s) = (Inr r, (w', s'))"
      by (simp add: shift_traffic_def Let_def if_requested_def)
    from give_up_ok [OF this, of "[rs_traffic step]" "[]"] show ?thesis by auto
  next
    case False
    note run = assms [unfolded shift_traffic_def Let_def if_requested_def]
    obtain x w1 s1 where a: "await tm (Did_Traffic ?pct) ?call (w, ?s) = (Inr x, (w1, s1))"
      and s1: "dw_history s1 = dw_history s @ [Did_Traffic ?pct]" "dw_stages s1 = dw_stages s"
      by (rule await_cases [of tm "Did_Traffic ?pct" ?call w ?s]) (use run False in \<open>auto simp: chain_run\<close>)
    obtain y w2 s2 where b: "await tm (Did_Announce ?ev) (publish_deployment_event ?env (pl_id pl) ?ev) (w1, s1) = (Inr y, (w2, s2))"
      and s2: "dw_history s2 = dw_history s1 @ [Did_Announce ?ev]" "dw_stages s2 = dw_stages s1"
      by (rule await_cases [of tm "Did_Announce ?ev" "publish_deployment_event ?env (pl_id pl) ?ev" w1 s1])
        (use run a False in \<open>auto simp: chain_run\<close>)
    from run a b False have "r = None" "s' = s2" by (auto simp: chain_run)
    with s1 s2 show ?thesis by (auto simp: part_ok_def went_through_def)
  qed
qed

lemma then_part_ok:
  assumes "then_part m n (w, s) = Some (Inr r, (w', s'))"
    and "\<And>r w' s'. m (w, s) = Some (Inr r, (w', s')) \<Longrightarrow> part_ok ts stg i s r s'"
    and "\<And>w1 s1 r w' s'. n (w1, s1) = Some (Inr r, (w', s')) \<Longrightarrow> part_ok us stg' i s1 r s'"
  shows "part_ok (ts @ us) (stg @ stg') i s r s'"
proof -
  from assms(1) consider w1 s1 where "m (w, s) = Some (Inr None, (w1, s1))" "n (w1, s1) = Some (Inr r, (w', s'))"
    | x where "m (w, s) = Some (Inr (Some x), (w', s'))" "r = Some x"
    by (auto simp: then_part_def split: option.splits prod.splits sum.splits)
  then show ?thesis
  proof cases
    case 1
    with assms(2) have "went_through ts stg s s1" by (fastforce simp: part_ok_def)
    with 1 assms(3) part_ok_then show ?thesis by blast
  next
    case 2
    with assms(2) part_ok_more show ?thesis by blast
  qed
qed

lemma run_step_ok:
  assumes "run_step tm pl baseline step (w, s) = Some (Inr r, (w', s'))"
  shows "part_ok [rs_traffic step] [resolve_stage (rs_traffic step)] (pl_id pl) s r s'"
proof -
  let ?stg = "[resolve_stage (rs_traffic step)]"
  have last: "part_ok [] ?stg (pl_id pl) s r s'"
    if "ends (chain (upd (\<lambda>s. s\<lparr>dw_stages := dw_stages s @ ?stg\<rparr>)) (\<lambda>_. ret None)) (w, s) = Some (Inr r, (w', s'))"
    for w :: 'a and s r w' s'
    using that by (auto simp: ends_def chain_run part_ok_def went_through_def)
  have rest: "part_ok ([] @ []) ([] @ ?stg) (pl_id pl) s r s'"
    if "then_part (monitor_health tm pl baseline step 0)
      (ends (chain (upd (\<lambda>s. s\<lparr>dw_stages := dw_stages s @ ?stg\<rparr>)) (\<lambda>_. ret None))) (w, s) = Some (Inr r, (w', s'))"
    for w s r w' s'
    using that by (rule then_part_ok) (erule monitor_ok, erule last)
  have "part_ok ([rs_traffic step] @ ([] @ [])) ([] @ ([] @ ?stg)) (pl_id pl) s r s'"
    using assms unfolding run_step_def by (rule then_part_ok) (simp add: ends_def shift_ok, erule rest)
  then show ?thesis by simp
qed

lemma rollout_ok:
  "rollout tm pl baseline steps (w, s) = Some (Inr r, (w', s')) \<Longrightarrow>
   part_ok (map rs_traffic steps) (map (resolve_stage \<circ> rs_traffic) steps) (pl_id pl) s r s'"
proof (induction steps arbitrary: w s r w' s')
  case Nil
  then show ?case by (simp add: ends_def part_ok_def went_through_def)
next
  case (Cons step steps)
  have "part_ok ([rs_traffic step] @ map rs_traffic steps)
      ([resolve_stage (rs_traffic step)] @ map (resolve_stage \<circ> rs_traffic) steps) (pl_id pl) s r s'"
    using Cons.prems unfolding rollout.simps by (rule then_part_ok) (erule run_step_ok, erule Cons.IH)
  then show ?case by (simp add: comp_def)
qed


lemma ends_next_part: "ends (next_part m n) = then_part (ends m) (ends n)"
  by (rule ext) (auto simp: ends_def next_part_def then_part_def chain_run split: prod.splits sum.splits option.splits)

lemma then_part_cases:
  assumes "then_part m n s = Some (Inr r, s')"
  obtains s1 where "m s = Some (Inr None, s1)" "n s1 = Some (Inr r, s')"
  | x where "m s = Some (Inr (Some x), s')" "r = Some x"
  using assms by (auto simp: then_part_def split: option.splits prod.splits sum.splits)

definition approval_acts :: "wf_params \<Rightarrow> act list" where
  "approval_acts p = (if needs_approval p then [Did_Approval] else [])"

lemma gates_ok:
  assumes "ends (next_part (staging_part tm (wp_plan p)) (next_part (smoke_part tm (wp_plan p)) (approval_part tm p))) (w, s) = Some (Inr r, (w', s'))"
  shows "part_ok [] [DeploymentStage.STAGING] (pl_id (wp_plan p)) s r s' \<and>
    (r = None \<longrightarrow> dw_history s' = dw_history s @ [Did_Staging, Did_Smoke] @ approval_acts p)"
proof -
  let ?i = "pl_id (wp_plan p)"
  have two: "part_ok ([] @ []) ([] @ []) ?i s r s' \<and> (r = None \<longrightarrow> dw_history s' = dw_history s @ [Did_Smoke] @ approval_acts p)"
    if run: "then_part (ends (smoke_part tm (wp_plan p))) (ends (approval_part tm p)) (w, s) = Some (Inr r, (w', s'))" for w s r w' s'
  proof
    show "part_ok ([] @ []) ([] @ []) ?i s r s'"
      using run by (rule then_part_ok) (use smoke_ok approval_ok in \<open>fastforce simp: ends_def\<close>)+
    show "r = None \<longrightarrow> dw_history s' = dw_history s @ [Did_Smoke] @ approval_acts p"
      using run
    proof (rule then_part_cases)
      fix v
      assume a: "ends (smoke_part tm (wp_plan p)) (w, s) = Some (Inr None, v)" and b: "ends (approval_part tm p) v = Some (Inr r, (w', s'))"
      obtain w1 s1 where v: "v = (w1, s1)" by (cases v)
      from a smoke_ok [of tm "wp_plan p" w s None w1 s1] b approval_ok [of tm p w1 s1 r w' s']
      show ?thesis by (simp add: ends_def v approval_acts_def)
    qed simp
  qed
  from assms have run: "then_part (ends (staging_part tm (wp_plan p))) (then_part (ends (smoke_part tm (wp_plan p))) (ends (approval_part tm p))) (w, s) = Some (Inr r, (w', s'))"
    by (simp add: ends_next_part)
  have "part_ok ([] @ ([] @ [])) ([DeploymentStage.STAGING] @ ([] @ [])) ?i s r s'"
    using run by (rule then_part_ok) (use staging_ok in \<open>fastforce simp: ends_def\<close>, use two in blast)
  moreover have "r = None \<longrightarrow> dw_history s' = dw_history s @ [Did_Staging, Did_Smoke] @ approval_acts p"
    using run
  proof (rule then_part_cases)
    fix v
    assume a: "ends (staging_part tm (wp_plan p)) (w, s) = Some (Inr None, v)"
      and b: "then_part (ends (smoke_part tm (wp_plan p))) (ends (approval_part tm p)) v = Some (Inr r, (w', s'))"
    obtain w1 s1 where v: "v = (w1, s1)" by (cases v)
    from a staging_ok [of tm "wp_plan p" w s None w1 s1] b two [of w1 s1 r w' s'] show ?thesis by (simp add: ends_def v)
  qed simp
  ultimately show ?thesis by simp
qed

definition completed_result :: "string \<Rightarrow> dwf \<Rightarrow> deploy_result" where
  "completed_result i s = \<lparr>dr_id = i, dr_status = DeploymentStatus.COMPLETED, dr_reason = None, dr_stages = dw_stages s\<rparr>"

lemma final_ok:
  assumes "final_part tm pl (w, s) = (Inr r, (w', s'))"
  shows "(r = Some (completed_result (pl_id pl) s') \<and> dw_stages s' = dw_stages s \<and>
      dw_history s' = dw_history s @ [Did_Accept, Did_Announce (Deployment_Completed (af_task (pl_artifact pl)))]) \<or>
    (\<exists>x. r = Some x \<and> rolled_back [] [] (pl_id pl) s x s')"
proof -
  let ?s = "s\<lparr>dw_status := DeploymentStatus.VERIFYING\<rparr>" and ?m = "run_acceptance_verification (tm_env tm) (pl_id pl)"
  obtain d w1 s1 where a: "await tm Did_Accept ?m (w, ?s) = (Inr d, (w1, s1))"
    and s1: "dw_history s1 = dw_history s @ [Did_Accept]" "dw_stages s1 = dw_stages s"
    by (rule await_cases [of tm Did_Accept ?m w ?s]) (use assms in \<open>auto simp: final_part_def chain_run\<close>)
  show ?thesis
  proof (cases "ok_flag d ''passed''")
    case False
    with assms a have g: "give_up tm (pl_id pl) (reason_text RollbackReason.VERIFICATION_FAILED) (w1, s1) = (Inr r, (w', s'))"
      by (simp add: final_part_def chain_run)
    have "went_through [] [] s s1" by (auto simp: went_through_def s1)
    with give_up_ok [OF g, of "[]" "[]"] part_ok_then show ?thesis by (fastforce simp: part_ok_def)
  next
    case True
    let ?s1 = "s1\<lparr>dw_status := DeploymentStatus.COMPLETED\<rparr>" and ?ev = "Deployment_Completed (af_task (pl_artifact pl))"
    let ?n = "publish_deployment_event (tm_env tm) (pl_id pl) ?ev"
    obtain x w2 s2 where b: "await tm (Did_Announce ?ev) ?n (w1, ?s1) = (Inr x, (w2, s2))"
      and s2: "dw_history s2 = dw_history s1 @ [Did_Announce ?ev]" "dw_stages s2 = dw_stages s1"
      by (rule await_cases [of tm "Did_Announce ?ev" ?n w1 ?s1]) (use assms a True in \<open>auto simp: final_part_def chain_run\<close>)
    from assms a b True have "r = Some (completed_result (pl_id pl) s2)" "s' = s2"
      by (auto simp: final_part_def chain_run completed_result_def)
    with s1 s2 show ?thesis by simp
  qed
qed

text \<open>
  C19: a deployment that returns is either complete or rolled back. Complete: it staged, smoke
  tested, asked for approval if that was needed, shifted the traffic through exactly the steps of
  the plan in order, completed all stages, verified acceptance, and never rolled back. Rolled
  back: the rollback came last and only once, it had shifted the traffic through a first part of
  the plan, and the stages it reports are a first part of the plan's.
\<close>

theorem deployment_outcome:
  assumes "deployment_workflow tm p (w, dw_init) = Some (Inr r, (w', s))"
  shows "\<exists>x. r = Some x \<and> dr_id x = pl_id (wp_plan p) \<and> dr_stages x = dw_stages s \<and>
    ((dr_status x = DeploymentStatus.COMPLETED \<and> dr_reason x = None \<and>
      dw_stages s = DeploymentStage.STAGING # map (resolve_stage \<circ> rs_traffic) (pl_steps (wp_plan p)) \<and>
      (\<exists>h. dw_history s = [Did_Staging, Did_Smoke] @ approval_acts p @ [Did_Baseline] @ h @
           [Did_Accept, Did_Announce (Deployment_Completed (af_task (pl_artifact (wp_plan p))))] \<and>
         clean h \<and> traffic_of h = map rs_traffic (pl_steps (wp_plan p))))
    \<or> (dr_status x = DeploymentStatus.ROLLED_BACK \<and>
      (\<exists>h reason ev. dr_reason x = Some reason \<and> dw_history s = h @ [Did_Rollback reason, Did_Announce ev] \<and> clean h \<and>
         prefix (traffic_of h) (map rs_traffic (pl_steps (wp_plan p))) \<and>
         prefix (dw_stages s) (DeploymentStage.STAGING # map (resolve_stage \<circ> rs_traffic) (pl_steps (wp_plan p))))))"
    (is "\<exists>x. r = Some x \<and> ?P x")
proof -
  let ?pl = "wp_plan p" and ?ts = "map rs_traffic (pl_steps (wp_plan p))"
  let ?i = "pl_id ?pl" and ?stg = "map (resolve_stage \<circ> rs_traffic) (pl_steps (wp_plan p))"
  have undone: "?P x" if "rolled_back ?ts (DeploymentStage.STAGING # ?stg) ?i dw_init x s" for x
    using that by (auto simp: rolled_back_def dw_init_def)
  have base: "part_ok ?ts ?stg ?i s1 q s2 \<and> (q = None \<longrightarrow> (\<exists>h. dw_history s2 = dw_history s1 @ [Did_Baseline] @ h \<and> clean h \<and> traffic_of h = ?ts))"
    if run: "rollout_part tm ?pl (w1, s1) = Some (Inr q, (w2, s2))" for w1 s1 q w2 s2
  proof -
    let ?m = "collect_baseline_metrics (tm_env tm)"
    obtain d w3 s3 where a: "await tm Did_Baseline ?m (w1, s1) = (Inr d, (w3, s3))"
      and s3: "dw_history s3 = dw_history s1 @ [Did_Baseline]" "dw_stages s3 = dw_stages s1"
      by (rule await_cases [of tm Did_Baseline ?m w1 s1]) (use run in \<open>auto simp: rollout_part_def\<close>)
    with run have ro: "part_ok ?ts ?stg ?i s3 q s2" by (auto simp: rollout_part_def dest: rollout_ok)
    have "went_through [] [] s1 s3" by (auto simp: went_through_def s3)
    from part_ok_then [OF this ro] ro s3 show ?thesis by (auto simp: part_ok_def went_through_def)
  qed
  from assms [unfolded deployment_workflow_def Let_def] show ?thesis
  proof (rule then_part_cases)
    fix x
    assume "ends (next_part (staging_part tm ?pl) (next_part (smoke_part tm ?pl) (approval_part tm p))) (w, dw_init) = Some (Inr (Some x), (w', s))"
      and r: "r = Some x"
    from gates_ok [OF this(1)] have "part_ok [] [DeploymentStage.STAGING] ?i dw_init (Some x) s" by simp
    from part_ok_more [OF this, of ?ts ?stg] undone r show ?thesis by (simp add: part_ok_def)
  next
    fix v
    assume a: "ends (next_part (staging_part tm ?pl) (next_part (smoke_part tm ?pl) (approval_part tm p))) (w, dw_init) = Some (Inr None, v)"
      and b: "then_part (rollout_part tm ?pl) (ends (final_part tm ?pl)) v = Some (Inr r, (w', s))"
    obtain w1 s1 where v: "v = (w1, s1)" by (cases v)
    from gates_ok [OF a [unfolded v]] have g: "went_through [] [DeploymentStage.STAGING] dw_init s1"
      and h1: "dw_history s1 = [Did_Staging, Did_Smoke] @ approval_acts p" by (simp_all add: part_ok_def dw_init_def)
    from b [unfolded v] show ?thesis
    proof (rule then_part_cases)
      fix x
      assume "rollout_part tm ?pl (w1, s1) = Some (Inr (Some x), (w', s))" and r: "r = Some x"
      with base have "part_ok ?ts ?stg ?i s1 (Some x) s" by blast
      from part_ok_then [OF g this] undone r show ?thesis by (simp add: part_ok_def)
    next
      fix u
      assume c: "rollout_part tm ?pl (w1, s1) = Some (Inr None, u)" and d: "ends (final_part tm ?pl) u = Some (Inr r, (w', s))"
      obtain w2 s2 where u: "u = (w2, s2)" by (cases u)
      from base [OF c [unfolded u]] obtain h where t: "went_through ?ts ?stg s1 s2"
        and h2: "dw_history s2 = dw_history s1 @ [Did_Baseline] @ h" "clean h" "traffic_of h = ?ts" by (auto simp: part_ok_def)
      have t2: "went_through ?ts (DeploymentStage.STAGING # ?stg) dw_init s2" using went_through_trans [OF g t] by simp
      from d have f: "final_part tm ?pl (w2, s2) = (Inr r, (w', s))" by (simp add: ends_def u)
      from final_ok [OF f] show ?thesis
      proof
        assume e: "r = Some (completed_result ?i s) \<and> dw_stages s = dw_stages s2 \<and>
          dw_history s = dw_history s2 @ [Did_Accept, Did_Announce (Deployment_Completed (af_task (pl_artifact ?pl)))]"
        have "dw_stages s2 = DeploymentStage.STAGING # ?stg" using t2 by (simp add: went_through_def dw_init_def)
        with e h1 h2 show ?thesis by (simp add: completed_result_def)
      next
        assume "\<exists>x. r = Some x \<and> rolled_back [] [] ?i s2 x s"
        then obtain x where r: "r = Some x" and "part_ok [] [] ?i s2 (Some x) s" by (auto simp: part_ok_def)
        from part_ok_then [OF t2 this(2)] undone r show ?thesis by (simp add: part_ok_def)
      qed
    qed
  qed
qed


section \<open>Termination\<close>

definition checks :: "dwf \<Rightarrow> nat" where
  "checks s = length (filter ((=) Did_Health) (dw_history s))"

text \<open>An operation that adds at most \<open>n\<close> health checks, however it ends.\<close>

definition adds :: "nat \<Rightarrow> ('w, 'a) wf \<Rightarrow> bool" where
  "adds n m \<longleftrightarrow> (\<forall>v. checks (snd (snd (m v))) \<le> checks (snd v) + n)"

named_theorems adds_intros

lemma adds_chain [adds_intros]:
  assumes "adds n m" and "\<And>x. adds k (f x)"
  shows "adds (n + k) (chain m f)"
  unfolding adds_def
proof
  fix v
  obtain r v1 where m: "m v = (r, v1)" by (cases "m v")
  have a: "checks (snd v1) \<le> checks (snd v) + n" using assms(1) [unfolded adds_def, rule_format, of v] m by simp
  show "checks (snd (snd (chain m f v))) \<le> checks (snd v) + (n + k)"
  proof (cases r)
    case (Inl e)
    with m a show ?thesis by (simp add: chain_run)
  next
    case (Inr x)
    have "checks (snd (snd (f x v1))) \<le> checks (snd v1) + k" using assms(2) unfolding adds_def by blast
    with m a Inr show ?thesis by (simp add: chain_run)
  qed
qed

lemma adds_await: "adds (if a = Did_Health then 1 else 0) (await tm a m)"
  by (auto simp: adds_def await_def checks_def Let_def split: prod.splits sum.splits)

lemma adds_await0 [adds_intros]: "a \<noteq> Did_Health \<Longrightarrow> adds 0 (await tm a m)"
  using adds_await [of a tm m] by simp

lemma adds_upd [adds_intros]: "(\<And>s. dw_history (f s) = dw_history s) \<Longrightarrow> adds 0 (upd f)"
  by (auto simp: adds_def upd_def checks_def)

lemma adds_pure [adds_intros]: "adds 0 (ret x)" "adds 0 (reads f)"
  by (simp_all add: adds_def)

lemma adds_if [adds_intros]: "adds n m1 \<Longrightarrow> adds n m2 \<Longrightarrow> adds n (if b then m1 else m2)"
  by simp

lemma adds_chain0: "adds 0 m \<Longrightarrow> (\<And>x. adds 0 (f x)) \<Longrightarrow> adds 0 (chain m f)"
  using adds_chain [of 0 m 0 f] by simp

lemma adds_rollback: "adds 0 (do_rollback tm i reason)"
  unfolding do_rollback_def by (intro adds_chain0 adds_intros) simp_all

lemma adds_give_up [adds_intros]: "adds 0 (give_up tm i reason)"
  unfolding give_up_def by (intro adds_chain0 adds_intros adds_rollback)

lemma adds_requested [adds_intros]: "adds n m \<Longrightarrow> adds n (if_requested tm i m)"
proof (unfold adds_def, intro allI)
  fix v :: "'a \<times> dwf"
  assume m: "\<forall>v. checks (snd (snd (m v))) \<le> checks (snd v) + n"
  have "checks (snd (snd (give_up tm i (requested_reason (snd v)) v))) \<le> checks (snd v)"
    using adds_give_up [of tm i "requested_reason (snd v)", unfolded adds_def, rule_format, of v] by simp
  then show "checks (snd (snd (if_requested tm i m v))) \<le> checks (snd v) + n"
    using m [rule_format, of v] by (cases v) (simp add: if_requested_def)
qed

lemma adds_next_part: "adds 0 m \<Longrightarrow> adds 0 n \<Longrightarrow> adds 0 (next_part m n)"
  unfolding next_part_def by (intro adds_chain0) (auto intro: adds_intros split: option.split)

lemma adds_wait: "adds 0 (wait_for_signal tm minutes)"
  by (auto simp: adds_def wait_for_signal_def checks_def Let_def split: prod.splits sum.splits)

lemma adds_gates: "adds 0 (staging_part tm pl)" "adds 0 (smoke_part tm pl)" "adds 0 (approval_part tm p)"
  "adds 0 (shift_traffic tm pl step)" "adds 0 (final_part tm pl)"
  unfolding staging_part_def smoke_part_def approval_part_def shift_traffic_def final_part_def Let_def
  by (intro adds_chain0 adds_intros adds_wait; simp)+

lemma adds_health: "adds 1 (health_round tm pl baseline interval)"
proof -
  have "adds (0 + (1 + 0)) (health_round tm pl baseline interval)"
    unfolding health_round_def
    using adds_await [of Did_Health tm "collect_health_metrics (tm_env tm) (pl_id pl)"]
    by (intro adds_chain adds_chain0 adds_await0) (auto intro: adds_intros split: option.split)
  then show ?thesis by simp
qed

text \<open>A run that ends, after at most \<open>n\<close> more health checks.\<close>

definition ends_within :: "nat \<Rightarrow> ('w, 'a) run \<Rightarrow> bool" where
  "ends_within n m \<longleftrightarrow> (\<forall>v. \<exists>y. m v = Some y \<and> checks (snd (snd y)) \<le> checks (snd v) + n)"

lemma ends_within_ends: "adds n m \<Longrightarrow> ends_within n (ends m)"
  by (simp add: ends_within_def ends_def adds_def)

lemma ends_within_then:
  assumes "ends_within n m" and "ends_within k c"
  shows "ends_within (n + k) (then_part m c)"
  unfolding ends_within_def
proof
  fix v
  obtain r v1 where m: "m v = Some (r, v1)" "checks (snd v1) \<le> checks (snd v) + n"
    using assms(1) unfolding ends_within_def by (metis prod.collapse)
  obtain q where c: "c v1 = Some q" "checks (snd (snd q)) \<le> checks (snd v1) + k" using assms(2) unfolding ends_within_def by blast
  show "\<exists>y. then_part m c v = Some y \<and> checks (snd (snd y)) \<le> checks (snd v) + (n + k)"
  proof (cases "r = Inr None")
    case True
    with m c show ?thesis by (intro exI [of _ q]) (simp add: then_part_def)
  next
    case False
    with m show ?thesis by (intro exI [of _ "(r, v1)"]) (simp add: then_part_def split: sum.splits option.splits)
  qed
qed

definition rounds_of :: "rollout_step \<Rightarrow> nat" where
  "rounds_of step = nat ((rs_duration step + rs_interval step - 1) div rs_interval step)"

lemma monitor_ends:
  assumes "0 < rs_interval step"
  shows "\<exists>y. monitor_health tm pl baseline step elapsed v = Some y \<and>
    checks (snd (snd y)) \<le> checks (snd v) + nat ((rs_duration step - elapsed + rs_interval step - 1) div rs_interval step)"
proof (induction "nat (rs_duration step - elapsed)" arbitrary: elapsed v rule: less_induct)
  case less
  let ?d = "rs_interval step" and ?k = "\<lambda>e. nat ((rs_duration step - e + rs_interval step - 1) div rs_interval step)"
  show ?case
  proof (cases "rs_duration step \<le> elapsed")
    case True
    then show ?thesis by (subst monitor_health.simps) simp
  next
    case False
    have k: "?k elapsed = Suc (?k (elapsed + ?d))"
    proof -
      have "rs_duration step - elapsed + ?d - 1 = (rs_duration step - (elapsed + ?d) + ?d - 1) + ?d" by simp
      then have "(rs_duration step - elapsed + ?d - 1) div ?d = (rs_duration step - (elapsed + ?d) + ?d - 1) div ?d + 1"
        by (simp only:) (rule div_add_self2, use assms in simp)
      moreover have "0 \<le> (rs_duration step - (elapsed + ?d) + ?d - 1) div ?d"
        using False assms by (simp add: pos_imp_zdiv_nonneg_iff)
      ultimately show ?thesis by simp
    qed
    obtain r1 v1 where h: "health_round tm pl baseline ?d v = (r1, v1)" by (cases "health_round tm pl baseline ?d v")
    have c1: "checks (snd v1) \<le> checks (snd v) + 1" using adds_health [of tm pl baseline ?d] h unfolding adds_def by (metis snd_conv)
    obtain r2 v2 where g: "give_up tm (pl_id pl) (requested_reason (snd v)) v = (r2, v2)"
      by (cases "give_up tm (pl_id pl) (requested_reason (snd v)) v")
    have c2: "checks (snd v2) \<le> checks (snd v)" using adds_give_up [of tm "pl_id pl" "requested_reason (snd v)"] g unfolding adds_def by (metis add_0_right snd_conv)
    have "nat (rs_duration step - (elapsed + ?d)) < nat (rs_duration step - elapsed)" using False assms by simp
    from less [OF this, of v1] obtain y3 where go: "monitor_health tm pl baseline step (elapsed + ?d) v1 = Some y3"
      "checks (snd (snd y3)) \<le> checks (snd v1) + ?k (elapsed + ?d)" by blast
    show ?thesis
      by (subst monitor_health.simps) (use False h g go c1 c2 k in \<open>auto split: sum.splits option.splits simp del: split_paired_Ex\<close>)
  qed
qed

lemma run_step_ends: "0 < rs_interval step \<Longrightarrow> ends_within (rounds_of step) (run_step tm pl baseline step)"
proof -
  assume i: "0 < rs_interval step"
  have "ends_within (rounds_of step) (monitor_health tm pl baseline step 0)"
    using monitor_ends [OF i, of tm pl baseline 0] by (simp add: ends_within_def rounds_of_def)
  then have "ends_within (0 + (rounds_of step + 0)) (run_step tm pl baseline step)"
    unfolding run_step_def by (intro ends_within_then ends_within_ends adds_gates adds_chain0 adds_intros) simp_all
  then show ?thesis by simp
qed

lemma rollout_ends: "list_all (\<lambda>st. 0 < rs_interval st) steps \<Longrightarrow> ends_within (sum_list (map rounds_of steps)) (rollout tm pl baseline steps)"
proof (induction steps)
  case Nil
  then show ?case by (simp add: ends_within_ends adds_intros)
next
  case (Cons step steps)
  then show ?case using ends_within_then [OF run_step_ends [of step tm pl baseline] Cons.IH] by simp
qed

text \<open>
  C20: with positive check intervals a deployment always ends, whatever the services and Temporal
  do, after at most as many health checks as the steps of the plan ask for: the duration of a step
  divided by its interval, rounded up.
\<close>

theorem deployment_ends:
  assumes "list_all (\<lambda>st. 0 < rs_interval st) (pl_steps (wp_plan p))"
  shows "\<exists>r w' s. deployment_workflow tm p (w, dw_init) = Some (r, (w', s)) \<and>
    length (filter ((=) Did_Health) (dw_history s)) \<le> sum_list (map rounds_of (pl_steps (wp_plan p)))"
proof -
  let ?pl = "wp_plan p" and ?n = "sum_list (map rounds_of (pl_steps (wp_plan p)))"
  have "ends_within ?n (rollout_part tm ?pl)"
    unfolding ends_within_def
  proof
    fix v
    obtain r v1 where b: "await tm Did_Baseline (collect_baseline_metrics (tm_env tm)) v = (r, v1)"
      by (cases "await tm Did_Baseline (collect_baseline_metrics (tm_env tm)) v")
    have a: "adds 0 (await tm Did_Baseline (collect_baseline_metrics (tm_env tm)))" by (simp add: adds_await0)
    have c: "checks (snd v1) \<le> checks (snd v)"
      using a [unfolded adds_def, rule_format, of v] b by simp
    show "\<exists>y. rollout_part tm ?pl v = Some y \<and> checks (snd (snd y)) \<le> checks (snd v) + ?n"
    proof (cases r)
      case (Inl e)
      with b c show ?thesis by (auto simp: rollout_part_def)
    next
      case (Inr d)
      from rollout_ends [OF assms, of tm ?pl d] obtain q where
        "rollout tm ?pl d (pl_steps ?pl) v1 = Some q" "checks (snd (snd q)) \<le> checks (snd v1) + ?n"
        unfolding ends_within_def by blast
      with b c Inr show ?thesis by (auto simp: rollout_part_def)
    qed
  qed
  then have "ends_within (0 + (?n + 0)) (deployment_workflow tm p)"
    unfolding deployment_workflow_def Let_def by (intro ends_within_then ends_within_ends adds_gates adds_next_part)
  then obtain y where "deployment_workflow tm p (w, dw_init) = Some y" "checks (snd (snd y)) \<le> checks dw_init + ?n"
    unfolding ends_within_def by fastforce
  then show ?thesis by (cases y) (auto simp: checks_def dw_init_def)
qed


section \<open>Unchecked results\<close>

text \<open>
  The sandbox service takes the staging container but fails every traffic and metrics request, the
  evaluation engine approves, and Temporal neither signals nor fails.
\<close>

definition traffic_down :: "'w dep_env \<Rightarrow> bool" where
  "traffic_down env \<longleftrightarrow> (\<forall>c w. (case c of Post_Traffic _ _ \<Rightarrow> True | Put_Traffic _ _ \<Rightarrow> True | Get_Metrics _ \<Rightarrow> True | Get_Baseline \<Rightarrow> True | _ \<Rightarrow> False) \<longrightarrow>
     (\<exists>e w'. dp_http env c w = (Inl e, w')))"

definition gates_open :: "'w dep_env \<Rightarrow> bool" where
  "gates_open env \<longleftrightarrow>
     (\<forall>a i w. \<exists>j w'. dp_http env (Create_Staging a i) w = (Inr j, w')) \<and>
     (\<forall>i w. \<exists>w'. dp_http env (Smoke_Tests i) w = (Inr (JObj [(''passed'', JBool True)]), w')) \<and>
     (\<forall>i w. \<exists>w'. dp_http env (Acceptance i) w = (Inr (JObj [(''passed'', JBool True)]), w')) \<and>
     (\<forall>ty p w. \<exists>w'. dp_publish env ty p w = (Inr (), w'))"

definition undisturbed :: "'w temporal \<Rightarrow> bool" where
  "undisturbed tm \<longleftrightarrow> (\<forall>w. \<exists>w'. tm_between tm w = (Inr [], w'))"

text \<open>Without a rollback request, an operation returns something in \<open>P\<close> and none appears.\<close>

definition goes :: "('w, 'a) wf \<Rightarrow> ('a \<Rightarrow> bool) \<Rightarrow> bool" where
  "goes m P \<longleftrightarrow> (\<forall>w s. \<not> dw_rollback s \<longrightarrow> (\<exists>x w' s'. m (w, s) = (Inr x, (w', s')) \<and> \<not> dw_rollback s' \<and> P x))"

lemma goesD: "goes m P \<Longrightarrow> \<not> dw_rollback s \<Longrightarrow> \<exists>x w' s'. m (w, s) = (Inr x, (w', s')) \<and> \<not> dw_rollback s' \<and> P x"
  by (simp add: goes_def)

lemma goesI: "(\<And>w s. \<not> dw_rollback s \<Longrightarrow> \<exists>x w' s'. m (w, s) = (Inr x, (w', s')) \<and> \<not> dw_rollback s' \<and> P x) \<Longrightarrow> goes m P"
  by (simp add: goes_def)

lemma goes_chain:
  assumes "goes m P" and "\<And>x. P x \<Longrightarrow> goes (f x) Q"
  shows "goes (chain m f) Q"
proof (rule goesI)
  fix w s
  assume "\<not> dw_rollback (s :: dwf)"
  from goesD [OF assms(1) this] obtain x w1 s1 where m: "m (w, s) = (Inr x, (w1, s1))" "\<not> dw_rollback s1" "P x" by blast
  from goesD [OF assms(2) [OF m(3)] m(2)] m(1)
  show "\<exists>y w' s'. chain m f (w, s) = (Inr y, (w', s')) \<and> \<not> dw_rollback s' \<and> Q y" by (simp add: chain_run)
qed

lemma goes_await:
  assumes "undisturbed tm" and "\<And>w. \<exists>x w'. m w = (Inr x, w') \<and> P x"
  shows "goes (await tm a m) P"
proof (rule goesI)
  fix w s
  assume no: "\<not> dw_rollback (s :: dwf)"
  obtain x w1 where m: "m w = (Inr x, w1)" "P x" using assms(2) by blast
  obtain w2 where "tm_between tm w1 = (Inr [], w2)" using assms(1) unfolding undisturbed_def by blast
  with m no show "\<exists>x w' s'. await tm a m (w, s) = (Inr x, (w', s')) \<and> \<not> dw_rollback s' \<and> P x"
    by (simp add: await_def Let_def)
qed

lemma goes_upd: "(\<And>s. dw_rollback (f s) = dw_rollback s) \<Longrightarrow> goes (upd f) (\<lambda>_. True)"
  by (simp add: goes_def)

lemma goes_ret: "P x \<Longrightarrow> goes (ret x) P"
  by (simp add: goes_def)

lemma goes_reads: "(\<And>w s. P (f (w, s))) \<Longrightarrow> goes (reads f) P"
  by (simp add: goes_def)

lemma goes_requested: "goes m P \<Longrightarrow> goes (if_requested tm i m) P"
  by (simp add: goes_def if_requested_def)

lemma staging_succeeds:
  assumes "gates_open env"
  shows "\<exists>d w'. deploy_to_staging env i a w = (Inr d, w') \<and> ok_flag d ''success''"
proof -
  obtain j w1 where h: "dp_http env (Create_Staging a i) w = (Inr j, w1)" using assms unfolding gates_open_def by blast
  obtain w2 where "dp_publish env EventType.DEPLOYMENT_STARTED (started_payload i a) w1 = (Inr (), w2)"
    using assms unfolding gates_open_def by blast
  with h show ?thesis by (simp add: deploy_to_staging_def attempt_run chain_run ok_flag_def get_or_def)
qed

lemma smoke_succeeds:
  assumes "gates_open env"
  shows "\<exists>d w'. run_smoke_tests env i w = (Inr d, w') \<and> ok_flag d ''passed''"
proof -
  obtain w1 where "dp_http env (Smoke_Tests i) w = (Inr (JObj [(''passed'', JBool True)]), w1)" using assms unfolding gates_open_def by blast
  then show ?thesis
    by (simp add: run_smoke_tests_def smoke_defaults_def body_fields_def body_get_def attempt_run chain_run ok_flag_def get_or_def)
qed

lemma acceptance_succeeds:
  assumes "gates_open env"
  shows "\<exists>d w'. run_acceptance_verification env i w = (Inr d, w') \<and> ok_flag d ''passed''"
proof -
  obtain w1 where "dp_http env (Acceptance i) w = (Inr (JObj [(''passed'', JBool True)]), w1)" using assms unfolding gates_open_def by blast
  then show ?thesis
    by (simp add: run_acceptance_verification_def body_fields_def body_get_def attempt_run chain_run ok_flag_def get_or_def)
qed

lemma announce_goes: "undisturbed tm \<Longrightarrow> goes (await tm a (publish_deployment_event env i ev)) (\<lambda>_. True)"
  by (rule goes_await) (simp_all add: activities_return)

lemma staging_goes:
  assumes "undisturbed tm" and "gates_open (tm_env tm)"
  shows "goes (staging_part tm pl) (\<lambda>r. r = None)"
  unfolding staging_part_def
proof (rule goes_chain [OF goes_upd])
  show "goes (chain (await tm Did_Staging (deploy_to_staging (tm_env tm) (pl_id pl) (pl_artifact pl))) (\<lambda>d.
     if \<not> ok_flag d ''success'' then give_up tm (pl_id pl) (reason_text RollbackReason.SMOKE_TEST_FAILED)
     else chain (upd (\<lambda>s. s\<lparr>dw_stages := dw_stages s @ [DeploymentStage.STAGING]\<rparr>)) (\<lambda>_. ret None))) (\<lambda>r. r = None)"
    by (rule goes_chain [OF goes_await [OF assms(1) staging_succeeds [OF assms(2)]]])
      (auto intro!: goes_chain [OF goes_upd] goes_ret)
qed simp

lemma smoke_goes:
  assumes "undisturbed tm" and "gates_open (tm_env tm)"
  shows "goes (smoke_part tm pl) (\<lambda>r. r = None)"
  unfolding smoke_part_def
proof (rule goes_chain [OF goes_upd])
  show "goes (chain (await tm Did_Smoke (run_smoke_tests (tm_env tm) (pl_id pl))) (\<lambda>d.
     if \<not> ok_flag d ''passed'' then give_up tm (pl_id pl) (reason_text RollbackReason.SMOKE_TEST_FAILED) else ret None)) (\<lambda>r. r = None)"
    by (rule goes_chain [OF goes_await [OF assms(1) smoke_succeeds [OF assms(2)]]]) (auto intro!: goes_ret)
qed simp

lemma final_goes:
  assumes "undisturbed tm" and "gates_open (tm_env tm)"
  shows "goes (final_part tm pl) (\<lambda>r. \<exists>x. r = Some x \<and> dr_status x = DeploymentStatus.COMPLETED)"
  unfolding final_part_def
proof (rule goes_chain [OF goes_upd])
  let ?ev = "Deployment_Completed (af_task (pl_artifact pl))"
  show "goes (chain (await tm Did_Accept (run_acceptance_verification (tm_env tm) (pl_id pl))) (\<lambda>d.
     if \<not> ok_flag d ''passed'' then give_up tm (pl_id pl) (reason_text RollbackReason.VERIFICATION_FAILED)
     else chain (upd (\<lambda>s. s\<lparr>dw_status := DeploymentStatus.COMPLETED\<rparr>)) (\<lambda>_.
       chain (await tm (Did_Announce ?ev) (publish_deployment_event (tm_env tm) (pl_id pl) ?ev)) (\<lambda>_.
       reads (\<lambda>(w, s). Some \<lparr>dr_id = pl_id pl, dr_status = DeploymentStatus.COMPLETED, dr_reason = None, dr_stages = dw_stages s\<rparr>)))))
     (\<lambda>r. \<exists>x. r = Some x \<and> dr_status x = DeploymentStatus.COMPLETED)"
    by (rule goes_chain [OF goes_await [OF assms(1) acceptance_succeeds [OF assms(2)]]])
      (auto intro!: goes_chain [OF goes_upd] goes_chain [OF announce_goes [OF assms(1)]] goes_reads)
qed simp

lemma shift_goes:
  assumes "undisturbed tm"
  shows "goes (shift_traffic tm pl step) (\<lambda>r. r = None)"
  unfolding shift_traffic_def Let_def
  by (rule goes_requested, rule goes_chain [OF goes_upd], simp, rule goes_chain [OF goes_await [OF assms, where P = "\<lambda>_. True"]])
    (simp_all add: activities_return goes_chain [OF announce_goes [OF assms]] goes_ret)

lemma blind_check:
  assumes "0 \<le> sigma" and "0 \<le> multiplier"
  shows "check_rollback_criteria (health_defaults @ [(''timestamp'', t)]) baseline_defaults sigma multiplier = Inr None"
proof -
  have "\<not> (1 / 100 + sigma * (5 / 1000) < 0)" and "\<not> (100 * multiplier < 0)" using assms by simp_all
  then show ?thesis
    by (simp add: check_rollback_criteria_def num_of_def get_or_def health_defaults_def baseline_defaults_def)
qed

lemma health_goes:
  assumes "undisturbed tm" and "traffic_down (tm_env tm)" and "0 \<le> pl_sigma pl" and "0 \<le> pl_multiplier pl"
  shows "goes (health_round tm pl baseline_defaults interval) (\<lambda>r. r = None)"
proof -
  have h: "\<exists>x w'. collect_health_metrics (tm_env tm) (pl_id pl) w = (Inr x, w') \<and> (\<exists>t. x = health_defaults @ [(''timestamp'', t)])" for w
  proof -
    obtain e w' where "dp_http (tm_env tm) (Get_Metrics (pl_id pl)) w = (Inl e, w')"
      using assms(2) unfolding traffic_down_def by fastforce
    then show ?thesis by (simp add: collect_health_metrics_def attempt_run chain_run)
  qed
  show ?thesis
    unfolding health_round_def
  proof (rule goes_chain [OF goes_await [where P = "\<lambda>_. True"]])
    show "goes (chain (await tm Did_Health (collect_health_metrics (tm_env tm) (pl_id pl))) (\<lambda>health.
        chain (await tm Did_Criteria (lift_sum (\<lambda>_. check_rollback_criteria health baseline_defaults (pl_sigma pl) (pl_multiplier pl)))) (\<lambda>check.
        case check of None \<Rightarrow> ret None | Some reason \<Rightarrow> give_up tm (pl_id pl) (reason_text reason)))) (\<lambda>r. r = None)"
    proof (rule goes_chain [OF goes_await [OF assms(1) h]])
      fix d
      assume d: "\<exists>t. d = health_defaults @ [(''timestamp'', t)]"
      show "goes (chain (await tm Did_Criteria (lift_sum (\<lambda>_. check_rollback_criteria d baseline_defaults (pl_sigma pl) (pl_multiplier pl)))) (\<lambda>check.
        case check of None \<Rightarrow> ret None | Some reason \<Rightarrow> give_up tm (pl_id pl) (reason_text reason))) (\<lambda>r. r = None)"
        by (rule goes_chain [OF goes_await [OF assms(1), where P = "\<lambda>c. c = None"]])
          (use d blind_check [OF assms(3,4)] in \<open>auto intro: goes_ret\<close>)
    qed
  qed (simp_all add: assms(1))
qed

definition goes_on :: "('w, 'a) run \<Rightarrow> ('a \<Rightarrow> bool) \<Rightarrow> bool" where
  "goes_on m P \<longleftrightarrow> (\<forall>w (s :: dwf). \<not> dw_rollback s \<longrightarrow> (\<exists>x w' s'. m (w, s) = Some (Inr x, (w', s')) \<and> \<not> dw_rollback s' \<and> P x))"

lemma goes_onD: "goes_on m P \<Longrightarrow> \<not> dw_rollback s \<Longrightarrow> \<exists>x w' s'. m (w, s) = Some (Inr x, (w', s')) \<and> \<not> dw_rollback s' \<and> P x"
  by (simp add: goes_on_def)

lemma no_rollback_init [simp]: "\<not> dw_rollback dw_init"
  by (simp add: dw_init_def)

lemma goes_on_ends: "goes m P \<Longrightarrow> goes_on (ends m) P"
  by (simp add: goes_on_def goes_def ends_def)

lemma goes_on_then: "goes_on m (\<lambda>r. r = None) \<Longrightarrow> goes_on n P \<Longrightarrow> goes_on (then_part m n) P"
  unfolding goes_on_def
proof (intro allI impI)
  fix w and s :: dwf
  assume m: "\<forall>w s. \<not> dw_rollback s \<longrightarrow> (\<exists>x w' s'. m (w, s) = Some (Inr x, (w', s')) \<and> \<not> dw_rollback s' \<and> x = None)"
    and n: "\<forall>w s. \<not> dw_rollback s \<longrightarrow> (\<exists>x w' s'. n (w, s) = Some (Inr x, (w', s')) \<and> \<not> dw_rollback s' \<and> P x)"
    and no: "\<not> dw_rollback s"
  obtain w1 s1 where "m (w, s) = Some (Inr None, (w1, s1))" "\<not> dw_rollback s1" using m [rule_format, OF no, of w] by blast
  with n [rule_format, of s1 w1] show "\<exists>x w' s'. then_part m n (w, s) = Some (Inr x, (w', s')) \<and> \<not> dw_rollback s' \<and> P x"
    by (simp add: then_part_def)
qed

lemma monitor_goes:
  assumes "undisturbed tm" and "traffic_down (tm_env tm)" and "0 \<le> pl_sigma pl" and "0 \<le> pl_multiplier pl" and "0 < rs_interval step"
  shows "goes_on (monitor_health tm pl baseline_defaults step elapsed) (\<lambda>r. r = None)"
proof (induction "nat (rs_duration step - elapsed)" arbitrary: elapsed rule: less_induct)
  case less
  show ?case
    unfolding goes_on_def
  proof (intro allI impI)
    fix w and s :: dwf
    assume no: "\<not> dw_rollback s"
    show "\<exists>x w' s'. monitor_health tm pl baseline_defaults step elapsed (w, s) = Some (Inr x, (w', s')) \<and> \<not> dw_rollback s' \<and> x = None"
    proof (cases "rs_duration step \<le> elapsed")
      case True
      with no show ?thesis by (subst monitor_health.simps) simp
    next
      case False
      obtain w1 s1 where h: "health_round tm pl baseline_defaults (rs_interval step) (w, s) = (Inr None, (w1, s1))" "\<not> dw_rollback s1"
        using health_goes [OF assms(1-4), of "rs_interval step"] no unfolding goes_def by blast
      have "nat (rs_duration step - (elapsed + rs_interval step)) < nat (rs_duration step - elapsed)" using False assms(5) by simp
      from less [OF this] h(2) no False h(1) show ?thesis
        by (subst monitor_health.simps) (auto simp: goes_on_def)
    qed
  qed
qed

lemma run_step_goes:
  assumes "undisturbed tm" and "traffic_down (tm_env tm)" and "0 \<le> pl_sigma pl" and "0 \<le> pl_multiplier pl" and "0 < rs_interval step"
  shows "goes_on (run_step tm pl baseline_defaults step) (\<lambda>r. r = None)"
  unfolding run_step_def
  by (intro goes_on_then goes_on_ends shift_goes monitor_goes assms goes_chain [OF goes_upd] goes_ret) simp_all

lemma rollout_goes:
  assumes "undisturbed tm" and "traffic_down (tm_env tm)" and "0 \<le> pl_sigma pl" and "0 \<le> pl_multiplier pl"
  shows "list_all (\<lambda>st. 0 < rs_interval st) steps \<Longrightarrow> goes_on (rollout tm pl baseline_defaults steps) (\<lambda>r. r = None)"
  by (induction steps) (simp_all add: goes_on_ends goes_ret goes_on_then run_step_goes assms)

lemma workflow_goes:
  assumes "traffic_down (tm_env tm)" and "gates_open (tm_env tm)" and "undisturbed tm" and "\<not> needs_approval p"
    and "0 \<le> pl_sigma (wp_plan p)" and "0 \<le> pl_multiplier (wp_plan p)" and "list_all (\<lambda>st. 0 < rs_interval st) (pl_steps (wp_plan p))"
  shows "goes_on (deployment_workflow tm p) (\<lambda>r. \<exists>x. r = Some x \<and> dr_status x = DeploymentStatus.COMPLETED)"
proof -
  let ?pl = "wp_plan p"
  have b: "\<exists>w'. collect_baseline_metrics (tm_env tm) v = (Inr baseline_defaults, w')" for v
  proof -
    obtain e w' where "dp_http (tm_env tm) Get_Baseline v = (Inl e, w')" using assms(1) unfolding traffic_down_def by fastforce
    then show ?thesis by (simp add: collect_baseline_metrics_def attempt_run chain_run)
  qed
  have "goes_on (rollout_part tm ?pl) (\<lambda>r. r = None)"
    unfolding goes_on_def
  proof (intro allI impI)
    fix w and s :: dwf
    assume no: "\<not> dw_rollback s"
    have "goes (await tm Did_Baseline (collect_baseline_metrics (tm_env tm))) (\<lambda>d. d = baseline_defaults)"
      by (rule goes_await [OF assms(3)]) (use b in blast)
    with no obtain w1 s1 where "await tm Did_Baseline (collect_baseline_metrics (tm_env tm)) (w, s) = (Inr baseline_defaults, (w1, s1))" "\<not> dw_rollback s1"
      unfolding goes_def by blast
    with rollout_goes [OF assms(3,1,5,6,7)]
    show "\<exists>x w' s'. rollout_part tm ?pl (w, s) = Some (Inr x, (w', s')) \<and> \<not> dw_rollback s' \<and> x = None"
      by (auto simp: rollout_part_def goes_on_def)
  qed
  moreover have "goes (approval_part tm p) (\<lambda>r. r = None)"
    by (simp add: approval_part_def Let_def assms(4) goes_ret)
  ultimately show "goes_on (deployment_workflow tm p) (\<lambda>r. \<exists>x. r = Some x \<and> dr_status x = DeploymentStatus.COMPLETED)"
    unfolding deployment_workflow_def Let_def ends_next_part
    by (intro goes_on_then goes_on_ends staging_goes smoke_goes final_goes assms)
qed

text \<open>
  The results of the traffic activities are not looked at, and a failure to read metrics
  counts as perfect health. When every request for traffic, metrics and baseline fails, a
  deployment that needs no approval and passes its two test runs still ends as completed.
\<close>

theorem unreachable_sandbox_completes:
  assumes "traffic_down (tm_env tm)" and "gates_open (tm_env tm)" and "undisturbed tm" and "\<not> needs_approval p"
    and "0 \<le> pl_sigma (wp_plan p)" and "0 \<le> pl_multiplier (wp_plan p)" and "list_all (\<lambda>st. 0 < rs_interval st) (pl_steps (wp_plan p))"
  shows "\<exists>x w' s. deployment_workflow tm p (w, dw_init) = Some (Inr (Some x), (w', s)) \<and> dr_status x = DeploymentStatus.COMPLETED"
  using goes_onD [OF workflow_goes [OF assms] no_rollback_init, of w] by auto

section \<open>A concrete deployment\<close>

text \<open>Services without a state: the sandbox answers only the staging request. One rollout step with two checks.\<close>

definition demo_dep_env :: "unit dep_env" where
  "demo_dep_env = \<lparr>dp_http = (\<lambda>c. case c of
       Create_Staging _ _ \<Rightarrow> ret (JObj [])
     | Smoke_Tests _ \<Rightarrow> ret (JObj [(''passed'', JBool True)])
     | Acceptance _ \<Rightarrow> ret (JObj [(''passed'', JBool True)])
     | _ \<Rightarrow> raise (ExternalError ''down'')),
     dp_publish = (\<lambda>_ _. ret ()), dp_now = (\<lambda>_. ''now''), dp_show = (\<lambda>_. ''down'')\<rparr>"

definition demo_temporal :: "unit temporal" where
  "demo_temporal = \<lparr>tm_env = demo_dep_env, tm_between = ret [], tm_wait = (\<lambda>_. ret [])\<rparr>"

definition demo_params :: wf_params where
  "demo_params = \<lparr>wp_plan = \<lparr>pl_id = ''d'', pl_artifact = \<lparr>af_task = ''t'', af_ref = ''r'', af_summary = []\<rparr>,
       pl_steps = [\<lparr>rs_traffic = 100, rs_duration = 20, rs_interval = 10\<rparr>], pl_sigma = 2, pl_multiplier = 2\<rparr>,
     wp_confidence = 1, wp_first_human = False, wp_threshold = 95 / 100, wp_timeout = 60\<rparr>"

lemma demo_env_ok: "traffic_down (tm_env demo_temporal)" "gates_open (tm_env demo_temporal)" "undisturbed demo_temporal"
  "\<not> needs_approval demo_params" "list_all (\<lambda>st. 0 < rs_interval st) (pl_steps (wp_plan demo_params))"
  by (auto simp: traffic_down_def gates_open_def undisturbed_def needs_approval_def demo_temporal_def demo_dep_env_def demo_params_def
    split: http_call.splits)

theorem unreachable_sandbox_completes_witness:
  "\<exists>x w' s. deployment_workflow demo_temporal demo_params ((), dw_init) = Some (Inr (Some x), (w', s)) \<and>
     dr_status x = DeploymentStatus.COMPLETED"
  by (rule unreachable_sandbox_completes) (use demo_env_ok in \<open>simp_all add: demo_params_def\<close>)

theorem deployment_ends_witness:
  "\<exists>r w' s. deployment_workflow demo_temporal demo_params ((), dw_init) = Some (r, (w', s)) \<and>
     length (filter ((=) Did_Health) (dw_history s)) \<le> 2"
proof -
  have "sum_list (map rounds_of (pl_steps (wp_plan demo_params))) = 2" by (simp add: demo_params_def rounds_of_def)
  with deployment_ends [OF demo_env_ok(5), of demo_temporal "()"] show ?thesis by simp
qed

lemma demo_completes:
  obtains x w' s where "deployment_workflow demo_temporal demo_params ((), dw_init) = Some (Inr (Some x), (w', s))"
    "dr_status x = DeploymentStatus.COMPLETED"
proof -
  have "goes_on (deployment_workflow demo_temporal demo_params) (\<lambda>r. \<exists>x. r = Some x \<and> dr_status x = DeploymentStatus.COMPLETED)"
    by (rule workflow_goes) (use demo_env_ok in \<open>simp_all add: demo_params_def\<close>)
  from goes_onD [OF this no_rollback_init, of "()"] show ?thesis using that by auto
qed

theorem deployment_outcome_witness:
  "\<exists>w' s x. deployment_workflow demo_temporal demo_params ((), dw_init) = Some (Inr (Some x), (w', s)) \<and>
     dr_stages x = [DeploymentStage.STAGING, DeploymentStage.ROLLOUT_100] \<and> traffic_of (dw_history s) = [100]"
proof -
  obtain x w' s where r: "deployment_workflow demo_temporal demo_params ((), dw_init) = Some (Inr (Some x), (w', s))"
    and c: "dr_status x = DeploymentStatus.COMPLETED" by (rule demo_completes)
  from deployment_outcome [OF r] c
  have "dr_stages x = [DeploymentStage.STAGING, DeploymentStage.ROLLOUT_100] \<and> traffic_of (dw_history s) = [100]"
    by (auto simp: demo_params_def resolve_stage_def approval_acts_def needs_approval_def)
  with r show ?thesis by blast
qed

end
