(* ===== verification/Deployment_Manager.thy ===== *)
theory Deployment_Manager
  imports Deployment_Properties
begin

text \<open>
  The pipeline manager, the handler of finished evaluations and the routes of the Deployment
  Pipeline (\<^verbatim>\<open>pipeline_manager.py\<close>, \<^verbatim>\<open>event_handlers.py\<close>, \<^verbatim>\<open>api/routes.py\<close>). The Temporal client
  is a record of operations on the world; without one the manager only registers deployments.
  Of a deployment state the fields are kept that some code writes; a status is text, because
  cancelling writes one that is no \<^verbatim>\<open>DeploymentStatus\<close>. Times are microseconds.
\<close>

section \<open>Configuration and state\<close>

record deploy_config =
  dc_canary_pct :: int
  dc_duration :: int
  dc_interval :: int
  dc_sigma :: rat
  dc_multiplier :: rat
  dc_threshold :: rat
  dc_first_human :: bool
  dc_timeout :: int

definition default_deploy_config :: deploy_config where
  "default_deploy_config = \<lparr>dc_canary_pct = 5, dc_duration = 300, dc_interval = 30, dc_sigma = 2, dc_multiplier = 2,
     dc_threshold = 95 / 100, dc_first_human = True, dc_timeout = 60\<rparr>"

definition mk_deploy_config :: "deploy_config \<Rightarrow> exn + deploy_config" where
  "mk_deploy_config c =
     (if 1 \<le> dc_canary_pct c \<and> dc_canary_pct c \<le> 100 \<and> 10 \<le> dc_duration c \<and> 5 \<le> dc_interval c \<and> 0 < dc_sigma c \<and>
         1 < dc_multiplier c \<and> 0 \<le> dc_threshold c \<and> dc_threshold c \<le> 1 \<and> 1 \<le> dc_timeout c
      then Inr c else invalid)"

record deployment_state =
  ds_id :: string
  ds_status :: string
  ds_stage :: "string option"
  ds_traffic :: int
  ds_started :: int
  ds_artifact :: "artifact option"
  ds_confidence :: rat

record 'w temporal_client =
  tc_start :: "string \<Rightarrow> wf_params \<Rightarrow> (exn, 'w, unit) op"
  tc_query :: "string \<Rightarrow> (exn, 'w, json) op"
  tc_cancel :: "string \<Rightarrow> (exn, 'w, unit) op"
  tc_signal :: "string \<Rightarrow> string \<Rightarrow> (exn, 'w, unit) op"

record 'w manager_env =
  me_config :: deploy_config
  me_client :: "'w temporal_client option"
  me_new_id :: "(exn, 'w, string) op"
  me_now :: "(exn, 'w, int) op"
  me_parse_time :: "string \<Rightarrow> int"

record 'w manager =
  mg_deployments :: "(string \<times> deployment_state) list"
  mg_world :: 'w

definition new_manager :: "'w \<Rightarrow> 'w manager" where
  "new_manager w = \<lparr>mg_deployments = [], mg_world = w\<rparr>"

definition outside :: "(exn, 'w, 'a) op \<Rightarrow> (exn, 'w manager, 'a) op" where
  "outside m = zoom mg_world (\<lambda>w s. s\<lparr>mg_world := w\<rparr>) m"

definition cache_state :: "deployment_state \<Rightarrow> 'w manager \<Rightarrow> 'w manager" where
  "cache_state d s = s\<lparr>mg_deployments := AList.update (ds_id d) d (mg_deployments s)\<rparr>"

definition update_state :: "string \<Rightarrow> deployment_state \<Rightarrow> 'w manager \<Rightarrow> 'w manager" where
  "update_state i d s = s\<lparr>mg_deployments := AList.update i d (mg_deployments s)\<rparr>"

section \<open>Starting\<close>

definition rollout_steps :: "deploy_config \<Rightarrow> exn + rollout_step list" where
  "rollout_steps c = map_sum_list (\<lambda>pct. mk_rollout_step pct (dc_duration c) (dc_interval c)) [dc_canary_pct c, 25, 50, 100]"

definition build_plan :: "deploy_config \<Rightarrow> string \<Rightarrow> artifact \<Rightarrow> exn + deployment_plan" where
  "build_plan c i a = bind_sum (rollout_steps c) (\<lambda>steps.
     Inr \<lparr>pl_id = i, pl_artifact = a, pl_steps = steps, pl_sigma = dc_sigma c, pl_multiplier = dc_multiplier c\<rparr>)"

definition workflow_id :: "string \<Rightarrow> string" where
  "workflow_id i = ''deployment-'' @ i"

definition pending_state :: "string \<Rightarrow> int \<Rightarrow> artifact \<Rightarrow> rat \<Rightarrow> deployment_state" where
  "pending_state i t a confidence = \<lparr>ds_id = i, ds_status = deployment_status_value DeploymentStatus.PENDING, ds_stage = None, ds_traffic = 0,
     ds_started = t, ds_artifact = Some a, ds_confidence = confidence\<rparr>"

definition start_deployment :: "'w manager_env \<Rightarrow> artifact \<Rightarrow> rat \<Rightarrow> (exn, 'w manager, deployment_state) op" where
  "start_deployment env a confidence =
     chain (outside (me_new_id env)) (\<lambda>i.
     chain (lift_sum (\<lambda>_. build_plan (me_config env) i a)) (\<lambda>plan.
     chain (outside (me_now env)) (\<lambda>t.
     let d = pending_state i t a confidence
     in chain (writes (cache_state d)) (\<lambda>_.
        chain (case me_client env of
                 None \<Rightarrow> ret ()
               | Some cl \<Rightarrow> outside (tc_start cl (workflow_id i) \<lparr>wp_plan = plan, wp_confidence = confidence,
                   wp_first_human = dc_first_human (me_config env), wp_threshold = dc_threshold (me_config env),
                   wp_timeout = dc_timeout (me_config env)\<rparr>)) (\<lambda>_.
        ret d)))))"

section \<open>Queries, cancellation, rollback\<close>

definition baseline_schema :: schema where
  "baseline_schema = SModel (FCons ''error_rate_mean'' (SFloat (Some 0) None) None
     (FCons ''error_rate_stddev'' (SFloat (Some 0) None) None (FCons ''p95_latency_ms'' (SFloat (Some 0) None) None FNil)))"

definition health_metrics_schema :: "string \<Rightarrow> schema" where
  "health_metrics_schema now = SModel (FCons ''error_rate'' (SFloat (Some 0) None) None
     (FCons ''p50_latency_ms'' (SFloat (Some 0) None) None (FCons ''p95_latency_ms'' (SFloat (Some 0) None) None
     (FCons ''p99_latency_ms'' (SFloat (Some 0) None) None (FCons ''request_count'' (SInt (Some 0) None) None
     (FCons ''timestamp'' STime (Some (JStr now)) FNil))))))"

definition smoke_result_schema :: schema where
  "smoke_result_schema = SModel (FCons ''passed'' SBool None (FCons ''tests_run'' (SInt (Some 0) None) None
     (FCons ''tests_failed'' (SInt (Some 0) None) None (FCons ''failure_details'' (SList SStr) (Some (JArr []))
     (FCons ''duration_seconds'' (SFloat (Some 0) None) None FNil)))))"

definition artifact_schema :: schema where
  "artifact_schema = SModel (FCons ''task_id'' SStr None (FCons ''artifact_ref'' SStr None
     (FCons ''eval_report_summary'' SStr (Some (JStr [])) FNil)))"

definition deployment_state_schema :: "string \<Rightarrow> schema" where
  "deployment_state_schema now = SModel
     (FCons ''deployment_id'' SStr None
     (FCons ''status'' (SEnum (map deployment_status_value all_deployment_status)) (Some (JStr ''pending''))
     (FCons ''current_stage'' (SOpt (SEnum (map deployment_stage_value all_deployment_stage))) (Some JNull)
     (FCons ''current_traffic_pct'' (SInt None None) (Some (JInt 0))
     (FCons ''baseline'' (SOpt baseline_schema) (Some JNull)
     (FCons ''health_history'' (SList (health_metrics_schema now)) (Some (JArr []))
     (FCons ''smoke_test_result'' (SOpt smoke_result_schema) (Some JNull)
     (FCons ''approval_gate_id'' (SOpt SStr) (Some JNull)
     (FCons ''started_at'' STime (Some (JStr now))
     (FCons ''completed_at'' (SOpt STime) (Some JNull)
     (FCons ''rollback_reason'' (SOpt (SEnum (map rollback_reason_value all_rollback_reason))) (Some JNull)
     (FCons ''artifact'' (SOpt artifact_schema) (Some JNull)
     (FCons ''confidence'' (SFloat None None) (Some (JFloat 0)) FNil)))))))))))))"

definition load_state :: "(string \<Rightarrow> int) \<Rightarrow> string \<Rightarrow> json \<Rightarrow> exn + deployment_state" where
  "load_state parse_time now j =
     bind_sum (check (deployment_state_schema now) j) (\<lambda>v. case v of
       JObj d \<Rightarrow> Inr \<lparr>ds_id = str_field d ''deployment_id'', ds_status = str_field d ''status'',
         ds_stage = (case map_of d ''current_stage'' of Some (JStr s) \<Rightarrow> Some s | _ \<Rightarrow> None),
         ds_traffic = int_field d ''current_traffic_pct'', ds_started = parse_time (str_field d ''started_at''),
         ds_artifact = (case map_of d ''artifact'' of
            Some (JObj a) \<Rightarrow> Some \<lparr>af_task = str_field a ''task_id'', af_ref = str_field a ''artifact_ref'', af_summary = str_field a ''eval_report_summary''\<rparr>
          | _ \<Rightarrow> None),
         ds_confidence = float_field d ''confidence''\<rparr>
     | _ \<Rightarrow> invalid)"

text \<open>A state found by a query is cached under the id that was asked for.\<close>

definition get_deployment_status :: "'w manager_env \<Rightarrow> string \<Rightarrow> (exn, 'w manager, deployment_state option) op" where
  "get_deployment_status env i = (\<lambda>s. case map_of (mg_deployments s) i of
      Some d \<Rightarrow> (Inr (Some d), s)
    | None \<Rightarrow>
        (case me_client env of
           None \<Rightarrow> (Inr None, s)
         | Some cl \<Rightarrow>
             attempt
               (chain (outside (tc_query cl (workflow_id i))) (\<lambda>result. case result of
                  JObj _ \<Rightarrow> chain (lift_sum (\<lambda>_. load_state (me_parse_time env) [] result)) (\<lambda>d.
                            chain (writes (update_state i d)) (\<lambda>_. ret (Some d)))
                | _ \<Rightarrow> ret None))
               (\<lambda>_. ret None) s))"

definition list_deployments :: "string option \<Rightarrow> nat \<Rightarrow> nat \<Rightarrow> 'w manager \<Rightarrow> deployment_state list" where
  "list_deployments status_filter offset limit s =
     (let ds = map snd (mg_deployments s);
          picked = (case status_filter of Some f \<Rightarrow> if f \<noteq> [] then filter (\<lambda>d. ds_status d = f) ds else ds | None \<Rightarrow> ds)
      in page offset limit (sort_key (\<lambda>d. - ds_started d) picked))"

definition mark_cancelled :: "string \<Rightarrow> 'w manager \<Rightarrow> 'w manager" where
  "mark_cancelled i s = (case map_of (mg_deployments s) i of
      None \<Rightarrow> s
    | Some d \<Rightarrow> s\<lparr>mg_deployments := AList.update i (d\<lparr>ds_status := ''cancelled''\<rparr>) (mg_deployments s)\<rparr>)"

definition cancel_deployment :: "'w manager_env \<Rightarrow> string \<Rightarrow> (exn, 'w manager, bool) op" where
  "cancel_deployment env i = (case me_client env of
      None \<Rightarrow> ret False
    | Some cl \<Rightarrow>
        attempt (chain (outside (tc_cancel cl (workflow_id i))) (\<lambda>_.
                 chain (writes (mark_cancelled i)) (\<lambda>_. ret True)))
          (\<lambda>_. ret False))"

definition trigger_rollback :: "'w manager_env \<Rightarrow> string \<Rightarrow> string \<Rightarrow> (exn, 'w manager, bool) op" where
  "trigger_rollback env i reason = (case me_client env of
      None \<Rightarrow> ret False
    | Some cl \<Rightarrow> attempt (chain (outside (tc_signal cl (workflow_id i) reason)) (\<lambda>_. ret True)) (\<lambda>_. ret False))"

section \<open>Finished evaluations\<close>

definition to_float :: "json \<Rightarrow> exn + rat" where
  "to_float j = (case lax_float j of Some q \<Rightarrow> Inr q | None \<Rightarrow> Inl (ValueError ''float''))"

definition mk_artifact :: "json \<Rightarrow> json \<Rightarrow> json \<Rightarrow> exn + artifact" where
  "mk_artifact task ref summary = (case (task, ref, summary) of
      (JStr t, JStr r, JStr m) \<Rightarrow> Inr \<lparr>af_task = strip t, af_ref = strip r, af_summary = strip m\<rparr> | _ \<Rightarrow> invalid)"

definition handle_eval_completed :: "'w manager_env \<Rightarrow> (string \<times> json) list \<Rightarrow> (exn, 'w manager, unit) op" where
  "handle_eval_completed env payload =
     (let verdict = get_or (JStr []) payload ''verdict''; task = get_or (JStr []) payload ''task_id'';
          ref = get_or (JStr []) payload ''artifact_ref''; summary = get_or (JStr []) payload ''summary''
      in chain (lift_sum (\<lambda>_. to_float (get_or (JFloat 0) payload ''confidence''))) (\<lambda>confidence.
         if verdict \<noteq> JStr (eval_verdict_value EvalVerdict.PASS) \<or> \<not> truthy ref then ret ()
         else chain (lift_sum (\<lambda>_. mk_artifact task ref summary)) (\<lambda>a.
              chain (start_deployment env a confidence) (\<lambda>_. ret ()))))"

section \<open>Routes\<close>

definition start_route :: "'w manager_env \<Rightarrow> string \<Rightarrow> string \<Rightarrow> string \<Rightarrow> rat \<Rightarrow> (exn, 'w manager, (string \<times> string) reply) op" where
  "start_route env task ref summary confidence =
     (if confidence < 0 \<or> 1 < confidence then ret (Http_Error 422 ''confidence'')
      else chain (start_deployment env \<lparr>af_task = strip task, af_ref = strip ref, af_summary = strip summary\<rparr> confidence) (\<lambda>d.
           ret (Reply (ds_id d, ds_status d))))"

definition get_route :: "'w manager_env \<Rightarrow> string \<Rightarrow> (exn, 'w manager, deployment_state reply) op" where
  "get_route env i = chain (get_deployment_status env i) (\<lambda>r. case r of
      None \<Rightarrow> ret (Http_Error 404 (''Deployment '' @ i @ '' not found'')) | Some d \<Rightarrow> ret (Reply d))"

definition list_route :: "string option \<Rightarrow> int \<Rightarrow> int \<Rightarrow> 'w manager \<Rightarrow> deployment_state list reply" where
  "list_route status offset limit s =
     (if offset < 0 \<or> limit < 1 \<or> 100 < limit then Http_Error 422 ''query''
      else Reply (list_deployments status (nat offset) (nat limit) s))"

definition rollback_route :: "'w manager_env \<Rightarrow> string \<Rightarrow> string \<Rightarrow> (exn, 'w manager, string reply) op" where
  "rollback_route env i reason = chain (trigger_rollback env i reason) (\<lambda>ok.
     ret (if ok then Reply (''Rollback requested for '' @ i) else Http_Error 500 ''Failed to trigger rollback''))"

definition cancel_route :: "'w manager_env \<Rightarrow> string \<Rightarrow> (exn, 'w manager, string reply) op" where
  "cancel_route env i = chain (cancel_deployment env i) (\<lambda>ok.
     ret (if ok then Reply (''Cancellation requested for '' @ i) else Http_Error 500 ''Failed to cancel deployment''))"

section \<open>What the manager knows\<close>

datatype manager_call = Start artifact rat | Status string | Cancel string | Rollback string string | Evaluated "(string \<times> json) list"

definition manager_step :: "'w manager_env \<Rightarrow> manager_call \<Rightarrow> 'w manager \<Rightarrow> 'w manager" where
  "manager_step env c s = (case c of
      Start a q \<Rightarrow> snd (start_deployment env a q s)
    | Status i \<Rightarrow> snd (get_deployment_status env i s)
    | Cancel i \<Rightarrow> snd (cancel_deployment env i s)
    | Rollback i reason \<Rightarrow> snd (trigger_rollback env i reason s)
    | Evaluated p \<Rightarrow> snd (handle_eval_completed env p s))"

definition unstarted :: "deployment_state \<Rightarrow> bool" where
  "unstarted d \<longleftrightarrow> ds_status d \<in> {''pending'', ''cancelled''} \<and> ds_stage d = None \<and> ds_traffic d = 0"

definition all_unstarted :: "'w manager \<Rightarrow> bool" where
  "all_unstarted s \<longleftrightarrow> list_all (\<lambda>(i, d). unstarted d) (mg_deployments s)"

lemma load_workflow_state: "load_state pt now (workflow_state v) = Inl (ValidationError ''invalid value'')"
  by (simp add: load_state_def workflow_state_def deployment_state_schema_def)

lemma unstarted_update: "list_all (\<lambda>(i, d). unstarted d) xs \<Longrightarrow> unstarted d \<Longrightarrow> list_all (\<lambda>(i, d). unstarted d) (AList.update i d xs)"
  by (induction xs) auto

lemma keeps_outside: "keeps all_unstarted (outside m)"
  unfolding outside_def by (rule keeps_zoom) (simp add: all_unstarted_def)

lemma unstarted_pending: "unstarted (pending_state i t a q)"
  by (simp add: unstarted_def pending_state_def)

lemma keeps_start: "keeps all_unstarted (start_deployment env a q)"
  unfolding start_deployment_def Let_def
  by (intro keeps_intros keeps_outside keeps_writes)
    (auto simp: all_unstarted_def cache_state_def unstarted_update unstarted_pending intro: keeps_intros keeps_outside split: option.split)

lemma keeps_cancel: "keeps all_unstarted (cancel_deployment env i)"
proof -
  have "all_unstarted (mark_cancelled i s)" if "all_unstarted s" for s :: "'a manager"
  proof (cases "map_of (mg_deployments s) i")
    case (Some d)
    then have "(i, d) \<in> set (mg_deployments s)" by (rule map_of_SomeD)
    with that have "unstarted (d\<lparr>ds_status := ''cancelled''\<rparr>)" by (auto simp: all_unstarted_def list_all_iff unstarted_def)
    with that Some show ?thesis by (simp add: all_unstarted_def mark_cancelled_def unstarted_update)
  qed (use that in \<open>simp add: mark_cancelled_def\<close>)
  then show ?thesis unfolding cancel_deployment_def
    by (auto intro!: keeps_intros keeps_outside keeps_writes split: option.split)
qed

text \<open>A client whose queries answer as the workflow's query handler does.\<close>

definition answers :: "'w manager_env \<Rightarrow> bool" where
  "answers env \<longleftrightarrow> (case me_client env of None \<Rightarrow> True | Some cl \<Rightarrow>
     (\<forall>i w j w'. tc_query cl i w = (Inr j, w') \<longrightarrow> (\<exists>v. j = workflow_state v)))"

lemma status_unchanged:
  assumes "answers env"
  shows "mg_deployments (snd (get_deployment_status env i s)) = mg_deployments s \<and>
    fst (get_deployment_status env i s) = Inr (map_of (mg_deployments s) i)"
proof (cases "map_of (mg_deployments s) i")
  case None
  show ?thesis
  proof (cases "me_client env")
    case (Some cl)
    obtain x w' where q: "tc_query cl (workflow_id i) (mg_world s) = (x, w')" by (cases "tc_query cl (workflow_id i) (mg_world s)")
    show ?thesis
    proof (cases x)
      case (Inr j)
      with assms q obtain v where j: "j = workflow_state v" unfolding answers_def Some by (auto dest!: spec)
      obtain d where "workflow_state v = JObj d" by (simp add: workflow_state_def)
      with q Inr j None Some load_workflow_state [of "me_parse_time env" "[]" v] show ?thesis
        by (simp add: get_deployment_status_def attempt_run chain_run outside_def zoom_run)
    qed (use q None Some in \<open>simp add: get_deployment_status_def attempt_run chain_run outside_def zoom_run\<close>)
  qed (use None in \<open>simp add: get_deployment_status_def\<close>)
qed (simp add: get_deployment_status_def)

lemma step_unstarted:
  assumes "answers env" and "all_unstarted s"
  shows "all_unstarted (manager_step env c s)"
proof (cases c)
  case (Evaluated p)
  have "keeps all_unstarted (handle_eval_completed env p)"
    unfolding handle_eval_completed_def Let_def by (intro keeps_intros keeps_start)
  with assms(2) Evaluated show ?thesis by (simp add: manager_step_def keepsD)
next
  case (Status i)
  with assms status_unchanged [OF assms(1), of i s] show ?thesis by (simp add: manager_step_def all_unstarted_def)
next
  case (Rollback i reason)
  have "keeps all_unstarted (trigger_rollback env i reason)"
    unfolding trigger_rollback_def by (auto intro!: keeps_intros keeps_outside split: option.split)
  with assms(2) Rollback show ?thesis by (simp add: manager_step_def keepsD)
qed (use assms(2) in \<open>simp_all add: manager_step_def keepsD keeps_start keeps_cancel\<close>)

text \<open>
  The status the API shows never follows a deployment. Whatever calls are made, and however
  far the workflows get, every deployment the manager knows is shown as pending (or, once
  cancelled, with a status that is no deployment status), without a stage and without traffic;
  and asking for one it does not know finds nothing, because the answer of the workflow lacks the
  field the manager requires.
\<close>

theorem status_never_live:
  assumes "answers env" and "s = fold (manager_step env) calls (new_manager w)"
  shows "(fst (get_deployment_status env i s) = Inr (map_of (mg_deployments s) i)) \<and>
    (case map_of (mg_deployments s) i of None \<Rightarrow> True
     | Some d \<Rightarrow> ds_status d \<in> {''pending'', ''cancelled''} \<and> ds_stage d = None \<and> ds_traffic d = 0)"
proof -
  have "all_unstarted (fold (manager_step env) cs t)" if "all_unstarted t" for cs t
    using that by (induction cs arbitrary: t) (simp_all add: step_unstarted [OF assms(1)])
  from this [of "new_manager w" calls] have "all_unstarted s" by (simp add: assms(2) all_unstarted_def new_manager_def)
  then have "case map_of (mg_deployments s) i of None \<Rightarrow> True | Some d \<Rightarrow> unstarted d"
    by (auto simp: all_unstarted_def list_all_iff split: option.split dest: map_of_SomeD)
  with status_unchanged [OF assms(1), of i s] show ?thesis by (auto simp: unstarted_def split: option.splits)
qed

text \<open>Ids 0, 1, ... and a client that always works, for the witness.\<close>

definition demo_manager_env :: "nat manager_env" where
  "demo_manager_env = \<lparr>me_config = default_deploy_config,
     me_client = Some \<lparr>tc_start = (\<lambda>_ _. ret ()), tc_query = (\<lambda>_. ret (workflow_state (dw_init\<lparr>dw_traffic := 50\<rparr>))),
       tc_cancel = (\<lambda>_. ret ()), tc_signal = (\<lambda>_ _. ret ())\<rparr>,
     me_new_id = (\<lambda>n. (Inr (nat_str n), n + 1)), me_now = ret 0, me_parse_time = (\<lambda>_. 0)\<rparr>"

theorem status_never_live_witness:
  "fst (get_deployment_status demo_manager_env ''x'' (fold (manager_step demo_manager_env)
     [Start \<lparr>af_task = ''t'', af_ref = ''r'', af_summary = []\<rparr> 1, Cancel ''0'', Status ''x''] (new_manager 0))) = Inr None"
proof -
  have a: "answers demo_manager_env" by (auto simp: answers_def demo_manager_env_def)
  let ?two = "[Start \<lparr>af_task = ''t'', af_ref = ''r'', af_summary = []\<rparr> 1, Cancel ''0'']"
  let ?s = "fold (manager_step demo_manager_env) (?two @ [Status ''x'']) (new_manager 0)"
  have n: "nat_str 0 = ''0''" by code_simp
  have "mg_deployments ?s = mg_deployments (fold (manager_step demo_manager_env) ?two (new_manager 0))"
    using status_unchanged [OF a, of "''x''"] by (simp add: manager_step_def)
  also have "map_of \<dots> ''x'' = None"
    by (simp add: manager_step_def start_deployment_def cancel_deployment_def outside_def zoom_run chain_run
      demo_manager_env_def build_plan_def rollout_steps_def mk_rollout_step_def default_deploy_config_def Let_def cache_state_def
      pending_state_def new_manager_def attempt_run mark_cancelled_def n)
  finally have "map_of (mg_deployments ?s) ''x'' = None" .
  then show ?thesis using status_never_live [OF a refl, of "''x''" "?two @ [Status ''x'']" 0] by simp
qed

lemma list_deployments_sorted: "sorted (map (\<lambda>d. - ds_started d) (list_deployments f offset limit s))"
  unfolding list_deployments_def Let_def page_def
  by (simp add: take_map [symmetric] drop_map [symmetric] sorted_wrt_take sorted_wrt_drop)

text \<open>The traffic of the plan a valid configuration gives; it rises only if the canary share is at most a quarter.\<close>

lemma build_plan_ok:
  assumes "mk_deploy_config c = Inr c"
  shows "\<exists>pl. build_plan c i a = Inr pl \<and> map rs_traffic (pl_steps pl) = [dc_canary_pct c, 25, 50, 100] \<and>
    list_all (\<lambda>st. 0 < rs_interval st) (pl_steps pl) \<and> 0 \<le> pl_sigma pl \<and> 0 \<le> pl_multiplier pl \<and>
    (sorted (map rs_traffic (pl_steps pl)) \<longleftrightarrow> dc_canary_pct c \<le> 25)"
  using assms by (auto simp: mk_deploy_config_def build_plan_def rollout_steps_def mk_rollout_step_def split: if_splits)

end
