(* ===== verification/Sandbox_Session.thy ===== *)
theory Sandbox_Session
  imports Text Schema
begin

text \<open>
  The security checks of the Execution Sandbox (\<^verbatim>\<open>security.py\<close>): the allowlist and blocklist of
  commands, and the path and content checks of files. The patterns are those of the source,
  \<^verbatim>\<open>shlex.split\<close> is its state machine in POSIX mode, \<^verbatim>\<open>Path.resolve\<close> follows the
  symbolic links of the host the service runs on. Those links are a parameter; the number of
  nested links that can be followed is the interpreter's recursion bound, also a parameter.
\<close>

section \<open>Shell words\<close>

datatype shlex_state = Between | In_Word | In_Quote char | Escaped "char option"

text \<open>
  The state, whether the current token has a quoted part, and the token so far (reversed); a
  finished token starts the next one. \<open>Escaped\<close> remembers the quote around the escape.
\<close>

fun shlex_from :: "shlex_state \<Rightarrow> bool \<Rightarrow> string \<Rightarrow> string \<Rightarrow> string list option" where
  "shlex_from Between quoted tok [] = Some (if tok \<noteq> [] \<or> quoted then [rev tok] else [])"
| "shlex_from In_Word quoted tok [] = Some (if tok \<noteq> [] \<or> quoted then [rev tok] else [])"
| "shlex_from (In_Quote q) quoted tok [] = None"
| "shlex_from (Escaped q) quoted tok [] = None"
| "shlex_from Between quoted tok (c # s) =
     (if c \<in> set [CHR '' '', CHR 0x09, CHR 0x0D, CHR 0x0A] then shlex_from Between quoted tok s
      else if c = CHR 0x5C then shlex_from (Escaped None) quoted tok s
      else if c \<in> set [CHR 0x27, CHR 0x22] then shlex_from (In_Quote c) quoted tok s
      else shlex_from In_Word quoted [c] s)"
| "shlex_from In_Word quoted tok (c # s) =
     (if c \<in> set [CHR '' '', CHR 0x09, CHR 0x0D, CHR 0x0A]
      then (if tok \<noteq> [] \<or> quoted then map_option (Cons (rev tok)) (shlex_from Between False [] s)
            else shlex_from Between quoted tok s)
      else if c = CHR 0x5C then shlex_from (Escaped None) quoted tok s
      else if c \<in> set [CHR 0x27, CHR 0x22] then shlex_from (In_Quote c) quoted tok s
      else shlex_from In_Word quoted (c # tok) s)"
| "shlex_from (In_Quote q) quoted tok (c # s) =
     (if c = q then shlex_from In_Word True tok s
      else if c = CHR 0x5C \<and> q = CHR 0x22 then shlex_from (Escaped (Some q)) True tok s
      else shlex_from (In_Quote q) True (c # tok) s)"
| "shlex_from (Escaped None) quoted tok (c # s) = shlex_from In_Word quoted (c # tok) s"
| "shlex_from (Escaped (Some q)) quoted tok (c # s) =
     shlex_from (In_Quote q) quoted (if c \<noteq> CHR 0x5C \<and> c \<noteq> q then c # CHR 0x5C # tok else c # tok) s"

text \<open>\<^verbatim>\<open>None\<close> is the \<^verbatim>\<open>ValueError\<close> of an open quote or escape.\<close>

definition shlex_split :: "string \<Rightarrow> string list option" where
  "shlex_split s = shlex_from Between False [] s"

section \<open>Paths\<close>

text \<open>\<^verbatim>\<open>Path(s)\<close>: absolute or not, and the parts; empty parts and single dots vanish.\<close>

definition posix_parts :: "string \<Rightarrow> string list" where
  "posix_parts s = filter (\<lambda>c. c \<noteq> [] \<and> c \<noteq> ''.'') (split_on CHR ''/'' s)"

definition is_absolute :: "string \<Rightarrow> bool" where
  "is_absolute s \<longleftrightarrow> has_prefix s ''/''"

definition path_name :: "string \<Rightarrow> string" where
  "path_name s = (let ps = posix_parts s in if ps = [] then [] else last ps)"

record host_files =
  hf_link :: "string list \<Rightarrow> string option"   \<comment> \<open>\<^verbatim>\<open>readlink\<close> of a canonical absolute path\<close>
  hf_is_link :: "string list \<Rightarrow> bool"          \<comment> \<open>\<^verbatim>\<open>lstat\<close> of an absolute path\<close>
  hf_depth :: nat

text \<open>\<^verbatim>\<open>os.path.realpath\<close>: links are replaced by their targets, double dots drop a part.\<close>

fun realpath :: "(string list \<Rightarrow> string option) \<Rightarrow> nat \<Rightarrow> string list \<Rightarrow> string list \<Rightarrow> string list option" where
  "realpath link n base [] = Some base"
| "realpath link n base (c # cs) =
     (if c = ''..'' then realpath link n (butlast base) cs
      else (case link (base @ [c]) of
          None \<Rightarrow> realpath link n (base @ [c]) cs
        | Some target \<Rightarrow>
            (case n of
               0 \<Rightarrow> None
             | Suc m \<Rightarrow> (case realpath link m (if is_absolute target then [] else base) (posix_parts target) of
                  None \<Rightarrow> None | Some d \<Rightarrow> realpath link n d cs))))"

definition resolve :: "host_files \<Rightarrow> string list \<Rightarrow> exn + string list" where
  "resolve fs ps =
     (if list_ex (\<lambda>c. CHR 0x00 \<in> set c) ps then Inl (ValueError ''embedded null byte'')
      else (case realpath (hf_link fs) (hf_depth fs) [] ps of
          None \<Rightarrow> Inl (RuntimeError ''Symlink loop'') | Some p \<Rightarrow> Inr p))"

definition is_relative_to :: "string list \<Rightarrow> string list \<Rightarrow> bool" where
  "is_relative_to p parent \<longleftrightarrow> take (length parent) p = parent"

definition workspace_root :: "string list" where
  "workspace_root = [''workspace'']"

section \<open>Commands\<close>

definition allowed_binaries :: "string list" where
  "allowed_binaries = [''python3'', ''python'', ''pip'', ''pip3'', ''uv'', ''pytest'', ''git'', ''cat'', ''ls'', ''mkdir'',
     ''cp'', ''mv'', ''touch'', ''echo'', ''cd'', ''pwd'', ''find'', ''grep'', ''sed'', ''awk'', ''head'', ''tail'', ''wc'',
     ''sort'', ''uniq'', ''diff'', ''tee'', ''chmod'', ''tar'', ''curl'', ''wget'']"

abbreviation "alpha \<equiv> Cls False [Range (CHR ''a'') (CHR ''z''), Range (CHR ''A'') (CHR ''Z'')]"
abbreviation "gap \<equiv> some_of (Cls False [Space])"
abbreviation "blank \<equiv> many (Cls False [Space])"
abbreviation "anything \<equiv> many Dot"

text \<open>
  The patterns in the source's order, all matched without regard to case. The parentheses of
  the fork bomb pattern are not escaped in the source, so they are an empty group.
\<close>

definition blocked_commands :: "(rx \<times> string) list" where
  "blocked_commands =
    [(seqs [Word_Edge, lit ''rm'', gap, optional (Grp 1 (seqs [lit ''-'', many alpha])), lit ''r'', many alpha, lit ''f'', many alpha, gap, lit ''/'', blank, At_End], ''recursive force delete on root''),
    (seqs [Word_Edge, lit ''rm'', gap, optional (Grp 1 (seqs [lit ''-'', many alpha])), lit ''f'', many alpha, lit ''r'', many alpha, gap, lit ''/'', blank, At_End], ''recursive force delete on root''),
    (seqs [lit ''mkfs'', Word_Edge], ''filesystem formatting''),
    (seqs [lit ''dd'', gap, anything, lit ''of=/dev/''], ''direct disk write''),
    (seqs [lit '':'', Grp 1 Eps, lit ''{ :|:& };:''], ''fork bomb''),
    (seqs [Word_Edge, lit ''chmod'', gap, optional (Grp 1 (seqs [lit ''-'', many alpha])), blank, lit ''777'', gap, lit ''/''], ''world-writable root permissions''),
    (seqs [lit ''chmod'', gap, Grp 1 (alts [lit ''777'', seqs [lit ''a+'', Cls False [Chr (CHR ''r''), Chr (CHR ''w''), Chr (CHR ''x'')]], seqs [lit ''o+'', Cls False [Chr (CHR ''r''), Chr (CHR ''w''), Chr (CHR ''x'')]]])], ''dangerous permission grant''),
    (seqs [Word_Edge, lit ''chown'', gap, anything, gap, lit ''/''], ''ownership change on root paths''),
    (seqs [lit ''chown'', gap, some_of (Cls True [Space]), gap, Grp 1 (seqs [lit ''/'', alts [lit ''etc'', lit ''usr'', lit ''bin'', lit ''sbin'', lit ''lib'']])], ''chown on system directory''),
    (seqs [Word_Edge, lit ''mount'', Word_Edge], ''filesystem mount''),
    (seqs [Word_Edge, lit ''umount'', Word_Edge], ''filesystem unmount''),
    (seqs [Word_Edge, lit ''iptables'', Word_Edge], ''firewall manipulation''),
    (seqs [Word_Edge, lit ''nftables'', Word_Edge], ''firewall manipulation''),
    (seqs [Word_Edge, lit ''sysctl'', Word_Edge], ''kernel parameter modification''),
    (seqs [Word_Edge, lit ''nsenter'', Word_Edge], ''namespace escape''),
    (seqs [Word_Edge, lit ''unshare'', Word_Edge], ''namespace creation''),
    (seqs [Word_Edge, lit ''kexec'', Word_Edge], ''kernel replacement''),
    (seqs [Word_Edge, lit ''insmod'', Word_Edge], ''kernel module loading''),
    (seqs [Word_Edge, lit ''modprobe'', Word_Edge], ''kernel module loading''),
    (seqs [lit ''>'', blank, lit ''/dev/sd'', Cls False [Range (CHR ''a'') (CHR ''z'')]], ''direct block device write''),
    (seqs [lit ''>'', blank, lit ''/proc/''], ''procfs write''),
    (seqs [lit ''>'', blank, lit ''/sys/''], ''sysfs write''),
    (seqs [Word_Edge, lit ''curl'', Word_Edge, anything, lit ''|'', blank, optional (lit ''ba''), lit ''sh''], ''pipe remote script to shell''),
    (seqs [Word_Edge, lit ''wget'', Word_Edge, anything, lit ''|'', blank, optional (lit ''ba''), lit ''sh''], ''pipe remote script to shell''),
    (seqs [lit ''/usr/bin/curl'', Word_Edge, anything, lit ''|'', blank, optional (lit ''ba''), lit ''sh''], ''pipe remote script to shell''),
    (seqs [lit ''/usr/bin/wget'', Word_Edge, anything, lit ''|'', blank, optional (lit ''ba''), lit ''sh''], ''pipe remote script to shell''),
    (seqs [lit ''mknod'', Word_Edge], ''device file creation''),
    (seqs [lit ''find'', gap, anything, lit ''-exec'', Word_Edge], ''find with exec chain''),
    (seqs [lit ''find'', gap, anything, lit ''-execdir'', Word_Edge], ''find with execdir chain''),
    (seqs [Word_Edge, lit ''eval'', gap], ''shell eval''),
    (seqs [Word_Edge, lit ''exec'', gap], ''exec builtin''),
    (seqs [lit ''LD_PRELOAD'', blank, lit ''=''], ''shared library injection''),
    (seqs [lit ''/dev/shm'', Word_Edge], ''shared memory access''),
    (seqs [lit ''base64'', gap, lit ''-d''], ''base64 decode (potential code execution)''),
    (seqs [lit ''base64'', gap, lit ''--decode''], ''base64 decode (potential code execution)''),
    (lit ''/proc/self'', ''process self-manipulation''),
    (seqs [lit ''/bin/rm'', Word_Edge], ''rm via full path''),
    (seqs [lit ''/usr/bin/rm'', Word_Edge], ''rm via full path''),
    (seqs [lit ''/usr/bin/curl'', Word_Edge, anything, lit ''|'', blank, optional (lit ''ba''), lit ''sh''], ''curl pipe to shell via full path''),
    (seqs [lit ''/usr/bin/wget'', Word_Edge, anything, lit ''|'', blank, optional (lit ''ba''), lit ''sh''], ''wget pipe to shell via full path''),
    (lit ''/sbin/mkfs'', ''mkfs via full path''),
    (seqs [lit ''/sbin/iptables'', Word_Edge], ''iptables via full path''),
    (seqs [lit ''/usr/sbin/iptables'', Word_Edge], ''iptables via full path''),
    (seqs [lit ''/sbin/modprobe'', Word_Edge], ''modprobe via full path''),
    (seqs [lit ''/sbin/insmod'', Word_Edge], ''insmod via full path''),
    (seqs [lit ''/sbin/sysctl'', Word_Edge], ''sysctl via full path''),
    (seqs [lit ''/usr/sbin/sysctl'', Word_Edge], ''sysctl via full path''),
    (seqs [lit ''/usr/sbin/nsenter'', Word_Edge], ''nsenter via full path'')]"

text \<open>\<^verbatim>\<open>validate_command\<close>: the reason of a rejection, or \<open>None\<close>.\<close>

definition first_blocked :: "string \<Rightarrow> string option" where
  "first_blocked s = map_option (\<lambda>p. ''blocked: '' @ snd p) (find (\<lambda>p. rx_found True (fst p) s) blocked_commands)"

definition validate_command :: "string \<Rightarrow> string option" where
  "validate_command command =
     (let stripped = strip command
      in if stripped = [] then Some ''empty command''
         else (case shlex_split stripped of
             None \<Rightarrow> Some ''malformed command (unable to parse)''
           | Some [] \<Rightarrow> Some ''empty command after parsing''
           | Some (w # _) \<Rightarrow>
               if path_name w \<notin> set allowed_binaries then Some (''binary not in allowlist: '' @ path_name w)
               else first_blocked stripped))"

section \<open>Files\<close>

text \<open>\<open>Inl\<close> is the reason of a rejection, \<open>Inr\<close> the resolved path; the outer \<open>Inl\<close> an exception.\<close>

definition resolve_sandbox_path :: "host_files \<Rightarrow> string \<Rightarrow> exn + (string + string list)" where
  "resolve_sandbox_path fs raw =
     (let absolute = is_absolute raw; ps = if absolute then posix_parts raw else workspace_root @ posix_parts raw
      in (case resolve fs ps of
          Inl (ValueError m) \<Rightarrow> Inr (Inl (''cannot resolve path '' @ raw @ '': '' @ m))
        | Inl e \<Rightarrow> Inl e
        | Inr p \<Rightarrow>
            if is_relative_to p workspace_root then Inr (Inr p)
            else if absolute then Inr (Inl (''file path escapes workspace: '' @ raw))
            else Inr (Inl (''path traversal detected: '' @ raw))))"

definition check_symlink_escape :: "host_files \<Rightarrow> string \<Rightarrow> exn + string option" where
  "check_symlink_escape fs raw =
     (let ps = if is_absolute raw then posix_parts raw else workspace_root @ posix_parts raw
      in if \<not> hf_is_link fs ps then Inr None
         else (case resolve fs ps of
             Inl (ValueError _) \<Rightarrow> Inr None
           | Inl e \<Rightarrow> Inl e
           | Inr p \<Rightarrow> if is_relative_to p workspace_root then Inr None
               else Inr (Some (''symlink escape detected: '' @ raw @ '' -> /'' @ join_with ''/'' p))))"

definition suspicious_file_patterns :: "(bool \<times> rx \<times> string) list" where
  "suspicious_file_patterns =
    [(False, seqs [lit ''A'', alts [lit ''KIA'', lit ''SIA''], Rep True 16 (Some 16) (Cls False [Range (CHR ''A'') (CHR ''Z''), Range (CHR ''0'') (CHR ''9'')])], ''potential AWS access key''),
    (False, seqs [lit ''gh'', Cls False [Chr (CHR ''p''), Chr (CHR ''o''), Chr (CHR ''u''), Chr (CHR ''s''), Chr (CHR ''r'')], lit ''_'', Rep True 36 (Some 36) (Cls False [Range (CHR ''A'') (CHR ''Z''), Range (CHR ''a'') (CHR ''z''), Range (CHR ''0'') (CHR ''9''), Chr (CHR ''_'')])], ''potential GitHub token''),
    (False, seqs [lit ''sk-'', Rep True 20 None (Cls False [Range (CHR ''A'') (CHR ''Z''), Range (CHR ''a'') (CHR ''z''), Range (CHR ''0'') (CHR ''9'')])], ''potential API secret key''),
    (False, seqs [lit ''-----BEGIN '', optional (alts [lit ''RSA '', lit ''EC '', lit ''DSA '']), lit ''PRIVATE KEY-----''], ''private key material''),
    (True, seqs [lit ''password'', blank, Cls False [Chr (CHR '':''), Chr (CHR ''='')], blank, Cls False [Chr (CHR 0x27), Chr (CHR 0x22)], Rep True 8 None (Cls True [Chr (CHR 0x27), Chr (CHR 0x22)]), Cls False [Chr (CHR 0x27), Chr (CHR 0x22)]], ''hardcoded password'')]"

definition suspicious :: "string \<Rightarrow> string \<Rightarrow> string option" where
  "suspicious path content = map_option (\<lambda>p. snd (snd p) @ '' in '' @ path)
     (find (\<lambda>p. rx_found (fst p) (fst (snd p)) content) suspicious_file_patterns)"

fun validate_files :: "host_files \<Rightarrow> (string \<times> string) list \<Rightarrow> exn + string option" where
  "validate_files fs [] = Inr None"
| "validate_files fs ((path, content) # files) =
     bind_sum (resolve_sandbox_path fs path) (\<lambda>r. case r of
       Inl reason \<Rightarrow> Inr (Some reason)
     | Inr _ \<Rightarrow> bind_sum (check_symlink_escape fs path) (\<lambda>e. case e of
         Some reason \<Rightarrow> Inr (Some reason)
       | None \<Rightarrow> (case suspicious path content of
           Some reason \<Rightarrow> Inr (Some reason)
         | None \<Rightarrow> validate_files fs files)))"

text \<open>
  The data of the Execution Sandbox (\<^verbatim>\<open>models.py\<close>), the translation of a specification into a
  Docker configuration and the reading of container statistics (\<^verbatim>\<open>resource_limits.py\<close>), and
  what both executors share: the table of sessions and the audit log. The executors keep a
  dictionary of sessions next to the world \<open>'w\<close> of containers, virtual machines and database.
\<close>

section \<open>Specifications\<close>

record resource_limits =
  rl_cpu :: int
  rl_memory :: int
  rl_disk :: int
  rl_timeout :: int

definition default_limits :: resource_limits where
  "default_limits = \<lparr>rl_cpu = 2, rl_memory = 4096, rl_disk = 10240, rl_timeout = 900\<rparr>"

definition mk_limits :: "resource_limits \<Rightarrow> exn + resource_limits" where
  "mk_limits l =
     (if 1 \<le> rl_cpu l \<and> rl_cpu l \<le> 8 \<and> 256 \<le> rl_memory l \<and> rl_memory l \<le> 16384 \<and>
         512 \<le> rl_disk l \<and> rl_disk l \<le> 51200 \<and> 30 \<le> rl_timeout l \<and> rl_timeout l \<le> 7200
      then Inr l else invalid)"

record network_policy =
  np_allow_egress :: bool
  np_allowed_hosts :: "string list"
  np_blocked_hosts :: "string list"

definition default_network :: network_policy where
  "default_network = \<lparr>np_allow_egress = False, np_allowed_hosts = [''pypi.org'', ''files.pythonhosted.org'',
     ''registry.npmjs.org'', ''crates.io'', ''static.crates.io'', ''repo.maven.apache.org'', ''rubygems.org''],
     np_blocked_hosts = []\<rparr>"

record sandbox_spec =
  sp_task :: string
  sp_agent :: string
  sp_image :: string
  sp_limits :: resource_limits
  sp_network :: network_policy
  sp_env :: "(string \<times> string) list"
  sp_mounts :: "string list"

text \<open>\<^verbatim>\<open>SandboxSpec(task_id=..., agent_id=..., base_image=...)\<close>, with the defaults.\<close>

definition plain_spec :: "string \<Rightarrow> string \<Rightarrow> string \<Rightarrow> sandbox_spec" where
  "plain_spec task agent base = \<lparr>sp_task = strip task, sp_agent = strip agent, sp_image = strip base,
     sp_limits = default_limits, sp_network = default_network, sp_env = [], sp_mounts = []\<rparr>"

section \<open>Environment and container configuration\<close>

definition blocked_env_vars :: "string list" where
  "blocked_env_vars = [''LD_PRELOAD'', ''LD_LIBRARY_PATH'', ''PYTHONPATH'', ''PYTHONSTARTUP'', ''PATH'', ''HOME'', ''SHELL'',
     ''PYTHONHOME'', ''ENV'', ''BASH_ENV'']"

definition env_var_name_rx :: rx where
  "env_var_name_rx = seqs [At_Start,
     Cls False [Range (CHR ''A'') (CHR ''Z''), Range (CHR ''a'') (CHR ''z''), Chr (CHR ''_'')],
     many (Cls False [Range (CHR ''A'') (CHR ''Z''), Range (CHR ''a'') (CHR ''z''), Range (CHR ''0'') (CHR ''9''), Chr (CHR ''_'')]),
     At_End]"

definition upper :: "string \<Rightarrow> string" where
  "upper s = map (\<lambda>c. if 97 \<le> (of_char c :: nat) \<and> (of_char c :: nat) \<le> 122 then swap_case c else c) s"

fun validate_environment_vars :: "(string \<times> string) list \<Rightarrow> exn + unit" where
  "validate_environment_vars [] = Inr ()"
| "validate_environment_vars ((key, _) # env) =
     (if \<not> rx_match False env_var_name_rx key
      then Inl (SandboxSecurityError (''Invalid environment variable name: '' @ key))
      else if upper key \<in> set blocked_env_vars
      then Inl (SandboxSecurityError (''Blocked environment variable: '' @ key))
      else validate_environment_vars env)"

record container_config =
  cc_image :: string
  cc_nano_cpus :: int
  cc_mem_limit :: string
  cc_memswap_limit :: string
  cc_pids_limit :: nat
  cc_blkio_weight :: nat
  cc_network_mode :: string
  cc_read_only :: bool
  cc_tmpfs :: "(string \<times> string) list"
  cc_cap_drop :: "string list"
  cc_cap_add :: "string list"
  cc_security_opt :: "string list"
  cc_user :: string
  cc_working_dir :: string
  cc_environment :: "(string \<times> string) list"
  cc_stdin_open :: bool
  cc_tty :: bool
  cc_detach :: bool
  cc_labels :: "(string \<times> string) list"
  cc_command :: "string list"

definition create_container_config :: "sandbox_spec \<Rightarrow> exn + container_config" where
  "create_container_config spec =
     (let limits = sp_limits spec; mem = int_str (rl_memory limits) @ ''m'';
          disk = ''size='' @ int_str (rl_disk limits) @ ''m,mode=1777''
      in bind_sum (validate_environment_vars (sp_env spec)) (\<lambda>_. Inr
        \<lparr>cc_image = sp_image spec, cc_nano_cpus = rl_cpu limits * 1000000000, cc_mem_limit = mem, cc_memswap_limit = mem,
         cc_pids_limit = 256, cc_blkio_weight = 100,
         cc_network_mode = (if \<not> np_allow_egress (sp_network spec) then ''none'' else ''bridge''),
         cc_read_only = True, cc_tmpfs = [(''/tmp'', disk), (''/workspace'', disk)],
         cc_cap_drop = [''ALL''], cc_cap_add = [''CHOWN'', ''DAC_OVERRIDE'', ''FOWNER'', ''SETGID'', ''SETUID''],
         cc_security_opt = [''no-new-privileges'', ''seccomp=/etc/docker/seccomp/sandbox-profile.json''],
         cc_user = ''1000:1000'', cc_working_dir = ''/workspace'',
         cc_environment = fold (\<lambda>(k, v). AList.update k v) (sp_env spec)
           [(''SANDBOX_TASK_ID'', sp_task spec), (''SANDBOX_AGENT_ID'', sp_agent spec)],
         cc_stdin_open = False, cc_tty = False, cc_detach = True,
         cc_labels = [(''architect.task_id'', sp_task spec), (''architect.agent_id'', sp_agent spec),
           (''architect.component'', ''execution-sandbox''), (''architect.session_id'', sp_task spec)],
         cc_command = [''sleep'', int_str (rl_timeout limits)]\<rparr>))"

section \<open>Resource usage\<close>

record resource_usage =
  ru_cpu_percent :: rat
  ru_memory_used :: rat
  ru_memory_limit :: rat
  ru_disk_used :: rat

definition no_usage :: resource_usage where
  "no_usage = \<lparr>ru_cpu_percent = 0, ru_memory_used = 0, ru_memory_limit = 0, ru_disk_used = 0\<rparr>"

definition item :: "string list \<Rightarrow> json \<Rightarrow> exn + json" where
  "item path j = foldl (\<lambda>r k. bind_sum r (\<lambda>d. case obj_get d k of
     None \<Rightarrow> Inl (KeyError k) | Some v \<Rightarrow> Inr v)) (Inr j) path"

definition number_at :: "string list \<Rightarrow> json \<Rightarrow> exn + rat" where
  "number_at path j = bind_sum (item path j) (\<lambda>v. case number_of v of
     None \<Rightarrow> Inl (RuntimeError ''TypeError'') | Some q \<Rightarrow> Inr q)"

definition number_or :: "rat \<Rightarrow> string \<Rightarrow> json \<Rightarrow> exn + rat" where
  "number_or d k j = (case obj_get j k of None \<Rightarrow> Inr d | Some _ \<Rightarrow> number_at [k] j)"

definition cpu_percent :: "rat \<Rightarrow> rat \<Rightarrow> rat \<Rightarrow> rat" where
  "cpu_percent cpu_delta system_delta cpus =
     (if 0 < system_delta \<and> 0 < cpu_delta then cpu_delta / system_delta * cpus * 100 else 0)"

definition usage_of_stats :: "json \<Rightarrow> exn + resource_usage" where
  "usage_of_stats stats =
     bind_sum (number_at [''cpu_stats'', ''cpu_usage'', ''total_usage''] stats) (\<lambda>cpu.
     bind_sum (number_at [''precpu_stats'', ''cpu_usage'', ''total_usage''] stats) (\<lambda>precpu.
     bind_sum (number_at [''cpu_stats'', ''system_cpu_usage''] stats) (\<lambda>sys.
     bind_sum (number_at [''precpu_stats'', ''system_cpu_usage''] stats) (\<lambda>presys.
     bind_sum (item [''cpu_stats''] stats) (\<lambda>cs.
     bind_sum (number_or 1 ''online_cpus'' cs) (\<lambda>cpus.
     let memory = (case obj_get stats ''memory_stats'' of None \<Rightarrow> JObj [] | Some m \<Rightarrow> m)
     in bind_sum (number_or 0 ''usage'' memory) (\<lambda>used.
        bind_sum (number_or 0 ''limit'' memory) (\<lambda>limit.
        let u = \<lparr>ru_cpu_percent = py_round 2 (cpu_percent (cpu - precpu) (sys - presys) cpus),
                 ru_memory_used = py_round 2 (used / (1024 * 1024)), ru_memory_limit = py_round 2 (limit / (1024 * 1024)), ru_disk_used = 0\<rparr>
        in if 0 \<le> ru_cpu_percent u \<and> 0 \<le> ru_memory_used u \<and> 0 \<le> ru_memory_limit u then Inr u else invalid))))))))"

definition check_resource_usage :: "(exn, 's, json) op \<Rightarrow> (exn, 's, resource_usage) op" where
  "check_resource_usage stats = (\<lambda>s. case stats s of
      (Inl _, s') \<Rightarrow> (Inr no_usage, s') | (Inr j, s') \<Rightarrow> (usage_of_stats j, s'))"

section \<open>Sessions\<close>

record audit_entry =
  ae_sequence :: nat
  ae_command :: string
  ae_exit_code :: int
  ae_stdout :: string
  ae_stderr :: string
  ae_duration :: rat

text \<open>The strings of an entry are stripped; a duration between monotonic readings is not negative.\<close>

definition mk_audit_entry :: "nat \<Rightarrow> string \<Rightarrow> int \<Rightarrow> string \<Rightarrow> string \<Rightarrow> rat \<Rightarrow> exn + audit_entry" where
  "mk_audit_entry sequence command exit_code out err duration =
     (if duration < 0 then invalid
      else Inr \<lparr>ae_sequence = sequence, ae_command = strip command, ae_exit_code = exit_code,
        ae_stdout = strip out, ae_stderr = strip err, ae_duration = duration\<rparr>)"

record session =
  ss_id :: string
  ss_spec :: sandbox_spec
  ss_status :: SandboxStatus
  ss_container :: "string option"
  ss_executor :: string
  ss_created :: int
  ss_started :: "int option"
  ss_completed :: "int option"
  ss_destroyed :: "int option"
  ss_audit :: "audit_entry list"
  ss_exit_code :: "int option"
  ss_usage :: resource_usage

definition new_session :: "string \<Rightarrow> sandbox_spec \<Rightarrow> string \<Rightarrow> int \<Rightarrow> session" where
  "new_session i spec kind now = \<lparr>ss_id = ''sbx-'' @ i, ss_spec = spec, ss_status = SandboxStatus.CREATING, ss_container = None,
     ss_executor = kind, ss_created = now, ss_started = None, ss_completed = None, ss_destroyed = None, ss_audit = [],
     ss_exit_code = None, ss_usage = no_usage\<rparr>"

text \<open>The virtual machines of the Firecracker executor are listed by session; Docker's executor has none.\<close>

record vm_handle =
  vm_id :: string
  vm_socket :: string
  vm_rootfs :: string
  vm_address :: string

record 'w executor =
  ex_sessions :: "(string \<times> session) list"
  ex_vms :: "(string \<times> vm_handle) list"
  ex_world :: 'w

definition new_executor :: "'w \<Rightarrow> 'w executor" where
  "new_executor w = \<lparr>ex_sessions = [], ex_vms = [], ex_world = w\<rparr>"

definition out_there :: "(exn, 'w, 'a) op \<Rightarrow> (exn, 'w executor, 'a) op" where
  "out_there m = zoom ex_world (\<lambda>w s. s\<lparr>ex_world := w\<rparr>) m"

definition put_session :: "session \<Rightarrow> 'w executor \<Rightarrow> 'w executor" where
  "put_session x s = s\<lparr>ex_sessions := AList.update (ss_id x) x (ex_sessions s)\<rparr>"

text \<open>A session object that has left the dictionary can still be changed, but nobody sees it.\<close>

definition on_session :: "string \<Rightarrow> (session \<Rightarrow> session) \<Rightarrow> 'w executor \<Rightarrow> 'w executor" where
  "on_session i f s = (case map_of (ex_sessions s) i of
      None \<Rightarrow> s | Some x \<Rightarrow> s\<lparr>ex_sessions := AList.update i (f x) (ex_sessions s)\<rparr>)"

definition set_status :: "SandboxStatus \<Rightarrow> session \<Rightarrow> session" where
  "set_status st x = x\<lparr>ss_status := st\<rparr>"

definition log_entry :: "audit_entry \<Rightarrow> session \<Rightarrow> session" where
  "log_entry e x = x\<lparr>ss_audit := ss_audit x @ [e]\<rparr>"

definition require_session :: "string \<Rightarrow> (exn, 'w executor, session) op" where
  "require_session i = lift_sum (\<lambda>s. case map_of (ex_sessions s) i of
     None \<Rightarrow> Inl (SandboxError (''No active session: '' @ i)) | Some x \<Rightarrow> Inr x)"

definition find_session :: "string \<Rightarrow> 'w executor \<Rightarrow> session option" where
  "find_session i s = map_of (ex_sessions s) i"

definition active_session_count :: "'w executor \<Rightarrow> nat" where
  "active_session_count s = length (ex_sessions s)"

definition drop_session :: "string \<Rightarrow> 'w executor \<Rightarrow> 'w executor" where
  "drop_session i s = s\<lparr>ex_sessions := AList.delete i (ex_sessions s)\<rparr>"

section \<open>Running a command\<close>

definition error_named :: "string \<Rightarrow> exn \<Rightarrow> bool" where
  "error_named name e = (case e of ExternalError m \<Rightarrow> has_prefix m name | _ \<Rightarrow> False)"

text \<open>\<^verbatim>\<open>try\<close> without a handler: the outcome as a value.\<close>

definition outcome :: "('e, 's, 'a) op \<Rightarrow> ('e, 's, 'e + 'a) op" where
  "outcome m = (\<lambda>s. case m s of (r, s') \<Rightarrow> (Inr r, s'))"

definition max_chars :: nat where
  "max_chars = 50000"

text \<open>
  Both executors run a command the same way: status and sequence number before the command
  starts (\<open>begin_run\<close>), the audit entry when it ended or timed out (\<open>end_run\<close>). Other tasks run
  in between. \<open>update_usage\<close> is what only Docker's executor does.
\<close>

definition audit_length :: "string \<Rightarrow> 'w executor \<Rightarrow> nat" where
  "audit_length i s = (case map_of (ex_sessions s) i of None \<Rightarrow> 0 | Some x \<Rightarrow> length (ss_audit x))"

definition begin_run :: "string \<Rightarrow> (exn, 'w, rat) op \<Rightarrow> (exn, 'w executor, nat \<times> rat) op" where
  "begin_run i clock =
     chain (writes (on_session i (set_status SandboxStatus.RUNNING))) (\<lambda>_.
     chain (reads (audit_length i)) (\<lambda>sequence.
     chain (out_there clock) (\<lambda>start. ret (sequence, start))))"

definition end_run :: "string \<Rightarrow> string \<Rightarrow> int \<Rightarrow> (exn, 'w, rat) op \<Rightarrow> (exn, 'w executor, unit) op \<Rightarrow>
    nat \<times> rat \<Rightarrow> exn + int \<times> string \<times> string \<Rightarrow> (exn, 'w executor, int \<times> string \<times> string) op" where
  "end_run i command timeout clock update_usage started result = (case result of
      Inl e \<Rightarrow>
        if error_named ''TimeoutError'' e
        then chain (out_there clock) (\<lambda>t.
             chain (lift_sum (\<lambda>_. mk_audit_entry (fst started) command (- 1) [] ''TIMEOUT'' ((t - snd started) * 1000))) (\<lambda>entry.
             chain (writes (on_session i (set_status SandboxStatus.TIMED_OUT \<circ> log_entry entry))) (\<lambda>_.
             raise (SandboxTimeoutError (''Command timed out after '' @ int_str timeout @ ''s'')))))
        else raise e
    | Inr (code, out, err) \<Rightarrow>
        chain (out_there clock) (\<lambda>t.
        chain (lift_sum (\<lambda>_. mk_audit_entry (fst started) command code (take max_chars out) (take max_chars err) ((t - snd started) * 1000))) (\<lambda>entry.
        chain (writes (on_session i (log_entry entry))) (\<lambda>_.
        chain (attempt update_usage (\<lambda>_. ret ())) (\<lambda>_.
        chain (writes (on_session i (set_status SandboxStatus.READY))) (\<lambda>_.
        ret (code, out, err)))))))"

definition check_command :: "string \<Rightarrow> (exn, 's, unit) op" where
  "check_command command = (case validate_command command of
      None \<Rightarrow> ret () | Some reason \<Rightarrow> raise (SandboxSecurityError (''Command rejected: '' @ reason)))"

definition check_files :: "host_files \<Rightarrow> (string \<times> string) list \<Rightarrow> (exn, 's, unit) op" where
  "check_files fs files = chain (lift_sum (\<lambda>_. validate_files fs files)) (\<lambda>r. case r of
      None \<Rightarrow> ret () | Some reason \<Rightarrow> raise (SandboxSecurityError (''File write rejected: '' @ reason)))"

text \<open>\<^verbatim>\<open>path.lstrip("/")\<close> and the path in the container that is read.\<close>

definition lstrip_slash :: "string \<Rightarrow> string" where
  "lstrip_slash p = dropWhile (\<lambda>c. c = CHR ''/'') p"

definition read_path :: "string \<Rightarrow> string" where
  "read_path p = (if has_prefix p ''/'' then p else ''/workspace/'' @ p)"

end
