(* ===== verification/Docker_Executor.thy ===== *)
theory Docker_Executor
  imports Sandbox_Session
begin

text \<open>
  The Docker executor (\<^verbatim>\<open>docker_executor.py\<close>) and the HTTP routes of the service
  (\<^verbatim>\<open>api/routes.py\<close>). Docker and the database are a record of operations on the world.
  Text passes through them as text: UTF-8 encoding and decoding with replacement is left to
  them. An archive is the list of its members, a name and the text of a regular file.
\<close>

type_synonym archive = "(string \<times> string option) list"

record session_row =
  sr_id :: string
  sr_task :: string
  sr_agent :: string
  sr_status :: string
  sr_container :: string
  sr_image :: string
  sr_created :: int
  sr_started :: "int option"
  sr_completed :: "int option"
  sr_destroyed :: "int option"

record 'w session_db =
  sd_get :: "string \<Rightarrow> (exn, 'w, session_row option) op"
  sd_save :: "session_row \<Rightarrow> (exn, 'w, unit) op"      \<comment> \<open>add or change, and commit\<close>
  sd_active :: "(exn, 'w, session_row list) op"

record 'w docker =
  dk_run :: "container_config \<Rightarrow> (exn, 'w, string) op"
  dk_get :: "string \<Rightarrow> (exn, 'w, unit) op"
  dk_exec :: "string \<Rightarrow> string list \<Rightarrow> int \<Rightarrow> (exn, 'w, int \<times> string \<times> string) op"   \<comment> \<open>container, command, time limit\<close>
  dk_stats :: "string \<Rightarrow> (exn, 'w, json) op"
  dk_put_archive :: "string \<Rightarrow> string \<Rightarrow> archive \<Rightarrow> (exn, 'w, unit) op"
  dk_get_archive :: "string \<Rightarrow> string \<Rightarrow> (exn, 'w, archive) op"
  dk_remove :: "string \<Rightarrow> (exn, 'w, unit) op"
  dk_list :: "string \<Rightarrow> (exn, 'w, string list) op"        \<comment> \<open>all containers with a label\<close>
  dk_clock :: "(exn, 'w, rat) op"
  dk_now :: "(exn, 'w, int) op"
  dk_new_id :: "(exn, 'w, string) op"
  dk_db :: "'w session_db option"
  dk_host :: host_files

definition is_api_error :: "exn \<Rightarrow> bool" where
  "is_api_error e \<longleftrightarrow> error_named ''APIError'' e \<or> error_named ''NotFound'' e \<or> error_named ''ImageNotFound'' e"

definition exn_text :: "exn \<Rightarrow> string" where
  "exn_text e = (case e of ExternalError m \<Rightarrow> m | SandboxError m \<Rightarrow> m | SandboxTimeoutError m \<Rightarrow> m
     | SandboxResourceError m \<Rightarrow> m | SandboxSecurityError m \<Rightarrow> m | _ \<Rightarrow> [])"

section \<open>Persistence\<close>

definition container_text :: "session \<Rightarrow> string" where
  "container_text x = (case ss_container x of None \<Rightarrow> [] | Some c \<Rightarrow> c)"

definition first_row :: "session \<Rightarrow> session_row" where
  "first_row x = \<lparr>sr_id = ss_id x, sr_task = sp_task (ss_spec x), sr_agent = sp_agent (ss_spec x),
     sr_status = sandbox_status_value (ss_status x), sr_container = container_text x, sr_image = sp_image (ss_spec x),
     sr_created = ss_created x, sr_started = ss_started x, sr_completed = None, sr_destroyed = None\<rparr>"

definition changed_row :: "session \<Rightarrow> session_row \<Rightarrow> session_row" where
  "changed_row x r = r\<lparr>sr_status := sandbox_status_value (ss_status x), sr_container := container_text x,
     sr_started := ss_started x, sr_completed := ss_completed x, sr_destroyed := ss_destroyed x\<rparr>"

definition persist_session :: "'w docker \<Rightarrow> session \<Rightarrow> (exn, 'w executor, unit) op" where
  "persist_session env x = (case dk_db env of
      None \<Rightarrow> ret ()
    | Some db \<Rightarrow> chain (out_there (sd_get db (ss_id x))) (\<lambda>r.
        out_there (sd_save db (case r of None \<Rightarrow> first_row x | Some old \<Rightarrow> changed_row x old))))"

definition restored_session :: "session_row \<Rightarrow> exn + session" where
  "restored_session r = (case sandbox_status_of (sr_status r) of
      None \<Rightarrow> Inl (ValueError (sr_status r))
    | Some st \<Rightarrow> Inr ((new_session [] (plain_spec (sr_task r) (sr_agent r) (sr_image r)) ''docker'' (sr_created r))
        \<lparr>ss_id := sr_id r, ss_status := st, ss_started := sr_started r, ss_container := Some (sr_container r)\<rparr>))"

text \<open>The number of restored sessions.\<close>

fun restore_rows :: "'w docker \<Rightarrow> session_row list \<Rightarrow> (exn, 'w executor, nat) op" where
  "restore_rows env [] = ret 0"
| "restore_rows env (r # rows) =
     chain (reads (find_session (sr_id r))) (\<lambda>known.
     if known \<noteq> None then restore_rows env rows
     else chain (outcome (out_there (dk_get env (sr_container r)))) (\<lambda>found. case found of
            Inl e \<Rightarrow> if is_api_error e then restore_rows env rows else raise e
          | Inr _ \<Rightarrow> chain (lift_sum (\<lambda>_. restored_session r)) (\<lambda>x.
              chain (writes (put_session x)) (\<lambda>_.
              chain (restore_rows env rows) (\<lambda>n. ret (n + 1))))))"

definition load_active_sessions :: "'w docker \<Rightarrow> (exn, 'w executor, nat) op" where
  "load_active_sessions env = (case dk_db env of
      None \<Rightarrow> ret 0 | Some db \<Rightarrow> chain (out_there (sd_active db)) (restore_rows env))"

section \<open>Lifecycle\<close>

definition create :: "'w docker \<Rightarrow> sandbox_spec \<Rightarrow> (exn, 'w executor, session) op" where
  "create env spec =
     chain (lift_sum (\<lambda>_. create_container_config spec)) (\<lambda>config.
     chain (out_there (dk_now env)) (\<lambda>now.
     chain (out_there (dk_new_id env)) (\<lambda>i.
     let labels = AList.update ''architect.component'' ''execution-sandbox'' (AList.update ''architect.session_id'' (''sbx-'' @ i) (cc_labels config))
     in chain (outcome (out_there (dk_run env (config\<lparr>cc_labels := labels\<rparr>)))) (\<lambda>r. case r of
          Inl e \<Rightarrow>
            if error_named ''ImageNotFound'' e then raise (SandboxError (''Base image not found: '' @ sp_image spec))
            else if is_api_error e then raise (SandboxError (''Docker API error during container creation: '' @ exn_text e))
            else raise e
        | Inr c \<Rightarrow> chain (out_there (dk_now env)) (\<lambda>started.
            let x = (new_session i spec ''docker'' now)\<lparr>ss_container := Some c, ss_status := SandboxStatus.READY, ss_started := Some started\<rparr>
            in chain (writes (put_session x)) (\<lambda>_.
               chain (persist_session env x) (\<lambda>_. ret x)))))))"

definition get_container :: "'w docker \<Rightarrow> session \<Rightarrow> (exn, 'w executor, string) op" where
  "get_container env x = (case container_text x of
      [] \<Rightarrow> raise (SandboxError ''Session has no container'')
    | c # cs \<Rightarrow> chain (outcome (out_there (dk_get env (c # cs)))) (\<lambda>r. case r of
        Inr _ \<Rightarrow> ret (c # cs)
      | Inl e \<Rightarrow>
          if error_named ''NotFound'' e \<or> error_named ''ImageNotFound'' e
          then chain (writes (on_session (ss_id x) (set_status SandboxStatus.ERROR))) (\<lambda>_.
               raise (SandboxResourceError (''Container disappeared: '' @ c # cs)))
          else raise e))"

definition start_run :: "'w docker \<Rightarrow> string \<Rightarrow> string \<Rightarrow> (exn, 'w executor, string \<times> nat \<times> rat) op" where
  "start_run env i command =
     chain (require_session i) (\<lambda>x.
     chain (check_command command) (\<lambda>_.
     chain (get_container env x) (\<lambda>c.
     chain (begin_run i (dk_clock env)) (\<lambda>started. ret (c, started)))))"

definition update_usage :: "'w docker \<Rightarrow> string \<Rightarrow> string \<Rightarrow> (exn, 'w executor, unit) op" where
  "update_usage env i c = chain (out_there (check_resource_usage (dk_stats env c))) (\<lambda>u.
     writes (on_session i (\<lambda>x. x\<lparr>ss_usage := u\<rparr>)))"

definition finish_run :: "'w docker \<Rightarrow> string \<Rightarrow> string \<Rightarrow> int \<Rightarrow> string \<times> nat \<times> rat \<Rightarrow> exn + int \<times> string \<times> string \<Rightarrow>
    (exn, 'w executor, int \<times> string \<times> string) op" where
  "finish_run env i command timeout started result =
     end_run i command timeout (dk_clock env) (update_usage env i (fst started)) (snd started) result"

definition run_command :: "'w docker \<Rightarrow> string \<Rightarrow> string \<Rightarrow> int \<Rightarrow> (exn, 'w executor, int \<times> string \<times> string) op" where
  "run_command env i command timeout =
     chain (start_run env i command) (\<lambda>started.
     chain (outcome (out_there (dk_exec env (fst started) [''sh'', ''-c'', command] timeout))) (\<lambda>result.
     finish_run env i command timeout started result))"

definition write_files :: "'w docker \<Rightarrow> string \<Rightarrow> (string \<times> string) list \<Rightarrow> (exn, 'w executor, unit) op" where
  "write_files env i files =
     chain (require_session i) (\<lambda>x.
     chain (check_files (dk_host env) files) (\<lambda>_.
     chain (get_container env x) (\<lambda>c.
     out_there (dk_put_archive env c ''/workspace'' (map (\<lambda>(p, t). (lstrip_slash p, Some t)) files)))))"

fun check_read_paths :: "host_files \<Rightarrow> string list \<Rightarrow> exn + unit" where
  "check_read_paths fs [] = Inr ()"
| "check_read_paths fs (p # ps) = bind_sum (resolve_sandbox_path fs p) (\<lambda>r. case r of
     Inl reason \<Rightarrow> Inl (SandboxSecurityError (''File read rejected: '' @ reason))
   | Inr _ \<Rightarrow> check_read_paths fs ps)"

text \<open>Members with an absolute name or two dots in a row are skipped; the last regular file wins.\<close>

definition take_member :: "string \<Rightarrow> string \<times> string option \<Rightarrow> (string \<times> string) list \<Rightarrow> (string \<times> string) list" where
  "take_member path m results = (case m of (name, content) \<Rightarrow>
     if has_prefix name ''/'' \<or> occurs_in ''..'' name then results
     else (case content of None \<Rightarrow> results | Some t \<Rightarrow> AList.update path t results))"

fun read_each :: "'w docker \<Rightarrow> string \<Rightarrow> string list \<Rightarrow> (string \<times> string) list \<Rightarrow> (exn, 'w executor, (string \<times> string) list) op" where
  "read_each env c [] results = ret results"
| "read_each env c (p # ps) results =
     chain (outcome (out_there (dk_get_archive env c (read_path p)))) (\<lambda>r.
     read_each env c ps (case r of Inl _ \<Rightarrow> results | Inr ms \<Rightarrow> fold (take_member p) ms results))"

definition read_files :: "'w docker \<Rightarrow> string \<Rightarrow> string list \<Rightarrow> (exn, 'w executor, (string \<times> string) list) op" where
  "read_files env i paths =
     chain (require_session i) (\<lambda>x.
     chain (lift_sum (\<lambda>_. check_read_paths (dk_host env) paths)) (\<lambda>_.
     chain (get_container env x) (\<lambda>c. read_each env c paths [])))"

definition remove_container :: "'w docker \<Rightarrow> string \<Rightarrow> (exn, 'w executor, unit) op" where
  "remove_container env c = attempt (chain (out_there (dk_get env c)) (\<lambda>_. out_there (dk_remove env c)))
     (\<lambda>e. if is_api_error e then ret () else raise e)"

definition mark_destroyed :: "int \<Rightarrow> session \<Rightarrow> session" where
  "mark_destroyed t x = x\<lparr>ss_status := SandboxStatus.DESTROYED, ss_destroyed := Some t\<rparr>"

definition destroy :: "'w docker \<Rightarrow> string \<Rightarrow> (exn, 'w executor, unit) op" where
  "destroy env i =
     chain (require_session i) (\<lambda>x.
     chain (if container_text x \<noteq> [] then remove_container env (container_text x) else ret ()) (\<lambda>_.
     chain (out_there (dk_now env)) (\<lambda>t.
     chain (writes (on_session i (mark_destroyed t))) (\<lambda>_.
     chain (persist_session env (mark_destroyed t x)) (\<lambda>_.
     writes (drop_session i))))))"

section \<open>Orphans\<close>

definition known_containers :: "'w executor \<Rightarrow> string list" where
  "known_containers s = filter (\<lambda>c. c \<noteq> []) (map (container_text \<circ> snd) (ex_sessions s))"

fun remove_orphans :: "'w docker \<Rightarrow> string list \<Rightarrow> string list \<Rightarrow> (exn, 'w executor, nat) op" where
  "remove_orphans env known [] = ret 0"
| "remove_orphans env known (c # cs) =
     (if c \<in> set known then remove_orphans env known cs
      else chain (outcome (out_there (dk_remove env c))) (\<lambda>r. case r of
          Inr _ \<Rightarrow> chain (remove_orphans env known cs) (\<lambda>n. ret (n + 1))
        | Inl e \<Rightarrow> if is_api_error e then remove_orphans env known cs else raise e))"

definition reconcile_orphans :: "'w docker \<Rightarrow> (exn, 'w executor, nat) op" where
  "reconcile_orphans env =
     chain (outcome (out_there (dk_list env ''architect.component=execution-sandbox''))) (\<lambda>r. case r of
       Inl e \<Rightarrow> if is_api_error e then ret 0 else raise e
     | Inr cs \<Rightarrow> chain (reads known_containers) (\<lambda>known. remove_orphans env known cs))"

end
