(* ===== verification/Firecracker_Executor.thy ===== *)
theory Firecracker_Executor
  imports Text Sandbox_Session
begin

text \<open>
  Base64 as Python's \<^verbatim>\<open>base64\<close> module does it: \<^verbatim>\<open>b64encode\<close>, and \<^verbatim>\<open>b64decode\<close> without
  validation, which skips characters outside the alphabet (such as the line breaks of the
  \<^verbatim>\<open>base64\<close> tool) and stops at complete padding. Bytes are natural numbers below 256.
\<close>

definition b64_alphabet :: string where
  "b64_alphabet = ''ABCDEFGHIJKLMNOPQRSTUVWXYZabcdefghijklmnopqrstuvwxyz0123456789+/''"

definition b64_char :: "nat \<Rightarrow> char" where
  "b64_char n = b64_alphabet ! n"

fun index_of :: "char \<Rightarrow> string \<Rightarrow> nat option" where
  "index_of c [] = None"
| "index_of c (d # s) = (if c = d then Some 0 else map_option Suc (index_of c s))"

definition b64_value :: "char \<Rightarrow> nat option" where
  "b64_value c = index_of c b64_alphabet"

fun b64encode :: "nat list \<Rightarrow> string" where
  "b64encode [] = []"
| "b64encode [a] = [b64_char (a div 4), b64_char (a mod 4 * 16), CHR ''='', CHR ''='']"
| "b64encode [a, b] = [b64_char (a div 4), b64_char (a mod 4 * 16 + b div 16), b64_char (b mod 16 * 4), CHR ''='']"
| "b64encode (a # b # c # bs) = b64_char (a div 4) # b64_char (a mod 4 * 16 + b div 16) #
     b64_char (b mod 16 * 4 + c div 64) # b64_char (c mod 64) # b64encode bs"

text \<open>The position in the current group of four, the bits carried over, and the padding seen.\<close>

fun b64_from :: "nat \<Rightarrow> nat \<Rightarrow> nat \<Rightarrow> string \<Rightarrow> nat list option" where
  "b64_from pos carry pads [] = (if pos = 0 then Some [] else None)"
| "b64_from pos carry pads (c # s) =
     (if c = CHR ''=''
      then if 2 \<le> pos \<and> 4 \<le> pos + pads + 1 then Some []
           else b64_from pos carry (if 2 \<le> pos then pads + 1 else pads) s
      else (case b64_value c of
          None \<Rightarrow> b64_from pos carry pads s
        | Some v \<Rightarrow>
            if pos = 0 then b64_from 1 v 0 s
            else if pos = 1 then map_option (Cons (carry * 4 + v div 16)) (b64_from 2 (v mod 16) 0 s)
            else if pos = 2 then map_option (Cons (carry * 16 + v div 4)) (b64_from 3 (v mod 4) 0 s)
            else map_option (Cons (carry * 64 + v)) (b64_from 0 0 0 s)))"

definition b64decode :: "string \<Rightarrow> nat list option" where
  "b64decode s = b64_from 0 0 0 s"

text \<open>UTF-8 of characters below 256.\<close>

definition utf8 :: "string \<Rightarrow> nat list" where
  "utf8 s = concat (map (\<lambda>c. let n = of_char c in if n < 128 then [n] else [192 + n div 64, 128 + n mod 64]) s)"

lemma utf8_bytes: "list_all (\<lambda>b. b < 256) (utf8 s)"
proof -
  have "(of_char c :: nat) div 64 < 64" for c :: char
    using order_less_trans [OF nat_of_char_less_256 [of c], of 4096] by (intro less_mult_imp_div_less) simp
  then show ?thesis
    by (induction s) (auto simp: utf8_def Let_def add.commute intro: order_less_le_trans)
qed

subsection \<open>Round trip\<close>

lemma alphabet_ok: "list_all (\<lambda>n. b64_value (b64_char n) = Some n \<and> b64_char n \<noteq> CHR ''='') [0..<64]"
  by code_simp

lemma b64_value_char [simp]: "n < 64 \<Longrightarrow> b64_value (b64_char n) = Some n"
  and b64_char_not_pad [simp]: "n < 64 \<Longrightarrow> b64_char n \<noteq> CHR ''=''"
  using alphabet_ok by (simp_all add: list_all_iff)

lemma spaces_skipped: "list_all (\<lambda>c. c \<noteq> CHR ''='' \<and> b64_value c = None) [CHR '' '', CHR 0x09, CHR 0x0A, CHR 0x0B, CHR 0x0C, CHR 0x0D,
    CHR 0x1C, CHR 0x1D, CHR 0x1E, CHR 0x1F, CHR 0x85, CHR 0xA0]"
  by code_simp

lemma space_skipped: "is_space c \<Longrightarrow> c \<noteq> CHR ''='' \<and> b64_value c = None"
  using spaces_skipped unfolding is_space_def list_all_iff by (metis (no_types, lifting) list.set)

text \<open>Any white space may be put between the characters.\<close>

lemma b64_from_skips: "b64_from pos carry pads (filter (\<lambda>c. \<not> is_space c) s) = b64_from pos carry pads s"
proof (induction s arbitrary: pos carry pads)
  case Nil
  show ?case by simp
next
  case (Cons c s)
  show ?case
    using Cons.IH space_skipped [of c] by (cases "is_space c") (auto split: option.split)
qed

lemma b64_group_bits:
  assumes "(a :: nat) < 256" "b < 256" "c < 256"
  shows "a div 4 < 64" "a mod 4 * 16 + b div 16 < 64" "b mod 16 * 4 + c div 64 < 64" "c mod 64 < 64"
    "a mod 4 * 16 < 64" "b mod 16 * 4 < 64"
  using assms by auto

lemma b64_decode_encode: "list_all (\<lambda>b. b < 256) bs \<Longrightarrow> b64_from 0 0 0 (b64encode bs) = Some bs"
proof (induction bs rule: b64encode.induct)
  case (4 a b c bs)
  then have "a < 256" "b < 256" "c < 256" by auto
  note bits = b64_group_bits [OF this]
  have "(a mod 4 * 16 + b div 16) div 16 = a mod 4" "(a mod 4 * 16 + b div 16) mod 16 = b div 16"
    "(b mod 16 * 4 + c div 64) div 4 = b mod 16" "(b mod 16 * 4 + c div 64) mod 4 = c div 64"
    using \<open>b < 256\<close> \<open>c < 256\<close> by auto
  with 4 bits show ?case by simp
next
  case (2 a)
  then have "a < 256" by simp
  note bits = b64_group_bits [OF this this this]
  from bits show ?case by simp
next
  case (3 a b)
  then have "a < 256" "b < 256" by auto
  note bits = b64_group_bits [OF this this(2)]
  have "(a mod 4 * 16 + b div 16) div 16 = a mod 4" "(a mod 4 * 16 + b div 16) mod 16 = b div 16"
    using \<open>b < 256\<close> by auto
  with bits show ?case by simp
qed simp

theorem b64_roundtrip: "filter (\<lambda>c. \<not> is_space c) text = b64encode (utf8 s) \<Longrightarrow> b64decode text = Some (utf8 s)"
  using b64_from_skips [of 0 0 0 "text"] b64_decode_encode [OF utf8_bytes, of s] by (simp add: b64decode_def)

text \<open>
  The Firecracker executor (\<^verbatim>\<open>firecracker_executor.py\<close>): one micro virtual machine per session,
  driven through its API socket and by \<^verbatim>\<open>ssh\<close>. Files, processes, the API and \<^verbatim>\<open>ssh\<close> are a
  record of operations on the world; decoding bytes that are no UTF-8 is a parameter.
\<close>

record fc_config =
  fk_rootfs :: string
  fk_kernel :: string
  fk_socket_dir :: string
  fk_ssh_key :: string
  fk_ssh_user :: string
  fk_ssh_port :: int

record 'w firecracker =
  fc_exists :: "string \<Rightarrow> (exn, 'w, bool) op"
  fc_copy :: "string \<Rightarrow> string \<Rightarrow> (exn, 'w, unit) op"
  fc_unlink :: "string \<Rightarrow> (exn, 'w, unit) op"
  fc_spawn :: "string \<Rightarrow> (exn, 'w, unit) op"             \<comment> \<open>with this API socket\<close>
  fc_sleep :: "(exn, 'w, unit) op"
  fc_kill :: "string \<Rightarrow> (exn, 'w, unit) op"
  fc_wait_exit :: "string \<Rightarrow> (exn, 'w, unit) op"         \<comment> \<open>at most five seconds\<close>
  fc_request :: "string \<Rightarrow> string \<Rightarrow> string \<Rightarrow> json \<Rightarrow> (exn, 'w, nat) op"   \<comment> \<open>socket, method, path, body; the status code\<close>
  fc_ssh :: "string list \<Rightarrow> int option \<Rightarrow> (exn, 'w, int \<times> string \<times> string) op"
  fc_clock :: "(exn, 'w, rat) op"
  fc_now :: "(exn, 'w, int) op"
  fc_new_id :: "(exn, 'w, string) op"
  fc_decode :: "nat list \<Rightarrow> string"
  fc_cfg :: fc_config
  fc_host :: host_files

definition require_vm :: "string \<Rightarrow> (exn, 'w executor, vm_handle) op" where
  "require_vm i = lift_sum (\<lambda>s. case map_of (ex_vms s) i of
     None \<Rightarrow> Inl (SandboxError (''No VM handle for session: '' @ i)) | Some v \<Rightarrow> Inr v)"

definition api_call :: "'w firecracker \<Rightarrow> vm_handle \<Rightarrow> string \<Rightarrow> string \<Rightarrow> json \<Rightarrow> (exn, 'w executor, unit) op" where
  "api_call env vm verb path body =
     chain (out_there (fc_request env (vm_socket vm) verb path body)) (\<lambda>code.
     if 400 \<le> code then raise (SandboxError (''Firecracker API error: '' @ nat_str code @ '' on '' @ verb @ '' '' @ path)) else ret ())"

definition configure_vm :: "'w firecracker \<Rightarrow> vm_handle \<Rightarrow> sandbox_spec \<Rightarrow> (exn, 'w executor, unit) op" where
  "configure_vm env vm spec =
     chain (api_call env vm ''PUT'' ''/machine-config''
       (JObj [(''vcpu_count'', JInt (rl_cpu (sp_limits spec))), (''mem_size_mib'', JInt (rl_memory (sp_limits spec)))])) (\<lambda>_.
     chain (api_call env vm ''PUT'' ''/boot-source''
       (JObj [(''kernel_image_path'', JStr (fk_kernel (fc_cfg env))), (''boot_args'', JStr ''console=ttyS0 reboot=k panic=1 pci=off'')])) (\<lambda>_.
     api_call env vm ''PUT'' ''/drives/rootfs''
       (JObj [(''drive_id'', JStr ''rootfs''), (''path_on_host'', JStr (vm_rootfs vm)), (''is_root_device'', JBool True), (''is_read_only'', JBool False)])))"

definition start_vm :: "'w firecracker \<Rightarrow> vm_handle \<Rightarrow> (exn, 'w executor, unit) op" where
  "start_vm env vm = api_call env vm ''PUT'' ''/actions'' (JObj [(''action_type'', JStr ''InstanceStart'')])"

text \<open>An \<^verbatim>\<open>OSError\<close> of either removal is suppressed.\<close>

definition unlink_quietly :: "'w firecracker \<Rightarrow> string \<Rightarrow> (exn, 'w executor, unit) op" where
  "unlink_quietly env p = attempt (out_there (fc_unlink env p)) (\<lambda>e. if error_named ''OSError'' e then ret () else raise e)"

definition cleanup_vm_files :: "'w firecracker \<Rightarrow> vm_handle \<Rightarrow> (exn, 'w executor, unit) op" where
  "cleanup_vm_files env vm = chain (unlink_quietly env (vm_socket vm)) (\<lambda>_. unlink_quietly env (vm_rootfs vm))"

text \<open>At most \<open>n\<close> looks at the socket, a pause after each that fails.\<close>

fun await_socket :: "'w firecracker \<Rightarrow> string \<Rightarrow> nat \<Rightarrow> (exn, 'w executor, bool) op" where
  "await_socket env socket 0 = ret False"
| "await_socket env socket (Suc n) =
     chain (out_there (fc_exists env socket)) (\<lambda>there.
     if there then ret True else chain (out_there (fc_sleep env)) (\<lambda>_. await_socket env socket n))"

definition put_vm :: "string \<Rightarrow> vm_handle \<Rightarrow> 'w executor \<Rightarrow> 'w executor" where
  "put_vm i vm s = s\<lparr>ex_vms := AList.update i vm (ex_vms s)\<rparr>"

definition boot_vm :: "'w firecracker \<Rightarrow> vm_handle \<Rightarrow> sandbox_spec \<Rightarrow> (exn, 'w executor, unit) op" where
  "boot_vm env vm spec =
     attempt (chain (configure_vm env vm spec) (\<lambda>_. start_vm env vm))
       (\<lambda>e. chain (out_there (fc_kill env (vm_id vm))) (\<lambda>_. chain (cleanup_vm_files env vm) (\<lambda>_. raise e)))"

definition fc_create :: "'w firecracker \<Rightarrow> sandbox_spec \<Rightarrow> (exn, 'w executor, session) op" where
  "fc_create env spec =
     chain (out_there (fc_new_id env)) (\<lambda>v.
     chain (out_there (fc_now env)) (\<lambda>now.
     chain (out_there (fc_new_id env)) (\<lambda>i.
     let cfg = fc_cfg env; base = fk_socket_dir cfg @ ''/fc-'' @ v;
         vm = \<lparr>vm_id = ''fc-'' @ v, vm_socket = base @ ''.sock'', vm_rootfs = base @ ''.ext4'', vm_address = []\<rparr>
     in chain (out_there (fc_exists env (fk_rootfs cfg))) (\<lambda>there.
        if \<not> there then raise (SandboxError (''Base rootfs image not found: '' @ fk_rootfs cfg))
        else
          chain (out_there (fc_copy env (fk_rootfs cfg) (vm_rootfs vm))) (\<lambda>_.
          chain (out_there (fc_spawn env (vm_socket vm))) (\<lambda>_.
          chain (await_socket env (vm_socket vm) 50) (\<lambda>ready.
          if \<not> ready
          then chain (out_there (fc_kill env (vm_id vm))) (\<lambda>_. raise (SandboxError ''Firecracker API socket did not appear within 5s''))
          else
            chain (boot_vm env vm spec) (\<lambda>_.
            chain (out_there (fc_now env)) (\<lambda>started.
            let x = (new_session i spec ''firecracker'' now)
                      \<lparr>ss_container := Some (vm_id vm), ss_status := SandboxStatus.READY, ss_started := Some started\<rparr>
            in chain (writes (put_vm (ss_id x) vm \<circ> put_session x)) (\<lambda>_. ret x))))))))))"

definition build_ssh_args :: "fc_config \<Rightarrow> vm_handle \<Rightarrow> string \<Rightarrow> string list" where
  "build_ssh_args cfg vm command =
     [''ssh'', ''-o'', ''StrictHostKeyChecking=no'', ''-o'', ''UserKnownHostsFile=/dev/null'', ''-o'', ''LogLevel=ERROR'',
      ''-o'', ''ConnectTimeout=10'', ''-i'', fk_ssh_key cfg, ''-p'', int_str (fk_ssh_port cfg),
      fk_ssh_user cfg @ ''@'' @ (if vm_address vm = [] then ''192.168.0.2'' else vm_address vm), command]"

definition ssh :: "'w firecracker \<Rightarrow> vm_handle \<Rightarrow> string \<Rightarrow> int option \<Rightarrow> (exn, 'w executor, int \<times> string \<times> string) op" where
  "ssh env vm command limit = out_there (fc_ssh env (build_ssh_args (fc_cfg env) vm command) limit)"

definition fc_start_run :: "'w firecracker \<Rightarrow> string \<Rightarrow> string \<Rightarrow> (exn, 'w executor, vm_handle \<times> nat \<times> rat) op" where
  "fc_start_run env i command =
     chain (require_session i) (\<lambda>x.
     chain (require_vm i) (\<lambda>vm.
     chain (check_command command) (\<lambda>_.
     chain (begin_run i (fc_clock env)) (\<lambda>started. ret (vm, started)))))"

definition execute_command :: "'w firecracker \<Rightarrow> string \<Rightarrow> string \<Rightarrow> int \<Rightarrow> (exn, 'w executor, int \<times> string \<times> string) op" where
  "execute_command env i command timeout =
     chain (fc_start_run env i command) (\<lambda>started.
     chain (outcome (ssh env (fst started) command (Some timeout))) (\<lambda>result.
     end_run i command timeout (fc_clock env) (ret ()) (snd started) result))"

text \<open>The path is put into the shell command as it is, without its leading slashes.\<close>

definition write_cmd :: "string \<Rightarrow> string \<Rightarrow> string" where
  "write_cmd path content =
     (let clean = lstrip_slash path
      in ''mkdir -p /workspace/$(dirname '' @ clean @ '') && echo '' @ [CHR 0x27] @ b64encode (utf8 content) @ [CHR 0x27] @
         '' | base64 -d > /workspace/'' @ clean)"

definition fc_write_files :: "'w firecracker \<Rightarrow> string \<Rightarrow> (string \<times> string) list \<Rightarrow> (exn, 'w executor, unit) op" where
  "fc_write_files env i files =
     chain (require_session i) (\<lambda>_.
     chain (require_vm i) (\<lambda>vm.
     chain (check_files (fc_host env) files) (\<lambda>_.
     for_each (\<lambda>(p, t). chain (ssh env vm (write_cmd p t) None) (\<lambda>_. ret ())) files)))"

definition read_cmd :: "string \<Rightarrow> string" where
  "read_cmd path = ''base64 '' @ read_path path @ '' 2>/dev/null''"

definition decoded :: "'w firecracker \<Rightarrow> string \<Rightarrow> int \<times> string \<times> string \<Rightarrow> (string \<times> string) list \<Rightarrow> (string \<times> string) list" where
  "decoded env path reply results = (case reply of (code, out, _) \<Rightarrow>
     if code = 0 \<and> out \<noteq> []
     then (case b64decode out of None \<Rightarrow> results | Some bs \<Rightarrow> AList.update path (fc_decode env bs) results)
     else results)"

fun fc_read_each :: "'w firecracker \<Rightarrow> vm_handle \<Rightarrow> string list \<Rightarrow> (string \<times> string) list \<Rightarrow>
    (exn, 'w executor, (string \<times> string) list) op" where
  "fc_read_each env vm [] results = ret results"
| "fc_read_each env vm (p # ps) results =
     chain (ssh env vm (read_cmd p) None) (\<lambda>r. fc_read_each env vm ps (decoded env p r results))"

definition fc_read_files :: "'w firecracker \<Rightarrow> string \<Rightarrow> string list \<Rightarrow> (exn, 'w executor, (string \<times> string) list) op" where
  "fc_read_files env i paths =
     chain (require_session i) (\<lambda>_. chain (require_vm i) (\<lambda>vm. fc_read_each env vm paths []))"

definition shut_down :: "'w firecracker \<Rightarrow> vm_handle \<Rightarrow> (exn, 'w executor, unit) op" where
  "shut_down env vm =
     attempt
       (chain (api_call env vm ''PUT'' ''/actions'' (JObj [(''action_type'', JStr ''SendCtrlAltDel'')])) (\<lambda>_.
        attempt (out_there (fc_wait_exit env (vm_id vm)))
          (\<lambda>e. if error_named ''TimeoutError'' e then out_there (fc_kill env (vm_id vm)) else raise e)))
       (\<lambda>_. out_there (fc_kill env (vm_id vm)))"

definition drop_vm :: "string \<Rightarrow> 'w executor \<Rightarrow> 'w executor" where
  "drop_vm i s = s\<lparr>ex_vms := AList.delete i (ex_vms s)\<rparr>"

definition fc_destroy :: "'w firecracker \<Rightarrow> string \<Rightarrow> (exn, 'w executor, unit) op" where
  "fc_destroy env i =
     chain (require_session i) (\<lambda>_.
     chain (reads (\<lambda>s. map_of (ex_vms s) i)) (\<lambda>vm.
     chain (case vm of
              None \<Rightarrow> ret ()
            | Some v \<Rightarrow> chain (shut_down env v) (\<lambda>_. chain (cleanup_vm_files env v) (\<lambda>_. writes (drop_vm i)))) (\<lambda>_.
     chain (out_there (fc_now env)) (\<lambda>_.
     writes (drop_session i)))))"

end
