(* ===== verification/Sandbox_Api.thy ===== *)
theory Sandbox_Api
  imports Docker_Executor Firecracker_Executor
begin

text \<open>
  The interface of an executor (\<^verbatim>\<open>executor_base.py\<close>) as a record of operations, with its two
  implementations, the HTTP routes over it (\<^verbatim>\<open>api/routes.py\<close>), and the contract both
  implementations satisfy: the audit log of every session numbers its entries from zero
  without gaps, and an unknown session is refused without any effect.
\<close>

record 'w executor_ops =
  eo_create :: "sandbox_spec \<Rightarrow> (exn, 'w executor, session) op"
  eo_execute :: "string \<Rightarrow> string \<Rightarrow> int \<Rightarrow> (exn, 'w executor, int \<times> string \<times> string) op"
  eo_write :: "string \<Rightarrow> (string \<times> string) list \<Rightarrow> (exn, 'w executor, unit) op"
  eo_read :: "string \<Rightarrow> string list \<Rightarrow> (exn, 'w executor, (string \<times> string) list) op"
  eo_destroy :: "string \<Rightarrow> (exn, 'w executor, unit) op"

definition docker_ops :: "'w docker \<Rightarrow> 'w executor_ops" where
  "docker_ops env = \<lparr>eo_create = create env, eo_execute = run_command env, eo_write = write_files env,
     eo_read = read_files env, eo_destroy = destroy env\<rparr>"

definition firecracker_ops :: "'w firecracker \<Rightarrow> 'w executor_ops" where
  "firecracker_ops env = \<lparr>eo_create = fc_create env, eo_execute = execute_command env, eo_write = fc_write_files env,
     eo_read = fc_read_files env, eo_destroy = fc_destroy env\<rparr>"

section \<open>Routes\<close>

definition is_sandbox_error :: "exn \<Rightarrow> bool" where
  "is_sandbox_error e = (case e of SandboxError _ \<Rightarrow> True | SandboxTimeoutError _ \<Rightarrow> True | SandboxResourceError _ \<Rightarrow> True
     | SandboxSecurityError _ \<Rightarrow> True | _ \<Rightarrow> False)"

text \<open>The handlers of a route in their order: status codes for the classes it tells apart, one for every other sandbox error.\<close>

definition guarded :: "(exn \<Rightarrow> nat option) \<Rightarrow> nat \<Rightarrow> (exn, 's, 'a) op \<Rightarrow> (exn, 's, 'a reply) op" where
  "guarded special code m = attempt (chain m (\<lambda>x. ret (Reply x)))
     (\<lambda>e. case special e of
        Some n \<Rightarrow> ret (Http_Error n (exn_text e))
      | None \<Rightarrow> if is_sandbox_error e then ret (Http_Error code (exn_text e)) else raise e)"

definition exec_codes :: "exn \<Rightarrow> nat option" where
  "exec_codes e = (case e of SandboxSecurityError _ \<Rightarrow> Some 403 | SandboxTimeoutError _ \<Rightarrow> Some 408 | _ \<Rightarrow> None)"

definition write_codes :: "exn \<Rightarrow> nat option" where
  "write_codes e = (case e of SandboxSecurityError _ \<Rightarrow> Some 403 | _ \<Rightarrow> None)"

record sandbox_response =
  sb_id :: string
  sb_status :: string
  sb_container :: "string option"
  sb_audit_length :: nat
  sb_exit_code :: "int option"

definition to_sandbox_response :: "session \<Rightarrow> sandbox_response" where
  "to_sandbox_response x = \<lparr>sb_id = ss_id x, sb_status = sandbox_status_value (ss_status x), sb_container = ss_container x,
     sb_audit_length = length (ss_audit x), sb_exit_code = ss_exit_code x\<rparr>"

definition create_sandbox_route :: "'w executor_ops \<Rightarrow> sandbox_spec \<Rightarrow> (exn, 'w executor, sandbox_response reply) op" where
  "create_sandbox_route ops spec = guarded (\<lambda>_. None) 500 (chain (eo_create ops spec) (\<lambda>x. ret (to_sandbox_response x)))"

definition exec_route :: "'w executor_ops \<Rightarrow> string \<Rightarrow> string \<Rightarrow> int \<Rightarrow> (exn, 'w executor, (int \<times> string \<times> string) reply) op" where
  "exec_route ops i command timeout =
     (if timeout < 1 \<or> 3600 < timeout then ret (Http_Error 422 ''timeout'')
      else guarded exec_codes 404 (eo_execute ops i command timeout))"

definition write_route :: "'w executor_ops \<Rightarrow> string \<Rightarrow> (string \<times> string) list \<Rightarrow> (exn, 'w executor, unit reply) op" where
  "write_route ops i files = guarded write_codes 404 (eo_write ops i files)"

definition read_route :: "'w executor_ops \<Rightarrow> string \<Rightarrow> string list \<Rightarrow> (exn, 'w executor, (string \<times> string) list reply) op" where
  "read_route ops i paths = guarded (\<lambda>_. None) 404 (eo_read ops i paths)"

definition destroy_route :: "'w executor_ops \<Rightarrow> string \<Rightarrow> (exn, 'w executor, unit reply) op" where
  "destroy_route ops i = guarded (\<lambda>_. None) 404 (eo_destroy ops i)"

definition session_route :: "string \<Rightarrow> 'w executor \<Rightarrow> sandbox_response reply" where
  "session_route i s = (case find_session i s of
     None \<Rightarrow> Http_Error 404 (''No active session: '' @ i) | Some x \<Rightarrow> Reply (to_sandbox_response x))"

datatype request = Create_Sandbox sandbox_spec | Exec string string int | Write_Files string "(string \<times> string) list"
  | Read_Files string "string list" | Destroy_Sandbox string

definition serve :: "'w executor_ops \<Rightarrow> request \<Rightarrow> 'w executor \<Rightarrow> 'w executor" where
  "serve ops r s = (case r of
      Create_Sandbox spec \<Rightarrow> snd (create_sandbox_route ops spec s)
    | Exec i command timeout \<Rightarrow> snd (exec_route ops i command timeout s)
    | Write_Files i files \<Rightarrow> snd (write_route ops i files s)
    | Read_Files i paths \<Rightarrow> snd (read_route ops i paths s)
    | Destroy_Sandbox i \<Rightarrow> snd (destroy_route ops i s))"

section \<open>The contract\<close>

definition audit_ok :: "session \<Rightarrow> bool" where
  "audit_ok x \<longleftrightarrow> map ae_sequence (ss_audit x) = [0..<length (ss_audit x)]"

definition audits_ok :: "'w executor \<Rightarrow> bool" where
  "audits_ok s \<longleftrightarrow> list_all (\<lambda>p. audit_ok (snd p)) (ex_sessions s)"

definition no_session :: "string \<Rightarrow> exn" where
  "no_session i = SandboxError (''No active session: '' @ i)"

locale executor_base =
  fixes ops :: "'w executor_ops"
  assumes create_keeps: "keeps audits_ok (eo_create ops spec)"
    and execute_keeps: "keeps audits_ok (eo_execute ops i command timeout)"
    and write_keeps: "keeps audits_ok (eo_write ops i files)"
    and read_keeps: "keeps audits_ok (eo_read ops i paths)"
    and destroy_keeps: "keeps audits_ok (eo_destroy ops i)"
    and execute_unknown: "find_session i s = None \<Longrightarrow> eo_execute ops i command timeout s = (Inl (no_session i), s)"
    and write_unknown: "find_session i s = None \<Longrightarrow> eo_write ops i files s = (Inl (no_session i), s)"
    and read_unknown: "find_session i s = None \<Longrightarrow> eo_read ops i paths s = (Inl (no_session i), s)"
    and destroy_unknown: "find_session i s = None \<Longrightarrow> eo_destroy ops i s = (Inl (no_session i), s)"
begin

lemma keeps_guarded: "keeps audits_ok m \<Longrightarrow> keeps audits_ok (guarded special code m)"
  unfolding guarded_def
  by (rule keeps_attempt) (auto intro!: keeps_intros split: option.split)

lemma serve_keeps: "audits_ok s \<Longrightarrow> audits_ok (serve ops r s)"
  unfolding serve_def create_sandbox_route_def exec_route_def write_route_def read_route_def destroy_route_def
  by (cases r) (auto intro!: keepsD [of audits_ok] keeps_guarded keeps_intros create_keeps execute_keeps write_keeps read_keeps destroy_keeps)

lemma requests_keep: "audits_ok s \<Longrightarrow> audits_ok (fold (serve ops) rs s)"
  by (induction rs arbitrary: s) (auto simp: serve_keeps)

lemma unknown_session_refused:
  assumes "find_session i s = None"
  shows "1 \<le> timeout \<and> timeout \<le> 3600 \<Longrightarrow> exec_route ops i command timeout s = (Inr (Http_Error 404 (''No active session: '' @ i)), s)"
    and "write_route ops i files s = (Inr (Http_Error 404 (''No active session: '' @ i)), s)"
    and "read_route ops i paths s = (Inr (Http_Error 404 (''No active session: '' @ i)), s)"
    and "destroy_route ops i s = (Inr (Http_Error 404 (''No active session: '' @ i)), s)"
    and "session_route i s = Http_Error 404 (''No active session: '' @ i)"
  using assms
  by (simp_all add: exec_route_def write_route_def read_route_def destroy_route_def session_route_def guarded_def attempt_run
      chain_run execute_unknown write_unknown read_unknown destroy_unknown no_session_def exec_codes_def write_codes_def
      is_sandbox_error_def exn_text_def)

end

text \<open>
  Both executors satisfy the contract of \<open>executor_base\<close>: every operation keeps the audit
  logs numbered without gaps, and refuses an unknown session. Two runs of one session that
  overlap break the numbering, since the number is taken before the command starts.
\<close>

section \<open>Numbered audit logs\<close>

named_theorems sandbox_keeps \<open>operations that keep the audit logs numbered\<close>

lemma list_all_update:
  "list_all (\<lambda>p. P (snd p)) d \<Longrightarrow> P v \<Longrightarrow> list_all (\<lambda>p. P (snd p)) (AList.update k v d)"
  by (induction d) auto

lemma list_all_delete: "list_all P d \<Longrightarrow> list_all P (AList.delete k d)"
  by (induction d) auto

lemma list_all_map_of: "list_all (\<lambda>p. P (snd p)) d \<Longrightarrow> map_of d k = Some v \<Longrightarrow> P v"
  using map_of_SomeD [of d k v] by (fastforce simp: list_all_iff)

lemma audits_ok_put: "audits_ok s \<Longrightarrow> audit_ok x \<Longrightarrow> audits_ok (put_session x s)"
  by (simp add: audits_ok_def put_session_def list_all_update)

lemma audits_ok_drop: "audits_ok s \<Longrightarrow> audits_ok (drop_session i s)"
  by (simp add: audits_ok_def drop_session_def list_all_delete)

lemma audits_ok_vms [simp]: "audits_ok (put_vm i v s) = audits_ok s" "audits_ok (drop_vm i s) = audits_ok s"
  by (simp_all add: audits_ok_def put_vm_def drop_vm_def)

lemma audits_ok_on:
  assumes "audits_ok s" and "\<And>x. map_of (ex_sessions s) i = Some x \<Longrightarrow> audit_ok x \<Longrightarrow> audit_ok (f x)"
  shows "audits_ok (on_session i f s)"
  using assms list_all_map_of [of audit_ok "ex_sessions s" i]
  by (auto simp: audits_ok_def on_session_def list_all_update split: option.split)

lemma audit_ok_changes [simp]:
  "audit_ok (set_status st x) = audit_ok x" "audit_ok (mark_destroyed t x) = audit_ok x" "audit_ok (x\<lparr>ss_usage := u\<rparr>) = audit_ok x"
  "audit_ok (new_session i spec kind now)" "audit_ok (x\<lparr>ss_status := st\<rparr>) = audit_ok x" "audit_ok (x\<lparr>ss_started := t'\<rparr>) = audit_ok x"
  "audit_ok (x\<lparr>ss_container := c\<rparr>) = audit_ok x" "audit_ok (x\<lparr>ss_id := j\<rparr>) = audit_ok x"
  by (simp_all add: audit_ok_def set_status_def mark_destroyed_def new_session_def)

lemma audit_ok_log: "audit_ok x \<Longrightarrow> ae_sequence e = length (ss_audit x) \<Longrightarrow> audit_ok (log_entry e x)"
  by (simp add: audit_ok_def log_entry_def)

lemma keeps_out_there [sandbox_keeps]: "keeps audits_ok (out_there m)"
  unfolding out_there_def by (rule keeps_zoom) (simp add: audits_ok_def)

lemma keeps_outcome [sandbox_keeps]: "keeps P m \<Longrightarrow> keeps P (outcome m)"
  by (auto simp: keeps_def outcome_def split: prod.splits)

lemma keeps_status [sandbox_keeps]: "keeps audits_ok (writes (on_session i (set_status st)))"
  by (rule keeps_writes) (simp add: audits_ok_on)

lemma keeps_chain_with:
  assumes "keeps P m" and "returns P m R" and "\<And>x s. P s \<Longrightarrow> R x s \<Longrightarrow> P (snd (f x s))"
  shows "keeps P (chain m f)"
proof (rule keepsI)
  fix s
  assume P: "P s"
  obtain r s' where m: "m s = (r, s')" by (cases "m s")
  have "P s'" using assms(1) P m by (rule keeps_run)
  with m P assms(2,3) show "P (snd (chain m f s))"
    by (cases r) (auto simp: chain_run returns_def)
qed

lemma out_there_sessions: "ex_sessions (snd (out_there m s)) = ex_sessions s"
  by (simp add: out_there_def zoom_run split: prod.split)

lemma out_there_run:
  assumes "out_there m s = (r, s')"
  shows "ex_sessions s' = ex_sessions s" and "ex_vms s' = ex_vms s" and "m (ex_world s) = (r, ex_world s')"
  using assms by (auto simp: out_there_def zoom_run split: prod.splits)

section \<open>Running a command\<close>

lemma begin_run_number: "returns P (begin_run i clock) (\<lambda>x s. fst x = audit_length i s)"
  by (rule returnsI)
    (auto simp: begin_run_def chain_run audit_length_def split: prod.splits sum.splits dest!: out_there_run(1))

lemma begin_run_keeps [sandbox_keeps]: "keeps audits_ok (begin_run i clock)"
  unfolding begin_run_def by (intro keeps_intros sandbox_keeps)

lemma log_keeps:
  assumes "audits_ok s" and "ae_sequence e = audit_length i s"
  shows "audits_ok (on_session i (log_entry e) s)"
  using assms by (intro audits_ok_on) (auto intro!: audit_ok_log simp: audit_length_def)

lemma mk_audit_entry_number: "mk_audit_entry n c code out err d = Inr e \<Longrightarrow> ae_sequence e = n"
  by (auto simp: mk_audit_entry_def split: if_splits)

lemma end_run_keeps:
  assumes "audits_ok s" and "fst started = audit_length i s" and "keeps audits_ok usage"
  shows "audits_ok (snd (end_run i command timeout clock usage started result s))"
proof (cases result)
  case (Inl e)
  show ?thesis
  proof (cases "error_named ''TimeoutError'' e")
    case False
    with Inl assms(1) show ?thesis by (simp add: end_run_def)
  next
    case True
    obtain r t where t: "out_there clock s = (r, t)" by (cases "out_there clock s")
    have "audits_ok t" and "audit_length i t = audit_length i s"
      using assms(1) out_there_run(1) [OF t] by (simp_all add: audits_ok_def audit_length_def)
    then have "audits_ok (on_session i (set_status SandboxStatus.TIMED_OUT \<circ> log_entry e') t)" if "ae_sequence e' = fst started" for e'
      using that assms(2) by (intro audits_ok_on) (auto intro!: audit_ok_log simp: audit_length_def)
    with t True Inl \<open>audits_ok t\<close> show ?thesis
      by (auto simp: end_run_def chain_run split: sum.splits dest: mk_audit_entry_number)
  qed
next
  case (Inr p)
  obtain code out err where p: "p = (code, out, err)" by (cases p)
  obtain r t where t: "out_there clock s = (r, t)" by (cases "out_there clock s")
  have ok: "audits_ok t" and len: "audit_length i t = audit_length i s"
    using assms(1) out_there_run(1) [OF t] by (simp_all add: audits_ok_def audit_length_def)
  let ?rest = "chain (attempt usage (\<lambda>_. ret ())) (\<lambda>_. chain (writes (on_session i (set_status SandboxStatus.READY))) (\<lambda>_. ret (code, out, err)))"
  have rest: "keeps audits_ok ?rest" by (intro keeps_intros sandbox_keeps assms(3))
  have "audits_ok (snd (?rest (on_session i (log_entry e) t)))" if "ae_sequence e = fst started" for e
    using keepsD [OF rest log_keeps [OF ok]] that assms(2) len by simp
  with t ok show ?thesis
    by (auto simp: Inr p end_run_def chain_run [of "out_there clock"] chain_run [of "lift_sum _"] chain_run [of "writes (on_session i (log_entry _))"]
        split: sum.splits dest!: mk_audit_entry_number)
qed

section \<open>Docker\<close>

lemma check_command_keeps [sandbox_keeps]: "keeps P (check_command command)"
  unfolding check_command_def by (auto intro: keeps_intros sandbox_keeps split: option.split)

lemma check_files_keeps [sandbox_keeps]: "keeps P (check_files fs files)"
  unfolding check_files_def by (auto intro!: keeps_intros sandbox_keeps split: option.split)

lemma require_keeps [sandbox_keeps]: "keeps P (require_session i)" "keeps P (require_vm i)"
  unfolding require_session_def require_vm_def by (rule keeps_lift_sum)+

lemma persist_keeps [sandbox_keeps]: "keeps audits_ok (persist_session env x)"
  unfolding persist_session_def by (auto intro!: keeps_intros sandbox_keeps split: option.split)

lemma get_container_keeps [sandbox_keeps]: "keeps audits_ok (get_container env x)"
  unfolding get_container_def by (auto intro!: keeps_intros sandbox_keeps split: list.split sum.split)

lemma keeps_put: "audit_ok x \<Longrightarrow> keeps audits_ok (writes (put_session x))"
  by (rule keeps_writes) (simp add: audits_ok_put)

lemma keeps_drop [sandbox_keeps]: "keeps audits_ok (writes (drop_session i))"
  by (rule keeps_writes) (simp add: audits_ok_drop)

lemma docker_create_keeps: "keeps audits_ok (create env spec)"
  unfolding create_def Let_def by (auto intro!: keeps_intros sandbox_keeps keeps_put split: sum.split)

lemma update_usage_keeps [sandbox_keeps]: "keeps audits_ok (update_usage env i c)"
  unfolding update_usage_def by (intro keeps_intros sandbox_keeps keeps_writes) (simp add: audits_ok_on)

lemma outcome_out_there_run: "outcome (out_there m) s = (Inr x, s') \<Longrightarrow> ex_sessions s' = ex_sessions s"
  using out_there_sessions [of m s] by (auto simp: outcome_def split: prod.splits)

text \<open>The number that \<open>begin_run\<close> takes is still right after the command, which changes no session.\<close>

lemma run_keeps:
  fixes m :: "(exn, 'b executor, 'a) op" and exec :: "'a \<Rightarrow> (exn, 'b, 'c) op"
  assumes "keeps audits_ok m" and "returns audits_ok m (\<lambda>x s. number x = audit_length i s)"
    and "\<And>x r s. audits_ok s \<Longrightarrow> number x = audit_length i s \<Longrightarrow> audits_ok (snd (finish x r s))"
  shows "keeps audits_ok (chain m (\<lambda>x. chain (outcome (out_there (exec x))) (finish x)))"
proof (rule keeps_chain_with [OF assms(1,2)])
  fix x and s :: "'b executor"
  assume s: "audits_ok s" "number x = audit_length i s"
  obtain r s' where e: "outcome (out_there (exec x)) s = (Inr r, s')" by (cases "out_there (exec x) s") (simp add: outcome_def)
  have "audits_ok s'" and "number x = audit_length i s'"
    using outcome_out_there_run [OF e] s by (simp_all add: audits_ok_def audit_length_def)
  with e assms(3) show "audits_ok (snd (chain (outcome (out_there (exec x))) (finish x) s))"
    by (simp add: chain_run)
qed

lemma start_run_number: "returns P (start_run env i command) (\<lambda>x s. fst (snd x) = audit_length i s)"
  unfolding start_run_def
  by (intro returns_chain [where R = "\<lambda>_ _. True"] returns_chain [OF begin_run_number]) (auto simp: returns_def)

lemma start_run_keeps: "keeps audits_ok (start_run env i command)"
  unfolding start_run_def by (intro keeps_intros sandbox_keeps)

lemma run_command_keeps: "keeps audits_ok (run_command env i command timeout)"
  unfolding run_command_def finish_run_def
  by (rule run_keeps [OF start_run_keeps start_run_number]) (rule end_run_keeps, auto intro: keeps_intros sandbox_keeps)

lemma write_files_keeps: "keeps audits_ok (write_files env i files)"
  unfolding write_files_def by (intro keeps_intros sandbox_keeps)

lemma read_each_keeps [sandbox_keeps]: "keeps audits_ok (read_each env c ps results)"
  by (induction ps arbitrary: results) (simp_all only: read_each.simps, (intro keeps_intros sandbox_keeps | assumption)+)

lemma read_files_keeps: "keeps audits_ok (read_files env i paths)"
  unfolding read_files_def by (intro keeps_intros sandbox_keeps)

lemma remove_container_keeps [sandbox_keeps]: "keeps audits_ok (remove_container env c)"
  unfolding remove_container_def by (auto intro!: keeps_intros sandbox_keeps)

lemma keeps_mark_destroyed [sandbox_keeps]: "keeps audits_ok (writes (on_session i (mark_destroyed t)))"
  by (rule keeps_writes) (simp add: audits_ok_on)

lemma docker_destroy_keeps: "keeps audits_ok (destroy env i)"
  unfolding destroy_def by (intro keeps_intros sandbox_keeps)

lemma restore_rows_keeps [sandbox_keeps]: "keeps audits_ok (restore_rows env rows)"
proof (induction rows)
  case (Cons r rows)
  have ok: "restored_session r = Inr x \<Longrightarrow> audit_ok x" for x
    by (auto simp: restored_session_def audit_ok_def new_session_def split: option.splits)
  have "keeps audits_ok (chain (lift_sum (\<lambda>_. restored_session r)) (\<lambda>x. chain (writes (put_session x)) (\<lambda>_. chain (restore_rows env rows) (\<lambda>n. ret (n + 1)))))"
    by (rule keeps_chain_with [where R = "\<lambda>x _. audit_ok x", OF keeps_lift_sum])
      (auto simp: returns_def ok intro!: keepsD [of audits_ok "chain (writes (put_session _)) _"] keeps_chain keeps_put Cons.IH keeps_ret)
  then show ?case by (auto intro!: keeps_intros sandbox_keeps Cons.IH split: sum.split)
qed (simp only: restore_rows.simps keeps_ret)

lemma docker_unknown:
  assumes "find_session i s = None"
  shows "run_command env i command timeout s = (Inl (no_session i), s)" "write_files env i files s = (Inl (no_session i), s)"
    "read_files env i paths s = (Inl (no_session i), s)" "destroy env i s = (Inl (no_session i), s)"
  using assms by (simp_all add: run_command_def start_run_def write_files_def read_files_def destroy_def require_session_def
      chain_run find_session_def no_session_def)

interpretation docker: executor_base "docker_ops env" for env :: "'w docker"
  by unfold_locales (simp_all add: docker_ops_def docker_create_keeps run_command_keeps write_files_keeps read_files_keeps docker_destroy_keeps docker_unknown)

section \<open>Firecracker\<close>

lemma ssh_keeps [sandbox_keeps]: "keeps audits_ok (ssh env vm command limit)" "keeps audits_ok (api_call env vm verb path body)"
  unfolding ssh_def api_call_def by (intro keeps_intros sandbox_keeps)+

lemma await_socket_keeps [sandbox_keeps]: "keeps audits_ok (await_socket env socket n)"
  by (induction n) (simp_all only: await_socket.simps, (intro keeps_intros sandbox_keeps | assumption)+)

lemma vm_keeps [sandbox_keeps]:
  "keeps audits_ok (cleanup_vm_files env vm)" "keeps audits_ok (configure_vm env vm spec)" "keeps audits_ok (start_vm env vm)"
  unfolding cleanup_vm_files_def unlink_quietly_def configure_vm_def start_vm_def by (auto intro!: keeps_intros sandbox_keeps)

lemma boot_vm_keeps [sandbox_keeps]: "keeps audits_ok (boot_vm env vm spec)" "keeps audits_ok (shut_down env vm)"
  unfolding boot_vm_def shut_down_def by (auto intro!: keeps_intros sandbox_keeps)

lemma fc_create_keeps: "keeps audits_ok (fc_create env spec)"
  unfolding fc_create_def Let_def
  by (intro keeps_intros sandbox_keeps keeps_writes) (simp_all add: audits_ok_put)

lemma fc_start_run_number: "returns P (fc_start_run env i command) (\<lambda>x s. fst (snd x) = audit_length i s)"
  unfolding fc_start_run_def
  by (intro returns_chain [where R = "\<lambda>_ _. True"] returns_chain [OF begin_run_number]) (auto simp: returns_def)

lemma execute_command_keeps: "keeps audits_ok (execute_command env i command timeout)"
  unfolding execute_command_def ssh_def
proof (rule run_keeps [OF _ fc_start_run_number])
  show "keeps audits_ok (fc_start_run env i command)"
    unfolding fc_start_run_def by (intro keeps_intros sandbox_keeps)
qed (rule end_run_keeps, auto intro: keeps_intros sandbox_keeps)

lemma fc_write_files_keeps: "keeps audits_ok (fc_write_files env i files)"
  unfolding fc_write_files_def by (auto intro!: keeps_intros sandbox_keeps)

lemma fc_read_each_keeps [sandbox_keeps]: "keeps audits_ok (fc_read_each env vm ps results)"
  by (induction ps arbitrary: results) (simp_all only: fc_read_each.simps, (intro keeps_intros sandbox_keeps | assumption)+)

lemma fc_read_files_keeps: "keeps audits_ok (fc_read_files env i paths)"
  unfolding fc_read_files_def by (intro keeps_intros sandbox_keeps)

lemma fc_destroy_keeps: "keeps audits_ok (fc_destroy env i)"
  unfolding fc_destroy_def by (auto intro!: keeps_intros sandbox_keeps keeps_writes split: option.split)

lemma firecracker_unknown:
  assumes "find_session i s = None"
  shows "execute_command env i command timeout s = (Inl (no_session i), s)" "fc_write_files env i files s = (Inl (no_session i), s)"
    "fc_read_files env i paths s = (Inl (no_session i), s)" "fc_destroy env i s = (Inl (no_session i), s)"
  using assms by (simp_all add: execute_command_def fc_start_run_def fc_write_files_def fc_read_files_def fc_destroy_def
      require_session_def chain_run find_session_def no_session_def)

interpretation firecracker: executor_base "firecracker_ops env" for env :: "'w firecracker"
  by unfold_locales (simp_all add: firecracker_ops_def fc_create_keeps execute_command_keeps fc_write_files_keeps
      fc_read_files_keeps fc_destroy_keeps firecracker_unknown)

end
