(* ===== verification/Sandbox_Properties.thy ===== *)
theory Sandbox_Properties
  imports Sandbox_Api
begin

text \<open>
  What the checks of the sandbox guarantee, and what they do not. Accepted paths stay inside the
  workspace as long as no symbolic link is involved; the links that matter are those in the
  container, which the check does not see. The command checks look at the first word and at a
  list of patterns, and the Firecracker executor puts paths into shell commands.
\<close>

section \<open>Paths\<close>

fun normalise :: "string list \<Rightarrow> string list \<Rightarrow> string list" where
  "normalise base [] = base"
| "normalise base (c # cs) = (if c = ''..'' then normalise (butlast base) cs else normalise (base @ [c]) cs)"

lemma realpath_no_links: "realpath (\<lambda>_. None) n base ps = Some (normalise base ps)"
  by (induction base ps rule: normalise.induct) auto

lemma normalise_append: "normalise base (ps @ qs) = normalise (normalise base ps) qs"
  by (induction base ps rule: normalise.induct) auto

lemma normalise_plain: "''..'' \<notin> set ps \<Longrightarrow> normalise base ps = base @ ps"
  by (induction base ps rule: normalise.induct) auto

text \<open>From a directory below the root, a path ends below that directory or where it ends from the root.\<close>

lemma normalise_below: "normalise (w # base) ps = w # normalise base ps \<or> normalise (w # base) ps = normalise base ps"
proof (induction base ps rule: normalise.induct)
  case (2 base c cs)
  then show ?case by (cases "base = []") auto
qed simp

lemma posix_parts_slash [simp]: "posix_parts (CHR ''/'' # s) = posix_parts s"
  by (simp add: posix_parts_def)

lemma posix_parts_lstrip [simp]: "posix_parts (lstrip_slash s) = posix_parts s"
  by (induction s) (auto simp: lstrip_slash_def)

lemma posix_parts_read: "posix_parts (read_path p) = (if is_absolute p then posix_parts p else workspace_root @ posix_parts p)"
proof -
  have "posix_parts (''/workspace/'' @ p) = workspace_root @ posix_parts p"
    using split_on_append [of "CHR ''/''" "''/workspace''" p] by (simp add: posix_parts_def workspace_root_def)
  then show ?thesis by (simp add: read_path_def is_absolute_def)
qed

lemma relative_workspace: "is_relative_to p [''workspace''] \<longleftrightarrow> (\<exists>q. p = ''workspace'' # q)"
  by (cases p) (auto simp: is_relative_to_def)

lemma resolve_accepted:
  assumes "resolve_sandbox_path fs raw = Inr (Inr p)"
  shows "resolve fs (posix_parts (read_path raw)) = Inr p" and "is_relative_to p workspace_root"
  using assms by (auto simp: resolve_sandbox_path_def Let_def posix_parts_read split: sum.splits exn.splits if_splits)

text \<open>The second check of \<^verbatim>\<open>validate_files\<close> never rejects what the first accepts: it resolves the same path.\<close>

lemma symlink_check_redundant: "resolve_sandbox_path fs raw = Inr (Inr p) \<Longrightarrow> check_symlink_escape fs raw = Inr None"
  using resolve_accepted [of fs raw p] by (simp add: check_symlink_escape_def posix_parts_read Let_def split: if_splits)

text \<open>
  C21: On a host without symbolic links, the path check confines files lexically: the archive
  member a file is written to and the path a file is read from both stay in the workspace,
  whatever double dots and leading slashes the given path has, and the path that is read is the one
  that was checked.
\<close>

theorem accepted_paths_confined:
  assumes "hf_link fs = (\<lambda>_. None)" and "resolve_sandbox_path fs raw = Inr (Inr p)"
  shows "is_relative_to (normalise workspace_root (posix_parts (lstrip_slash raw))) workspace_root \<and>
    normalise [] (posix_parts (read_path raw)) = p \<and> is_relative_to p workspace_root"
proof -
  have p: "normalise [] (posix_parts (read_path raw)) = p"
    using resolve_accepted(1) [OF assms(2)] by (simp add: resolve_def assms(1) realpath_no_links split: if_splits)
  have in_ws: "is_relative_to p workspace_root" by (rule resolve_accepted(2) [OF assms(2)])
  have "is_relative_to (normalise workspace_root (posix_parts raw)) workspace_root"
  proof (cases "is_absolute raw")
    case False
    then have "normalise workspace_root (posix_parts raw) = p"
      using p normalise_append [of "[]" workspace_root "posix_parts raw"] by (simp add: posix_parts_read workspace_root_def)
    with in_ws show ?thesis by simp
  next
    case True
    then show ?thesis
      using p in_ws normalise_below [of "''workspace''" "[]" "posix_parts raw"]
      by (auto simp: posix_parts_read relative_workspace workspace_root_def)
  qed
  with p in_ws show ?thesis by simp
qed

definition plain_host :: host_files where
  "plain_host = \<lparr>hf_link = (\<lambda>_. None), hf_is_link = (\<lambda>_. False), hf_depth = 100\<rparr>"

theorem accepted_paths_confined_witness:
  "is_relative_to (normalise workspace_root (posix_parts (lstrip_slash ''/../workspace/src/../a.py''))) workspace_root \<and>
    normalise [] (posix_parts (read_path ''/../workspace/src/../a.py'')) = [''workspace'', ''a.py'']"
proof -
  have "hf_link plain_host = (\<lambda>_. None)" by (simp add: plain_host_def)
  moreover have "resolve_sandbox_path plain_host ''/../workspace/src/../a.py'' = Inr (Inr [''workspace'', ''a.py''])"
    unfolding plain_host_def by code_simp
  ultimately show ?thesis using accepted_paths_confined by blast
qed

section \<open>Commands\<close>

text \<open>
  The allowlist looks at the first word only, and the command goes to \<^verbatim>\<open>sh -c\<close>. A pipe into a
  shell, a recursive delete of everything and the fork bomb itself pass; a harmless commit message
  does not.
\<close>

lemma pipe_to_shell_allowed: "validate_command ''ls | sh'' = None"
  by code_simp

lemma delete_allowed: "validate_command ''ls & rm -rf /*'' = None"
  by code_simp

lemma fork_bomb_allowed: "validate_command ''ls . ; :(){ :|:& };:'' = None"
  by code_simp

lemma mount_rejected: "validate_command ''git log --grep mount'' = Some ''blocked: filesystem mount''"
  by code_simp

text \<open>
  The command check lets through what it means to stop: a command piped into a shell, a
  recursive delete of every directory, and the fork bomb, whose pattern has unescaped parentheses;
  and it stops a harmless search for the word mount.
\<close>

theorem command_check_gaps:
  "list_all (\<lambda>c. validate_command c = None) [''ls | sh'', ''ls & rm -rf /*'', ''ls . ; :(){ :|:& };:''] \<and>
    validate_command ''git log --grep mount'' = Some ''blocked: filesystem mount''"
  by (simp add: pipe_to_shell_allowed delete_allowed fork_bomb_allowed mount_rejected)

section \<open>Audit logs\<close>

lemma audits_ok_new: "audits_ok (new_executor w)"
  by (simp add: audits_ok_def new_executor_def)

text \<open>
  C22: Whatever requests the service handles one after the other, on either executor, failed and timed-out
  commands included, the audit log of every session numbers its entries 0, 1, 2 and so on.
\<close>

theorem audit_numbered:
  "audits_ok (fold (serve (docker_ops env)) rs (new_executor w)) \<and>
   audits_ok (fold (serve (firecracker_ops env')) rs' (new_executor w'))"
  by (simp add: docker.requests_keep firecracker.requests_keep audits_ok_new)

text \<open>Two runs of one session that overlap take the same number: it is read before the command starts.\<close>

lemma length_kept: "keeps (\<lambda>s. audit_length i s = n) (out_there m)"
  "keeps (\<lambda>s. audit_length i s = n) (writes (on_session j (set_status st)))"
  by (auto simp: keeps_def audit_length_def out_there_sessions on_session_def set_status_def split: option.splits)

lemma start_run_length: "keeps (\<lambda>s. audit_length i s = n) (start_run env j command)"
  unfolding start_run_def begin_run_def get_container_def check_command_def require_session_def
  by (auto intro!: keeps_intros length_kept keeps_outcome split: list.split sum.split option.split)

lemma overlapping_runs_share_number:
  assumes "start_run env i c s = (Inr a, s1)" and "start_run env i c' s1 = (Inr b, s2)"
  shows "fst (snd a) = fst (snd b)"
proof -
  have n: "returns (\<lambda>_. True) (start_run env i d) (\<lambda>x s. fst (snd x) = audit_length i s)" for d
    by (rule start_run_number)
  have "fst (snd a) = audit_length i s1" and b: "fst (snd b) = audit_length i s2"
    using returnsD [OF n TrueI assms(1)] returnsD [OF n TrueI assms(2)] by auto
  moreover have "audit_length i s2 = audit_length i s1"
    using keepsD [OF start_run_length, of i s1 "audit_length i s1" env i c'] assms(2) by simp
  ultimately show ?thesis by simp
qed


section \<open>Writing and reading back\<close>

text \<open>
  Docker's archives, of a container without links: the regular files by their canonical path.
  A member is stored below the directory, and a regular file is returned under its last name.
\<close>

definition archives :: "'w docker \<Rightarrow> ('w \<Rightarrow> string list \<Rightarrow> string option) \<Rightarrow> bool" where
  "archives env files \<longleftrightarrow>
     (\<forall>c name t w w'. ''..'' \<notin> set (posix_parts name) \<longrightarrow> dk_put_archive env c ''/workspace'' [(name, Some t)] w = (Inr (), w') \<longrightarrow>
        files w' = (files w)(workspace_root @ posix_parts name \<mapsto> t)) \<and>
     (\<forall>c p t w. ''..'' \<notin> set (posix_parts p) \<longrightarrow> files w (posix_parts p) = Some t \<longrightarrow>
        dk_get_archive env c p w = (Inr [(path_name p, Some t)], w)) \<and>
     (\<forall>c w. files (snd (dk_get env c w)) = files w)"

lemma archives_put: "archives env files \<Longrightarrow> ''..'' \<notin> set (posix_parts name) \<Longrightarrow>
    dk_put_archive env c ''/workspace'' [(name, Some t)] w = (Inr (), w') \<Longrightarrow> files w' = (files w)(workspace_root @ posix_parts name \<mapsto> t)"
  and archives_get: "archives env files \<Longrightarrow> ''..'' \<notin> set (posix_parts p) \<Longrightarrow> files w (posix_parts p) = Some t \<Longrightarrow>
    dk_get_archive env c p w = (Inr [(path_name p, Some t)], w)"
  and archives_look: "archives env files \<Longrightarrow> files (snd (dk_get env c w)) = files w"
  unfolding archives_def by blast+

lemma out_there_world: "ex_world (snd (out_there m s)) = snd (m (ex_world s))"
  by (simp add: out_there_def zoom_run split: prod.split)

lemma on_session_world [simp]: "ex_world (on_session i f s) = ex_world s"
  by (simp add: on_session_def split: option.split)

lemma get_container_files:
  assumes "archives env files"
  shows "files (ex_world (snd (get_container env x s))) = files (ex_world s)"
  using archives_look [OF assms, of _ "ex_world s"] out_there_world [of "dk_get env (container_text x)" s]
  by (auto simp: get_container_def chain_run outcome_def split: list.split prod.splits sum.splits)

lemma write_files_effect:
  assumes ok: "archives env files" and plain: "''..'' \<notin> set (posix_parts p)" and run: "write_files env i [(p, t)] s = (Inr (), s')"
  shows "files (ex_world s') = (files (ex_world s))(workspace_root @ posix_parts p \<mapsto> t)"
proof -
  from run obtain x c s1 where g: "get_container env x s = (Inr c, s1)" and
      put: "out_there (dk_put_archive env c ''/workspace'' [(lstrip_slash p, Some t)]) s1 = (Inr (), s')"
    by (auto simp: write_files_def chain_run require_session_def check_files_def split: prod.splits sum.splits option.splits)
  have "files (ex_world s1) = files (ex_world s)"
    using get_container_files [OF ok, of x s] g by simp
  moreover have "dk_put_archive env c ''/workspace'' [(lstrip_slash p, Some t)] (ex_world s1) = (Inr (), ex_world s')"
    by (rule out_there_run(3) [OF put])
  then have "files (ex_world s') = (files (ex_world s1))(workspace_root @ posix_parts (lstrip_slash p) \<mapsto> t)"
    using plain by (intro archives_put [OF ok]) simp_all
  ultimately show ?thesis by simp
qed

lemma read_files_effect:
  assumes ok: "archives env files" and plain: "''..'' \<notin> set (posix_parts (read_path p))"
    and there: "files (ex_world s) (posix_parts (read_path p)) = Some t" and run: "read_files env i [p] s = (Inr r, s')"
  shows "r = (if has_prefix (path_name (read_path p)) ''/'' \<or> occurs_in ''..'' (path_name (read_path p)) then [] else [(p, t)])"
proof -
  from run obtain x c s1 where g: "get_container env x s = (Inr c, s1)" and each: "read_each env c [p] [] s1 = (Inr r, s')"
    by (auto simp: read_files_def chain_run require_session_def split: prod.splits sum.splits option.splits)
  have "files (ex_world s1) = files (ex_world s)"
    using get_container_files [OF ok, of x s] g by simp
  then have "dk_get_archive env c (read_path p) (ex_world s1) = (Inr [(path_name (read_path p), Some t)], ex_world s1)"
    using archives_get [OF ok plain] there by simp
  with each show ?thesis by (auto simp: chain_run outcome_def out_there_def zoom_run take_member_def)
qed

lemma path_name_read: "posix_parts p \<noteq> [] \<Longrightarrow> path_name (read_path p) = last (posix_parts p)"
  by (simp add: path_name_def posix_parts_read Let_def workspace_root_def)

lemma last_part_plain: "posix_parts p \<noteq> [] \<Longrightarrow> \<not> has_prefix (last (posix_parts p)) ''/''"
proof -
  assume "posix_parts p \<noteq> []"
  then have "last (posix_parts p) \<in> set (split_on (CHR ''/'') p)"
    using last_in_set [of "posix_parts p"] by (auto simp: posix_parts_def)
  from split_on_free [OF this] show ?thesis by (cases "last (posix_parts p)") (auto simp: has_prefix_def)
qed

text \<open>
  A file written through the Docker executor under a relative path without double dots is read
  back with its text, unless its last name contains two dots in a row: then the reading skips it.
\<close>

theorem written_file_read_back:
  assumes "archives env files" and "\<not> is_absolute p" and "posix_parts p \<noteq> []" and "''..'' \<notin> set (posix_parts p)"
    and "write_files env i [(p, t)] s = (Inr (), s')" and "read_files env i [p] s' = (Inr r, s'')"
  shows "r = (if occurs_in ''..'' (last (posix_parts p)) then [] else [(p, t)])"
proof -
  have "posix_parts (read_path p) = workspace_root @ posix_parts p"
    using assms(2) by (simp add: posix_parts_read)
  moreover have "''..'' \<notin> set (workspace_root @ posix_parts p)"
    using assms(4) by (simp add: workspace_root_def)
  ultimately show ?thesis
    using read_files_effect [OF assms(1) _ _ assms(6)] write_files_effect [OF assms(1,4,5)]
      last_part_plain [OF assms(3)] path_name_read [OF assms(3)] by auto
qed

text \<open>A container whose world is its files.\<close>

type_synonym file_list = "(string list \<times> string) list"

definition file_docker :: "file_list docker" where
  "file_docker = \<lparr>dk_run = (\<lambda>_. ret ''c''), dk_get = (\<lambda>_. ret ()), dk_exec = (\<lambda>_ _ _. ret (0, [], [])), dk_stats = (\<lambda>_. ret JNull),
     dk_put_archive = (\<lambda>_ dir ms. writes (\<lambda>w. fold (\<lambda>(name, t) w. case t of None \<Rightarrow> w | Some x \<Rightarrow> AList.update (posix_parts dir @ posix_parts name) x w) ms w)),
     dk_get_archive = (\<lambda>_ p w. case map_of w (posix_parts p) of None \<Rightarrow> (Inl (ExternalError ''NotFound''), w) | Some t \<Rightarrow> (Inr [(path_name p, Some t)], w)),
     dk_remove = (\<lambda>_. ret ()), dk_list = (\<lambda>_. ret []), dk_clock = ret 0, dk_now = ret 0, dk_new_id = ret ''0'',
     dk_db = None, dk_host = plain_host\<rparr>"

lemma file_docker_archives: "archives file_docker map_of"
  by (auto simp: archives_def file_docker_def workspace_root_def posix_parts_def)

definition one_sandbox :: "file_list executor" where
  "one_sandbox = put_session ((new_session ''0'' (plain_spec ''t'' ''a'' ''img'') ''docker'' 0)\<lparr>ss_container := Some ''c''\<rparr>) (new_executor [])"

definition read_back :: "string \<Rightarrow> string \<Rightarrow> (string \<times> string) list option" where
  "read_back p t = (case write_files file_docker ''sbx-0'' [(p, t)] one_sandbox of
      (Inl _, _) \<Rightarrow> None
    | (Inr _, s) \<Rightarrow> (case read_files file_docker ''sbx-0'' [p] s of (Inl _, _) \<Rightarrow> None | (Inr r, _) \<Rightarrow> Some r))"

theorem written_file_read_back_witness: "read_back ''src/a.py'' ''x'' = Some [(''src/a.py'', ''x'')]"
proof -
  have "read_back ''src/a.py'' ''x'' \<noteq> None" by code_simp
  then obtain s r s'' where w: "write_files file_docker ''sbx-0'' [(''src/a.py'', ''x'')] one_sandbox = (Inr (), s)"
      and r: "read_files file_docker ''sbx-0'' [''src/a.py''] s = (Inr r, s'')"
    by (auto simp: read_back_def split: prod.splits sum.splits)
  have "\<not> is_absolute ''src/a.py''" "posix_parts ''src/a.py'' \<noteq> []" "''..'' \<notin> set (posix_parts ''src/a.py'')"
    "\<not> occurs_in ''..'' (last (posix_parts ''src/a.py''))" by code_simp+
  then have "r = [(''src/a.py'', ''x'')]"
    using written_file_read_back [OF file_docker_archives _ _ _ w r] by simp
  with w r show ?thesis by (simp add: read_back_def)
qed

text \<open>An absolute path is written below the workspace once more, and read where it says.\<close>

lemma absolute_path_lost: "read_back ''/workspace/a.py'' ''x'' = Some []"
  by code_simp

section \<open>Firecracker\<close>

lemma resolve_plain_name:
  assumes "hf_link fs = (\<lambda>_. None)" and "CHR ''/'' \<notin> set p" and "CHR 0x00 \<notin> set p" and "p \<noteq> ''..''"
  shows "\<exists>q. resolve_sandbox_path fs p = Inr (Inr q)"
proof -
  have "split_on (CHR ''/'') p = [p]" using assms(2) by (induction p) auto
  then have parts: "posix_parts p = (if p = [] \<or> p = ''.'' then [] else [p])" by (simp add: posix_parts_def)
  have "\<not> is_absolute p" using assms(2) by (cases p) (auto simp: is_absolute_def has_prefix_def)
  then show ?thesis
    using assms parts by (auto simp: resolve_sandbox_path_def resolve_def realpath_no_links Let_def workspace_root_def is_relative_to_def)
qed

text \<open>
  The Firecracker executor runs text from its arguments as shell commands. A file path without a slash
  passes the check whatever else it contains and is put verbatim into the command that writes the
  file; a path to read is not checked at all.
\<close>

theorem firecracker_shell_injection:
  assumes "hf_link (fc_host env) = (\<lambda>_. None)" and "CHR ''/'' \<notin> set p" and "CHR 0x00 \<notin> set p" and "p \<noteq> ''..''"
    and "suspicious p t = None" and "find_session i s = Some x" and "map_of (ex_vms s) i = Some vm"
    and "fc_ssh env (build_ssh_args (fc_cfg env) vm (''mkdir -p /workspace/$(dirname '' @ p @ '') && echo '' @ [CHR 0x27] @
        b64encode (utf8 t) @ [CHR 0x27] @ '' | base64 -d > /workspace/'' @ p)) None (ex_world s) = (Inr r, w)"
    and "fc_ssh env (build_ssh_args (fc_cfg env) vm (''base64 '' @ read_path q @ '' 2>/dev/null'')) None (ex_world s) = (Inr r', w')"
  shows "fc_write_files env i [(p, t)] s = (Inr (), s\<lparr>ex_world := w\<rparr>) \<and>
    fc_read_files env i [q] s = (Inr (decoded env q r' []), s\<lparr>ex_world := w'\<rparr>)"
proof -
  obtain c where c: "resolve_sandbox_path (fc_host env) p = Inr (Inr c)"
    using resolve_plain_name [OF assms(1-4)] by blast
  have "lstrip_slash p = p" using assms(2) by (cases p) (auto simp: lstrip_slash_def)
  then show ?thesis
    using assms(5-9) c symlink_check_redundant [OF c]
    by (simp add: fc_write_files_def fc_read_files_def chain_run require_session_def require_vm_def find_session_def check_files_def
        ssh_def out_there_def zoom_run write_cmd_def read_cmd_def Let_def)
qed

text \<open>The commands a machine was asked to run; every command prints nothing.\<close>

definition recording_vm :: "string list firecracker" where
  "recording_vm = \<lparr>fc_exists = (\<lambda>_. ret True), fc_copy = (\<lambda>_ _. ret ()), fc_unlink = (\<lambda>_. ret ()), fc_spawn = (\<lambda>_. ret ()),
     fc_sleep = ret (), fc_kill = (\<lambda>_. ret ()), fc_wait_exit = (\<lambda>_. ret ()), fc_request = (\<lambda>_ _ _ _. ret 204),
     fc_ssh = (\<lambda>args _ w. (Inr (0, [], []), w @ [last args])), fc_clock = ret 0, fc_now = ret 0, fc_new_id = ret ''0'',
     fc_decode = map char_of, fc_cfg = \<lparr>fk_rootfs = ''r'', fk_kernel = ''k'', fk_socket_dir = ''d'', fk_ssh_key = ''key'', fk_ssh_user = ''u'', fk_ssh_port = 22\<rparr>,
     fc_host = plain_host\<rparr>"

definition one_vm :: "string list executor" where
  "one_vm = snd (fc_create recording_vm (plain_spec ''t'' ''a'' ''img'') (new_executor []))"

theorem firecracker_shell_injection_witness:
  "ex_world (snd (fc_read_files recording_vm ''sbx-0'' [''/etc/passwd''] one_vm)) = [''base64 /etc/passwd 2>/dev/null''] \<and>
   ex_world (snd (fc_write_files recording_vm ''sbx-0'' [(''x; reboot #'', [])] one_vm)) =
     [''mkdir -p /workspace/$(dirname x; reboot #) && echo '' @ [CHR 0x27, CHR 0x27] @ '' | base64 -d > /workspace/x; reboot #'']"
proof -
  let ?vm = "\<lparr>vm_id = ''fc-0'', vm_socket = ''d/fc-0.sock'', vm_rootfs = ''d/fc-0.ext4'', vm_address = []\<rparr>"
  have vm: "map_of (ex_vms one_vm) ''sbx-0'' = Some ?vm" and world: "ex_world one_vm = []" by code_simp+
  have "find_session ''sbx-0'' one_vm \<noteq> None" by code_simp
  then obtain x where x: "find_session ''sbx-0'' one_vm = Some x" by blast
  have host: "hf_link (fc_host recording_vm) = (\<lambda>_. None)" by (simp add: recording_vm_def plain_host_def)
  have clean: "suspicious ''x; reboot #'' [] = None" by code_simp
  have ssh: "fc_ssh recording_vm (build_ssh_args cfg v c) None w = (Inr (0, [], []), w @ [c])" for cfg v c w
    by (simp add: recording_vm_def build_ssh_args_def)
  show ?thesis
    using firecracker_shell_injection [OF host _ _ _ clean x vm ssh ssh, of "''/etc/passwd''"]
    by (simp add: world utf8_def read_path_def has_prefix_def)
qed

text \<open>On Docker the same path is refused, and an empty file is read back; on Firecracker it counts as missing.\<close>

lemma docker_reads_checked:
  "find_session i s = Some x \<Longrightarrow> resolve_sandbox_path (dk_host env) p = Inr (Inl reason) \<Longrightarrow>
     read_files env i [p] s = (Inl (SandboxSecurityError (''File read rejected: '' @ reason)), s)"
  by (simp add: read_files_def chain_run require_session_def find_session_def)

lemma firecracker_empty_file: "decoded env p (code, [], err) results = results"
  by (simp add: decoded_def)

lemma firecracker_reads_text:
  assumes "filter (\<lambda>c. \<not> is_space c) out = b64encode (utf8 t)" and "out \<noteq> []" and "fc_decode env (utf8 t) = t"
  shows "decoded env p (0, out, err) [] = [(p, t)]"
  using assms b64_roundtrip [of out t] by (simp add: decoded_def)

end
