(* ===== verification/Gateway.thy ===== *)
theory Gateway
  imports Text Schema
begin

text \<open>
  The configuration of the API gateway (\<^verbatim>\<open>config.py\<close>) and its HTTP client
  (\<^verbatim>\<open>service_client.py\<close>): which service and path every call goes to, and the request with its
  retries. HTTP is a parameter whose operation returns the status code and the JSON body.
\<close>

record gateway_config =
  gc_urls :: "(string \<times> string) list"       \<comment> \<open>by attribute name\<close>
  gc_api_keys_raw :: string
  gc_auth_enabled :: bool
  gc_rate_limit :: int
  gc_max_body :: int
  gc_environment :: string

definition default_gateway_config :: gateway_config where
  "default_gateway_config = \<lparr>gc_urls =
     [(''task_graph_url'', ''http://localhost:8003''), (''world_state_url'', ''http://localhost:8001''),
      (''sandbox_url'', ''http://localhost:8007''), (''eval_engine_url'', ''http://localhost:8008''),
      (''coding_agent_url'', ''http://localhost:8009''), (''spec_engine_url'', ''http://localhost:8010''),
      (''multi_model_router_url'', ''http://localhost:8011''), (''codebase_comprehension_url'', ''http://localhost:8012''),
      (''agent_comm_bus_url'', ''http://localhost:8013''), (''knowledge_memory_url'', ''http://localhost:8014''),
      (''economic_governor_url'', ''http://localhost:8015''), (''human_interface_url'', ''http://localhost:8016'')],
     gc_api_keys_raw = [], gc_auth_enabled = True, gc_rate_limit = 60, gc_max_body = 1048576, gc_environment = ''dev''\<rparr>"

definition api_keys :: "gateway_config \<Rightarrow> string list" where
  "api_keys c = filter (\<lambda>k. k \<noteq> []) (map strip (split_on CHR '','' (gc_api_keys_raw c)))"

section \<open>Requests with retries\<close>

datatype http_error = Connect_Error | Status_Error nat | Other_Error exn

record 'w http =
  ht_request :: "string \<Rightarrow> string \<Rightarrow> rat \<Rightarrow> json \<Rightarrow> (http_error, 'w, nat \<times> json) op"   \<comment> \<open>method, URL, read time-out, arguments\<close>
  ht_sleep :: "rat \<Rightarrow> (http_error, 'w, unit) op"

definition service_url_map :: "(string \<times> string) list" where
  "service_url_map =
     [(''task-graph'', ''task_graph_url''), (''world-state'', ''world_state_url''), (''sandbox'', ''sandbox_url''),
      (''eval-engine'', ''eval_engine_url''), (''coding-agent'', ''coding_agent_url''), (''spec-engine'', ''spec_engine_url''),
      (''router'', ''multi_model_router_url''), (''codebase'', ''codebase_comprehension_url''), (''comm-bus'', ''agent_comm_bus_url''),
      (''knowledge-memory'', ''knowledge_memory_url''), (''economic-governor'', ''economic_governor_url''),
      (''human-interface'', ''human_interface_url'')]"

definition service_timeouts :: "(string \<times> rat) list" where
  "service_timeouts = [(''spec-engine'', 180), (''coding-agent'', 180), (''eval-engine'', 120), (''router'', 120)]"

definition base_url :: "gateway_config \<Rightarrow> string \<Rightarrow> http_error + string" where
  "base_url c service = (case map_of service_url_map service of
      None \<Rightarrow> Inl (Other_Error (ValueError (''Unknown service: '' @ service)))
    | Some attr \<Rightarrow> (case map_of (gc_urls c) attr of
        None \<Rightarrow> Inl (Other_Error (AttributeError attr)) | Some url \<Rightarrow> Inr url))"

text \<open>\<^verbatim>\<open>raise_for_status\<close> raises for everything but 2xx.\<close>

definition success :: "nat \<Rightarrow> bool" where
  "success code \<longleftrightarrow> 200 \<le> code \<and> code < 300"

text \<open>\<open>left\<close> of the three attempts remain; without any left the last exception is raised.\<close>

fun try_request :: "'w http \<Rightarrow> string \<Rightarrow> string \<Rightarrow> rat \<Rightarrow> json \<Rightarrow> nat \<Rightarrow> http_error \<Rightarrow> (http_error, 'w, json) op" where
  "try_request h verb url limit args 0 last_exc = raise last_exc"
| "try_request h verb url limit args (Suc left) last_exc =
     (\<lambda>s. let pause = (1/2) * 2 ^ (2 - left)
          in (case ht_request h verb url limit args s of
             (Inr (code, body), s') \<Rightarrow>
               if success code then (Inr body, s')
               else if code < 500 \<or> left = 0 then (Inl (Status_Error code), s')
               else chain (ht_sleep h pause) (\<lambda>_. try_request h verb url limit args left (Status_Error code)) s'
           | (Inl Connect_Error, s') \<Rightarrow>
               if 0 < left then chain (ht_sleep h pause) (\<lambda>_. try_request h verb url limit args left Connect_Error) s'
               else try_request h verb url limit args left Connect_Error s'
           | (Inl e, s') \<Rightarrow> (Inl e, s')))"

definition client_request :: "gateway_config \<Rightarrow> 'w http \<Rightarrow> string \<Rightarrow> string \<Rightarrow> string \<Rightarrow> json \<Rightarrow> (http_error, 'w, json) op" where
  "client_request c h service verb path args =
     (case base_url c service of
        Inl e \<Rightarrow> raise e
      | Inr url \<Rightarrow> try_request h verb (url @ path) (get_or 30 service_timeouts service) args 3 Connect_Error)"

section \<open>The calls\<close>

datatype client_call =
    Submit_Task json | Get_Task_Status string | Get_Task_Logs string bool | Cancel_Task string bool
  | Get_Proposals string | Get_Proposal string | Submit_Proposal json | Get_World_State | List_Tasks json | List_Proposals
  | Get_Service_Health string
  | Create_Spec json | Get_Spec string | Clarify_Spec string json | Route_Task json | Get_Routing_Stats
  | Index_Codebase json | Get_Code_Context json | Search_Symbols json | Get_Bus_Stats | Publish_Message json
  | Query_Knowledge json | Get_Knowledge_Stats | Get_Budget_Status | Get_Efficiency_Leaderboard
  | List_Escalations json | Get_Escalation string | Create_Escalation json | Resolve_Escalation string json | Get_Escalation_Stats
  | List_Approval_Gates json | Vote_On_Gate string json | Get_Progress | Get_Activity json

text \<open>Service, method, path and arguments: a JSON body, or query parameters.\<close>

type_synonym backend_call = "string \<times> string \<times> string \<times> json"

fun call_of :: "client_call \<Rightarrow> backend_call" where
  "call_of (Submit_Task d) = (''task-graph'', ''POST'', ''/tasks/submit'', d)"
| "call_of (Get_Task_Status t) = (''task-graph'', ''GET'', ''/tasks/'' @ t, JNull)"
| "call_of (Get_Task_Logs t follow) = (''task-graph'', ''GET'', ''/tasks/'' @ t @ ''/logs'', JObj [(''follow'', JBool follow)])"
| "call_of (Cancel_Task t force) = (''task-graph'', ''POST'', ''/tasks/'' @ t @ ''/cancel'', JObj [(''force'', JBool force)])"
| "call_of (Get_Proposals t) = (''world-state'', ''GET'', ''/events'', JObj [(''task_id'', JStr t)])"
| "call_of (Get_Proposal p) = (''world-state'', ''GET'', ''/events/'' @ p, JNull)"
| "call_of (Submit_Proposal d) = (''world-state'', ''POST'', ''/proposals'', d)"
| "call_of Get_World_State = (''world-state'', ''GET'', ''/state'', JNull)"
| "call_of (List_Tasks ps) = (''task-graph'', ''GET'', ''/tasks'', ps)"
| "call_of List_Proposals = (''world-state'', ''GET'', ''/events'', JNull)"
| "call_of (Get_Service_Health service) = (service, ''GET'', ''/health'', JNull)"
| "call_of (Create_Spec d) = (''spec-engine'', ''POST'', ''/api/v1/specs'', d)"
| "call_of (Get_Spec i) = (''spec-engine'', ''GET'', ''/api/v1/specs/'' @ i, JNull)"
| "call_of (Clarify_Spec i d) = (''spec-engine'', ''POST'', ''/api/v1/specs/'' @ i @ ''/clarify'', d)"
| "call_of (Route_Task d) = (''router'', ''POST'', ''/api/v1/route'', d)"
| "call_of Get_Routing_Stats = (''router'', ''GET'', ''/api/v1/route/stats'', JNull)"
| "call_of (Index_Codebase d) = (''codebase'', ''POST'', ''/api/v1/index'', d)"
| "call_of (Get_Code_Context ps) = (''codebase'', ''GET'', ''/api/v1/context'', ps)"
| "call_of (Search_Symbols ps) = (''codebase'', ''GET'', ''/api/v1/symbols'', ps)"
| "call_of Get_Bus_Stats = (''comm-bus'', ''GET'', ''/api/v1/bus/stats'', JNull)"
| "call_of (Publish_Message d) = (''comm-bus'', ''POST'', ''/api/v1/bus/publish'', d)"
| "call_of (Query_Knowledge d) = (''knowledge-memory'', ''POST'', ''/api/v1/knowledge/query'', d)"
| "call_of Get_Knowledge_Stats = (''knowledge-memory'', ''GET'', ''/api/v1/stats'', JNull)"
| "call_of Get_Budget_Status = (''economic-governor'', ''GET'', ''/api/v1/budget/status'', JNull)"
| "call_of Get_Efficiency_Leaderboard = (''economic-governor'', ''GET'', ''/api/v1/efficiency/leaderboard'', JNull)"
| "call_of (List_Escalations ps) = (''human-interface'', ''GET'', ''/api/v1/escalations'', ps)"
| "call_of (Get_Escalation i) = (''human-interface'', ''GET'', ''/api/v1/escalations/'' @ i, JNull)"
| "call_of (Create_Escalation d) = (''human-interface'', ''POST'', ''/api/v1/escalations'', d)"
| "call_of (Resolve_Escalation i d) = (''human-interface'', ''POST'', ''/api/v1/escalations/'' @ i @ ''/resolve'', d)"
| "call_of Get_Escalation_Stats = (''human-interface'', ''GET'', ''/api/v1/escalations/stats'', JNull)"
| "call_of (List_Approval_Gates ps) = (''human-interface'', ''GET'', ''/api/v1/approval-gates'', ps)"
| "call_of (Vote_On_Gate i d) = (''human-interface'', ''POST'', ''/api/v1/approval-gates/'' @ i @ ''/vote'', d)"
| "call_of Get_Progress = (''human-interface'', ''GET'', ''/api/v1/progress'', JNull)"
| "call_of (Get_Activity ps) = (''human-interface'', ''GET'', ''/api/v1/activity'', ps)"

definition client_do :: "gateway_config \<Rightarrow> 'w http \<Rightarrow> client_call \<Rightarrow> (http_error, 'w, json) op" where
  "client_do c h call = (case call_of call of (service, verb, path, args) \<Rightarrow> client_request c h service verb path args)"

text \<open>
  The API gateway (\<^verbatim>\<open>api_gateway/__init__.py\<close>): its routes, the exception handlers, and the stack
  of middleware around them. The state is the table of recent requests next to the world;
  a request carries what the code reads of it. Answering a CORS preflight is left to the
  framework. Clock readings are rational seconds.
\<close>

record gw_request =
  rq_method :: string
  rq_path :: string
  rq_auth :: "string option"
  rq_length :: "string option"
  rq_id :: "string option"
  rq_client :: "string option"
  rq_body :: json

record response =
  rs_status :: nat
  rs_headers :: "(string \<times> string) list"
  rs_body :: json

record 'w gateway =
  gw_windows :: "(string \<times> rat list) list"
  gw_world :: 'w

record 'w gateway_env =
  ge_config :: gateway_config
  ge_http :: "'w http"
  ge_clock :: "(http_error, 'w, rat) op"
  ge_uuid :: "(http_error, 'w, string) op"

definition beyond :: "(http_error, 'w, 'a) op \<Rightarrow> (http_error, 'w gateway, 'a) op" where
  "beyond m = zoom gw_world (\<lambda>w s. s\<lparr>gw_world := w\<rparr>) m"

definition detail :: "nat \<Rightarrow> string \<Rightarrow> response" where
  "detail code msg = \<lparr>rs_status = code, rs_headers = [], rs_body = JObj [(''detail'', JStr msg)]\<rparr>"

definition ok_json :: "json \<Rightarrow> response" where
  "ok_json j = \<lparr>rs_status = 200, rs_headers = [], rs_body = j\<rparr>"

section \<open>Routes\<close>

definition task_submit_schema :: schema where
  "task_submit_schema = SModel (FCons ''name'' SStr None (FCons ''description'' SStr None (FCons ''spec'' SObject None
     (FCons ''priority'' (SInt None None) (Some (JInt 5)) (FCons ''parent_task_id'' (SOpt SStr) (Some JNull) FNil)))))"

definition proposal_submit_schema :: schema where
  "proposal_submit_schema = SModel (FCons ''task_id'' SStr None (FCons ''agent_id'' SStr None (FCons ''mutations'' (SList SObject) None FNil)))"

definition task_logs_schema :: schema where
  "task_logs_schema = SModel (FCons ''task_id'' SStr None (FCons ''entries''
     (SList (SModel (FCons ''timestamp'' SStr None (FCons ''level'' SStr None (FCons ''message'' SStr None (FCons ''source'' SStr (Some (JStr [])) FNil))))))
     (Some (JArr [])) FNil))"

definition world_state_schema :: schema where
  "world_state_schema = SModel (FCons ''version'' (SInt None None) (Some (JInt 0)) (FCons ''data'' SObject (Some (JObj [])) FNil))"

definition field_of :: "json \<Rightarrow> string \<Rightarrow> json" where
  "field_of j k = (case obj_get j k of None \<Rightarrow> JNull | Some v \<Rightarrow> v)"

definition health_services :: "string list" where
  "health_services = [''task-graph'', ''world-state'', ''sandbox'', ''eval-engine'', ''coding-agent'', ''spec-engine'', ''router'', ''codebase'', ''comm-bus'']"

definition call_service :: "'w gateway_env \<Rightarrow> client_call \<Rightarrow> (http_error, 'w gateway, json) op" where
  "call_service env c = beyond (client_do (ge_config env) (ge_http env) c)"

fun probe :: "'w gateway_env \<Rightarrow> string list \<Rightarrow> (http_error, 'w gateway, (string \<times> string) list) op" where
  "probe env [] = ret []"
| "probe env (x # xs) =
     chain (attempt (chain (call_service env (Get_Service_Health x)) (\<lambda>_. ret ''healthy'')) (\<lambda>_. ret ''unhealthy'')) (\<lambda>v.
     chain (probe env xs) (\<lambda>vs. ret ((x, v) # vs)))"

definition health_check :: "'w gateway_env \<Rightarrow> (http_error, 'w gateway, response) op" where
  "health_check env = chain (probe env health_services) (\<lambda>vs.
     ret (ok_json (JObj [(''status'', JStr (if list_all (\<lambda>p. snd p = ''healthy'') vs then ''healthy'' else ''degraded'')),
       (''services'', JObj (map (\<lambda>(k, v). (k, JStr v)) vs)), (''version'', JStr ''0.1.0'')])))"

definition optional_params :: "(string \<times> string option) list \<Rightarrow> json" where
  "optional_params ps = JObj (concat (map (\<lambda>(k, v). case v of None \<Rightarrow> [] | Some x \<Rightarrow> [(k, JStr x)]) ps))"

definition list_tasks_route :: "'w gateway_env \<Rightarrow> string option \<Rightarrow> string option \<Rightarrow> (http_error, 'w gateway, response) op" where
  "list_tasks_route env st ty = chain (call_service env (List_Tasks (optional_params [(''status'', st), (''type'', ty)]))) (\<lambda>r.
     ret (ok_json (case obj_get r ''tasks'' of Some ts \<Rightarrow> ts | None \<Rightarrow> r)))"

text \<open>The fields of \<^verbatim>\<open>payload.spec\<close> come last and win.\<close>

definition spec_payload :: "json \<Rightarrow> json" where
  "spec_payload p = JObj [(''spec'', JObj (fold (\<lambda>(k, v). AList.update k v)
       (case field_of p ''spec'' of JObj d \<Rightarrow> d | _ \<Rightarrow> [])
       [(''name'', field_of p ''name''), (''description'', field_of p ''description''), (''priority'', field_of p ''priority'')])),
     (''use_llm'', JBool False)]"

definition invalid_body :: response where
  "invalid_body = detail 422 ''validation error''"

definition create_task_route :: "'w gateway_env \<Rightarrow> json \<Rightarrow> (http_error, 'w gateway, response) op" where
  "create_task_route env body = (case check task_submit_schema body of
      Inl _ \<Rightarrow> ret invalid_body
    | Inr p \<Rightarrow> chain (call_service env (Submit_Task (spec_payload p))) (\<lambda>r.
        ret (ok_json (JObj [(''task_id'', case obj_get r ''task_ids'' of Some (JArr (i # _)) \<Rightarrow> i | _ \<Rightarrow> JStr ''unknown''),
          (''status'', JStr ''accepted'')]))))"

definition get_task_route :: "'w gateway_env \<Rightarrow> string \<Rightarrow> (http_error, 'w gateway, response) op" where
  "get_task_route env t = chain (call_service env (Get_Task_Status t)) (\<lambda>r.
     ret (ok_json (JObj
       [(''task_id'', case obj_get r ''id'' of Some v \<Rightarrow> v | None \<Rightarrow> JStr t),
        (''name'', case obj_get r ''description'' of Some v \<Rightarrow> v | None \<Rightarrow> JStr []),
        (''status'', case obj_get r ''status'' of Some v \<Rightarrow> v | None \<Rightarrow> JStr ''unknown''),
        (''progress'', JFloat 0), (''children'', JArr []), (''created_at'', JStr []), (''updated_at'', JStr [])])))"

definition validated :: "schema \<Rightarrow> json \<Rightarrow> (http_error, 's, response) op" where
  "validated sch r = (case check sch r of Inl e \<Rightarrow> raise (Other_Error e) | Inr v \<Rightarrow> ret (ok_json v))"

definition submit_proposal_route :: "'w gateway_env \<Rightarrow> json \<Rightarrow> (http_error, 'w gateway, response) op" where
  "submit_proposal_route env body = (case check proposal_submit_schema body of
      Inl _ \<Rightarrow> ret invalid_body
    | Inr p \<Rightarrow> chain (call_service env (Submit_Proposal p)) (\<lambda>r. ret (ok_json r)))"

text \<open>The routes by what they take: path parameters, query parameters or a body.\<close>

datatype gw_route =
    Health | Tasks_List "string option" "string option" | Task_Create | Task_Get string | Task_Logs string bool
  | Task_Cancel string bool | Task_Proposals string | Proposals_List "string option" | Proposal_Get string | State_Get
  | Proposal_Submit | Spec_Create | Spec_Get string | Spec_Clarify string | Route_Decide | Route_Stats | Code_Index
  | Code_Context string | Code_Symbols string int | Bus_Stats | Bus_Publish

text \<open>What a route that only passes a call on calls.\<close>

fun passed_on :: "gw_route \<Rightarrow> json \<Rightarrow> client_call option" where
  "passed_on (Task_Cancel t force) body = Some (Cancel_Task t force)"
| "passed_on (Task_Proposals t) body = Some (Get_Proposals t)"
| "passed_on (Proposals_List None) body = Some List_Proposals"
| "passed_on (Proposals_List (Some t)) body = Some (Get_Proposals t)"
| "passed_on (Proposal_Get p) body = Some (Get_Proposal p)"
| "passed_on Spec_Create body = Some (Create_Spec body)"
| "passed_on (Spec_Get i) body = Some (Get_Spec i)"
| "passed_on (Spec_Clarify i) body = Some (Clarify_Spec i body)"
| "passed_on Route_Decide body = Some (Route_Task body)"
| "passed_on Route_Stats body = Some Get_Routing_Stats"
| "passed_on Code_Index body = Some (Index_Codebase body)"
| "passed_on (Code_Context t) body = Some (Get_Code_Context (JObj [(''task_description'', JStr t)]))"
| "passed_on (Code_Symbols q n) body = Some (Search_Symbols (JObj [(''query'', JStr q), (''limit'', JInt n)]))"
| "passed_on Bus_Stats body = Some Get_Bus_Stats"
| "passed_on Bus_Publish body = Some (Publish_Message body)"
| "passed_on _ body = None"

definition handle :: "'w gateway_env \<Rightarrow> gw_route \<Rightarrow> json \<Rightarrow> (http_error, 'w gateway, response) op" where
  "handle env r body = (case passed_on r body of
      Some c \<Rightarrow> chain (call_service env c) (\<lambda>j. ret (ok_json j))
    | None \<Rightarrow> (case r of
        Health \<Rightarrow> health_check env
      | Tasks_List st ty \<Rightarrow> list_tasks_route env st ty
      | Task_Create \<Rightarrow> create_task_route env body
      | Task_Get t \<Rightarrow> get_task_route env t
      | Task_Logs t follow \<Rightarrow> chain (call_service env (Get_Task_Logs t follow)) (validated task_logs_schema)
      | State_Get \<Rightarrow> chain (call_service env Get_World_State) (validated world_state_schema)
      | Proposal_Submit \<Rightarrow> submit_proposal_route env body
      | _ \<Rightarrow> ret (detail 404 ''Not Found'')))"

text \<open>The exception handlers around the routes.\<close>

definition exception_handlers :: "(http_error, 's, response) op \<Rightarrow> (http_error, 's, response) op" where
  "exception_handlers m = attempt m (\<lambda>e. case e of
      Status_Error code \<Rightarrow> ret (detail (if 500 \<le> code then 502 else code) ''An error occurred while processing the request.'')
    | Connect_Error \<Rightarrow> ret (detail 502 ''Backend service unavailable'')
    | Other_Error _ \<Rightarrow> raise e)"

section \<open>Middleware\<close>

type_synonym 'w app = "gw_request \<Rightarrow> (http_error, 'w gateway, response) op"

definition auth_exempt_paths :: "string list" where
  "auth_exempt_paths = [''/health'', ''/api/v1/health'', ''/docs'', ''/openapi.json'', ''/redoc'']"

definition add_headers :: "(string \<times> string) list \<Rightarrow> response \<Rightarrow> response" where
  "add_headers hs r = r\<lparr>rs_headers := rs_headers r @ hs\<rparr>"

definition security_headers :: "gateway_config \<Rightarrow> 'w app \<Rightarrow> 'w app" where
  "security_headers c app rq = chain (app rq) (\<lambda>r. ret (add_headers
     ([(''X-Content-Type-Options'', ''nosniff''), (''X-Frame-Options'', ''DENY''), (''Referrer-Policy'', ''strict-origin-when-cross-origin''),
       (''Permissions-Policy'', ''camera=(), microphone=()''),
       (''Content-Security-Policy'', ''default-src '' @ [CHR 0x27] @ ''none'' @ [CHR 0x27] @ ''; frame-ancestors '' @ [CHR 0x27] @ ''none'' @ [CHR 0x27])] @
      (if gc_environment c \<noteq> ''dev'' then [(''Strict-Transport-Security'', ''max-age=31536000'')] else [])) r))"

definition size_limit :: "gateway_config \<Rightarrow> 'w app \<Rightarrow> 'w app" where
  "size_limit c app rq = (case rq_length rq of
      None \<Rightarrow> app rq
    | Some raw \<Rightarrow> (case parse_int raw of
        None \<Rightarrow> raise (Other_Error (ValueError raw))
      | Some n \<Rightarrow> if gc_max_body c < n
          then ret (detail 413 (''Request body too large (max '' @ int_str (gc_max_body c) @ '' bytes)'')) else app rq))"

definition is_ascii :: "string \<Rightarrow> bool" where
  "is_ascii s \<longleftrightarrow> list_all (\<lambda>c. (of_char c :: nat) < 128) s"

text \<open>\<^verbatim>\<open>any(hmac.compare_digest(token, key) ...)\<close>; comparing text that is not ASCII raises.\<close>

fun any_key :: "string \<Rightarrow> string list \<Rightarrow> http_error + bool" where
  "any_key token [] = Inr False"
| "any_key token (k # ks) =
     (if \<not> is_ascii token \<or> \<not> is_ascii k then Inl (Other_Error (RuntimeError ''TypeError''))
      else if token = k then Inr True else any_key token ks)"

definition bearer :: "gw_request \<Rightarrow> string option" where
  "bearer rq = (let h = (case rq_auth rq of None \<Rightarrow> [] | Some h \<Rightarrow> h)
     in if has_prefix h ''Bearer '' then Some (drop 7 h) else None)"

definition bad_key :: response where
  "bad_key = detail 401 ''Invalid or missing API key''"

definition api_key_auth :: "gateway_config \<Rightarrow> 'w app \<Rightarrow> 'w app" where
  "api_key_auth c app rq =
     (if \<not> gc_auth_enabled c \<or> rq_path rq \<in> set auth_exempt_paths \<or> rq_method rq = ''OPTIONS'' then app rq
      else if api_keys c = []
      then if gc_environment c \<notin> {''dev'', ''test'', ''development''}
           then ret (detail 503 ''Service misconfigured: auth enabled with no keys'') else app rq
      else (case bearer rq of
          None \<Rightarrow> ret bad_key
        | Some token \<Rightarrow> chain (lift_sum (\<lambda>_. any_key token (api_keys c))) (\<lambda>found. if found then app rq else ret bad_key)))"

definition rate_key :: "gw_request \<Rightarrow> string" where
  "rate_key rq = (case bearer rq of
      Some (c # cs) \<Rightarrow> ''key:'' @ take 16 (c # cs)
    | _ \<Rightarrow> (case rq_client rq of Some h \<Rightarrow> ''ip:'' @ h | None \<Rightarrow> ''ip:unknown''))"

text \<open>The window of a key after pruning, and the decision: the seconds to wait, or the new window.\<close>

definition pruned :: "rat \<Rightarrow> rat list \<Rightarrow> rat list" where
  "pruned now ts = filter (\<lambda>t. now - 60 < t) ts"

definition retry_after :: "rat \<Rightarrow> rat list \<Rightarrow> int" where
  "retry_after now ts = py_int (60 - (now - hd ts)) + 1"

definition take_slot :: "int \<Rightarrow> rat \<Rightarrow> string \<Rightarrow> 'w gateway \<Rightarrow> int option \<times> 'w gateway" where
  "take_slot limit now k s =
     (let ts = pruned now (get_or [] (gw_windows s) k)
      in if limit \<le> int (length ts) then (Some (retry_after now ts), s\<lparr>gw_windows := AList.update k ts (gw_windows s)\<rparr>)
         else (None, s\<lparr>gw_windows := AList.update k (ts @ [now]) (gw_windows s)\<rparr>))"

definition rate_limit :: "'w gateway_env \<Rightarrow> 'w app \<Rightarrow> 'w app" where
  "rate_limit env app rq =
     (if rq_path rq \<in> set auth_exempt_paths \<or> gc_rate_limit (ge_config env) \<le> 0 then app rq
      else chain (beyond (ge_clock env)) (\<lambda>now s.
           case take_slot (gc_rate_limit (ge_config env)) now (rate_key rq) s of
             (Some wait, s') \<Rightarrow> (Inr (add_headers [(''Retry-After'', int_str wait)] (detail 429 ''Rate limit exceeded'')), s')
           | (None, s') \<Rightarrow> app rq s'))"

definition request_id :: "'w gateway_env \<Rightarrow> 'w app \<Rightarrow> 'w app" where
  "request_id env app rq =
     chain (case rq_id rq of Some (c # cs) \<Rightarrow> ret (c # cs) | _ \<Rightarrow> beyond (ge_uuid env)) (\<lambda>i.
     chain (app rq) (\<lambda>r. ret (add_headers [(''X-Request-ID'', i)] r)))"

text \<open>The order of registration: the last one added runs first.\<close>

definition gateway_app :: "'w gateway_env \<Rightarrow> (gw_request \<Rightarrow> gw_route) \<Rightarrow> 'w app" where
  "gateway_app env route_of =
     request_id env (rate_limit env (api_key_auth (ge_config env) (size_limit (ge_config env)
       (security_headers (ge_config env) (\<lambda>rq. exception_handlers (handle env (route_of rq) (rq_body rq)))))))"

end
