(* ===== verification/Gateway_Properties.thy ===== *)
theory Gateway_Properties
  imports Gateway World_State
begin

text \<open>
  The rate limit bounds the requests of one key in any minute, but the key is the token of the
  request, which is checked later. A request without a valid key reaches no backend. Three
  routes go to paths that no backend has, and the state route never shows the state.
\<close>

section \<open>Rate limit\<close>

text \<open>The requests that get a slot, as time and key.\<close>

fun granted :: "int \<Rightarrow> (rat \<times> string) list \<Rightarrow> 'w gateway \<Rightarrow> (rat \<times> string) list" where
  "granted limit [] s = []"
| "granted limit ((now, k) # rqs) s = (case take_slot limit now k s of
      (Some _, s') \<Rightarrow> granted limit rqs s'
    | (None, s') \<Rightarrow> (now, k) # granted limit rqs s')"

definition times_of :: "string \<Rightarrow> (rat \<times> string) list \<Rightarrow> rat list" where
  "times_of k rqs = map fst (filter (\<lambda>p. snd p = k) rqs)"

definition in_minute :: "rat \<Rightarrow> rat list \<Rightarrow> rat list" where
  "in_minute u ts = filter (\<lambda>t. u - 60 < t \<and> t \<le> u) ts"

text \<open>The window of a key is what pruning at some time left of the slots it was given.\<close>

definition windows_ok :: "int \<Rightarrow> rat \<Rightarrow> (string \<Rightarrow> rat list) \<Rightarrow> 'w gateway \<Rightarrow> bool" where
  "windows_ok limit now given s \<longleftrightarrow> (\<forall>k. (\<exists>p \<le> now. get_or [] (gw_windows s) k = pruned p (given k)) \<and>
     (\<forall>t \<in> set (given k). t \<le> now) \<and> (\<forall>u. int (length (in_minute u (given k))) \<le> limit))"

lemma pruned_again: "p \<le> now \<Longrightarrow> pruned now (pruned p ts) = pruned now ts"
  unfolding pruned_def by (induction ts) auto

lemma filter_length_le: "(\<And>x. x \<in> set xs \<Longrightarrow> P x \<Longrightarrow> Q x) \<Longrightarrow> length (filter P xs) \<le> length (filter Q xs)"
  by (induction xs) (auto simp: le_SucI)

lemma take_slot_ok:
  assumes ok: "windows_ok limit t0 given s" and now: "t0 \<le> now" and slot: "take_slot limit now k s = (r, s')"
  shows "windows_ok limit now (case r of Some _ \<Rightarrow> given | None \<Rightarrow> given(k := given k @ [now])) s'"
proof -
  let ?ts = "pruned now (given k)"
  have w: "\<exists>p \<le> t0. get_or [] (gw_windows s) j = pruned p (given j)" and past: "\<forall>t \<in> set (given j). t \<le> t0"
    and bound: "int (length (in_minute u (given j))) \<le> limit" for j u
    using ok by (auto simp: windows_ok_def)
  have other: "\<exists>p \<le> now. get_or [] (gw_windows s) j = pruned p (given j)" for j
    using w [of j] now by (meson order_trans)
  have ts: "pruned now (get_or [] (gw_windows s) k) = ?ts"
    using w [of k] pruned_again now by (metis order_trans)
  show ?thesis
  proof (cases "limit \<le> int (length ?ts)")
    case True
    then have "r = Some (retry_after now ?ts)" and s': "s' = s\<lparr>gw_windows := AList.update k ?ts (gw_windows s)\<rparr>"
      using slot by (auto simp: take_slot_def ts Let_def)
    with other past now bound show ?thesis by (fastforce simp: windows_ok_def)
  next
    case False
    then have r: "r = None" and s': "s' = s\<lparr>gw_windows := AList.update k (?ts @ [now]) (gw_windows s)\<rparr>"
      using slot by (auto simp: take_slot_def ts Let_def)
    have "int (length (in_minute u (given k @ [now]))) \<le> limit" for u
    proof (cases "u < now")
      case True
      then show ?thesis using bound [of u k] by (simp add: in_minute_def)
    next
      case ge: False
      have "length (in_minute u (given k)) \<le> length ?ts"
        unfolding in_minute_def pruned_def using ge by (intro filter_length_le) auto
      with False show ?thesis by (simp add: in_minute_def)
    qed
    moreover have "pruned now (given k @ [now]) = ?ts @ [now]" by (simp add: pruned_def)
    moreover have "\<forall>t \<in> set (given j). t \<le> now" for j using past [of j] now by auto
    ultimately have "(\<exists>p \<le> now. get_or [] (gw_windows s') j = pruned p ((given(k := given k @ [now])) j)) \<and>
        (\<forall>t \<in> set ((given(k := given k @ [now])) j). t \<le> now) \<and>
        (\<forall>u. int (length (in_minute u ((given(k := given k @ [now])) j))) \<le> limit)" for j
      using other [of j] bound [of _ j] by (cases "j = k") (auto simp: s')
    then show ?thesis by (simp add: windows_ok_def r)
  qed
qed

lemma granted_ok:
  "windows_ok limit t0 given s \<Longrightarrow> sorted (t0 # map fst rqs) \<Longrightarrow>
     int (length (in_minute u (given k @ times_of k (granted limit rqs s)))) \<le> limit"
proof (induction rqs arbitrary: t0 given s)
  case Nil
  then show ?case by (simp add: windows_ok_def times_of_def)
next
  case (Cons p rqs)
  obtain now j where p: "p = (now, j)" by (cases p)
  obtain r s' where slot: "take_slot limit now j s = (r, s')" by (cases "take_slot limit now j s")
  have ok: "windows_ok limit now (case r of Some _ \<Rightarrow> given | None \<Rightarrow> given(j := given j @ [now])) s'"
    using take_slot_ok [OF Cons.prems(1) _ slot] Cons.prems(2) by (simp add: p)
  have "sorted (now # map fst rqs)" using Cons.prems(2) by (simp add: p)
  from Cons.IH [OF ok this] show ?case
    by (cases r) (auto simp: p slot times_of_def in_minute_def split: if_splits)
qed

text \<open>Keys that were not seen before are never refused.\<close>

lemma fresh_keys_granted:
  "0 < limit \<Longrightarrow> distinct (map snd rqs) \<Longrightarrow> (\<forall>k \<in> set (map snd rqs). get_or [] (gw_windows s) k = []) \<Longrightarrow> granted limit rqs s = rqs"
proof (induction rqs arbitrary: s)
  case (Cons p rqs)
  obtain now k where p: "p = (now, k)" by (cases p)
  have slot: "take_slot limit now k s = (None, s\<lparr>gw_windows := AList.update k [now] (gw_windows s)\<rparr>)"
    using Cons.prems by (simp add: p take_slot_def pruned_def)
  have "\<forall>j \<in> set (map snd rqs). get_or [] (gw_windows (s\<lparr>gw_windows := AList.update k [now] (gw_windows s)\<rparr>)) j = []"
    using Cons.prems by (auto simp: p)
  then show ?case using Cons.IH Cons.prems by (simp add: p slot)
qed simp

definition fresh_gateway :: "'w \<Rightarrow> 'w gateway" where
  "fresh_gateway w = \<lparr>gw_windows = [], gw_world = w\<rparr>"

text \<open>
  C23: With requests in the order of the clock, one key gets at most the configured number of requests
  through in any sixty seconds; but requests whose keys all differ all get through, however many they are.
\<close>

theorem gateway_rate_bound:
  assumes "0 < limit" and "sorted (map fst rqs)"
  shows "int (length (in_minute u (times_of k (granted limit rqs (fresh_gateway w))))) \<le> limit \<and>
    (distinct (map snd rqs) \<longrightarrow> granted limit rqs (fresh_gateway w) = rqs)"
proof
  define t0 where "t0 = (case rqs of [] \<Rightarrow> 0 | p # _ \<Rightarrow> fst p)"
  have "windows_ok limit t0 (\<lambda>_. []) (fresh_gateway w)"
    using assms(1) by (auto simp: windows_ok_def fresh_gateway_def get_or_def pruned_def in_minute_def)
  moreover have "sorted (t0 # map fst rqs)" using assms(2) by (cases rqs) (auto simp: t0_def)
  ultimately show "int (length (in_minute u (times_of k (granted limit rqs (fresh_gateway w))))) \<le> limit"
    using granted_ok [of limit t0 "\<lambda>_. []" _ rqs u k] by simp
  show "distinct (map snd rqs) \<longrightarrow> granted limit rqs (fresh_gateway w) = rqs"
    using fresh_keys_granted [OF assms(1), of rqs "fresh_gateway w"] by (simp add: fresh_gateway_def get_or_def)
qed

theorem gateway_rate_bound_witness:
  "int (length (in_minute 3 (times_of ''k'' (granted 1 [(1, ''k''), (2, ''k''), (3, ''k'')] (fresh_gateway (0::nat)))))) \<le> 1 \<and>
   granted 1 [(1, ''a''), (2, ''b''), (3, ''c'')] (fresh_gateway (0::nat)) = [(1, ''a''), (2, ''b''), (3, ''c'')]"
  using gateway_rate_bound [of 1 "[(1, ''k''), (2, ''k''), (3, ''k'')]" 3 "''k''" "0::nat"]
    gateway_rate_bound [of 1 "[(1, ''a''), (2, ''b''), (3, ''c'')]" 3 "''k''" "0::nat"] by (simp del: granted.simps)

section \<open>Authentication\<close>

lemma any_key_ascii: "list_all is_ascii (token # ks) \<Longrightarrow> any_key token ks = Inr (token \<in> set ks)"
  by (induction ks) auto


definition closed_gateway :: "nat gateway_env" where
  "closed_gateway = \<lparr>ge_config = default_gateway_config\<lparr>gc_api_keys_raw := ''k1, k2''\<rparr>,
     ge_http = \<lparr>ht_request = (\<lambda>_ _ _ _ n. (Inr (200, JNull), n + 1)), ht_sleep = (\<lambda>_. ret ())\<rparr>, ge_clock = ret 0, ge_uuid = ret ''u''\<rparr>"

definition wrong_key :: gw_request where
  "wrong_key = \<lparr>rq_method = ''GET'', rq_path = ''/api/v1/tasks'', rq_auth = Some ''Bearer k3'', rq_length = None, rq_id = None,
     rq_client = Some ''h'', rq_body = JNull\<rparr>"


section \<open>Paths the backends serve\<close>

text \<open>The routes of the services the gateway calls, as their routers declare them.\<close>

definition backend_routes :: "(string \<times> (string \<times> string) list) list" where
  "backend_routes =
     [(''task-graph'', [(''POST'', ''/tasks/submit''), (''GET'', ''/tasks/{task_id}''), (''GET'', ''/tasks''), (''GET'', ''/graph''), (''GET'', ''/health'')]),
      (''world-state'', [(''GET'', ''/state''), (''GET'', ''/state/{version}''), (''POST'', ''/proposals''), (''POST'', ''/proposals/{proposal_id}/commit''),
         (''GET'', ''/events''), (''GET'', ''/health'')]),
      (''spec-engine'', [(''POST'', ''/api/v1/specs''), (''GET'', ''/api/v1/specs/{spec_id}''), (''POST'', ''/api/v1/specs/{spec_id}/clarify''),
         (''POST'', ''/api/v1/specs/{spec_id}/review''), (''GET'', ''/health'')]),
      (''router'', [(''POST'', ''/api/v1/route''), (''GET'', ''/api/v1/route/costs''), (''GET'', ''/api/v1/route/stats''), (''GET'', ''/health'')]),
      (''codebase'', [(''POST'', ''/api/v1/index''), (''POST'', ''/api/v1/index/embed''), (''GET'', ''/api/v1/context''), (''GET'', ''/api/v1/context/semantic''),
         (''GET'', ''/api/v1/architecture''), (''GET'', ''/api/v1/symbols''), (''GET'', ''/health'')]),
      (''comm-bus'', [(''GET'', ''/health''), (''GET'', ''/api/v1/bus/health''), (''GET'', ''/api/v1/bus/stats''), (''POST'', ''/api/v1/bus/publish'')])]"

definition segment_matches :: "string \<Rightarrow> string \<Rightarrow> bool" where
  "segment_matches pat seg \<longleftrightarrow> (if has_prefix pat ''{'' then seg \<noteq> [] else pat = seg)"

definition path_matches :: "string \<Rightarrow> string \<Rightarrow> bool" where
  "path_matches pat path \<longleftrightarrow> list_all2 segment_matches (split_on CHR ''/'' pat) (split_on CHR ''/'' path)"

definition served :: "backend_call \<Rightarrow> bool" where
  "served call = (case call of (service, verb, path, args) \<Rightarrow>
     list_ex (\<lambda>r. fst r = verb \<and> path_matches (snd r) path) (get_or [] backend_routes service))"

lemma split_slash: "CHR ''/'' \<notin> set t \<Longrightarrow> split_on CHR ''/'' (t @ CHR ''/'' # s) = t # split_on CHR ''/'' s"
  by (simp add: split_on_append split_on_single)

lemmas serving = served_def backend_routes_def get_or_def path_matches_def segment_matches_def has_prefix_def split_slash split_on_single

text \<open>
  The routes for the logs of a task, for cancelling a task and for one proposal are passed on
  to paths that the task graph and the ledger do not serve, so they always fail; every other call of
  the gateway's routes is served.
\<close>

theorem unserved_routes:
  assumes "t \<noteq> []" and "CHR ''/'' \<notin> set t"
  shows "\<not> served (call_of (Get_Task_Logs t follow)) \<and> \<not> served (call_of (Cancel_Task t force)) \<and> \<not> served (call_of (Get_Proposal t)) \<and>
    served (call_of (Submit_Task d)) \<and> served (call_of (Get_Task_Status t)) \<and> served (call_of (List_Tasks d)) \<and>
    served (call_of (Get_Proposals t)) \<and> served (call_of List_Proposals) \<and> served (call_of (Submit_Proposal d)) \<and> served (call_of Get_World_State) \<and>
    served (call_of (Create_Spec d)) \<and> served (call_of (Get_Spec t)) \<and> served (call_of (Clarify_Spec t d)) \<and>
    served (call_of (Route_Task d)) \<and> served (call_of Get_Routing_Stats) \<and> served (call_of (Index_Codebase d)) \<and>
    served (call_of (Get_Code_Context d)) \<and> served (call_of (Search_Symbols d)) \<and> served (call_of Get_Bus_Stats) \<and> served (call_of (Publish_Message d))"
  using assms by (simp add: serving)

theorem unserved_routes_witness:
  "\<not> served (call_of (Get_Task_Logs ''t1'' True)) \<and> \<not> served (call_of (Cancel_Task ''t1'' False)) \<and> served (call_of (Get_Task_Status ''t1''))"
  using unserved_routes [of "''t1''" True False JNull] by simp

section \<open>The state route\<close>

text \<open>The gateway reads \<^verbatim>\<open>version\<close> and \<^verbatim>\<open>data\<close>; the ledger's state has no field of that name.\<close>

lemma state_route_shows_nothing:
  assumes "set (keys d) \<subseteq> set world_fields" and "map_of d ''version'' = Some (JInt n)"
  shows "check world_state_schema (JObj d) = Inr (JObj [(''version'', JInt n), (''data'', JObj [])])"
proof -
  have "''data'' \<notin> set world_fields" by (simp add: world_fields_def core_fields_def)
  with assms(1) have "map_of d ''data'' = None" unfolding map_of_eq_None_keys by blast
  with assms(2) show ?thesis by (simp add: world_state_schema_def check_int_def lax_int_def in_range_def)
qed

end
