(* ===== verification/Websocket_Manager.thy ===== *)
theory Websocket_Manager
  imports Event_Streams Schema
begin

text \<open>
  The live connections of the dashboard (\<^verbatim>\<open>ws_manager.py\<close>), the socket endpoint with its
  token check (\<^verbatim>\<open>api/routes.py\<close>), and the event handlers that push to the connections
  (\<^verbatim>\<open>event_handlers.py\<close>, subscribed in \<^verbatim>\<open>service.py\<close>). A socket is a value of any type;
  what the clients get to see is a list of socket and message.
\<close>

record 'ws manager =
  wm_connections :: "'ws list"
  wm_max :: nat
  wm_sent :: "('ws \<times> json) list"
  wm_closed :: "('ws \<times> nat) list"

definition new_manager :: "nat \<Rightarrow> 'ws manager" where
  "new_manager limit = \<lparr>wm_connections = [], wm_max = limit, wm_sent = [], wm_closed = []\<rparr>"

text \<open>The set of connections, in the order they were added.\<close>

definition connect :: "'ws \<Rightarrow> 'ws manager \<Rightarrow> 'ws manager" where
  "connect ws m =
     (if wm_max m \<le> length (wm_connections m) then m\<lparr>wm_closed := wm_closed m @ [(ws, 4002)]\<rparr>
      else m\<lparr>wm_connections := List.insert ws (wm_connections m)\<rparr>)"

definition disconnect :: "'ws \<Rightarrow> 'ws manager \<Rightarrow> 'ws manager" where
  "disconnect ws m = m\<lparr>wm_connections := removeAll ws (wm_connections m)\<rparr>"

text \<open>
  The first half of a broadcast sends to a snapshot and finds the sockets that no longer
  answer (\<open>alive\<close>); the second half drops those from whatever is connected by then.
\<close>

definition broadcast_send :: "('ws \<Rightarrow> bool) \<Rightarrow> json \<Rightarrow> 'ws manager \<Rightarrow> 'ws list \<times> 'ws manager" where
  "broadcast_send alive msg m =
     (filter (\<lambda>ws. \<not> alive ws) (wm_connections m),
      m\<lparr>wm_sent := wm_sent m @ map (\<lambda>ws. (ws, msg)) (filter alive (wm_connections m))\<rparr>)"

definition drop_stale :: "'ws list \<Rightarrow> 'ws manager \<Rightarrow> 'ws manager" where
  "drop_stale stale m = m\<lparr>wm_connections := filter (\<lambda>ws. ws \<notin> set stale) (wm_connections m)\<rparr>"

definition broadcast :: "('ws \<Rightarrow> bool) \<Rightarrow> json \<Rightarrow> 'ws manager \<Rightarrow> 'ws manager" where
  "broadcast alive msg m = (case broadcast_send alive msg m of (stale, m') \<Rightarrow> drop_stale stale m')"

text \<open>The endpoint: the token of the query, and the one that is configured.\<close>

definition websocket_endpoint :: "string option \<Rightarrow> string option \<Rightarrow> 'ws \<Rightarrow> 'ws manager \<Rightarrow> 'ws manager" where
  "websocket_endpoint expected token ws m =
     (if token = None \<or> token = Some [] then m\<lparr>wm_closed := wm_closed m @ [(ws, 4001)]\<rparr>
      else if expected = None \<or> expected = Some [] then m\<lparr>wm_closed := wm_closed m @ [(ws, 4003)]\<rparr>
      else if token \<noteq> expected then m\<lparr>wm_closed := wm_closed m @ [(ws, 4001)]\<rparr>
      else connect ws m)"

definition opt_str :: "string option \<Rightarrow> json" where
  "opt_str s = (case s of None \<Rightarrow> JNull | Some x \<Rightarrow> JStr x)"

definition event_message :: "string \<Rightarrow> string \<Rightarrow> envelope \<Rightarrow> json" where
  "event_message now kind env = JObj [
     (''type'', JStr kind),
     (''data'', JObj [(''event_id'', JStr (en_event_id env)), (''event_type'', JStr (event_type_value (en_type env))),
        (''correlation_id'', opt_str (en_correlation env)), (''payload'', JObj (en_payload env))]),
     (''timestamp'', JStr now)]"

text \<open>Which handler the service subscribes for which type of event.\<close>

definition message_kind :: "EventType \<Rightarrow> string option" where
  "message_kind t =
     (if t \<in> {EventType.TASK_COMPLETED, EventType.TASK_FAILED} then Some ''system_event''
      else if t \<in> {EventType.ESCALATION_CREATED, EventType.ESCALATION_RESOLVED} then Some ''escalation_event'' else None)"

definition handle_event :: "('ws \<Rightarrow> bool) \<Rightarrow> string \<Rightarrow> envelope \<Rightarrow> 'ws manager \<Rightarrow> 'ws manager" where
  "handle_event alive now env m = (case message_kind (en_type env) of
      None \<Rightarrow> m
    | Some kind \<Rightarrow> broadcast alive (event_message now kind env) m)"

section \<open>The connections\<close>

datatype 'ws ws_event = Opens "string option" 'ws | Closes 'ws | Pushed "'ws \<Rightarrow> bool" json | Dropped "'ws list" | Event "'ws \<Rightarrow> bool" string envelope

definition ws_step :: "string option \<Rightarrow> 'ws ws_event \<Rightarrow> 'ws manager \<Rightarrow> 'ws manager" where
  "ws_step expected e m = (case e of
      Opens token ws \<Rightarrow> websocket_endpoint expected token ws m
    | Closes ws \<Rightarrow> disconnect ws m
    | Pushed alive msg \<Rightarrow> broadcast alive msg m
    | Dropped stale \<Rightarrow> drop_stale stale m
    | Event alive now env \<Rightarrow> handle_event alive now env m)"

definition manager_ok :: "'ws manager \<Rightarrow> bool" where
  "manager_ok m \<longleftrightarrow> distinct (wm_connections m) \<and> length (wm_connections m) \<le> wm_max m"

lemma removeAll_length: "length (removeAll x xs) \<le> length xs"
  by (simp add: removeAll_filter_not_eq)

lemma filter_le: "length xs \<le> n \<Longrightarrow> length (filter P xs) \<le> n"
  by (rule le_trans [OF length_filter_le])

lemma connect_ok: "manager_ok m \<Longrightarrow> manager_ok (connect ws m)"
  by (auto simp: manager_ok_def connect_def distinct_insert List.insert_def)

lemma drop_stale_ok: "manager_ok m \<Longrightarrow> manager_ok (drop_stale stale m)"
  by (simp add: manager_ok_def drop_stale_def filter_le)

lemma broadcast_ok: "manager_ok m \<Longrightarrow> manager_ok (broadcast alive msg m)"
  unfolding broadcast_def broadcast_send_def by (simp add: drop_stale_ok manager_ok_def) (simp add: drop_stale_def filter_le)

lemma ws_step_ok: "manager_ok m \<Longrightarrow> manager_ok (ws_step expected e m)"
proof (cases e)
  case (Closes ws)
  then show "manager_ok m \<Longrightarrow> manager_ok (ws_step expected e m)"
    by (auto simp: ws_step_def disconnect_def manager_ok_def intro: le_trans [OF removeAll_length] distinct_removeAll)
next
  case (Opens token ws)
  then show "manager_ok m \<Longrightarrow> manager_ok (ws_step expected e m)"
    by (auto simp: ws_step_def websocket_endpoint_def connect_ok) (auto simp: manager_ok_def)
qed (auto simp: ws_step_def handle_event_def broadcast_ok drop_stale_ok split: option.split)

text \<open>However requests arrive, no more sockets are connected than allowed, and none twice.\<close>

lemma connections_bounded:
  "distinct (wm_connections (fold (ws_step expected) evs (new_manager n))) \<and>
   length (wm_connections (fold (ws_step expected) evs (new_manager n))) \<le> n"
proof -
  have "manager_ok m \<Longrightarrow> manager_ok (fold (ws_step expected) evs m) \<and> wm_max (fold (ws_step expected) evs m) = wm_max m" for m
  proof (induction evs arbitrary: m)
    case (Cons e evs)
    have "wm_max (ws_step expected e m) = wm_max m"
      by (auto simp: ws_step_def websocket_endpoint_def connect_def disconnect_def broadcast_def broadcast_send_def drop_stale_def handle_event_def
          split: ws_event.split option.split)
    with Cons show ?case by (simp add: ws_step_ok)
  qed simp
  from this [of "new_manager n"] show ?thesis by (simp add: manager_ok_def new_manager_def)
qed

text \<open>Without the configured token nobody is connected, and nothing is sent to a socket that is not.\<close>

lemma no_token_no_connection:
  "expected = None \<or> expected = Some [] \<Longrightarrow> wm_connections m = [] \<Longrightarrow>
     wm_connections (fold (ws_step expected) evs m) = [] \<and> wm_sent (fold (ws_step expected) evs m) = wm_sent m"
proof (induction evs arbitrary: m)
  case (Cons e evs)
  then have "wm_connections (ws_step expected e m) = [] \<and> wm_sent (ws_step expected e m) = wm_sent m"
    by (auto simp: ws_step_def websocket_endpoint_def disconnect_def broadcast_def broadcast_send_def drop_stale_def handle_event_def
        split: ws_event.split option.split)
  with Cons show ?case by simp
qed simp

lemma broadcast_reaches:
  "(ws, msg) \<in> set (drop (length (wm_sent m)) (wm_sent (broadcast alive msg m))) \<longleftrightarrow> ws \<in> set (wm_connections m) \<and> alive ws"
  by (auto simp: broadcast_def broadcast_send_def drop_stale_def)

end
