(* ===== verification/Human_Interface.thy ===== *)
theory Human_Interface
  imports Gateway Websocket_Manager
begin

text \<open>
  The Human Interface: when to escalate (\<^verbatim>\<open>escalation.py\<close>), the routes for escalations and
  approval gates (\<^verbatim>\<open>api/routes.py\<close>) over the tables of \<^verbatim>\<open>escalation_repo.py\<close>, and the
  Temporal workflows and activities (\<^verbatim>\<open>temporal/\<close>). A table is the list of its rows; a
  request that fails writes nothing. Times are microseconds; the broadcasts that follow a
  change have no effect on the tables and are modelled in \<open>Websocket_Manager\<close>.
\<close>

section \<open>When to escalate\<close>

record escalation_decision =
  ed_confidence :: rat
  ed_security :: bool
  ed_cost :: "rat option"
  ed_fork :: bool

definition should_escalate :: "escalation_decision \<Rightarrow> rat \<Rightarrow> string" where
  "should_escalate d budget =
     (if ed_confidence d < 6/10 then ''escalate''
      else if ed_security d then ''escalate''
      else if (case ed_cost d of None \<Rightarrow> False | Some c \<Rightarrow> 0 < budget \<and> budget * (2/10) < c) then ''escalate''
      else if ed_fork d then ''escalate_with_options''
      else if ed_confidence d < 9/10 then ''proceed_with_flag'' else ''proceed'')"

section \<open>Rows\<close>

record escalation_option =
  eo_label :: string
  eo_description :: string
  eo_tradeoff :: string

record escalation_request =
  er_agent :: "string option"
  er_task :: "string option"
  er_correlation :: "string option"
  er_summary :: string
  er_category :: EscalationCategory
  er_severity :: EscalationSeverity
  er_options :: "escalation_option list"
  er_recommended :: "string option"
  er_reasoning :: "string option"
  er_risk :: "string option"
  er_confidence :: "rat option"
  er_security :: bool
  er_cost :: "rat option"
  er_expires :: "int option"

record escalation =
  el_id :: string
  el_request :: escalation_request
  el_status :: EscalationStatus
  el_resolved_by :: "string option"
  el_resolution :: "string option"
  el_details :: "json option"
  el_created :: int
  el_expires_at :: "int option"
  el_resolved_at :: "int option"

record gate_request =
  gr_action :: string
  gr_resource :: "string option"
  gr_required :: int
  gr_context :: "json option"
  gr_expires :: "int option"

record gate =
  ga_id :: string
  ga_request :: gate_request
  ga_approvals :: int
  ga_status :: ApprovalGateStatus
  ga_created :: int
  ga_expires_at :: int
  ga_resolved_at :: "int option"

datatype decision = Approve | Deny

record vote =
  vo_gate :: string
  vo_voter :: string
  vo_decision :: decision
  vo_comment :: "string option"

text \<open>The tables, and the escalations with a running timeout workflow.\<close>

record human_state =
  hs_escalations :: "escalation list"
  hs_gates :: "gate list"
  hs_votes :: "vote list"
  hs_timers :: "(string \<times> int) list"

definition empty_human :: human_state where
  "empty_human = \<lparr>hs_escalations = [], hs_gates = [], hs_votes = [], hs_timers = []\<rparr>"

definition minutes :: "int \<Rightarrow> int" where
  "minutes n = n * 60 * 1000000"

text \<open>\<^verbatim>\<open>x or default\<close>.\<close>

definition or_default :: "int option \<Rightarrow> int \<Rightarrow> int" where
  "or_default x d = (case x of Some n \<Rightarrow> if n \<noteq> 0 then n else d | None \<Rightarrow> d)"

definition unit_range :: "rat option \<Rightarrow> bool" where
  "unit_range x \<longleftrightarrow> (case x of None \<Rightarrow> True | Some q \<Rightarrow> 0 \<le> q \<and> q \<le> 1)"

section \<open>Escalations\<close>

definition new_escalation :: "int \<Rightarrow> int \<Rightarrow> string \<Rightarrow> escalation_request \<Rightarrow> escalation" where
  "new_escalation dflt now i r = \<lparr>el_id = i, el_request = r, el_status = EscalationStatus.PENDING, el_resolved_by = None, el_resolution = None,
     el_details = None, el_created = now, el_expires_at = Some (now + minutes (or_default (er_expires r) dflt)), el_resolved_at = None\<rparr>"

text \<open>\<open>later\<close> is the clock when the timeout workflow is started, \<open>temporal\<close> whether that succeeds.\<close>

definition create_escalation :: "int \<Rightarrow> int \<Rightarrow> int \<Rightarrow> string \<Rightarrow> bool \<Rightarrow> escalation_request \<Rightarrow> human_state \<Rightarrow> escalation reply \<times> human_state" where
  "create_escalation dflt now later i temporal r s =
     (if \<not> unit_range (er_confidence r) \<or> (case er_cost r of Some q \<Rightarrow> q < 0 | None \<Rightarrow> False) then (Http_Error 422 ''validation error'', s)
      else let e = new_escalation dflt now i r; deadline = now + minutes (or_default (er_expires r) dflt)
           in (Reply e, s\<lparr>hs_escalations := hs_escalations s @ [e],
                 hs_timers := hs_timers s @ (if temporal \<and> later < deadline then [(i, deadline)] else [])\<rparr>))"

definition find_escalation :: "string \<Rightarrow> human_state \<Rightarrow> escalation option" where
  "find_escalation i s = find (\<lambda>e. el_id e = i) (hs_escalations s)"

definition matches_filter :: "'a option \<Rightarrow> 'a \<Rightarrow> bool" where
  "matches_filter f x \<longleftrightarrow> (case f of None \<Rightarrow> True | Some y \<Rightarrow> x = y)"

definition list_escalations :: "EscalationStatus option \<Rightarrow> EscalationCategory option \<Rightarrow> EscalationSeverity option \<Rightarrow> nat \<Rightarrow> nat \<Rightarrow>
    human_state \<Rightarrow> escalation list reply" where
  "list_escalations st cat sev limit offset s =
     (if limit < 1 \<or> 1000 < limit then Http_Error 422 ''query''
      else Reply (page offset limit (sort_key (\<lambda>e. - el_created e)
        (filter (\<lambda>e. matches_filter st (el_status e) \<and> matches_filter cat (er_category (el_request e)) \<and> matches_filter sev (er_severity (el_request e)))
          (hs_escalations s)))))"

record escalation_stats =
  et_total :: nat
  et_pending :: nat
  et_resolved :: nat
  et_expired :: int

definition count_status :: "EscalationStatus \<Rightarrow> escalation list \<Rightarrow> nat" where
  "count_status st es = length (filter (\<lambda>e. el_status e = st) es)"

definition get_stats :: "human_state \<Rightarrow> escalation_stats" where
  "get_stats s = (let es = hs_escalations s; p = count_status EscalationStatus.PENDING es; r = count_status EscalationStatus.RESOLVED es
     in \<lparr>et_total = length es, et_pending = p, et_resolved = r, et_expired = int (length es) - int p - int r\<rparr>)"

definition get_escalation :: "string \<Rightarrow> human_state \<Rightarrow> escalation reply" where
  "get_escalation i s = (case find_escalation i s of None \<Rightarrow> Http_Error 404 ''Escalation not found'' | Some e \<Rightarrow> Reply e)"

text \<open>The update has no condition on the status of the row.\<close>

definition resolved_row :: "int \<Rightarrow> string \<Rightarrow> string \<Rightarrow> json option \<Rightarrow> escalation \<Rightarrow> escalation" where
  "resolved_row now who what details e = e\<lparr>el_status := EscalationStatus.RESOLVED, el_resolved_by := Some who, el_resolution := Some what,
     el_details := details, el_resolved_at := Some now\<rparr>"

definition identity_of :: "string option \<Rightarrow> string option \<Rightarrow> string option" where
  "identity_of header body = (case header of
      Some (c # cs) \<Rightarrow> Some (c # cs)
    | _ \<Rightarrow> (case body of Some (c # cs) \<Rightarrow> Some (c # cs) | _ \<Rightarrow> None))"

definition resolve_escalation :: "int \<Rightarrow> string \<Rightarrow> string option \<Rightarrow> string option \<Rightarrow> string \<Rightarrow> json option \<Rightarrow> human_state \<Rightarrow>
    escalation reply \<times> human_state" where
  "resolve_escalation now i header body what details s = (case identity_of header body of
      None \<Rightarrow> (Http_Error 401 ''Identity required: provide X-Authenticated-User header or resolved_by field'', s)
    | Some who \<Rightarrow>
        (case find_escalation i s of
           None \<Rightarrow> (Http_Error 404 ''Escalation not found'', s)
         | Some e \<Rightarrow> (Reply (resolved_row now who what details e),
             s\<lparr>hs_escalations := map (\<lambda>x. if el_id x = i then resolved_row now who what details x else x) (hs_escalations s)\<rparr>)))"

section \<open>Approval gates\<close>

definition new_gate :: "int \<Rightarrow> int \<Rightarrow> string \<Rightarrow> gate_request \<Rightarrow> gate" where
  "new_gate dflt now i r = \<lparr>ga_id = i, ga_request = r, ga_approvals = 0, ga_status = ApprovalGateStatus.PENDING,
     ga_created = now, ga_expires_at = now + minutes (or_default (gr_expires r) dflt), ga_resolved_at = None\<rparr>"

definition create_gate :: "int \<Rightarrow> int \<Rightarrow> string \<Rightarrow> gate_request \<Rightarrow> human_state \<Rightarrow> gate reply \<times> human_state" where
  "create_gate dflt now i r s =
     (if gr_required r < 1 then (Http_Error 422 ''validation error'', s)
      else let g = new_gate dflt now i r in (Reply g, s\<lparr>hs_gates := hs_gates s @ [g]\<rparr>))"

definition find_gate :: "string \<Rightarrow> human_state \<Rightarrow> gate option" where
  "find_gate i s = find (\<lambda>g. ga_id g = i) (hs_gates s)"

text \<open>Only the filter for pending gates is applied; any other status lists all gates.\<close>

definition list_gates :: "ApprovalGateStatus option \<Rightarrow> string option \<Rightarrow> nat \<Rightarrow> nat \<Rightarrow> human_state \<Rightarrow> gate list reply" where
  "list_gates st action limit offset s =
     (if limit < 1 \<or> 1000 < limit then Http_Error 422 ''query''
      else let newest = sort_key (\<lambda>g. - ga_created g) (filter (\<lambda>g. matches_filter action (gr_action (ga_request g))) (hs_gates s))
           in Reply (if st = Some ApprovalGateStatus.PENDING
                then take limit (filter (\<lambda>g. ga_status g = ApprovalGateStatus.PENDING) newest)
                else page offset limit newest))"

definition get_gate :: "string \<Rightarrow> human_state \<Rightarrow> gate reply" where
  "get_gate i s = (case find_gate i s of None \<Rightarrow> Http_Error 404 ''Approval gate not found'' | Some g \<Rightarrow> Reply g)"

text \<open>
  A vote is a transaction: it reads the gate and its votes, and writes the columns that
  changed. \<open>vote_read\<close> is the first part with its guards; \<open>counted\<close> is the object after the vote.
\<close>

definition vote_read :: "string \<Rightarrow> string \<Rightarrow> human_state \<Rightarrow> gate reply" where
  "vote_read i who s = (case find_gate i s of
      None \<Rightarrow> Http_Error 404 ''Approval gate not found''
    | Some g \<Rightarrow>
        if ga_status g \<noteq> ApprovalGateStatus.PENDING then Http_Error 400 ''Gate is no longer pending''
        else if list_ex (\<lambda>v. vo_gate v = i \<and> vo_voter v = who) (hs_votes s) then Http_Error 409 ''Voter has already voted on this gate''
        else Reply g)"

definition counted :: "int \<Rightarrow> decision \<Rightarrow> gate \<Rightarrow> gate" where
  "counted now d g = (case d of
      Approve \<Rightarrow>
        if gr_required (ga_request g) \<le> ga_approvals g + 1
        then g\<lparr>ga_approvals := ga_approvals g + 1, ga_status := ApprovalGateStatus.APPROVED, ga_resolved_at := Some now\<rparr>
        else g\<lparr>ga_approvals := ga_approvals g + 1\<rparr>
    | Deny \<Rightarrow> g\<lparr>ga_status := ApprovalGateStatus.DENIED, ga_resolved_at := Some now\<rparr>)"

text \<open>Writing back: the columns in which the new object differs from the one that was read.\<close>

definition flush_gate :: "gate \<Rightarrow> gate \<Rightarrow> gate \<Rightarrow> gate" where
  "flush_gate old new row = row\<lparr>
     ga_approvals := (if ga_approvals new \<noteq> ga_approvals old then ga_approvals new else ga_approvals row),
     ga_status := (if ga_status new \<noteq> ga_status old then ga_status new else ga_status row),
     ga_resolved_at := (if ga_resolved_at new \<noteq> ga_resolved_at old then ga_resolved_at new else ga_resolved_at row)\<rparr>"

definition vote_write :: "int \<Rightarrow> vote \<Rightarrow> gate \<Rightarrow> human_state \<Rightarrow> human_state" where
  "vote_write now v g s = s\<lparr>hs_votes := hs_votes s @ [v],
     hs_gates := map (\<lambda>x. if ga_id x = vo_gate v then flush_gate g (counted now (vo_decision v) g) x else x) (hs_gates s)\<rparr>"

definition cast_vote :: "int \<Rightarrow> string \<Rightarrow> string option \<Rightarrow> string option \<Rightarrow> decision \<Rightarrow> string option \<Rightarrow> human_state \<Rightarrow>
    gate reply \<times> human_state" where
  "cast_vote now i header body d comment s = (case identity_of header body of
      None \<Rightarrow> (Http_Error 401 ''Identity required: provide X-Authenticated-User header or voter field'', s)
    | Some who \<Rightarrow>
        (case vote_read i who s of
           Http_Error code msg \<Rightarrow> (Http_Error code msg, s)
         | Reply g \<Rightarrow> (Reply (counted now d g), vote_write now \<lparr>vo_gate = i, vo_voter = who, vo_decision = d, vo_comment = comment\<rparr> g s)))"

section \<open>Progress\<close>

definition percent_of :: "rat \<Rightarrow> rat \<Rightarrow> rat" where
  "percent_of done_tasks all_tasks = (if 0 < all_tasks then done_tasks / all_tasks * 100 else 0)"

definition number_in :: "string \<Rightarrow> json \<Rightarrow> exn + rat" where
  "number_in k j = (case obj_get j k of None \<Rightarrow> Inr 0 | Some v \<Rightarrow>
     (case number_of v of None \<Rightarrow> Inl (RuntimeError ''TypeError'') | Some q \<Rightarrow> Inr q))"

text \<open>From the bodies of the two requests, or the empty object where a request failed: completed, total, and the two percentages.\<close>

definition progress :: "json \<Rightarrow> json \<Rightarrow> exn + (rat \<times> rat \<times> rat \<times> rat)" where
  "progress task_data budget_data =
     bind_sum (number_in ''completed'' task_data) (\<lambda>c.
     bind_sum (number_in ''total'' task_data) (\<lambda>t.
     bind_sum (number_in ''consumed_pct'' budget_data) (\<lambda>b.
     Inr (c, t, py_round 1 (percent_of c t), py_round 1 b))))"

definition progress_calls :: "backend_call list" where
  "progress_calls = [(''task-graph'', ''GET'', ''/api/v1/tasks/stats'', JNull), (''economic-governor'', ''GET'', ''/api/v1/budget/status'', JNull)]"

definition fetched :: "http_error + nat \<times> json \<Rightarrow> json" where
  "fetched r = (case r of Inr (code, j) \<Rightarrow> if code = 200 then j else JObj [] | Inl _ \<Rightarrow> JObj [])"

section \<open>Workflows\<close>

text \<open>
  \<^verbatim>\<open>EscalationTimeoutWorkflow\<close> sleeps until the deadline and then resolves the escalation
  through the API, as \<^verbatim>\<open>system_timeout\<close>. Nothing ends the workflow before.
\<close>

definition expire_escalation :: "int \<Rightarrow> string \<Rightarrow> human_state \<Rightarrow> escalation reply \<times> human_state" where
  "expire_escalation now i s = resolve_escalation now i None (Some ''system_timeout'') ''expired'' None s"

definition timer_fires :: "int \<Rightarrow> string \<times> int \<Rightarrow> human_state \<Rightarrow> human_state" where
  "timer_fires now t s =
     (if t \<in> set (hs_timers s) \<and> snd t \<le> now
      then snd (expire_escalation now (fst t) (s\<lparr>hs_timers := filter (\<lambda>u. u \<noteq> t) (hs_timers s)\<rparr>)) else s)"

text \<open>\<^verbatim>\<open>ApprovalGateWorkflow\<close>: the signals before the wait ends, and its end.\<close>

record gate_vote =
  gv_decision :: string
  gv_required :: "int option"

record gate_workflow =
  gf_votes :: "gate_vote list"
  gf_resolved :: bool
  gf_status :: string

definition gate_workflow_init :: gate_workflow where
  "gate_workflow_init = \<lparr>gf_votes = [], gf_resolved = False, gf_status = ''pending''\<rparr>"

definition vote_signal :: "gate_vote \<Rightarrow> gate_workflow \<Rightarrow> gate_workflow" where
  "vote_signal v w =
     (let votes = gf_votes w @ [v]; w' = w\<lparr>gf_votes := votes\<rparr>; approvals = int (length (filter (\<lambda>x. gv_decision x = ''approve'') votes));
          required = (case gv_required v of None \<Rightarrow> 1 | Some n \<Rightarrow> n)
      in if gv_decision v = ''deny'' then w'\<lparr>gf_resolved := True, gf_status := ''denied''\<rparr>
         else if required \<le> approvals then w'\<lparr>gf_resolved := True, gf_status := ''approved''\<rparr> else w')"

text \<open>When the wait times out, the activity that resolves escalations is called with the id of the gate.\<close>

definition end_gate_workflow :: "int \<Rightarrow> string \<Rightarrow> gate_workflow \<Rightarrow> human_state \<Rightarrow> escalation reply option \<times> string \<times> human_state" where
  "end_gate_workflow now i w s =
     (if gf_resolved w then (None, gf_status w, s)
      else case resolve_escalation now i None (Some ''system_timeout'') ''expired'' None s of
        (r, s') \<Rightarrow> (Some r, ''expired'', s'))"

section \<open>Everything that can happen\<close>

datatype human_event =
    Escalation_Created int int int string bool escalation_request
  | Escalation_Resolved int string "string option" "string option" string "json option"
  | Timer_Fired int "string \<times> int"
  | Gate_Created int int string gate_request
  | Vote_Cast int string "string option" "string option" decision "string option"

definition human_step :: "human_event \<Rightarrow> human_state \<Rightarrow> human_state" where
  "human_step ev s = (case ev of
      Escalation_Created dflt now later i temporal r \<Rightarrow>
        if find_escalation i s = None then snd (create_escalation dflt now later i temporal r s) else s
    | Escalation_Resolved now i header body what details \<Rightarrow> snd (resolve_escalation now i header body what details s)
    | Timer_Fired now t \<Rightarrow> timer_fires now t s
    | Gate_Created dflt now i r \<Rightarrow> if find_gate i s = None then snd (create_gate dflt now i r s) else s
    | Vote_Cast now i header body d comment \<Rightarrow> snd (cast_vote now i header body d comment s))"

end
