(* ===== verification/Human_Properties.thy ===== *)
theory Human_Properties
  imports Human_Interface Gateway_Properties
begin

text \<open>
  What the Human Interface guarantees. Votes handled one after the other decide a gate exactly
  by the votes that are on record; votes whose transactions overlap do not. A human decision on
  an escalation is overwritten when the timeout workflow fires, and no escalation ever counts as expired.
\<close>

section \<open>Votes\<close>

definition votes_of :: "string \<Rightarrow> vote list \<Rightarrow> vote list" where
  "votes_of i vs = filter (\<lambda>v. vo_gate v = i) vs"

definition approvals_of :: "vote list \<Rightarrow> nat" where
  "approvals_of vs = length (filter (\<lambda>v. vo_decision v = Approve) vs)"

definition denied_in :: "vote list \<Rightarrow> bool" where
  "denied_in vs \<longleftrightarrow> list_ex (\<lambda>v. vo_decision v = Deny) vs"

definition verdict_of :: "int \<Rightarrow> vote list \<Rightarrow> ApprovalGateStatus" where
  "verdict_of required vs =
     (if denied_in vs then ApprovalGateStatus.DENIED
      else if required \<le> int (approvals_of vs) then ApprovalGateStatus.APPROVED else ApprovalGateStatus.PENDING)"

text \<open>What the votes on record say about a gate is what the gate says.\<close>

definition gate_ok :: "vote list \<Rightarrow> gate \<Rightarrow> bool" where
  "gate_ok vs g \<longleftrightarrow> (let own = votes_of (ga_id g) vs in
     1 \<le> gr_required (ga_request g) \<and> distinct (map vo_voter own) \<and> ga_approvals g = int (approvals_of own) \<and>
     ga_status g = verdict_of (gr_required (ga_request g)) own)"

definition gates_ok :: "human_state \<Rightarrow> bool" where
  "gates_ok s \<longleftrightarrow> list_all (gate_ok (hs_votes s)) (hs_gates s) \<and> distinct (map ga_id (hs_gates s)) \<and>
     list_all (\<lambda>v. vo_gate v \<in> set (map ga_id (hs_gates s))) (hs_votes s)"

lemma votes_of_snoc [simp]: "votes_of i (vs @ [v]) = (if vo_gate v = i then votes_of i vs @ [v] else votes_of i vs)"
  by (simp add: votes_of_def)

lemma approvals_of_snoc [simp]: "approvals_of (vs @ [v]) = approvals_of vs + (if vo_decision v = Approve then 1 else 0)"
  by (simp add: approvals_of_def)

lemma denied_in_snoc [simp]: "denied_in (vs @ [v]) \<longleftrightarrow> denied_in vs \<or> vo_decision v = Deny"
  by (auto simp: denied_in_def)

lemma no_votes: "list_all (\<lambda>v. vo_gate v \<in> A) vs \<Longrightarrow> i \<notin> A \<Longrightarrow> votes_of i vs = []"
  by (auto simp: votes_of_def list_all_iff filter_empty_conv)

lemma find_gate_None: "find_gate i s = None \<longleftrightarrow> i \<notin> set (map ga_id (hs_gates s))"
  by (auto simp: find_gate_def find_None_iff)

lemma find_gate_Some: "find_gate i s = Some g \<Longrightarrow> g \<in> set (hs_gates s) \<and> ga_id g = i"
  by (auto simp: find_gate_def find_Some_iff)

lemma find_append: "find P (xs @ ys) = (case find P xs of None \<Rightarrow> find P ys | Some x \<Rightarrow> Some x)"
  by (induction xs) simp_all

lemma counted_simps [simp]: "ga_id (counted now d g) = ga_id g" "ga_request (counted now d g) = ga_request g"
  by (simp_all add: counted_def split: decision.split)

lemma flush_id [simp]: "ga_id (flush_gate old new row) = ga_id row" "ga_request (flush_gate old new row) = ga_request row"
  by (simp_all add: flush_gate_def)

lemma flush_counted: "flush_gate g (counted now d g) g = counted now d g"
  by (simp add: counted_def flush_gate_def split: decision.split)

lemma counted_ok:
  assumes "gate_ok vs g" and "ga_status g = ApprovalGateStatus.PENDING" and "vo_gate v = ga_id g"
    and "\<not> list_ex (\<lambda>u. vo_gate u = ga_id g \<and> vo_voter u = vo_voter v) vs"
  shows "gate_ok (vs @ [v]) (counted now (vo_decision v) g)"
proof -
  have "vo_voter v \<notin> set (map vo_voter (votes_of (ga_id g) vs))"
    using assms(4) by (auto simp: votes_of_def list_ex_iff)
  with assms(1-3) show ?thesis
    by (cases "vo_decision v") (auto simp: gate_ok_def Let_def counted_def verdict_of_def split: if_splits)
qed

lemma gate_ok_other: "vo_gate v \<noteq> ga_id g \<Longrightarrow> gate_ok (vs @ [v]) g = gate_ok vs g"
  by (simp add: gate_ok_def Let_def)

lemma map_if_id: "map (\<lambda>x. ga_id (if ga_id x = i then flush_gate g c x else x)) gs = map ga_id gs"
  by (induction gs) auto

lemma vote_write_ok:
  assumes ok: "gates_ok s" and read: "vote_read i who s = Reply g"
  shows "gates_ok (vote_write now \<lparr>vo_gate = i, vo_voter = who, vo_decision = d, vo_comment = c\<rparr> g s)"
proof -
  let ?v = "\<lparr>vo_gate = i, vo_voter = who, vo_decision = d, vo_comment = c\<rparr>"
  from read have found: "find_gate i s = Some g" and pending: "ga_status g = ApprovalGateStatus.PENDING"
      and fresh: "\<not> list_ex (\<lambda>v. vo_gate v = i \<and> vo_voter v = who) (hs_votes s)"
    by (auto simp: vote_read_def split: option.splits if_splits)
  have g: "g \<in> set (hs_gates s)" "ga_id g = i" using find_gate_Some [OF found] by simp_all
  have unique: "x = g" if "x \<in> set (hs_gates s)" "ga_id x = i" for x
    using ok that g by (auto simp: gates_ok_def distinct_map inj_on_def)
  have "gate_ok (hs_votes s @ [?v]) (if ga_id x = i then flush_gate g (counted now d g) x else x)" if x: "x \<in> set (hs_gates s)" for x
  proof (cases "ga_id x = i")
    case True
    then have "x = g" using unique x by simp
    moreover have "gate_ok (hs_votes s) g" using ok g by (simp add: gates_ok_def list_all_iff)
    ultimately show ?thesis
      using counted_ok [of "hs_votes s" g ?v now] pending fresh g True by (simp add: flush_counted)
  next
    case False
    with ok x show ?thesis by (simp add: gates_ok_def list_all_iff gate_ok_other)
  qed
  then have "list_all (gate_ok (hs_votes s @ [?v])) (map (\<lambda>x. if ga_id x = i then flush_gate g (counted now d g) x else x) (hs_gates s))"
    by (fastforce simp: list_all_iff)
  moreover have "i \<in> ga_id ` set (hs_gates s)" using g by blast
  ultimately show ?thesis
    using ok unfolding gates_ok_def vote_write_def by (simp add: comp_def map_if_id cong: if_cong)
qed

lemma create_gate_ok:
  assumes "gates_ok s" and "find_gate i s = None"
  shows "gates_ok (snd (create_gate dflt now i r s))"
proof -
  have "votes_of i (hs_votes s) = []"
    using assms no_votes unfolding gates_ok_def find_gate_None by blast
  with assms show ?thesis
    by (auto simp: create_gate_def Let_def gates_ok_def new_gate_def gate_ok_def find_gate_None verdict_of_def
        denied_in_def approvals_of_def list_all_iff)
qed

lemma gates_ok_escalations [simp]: "gates_ok (s\<lparr>hs_escalations := es\<rparr>) = gates_ok s" "gates_ok (s\<lparr>hs_timers := ts\<rparr>) = gates_ok s"
  by (simp_all add: gates_ok_def)

lemma resolve_gates: "gates_ok (snd (resolve_escalation now i h b what d s)) = gates_ok s"
  by (simp add: resolve_escalation_def split: option.split)

lemma human_step_gates_ok: "gates_ok s \<Longrightarrow> gates_ok (human_step ev s)"
  by (auto simp: human_step_def create_gate_ok resolve_gates timer_fires_def expire_escalation_def cast_vote_def vote_write_ok
      create_escalation_def Let_def split: human_event.split option.split reply.split)

text \<open>
  C25: Whatever requests arrive, one after the other, the state of every approval gate is what the votes on
  record say: nobody has two votes, the count is the number of approvals, and the gate is denied
  if someone denied it, approved if enough approved, and pending otherwise.
\<close>

theorem gates_follow_votes: "gates_ok (fold human_step evs empty_human)"
proof -
  have "gates_ok s \<Longrightarrow> gates_ok (fold human_step evs s)" for s
    by (induction evs arbitrary: s) (auto simp: human_step_gates_ok)
  then show ?thesis by (simp add: gates_ok_def empty_human_def)
qed

text \<open>Once decided, a gate does not change any more.\<close>

lemma vote_write_other: "vo_gate v \<noteq> i \<Longrightarrow> find_gate i (vote_write now v g s) = find_gate i s"
proof -
  assume ne: "vo_gate v \<noteq> i"
  have "find (\<lambda>x. ga_id x = i) (map (\<lambda>x. if ga_id x = vo_gate v then flush_gate g c x else x) gs) = find (\<lambda>x. ga_id x = i) gs" for gs c
    using ne by (induction gs) auto
  then show ?thesis by (simp add: vote_write_def find_gate_def)
qed

lemma decided_gate_final:
  "find_gate i s = Some g \<Longrightarrow> ga_status g \<noteq> ApprovalGateStatus.PENDING \<Longrightarrow> find_gate i (fold human_step evs s) = Some g"
proof (induction evs arbitrary: s)
  case (Cons ev evs)
  have tables: "find_gate i (s\<lparr>hs_escalations := es, hs_timers := ts\<rparr>) = find_gate i s" "find_gate i (s\<lparr>hs_escalations := es\<rparr>) = find_gate i s"
    "find_gate i (s\<lparr>hs_timers := ts\<rparr>) = find_gate i s" for es ts s
    by (simp_all add: find_gate_def)
  have new: "find_gate i (s\<lparr>hs_gates := hs_gates s @ [x]\<rparr>) = Some g" for x
    using Cons.prems(1) by (simp add: find_gate_def find_append)
  have "find_gate i (human_step ev s) = Some g"
  proof (cases ev)
    case (Vote_Cast now j h b d c)
    then show ?thesis
      using Cons.prems by (cases "j = i") (auto simp: human_step_def cast_vote_def vote_read_def vote_write_other split: option.split reply.split)
  qed (use Cons.prems tables new in \<open>auto simp: human_step_def create_escalation_def create_gate_def Let_def resolve_escalation_def timer_fires_def
      expire_escalation_def split: option.split\<close>)
  with Cons show ?case by simp
qed simp

section \<open>Overlapping votes\<close>

definition two_voters :: gate_request where
  "two_voters = \<lparr>gr_action = ''deploy'', gr_resource = None, gr_required = 2, gr_context = None, gr_expires = None\<rparr>"

definition a_vote :: "string \<Rightarrow> decision \<Rightarrow> vote" where
  "a_vote who d = \<lparr>vo_gate = ''g'', vo_voter = who, vo_decision = d, vo_comment = None\<rparr>"

text \<open>Both transactions read the gate before either writes.\<close>

definition overlapping :: "int \<Rightarrow> decision \<Rightarrow> decision \<Rightarrow> gate option" where
  "overlapping required d1 d2 =
     (let s = snd (create_gate 60 0 ''g'' (two_voters\<lparr>gr_required := required\<rparr>) empty_human)
      in case (vote_read ''g'' ''ann'' s, vote_read ''g'' ''bob'' s) of
           (Reply g1, Reply g2) \<Rightarrow> find_gate ''g'' (vote_write 2 (a_vote ''bob'' d2) g2 (vote_write 1 (a_vote ''ann'' d1) g1 s))
         | _ \<Rightarrow> None)"

text \<open>
  Votes whose transactions overlap are lost: two approvals of a gate that needs two leave it
  pending with a count of one, and an approval that started before a denial was written turns
  the denied gate into an approved one.
\<close>

theorem overlapping_votes_lost:
  "map_option (\<lambda>g. (ga_approvals g, ga_status g)) (overlapping 2 Approve Approve) = Some (1, ApprovalGateStatus.PENDING) \<and>
   map_option ga_status (overlapping 1 Deny Approve) = Some ApprovalGateStatus.APPROVED"
  by code_simp

section \<open>Expiry\<close>

lemma find_escalation_map:
  "find_escalation i s = Some e \<Longrightarrow> (\<And>x. el_id (f x) = el_id x) \<Longrightarrow>
     find (\<lambda>x. el_id x = i) (map (\<lambda>x. if el_id x = i then f x else x) (hs_escalations s)) = Some (f e)"
proof -
  assume f: "\<And>x. el_id (f x) = el_id x"
  have "find (\<lambda>x. el_id x = i) es = Some e \<Longrightarrow> find (\<lambda>x. el_id x = i) (map (\<lambda>x. if el_id x = i then f x else x) es) = Some (f e)" for es
    by (induction es) (auto simp: f split: if_splits)
  then show "find_escalation i s = Some e \<Longrightarrow> ?thesis" by (simp add: find_escalation_def)
qed

lemma resolved_row_id [simp]: "el_id (resolved_row now who what d e) = el_id e"
  by (simp add: resolved_row_def)

lemma resolve_found:
  assumes "find_escalation i s = Some e" and "identity_of h b = Some who"
  shows "find_escalation i (snd (resolve_escalation now i h b what d s)) = Some (resolved_row now who what d e)"
  using assms find_escalation_map [OF assms(1), of "resolved_row now who what d"]
  by (simp add: resolve_escalation_def find_escalation_def)

lemma resolve_timers [simp]: "hs_timers (snd (resolve_escalation now i h b what d s)) = hs_timers s"
  by (simp add: resolve_escalation_def split: option.split)

text \<open>
  A human decision does not last: when the timeout workflow of the escalation fires after the decision, the
  resolution becomes \<^verbatim>\<open>expired\<close> by \<^verbatim>\<open>system_timeout\<close>, since resolving neither ends the workflow
  nor looks at the status.
\<close>

theorem human_decision_overwritten:
  assumes "find_escalation i s = None" and "unit_range (er_confidence r)" and "er_cost r = None"
    and "deadline = now + minutes (or_default (er_expires r) dflt)" and "later < deadline" and "deadline \<le> fire" and "who \<noteq> []"
    and "s1 = snd (create_escalation dflt now later i True r s)"
    and "s2 = snd (resolve_escalation t i (Some who) None what d s1)"
  shows "map_option (\<lambda>e. (el_resolved_by e, el_resolution e)) (find_escalation i s2) = Some (Some who, Some what) \<and>
    map_option (\<lambda>e. (el_resolved_by e, el_resolution e)) (find_escalation i (timer_fires fire (i, deadline) s2)) =
      Some (Some ''system_timeout'', Some ''expired'')"
proof -
  have s1: "find_escalation i s1 = Some (new_escalation dflt now i r)" "(i, deadline) \<in> set (hs_timers s1)"
    using assms(1-5,8) by (auto simp: create_escalation_def Let_def find_escalation_def find_append new_escalation_def)
  have who: "identity_of (Some who) None = Some who" using assms(7) by (cases who) (simp_all add: identity_of_def)
  have s2: "find_escalation i s2 = Some (resolved_row t who what d (new_escalation dflt now i r))"
    unfolding assms(9) by (rule resolve_found [OF s1(1) who])
  let ?s = "s2\<lparr>hs_timers := filter (\<lambda>u. u \<noteq> (i, deadline)) (hs_timers s2)\<rparr>"
  have "find_escalation i ?s = find_escalation i s2" by (simp add: find_escalation_def)
  then have "find_escalation i (snd (expire_escalation fire i ?s)) =
      Some (resolved_row fire ''system_timeout'' ''expired'' None (resolved_row t who what d (new_escalation dflt now i r)))"
    unfolding expire_escalation_def using s2 by (intro resolve_found) (simp_all add: identity_of_def)
  moreover have "(i, deadline) \<in> set (hs_timers s2)" using s1(2) assms(9) by simp
  ultimately show ?thesis using s2 assms(6) by (simp add: timer_fires_def resolved_row_def)
qed

definition plain_request :: escalation_request where
  "plain_request = \<lparr>er_agent = None, er_task = None, er_correlation = None, er_summary = ''s'', er_category = EscalationCategory.BUDGET,
     er_severity = EscalationSeverity.LOW, er_options = [], er_recommended = None, er_reasoning = None, er_risk = None, er_confidence = None,
     er_security = False, er_cost = None, er_expires = Some 1\<rparr>"

theorem human_decision_overwritten_witness:
  "map_option el_resolution (find_escalation ''e'' (timer_fires 60000000 (''e'', 60000000)
     (snd (resolve_escalation 5 ''e'' (Some ''ann'') None ''go'' None (snd (create_escalation 60 0 1 ''e'' True plain_request empty_human))))))
   = Some (Some ''expired'')"
  using human_decision_overwritten [of "''e''" empty_human plain_request 60000000 0 60 1 60000000 "''ann''", OF _ _ _ _ _ _ _ refl refl, of 5 "''go''" None]
  by (auto simp: find_escalation_def empty_human_def plain_request_def unit_range_def minutes_def or_default_def)

text \<open>No request marks an escalation as expired, so the statistics never count one.\<close>

definition no_expired :: "human_state \<Rightarrow> bool" where
  "no_expired s \<longleftrightarrow> list_all (\<lambda>e. el_status e = EscalationStatus.PENDING \<or> el_status e = EscalationStatus.RESOLVED) (hs_escalations s)"

lemma resolve_no_expired: "no_expired s \<Longrightarrow> no_expired (snd (resolve_escalation now i h b what d s))"
  by (auto simp: no_expired_def resolve_escalation_def list_all_iff resolved_row_def split: option.split)

lemma human_step_no_expired: "no_expired s \<Longrightarrow> no_expired (human_step ev s)"
proof (cases ev)
  case (Timer_Fired now t)
  have "no_expired s \<Longrightarrow> no_expired (s\<lparr>hs_timers := ts\<rparr>)" for ts by (simp add: no_expired_def)
  with Timer_Fired show "no_expired s \<Longrightarrow> no_expired (human_step ev s)"
    by (simp add: human_step_def timer_fires_def expire_escalation_def resolve_no_expired)
next
  case (Escalation_Resolved now i h b what d)
  then show "no_expired s \<Longrightarrow> no_expired (human_step ev s)" by (simp add: human_step_def resolve_no_expired)
qed (auto simp: human_step_def create_escalation_def create_gate_def Let_def new_escalation_def no_expired_def
    cast_vote_def vote_write_def split: option.split reply.split)

lemma count_pending_resolved:
  "list_all (\<lambda>e. el_status e = EscalationStatus.PENDING \<or> el_status e = EscalationStatus.RESOLVED) es \<Longrightarrow>
     count_status EscalationStatus.PENDING es + count_status EscalationStatus.RESOLVED es = length es"
  by (induction es) (auto simp: count_status_def)

lemma expired_never_counted: "et_expired (get_stats (fold human_step evs empty_human)) = 0"
proof -
  have "no_expired s \<Longrightarrow> no_expired (fold human_step evs s)" for s
    by (induction evs arbitrary: s) (auto simp: human_step_no_expired)
  then have "no_expired (fold human_step evs empty_human)" by (simp add: no_expired_def empty_human_def)
  then show ?thesis
    using count_pending_resolved [of "hs_escalations (fold human_step evs empty_human)"]
    by (simp add: no_expired_def get_stats_def Let_def)
qed

text \<open>A gate workflow that times out asks for an escalation with the id of the gate, which does not exist.\<close>

lemma gate_timeout_fails:
  "\<not> gf_resolved w \<Longrightarrow> find_escalation i s = None \<Longrightarrow>
     end_gate_workflow now i w s = (Some (Http_Error 404 ''Escalation not found''), ''expired'', s)"
  by (simp add: end_gate_workflow_def resolve_escalation_def identity_of_def)

text \<open>The task statistics the progress route asks for are served by no route of the task graph.\<close>

lemma progress_unserved: "\<not> served (hd progress_calls)"
  by code_simp

section \<open>When to escalate\<close>

definition urgency :: "string \<Rightarrow> nat" where
  "urgency action = (if action = ''escalate'' then 3 else if action = ''escalate_with_options'' then 2
     else if action = ''proceed_with_flag'' then 1 else 0)"

lemma should_escalate_monotone:
  "ed_confidence d' \<le> ed_confidence d \<Longrightarrow> (ed_security d \<longrightarrow> ed_security d') \<Longrightarrow> ed_cost d' = ed_cost d \<Longrightarrow> (ed_fork d \<longrightarrow> ed_fork d') \<Longrightarrow>
     urgency (should_escalate d budget) \<le> urgency (should_escalate d' budget)"
  by (auto simp: should_escalate_def urgency_def)

end
