(* ===== verification/Failure_Classifier.thy ===== *)
theory Failure_Classifier
  imports Text
begin

text \<open>
  The classifier of the Failure Taxonomy (\<^verbatim>\<open>classifier.py\<close>): rules over the text of a
  failure, the language model when the rules are not sure, and the reading of its answer. The
  model is an operation on the world from the two prompts to its reply; \<open>fc_show\<close> prints a float.
\<close>

section \<open>Requests and classifications\<close>

record class_request =
  cq_task :: string
  cq_agent :: "string option"
  cq_error :: string
  cq_stack :: "string option"
  cq_layer :: "string option"
  cq_report :: "json option"
  cq_code :: "string option"

record failure_class =
  fk_code :: FailureCode
  fk_confidence :: rat
  fk_summary :: string
  fk_cause :: "string option"
  fk_fix :: "string option"

definition plain_request :: "string \<Rightarrow> string \<Rightarrow> class_request" where
  "plain_request task err = \<lparr>cq_task = strip task, cq_agent = None, cq_error = strip err, cq_stack = None, cq_layer = None,
     cq_report = None, cq_code = None\<rparr>"

section \<open>Rules\<close>

definition dependency_rx :: rx where
  "dependency_rx = Grp 1 (alts [lit ''ImportError'', lit ''ModuleNotFoundError'', lit ''No module named''])"

definition syntax_rx :: rx where
  "syntax_rx = Grp 1 (alts [lit ''SyntaxError'', lit ''IndentationError'', lit ''TabError'', lit ''invalid syntax''])"

definition tool_rx :: rx where
  "tool_rx = Grp 1 (alts [lit ''CompilationError'', lit ''BuildError'', lit ''ToolError'', lit ''command not found'',
     seqs [lit ''subprocess'', many Dot, lit ''failed'']])"

definition security_rx :: rx where
  "security_rx = Grp 1 (alts [lit ''security'', lit ''vulnerability'', lit ''CVE-'', lit ''injection'', lit ''XSS'', lit ''CSRF'', lit ''unsafe'',
     lit ''insecure'', seqs [lit ''hardcoded'', many Dot, Grp 2 (alts [lit ''secret'', lit ''password'', lit ''key''])]])"

definition performance_rx :: rx where
  "performance_rx = Grp 1 (alts [lit ''performance'', lit ''regression'', lit ''slow'', lit ''timeout'', lit ''latency'', lit ''throughput'',
     seqs [lit ''memory'', many Dot, Grp 2 (alts [lit ''leak'', lit ''exceeded''])], lit ''OOM''])"

definition spec_rx :: rx where
  "spec_rx = Grp 1 (alts [seqs [lit ''spec'', many Dot, lit ''compliance''], seqs [lit ''specification'', many Dot, alts [lit ''fail'', lit ''violat'']],
     seqs [lit ''requirement'', many Dot, alts [lit ''miss'', lit ''unmet'']], seqs [lit ''ambiguous'', many Dot, lit ''spec'']])"

definition architecture_rx :: rx where
  "architecture_rx = Grp 1 (alts [lit ''architecture'', seqs [lit ''circular'', many Dot, alts [lit ''import'', lit ''dependency'']],
     seqs [lit ''layer'', many Dot, lit ''violation''], lit ''coupling'', seqs [lit ''service'', many Dot, lit ''import'', many Dot, lit ''service'']])"

definition hallucination_rx :: rx where
  "hallucination_rx = Grp 1 (alts [seqs [lit ''AttributeError'', many Dot, lit ''has no attribute''], seqs [lit ''NameError'', many Dot, lit ''not defined''],
     lit ''hallucin'', seqs [lit ''non'', optional (lit ''-''), lit ''existent'', many Dot, alts [lit ''api'', lit ''function'', lit ''method'', lit ''class'']],
     seqs [lit ''undefined'', many Dot, alts [lit ''reference'', lit ''symbol'']]])"

definition ux_rx :: rx where
  "ux_rx = Grp 1 (alts [lit ''UX'', seqs [lit ''user'', many Dot, lit ''experience''], lit ''taste'', lit ''aesthetic'', lit ''usability'',
     seqs [lit ''accessibility'', many Dot, lit ''fail'']])"

definition rule_patterns :: "(rx \<times> FailureCode \<times> string) list" where
  "rule_patterns = [
     (dependency_rx, F5_DEPENDENCY_ISSUE, ''Missing or unresolvable dependency''),
     (syntax_rx, F6_LOGIC_BUG, ''Syntax or compilation error in generated code''),
     (tool_rx, F4_TOOL_FAILURE, ''Build tool or external tool failure''),
     (security_rx, F9_SECURITY_VULN, ''Security vulnerability detected''),
     (performance_rx, F8_PERF_REGRESSION, ''Performance regression or resource issue''),
     (spec_rx, F1_SPEC_AMBIGUITY, ''Specification compliance failure or ambiguity''),
     (architecture_rx, F2_ARCHITECTURE_ERROR, ''Architecture or design constraint violation''),
     (hallucination_rx, F3_HALLUCINATION, ''Reference to non-existent API or fabricated code construct''),
     (ux_rx, F7_UX_REJECTION, ''UX quality or taste criteria not met'')]"

definition layer_defaults :: "(string \<times> FailureCode) list" where
  "layer_defaults = [(''compilation'', F6_LOGIC_BUG), (''unit_tests'', F6_LOGIC_BUG), (''integration_tests'', F6_LOGIC_BUG),
     (''adversarial'', F9_SECURITY_VULN), (''spec_compliance'', F1_SPEC_AMBIGUITY), (''architecture'', F2_ARCHITECTURE_ERROR),
     (''regression'', F8_PERF_REGRESSION)]"

definition opt_text :: "string option \<Rightarrow> string" where
  "opt_text x = (case x of None \<Rightarrow> [] | Some s \<Rightarrow> s)"

definition failure_text :: "class_request \<Rightarrow> string" where
  "failure_text r = join_with [CHR 0x0A] (filter (\<lambda>s. s \<noteq> []) [cq_error r, opt_text (cq_stack r), opt_text (cq_code r)])"

definition cause_of :: "class_request \<Rightarrow> string option" where
  "cause_of r = (if cq_error r = [] then None else Some (strip (take 500 (cq_error r))))"

definition layer_code :: "class_request \<Rightarrow> (string \<times> FailureCode) option" where
  "layer_code r = (case cq_layer r of None \<Rightarrow> None | Some l \<Rightarrow> map_option (Pair l) (map_of layer_defaults l))"

definition classify_by_rules :: "class_request \<Rightarrow> failure_class option" where
  "classify_by_rules r =
     (if failure_text r = []
      then map_option (\<lambda>(l, code). \<lparr>fk_code = code, fk_confidence = 1/2, fk_summary = ''Classified by eval layer: '' @ l, fk_cause = None, fk_fix = None\<rparr>)
             (layer_code r)
      else case find (\<lambda>(p, _). rx_found True p (failure_text r)) rule_patterns of
        Some (p, code, summary) \<Rightarrow>
          Some \<lparr>fk_code = code, fk_confidence = 85/100, fk_summary = summary, fk_cause = cause_of r, fk_fix = None\<rparr>
      | None \<Rightarrow>
          map_option (\<lambda>(l, code). \<lparr>fk_code = code, fk_confidence = 1/2, fk_summary = ''No pattern match; classified by eval layer: '' @ l,
             fk_cause = cause_of r, fk_fix = None\<rparr>) (layer_code r))"

section \<open>The language model\<close>

definition upper_char :: "char \<Rightarrow> char" where
  "upper_char c = (if 97 \<le> (of_char c :: nat) \<and> (of_char c :: nat) \<le> 122 then swap_case c else c)"

definition code_name :: "FailureCode \<Rightarrow> string" where
  "code_name code = map upper_char (failure_code_value code)"

definition system_prompt :: string where
  \<open>system_prompt =
     ''You are a failure classification expert for the ARCHITECT autonomous coding system. '' @
     ''Classify the given failure into exactly one failure code from the taxonomy.'' @ [CHR 0x0A, CHR 0x0A] @
     ''Failure codes:'' @ [CHR 0x0A] @
     join_with [CHR 0x0A] (map (\<lambda>code. ''- '' @ failure_code_value code @ '': '' @ code_name code) all_failure_code) @ [CHR 0x0A, CHR 0x0A] @
     ''Respond with valid JSON only, no markdown fences:'' @ [CHR 0x0A] @
     ''{"failure_code": "<code>", "confidence": <0.0-1.0>, '' @
     ''"summary": "<one-line summary>", "root_cause": "<root cause>", '' @
     ''"suggested_fix": "<fix suggestion>"}''\<close>

definition or_na :: "string option \<Rightarrow> string" where
  "or_na x = (if opt_text x = [] then ''N/A'' else opt_text x)"

definition user_input :: "string \<Rightarrow> string" where
  "user_input s = ''<user_input>'' @ s @ ''</user_input>''"

definition user_content :: "(rat \<Rightarrow> string) \<Rightarrow> class_request \<Rightarrow> failure_class option \<Rightarrow> string" where
  "user_content show_float r hint =
     ''Error message: '' @ user_input (cq_error r) @ [CHR 0x0A] @
     ''Stack trace: '' @ user_input (or_na (cq_stack r)) @ [CHR 0x0A] @
     ''Eval layer: '' @ or_na (cq_layer r) @ [CHR 0x0A] @
     ''Code context: '' @ user_input (or_na (cq_code r)) @
     (case hint of None \<Rightarrow> [] | Some k \<Rightarrow>
        [CHR 0x0A] @ ''Rule-based hint: '' @ failure_code_value (fk_code k) @ '' (confidence: '' @ show_float (fk_confidence k) @ '')'')"

text \<open>
  The reply: a JSON document, or else the first JSON object between code fences
  (\<^verbatim>\<open>re.DOTALL\<close>: the dot is any character).
\<close>

definition fence_rx :: rx where
  "fence_rx = seqs [lit ''```'', optional (lit ''json''), many (Cls False [Space]),
     Grp 1 (seqs [lit ''{'', Rep False 0 None (Cls True []), lit ''}'']), many (Cls False [Space]), lit ''```'']"

definition reply_json :: "string \<Rightarrow> exn + json" where
  "reply_json content = (case json_loads (strip content) of
      Some j \<Rightarrow> Inr j
    | None \<Rightarrow>
        (case rx_search False fence_rx content of
           None \<Rightarrow> Inl (ValueError ''JSONDecodeError'')
         | Some g \<Rightarrow> (case json_loads (get_or [] g 1) of None \<Rightarrow> Inl (ValueError ''JSONDecodeError'') | Some j \<Rightarrow> Inr j)))"

text \<open>A member of the taxonomy, or the first one whose value begins with the first two characters.\<close>

definition resolve_code :: "json \<Rightarrow> exn + FailureCode" where
  "resolve_code j = (case j of
      JStr s \<Rightarrow>
        (case failure_code_of s of
           Some code \<Rightarrow> Inr code
         | None \<Rightarrow>
             (case find (\<lambda>code. has_prefix (failure_code_value code) (take 2 (lower s))) all_failure_code of
                Some code \<Rightarrow> Inr code | None \<Rightarrow> Inr F6_LOGIC_BUG))
    | _ \<Rightarrow> Inl (AttributeError ''lower''))"

definition to_float :: "json \<Rightarrow> exn + rat" where
  "to_float j = (case lax_float j of Some q \<Rightarrow> Inr q
     | None \<Rightarrow> (case j of JStr s \<Rightarrow> Inl (ValueError ''could not convert string to float'') | _ \<Rightarrow> Inl (RuntimeError ''TypeError'')))"

definition opt_str_of :: "json \<Rightarrow> exn + string option" where
  "opt_str_of j = (case j of JNull \<Rightarrow> Inr None | JStr s \<Rightarrow> Inr (Some (strip s)) | _ \<Rightarrow> invalid)"

definition parse_llm_classification :: "(rat \<Rightarrow> string) \<Rightarrow> string \<Rightarrow> exn + failure_class" where
  "parse_llm_classification show_float content =
     bind_sum (reply_json content) (\<lambda>j. case j of
       JObj d \<Rightarrow>
         bind_sum (resolve_code (get_or (JStr ''f6_logic_bug'') d ''failure_code'')) (\<lambda>code.
         bind_sum (to_float (get_or (JFloat (6/10)) d ''confidence'')) (\<lambda>q.
         bind_sum (opt_str_of (get_or JNull d ''root_cause'')) (\<lambda>cause.
         bind_sum (opt_str_of (get_or JNull d ''suggested_fix'')) (\<lambda>fix.
         Inr \<lparr>fk_code = code, fk_confidence = min 1 (max 0 q),
              fk_summary = strip (py_str show_float (get_or (JStr ''LLM classification'') d ''summary'')), fk_cause = cause, fk_fix = fix\<rparr>))))
     | _ \<Rightarrow> Inl (AttributeError ''get''))"

section \<open>Classification\<close>

record 'w classifier =
  fc_threshold :: rat
  fc_use_llm :: bool
  fc_llm :: "(string \<Rightarrow> string \<Rightarrow> (exn, 'w, string) op) option"
  fc_show :: "rat \<Rightarrow> string"

definition classify_by_llm :: "'w classifier \<Rightarrow> (string \<Rightarrow> string \<Rightarrow> (exn, 'w, string) op) \<Rightarrow> class_request \<Rightarrow> failure_class option \<Rightarrow>
    (exn, 'w, failure_class) op" where
  "classify_by_llm c llm r hint =
     chain (llm system_prompt (user_content (fc_show c) r hint)) (\<lambda>content. lift_sum (\<lambda>_. parse_llm_classification (fc_show c) content))"

definition unclassified :: "class_request \<Rightarrow> failure_class" where
  "unclassified r = \<lparr>fk_code = F6_LOGIC_BUG, fk_confidence = 3/10, fk_summary = ''Unable to classify failure; defaulting to logic bug'',
     fk_cause = cause_of r, fk_fix = None\<rparr>"

definition fallback :: "class_request \<Rightarrow> failure_class" where
  "fallback r = (case classify_by_rules r of Some k \<Rightarrow> k | None \<Rightarrow> unclassified r)"

definition sure_enough :: "'w classifier \<Rightarrow> class_request \<Rightarrow> bool" where
  "sure_enough c r \<longleftrightarrow> (case classify_by_rules r of None \<Rightarrow> False | Some k \<Rightarrow> fc_threshold c \<le> fk_confidence k)"

definition classify :: "'w classifier \<Rightarrow> class_request \<Rightarrow> (exn, 'w, failure_class) op" where
  "classify c r =
     (if sure_enough c r then ret (fallback r)
      else case fc_llm c of
        Some llm \<Rightarrow> if fc_use_llm c then attempt (classify_by_llm c llm r (classify_by_rules r)) (\<lambda>_. ret (fallback r)) else ret (fallback r)
      | None \<Rightarrow> ret (fallback r))"

end
