(* ===== verification/Failure_Taxonomy.thy ===== *)
theory Failure_Taxonomy
  imports Failure_Classifier Schema
begin

text \<open>
  The Failure Taxonomy around its classifier: the tables (\<^verbatim>\<open>failure_repo.py\<close> over
  \<^verbatim>\<open>models/failure.py\<close>), the event handlers, the post-mortem analyzer, the routes, and the
  Temporal activities and workflows. A table is the list of its rows, newest created last; the
  language model, the publisher and the source of identifiers are operations on the world. A
  session that fails writes nothing, and simulation is the stub the service ships.
\<close>

section \<open>Tables\<close>

record failure_record =
  fr_id :: string
  fr_task :: string
  fr_agent :: "string option"
  fr_project :: "string option"
  fr_code :: FailureCode
  fr_severity :: string
  fr_summary :: string
  fr_cause :: "string option"
  fr_layer :: "string option"
  fr_error :: "string option"
  fr_stack :: "string option"
  fr_classified_by :: string
  fr_confidence :: rat
  fr_resolved :: bool
  fr_created :: int

record post_mortem =
  pm_id :: string
  pm_project :: string
  pm_task :: "string option"
  pm_status :: PostMortemStatus
  pm_count :: nat
  pm_breakdown :: "(FailureCode \<times> nat) list"
  pm_causes :: "string list"
  pm_prompts :: "json list"
  pm_tests :: "json list"
  pm_heuristics :: "json list"
  pm_topology :: "json list"
  pm_created :: int
  pm_completed :: "int option"

record improvement =
  im_id :: string
  im_post_mortem :: string
  im_type :: ImprovementType
  im_description :: string
  im_content :: json
  im_applied :: bool
  im_applied_at :: "int option"
  im_created :: int

record simulation =
  si_id :: string
  si_source_type :: string
  si_source_ref :: string
  si_status :: string
  si_injected :: int
  si_detected :: int
  si_rate :: rat
  si_missed :: "string list"

record failure_tables =
  ft_failures :: "failure_record list"
  ft_post_mortems :: "post_mortem list"
  ft_improvements :: "improvement list"
  ft_simulations :: "simulation list"

definition empty_tables :: failure_tables where
  "empty_tables = \<lparr>ft_failures = [], ft_post_mortems = [], ft_improvements = [], ft_simulations = []\<rparr>"

text \<open>\<^verbatim>\<open>order_by(created_at.desc()).limit(n)\<close>.\<close>

definition newest :: "('a \<Rightarrow> int) \<Rightarrow> nat \<Rightarrow> 'a list \<Rightarrow> 'a list" where
  "newest created limit rows = take limit (sort_key (\<lambda>r. - created r) rows)"

definition failures_by_project :: "string \<Rightarrow> nat \<Rightarrow> failure_tables \<Rightarrow> failure_record list" where
  "failures_by_project p limit t = newest fr_created limit (filter (\<lambda>r. fr_project r = Some p) (ft_failures t))"

definition recent_failures :: "nat \<Rightarrow> failure_tables \<Rightarrow> failure_record list" where
  "recent_failures limit t = newest fr_created limit (ft_failures t)"

definition stats_by_code :: "failure_tables \<Rightarrow> (FailureCode \<times> nat) list" where
  "stats_by_code t = map (\<lambda>c. (c, length (filter (\<lambda>r. fr_code r = c) (ft_failures t)))) (remdups (map fr_code (ft_failures t)))"

definition stats_total :: "failure_tables \<Rightarrow> nat" where
  "stats_total t = sum_list (map snd (stats_by_code t))"

definition unapplied :: "nat \<Rightarrow> failure_tables \<Rightarrow> improvement list" where
  "unapplied limit t = newest im_created limit (filter (\<lambda>i. \<not> im_applied i) (ft_improvements t))"

definition mark_applied :: "int \<Rightarrow> string \<Rightarrow> failure_tables \<Rightarrow> improvement option \<times> failure_tables" where
  "mark_applied now i t =
     (let mark = (\<lambda>x. if im_id x = i then x\<lparr>im_applied := True, im_applied_at := Some now\<rparr> else x)
      in (find (\<lambda>x. im_id x = i) (map mark (ft_improvements t)), t\<lparr>ft_improvements := map mark (ft_improvements t)\<rparr>))"

section \<open>Environment\<close>

record 'w taxonomy =
  tx_tables :: failure_tables
  tx_world :: 'w

record 'w taxonomy_env =
  te_classifier :: "'w classifier"
  te_new_id :: "string \<Rightarrow> (exn, 'w, string) op"
  te_now :: "(exn, 'w, int) op"
  te_publish :: "EventType \<Rightarrow> json \<Rightarrow> (exn, 'w, unit) op"
  te_commit :: "(exn, 'w, unit) op"

definition on_world :: "(exn, 'w, 'a) op \<Rightarrow> (exn, 'w taxonomy, 'a) op" where
  "on_world = zoom tx_world (\<lambda>w s. s\<lparr>tx_world := w\<rparr>)"

definition write_tables :: "(failure_tables \<Rightarrow> failure_tables) \<Rightarrow> (exn, 'w taxonomy, unit) op" where
  "write_tables f = writes (\<lambda>s. s\<lparr>tx_tables := f (tx_tables s)\<rparr>)"

definition severity_for_code :: "FailureCode \<Rightarrow> string" where
  "severity_for_code c =
     (if c = F9_SECURITY_VULN then ''critical''
      else if c = F2_ARCHITECTURE_ERROR \<or> c = F3_HALLUCINATION then ''high''
      else if c = F7_UX_REJECTION then ''low'' else ''medium'')"

definition clipped :: "nat \<Rightarrow> string option \<Rightarrow> string option" where
  "clipped n x = (if opt_text x = [] then None else Some (take n (opt_text x)))"

definition failure_row :: "string \<Rightarrow> int \<Rightarrow> string \<Rightarrow> class_request \<Rightarrow> failure_class \<Rightarrow> failure_record" where
  "failure_row i now severity r k = \<lparr>fr_id = i, fr_task = cq_task r, fr_agent = cq_agent r, fr_project = None, fr_code = fk_code k,
     fr_severity = severity, fr_summary = fk_summary k, fr_cause = fk_cause k, fr_layer = cq_layer r,
     fr_error = clipped 2000 (Some (cq_error r)), fr_stack = clipped 5000 (cq_stack r), fr_classified_by = ''auto'',
     fr_confidence = fk_confidence k, fr_resolved = False, fr_created = now\<rparr>"

text \<open>Adding rows in one session: nothing is written unless the commit succeeds.\<close>

definition commit_rows :: "'w taxonomy_env \<Rightarrow> (failure_tables \<Rightarrow> failure_tables) \<Rightarrow> (exn, 'w taxonomy, unit) op" where
  "commit_rows env f = chain (on_world (te_commit env)) (\<lambda>_. write_tables f)"

definition store_failure :: "'w taxonomy_env \<Rightarrow> string \<Rightarrow> class_request \<Rightarrow> failure_class \<Rightarrow> (exn, 'w taxonomy, failure_record) op" where
  "store_failure env severity r k =
     chain (on_world (te_new_id env ''fail'')) (\<lambda>i.
     chain (on_world (te_now env)) (\<lambda>now.
     let row = failure_row i now severity r k
     in chain (commit_rows env (\<lambda>t. t\<lparr>ft_failures := ft_failures t @ [row]\<rparr>)) (\<lambda>_. ret row)))"

section \<open>Event handlers\<close>

definition classified_payload :: "failure_record \<Rightarrow> json" where
  "classified_payload row = JObj [(''failure_record_id'', JStr (strip (fr_id row))), (''task_id'', JStr (strip (fr_task row))),
     (''failure_code'', JStr (failure_code_value (fr_code row))), (''confidence'', JFloat (fr_confidence row))]"

text \<open>Every exception is caught and logged.\<close>

definition classify_and_persist :: "'w taxonomy_env \<Rightarrow> class_request \<Rightarrow> (exn, 'w taxonomy, unit) op" where
  "classify_and_persist env r =
     attempt (chain (on_world (classify (te_classifier env) r)) (\<lambda>k.
              chain (store_failure env (severity_for_code (fk_code k)) r k) (\<lambda>row.
              on_world (te_publish env EventType.FAILURE_CLASSIFIED (classified_payload row)))))
       (\<lambda>_. ret ())"

type_synonym payload = "(string \<times> json) list"

definition text_at :: "(rat \<Rightarrow> string) \<Rightarrow> payload \<Rightarrow> string \<Rightarrow> string \<Rightarrow> string" where
  "text_at show_float d k dflt = py_str show_float (get_or (JStr dflt) d k)"

definition failing_entry :: "json \<Rightarrow> payload option" where
  "failing_entry x = (case x of
      JObj l \<Rightarrow> if map_of l ''verdict'' \<in> {Some (JStr ''fail_hard''), Some (JStr ''fail_soft'')} then Some l else None
    | _ \<Rightarrow> None)"

definition failing_layers :: "payload \<Rightarrow> payload list" where
  "failing_layers d = (case get_or (JArr []) d ''layer_results'' of JArr xs \<Rightarrow> List.map_filter failing_entry xs | _ \<Rightarrow> [])"

definition layer_messages :: "(rat \<Rightarrow> string) \<Rightarrow> payload list \<Rightarrow> string list" where
  "layer_messages show_float ls =
     map (py_str show_float) (filter truthy (map (\<lambda>l. get_or (JStr []) l ''message'') ls))"

text \<open>The layer of the last failing entry.\<close>

definition failing_layer :: "payload list \<Rightarrow> exn + string option" where
  "failing_layer ls = (if ls = [] then Inr None else opt_str_of (get_or JNull (last ls) ''layer''))"

definition eval_request :: "(rat \<Rightarrow> string) \<Rightarrow> payload \<Rightarrow> exn + class_request option" where
  "eval_request show_float d = (case get_or (JStr []) d ''verdict'' of
      JStr v \<Rightarrow>
        if v \<noteq> ''fail_hard'' \<and> v \<noteq> ''fail_soft'' then Inr None
        else let ls = failing_layers d; ms = layer_messages show_float ls
          in bind_sum (failing_layer ls) (\<lambda>l.
             Inr (Some ((plain_request (text_at show_float d ''task_id'' [])
                  (if ms \<noteq> [] then join_with [CHR 0x0A] ms else ''Evaluation failed: '' @ v))
               \<lparr>cq_layer := l, cq_report := Some (JObj [(''layer_results'', case get_or (JArr []) d ''layer_results'' of JArr xs \<Rightarrow> JArr xs | _ \<Rightarrow> JArr [])])\<rparr>)))
    | _ \<Rightarrow> Inr None)"

definition handle_eval_completed :: "'w taxonomy_env \<Rightarrow> payload \<Rightarrow> (exn, 'w taxonomy, unit) op" where
  "handle_eval_completed env d =
     chain (lift_sum (\<lambda>_. eval_request (fc_show (te_classifier env)) d)) (\<lambda>r.
       case r of None \<Rightarrow> ret () | Some q \<Rightarrow> classify_and_persist env q)"

definition handle_task_failed :: "'w taxonomy_env \<Rightarrow> payload \<Rightarrow> (exn, 'w taxonomy, unit) op" where
  "handle_task_failed env d =
     (let text = text_at (fc_show (te_classifier env)) d; agent = text ''agent_id'' []
      in classify_and_persist env ((plain_request (text ''task_id'' []) (text ''error_message'' ''Task failed''))
           \<lparr>cq_agent := if agent = [] then None else Some (strip agent)\<rparr>))"

definition handle_rolled_back :: "'w taxonomy_env \<Rightarrow> payload \<Rightarrow> (exn, 'w taxonomy, unit) op" where
  "handle_rolled_back env d =
     (let text = text_at (fc_show (te_classifier env)) d
      in classify_and_persist env (plain_request (text ''deployment_id'' []) (''Deployment rolled back: '' @ text ''reason'' ''deployment_rolled_back'')))"

text \<open>The subscriptions of the service.\<close>

definition taxonomy_handler :: "'w taxonomy_env \<Rightarrow> EventType \<Rightarrow> (payload \<Rightarrow> (exn, 'w taxonomy, unit) op) option" where
  "taxonomy_handler env t =
     (if t = EventType.EVAL_COMPLETED then Some (handle_eval_completed env)
      else if t = EventType.TASK_FAILED then Some (handle_task_failed env)
      else if t = EventType.DEPLOYMENT_ROLLED_BACK then Some (handle_rolled_back env) else None)"

section \<open>Post-mortem analysis\<close>

definition prompt_improvement :: fields where
  "prompt_improvement = FCons ''target_agent_type'' SStr (Some (JStr ''coder'')) (FCons ''current_prompt_excerpt'' SStr (Some (JStr []))
    (FCons ''suggested_change'' SStr (Some (JStr [])) (FCons ''rationale'' SStr (Some (JStr [])) FNil)))"

definition adversarial_test :: fields where
  "adversarial_test = FCons ''test_name'' SStr (Some (JStr [])) (FCons ''test_description'' SStr (Some (JStr []))
    (FCons ''attack_vector'' SStr (Some (JStr [])) (FCons ''expected_behavior'' SStr (Some (JStr [])) FNil)))"

definition heuristic_update :: fields where
  "heuristic_update = FCons ''domain'' SStr (Some (JStr [])) (FCons ''condition'' SStr (Some (JStr []))
    (FCons ''action'' SStr (Some (JStr [])) (FCons ''source_failure_codes'' (SList (SEnum (map failure_code_value all_failure_code))) (Some (JArr [])) FNil)))"

definition topology_recommendation :: fields where
  "topology_recommendation = FCons ''recommendation'' SStr (Some (JStr [])) (FCons ''rationale'' SStr (Some (JStr []))
    (FCons ''estimated_impact'' SStr (Some (JStr [])) FNil))"

text \<open>\<^verbatim>\<open>for x in j\<close>.\<close>

definition iterate :: "json \<Rightarrow> exn + json list" where
  "iterate j = (case j of
      JArr xs \<Rightarrow> Inr xs | JObj d \<Rightarrow> Inr (map (JStr \<circ> fst) d) | JStr s \<Rightarrow> Inr (map (\<lambda>c. JStr [c]) s)
    | _ \<Rightarrow> Inl (RuntimeError ''TypeError''))"

definition objects_of :: "json list \<Rightarrow> payload list" where
  "objects_of xs = List.map_filter (\<lambda>x. case x of JObj d \<Rightarrow> Some d | _ \<Rightarrow> None) xs"

definition parse_each :: "fields \<Rightarrow> (payload \<Rightarrow> exn + payload) \<Rightarrow> payload \<Rightarrow> string \<Rightarrow> exn + payload list" where
  "parse_each fs prepare d k =
     bind_sum (iterate (get_or (JArr []) d k)) (\<lambda>xs.
     map_sum_list (\<lambda>ob. bind_sum (prepare ob) (check_fields fs)) (objects_of xs))"

text \<open>The failure codes that are none are dropped before the object is built.\<close>

definition known_codes :: "payload \<Rightarrow> exn + payload" where
  "known_codes d =
     bind_sum (iterate (get_or (JArr []) d ''source_failure_codes'')) (\<lambda>xs.
     Inr (AList.update ''source_failure_codes'' (JArr (filter (\<lambda>x. x \<in> set (map (JStr \<circ> failure_code_value) all_failure_code)) xs)) d))"

record improvements =
  is_prompts :: "payload list"
  is_tests :: "payload list"
  is_heuristics :: "payload list"
  is_topology :: "payload list"

definition no_improvements :: improvements where
  "no_improvements = \<lparr>is_prompts = [], is_tests = [], is_heuristics = [], is_topology = []\<rparr>"

definition parse_improvements :: "string \<Rightarrow> exn + improvements" where
  "parse_improvements content =
     bind_sum (reply_json content) (\<lambda>j. case j of
       JObj d \<Rightarrow>
         bind_sum (parse_each prompt_improvement Inr d ''prompt_improvements'') (\<lambda>ps.
         bind_sum (parse_each adversarial_test Inr d ''adversarial_tests'') (\<lambda>ts.
         bind_sum (parse_each heuristic_update known_codes d ''heuristic_updates'') (\<lambda>hs.
         bind_sum (parse_each topology_recommendation Inr d ''topology_recommendations'') (\<lambda>rs.
         Inr \<lparr>is_prompts = ps, is_tests = ts, is_heuristics = hs, is_topology = rs\<rparr>))))
     | _ \<Rightarrow> Inl (AttributeError ''get''))"

definition failure_counts :: "failure_record list \<Rightarrow> (FailureCode \<times> nat) list" where
  "failure_counts rs = foldl (\<lambda>d r. AList.update (fr_code r) (get_or 0 d (fr_code r) + 1) d) [] rs"

definition root_causes :: "failure_record list \<Rightarrow> string list" where
  "root_causes rs = filter (\<lambda>s. s \<noteq> []) (map (opt_text \<circ> fr_cause) rs)"

definition analysis_content :: "string \<Rightarrow> failure_record list \<Rightarrow> string" where
  "analysis_content project rs =
     ''Project: '' @ project @ [CHR 0x0A] @
     ''Failure summary: '' @ join_with '', '' (map (\<lambda>(c, n). failure_code_value c @ '': '' @ nat_str n) (failure_counts rs)) @ [CHR 0x0A, CHR 0x0A] @
     ''Failures:'' @ [CHR 0x0A] @ user_input (join_with [CHR 0x0A]
       (map (\<lambda>r. ''- ['' @ failure_code_value (fr_code r) @ ''] '' @ fr_summary r @ '' (severity='' @ fr_severity r @ '')'') (take 50 rs)))"

text \<open>The analyzer's system prompt is fixed text and belongs to the parameter.\<close>

record 'w analysis_env =
  ae_llm :: "(string \<Rightarrow> (exn, 'w, string) op) option"

definition analyze :: "'w analysis_env \<Rightarrow> string \<Rightarrow> failure_record list \<Rightarrow> (exn, 'w, improvements) op" where
  "analyze an project rs = (case ae_llm an of
      None \<Rightarrow> ret no_improvements
    | Some llm \<Rightarrow>
        attempt (chain (llm (analysis_content project rs)) (\<lambda>content. lift_sum (\<lambda>_. parse_improvements content)))
          (\<lambda>_. ret no_improvements))"

text \<open>
  What calls the Failure Taxonomy from outside: the routes (\<^verbatim>\<open>api/routes.py\<close>), the Temporal
  activities and workflows (\<^verbatim>\<open>temporal/\<close>) and the events; \<open>taxonomy_step\<close> is one such call.
  Limits are natural numbers (the database refuses negative ones), and one clock reading
  stands for the times a request writes.
\<close>

section \<open>Classification routes\<close>

definition class_request_fields :: fields where
  "class_request_fields = FCons ''task_id'' SStr None (FCons ''agent_id'' (SOpt SStr) (Some JNull) (FCons ''error_message'' SStr (Some (JStr []))
    (FCons ''stack_trace'' (SOpt SStr) (Some JNull) (FCons ''eval_layer'' (SOpt SStr) (Some JNull) (FCons ''eval_report'' (SOpt SObject) (Some JNull)
    (FCons ''code_context'' (SOpt SStr) (Some JNull) FNil))))))"

definition opt_at :: "payload \<Rightarrow> string \<Rightarrow> string option" where
  "opt_at d k = (case map_of d k of Some (JStr s) \<Rightarrow> Some s | _ \<Rightarrow> None)"

definition request_of :: "payload \<Rightarrow> class_request" where
  "request_of d = \<lparr>cq_task = opt_text (opt_at d ''task_id''), cq_agent = opt_at d ''agent_id'', cq_error = opt_text (opt_at d ''error_message''),
     cq_stack = opt_at d ''stack_trace'', cq_layer = opt_at d ''eval_layer'',
     cq_report = (case map_of d ''eval_report'' of Some JNull \<Rightarrow> None | j \<Rightarrow> j), cq_code = opt_at d ''code_context''\<rparr>"

definition classify_failure_route :: "'w taxonomy_env \<Rightarrow> payload \<Rightarrow> (exn, 'w taxonomy, failure_record reply) op" where
  "classify_failure_route env body = (case check_fields class_request_fields body of
      Inl e \<Rightarrow> ret (Http_Error 422 ''validation error'')
    | Inr d \<Rightarrow>
        chain (on_world (classify (te_classifier env) (request_of d))) (\<lambda>k.
        chain (store_failure env (severity_for_code (fk_code k)) (request_of d) k) (\<lambda>row. ret (Reply row))))"

definition list_failures :: "nat \<Rightarrow> failure_tables \<Rightarrow> failure_record list" where
  "list_failures limit t = recent_failures limit t"

definition failure_stats :: "failure_tables \<Rightarrow> (FailureCode \<times> nat) list \<times> nat" where
  "failure_stats t = (stats_by_code t, stats_total t)"

definition get_failure :: "string \<Rightarrow> failure_tables \<Rightarrow> failure_record reply" where
  "get_failure i t = (case find (\<lambda>r. fr_id r = i) (ft_failures t) of
      None \<Rightarrow> Http_Error 404 ''Failure record not found'' | Some r \<Rightarrow> Reply r)"

section \<open>Post-mortems\<close>

definition improvement_specs :: "improvements \<Rightarrow> (ImprovementType \<times> string \<times> json) list" where
  "improvement_specs a =
     (let spec = (\<lambda>ty k d. (ty, opt_text (opt_at d k), JObj d))
      in map (spec ImprovementType.PROMPT_IMPROVEMENT ''suggested_change'') (is_prompts a) @
         map (spec ImprovementType.ADVERSARIAL_TEST ''test_description'') (is_tests a) @
         map (spec ImprovementType.HEURISTIC_UPDATE ''action'') (is_heuristics a) @
         map (spec ImprovementType.TOPOLOGY_RECOMMENDATION ''recommendation'') (is_topology a))"

primrec improvement_rows :: "'w taxonomy_env \<Rightarrow> string \<Rightarrow> int \<Rightarrow> (ImprovementType \<times> string \<times> json) list \<Rightarrow> (exn, 'w, improvement list) op" where
  "improvement_rows env pm now [] = ret []"
| "improvement_rows env pm now (x # xs) =
     chain (te_new_id env ''imp'') (\<lambda>i.
     chain (improvement_rows env pm now xs) (\<lambda>rows.
     ret (\<lparr>im_id = i, im_post_mortem = pm, im_type = fst x, im_description = fst (snd x), im_content = snd (snd x), im_applied = False,
           im_applied_at = None, im_created = now\<rparr> # rows)))"

definition post_mortem_row :: "string \<Rightarrow> int \<Rightarrow> string \<Rightarrow> string option \<Rightarrow> failure_record list \<Rightarrow> improvements \<Rightarrow> post_mortem" where
  "post_mortem_row i now project task rs a = \<lparr>pm_id = i, pm_project = project, pm_task = task, pm_status = PostMortemStatus.COMPLETED,
     pm_count = length rs, pm_breakdown = failure_counts rs, pm_causes = root_causes rs, pm_prompts = map JObj (is_prompts a),
     pm_tests = map JObj (is_tests a), pm_heuristics = map JObj (is_heuristics a), pm_topology = map JObj (is_topology a),
     pm_created = now, pm_completed = Some now\<rparr>"

definition unresolved :: "string \<Rightarrow> failure_tables \<Rightarrow> failure_record list" where
  "unresolved project t = filter (\<lambda>r. \<not> fr_resolved r) (failures_by_project project 200 t)"

text \<open>What the route and the activity share: the analysis and its rows, in one session.\<close>

definition store_post_mortem :: "'w taxonomy_env \<Rightarrow> 'w analysis_env \<Rightarrow> string \<Rightarrow> string option \<Rightarrow> failure_record list \<Rightarrow>
    (exn, 'w taxonomy, post_mortem \<times> improvement list) op" where
  "store_post_mortem env an project task rs =
     chain (on_world (te_new_id env ''pm'')) (\<lambda>i.
     chain (on_world (analyze an project rs)) (\<lambda>a.
     chain (on_world (te_now env)) (\<lambda>now.
     chain (on_world (improvement_rows env i now (improvement_specs a))) (\<lambda>rows.
     let pm = post_mortem_row i now project task rs a
     in chain (commit_rows env (\<lambda>t. t\<lparr>ft_post_mortems := ft_post_mortems t @ [pm], ft_improvements := ft_improvements t @ rows\<rparr>)) (\<lambda>_.
        ret (pm, rows))))))"

definition create_post_mortem :: "'w taxonomy_env \<Rightarrow> 'w analysis_env \<Rightarrow> string \<Rightarrow> string option \<Rightarrow> (exn, 'w taxonomy, post_mortem reply) op" where
  "create_post_mortem env an project task =
     chain (reads (\<lambda>s. unresolved project (tx_tables s))) (\<lambda>rs.
     if rs = [] then ret (Http_Error 400 ''No unresolved failures found for this project'')
     else chain (store_post_mortem env an project task rs) (\<lambda>p. ret (Reply (fst p))))"

text \<open>Without a project only the latest one is listed, whatever the limit.\<close>

definition list_post_mortems :: "string option \<Rightarrow> nat \<Rightarrow> failure_tables \<Rightarrow> post_mortem list" where
  "list_post_mortems project limit t =
     (if opt_text project = [] then newest pm_created 1 (ft_post_mortems t)
      else newest pm_created limit (filter (\<lambda>p. pm_project p = opt_text project) (ft_post_mortems t)))"

definition get_post_mortem :: "string \<Rightarrow> failure_tables \<Rightarrow> post_mortem reply" where
  "get_post_mortem i t = (case find (\<lambda>p. pm_id p = i) (ft_post_mortems t) of
      None \<Rightarrow> Http_Error 404 ''Post-mortem not found'' | Some p \<Rightarrow> Reply p)"

text \<open>The flag makes no difference.\<close>

definition list_improvements :: "bool \<Rightarrow> nat \<Rightarrow> failure_tables \<Rightarrow> improvement list" where
  "list_improvements unapplied_only limit t = (if unapplied_only then unapplied limit t else unapplied limit t)"

definition apply_improvement :: "'w taxonomy_env \<Rightarrow> string \<Rightarrow> (exn, 'w taxonomy, improvement reply) op" where
  "apply_improvement env i =
     chain (on_world (te_now env)) (\<lambda>now.
     chain (reads (\<lambda>s. mark_applied now i (tx_tables s))) (\<lambda>p. case p of (x, t) \<Rightarrow>
       (case x of
          None \<Rightarrow> ret (Http_Error 404 ''Improvement not found'')
        | Some im \<Rightarrow> chain (commit_rows env (\<lambda>_. t)) (\<lambda>_. ret (Reply im)))))"

section \<open>Simulations\<close>

record sim_config =
  sc_source_type :: string
  sc_source_ref :: string
  sc_bugs :: int
  sc_seconds :: int

definition sim_config_fields :: fields where
  "sim_config_fields = FCons ''source_type'' SStr (Some (JStr ''manual'')) (FCons ''source_ref'' SStr (Some (JStr []))
    (FCons ''bug_injection_count'' (SInt (Some 1) None) (Some (JInt 5)) (FCons ''max_duration_seconds'' (SInt (Some 1) None) (Some (JInt 300)) FNil)))"

definition sim_config_of :: "payload \<Rightarrow> sim_config" where
  "sim_config_of d = \<lparr>sc_source_type = opt_text (opt_at d ''source_type''), sc_source_ref = opt_text (opt_at d ''source_ref''),
     sc_bugs = int_field d ''bug_injection_count'', sc_seconds = int_field d ''max_duration_seconds''\<rparr>"

text \<open>Injected, detected, rate, missed and false positives: the stub injects nothing.\<close>

definition run_simulation :: "sim_config \<Rightarrow> int \<times> int \<times> rat \<times> string list \<times> string list" where
  "run_simulation c = (0, 0, 0, [''simulation not yet implemented''], [])"

definition create_simulation :: "'w taxonomy_env \<Rightarrow> payload \<Rightarrow> (exn, 'w taxonomy, simulation reply) op" where
  "create_simulation env body = (case check_fields sim_config_fields body of
      Inl e \<Rightarrow> ret (Http_Error 422 ''validation error'')
    | Inr d \<Rightarrow>
        let c = sim_config_of d
        in case run_simulation c of (injected, detected, rate, missed, false_positives) \<Rightarrow>
          chain (on_world (te_new_id env ''sim'')) (\<lambda>i.
          let row = \<lparr>si_id = i, si_source_type = sc_source_type c, si_source_ref = sc_source_ref c, si_status = ''completed'',
                si_injected = injected, si_detected = detected, si_rate = rate, si_missed = missed\<rparr>
          in chain (commit_rows env (\<lambda>t. t\<lparr>ft_simulations := ft_simulations t @ [row]\<rparr>)) (\<lambda>_. ret (Reply row))))"

definition get_simulation :: "string \<Rightarrow> failure_tables \<Rightarrow> simulation reply" where
  "get_simulation i t = (case find (\<lambda>x. si_id x = i) (ft_simulations t) of
      None \<Rightarrow> Http_Error 404 ''Simulation run not found'' | Some x \<Rightarrow> Reply x)"

section \<open>Temporal activities and workflows\<close>

text \<open>The activity stores no stack trace and calls every failure of medium severity.\<close>

definition classify_activity :: "'w taxonomy_env \<Rightarrow> class_request \<Rightarrow> (exn, 'w taxonomy, failure_record) op" where
  "classify_activity env r =
     chain (on_world (classify (te_classifier env) r)) (\<lambda>k. store_failure env ''medium'' (r\<lparr>cq_stack := None\<rparr>) k)"

record post_mortem_result =
  pr_post_mortem :: string
  pr_failures :: nat
  pr_improvements :: nat
  pr_completed :: bool

definition post_mortem_activity :: "'w taxonomy_env \<Rightarrow> 'w analysis_env \<Rightarrow> string \<Rightarrow> string option \<Rightarrow> (exn, 'w taxonomy, string \<times> nat \<times> nat) op" where
  "post_mortem_activity env an project task =
     chain (reads (\<lambda>s. unresolved project (tx_tables s))) (\<lambda>rs.
     if rs = [] then ret ([], 0, 0)
     else chain (store_post_mortem env an project task rs) (\<lambda>(pm, rows). ret (pm_id pm, length rs, length rows)))"

text \<open>The statistics are those of all projects.\<close>

definition post_mortem_workflow :: "'w taxonomy_env \<Rightarrow> 'w analysis_env \<Rightarrow> string \<Rightarrow> string option \<Rightarrow> int \<Rightarrow> (exn, 'w taxonomy, post_mortem_result) op" where
  "post_mortem_workflow env an project task min_failures =
     chain (reads (\<lambda>s. stats_total (tx_tables s))) (\<lambda>total.
     if int total < min_failures then ret \<lparr>pr_post_mortem = [], pr_failures = 0, pr_improvements = 0, pr_completed = False\<rparr>
     else chain (post_mortem_activity env an project task) (\<lambda>(i, n, m).
          ret \<lparr>pr_post_mortem = i, pr_failures = n, pr_improvements = m, pr_completed = True\<rparr>))"

record classification_result =
  cr_record :: string
  cr_code :: string
  cr_confidence :: rat
  cr_summary :: string

definition classification_workflow :: "'w taxonomy_env \<Rightarrow> class_request \<Rightarrow> (exn, 'w taxonomy, classification_result) op" where
  "classification_workflow env r =
     chain (classify_activity env r) (\<lambda>row.
     ret \<lparr>cr_record = fr_id row, cr_code = failure_code_value (fr_code row), cr_confidence = fr_confidence row, cr_summary = fr_summary row\<rparr>)"

text \<open>Simulation id, detection rate, completed.\<close>

definition simulation_workflow :: "sim_config \<Rightarrow> string \<times> rat \<times> bool" where
  "simulation_workflow c = (case run_simulation c of (_, _, rate, _) \<Rightarrow> ([], rate, True))"

section \<open>One call\<close>

datatype taxonomy_call =
    On_Event EventType payload
  | Classify_Route payload
  | Post_Mortem_Route string "string option"
  | Apply_Route string
  | Simulation_Route payload
  | Classification_Run class_request
  | Post_Mortem_Run string "string option" int

definition taxonomy_step :: "'w taxonomy_env \<Rightarrow> 'w analysis_env \<Rightarrow> taxonomy_call \<Rightarrow> (exn, 'w taxonomy, unit) op" where
  "taxonomy_step env an c = (case c of
      On_Event t d \<Rightarrow> (case taxonomy_handler env t of None \<Rightarrow> ret () | Some h \<Rightarrow> h d)
    | Classify_Route d \<Rightarrow> chain (classify_failure_route env d) (\<lambda>_. ret ())
    | Post_Mortem_Route p t \<Rightarrow> chain (create_post_mortem env an p t) (\<lambda>_. ret ())
    | Apply_Route i \<Rightarrow> chain (apply_improvement env i) (\<lambda>_. ret ())
    | Simulation_Route d \<Rightarrow> chain (create_simulation env d) (\<lambda>_. ret ())
    | Classification_Run r \<Rightarrow> chain (classification_workflow env r) (\<lambda>_. ret ())
    | Post_Mortem_Run p t n \<Rightarrow> chain (post_mortem_workflow env an p t n) (\<lambda>_. ret ()))"

text \<open>Calls one after the other, each whatever the one before raised.\<close>

primrec taxonomy_calls :: "'w taxonomy_env \<Rightarrow> 'w analysis_env \<Rightarrow> taxonomy_call list \<Rightarrow> 'w taxonomy \<Rightarrow> 'w taxonomy" where
  "taxonomy_calls env an [] s = s"
| "taxonomy_calls env an (c # cs) s = taxonomy_calls env an cs (snd (taxonomy_step env an c s))"

end
