(* ===== verification/Failure_Properties.thy ===== *)
theory Failure_Properties
  imports Failure_Taxonomy Evaluation_Engine
begin

text \<open>
  What the Failure Taxonomy guarantees: every failure gets a class, with or without the
  language model; a failed evaluation is classified by its last failing layer alone, since the event
  carries no messages; and since no failure record has a project, no post-mortem is ever written.
\<close>

section \<open>Classification\<close>

lemma rules_confidence: "classify_by_rules r = Some k \<Longrightarrow> fk_confidence k = 1/2 \<or> fk_confidence k = 85/100"
  by (auto simp: classify_by_rules_def split: if_splits option.splits)

lemma fallback_confidence: "0 \<le> fk_confidence (fallback r) \<and> fk_confidence (fallback r) \<le> 1"
  using rules_confidence [of r] by (auto simp: fallback_def unclassified_def split: option.split)

lemma parsed_confidence: "parse_llm_classification f content = Inr k \<Longrightarrow> 0 \<le> fk_confidence k \<and> fk_confidence k \<le> 1"
proof -
  assume parsed: "parse_llm_classification f content = Inr k"
  then obtain j where "reply_json content = Inr j" by (auto simp: parse_llm_classification_def bind_sum_Inr)
  with parsed show ?thesis by (cases j) (auto simp: parse_llm_classification_def bind_sum_Inr)
qed

text \<open>
  Classifying a failure always returns a class with a confidence between 0 and 1, whatever the
  language model replies or raises; when the rules are sure enough, when there is no model, or when its
  reply cannot be read, the class is the one of the rules, or a logic bug where they have none.
\<close>

theorem classification_total:
  "case classify c r w of
     (Inl e, w') \<Rightarrow> False
   | (Inr k, w') \<Rightarrow> 0 \<le> fk_confidence k \<and> fk_confidence k \<le> 1 \<and>
       (if sure_enough c r then k = fallback r \<and> w' = w
        else case fc_llm c of
          None \<Rightarrow> k = fallback r \<and> w' = w
        | Some llm \<Rightarrow>
            (case llm system_prompt (user_content (fc_show c) r (classify_by_rules r)) w of
               (reply, w1) \<Rightarrow>
                 (case (fc_use_llm c, bind_sum reply (parse_llm_classification (fc_show c))) of
                    (True, Inr k1) \<Rightarrow> k = k1 \<and> w' = w1
                  | (True, Inl e) \<Rightarrow> k = fallback r \<and> w' = w1
                  | (False, _) \<Rightarrow> k = fallback r \<and> w' = w)))"
proof (cases "sure_enough c r \<or> fc_llm c = None \<or> \<not> fc_use_llm c")
  case True
  then have "classify c r w = (Inr (fallback r), w)" by (auto simp: classify_def split: option.split)
  with True show ?thesis using fallback_confidence [of r] by (auto split: option.split prod.split)
next
  case False
  then obtain llm where llm: "fc_llm c = Some llm" "fc_use_llm c" "\<not> sure_enough c r" by auto
  obtain reply w1 where run: "llm system_prompt (user_content (fc_show c) r (classify_by_rules r)) w = (reply, w1)" by fastforce
  let ?parsed = "bind_sum reply (parse_llm_classification (fc_show c))"
  have "classify c r w = (case ?parsed of Inr k \<Rightarrow> (Inr k, w1) | Inl e \<Rightarrow> (Inr (fallback r), w1))"
    using llm run by (auto simp: classify_def classify_by_llm_def op_simps split: sum.split)
  then show ?thesis
    using llm run fallback_confidence [of r] by (cases reply) (auto split: sum.split dest: parsed_confidence)
qed

section \<open>Failed evaluations\<close>

definition failing :: "layer_eval list \<Rightarrow> layer_eval list" where
  "failing es = filter (\<lambda>e. le_verdict e \<noteq> EvalVerdict.PASS) es"

definition failed_layer :: "layer_eval list \<Rightarrow> string option" where
  "failed_layer es = (if failing es = [] then None else Some (eval_layer_value (le_layer (last (failing es)))))"

definition entry_of :: "layer_eval \<Rightarrow> payload" where
  "entry_of e = [(''layer'', JStr (eval_layer_value (le_layer e))), (''verdict'', JStr (eval_verdict_value (le_verdict e)))]"

definition payload_of :: "report \<Rightarrow> payload" where
  "payload_of r = [(''task_id'', JStr (rp_task r)), (''verdict'', JStr (eval_verdict_value (rp_verdict r))),
     (''layer_results'', JArr (map (JObj \<circ> entry_of) (rp_layers r)))]"

lemma completed_payload_obj: "completed_payload r = JObj (payload_of r)"
  by (simp add: completed_payload_def payload_of_def entry_of_def comp_def)

lemma failing_entry_of: "failing_entry (JObj (entry_of e)) = (if le_verdict e = EvalVerdict.PASS then None else Some (entry_of e))"
  by (cases "le_verdict e") (simp_all add: failing_entry_def entry_of_def)

lemma failing_layers_of: "failing_layers (payload_of r) = map entry_of (failing (rp_layers r))"
proof -
  have "List.map_filter failing_entry (map (JObj \<circ> entry_of) es) = map entry_of (failing es)" for es
    by (induction es) (simp_all add: failing_def failing_entry_of List.map_filter_simps del: map_map)
  then show ?thesis by (simp add: failing_layers_def payload_of_def get_or_def)
qed

lemma eval_layer_strip: "strip (eval_layer_value l) = eval_layer_value l"
  by (cases l; simp only: eval_layer_value.simps; code_simp)

lemma no_messages: "layer_messages f (map entry_of es) = []"
  by (induction es) (simp_all add: layer_messages_def entry_of_def get_or_def)

lemma failing_layer_of: "failing_layer (map entry_of (failing es)) = Inr (failed_layer es)"
  by (simp add: failing_layer_def failed_layer_def last_map entry_of_def get_or_def opt_str_of_def eval_layer_strip)

text \<open>None of the rules matches what an evaluation failure says.\<close>

lemma rules_silent:
  "find (\<lambda>(p, _). rx_found True p ''Evaluation failed: fail_hard'') rule_patterns = None"
  "find (\<lambda>(p, _). rx_found True p ''Evaluation failed: fail_soft'') rule_patterns = None"
  by code_simp+

lemma strip_failed: "strip (''Evaluation failed: '' @ ''fail_hard'') = ''Evaluation failed: fail_hard''"
    "strip (''Evaluation failed: '' @ ''fail_soft'') = ''Evaluation failed: fail_soft''"
  by code_simp+

text \<open>The class of a failed evaluation, from its last failing layer.\<close>

definition layer_class :: "EvalLayer \<Rightarrow> FailureCode" where
  "layer_class l = get_or F6_LOGIC_BUG layer_defaults (eval_layer_value l)"

text \<open>
  From the report the Evaluation Engine publishes, a failed evaluation is classified by
  the last layer that failed and by nothing else: the event carries no messages, the text that
  stands in for them matches no rule, and the class of the rules, the default of the
  layer with confidence one half, is the same whatever the layers found.
\<close>

theorem failed_evaluation_class:
  "case eval_request show_float (payload_of r) of
     Inl e \<Rightarrow> False
   | Inr None \<Rightarrow> rp_verdict r = EvalVerdict.PASS
   | Inr (Some q) \<Rightarrow> rp_verdict r \<noteq> EvalVerdict.PASS \<and> cq_layer q = failed_layer (rp_layers r) \<and>
       map_option (\<lambda>k. (fk_code k, fk_confidence k)) (classify_by_rules q) =
         (if failing (rp_layers r) = [] then None else Some (layer_class (le_layer (last (failing (rp_layers r)))), 1/2))"
proof (cases "rp_verdict r = EvalVerdict.PASS")
  case True
  then show ?thesis by (simp add: eval_request_def payload_of_def get_or_def)
next
  case False
  let ?v = "eval_verdict_value (rp_verdict r)"
  let ?t = "''Evaluation failed: '' @ ?v"
  have v: "?v = ''fail_hard'' \<or> ?v = ''fail_soft''" using False by (cases "rp_verdict r") simp_all
  have words: "strip ?t = ?t" "?t \<noteq> []" "find (\<lambda>(p, _). rx_found True p ?t) rule_patterns = None"
    using v rules_silent strip_failed by auto
  obtain q where q: "eval_request show_float (payload_of r) = Inr (Some q)" and
      parts: "cq_error q = strip ?t" "cq_stack q = None" "cq_code q = None" "cq_layer q = failed_layer (rp_layers r)"
  proof -
    have "get_or (JStr []) (payload_of r) ''verdict'' = JStr ?v" by (simp add: payload_of_def get_or_def)
    then show thesis
      using v by (intro that) (auto simp: eval_request_def failing_layers_of no_messages failing_layer_of plain_request_def Let_def)
  qed
  have "failure_text q = ?t" using parts words by (simp add: failure_text_def opt_text_def)
  then have "map_option (\<lambda>k. (fk_code k, fk_confidence k)) (classify_by_rules q) = map_option (\<lambda>(l, c). (c, 1/2)) (layer_code q)"
    using words by (simp add: classify_by_rules_def option.map_comp comp_def case_prod_unfold)
  moreover have "layer_code q = (if failing (rp_layers r) = [] then None
      else Some (eval_layer_value (le_layer (last (failing (rp_layers r)))), layer_class (le_layer (last (failing (rp_layers r))))))"
    by (cases "le_layer (last (failing (rp_layers r)))") (simp_all add: layer_code_def parts failed_layer_def layer_class_def layer_defaults_def get_or_def)
  ultimately show ?thesis using q False parts by simp
qed

text \<open>Rules match inside words: a socket on Linux is a matter of taste, and a chat room is out of memory.\<close>

lemma rules_match_inside_words:
  "map_option fk_code (classify_by_rules (plain_request ''t'' ''Linux socket closed'')) = Some F7_UX_REJECTION \<and>
   map_option fk_code (classify_by_rules (plain_request ''t'' ''KeyError: chatroom'')) = Some F8_PERF_REGRESSION"
  by code_simp

text \<open>An empty code from the model is a prefix of every code, and so means the first one.\<close>

lemma empty_code_resolves: "resolve_code (JStr []) = Inr F1_SPEC_AMBIGUITY"
  by code_simp

section \<open>Post-mortems\<close>

definition unscoped :: "'w taxonomy \<Rightarrow> bool" where
  "unscoped s \<longleftrightarrow> list_all (\<lambda>r. fr_project r = None) (ft_failures (tx_tables s)) \<and>
     ft_post_mortems (tx_tables s) = [] \<and> ft_improvements (tx_tables s) = []"

lemma unscoped_unresolved: "unscoped s \<Longrightarrow> unresolved p (tx_tables s) = []"
  by (auto simp: unscoped_def unresolved_def failures_by_project_def newest_def list_all_iff filter_empty_conv)

lemma keeps_on_world [keeps_intros]: "keeps unscoped (on_world m)"
  unfolding on_world_def by (rule keeps_zoom) (simp add: unscoped_def)

lemma keeps_append [keeps_intros]: "keeps unscoped (write_tables (\<lambda>t. t\<lparr>ft_failures := ft_failures t @ [failure_row i now sev r k]\<rparr>))"
  by (simp add: keeps_def write_tables_def unscoped_def failure_row_def)

lemma keeps_store [keeps_intros]: "keeps unscoped (store_failure env sev r k)"
  unfolding store_failure_def commit_rows_def Let_def by (intro keeps_intros)

lemma keeps_classify [keeps_intros]: "keeps unscoped (classify_and_persist env r)"
  unfolding classify_and_persist_def by (intro keeps_intros)

lemma keeps_post_mortem [keeps_intros]: "keeps unscoped (create_post_mortem env an p t)" "keeps unscoped (post_mortem_activity env an p t)"
  by (auto simp: keeps_def create_post_mortem_def post_mortem_activity_def op_simps unscoped_unresolved)

lemma keeps_apply [keeps_intros]: "keeps unscoped (apply_improvement env i)"
proof (rule keepsI)
  fix s :: "'a taxonomy"
  assume s: "unscoped s"
  then have none: "mark_applied now i (tx_tables s) = (None, tx_tables s)" for now
    by (simp add: mark_applied_def unscoped_def)
  show "unscoped (snd (apply_improvement env i s))"
    using s none by (auto simp: apply_improvement_def op_simps on_world_def unscoped_def split: prod.split sum.split)
qed

lemma keeps_sim_row [keeps_intros]: "keeps unscoped (write_tables (\<lambda>t. t\<lparr>ft_simulations := ft_simulations t @ [row]\<rparr>))"
  by (simp add: keeps_def write_tables_def unscoped_def)

lemma keeps_simulation [keeps_intros]: "keeps unscoped (create_simulation env d)"
  unfolding create_simulation_def commit_rows_def run_simulation_def Let_def
  by (cases "check_fields sim_config_fields d") (auto intro!: keeps_intros)

lemma keeps_handlers [keeps_intros]:
  "keeps unscoped (handle_eval_completed env d)" "keeps unscoped (handle_task_failed env d)" "keeps unscoped (handle_rolled_back env d)"
  unfolding handle_eval_completed_def handle_task_failed_def handle_rolled_back_def Let_def
  by (auto intro!: keeps_intros split: option.split)

lemma keeps_routes [keeps_intros]: "keeps unscoped (classify_failure_route env d)" "keeps unscoped (classification_workflow env r)"
  "keeps unscoped (post_mortem_workflow env an p t n)"
  unfolding classify_failure_route_def classification_workflow_def classify_activity_def post_mortem_workflow_def
  by (auto intro!: keeps_intros split: sum.split prod.split)

lemma taxonomy_step_unscoped: "keeps unscoped (taxonomy_step env an c)"
  unfolding taxonomy_step_def taxonomy_handler_def
  by (auto intro!: keeps_intros split: taxonomy_call.split)

lemma taxonomy_calls_unscoped: "unscoped s \<Longrightarrow> unscoped (taxonomy_calls env an cs s)"
  by (induction cs arbitrary: s) (auto intro: keepsD [OF taxonomy_step_unscoped])

text \<open>
  However many failures are recorded, by events, by the route or by the workflow, a post-mortem
  never runs: no record has a project, so that asking for a post-mortem of any project is answered
  with 400, the workflow that does it completes with nothing, and the tables of post-mortems and
  improvements stay empty.
\<close>

theorem post_mortems_never_run:
  "let s = taxonomy_calls env an cs \<lparr>tx_tables = empty_tables, tx_world = w\<rparr>
   in ft_post_mortems (tx_tables s) = [] \<and> ft_improvements (tx_tables s) = [] \<and>
      create_post_mortem env an p t s = (Inr (Http_Error 400 ''No unresolved failures found for this project''), s) \<and>
      post_mortem_activity env an p t s = (Inr ([], 0, 0), s)"
proof -
  let ?s = "taxonomy_calls env an cs \<lparr>tx_tables = empty_tables, tx_world = w\<rparr>"
  have "unscoped ?s" by (rule taxonomy_calls_unscoped) (simp add: unscoped_def empty_tables_def)
  then show ?thesis
    by (simp add: Let_def create_post_mortem_def post_mortem_activity_def op_simps unscoped_unresolved)
      (simp add: unscoped_def)
qed

text \<open>The workflow reports the completion of a post-mortem that did not happen.\<close>

lemma workflow_completes_nothing:
  "unscoped s \<Longrightarrow> n \<le> int (stats_total (tx_tables s)) \<Longrightarrow>
     post_mortem_workflow env an p t n s = (Inr \<lparr>pr_post_mortem = [], pr_failures = 0, pr_improvements = 0, pr_completed = True\<rparr>, s)"
  by (simp add: post_mortem_workflow_def post_mortem_activity_def op_simps unscoped_unresolved)

section \<open>Statistics\<close>

lemma sum_of_filters:
  "distinct cs \<Longrightarrow> fr_code ` set rs \<subseteq> set cs \<Longrightarrow> (\<Sum>c\<leftarrow>cs. length (filter (\<lambda>r. fr_code r = c) rs)) = length rs"
proof (induction rs)
  case (Cons r rs)
  have "(\<Sum>c\<leftarrow>cs. length (filter (\<lambda>x. fr_code x = c) (r # rs))) =
      (\<Sum>c\<leftarrow>cs. (if fr_code r = c then 1 else 0) + length (filter (\<lambda>x. fr_code x = c) rs))"
    by (intro arg_cong [where f = sum_list] map_cong) simp_all
  also have "\<dots> = (\<Sum>c\<leftarrow>cs. if fr_code r = c then 1 else 0) + (\<Sum>c\<leftarrow>cs. length (filter (\<lambda>x. fr_code x = c) rs))"
    by (rule sum_list_addf)
  also have "(\<Sum>c\<leftarrow>cs. if fr_code r = c then 1 else 0 :: nat) = 1"
    using Cons.prems by (simp add: sum_list_distinct_conv_sum_set)
  finally show ?case using Cons by simp
qed simp

lemma stats_total_length: "stats_total t = length (ft_failures t)"
  using sum_of_filters [of "remdups (map fr_code (ft_failures t))" "ft_failures t"]
  by (simp add: stats_total_def stats_by_code_def comp_def)

text \<open>The flag of the list of improvements changes nothing: an applied one is never listed.\<close>

lemma applied_never_listed: "x \<in> set (list_improvements flag n t) \<Longrightarrow> \<not> im_applied x"
  by (auto simp: list_improvements_def unapplied_def newest_def dest: in_set_takeD)

end
