(* ===== verification/Event_Schemas.thy ===== *)
theory Event_Schemas
  imports Schema Enforcer Deployment_Workflow Failure_Taxonomy Task_Scheduler
begin

text \<open>
  What it means that a document has a declared type, said without validation: \<open>typed\<close>. The
  typed documents are exactly those that validate to themselves, and validation yields
  nothing else.
\<close>

definition stripped_text :: "json \<Rightarrow> bool" where
  "stripped_text j \<longleftrightarrow> (case j of JStr s \<Rightarrow> strip s = s | _ \<Rightarrow> False)"

primrec typed :: "schema \<Rightarrow> json \<Rightarrow> bool" and typed_fields :: "fields \<Rightarrow> (string \<times> json) list \<Rightarrow> bool" where
  "typed (SInt lo hi) = (\<lambda>j. case j of JInt n \<Rightarrow> in_range lo hi n | _ \<Rightarrow> False)"
| "typed (SFloat lo hi) = (\<lambda>j. case j of JFloat q \<Rightarrow> in_range lo hi q | _ \<Rightarrow> False)"
| "typed SBool = (\<lambda>j. case j of JBool b \<Rightarrow> True | _ \<Rightarrow> False)"
| "typed SStr = stripped_text"
| "typed SRaw = (\<lambda>j. case j of JStr s \<Rightarrow> True | _ \<Rightarrow> False)"
| "typed STime = (\<lambda>j. case j of JStr s \<Rightarrow> True | _ \<Rightarrow> False)"
| "typed SAny = (\<lambda>j. True)"
| "typed SObject = (\<lambda>j. case j of JObj d \<Rightarrow> True | _ \<Rightarrow> False)"
| "typed (SHash n) = (\<lambda>j. stripped_text j \<and> (case j of JStr s \<Rightarrow> length s = n \<and> list_all hex_digit s | _ \<Rightarrow> False))"
| "typed (SEnum vs) = (\<lambda>j. case j of JStr s \<Rightarrow> s \<in> set vs | _ \<Rightarrow> False)"
| "typed (SOpt s) = (\<lambda>j. j = JNull \<or> typed s j)"
| "typed (SList s) = (\<lambda>j. case j of JArr xs \<Rightarrow> list_all (typed s) xs | _ \<Rightarrow> False)"
| "typed SStrMap = (\<lambda>j. case j of JObj d \<Rightarrow> list_all (stripped_text \<circ> snd) d | _ \<Rightarrow> False)"
| "typed (SModel fs) = (\<lambda>j. case j of JObj d \<Rightarrow> typed_fields fs d | _ \<Rightarrow> False)"
| "typed_fields FNil = (\<lambda>d. d = [])"
| "typed_fields (FCons f s dflt rest) = (\<lambda>d. case d of [] \<Rightarrow> False
     | p # d' \<Rightarrow> fst p = f \<and> typed s (snd p) \<and> typed_fields rest d')"

lemma stripped_text_iff [simp]: "stripped_text (JStr s) \<longleftrightarrow> strip s = s"
  by (simp add: stripped_text_def)

lemma str_of_Some: "str_of j = Some s \<longleftrightarrow> j = JStr s"
  by (cases j) auto

lemma entries_stripped: "map_sum_list check_entry d = Inr d' \<Longrightarrow> list_all (stripped_text \<circ> snd) d'"
  by (induction d arbitrary: d') (auto simp: bind_sum_Inr check_entry_def split: option.splits)

lemma entries_fixed: "list_all (stripped_text \<circ> snd) d \<Longrightarrow> map_sum_list check_entry d = Inr d"
proof (induction d)
  case (Cons p d)
  obtain k j where p: "p = (k, j)" by (cases p)
  with Cons show ?case by (cases j) (simp_all add: check_entry_def stripped_text_def)
qed simp

lemma map_sum_list_fixed: "\<forall>x\<in>set xs. f x = Inr x \<Longrightarrow> map_sum_list f xs = Inr xs"
  by (induction xs) simp_all

text \<open>Validation yields documents of the type.\<close>

lemma check_typed_both:
  "schema_ok s \<Longrightarrow> check s j = Inr v \<Longrightarrow> typed s v"
  "fields_ok fs \<Longrightarrow> check_fields fs d = Inr w \<Longrightarrow> typed_fields fs w"
proof (induction s and fs arbitrary: j v and d w)
  case (SList s)
  then obtain xs ys where "map_sum_list (check s) xs = Inr ys" and v: "v = JArr ys"
    by (auto simp: bind_sum_Inr split: json.splits)
  then have "list_all (typed s) ys" using SList by (auto intro: map_sum_list_all)
  then show ?case by (simp add: v)
next
  case (FCons f s dflt rest)
  from FCons.prems(2) obtain v w0 where v: "(case map_of d f of Some j \<Rightarrow> check s j
      | None \<Rightarrow> (case dflt of Some v \<Rightarrow> Inr v | None \<Rightarrow> invalid)) = Inr v"
    and w: "w = (f, v) # w0" and rest: "check_fields rest d = Inr w0"
    by (auto simp: bind_sum_Inr)
  have "typed s v"
  proof (cases "map_of d f")
    case (Some j)
    with v FCons.IH(1) FCons.prems(1) show ?thesis by simp
  next
    case None
    with v FCons.prems(1) have "check s v = Inr v" by (auto split: option.splits)
    then show ?thesis using FCons.IH(1) FCons.prems(1) by simp
  qed
  then show ?case using FCons.IH(2) [OF _ rest] FCons.prems(1) w by simp
qed (auto simp: bind_sum_Inr check_int_def check_float_def check_bool_def str_of_Some entries_stripped
    split: json.splits option.splits if_splits)

lemmas check_typed = check_typed_both(1)

text \<open>And a document of the type validates to itself.\<close>

lemma typed_check_both:
  "schema_ok s \<Longrightarrow> typed s v \<Longrightarrow> check s v = Inr v"
  "fields_ok fs \<Longrightarrow> distinct (field_names fs) \<Longrightarrow> typed_fields fs w \<Longrightarrow>
     keys w = field_names fs \<and> (\<forall>d. (\<forall>f \<in> set (field_names fs). map_of d f = map_of w f) \<longrightarrow> check_fields fs d = Inr w)"
proof (induction s and fs arbitrary: v and w)
  case (SList s)
  then obtain xs where v: "v = JArr xs" "\<forall>x\<in>set xs. typed s x" by (auto simp: list_all_iff split: json.splits)
  then have "map_sum_list (check s) xs = Inr xs" using SList by (intro map_sum_list_fixed) auto
  then show ?case by (simp add: v)
next
  case (SModel fs)
  then obtain d where d: "v = JObj d" "typed_fields fs d" by (auto split: json.splits)
  with SModel have "check_fields fs d = Inr d" by simp
  then show ?case by (simp add: d)
next
  case (FCons f s dflt rest)
  from FCons.prems(3) obtain v w0 where w: "w = (f, v) # w0" and v: "typed s v" and w0: "typed_fields rest w0"
    by (auto split: list.splits)
  have fixed: "check s v = Inr v" using FCons.IH(1) FCons.prems(1) v by simp
  have rest: "keys w0 = field_names rest"
    "\<And>d. (\<forall>g \<in> set (field_names rest). map_of d g = map_of w0 g) \<Longrightarrow> check_fields rest d = Inr w0"
    using FCons.IH(2) [OF _ _ w0] FCons.prems(1,2) by auto
  have "check_fields (FCons f s dflt rest) d = Inr w" if d: "\<forall>g \<in> set (field_names (FCons f s dflt rest)). map_of d g = map_of w g" for d
  proof -
    have "map_of d f = Some v" using d by (simp add: w)
    moreover have "check_fields rest d = Inr w0" using d FCons.prems(2) by (intro rest(2)) (auto simp: w)
    ultimately show ?thesis by (simp add: fixed w)
  qed
  with rest(1) show ?case by (auto simp: w)
qed (auto simp: check_int_def check_float_def check_bool_def lax_int_def lax_float_def entries_fixed stripped_text_def
    split: json.splits option.splits)

lemma typed_iff: "schema_ok s \<Longrightarrow> typed s v \<longleftrightarrow> check s v = Inr v"
  using typed_check_both(1) check_typed by blast

text \<open>
  The payload classes of the event bus (\<^verbatim>\<open>architect_events/schemas.py\<close>), in the order of the
  file, and which of them the published payloads belong to. Identifiers are
  strings, and a ledger version is an integer.
\<close>

section \<open>The classes\<close>

definition task_created_event :: fields where
  "task_created_event = FCons ''task_id'' SStr None (FCons ''task_type'' (SEnum (map task_type_value all_task_type)) None (
    FCons ''agent_type'' (SEnum (map agent_type_value all_agent_type)) None FNil))"

definition task_started_event :: fields where
  "task_started_event = FCons ''task_id'' SStr None (FCons ''agent_id'' SStr None FNil)"

definition task_completed_event :: fields where
  "task_completed_event = FCons ''task_id'' SStr None (FCons ''agent_id'' SStr None (
    FCons ''verdict'' (SEnum (map eval_verdict_value all_eval_verdict)) None FNil))"

definition task_failed_event :: fields where
  "task_failed_event = FCons ''task_id'' SStr None (FCons ''agent_id'' SStr None (FCons ''error_message'' SStr None FNil))"

definition proposal_created_event :: fields where
  "proposal_created_event = FCons ''proposal_id'' SStr None (FCons ''agent_id'' SStr None (FCons ''task_id'' SStr None FNil))"

definition proposal_accepted_event :: fields where
  "proposal_accepted_event = FCons ''proposal_id'' SStr None (FCons ''ledger_version'' (SInt None None) None FNil)"

definition proposal_rejected_event :: fields where
  "proposal_rejected_event = FCons ''proposal_id'' SStr None (FCons ''reason'' SStr None FNil)"

definition agent_spawned_event :: fields where
  "agent_spawned_event = FCons ''agent_id'' SStr None (FCons ''agent_type'' (SEnum (map agent_type_value all_agent_type)) None (
    FCons ''model_tier'' (SEnum (map model_tier_value all_model_tier)) None (FCons ''task_id'' SStr None FNil)))"

definition agent_completed_event :: fields where
  "agent_completed_event = FCons ''agent_id'' SStr None (FCons ''tokens_consumed'' (SInt None None) None FNil)"

definition eval_completed_event :: fields where
  "eval_completed_event = FCons ''task_id'' SStr None (FCons ''verdict'' (SEnum (map eval_verdict_value all_eval_verdict)) None (
    FCons ''layer_results'' (SList SObject) (Some (JArr [])) FNil))"

definition budget_warning_event :: fields where
  "budget_warning_event = FCons ''consumed_pct'' (SFloat None None) None (FCons ''remaining_tokens'' (SInt None None) None FNil)"

definition knowledge_acquired_event :: fields where
  "knowledge_acquired_event = FCons ''knowledge_id'' SStr None (FCons ''topic'' SStr None (FCons ''source'' SStr None FNil))"

definition pattern_extracted_event :: fields where
  "pattern_extracted_event = FCons ''pattern_id'' SStr None (FCons ''pattern_type'' SStr None (
    FCons ''source_count'' (SInt None None) None FNil))"

definition heuristic_created_event :: fields where
  "heuristic_created_event = FCons ''heuristic_id'' SStr None (FCons ''domain'' SStr None (FCons ''condition'' SStr None (
    FCons ''action'' SStr None FNil)))"

definition compression_completed_event :: fields where
  "compression_completed_event = FCons ''patterns_created'' (SInt None None) None (FCons ''heuristics_created'' (SInt None None) None (
    FCons ''strategies_proposed'' (SInt None None) None FNil))"

definition budget_threshold_alert_event :: fields where
  "budget_threshold_alert_event = FCons ''level'' (SEnum (map enforcement_level_value all_enforcement_level)) None (
    FCons ''consumed_pct'' (SFloat None None) None (FCons ''consumed_tokens'' (SInt None None) None (
    FCons ''remaining_tokens'' (SInt None None) None (FCons ''burn_rate_tokens_per_min'' (SFloat None None) None FNil))))"

definition budget_tier_downgrade_event :: fields where
  "budget_tier_downgrade_event = FCons ''previous_max_tier'' (SEnum (map model_tier_value all_model_tier)) None (
    FCons ''enforced_max_tier'' (SEnum (map model_tier_value all_model_tier)) None (FCons ''reason'' SStr None FNil))"

definition budget_task_paused_event :: fields where
  "budget_task_paused_event = FCons ''task_id'' SStr None (FCons ''reason'' SStr None FNil)"

definition budget_halt_event :: fields where
  "budget_halt_event = FCons ''consumed_pct'' (SFloat None None) None (FCons ''tasks_cancelled'' (SInt None None) None (
    FCons ''progress_report'' SObject (Some (JObj [])) FNil))"

definition spin_detected_event :: fields where
  "spin_detected_event = FCons ''agent_id'' SStr None (FCons ''task_id'' SStr None (FCons ''retry_count'' (SInt None None) None (
    FCons ''tokens_wasted'' (SInt None None) None FNil)))"

definition efficiency_updated_event :: fields where
  "efficiency_updated_event = FCons ''agent_id'' SStr None (FCons ''efficiency_score'' (SFloat None None) None (
    FCons ''tasks_completed'' (SInt None None) None (FCons ''quality_score'' (SFloat None None) None (
    FCons ''tokens_consumed'' (SInt None None) None FNil))))"

definition escalation_created_event :: fields where
  "escalation_created_event = FCons ''escalation_id'' SStr None (
    FCons ''category'' (SEnum (map escalation_category_value all_escalation_category)) None (
    FCons ''severity'' (SEnum (map escalation_severity_value all_escalation_severity)) None (FCons ''summary'' SStr None (
    FCons ''source_agent_id'' (SOpt SStr) (Some JNull) (FCons ''source_task_id'' (SOpt SStr) (Some JNull) FNil)))))"

definition escalation_resolved_event :: fields where
  "escalation_resolved_event = FCons ''escalation_id'' SStr None (FCons ''resolved_by'' SStr None (
    FCons ''resolution'' SStr None FNil))"

definition approval_requested_event :: fields where
  "approval_requested_event = FCons ''gate_id'' SStr None (FCons ''action_type'' SStr None (
    FCons ''resource_id'' (SOpt SStr) (Some JNull) (FCons ''required_approvals'' (SInt None None) None FNil)))"

definition approval_resolved_event :: fields where
  "approval_resolved_event = FCons ''gate_id'' SStr None (
    FCons ''status'' (SEnum (map approval_gate_status_value all_approval_gate_status)) None FNil)"

definition security_scan_started_event :: fields where
  "security_scan_started_event = FCons ''scan_id'' SStr None (FCons ''scan_type'' (SEnum (map scan_type_value all_scan_type)) None (
    FCons ''target'' SStr None FNil))"

definition security_scan_completed_event :: fields where
  "security_scan_completed_event = FCons ''scan_id'' SStr None (FCons ''scan_type'' (SEnum (map scan_type_value all_scan_type)) None (
    FCons ''verdict'' (SEnum (map scan_verdict_value all_scan_verdict)) None (FCons ''findings_count'' (SInt None None) None (
    FCons ''critical_count'' (SInt None None) None FNil))))"

definition security_finding_created_event :: fields where
  "security_finding_created_event = FCons ''finding_id'' SStr None (FCons ''scan_id'' SStr None (
    FCons ''severity'' (SEnum (map finding_severity_value all_finding_severity)) None (FCons ''category'' SStr None (
    FCons ''description'' SStr None FNil))))"

definition security_policy_violation_event :: fields where
  "security_policy_violation_event = FCons ''policy_id'' SStr None (FCons ''scan_id'' SStr None (FCons ''action_taken'' SStr None (
    FCons ''details'' SObject (Some (JObj [])) FNil)))"

definition security_gate_blocked_event :: fields where
  "security_gate_blocked_event = FCons ''scan_id'' SStr None (FCons ''blocking_findings'' (SInt None None) None (
    FCons ''target'' SStr None FNil))"

definition deployment_started_event :: fields where
  "deployment_started_event = FCons ''deployment_id'' SStr None (FCons ''task_id'' SStr None (FCons ''artifact_ref'' SStr None FNil))"

definition deployment_stage_changed_event :: fields where
  "deployment_stage_changed_event = FCons ''deployment_id'' SStr None (
    FCons ''stage'' (SEnum (map deployment_stage_value all_deployment_stage)) None (FCons ''traffic_pct'' (SInt None None) None FNil))"

definition deployment_completed_event :: fields where
  "deployment_completed_event = FCons ''deployment_id'' SStr None (FCons ''task_id'' SStr None (
    FCons ''duration_seconds'' (SFloat None None) None FNil))"

definition deployment_rolled_back_event :: fields where
  "deployment_rolled_back_event = FCons ''deployment_id'' SStr None (
    FCons ''reason'' (SEnum (map rollback_reason_value all_rollback_reason)) None (
    FCons ''stage_at_rollback'' (SEnum (map deployment_stage_value all_deployment_stage)) None FNil))"

definition failure_classified_event :: fields where
  "failure_classified_event = FCons ''failure_record_id'' SStr None (FCons ''task_id'' SStr None (
    FCons ''failure_code'' (SEnum (map failure_code_value all_failure_code)) None (
    FCons ''confidence'' (SFloat None None) None FNil)))"

definition improvement_proposed_event :: fields where
  "improvement_proposed_event = FCons ''improvement_id'' SStr None (
    FCons ''improvement_type'' (SEnum (map improvement_type_value all_improvement_type)) None (FCons ''description'' SStr None FNil))"

definition post_mortem_completed_event :: fields where
  "post_mortem_completed_event = FCons ''post_mortem_id'' SStr None (FCons ''project_id'' SStr None (
    FCons ''failure_count'' (SInt None None) None (FCons ''improvements_proposed'' (SInt None None) None FNil)))"

definition event_classes :: "(string \<times> fields) list" where
  "event_classes = [(''TaskCreatedEvent'', task_created_event), (''TaskStartedEvent'', task_started_event),
     (''TaskCompletedEvent'', task_completed_event), (''TaskFailedEvent'', task_failed_event),
     (''ProposalCreatedEvent'', proposal_created_event), (''ProposalAcceptedEvent'', proposal_accepted_event),
     (''ProposalRejectedEvent'', proposal_rejected_event), (''AgentSpawnedEvent'', agent_spawned_event),
     (''AgentCompletedEvent'', agent_completed_event), (''EvalCompletedEvent'', eval_completed_event),
     (''BudgetWarningEvent'', budget_warning_event), (''KnowledgeAcquiredEvent'', knowledge_acquired_event),
     (''PatternExtractedEvent'', pattern_extracted_event), (''HeuristicCreatedEvent'', heuristic_created_event),
     (''CompressionCompletedEvent'', compression_completed_event), (''BudgetThresholdAlertEvent'', budget_threshold_alert_event),
     (''BudgetTierDowngradeEvent'', budget_tier_downgrade_event), (''BudgetTaskPausedEvent'', budget_task_paused_event),
     (''BudgetHaltEvent'', budget_halt_event), (''SpinDetectedEvent'', spin_detected_event),
     (''EfficiencyUpdatedEvent'', efficiency_updated_event), (''EscalationCreatedEvent'', escalation_created_event),
     (''EscalationResolvedEvent'', escalation_resolved_event), (''ApprovalRequestedEvent'', approval_requested_event),
     (''ApprovalResolvedEvent'', approval_resolved_event), (''SecurityScanStartedEvent'', security_scan_started_event),
     (''SecurityScanCompletedEvent'', security_scan_completed_event),
     (''SecurityFindingCreatedEvent'', security_finding_created_event),
     (''SecurityPolicyViolationEvent'', security_policy_violation_event), (''SecurityGateBlockedEvent'', security_gate_blocked_event),
     (''DeploymentStartedEvent'', deployment_started_event), (''DeploymentStageChangedEvent'', deployment_stage_changed_event),
     (''DeploymentCompletedEvent'', deployment_completed_event), (''DeploymentRolledBackEvent'', deployment_rolled_back_event),
     (''FailureClassifiedEvent'', failure_classified_event), (''ImprovementProposedEvent'', improvement_proposed_event),
     (''PostMortemCompletedEvent'', post_mortem_completed_event)]"

lemma event_classes_ok: "list_all (schema_ok \<circ> SModel \<circ> snd) event_classes"
  by code_simp

section \<open>Validation\<close>

text \<open>
  Validating a payload against an event class yields a document of that class, with every
  declared field in order and of its declared type, and the documents of a class are exactly those that
  validation leaves as they are.
\<close>

theorem event_validation_typed:
  assumes "(name, fs) \<in> set event_classes"
  shows "(case check (SModel fs) j of Inl e \<Rightarrow> True | Inr v \<Rightarrow> typed (SModel fs) v) \<and> (typed (SModel fs) j \<longleftrightarrow> check (SModel fs) j = Inr j)"
proof -
  from assms event_classes_ok have "schema_ok (SModel fs)" by (auto simp: list_all_iff simp del: schema_ok.simps)
  then show ?thesis using check_typed typed_iff by (auto split: sum.split simp del: check.simps typed.simps)
qed

theorem event_validation_typed_witness:
  "check (SModel budget_task_paused_event) (JObj [(''reason'', JStr '' slow ''), (''task_id'', JStr ''t''), (''x'', JNull)]) =
     Inr (JObj [(''task_id'', JStr ''t''), (''reason'', JStr ''slow'')]) \<and>
   typed (SModel budget_task_paused_event) (JObj [(''task_id'', JStr ''t''), (''reason'', JStr ''slow'')])"
proof -
  have run: "check (SModel budget_task_paused_event) (JObj [(''reason'', JStr '' slow ''), (''task_id'', JStr ''t''), (''x'', JNull)]) =
     Inr (JObj [(''task_id'', JStr ''t''), (''reason'', JStr ''slow'')])" by code_simp
  have "(''BudgetTaskPausedEvent'', budget_task_paused_event) \<in> set event_classes" by (simp add: event_classes_def)
  from event_validation_typed [OF this, of "JObj [(''reason'', JStr '' slow ''), (''task_id'', JStr ''t''), (''x'', JNull)]"] run
  show ?thesis by simp
qed

section \<open>What is published\<close>

lemma strip_same:
  assumes "s \<noteq> []" and "\<not> is_space (hd s)" and "\<not> is_space (last s)"
  shows "strip s = s"
proof -
  have "dropWhile is_space s = s" using assms(1,2) by (cases s) auto
  moreover have "dropWhile is_space (rev s) = rev s" using assms(1,3) by (cases "rev s") (auto simp: last_rev hd_rev [symmetric])
  ultimately show ?thesis by (simp add: strip_def)
qed

lemmas enum_complete = eval_verdict_complete enforcement_level_complete model_tier_complete deployment_stage_complete
  rollback_reason_complete failure_code_complete

lemma governor_payloads:
  "typed (SModel budget_threshold_alert_event) (JObj (alert_payload sn)) \<and>
   typed (SModel budget_tier_downgrade_event) (JObj (downgrade_payload tier sn)) \<and>
   typed (SModel budget_task_paused_event) (JObj (pause_payload sn)) \<and>
   typed (SModel budget_halt_event) (JObj (halt_payload sn))"
  by (cases tier) (simp_all add: alert_payload_def budget_threshold_alert_event_def downgrade_payload_def budget_tier_downgrade_event_def pause_payload_def
      budget_task_paused_event_def halt_payload_def budget_halt_event_def in_range_def enum_complete strip_same is_space_def
      all_enforcement_level_def all_model_tier_def)

text \<open>The class of the events of a deployment.\<close>

definition deployment_class :: "EventType \<Rightarrow> fields" where
  "deployment_class t =
     (if t = EventType.DEPLOYMENT_STAGE_CHANGED then deployment_stage_changed_event
      else if t = EventType.DEPLOYMENT_COMPLETED then deployment_completed_event else deployment_rolled_back_event)"

lemma deployment_payloads: "case event_payload i ev of Inl e \<Rightarrow> True | Inr (ty, p) \<Rightarrow> typed (SModel (deployment_class ty)) p"
  by (auto simp: event_payload_def deployment_class_def deployment_stage_changed_event_def deployment_completed_event_def
      deployment_rolled_back_event_def in_range_def enum_complete split: deployment_event.split option.split)

text \<open>
  The payloads that the Economic Governor, the Deployment Pipeline and the Failure
  Taxonomy publish belong to the classes of their events, so that a consumer which validates them gets
  back what was sent.
\<close>

theorem published_payloads_typed:
  "typed (SModel budget_threshold_alert_event) (JObj (alert_payload sn)) \<and>
   typed (SModel budget_tier_downgrade_event) (JObj (downgrade_payload tier sn)) \<and>
   typed (SModel budget_task_paused_event) (JObj (pause_payload sn)) \<and>
   typed (SModel budget_halt_event) (JObj (halt_payload sn)) \<and>
   typed (SModel deployment_started_event) (started_payload i a) \<and>
   (case event_payload i ev of Inl e \<Rightarrow> True | Inr (ty, p) \<Rightarrow> typed (SModel (deployment_class ty)) p) \<and>
   typed (SModel failure_classified_event) (classified_payload row)"
  using deployment_payloads [of i ev] governor_payloads [of sn tier]
  by (simp add: started_payload_def deployment_started_event_def classified_payload_def failure_classified_event_def
      in_range_def enum_complete)

text \<open>Those of the scheduler lack the agent, so a consumer that validates them refuses them.\<close>

lemma scheduler_payloads_untyped:
  "check (SModel task_completed_event) (JObj [(''task_id'', JStr i), (''verdict'', JStr v)]) = invalid"
  "check (SModel task_failed_event) (JObj [(''task_id'', JStr i), (''error_message'', JStr m)]) = invalid"
  by (simp_all add: task_completed_event_def task_failed_event_def)

end
