(* ===== verification/Schema_Migrations.thy ===== *)
theory Schema_Migrations
  imports Arch_Prelude
begin

text \<open>
  The database migrations (\<^verbatim>\<open>libs/architect-db/migrations/versions\<close>): a migration is the list
  of the operations of its \<^verbatim>\<open>upgrade\<close> and its \<^verbatim>\<open>downgrade\<close>, in order, and an operation
  acts on the tables, indexes and constraints of a schema or is refused where PostgreSQL refuses it:
  a relation or column that does not exist or exists already, a table others refer to. The upgrade
  to the newest revision is one transaction (\<^verbatim>\<open>env.py\<close>).
\<close>

section \<open>Schemas\<close>

datatype column_type = Text_Type | Integer_Type | Big_Integer | Float_Type | Boolean_Type | Timestamp | Jsonb | Text_Array | Varchar nat | Vector nat

record column =
  cn_name :: string
  cn_type :: column_type
  cn_nullable :: bool
  cn_default :: "string option"
  cn_key :: bool
  cn_unique :: bool
  cn_refers :: "(string \<times> string) option"

definition col :: "string \<Rightarrow> column_type \<Rightarrow> column" where
  "col n t = \<lparr>cn_name = n, cn_type = t, cn_nullable = True, cn_default = None, cn_key = False, cn_unique = False, cn_refers = None\<rparr>"

definition keyed :: "column \<Rightarrow> column" where
  "keyed c = c\<lparr>cn_key := True, cn_nullable := False\<rparr>"

definition required :: "column \<Rightarrow> column" where
  "required c = c\<lparr>cn_nullable := False\<rparr>"

definition unique_col :: "column \<Rightarrow> column" where
  "unique_col c = c\<lparr>cn_unique := True\<rparr>"

definition defaulted :: "string \<Rightarrow> column \<Rightarrow> column" where
  "defaulted d c = c\<lparr>cn_default := Some d\<rparr>"

definition refers_to :: "string \<Rightarrow> string \<Rightarrow> column \<Rightarrow> column" where
  "refers_to t k c = c\<lparr>cn_refers := Some (t, k)\<rparr>"

text \<open>A default whose text has quotes of its own.\<close>

definition quoted :: "string \<Rightarrow> string" where
  "quoted s = CHR 0x27 # s @ [CHR 0x27]"

text \<open>Indexes: name, table, columns. Constraints: name, table, columns, and the table a foreign key refers to.\<close>

record db_schema =
  db_tables :: "(string \<times> column list) list"
  db_indexes :: "(string \<times> string \<times> string list) list"
  db_constraints :: "(string \<times> string \<times> string list \<times> string option) list"

definition empty_schema :: db_schema where
  "empty_schema = \<lparr>db_tables = [], db_indexes = [], db_constraints = []\<rparr>"

section \<open>Operations\<close>

text \<open>The flag is \<^verbatim>\<open>IF NOT EXISTS\<close> or \<^verbatim>\<open>IF EXISTS\<close>.\<close>

datatype migration_op =
    Create_Table string "column list"
  | Drop_Table string
  | Add_Column bool string column
  | Drop_Column bool string string
  | Alter_Type string string column_type
  | Update_Rows string "string list"
  | Create_Index bool string string "string list"
  | Drop_Index bool string
  | Create_Foreign_Key string string string "string list" "string list"
  | Create_Unique string string "string list"
  | Drop_Constraint string string

definition columns_of :: "db_schema \<Rightarrow> string \<Rightarrow> column list option" where
  "columns_of s t = map_of (db_tables s) t"

definition has_columns :: "db_schema \<Rightarrow> string \<Rightarrow> string list \<Rightarrow> bool" where
  "has_columns s t cs \<longleftrightarrow> (case columns_of s t of None \<Rightarrow> False | Some ds \<Rightarrow> list_all (\<lambda>c. c \<in> set (map cn_name ds)) cs)"

text \<open>A reference is to a column of an existing table, or of the table that is being made.\<close>

definition reference_ok :: "db_schema \<Rightarrow> string \<Rightarrow> column list \<Rightarrow> column \<Rightarrow> bool" where
  "reference_ok s t cs c \<longleftrightarrow> (case cn_refers c of None \<Rightarrow> True
     | Some (r, k) \<Rightarrow> if r = t then k \<in> set (map cn_name cs) else has_columns s r [k])"

definition referred_to :: "db_schema \<Rightarrow> string \<Rightarrow> bool" where
  "referred_to s t \<longleftrightarrow>
     list_ex (\<lambda>(u, cs). u \<noteq> t \<and> list_ex (\<lambda>c. map_option fst (cn_refers c) = Some t) cs) (db_tables s) \<or>
     list_ex (\<lambda>(_, u, _, r). u \<noteq> t \<and> r = Some t) (db_constraints s)"

definition set_columns :: "string \<Rightarrow> (column list \<Rightarrow> column list) \<Rightarrow> db_schema \<Rightarrow> db_schema" where
  "set_columns t f s = s\<lparr>db_tables := map (\<lambda>(u, cs). (u, if u = t then f cs else cs)) (db_tables s)\<rparr>"

definition missing :: "string \<Rightarrow> string + 'a" where
  "missing x = Inl (x @ '' does not exist'')"

definition present :: "string \<Rightarrow> string + 'a" where
  "present x = Inl (x @ '' already exists'')"

fun apply_op :: "migration_op \<Rightarrow> db_schema \<Rightarrow> string + db_schema" where
  "apply_op (Create_Table t cs) s =
     (if columns_of s t \<noteq> None then present t
      else if \<not> list_all (reference_ok s t cs) cs then missing ''reference''
      else Inr (s\<lparr>db_tables := db_tables s @ [(t, cs)]\<rparr>))"
| "apply_op (Drop_Table t) s =
     (if columns_of s t = None then missing t
      else if referred_to s t then Inl (''other objects depend on '' @ t)
      else Inr \<lparr>db_tables = filter (\<lambda>(u, _). u \<noteq> t) (db_tables s), db_indexes = filter (\<lambda>(_, u, _). u \<noteq> t) (db_indexes s),
             db_constraints = filter (\<lambda>(_, u, _, _). u \<noteq> t) (db_constraints s)\<rparr>)"
| "apply_op (Add_Column lax t c) s =
     (case columns_of s t of
        None \<Rightarrow> missing t
      | Some cs \<Rightarrow> if cn_name c \<in> set (map cn_name cs) then (if lax then Inr s else present (cn_name c))
                   else if \<not> reference_ok s t cs c then missing ''reference'' else Inr (set_columns t (\<lambda>cs. cs @ [c]) s))"
| "apply_op (Drop_Column lax t c) s =
     (if columns_of s t = None then missing t
      else if \<not> has_columns s t [c] then (if lax then Inr s else missing c)
      else Inr ((set_columns t (filter (\<lambda>d. cn_name d \<noteq> c)) s)\<lparr>db_indexes := filter (\<lambda>(_, u, cs). u \<noteq> t \<or> c \<notin> set cs) (db_indexes s),
             db_constraints := filter (\<lambda>(_, u, cs, _). u \<noteq> t \<or> c \<notin> set cs) (db_constraints s)\<rparr>))"
| "apply_op (Alter_Type t c ty) s =
     (if \<not> has_columns s t [c] then missing (t @ ''.'' @ c)
      else Inr (set_columns t (map (\<lambda>d. if cn_name d = c then d\<lparr>cn_type := ty\<rparr> else d)) s))"
| "apply_op (Update_Rows t cs) s = (if has_columns s t cs then Inr s else missing t)"
| "apply_op (Create_Index lax i t cs) s =
     (if \<not> has_columns s t cs then missing t
      else if i \<in> set (keys (db_indexes s)) then (if lax then Inr s else present i)
      else Inr (s\<lparr>db_indexes := db_indexes s @ [(i, t, cs)]\<rparr>))"
| "apply_op (Drop_Index lax i) s =
     (if i \<notin> set (keys (db_indexes s)) then (if lax then Inr s else missing i)
      else Inr (s\<lparr>db_indexes := filter (\<lambda>(j, _). j \<noteq> i) (db_indexes s)\<rparr>))"
| "apply_op (Create_Foreign_Key n t r cs ks) s =
     (if \<not> has_columns s t cs then missing t else if \<not> has_columns s r ks then missing r
      else if list_ex (\<lambda>(m, u, _). m = n \<and> u = t) (db_constraints s) then present n
      else Inr (s\<lparr>db_constraints := db_constraints s @ [(n, t, cs, Some r)]\<rparr>))"
| "apply_op (Create_Unique n t cs) s =
     (if \<not> has_columns s t cs then missing t
      else if list_ex (\<lambda>(m, u, _). m = n \<and> u = t) (db_constraints s) then present n
      else Inr (s\<lparr>db_constraints := db_constraints s @ [(n, t, cs, None)]\<rparr>))"
| "apply_op (Drop_Constraint n t) s =
     (if \<not> list_ex (\<lambda>(m, u, _). m = n \<and> u = t) (db_constraints s) then missing n
      else Inr (s\<lparr>db_constraints := filter (\<lambda>(m, u, _). m \<noteq> n \<or> u \<noteq> t) (db_constraints s)\<rparr>))"

primrec apply_ops :: "migration_op list \<Rightarrow> db_schema \<Rightarrow> string + db_schema" where
  "apply_ops [] s = Inr s"
| "apply_ops (x # xs) s = bind_sum (apply_op x s) (apply_ops xs)"

record migration =
  mg_revision :: string
  mg_previous :: "string option"
  mg_up :: "migration_op list"
  mg_down :: "migration_op list"

text \<open>The first revision that fails and why, or the new schema.\<close>

primrec run_upgrades :: "migration list \<Rightarrow> db_schema \<Rightarrow> (string \<times> string) + db_schema" where
  "run_upgrades [] s = Inr s"
| "run_upgrades (m # ms) s = (case apply_ops (mg_up m) s of
      Inl e \<Rightarrow> Inl (mg_revision m, e) | Inr s' \<Rightarrow> run_upgrades ms s')"

text \<open>\<^verbatim>\<open>alembic upgrade head\<close>: all or nothing.\<close>

definition upgrade_head :: "migration list \<Rightarrow> db_schema \<Rightarrow> (string \<times> string) option \<times> db_schema" where
  "upgrade_head ms s = (case run_upgrades ms s of Inl e \<Rightarrow> (Some e, s) | Inr s' \<Rightarrow> (None, s'))"

section \<open>The migrations\<close>

definition upgrade_001 :: "migration_op list" where
  "upgrade_001 = [
     Create_Table ''tasks'' [keyed (col ''id'' Text_Type), required (col ''type'' Text_Type), col ''agent_type'' Text_Type,
        col ''model_tier'' Text_Type, defaulted ''pending'' (required (col ''status'' Text_Type)),
        defaulted ''0'' (required (col ''priority'' Integer_Type)), col ''dependencies'' Text_Array, col ''dependents'' Text_Array,
        col ''inputs'' Jsonb, col ''outputs'' Jsonb, col ''budget'' Jsonb, col ''assigned_agent'' Text_Type,
        defaulted ''0'' (required (col ''current_attempt'' Integer_Type)), col ''retry_history'' Jsonb, col ''verdict'' Text_Type,
        col ''error_message'' Text_Type, col ''started_at'' Timestamp, col ''completed_at'' Timestamp,
        defaulted ''now()'' (required (col ''created_at'' Timestamp)), defaulted ''now()'' (required (col ''updated_at'' Timestamp))],
     Create_Index False ''ix_tasks_status'' ''tasks'' [''status''],
     Create_Table ''proposals'' [keyed (col ''id'' Text_Type), col ''agent_id'' Text_Type, col ''task_id'' Text_Type, col ''mutations'' Jsonb,
        col ''rationale'' Text_Type, defaulted ''pending'' (required (col ''verdict'' Text_Type)), col ''verdict_reason'' Text_Type,
        defaulted ''now()'' (required (col ''created_at'' Timestamp)), col ''verdict_at'' Timestamp,
        col ''ledger_version_before'' Big_Integer, col ''ledger_version_after'' Big_Integer],
     Create_Table ''world_state_ledger'' [keyed (col ''version'' Big_Integer), col ''state_snapshot'' Jsonb,
        defaulted ''now()'' (required (col ''updated_at'' Timestamp)), refers_to ''proposals'' ''id'' (col ''proposal_id'' Text_Type)],
     Create_Table ''event_log'' [keyed (col ''id'' Text_Type), required (col ''type'' Text_Type),
        defaulted ''now()'' (required (col ''timestamp'' Timestamp)), col ''ledger_version'' Big_Integer, col ''proposal_id'' Text_Type,
        col ''task_id'' Text_Type, col ''agent_id'' Text_Type, col ''payload'' Jsonb, col ''source'' Text_Type,
        unique_col (col ''idempotency_key'' Text_Type)],
     Create_Index False ''ix_event_log_type'' ''event_log'' [''type''],
     Create_Index False ''ix_event_log_timestamp'' ''event_log'' [''timestamp''],
     Create_Index False ''ix_event_log_task_id'' ''event_log'' [''task_id''],
     Create_Index False ''ix_event_log_agent_id'' ''event_log'' [''agent_id''],
     Create_Table ''sandbox_sessions'' [keyed (col ''id'' Text_Type), refers_to ''tasks'' ''id'' (col ''task_id'' Text_Type),
        col ''agent_id'' Text_Type, defaulted ''creating'' (required (col ''status'' Text_Type)), col ''container_id'' Text_Type,
        col ''image'' Text_Type, col ''resource_limits'' Jsonb, col ''config'' Jsonb,
        defaulted ''now()'' (required (col ''created_at'' Timestamp)), col ''started_at'' Timestamp, col ''completed_at'' Timestamp,
        col ''destroyed_at'' Timestamp, defaulted ''300'' (required (col ''timeout_seconds'' Integer_Type)), col ''exit_code'' Integer_Type],
     Create_Index False ''ix_sandbox_sessions_status'' ''sandbox_sessions'' [''status''],
     Create_Table ''sandbox_audit_log'' [keyed (col ''id'' Text_Type),
        refers_to ''sandbox_sessions'' ''id'' (required (col ''session_id'' Text_Type)), required (col ''command'' Text_Type),
        col ''exit_code'' Integer_Type, col ''stdout'' Text_Type, col ''stderr'' Text_Type, col ''duration_ms'' Integer_Type,
        defaulted ''now()'' (required (col ''executed_at'' Timestamp))],
     Create_Index False ''ix_sandbox_audit_log_session_id'' ''sandbox_audit_log'' [''session_id''],
     Create_Table ''evaluation_reports'' [keyed (col ''id'' Text_Type), refers_to ''tasks'' ''id'' (required (col ''task_id'' Text_Type)),
        refers_to ''sandbox_sessions'' ''id'' (col ''sandbox_session_id'' Text_Type), col ''agent_id'' Text_Type,
        required (col ''verdict'' Text_Type), defaulted ''0'' (required (col ''layers_run'' Integer_Type)), col ''layer_results'' Jsonb,
        col ''summary'' Text_Type, col ''error_message'' Text_Type, col ''score'' Jsonb, col ''metadata'' Jsonb,
        defaulted ''now()'' (required (col ''created_at'' Timestamp)), col ''completed_at'' Timestamp],
     Create_Index False ''ix_evaluation_reports_task_id'' ''evaluation_reports'' [''task_id''],
     Create_Table ''agent_sessions'' [keyed (col ''id'' Text_Type), required (col ''agent_type'' Text_Type),
        required (col ''model_tier'' Text_Type), refers_to ''tasks'' ''id'' (col ''current_task'' Text_Type),
        defaulted ''running'' (required (col ''status'' Text_Type)), defaulted ''0'' (required (col ''tokens_consumed'' Integer_Type)),
        col ''started_at'' Timestamp, col ''last_heartbeat'' Timestamp, col ''completed_at'' Timestamp, col ''config'' Jsonb],
     Create_Index False ''ix_agent_sessions_status'' ''agent_sessions'' [''status''],
     Create_Table ''specifications'' [keyed (col ''id'' Text_Type), required (col ''intent'' Text_Type), required (col ''raw_text'' Text_Type),
        defaulted ''draft'' (required (col ''status'' Text_Type)), col ''constraints'' Jsonb, col ''success_criteria'' Jsonb,
        col ''file_targets'' Jsonb, col ''assumptions'' Jsonb, col ''open_questions'' Jsonb, col ''stakeholder_review'' Jsonb,
        col ''scope_report'' Jsonb, defaulted ''now()'' (required (col ''created_at'' Timestamp)),
        defaulted ''now()'' (required (col ''updated_at'' Timestamp))],
     Create_Index False ''ix_specifications_status'' ''specifications'' [''status'']]"

definition downgrade_001 :: "migration_op list" where
  "downgrade_001 = [
     Drop_Table ''specifications'',
     Drop_Table ''agent_sessions'',
     Drop_Table ''evaluation_reports'',
     Drop_Table ''sandbox_audit_log'',
     Drop_Table ''sandbox_sessions'',
     Drop_Table ''event_log'',
     Drop_Table ''world_state_ledger'',
     Drop_Table ''proposals'',
     Drop_Table ''tasks'']"

definition migration_001 :: migration where
  "migration_001 = \<lparr>mg_revision = ''001_initial'', mg_previous = None, mg_up = upgrade_001, mg_down = downgrade_001\<rparr>"

definition upgrade_002 :: "migration_op list" where
  "upgrade_002 = [
     Create_Foreign_Key ''fk_proposals_task_id'' ''proposals'' ''tasks'' [''task_id''] [''id''],
     Create_Foreign_Key ''fk_proposals_agent_id'' ''proposals'' ''agent_sessions'' [''agent_id''] [''id''],
     Create_Foreign_Key ''fk_event_log_task_id'' ''event_log'' ''tasks'' [''task_id''] [''id''],
     Create_Foreign_Key ''fk_event_log_agent_id'' ''event_log'' ''agent_sessions'' [''agent_id''] [''id''],
     Create_Foreign_Key ''fk_event_log_proposal_id'' ''event_log'' ''proposals'' [''proposal_id''] [''id''],
     Create_Index False ''ix_proposals_verdict_created_at'' ''proposals'' [''verdict'', ''created_at''],
     Create_Index False ''ix_evaluation_reports_verdict'' ''evaluation_reports'' [''verdict'']]"

definition downgrade_002 :: "migration_op list" where
  "downgrade_002 = [
     Drop_Index False ''ix_evaluation_reports_verdict'',
     Drop_Index False ''ix_proposals_verdict_created_at'',
     Drop_Constraint ''fk_event_log_proposal_id'' ''event_log'',
     Drop_Constraint ''fk_event_log_agent_id'' ''event_log'',
     Drop_Constraint ''fk_event_log_task_id'' ''event_log'',
     Drop_Constraint ''fk_proposals_agent_id'' ''proposals'',
     Drop_Constraint ''fk_proposals_task_id'' ''proposals'']"

definition migration_002 :: migration where
  "migration_002 = \<lparr>mg_revision = ''002_add_fk_constraints'', mg_previous = Some ''001_initial'', mg_up = upgrade_002, mg_down = downgrade_002\<rparr>"

definition upgrade_003 :: "migration_op list" where
  "upgrade_003 = [
     Create_Index False ''ix_event_log_timestamp_type'' ''event_log'' [''timestamp'', ''type''],
     Create_Foreign_Key ''fk_evaluation_reports_agent_id'' ''evaluation_reports'' ''agent_sessions'' [''agent_id''] [''id'']]"

definition downgrade_003 :: "migration_op list" where
  "downgrade_003 = [
     Drop_Constraint ''fk_evaluation_reports_agent_id'' ''evaluation_reports'',
     Drop_Index False ''ix_event_log_timestamp_type'']"

definition migration_003 :: migration where
  "migration_003 = \<lparr>mg_revision = ''003_add_indexes_and_fk'', mg_previous = Some ''002_add_fk_constraints'', mg_up = upgrade_003, mg_down = downgrade_003\<rparr>"

definition upgrade_004 :: "migration_op list" where
  "upgrade_004 = [
     Add_Column False ''world_state_ledger'' (col ''mutations'' Jsonb),
     Add_Column False ''world_state_ledger'' (defaulted ''true'' (required (col ''is_checkpoint'' Boolean_Type)))]"

definition downgrade_004 :: "migration_op list" where
  "downgrade_004 = [
     Drop_Column False ''world_state_ledger'' ''is_checkpoint'',
     Drop_Column False ''world_state_ledger'' ''mutations'']"

definition migration_004 :: migration where
  "migration_004 = \<lparr>mg_revision = ''004_add_ledger_delta_columns'', mg_previous = Some ''003_add_indexes_and_fk'', mg_up = upgrade_004, mg_down = downgrade_004\<rparr>"

definition upgrade_005 :: "migration_op list" where
  "upgrade_005 = [
     Create_Table ''knowledge_entries'' [keyed (col ''id'' Text_Type), required (col ''layer'' Text_Type), required (col ''topic'' Text_Type),
        required (col ''title'' Text_Type), required (col ''content'' Text_Type), required (col ''content_type'' Text_Type),
        col ''source_url'' Text_Type, col ''version_tag'' Text_Type, defaulted ''0.5'' (required (col ''confidence'' Float_Type)),
        defaulted ''0'' (required (col ''usage_count'' Integer_Type)), col ''tags'' Jsonb, col ''metadata'' Jsonb, col ''embedding'' Jsonb,
        refers_to ''knowledge_entries'' ''id'' (col ''parent_id'' Text_Type), col ''superseded_by'' Text_Type,
        defaulted ''true'' (required (col ''is_active'' Boolean_Type)), defaulted ''now()'' (required (col ''created_at'' Timestamp)),
        defaulted ''now()'' (required (col ''updated_at'' Timestamp))],
     Create_Index False ''ix_knowledge_entries_layer'' ''knowledge_entries'' [''layer''],
     Create_Index False ''ix_knowledge_entries_topic'' ''knowledge_entries'' [''topic''],
     Create_Table ''knowledge_observations'' [keyed (col ''id'' Text_Type), col ''task_id'' Text_Type, col ''agent_id'' Text_Type,
        required (col ''observation_type'' Text_Type), required (col ''description'' Text_Type), col ''context'' Jsonb,
        col ''outcome'' Jsonb, col ''embedding'' Jsonb, refers_to ''knowledge_entries'' ''id'' (col ''compressed_into'' Text_Type),
        defaulted ''now()'' (required (col ''created_at'' Timestamp))],
     Create_Index False ''ix_knowledge_observations_task_id'' ''knowledge_observations'' [''task_id''],
     Create_Table ''heuristic_rules'' [keyed (col ''id'' Text_Type), required (col ''condition'' Text_Type),
        required (col ''action'' Text_Type), col ''condition_structured'' Jsonb, col ''action_structured'' Jsonb,
        required (col ''domain'' Text_Type), col ''source_patterns'' Jsonb, defaulted ''0'' (required (col ''hit_count'' Integer_Type)),
        defaulted ''0.0'' (required (col ''success_rate'' Float_Type)), defaulted ''true'' (required (col ''is_active'' Boolean_Type)),
        defaulted ''1'' (required (col ''version'' Integer_Type)), defaulted ''now()'' (required (col ''created_at'' Timestamp)),
        defaulted ''now()'' (required (col ''updated_at'' Timestamp))],
     Create_Index False ''ix_heuristic_rules_domain'' ''heuristic_rules'' [''domain''],
     Create_Table ''meta_strategies'' [keyed (col ''id'' Text_Type), required (col ''strategy_type'' Text_Type),
        required (col ''description'' Text_Type), col ''config_patch'' Jsonb, col ''evidence'' Jsonb,
        defaulted (quoted ''proposed'') (required (col ''status'' Text_Type)), col ''effectiveness_score'' Float_Type,
        defaulted ''now()'' (required (col ''created_at'' Timestamp)), defaulted ''now()'' (required (col ''updated_at'' Timestamp))],
     Create_Table ''budget_records'' [keyed (col ''id'' Text_Type), required (col ''project_id'' Text_Type),
        required (col ''allocated_tokens'' Integer_Type), defaulted ''0'' (required (col ''consumed_tokens'' Integer_Type)),
        defaulted ''0.0'' (required (col ''allocated_usd'' Float_Type)), defaulted ''0.0'' (required (col ''consumed_usd'' Float_Type)),
        defaulted ''0.0'' (required (col ''burn_rate_tokens_per_min'' Float_Type)),
        defaulted (quoted ''none'') (required (col ''enforcement_level'' Text_Type)), col ''phase_breakdown'' Jsonb,
        defaulted ''now()'' (required (col ''created_at'' Timestamp))],
     Create_Index False ''ix_budget_records_project_id'' ''budget_records'' [''project_id''],
     Create_Table ''agent_efficiency_scores'' [keyed (col ''id'' Text_Type), required (col ''agent_id'' Text_Type),
        required (col ''agent_type'' Text_Type), required (col ''model_tier'' Text_Type),
        defaulted ''0'' (required (col ''tasks_completed'' Integer_Type)), defaulted ''0'' (required (col ''tasks_failed'' Integer_Type)),
        defaulted ''0'' (required (col ''total_tokens_consumed'' Integer_Type)),
        defaulted ''0.0'' (required (col ''total_cost_usd'' Float_Type)),
        defaulted ''0.0'' (required (col ''average_quality_score'' Float_Type)),
        defaulted ''0.0'' (required (col ''efficiency_score'' Float_Type)), required (col ''window_start'' Timestamp),
        required (col ''window_end'' Timestamp), defaulted ''now()'' (required (col ''created_at'' Timestamp))],
     Create_Index False ''ix_agent_efficiency_scores_agent_id'' ''agent_efficiency_scores'' [''agent_id''],
     Create_Table ''enforcement_actions'' [keyed (col ''id'' Text_Type), required (col ''enforcement_level'' Text_Type),
        required (col ''action_type'' Text_Type), col ''target_id'' Text_Type, col ''details'' Jsonb,
        required (col ''budget_consumed_pct'' Float_Type), defaulted ''false'' (required (col ''reversed'' Boolean_Type)),
        col ''reversed_at'' Timestamp, defaulted ''now()'' (required (col ''created_at'' Timestamp))],
     Create_Table ''escalations'' [keyed (col ''id'' Text_Type), col ''source_agent_id'' Text_Type, col ''source_task_id'' Text_Type,
        col ''correlation_id'' Text_Type, required (col ''summary'' Text_Type), required (col ''category'' Text_Type),
        required (col ''severity'' Text_Type), col ''options'' Jsonb, col ''recommended_option'' Text_Type, col ''reasoning'' Text_Type,
        col ''risk_if_wrong'' Text_Type, defaulted (quoted ''pending'') (required (col ''status'' Text_Type)),
        col ''resolved_by'' Text_Type, col ''resolution'' Text_Type, col ''resolution_details'' Jsonb,
        col ''decision_confidence'' Float_Type, defaulted ''false'' (required (col ''is_security_critical'' Boolean_Type)),
        col ''cost_impact_pct'' Float_Type, defaulted ''now()'' (required (col ''created_at'' Timestamp)), col ''expires_at'' Timestamp,
        col ''resolved_at'' Timestamp],
     Create_Index False ''ix_escalations_status'' ''escalations'' [''status''],
     Create_Index False ''ix_escalations_created_at'' ''escalations'' [''created_at''],
     Create_Index False ''ix_escalations_category'' ''escalations'' [''category''],
     Create_Table ''approval_gates'' [keyed (col ''id'' Text_Type), required (col ''action_type'' Text_Type), col ''resource_id'' Text_Type,
        defaulted ''1'' (required (col ''required_approvals'' Integer_Type)),
        defaulted ''0'' (required (col ''current_approvals'' Integer_Type)),
        defaulted (quoted ''pending'') (required (col ''status'' Text_Type)), col ''context'' Jsonb,
        defaulted ''now()'' (required (col ''created_at'' Timestamp)), col ''expires_at'' Timestamp, col ''resolved_at'' Timestamp],
     Create_Index False ''ix_approval_gates_status'' ''approval_gates'' [''status''],
     Create_Index False ''ix_approval_gates_action_type'' ''approval_gates'' [''action_type''],
     Create_Table ''approval_votes'' [keyed (col ''id'' Text_Type), required (col ''gate_id'' Text_Type), required (col ''voter'' Text_Type),
        required (col ''decision'' Text_Type), col ''comment'' Text_Type, defaulted ''now()'' (required (col ''created_at'' Timestamp))],
     Create_Index False ''ix_approval_votes_gate_id'' ''approval_votes'' [''gate_id'']]"

definition downgrade_005 :: "migration_op list" where
  "downgrade_005 = [
     Drop_Table ''approval_votes'',
     Drop_Table ''approval_gates'',
     Drop_Table ''escalations'',
     Drop_Table ''enforcement_actions'',
     Drop_Table ''agent_efficiency_scores'',
     Drop_Table ''budget_records'',
     Drop_Table ''meta_strategies'',
     Drop_Table ''heuristic_rules'',
     Drop_Table ''knowledge_observations'',
     Drop_Table ''knowledge_entries'']"

definition migration_005 :: migration where
  "migration_005 = \<lparr>mg_revision = ''005_add_phase3_tables'', mg_previous = Some ''004_add_ledger_delta_columns'', mg_up = upgrade_005, mg_down = downgrade_005\<rparr>"

definition upgrade_006 :: "migration_op list" where
  "upgrade_006 = [
     Create_Foreign_Key ''fk_approval_votes_gate_id'' ''approval_votes'' ''approval_gates'' [''gate_id''] [''id''],
     Create_Unique ''uq_approval_votes_gate_voter'' ''approval_votes'' [''gate_id'', ''voter'']]"

definition downgrade_006 :: "migration_op list" where
  "downgrade_006 = [
     Drop_Constraint ''uq_approval_votes_gate_voter'' ''approval_votes'',
     Drop_Constraint ''fk_approval_votes_gate_id'' ''approval_votes'']"

definition migration_006 :: migration where
  "migration_006 = \<lparr>mg_revision = ''006_add_vote_constraints'', mg_previous = Some ''005_add_phase3_tables'', mg_up = upgrade_006, mg_down = downgrade_006\<rparr>"

definition upgrade_007 :: "migration_op list" where
  "upgrade_007 = [
     Add_Column True ''knowledge_entries'' (col ''embedding_vec'' (Vector 384)),
     Update_Rows ''knowledge_entries'' [''embedding_vec'', ''embedding''],
     Create_Index True ''ix_knowledge_entries_embedding_hnsw'' ''knowledge_entries'' [''embedding_vec'']]"

definition downgrade_007 :: "migration_op list" where
  "downgrade_007 = [
     Drop_Index True ''ix_knowledge_entries_embedding_hnsw'',
     Drop_Column True ''knowledge_entries'' ''embedding_vec'']"

definition migration_007 :: migration where
  "migration_007 = \<lparr>mg_revision = ''007_add_pgvector_column'', mg_previous = Some ''006_add_vote_constraints'', mg_up = upgrade_007, mg_down = downgrade_007\<rparr>"

definition upgrade_008 :: "migration_op list" where
  "upgrade_008 = [
     Create_Index True ''ix_observations_uncompressed'' ''observations'' [''created_at'', ''compressed''],
     Create_Index True ''ix_observations_domain'' ''observations'' [''domain'']]"

definition downgrade_008 :: "migration_op list" where
  "downgrade_008 = [
     Drop_Index True ''ix_observations_uncompressed'',
     Drop_Index True ''ix_observations_domain'']"

definition migration_008 :: migration where
  "migration_008 = \<lparr>mg_revision = ''008_add_observation_indexes'', mg_previous = Some ''007_add_pgvector_column'', mg_up = upgrade_008, mg_down = downgrade_008\<rparr>"

definition upgrade_009 :: "migration_op list" where
  "upgrade_009 = [
     Alter_Type ''escalations'' ''category'' (Varchar 64),
     Alter_Type ''escalations'' ''severity'' (Varchar 64),
     Alter_Type ''escalations'' ''status'' (Varchar 64),
     Alter_Type ''approval_gates'' ''status'' (Varchar 64),
     Alter_Type ''knowledge_entries'' ''layer'' (Varchar 64),
     Alter_Type ''knowledge_entries'' ''content_type'' (Varchar 64),
     Alter_Type ''knowledge_observations'' ''observation_type'' (Varchar 64)]"

definition downgrade_009 :: "migration_op list" where
  "downgrade_009 = [
     Alter_Type ''escalations'' ''category'' Text_Type,
     Alter_Type ''escalations'' ''severity'' Text_Type,
     Alter_Type ''escalations'' ''status'' Text_Type,
     Alter_Type ''approval_gates'' ''status'' Text_Type,
     Alter_Type ''knowledge_entries'' ''layer'' Text_Type,
     Alter_Type ''knowledge_entries'' ''content_type'' Text_Type,
     Alter_Type ''knowledge_observations'' ''observation_type'' Text_Type]"

definition migration_009 :: migration where
  "migration_009 = \<lparr>mg_revision = ''009_enum_columns'', mg_previous = Some ''008_add_observation_indexes'', mg_up = upgrade_009, mg_down = downgrade_009\<rparr>"

definition upgrade_010 :: "migration_op list" where
  "upgrade_010 = [
     Create_Table ''security_scans'' [keyed (col ''id'' Text_Type), required (col ''scan_type'' Text_Type), col ''target_id'' Text_Type,
        required (col ''verdict'' Text_Type), defaulted ''0'' (required (col ''findings_count'' Integer_Type)),
        defaulted ''0'' (required (col ''critical_count'' Integer_Type)), defaulted ''0'' (required (col ''duration_ms'' Integer_Type)),
        col ''metadata'' Jsonb, defaulted ''now()'' (required (col ''created_at'' Timestamp))],
     Create_Index False ''ix_security_scans_scan_type'' ''security_scans'' [''scan_type''],
     Create_Index False ''ix_security_scans_target_id'' ''security_scans'' [''target_id''],
     Create_Index False ''ix_security_scans_created_at'' ''security_scans'' [''created_at''],
     Create_Table ''security_findings'' [keyed (col ''id'' Text_Type),
        refers_to ''security_scans'' ''id'' (required (col ''scan_id'' Text_Type)), required (col ''severity'' Text_Type),
        defaulted ''open'' (required (col ''status'' Text_Type)), required (col ''category'' Text_Type),
        required (col ''title'' Text_Type), required (col ''description'' Text_Type), col ''location'' Text_Type,
        col ''remediation'' Text_Type, col ''cwe_id'' Text_Type, defaulted ''now()'' (required (col ''created_at'' Timestamp)),
        defaulted ''now()'' (required (col ''updated_at'' Timestamp))],
     Create_Index False ''ix_security_findings_scan_id'' ''security_findings'' [''scan_id''],
     Create_Index False ''ix_security_findings_severity'' ''security_findings'' [''severity''],
     Create_Index False ''ix_security_findings_status'' ''security_findings'' [''status''],
     Create_Table ''security_policies'' [keyed (col ''id'' Text_Type), unique_col (required (col ''name'' Text_Type)),
        required (col ''scan_type'' Text_Type), required (col ''rules'' Jsonb), required (col ''action'' Text_Type),
        defaulted ''true'' (required (col ''enabled'' Boolean_Type)), defaulted ''now()'' (required (col ''created_at'' Timestamp)),
        defaulted ''now()'' (required (col ''updated_at'' Timestamp))],
     Create_Index False ''ix_security_policies_scan_type'' ''security_policies'' [''scan_type''],
     Create_Table ''failure_records'' [keyed (col ''id'' Text_Type), required (col ''task_id'' Text_Type), col ''agent_id'' Text_Type,
        col ''project_id'' Text_Type, required (col ''failure_code'' Text_Type),
        defaulted ''medium'' (required (col ''severity'' Text_Type)), required (col ''summary'' Text_Type), col ''root_cause'' Text_Type,
        col ''eval_layer'' Text_Type, col ''error_message'' Text_Type, col ''stack_trace'' Text_Type, col ''context'' Jsonb,
        defaulted ''auto'' (required (col ''classified_by'' Text_Type)), defaulted ''0.0'' (required (col ''confidence'' Float_Type)),
        defaulted ''false'' (required (col ''resolved'' Boolean_Type)), col ''resolution_summary'' Text_Type,
        defaulted ''now()'' (required (col ''created_at'' Timestamp))],
     Create_Index False ''ix_failure_records_task_id'' ''failure_records'' [''task_id''],
     Create_Index False ''ix_failure_records_project_id'' ''failure_records'' [''project_id''],
     Create_Index False ''ix_failure_records_failure_code'' ''failure_records'' [''failure_code''],
     Create_Index False ''ix_failure_records_created_at'' ''failure_records'' [''created_at''],
     Create_Table ''post_mortems'' [keyed (col ''id'' Text_Type), required (col ''project_id'' Text_Type), col ''task_id'' Text_Type,
        defaulted ''pending'' (required (col ''status'' Text_Type)), defaulted ''0'' (required (col ''failure_count'' Integer_Type)),
        col ''failure_breakdown'' Jsonb, col ''root_causes'' Jsonb, col ''prompt_improvements'' Jsonb, col ''new_adversarial_tests'' Jsonb,
        col ''heuristic_updates'' Jsonb, col ''topology_recommendations'' Jsonb,
        defaulted ''now()'' (required (col ''created_at'' Timestamp)), col ''completed_at'' Timestamp],
     Create_Index False ''ix_post_mortems_project_id'' ''post_mortems'' [''project_id''],
     Create_Table ''improvements'' [keyed (col ''id'' Text_Type),
        refers_to ''post_mortems'' ''id'' (required (col ''post_mortem_id'' Text_Type)), required (col ''improvement_type'' Text_Type),
        required (col ''description'' Text_Type), col ''content'' Jsonb, defaulted ''false'' (required (col ''applied'' Boolean_Type)),
        col ''applied_at'' Timestamp, defaulted ''now()'' (required (col ''created_at'' Timestamp))],
     Create_Index False ''ix_improvements_post_mortem_id'' ''improvements'' [''post_mortem_id''],
     Create_Table ''simulation_runs'' [keyed (col ''id'' Text_Type), required (col ''source_type'' Text_Type),
        required (col ''source_ref'' Text_Type), defaulted ''pending'' (required (col ''status'' Text_Type)),
        defaulted ''0'' (required (col ''failures_injected'' Integer_Type)),
        defaulted ''0'' (required (col ''failures_detected'' Integer_Type)),
        defaulted ''0.0'' (required (col ''detection_rate'' Float_Type)), col ''results'' Jsonb,
        defaulted ''now()'' (required (col ''created_at'' Timestamp)), col ''completed_at'' Timestamp]]"

definition downgrade_010 :: "migration_op list" where
  "downgrade_010 = [
     Drop_Table ''simulation_runs'',
     Drop_Table ''improvements'',
     Drop_Table ''post_mortems'',
     Drop_Table ''failure_records'',
     Drop_Table ''security_policies'',
     Drop_Table ''security_findings'',
     Drop_Table ''security_scans'']"

definition migration_010 :: migration where
  "migration_010 = \<lparr>mg_revision = ''010_add_phase4_tables'', mg_previous = Some ''009_enum_columns'', mg_up = upgrade_010, mg_down = downgrade_010\<rparr>"

definition migrations :: "migration list" where
  "migrations = [migration_001, migration_002, migration_003, migration_004, migration_005, migration_006, migration_007,
     migration_008, migration_009, migration_010]"

text \<open>The revisions form one line.\<close>

lemma history_linear: "map mg_previous migrations = None # map (Some \<circ> mg_revision) (butlast migrations)"
  by code_simp

section \<open>Running them\<close>

text \<open>
  Upgrading an empty database to the newest revision fails at the eighth migration, which makes an index on
  the table observations that none of the migrations makes, and since the upgrade is one transaction, it
  leaves the database without any table.
\<close>

theorem upgrade_head_fails:
  "upgrade_head migrations empty_schema = (Some (''008_add_observation_indexes'', ''observations does not exist''), empty_schema)"
  by code_simp

text \<open>The schema without that migration.\<close>

definition other_migrations :: "migration list" where
  "other_migrations = filter (\<lambda>m. mg_revision m \<noteq> ''008_add_observation_indexes'') migrations"

definition final_schema :: db_schema where
  "final_schema = (case run_upgrades other_migrations empty_schema of Inl e \<Rightarrow> empty_schema | Inr s \<Rightarrow> s)"

end
