(* ===== verification/Orm_Models.thy ===== *)
theory Orm_Models
  imports Schema_Migrations
begin

text \<open>
  The tables the code works with: the ORM models (\<^verbatim>\<open>libs/architect-db/src/architect_db/models\<close>),
  column by column with the mixins in place, and the statements of the knowledge store, which names its
  tables and columns in SQL text; and how both fit the schema of the migrations.
  A column with an enumeration of the source is a text of at most 64 characters.
\<close>

section \<open>The models\<close>

definition orm_agent_sessions :: "column list" where
  "orm_agent_sessions = [keyed (col ''id'' Text_Type), required (col ''agent_type'' (Varchar 64)),
     required (col ''model_tier'' (Varchar 64)), refers_to ''tasks'' ''id'' (col ''current_task'' Text_Type),
     required (col ''status'' (Varchar 64)), required (col ''tokens_consumed'' Integer_Type), col ''started_at'' Timestamp,
     col ''last_heartbeat'' Timestamp, col ''completed_at'' Timestamp, col ''config'' Jsonb]"

definition orm_budget_records :: "column list" where
  "orm_budget_records = [keyed (col ''id'' Text_Type), required (col ''project_id'' Text_Type),
     required (col ''allocated_tokens'' Integer_Type), required (col ''consumed_tokens'' Integer_Type),
     required (col ''allocated_usd'' Float_Type), required (col ''consumed_usd'' Float_Type),
     required (col ''burn_rate_tokens_per_min'' Float_Type), required (col ''enforcement_level'' (Varchar 64)),
     col ''phase_breakdown'' Jsonb, defaulted ''now()'' (required (col ''created_at'' Timestamp))]"

definition orm_agent_efficiency_scores :: "column list" where
  "orm_agent_efficiency_scores = [keyed (col ''id'' Text_Type), required (col ''agent_id'' Text_Type),
     required (col ''agent_type'' (Varchar 64)), required (col ''model_tier'' (Varchar 64)),
     required (col ''tasks_completed'' Integer_Type), required (col ''tasks_failed'' Integer_Type),
     required (col ''total_tokens_consumed'' Integer_Type), required (col ''total_cost_usd'' Float_Type),
     required (col ''average_quality_score'' Float_Type), required (col ''efficiency_score'' Float_Type),
     required (col ''window_start'' Timestamp), required (col ''window_end'' Timestamp),
     defaulted ''now()'' (required (col ''created_at'' Timestamp))]"

definition orm_enforcement_actions :: "column list" where
  "orm_enforcement_actions = [keyed (col ''id'' Text_Type), required (col ''enforcement_level'' (Varchar 64)),
     required (col ''action_type'' Text_Type), col ''target_id'' Text_Type, col ''details'' Jsonb,
     required (col ''budget_consumed_pct'' Float_Type), required (col ''reversed'' Boolean_Type), col ''reversed_at'' Timestamp,
     defaulted ''now()'' (required (col ''created_at'' Timestamp))]"

definition orm_escalations :: "column list" where
  "orm_escalations = [keyed (col ''id'' Text_Type), col ''source_agent_id'' Text_Type, col ''source_task_id'' Text_Type,
     col ''correlation_id'' Text_Type, required (col ''summary'' Text_Type), required (col ''category'' (Varchar 64)),
     required (col ''severity'' (Varchar 64)), col ''options'' Jsonb, col ''recommended_option'' Text_Type, col ''reasoning'' Text_Type,
     col ''risk_if_wrong'' Text_Type, required (col ''status'' (Varchar 64)), col ''resolved_by'' Text_Type, col ''resolution'' Text_Type,
     col ''resolution_details'' Jsonb, col ''decision_confidence'' Float_Type, required (col ''is_security_critical'' Boolean_Type),
     col ''cost_impact_pct'' Float_Type, defaulted ''now()'' (required (col ''created_at'' Timestamp)), col ''expires_at'' Timestamp,
     col ''resolved_at'' Timestamp]"

definition orm_approval_gates :: "column list" where
  "orm_approval_gates = [keyed (col ''id'' Text_Type), required (col ''action_type'' Text_Type), col ''resource_id'' Text_Type,
     required (col ''required_approvals'' Integer_Type), required (col ''current_approvals'' Integer_Type),
     required (col ''status'' (Varchar 64)), col ''context'' Jsonb, defaulted ''now()'' (required (col ''created_at'' Timestamp)),
     col ''expires_at'' Timestamp, col ''resolved_at'' Timestamp]"

definition orm_approval_votes :: "column list" where
  "orm_approval_votes = [keyed (col ''id'' Text_Type), refers_to ''approval_gates'' ''id'' (required (col ''gate_id'' Text_Type)),
     required (col ''voter'' Text_Type), required (col ''decision'' Text_Type), col ''comment'' Text_Type,
     defaulted ''now()'' (required (col ''created_at'' Timestamp))]"

definition orm_evaluation_reports :: "column list" where
  "orm_evaluation_reports = [keyed (col ''id'' Text_Type), refers_to ''tasks'' ''id'' (required (col ''task_id'' Text_Type)),
     refers_to ''sandbox_sessions'' ''id'' (col ''sandbox_session_id'' Text_Type), col ''agent_id'' Text_Type,
     required (col ''verdict'' (Varchar 64)), required (col ''layers_run'' Integer_Type), col ''layer_results'' Jsonb,
     col ''summary'' Text_Type, col ''error_message'' Text_Type, col ''score'' Jsonb, col ''metadata'' Jsonb,
     defaulted ''now()'' (required (col ''created_at'' Timestamp)), col ''completed_at'' Timestamp]"

definition orm_event_log :: "column list" where
  "orm_event_log = [keyed (col ''id'' Text_Type), required (col ''type'' (Varchar 64)),
     defaulted ''now()'' (required (col ''timestamp'' Timestamp)), col ''ledger_version'' Big_Integer, col ''proposal_id'' Text_Type,
     col ''task_id'' Text_Type, col ''agent_id'' Text_Type, col ''payload'' Jsonb, col ''source'' Text_Type,
     unique_col (col ''idempotency_key'' Text_Type)]"

definition orm_failure_records :: "column list" where
  "orm_failure_records = [keyed (col ''id'' Text_Type), required (col ''task_id'' Text_Type), col ''agent_id'' Text_Type,
     col ''project_id'' Text_Type, required (col ''failure_code'' (Varchar 64)), required (col ''severity'' Text_Type),
     required (col ''summary'' Text_Type), col ''root_cause'' Text_Type, col ''eval_layer'' Text_Type, col ''error_message'' Text_Type,
     col ''stack_trace'' Text_Type, col ''context'' Jsonb, required (col ''classified_by'' Text_Type),
     required (col ''confidence'' Float_Type), required (col ''resolved'' Boolean_Type), col ''resolution_summary'' Text_Type,
     defaulted ''now()'' (required (col ''created_at'' Timestamp))]"

definition orm_post_mortems :: "column list" where
  "orm_post_mortems = [keyed (col ''id'' Text_Type), required (col ''project_id'' Text_Type), col ''task_id'' Text_Type,
     required (col ''status'' Text_Type), required (col ''failure_count'' Integer_Type), col ''failure_breakdown'' Jsonb,
     col ''root_causes'' Jsonb, col ''prompt_improvements'' Jsonb, col ''new_adversarial_tests'' Jsonb, col ''heuristic_updates'' Jsonb,
     col ''topology_recommendations'' Jsonb, defaulted ''now()'' (required (col ''created_at'' Timestamp)), col ''completed_at'' Timestamp]"

definition orm_improvements :: "column list" where
  "orm_improvements = [keyed (col ''id'' Text_Type), refers_to ''post_mortems'' ''id'' (required (col ''post_mortem_id'' Text_Type)),
     required (col ''improvement_type'' (Varchar 64)), required (col ''description'' Text_Type), col ''content'' Jsonb,
     required (col ''applied'' Boolean_Type), col ''applied_at'' Timestamp, defaulted ''now()'' (required (col ''created_at'' Timestamp))]"

definition orm_simulation_runs :: "column list" where
  "orm_simulation_runs = [keyed (col ''id'' Text_Type), required (col ''source_type'' Text_Type), required (col ''source_ref'' Text_Type),
     required (col ''status'' Text_Type), required (col ''failures_injected'' Integer_Type),
     required (col ''failures_detected'' Integer_Type), required (col ''detection_rate'' Float_Type), col ''results'' Jsonb,
     defaulted ''now()'' (required (col ''created_at'' Timestamp)), col ''completed_at'' Timestamp]"

definition orm_knowledge_entries :: "column list" where
  "orm_knowledge_entries = [keyed (col ''id'' Text_Type), required (col ''layer'' (Varchar 64)), required (col ''topic'' Text_Type),
     required (col ''title'' Text_Type), required (col ''content'' Text_Type), required (col ''content_type'' (Varchar 64)),
     col ''source_url'' Text_Type, col ''version_tag'' Text_Type, required (col ''confidence'' Float_Type),
     required (col ''usage_count'' Integer_Type), col ''tags'' Jsonb, col ''metadata'' Jsonb, col ''embedding'' Jsonb,
     refers_to ''knowledge_entries'' ''id'' (col ''parent_id'' Text_Type), col ''superseded_by'' Text_Type,
     required (col ''is_active'' Boolean_Type), defaulted ''now()'' (required (col ''created_at'' Timestamp)),
     defaulted ''now()'' (required (col ''updated_at'' Timestamp))]"

definition orm_knowledge_observations :: "column list" where
  "orm_knowledge_observations = [keyed (col ''id'' Text_Type), col ''task_id'' Text_Type, col ''agent_id'' Text_Type,
     required (col ''observation_type'' (Varchar 64)), required (col ''description'' Text_Type), col ''context'' Jsonb,
     col ''outcome'' Jsonb, col ''embedding'' Jsonb, refers_to ''knowledge_entries'' ''id'' (col ''compressed_into'' Text_Type),
     defaulted ''now()'' (required (col ''created_at'' Timestamp))]"

definition orm_heuristic_rules :: "column list" where
  "orm_heuristic_rules = [keyed (col ''id'' Text_Type), required (col ''condition'' Text_Type), required (col ''action'' Text_Type),
     col ''condition_structured'' Jsonb, col ''action_structured'' Jsonb, required (col ''domain'' Text_Type),
     col ''source_patterns'' Jsonb, required (col ''hit_count'' Integer_Type), required (col ''success_rate'' Float_Type),
     required (col ''is_active'' Boolean_Type), required (col ''version'' Integer_Type),
     defaulted ''now()'' (required (col ''created_at'' Timestamp)), defaulted ''now()'' (required (col ''updated_at'' Timestamp))]"

definition orm_meta_strategies :: "column list" where
  "orm_meta_strategies = [keyed (col ''id'' Text_Type), required (col ''strategy_type'' Text_Type),
     required (col ''description'' Text_Type), col ''config_patch'' Jsonb, col ''evidence'' Jsonb, required (col ''status'' Text_Type),
     col ''effectiveness_score'' Float_Type, defaulted ''now()'' (required (col ''created_at'' Timestamp)),
     defaulted ''now()'' (required (col ''updated_at'' Timestamp))]"

definition orm_world_state_ledger :: "column list" where
  "orm_world_state_ledger = [keyed (col ''version'' Big_Integer), col ''state_snapshot'' Jsonb, col ''mutations'' Jsonb,
     defaulted ''false'' (required (col ''is_checkpoint'' Boolean_Type)), defaulted ''now()'' (required (col ''updated_at'' Timestamp)),
     refers_to ''proposals'' ''id'' (col ''proposal_id'' Text_Type)]"

definition orm_proposals :: "column list" where
  "orm_proposals = [keyed (col ''id'' Text_Type), col ''agent_id'' Text_Type, col ''task_id'' Text_Type, col ''mutations'' Jsonb,
     col ''rationale'' Text_Type, required (col ''verdict'' (Varchar 64)), col ''verdict_reason'' Text_Type,
     defaulted ''now()'' (required (col ''created_at'' Timestamp)), col ''verdict_at'' Timestamp,
     col ''ledger_version_before'' Big_Integer, col ''ledger_version_after'' Big_Integer]"

definition orm_sandbox_sessions :: "column list" where
  "orm_sandbox_sessions = [keyed (col ''id'' Text_Type), refers_to ''tasks'' ''id'' (col ''task_id'' Text_Type),
     col ''agent_id'' Text_Type, required (col ''status'' (Varchar 64)), col ''container_id'' Text_Type, col ''image'' Text_Type,
     col ''resource_limits'' Jsonb, col ''config'' Jsonb, defaulted ''now()'' (required (col ''created_at'' Timestamp)),
     col ''started_at'' Timestamp, col ''completed_at'' Timestamp, col ''destroyed_at'' Timestamp,
     required (col ''timeout_seconds'' Integer_Type), col ''exit_code'' Integer_Type]"

definition orm_sandbox_audit_log :: "column list" where
  "orm_sandbox_audit_log = [keyed (col ''id'' Text_Type), refers_to ''sandbox_sessions'' ''id'' (required (col ''session_id'' Text_Type)),
     required (col ''command'' Text_Type), col ''exit_code'' Integer_Type, col ''stdout'' Text_Type, col ''stderr'' Text_Type,
     col ''duration_ms'' Integer_Type, defaulted ''now()'' (required (col ''executed_at'' Timestamp))]"

definition orm_security_scans :: "column list" where
  "orm_security_scans = [keyed (col ''id'' Text_Type), required (col ''scan_type'' (Varchar 64)), col ''target_id'' Text_Type,
     required (col ''verdict'' (Varchar 64)), required (col ''findings_count'' Integer_Type),
     required (col ''critical_count'' Integer_Type), required (col ''duration_ms'' Integer_Type), col ''metadata'' Jsonb,
     defaulted ''now()'' (required (col ''created_at'' Timestamp))]"

definition orm_security_findings :: "column list" where
  "orm_security_findings = [keyed (col ''id'' Text_Type), refers_to ''security_scans'' ''id'' (required (col ''scan_id'' Text_Type)),
     required (col ''severity'' (Varchar 64)), required (col ''status'' (Varchar 64)), required (col ''category'' Text_Type),
     required (col ''title'' Text_Type), required (col ''description'' Text_Type), col ''location'' Text_Type,
     col ''remediation'' Text_Type, col ''cwe_id'' Text_Type, defaulted ''now()'' (required (col ''created_at'' Timestamp)),
     defaulted ''now()'' (required (col ''updated_at'' Timestamp))]"

definition orm_security_policies :: "column list" where
  "orm_security_policies = [keyed (col ''id'' Text_Type), unique_col (required (col ''name'' Text_Type)),
     required (col ''scan_type'' (Varchar 64)), required (col ''rules'' Jsonb), required (col ''action'' (Varchar 64)),
     required (col ''enabled'' Boolean_Type), defaulted ''now()'' (required (col ''created_at'' Timestamp)),
     defaulted ''now()'' (required (col ''updated_at'' Timestamp))]"

definition orm_specifications :: "column list" where
  "orm_specifications = [keyed (col ''id'' Text_Type), required (col ''intent'' Text_Type), required (col ''raw_text'' Text_Type),
     required (col ''status'' Text_Type), col ''constraints'' Jsonb, col ''success_criteria'' Jsonb, col ''file_targets'' Jsonb,
     col ''assumptions'' Jsonb, col ''open_questions'' Jsonb, col ''stakeholder_review'' Jsonb, col ''scope_report'' Jsonb,
     defaulted ''now()'' (required (col ''created_at'' Timestamp)), defaulted ''now()'' (required (col ''updated_at'' Timestamp))]"

definition orm_tasks :: "column list" where
  "orm_tasks = [keyed (col ''id'' Text_Type), required (col ''type'' (Varchar 64)), col ''agent_type'' (Varchar 64),
     col ''model_tier'' (Varchar 64), required (col ''status'' (Varchar 64)), required (col ''priority'' Integer_Type),
     col ''dependencies'' Text_Array, col ''dependents'' Text_Array, col ''inputs'' Jsonb, col ''outputs'' Jsonb, col ''budget'' Jsonb,
     col ''assigned_agent'' Text_Type, required (col ''current_attempt'' Integer_Type), col ''retry_history'' Jsonb,
     col ''verdict'' (Varchar 64), col ''error_message'' Text_Type, col ''started_at'' Timestamp, col ''completed_at'' Timestamp,
     defaulted ''now()'' (required (col ''created_at'' Timestamp)), defaulted ''now()'' (required (col ''updated_at'' Timestamp))]"

definition orm_tables :: "(string \<times> column list) list" where
  "orm_tables = [(''agent_sessions'', orm_agent_sessions), (''budget_records'', orm_budget_records),
     (''agent_efficiency_scores'', orm_agent_efficiency_scores), (''enforcement_actions'', orm_enforcement_actions),
     (''escalations'', orm_escalations), (''approval_gates'', orm_approval_gates), (''approval_votes'', orm_approval_votes),
     (''evaluation_reports'', orm_evaluation_reports), (''event_log'', orm_event_log), (''failure_records'', orm_failure_records),
     (''post_mortems'', orm_post_mortems), (''improvements'', orm_improvements), (''simulation_runs'', orm_simulation_runs),
     (''knowledge_entries'', orm_knowledge_entries), (''knowledge_observations'', orm_knowledge_observations),
     (''heuristic_rules'', orm_heuristic_rules), (''meta_strategies'', orm_meta_strategies),
     (''world_state_ledger'', orm_world_state_ledger), (''proposals'', orm_proposals), (''sandbox_sessions'', orm_sandbox_sessions),
     (''sandbox_audit_log'', orm_sandbox_audit_log), (''security_scans'', orm_security_scans),
     (''security_findings'', orm_security_findings), (''security_policies'', orm_security_policies),
     (''specifications'', orm_specifications), (''tasks'', orm_tasks)]"

section \<open>Models and schema\<close>

text \<open>A text of bounded length is stored in a text column.\<close>

definition stores_as :: "column_type \<Rightarrow> column_type \<Rightarrow> bool" where
  "stores_as db orm \<longleftrightarrow> db = orm \<or> (db = Text_Type \<and> (case orm of Varchar n \<Rightarrow> True | _ \<Rightarrow> False))"

definition fits_column :: "column list \<Rightarrow> column \<Rightarrow> bool" where
  "fits_column ds c \<longleftrightarrow> (case find (\<lambda>d. cn_name d = cn_name c) ds of None \<Rightarrow> False
     | Some d \<Rightarrow> stores_as (cn_type d) (cn_type c) \<and> cn_nullable d = cn_nullable c \<and> cn_key d = cn_key c)"

definition extra_columns :: "column list \<Rightarrow> column list \<Rightarrow> string list" where
  "extra_columns ds cs = filter (\<lambda>n. n \<notin> set (map cn_name cs)) (map cn_name ds)"

definition fits_table :: "db_schema \<Rightarrow> string \<times> column list \<Rightarrow> bool" where
  "fits_table s p \<longleftrightarrow> (case columns_of s (fst p) of None \<Rightarrow> False
     | Some ds \<Rightarrow> list_all (fits_column ds) (snd p) \<and> set (extra_columns ds (snd p)) \<subseteq> {''embedding_vec''})"

definition agrees_with_models :: "db_schema \<Rightarrow> bool" where
  "agrees_with_models s \<longleftrightarrow> list_all (fits_table s) orm_tables \<and> list_all (\<lambda>t. t \<in> set (keys orm_tables)) (keys (db_tables s))"

section \<open>The statements of the knowledge store\<close>

text \<open>Method, table, and the columns the statement names.\<close>

definition store_statements :: "(string \<times> string \<times> string list) list" where
  "store_statements = [
     (''store_entry'', ''knowledge_entries'', [''id'', ''layer'', ''topic'', ''title'', ''content'', ''content_type'', ''confidence'', ''tags'',
        ''embedding'', ''embedding_vec'', ''version_tag'', ''source'', ''usage_count'', ''active'', ''created_at'', ''updated_at'']),
     (''get_entry'', ''knowledge_entries'', [''id'']),
     (''search'', ''knowledge_entries'', [''active'']),
     (''increment_usage'', ''knowledge_entries'', [''usage_count'', ''updated_at'', ''id'']),
     (''deactivate_entry'', ''knowledge_entries'', [''active'', ''updated_at'', ''id'']),
     (''store_observation'', ''observations'', [''id'', ''task_id'', ''agent_id'', ''observation_type'', ''description'', ''context'', ''outcome'',
        ''domain'', ''embedding'', ''compressed'', ''pattern_id'', ''created_at'']),
     (''get_uncompressed_observations'', ''observations'', [''compressed'', ''created_at'']),
     (''mark_observations_compressed'', ''observations'', [''compressed'', ''pattern_id'', ''id'']),
     (''store_heuristic'', ''heuristics'', [''id'', ''domain'', ''condition'', ''action'', ''rationale'', ''confidence'', ''success_count'',
        ''failure_count'', ''active'', ''source_pattern_ids'', ''created_at'']),
     (''get_active_heuristics'', ''heuristics'', [''active'', ''confidence'']),
     (''update_heuristic_outcome'', ''heuristics'', [''success_count'', ''failure_count'', ''confidence'', ''id'']),
     (''store_meta_strategy'', ''meta_strategies'', [''id'', ''name'', ''description'', ''applicable_task_types'', ''steps'', ''source_heuristic_ids'',
        ''confidence'', ''created_at'']),
     (''get_meta_strategies'', ''meta_strategies'', [''confidence'']),
     (''get_stats'', ''observations'', [])]"

definition runs_on :: "db_schema \<Rightarrow> string \<times> string \<times> string list \<Rightarrow> bool" where
  "runs_on s st = has_columns s (fst (snd st)) (snd (snd st))"

definition running_statements :: "db_schema \<Rightarrow> string list" where
  "running_statements s = map fst (filter (runs_on s) store_statements)"

lemma final_schema_facts:
  "(case run_upgrades other_migrations empty_schema of Inl e \<Rightarrow> (False, []) | Inr s \<Rightarrow> (agrees_with_models s, running_statements s)) =
    (True, [''get_entry'', ''increment_usage''])"
  by code_simp

text \<open>
  Apart from the migration that fails, migrations and models agree: there is a table for every model
  and a model for every table, with the same columns in both, of the same type, nullability and
  key; the vector column that only the knowledge store's SQL uses is the one exception.
\<close>

theorem models_fit_schema: "agrees_with_models final_schema"
  using final_schema_facts by (auto simp: final_schema_def split: sum.splits)

text \<open>
  Of the statements of the knowledge store, two run on the schema of the migrations, reading an entry and
  counting its uses; every other one names a table or a column that the schema does not have, so that
  nothing can be stored, searched, observed or compressed.
\<close>

theorem knowledge_store_off_schema: "running_statements final_schema = [''get_entry'', ''increment_usage'']"
  using final_schema_facts by (auto simp: final_schema_def split: sum.splits)

end
