(* ===== verification/Working_Memory.thy ===== *)
theory Working_Memory
  imports Schema
begin

text \<open>
  The working memory of the Knowledge & Memory service (\<^verbatim>\<open>working_memory.py\<close>) and its routes
  (\<^verbatim>\<open>api/routes.py\<close>): an insertion-ordered dictionary from pairs of a task and an agent to a
  scratchpad, bounded in size by evicting the entry that was not used for longest, and in
  time by a sweep. Times are microseconds, and every operation holds the lock of the store, so it
  is one step. A route makes several steps.
\<close>

section \<open>The store\<close>

record memory =
  me_task :: string
  me_agent :: string
  me_scratchpad :: "(string \<times> json) list"
  me_context :: "string list"
  me_created :: int
  me_accessed :: int

record memory_store =
  ms_ttl :: int
  ms_max :: nat
  ms_entries :: "((string \<times> string) \<times> memory) list"

definition new_memory_store :: "int \<Rightarrow> nat \<Rightarrow> memory_store" where
  "new_memory_store ttl limit = \<lparr>ms_ttl = ttl, ms_max = limit, ms_entries = []\<rparr>"

text \<open>\<^verbatim>\<open>min(store, key=last_accessed)\<close>: the first of the oldest.\<close>

fun oldest :: "((string \<times> string) \<times> memory) list \<Rightarrow> ((string \<times> string) \<times> memory) option" where
  "oldest [] = None"
| "oldest (p # ps) = (case oldest ps of
      None \<Rightarrow> Some p
    | Some q \<Rightarrow> Some (if me_accessed (snd q) < me_accessed (snd p) then q else p))"

definition evict_oldest :: "memory_store \<Rightarrow> memory_store" where
  "evict_oldest s = (case oldest (ms_entries s) of
      None \<Rightarrow> s | Some p \<Rightarrow> s\<lparr>ms_entries := AList.delete (fst p) (ms_entries s)\<rparr>)"

definition fresh_memory :: "int \<Rightarrow> string \<Rightarrow> string \<Rightarrow> memory" where
  "fresh_memory now t a = \<lparr>me_task = strip t, me_agent = strip a, me_scratchpad = [], me_context = [], me_created = now, me_accessed = now\<rparr>"

definition create_memory :: "int \<Rightarrow> string \<Rightarrow> string \<Rightarrow> memory_store \<Rightarrow> memory \<times> memory_store" where
  "create_memory now t a s =
     (let s' = (if ms_max s \<le> length (ms_entries s) \<and> (t, a) \<notin> set (keys (ms_entries s)) then evict_oldest s else s);
          m = fresh_memory now t a
      in (m, s'\<lparr>ms_entries := AList.update (t, a) m (ms_entries s')\<rparr>))"

definition get_memory :: "int \<Rightarrow> string \<Rightarrow> string \<Rightarrow> memory_store \<Rightarrow> memory option \<times> memory_store" where
  "get_memory now t a s = (case map_of (ms_entries s) (t, a) of
      None \<Rightarrow> (None, s)
    | Some m \<Rightarrow> let m' = m\<lparr>me_accessed := now\<rparr> in (Some m', s\<lparr>ms_entries := AList.update (t, a) m' (ms_entries s)\<rparr>))"

text \<open>\<^verbatim>\<open>d.update(e)\<close>.\<close>

definition dict_update :: "('k \<times> 'v) list \<Rightarrow> ('k \<times> 'v) list \<Rightarrow> ('k \<times> 'v) list" where
  "dict_update d e = foldl (\<lambda>d p. AList.update (fst p) (snd p) d) d e"

definition changed_memory :: "int \<Rightarrow> (string \<times> json) list \<Rightarrow> string list \<Rightarrow> memory \<Rightarrow> memory" where
  "changed_memory now pad ids m = m\<lparr>me_scratchpad := dict_update (me_scratchpad m) pad, me_context := me_context m @ ids, me_accessed := now\<rparr>"

definition update_memory :: "int \<Rightarrow> string \<Rightarrow> string \<Rightarrow> (string \<times> json) list \<Rightarrow> string list \<Rightarrow> memory_store \<Rightarrow> memory option \<times> memory_store" where
  "update_memory now t a pad ids s = (case map_of (ms_entries s) (t, a) of
      None \<Rightarrow> (None, s)
    | Some m \<Rightarrow> let m' = changed_memory now pad ids m in (Some m', s\<lparr>ms_entries := AList.update (t, a) m' (ms_entries s)\<rparr>))"

definition delete_memory :: "string \<Rightarrow> string \<Rightarrow> memory_store \<Rightarrow> bool \<times> memory_store" where
  "delete_memory t a s = (if (t, a) \<in> set (keys (ms_entries s)) then (True, s\<lparr>ms_entries := AList.delete (t, a) (ms_entries s)\<rparr>) else (False, s))"

definition live :: "int \<Rightarrow> memory_store \<Rightarrow> memory \<Rightarrow> bool" where
  "live now s m \<longleftrightarrow> now - me_accessed m \<le> ms_ttl s * 1000000"

definition evict_expired :: "int \<Rightarrow> memory_store \<Rightarrow> nat \<times> memory_store" where
  "evict_expired now s =
     (let kept = filter (\<lambda>p. live now s (snd p)) (ms_entries s)
      in (length (ms_entries s) - length kept, s\<lparr>ms_entries := kept\<rparr>))"

section \<open>Routes\<close>

definition get_memory_route :: "int \<Rightarrow> string \<Rightarrow> string \<Rightarrow> memory_store \<Rightarrow> memory reply \<times> memory_store" where
  "get_memory_route now t a s = (case get_memory now t a s of
      (None, s') \<Rightarrow> (Http_Error 404 ''Working memory not found'', s') | (Some m, s') \<Rightarrow> (Reply m, s'))"

definition update_memory_route :: "int \<Rightarrow> string \<Rightarrow> string \<Rightarrow> (string \<times> json) list \<Rightarrow> string list \<Rightarrow> memory_store \<Rightarrow> memory \<times> memory_store" where
  "update_memory_route now t a pad ids s =
     (case get_memory now t a s of (existing, s1) \<Rightarrow>
      case (case existing of None \<Rightarrow> create_memory now t a s1 | Some m \<Rightarrow> (m, s1)) of (m, s2) \<Rightarrow>
      case update_memory now t a pad ids s2 of (updated, s3) \<Rightarrow> (case updated of None \<Rightarrow> m | Some u \<Rightarrow> u, s3))"

section \<open>Steps\<close>

datatype memory_step =
    Make int string string
  | Look int string string
  | Change int string string "(string \<times> json) list" "string list"
  | Forget string string
  | Sweep int

definition memory_run :: "memory_step \<Rightarrow> memory_store \<Rightarrow> memory_store" where
  "memory_run x s = (case x of
      Make now t a \<Rightarrow> snd (create_memory now t a s)
    | Look now t a \<Rightarrow> snd (get_memory now t a s)
    | Change now t a pad ids \<Rightarrow> snd (update_memory now t a pad ids s)
    | Forget t a \<Rightarrow> snd (delete_memory t a s)
    | Sweep now \<Rightarrow> snd (evict_expired now s))"

definition memory_ok :: "memory_store \<Rightarrow> bool" where
  "memory_ok s \<longleftrightarrow> distinct (keys (ms_entries s)) \<and> length (ms_entries s) \<le> ms_max s"

lemma oldest_None [simp]: "oldest ps = None \<longleftrightarrow> ps = []"
  by (cases ps) (auto split: option.split)

lemma oldest_Some: "oldest ps = Some p \<Longrightarrow> p \<in> set ps \<and> (\<forall>q \<in> set ps. me_accessed (snd p) \<le> me_accessed (snd q))"
  by (induction ps arbitrary: p) (fastforce split: option.splits if_splits)+

lemma delete_length: "k \<in> set (keys d) \<Longrightarrow> length (AList.delete k d) < length d"
  by (induction d) (auto simp: le_imp_less_Suc length_delete_le)

lemma update_length: "length (AList.update k v d) = (if k \<in> set (keys d) then length d else Suc (length d))"
  using arg_cong [OF keys_update [of k v d], of length] by (simp split: if_splits)

lemma evict_oldest_room:
  assumes "memory_ok s" and "0 < ms_max s" and "ms_max s \<le> length (ms_entries s)"
  shows "length (ms_entries (evict_oldest s)) < ms_max s"
proof -
  obtain p where p: "oldest (ms_entries s) = Some p" using assms by (cases "oldest (ms_entries s)") auto
  then have "fst p \<in> set (keys (ms_entries s))" using oldest_Some by fastforce
  then have "length (AList.delete (fst p) (ms_entries s)) < length (ms_entries s)" by (rule delete_length)
  with p assms show ?thesis by (simp add: evict_oldest_def memory_ok_def)
qed

lemma evict_oldest_frame [simp]: "ms_max (evict_oldest s) = ms_max s" "ms_ttl (evict_oldest s) = ms_ttl s"
    "distinct (keys (ms_entries s)) \<Longrightarrow> distinct (keys (ms_entries (evict_oldest s)))"
  by (auto simp: evict_oldest_def split: option.split)

lemma create_ok: "memory_ok s \<Longrightarrow> 0 < ms_max s \<Longrightarrow> memory_ok (snd (create_memory now t a s))"
  using evict_oldest_room [of s] by (auto simp: create_memory_def Let_def memory_ok_def update_length)

lemma keep_ok: "map_of (ms_entries s) k = Some m \<Longrightarrow> memory_ok s \<Longrightarrow> memory_ok (s\<lparr>ms_entries := AList.update k m' (ms_entries s)\<rparr>)"
  using in_keysI [of "ms_entries s" k m] by (simp add: memory_ok_def update_length)

lemma memory_run_ok: "memory_ok s \<Longrightarrow> 0 < ms_max s \<Longrightarrow> memory_ok (memory_run x s)"
  by (auto simp: memory_run_def create_ok get_memory_def update_memory_def delete_memory_def evict_expired_def Let_def keep_ok
      split: memory_step.split option.split)
    (auto simp: memory_ok_def distinct_map_filter intro: le_trans [OF length_filter_le] le_trans [OF length_delete_le])

lemma memory_run_frame [simp]: "ms_max (memory_run x s) = ms_max s" "ms_ttl (memory_run x s) = ms_ttl s"
  by (auto simp: memory_run_def create_memory_def get_memory_def update_memory_def delete_memory_def evict_expired_def Let_def
      split: memory_step.split option.split)

text \<open>
  However the steps of its users interleave, the working memory never holds more entries than its limit, nor
  two for one pair of task and agent.
\<close>

theorem memory_bounded:
  assumes "0 < limit"
  shows "length (ms_entries (fold memory_run xs (new_memory_store ttl limit))) \<le> limit \<and>
    distinct (keys (ms_entries (fold memory_run xs (new_memory_store ttl limit))))"
proof -
  have "memory_ok s \<Longrightarrow> ms_max s = limit \<Longrightarrow> memory_ok (fold memory_run xs s) \<and> ms_max (fold memory_run xs s) = limit" for s
    using assms by (induction xs arbitrary: s) (auto simp: memory_run_ok)
  from this [of "new_memory_store ttl limit"] show ?thesis by (simp add: memory_ok_def new_memory_store_def)
qed

theorem memory_bounded_witness:
  "length (ms_entries (fold memory_run [Make 1 ''t'' ''a'', Make 2 ''t'' ''b'', Look 3 ''t'' ''a'', Make 4 ''t'' ''c''] (new_memory_store 60 2))) \<le> 2"
  using memory_bounded [of 2 "[Make 1 ''t'' ''a'', Make 2 ''t'' ''b'', Look 3 ''t'' ''a'', Make 4 ''t'' ''c'']" 60] by simp

text \<open>What is given up for a new entry is the one not used for longest; everything else stays.\<close>

lemma evicts_least_recent:
  assumes "ms_max s \<le> length (ms_entries s)" and "(t, a) \<notin> set (keys (ms_entries s))" and "oldest (ms_entries s) = Some (k, m)"
  shows "map_of (ms_entries (snd (create_memory now t a s))) = ((map_of (ms_entries s))(k := None))((t, a) \<mapsto> fresh_memory now t a) \<and>
    (\<forall>q \<in> set (ms_entries s). me_accessed m \<le> me_accessed (snd q))"
  using assms oldest_Some [OF assms(3)] by (simp add: create_memory_def Let_def evict_oldest_def)

text \<open>After a sweep exactly the entries used within the time to live are there.\<close>

lemma sweep_exact:
  assumes "distinct (keys (ms_entries s))"
  shows "map_of (ms_entries (snd (evict_expired now s))) k =
    (case map_of (ms_entries s) k of None \<Rightarrow> None | Some m \<Rightarrow> if live now s m then Some m else None)"
proof -
  have "distinct (keys d) \<Longrightarrow> map_of (filter (\<lambda>p. live now s (snd p)) d) k =
      (case map_of d k of None \<Rightarrow> None | Some m \<Rightarrow> if live now s m then Some m else None)" for d
    by (induction d) (auto simp: map_of_eq_None_iff split: option.split intro: rev_image_eqI)
  with assms show ?thesis by (simp add: evict_expired_def Let_def)
qed

text \<open>What the update route writes is what the next read finds.\<close>

lemma update_then_get:
  assumes "memory_ok s" and "0 < ms_max s"
  shows "fst (get_memory later t a (snd (update_memory_route now t a pad ids s))) =
    Some (changed_memory now pad ids (case map_of (ms_entries s) (t, a) of None \<Rightarrow> fresh_memory now t a | Some m \<Rightarrow> m)\<lparr>me_accessed := later\<rparr>)"
  by (cases "map_of (ms_entries s) (t, a)")
    (simp_all add: update_memory_route_def get_memory_def create_memory_def update_memory_def changed_memory_def Let_def)

end
