(* ===== verification/Knowledge_Store.thy ===== *)
theory Knowledge_Store
  imports Schema
begin

text \<open>
  The store of the Knowledge & Memory service (\<^verbatim>\<open>knowledge_store.py\<close>, \<^verbatim>\<open>models.py\<close>) and
  the routes over it (\<^verbatim>\<open>api/routes.py\<close>): entries, observations, heuristic rules and
  meta-strategies, on the tables and columns its SQL statements name (\<open>Orm_Models\<close> shows which of them
  the migrations make). A table is the list of its rows, a statement changes the
  rows its condition selects. The database decodes JSON columns, the embedding column and the vector
  column hold the same numbers since every statement writes both, rows without an \<^verbatim>\<open>ORDER BY\<close>
  come in table order, and the cosine distance of the vector extension is a parameter.
\<close>

section \<open>Rows and models\<close>

record knowledge_entry =
  ke_id :: string
  ke_layer :: MemoryLayer
  ke_topic :: string
  ke_title :: string
  ke_content :: string
  ke_type :: ContentType
  ke_confidence :: rat
  ke_tags :: "string list"
  ke_embedding :: "rat list"
  ke_version :: string
  ke_source :: string
  ke_uses :: int
  ke_active :: bool
  ke_created :: int
  ke_updated :: int

record observation =
  ob_id :: string
  ob_task :: string
  ob_agent :: string
  ob_type :: ObservationType
  ob_description :: string
  ob_context :: "(string \<times> json) list"
  ob_outcome :: string
  ob_domain :: string
  ob_embedding :: "rat list"
  ob_compressed :: bool
  ob_pattern :: "string option"
  ob_created :: int

text \<open>The row of a rule has no project.\<close>

record heuristic_row =
  hr_id :: string
  hr_domain :: string
  hr_condition :: string
  hr_action :: string
  hr_rationale :: string
  hr_confidence :: rat
  hr_successes :: int
  hr_failures :: int
  hr_active :: bool
  hr_patterns :: "string list"
  hr_created :: int

record heuristic_rule = heuristic_row +
  hr_project :: string

text \<open>The row of a strategy has none of the fields of its validation.\<close>

record strategy_row =
  mt_id :: string
  mt_name :: string
  mt_description :: string
  mt_types :: "string list"
  mt_steps :: "string list"
  mt_heuristics :: "string list"
  mt_confidence :: rat
  mt_created :: int

record meta_strategy = strategy_row +
  mt_status :: string
  mt_applied :: nat
  mt_succeeded :: nat
  mt_failed :: nat
  mt_group :: string
  mt_test :: string

record knowledge_tables =
  kt_entries :: "knowledge_entry list"
  kt_observations :: "observation list"
  kt_heuristics :: "heuristic_row list"
  kt_strategies :: "strategy_row list"

definition no_knowledge :: knowledge_tables where
  "no_knowledge = \<lparr>kt_entries = [], kt_observations = [], kt_heuristics = [], kt_strategies = []\<rparr>"

text \<open>\<^verbatim>\<open>INSERT \<dots> ON CONFLICT (id) DO UPDATE\<close>, and \<^verbatim>\<open>UPDATE \<dots> WHERE\<close>.\<close>

definition upsert :: "('r \<Rightarrow> string) \<Rightarrow> 'r \<Rightarrow> ('r \<Rightarrow> 'r) \<Rightarrow> 'r list \<Rightarrow> 'r list" where
  "upsert key r change rows =
     (if key r \<in> set (map key rows) then map (\<lambda>x. if key x = key r then change x else x) rows else rows @ [r])"

definition update_where :: "('r \<Rightarrow> bool) \<Rightarrow> ('r \<Rightarrow> 'r) \<Rightarrow> 'r list \<Rightarrow> 'r list" where
  "update_where cond change rows = map (\<lambda>x. if cond x then change x else x) rows"

section \<open>Entries\<close>

text \<open>The vector column has 384 dimensions; the database refuses others.\<close>

definition vector_fits :: "rat list \<Rightarrow> bool" where
  "vector_fits v \<longleftrightarrow> v = [] \<or> length v = 384"

definition stored_entry :: "int \<Rightarrow> knowledge_entry \<Rightarrow> knowledge_entry" where
  "stored_entry now e = e\<lparr>ke_uses := 0, ke_active := True, ke_created := now, ke_updated := now\<rparr>"

definition replaced_entry :: "int \<Rightarrow> knowledge_entry \<Rightarrow> knowledge_entry \<Rightarrow> knowledge_entry" where
  "replaced_entry now e old = old\<lparr>ke_content := ke_content e, ke_confidence := ke_confidence e, ke_tags := ke_tags e,
     ke_embedding := ke_embedding e, ke_version := ke_version e, ke_updated := now\<rparr>"

definition store_entry :: "int \<Rightarrow> knowledge_entry \<Rightarrow> knowledge_tables \<Rightarrow> exn + knowledge_tables" where
  "store_entry now e t =
     (if vector_fits (ke_embedding e)
      then Inr (t\<lparr>kt_entries := upsert ke_id (stored_entry now e) (replaced_entry now e) (kt_entries t)\<rparr>)
      else Inl (ExternalError ''expected 384 dimensions''))"

definition get_entry :: "string \<Rightarrow> knowledge_tables \<Rightarrow> knowledge_entry option" where
  "get_entry i t = find (\<lambda>e. ke_id e = i) (kt_entries t)"

definition asked :: "'a option \<Rightarrow> 'a \<Rightarrow> bool" where
  "asked f x \<longleftrightarrow> (case f of None \<Rightarrow> True | Some y \<Rightarrow> x = y)"

definition selected :: "MemoryLayer option \<Rightarrow> string option \<Rightarrow> ContentType option \<Rightarrow> knowledge_entry \<Rightarrow> bool" where
  "selected layer topic ty e \<longleftrightarrow> ke_active e \<and> asked layer (ke_layer e) \<and> asked topic (ke_topic e) \<and> asked ty (ke_type e)"

text \<open>Without a query vector there is no ranking; with one, entries without a vector are not found.\<close>

definition search_entries :: "(rat list \<Rightarrow> rat list \<Rightarrow> rat) \<Rightarrow> rat list \<Rightarrow> MemoryLayer option \<Rightarrow> string option \<Rightarrow> ContentType option \<Rightarrow> nat \<Rightarrow>
    knowledge_tables \<Rightarrow> knowledge_entry list" where
  "search_entries distance query layer topic ty limit t =
     (if query = [] then take limit (filter (selected layer topic ty) (kt_entries t))
      else take limit (sort_key (\<lambda>e. distance (ke_embedding e) query)
             (filter (\<lambda>e. selected layer topic ty e \<and> ke_embedding e \<noteq> []) (kt_entries t))))"

definition used_once :: "int \<Rightarrow> knowledge_entry \<Rightarrow> knowledge_entry" where
  "used_once now e = e\<lparr>ke_uses := ke_uses e + 1, ke_updated := now\<rparr>"

definition increment_usage :: "int \<Rightarrow> string \<Rightarrow> knowledge_tables \<Rightarrow> knowledge_tables" where
  "increment_usage now i t = t\<lparr>kt_entries := update_where (\<lambda>e. ke_id e = i) (used_once now) (kt_entries t)\<rparr>"

definition deactivate_entry :: "int \<Rightarrow> string \<Rightarrow> knowledge_tables \<Rightarrow> knowledge_tables" where
  "deactivate_entry now i t =
     t\<lparr>kt_entries := update_where (\<lambda>e. ke_id e = i) (\<lambda>e. e\<lparr>ke_active := False, ke_updated := now\<rparr>) (kt_entries t)\<rparr>"

section \<open>Observations\<close>

definition store_observation :: "int \<Rightarrow> observation \<Rightarrow> knowledge_tables \<Rightarrow> exn + knowledge_tables" where
  "store_observation now x t =
     (if ob_id x \<in> set (map ob_id (kt_observations t)) then Inl (ExternalError ''duplicate key'')
      else Inr (t\<lparr>kt_observations := kt_observations t @ [x\<lparr>ob_compressed := False, ob_pattern := None, ob_created := now\<rparr>]\<rparr>))"

definition uncompressed_observations :: "string option \<Rightarrow> nat \<Rightarrow> nat \<Rightarrow> knowledge_tables \<Rightarrow> observation list" where
  "uncompressed_observations domain least most t =
     (let rows = take most (sort_key ob_created (filter (\<lambda>x. \<not> ob_compressed x \<and> asked domain (ob_domain x)) (kt_observations t)))
      in if length rows < least then [] else rows)"

definition mark_observations_compressed :: "string list \<Rightarrow> string \<Rightarrow> knowledge_tables \<Rightarrow> knowledge_tables" where
  "mark_observations_compressed ids pattern t =
     (if ids = [] then t
      else t\<lparr>kt_observations := update_where (\<lambda>x. ob_id x \<in> set ids) (\<lambda>x. x\<lparr>ob_compressed := True, ob_pattern := Some pattern\<rparr>) (kt_observations t)\<rparr>)"

section \<open>Heuristic rules and meta-strategies\<close>

definition store_heuristic :: "int \<Rightarrow> heuristic_rule \<Rightarrow> knowledge_tables \<Rightarrow> knowledge_tables" where
  "store_heuristic now h t = t\<lparr>kt_heuristics :=
     upsert hr_id ((heuristic_row.truncate h)\<lparr>hr_active := True, hr_created := now\<rparr>)
       (\<lambda>x. x\<lparr>hr_confidence := hr_confidence h, hr_successes := hr_successes h, hr_failures := hr_failures h\<rparr>) (kt_heuristics t)\<rparr>"

definition active_heuristics :: "string option \<Rightarrow> knowledge_tables \<Rightarrow> heuristic_row list" where
  "active_heuristics domain t = sort_key (\<lambda>h. - hr_confidence h) (filter (\<lambda>h. hr_active h \<and> asked domain (hr_domain h)) (kt_heuristics t))"

definition outcome_recorded :: "bool \<Rightarrow> heuristic_row \<Rightarrow> heuristic_row" where
  "outcome_recorded success h =
     h\<lparr>hr_successes := hr_successes h + (if success then 1 else 0),
       hr_failures := hr_failures h + (if success then 0 else 1),
       hr_confidence := (if 0 < hr_successes h + hr_failures h + 1
         then of_int (hr_successes h + (if success then 1 else 0)) / of_int (hr_successes h + hr_failures h + 1)
         else hr_confidence h)\<rparr>"

definition update_heuristic_outcome :: "string \<Rightarrow> bool \<Rightarrow> knowledge_tables \<Rightarrow> knowledge_tables" where
  "update_heuristic_outcome i success t =
     t\<lparr>kt_heuristics := update_where (\<lambda>h. hr_id h = i) (outcome_recorded success) (kt_heuristics t)\<rparr>"

definition store_meta_strategy :: "int \<Rightarrow> meta_strategy \<Rightarrow> knowledge_tables \<Rightarrow> knowledge_tables" where
  "store_meta_strategy now m t = t\<lparr>kt_strategies :=
     upsert mt_id ((strategy_row.truncate m)\<lparr>mt_created := now\<rparr>)
       (\<lambda>x. x\<lparr>mt_description := mt_description m, mt_steps := mt_steps m, mt_confidence := mt_confidence m\<rparr>) (kt_strategies t)\<rparr>"

definition get_meta_strategies :: "knowledge_tables \<Rightarrow> strategy_row list" where
  "get_meta_strategies t = sort_key (\<lambda>m. - mt_confidence m) (kt_strategies t)"

record knowledge_stats =
  ns_entries :: nat
  ns_by_layer :: "(MemoryLayer \<times> nat) list"
  ns_observations :: nat
  ns_heuristics :: nat
  ns_strategies :: nat

definition knowledge_stats_of :: "knowledge_tables \<Rightarrow> knowledge_stats" where
  "knowledge_stats_of t =
     (let live = filter ke_active (kt_entries t)
      in \<lparr>ns_entries = length live,
          ns_by_layer = map (\<lambda>l. (l, length (filter (\<lambda>e. ke_layer e = l) live))) (remdups (map ke_layer live)),
          ns_observations = length (kt_observations t),
          ns_heuristics = length (filter hr_active (kt_heuristics t)),
          ns_strategies = length (kt_strategies t)\<rparr>)"

section \<open>Routes\<close>

text \<open>The text of the query and its tags are not used, and the vector is empty.\<close>

definition query_knowledge :: "(rat list \<Rightarrow> rat list \<Rightarrow> rat) \<Rightarrow> MemoryLayer option \<Rightarrow> string option \<Rightarrow> ContentType option \<Rightarrow> int \<Rightarrow>
    knowledge_tables \<Rightarrow> (knowledge_entry list \<times> nat) reply" where
  "query_knowledge distance layer topic ty limit t =
     (if limit < 1 \<or> 100 < limit then Http_Error 422 ''validation error''
      else let found = search_entries distance [] layer topic ty (nat limit) t in Reply (found, length found))"

text \<open>The entry shown is the one before its use is counted.\<close>

definition get_knowledge :: "int \<Rightarrow> string \<Rightarrow> knowledge_tables \<Rightarrow> knowledge_entry reply \<times> knowledge_tables" where
  "get_knowledge now i t = (case get_entry i t of
      None \<Rightarrow> (Http_Error 404 ''Knowledge entry not found'', t)
    | Some e \<Rightarrow> (Reply e, increment_usage now i t))"

definition create_knowledge :: "int \<Rightarrow> knowledge_entry \<Rightarrow> knowledge_tables \<Rightarrow> string reply \<times> knowledge_tables" where
  "create_knowledge now e t = (case store_entry now e t of
      Inl _ \<Rightarrow> (Http_Error 500 ''Internal Server Error'', t) | Inr t' \<Rightarrow> (Reply (ke_id e), t'))"

definition knowledge_feedback :: "int \<Rightarrow> string \<Rightarrow> bool \<Rightarrow> knowledge_tables \<Rightarrow> string reply \<times> knowledge_tables" where
  "knowledge_feedback now i useful t = (case get_entry i t of
      None \<Rightarrow> (Http_Error 404 ''Knowledge entry not found'', t)
    | Some _ \<Rightarrow> (Reply i, if useful then increment_usage now i t else deactivate_entry now i t))"

text \<open>Recording an outcome answers alike when there is no such rule.\<close>

definition record_heuristic_outcome :: "string \<Rightarrow> bool \<Rightarrow> knowledge_tables \<Rightarrow> string reply \<times> knowledge_tables" where
  "record_heuristic_outcome i success t = (Reply i, update_heuristic_outcome i success t)"

text \<open>The two routes that should start workflows start nothing.\<close>

definition trigger_acquisition :: "string \<Rightarrow> (string \<times> string) list" where
  "trigger_acquisition topic = [(''status'', ''accepted''), (''topic'', topic), (''message'', ''Knowledge acquisition workflow queued.'')]"

record compression_result =
  cz_patterns :: nat
  cz_heuristics :: nat
  cz_strategies :: nat
  cz_observations :: nat

definition nothing_compressed :: compression_result where
  "nothing_compressed = \<lparr>cz_patterns = 0, cz_heuristics = 0, cz_strategies = 0, cz_observations = 0\<rparr>"

definition trigger_compression :: "string option \<Rightarrow> compression_result" where
  "trigger_compression domain = nothing_compressed"

section \<open>What the statements do\<close>

lemma upsert_keys: "map key (upsert key r change rows) = (if key r \<in> set (map key rows) then map key rows else map key rows @ [key r])"
  if "\<And>x. key (change x) = key x" using that by (simp add: upsert_def o_def)

lemma update_where_keys: "map key (update_where cond change rows) = map key rows" if "\<And>x. key (change x) = key x"
  using that by (simp add: update_where_def o_def)

lemma find_map_same: "(\<And>x. P (f x) = P x) \<Longrightarrow> find P (map f xs) = map_option f (find P xs)"
  by (induction xs) auto

lemma find_update_where:
  assumes "\<And>x. key (change x) = key x"
  shows "find (\<lambda>x. key x = i) (update_where (\<lambda>x. key x = j) change rows) =
    (if i = j then map_option change (find (\<lambda>x. key x = i) rows) else find (\<lambda>x. key x = i) rows)"
  using assms by (induction rows) (auto simp: update_where_def)

lemma find_upsert:
  assumes "\<And>x. key (change x) = key x"
  shows "find (\<lambda>x. key x = i) (upsert key r change rows) =
    (if i = key r then Some (case find (\<lambda>x. key x = i) rows of None \<Rightarrow> r | Some x \<Rightarrow> change x) else find (\<lambda>x. key x = i) rows)"
proof (cases "key r \<in> set (map key rows)")
  case True
  then have "find (\<lambda>x. key x = key r) rows \<noteq> None" by (auto simp: find_None_iff image_iff)
  with True assms find_update_where [of key change i "key r" rows] show ?thesis
    by (auto simp: upsert_def update_where_def)
next
  case False
  then have none: "find (\<lambda>x. key x = key r) rows = None"
    unfolding find_None_iff by (metis image_eqI set_map)
  have "find P (xs @ [x]) = (case find P xs of None \<Rightarrow> if P x then Some x else None | Some y \<Rightarrow> Some y)" for P and xs :: "'a list" and x
    by (induction xs) auto
  with False none show ?thesis by (auto simp: upsert_def split: option.split)
qed

text \<open>
  An entry that was stored is read back as it was given; storing an entry under an id that exists keeps the
  layer, the topic, the title, the kind, the source, the uses and a deactivation of the first, and
  every other entry is untouched.
\<close>

theorem stored_entry_read_back:
  assumes "vector_fits (ke_embedding e)"
  shows "get_entry i (snd (create_knowledge now e t)) =
    (if i \<noteq> ke_id e then get_entry i t
     else case get_entry i t of
         None \<Rightarrow> Some (stored_entry now e)
       | Some old \<Rightarrow> Some (old\<lparr>ke_content := ke_content e, ke_confidence := ke_confidence e, ke_tags := ke_tags e,
           ke_embedding := ke_embedding e, ke_version := ke_version e, ke_updated := now\<rparr>))"
  using assms find_upsert [of ke_id "replaced_entry now e" i "stored_entry now e" "kt_entries t"]
  by (auto simp: create_knowledge_def store_entry_def get_entry_def stored_entry_def replaced_entry_def split: option.split)

theorem stored_entry_read_back_witness:
  "\<exists>e. ke_title e = ''t'' \<and> get_entry ''k1'' (snd (create_knowledge 7 e no_knowledge)) = Some (stored_entry 7 e)"
proof -
  define e where "e = \<lparr>ke_id = ''k1'', ke_layer = MemoryLayer.L1_PROJECT, ke_topic = ''a'', ke_title = ''t'', ke_content = ''c'',
      ke_type = ContentType.PATTERN, ke_confidence = 1, ke_tags = [], ke_embedding = [], ke_version = [], ke_source = [], ke_uses = 0,
      ke_active = True, ke_created = 0, ke_updated = 0\<rparr>"
  have "vector_fits (ke_embedding e)" "ke_id e = ''k1''" "get_entry ''k1'' no_knowledge = None" "ke_title e = ''t''"
    by (simp_all add: e_def vector_fits_def get_entry_def no_knowledge_def)
  with stored_entry_read_back [of e "''k1''" 7 no_knowledge] show ?thesis by (intro exI [of _ e]) simp
qed

text \<open>A search returns active entries as asked, at most as many as the limit, and with a vector the nearest first.\<close>

lemma search_sound:
  "set (search_entries distance query layer topic ty limit t) \<subseteq> {e \<in> set (kt_entries t). selected layer topic ty e}"
  "length (search_entries distance query layer topic ty limit t) \<le> limit"
  by (auto simp: search_entries_def split: if_splits dest: in_set_takeD)

lemma search_nearest:
  assumes "query \<noteq> []" and "e \<in> set (search_entries distance query layer topic ty limit t)"
    and "d \<in> set (kt_entries t)" and "selected layer topic ty d" and "ke_embedding d \<noteq> []"
    and "d \<notin> set (search_entries distance query layer topic ty limit t)"
  shows "distance (ke_embedding e) query \<le> distance (ke_embedding d) query"
proof -
  define f where "f = (\<lambda>e :: knowledge_entry. distance (ke_embedding e) query)"
  define ys where "ys = sort_key f (filter (\<lambda>e. selected layer topic ty e \<and> ke_embedding e \<noteq> []) (kt_entries t))"
  have eq: "search_entries distance query layer topic ty limit t = take limit ys" using assms(1) by (simp add: search_entries_def ys_def f_def)
  have "d \<in> set ys" using assms by (simp add: ys_def)
  with assms(6) eq have "d \<in> set (drop limit ys)" by (metis Un_iff append_take_drop_id set_append)
  moreover have "sorted (map f (take limit ys @ drop limit ys))" by (simp add: ys_def del: append_take_drop_id map_append) (simp)
  ultimately show ?thesis using assms(2) eq unfolding map_append sorted_append by (auto simp: f_def)
qed

text \<open>Not useful means gone from every search, for good.\<close>

lemma not_useful_not_found:
  assumes "e \<in> set (search_entries distance query layer topic ty limit (deactivate_entry now i t))"
  shows "ke_id e \<noteq> i"
proof -
  have "e \<in> set (kt_entries (deactivate_entry now i t))" and live: "ke_active e"
    using subsetD [OF search_sound(1) assms] by (simp_all add: selected_def)
  then have "e \<in> (\<lambda>d. if ke_id d = i then d\<lparr>ke_active := False, ke_updated := now\<rparr> else d) ` set (kt_entries t)"
    by (simp add: deactivate_entry_def update_where_def)
  then obtain d where "e = (if ke_id d = i then d\<lparr>ke_active := False, ke_updated := now\<rparr> else d)" by blast
  with live show ?thesis by (cases "ke_id d = i") simp_all
qed

section \<open>Confidence of rules\<close>

definition confidence_ok :: "heuristic_row \<Rightarrow> bool" where
  "confidence_ok h \<longleftrightarrow> 0 \<le> hr_successes h \<and> 0 \<le> hr_failures h \<and> 0 \<le> hr_confidence h \<and> hr_confidence h \<le> 1"

definition outcomes_recorded :: "bool list \<Rightarrow> heuristic_row \<Rightarrow> heuristic_row" where
  "outcomes_recorded = fold outcome_recorded"

lemma outcomes_counted:
  assumes "0 \<le> hr_successes h" and "0 \<le> hr_failures h"
  shows "hr_successes (outcomes_recorded os h) = hr_successes h + int (length (filter id os)) \<and>
    hr_failures (outcomes_recorded os h) = hr_failures h + int (length (filter Not os)) \<and>
    hr_confidence (outcomes_recorded os h) = (if os = [] then hr_confidence h
      else of_int (hr_successes h + int (length (filter id os))) / of_int (hr_successes h + hr_failures h + int (length os)))"
  using assms
proof (induction os arbitrary: h)
  case Nil
  then show ?case by (simp add: outcomes_recorded_def)
next
  case (Cons b os)
  let ?h = "outcome_recorded b h"
  have "hr_successes ?h = hr_successes h + (if b then 1 else 0)" "hr_failures ?h = hr_failures h + (if b then 0 else 1)"
    by (simp_all add: outcome_recorded_def)
  moreover have "hr_confidence ?h = of_int (hr_successes h + (if b then 1 else 0)) / of_int (hr_successes h + hr_failures h + 1)"
    using Cons.prems by (simp add: outcome_recorded_def)
  ultimately show ?case using Cons.IH [of ?h] Cons.prems by (cases b) (auto simp: outcomes_recorded_def algebra_simps)
qed

text \<open>
  A rule's confidence after outcomes are recorded is the share of the successes among all its outcomes, the
  counts it had before included, and so between 0 and 1, whatever it was before the first.
\<close>

theorem confidence_is_success_share:
  assumes "0 \<le> hr_successes h" and "0 \<le> hr_failures h" and "os \<noteq> []"
  shows "hr_confidence (outcomes_recorded os h) =
      of_int (hr_successes h + int (length (filter id os))) / of_int (hr_successes h + hr_failures h + int (length os)) \<and>
    0 \<le> hr_confidence (outcomes_recorded os h) \<and> hr_confidence (outcomes_recorded os h) \<le> 1"
proof -
  have "length (filter id os) \<le> length os" by simp
  then have "hr_successes h + int (length (filter id os)) \<le> hr_successes h + hr_failures h + int (length os)" using assms by linarith
  then have "(of_int (hr_successes h + int (length (filter id os))) :: rat) \<le> of_int (hr_successes h + hr_failures h + int (length os))"
    by (simp only: of_int_le_iff)
  moreover have "0 < (of_int (hr_successes h + hr_failures h + int (length os)) :: rat)"
    using assms by (simp only: of_int_0_less_iff) (cases os, auto)
  moreover have "0 \<le> (of_int (hr_successes h + int (length (filter id os))) :: rat)" using assms by (simp only: of_int_0_le_iff)
  ultimately show ?thesis using outcomes_counted [OF assms(1,2), of os] assms(3) by (simp only: if_False) (simp add: divide_le_eq_1_pos)
qed

theorem confidence_is_success_share_witness:
  "\<exists>h. hr_confidence h = 1/2 \<and> hr_confidence (outcomes_recorded [True, True, False, True] h) = 3/4"
proof -
  define h where "h = \<lparr>hr_id = ''h'', hr_domain = [], hr_condition = [], hr_action = [], hr_rationale = [], hr_confidence = 1/2, hr_successes = 0,
     hr_failures = 0, hr_active = True, hr_patterns = [], hr_created = 0\<rparr>"
  have "hr_confidence (outcomes_recorded [True, True, False, True] h) = 3/4"
    using confidence_is_success_share [of h "[True, True, False, True]"] by (simp add: h_def)
  then show ?thesis by (intro exI [of _ h]) (simp add: h_def)
qed

end
