(* ===== verification/Heuristic_Engine.thy ===== *)
theory Heuristic_Engine
  imports Knowledge_Store Failure_Classifier
begin

text \<open>
  Heuristic rules and what judges them (\<^verbatim>\<open>heuristic_engine.py\<close>, \<^verbatim>\<open>llm_utils.py\<close>,
  \<^verbatim>\<open>failure_analyzer.py\<close>, \<^verbatim>\<open>knowledge_transfer.py\<close>, \<^verbatim>\<open>strategy_validator.py\<close>,
  \<^verbatim>\<open>version_tagger.py\<close>). The model is a parameter, a function from the system prompt and the
  user's message to an operation, and so are the clock, the fresh identifiers and SHA-256. Floats are exact;
  the square root of the proportion test is replaced by squares, and a lemma over the reals shows that
  this is the same test.
\<close>

section \<open>The service\<close>

record 'w knowledge =
  kn_tables :: knowledge_tables
  kn_world :: 'w

record 'w knowledge_env =
  kv_now :: "(exn, 'w, int) op"
  kv_new_id :: "string \<Rightarrow> (exn, 'w, string) op"
  kv_show_float :: "rat \<Rightarrow> string"
  kv_llm :: "(string \<Rightarrow> string \<Rightarrow> (exn, 'w, string) op) option"

definition in_world :: "(exn, 'w, 'a) op \<Rightarrow> (exn, 'w knowledge, 'a) op" where
  "in_world = zoom kn_world (\<lambda>w s. s\<lparr>kn_world := w\<rparr>)"

definition in_tables :: "(knowledge_tables \<Rightarrow> knowledge_tables) \<Rightarrow> (exn, 'w knowledge, unit) op" where
  "in_tables f = writes (\<lambda>s. s\<lparr>kn_tables := f (kn_tables s)\<rparr>)"

section \<open>Replies of the model\<close>

definition array_fence_rx :: rx where
  "array_fence_rx = seqs [lit ''```'', optional (lit ''json''), many (Cls False [Space]), optional (Cls False [Chr (CHR 0x0A)]),
     Grp 1 (Rep False 0 None (Cls True [])), lit ''```'']"

definition unfenced :: "string \<Rightarrow> string" where
  "unfenced content = (case rx_search False array_fence_rx (strip content) of
      None \<Rightarrow> strip content | Some g \<Rightarrow> strip (get_or [] g 1))"

definition cut_entry :: "json \<Rightarrow> json" where
  "cut_entry j = (case j of
      JObj d \<Rightarrow>
        let d1 = (case get_or (JStr []) d ''content'' of JStr s \<Rightarrow> if 50000 < length s then AList.update ''content'' (JStr (take 50000 s)) d else d | _ \<Rightarrow> d)
        in JObj (case get_or (JArr []) d1 ''tags'' of JArr ts \<Rightarrow> if 50 < length ts then AList.update ''tags'' (JArr (take 50 ts)) d1 else d1 | _ \<Rightarrow> d1)
    | _ \<Rightarrow> j)"

definition parse_llm_json_array :: "string \<Rightarrow> json list" where
  "parse_llm_json_array content = (case json_loads (unfenced content) of
      Some (JObj d) \<Rightarrow> map cut_entry [JObj d]
    | Some (JArr xs) \<Rightarrow> map cut_entry (take 200 xs)
    | _ \<Rightarrow> [])"

text \<open>\<^verbatim>\<open>r.get(k, v)\<close> of something that may not be a dictionary, and a field of type \<^verbatim>\<open>str\<close>.\<close>

definition dict_get :: "json \<Rightarrow> json \<Rightarrow> string \<Rightarrow> exn + json" where
  "dict_get v j k = (case j of JObj d \<Rightarrow> Inr (get_or v d k) | _ \<Rightarrow> Inl (AttributeError ''get''))"

definition as_text :: "json \<Rightarrow> exn + string" where
  "as_text j = (case j of JStr s \<Rightarrow> Inr (strip s) | _ \<Rightarrow> invalid)"

definition as_texts :: "json \<Rightarrow> exn + string list" where
  "as_texts j = (case j of JArr xs \<Rightarrow> map_sum_list as_text xs | _ \<Rightarrow> invalid)"

definition text_in :: "string \<Rightarrow> json \<Rightarrow> string \<Rightarrow> exn + string" where
  "text_in v j k = bind_sum (dict_get (JStr v) j k) as_text"

definition float_in :: "rat \<Rightarrow> json \<Rightarrow> string \<Rightarrow> exn + rat" where
  "float_in v j k = bind_sum (dict_get (JFloat v) j k) to_float"

section \<open>Rules\<close>

definition share :: "rat \<Rightarrow> bool" where
  "share q \<longleftrightarrow> 0 \<le> q \<and> q \<le> 1"

text \<open>The constructor: texts are stripped, and the confidence must be between 0 and 1.\<close>

definition mk_rule :: "heuristic_rule \<Rightarrow> exn + heuristic_rule" where
  "mk_rule h = (if share (hr_confidence h)
     then Inr (h\<lparr>hr_id := strip (hr_id h), hr_domain := strip (hr_domain h), hr_condition := strip (hr_condition h),
       hr_action := strip (hr_action h), hr_rationale := strip (hr_rationale h), hr_patterns := map strip (hr_patterns h),
       hr_project := strip (hr_project h)\<rparr>)
     else invalid)"

text \<open>A row as a rule: the time is new, the project is the default.\<close>

definition rule_of_row :: "int \<Rightarrow> heuristic_row \<Rightarrow> exn + heuristic_rule" where
  "rule_of_row now r = mk_rule (heuristic_row.extend (r\<lparr>hr_created := now\<rparr>) (heuristic_rule.fields []))"

text \<open>A rule is left out only when it matches neither.\<close>

definition rule_matches :: "string option \<Rightarrow> string option \<Rightarrow> heuristic_row \<Rightarrow> bool" where
  "rule_matches task_type domain r \<longleftrightarrow>
     (case task_type of None \<Rightarrow> True | Some t \<Rightarrow> occurs_in t (hr_condition r)) \<or>
     (case domain of None \<Rightarrow> True | Some d \<Rightarrow> occurs_in d (hr_condition r))"

definition stop_words :: "string list" where
  "stop_words = [''when'', ''then'', ''with'', ''that'', ''this'', ''from'', ''have'', ''been'', ''will'', ''each'', ''into'', ''also'']"

definition relevant :: "string \<Rightarrow> heuristic_rule \<Rightarrow> bool" where
  "relevant context r \<longleftrightarrow>
     list_ex (\<lambda>w. occurs_in w context) (filter (\<lambda>w. 4 < length w \<and> w \<notin> set stop_words) (words_of (lower (hr_condition r)))) \<or> context = []"

definition match_heuristics :: "(rat \<Rightarrow> string) \<Rightarrow> int \<Rightarrow> string option \<Rightarrow> string option \<Rightarrow> (string \<times> json) list \<Rightarrow> knowledge_tables \<Rightarrow>
    exn + heuristic_rule list" where
  "match_heuristics show_float now task_type domain context t =
     bind_sum (map_sum_list (rule_of_row now) (filter (rule_matches task_type domain) (active_heuristics domain t))) (\<lambda>rules.
     Inr (if context = [] then rules
          else filter (relevant (lower (join_with '' '' (map (py_str show_float \<circ> snd) context)))) rules))"

definition synthesizer_prompt :: string where
  "synthesizer_prompt = ''You are an expert software engineering heuristic synthesizer. '' @
     ''Given a set of patterns extracted from task observations, '' @
     ''synthesize actionable heuristic rules. '' @
     ''Return a JSON array of rule objects with keys: '' @
     ''\"domain\", \"condition\" (when to apply), \"action\" (what to do), '' @
     ''\"rationale\" (why this works), \"confidence\" (0-1 float).''"

definition nl :: string where
  "nl = [CHR 0x0A]"

definition pattern_line :: "knowledge_entry \<Rightarrow> string" where
  "pattern_line p = ''- '' @ ke_title p @ '': '' @ take 200 (ke_content p)"

definition synthesis_message :: "knowledge_entry list \<Rightarrow> string" where
  "synthesis_message ps =
     ''Domain: '' @ user_input (ke_topic (hd ps)) @ nl @ nl @
     ''Patterns ('' @ nat_str (length ps) @ '' total):'' @ nl @ user_input (join_with nl (map pattern_line ps)) @ nl @ nl @
     ''Synthesize heuristic rules from these patterns. '' @ ''Return ONLY a JSON array.''"

definition synthesized_rule :: "string \<Rightarrow> string \<Rightarrow> int \<Rightarrow> json \<Rightarrow> exn + heuristic_rule" where
  "synthesized_rule domain i now j =
     bind_sum (text_in domain j ''domain'') (\<lambda>d.
     bind_sum (text_in [] j ''condition'') (\<lambda>c.
     bind_sum (text_in [] j ''action'') (\<lambda>a.
     bind_sum (text_in [] j ''rationale'') (\<lambda>why.
     bind_sum (float_in (1/2) j ''confidence'') (\<lambda>q.
     mk_rule \<lparr>hr_id = i, hr_domain = d, hr_condition = c, hr_action = a, hr_rationale = why, hr_confidence = q, hr_successes = 0,
       hr_failures = 0, hr_active = True, hr_patterns = [], hr_created = now, hr_project = []\<rparr>)))))"

primrec rules_from :: "'w knowledge_env \<Rightarrow> string \<Rightarrow> json list \<Rightarrow> (exn, 'w, heuristic_rule list) op" where
  "rules_from env domain [] = ret []"
| "rules_from env domain (j # js) =
     chain (kv_new_id env ''heur'') (\<lambda>i.
     chain (kv_now env) (\<lambda>now.
     chain (lift_sum (\<lambda>_. synthesized_rule domain i now j)) (\<lambda>r.
     chain (rules_from env domain js) (\<lambda>rs. ret (r # rs)))))"

definition synthesize_heuristics :: "'w knowledge_env \<Rightarrow> knowledge_entry list \<Rightarrow> (exn, 'w, heuristic_rule list) op" where
  "synthesize_heuristics env ps = (case kv_llm env of
      None \<Rightarrow> ret []
    | Some llm \<Rightarrow>
        if ps = [] then ret []
        else chain (llm synthesizer_prompt (synthesis_message ps)) (\<lambda>content. rules_from env (ke_topic (hd ps)) (parse_llm_json_array content)))"

text \<open>\<^verbatim>\<open>evolve_heuristic\<close>.\<close>

definition evolve_heuristic :: "string \<Rightarrow> bool \<Rightarrow> (exn, 'w knowledge, unit) op" where
  "evolve_heuristic i success = in_tables (update_heuristic_outcome i success)"

section \<open>Failures\<close>

definition category_patterns :: "(string \<times> rx) list" where
  "category_patterns = [
     (''compilation'', alts [lit ''SyntaxError'', lit ''IndentationError'', lit ''NameError'']),
     (''import_error'', alts [lit ''ImportError'', lit ''ModuleNotFoundError'']),
     (''test_failure'', alts [lit ''AssertionError'', seqs [lit ''assert'', some_of (Cls False [Space]), many Dot, lit ''failed'']]),
     (''timeout'', alts [lit ''TimeoutError'', seqs [lit ''time'', optional (lit ''d''), many (Cls False [Space]), lit ''out'']]),
     (''resource_exhaustion'', alts [lit ''MemoryError'', lit ''OOM'',
        seqs [lit ''out'', some_of (Cls False [Space]), lit ''of'', some_of (Cls False [Space]), lit ''memory'']]),
     (''security_violation'', alts [lit ''SecurityError'', seqs [lit ''permission'', some_of (Cls False [Space]), lit ''denied'']]),
     (''dependency_error'', alts [lit ''dependency'',
        seqs [lit ''package'', some_of (Cls False [Space]), lit ''not'', some_of (Cls False [Space]), lit ''found''],
        seqs [lit ''version'', some_of (Cls False [Space]), lit ''conflict'']]),
     (''runtime_error'', alts [lit ''RuntimeError'', lit ''TypeError'', lit ''ValueError'', lit ''KeyError'', lit ''AttributeError''])]"

definition classify_failure :: "string \<Rightarrow> string" where
  "classify_failure message = (case find (\<lambda>p. rx_found True (snd p) message) category_patterns of
      None \<Rightarrow> ''unknown'' | Some p \<Rightarrow> fst p)"

definition record_heuristic_failure :: "string list \<Rightarrow> (exn, 'w knowledge, string list) op" where
  "record_heuristic_failure ids = chain (for_each (\<lambda>i. evolve_heuristic i False) ids) (\<lambda>_. ret ids)"

definition ineffective :: "rat \<Rightarrow> int \<Rightarrow> heuristic_rule \<Rightarrow> bool" where
  "ineffective threshold least h \<longleftrightarrow>
     least \<le> hr_successes h + hr_failures h \<and> threshold < of_int (hr_failures h) / of_int (hr_successes h + hr_failures h)"

text \<open>With no outcome at all and no minimum, the rate divides by zero.\<close>

definition review_heuristic_effectiveness :: "(rat \<Rightarrow> string) \<Rightarrow> int \<Rightarrow> rat \<Rightarrow> int \<Rightarrow> knowledge_tables \<Rightarrow> exn + heuristic_rule list" where
  "review_heuristic_effectiveness show_float now threshold least t =
     bind_sum (match_heuristics show_float now None None [] t) (\<lambda>hs.
     if list_ex (\<lambda>h. hr_successes h + hr_failures h = 0 \<and> least \<le> 0) hs then Inl ZeroDivisionError
     else Inr (filter (ineffective threshold least) hs))"

section \<open>Transfer between projects\<close>

text \<open>\<^verbatim>\<open>d.setdefault(key(x), []).append(x)\<close> over a list.\<close>

definition group_by :: "('a \<Rightarrow> string) \<Rightarrow> 'a list \<Rightarrow> (string \<times> 'a list) list" where
  "group_by key xs = foldl (\<lambda>d x. AList.update (key x) (get_or [] d (key x) @ [x]) d) [] xs"

definition same_rule_groups :: "nat \<Rightarrow> heuristic_rule list \<Rightarrow> heuristic_rule list list" where
  "same_rule_groups least hs =
     filter (\<lambda>g. least \<le> length (remdups (map hr_project g)))
       (concat (map (\<lambda>(domain, ds). map snd (group_by (\<lambda>h. lower (strip (hr_condition h))) ds))
         (group_by hr_domain (filter (\<lambda>h. hr_project h \<noteq> []) hs))))"

definition find_cross_project_heuristics :: "(rat \<Rightarrow> string) \<Rightarrow> int \<Rightarrow> nat \<Rightarrow> knowledge_tables \<Rightarrow> exn + heuristic_rule list list" where
  "find_cross_project_heuristics show_float now least t =
     bind_sum (match_heuristics show_float now None None [] t) (\<lambda>hs. Inr (same_rule_groups least hs))"

text \<open>\<^verbatim>\<open>max(group, key=confidence)\<close>: the first of the best.\<close>

fun most_confident :: "heuristic_rule list \<Rightarrow> heuristic_rule option" where
  "most_confident [] = None"
| "most_confident (h # hs) = (case most_confident hs of
      None \<Rightarrow> Some h | Some g \<Rightarrow> Some (if hr_confidence h < hr_confidence g then g else h))"

definition promoted_rule :: "string \<Rightarrow> int \<Rightarrow> rat \<Rightarrow> heuristic_rule list \<Rightarrow> heuristic_rule \<Rightarrow> exn + heuristic_rule" where
  "promoted_rule i now boost rules best = mk_rule (best\<lparr>hr_id := i,
     hr_rationale := ''Promoted from '' @ nat_str (length rules) @ '' projects: '' @ hr_rationale best,
     hr_confidence := min (hr_confidence best + boost) 1, hr_successes := sum_list (map hr_successes rules),
     hr_failures := sum_list (map hr_failures rules), hr_active := True, hr_project := [], hr_created := now\<rparr>)"

definition promote_to_global :: "'w knowledge_env \<Rightarrow> rat \<Rightarrow> heuristic_rule list \<Rightarrow> (exn, 'w knowledge, heuristic_rule option) op" where
  "promote_to_global env boost rules = (case most_confident rules of
      None \<Rightarrow> ret None
    | Some best \<Rightarrow>
        chain (in_world (kv_new_id env ''heur'')) (\<lambda>i.
        chain (in_world (kv_now env)) (\<lambda>now.
        chain (lift_sum (\<lambda>_. promoted_rule i now boost rules best)) (\<lambda>h.
        chain (in_tables (store_heuristic now h)) (\<lambda>_. ret (Some h))))))"

primrec promote_all :: "'w knowledge_env \<Rightarrow> heuristic_rule list list \<Rightarrow> (exn, 'w knowledge, nat) op" where
  "promote_all env [] = ret 0"
| "promote_all env (g # gs) =
     chain (promote_to_global env (1/10) g) (\<lambda>r.
     chain (promote_all env gs) (\<lambda>n. ret (case r of None \<Rightarrow> n | Some _ \<Rightarrow> Suc n)))"

definition run_knowledge_transfer :: "'w knowledge_env \<Rightarrow> nat \<Rightarrow> (exn, 'w knowledge, nat) op" where
  "run_knowledge_transfer env least =
     chain (in_world (kv_now env)) (\<lambda>now.
     chain (lift_sum (\<lambda>s. find_cross_project_heuristics (kv_show_float env) now least (kn_tables s))) (promote_all env))"

section \<open>Validation of strategies\<close>

definition ab_key :: "string \<Rightarrow> string \<Rightarrow> string" where
  "ab_key task_id test_id = task_id @ '':'' @ test_id"

definition assign_ab_group :: "(string \<Rightarrow> string) \<Rightarrow> string \<Rightarrow> string \<Rightarrow> exn + string" where
  "assign_ab_group sha256_hex task_id test_id =
     (let d = sha256_hex (ab_key task_id test_id)
      in case hex_number (drop (length d - 2) d) of
           None \<Rightarrow> Inl (ValueError ''invalid literal for int()'')
         | Some n \<Rightarrow> Inr (if n < 128 then ''experiment'' else ''control''))"

definition record_outcome :: "bool \<Rightarrow> meta_strategy \<Rightarrow> meta_strategy" where
  "record_outcome success m = m\<lparr>mt_applied := mt_applied m + 1, mt_succeeded := mt_succeeded m + (if success then 1 else 0),
     mt_failed := mt_failed m + (if success then 0 else 1)\<rparr>"

definition get_success_rate :: "meta_strategy \<Rightarrow> rat" where
  "get_success_rate m = (if mt_applied m = 0 then 0 else of_nat (mt_succeeded m) / of_nat (mt_applied m))"

text \<open>How far the rate is from the baseline, in standard errors, compared with 1.96.\<close>

definition beyond_bound :: "rat \<Rightarrow> rat \<Rightarrow> nat \<Rightarrow> bool" where
  "beyond_bound d variance n \<longleftrightarrow> 0 < d \<and> (196/100)\<^sup>2 * variance < d\<^sup>2 * of_nat n"

definition evaluate_strategy :: "rat \<Rightarrow> nat \<Rightarrow> meta_strategy \<Rightarrow> exn + string" where
  "evaluate_strategy baseline least m =
     (let n = mt_applied m; variance = baseline * (1 - baseline); d = get_success_rate m - baseline
      in if n < least then Inr ''insufficient_data''
         else if n = 0 then Inl ZeroDivisionError
         else if variance < 0 then Inl (ValueError ''math domain error'')
         else if variance = 0 then Inr ''inconclusive''
         else if beyond_bound d variance n then Inr ''validated''
         else if beyond_bound (- d) variance n then Inr ''rejected''
         else Inr ''inconclusive'')"

record validation_results =
  vr_validated :: "meta_strategy list"
  vr_rejected :: "meta_strategy list"
  vr_inconclusive :: "meta_strategy list"
  vr_insufficient :: "meta_strategy list"

definition finalized :: "meta_strategy \<Rightarrow> bool" where
  "finalized m \<longleftrightarrow> mt_status m \<in> {''validated'', ''rejected''}"

definition judged :: "(meta_strategy \<Rightarrow> string) \<Rightarrow> string \<Rightarrow> meta_strategy list \<Rightarrow> meta_strategy list" where
  "judged verdict v ms = filter (\<lambda>m. verdict m = v) ms"

definition strategy_verdict :: "rat \<Rightarrow> nat \<Rightarrow> meta_strategy \<Rightarrow> string" where
  "strategy_verdict baseline least m = (case evaluate_strategy baseline least m of Inl _ \<Rightarrow> [] | Inr v \<Rightarrow> v)"

definition run_validation_cycle :: "rat \<Rightarrow> nat \<Rightarrow> meta_strategy list \<Rightarrow> exn + validation_results" where
  "run_validation_cycle baseline least strategies =
     (let open_ones = filter (\<lambda>m. \<not> finalized m) strategies; verdict = strategy_verdict baseline least
      in bind_sum (map_sum_list (evaluate_strategy baseline least) open_ones) (\<lambda>_.
         Inr \<lparr>vr_validated = judged verdict ''validated'' open_ones, vr_rejected = judged verdict ''rejected'' open_ones,
              vr_inconclusive = judged verdict ''inconclusive'' open_ones, vr_insufficient = judged verdict ''insufficient_data'' open_ones\<rparr>))"

section \<open>Versions\<close>

definition tag_version :: "string \<Rightarrow> knowledge_entry \<Rightarrow> knowledge_entry" where
  "tag_version v e = e\<lparr>ke_version := v,
     ke_tags := (if ''version:'' @ v \<in> set (ke_tags e) then ke_tags e else ke_tags e @ [''version:'' @ v])\<rparr>"

end
