(* ===== verification/Heuristic_Properties.thy ===== *)
theory Heuristic_Properties
  imports Heuristic_Engine "HOL-Library.Multiset"
begin

text \<open>
  What the rules and strategies of the Knowledge & Memory service guarantee: rules can always be read, the
  filter of the matching route, the transfer between projects, and the proportion test of the
  validation against its definition over the reals.
\<close>

section \<open>Matching\<close>

text \<open>
  Matching by a task type without a domain filters nothing: the answer is the one of a request without any
  filter, since a rule is left out only when it matches neither filter and a missing one counts as matched.
\<close>

theorem type_filter_ignored:
  "match_heuristics show_float now (Some task_type) None context t = match_heuristics show_float now None None context t"
  by (simp add: match_heuristics_def rule_matches_def)

datatype rule_step = Learn int string string json | Outcome string bool

definition rule_run :: "rule_step \<Rightarrow> knowledge_tables \<Rightarrow> knowledge_tables" where
  "rule_run x t = (case x of
      Learn now i domain j \<Rightarrow> (case synthesized_rule domain i now j of Inl _ \<Rightarrow> t | Inr h \<Rightarrow> store_heuristic now h t)
    | Outcome i success \<Rightarrow> update_heuristic_outcome i success t)"

definition rules_ok :: "knowledge_tables \<Rightarrow> bool" where
  "rules_ok t \<longleftrightarrow> list_all confidence_ok (kt_heuristics t)"

lemma synthesized_ok:
  assumes "synthesized_rule domain i now j = Inr h"
  shows "share (hr_confidence h) \<and> hr_successes h = 0 \<and> hr_failures h = 0"
  using assms by (auto simp: synthesized_rule_def bind_sum_Inr mk_rule_def split: if_splits)

lemma outcome_ok: "confidence_ok h \<Longrightarrow> confidence_ok (outcome_recorded b h)"
  by (auto simp: confidence_ok_def outcome_recorded_def divide_le_eq)

lemma list_all_map_if: "list_all P xs \<Longrightarrow> (\<And>x. P x \<Longrightarrow> P (f x)) \<Longrightarrow> list_all P (map (\<lambda>x. if Q x then f x else x) xs)"
  by (induction xs) auto

lemma rule_run_ok: "rules_ok t \<Longrightarrow> rules_ok (rule_run x t)"
proof (cases x)
  case (Learn now i domain j)
  assume ok: "rules_ok t"
  show ?thesis
  proof (cases "synthesized_rule domain i now j")
    case (Inl e)
    with ok Learn show ?thesis by (simp add: rule_run_def)
  next
    case (Inr h)
    have h: "share (hr_confidence h)" "hr_successes h = 0" "hr_failures h = 0" using synthesized_ok [OF Inr] by auto
    have row: "hr_confidence (heuristic_row.truncate h) = hr_confidence h" "hr_successes (heuristic_row.truncate h) = hr_successes h"
        "hr_failures (heuristic_row.truncate h) = hr_failures h" by (simp_all add: heuristic_row.truncate_def)
    have "list_all confidence_ok (upsert hr_id ((heuristic_row.truncate h)\<lparr>hr_active := True, hr_created := now\<rparr>)
       (\<lambda>x. x\<lparr>hr_confidence := hr_confidence h, hr_successes := hr_successes h, hr_failures := hr_failures h\<rparr>) (kt_heuristics t))"
      using ok h row by (simp add: upsert_def rules_ok_def list_all_map_if confidence_ok_def share_def)
    with Inr Learn show ?thesis by (simp add: rule_run_def rules_ok_def store_heuristic_def)
  qed
next
  case (Outcome i success)
  assume "rules_ok t"
  with Outcome show ?thesis
    by (simp add: rule_run_def rules_ok_def update_heuristic_outcome_def update_where_def list_all_map_if outcome_ok)
qed

lemma mk_rule_total: "share (hr_confidence h) \<Longrightarrow> \<exists>r. mk_rule h = Inr r"
  by (simp add: mk_rule_def)

lemma map_sum_list_total: "(\<And>x. x \<in> set xs \<Longrightarrow> \<exists>y. f x = Inr y) \<Longrightarrow> \<exists>ys. map_sum_list f xs = Inr ys"
  by (induction xs) force+

lemma rule_of_row_total: "confidence_ok r \<Longrightarrow> \<exists>h. rule_of_row now r = Inr h"
  by (simp add: rule_of_row_def mk_rule_total confidence_ok_def share_def heuristic_row.extend_def)

lemma match_total:
  assumes "rules_ok t"
  shows "\<exists>rs. match_heuristics show_float now task_type domain context t = Inr rs"
proof -
  have "\<exists>ys. map_sum_list (rule_of_row now) (filter (rule_matches task_type domain) (active_heuristics domain t)) = Inr ys"
    using assms by (intro map_sum_list_total rule_of_row_total) (auto simp: active_heuristics_def rules_ok_def list_all_iff)
  then show ?thesis by (auto simp: match_heuristics_def)
qed

text \<open>
  However rules are learned from the model and outcomes are recorded, reading them never fails: the confidence
  of every rule stays one that the class of the rules accepts, whatever numbers the model made up.
\<close>

theorem rules_stay_readable:
  "\<exists>rs. match_heuristics show_float now task_type domain context (fold rule_run xs no_knowledge) = Inr rs"
proof -
  have "rules_ok t \<Longrightarrow> rules_ok (fold rule_run xs t)" for t
    by (induction xs arbitrary: t) (simp_all add: rule_run_ok)
  from this [of no_knowledge] show ?thesis by (intro match_total) (simp add: rules_ok_def no_knowledge_def)
qed

section \<open>Transfer\<close>

text \<open>Grouping keeps everything, in order.\<close>

lemma group_by_get: "get_or [] (group_by key xs) k = filter (\<lambda>x. key x = k) xs"
proof -
  have "get_or [] (foldl (\<lambda>d x. AList.update (key x) (get_or [] d (key x) @ [x]) d) d xs) k = get_or [] d k @ filter (\<lambda>x. key x = k) xs" for d
    by (induction xs arbitrary: d) (simp_all add: get_or_update)
  from this [of "[]"] show ?thesis by (simp add: group_by_def get_or_def)
qed

lemma mk_rule_global: "mk_rule h = Inr r \<Longrightarrow> hr_project h = [] \<Longrightarrow> hr_project r = []"
  by (auto simp: mk_rule_def strip_def split: if_splits)

lemma rule_of_row_global: "rule_of_row now r = Inr h \<Longrightarrow> hr_project h = []"
  unfolding rule_of_row_def by (erule mk_rule_global) (simp add: heuristic_row.extend_def heuristic_rule.fields_def)

lemma matched_global:
  assumes "match_heuristics show_float now task_type domain context t = Inr hs"
  shows "list_all (\<lambda>h. hr_project h = []) hs"
proof -
  obtain rs where rs: "map_sum_list (rule_of_row now) (filter (rule_matches task_type domain) (active_heuristics domain t)) = Inr rs"
    and hs: "set hs \<subseteq> set rs" using assms by (auto simp: match_heuristics_def bind_sum_Inr split: if_splits)
  from map_sum_list_all [OF rs, of "\<lambda>h. hr_project h = []"] rule_of_row_global have "list_all (\<lambda>h. hr_project h = []) rs" by blast
  with hs show ?thesis by (auto simp: list_all_iff)
qed

text \<open>
  The transfer between projects never promotes a rule: the table does not store the project of a rule, so every
  rule it reads counts as global already, there is no group to promote and the tables stay as they are.
\<close>

theorem transfer_promotes_nothing:
  "case run_knowledge_transfer env least s of (r, s') \<Rightarrow>
    kn_tables s' = kn_tables s \<and> (case r of Inl e \<Rightarrow> True | Inr n \<Rightarrow> n = 0)"
proof -
  have groups: "find_cross_project_heuristics sf now least t = Inr gs \<Longrightarrow> gs = []" for sf now t gs
  proof -
    assume "find_cross_project_heuristics sf now least t = Inr gs"
    then obtain hs where hs: "match_heuristics sf now None None [] t = Inr hs" and gs: "gs = same_rule_groups least hs"
      by (auto simp: find_cross_project_heuristics_def bind_sum_Inr)
    from matched_global [OF hs] have "filter (\<lambda>h. hr_project h \<noteq> []) hs = []" by (simp add: filter_empty_conv list_all_iff)
    then show ?thesis by (simp only: gs same_rule_groups_def) (simp add: group_by_def)
  qed
  show ?thesis
    by (cases "kv_now env (kn_world s)")
      (auto simp: run_knowledge_transfer_def in_world_def zoom_def chain_def lift_sum_def ret_def dest!: groups split: sum.splits prod.splits)
qed

section \<open>Validation\<close>

lemma beyond_is_z_score:
  assumes "0 < variance" and "0 < n"
  shows "beyond_bound d variance n \<longleftrightarrow> 196/100 < real_of_rat d / sqrt (real_of_rat variance / real n)"
proof -
  let ?d = "real_of_rat d" and ?v = "real_of_rat variance" and ?se = "sqrt (real_of_rat variance / real n)"
  have v: "0 < ?v" using assms(1) by simp
  have se: "0 < ?se" "?se\<^sup>2 = ?v / real n" using v assms(2) by simp_all
  have pos: "beyond_bound d variance n \<longleftrightarrow> 0 < ?d \<and> (196/100)\<^sup>2 * ?v < ?d\<^sup>2 * real n"
  proof -
    have "((196/100)\<^sup>2 * variance < d\<^sup>2 * of_nat n) \<longleftrightarrow> real_of_rat ((196/100)\<^sup>2 * variance) < real_of_rat (d\<^sup>2 * of_nat n)"
      by (simp only: of_rat_less)
    then show ?thesis by (simp add: beyond_bound_def of_rat_mult of_rat_power of_rat_divide)
  qed
  show ?thesis
  proof (cases "0 < ?d")
    case True
    have "196/100 < ?d / ?se \<longleftrightarrow> 196/100 * ?se < ?d" using se(1) by (simp only: pos_less_divide_eq)
    also have "\<dots> \<longleftrightarrow> (196/100 * ?se)\<^sup>2 < ?d\<^sup>2" using True se(1) abs_le_square_iff [of ?d "196/100 * ?se"] by (simp add: abs_mult not_le [symmetric])
    also have "\<dots> \<longleftrightarrow> (196/100)\<^sup>2 * ?v < ?d\<^sup>2 * real n"
      using assms(2) se(2) by (simp add: power_mult_distrib field_simps)
    finally show ?thesis using pos True by simp
  next
    case False
    then have "?d / ?se \<le> 0" using se(1) by (simp add: divide_le_0_iff)
    then have "\<not> 196/100 < ?d / ?se" by linarith
    moreover have "\<not> beyond_bound d variance n" using False pos by blast
    ultimately show ?thesis by blast
  qed
qed

text \<open>
  The validation of a strategy is the two-tailed proportion test at 1.96 standard errors: with enough samples and
  a baseline strictly between 0 and 1 it is validated, rejected or inconclusive as its success rate is more than 1.96
  standard errors above the baseline, below it, or neither.
\<close>

theorem validation_is_z_test:
  assumes "least \<le> mt_applied m" and "0 < mt_applied m" and "0 < baseline" and "baseline < 1"
  shows "evaluate_strategy baseline least m = Inr
    (let z = (real_of_rat (get_success_rate m) - real_of_rat baseline) /
         sqrt (real_of_rat baseline * (1 - real_of_rat baseline) / real (mt_applied m))
     in if 196/100 < z then ''validated'' else if z < - (196/100) then ''rejected'' else ''inconclusive'')"
proof -
  have v: "0 < baseline * (1 - baseline)" using assms by simp
  define z where "z = (real_of_rat (get_success_rate m) - real_of_rat baseline) /
    sqrt (real_of_rat baseline * (1 - real_of_rat baseline) / real (mt_applied m))"
  have "real_of_rat (baseline * (1 - baseline)) = real_of_rat baseline * (1 - real_of_rat baseline)"
    by (simp add: of_rat_mult of_rat_diff)
  then have z: "real_of_rat (get_success_rate m - baseline) / sqrt (real_of_rat (baseline * (1 - baseline)) / real (mt_applied m)) = z"
    by (simp add: z_def of_rat_diff)
  have above: "beyond_bound (get_success_rate m - baseline) (baseline * (1 - baseline)) (mt_applied m) \<longleftrightarrow> 196/100 < z"
    using beyond_is_z_score [OF v assms(2)] z by (simp only:)
  have "beyond_bound (- (get_success_rate m - baseline)) (baseline * (1 - baseline)) (mt_applied m) \<longleftrightarrow> 196/100 < - z"
    unfolding beyond_is_z_score [OF v assms(2)] of_rat_minus z [symmetric] by (simp only: minus_divide_left)
  then have below: "beyond_bound (- (get_success_rate m - baseline)) (baseline * (1 - baseline)) (mt_applied m) \<longleftrightarrow> z < - (196/100)"
    by linarith
  have "\<not> mt_applied m < least" "mt_applied m \<noteq> 0" "\<not> baseline * (1 - baseline) < 0" "baseline * (1 - baseline) \<noteq> 0"
    using assms(1,2) less_asym [OF v] less_imp_neq [OF v] by auto
  then show ?thesis unfolding z_def [symmetric] Let_def evaluate_strategy_def above below by (simp only: if_False if_distrib [of Inr])
qed

lemma some_strategy: "\<exists>m :: meta_strategy. mt_applied m = n \<and> mt_succeeded m = k"
  by (rule exI [of _ "\<lparr>mt_id = [], mt_name = [], mt_description = [], mt_types = [], mt_steps = [], mt_heuristics = [], mt_confidence = 0,
     mt_created = 0, mt_status = [], mt_applied = n, mt_succeeded = k, mt_failed = 0, mt_group = [], mt_test = []\<rparr>"]) simp

theorem validation_is_z_test_witness:
  "\<exists>m. mt_applied m = 36 \<and> mt_succeeded m = 27 \<and> evaluate_strategy (1/2) 30 m = Inr ''validated''"
proof -
  obtain m :: meta_strategy where m: "mt_applied m = 36" "mt_succeeded m = 27" using some_strategy by metis
  have rate: "real_of_rat (get_success_rate m) = 3/4" using m by (simp add: get_success_rate_def of_rat_divide)
  have half: "real_of_rat (1/2) = 1/2" by (simp add: of_rat_divide)
  have root: "sqrt (1/144) = 1/12" by (rule real_sqrt_unique) (simp_all add: power2_eq_square)
  have "evaluate_strategy (1/2) 30 m = Inr ''validated''"
    using validation_is_z_test [of 30 m "1/2"] m unfolding rate half by (simp add: root)
  with m show ?thesis by blast
qed

lemma four_parts:
  assumes "distinct [a, b, c, d]" and "list_all (\<lambda>x. f x \<in> {a, b, c, d}) xs"
  shows "mset (judged f a xs @ judged f b xs @ judged f c xs @ judged f d xs) = mset xs"
  using assms by (induction xs) (auto simp: judged_def)

text \<open>
  A validation cycle puts every strategy that is not finalized into exactly one of its four lists, leaves the
  others out, and the outcomes recorded before it count each application as one success or one failure.
\<close>

theorem validation_cycle_partitions:
  "(case run_validation_cycle baseline least ms of Inl e \<Rightarrow> True | Inr r \<Rightarrow>
      mset (vr_validated r @ vr_rejected r @ vr_inconclusive r @ vr_insufficient r) = mset (filter (\<lambda>m. \<not> finalized m) ms)) \<and>
    mt_applied (fold record_outcome os m) = mt_applied m + length os \<and>
    mt_succeeded (fold record_outcome os m) + mt_failed (fold record_outcome os m) = mt_succeeded m + mt_failed m + length os"
proof -
  have verdicts: "evaluate_strategy baseline least m = Inr v \<Longrightarrow> v \<in> {''validated'', ''rejected'', ''inconclusive'', ''insufficient_data''}" for m v
    by (auto simp: evaluate_strategy_def Let_def split: if_splits)
  have part: "mset (judged (strategy_verdict baseline least) ''validated'' xs @ judged (strategy_verdict baseline least) ''rejected'' xs @
        judged (strategy_verdict baseline least) ''inconclusive'' xs @ judged (strategy_verdict baseline least) ''insufficient_data'' xs) = mset xs"
      if "map_sum_list (evaluate_strategy baseline least) xs = Inr vs" for xs vs
  proof (rule four_parts)
    show "distinct [''validated'', ''rejected'', ''inconclusive'', ''insufficient_data'']" by simp
    show "list_all (\<lambda>x. strategy_verdict baseline least x \<in> {''validated'', ''rejected'', ''inconclusive'', ''insufficient_data''}) xs"
      using that
    proof (induction xs arbitrary: vs)
      case (Cons x xs)
      then obtain v us where v: "evaluate_strategy baseline least x = Inr v" and us: "map_sum_list (evaluate_strategy baseline least) xs = Inr us"
        by (auto simp only: map_sum_list.simps bind_sum_Inr)
      have "strategy_verdict baseline least x = v" by (simp only: strategy_verdict_def v sum.case)
      with verdicts [OF v] Cons.IH [OF us] show ?case by (simp only: list.pred_inject)
    qed simp
  qed
  have "mt_applied (fold record_outcome os m) = mt_applied m + length os \<and>
      mt_succeeded (fold record_outcome os m) + mt_failed (fold record_outcome os m) = mt_succeeded m + mt_failed m + length os"
    by (induction os arbitrary: m) (auto simp: record_outcome_def)
  moreover have "case run_validation_cycle baseline least ms of Inl e \<Rightarrow> True | Inr r \<Rightarrow>
      mset (vr_validated r @ vr_rejected r @ vr_inconclusive r @ vr_insufficient r) = mset (filter (\<lambda>m. \<not> finalized m) ms)"
  proof (cases "map_sum_list (evaluate_strategy baseline least) (filter (\<lambda>m. \<not> finalized m) ms)")
    case (Inl e)
    then show ?thesis by (simp add: run_validation_cycle_def)
  next
    case (Inr vs)
    from part [OF this] show ?thesis unfolding run_validation_cycle_def Let_def Inr by (simp only: bind_sum_simps sum.case validation_results.simps)
  qed
  ultimately show ?thesis by blast
qed

end
