(* ===== verification/Knowledge_Compression.thy ===== *)
theory Knowledge_Compression
  imports Heuristic_Properties Governor_Monitor
begin

text \<open>
  From observations to patterns, rules and strategies (\<^verbatim>\<open>similarity.py\<close>, \<^verbatim>\<open>pattern_extractor.py\<close>,
  \<^verbatim>\<open>compression.py\<close>, \<^verbatim>\<open>example_miner.py\<close>), the events that make observations
  (\<^verbatim>\<open>event_handler.py\<close>), and the Temporal side (\<^verbatim>\<open>temporal/\<close>), whose activities are
  stubs. A comparison of a cosine similarity with a threshold is one of squares, and a
  lemma over the reals shows that it is the same.
\<close>

section \<open>Similarity\<close>

definition dot :: "rat list \<Rightarrow> rat list \<Rightarrow> rat" where
  "dot a b = sum_list (map2 (*) a b)"

definition real_norm :: "rat list \<Rightarrow> real" where
  "real_norm a = sqrt (real_of_rat (dot a a))"

definition cosine_similarity :: "rat list \<Rightarrow> rat list \<Rightarrow> real" where
  "cosine_similarity a b =
     (if length a \<noteq> length b \<or> a = [] then 0
      else if real_norm a = 0 \<or> real_norm b = 0 then 0
      else real_of_rat (dot a b) / (real_norm a * real_norm b))"

text \<open>The similarity is at least a threshold that is not negative.\<close>

definition at_least :: "rat \<Rightarrow> rat list \<Rightarrow> rat list \<Rightarrow> bool" where
  "at_least q a b =
     (if length a \<noteq> length b \<or> a = [] \<or> dot a a = 0 \<or> dot b b = 0 then q \<le> 0
      else 0 \<le> dot a b \<and> q\<^sup>2 * (dot a a * dot b b) \<le> (dot a b)\<^sup>2)"

section \<open>Clusters\<close>

text \<open>The new centre is the mean: the old one weighs as much as the members before.\<close>

definition new_centroid :: "nat \<Rightarrow> rat list \<Rightarrow> rat list \<Rightarrow> rat list" where
  "new_centroid n c e = map2 (\<lambda>x y. (x * (of_nat n - 1) + y) / of_nat n) c e"

fun place_observation :: "rat \<Rightarrow> observation \<Rightarrow> (observation list \<times> rat list) list \<Rightarrow> (observation list \<times> rat list) list" where
  "place_observation q x [] = [([x], ob_embedding x)]"
| "place_observation q x ((xs, c) # cs) =
     (if c \<noteq> [] \<and> at_least q (ob_embedding x) c
      then (xs @ [x], new_centroid (Suc (length xs)) c (ob_embedding x)) # cs
      else (xs, c) # place_observation q x cs)"

definition cluster_step :: "rat \<Rightarrow> (observation list \<times> rat list) list \<Rightarrow> observation \<Rightarrow> (observation list \<times> rat list) list" where
  "cluster_step q cs x = (if ob_embedding x = [] then cs @ [([x], [])] else place_observation q x cs)"

definition cluster_observations :: "rat \<Rightarrow> observation list \<Rightarrow> observation list list" where
  "cluster_observations q xs = map fst (foldl (cluster_step q) [] xs)"

section \<open>Patterns\<close>

definition mk_entry :: "knowledge_entry \<Rightarrow> exn + knowledge_entry" where
  "mk_entry e = (if share (ke_confidence e)
     then Inr (e\<lparr>ke_id := strip (ke_id e), ke_topic := strip (ke_topic e), ke_title := strip (ke_title e), ke_content := strip (ke_content e),
       ke_tags := map strip (ke_tags e), ke_version := strip (ke_version e), ke_source := strip (ke_source e)\<rparr>)
     else invalid)"

definition new_entry :: "string \<Rightarrow> int \<Rightarrow> MemoryLayer \<Rightarrow> ContentType \<Rightarrow> string \<Rightarrow> string \<Rightarrow> string \<Rightarrow> rat \<Rightarrow> string list \<Rightarrow> string \<Rightarrow> exn + knowledge_entry" where
  "new_entry i now layer ty topic title content q tags source =
     mk_entry \<lparr>ke_id = i, ke_layer = layer, ke_topic = topic, ke_title = title, ke_content = content, ke_type = ty, ke_confidence = q,
       ke_tags = tags, ke_embedding = [], ke_version = [], ke_source = source, ke_uses = 0, ke_active = True, ke_created = now, ke_updated = now\<rparr>"

definition extractor_prompt :: string where
  "extractor_prompt = ''You are an expert software engineering pattern analyst. '' @
     ''Given a set of observations from task execution, extract reusable patterns. '' @
     ''Return a JSON array of pattern objects with keys: '' @
     ''\"title\", \"content\", \"confidence\" (0-1 float), \"tags\" (string array).''"

definition observation_line :: "observation \<Rightarrow> string" where
  "observation_line x = ''- ['' @ observation_type_value (ob_type x) @ ''] '' @ ob_description x @
     '' (domain: '' @ ob_domain x @ '', outcome: '' @ ob_outcome x @ '')''"

definition extraction_message :: "observation list \<Rightarrow> string" where
  "extraction_message xs =
     ''Domain: '' @ user_input (ob_domain (hd xs)) @ nl @ nl @
     ''Observations ('' @ nat_str (length xs) @ '' total):'' @ nl @ user_input (join_with nl (map observation_line xs)) @ nl @ nl @
     ''Extract reusable patterns from these observations. '' @ ''Return ONLY a JSON array.''"

definition extracted_pattern :: "string \<Rightarrow> string \<Rightarrow> string \<Rightarrow> int \<Rightarrow> json \<Rightarrow> exn + knowledge_entry" where
  "extracted_pattern topic content i now j =
     bind_sum (text_in ''Extracted pattern'' j ''title'') (\<lambda>title.
     bind_sum (text_in content j ''content'') (\<lambda>body.
     bind_sum (float_in (1/2) j ''confidence'') (\<lambda>q.
     bind_sum (bind_sum (dict_get (JArr []) j ''tags'') as_texts) (\<lambda>tags.
     new_entry i now MemoryLayer.L2_PATTERN ContentType.PATTERN topic title body q tags ''pattern_extraction''))))"

primrec entries_from :: "'w knowledge_env \<Rightarrow> (string \<Rightarrow> int \<Rightarrow> json \<Rightarrow> exn + knowledge_entry) \<Rightarrow> json list \<Rightarrow> (exn, 'w, knowledge_entry list) op" where
  "entries_from env build [] = ret []"
| "entries_from env build (j # js) =
     chain (kv_new_id env ''know'') (\<lambda>i.
     chain (kv_now env) (\<lambda>now.
     chain (lift_sum (\<lambda>_. build i now j)) (\<lambda>e.
     chain (entries_from env build js) (\<lambda>es. ret (e # es)))))"

text \<open>What the model says is kept as one entry when it is no array, or an empty one.\<close>

definition entries_or_fallback :: "'w knowledge_env \<Rightarrow> (string \<Rightarrow> int \<Rightarrow> json \<Rightarrow> exn + knowledge_entry) \<Rightarrow>
    (string \<Rightarrow> int \<Rightarrow> exn + knowledge_entry) \<Rightarrow> string \<Rightarrow> (exn, 'w, knowledge_entry list) op" where
  "entries_or_fallback env build fallback_entry content =
     (if parse_llm_json_array content = []
      then chain (kv_new_id env ''know'') (\<lambda>i. chain (kv_now env) (\<lambda>now. chain (lift_sum (\<lambda>_. fallback_entry i now)) (\<lambda>e. ret [e])))
      else entries_from env build (parse_llm_json_array content))"

definition extract_patterns :: "'w knowledge_env \<Rightarrow> (string \<Rightarrow> string \<Rightarrow> (exn, 'w, string) op) \<Rightarrow> observation list \<Rightarrow> (exn, 'w, knowledge_entry list) op" where
  "extract_patterns env llm xs =
     (if xs = [] then ret []
      else chain (llm extractor_prompt (extraction_message xs)) (\<lambda>content.
           entries_or_fallback env (extracted_pattern (ob_domain (hd xs)) content)
             (\<lambda>i now. new_entry i now MemoryLayer.L2_PATTERN ContentType.PATTERN (ob_domain (hd xs)) ''Extracted pattern'' content (3/10) []
               ''pattern_extraction:parse_fallback'') content))"

section \<open>The pipeline\<close>

definition store_one :: "'w knowledge_env \<Rightarrow> knowledge_entry \<Rightarrow> (exn, 'w knowledge, unit) op" where
  "store_one env e =
     chain (in_world (kv_now env)) (\<lambda>now. \<lambda>s. case store_entry now e (kn_tables s) of
         Inl x \<Rightarrow> (Inl x, s) | Inr t \<Rightarrow> (Inr (), s\<lparr>kn_tables := t\<rparr>))"

text \<open>The patterns of one cluster; its observations point to the first of them.\<close>

definition compress_cluster :: "'w knowledge_env \<Rightarrow> (string \<Rightarrow> string \<Rightarrow> (exn, 'w, string) op) \<Rightarrow> observation list \<Rightarrow> (exn, 'w knowledge, nat) op" where
  "compress_cluster env llm xs =
     (if length xs < 2 then ret 0
      else chain (in_world (extract_patterns env llm xs)) (\<lambda>ps.
           chain (for_each (store_one env) ps) (\<lambda>_.
           chain (case ps of [] \<Rightarrow> in_world (kv_new_id env ''know'') | p # _ \<Rightarrow> ret (ke_id p)) (\<lambda>link.
           chain (in_tables (mark_observations_compressed (map ob_id xs) link)) (\<lambda>_.
           ret (length ps))))))"

primrec compress_clusters :: "'w knowledge_env \<Rightarrow> (string \<Rightarrow> string \<Rightarrow> (exn, 'w, string) op) \<Rightarrow> observation list list \<Rightarrow> (exn, 'w knowledge, nat) op" where
  "compress_clusters env llm [] = ret 0"
| "compress_clusters env llm (xs # xss) =
     chain (compress_cluster env llm xs) (\<lambda>n. chain (compress_clusters env llm xss) (\<lambda>m. ret (n + m)))"

definition compress_observations :: "'w knowledge_env \<Rightarrow> (string \<Rightarrow> string \<Rightarrow> (exn, 'w, string) op) \<Rightarrow> nat \<Rightarrow> string option \<Rightarrow>
    (exn, 'w knowledge, compression_result) op" where
  "compress_observations env llm least domain =
     chain (reads (\<lambda>s. uncompressed_observations domain least 500 (kn_tables s))) (\<lambda>xs.
     if xs = [] then ret nothing_compressed
     else chain (compress_clusters env llm (cluster_observations (7/10) xs)) (\<lambda>n.
          ret (nothing_compressed\<lparr>cz_patterns := n, cz_observations := length xs\<rparr>)))"

definition promote_patterns_to_heuristics :: "'w knowledge_env \<Rightarrow> nat \<Rightarrow> string option \<Rightarrow> (exn, 'w knowledge, heuristic_rule list) op" where
  "promote_patterns_to_heuristics env least domain =
     chain (reads (\<lambda>s. search_entries (\<lambda>_ _. 0) [] (Some MemoryLayer.L2_PATTERN) domain None 50 (kn_tables s))) (\<lambda>ps.
     if length ps < least then ret []
     else chain (in_world (synthesize_heuristics env ps)) (\<lambda>rules.
          chain (for_each (\<lambda>h. chain (in_world (kv_now env)) (\<lambda>now. in_tables (store_heuristic now h))) rules) (\<lambda>_. ret rules)))"

definition strategist_prompt :: string where
  "strategist_prompt = ''You are an expert software engineering strategist. '' @
     ''Given a set of heuristic rules, derive high-level meta-strategies '' @
     ''that combine multiple rules into coherent approaches. '' @
     ''Return a JSON array of strategy objects with keys: '' @
     ''\"name\", \"description\", \"applicable_task_types\" (array of strings), '' @
     ''\"steps\" (array of strings), \"confidence\" (0-1 float).''"

text \<open>The confidence is shown with two decimals, which is a parameter.\<close>

definition rule_line :: "(rat \<Rightarrow> string) \<Rightarrow> heuristic_row \<Rightarrow> string" where
  "rule_line show_cents h = ''- ['' @ hr_domain h @ ''] IF '' @ hr_condition h @ '' THEN '' @ hr_action h @
     '' (confidence: '' @ show_cents (hr_confidence h) @ '')''"

definition strategy_message :: "(rat \<Rightarrow> string) \<Rightarrow> heuristic_row list \<Rightarrow> string" where
  "strategy_message show_cents hs =
     ''Heuristic rules ('' @ nat_str (length hs) @ '' total):'' @ nl @ user_input (join_with nl (map (rule_line show_cents) hs)) @ nl @ nl @
     ''Derive meta-strategies from these heuristics. '' @ ''Return ONLY a JSON array.''"

definition mk_strategy :: "meta_strategy \<Rightarrow> exn + meta_strategy" where
  "mk_strategy m = (if share (mt_confidence m)
     then Inr (m\<lparr>mt_id := strip (mt_id m), mt_name := strip (mt_name m), mt_description := strip (mt_description m), mt_steps := map strip (mt_steps m),
       mt_heuristics := map strip (mt_heuristics m)\<rparr>)
     else invalid)"

definition derived_strategy :: "string list \<Rightarrow> string \<Rightarrow> int \<Rightarrow> json \<Rightarrow> exn + meta_strategy" where
  "derived_strategy sources i now j =
     bind_sum (text_in ''Unnamed strategy'' j ''name'') (\<lambda>name.
     bind_sum (text_in [] j ''description'') (\<lambda>desc.
     bind_sum (bind_sum (dict_get (JArr []) j ''steps'') as_texts) (\<lambda>steps.
     bind_sum (float_in (1/2) j ''confidence'') (\<lambda>q.
     mk_strategy \<lparr>mt_id = i, mt_name = name, mt_description = desc, mt_types = [], mt_steps = steps, mt_heuristics = take 5 sources,
       mt_confidence = q, mt_created = now, mt_status = ''unvalidated'', mt_applied = 0, mt_succeeded = 0, mt_failed = 0, mt_group = [],
       mt_test = []\<rparr>))))"

text \<open>Each strategy is stored before the next one is read.\<close>

primrec derive_each :: "'w knowledge_env \<Rightarrow> string list \<Rightarrow> json list \<Rightarrow> (exn, 'w knowledge, meta_strategy list) op" where
  "derive_each env sources [] = ret []"
| "derive_each env sources (j # js) =
     chain (in_world (kv_new_id env ''know'')) (\<lambda>i.
     chain (in_world (kv_now env)) (\<lambda>now.
     chain (lift_sum (\<lambda>_. derived_strategy sources i now j)) (\<lambda>m.
     chain (in_tables (store_meta_strategy now m)) (\<lambda>_.
     chain (derive_each env sources js) (\<lambda>ms. ret (m # ms))))))"

definition derive_meta_strategies :: "'w knowledge_env \<Rightarrow> (string \<Rightarrow> string \<Rightarrow> (exn, 'w, string) op) \<Rightarrow> (rat \<Rightarrow> string) \<Rightarrow>
    (exn, 'w knowledge, meta_strategy list) op" where
  "derive_meta_strategies env llm show_cents =
     chain (reads (\<lambda>s. active_heuristics None (kn_tables s))) (\<lambda>hs.
     if hs = [] then ret []
     else chain (in_world (llm strategist_prompt (strategy_message show_cents hs))) (\<lambda>content.
          derive_each env (map hr_id hs) (parse_llm_json_array content)))"

section \<open>Examples\<close>

definition instructor_prompt :: string where
  "instructor_prompt = ''You are an expert software engineering instructor. '' @
     ''You extract or generate high-quality, runnable code examples. '' @
     ''Always return a JSON array of example objects.''"

definition example_keys :: string where
  "example_keys = ''Return a JSON array of example objects with keys: '' @
     ''\"title\", \"content\" (the example code/text), \"tags\" (string array).''"

definition mining_message :: "string \<Rightarrow> string \<Rightarrow> string" where
  "mining_message topic sources =
     ''Topic: '' @ user_input topic @ nl @ nl @
     (if sources \<noteq> []
      then ''Source documentation:'' @ nl @ user_input sources @ nl @ nl @
           ''Extract concrete code examples and usage patterns from the documentation above. '' @ example_keys
      else ''Provide concrete code examples and usage patterns for this topic. '' @ example_keys)"

text \<open>What is skipped: HTTP, value and connection errors, which are \<open>ValueError\<close> and \<open>ExternalError\<close> here.\<close>

definition skipped_error :: "exn \<Rightarrow> bool" where
  "skipped_error e = (case e of ValueError _ \<Rightarrow> True | ExternalError _ \<Rightarrow> True | _ \<Rightarrow> False)"

primrec fetch_sources :: "(string \<Rightarrow> (exn, 'w, string) op) \<Rightarrow> string list \<Rightarrow> (exn, 'w, string) op" where
  "fetch_sources fetch [] = ret []"
| "fetch_sources fetch (u # us) =
     chain (attempt (chain (fetch u) (\<lambda>doc. ret (nl @ nl @ ''--- Source: '' @ u @ '' ---'' @ nl @ take 5000 doc)))
       (\<lambda>e. if skipped_error e then ret [] else raise e)) (\<lambda>x.
     chain (fetch_sources fetch us) (\<lambda>rest. ret (x @ rest)))"

definition mined_example :: "string \<Rightarrow> string \<Rightarrow> int \<Rightarrow> json \<Rightarrow> exn + knowledge_entry" where
  "mined_example topic i now j =
     bind_sum (text_in (''Example: '' @ topic) j ''title'') (\<lambda>title.
     bind_sum (text_in [] j ''content'') (\<lambda>body.
     bind_sum (bind_sum (dict_get (JArr [JStr topic]) j ''tags'') as_texts) (\<lambda>tags.
     new_entry i now MemoryLayer.L1_PROJECT ContentType.EXAMPLE topic title body 1 tags ''example_mine'')))"

definition mine_examples :: "'w knowledge_env \<Rightarrow> (string \<Rightarrow> string \<Rightarrow> (exn, 'w, string) op) \<Rightarrow> (string \<Rightarrow> (exn, 'w, string) op) \<Rightarrow>
    string \<Rightarrow> string list \<Rightarrow> (exn, 'w, knowledge_entry list) op" where
  "mine_examples env llm fetch topic urls =
     chain (fetch_sources fetch urls) (\<lambda>sources.
     chain (llm instructor_prompt (mining_message topic sources)) (\<lambda>content.
     entries_or_fallback env (mined_example topic)
       (\<lambda>i now. new_entry i now MemoryLayer.L1_PROJECT ContentType.EXAMPLE topic (''Example: '' @ topic) content 1 [topic]
          ''example_mine:parse_fallback'') content))"

section \<open>Events\<close>

definition failed_task_payload :: fields where
  "failed_task_payload = FCons ''task_id'' SRaw None (FCons ''agent_id'' SRaw None (FCons ''error_message'' SRaw (Some (JStr [])) FNil))"

definition event_observation :: "string \<Rightarrow> int \<Rightarrow> ObservationType \<Rightarrow> string \<Rightarrow> string \<Rightarrow> string \<Rightarrow> (string \<times> json) list \<Rightarrow> string \<Rightarrow> observation" where
  "event_observation i now ty task agent description context outcome = \<lparr>ob_id = i, ob_task = task, ob_agent = agent, ob_type = ty,
     ob_description = description, ob_context = context, ob_outcome = outcome, ob_domain = [], ob_embedding = [], ob_compressed = False,
     ob_pattern = None, ob_created = now\<rparr>"

definition observe :: "'w knowledge_env \<Rightarrow> (string \<Rightarrow> int \<Rightarrow> observation) \<Rightarrow> (exn, 'w knowledge, unit) op" where
  "observe env build =
     chain (in_world (kv_new_id env ''know'')) (\<lambda>i.
     chain (in_world (kv_now env)) (\<lambda>now. \<lambda>s. case store_observation now (build i now) (kn_tables s) of
         Inl x \<Rightarrow> (Inl x, s) | Inr t \<Rightarrow> (Inr (), s\<lparr>kn_tables := t\<rparr>)))"

definition observe_completed :: "'w knowledge_env \<Rightarrow> string option \<Rightarrow> (string \<times> json) list \<Rightarrow> (exn, 'w knowledge, unit) op" where
  "observe_completed env correlation payload = (case check_fields task_completed_payload payload of
      Inl e \<Rightarrow> ret ()
    | Inr d \<Rightarrow>
        let task = str_field d ''task_id''; agent = str_field d ''agent_id''; verdict = str_field d ''verdict''
        in observe env (\<lambda>i now. event_observation i now ObservationType.SUCCESS task agent
             (''Task '' @ task @ '' completed by '' @ agent @ '' with verdict: '' @ verdict)
             [(''verdict'', JStr verdict), (''correlation_id'', JStr (opt_text correlation))] verdict))"

definition observe_failed :: "'w knowledge_env \<Rightarrow> string option \<Rightarrow> (string \<times> json) list \<Rightarrow> (exn, 'w knowledge, unit) op" where
  "observe_failed env correlation payload = (case check_fields failed_task_payload payload of
      Inl e \<Rightarrow> ret ()
    | Inr d \<Rightarrow>
        let task = str_field d ''task_id''; agent = str_field d ''agent_id''; message = str_field d ''error_message''
        in observe env (\<lambda>i now. event_observation i now ObservationType.FAILURE task agent
             (''Task '' @ task @ '' failed by '' @ agent @ '': '' @ message)
             [(''error_message'', JStr message), (''correlation_id'', JStr (opt_text correlation))] ''failed''))"

text \<open>The handlers the service subscribes.\<close>

definition knowledge_handler :: "'w knowledge_env \<Rightarrow> EventType \<Rightarrow> (string option \<Rightarrow> (string \<times> json) list \<Rightarrow> (exn, 'w knowledge, unit) op) option" where
  "knowledge_handler env ty = (case ty of
      EventType.TASK_COMPLETED \<Rightarrow> Some (observe_completed env)
    | EventType.TASK_FAILED \<Rightarrow> Some (observe_failed env)
    | _ \<Rightarrow> None)"

section \<open>Workflows\<close>

text \<open>The activities that would summarize, store, mine, publish, fetch and synthesize do none of it.\<close>

definition summarize_activity :: "string \<Rightarrow> string \<Rightarrow> string \<times> string \<times> string list" where
  "summarize_activity content topic = (take 8000 content, ''Documentation: '' @ topic, [topic, ''documentation''])"

definition store_activity :: "knowledge_entry \<Rightarrow> string \<times> string" where
  "store_activity e = (ke_id e, memory_layer_value (ke_layer e))"

definition mine_examples_activity :: "string \<Rightarrow> knowledge_entry list" where
  "mine_examples_activity topic = []"

definition acquired_entry :: "string \<Rightarrow> string list \<Rightarrow> string \<Rightarrow> knowledge_entry" where
  "acquired_entry topic tags content = (case summarize_activity content topic of (summary, title, labels) \<Rightarrow>
     \<lparr>ke_id = [], ke_layer = MemoryLayer.L1_PROJECT, ke_topic = topic, ke_title = title, ke_content = summary,
      ke_type = ContentType.DOCUMENTATION, ke_confidence = 1, ke_tags = tags @ labels, ke_embedding = [], ke_version = [], ke_source = [],
      ke_uses = 0, ke_active = True, ke_created = 0, ke_updated = 0\<rparr>)"

text \<open>Tagging reads the entry with the class of entries.\<close>

definition tag_versions_activity :: "string \<Rightarrow> knowledge_entry \<Rightarrow> exn + knowledge_entry" where
  "tag_versions_activity version e = bind_sum (mk_entry e) (\<lambda>x. Inr (tag_version version x))"

primrec acquire_urls :: "(string \<Rightarrow> (exn, 'w, string) op) \<Rightarrow> string \<Rightarrow> string list \<Rightarrow> string \<Rightarrow> string list \<Rightarrow>
    (exn, 'w, (string \<times> string) list) op" where
  "acquire_urls fetch topic tags version [] = ret []"
| "acquire_urls fetch topic tags version (u # us) =
     chain (fetch u) (\<lambda>content.
     chain (lift_sum (\<lambda>_. if version = [] then Inr (acquired_entry topic tags content)
              else tag_versions_activity version (acquired_entry topic tags content))) (\<lambda>e.
     chain (acquire_urls fetch topic tags version us) (\<lambda>rs. ret (store_activity e # rs))))"

text \<open>The number of entries the workflow reports, and their identifiers and layers.\<close>

definition acquisition_workflow :: "(string \<Rightarrow> (exn, 'w, string) op) \<Rightarrow> string \<Rightarrow> string list \<Rightarrow> string \<Rightarrow> string list \<Rightarrow>
    (exn, 'w, nat \<times> (string \<times> string) list) op" where
  "acquisition_workflow fetch topic tags version urls =
     chain (acquire_urls fetch topic tags version urls) (\<lambda>rs.
     let all = rs @ (if topic = [] then [] else map store_activity (mine_examples_activity topic))
     in ret (length all, all))"

definition fetch_uncompressed_activity :: "string option \<Rightarrow> observation list" where
  "fetch_uncompressed_activity domain = []"

definition compress_cluster_activity :: "observation list \<Rightarrow> knowledge_entry list" where
  "compress_cluster_activity xs = []"

definition synthesize_activity :: "knowledge_entry list \<Rightarrow> heuristic_rule list" where
  "synthesize_activity ps = []"

definition derive_activity :: "heuristic_rule list \<Rightarrow> meta_strategy list" where
  "derive_activity hs = []"

definition compression_workflow :: "string option \<Rightarrow> compression_result" where
  "compression_workflow domain =
     (let xs = fetch_uncompressed_activity domain
      in if xs = [] then nothing_compressed
         else let ps = concat (map compress_cluster_activity (filter (\<lambda>c. 2 \<le> length c) (cluster_observations (7/10) xs)));
                  hs = synthesize_activity ps; ms = derive_activity hs
              in \<lparr>cz_patterns = length ps, cz_heuristics = length hs, cz_strategies = length ms, cz_observations = length xs\<rparr>)"

end
