(* ===== verification/Knowledge_Properties.thy ===== *)
theory Knowledge_Properties
  imports Knowledge_Compression
begin

text \<open>
  What the learning of the Knowledge & Memory service guarantees: the similarity test is the one of cosines, clusters
  partition the observations, a compressed observation has its pattern, and what the events bring in
  is never compressed.
\<close>

section \<open>Similarity and clusters\<close>

lemma dot_self_nonneg: "0 \<le> dot a a"
  by (induction a) (auto simp: dot_def intro!: add_nonneg_nonneg)

lemma le_iff_squares: "0 \<le> z \<Longrightarrow> z \<le> d \<longleftrightarrow> 0 \<le> d \<and> z\<^sup>2 \<le> d\<^sup>2" for z d :: real
  by (metis order_trans power2_le_imp_le power_mono)

lemma real_norm_0: "real_norm a = 0 \<longleftrightarrow> dot a a = 0"
  by (simp add: real_norm_def)

lemma similar_iff_cosine:
  assumes "0 \<le> q"
  shows "at_least q a b \<longleftrightarrow> real_of_rat q \<le> cosine_similarity a b"
proof (cases "length a \<noteq> length b \<or> a = [] \<or> dot a a = 0 \<or> dot b b = 0")
  case True
  then have "cosine_similarity a b = 0" by (auto simp: cosine_similarity_def real_norm_0)
  with True show ?thesis by (simp add: at_least_def)
next
  case False
  let ?n = "real_norm a * real_norm b" and ?d = "real_of_rat (dot a b)" and ?q = "real_of_rat q"
  have n: "0 < ?n" using False dot_self_nonneg [of a] dot_self_nonneg [of b] by (simp add: real_norm_def zero_less_mult_iff less_le)
  have n2: "?n\<^sup>2 = real_of_rat (dot a a * dot b b)"
    using dot_self_nonneg by (simp add: real_norm_def power_mult_distrib of_rat_mult)
  have "real_of_rat q \<le> cosine_similarity a b \<longleftrightarrow> ?q * ?n \<le> ?d"
    using False n by (simp add: cosine_similarity_def real_norm_0 pos_le_divide_eq)
  also have "\<dots> \<longleftrightarrow> 0 \<le> ?d \<and> (?q * ?n)\<^sup>2 \<le> ?d\<^sup>2"
  proof -
    have "0 \<le> ?q * ?n" using assms n by simp
    then show ?thesis by (rule le_iff_squares)
  qed
  also have "(?q * ?n)\<^sup>2 = real_of_rat (q\<^sup>2 * (dot a a * dot b b))"
    unfolding power_mult_distrib [of ?q ?n] n2 by (simp add: of_rat_mult of_rat_power)
  also have "?d\<^sup>2 = real_of_rat ((dot a b)\<^sup>2)" by (simp add: of_rat_power)
  finally show ?thesis using False unfolding of_rat_less_eq by (simp add: at_least_def)
qed

definition members :: "(observation list \<times> rat list) list \<Rightarrow> observation list" where
  "members cs = concat (map fst cs)"

lemma place_members: "mset (members (place_observation q x cs)) = add_mset x (mset (members cs))"
  by (induction q x cs rule: place_observation.induct) (auto simp: members_def)

lemma place_nonempty: "[] \<notin> set (map fst cs) \<Longrightarrow> [] \<notin> set (map fst (place_observation q x cs))"
  by (induction q x cs rule: place_observation.induct) auto

lemma clusters_fold:
  "[] \<notin> set (map fst cs) \<Longrightarrow> [] \<notin> set (map fst (foldl (cluster_step q) cs xs)) \<and>
    mset (members (foldl (cluster_step q) cs xs)) = mset (members cs) + mset xs"
proof (induction xs arbitrary: cs)
  case (Cons x xs)
  have "[] \<notin> set (map fst (cluster_step q cs x))" using Cons.prems place_nonempty [OF Cons.prems] by (auto simp: cluster_step_def)
  moreover have "mset (members (cluster_step q cs x)) = add_mset x (mset (members cs))"
    by (simp add: cluster_step_def place_members) (simp add: members_def)
  ultimately show ?case using Cons.IH [of "cluster_step q cs x"] by simp
qed simp

text \<open>
  The clustering loses nothing and invents nothing: the clusters together hold every observation exactly once, and
  none of them is empty; and its similarity test is the comparison of the cosine of the
  angle with the threshold.
\<close>

theorem clusters_partition_observations:
  "mset (concat (cluster_observations (7/10) xs)) = mset xs \<and> [] \<notin> set (cluster_observations (7/10) xs) \<and>
    (at_least (7/10) a b \<longleftrightarrow> real_of_rat (7/10) \<le> cosine_similarity a b)"
  using clusters_fold [of "[]" "7/10" xs] similar_iff_cosine [of "7/10" a b] by (simp add: cluster_observations_def members_def)

text \<open>Observations without a vector are alone.\<close>

lemma unembedded_alone:
  assumes "list_all (\<lambda>x. ob_embedding x = []) xs"
  shows "cluster_observations q xs = map (\<lambda>x. [x]) xs"
proof -
  have "foldl (cluster_step q) cs xs = cs @ map (\<lambda>x. ([x], [])) xs" for cs
    using assms by (induction xs arbitrary: cs) (simp_all add: cluster_step_def)
  then show ?thesis by (simp add: cluster_observations_def)
qed

section \<open>Patterns of compressed observations\<close>

definition linked :: "knowledge_tables \<Rightarrow> bool" where
  "linked t \<longleftrightarrow> list_all (\<lambda>x. ob_compressed x \<longrightarrow> (\<exists>e \<in> set (kt_entries t). ob_pattern x = Some (ke_id e))) (kt_observations t)"

definition has_entry :: "string \<Rightarrow> knowledge_tables \<Rightarrow> bool" where
  "has_entry i t \<longleftrightarrow> i \<in> set (map ke_id (kt_entries t))"

lemma linked_iff: "linked t \<longleftrightarrow> list_all (\<lambda>x. ob_compressed x \<longrightarrow> (\<exists>i. ob_pattern x = Some i \<and> has_entry i t)) (kt_observations t)"
  unfolding linked_def has_entry_def by (rule list.pred_cong [OF refl]) auto

lemma store_entry_ids:
  assumes "store_entry now e t = Inr t'"
  shows "kt_observations t' = kt_observations t" "has_entry i t' \<longleftrightarrow> i = ke_id e \<or> has_entry i t"
proof -
  have t': "t' = t\<lparr>kt_entries := upsert ke_id (stored_entry now e) (replaced_entry now e) (kt_entries t)\<rparr>"
    using assms by (simp add: store_entry_def split: if_splits)
  then show "kt_observations t' = kt_observations t" by simp
  have "map ke_id (upsert ke_id (stored_entry now e) (replaced_entry now e) (kt_entries t)) =
      (if ke_id (stored_entry now e) \<in> set (map ke_id (kt_entries t)) then map ke_id (kt_entries t)
       else map ke_id (kt_entries t) @ [ke_id (stored_entry now e)])"
    by (rule upsert_keys) (simp add: replaced_entry_def)
  moreover have "ke_id (stored_entry now e) = ke_id e" by (simp add: stored_entry_def)
  ultimately show "has_entry i t' \<longleftrightarrow> i = ke_id e \<or> has_entry i t" unfolding t' has_entry_def by (simp del: set_map) auto
qed

lemma store_entry_linked: "store_entry now e t = Inr t' \<Longrightarrow> linked t \<Longrightarrow> linked t'"
  unfolding linked_iff by (simp add: store_entry_ids list_all_iff) blast

lemma in_world_tables [simp]: "kn_tables (snd (in_world m s)) = kn_tables s"
  by (simp add: in_world_def zoom_def split: prod.split)

lemma keeps_in_world [intro]: "keeps (\<lambda>s. P (kn_tables s)) (in_world m)"
  by (simp add: keeps_def)

lemma keeps_store_one: "keeps (\<lambda>s. linked (kn_tables s)) (store_one env e)"
  unfolding store_one_def
  by (rule keeps_chain [OF keeps_in_world]) (auto simp: keeps_def split: sum.split dest: store_entry_linked)

lemma store_one_entry:
  assumes "store_one env e s = (Inr (), s')"
  shows "has_entry i (kn_tables s') \<longleftrightarrow> i = ke_id e \<or> has_entry i (kn_tables s)"
proof -
  obtain r s1 where o: "in_world (kv_now env) s = (r, s1)" by fastforce
  with in_world_tables [of "kv_now env" s] have t: "kn_tables s1 = kn_tables s" by simp
  from assms o t show ?thesis by (cases r) (auto simp: store_one_def chain_def store_entry_ids split: sum.splits)
qed

lemma store_all_entry: "for_each (store_one env) ps s = (Inr (), s') \<Longrightarrow> has_entry i (kn_tables s') \<longleftrightarrow> i \<in> set (map ke_id ps) \<or> has_entry i (kn_tables s)"
proof (induction ps arbitrary: s)
  case (Cons p ps)
  then obtain s1 where "store_one env p s = (Inr (), s1)" "for_each (store_one env) ps s1 = (Inr (), s')"
    by (auto simp: chain_def split: prod.splits sum.splits)
  then show ?case using Cons.IH [of s1] store_one_entry [of env p s s1 i] by auto
qed simp

lemma mark_linked:
  assumes "linked t" and "has_entry p t"
  shows "linked (mark_observations_compressed ids p t)"
  using assms unfolding linked_iff
  by (simp add: mark_observations_compressed_def update_where_def list_all_iff has_entry_def) auto

lemma keeps_for_each_store: "keeps (\<lambda>s. linked (kn_tables s)) (for_each (store_one env) ps)"
  by (rule keeps_for_each) (rule keeps_store_one)

text \<open>Extraction never comes back with nothing.\<close>

lemma entries_from_length: "entries_from env build js w = (Inr es, w') \<Longrightarrow> length es = length js"
  by (induction js arbitrary: w es w') (auto simp: chain_def ret_def split: prod.splits sum.splits)

lemma extract_some:
  assumes "extract_patterns env llm xs w = (Inr ps, w')" and "xs \<noteq> []"
  shows "ps \<noteq> []"
  using assms by (auto simp: extract_patterns_def entries_or_fallback_def chain_def ret_def split: prod.splits sum.splits if_splits
      dest: entries_from_length)

lemma keeps_compress_cluster: "keeps (\<lambda>s. linked (kn_tables s)) (compress_cluster env llm xs)" for env :: "'w knowledge_env"
proof (rule keepsI)
  fix s :: "'w knowledge"
  assume linked: "linked (kn_tables s)"
  show "linked (kn_tables (snd (compress_cluster env llm xs s)))"
  proof (cases "length xs < 2")
    case True
    with linked show ?thesis by (simp add: compress_cluster_def)
  next
    case False
    obtain r s1 where o: "in_world (extract_patterns env llm xs) s = (r, s1)" by fastforce
    have t1: "kn_tables s1 = kn_tables s" using in_world_tables [of "extract_patterns env llm xs" s] o by simp
    obtain r2 s2 where f: "\<And>ps. r = Inr ps \<Longrightarrow> for_each (store_one env) ps s1 = (r2, s2)" by (cases r) fastforce+
    show ?thesis
    proof (cases r)
      case (Inl e)
      with False o t1 linked show ?thesis by (simp add: compress_cluster_def chain_def)
    next
      case (Inr ps)
      have l2: "linked (kn_tables s2)" using keepsD [OF keeps_for_each_store [of env ps], of s1] f [OF Inr] t1 linked by simp
      show ?thesis
      proof (cases r2)
        case (Inl e)
        with False o Inr f [OF Inr] l2 show ?thesis by (simp add: compress_cluster_def chain_def)
      next
        case r2: (Inr u)
        obtain w' where "extract_patterns env llm xs (kn_world s) = (Inr ps, w')"
          using o Inr by (auto simp: in_world_def zoom_def split: prod.splits)
        with extract_some False obtain p qs where ps: "ps = p # qs" by (cases ps) fastforce+
        have "has_entry (ke_id p) (kn_tables s2)" using store_all_entry [of env ps s1 s2 "ke_id p"] f [OF Inr] r2 ps by simp
        then have "linked (mark_observations_compressed (map ob_id xs) (ke_id p) (kn_tables s2))" using l2 by (intro mark_linked)
        with False o Inr f [OF Inr] r2 ps show ?thesis by (simp add: compress_cluster_def chain_def in_tables_def)
      qed
    qed
  qed
qed

lemma keeps_compress_clusters: "keeps (\<lambda>s. linked (kn_tables s)) (compress_clusters env llm xss)"
proof (induction xss)
  case (Cons xs xss)
  show ?case unfolding compress_clusters.simps
    by (rule keeps_chain [OF keeps_compress_cluster]) (rule keeps_chain [OF Cons.IH keeps_ret])
next
  case Nil
  show ?case unfolding compress_clusters.simps by (rule keeps_ret)
qed

lemma keeps_compress: "keeps (\<lambda>s. linked (kn_tables s)) (compress_observations env llm least domain)"
  unfolding compress_observations_def
  by (rule keeps_chain [OF keeps_reads]) (auto intro!: keeps_ret keeps_chain [OF keeps_compress_clusters] split: if_splits simp del: ret_run)



section \<open>Observations from events\<close>

definition unembedded :: "knowledge_tables \<Rightarrow> bool" where
  "unembedded t \<longleftrightarrow> list_all (\<lambda>x. ob_embedding x = []) (kt_observations t)"

lemma keeps_observe:
  assumes "\<And>i now. ob_embedding (build i now) = []"
  shows "keeps (\<lambda>s. unembedded (kn_tables s)) (observe env build)"
  unfolding observe_def
  by (rule keeps_chain [OF keeps_in_world], rule keeps_chain [OF keeps_in_world])
    (auto simp: keeps_def unembedded_def store_observation_def assms split: sum.split if_splits)

lemma keeps_knowledge_handlers: "knowledge_handler env ty = Some h \<Longrightarrow> keeps (\<lambda>s. unembedded (kn_tables s)) (h c d)"
  by (auto simp: knowledge_handler_def observe_completed_def observe_failed_def Let_def event_observation_def
      intro!: keeps_observe keeps_ret split: EventType.splits sum.splits)

definition event_run :: "'w knowledge_env \<Rightarrow> EventType \<times> string option \<times> (string \<times> json) list \<Rightarrow> 'w knowledge \<Rightarrow> 'w knowledge" where
  "event_run env x s = (case x of (ty, c, d) \<Rightarrow> (case knowledge_handler env ty of None \<Rightarrow> s | Some h \<Rightarrow> snd (h c d s)))"

lemma event_run_unembedded: "unembedded (kn_tables s) \<Longrightarrow> unembedded (kn_tables (fold (event_run env) xs s))"
proof (induction xs arbitrary: s)
  case (Cons x xs)
  have "unembedded (kn_tables (event_run env x s))"
    using Cons.prems by (auto simp: event_run_def split: prod.split option.split intro: keepsD [OF keeps_knowledge_handlers])
  then show ?case using Cons.IH by simp
qed simp

lemma compress_singletons: "compress_clusters env llm (map (\<lambda>x. [x]) xs) s = (Inr 0, s)"
  by (induction xs) (simp_all add: compress_cluster_def chain_def)

text \<open>
  What the events bring in is never compressed: their observations carry no vector, so that each is a cluster of
  its own, and a run of the pipeline reports every one as processed, makes no pattern, does not ask
  the model and changes nothing.
\<close>

theorem event_observations_never_compressed:
  "case fold (event_run env) xs \<lparr>kn_tables = no_knowledge, kn_world = w\<rparr> of s \<Rightarrow>
    compress_observations env llm least domain s =
      (Inr (nothing_compressed\<lparr>cz_observations := length (uncompressed_observations domain least 500 (kn_tables s))\<rparr>), s)"
proof -
  define s where "s = fold (event_run env) xs \<lparr>kn_tables = no_knowledge, kn_world = w\<rparr>"
  have "unembedded (kn_tables s)" unfolding s_def by (rule event_run_unembedded) (simp add: unembedded_def no_knowledge_def)
  then have "list_all (\<lambda>x. ob_embedding x = []) (uncompressed_observations domain least 500 (kn_tables s))"
    by (auto simp: uncompressed_observations_def Let_def unembedded_def list_all_iff dest!: in_set_takeD)
  from unembedded_alone [OF this] show ?thesis unfolding s_def [symmetric]
    by (simp add: compress_observations_def chain_def reads_def compress_singletons nothing_compressed_def)
qed

text \<open>The failures the scheduler publishes have no agent, and leave no observation; its completions have an empty one.\<close>

lemma scheduler_failure_not_observed: "observe_failed env c [(''task_id'', JStr i), (''error_message'', JStr m)] s = (Inr (), s)"
  by (simp add: observe_failed_def failed_task_payload_def)

text \<open>The workflows: one entry is reported per source, each with an empty identifier, and compression does nothing.\<close>

lemma acquired_ids_empty:
  assumes "acquire_urls fetch topic tags version urls w = (Inr rs, w')"
  shows "rs = replicate (length urls) ([], ''l1_project'')"
proof -
  have mk: "mk_entry x = Inr y \<Longrightarrow> ke_id y = strip (ke_id x) \<and> ke_layer y = ke_layer x" for x y
    by (auto simp: mk_entry_def split: if_splits)
  have entry: "ke_id (acquired_entry topic tags c) = []" "ke_layer (acquired_entry topic tags c) = MemoryLayer.L1_PROJECT" for c
    by (simp_all add: acquired_entry_def summarize_activity_def)
  have "store_activity e = ([], ''l1_project'')"
    if "(if version = [] then Inr (acquired_entry topic tags c) else tag_versions_activity version (acquired_entry topic tags c)) = Inr e" for c e
  proof (cases "version = []")
    case True
    with that entry [of c] show ?thesis by (simp add: store_activity_def)
  next
    case False
    with that obtain x where "mk_entry (acquired_entry topic tags c) = Inr x" "e = tag_version version x"
      by (auto simp: tag_versions_activity_def bind_sum_Inr)
    with mk entry [of c] show ?thesis by (simp add: store_activity_def tag_version_def strip_def)
  qed
  then show ?thesis using assms
    by (induction urls arbitrary: w rs) (auto simp: chain_def ret_def lift_sum_def split: prod.splits sum.splits)
qed

lemma workflow_compresses_nothing: "compression_workflow domain = nothing_compressed"
  by (simp add: compression_workflow_def fetch_uncompressed_activity_def)

end
