(* ===== verification/Doc_Fetcher.thy ===== *)
theory Doc_Fetcher
  imports Knowledge_Compression "HOL-Library.Word"
begin

text \<open>
  Fetching documents for the Knowledge & Memory service (\<^verbatim>\<open>doc_fetcher.py\<close>): the check of an URL
  against internal networks, and the fetch. An address is a word of 32 or 128 bits. Splitting an URL is modelled
  as Python's \<^verbatim>\<open>urlparse\<close> does it for ASCII text; name resolution, the HTTP client,
  the UTF-8 decoder and the HTML parser are parameters.
\<close>

section \<open>URLs\<close>

record url_parts =
  ul_scheme :: string
  ul_host :: "string option"
  ul_port :: "string option"

definition ascii_letter :: "char \<Rightarrow> bool" where
  "ascii_letter c \<longleftrightarrow> lower_char c \<in> set ''abcdefghijklmnopqrstuvwxyz''"

definition scheme_char :: "char \<Rightarrow> bool" where
  "scheme_char c \<longleftrightarrow> ascii_letter c \<or> c \<in> set ''0123456789+-.''"

text \<open>Leading control characters and blanks are dropped, and so is every tab and line break.\<close>

definition clean_url :: "string \<Rightarrow> string" where
  "clean_url s = filter (\<lambda>c. c \<notin> {CHR 0x09, CHR 0x0A, CHR 0x0D}) (dropWhile (\<lambda>c. (of_char c :: nat) \<le> 32) s)"

definition before :: "char \<Rightarrow> string \<Rightarrow> string" where
  "before c s = takeWhile (\<lambda>d. d \<noteq> c) s"

definition after :: "char \<Rightarrow> string \<Rightarrow> string" where
  "after c s = drop 1 (dropWhile (\<lambda>d. d \<noteq> c) s)"

definition after_last :: "char \<Rightarrow> string \<Rightarrow> string" where
  "after_last c s = rev (takeWhile (\<lambda>d. d \<noteq> c) (rev s))"

definition split_scheme :: "string \<Rightarrow> string \<times> string" where
  "split_scheme s =
     (let p = before CHR '':'' s
      in if p \<noteq> [] \<and> length p < length s \<and> ascii_letter (hd p) \<and> list_all scheme_char p then (lower p, drop (Suc (length p)) s) else ([], s))"

definition some_text :: "string \<Rightarrow> string option" where
  "some_text s = (if s = [] then None else Some s)"

text \<open>Host and port of the part after the last \<^verbatim>\<open>@\<close>; a host in brackets ends at the bracket.\<close>

definition host_port :: "string \<Rightarrow> string \<times> string" where
  "host_port netloc =
     (let h = after_last CHR ''@'' netloc
      in if CHR ''['' \<in> set h
         then let b = after CHR ''['' h in (before CHR '']'' b, after CHR '':'' (after CHR '']'' b))
         else (before CHR '':'' h, after CHR '':'' h))"

definition parse_url :: "string \<Rightarrow> exn + url_parts" where
  "parse_url url =
     (case split_scheme (clean_url url) of (scheme, rest) \<Rightarrow>
      let netloc = (if has_prefix rest ''//'' then takeWhile (\<lambda>c. c \<notin> set ''/?#'') (drop 2 rest) else [])
      in if (CHR ''['' \<in> set netloc) \<noteq> (CHR '']'' \<in> set netloc) then Inl (ValueError ''Invalid IPv6 URL'')
         else case host_port netloc of (h, p) \<Rightarrow> Inr \<lparr>ul_scheme = scheme, ul_host = map_option lower (some_text h), ul_port = some_text p\<rparr>)"

text \<open>\<^verbatim>\<open>parsed.port or 443\<close>.\<close>

definition port_of :: "string option \<Rightarrow> exn + int" where
  "port_of p = (case p of
      None \<Rightarrow> Inr 443
    | Some ds \<Rightarrow>
        if \<not> list_all digit ds then Inl (ValueError ''Port could not be cast to integer value'')
        else if 65535 < digits_value ds then Inl (ValueError ''Port out of range 0-65535'')
        else Inr (if digits_value ds = 0 then 443 else digits_value ds))"

section \<open>Addresses\<close>

datatype ip = V4 "32 word" | V6 "128 word"

datatype network = Net4 "32 word" nat | Net6 "128 word" nat

fun in_network :: "ip \<Rightarrow> network \<Rightarrow> bool" where
  "in_network (V4 a) (Net4 n p) \<longleftrightarrow> drop_bit (32 - p) a = drop_bit (32 - p) n"
| "in_network (V6 a) (Net6 n p) \<longleftrightarrow> drop_bit (128 - p) a = drop_bit (128 - p) n"
| "in_network _ _ \<longleftrightarrow> False"

definition blocked_networks :: "network list" where
  "blocked_networks = [Net4 0x7F000000 8, Net4 0x0A000000 8, Net4 0xAC100000 12, Net4 0xC0A80000 16, Net4 0xA9FE0000 16,
     Net6 1 128, Net6 0xFD000000000000000000000000000000 8]"

definition blocked_ip :: "ip \<Rightarrow> bool" where
  "blocked_ip a \<longleftrightarrow> list_ex (in_network a) blocked_networks"

section \<open>The check\<close>

definition allowed_schemes :: "string list" where
  "allowed_schemes = [''http'', ''https'']"

definition blocked_schemes :: "string list" where
  "blocked_schemes = [''file'', ''ftp'', ''gopher'', ''data'', ''javascript'']"

type_synonym 'w resolver = "string \<Rightarrow> int \<Rightarrow> (exn, 'w, ip list) op"

definition validate_url :: "'w resolver \<Rightarrow> string \<Rightarrow> (exn, 'w, unit) op" where
  "validate_url getaddrinfo url =
     chain (lift_sum (\<lambda>_. parse_url url)) (\<lambda>u.
     if ul_scheme u = [] then raise (ValueError (''URL has no scheme: '' @ url))
     else if ul_scheme u \<in> set blocked_schemes then raise (ValueError (''Blocked URL scheme: '' @ ul_scheme u))
     else if ul_scheme u \<notin> set allowed_schemes
     then raise (ValueError (''URL scheme '' @ ul_scheme u @ '' is not allowed; only http and https are permitted''))
     else case ul_host u of
         None \<Rightarrow> raise (ValueError (''URL has no hostname: '' @ url))
       | Some host \<Rightarrow>
           chain (lift_sum (\<lambda>_. port_of (ul_port u))) (\<lambda>port.
           chain (attempt (getaddrinfo host port) (\<lambda>_. raise (ValueError (''Cannot resolve hostname '' @ host)))) (\<lambda>addrs.
           if list_ex blocked_ip addrs then raise (ValueError ''URL resolves to blocked internal address'') else ret ())))"

section \<open>The fetch\<close>

record http_response =
  rp_redirect :: bool
  rp_location :: "string option"
  rp_failed :: bool
  rp_content :: string
  rp_type :: string

text \<open>What calling a hook gives: a plain function has run and returns nothing, a coroutine function something to await.\<close>

datatype hook_value = Py_None | Py_Coroutine

definition validate_redirect :: "'w resolver \<Rightarrow> http_response \<Rightarrow> (exn, 'w, hook_value) op" where
  "validate_redirect getaddrinfo r =
     (if rp_redirect r \<and> opt_text (rp_location r) \<noteq> []
      then chain (validate_url getaddrinfo (opt_text (rp_location r))) (\<lambda>_. ret Py_None) else ret Py_None)"

text \<open>The client is called with its response hook and the URL.\<close>

type_synonym 'w http_client = "(http_response \<Rightarrow> (exn, 'w, hook_value) op) \<Rightarrow> string \<Rightarrow> (exn, 'w, http_response) op"

definition html_to_text :: "(string \<Rightarrow> string) \<Rightarrow> string \<Rightarrow> string" where
  "html_to_text soup html = join_with nl (filter (\<lambda>l. l \<noteq> []) (map strip (splitlines (soup html))))"

definition fetch_documentation :: "'w resolver \<Rightarrow> (string \<Rightarrow> string) \<Rightarrow> (string \<Rightarrow> string) \<Rightarrow> 'w http_client \<Rightarrow> nat \<Rightarrow> string \<Rightarrow> (exn, 'w, string) op" where
  "fetch_documentation getaddrinfo decode soup client max_kb url =
     chain (validate_url getaddrinfo url) (\<lambda>_.
     chain (client (validate_redirect getaddrinfo) url) (\<lambda>r.
     if rp_failed r then raise (ExternalError ''HTTPStatusError'')
     else let content = decode (take (max_kb * 1024) (rp_content r))
          in ret (if occurs_in ''text/html'' (rp_type r) \<or> occurs_in ''application/xhtml'' (rp_type r) then html_to_text soup content else content)))"

text \<open>
  The asynchronous client of httpx awaits what its hook returns for a response before it gives the
  response back, and awaiting anything but a coroutine raises.
\<close>

definition awaits_hooks :: "'w http_client \<Rightarrow> bool" where
  "awaits_hooks client \<longleftrightarrow> (\<forall>hook url w r w'. client hook url w = (Inr r, w') \<longrightarrow> (\<exists>w1 w2. hook r w1 = (Inr Py_Coroutine, w2)))"

section \<open>What the check guarantees\<close>

text \<open>The networks as ranges of addresses.\<close>

fun internal :: "ip \<Rightarrow> bool" where
  "internal (V4 a) \<longleftrightarrow>
     0x7F000000 \<le> a \<and> a \<le> 0x7FFFFFFF \<or> 0x0A000000 \<le> a \<and> a \<le> 0x0AFFFFFF \<or> 0xAC100000 \<le> a \<and> a \<le> 0xAC1FFFFF \<or>
     0xC0A80000 \<le> a \<and> a \<le> 0xC0A8FFFF \<or> 0xA9FE0000 \<le> a \<and> a \<le> 0xA9FEFFFF"
| "internal (V6 a) \<longleftrightarrow> a = 1 \<or> 0xFD000000000000000000000000000000 \<le> a \<and> a \<le> 0xFDFFFFFFFFFFFFFFFFFFFFFFFFFFFFFF"

lemma drop_bit_eq_range:
  fixes a n :: "'l :: len word"
  assumes "k < LENGTH('l)" and "uint n = m * 2 ^ k" and "uint h = m * 2 ^ k + (2 ^ k - 1)"
  shows "drop_bit k a = drop_bit k n \<longleftrightarrow> n \<le> a \<and> a \<le> (h :: 'l word)"
proof -
  have shifted: "uint (drop_bit k x) = uint x div 2 ^ k" for x :: "'l word"
    unfolding unsigned_drop_bit_eq bintr_uint [OF order_refl] by (rule drop_bit_eq_div)
  have "drop_bit k a = drop_bit k n \<longleftrightarrow> uint a div 2 ^ k = uint n div 2 ^ k"
    by (simp only: word_uint_eq_iff shifted)
  also have "\<dots> \<longleftrightarrow> uint a div 2 ^ k = m" by (simp add: assms(2))
  also have "\<dots> \<longleftrightarrow> m * 2 ^ k \<le> uint a \<and> uint a < (m + 1) * 2 ^ k"
  proof
    assume "uint a div 2 ^ k = m"
    then have "uint a = m * 2 ^ k + uint a mod 2 ^ k" using div_mult_mod_eq [of "uint a" "2 ^ k"] by simp
    moreover have "0 \<le> uint a mod 2 ^ k" "uint a mod 2 ^ k < 2 ^ k" by simp_all
    moreover have "(m + 1) * 2 ^ k = m * 2 ^ k + 2 ^ k" by (simp add: distrib_right)
    ultimately show "m * 2 ^ k \<le> uint a \<and> uint a < (m + 1) * 2 ^ k" by linarith
  next
    assume "m * 2 ^ k \<le> uint a \<and> uint a < (m + 1) * 2 ^ k"
    then show "uint a div 2 ^ k = m" by (intro int_div_pos_eq [of _ _ _ "uint a - m * 2 ^ k"]) (auto simp: algebra_simps)
  qed
  also have "\<dots> \<longleftrightarrow> n \<le> a \<and> a \<le> h" using assms(2,3) by (auto simp: word_le_def algebra_simps)
  finally show ?thesis .
qed

lemma blocked_iff_internal: "blocked_ip = internal"
proof
  fix a
  show "blocked_ip a \<longleftrightarrow> internal a"
proof (cases a)
  case (V4 w)
  show ?thesis unfolding V4 blocked_ip_def blocked_networks_def
    using drop_bit_eq_range [where k = 24 and n = "0x7F000000" and m = "0x7F" and h = "0x7FFFFFFF" and a = w] drop_bit_eq_range [where k = 24 and n = "0x0A000000" and m = "0x0A" and h = "0x0AFFFFFF" and a = w]
      drop_bit_eq_range [where k = 20 and n = "0xAC100000" and m = "0xAC1" and h = "0xAC1FFFFF" and a = w] drop_bit_eq_range [where k = 16 and n = "0xC0A80000" and m = "0xC0A8" and h = "0xC0A8FFFF" and a = w]
      drop_bit_eq_range [where k = 16 and n = "0xA9FE0000" and m = "0xA9FE" and h = "0xA9FEFFFF" and a = w]
    by (simp del: drop_bit_numeral_bit0 drop_bit_numeral_bit1)
next
  case (V6 w)
  show ?thesis unfolding V6 blocked_ip_def blocked_networks_def
    using drop_bit_eq_range [where k = 120 and n = "0xFD000000000000000000000000000000" and m = "0xFD" and h = "0xFDFFFFFFFFFFFFFFFFFFFFFFFFFFFFFF" and a = w]
    by simp
qed
qed

text \<open>
  C27: An URL passes the check only with the scheme http or https and a host that resolves, and only if none of the addresses
  it resolved to at that moment lies in the ranges of the blocked networks.
\<close>

theorem validated_url_external:
  "case validate_url getaddrinfo url w of
     (Inl e, w') \<Rightarrow> True
   | (Inr _, w') \<Rightarrow> \<exists>u host port addrs. parse_url url = Inr u \<and> ul_scheme u \<in> {''http'', ''https''} \<and> ul_host u = Some host \<and>
       port_of (ul_port u) = Inr port \<and> getaddrinfo host port w = (Inr addrs, w') \<and> \<not> list_ex internal addrs"
  by (auto simp: validate_url_def chain_def lift_sum_def attempt_def raise_def ret_def allowed_schemes_def blocked_iff_internal
      split: prod.splits sum.splits if_splits option.splits)

text \<open>Ranges the list leaves out: the own host as 0.0.0.0, mapped addresses, shared and unique local ones.\<close>

lemma unblocked_addresses:
  "\<not> blocked_ip (V4 0)" "\<not> blocked_ip (V6 0)" "\<not> blocked_ip (V6 0xFFFF7F000001)" "\<not> blocked_ip (V6 0xFFFFA9FEA9FE)"
  "\<not> blocked_ip (V4 0x64400001)" "\<not> blocked_ip (V6 0xFC000000000000000000000000000001)" "\<not> blocked_ip (V6 0xFE800000000000000000000000000001)"
  by (simp_all add: blocked_iff_internal)

text \<open>
  No document is ever fetched with the asynchronous client: it awaits the result of its response hook, the hook is a plain
  function that returns nothing, and so every request ends in an exception, whatever the server answers.
\<close>

theorem fetch_always_fails:
  assumes "awaits_hooks client"
  shows "\<exists>e w'. fetch_documentation getaddrinfo decode soup client max_kb url w = (Inl e, w')"
proof -
  have never: "validate_redirect getaddrinfo r w1 \<noteq> (Inr Py_Coroutine, w2)" for r w1 w2
    by (auto simp: validate_redirect_def chain_def ret_def split: prod.splits sum.splits)
  have "client (validate_redirect getaddrinfo) url w1 \<noteq> (Inr r, w2)" for w1 r w2
    using assms never unfolding awaits_hooks_def by blast
  then show ?thesis
    by (cases "validate_url getaddrinfo url w" rule: prod.exhaust; cases "fst (validate_url getaddrinfo url w)";
        cases "fst (client (validate_redirect getaddrinfo) url (snd (validate_url getaddrinfo url w)))")
      (auto simp: fetch_documentation_def chain_def split: prod.splits sum.splits)
qed

definition simple_client :: "http_response \<Rightarrow> 'w http_client" where
  "simple_client r hook url = chain (hook r) (\<lambda>v. case v of Py_None \<Rightarrow> raise (RuntimeError ''TypeError'') | Py_Coroutine \<Rightarrow> ret r)"

theorem fetch_always_fails_witness:
  "\<exists>e w'. fetch_documentation (\<lambda>_ _. ret [V4 0x08080808]) id id
     (simple_client \<lparr>rp_redirect = False, rp_location = None, rp_failed = False, rp_content = ''hello'', rp_type = ''text/plain''\<rparr>) 500
     ''https://example.com/'' () = (Inl e, w')"
  by (rule fetch_always_fails)
    (auto simp: awaits_hooks_def simple_client_def chain_def ret_def raise_def split: prod.splits sum.splits hook_value.splits)

end
