(* ===== verification/Security_Scans.thy ===== *)
theory Security_Scans
  imports Failure_Taxonomy
begin

text \<open>
  The Security Immune System, scanning of texts: the models and the configuration (\<^verbatim>\<open>models.py\<close>,
  \<^verbatim>\<open>config.py\<close>), the code scanner (\<^verbatim>\<open>scanners/code_scanner.py\<close>) and the prompt validator
  (\<^verbatim>\<open>scanners/prompt_validator.py\<close>). Findings are drawn up first and get their identifiers together, in
  order, at the end of the scan. The regular expressions are those of the source; bandit is a
  parameter, an operation from the code to what it prints.
\<close>

section \<open>Models\<close>

record finding =
  fg_id :: string
  fg_scan :: string
  fg_severity :: FindingSeverity
  fg_category :: string
  fg_title :: string
  fg_description :: string
  fg_location :: "string option"
  fg_remediation :: "string option"
  fg_cwe :: "string option"
  fg_status :: FindingStatus

record scan_result =
  sn_id :: string
  sn_type :: ScanType
  sn_target :: string
  sn_verdict :: ScanVerdict
  sn_findings :: "finding list"

record immune_config =
  ic_vuln_url :: string
  ic_block_critical :: bool
  ic_max_kb :: nat
  ic_patterns :: "string list"
  ic_secrets :: "(bool \<times> rx) list"
  ic_gate_mode :: string

text \<open>A finding before it has identifiers; the texts of the class are stripped.\<close>

definition draft :: "FindingSeverity \<Rightarrow> string \<Rightarrow> string \<Rightarrow> string \<Rightarrow> string option \<Rightarrow> string option \<Rightarrow> string option \<Rightarrow> finding" where
  "draft sev cat title desc loc fix cwe = \<lparr>fg_id = [], fg_scan = [], fg_severity = sev, fg_category = strip cat, fg_title = strip title,
     fg_description = strip desc, fg_location = map_option strip loc, fg_remediation = map_option strip fix, fg_cwe = map_option strip cwe,
     fg_status = FindingStatus.OPEN\<rparr>"

record 'w immune_env =
  ie_new_id :: "string \<Rightarrow> (exn, 'w, string) op"
  ie_show :: "rat \<Rightarrow> string"
  ie_bandit :: "string \<Rightarrow> (exn, 'w, string) op"
  ie_osv :: "string \<Rightarrow> json \<Rightarrow> (exn, 'w, nat \<times> string) op"

primrec identified :: "'w immune_env \<Rightarrow> string \<Rightarrow> finding list \<Rightarrow> (exn, 'w, finding list) op" where
  "identified env scan [] = ret []"
| "identified env scan (f # fs) =
     chain (ie_new_id env ''finding'') (\<lambda>i.
     chain (identified env scan fs) (\<lambda>gs. ret (f\<lparr>fg_id := i, fg_scan := scan\<rparr> # gs)))"

definition grave :: "finding \<Rightarrow> bool" where
  "grave f \<longleftrightarrow> fg_severity f \<in> {FindingSeverity.CRITICAL, FindingSeverity.HIGH}"

definition compute_verdict :: "finding list \<Rightarrow> ScanVerdict" where
  "compute_verdict fs =
     (if fs = [] then ScanVerdict.PASS
      else if list_ex grave fs then ScanVerdict.FAIL
      else if list_ex (\<lambda>f. fg_severity f = FindingSeverity.MEDIUM) fs then ScanVerdict.WARN
      else ScanVerdict.PASS)"

text \<open>A scan: its identifier, what it finds, the identifiers of the findings, the verdict.\<close>

definition scanned :: "'w immune_env \<Rightarrow> ScanType \<Rightarrow> string \<Rightarrow> (exn, 'w, finding list) op \<Rightarrow> (exn, 'w, scan_result) op" where
  "scanned env ty target look =
     chain (ie_new_id env ''scan'') (\<lambda>i.
     chain look (\<lambda>drafts.
     chain (identified env i drafts) (\<lambda>fs.
     ret \<lparr>sn_id = i, sn_type = ty, sn_target = strip target, sn_verdict = compute_verdict fs, sn_findings = fs\<rparr>)))"

section \<open>Code\<close>

definition letters_digits :: "citem list" where
  "letters_digits = [Range (CHR ''a'') (CHR ''z''), Range (CHR ''A'') (CHR ''Z''), Range (CHR ''0'') (CHR ''9'')]"

definition quotes :: rx where
  "quotes = Cls False [Chr (CHR 0x27), Chr (CHR 0x22)]"

definition assigned :: rx where
  "assigned = seqs [many (Cls False [Space]), Cls False [Chr (CHR '':''), Chr (CHR ''='')], many (Cls False [Space]), quotes]"

definition default_secrets :: "(bool \<times> rx) list" where
  "default_secrets = [
     (True, seqs [alts [seqs [lit ''api'', optional (Cls False [Chr (CHR ''_''), Chr (CHR ''-'')]), lit ''key''], lit ''apikey''], assigned,
        Rep True 20 None (Cls False (letters_digits @ [Chr (CHR ''_''), Chr (CHR ''-'')])), quotes]),
     (False, seqs [lit ''ghp_'', Rep True 36 (Some 36) (Cls False letters_digits)]),
     (False, seqs [lit ''github_pat_'', Rep True 22 None (Cls False (letters_digits @ [Chr (CHR ''_'')]))]),
     (False, seqs [lit ''sk-ant-'', Rep True 40 None (Cls False (letters_digits @ [Chr (CHR ''-'')]))]),
     (False, seqs [lit ''sk-'', Rep True 48 None (Cls False letters_digits)]),
     (True, seqs [alts [lit ''secret'', lit ''password'', lit ''token''], assigned,
        Rep True 8 None (Cls True [Space, Chr (CHR 0x27), Chr (CHR 0x22)]), quotes]),
     (False, seqs [lit ''-----BEGIN '', optional (alts [lit ''RSA '', lit ''EC '']), lit ''PRIVATE KEY-----'']),
     (False, seqs [lit ''AKIA'', Rep True 16 (Some 16) (Cls False [Range (CHR ''0'') (CHR ''9''), Range (CHR ''A'') (CHR ''Z'')])])]"

definition default_immune_config :: immune_config where
  "default_immune_config = \<lparr>ic_vuln_url = ''https://osv.dev/v1'', ic_block_critical = True, ic_max_kb = 500,
     ic_patterns = [''eval('', ''exec('', ''os.system('', ''__import__('', ''subprocess.call('', ''subprocess.Popen(''],
     ic_secrets = default_secrets, ic_gate_mode = ''enforce''\<rparr>"

definition utf8_length :: "string \<Rightarrow> nat" where
  "utf8_length s = sum_list (map (\<lambda>c. if (of_char c :: nat) < 128 then 1 else 2) s)"

definition at_line :: "string \<Rightarrow> nat \<Rightarrow> string" where
  "at_line path n = path @ '':'' @ nat_str n"

definition dangerous_draft :: "string \<Rightarrow> nat \<Rightarrow> string \<Rightarrow> finding" where
  "dangerous_draft path n p = draft FindingSeverity.HIGH ''dangerous_pattern'' (''Dangerous pattern detected: '' @ p)
     (''Found '' @ [CHR 0x27] @ p @ [CHR 0x27] @ '' at line '' @ nat_str n @ '' in '' @ [CHR 0x27] @ path @ [CHR 0x27] @
      ''. This pattern can lead to code injection or arbitrary code execution.'')
     (Some (at_line path n)) (Some ''Replace with a safer alternative or remove the call.'') (Some ''CWE-78'')"

definition line_patterns :: "string list \<Rightarrow> string \<Rightarrow> string list" where
  "line_patterns ps l = (if has_prefix (strip l) ''#'' then [] else filter (\<lambda>p. occurs_in p l) ps)"

definition detect_dangerous_patterns :: "immune_config \<Rightarrow> string \<Rightarrow> string \<Rightarrow> finding list" where
  "detect_dangerous_patterns c path code =
     concat (map (\<lambda>(n, l). map (dangerous_draft path n) (line_patterns (ic_patterns c) l)) (enumerate 1 (splitlines code)))"

definition secret_draft :: "string \<Rightarrow> nat \<Rightarrow> finding" where
  "secret_draft path n = draft FindingSeverity.CRITICAL ''hardcoded_secret'' ''Hardcoded secret detected''
     (''Potential secret found at line '' @ nat_str n @ '' in '' @ [CHR 0x27] @ path @ [CHR 0x27] @
      ''. Hardcoded credentials should be moved to environment variables.'')
     (Some (at_line path n)) (Some ''Move secrets to environment variables or a secrets manager.'') (Some ''CWE-798'')"

definition has_secret :: "(bool \<times> rx) list \<Rightarrow> string \<Rightarrow> bool" where
  "has_secret rs l \<longleftrightarrow> list_ex (\<lambda>(i, r). rx_found i r l) rs"

definition detect_secrets :: "immune_config \<Rightarrow> string \<Rightarrow> string \<Rightarrow> finding list" where
  "detect_secrets c path code =
     map (\<lambda>(n, l). secret_draft path n) (filter (\<lambda>(n, l). has_secret (ic_secrets c) l) (enumerate 1 (splitlines code)))"

definition bandit_severity :: "json \<Rightarrow> FindingSeverity" where
  "bandit_severity j = (if j = JStr ''HIGH'' then FindingSeverity.HIGH
     else if j = JStr ''MEDIUM'' then FindingSeverity.MEDIUM else FindingSeverity.LOW)"

text \<open>A field of type \<^verbatim>\<open>str\<close> or \<^verbatim>\<open>str | None\<close>.\<close>

definition need_str :: "json \<Rightarrow> exn + string" where
  "need_str j = (case j of JStr s \<Rightarrow> Inr s | _ \<Rightarrow> invalid)"

definition need_opt_str :: "json \<Rightarrow> exn + string option" where
  "need_opt_str j = (case j of JNull \<Rightarrow> Inr None | JStr s \<Rightarrow> Inr (Some s) | _ \<Rightarrow> invalid)"

definition get_item :: "json \<Rightarrow> json \<Rightarrow> string \<Rightarrow> exn + json" where
  "get_item v j k = (case j of JObj d \<Rightarrow> Inr (get_or v d k) | _ \<Rightarrow> Inl (AttributeError ''get''))"

definition bandit_finding :: "(rat \<Rightarrow> string) \<Rightarrow> string \<Rightarrow> json \<Rightarrow> exn + finding" where
  "bandit_finding show_float path r =
     bind_sum (get_item (JStr ''LOW'') r ''issue_severity'') (\<lambda>sev.
     bind_sum (get_item (JStr ''B000'') r ''test_id'') (\<lambda>test.
     bind_sum (get_item (JStr ''Unknown issue'') r ''issue_text'') (\<lambda>issue.
     bind_sum (get_item (JStr []) r ''issue_text'') (\<lambda>desc.
     bind_sum (get_item (JInt 0) r ''line_number'') (\<lambda>line.
     bind_sum (get_item JNull r ''more_info'') (\<lambda>info.
     bind_sum (get_item (JObj []) r ''issue_cwe'') (\<lambda>cwe.
     bind_sum (get_item JNull cwe ''id'') (\<lambda>cwe_id.
     bind_sum (need_str desc) (\<lambda>d.
     bind_sum (need_opt_str info) (\<lambda>more_info.
     bind_sum (need_opt_str cwe_id) (\<lambda>c.
     Inr (draft (bandit_severity sev) ''bandit'' (''['' @ py_str show_float test @ ''] '' @ py_str show_float issue) d
            (Some (path @ '':'' @ py_str show_float line)) more_info c))))))))))))"

text \<open>The first result that raises ends the loop; the exception is caught and what was found before stays.\<close>

fun bandit_findings :: "(rat \<Rightarrow> string) \<Rightarrow> string \<Rightarrow> json list \<Rightarrow> finding list" where
  "bandit_findings show_float path [] = []"
| "bandit_findings show_float path (r # rs) = (case bandit_finding show_float path r of
      Inl e \<Rightarrow> [] | Inr f \<Rightarrow> f # bandit_findings show_float path rs)"

definition bandit_output :: "(rat \<Rightarrow> string) \<Rightarrow> string \<Rightarrow> string \<Rightarrow> finding list" where
  "bandit_output show_float path out = (case json_loads out of
      None \<Rightarrow> []
    | Some j \<Rightarrow> (case bind_sum (get_item (JArr []) j ''results'') iterate of Inl e \<Rightarrow> [] | Inr rs \<Rightarrow> bandit_findings show_float path rs))"

definition run_bandit :: "'w immune_env \<Rightarrow> string \<Rightarrow> string \<Rightarrow> string \<Rightarrow> (exn, 'w, finding list) op" where
  "run_bandit env language path code =
     (if language \<noteq> ''python'' then ret []
      else attempt (chain (ie_bandit env code) (\<lambda>out. ret (if out = [] then [] else bandit_output (ie_show env) path out))) (\<lambda>_. ret []))"

definition oversized_draft :: "(rat \<Rightarrow> string) \<Rightarrow> immune_config \<Rightarrow> string \<Rightarrow> rat \<Rightarrow> finding" where
  "oversized_draft show_kb c path kb = draft FindingSeverity.MEDIUM ''code_size'' ''Code exceeds maximum scan size''
     (''Code is '' @ show_kb kb @ ''KB, exceeding the '' @ nat_str (ic_max_kb c) @ ''KB limit.'') (Some path) None None"

text \<open>Code of more than the maximal size is not looked at.\<close>

definition look_at_code :: "'w immune_env \<Rightarrow> immune_config \<Rightarrow> string \<Rightarrow> string \<Rightarrow> string \<Rightarrow> (exn, 'w, finding list) op" where
  "look_at_code env c code path language =
     (let kb = of_nat (utf8_length code) / 1024
      in if of_nat (ic_max_kb c) < kb then ret [oversized_draft (ie_show env) c path kb]
         else chain (run_bandit env language path code) (\<lambda>b.
              ret (detect_dangerous_patterns c path code @ detect_secrets c path code @ b)))"

text \<open>The input is a class with stripped texts.\<close>

definition scan_code :: "'w immune_env \<Rightarrow> immune_config \<Rightarrow> string \<Rightarrow> string \<Rightarrow> string \<Rightarrow> (exn, 'w, scan_result) op" where
  "scan_code env c code path language =
     scanned env ScanType.CODE_SCAN path (look_at_code env c (strip code) (strip path) (strip language))"

section \<open>Prompts\<close>

definition blanks :: rx where
  "blanks = some_of (Cls False [Space])"

definition injection_patterns :: "(string \<times> string \<times> bool \<times> rx) list" where
  "injection_patterns = [
     (''system_prompt_override'', ''Attempt to override system prompt'', True, seqs [alts [lit ''ignore'', lit ''disregard'', lit ''forget''], blanks,
        optional (seqs [lit ''all'', blanks]), alts [lit ''previous'', lit ''prior'', lit ''above''], blanks,
        alts [lit ''instructions'', lit ''prompts'', lit ''rules'']]),
     (''role_hijacking'', ''Attempt to reassign the assistant role'', True, seqs [lit ''you'', blanks, lit ''are'', blanks,
        alts [lit ''now'', lit ''actually''], blanks, alts [lit ''a'', lit ''an'', lit ''the''], blanks]),
     (''delimiter_escape'', ''Attempt to break out of delimiters'', False, seqs [lit ''</'',
        alts [lit ''user_input'', lit ''system'', lit ''assistant'', lit ''human''], lit ''>'']),
     (''instruction_injection'', ''Embedded system-level instruction'', True, seqs [lit ''['',
        alts [lit ''system'', lit ''admin'', lit ''root''], lit '']'', many (Cls False [Space]), lit '':'']),
     (''encoding_evasion'', ''Base64 or hex encoded payload'', True, seqs [alts [lit ''base64'', lit ''hex''], many (Cls False [Space]),
        alts [lit ''decode'', lit ''encode''], many (Cls False [Space]), Cls False [Chr (CHR ''(''), Chr (CHR ''['')]]),
     (''prompt_leak_request'', ''Attempt to extract system prompt'', True, seqs [
        alts [lit ''repeat'', lit ''show'', lit ''print'', lit ''reveal'', lit ''output''], blanks, optional (seqs [lit ''your'', blanks]),
        optional (seqs [lit ''system'', blanks]), alts [lit ''prompt'', lit ''instructions'', lit ''rules'']]),
     (''jailbreak_pattern'', ''Common jailbreak technique detected'', True, alts [lit ''DAN'', seqs [lit ''developer'', blanks, lit ''mode''],
        seqs [lit ''do'', blanks, lit ''anything'', blanks, lit ''now''], seqs [lit ''act'', blanks, lit ''as'', blanks, lit ''if'']])]"

definition matched_text :: "bool \<Rightarrow> rx \<Rightarrow> string \<Rightarrow> string option" where
  "matched_text i r s = map_option (\<lambda>g. get_or [] g 0) (rx_search i (Grp 0 r) s)"

definition injection_drafts :: "(string \<Rightarrow> string \<Rightarrow> string \<Rightarrow> finding) \<Rightarrow> string \<Rightarrow> finding list" where
  "injection_drafts build s = List.map_filter (\<lambda>(cat, desc, i, r). map_option (\<lambda>m. build cat desc (take 50 m)) (matched_text i r s)) injection_patterns"

definition input_draft :: "string \<Rightarrow> string \<Rightarrow> string \<Rightarrow> finding" where
  "input_draft cat desc m = draft FindingSeverity.HIGH (''prompt_injection.'' @ cat) desc
     (''Detected prompt injection pattern '' @ [CHR 0x27] @ cat @ [CHR 0x27] @ '' in input text near: '' @ [CHR 0x27] @ m @ [CHR 0x27])
     (Some ''user_input'') (Some ''Sanitise user input or wrap in delimiter tags.'') (Some ''CWE-77'')"

definition output_draft :: "string \<Rightarrow> string \<Rightarrow> string \<Rightarrow> finding" where
  "output_draft cat desc m = draft FindingSeverity.MEDIUM (''output_injection.'' @ cat) (''Suspicious pattern in LLM output: '' @ desc)
     (''Detected pattern '' @ [CHR 0x27] @ cat @ [CHR 0x27] @ '' in LLM output near: '' @ [CHR 0x27] @ m @ [CHR 0x27])
     (Some ''llm_output'') (Some ''Review the LLM output for prompt leakage or injection.'') None"

text \<open>The verdict on an input is failed when there is a finding at all.\<close>

definition validate_input :: "'w immune_env \<Rightarrow> string \<Rightarrow> (exn, 'w, scan_result) op" where
  "validate_input env s =
     chain (scanned env ScanType.PROMPT_INJECTION ''user_input'' (ret (injection_drafts input_draft s))) (\<lambda>r.
     ret (r\<lparr>sn_verdict := (if sn_findings r = [] then ScanVerdict.PASS else ScanVerdict.FAIL)\<rparr>))"

text \<open>With a schema, what its validation says of the text: nothing, an error count and the first message, or no JSON.\<close>

datatype output_check = Fits | Violates nat string | Unparsed

definition schema_drafts :: "output_check option \<Rightarrow> finding list" where
  "schema_drafts c = (case c of
      Some (Violates n m) \<Rightarrow> [draft FindingSeverity.MEDIUM ''schema_violation'' ''LLM output does not match expected schema''
         (''Validation failed with '' @ nat_str n @ '' error(s): '' @ m) (Some ''llm_output'')
         (Some ''Retry the LLM call or adjust the prompt to enforce schema.'') None]
    | Some Unparsed \<Rightarrow> [draft FindingSeverity.MEDIUM ''schema_violation'' ''LLM output could not be parsed as JSON''
         ''The output is not valid JSON.'' (Some ''llm_output'') (Some ''Ensure the LLM prompt requests JSON output.'') None]
    | _ \<Rightarrow> [])"

definition validate_output :: "'w immune_env \<Rightarrow> (string \<Rightarrow> output_check) option \<Rightarrow> string \<Rightarrow> (exn, 'w, scan_result) op" where
  "validate_output env schema s =
     scanned env ScanType.PROMPT_INJECTION ''llm_output''
       (ret (schema_drafts (map_option (\<lambda>v. v s) schema) @ injection_drafts output_draft s))"

end
