(* ===== verification/Dependency_Auditor.thy ===== *)
theory Dependency_Auditor
  imports Arch_Prelude Security_Scans
begin

text \<open>
  The edit distance of the dependency auditor (\<^verbatim>\<open>scanners/dependency_auditor.py\<close>), computed row by row,
  and that it is what it should be: the least number of insertions, deletions and replacements of
  single characters that make one text of the other.
\<close>

section \<open>The computation\<close>

text \<open>The cells after the first of a row: \<open>p\<close> is the cell above and to the left, \<open>q\<close> the one above.\<close>

fun lev_cells :: "char \<Rightarrow> string \<Rightarrow> nat list \<Rightarrow> nat \<Rightarrow> nat list" where
  "lev_cells ca (cb # bs) (p # q # ps) cell =
     (let x = min (min (q + 1) (cell + 1)) (p + (if ca = cb then 0 else 1)) in x # lev_cells ca bs (q # ps) x)"
| "lev_cells ca _ _ cell = []"

definition lev_row :: "nat \<Rightarrow> char \<Rightarrow> string \<Rightarrow> nat list \<Rightarrow> nat list" where
  "lev_row i ca b previous = (i + 1) # lev_cells ca b previous (i + 1)"

fun lev_rows :: "nat \<Rightarrow> string \<Rightarrow> string \<Rightarrow> nat list \<Rightarrow> nat list" where
  "lev_rows i [] b previous = previous"
| "lev_rows i (ca # as) b previous = lev_rows (i + 1) as b (lev_row i ca b previous)"

definition levenshtein_long_first :: "string \<Rightarrow> string \<Rightarrow> nat" where
  "levenshtein_long_first a b = (if b = [] then length a else last (lev_rows 0 a b [0..<length b + 1]))"

definition levenshtein_distance :: "string \<Rightarrow> string \<Rightarrow> nat" where
  "levenshtein_distance a b = (if length a < length b then levenshtein_long_first b a else levenshtein_long_first a b)"

section \<open>The specification\<close>

text \<open>\<open>edits n a b\<close>: reading from left to right, \<open>n\<close> single characters are deleted, inserted or replaced.\<close>

inductive edits :: "nat \<Rightarrow> 'a list \<Rightarrow> 'a list \<Rightarrow> bool" where
  nothing [intro]: "edits 0 [] []"
| same [intro]: "edits n xs ys \<Longrightarrow> edits n (x # xs) (x # ys)"
| deleted [intro]: "edits n xs ys \<Longrightarrow> edits (Suc n) (x # xs) ys"
| inserted [intro]: "edits n xs ys \<Longrightarrow> edits (Suc n) xs (y # ys)"
| replaced [intro]: "edits n xs ys \<Longrightarrow> edits (Suc n) (x # xs) (y # ys)"

fun edit :: "'a list \<Rightarrow> 'a list \<Rightarrow> nat" where
  "edit [] ys = length ys"
| "edit xs [] = length xs"
| "edit (x # xs) (y # ys) = min (min (edit xs (y # ys) + 1) (edit (x # xs) ys + 1)) (edit xs ys + (if x = y then 0 else 1))"

lemma edit_Nil2 [simp]: "edit xs [] = length xs"
  by (cases xs) simp_all

lemma edits_from_Nil: "edits (length ys) [] ys"
  by (induction ys) auto

lemma edits_to_Nil: "edits (length xs) xs []"
  by (induction xs) auto

lemma edit_reached: "edits (edit xs ys) xs ys"
proof (induction xs ys rule: edit.induct)
  case (3 x xs y ys)
  have "edits (edit xs (y # ys) + 1) (x # xs) (y # ys)" "edits (edit (x # xs) ys + 1) (x # xs) (y # ys)"
    using 3 by auto
  moreover have "edits (edit xs ys + (if x = y then 0 else 1)) (x # xs) (y # ys)" using 3 by auto
  ultimately show ?case by (auto simp: min_def)
qed (auto intro: edits_from_Nil edits_to_Nil)

lemma edit_least: "edits n xs ys \<Longrightarrow> edit xs ys \<le> n"
proof (induction rule: edits.induct)
  case (deleted n xs ys x)
  then show ?case by (cases ys) auto
next
  case (inserted n xs ys y)
  then show ?case by (cases xs) auto
qed auto

lemma edits_append: "edits n xs ys \<Longrightarrow> edits m us vs \<Longrightarrow> edits (n + m) (xs @ us) (ys @ vs)"
  by (induction rule: edits.induct) auto

lemma edits_rev: "edits n xs ys \<Longrightarrow> edits n (rev xs) (rev ys)"
proof (induction rule: edits.induct)
  case (same n xs ys x)
  then show ?case using edits_append [of n "rev xs" "rev ys" 0 "[x]" "[x]"] by auto
next
  case (deleted n xs ys x)
  then show ?case using edits_append [of n "rev xs" "rev ys" 1 "[x]" "[]"] by auto
next
  case (inserted n xs ys y)
  then show ?case using edits_append [of n "rev xs" "rev ys" 1 "[]" "[y]"] by auto
next
  case (replaced n xs ys x y)
  then show ?case using edits_append [of n "rev xs" "rev ys" 1 "[x]" "[y]"] by auto
qed auto

lemma edits_sym: "edits n xs ys \<Longrightarrow> edits n ys xs"
  by (induction rule: edits.induct) auto

lemma edit_rev: "edit (rev xs) (rev ys) = edit xs ys"
proof (rule antisym)
  show "edit (rev xs) (rev ys) \<le> edit xs ys" by (rule edit_least [OF edits_rev [OF edit_reached]])
  show "edit xs ys \<le> edit (rev xs) (rev ys)"
    using edit_least [OF edits_rev [OF edit_reached [of "rev xs" "rev ys"]]] by simp
qed

lemma edit_commute: "edit xs ys = edit ys xs"
  by (rule antisym) (rule edit_least [OF edits_sym [OF edit_reached]])+

section \<open>The rows\<close>

text \<open>The row of a prefix: the distances from it to the prefixes of the other text that extend \<open>before\<close>.\<close>

primrec true_row :: "string \<Rightarrow> string \<Rightarrow> string \<Rightarrow> nat list" where
  "true_row u seen [] = [edit (rev u) (rev seen)]"
| "true_row u seen (c # cs) = edit (rev u) (rev seen) # true_row u (seen @ [c]) cs"

lemma true_row_Cons: "true_row u seen cs = edit (rev u) (rev seen) # tl (true_row u seen cs)"
  by (cases cs) simp_all

lemma first_row: "true_row [] seen cs = [length seen..<Suc (length seen + length cs)]"
  by (induction cs arbitrary: seen) (simp_all add: upt_conv_Cons del: upt_Suc)

lemma true_row_last: "last (true_row u seen cs) = edit (rev u) (rev (seen @ cs))"
proof (induction cs arbitrary: seen)
  case (Cons c cs)
  have "true_row u (seen @ [c]) cs \<noteq> []" by (cases cs) simp_all
  with Cons [of "seen @ [c]"] show ?case by simp
qed simp

lemma cells_true: "lev_cells ca cs (true_row u seen cs) (edit (rev (u @ [ca])) (rev seen)) = tl (true_row (u @ [ca]) seen cs)"
proof (induction cs arbitrary: seen)
  case (Cons c cs)
  let ?x = "edit (rev (u @ [ca])) (rev (seen @ [c]))"
  obtain ps where ps: "true_row u (seen @ [c]) cs = edit (rev u) (rev (seen @ [c])) # ps" using true_row_Cons by metis
  have x: "min (min (edit (rev u) (rev (seen @ [c])) + 1) (edit (rev (u @ [ca])) (rev seen) + 1))
      (edit (rev u) (rev seen) + (if ca = c then 0 else 1)) = ?x" by simp
  have "lev_cells ca (c # cs) (true_row u seen (c # cs)) (edit (rev (u @ [ca])) (rev seen)) =
      ?x # lev_cells ca cs (true_row u (seen @ [c]) cs) ?x"
    unfolding true_row.simps ps lev_cells.simps Let_def x ..
  also have "\<dots> = ?x # tl (true_row (u @ [ca]) (seen @ [c]) cs)" by (simp only: Cons.IH)
  also have "\<dots> = true_row (u @ [ca]) (seen @ [c]) cs" by (rule true_row_Cons [symmetric])
  finally show ?case by simp
qed simp

lemma row_true: "lev_row (length u) ca b (true_row u [] b) = true_row (u @ [ca]) [] b"
  using cells_true [of ca b u "[]"] true_row_Cons [of "u @ [ca]" "[]" b] by (simp add: lev_row_def)

lemma rows_true: "lev_rows (length u) a b (true_row u [] b) = true_row (u @ a) [] b"
proof (induction a arbitrary: u)
  case (Cons c a)
  from Cons [of "u @ [c]"] show ?case by (simp add: row_true)
qed simp

lemma long_first_edit: "levenshtein_long_first a b = edit a b"
proof -
  have "last (lev_rows 0 a b [0..<length b + 1]) = edit a b"
    using rows_true [of "[]" a b] true_row_last [of a "[]" b] by (simp add: first_row edit_rev)
  then show ?thesis by (simp add: levenshtein_long_first_def)
qed

text \<open>
  C28: The edit distance computed with two rows is the least number of insertions, deletions and replacements of
  single characters that turn one name into the other.
\<close>

theorem levenshtein_is_least_edits: "levenshtein_distance a b = (LEAST n. edits n a b)"
proof -
  have "levenshtein_distance a b = edit a b"
    by (simp add: levenshtein_distance_def long_first_edit edit_commute [of b a])
  moreover have "(LEAST n. edits n a b) = edit a b"
    by (rule Least_equality) (auto intro: edit_reached edit_least)
  ultimately show ?thesis by simp
qed

text \<open>
  The dependency auditor (\<^verbatim>\<open>scanners/dependency_auditor.py\<close>): known vulnerabilities, names close
  to popular packages, and versions that are not pinned. The popular packages are a set in the source, whose
  order nothing depends on but that of the findings. The vulnerability database is a parameter.
\<close>

record package_spec =
  pk_name :: string
  pk_version :: string
  pk_source :: string

definition popular_packages :: "string list" where
  "popular_packages = [''requests'', ''numpy'', ''pandas'', ''flask'', ''django'', ''boto3'', ''urllib3'', ''setuptools'', ''pip'', ''cryptography'',
     ''pyyaml'', ''pydantic'', ''fastapi'', ''sqlalchemy'', ''httpx'', ''aiohttp'', ''jinja2'', ''click'', ''pillow'', ''scipy'', ''matplotlib'',
     ''pytest'', ''celery'', ''redis'', ''psycopg2'', ''beautifulsoup4'', ''lxml'', ''scrapy'', ''tensorflow'', ''torch'', ''transformers'',
     ''scikit-learn'', ''uvicorn'', ''gunicorn'', ''black'', ''ruff'', ''mypy'', ''coverage'', ''tox'', ''sphinx'', ''paramiko'', ''python-dotenv'',
     ''pyjwt'', ''bcrypt'', ''passlib'', ''structlog'', ''orjson'', ''msgpack'', ''protobuf'']"

definition quoted_name :: "string \<Rightarrow> string" where
  "quoted_name s = CHR 0x27 # s @ [CHR 0x27]"

definition release :: "package_spec \<Rightarrow> string" where
  "release p = pk_name p @ ''=='' @ pk_version p"

section \<open>Names\<close>

definition normalised :: "string \<Rightarrow> string" where
  "normalised s = filter (\<lambda>c. c \<noteq> CHR ''-'' \<and> c \<noteq> CHR ''_'') (lower s)"

definition too_close :: "string \<Rightarrow> string \<Rightarrow> bool" where
  "too_close name popular \<longleftrightarrow>
     normalised name \<noteq> normalised popular \<and> 0 < levenshtein_distance (normalised name) (normalised popular) \<and>
     levenshtein_distance (normalised name) (normalised popular) \<le> 2"

definition typosquat_draft :: "package_spec \<Rightarrow> string \<Rightarrow> finding" where
  "typosquat_draft p popular = draft FindingSeverity.HIGH ''typosquatting''
     (''Possible typosquat: '' @ quoted_name (pk_name p) @ '' is similar to '' @ quoted_name popular)
     (''Package '' @ quoted_name (pk_name p) @ '' has a Levenshtein distance of '' @
      nat_str (levenshtein_distance (normalised (pk_name p)) (normalised popular)) @ '' from the popular package '' @ quoted_name popular @
      ''. This may indicate typosquatting.'')
     (Some (release p)) (Some (''Verify that '' @ quoted_name (pk_name p) @ '' is the intended package, not '' @ quoted_name popular @ ''.'')) None"

definition check_typosquatting :: "package_spec \<Rightarrow> finding list" where
  "check_typosquatting p = map (typosquat_draft p) (filter (too_close (pk_name p)) popular_packages)"

section \<open>Licenses and versions\<close>

definition check_license :: "package_spec \<Rightarrow> finding list" where
  "check_license p = []"

definition check_pinned_version :: "package_spec \<Rightarrow> finding list" where
  "check_pinned_version p =
     (let v = strip (pk_version p)
      in if v = [] \<or> v = ''*''
         then [draft FindingSeverity.MEDIUM ''version_pinning'' (''Unpinned dependency: '' @ pk_name p)
                 (''Package '' @ quoted_name (pk_name p) @ '' has no pinned version.'') (Some (pk_name p))
                 (Some ''Pin the dependency to a specific version.'') None]
         else if list_ex (has_prefix v) [''>='', ''~='', ''>'', ''^'']
         then [draft FindingSeverity.LOW ''version_pinning'' (''Loosely-pinned dependency: '' @ pk_name p @ v)
                 (''Package '' @ quoted_name (pk_name p) @ '' uses a range specifier '' @ quoted_name v @ ''. This may pull in untested versions.'')
                 (Some (pk_name p @ v)) (Some ''Pin to an exact version (e.g. ==1.2.3).'') None]
         else [])"

section \<open>Vulnerabilities\<close>

definition severity_of_score :: "rat \<Rightarrow> FindingSeverity" where
  "severity_of_score q = (if 9 \<le> q then FindingSeverity.CRITICAL else if 7 \<le> q then FindingSeverity.HIGH
     else if 4 \<le> q then FindingSeverity.MEDIUM else FindingSeverity.LOW)"

text \<open>The first entry whose score is a number decides.\<close>

fun first_score :: "json list \<Rightarrow> exn + FindingSeverity" where
  "first_score [] = Inr FindingSeverity.MEDIUM"
| "first_score (s # ss) = bind_sum (get_item (JStr []) s ''score'') (\<lambda>j.
     case to_float j of Inr q \<Rightarrow> Inr (severity_of_score q) | Inl _ \<Rightarrow> first_score ss)"

definition map_osv_severity :: "json \<Rightarrow> exn + FindingSeverity" where
  "map_osv_severity v = bind_sum (bind_sum (get_item (JArr []) v ''severity'') iterate) first_score"

text \<open>The first of a list for which a value is found, searched in nested loops.\<close>

fun first_found :: "(json \<Rightarrow> exn + string option) \<Rightarrow> json list \<Rightarrow> exn + string option" where
  "first_found f [] = Inr None"
| "first_found f (j # js) = bind_sum (f j) (\<lambda>r. case r of None \<Rightarrow> first_found f js | Some s \<Rightarrow> Inr (Some s))"

definition looked_in :: "string \<Rightarrow> (json \<Rightarrow> exn + string option) \<Rightarrow> json \<Rightarrow> exn + string option" where
  "looked_in k f j = bind_sum (bind_sum (get_item (JArr []) j k) iterate) (first_found f)"

definition fixed_in :: "(rat \<Rightarrow> string) \<Rightarrow> json \<Rightarrow> exn + string option" where
  "fixed_in show_float e = bind_sum (get_item JNull e ''fixed'') (\<lambda>v.
     Inr (if truthy v then Some (''Upgrade to version '' @ py_str show_float v @ '' or later.'') else None))"

definition extract_remediation :: "(rat \<Rightarrow> string) \<Rightarrow> json \<Rightarrow> exn + string option" where
  "extract_remediation show_float = looked_in ''affected'' (looked_in ''ranges'' (looked_in ''events'' (fixed_in show_float)))"

definition cwe_alias :: "json \<Rightarrow> exn + string option" where
  "cwe_alias j = Inr (case j of JStr s \<Rightarrow> if has_prefix s ''CWE-'' then Some s else None | _ \<Rightarrow> None)"

definition extract_cwe :: "json \<Rightarrow> exn + string option" where
  "extract_cwe = looked_in ''aliases'' cwe_alias"

definition vulnerability_finding :: "(rat \<Rightarrow> string) \<Rightarrow> package_spec \<Rightarrow> json \<Rightarrow> exn + finding" where
  "vulnerability_finding show_float p v =
     bind_sum (map_osv_severity v) (\<lambda>sev.
     bind_sum (get_item (JStr ''Unknown vulnerability'') v ''id'') (\<lambda>i.
     bind_sum (get_item i v ''summary'') (\<lambda>summary.
     bind_sum (extract_remediation show_float v) (\<lambda>fix.
     bind_sum (extract_cwe v) (\<lambda>cwe.
     bind_sum (need_str summary) (\<lambda>desc.
     Inr (draft sev ''vulnerability'' (''Known vulnerability in '' @ release p) desc (Some (release p)) fix cwe)))))))"

definition osv_body :: "package_spec \<Rightarrow> json" where
  "osv_body p = JObj [(''package'', JObj [(''name'', JStr (pk_name p)), (''ecosystem'', JStr ''PyPI'')]), (''version'', JStr (pk_version p))]"

definition osv_reply :: "(rat \<Rightarrow> string) \<Rightarrow> package_spec \<Rightarrow> nat \<times> string \<Rightarrow> exn + finding list" where
  "osv_reply show_float p r =
     (if fst r \<noteq> 200 then Inr []
      else case json_loads (snd r) of
          None \<Rightarrow> Inl (ValueError ''JSONDecodeError'')
        | Some j \<Rightarrow> bind_sum (bind_sum (get_item (JArr []) j ''vulns'') iterate) (map_sum_list (vulnerability_finding show_float p)))"

definition osv_failure :: "exn \<Rightarrow> bool" where
  "osv_failure e = (case e of ExternalError _ \<Rightarrow> True | _ \<Rightarrow> False)"

definition check_vulnerabilities :: "'w immune_env \<Rightarrow> immune_config \<Rightarrow> package_spec \<Rightarrow> (exn, 'w, finding list) op" where
  "check_vulnerabilities env c p =
     attempt (chain (ie_osv env (ic_vuln_url c @ ''/query'') (osv_body p)) (\<lambda>r. lift_sum (\<lambda>_. osv_reply (ie_show env) p r)))
       (\<lambda>e. if osv_failure e then ret [] else raise e)"

section \<open>The audit\<close>

definition audit_package :: "'w immune_env \<Rightarrow> immune_config \<Rightarrow> package_spec \<Rightarrow> (exn, 'w, finding list) op" where
  "audit_package env c p =
     chain (check_vulnerabilities env c p) (\<lambda>vs. ret (vs @ check_license p @ check_typosquatting p @ check_pinned_version p))"

primrec audit_all :: "'w immune_env \<Rightarrow> immune_config \<Rightarrow> package_spec list \<Rightarrow> (exn, 'w, finding list) op" where
  "audit_all env c [] = ret []"
| "audit_all env c (p # ps) = chain (audit_package env c p) (\<lambda>fs. chain (audit_all env c ps) (\<lambda>gs. ret (fs @ gs)))"

definition audit_packages :: "'w immune_env \<Rightarrow> immune_config \<Rightarrow> package_spec list \<Rightarrow> string \<Rightarrow> (exn, 'w, scan_result) op" where
  "audit_packages env c ps target = scanned env ScanType.DEPENDENCY_AUDIT target (audit_all env c ps)"

section \<open>What the checks find\<close>

text \<open>A vector, which is what the database has for a score, is no number.\<close>

lemma vector_score_ignored: "parse_decimal (''CVSS:3.1/'' @ s) = None \<Longrightarrow> first_score [JObj [(''score'', JStr (''CVSS:3.1/'' @ s))]] = Inr FindingSeverity.MEDIUM"
  by (simp add: get_item_def get_or_def to_float_def lax_float_def)

lemma critical_vector_is_medium:
  "first_score [JObj [(''type'', JStr ''CVSS_V3''), (''score'', JStr ''CVSS:3.1/AV:N/AC:L/PR:N/UI:N/S:C/C:H/I:H/A:H'')]] = Inr FindingSeverity.MEDIUM"
  by code_simp

lemma typosquat_grave:
  assumes "q \<in> set popular_packages" and "too_close (pk_name p) q"
  shows "list_ex grave (check_typosquatting p)"
  using assms by (force simp: check_typosquatting_def list_ex_iff typosquat_draft_def draft_def grave_def)

text \<open>
  The auditor takes popular packages themselves for imitations of others: an exact match only skips the comparison
  with its own name, and seven of the names on the list are within two edits of another one, so that each
  of them gets a finding of high severity, whatever its version.
\<close>

theorem popular_packages_flagged:
  "list_all (\<lambda>n. n \<in> set popular_packages \<and> list_ex grave (check_typosquatting \<lparr>pk_name = n, pk_version = v, pk_source = src\<rparr>))
     [''flask'', ''click'', ''scipy'', ''scrapy'', ''uvicorn'', ''gunicorn'', ''black'']"
proof -
  have close: "too_close ''flask'' ''black''" "too_close ''click'' ''black''" "too_close ''scipy'' ''scrapy''" "too_close ''scrapy'' ''scipy''"
      "too_close ''uvicorn'' ''gunicorn''" "too_close ''gunicorn'' ''uvicorn''" "too_close ''black'' ''flask''"
    by code_simp+
  have popular: "list_all (\<lambda>n. n \<in> set popular_packages) [''flask'', ''click'', ''scipy'', ''scrapy'', ''uvicorn'', ''gunicorn'', ''black'']"
    by code_simp
  have flagged: "list_ex grave (check_typosquatting \<lparr>pk_name = n, pk_version = v, pk_source = src\<rparr>)"
    if "q \<in> set popular_packages" "too_close n q" for n q using typosquat_grave [of q] that by simp
  show ?thesis using popular close by (simp only: list.pred_inject) (blast intro: flagged)
qed

end
