(* ===== verification/Runtime_Monitor.thy ===== *)
theory Runtime_Monitor
  imports Security_Scans Doc_Fetcher
begin

text \<open>
  The runtime monitor of the Security Immune System (\<^verbatim>\<open>scanners/runtime_monitor.py\<close>): network
  connections, file accesses and processes of a sandbox against fixed lists. Addresses are parsed as Python's
  \<^verbatim>\<open>ipaddress\<close> does; an entry of a report is an object of which the code reads some keys.
\<close>

section \<open>Addresses\<close>

text \<open>Four decimal numbers below 256, without leading zeros.\<close>

definition parse_octet :: "string \<Rightarrow> int option" where
  "parse_octet s =
     (if s \<noteq> [] \<and> list_all digit s \<and> length s \<le> 3 \<and> (s = ''0'' \<or> hd s \<noteq> CHR ''0'') \<and> digits_value s \<le> 255
      then Some (digits_value s) else None)"

primrec all_some :: "'a option list \<Rightarrow> 'a list option" where
  "all_some [] = Some []"
| "all_some (x # xs) = (case x of None \<Rightarrow> None | Some y \<Rightarrow> map_option (Cons y) (all_some xs))"

definition from_parts :: "int \<Rightarrow> int list \<Rightarrow> int" where
  "from_parts base ds = foldl (\<lambda>n d. n * base + d) 0 ds"

definition parse_ipv4 :: "string \<Rightarrow> int option" where
  "parse_ipv4 s = (let parts = split_on CHR ''.'' s
     in if length parts = 4 then map_option (from_parts 256) (all_some (map parse_octet parts)) else None)"

definition parse_hextet :: "string \<Rightarrow> int option" where
  "parse_hextet s =
     (if s \<noteq> [] \<and> length s \<le> 4 \<and> list_all (\<lambda>c. hex_digit (lower_char c)) s
      then Some (foldl (\<lambda>n c. 16 * n + int (hex_value c)) 0 s) else None)"

text \<open>A last part with dots is two parts.\<close>

definition hex_text :: "int \<Rightarrow> string" where
  "hex_text n = map (\<lambda>i. ''0123456789abcdef'' ! nat (n div 16 ^ i mod 16)) [3, 2, 1, 0]"

definition expand_ipv4 :: "string list \<Rightarrow> string list option" where
  "expand_ipv4 parts =
     (if CHR ''.'' \<in> set (last parts)
      then map_option (\<lambda>n. butlast parts @ [hex_text (n div 65536), hex_text (n mod 65536)]) (parse_ipv4 (last parts))
      else Some parts)"

text \<open>The part that \<open>::\<close> leaves out is the only empty one inside; at an end it takes the empty part there with it.\<close>

definition parse_ipv6 :: "string \<Rightarrow> int option" where
  "parse_ipv6 s =
     (let parts = split_on CHR '':'' s
      in if length parts < 3 then None
         else case expand_ipv4 parts of
             None \<Rightarrow> None
           | Some ps \<Rightarrow>
               if 9 < length ps then None
               else let holes = filter (\<lambda>i. ps ! i = []) [1..<length ps - 1]
                    in (case holes of
                          [] \<Rightarrow> if length ps = 8 then map_option (from_parts 65536) (all_some (map parse_hextet ps)) else None
                        | [h] \<Rightarrow>
                            let hi = (if hd ps = [] then h - 1 else h); lo = (if last ps = [] then length ps - h - 2 else length ps - h - 1)
                            in if (hd ps = [] \<and> hi \<noteq> 0) \<or> (last ps = [] \<and> lo \<noteq> 0) \<or> 8 \<le> hi + lo then None
                               else map_option (\<lambda>(as, bs). from_parts 65536 (as @ replicate (8 - hi - lo) 0 @ bs))
                                      (case (all_some (map parse_hextet (take hi ps)), all_some (map parse_hextet (drop (length ps - lo) ps))) of
                                         (Some as, Some bs) \<Rightarrow> Some (as, bs) | _ \<Rightarrow> None)
                        | _ \<Rightarrow> None))"

text \<open>A scope, after a percent sign, must not be empty nor have another.\<close>

definition without_scope :: "string \<Rightarrow> string option" where
  "without_scope s =
     (if CHR 0x25 \<notin> set s then Some s
      else if after CHR 0x25 s = [] \<or> CHR 0x25 \<in> set (after CHR 0x25 s) then None else Some (before CHR 0x25 s))"

definition ip_address :: "json \<Rightarrow> ip option" where
  "ip_address j = (case j of
      JStr s \<Rightarrow>
        (case parse_ipv4 s of
           Some n \<Rightarrow> Some (V4 (of_int n))
         | None \<Rightarrow> (case without_scope s of None \<Rightarrow> None | Some t \<Rightarrow> map_option (\<lambda>n. V6 (of_int n)) (parse_ipv6 t)))
    | JInt n \<Rightarrow> if 0 \<le> n \<and> n < 2 ^ 32 then Some (V4 (of_int n)) else if 0 \<le> n \<and> n < 2 ^ 128 then Some (V6 (of_int n)) else None
    | JBool b \<Rightarrow> Some (V4 (if b then 1 else 0))
    | _ \<Rightarrow> None)"

section \<open>The monitor\<close>

definition allowed_networks :: "network list" where
  "allowed_networks = [Net4 0x7F000000 8, Net4 0x0A000000 8, Net4 0xAC100000 12, Net4 0xC0A80000 16, Net6 1 128]"

definition allowed_file_prefixes :: "string list" where
  "allowed_file_prefixes = [''/tmp/'', ''/workspace/'', ''/home/sandbox/'', ''/usr/lib/'', ''/usr/local/lib/'']"

definition suspicious_binaries :: "string list" where
  "suspicious_binaries = [''nc'', ''ncat'', ''nmap'', ''curl'', ''wget'', ''ssh'', ''scp'']"

record activity_report =
  ar_sandbox :: string
  ar_connections :: "payload list"
  ar_files :: "payload list"
  ar_processes :: "payload list"

definition sandbox_name :: "activity_report \<Rightarrow> string" where
  "sandbox_name r = ''Sandbox '' @ [CHR 0x27] @ ar_sandbox r @ [CHR 0x27]"

definition connection_findings :: "(rat \<Rightarrow> string) \<Rightarrow> activity_report \<Rightarrow> payload \<Rightarrow> finding list" where
  "connection_findings show_float r d =
     (let j = get_or (JStr []) d ''remote_ip''; shown = py_str show_float j
      in if \<not> truthy j then []
         else case ip_address j of
             None \<Rightarrow> [draft FindingSeverity.LOW ''network_anomaly'' (''Invalid IP address: '' @ shown)
               (''Could not parse '' @ [CHR 0x27] @ shown @ [CHR 0x27] @ '' as an IP address.'') (Some (ar_sandbox r)) None None]
           | Some a \<Rightarrow>
               if list_ex (in_network a) allowed_networks then []
               else [draft FindingSeverity.HIGH ''network_violation'' (''Disallowed network connection to '' @ shown)
                 (sandbox_name r @ '' connected to external address '' @ shown @ '':'' @
                  py_str show_float (get_or (JStr ''?'') d ''remote_port'') @ ''. Only private/loopback addresses are permitted.'')
                 (Some (ar_sandbox r)) (Some ''Block external network access or whitelist the address.'') (Some ''CWE-918'')])"

definition check_network_violations :: "(rat \<Rightarrow> string) \<Rightarrow> activity_report \<Rightarrow> finding list" where
  "check_network_violations show_float r =
     (if 100 < length (ar_connections r)
      then [draft FindingSeverity.HIGH ''network_anomaly'' ''Excessive network connections''
              (sandbox_name r @ '' made '' @ nat_str (length (ar_connections r)) @ '' network connections (threshold: 100).'')
              (Some (ar_sandbox r)) (Some ''Investigate why the sandbox needs so many connections.'') None]
      else []) @ concat (map (connection_findings show_float r) (ar_connections r))"

text \<open>A path that is no text has no prefix test, and the scan raises.\<close>

definition file_findings :: "(rat \<Rightarrow> string) \<Rightarrow> activity_report \<Rightarrow> payload \<Rightarrow> exn + finding list" where
  "file_findings show_float r d =
     (let j = get_or (JStr []) d ''path''
      in if \<not> truthy j then Inr []
         else case j of
             JStr path \<Rightarrow>
               Inr (if list_ex (has_prefix path) allowed_file_prefixes then []
                    else [draft FindingSeverity.HIGH ''file_access_violation'' (''Disallowed file access: '' @ path)
                      (sandbox_name r @ '' accessed '' @ [CHR 0x27] @ path @ [CHR 0x27] @ '' ('' @
                       py_str show_float (get_or (JStr ''unknown'') d ''operation'') @ ''). This path is outside the allowed sandbox directories.'')
                      (Some (ar_sandbox r)) (Some ''Restrict file system access to allowed paths only.'') (Some ''CWE-22'')])
           | _ \<Rightarrow> Inl (AttributeError ''startswith''))"

definition check_file_access_violations :: "(rat \<Rightarrow> string) \<Rightarrow> activity_report \<Rightarrow> exn + finding list" where
  "check_file_access_violations show_float r = bind_sum (map_sum_list (file_findings show_float r) (ar_files r)) (\<lambda>fs. Inr (concat fs))"

definition process_findings :: "activity_report \<Rightarrow> payload \<Rightarrow> exn + finding list" where
  "process_findings r d = (case get_or (JStr []) d ''binary'' of
      JStr path \<Rightarrow>
        let b = after_last CHR ''/'' path
        in Inr (if b \<in> set suspicious_binaries
             then [draft FindingSeverity.HIGH ''suspicious_process'' (''Suspicious process: '' @ b)
                     (sandbox_name r @ '' launched '' @ [CHR 0x27] @ b @ [CHR 0x27] @
                      '', which is commonly used for network reconnaissance or exfiltration.'')
                     (Some (ar_sandbox r)) (Some (''Block '' @ [CHR 0x27] @ b @ [CHR 0x27] @ '' from executing in the sandbox.'')) (Some ''CWE-78'')]
             else [])
    | _ \<Rightarrow> Inl (AttributeError ''rsplit''))"

definition check_process_violations :: "activity_report \<Rightarrow> exn + finding list" where
  "check_process_violations r =
     bind_sum (map_sum_list (process_findings r) (ar_processes r)) (\<lambda>fs. Inr (
       (if 50 < length (ar_processes r)
        then [draft FindingSeverity.MEDIUM ''process_anomaly'' ''Excessive process spawning''
                (sandbox_name r @ '' spawned '' @ nat_str (length (ar_processes r)) @
                 '' processes (threshold: 50). This may indicate a fork bomb or resource abuse.'')
                (Some (ar_sandbox r)) (Some ''Investigate the sandbox workload for resource abuse.'') (Some ''CWE-400'')]
        else []) @ concat fs))"

definition analyze_sandbox_activity :: "'w immune_env \<Rightarrow> activity_report \<Rightarrow> (exn, 'w, scan_result) op" where
  "analyze_sandbox_activity env r =
     scanned env ScanType.RUNTIME_ANOMALY (ar_sandbox r)
       (lift_sum (\<lambda>_. bind_sum (check_file_access_violations (ie_show env) r) (\<lambda>fs.
          bind_sum (check_process_violations r) (\<lambda>ps. Inr (check_network_violations (ie_show env) r @ fs @ ps)))))"

section \<open>What it sees\<close>

lemma address_examples:
  "ip_address (JStr ''127.0.0.1'') = Some (V4 0x7F000001)" "ip_address (JStr ''::1'') = Some (V6 1)"
  "parse_ipv6 ''1:2:3:4:5:6:7:8'' = Some 0x00010002000300040005000600070008"
  "parse_ipv6 ''::ffff:10.0.0.1'' = Some 0xFFFF0A000001" "ip_address (JStr ''10.0.0.01'') = None"
  "ip_address (JStr ''1::2::3'') = None"
  by code_simp+

text \<open>A path that leaves an allowed directory through its parent is not seen.\<close>

lemma traversal_unseen: "file_findings show_float r [(''path'', JStr (''/workspace/../'' @ rest))] = Inr []"
  by (simp add: file_findings_def get_or_def has_prefix_def allowed_file_prefixes_def)

end
