(* ===== verification/Security_Gate.thy ===== *)
theory Security_Gate
  imports Dependency_Auditor Runtime_Monitor
begin

text \<open>
  The gate of the Security Immune System (\<^verbatim>\<open>scanners/policy_enforcer.py\<close>) and what calls the scanners:
  the routes with their in-memory store (\<^verbatim>\<open>api/routes.py\<close>), the events
  (\<^verbatim>\<open>event_handlers.py\<close>) and the Temporal side (\<^verbatim>\<open>temporal/\<close>), where a result
  passes through JSON unchanged.
\<close>

section \<open>Decisions\<close>

record gate_decision =
  gd_allowed :: bool
  gd_action :: PolicyAction
  gd_blocking :: "finding list"
  gd_results :: "scan_result list"

definition evaluate_gate :: "immune_config \<Rightarrow> scan_result list \<Rightarrow> gate_decision" where
  "evaluate_gate c rs =
     (let fs = concat (map sn_findings rs);
          blocking = filter grave fs;
          failed = list_ex (\<lambda>r. sn_verdict r = ScanVerdict.FAIL) rs;
          critical = list_ex (\<lambda>f. fg_severity f = FindingSeverity.CRITICAL) fs;
          enforcing = (ic_gate_mode c = ''enforce'');
          outcome = (if critical \<and> ic_block_critical c then (PolicyAction.BLOCK, False)
            else if failed then (if enforcing then (PolicyAction.BLOCK, False) else (PolicyAction.WARN, True))
            else if blocking \<noteq> [] then (if enforcing then (PolicyAction.WARN, True) else (PolicyAction.LOG, True))
            else (PolicyAction.LOG, True))
      in \<lparr>gd_allowed = snd outcome, gd_action = fst outcome, gd_blocking = blocking, gd_results = rs\<rparr>)"

text \<open>Enforcing is a line in the log: its text.\<close>

definition enforce_decision :: "gate_decision \<Rightarrow> string" where
  "enforce_decision d = (case gd_action d of
      PolicyAction.BLOCK \<Rightarrow> ''security gate BLOCKED'' | PolicyAction.WARN \<Rightarrow> ''security gate WARNING'' | PolicyAction.LOG \<Rightarrow> ''security gate passed'')"

section \<open>Routes\<close>

record security_policy =
  sp_id :: string
  sp_name :: string
  sp_type :: ScanType
  sp_rules :: payload
  sp_action :: PolicyAction
  sp_enabled :: bool

record 'w immune =
  iu_scans :: "(string \<times> scan_result) list"
  iu_findings :: "(string \<times> finding) list"
  iu_policies :: "security_policy list"
  iu_world :: 'w

definition remember :: "scan_result \<Rightarrow> 'w immune \<Rightarrow> 'w immune" where
  "remember r s = s\<lparr>iu_scans := AList.update (sn_id r) r (iu_scans s),
     iu_findings := foldl (\<lambda>d f. AList.update (fg_id f) f d) (iu_findings s) (sn_findings r)\<rparr>"

definition scanning :: "(exn, 'w, 'a) op \<Rightarrow> (exn, 'w immune, 'a) op" where
  "scanning = zoom iu_world (\<lambda>w s. s\<lparr>iu_world := w\<rparr>)"

definition scan_and_remember :: "(exn, 'w, scan_result) op \<Rightarrow> (exn, 'w immune, scan_result) op" where
  "scan_and_remember m = chain (scanning m) (\<lambda>r. chain (writes (remember r)) (\<lambda>_. ret r))"

definition scan_code_route :: "'w immune_env \<Rightarrow> immune_config \<Rightarrow> string \<Rightarrow> string \<Rightarrow> string \<Rightarrow> (exn, 'w immune, scan_result) op" where
  "scan_code_route env c code path language = scan_and_remember (scan_code env c code path language)"

definition scan_dependencies_route :: "'w immune_env \<Rightarrow> immune_config \<Rightarrow> package_spec list \<Rightarrow> string \<Rightarrow> (exn, 'w immune, scan_result) op" where
  "scan_dependencies_route env c ps target = scan_and_remember (audit_packages env c ps target)"

definition scan_prompt_route :: "'w immune_env \<Rightarrow> string \<Rightarrow> string \<Rightarrow> (exn, 'w immune, scan_result reply) op" where
  "scan_prompt_route env direction s =
     (if direction \<notin> {''input'', ''output''} then ret (Http_Error 422 ''validation error'')
      else chain (scan_and_remember (if direction = ''input'' then validate_input env s else validate_output env None s)) (\<lambda>r. ret (Reply r)))"

definition get_scan :: "string \<Rightarrow> 'w immune \<Rightarrow> scan_result reply" where
  "get_scan i s = (case map_of (iu_scans s) i of None \<Rightarrow> Http_Error 404 (''Scan '' @ i @ '' not found'') | Some r \<Rightarrow> Reply r)"

text \<open>\<^verbatim>\<open>xs[:limit]\<close>.\<close>

definition take_int :: "int \<Rightarrow> 'a list \<Rightarrow> 'a list" where
  "take_int n xs = (if n < 0 then take (length xs - nat (- n)) xs else take (nat n) xs)"

definition list_findings :: "string option \<Rightarrow> string option \<Rightarrow> int \<Rightarrow> 'w immune \<Rightarrow> finding list" where
  "list_findings severity status limit s =
     take_int limit (filter (\<lambda>f. (opt_text severity = [] \<or> finding_severity_value (fg_severity f) = opt_text severity) \<and>
       (opt_text status = [] \<or> finding_status_value (fg_status f) = opt_text status)) (map snd (iu_findings s)))"

definition get_finding :: "string \<Rightarrow> 'w immune \<Rightarrow> finding reply" where
  "get_finding i s = (case map_of (iu_findings s) i of None \<Rightarrow> Http_Error 404 (''Finding '' @ i @ '' not found'') | Some f \<Rightarrow> Reply f)"

definition update_finding_status :: "string \<Rightarrow> FindingStatus \<Rightarrow> 'w immune \<Rightarrow> finding reply \<times> 'w immune" where
  "update_finding_status i st s = (case map_of (iu_findings s) i of
      None \<Rightarrow> (Http_Error 404 (''Finding '' @ i @ '' not found''), s)
    | Some f \<Rightarrow> (Reply (f\<lparr>fg_status := st\<rparr>), s\<lparr>iu_findings := AList.update i (f\<lparr>fg_status := st\<rparr>) (iu_findings s)\<rparr>))"

definition create_policy :: "'w immune_env \<Rightarrow> security_policy \<Rightarrow> (exn, 'w immune, security_policy) op" where
  "create_policy env p =
     chain (scanning (ie_new_id env ''policy'')) (\<lambda>i.
     chain (writes (\<lambda>s. s\<lparr>iu_policies := iu_policies s @ [p\<lparr>sp_id := i\<rparr>]\<rparr>)) (\<lambda>_. ret (p\<lparr>sp_id := i\<rparr>)))"

record gate_status =
  gt_mode :: string
  gt_scans :: nat
  gt_blocked :: nat
  gt_critical :: bool

text \<open>What counts as blocked is every failed scan, in audit mode too.\<close>

definition get_gate_status :: "immune_config \<Rightarrow> 'w immune \<Rightarrow> gate_status" where
  "get_gate_status c s = \<lparr>gt_mode = ic_gate_mode c, gt_scans = length (iu_scans s),
     gt_blocked = length (filter (\<lambda>(_, r). sn_verdict r = ScanVerdict.FAIL) (iu_scans s)), gt_critical = ic_block_critical c\<rparr>"

definition get_backlog :: "'w immune \<Rightarrow> finding list" where
  "get_backlog s = filter (\<lambda>f. fg_status f = FindingStatus.OPEN) (map snd (iu_findings s))"

text \<open>Scans, findings, open, critical and high ones.\<close>

definition security_stats :: "'w immune \<Rightarrow> nat \<times> nat \<times> nat \<times> nat \<times> nat" where
  "security_stats s =
     (let fs = map snd (iu_findings s); count = (\<lambda>P. length (filter P fs))
      in (length (iu_scans s), length fs, count (\<lambda>f. fg_status f = FindingStatus.OPEN),
          count (\<lambda>f. fg_severity f = FindingSeverity.CRITICAL), count (\<lambda>f. fg_severity f = FindingSeverity.HIGH)))"

section \<open>Events\<close>

text \<open>What is scanned, if anything; the decision goes to the log only.\<close>

definition gate_on_code :: "'w immune_env \<Rightarrow> immune_config \<Rightarrow> string \<Rightarrow> string \<Rightarrow> payload \<Rightarrow> (exn, 'w, string option) op" where
  "gate_on_code env c key default_path d =
     (let code = get_or (get_or (JStr []) d ''code'') d key; path = get_or (JStr default_path) d ''file_path''
      in if \<not> truthy code then ret None
         else case (code, path) of
             (JStr x, JStr p) \<Rightarrow> chain (scan_code env c x p ''python'') (\<lambda>r. ret (Some (enforce_decision (evaluate_gate c [r]))))
           | _ \<Rightarrow> raise (ValidationError ''invalid value''))"

definition handle_proposal_created :: "'w immune_env \<Rightarrow> immune_config \<Rightarrow> payload \<Rightarrow> (exn, 'w, string option) op" where
  "handle_proposal_created env c d = gate_on_code env c ''diff'' ''proposal'' d"

definition handle_proposal_accepted :: "'w immune_env \<Rightarrow> immune_config \<Rightarrow> payload \<Rightarrow> (exn, 'w, string option) op" where
  "handle_proposal_accepted env c d = gate_on_code env c ''final_code'' ''accepted_proposal'' d"

text \<open>The report is checked by its class: a text and lists of objects.\<close>

definition report_of :: "payload \<Rightarrow> exn + activity_report" where
  "report_of d =
     (let entries = (\<lambda>k. case get_or (JArr []) d k of
          JArr xs \<Rightarrow> map_sum_list (\<lambda>j. case j of JObj e \<Rightarrow> Inr e | _ \<Rightarrow> invalid) xs | _ \<Rightarrow> invalid)
      in bind_sum (need_str (get_or (JStr ''unknown'') d ''sandbox_id'')) (\<lambda>i.
         bind_sum (entries ''network_connections'') (\<lambda>ns.
         bind_sum (entries ''file_accesses'') (\<lambda>fs.
         bind_sum (entries ''processes_spawned'') (\<lambda>ps.
         Inr \<lparr>ar_sandbox = strip i, ar_connections = ns, ar_files = fs, ar_processes = ps\<rparr>)))))"

definition handle_sandbox_command :: "'w immune_env \<Rightarrow> payload \<Rightarrow> (exn, 'w, scan_result) op" where
  "handle_sandbox_command env d = chain (lift_sum (\<lambda>_. report_of d)) (analyze_sandbox_activity env)"

text \<open>The subscriptions of the service; a spawned agent is logged.\<close>

definition immune_handler :: "'w immune_env \<Rightarrow> immune_config \<Rightarrow> EventType \<Rightarrow> (payload \<Rightarrow> (exn, 'w, string option) op) option" where
  "immune_handler env c ty = (case ty of
      EventType.PROPOSAL_CREATED \<Rightarrow> Some (handle_proposal_created env c)
    | EventType.PROPOSAL_ACCEPTED \<Rightarrow> Some (handle_proposal_accepted env c)
    | EventType.SANDBOX_COMMAND \<Rightarrow> Some (\<lambda>d. chain (handle_sandbox_command env d) (\<lambda>_. ret None))
    | EventType.AGENT_SPAWNED \<Rightarrow> Some (\<lambda>_. ret None)
    | _ \<Rightarrow> None)"

section \<open>Activities\<close>

definition text_at_key :: "string \<Rightarrow> string \<Rightarrow> payload \<Rightarrow> exn + string" where
  "text_at_key k deflt d = need_str (get_or (JStr deflt) d k)"

definition act_scan_code :: "'w immune_env \<Rightarrow> immune_config \<Rightarrow> payload \<Rightarrow> (exn, 'w, scan_result) op" where
  "act_scan_code env c d =
     chain (lift_sum (\<lambda>_. text_at_key ''code'' [] d)) (\<lambda>code.
     chain (lift_sum (\<lambda>_. text_at_key ''file_path'' ''unknown'' d)) (\<lambda>path.
     chain (lift_sum (\<lambda>_. text_at_key ''language'' ''python'' d)) (\<lambda>language.
     scan_code env c code path language)))"

definition package_of :: "json \<Rightarrow> exn + package_spec" where
  "package_of j = (case j of
      JObj p \<Rightarrow>
        bind_sum (text_at_key ''name'' [] p) (\<lambda>n.
        bind_sum (text_at_key ''version'' [] p) (\<lambda>v.
        bind_sum (text_at_key ''source'' ''pypi'' p) (\<lambda>s.
        Inr \<lparr>pk_name = strip n, pk_version = strip v, pk_source = strip s\<rparr>)))
    | _ \<Rightarrow> Inl (AttributeError ''get''))"

definition act_audit_dependencies :: "'w immune_env \<Rightarrow> immune_config \<Rightarrow> payload \<Rightarrow> (exn, 'w, scan_result) op" where
  "act_audit_dependencies env c d =
     chain (lift_sum (\<lambda>_. case get_or (JArr []) d ''packages'' of
       JArr ps \<Rightarrow> map_sum_list package_of ps | _ \<Rightarrow> Inl (RuntimeError ''TypeError''))) (\<lambda>ps.
     chain (lift_sum (\<lambda>_. text_at_key ''target'' ''unknown'' d)) (\<lambda>target.
     audit_packages env c ps target))"

text \<open>Every direction but \<^verbatim>\<open>input\<close> is the one of outputs, here without a schema to check against.\<close>

definition act_validate_prompt :: "'w immune_env \<Rightarrow> payload \<Rightarrow> (exn, 'w, scan_result) op" where
  "act_validate_prompt env d =
     chain (lift_sum (\<lambda>_. case get_or (JStr []) d ''text'' of JStr s \<Rightarrow> Inr s | _ \<Rightarrow> Inl (RuntimeError ''TypeError''))) (\<lambda>s.
     if get_or (JStr ''input'') d ''direction'' = JStr ''input'' then validate_input env s else validate_output env None s)"

definition act_analyze_runtime :: "'w immune_env \<Rightarrow> payload \<Rightarrow> (exn, 'w, scan_result) op" where
  "act_analyze_runtime env d = chain (lift_sum (\<lambda>_. report_of d)) (analyze_sandbox_activity env)"

text \<open>What the workflow hands over is what the scanner gets.\<close>

lemma act_scan_code_typed:
  "act_scan_code env c [(''code'', JStr code), (''file_path'', JStr path), (''language'', JStr language)] = scan_code env c code path language"
  by (rule ext) (simp add: act_scan_code_def text_at_key_def need_str_def get_or_def chain_run)

section \<open>Workflows\<close>

record scan_outcome =
  so_scan :: string
  so_verdict :: ScanVerdict
  so_findings :: nat
  so_allowed :: bool

definition security_scan_workflow :: "'w immune_env \<Rightarrow> immune_config \<Rightarrow> string \<Rightarrow> string \<Rightarrow> string \<Rightarrow> (exn, 'w, scan_outcome) op" where
  "security_scan_workflow env c code path language =
     chain (scan_code env c code path language) (\<lambda>r.
     ret \<lparr>so_scan = sn_id r, so_verdict = sn_verdict r, so_findings = length (sn_findings r), so_allowed = gd_allowed (evaluate_gate c [r])\<rparr>)"

text \<open>Scan, verdict, findings, critical ones. The gate is not asked.\<close>

definition dependency_audit_workflow :: "'w immune_env \<Rightarrow> immune_config \<Rightarrow> package_spec list \<Rightarrow> string \<Rightarrow>
    (exn, 'w, string \<times> ScanVerdict \<times> nat \<times> nat) op" where
  "dependency_audit_workflow env c ps target =
     chain (audit_packages env c ps target) (\<lambda>r.
     ret (sn_id r, sn_verdict r, length (sn_findings r),
          length (filter (\<lambda>f. fg_severity f = FindingSeverity.CRITICAL) (sn_findings r))))"

definition empty_report :: activity_report where
  "empty_report = \<lparr>ar_sandbox = ''monitoring'', ar_connections = [], ar_files = [], ar_processes = []\<rparr>"

text \<open>One round analyses an empty report, whatever the sandboxes do.\<close>

primrec monitoring_rounds :: "'w immune_env \<Rightarrow> nat \<Rightarrow> nat \<Rightarrow> (exn, 'w, nat) op" where
  "monitoring_rounds env 0 n = ret n"
| "monitoring_rounds env (Suc k) n =
     chain (attempt (chain (analyze_sandbox_activity env empty_report) (\<lambda>_. ret (n + 1))) (\<lambda>_. ret n)) (monitoring_rounds env k)"

text \<open>Rounds, scans, completed.\<close>

definition monitoring_workflow :: "'w immune_env \<Rightarrow> int \<Rightarrow> (exn, 'w, nat \<times> nat \<times> bool) op" where
  "monitoring_workflow env most =
     chain (monitoring_rounds env (nat most) 0) (\<lambda>n. ret (nat most, n, True))"

end
