(* ===== verification/Security_Properties.thy ===== *)
theory Security_Properties
  imports Security_Gate Ledger_Properties
begin

text \<open>
  What the Security Immune System guarantees: when the gate lets code pass, what the code scan finds, and what
  never reaches the scanners.
\<close>

section \<open>The gate\<close>

definition consistent :: "scan_result \<Rightarrow> bool" where
  "consistent r \<longleftrightarrow> (sn_verdict r = ScanVerdict.FAIL \<longleftrightarrow> list_ex grave (sn_findings r))"

lemma compute_verdict_fail: "compute_verdict fs = ScanVerdict.FAIL \<longleftrightarrow> list_ex grave fs"
  by (cases fs) (auto simp: compute_verdict_def)

lemma gate_exact:
  assumes "list_all consistent rs"
  shows "gd_allowed (evaluate_gate c rs) \<longleftrightarrow>
    \<not> (ic_block_critical c \<and> list_ex (\<lambda>f. fg_severity f = FindingSeverity.CRITICAL) (concat (map sn_findings rs))) \<and>
    \<not> (ic_gate_mode c = ''enforce'' \<and> list_ex grave (concat (map sn_findings rs)))"
    and "gd_action (evaluate_gate c rs) = PolicyAction.BLOCK \<longleftrightarrow> \<not> gd_allowed (evaluate_gate c rs)"
proof -
  have "list_ex (\<lambda>r. sn_verdict r = ScanVerdict.FAIL) rs \<longleftrightarrow> list_ex grave (concat (map sn_findings rs))"
    using assms by (induction rs) (auto simp: consistent_def)
  then show "gd_allowed (evaluate_gate c rs) \<longleftrightarrow>
    \<not> (ic_block_critical c \<and> list_ex (\<lambda>f. fg_severity f = FindingSeverity.CRITICAL) (concat (map sn_findings rs))) \<and>
    \<not> (ic_gate_mode c = ''enforce'' \<and> list_ex grave (concat (map sn_findings rs)))"
    by (auto simp: evaluate_gate_def Let_def)
  show "gd_action (evaluate_gate c rs) = PolicyAction.BLOCK \<longleftrightarrow> \<not> gd_allowed (evaluate_gate c rs)"
    by (auto simp: evaluate_gate_def Let_def)
qed

lemma identified_severities:
  "identified env i fs w = (Inr gs, w') \<Longrightarrow> map fg_severity gs = map fg_severity fs"
  by (induction fs arbitrary: w gs w') (auto simp: chain_def ret_def split: prod.splits sum.splits)

lemma grave_by_severity: "map fg_severity gs = map fg_severity fs \<Longrightarrow> list_ex grave gs = list_ex grave fs"
  by (induction gs fs rule: list_induct2') (auto simp: grave_def)

lemma some_severity: "list_ex (\<lambda>f. fg_severity f = s) fs \<longleftrightarrow> s \<in> set (map fg_severity fs)"
  by (induction fs) auto

lemma scanned_run:
  assumes "scanned env ty target look w = (Inr r, w')"
  obtains w1 fs w2 where "look w1 = (Inr fs, w2)" "sn_verdict r = compute_verdict (sn_findings r)"
    "map fg_severity (sn_findings r) = map fg_severity fs"
  using assms by (auto simp: scanned_def chain_def ret_def split: prod.splits sum.splits dest!: identified_severities)

lemma scan_consistent: "sn_verdict r = compute_verdict (sn_findings r) \<Longrightarrow> consistent r"
  by (simp add: consistent_def compute_verdict_fail)

section \<open>Code\<close>

text \<open>The lines a scan looks at, and which of them must not be there.\<close>

definition forbidden_line :: "immune_config \<Rightarrow> string \<Rightarrow> bool" where
  "forbidden_line c l \<longleftrightarrow>
     (\<not> has_prefix (strip l) ''#'' \<and> list_ex (\<lambda>p. occurs_in p l) (ic_patterns c)) \<or> has_secret (ic_secrets c) l"

lemma list_ex_enumerate: "list_ex (\<lambda>(n, l). P l) (enumerate k ls) \<longleftrightarrow> list_ex P ls"
  by (induction ls arbitrary: k) auto

lemma forbidden_found:
  "list_ex grave (detect_dangerous_patterns c path code @ detect_secrets c path code) \<longleftrightarrow> list_ex (forbidden_line c) (splitlines code)"
proof -
  have d: "grave (dangerous_draft path n p)" "grave (secret_draft path n)" for n p
    by (simp_all add: dangerous_draft_def secret_draft_def draft_def grave_def)
  have one: "list_ex grave (map (dangerous_draft path n) ps) \<longleftrightarrow> ps \<noteq> []" for n ps
    using d by (cases ps) auto
  have all: "list_ex grave (concat (map f xs)) \<longleftrightarrow> list_ex (\<lambda>x. list_ex grave (f x)) xs" for f and xs :: "(nat \<times> string) list"
    by (induction xs) auto
  have "list_ex grave (detect_dangerous_patterns c path code) \<longleftrightarrow>
      list_ex (\<lambda>(n, l). line_patterns (ic_patterns c) l \<noteq> []) (enumerate 1 (splitlines code))"
    unfolding detect_dangerous_patterns_def by (simp add: all one case_prod_beta')
  moreover have "list_ex grave (detect_secrets c path code) \<longleftrightarrow> list_ex (\<lambda>(n, l). has_secret (ic_secrets c) l) (enumerate 1 (splitlines code))"
    unfolding detect_secrets_def by (auto simp: list_ex_iff d)
  ultimately show ?thesis
    by (simp only: list_ex_append list_ex_enumerate) (auto simp: forbidden_line_def line_patterns_def list_ex_iff filter_empty_conv)
qed

definition too_large :: "immune_config \<Rightarrow> string \<Rightarrow> bool" where
  "too_large c code \<longleftrightarrow> (of_nat (ic_max_kb c) :: rat) < of_nat (utf8_length code) / 1024"

lemma workflow_run:
  assumes "security_scan_workflow env c code path language w = (Inr x, w')"
  obtains w1 fs w2 where "look_at_code env c (strip code) (strip path) (strip language) w1 = (Inr fs, w2)"
    "so_allowed x \<longleftrightarrow> \<not> (ic_block_critical c \<and> list_ex (\<lambda>f. fg_severity f = FindingSeverity.CRITICAL) fs) \<and>
       \<not> (ic_gate_mode c = ''enforce'' \<and> list_ex grave fs)"
proof -
  from assms obtain r w3 where r: "scan_code env c code path language w = (Inr r, w3)" and x: "so_allowed x = gd_allowed (evaluate_gate c [r])"
    by (auto simp: security_scan_workflow_def chain_def ret_def split: prod.splits sum.splits)
  from r [unfolded scan_code_def] obtain w1 fs w2 where look: "look_at_code env c (strip code) (strip path) (strip language) w1 = (Inr fs, w2)"
    and v: "sn_verdict r = compute_verdict (sn_findings r)" and sev: "map fg_severity (sn_findings r) = map fg_severity fs"
    by (rule scanned_run)
  have "list_ex (\<lambda>f. fg_severity f = s) (sn_findings r) \<longleftrightarrow> list_ex (\<lambda>f. fg_severity f = s) fs" for s
    by (simp only: some_severity sev)
  with gate_exact(1) [of "[r]" c] scan_consistent [OF v] grave_by_severity [OF sev] x look that show ?thesis by simp
qed

text \<open>
  C29: In enforcing mode the gate of the scan workflow lets no code pass that has a line with a blocked pattern outside
  a comment or with a hardcoded secret, unless the code is larger than the limit of the scanner;
  and code that is larger always passes, with a finding of medium severity and unread.
\<close>

theorem gate_blocks_forbidden_lines:
  assumes "ic_gate_mode c = ''enforce''" and "list_ex (forbidden_line c) (splitlines (strip code))"
  shows "case security_scan_workflow env c code path language w of
      (Inl e, w') \<Rightarrow> True
    | (Inr x, w') \<Rightarrow> so_allowed x \<longleftrightarrow> too_large c (strip code)"
proof (cases "security_scan_workflow env c code path language w")
  case (Pair y w')
  show ?thesis
  proof (cases y)
    case (Inr x)
    obtain w1 fs w2 where look: "look_at_code env c (strip code) (strip path) (strip language) w1 = (Inr fs, w2)"
      and allowed: "so_allowed x \<longleftrightarrow> \<not> (ic_block_critical c \<and> list_ex (\<lambda>f. fg_severity f = FindingSeverity.CRITICAL) fs) \<and>
         \<not> (ic_gate_mode c = ''enforce'' \<and> list_ex grave fs)"
      by (rule workflow_run [OF Pair [unfolded Inr]])
    have "so_allowed x \<longleftrightarrow> too_large c (strip code)"
    proof (cases "too_large c (strip code)")
      case True
      then have "fs = [oversized_draft (ie_show env) c (strip path) (of_nat (utf8_length (strip code)) / 1024)]"
        using look by (simp add: look_at_code_def too_large_def Let_def ret_def)
      then show ?thesis using allowed True by (simp add: oversized_draft_def draft_def grave_def)
    next
      case False
      then obtain b where "fs = detect_dangerous_patterns c (strip path) (strip code) @ detect_secrets c (strip path) (strip code) @ b"
        using look by (auto simp: look_at_code_def too_large_def Let_def chain_def ret_def split: prod.splits sum.splits)
      then have "list_ex grave fs" using forbidden_found [of c "strip path" "strip code"] assms(2) by auto
      then show ?thesis using allowed False assms(1) by simp
    qed
    then show ?thesis by (simp add: Pair Inr)
  qed (simp add: Pair)
qed

theorem gate_blocks_forbidden_lines_witness:
  "case security_scan_workflow \<lparr>ie_new_id = ret, ie_show = \<lambda>_. [], ie_bandit = \<lambda>_. ret [], ie_osv = \<lambda>_ _. ret (200, ''{}'')\<rparr>
      default_immune_config ''x = eval(y)'' ''a.py'' ''python'' () of
      (Inl e, w') \<Rightarrow> True | (Inr x, w') \<Rightarrow> so_allowed x \<longleftrightarrow> too_large default_immune_config (strip ''x = eval(y)'')"
proof (rule gate_blocks_forbidden_lines)
  show "ic_gate_mode default_immune_config = ''enforce''" by (simp add: default_immune_config_def)
  show "list_ex (forbidden_line default_immune_config) (splitlines (strip ''x = eval(y)''))" by code_simp
qed

text \<open>The results bandit really prints have a number for the weakness, which the class refuses: they are all lost.\<close>

lemma bandit_results_lost:
  "bandit_findings show_float path (JObj ((''issue_cwe'', JObj [(''id'', JInt n), (''link'', l)]) # d) # rs) = []"
proof -
  have "bandit_finding show_float path (JObj ((''issue_cwe'', JObj [(''id'', JInt n), (''link'', l)]) # d)) \<noteq> Inr f" for f
    by (auto simp: bandit_finding_def get_item_def get_or_def need_opt_str_def bind_sum_Inr)
  then obtain e where "bandit_finding show_float path (JObj ((''issue_cwe'', JObj [(''id'', JInt n), (''link'', l)]) # d)) = Inl e"
    by (metis sum.exhaust)
  then show ?thesis by simp
qed

section \<open>Events\<close>

text \<open>An event that makes the service look at nothing.\<close>

definition unscanned :: "'w immune_env \<Rightarrow> immune_config \<Rightarrow> event \<Rightarrow> bool" where
  "unscanned ienv c e \<longleftrightarrow> (case immune_handler ienv c (ev_type e) of
      None \<Rightarrow> True | Some h \<Rightarrow> (\<forall>w. h (ev_payload e) w = (Inr None, w)))"

definition bus_unscanned :: "'w immune_env \<Rightarrow> immune_config \<Rightarrow> ('c, event list) ledger \<Rightarrow> bool" where
  "bus_unscanned ienv c s \<longleftrightarrow> list_all (unscanned ienv c) (l_bus s)"

definition wsl_bus_logging :: "('c, event list) wsl_env \<Rightarrow> bool" where
  "wsl_bus_logging env \<longleftrightarrow> (\<forall>e b. wsl_publish env e b = (Inr (), b @ [e]))"

lemma unscanned_ledger_events:
  "unscanned ienv c \<lparr>ev_type = EventType.PROPOSAL_CREATED,
     ev_payload = [(''proposal_id'', i), (''agent_id'', a), (''task_id'', t), (''mutation_count'', m)]\<rparr>"
  "unscanned ienv c \<lparr>ev_type = EventType.PROPOSAL_ACCEPTED, ev_payload = [(''proposal_id'', i), (''ledger_version'', v)]\<rparr>"
  "unscanned ienv c \<lparr>ev_type = EventType.PROPOSAL_REJECTED, ev_payload = d\<rparr>"
  "unscanned ienv c \<lparr>ev_type = EventType.LEDGER_UPDATED, ev_payload = d\<rparr>"
  by (simp_all add: unscanned_def immune_handler_def handle_proposal_created_def handle_proposal_accepted_def gate_on_code_def get_or_def Let_def)

lemma keeps_announce_unscanned:
  assumes "wsl_bus_logging env" and "unscanned ienv c \<lparr>ev_type = ty, ev_payload = d\<rparr>"
  shows "keeps (bus_unscanned ienv c) (announce env ty d)"
  using assms by (simp add: keeps_def bus_unscanned_def announce_def zoom_def wsl_bus_logging_def)

lemma keeps_cache_unscanned: "keeps (bus_unscanned ienv c) (with_cache m)"
  by (simp add: keeps_def bus_unscanned_def with_cache_def zoom_def split: prod.split)

lemma keeps_tables_unscanned:
  "keeps (bus_unscanned ienv c) (insert_proposal pid row)" "keeps (bus_unscanned ienv c) (commit_row pid prow r)"
  "keeps (bus_unscanned ienv c) (writes (update_proposal pid prow))"
  by (simp_all add: keeps_def bus_unscanned_def insert_proposal_def commit_row_def update_proposal_def writes_def)

lemmas unscanned_steps = keeps_chain keeps_ret keeps_raise keeps_reads keeps_lift_sum keeps_cache_unscanned keeps_tables_unscanned
  keeps_announce_unscanned unscanned_ledger_events

lemma keeps_current_unscanned: "keeps (bus_unscanned ienv c) (get_current env now)"
  unfolding get_current_def by (auto intro!: unscanned_steps split: option.split)

lemma keeps_submit_unscanned: "wsl_bus_logging env \<Longrightarrow> keeps (bus_unscanned ienv c) (submit_proposal env now p)"
  unfolding submit_proposal_def by (auto intro!: unscanned_steps keeps_current_unscanned)

lemma keeps_commit_unscanned: "wsl_bus_logging env \<Longrightarrow> keeps (bus_unscanned ienv c) (validate_and_commit env now pid)"
  unfolding validate_and_commit_def decide_def publish_commit_def by (auto intro!: unscanned_steps split: option.split)

lemma bus_unscanned_expire: "bus_unscanned ienv c (s\<lparr>l_cache := x\<rparr>) = bus_unscanned ienv c s"
  by (simp add: bus_unscanned_def)

lemma exec_unscanned: "wsl_bus_logging env \<Longrightarrow> bus_unscanned ienv c s \<Longrightarrow> bus_unscanned ienv c (wsl_exec env x s)"
  by (cases x) (simp_all add: bus_unscanned_expire keepsD [OF keeps_current_unscanned] keepsD [OF keeps_submit_unscanned] keepsD [OF keeps_commit_unscanned])

text \<open>
  No proposal of the World State Ledger is ever scanned: whatever is submitted and committed, the events the ledger
  publishes carry no code, and the handlers of the Security Immune System return without looking.
\<close>

theorem proposals_never_scanned:
  assumes "wsl_bus_logging env"
  shows "list_all (unscanned ienv c) (l_bus (wsl_exec_all env cmds (new_ledger cache [])))"
proof -
  have "bus_unscanned ienv c s \<Longrightarrow> bus_unscanned ienv c (fold (wsl_exec env) cmds s)" for s
    by (induction cmds arbitrary: s) (simp_all add: exec_unscanned [OF assms])
  from this [of "new_ledger cache []"] show ?thesis by (simp add: bus_unscanned_def wsl_exec_all_def new_ledger_def)
qed

theorem proposals_never_scanned_witness:
  "list_all (unscanned \<lparr>ie_new_id = ret, ie_show = \<lambda>_. [], ie_bandit = \<lambda>_. ret [], ie_osv = \<lambda>_ _. ret (200, ''{}'')\<rparr> default_immune_config)
     (l_bus (wsl_exec_all sample_wsl sample_cmds (new_ledger None [])))"
  by (rule proposals_never_scanned) (simp add: wsl_bus_logging_def sample_wsl_def writes_def)

end
