(* ===== verification/Task_Api.thy ===== *)
theory Task_Api
  imports Task_Decomposer Schema
begin

text \<open>
  The routes of the Task Graph Engine (\<^verbatim>\<open>api/routes.py\<close>) over the graph that the service keeps in memory. A route that raises
  keeps what it has done to the graph before.
\<close>

record task_response =
  tr_id :: string
  tr_type :: string
  tr_agent_type :: string
  tr_model_tier :: string
  tr_status :: string
  tr_priority :: int
  tr_description :: string
  tr_dependencies :: "string list"
  tr_dependents :: "string list"
  tr_agent :: "string option"
  tr_attempt :: int
  tr_verdict :: "string option"
  tr_error :: "string option"

definition task_to_response :: "task \<Rightarrow> task_response" where
  "task_to_response t =
     \<lparr>tr_id = t_id t, tr_type = task_type_value (t_type t), tr_agent_type = agent_type_value (agent_type t),
      tr_model_tier = model_tier_value (model_tier t), tr_status = status_value (status t), tr_priority = priority t,
      tr_description = description t, tr_dependencies = dependencies t, tr_dependents = dependents t, tr_agent = assigned_agent t,
      tr_attempt = current_attempt t, tr_verdict = map_option eval_verdict_value (verdict t), tr_error = error_message t\<rparr>"

record submit_response =
  sb_ids :: "task_id list"
  sb_order :: "task_id list"
  sb_errors :: "string list"

text \<open>A change of the graph that may be refused.\<close>

definition on_graph :: "(dag \<Rightarrow> exn + dag) \<Rightarrow> (exn, dag, unit) op" where
  "on_graph f d = (case f d of Inl e \<Rightarrow> (Inl e, d) | Inr d' \<Rightarrow> (Inr (), d'))"

definition wire_task :: "task \<Rightarrow> (exn, dag, unit) op" where
  "wire_task t = for_each (\<lambda>dep. on_graph (\<lambda>d. add_dependency d dep (t_id t))) (dependencies t)"

text \<open>The decomposition is given: by the modules of the specification, or by the language model.\<close>

definition submit_spec :: "networkx \<Rightarrow> (exn + task list) \<Rightarrow> (exn, dag, submit_response) op" where
  "submit_spec nx decomposed =
     chain (lift_sum (\<lambda>_. decomposed)) (\<lambda>tasks.
     chain (for_each (\<lambda>t. on_graph (\<lambda>d. add_task d t)) tasks) (\<lambda>_.
     chain (for_each wire_task tasks) (\<lambda>_.
     chain (reads (validate nx)) (\<lambda>errors.
     chain (lift_sum (get_execution_order nx)) (\<lambda>order.
     ret \<lparr>sb_ids = map t_id tasks, sb_order = order, sb_errors = errors\<rparr>)))))"

definition graph_get_task :: "task_id \<Rightarrow> dag \<Rightarrow> task_response reply" where
  "graph_get_task tid d = (case get_task d tid of
      Inl e \<Rightarrow> Http_Error 404 (''Task '' @ tid @ '' not found'') | Inr t \<Rightarrow> Reply (task_to_response t))"

definition list_tasks :: "StatusEnum option \<Rightarrow> TaskType option \<Rightarrow> dag \<Rightarrow> task_response list \<times> nat" where
  "list_tasks st ty d =
     (let ts = filter (\<lambda>t. (case st of None \<Rightarrow> True | Some s \<Rightarrow> status t = s) \<and> (case ty of None \<Rightarrow> True | Some y \<Rightarrow> t_type t = y))
                 (map snd (nodes d))
      in (map task_to_response ts, length ts))"

record graph_response =
  gp_count :: nat
  gp_tasks :: "task_response list"
  gp_order :: "task_id list"
  gp_errors :: "string list"

definition get_graph :: "networkx \<Rightarrow> dag \<Rightarrow> graph_response" where
  "get_graph nx d =
     \<lparr>gp_count = length (nodes d), gp_tasks = map (\<lambda>(_, t). task_to_response t) (nodes d),
      gp_order = (case get_execution_order nx d of Inl e \<Rightarrow> [] | Inr order \<Rightarrow> order), gp_errors = validate nx d\<rparr>"

section \<open>A cycle stays\<close>

text \<open>Nodes and edges only grow, and the graph stays well-formed.\<close>

definition grown :: "dag \<Rightarrow> dag \<Rightarrow> bool" where
  "grown d d' \<longleftrightarrow> dag_wf d' \<and> edge_set d \<subseteq> edge_set d' \<and> node_set d \<subseteq> node_set d'"

lemma keeps_grown_add: "keeps (grown d0) (on_graph (\<lambda>d. add_task d t))"
  by (rule keepsI) (auto simp: on_graph_def add_task_def grown_def dag_wf_add_node)

lemma keeps_grown_dep: "keeps (grown d0) (on_graph (\<lambda>d. add_dependency d u v))"
  by (rule keepsI) (auto simp: on_graph_def add_dependency_def grown_def dag_wf_add_edge)

lemma keeps_grown_submit: "keeps (grown d0) (submit_spec nx decomposed)"
  unfolding submit_spec_def wire_task_def
  by (intro keeps_chain keeps_lift_sum keeps_for_each keeps_grown_add keeps_grown_dep keeps_reads keeps_ret)

lemma order_needs_acyclic:
  assumes "nx_contract nx" and "dag_wf d" and "get_execution_order nx d = Inr order"
  shows "acyclic (edge_set d)"
proof -
  have t: "topological (topological_sort nx)" using assms(1) by (simp add: nx_contract_def)
  from assms(3) have "topological_sort nx d = Some order"
    by (auto simp: get_execution_order_def split: option.splits)
  then show ?thesis by (rule topological.sort_Some_acyclic [OF t assms(2)])
qed

lemma submit_ok_acyclic:
  assumes "nx_contract nx" and "dag_wf d" and "submit_spec nx decomposed d = (Inr x, d')"
  shows "acyclic (edge_set d') \<and> grown d d'"
proof -
  have "grown d d" using assms(2) by (simp add: grown_def)
  then have g: "grown d d'" using keepsD [OF keeps_grown_submit, of d d nx decomposed] assms(3) by simp
  moreover have "\<exists>order. get_execution_order nx d' = Inr order"
    using assms(3) by (auto simp: submit_spec_def chain_run split: prod.splits sum.splits)
  ultimately show ?thesis using order_needs_acyclic [OF assms(1)] by (auto simp: grown_def)
qed

text \<open>
  C34: Once the graph has a cycle, every further submission fails, whatever it is, and the cycle stays: a
  specification whose tasks depend on each other in a circle is refused only after its tasks were added, and blocks the
  service until it is started anew.
\<close>

theorem cyclic_submission_blocks:
  assumes "nx_contract nx" and "dag_wf d" and "\<not> acyclic (edge_set d)"
  shows "case submit_spec nx decomposed d of
      (Inl e, d') \<Rightarrow> \<not> acyclic (edge_set d') \<and> dag_wf d' | (Inr x, d') \<Rightarrow> False"
proof (cases "submit_spec nx decomposed d")
  case (Pair r d')
  have "grown d d" using assms(2) by (simp add: grown_def)
  then have g: "grown d d'" using keepsD [OF keeps_grown_submit, of d d nx decomposed] Pair by simp
  then have "\<not> acyclic (edge_set d')" using assms(3) acyclic_subset by (auto simp: grown_def)
  moreover from this have "r \<noteq> Inr x" for x using submit_ok_acyclic [OF assms(1,2)] Pair by auto
  ultimately show ?thesis using g by (cases r) (auto simp: Pair grown_def)
qed

definition circle :: "task list" where
  "circle = [(default_task ''a'' 0)\<lparr>dependencies := [''b'']\<rparr>, (default_task ''b'' 0)\<lparr>dependencies := [''a'']\<rparr>]"

definition circle_graph :: dag where
  "circle_graph = snd (submit_spec ready_nx (Inr circle) empty_dag)"

lemma circle_graph: "dag_wf circle_graph" "edge_set circle_graph = {(''b'', ''a''), (''a'', ''b'')}"
proof -
  have "grown empty_dag empty_dag" by (simp add: grown_def)
  then show "dag_wf circle_graph"
    using keepsD [OF keeps_grown_submit, of empty_dag empty_dag ready_nx "Inr circle"] by (simp add: circle_graph_def grown_def)
  have "edges circle_graph = [(''b'', ''a''), (''a'', ''b'')]" by code_simp
  then show "edge_set circle_graph = {(''b'', ''a''), (''a'', ''b'')}" by simp
qed

theorem cyclic_submission_blocks_witness:
  "case submit_spec ready_nx (Inr [default_task ''c'' 0]) circle_graph of
      (Inl e, d') \<Rightarrow> \<not> acyclic (edge_set d') \<and> dag_wf d' | (Inr x, d') \<Rightarrow> False"
proof (rule cyclic_submission_blocks [OF ready_nx_contract])
  show "dag_wf circle_graph" by (rule circle_graph(1))
  have "(''a'', ''a'') \<in> {(''b'', ''a''), (''a'', ''b'')}\<^sup>+" by (auto intro: trancl_into_trancl2)
  then show "\<not> acyclic (edge_set circle_graph)" by (auto simp: circle_graph(2) acyclic_def)
qed

end
