(* ===== verification/Code_Index.thy ===== *)
theory Code_Index
  imports Text "HOL-Library.AList" "HOL-Library.Multiset" "HOL-Library.List_Lexorder" "HOL-Library.Char_ord"
begin

text \<open>
  Codebase Comprehension: the models (\<^verbatim>\<open>models.py\<close>), the indexer over Python's syntax tree
  (\<^verbatim>\<open>ast_indexer.py\<close>) and the store of indices (\<^verbatim>\<open>index_store.py\<close>). The models strip the blanks at both
  ends of every string. A syntax tree keeps the node classes the indexer looks at and their
  children in the order of \<^verbatim>\<open>iter_child_nodes\<close>; parsing, \<^verbatim>\<open>ast.unparse\<close> and the file system are parameters.
\<close>

section \<open>Models\<close>

datatype symbol_kind = Function_Symbol | Class_Symbol | Method_Symbol | Variable_Symbol | Import_Symbol

record SymbolInfo =
  sy_name :: string
  sy_kind :: symbol_kind
  sy_file :: string
  sy_line :: nat
  sy_docstring :: string
  sy_decorators :: "string list"

record FunctionDef =
  fd_name :: string
  fd_file :: string
  fd_line :: nat
  fd_parameters :: "string list"
  fd_return :: string
  fd_async :: bool
  fd_decorators :: "string list"
  fd_calls :: "string list"
  fd_docstring :: string

record ClassDef =
  cd_name :: string
  cd_file :: string
  cd_line :: nat
  cd_bases :: "string list"
  cd_methods :: "FunctionDef list"
  cd_docstring :: string

record ImportInfo =
  im_module :: string
  im_names :: "string list"
  im_relative :: bool
  im_file :: string
  im_line :: nat

record FileIndex =
  fx_path :: string
  fx_language :: string
  fx_functions :: "FunctionDef list"
  fx_classes :: "ClassDef list"
  fx_imports :: "ImportInfo list"
  fx_lines :: nat

record CodebaseIndex =
  cx_root :: string
  cx_files :: "(string \<times> FileIndex) list"
  cx_total_files :: nat
  cx_total_symbols :: nat

text \<open>The constructors, with the stripping of the models.\<close>

definition mk_symbol :: "string \<Rightarrow> symbol_kind \<Rightarrow> string \<Rightarrow> nat \<Rightarrow> string \<Rightarrow> string list \<Rightarrow> SymbolInfo" where
  "mk_symbol name kind file line doc decorators =
     \<lparr>sy_name = strip name, sy_kind = kind, sy_file = strip file, sy_line = line, sy_docstring = strip doc,
      sy_decorators = map strip decorators\<rparr>"

definition mk_function ::
    "string \<Rightarrow> string \<Rightarrow> nat \<Rightarrow> string list \<Rightarrow> string \<Rightarrow> bool \<Rightarrow> string list \<Rightarrow> string list \<Rightarrow> string \<Rightarrow> FunctionDef" where
  "mk_function name file line params ty asy decorators calls doc =
     \<lparr>fd_name = strip name, fd_file = strip file, fd_line = line, fd_parameters = map strip params, fd_return = strip ty,
      fd_async = asy, fd_decorators = map strip decorators, fd_calls = map strip calls, fd_docstring = strip doc\<rparr>"

definition mk_class :: "string \<Rightarrow> string \<Rightarrow> nat \<Rightarrow> string list \<Rightarrow> FunctionDef list \<Rightarrow> string \<Rightarrow> ClassDef" where
  "mk_class name file line bases methods doc =
     \<lparr>cd_name = strip name, cd_file = strip file, cd_line = line, cd_bases = map strip bases, cd_methods = methods,
      cd_docstring = strip doc\<rparr>"

definition mk_import :: "string \<Rightarrow> string list \<Rightarrow> bool \<Rightarrow> string \<Rightarrow> nat \<Rightarrow> ImportInfo" where
  "mk_import modname names rel file line =
     \<lparr>im_module = strip modname, im_names = map strip names, im_relative = rel, im_file = strip file, im_line = line\<rparr>"

definition mk_file ::
    "string \<Rightarrow> string \<Rightarrow> FunctionDef list \<Rightarrow> ClassDef list \<Rightarrow> ImportInfo list \<Rightarrow> nat \<Rightarrow> FileIndex" where
  "mk_file path language funcs classes imports n =
     \<lparr>fx_path = strip path, fx_language = strip language, fx_functions = funcs, fx_classes = classes, fx_imports = imports,
      fx_lines = n\<rparr>"

text \<open>A dict keeps the first place and the last value of a key.\<close>

definition py_dict :: "('k \<times> 'v) list \<Rightarrow> ('k \<times> 'v) list" where
  "py_dict d = fold (\<lambda>(k, v). AList.update k v) d []"

definition mk_index :: "string \<Rightarrow> (string \<times> FileIndex) list \<Rightarrow> nat \<Rightarrow> nat \<Rightarrow> CodebaseIndex" where
  "mk_index r files n m =
     \<lparr>cx_root = strip r, cx_files = py_dict (map (\<lambda>(k, v). (strip k, v)) files), cx_total_files = n, cx_total_symbols = m\<rparr>"

text \<open>\<^verbatim>\<open>source.count("\n") + 1\<close>.\<close>

definition line_total :: "string \<Rightarrow> nat" where
  "line_total source = length (filter (\<lambda>c. c = CHR 0x0A) source) + 1"

section \<open>Syntax trees\<close>

datatype py_ast =
    Fun_Def bool string nat "string list" py_ast "py_ast list" "py_ast list" "py_ast option"
      \<comment> \<open>async, name, line, the names of \<open>args.args\<close>, arguments, body, decorators, returns\<close>
  | Class_Def string nat "py_ast list" "py_ast list" "py_ast list" "py_ast list"
      \<comment> \<open>name, line, bases, keywords, body, decorators\<close>
  | Import_Stmt nat "(string \<times> string option) list"
  | Import_From nat "string option" "(string \<times> string option) list" nat
  | Expr_Stmt py_ast
  | Call_Expr py_ast "py_ast list"
  | Name_Expr string
  | Attribute_Expr py_ast string
  | Str_Const string
  | Other_Node "py_ast list"

text \<open>\<^verbatim>\<open>ast.iter_child_nodes\<close>; the leaves that are only contexts, aliases and operators are left out.\<close>

fun child_nodes :: "py_ast \<Rightarrow> py_ast list" where
  "child_nodes (Fun_Def _ _ _ _ a body decs rt) = [a] @ body @ decs @ (case rt of None \<Rightarrow> [] | Some r \<Rightarrow> [r])"
| "child_nodes (Class_Def _ _ bases kws body decs) = bases @ kws @ body @ decs"
| "child_nodes (Import_Stmt _ _) = []"
| "child_nodes (Import_From _ _ _ _) = []"
| "child_nodes (Expr_Stmt e) = [e]"
| "child_nodes (Call_Expr f xs) = f # xs"
| "child_nodes (Name_Expr _) = []"
| "child_nodes (Attribute_Expr e _) = [e]"
| "child_nodes (Str_Const _) = []"
| "child_nodes (Other_Node xs) = xs"

lemma children_size: "size_list size (child_nodes t) \<le> size t"
  by (cases t) (auto split: option.splits)

text \<open>\<^verbatim>\<open>ast.walk\<close>: a queue, the children of a node go to its end.\<close>

function walk_queue :: "py_ast list \<Rightarrow> py_ast list" where
  "walk_queue [] = []"
| "walk_queue (t # todo) = t # walk_queue (todo @ child_nodes t)"
  by pat_completeness auto

termination
  using children_size by (relation "measure (size_list size)") (auto simp: less_Suc_eq_le)

definition walk :: "py_ast \<Rightarrow> py_ast list" where
  "walk t = walk_queue [t]"

text \<open>\<^verbatim>\<open>ast.get_docstring\<close>: the text of a first statement that is a string, as \<^verbatim>\<open>inspect.cleandoc\<close> leaves it.\<close>

fun tabs_expanded :: "nat \<Rightarrow> string \<Rightarrow> string" where
  "tabs_expanded col [] = []"
| "tabs_expanded col (c # s) =
     (if c = CHR 0x09 then replicate (8 - col mod 8) CHR '' '' @ tabs_expanded (col + (8 - col mod 8)) s
      else if c = CHR 0x0A \<or> c = CHR 0x0D then c # tabs_expanded 0 s
      else c # tabs_expanded (col + 1) s)"

definition lstrip :: "string \<Rightarrow> string" where
  "lstrip s = dropWhile is_space s"

definition rstrip :: "string \<Rightarrow> string" where
  "rstrip s = rev (dropWhile is_space (rev s))"

definition margins :: "string list \<Rightarrow> nat list" where
  "margins ls = map (\<lambda>l. length l - length (lstrip l)) (filter (\<lambda>l. lstrip l \<noteq> []) ls)"

definition cleandoc :: "string \<Rightarrow> string" where
  "cleandoc doc =
     (case split_on CHR 0x0A (tabs_expanded 0 doc) of
        [] \<Rightarrow> []
      | l # ls \<Rightarrow>
          let cut = (if margins ls = [] then ls else map (drop (Min (set (margins ls)))) ls);
              lines = rev (dropWhile (\<lambda>x. x = []) (rev (lstrip l # cut)))
          in join_with [CHR 0x0A] (dropWhile (\<lambda>x. x = []) lines))"

definition docstring_of :: "py_ast list \<Rightarrow> string" where
  "docstring_of body = (case body of Expr_Stmt (Str_Const s) # _ \<Rightarrow> cleandoc s | _ \<Rightarrow> [])"

section \<open>The indexer\<close>

text \<open>\<^verbatim>\<open>_resolve_call_name\<close>.\<close>

fun resolve_call_name :: "py_ast \<Rightarrow> string" where
  "resolve_call_name (Name_Expr n) = n"
| "resolve_call_name (Attribute_Expr e a) =
     (let prefix = resolve_call_name e in if prefix \<noteq> [] then prefix @ ''.'' @ a else a)"
| "resolve_call_name _ = []"

fun call_name :: "py_ast \<Rightarrow> string" where
  "call_name (Call_Expr f _) = resolve_call_name f"
| "call_name _ = []"

definition extract_calls :: "py_ast \<Rightarrow> string list" where
  "extract_calls node = filter (\<lambda>c. c \<noteq> []) (map call_name (walk node))"

fun parse_function :: "(py_ast \<Rightarrow> string) \<Rightarrow> string \<Rightarrow> py_ast \<Rightarrow> FunctionDef option" where
  "parse_function unparse path (Fun_Def asy name line params args body decorators rt) =
     Some (mk_function name path line params (case rt of None \<Rightarrow> [] | Some r \<Rightarrow> unparse r) asy (map unparse decorators)
       (extract_calls (Fun_Def asy name line params args body decorators rt)) (docstring_of body))"
| "parse_function _ _ _ = None"

fun parse_class :: "(py_ast \<Rightarrow> string) \<Rightarrow> string \<Rightarrow> py_ast \<Rightarrow> ClassDef option" where
  "parse_class unparse path (Class_Def name line bases kws body decorators) =
     Some (mk_class name path line (map unparse bases) (List.map_filter (parse_function unparse path) body) (docstring_of body))"
| "parse_class _ _ _ = None"

fun imports_at :: "string \<Rightarrow> py_ast \<Rightarrow> ImportInfo list" where
  "imports_at path (Import_Stmt line names) =
     map (\<lambda>(n, asname). mk_import n [case asname of Some a \<Rightarrow> if a = [] then n else a | None \<Rightarrow> n] False path line) names"
| "imports_at path (Import_From line modname names level) =
     [mk_import (case modname of None \<Rightarrow> [] | Some m \<Rightarrow> m) (map fst names) (0 < level) path line]"
| "imports_at path _ = []"

definition extract_functions :: "(py_ast \<Rightarrow> string) \<Rightarrow> string \<Rightarrow> py_ast \<Rightarrow> FunctionDef list" where
  "extract_functions unparse path tree = List.map_filter (parse_function unparse path) (child_nodes tree)"

definition extract_classes :: "(py_ast \<Rightarrow> string) \<Rightarrow> string \<Rightarrow> py_ast \<Rightarrow> ClassDef list" where
  "extract_classes unparse path tree = List.map_filter (parse_class unparse path) (child_nodes tree)"

definition extract_imports :: "string \<Rightarrow> py_ast \<Rightarrow> ImportInfo list" where
  "extract_imports path tree = concat (map (imports_at path) (walk tree))"

text \<open>What \<^verbatim>\<open>ast.parse\<close> may answer: a tree, a syntax error, or another exception.\<close>

datatype parsed = Parsed py_ast | Syntax_Error | Parse_Raises exn

record python_env =
  pe_parse :: "string \<Rightarrow> parsed"
  pe_unparse :: "py_ast \<Rightarrow> string"

definition ast_index_file :: "python_env \<Rightarrow> string \<Rightarrow> string \<Rightarrow> exn + FileIndex" where
  "ast_index_file env path source = (case pe_parse env source of
      Syntax_Error \<Rightarrow> Inr (mk_file path ''python'' [] [] [] (line_total source))
    | Parse_Raises e \<Rightarrow> Inl e
    | Parsed tree \<Rightarrow> Inr (mk_file path ''python'' (extract_functions (pe_unparse env) path tree)
        (extract_classes (pe_unparse env) path tree) (extract_imports path tree) (line_total source)))"

text \<open>A path below the root: whether it is a file, and its text unless it cannot be read as UTF-8.\<close>

record source_file =
  sf_path :: string
  sf_is_file :: bool
  sf_text :: "string option"

definition symbols_in :: "FileIndex \<Rightarrow> nat" where
  "symbols_in fi = length (fx_functions fi) + length (fx_classes fi) + length (fx_imports fi)"

fun index_files ::
    "(string \<Rightarrow> string \<Rightarrow> exn + FileIndex) \<Rightarrow> nat \<Rightarrow> (string \<times> FileIndex) list \<Rightarrow> nat \<Rightarrow> source_file list \<Rightarrow>
     exn + (string \<times> FileIndex) list \<times> nat" where
  "index_files index limit files tot [] = Inr (files, tot)"
| "index_files index limit files tot (f # fs) =
     (if limit \<le> length files then Inr (files, tot)
      else if \<not> sf_is_file f then index_files index limit files tot fs
      else case sf_text f of
          None \<Rightarrow> index_files index limit files tot fs
        | Some source \<Rightarrow> bind_sum (index (sf_path f) source) (\<lambda>fi.
            index_files index limit (AList.update (sf_path f) fi files) (tot + symbols_in fi) fs))"

text \<open>A directory: whether it is one, and the sorted answers of \<^verbatim>\<open>glob\<close>.\<close>

record directory =
  dy_is_dir :: bool
  dy_glob :: "string \<Rightarrow> source_file list"

definition index_directory ::
    "python_env \<Rightarrow> (string \<Rightarrow> directory) \<Rightarrow> string \<Rightarrow> string \<Rightarrow> nat \<Rightarrow> exn + CodebaseIndex" where
  "index_directory env dirs d pattern limit =
     (if \<not> dy_is_dir (dirs d) then Inl (ValueError (''Not a directory: '' @ d))
      else if has_prefix pattern ''/'' \<or> occurs_in ''..'' pattern then Inl (ValueError (''Invalid glob pattern: '' @ pattern))
      else bind_sum (index_files (ast_index_file env) limit [] 0 (dy_glob (dirs d) pattern)) (\<lambda>(files, tot).
        Inr (mk_index d files (length files) tot)))"

section \<open>The store of indices\<close>

type_synonym index_store = "(string \<times> CodebaseIndex) list"

definition max_indices :: nat where
  "max_indices = 50"

definition store_index :: "CodebaseIndex \<Rightarrow> index_store \<Rightarrow> index_store" where
  "store_index ix st =
     (let st = (case map_of st (cx_root ix) of
          Some old \<Rightarrow> AList.delete (cx_root ix) st @ [(cx_root ix, old)]
        | None \<Rightarrow> if max_indices \<le> length st then tl st else st)
      in AList.update (cx_root ix) ix st)"

definition get_index :: "string \<Rightarrow> index_store \<Rightarrow> CodebaseIndex option" where
  "get_index r st = map_of st r"

text \<open>The symbols a search looks at, in its order, and those it matches; the loop stops when a symbol has filled the list.\<close>

definition named_like :: "string \<Rightarrow> string \<Rightarrow> bool" where
  "named_like query name \<longleftrightarrow> occurs_in (lower query) (lower name)"

definition function_hits :: "string \<Rightarrow> string \<Rightarrow> FunctionDef list \<Rightarrow> SymbolInfo list" where
  "function_hits query path fs =
     map (\<lambda>f. mk_symbol (fd_name f) Function_Symbol path (fd_line f) (fd_docstring f) (fd_decorators f))
       (filter (\<lambda>f. named_like query (fd_name f)) fs)"

definition method_hits :: "string \<Rightarrow> string \<Rightarrow> ClassDef \<Rightarrow> SymbolInfo list" where
  "method_hits query path c =
     map (\<lambda>m. mk_symbol (cd_name c @ ''.'' @ fd_name m) Method_Symbol path (fd_line m) (fd_docstring m) (fd_decorators m))
       (filter (\<lambda>m. named_like query (fd_name m)) (cd_methods c))"

definition class_hits :: "string \<Rightarrow> string \<Rightarrow> ClassDef \<Rightarrow> SymbolInfo list" where
  "class_hits query path c =
     (if named_like query (cd_name c) then [mk_symbol (cd_name c) Class_Symbol path (cd_line c) (cd_docstring c) []] else [])
     @ method_hits query path c"

definition file_hits :: "string \<Rightarrow> string \<times> FileIndex \<Rightarrow> SymbolInfo list" where
  "file_hits query = (\<lambda>(path, fi). function_hits query path (fx_functions fi) @ concat (map (class_hits query path) (fx_classes fi)))"

definition all_files :: "index_store \<Rightarrow> (string \<times> FileIndex) list" where
  "all_files st = concat (map (\<lambda>(_, ix). cx_files ix) st)"

fun collected :: "int \<Rightarrow> 'a list \<Rightarrow> 'a list \<Rightarrow> 'a list" where
  "collected limit results [] = results"
| "collected limit results (x # xs) =
     (if limit \<le> int (length (results @ [x])) then results @ [x] else collected limit (results @ [x]) xs)"

definition search_symbols :: "index_store \<Rightarrow> string \<Rightarrow> int \<Rightarrow> SymbolInfo list" where
  "search_symbols st query limit = collected limit [] (concat (map (file_hits query) (all_files st)))"

section \<open>Every node is visited\<close>

primrec preorder :: "py_ast \<Rightarrow> py_ast list" where
  "preorder (Fun_Def asy n l ps a body decs rt) =
     Fun_Def asy n l ps a body decs rt # preorder a @ concat (map preorder body) @ concat (map preorder decs) @
       (case map_option preorder rt of None \<Rightarrow> [] | Some r \<Rightarrow> r)"
| "preorder (Class_Def n l bases kws body decs) =
     Class_Def n l bases kws body decs # concat (map preorder bases) @ concat (map preorder kws) @ concat (map preorder body) @
       concat (map preorder decs)"
| "preorder (Import_Stmt l ns) = [Import_Stmt l ns]"
| "preorder (Import_From l m ns k) = [Import_From l m ns k]"
| "preorder (Expr_Stmt e) = Expr_Stmt e # preorder e"
| "preorder (Call_Expr f xs) = Call_Expr f xs # preorder f @ concat (map preorder xs)"
| "preorder (Name_Expr n) = [Name_Expr n]"
| "preorder (Attribute_Expr e a) = Attribute_Expr e a # preorder e"
| "preorder (Str_Const s) = [Str_Const s]"
| "preorder (Other_Node xs) = Other_Node xs # concat (map preorder xs)"

lemma preorder_children: "preorder t = t # concat (map preorder (child_nodes t))"
  by (cases t) (auto split: option.split)

lemma walk_queue_mset: "mset (walk_queue ts) = mset (concat (map preorder ts))"
proof (induction ts rule: walk_queue.induct)
  case (2 t todo)
  then show ?case by (simp add: preorder_children [of t] ac_simps)
qed simp

lemma walk_mset: "mset (walk t) = mset (preorder t)"
  using walk_queue_mset [of "[t]"] by (simp add: walk_def)


section \<open>The store keeps the last indices\<close>

text \<open>The last \<open>c\<close> elements, and how they change when an element moves to the end.\<close>

definition lastn :: "nat \<Rightarrow> 'a list \<Rightarrow> 'a list" where
  "lastn c xs = drop (length xs - c) xs"

lemma length_filter_neq: "distinct xs \<Longrightarrow> length (filter (\<lambda>y. y \<noteq> x) xs) = length xs - (if x \<in> set xs then 1 else 0)"
  by (induction xs) (auto simp: filter_id_conv Suc_diff_le length_pos_if_in_set dest: length_pos_if_in_set)

lemma filter_neq_id: "x \<notin> set xs \<Longrightarrow> filter (\<lambda>y. y \<noteq> x) xs = xs"
  by (induction xs) auto

lemma lastn_moved:
  assumes "distinct xs" and "0 < c"
  shows "lastn c (filter (\<lambda>y. y \<noteq> x) xs @ [x]) =
    (if x \<in> set (lastn c xs) then filter (\<lambda>y. y \<noteq> x) (lastn c xs)
     else if c \<le> length (lastn c xs) then tl (lastn c xs) else lastn c xs) @ [x]"
proof -
  define n where "n = length xs - c"
  define p q where "p = take n xs" and "q = drop n xs"
  have xs: "xs = p @ q" and q: "lastn c xs = q" by (simp_all add: p_def q_def n_def lastn_def)
  have d: "distinct p" "distinct q" "set p \<inter> set q = {}" using assms(1) xs by auto
  have len: "length p = n" "length q = min (length xs) c" by (auto simp: p_def q_def n_def)
  have f: "filter (\<lambda>y. y \<noteq> x) xs = filter (\<lambda>y. y \<noteq> x) p @ filter (\<lambda>y. y \<noteq> x) q" by (simp add: xs)
  consider (last) "x \<in> set q" | (dropped) "x \<in> set p" "x \<notin> set q" | (new) "x \<notin> set p" "x \<notin> set q" by blast
  then show ?thesis
  proof cases
    case last
    then have "x \<notin> set p" using d(3) by auto
    moreover have "0 < length q" using last by (rule length_pos_if_in_set)
    ultimately show ?thesis using last d len assms(2) unfolding q unfolding lastn_def f
      by (simp add: length_filter_neq filter_neq_id) (simp add: n_def min_def)
  next
    case dropped
    have "0 < n" using dropped(1) len(1) length_pos_if_in_set by metis
    then have "length q = c" using len(2) by (simp add: n_def)
    with dropped d len assms(2) \<open>0 < n\<close> show ?thesis unfolding q unfolding lastn_def f
      by (cases q) (simp_all add: length_filter_neq filter_neq_id Suc_diff_le)
  next
    case new
    then show ?thesis using d len assms(2) unfolding q unfolding lastn_def f
      by (cases q) (auto simp: filter_neq_id n_def Suc_diff_le min_def split: if_splits)
  qed
qed

lemma remdups_snoc: "remdups (xs @ [x]) = filter (\<lambda>y. y \<noteq> x) (remdups xs) @ [x]"
  by (induction xs) (auto simp: filter_neq_id)

lemma keys_delete: "keys (AList.delete k d) = filter (\<lambda>j. j \<noteq> k) (keys d)"
  by (induction d) (auto simp: AList.delete_eq)

lemma keys_store:
  "keys (store_index ix st) =
    (if cx_root ix \<in> set (keys st) then filter (\<lambda>j. j \<noteq> cx_root ix) (keys st)
     else if max_indices \<le> length (keys st) then tl (keys st) else keys st) @ [cx_root ix]"
proof (cases "map_of st (cx_root ix)")
  case None
  then have "cx_root ix \<notin> set (keys st)" by (simp add: map_of_eq_None_keys)
  moreover from this have "cx_root ix \<notin> fst ` set (tl st)" by (cases st) auto
  ultimately show ?thesis using None by (simp add: store_index_def keys_update map_tl)
next
  case (Some old)
  then have "cx_root ix \<in> set (keys st)" by (rule in_keysI)
  with Some show ?thesis by (simp add: store_index_def keys_update keys_delete)
qed

text \<open>The index last stored for a root.\<close>

definition newest_of :: "CodebaseIndex list \<Rightarrow> string \<Rightarrow> CodebaseIndex" where
  "newest_of ixs r = last (filter (\<lambda>ix. cx_root ix = r) ixs)"

definition kept_roots :: "CodebaseIndex list \<Rightarrow> string list" where
  "kept_roots ixs = lastn max_indices (remdups (map cx_root ixs))"

lemma keys_stored: "keys (fold store_index ixs []) = kept_roots ixs"
proof (induction ixs rule: rev_induct)
  case (snoc ix ixs)
  have "0 < max_indices" by (simp add: max_indices_def)
  with snoc show ?case
    by (simp add: kept_roots_def keys_store remdups_snoc lastn_moved)
qed (simp add: kept_roots_def lastn_def)

lemma map_of_store_other:
  assumes "distinct (keys st)" and "r \<in> set (keys (store_index ix st))" and "r \<noteq> cx_root ix"
  shows "map_of (store_index ix st) r = map_of st r \<and> r \<in> set (keys st)"
proof (cases "map_of st (cx_root ix)")
  case None
  show ?thesis
  proof (cases "max_indices \<le> length st")
    case True
    then have "r \<in> set (keys (tl st))" using assms(2,3) None by (auto simp: store_index_def keys_update split: if_splits)
    moreover from this have "map_of (tl st) r = map_of st r" "r \<in> set (keys st)" using assms(1) by (cases st; force)+
    ultimately show ?thesis using assms(3) True None by (auto simp: store_index_def)
  next
    case False
    then show ?thesis using assms(2,3) None by (auto simp: store_index_def keys_update split: if_splits)
  qed
next
  case (Some old)
  then show ?thesis using assms(2,3)
    by (auto simp: store_index_def keys_update keys_delete map_add_def split: if_splits option.splits)
qed

lemma map_of_store_same: "map_of (store_index ix st) (cx_root ix) = Some ix"
  by (simp add: store_index_def)

lemma stored_newest: "r \<in> set (kept_roots ixs) \<Longrightarrow> map_of (fold store_index ixs []) r = Some (newest_of ixs r)"
proof (induction ixs rule: rev_induct)
  case (snoc ix ixs)
  let ?st = "fold store_index ixs []"
  show ?case
  proof (cases "r = cx_root ix")
    case True
    then show ?thesis by (simp add: map_of_store_same newest_of_def)
  next
    case False
    have "distinct (keys ?st)" by (simp add: keys_stored kept_roots_def lastn_def)
    moreover have "r \<in> set (keys (store_index ix ?st))" using snoc.prems keys_stored [of "ixs @ [ix]"] by simp
    ultimately have "map_of (store_index ix ?st) r = map_of ?st r" "r \<in> set (keys ?st)"
      using map_of_store_other False by metis+
    then show ?thesis using snoc.IH False by (simp add: keys_stored newest_of_def)
  qed
qed (simp add: kept_roots_def lastn_def)

text \<open>
  Whatever is stored one after the other, the store holds exactly the fifty roots stored last, in the order
  of their last store, each with the index stored last for it; the others are gone.
\<close>

theorem store_keeps_last_fifty:
  "keys (fold store_index ixs []) = kept_roots ixs \<and> length (kept_roots ixs) \<le> 50 \<and>
   get_index r (fold store_index ixs []) = (if r \<in> set (kept_roots ixs) then Some (newest_of ixs r) else None)"
proof -
  have "r \<notin> set (kept_roots ixs) \<Longrightarrow> map_of (fold store_index ixs []) r = None"
    by (simp add: map_of_eq_None_keys keys_stored)
  then show ?thesis
    by (simp add: keys_stored stored_newest get_index_def kept_roots_def lastn_def max_indices_def)
qed

text \<open>A search gives the first symbols that match, but always one, whatever the limit.\<close>

lemma collect_take: "collected limit acc xs = (if xs = [] then acc else acc @ take (nat (max 1 (limit - int (length acc)))) xs)"
proof (induction limit acc xs rule: collected.induct)
  case (2 limit results x xs)
  show ?case
  proof (cases "limit \<le> int (length (results @ [x]))")
    case True
    then have "nat (max 1 (limit - int (length results))) = 1" by simp
    with True show ?thesis by simp
  next
    case False
    then have "nat (max 1 (limit - int (length results))) = Suc (nat (max 1 (limit - int (length (results @ [x])))))" by simp
    with False 2 show ?thesis by simp
  qed
qed simp

lemma search_takes: "search_symbols st query limit = take (nat (max 1 limit)) (concat (map (file_hits query) (all_files st)))"
  by (simp add: search_symbols_def collect_take)

section \<open>Indexing a directory\<close>

lemma index_files_totals:
  assumes "index_files index limit files tot fs = Inr (files', tot')" and "distinct (map sf_path fs)"
    and "set (map sf_path fs) \<inter> set (keys files) = {}" and "tot = sum_list (map (symbols_in \<circ> snd) files)" and "length files \<le> limit"
  shows "tot' = sum_list (map (symbols_in \<circ> snd) files') \<and> length files' \<le> limit"
  using assms
proof (induction fs arbitrary: files tot)
  case (Cons f fs)
  show ?case
  proof (cases "limit \<le> length files \<or> \<not> sf_is_file f \<or> sf_text f = None")
    case True
    then show ?thesis using Cons.prems Cons.IH [of files tot] by (auto split: if_splits)
  next
    case False
    then obtain source fi where rec: "index_files index limit (AList.update (sf_path f) fi files) (tot + symbols_in fi) fs = Inr (files', tot')"
      using Cons.prems(1) by (auto simp: bind_sum_Inr)
    have new: "AList.update (sf_path f) fi files = files @ [(sf_path f, fi)]"
      using Cons.prems(3) by (auto intro!: update_absent)
    show ?thesis
      by (rule Cons.IH [OF rec]) (use False Cons.prems new in auto)
  qed
qed simp

end
