(* ===== verification/Tree_Sitter.thy ===== *)
theory Tree_Sitter
  imports Code_Index
begin

text \<open>
  The indexer over tree-sitter's syntax trees (\<^verbatim>\<open>tree_sitter_indexer.py\<close>) for Python, JavaScript and
  TypeScript. A node has a type, the byte range it covers in the UTF-8 text, its first row and its
  children; the grammars and the parser are parameters. The code slices the text, whose indices count characters,
  with the byte range.
\<close>

section \<open>Nodes\<close>

datatype ts_node = Node (nd_type: string) (nd_start: nat) (nd_end: nat) (nd_row: nat) (nd_children: "ts_node list")

text \<open>\<^verbatim>\<open>source[node.start_byte : node.end_byte]\<close>.\<close>

definition text_of :: "string \<Rightarrow> ts_node \<Rightarrow> string" where
  "text_of source n = take (nd_end n - nd_start n) (drop (nd_start n) source)"

definition has_type :: "string \<Rightarrow> ts_node \<Rightarrow> bool" where
  "has_type t n \<longleftrightarrow> nd_type n = t"

definition line_of :: "ts_node \<Rightarrow> nat" where
  "line_of n = nd_row n + 1"

text \<open>\<^verbatim>\<open>node.children[0]\<close>.\<close>

definition first_child :: "ts_node \<Rightarrow> exn + ts_node" where
  "first_child n = (case nd_children n of [] \<Rightarrow> Inl (IndexError ''list index out of range'') | c # _ \<Rightarrow> Inr c)"

primrec fold_sum :: "('a \<Rightarrow> 'b \<Rightarrow> 'e + 'a) \<Rightarrow> 'a \<Rightarrow> 'b list \<Rightarrow> 'e + 'a" where
  "fold_sum f a [] = Inr a"
| "fold_sum f a (x # xs) = bind_sum (f a x) (\<lambda>a. fold_sum f a xs)"

section \<open>Languages\<close>

record ts_env =
  te_grammar :: "string \<Rightarrow> bool"                     \<comment> \<open>tree-sitter and the package of the grammar load\<close>
  te_parse :: "string \<Rightarrow> string \<Rightarrow> ts_node option"     \<comment> \<open>language and text; None: the parser raises\<close>

text \<open>A language is loaded once; a failure is remembered too.\<close>

type_synonym languages = "(string \<times> bool) list"

definition supported_languages :: "string list" where
  "supported_languages = [''python'', ''javascript'', ''typescript'']"

definition load_language :: "ts_env \<Rightarrow> string \<Rightarrow> languages \<Rightarrow> bool \<times> languages" where
  "load_language env name cache = (case map_of cache name of
      Some ok \<Rightarrow> (ok, cache)
    | None \<Rightarrow> let ok = (name \<in> set supported_languages \<and> te_grammar env name) in (ok, AList.update name ok cache))"

section \<open>Helpers\<close>

definition names_in :: "string \<Rightarrow> string list \<Rightarrow> ts_node list \<Rightarrow> string list" where
  "names_in source types cs = map (text_of source) (filter (\<lambda>c. nd_type c \<in> set types) cs)"

definition wrapped_params :: "string list" where
  "wrapped_params = [''typed_parameter'', ''typed_default_parameter'', ''default_parameter'', ''list_splat_pattern'', ''dictionary_splat_pattern'']"

definition extract_python_params :: "string \<Rightarrow> ts_node \<Rightarrow> string list" where
  "extract_python_params source node = concat (map (\<lambda>c.
     if has_type ''identifier'' c then [text_of source c]
     else if nd_type c \<in> set wrapped_params
     then (case find (has_type ''identifier'') (nd_children c) of None \<Rightarrow> [] | Some s \<Rightarrow> [text_of source s])
     else []) (nd_children node))"

text \<open>The stack of the walk, its top first; the last child of a node is on top.\<close>

definition push_children :: "ts_node \<Rightarrow> ts_node list \<Rightarrow> ts_node list" where
  "push_children n stack = rev (nd_children n) @ stack"

definition call_text :: "string \<Rightarrow> ts_node \<Rightarrow> exn + string list" where
  "call_text source n =
     (if has_type ''call'' n
      then bind_sum (first_child n) (\<lambda>f. Inr (if text_of source f = [] then [] else [text_of source f])) else Inr [])"

lemma size_children: "size_list size (nd_children n) < size n"
  by (cases n) simp

lemma size_list_rev [simp]: "size_list f (rev xs) = size_list f xs"
  by (induction xs) simp_all

function calls_loop :: "string \<Rightarrow> ts_node list \<Rightarrow> string list \<Rightarrow> exn + string list" where
  "calls_loop source [] calls = Inr calls"
| "calls_loop source (n # stack) calls =
     bind_sum (call_text source n) (\<lambda>c. calls_loop source (push_children n stack) (calls @ c))"
  by pat_completeness auto

termination
  using size_children by (relation "measure (\<lambda>(_, stack, _). size_list size stack)") (auto simp: push_children_def less_Suc_eq)

definition extract_python_calls :: "string \<Rightarrow> ts_node \<Rightarrow> exn + string list" where
  "extract_python_calls source block = calls_loop source (rev (nd_children block)) []"

definition strip_chars :: "string \<Rightarrow> string \<Rightarrow> string" where
  "strip_chars cs s = rev (dropWhile (\<lambda>c. c \<in> set cs) (rev (dropWhile (\<lambda>c. c \<in> set cs) s)))"

definition quote_marks :: "string list" where
  "quote_marks = [[CHR 0x22, CHR 0x22, CHR 0x22], [CHR 0x27, CHR 0x27, CHR 0x27], [CHR 0x22], [CHR 0x27]]"

definition unquoted :: "string \<Rightarrow> string" where
  "unquoted raw = (case find (\<lambda>q. has_prefix raw q \<and> has_suffix raw q) quote_marks of
      Some q \<Rightarrow> strip (take (length raw - 2 * length q) (drop (length q) raw))
    | None \<Rightarrow> strip (strip_chars [CHR 0x22, CHR 0x27] raw))"

definition string_value :: "string \<Rightarrow> ts_node \<Rightarrow> string" where
  "string_value source sub = (case find (has_type ''string_content'') (nd_children sub) of
      Some c \<Rightarrow> strip (text_of source c)
    | None \<Rightarrow> unquoted (text_of source sub))"

definition extract_python_docstring :: "string \<Rightarrow> ts_node \<Rightarrow> string" where
  "extract_python_docstring source block = (case find (has_type ''expression_statement'') (nd_children block) of
      None \<Rightarrow> []
    | Some st \<Rightarrow> (case find (has_type ''string'') (nd_children st) of None \<Rightarrow> [] | Some sub \<Rightarrow> string_value source sub))"

section \<open>Python\<close>

text \<open>The parts of a function, collected from its children one after the other.\<close>

definition no_function :: "string \<Rightarrow> ts_node \<Rightarrow> string list \<Rightarrow> FunctionDef" where
  "no_function path node decorators =
     \<lparr>fd_name = [], fd_file = path, fd_line = line_of node, fd_parameters = [], fd_return = [], fd_async = False,
      fd_decorators = decorators, fd_calls = [], fd_docstring = []\<rparr>"

definition python_function_part :: "string \<Rightarrow> FunctionDef \<Rightarrow> ts_node \<Rightarrow> exn + FunctionDef" where
  "python_function_part source acc c =
     (if has_type ''identifier'' c \<and> fd_name acc = [] then Inr (acc\<lparr>fd_name := text_of source c\<rparr>)
      else if has_type ''parameters'' c then Inr (acc\<lparr>fd_parameters := extract_python_params source c\<rparr>)
      else if has_type ''type'' c then Inr (acc\<lparr>fd_return := text_of source c\<rparr>)
      else if has_type ''block'' c
      then bind_sum (extract_python_calls source c) (\<lambda>calls.
             Inr (acc\<lparr>fd_calls := calls, fd_docstring := extract_python_docstring source c\<rparr>))
      else if has_type ''async'' c then Inr (acc\<lparr>fd_async := True\<rparr>)
      else Inr acc)"

definition finished :: "FunctionDef \<Rightarrow> FunctionDef" where
  "finished f = mk_function (fd_name f) (fd_file f) (fd_line f) (fd_parameters f) (fd_return f) (fd_async f)
     (fd_decorators f) (fd_calls f) (fd_docstring f)"

definition parse_python_function :: "string \<Rightarrow> string \<Rightarrow> ts_node \<Rightarrow> string list \<Rightarrow> exn + FunctionDef" where
  "parse_python_function path source node decorators =
     bind_sum (fold_sum (python_function_part source) (no_function path node decorators) (nd_children node)) (\<lambda>f.
       Inr (finished (f\<lparr>fd_async := fd_async f \<or> has_prefix (text_of source node) ''async ''\<rparr>)))"

text \<open>A decorated definition: its decorators, and the function it has, or else the node itself.\<close>

definition decorated :: "string \<Rightarrow> ts_node \<Rightarrow> string list \<times> ts_node" where
  "decorated source n =
     (if has_type ''decorated_definition'' n
      then (names_in source [''decorator''] (nd_children n),
            case filter (has_type ''function_definition'') (nd_children n) of [] \<Rightarrow> n | fs \<Rightarrow> last fs)
      else ([], n))"

definition python_functions :: "string \<Rightarrow> string \<Rightarrow> ts_node list \<Rightarrow> exn + FunctionDef list" where
  "python_functions path source cs = map_sum_list (\<lambda>c. case decorated source c of (ds, f) \<Rightarrow> parse_python_function path source f ds)
     (filter (\<lambda>c. nd_type c \<in> {''function_definition'', ''decorated_definition''}) cs)"

definition python_class_part :: "string \<Rightarrow> string \<Rightarrow> ClassDef \<Rightarrow> ts_node \<Rightarrow> exn + ClassDef" where
  "python_class_part path source acc c =
     (if has_type ''identifier'' c \<and> cd_name acc = [] then Inr (acc\<lparr>cd_name := text_of source c\<rparr>)
      else if has_type ''argument_list'' c
      then Inr (acc\<lparr>cd_bases := cd_bases acc @ map (text_of source) (filter (\<lambda>a. nd_type a \<notin> {''('', '')'', '',''}) (nd_children c))\<rparr>)
      else if has_type ''block'' c
      then bind_sum (python_functions path source (nd_children c)) (\<lambda>ms.
             Inr (acc\<lparr>cd_docstring := extract_python_docstring source c, cd_methods := cd_methods acc @ ms\<rparr>))
      else Inr acc)"

definition finished_class :: "ClassDef \<Rightarrow> ClassDef" where
  "finished_class c = mk_class (cd_name c) (cd_file c) (cd_line c) (cd_bases c) (cd_methods c) (cd_docstring c)"

definition no_class :: "string \<Rightarrow> ts_node \<Rightarrow> ClassDef" where
  "no_class path node = \<lparr>cd_name = [], cd_file = path, cd_line = line_of node, cd_bases = [], cd_methods = [], cd_docstring = []\<rparr>"

definition parse_python_class :: "string \<Rightarrow> string \<Rightarrow> ts_node \<Rightarrow> exn + ClassDef" where
  "parse_python_class path source node =
     bind_sum (fold_sum (python_class_part path source) (no_class path node) (nd_children node)) (\<lambda>c. Inr (finished_class c))"

definition class_node :: "ts_node \<Rightarrow> ts_node option" where
  "class_node n =
     (if has_type ''class_definition'' n then Some n
      else if has_type ''decorated_definition'' n then find (has_type ''class_definition'') (nd_children n) else None)"

definition last_part :: "string \<Rightarrow> string" where
  "last_part m = last (split_on CHR ''.'' m)"

definition imported :: "string \<Rightarrow> ts_node \<Rightarrow> string \<Rightarrow> ImportInfo" where
  "imported path node m = mk_import m [last_part m] False path (line_of node)"

definition parse_python_import :: "string \<Rightarrow> string \<Rightarrow> ts_node \<Rightarrow> exn + ImportInfo list" where
  "parse_python_import path source node = bind_sum (map_sum_list (\<lambda>c.
       if has_type ''dotted_name'' c then Inr [imported path node (text_of source c)]
       else if has_type ''aliased_import'' c
       then bind_sum (first_child c) (\<lambda>n. Inr [imported path node (text_of source n)])
       else Inr []) (nd_children node)) (\<lambda>xs. Inr (concat xs))"

text \<open>The module of a from-import: the name in a relative import, or the first dotted name while there is none.\<close>

definition from_module :: "string \<Rightarrow> string \<times> bool \<Rightarrow> ts_node \<Rightarrow> string \<times> bool" where
  "from_module source = (\<lambda>(m, rel) c.
     if has_type ''relative_import'' c
     then (case names_in source [''dotted_name''] (nd_children c) of [] \<Rightarrow> (m, True) | ns \<Rightarrow> (last ns, True))
     else if has_type ''dotted_name'' c \<and> m = [] then (text_of source c, rel) else (m, rel))"

text \<open>The names after the keyword; the keyword itself never counts.\<close>

definition from_name :: "string \<Rightarrow> bool \<times> string list \<Rightarrow> ts_node \<Rightarrow> exn + bool \<times> string list" where
  "from_name source = (\<lambda>(past, names) c.
     if has_type ''import'' c then Inr (True, names)
     else if past \<and> has_type ''aliased_import'' c then bind_sum (first_child c) (\<lambda>a. Inr (past, names @ [text_of source a]))
     else if past \<and> nd_type c \<in> {''dotted_name'', ''identifier''} then Inr (past, names @ [text_of source c])
     else Inr (past, names))"

definition parse_python_from_import :: "string \<Rightarrow> string \<Rightarrow> ts_node \<Rightarrow> exn + ImportInfo list" where
  "parse_python_from_import path source node =
     (case foldl (from_module source) ([], False) (nd_children node) of (m, rel) \<Rightarrow>
      bind_sum (fold_sum (from_name source) (False, []) (nd_children node)) (\<lambda>(_, names).
        Inr [mk_import m names rel path (line_of node)]))"

section \<open>JavaScript and TypeScript\<close>

definition param_types :: "string list" where
  "param_types = [''identifier'', ''required_parameter'', ''optional_parameter'']"

text \<open>A function or a method, which differ in the type of the name and in the keyword async.\<close>

definition js_function_part :: "string \<Rightarrow> string \<Rightarrow> bool \<Rightarrow> FunctionDef \<Rightarrow> ts_node \<Rightarrow> FunctionDef" where
  "js_function_part name_type source asyncs acc c =
     (if has_type name_type c then acc\<lparr>fd_name := text_of source c\<rparr>
      else if has_type ''formal_parameters'' c
      then acc\<lparr>fd_parameters := fd_parameters acc @ names_in source param_types (nd_children c)\<rparr>
      else if asyncs \<and> has_type ''async'' c then acc\<lparr>fd_async := True\<rparr>
      else acc)"

definition parse_js_function :: "string \<Rightarrow> string \<Rightarrow> ts_node \<Rightarrow> FunctionDef" where
  "parse_js_function path source node =
     finished (foldl (js_function_part ''identifier'' source True) (no_function path node []) (nd_children node))"

definition parse_js_method :: "string \<Rightarrow> string \<Rightarrow> ts_node \<Rightarrow> FunctionDef" where
  "parse_js_method path source node =
     finished (foldl (js_function_part ''property_identifier'' source False) (no_function path node []) (nd_children node))"

definition js_class_part :: "string \<Rightarrow> string \<Rightarrow> ClassDef \<Rightarrow> ts_node \<Rightarrow> ClassDef" where
  "js_class_part path source acc c =
     (if has_type ''type_identifier'' c \<or> (has_type ''identifier'' c \<and> cd_name acc = []) then acc\<lparr>cd_name := text_of source c\<rparr>
      else if has_type ''class_heritage'' c then acc\<lparr>cd_bases := cd_bases acc @ names_in source [''identifier''] (nd_children c)\<rparr>
      else if has_type ''class_body'' c
      then acc\<lparr>cd_methods := cd_methods acc @ map (parse_js_method path source) (filter (has_type ''method_definition'') (nd_children c))\<rparr>
      else acc)"

definition parse_js_class :: "string \<Rightarrow> string \<Rightarrow> ts_node \<Rightarrow> ClassDef" where
  "parse_js_class path source node = finished_class (foldl (js_class_part path source) (no_class path node) (nd_children node))"

definition specifier_names :: "string \<Rightarrow> ts_node \<Rightarrow> string list" where
  "specifier_names source c =
     (if has_type ''identifier'' c then [text_of source c]
      else if has_type ''named_imports'' c
      then concat (map (\<lambda>i. case find (has_type ''identifier'') (nd_children i) of None \<Rightarrow> [] | Some s \<Rightarrow> [text_of source s])
             (filter (has_type ''import_specifier'') (nd_children c)))
      else [])"

definition parse_js_import :: "string \<Rightarrow> string \<Rightarrow> ts_node \<Rightarrow> ImportInfo" where
  "parse_js_import path source node =
     (let m = (case names_in source [''string''] (nd_children node) of [] \<Rightarrow> [] | ts \<Rightarrow> strip_chars [CHR 0x22, CHR 0x27] (last ts));
          names = concat (map (\<lambda>c. if has_type ''import_clause'' c then concat (map (specifier_names source) (nd_children c)) else [])
            (nd_children node))
      in mk_import m names (has_prefix m ''.'') path (line_of node))"

text \<open>The declarations of a kind, exported ones included.\<close>

definition js_declarations :: "string \<Rightarrow> ts_node \<Rightarrow> ts_node list" where
  "js_declarations kind c =
     (if has_type kind c then [c] else if has_type ''export_statement'' c then filter (has_type kind) (nd_children c) else [])"

section \<open>The index of a file\<close>

definition is_js :: "string \<Rightarrow> bool" where
  "is_js language \<longleftrightarrow> language \<in> {''javascript'', ''typescript''}"

definition ts_functions :: "string \<Rightarrow> string \<Rightarrow> string \<Rightarrow> ts_node \<Rightarrow> exn + FunctionDef list" where
  "ts_functions language path source tree =
     (if language = ''python'' then python_functions path source (nd_children tree)
      else if is_js language
      then Inr (map (parse_js_function path source) (concat (map (js_declarations ''function_declaration'') (nd_children tree))))
      else Inr [])"

definition ts_classes :: "string \<Rightarrow> string \<Rightarrow> string \<Rightarrow> ts_node \<Rightarrow> exn + ClassDef list" where
  "ts_classes language path source tree =
     (if language = ''python'' then map_sum_list (parse_python_class path source) (List.map_filter class_node (nd_children tree))
      else if is_js language
      then Inr (map (parse_js_class path source) (concat (map (js_declarations ''class_declaration'') (nd_children tree))))
      else Inr [])"

definition ts_imports :: "string \<Rightarrow> string \<Rightarrow> string \<Rightarrow> ts_node \<Rightarrow> exn + ImportInfo list" where
  "ts_imports language path source tree = bind_sum (map_sum_list (\<lambda>c.
       if language = ''python'' \<and> has_type ''import_statement'' c then parse_python_import path source c
       else if language = ''python'' \<and> has_type ''import_from_statement'' c then parse_python_from_import path source c
       else if is_js language \<and> has_type ''import_statement'' c then Inr [parse_js_import path source c]
       else Inr []) (nd_children tree)) (\<lambda>xs. Inr (concat xs))"

definition ts_index_file ::
    "ts_env \<Rightarrow> string \<Rightarrow> string \<Rightarrow> string \<Rightarrow> languages \<Rightarrow> (exn + FileIndex) \<times> languages" where
  "ts_index_file env source path language cache =
     (case load_language env language cache of (ok, cache) \<Rightarrow>
      (if \<not> ok then Inr (mk_file path language [] [] [] (line_total source))
       else case te_parse env language source of
           None \<Rightarrow> Inr (mk_file path language [] [] [] (line_total source))
         | Some tree \<Rightarrow>
             bind_sum (ts_functions language path source tree) (\<lambda>fs.
             bind_sum (ts_classes language path source tree) (\<lambda>cs.
             bind_sum (ts_imports language path source tree) (\<lambda>is.
             Inr (mk_file path language fs cs is (line_total source))))), cache))"

section \<open>The walk finds every call\<close>

text \<open>The nodes below, the last child first.\<close>

function below :: "ts_node list \<Rightarrow> ts_node list" where
  "below [] = []"
| "below (n # ns) = n # below (rev (nd_children n)) @ below ns"
  by pat_completeness auto

termination
  using size_children by (relation "measure (size_list size)") (auto simp: less_Suc_eq trans_less_add1)

lemma below_append: "below (ms @ ns) = below ms @ below ns"
  by (induction ms) simp_all

lemma calls_loop_below:
  "calls_loop source stack calls = bind_sum (map_sum_list (call_text source) (below stack)) (\<lambda>cs. Inr (calls @ concat cs))"
proof (induction source stack calls rule: calls_loop.induct)
  case (2 source n stack calls)
  show ?case
  proof (cases "call_text source n")
    case (Inr c)
    have pushed: "below (push_children n stack) = below (rev (nd_children n)) @ below stack"
      by (simp add: push_children_def below_append)
    show ?thesis
      by (cases "map_sum_list (call_text source) (below (rev (nd_children n)) @ below stack)") (simp_all add: Inr 2 pushed)
  qed simp
qed simp

lemma call_text_ok: "has_type ''call'' n \<Longrightarrow> nd_children n \<noteq> [] \<Longrightarrow> call_text source n = Inr (filter (\<lambda>t. t \<noteq> []) [text_of source (hd (nd_children n))])"
  by (cases "nd_children n") (simp_all add: call_text_def first_child_def)

lemma call_text_other: "\<not> has_type ''call'' n \<Longrightarrow> call_text source n = Inr []"
  by (simp add: call_text_def)

definition call_ok :: "ts_node \<Rightarrow> bool" where
  "call_ok n \<longleftrightarrow> has_type ''call'' n \<longrightarrow> nd_children n \<noteq> []"

text \<open>
  The stack of the walk loses no call: the calls of a function are the texts of the called expressions
  of all call nodes anywhere below its body, in the order from the last child to the first, as long as every
  call node has a child; otherwise the whole file fails with an IndexError.
\<close>

theorem python_calls_complete:
  "extract_python_calls source block =
    (if list_all call_ok (below (rev (nd_children block)))
     then Inr (filter (\<lambda>t. t \<noteq> []) (map (\<lambda>n. text_of source (hd (nd_children n))) (filter (has_type ''call'') (below (rev (nd_children block))))))
     else Inl (IndexError ''list index out of range''))"
proof -
  have "bind_sum (map_sum_list (call_text source) ns) (\<lambda>cs. Inr (concat cs)) =
      (if list_all call_ok ns
       then Inr (filter (\<lambda>t. t \<noteq> []) (map (\<lambda>n. text_of source (hd (nd_children n))) (filter (has_type ''call'') ns)))
       else Inl (IndexError ''list index out of range''))" for ns
  proof (induction ns)
    case (Cons n ns)
    consider "has_type ''call'' n" "nd_children n = []" | "has_type ''call'' n" "nd_children n \<noteq> []" | "\<not> has_type ''call'' n" by blast
    then show ?case
    proof cases
      case 1
      then show ?thesis by (simp add: call_text_def first_child_def call_ok_def)
    next
      case 2
      then have "call_ok n" by (simp add: call_ok_def)
      with 2 show ?thesis using Cons by (cases "map_sum_list (call_text source) ns") (auto simp: call_text_ok split: if_splits)
    next
      case 3
      then have "call_ok n" by (simp add: call_ok_def)
      with 3 show ?thesis using Cons by (cases "map_sum_list (call_text source) ns") (auto simp: call_text_other split: if_splits)
    qed
  qed simp
  then show ?thesis by (simp add: extract_python_calls_def calls_loop_below)
qed

section \<open>What it gets wrong\<close>

text \<open>The cache of the grammars never changes an answer.\<close>

definition cache_true :: "ts_env \<Rightarrow> languages \<Rightarrow> bool" where
  "cache_true env cache \<longleftrightarrow> list_all (\<lambda>(name, ok). ok = (name \<in> set supported_languages \<and> te_grammar env name)) cache"

lemma load_language_true:
  assumes "cache_true env cache"
  shows "fst (load_language env name cache) = (name \<in> set supported_languages \<and> te_grammar env name)"
    and "cache_true env (snd (load_language env name cache))"
  using assms by (auto simp: load_language_def cache_true_def list_all_iff Let_def split: option.splits
      dest!: map_of_SomeD dest: set_update_subset [THEN subsetD])

text \<open>A decorated class is also counted as a function without a name.\<close>

lemma decorated_class_counted:
  assumes "nd_children n = [d, c]" and "has_type ''decorated_definition'' n" and "has_type ''decorator'' d" and "has_type ''class_definition'' c"
  shows "python_functions path source [n] = Inr [finished ((no_function path n [text_of source d])\<lparr>fd_async := has_prefix (text_of source n) ''async ''\<rparr>)]"
  using assms by (simp add: python_functions_def decorated_def names_in_def parse_python_function_def python_function_part_def has_type_def no_function_def)

text \<open>In \<^verbatim>\<open>from . import x\<close> the imported name becomes the module.\<close>

lemma relative_import_module:
  assumes "nd_children n = [f, r, i, x]" and "has_type ''from'' f" and "has_type ''relative_import'' r" and "has_type ''import'' i" and "has_type ''dotted_name'' x"
    and "names_in source [''dotted_name''] (nd_children r) = []"
  shows "parse_python_from_import path source n = Inr [mk_import (text_of source x) [text_of source x] True path (line_of n)]"
  using assms by (simp add: parse_python_from_import_def from_module_def from_name_def has_type_def)

text \<open>After a character of two bytes every text is shifted: \<open>f\<close>, at the bytes 9 to 10, is read as a parenthesis.\<close>

lemma shifted_after_two_bytes:
  "text_of (''# '' @ [CHR 0xE9, CHR 0x0A] @ ''def f(): pass'') (Node ''identifier'' 9 10 1 []) = ''(''"
  by (simp add: text_of_def)

end
