(* ===== verification/Code_Chunks.thy ===== *)
theory Code_Chunks
  imports Tree_Sitter Schema
begin

text \<open>
  The chunker (\<^verbatim>\<open>chunker.py\<close>), the embedding generator (\<^verbatim>\<open>embeddings.py\<close>) and the vector store
  (\<^verbatim>\<open>vector_store.py\<close>) of Codebase Comprehension. The table of embeddings is a list of rows in the order of insertion; the
  model that encodes texts, the distance of vectors and failing statements are parameters.
\<close>

section \<open>Lines\<close>

text \<open>\<^verbatim>\<open>source.splitlines(keepends=True)\<close>.\<close>

fun split_keep :: "string \<Rightarrow> string \<Rightarrow> string list" where
  "split_keep acc [] = (if acc = [] then [] else [rev acc])"
| "split_keep acc (c # s) =
     (if is_line_break c
      then if c = CHR 0x0D \<and> s \<noteq> [] \<and> hd s = CHR 0x0A then rev (hd s # c # acc) # split_keep [] (tl s)
           else rev (c # acc) # split_keep [] s
      else split_keep (c # acc) s)"

definition splitlines_keep :: "string \<Rightarrow> string list" where
  "splitlines_keep s = split_keep [] s"

definition blank :: "string \<Rightarrow> bool" where
  "blank l \<longleftrightarrow> strip l = []"

definition indent_of :: "string \<Rightarrow> nat" where
  "indent_of l = length l - length (lstrip l)"

section \<open>Chunks\<close>

record CodeChunk =
  ck_file :: string
  ck_symbol :: string
  ck_kind :: string
  ck_line :: nat
  ck_end :: nat
  ck_source :: string
  ck_context :: string

text \<open>The last line that belongs to a definition; the loop has seen the lines before \<open>i\<close>.\<close>

fun end_scan :: "nat \<Rightarrow> nat \<Rightarrow> nat \<Rightarrow> string list \<Rightarrow> nat" where
  "end_scan base stop i [] = stop"
| "end_scan base stop i (l # ls) =
     (if blank l then end_scan base stop (i + 1) ls
      else if indent_of l \<le> base then stop
      else end_scan base (i + 1) (i + 1) ls)"

definition estimate_end_line :: "nat \<Rightarrow> string list \<Rightarrow> nat" where
  "estimate_end_line start lines =
     (if start < 1 \<or> length lines < start then start
      else end_scan (indent_of (lines ! (start - 1))) start start (drop start lines))"

definition estimate_class_end :: "nat \<Rightarrow> string list \<Rightarrow> nat" where
  "estimate_class_end start lines =
     (if start < 1 \<or> length lines < start then start
      else end_scan (indent_of (lines ! (start - 1))) start start (drop start lines))"

definition context_line :: "string \<Rightarrow> bool" where
  "context_line l \<longleftrightarrow> has_prefix (strip l) ''#'' \<or> has_prefix (strip l) ''@'' \<or> strip l = []"

text \<open>The walk upwards; \<open>k\<close> lines are still above.\<close>

fun context_from :: "string list \<Rightarrow> nat \<Rightarrow> nat \<Rightarrow> nat" where
  "context_from lines first 0 = first"
| "context_from lines first (Suc k) = (if context_line (lines ! k) then context_from lines k k else first)"

definition truncated :: "nat \<Rightarrow> string \<Rightarrow> string" where
  "truncated max_tokens s =
     (if max_tokens * 4 < length s then take (max_tokens * 4) s @ [CHR 0x0A] @ ''# ... truncated'' else s)"

definition build_chunk :: "nat \<Rightarrow> string list \<Rightarrow> string \<Rightarrow> string \<Rightarrow> string \<Rightarrow> nat \<Rightarrow> nat \<Rightarrow> CodeChunk option" where
  "build_chunk max_tokens lines path symbol kind start stop =
     (if start < 1 \<or> length lines < start then None
      else let above = take (start - 1) lines;
               context = rstrip (concat (drop (context_from lines (start - 2) (start - 1)) above));
               stop = min stop (length lines);
               source = truncated max_tokens (rstrip (concat (take (stop - (start - 1)) (drop (start - 1) lines))))
           in Some \<lparr>ck_file = strip path, ck_symbol = strip symbol, ck_kind = strip kind, ck_line = start, ck_end = stop,
                ck_source = strip source, ck_context = strip context\<rparr>)"

definition function_chunk :: "nat \<Rightarrow> string list \<Rightarrow> string \<Rightarrow> FunctionDef \<Rightarrow> CodeChunk option" where
  "function_chunk n lines path f =
     build_chunk n lines path (fd_name f) ''function'' (fd_line f) (estimate_end_line (fd_line f) lines)"

definition method_chunk :: "nat \<Rightarrow> string list \<Rightarrow> string \<Rightarrow> string \<Rightarrow> FunctionDef \<Rightarrow> CodeChunk option" where
  "method_chunk n lines path cls m =
     build_chunk n lines path (cls @ ''.'' @ fd_name m) ''method'' (fd_line m) (estimate_end_line (fd_line m) lines)"

definition class_chunks :: "nat \<Rightarrow> string list \<Rightarrow> string \<Rightarrow> ClassDef \<Rightarrow> CodeChunk option list" where
  "class_chunks n lines path c =
     build_chunk n lines path (cd_name c) ''class'' (cd_line c) (estimate_class_end (cd_line c) lines)
     # map (method_chunk n lines path (cd_name c)) (cd_methods c)"

definition chunk_file :: "nat \<Rightarrow> string \<Rightarrow> FileIndex \<Rightarrow> CodeChunk list" where
  "chunk_file n source fi =
     (let lines = splitlines_keep source
      in List.map_filter id (map (function_chunk n lines (fx_path fi)) (fx_functions fi)
           @ concat (map (class_chunks n lines (fx_path fi)) (fx_classes fi))))"

definition default_max_tokens :: nat where
  "default_max_tokens = 512"

section \<open>Embeddings\<close>

definition chunk_to_text :: "CodeChunk \<Rightarrow> string" where
  "chunk_to_text c = join_with [CHR 0x0A]
     ((if ck_context c = [] then [] else [ck_context c]) @ [ck_kind c @ '' '' @ ck_symbol c, ck_source c])"

text \<open>The encoder, or the exception that the library is missing.\<close>

type_synonym vec = "rat list"

definition embed_chunks :: "(string list \<Rightarrow> exn + vec list) \<Rightarrow> CodeChunk list \<Rightarrow> exn + (CodeChunk \<times> vec) list" where
  "embed_chunks encode chunks =
     (if chunks = [] then Inr []
      else bind_sum (encode (map chunk_to_text chunks)) (\<lambda>vs.
        if length vs = length chunks then Inr (zip chunks vs) else Inl (ValueError ''zip() argument lengths differ'')))"

definition embed_query :: "(string list \<Rightarrow> exn + vec list) \<Rightarrow> string \<Rightarrow> exn + vec" where
  "embed_query encode t = bind_sum (encode [t]) (\<lambda>vs. case vs of [] \<Rightarrow> Inl (IndexError ''index out of range'') | v # _ \<Rightarrow> Inr v)"

section \<open>The vector store\<close>

record embedding_row =
  em_root :: string
  em_file :: string
  em_symbol :: string
  em_kind :: string
  em_line :: nat
  em_vector :: vec
  em_chunk :: string

record EmbeddingResult =
  er_symbol :: string
  er_kind :: string
  er_file :: string
  er_line :: nat
  er_chunk :: string
  er_score :: rat

definition batch_size :: nat where
  "batch_size = 500"

text \<open>\<^verbatim>\<open>rows[i : i + BATCH_SIZE] for i in range(0, len(rows), BATCH_SIZE)\<close>.\<close>

definition batches :: "'a list \<Rightarrow> 'a list list" where
  "batches rows = map (\<lambda>i. take batch_size (drop (i * batch_size) rows)) [0..<(length rows + batch_size - 1) div batch_size]"

definition embedding_of :: "string \<Rightarrow> CodeChunk \<times> vec \<Rightarrow> embedding_row" where
  "embedding_of r = (\<lambda>(c, v). \<lparr>em_root = r, em_file = ck_file c, em_symbol = ck_symbol c, em_kind = ck_kind c, em_line = ck_line c,
     em_vector = v, em_chunk = ck_source c\<rparr>)"

text \<open>One transaction: a failing insert leaves the table as it was.\<close>

fun insert_batches :: "(embedding_row list \<Rightarrow> exn option) \<Rightarrow> embedding_row list list \<Rightarrow> embedding_row list \<Rightarrow> exn + embedding_row list" where
  "insert_batches failing [] t = Inr t"
| "insert_batches failing (b # bs) t = (case failing b of Some e \<Rightarrow> Inl e | None \<Rightarrow> insert_batches failing bs (t @ b))"

definition store_embeddings ::
    "(embedding_row list \<Rightarrow> exn option) \<Rightarrow> string \<Rightarrow> (CodeChunk \<times> vec) list \<Rightarrow> (exn, embedding_row list, nat) op" where
  "store_embeddings failing r embs t =
     (if embs = [] then (Inr 0, t)
      else case insert_batches failing (batches (map (embedding_of r) embs)) t of
          Inl e \<Rightarrow> (Inl e, t)
        | Inr t' \<Rightarrow> (Inr (length embs), t'))"

definition result_of :: "(vec \<Rightarrow> vec \<Rightarrow> rat) \<Rightarrow> vec \<Rightarrow> embedding_row \<Rightarrow> EmbeddingResult" where
  "result_of distance q e = \<lparr>er_symbol = strip (em_symbol e), er_kind = strip (em_kind e), er_file = strip (em_file e), er_line = em_line e,
     er_chunk = strip (em_chunk e), er_score = 1 - distance (em_vector e) q\<rparr>"

definition search_embeddings :: "(vec \<Rightarrow> vec \<Rightarrow> rat) \<Rightarrow> vec \<Rightarrow> string option \<Rightarrow> nat \<Rightarrow> embedding_row list \<Rightarrow> EmbeddingResult list" where
  "search_embeddings distance q r limit t =
     map (result_of distance q) (take limit (sort_key (\<lambda>e. distance (em_vector e) q)
       (filter (\<lambda>e. case r of None \<Rightarrow> True | Some p \<Rightarrow> em_root e = p) t)))"

definition delete_index :: "string \<Rightarrow> (exn, embedding_row list, nat) op" where
  "delete_index r t = (Inr (length (filter (\<lambda>e. em_root e = r) t)), filter (\<lambda>e. em_root e \<noteq> r) t)"

definition has_embeddings :: "string \<Rightarrow> embedding_row list \<Rightarrow> bool" where
  "has_embeddings r t \<longleftrightarrow> list_ex (\<lambda>e. em_root e = r) t"

section \<open>Where a definition ends\<close>

lemma split_keep_concat: "concat (split_keep acc s) = rev acc @ s"
  by (induction acc s rule: split_keep.induct) (auto simp: hd_Cons_tl neq_Nil_conv)

lemma splitlines_keep_concat: "concat (splitlines_keep s) = s"
  by (simp add: splitlines_keep_def split_keep_concat)

lemma class_end_same: "estimate_class_end = estimate_end_line"
  by (intro ext) (simp add: estimate_class_end_def estimate_end_line_def)

definition trimmed :: "string list \<Rightarrow> string list" where
  "trimmed ls = rev (dropWhile blank (rev ls))"

lemma trimmed_Cons: "trimmed (l # ls) = (if trimmed ls = [] \<and> blank l then [] else l # trimmed ls)"
  by (auto simp: trimmed_def dropWhile_append)

lemma end_scan_spec:
  "stop \<le> i \<Longrightarrow> end_scan base stop i ls =
    (let body = trimmed (takeWhile (\<lambda>l. blank l \<or> base < indent_of l) ls) in if body = [] then stop else i + length body)"
proof (induction base stop i ls rule: end_scan.induct)
  case (2 base stop i l ls)
  then show ?case by (auto simp: trimmed_Cons Let_def trimmed_def [of "[]"])
qed (simp add: trimmed_def)

lemma estimate_end: "estimate_end_line start lines =
    (if 1 \<le> start \<and> start \<le> length lines
     then start + length (trimmed (takeWhile (\<lambda>l. blank l \<or> indent_of (lines ! (start - 1)) < indent_of l) (drop start lines)))
     else start)"
  by (auto simp: estimate_end_line_def end_scan_spec Let_def)

lemma end_bounds: "start \<le> estimate_end_line start lines \<and> estimate_end_line start lines \<le> max start (length lines)"
proof -
  have "length (trimmed xs) \<le> length xs" for xs
    unfolding trimmed_def by (metis length_dropWhile_le length_rev)
  then have "length (trimmed (takeWhile P (drop start lines))) \<le> length lines - start" for P
    by (metis le_trans length_drop length_takeWhile_le)
  then have "start \<le> length lines \<Longrightarrow> start + length (trimmed (takeWhile P (drop start lines))) \<le> length lines" for P
    by (simp add: le_diff_conv2 add.commute)
  then show ?thesis unfolding estimate_end by simp
qed

text \<open>
  C31: A definition is taken to reach up to the last line, blank lines apart, before the first line that is not blank
  and not indented deeper than its first line: the estimate is exactly that, never before the first line nor behind the
  end of the file.
\<close>

theorem end_is_indented_block:
  "estimate_end_line start lines =
    (if 1 \<le> start \<and> start \<le> length lines
     then start + length (trimmed (takeWhile (\<lambda>l. blank l \<or> indent_of (lines ! (start - 1)) < indent_of l) (drop start lines)))
     else start) \<and>
   start \<le> estimate_end_line start lines \<and> estimate_end_line start lines \<le> max start (length lines)"
  using estimate_end end_bounds by blast

text \<open>A signature over several lines ends a function at its closing parenthesis: the body is lost.\<close>

lemma long_signature_cut:
  "estimate_end_line 1 [''def f('', ''    a,'', '') -> int:'', ''    return a''] = 2"
  by code_simp

text \<open>The line above a definition is always taken as its context, whatever it is.\<close>

lemma context_keeps_code: "context_from [''x = 1'', ''def f(): pass''] 0 1 = 0"
  by code_simp

section \<open>Bounds\<close>

lemma length_strip: "length (strip s) \<le> length s"
  unfolding strip_def by (metis length_dropWhile_le length_rev order.trans)

lemma length_truncated: "length (truncated n s) \<le> n * 4 + 16"
  by (simp add: truncated_def)

definition chunk_fits :: "nat \<Rightarrow> nat \<Rightarrow> CodeChunk \<Rightarrow> bool" where
  "chunk_fits n n_lines c \<longleftrightarrow> 1 \<le> ck_line c \<and> ck_line c \<le> ck_end c \<and> ck_end c \<le> n_lines \<and> length (ck_source c) \<le> n * 4 + 16"

lemma build_chunk_fits:
  "build_chunk n lines path symbol kind start stop = Some c \<Longrightarrow> start \<le> stop \<Longrightarrow> chunk_fits n (length lines) c"
  by (auto simp: build_chunk_def chunk_fits_def Let_def split: if_splits intro: order.trans [OF length_strip length_truncated])

lemma set_map_filter_id: "set (List.map_filter id xs) = {x. Some x \<in> set xs}"
  by (induction xs) (auto simp: List.map_filter_simps split: option.splits)

text \<open>
  Every chunk of a file lies within its lines, its end is not before its start, and its text is at most four times
  the token limit and a mark of sixteen characters long.
\<close>

theorem chunks_bounded:
  "list_all (chunk_fits n (length (splitlines_keep source))) (chunk_file n source fi)"
proof -
  have "start \<le> estimate_end_line start lines" for start lines by (simp add: estimate_end)
  then show ?thesis
    by (auto simp: chunk_file_def list_all_iff Let_def set_map_filter_id function_chunk_def method_chunk_def class_chunks_def class_end_same
        intro: build_chunk_fits dest!: sym [of "Some _"])
qed

section \<open>The table\<close>

lemma concat_batches: "concat (batches rows) = rows"
proof -
  have "concat (map (\<lambda>i. page (i * batch_size) batch_size rows) [0..<(length rows + batch_size - 1) div batch_size]) = rows"
    by (rule pages_cover) (simp_all add: batch_size_def)
  then show ?thesis by (simp add: batches_def page_def)
qed

lemma insert_batches_ok: "insert_batches (\<lambda>_. None) bs t = Inr (t @ concat bs)"
  by (induction bs arbitrary: t) simp_all

lemma insert_batches_all: "insert_batches failing bs t = Inr t' \<Longrightarrow> t' = t @ concat bs"
  by (induction bs arbitrary: t) (fastforce split: option.splits)+

text \<open>All rows or none are stored; deleting takes them out again; storing twice keeps them twice.\<close>

lemma store_all_or_nothing:
  "store_embeddings failing r embs t = (x, t') \<Longrightarrow>
    (case x of Inl e \<Rightarrow> t' = t | Inr n \<Rightarrow> n = length embs \<and> t' = t @ map (embedding_of r) embs)"
  by (auto simp: store_embeddings_def concat_batches split: if_splits sum.splits dest!: insert_batches_all)

lemma delete_undoes_store:
  "\<not> has_embeddings r t \<Longrightarrow>
    snd (delete_index r (snd (store_embeddings (\<lambda>_. None) r embs t))) = t"
  by (auto simp: store_embeddings_def insert_batches_ok concat_batches delete_index_def has_embeddings_def list_ex_iff filter_id_conv
      embedding_of_def filter_empty_conv)

lemma stored_twice:
  "snd (store_embeddings (\<lambda>_. None) r embs (snd (store_embeddings (\<lambda>_. None) r embs []))) = map (embedding_of r) embs @ map (embedding_of r) embs"
  by (simp add: store_embeddings_def insert_batches_ok concat_batches)

end
