(* ===== verification/Code_Context.thy ===== *)
theory Code_Context
  imports Code_Chunks
begin

text \<open>
  What Codebase Comprehension makes of its indices: the context of a task (\<^verbatim>\<open>context_assembler.py\<close>), the
  call graph (\<^verbatim>\<open>call_graph.py\<close>), the architecture map (\<^verbatim>\<open>architecture_map.py\<close>), the conventions
  (\<^verbatim>\<open>convention_extractor.py\<close>), the routes (\<^verbatim>\<open>api/routes.py\<close>) and the indexing activity
  (\<^verbatim>\<open>temporal/activities.py\<close>). Lists of paths are sorted by character codes.
\<close>

section \<open>Paths\<close>

definition file_name :: "string \<Rightarrow> string" where
  "file_name p = (let ps = filter (\<lambda>c. c \<noteq> [] \<and> c \<noteq> ''.'') (split_on CHR ''/'' p) in if ps = [] then [] else last ps)"

text \<open>\<^verbatim>\<open>PurePosixPath(p).stem\<close>: the last dot counts if it is neither first nor last.\<close>

definition file_stem :: "string \<Rightarrow> string" where
  "file_stem p =
     (let n = file_name p; suffix = takeWhile (\<lambda>c. c \<noteq> CHR ''.'') (rev n); i = length n - length suffix - 1
      in if CHR ''.'' \<in> set n \<and> 0 < i \<and> i < length n - 1 then take i n else n)"

definition sorted_set :: "string list \<Rightarrow> string list" where
  "sorted_set xs = sort (remdups xs)"

section \<open>The context of a task\<close>

record CodeContext =
  cn_files :: "string list"
  cn_chunks :: "(string \<times> string) list"
  cn_symbols :: "SymbolInfo list"
  cn_tests :: "string list"
  cn_imports :: "(string \<times> string list) list"

definition mk_context ::
    "string list \<Rightarrow> (string \<times> string) list \<Rightarrow> SymbolInfo list \<Rightarrow> string list \<Rightarrow> (string \<times> string list) list \<Rightarrow> CodeContext" where
  "mk_context files chunks symbols tests imports =
     \<lparr>cn_files = map strip files, cn_chunks = py_dict (map (\<lambda>(k, v). (strip k, strip v)) chunks), cn_symbols = symbols,
      cn_tests = map strip tests, cn_imports = py_dict (map (\<lambda>(k, v). (strip k, map strip v)) imports)\<rparr>"

definition spaced :: "string \<Rightarrow> string" where
  "spaced s = map (\<lambda>c. if c = CHR ''_'' \<or> c = CHR ''-'' then CHR '' '' else c) s"

definition extract_keywords :: "string \<Rightarrow> string list" where
  "extract_keywords t = filter (\<lambda>w. 2 \<le> length w) (words_of (spaced (lower t)))"

definition matches_keywords :: "string list \<Rightarrow> string \<Rightarrow> bool" where
  "matches_keywords keywords t \<longleftrightarrow> list_ex (\<lambda>w. occurs_in w (lower t)) keywords"

definition relevant_file :: "string list \<Rightarrow> string \<times> FileIndex \<Rightarrow> bool" where
  "relevant_file keywords = (\<lambda>(path, fi).
     matches_keywords keywords path \<or> list_ex (\<lambda>f. matches_keywords keywords (fd_name f)) (fx_functions fi) \<or>
     list_ex (\<lambda>c. matches_keywords keywords (cd_name c)) (fx_classes fi))"

definition find_relevant_files :: "index_store \<Rightarrow> string \<Rightarrow> string list" where
  "find_relevant_files st task =
     (let keywords = extract_keywords task
      in if keywords = [] then [] else sorted_set (map fst (filter (relevant_file keywords) (all_files st))))"

definition find_related_tests :: "index_store \<Rightarrow> string list \<Rightarrow> string list" where
  "find_related_tests st paths =
     sorted_set (concat (map (\<lambda>p. filter (\<lambda>q. has_suffix q (''test_'' @ file_stem p @ ''.py'')) (map fst (all_files st))) paths))"

definition import_graph :: "index_store \<Rightarrow> string list \<Rightarrow> (string \<times> string list) list" where
  "import_graph st paths =
     py_dict (map (\<lambda>(p, fi). (p, filter (\<lambda>m. m \<noteq> []) (map im_module (fx_imports fi)))) (filter (\<lambda>(p, _). p \<in> set paths) (all_files st)))"

text \<open>The token limit is not used.\<close>

definition assemble :: "index_store \<Rightarrow> string \<Rightarrow> CodeContext" where
  "assemble st task =
     (let files = find_relevant_files st task
      in mk_context files (map (\<lambda>p. (p, ''# Content of '' @ p)) files) (search_symbols st task 20)
           (find_related_tests st files) (import_graph st files))"

text \<open>The vector store and the generator, when both are there; what they do may raise.\<close>

record 'w semantic =
  sc_has :: "string \<Rightarrow> (exn, 'w, bool) op"
  sc_embed :: "string \<Rightarrow> exn + vec"
  sc_search :: "vec \<Rightarrow> string \<Rightarrow> (exn, 'w, EmbeddingResult list) op"

fun chunk_texts :: "(string \<times> string) list \<Rightarrow> EmbeddingResult list \<Rightarrow> (string \<times> string) list" where
  "chunk_texts d [] = d"
| "chunk_texts d (r # rs) = chunk_texts (AList.update (er_file r)
     (case map_of d (er_file r) of None \<Rightarrow> er_chunk r | Some t \<Rightarrow> t @ [CHR 0x0A, CHR 0x0A] @ er_chunk r) d) rs"

definition semantic_context :: "index_store \<Rightarrow> EmbeddingResult list \<Rightarrow> CodeContext" where
  "semantic_context st rs =
     (let files = sorted_set (map er_file rs)
      in mk_context files (chunk_texts [] rs) (map (\<lambda>r. mk_symbol (er_symbol r) Function_Symbol (er_file r) (er_line r) [] []) rs)
           (find_related_tests st files) (import_graph st files))"

definition assemble_semantic :: "'w semantic option \<Rightarrow> index_store \<Rightarrow> string \<Rightarrow> string option \<Rightarrow> (exn, 'w, CodeContext) op" where
  "assemble_semantic sem st task r = (case (sem, r) of
      (Some sc, Some p) \<Rightarrow>
        chain (attempt (sc_has sc p) (\<lambda>_. ret False)) (\<lambda>has_data.
          if has_data
          then attempt (chain (lift_sum (\<lambda>_. sc_embed sc task)) (\<lambda>q. chain (sc_search sc q p) (\<lambda>rs. ret (semantic_context st rs))))
                 (\<lambda>_. ret (assemble st task))
          else ret (assemble st task))
    | _ \<Rightarrow> ret (assemble st task))"

section \<open>The call graph\<close>

record call_graph =
  cg_forward :: "(string \<times> string list) list"
  cg_reverse :: "(string \<times> string list) list"

definition callers_in :: "string \<times> FileIndex \<Rightarrow> (string \<times> string list) list" where
  "callers_in = (\<lambda>(path, fi).
     map (\<lambda>f. (path @ ''::'' @ fd_name f, fd_calls f)) (fx_functions fi) @
     concat (map (\<lambda>c. map (\<lambda>m. (path @ ''::'' @ cd_name c @ ''.'' @ fd_name m, fd_calls m)) (cd_methods c)) (fx_classes fi)))"

definition add_caller :: "string \<Rightarrow> string \<Rightarrow> (string \<times> string list) list \<Rightarrow> (string \<times> string list) list" where
  "add_caller caller callee d = AList.update callee (get_or [] d callee @ [caller]) d"

definition add_calls :: "string \<times> string list \<Rightarrow> call_graph \<Rightarrow> call_graph" where
  "add_calls = (\<lambda>(caller, callees) g.
     \<lparr>cg_forward = AList.update caller callees (cg_forward g), cg_reverse = fold (add_caller caller) callees (cg_reverse g)\<rparr>)"

definition build_graph :: "CodebaseIndex \<Rightarrow> call_graph" where
  "build_graph ix = fold add_calls (concat (map callers_in (cx_files ix))) \<lparr>cg_forward = [], cg_reverse = []\<rparr>"

definition get_callers :: "string \<Rightarrow> call_graph \<Rightarrow> string list" where
  "get_callers f g = get_or [] (cg_reverse g) f"

definition get_callees :: "string \<Rightarrow> call_graph \<Rightarrow> string list" where
  "get_callees f g = get_or [] (cg_forward g) f"

section \<open>The architecture map\<close>

definition layer_patterns :: "(string \<times> string) list" where
  "layer_patterns = [(''api'', ''api''), (''routes'', ''api''), (''models'', ''models''), (''schemas'', ''models''), (''services'', ''services''),
     (''service'', ''services''), (''core'', ''services''), (''utils'', ''utils''), (''helpers'', ''utils''), (''lib'', ''utils''),
     (''tests'', ''tests''), (''test'', ''tests''), (''temporal'', ''temporal''), (''workflows'', ''temporal'')]"

record ArchitectureMap =
  am_modules :: "(string \<times> string list) list"
  am_entry_points :: "string list"
  am_layers :: "(string \<times> string list) list"

definition slashed :: "string \<Rightarrow> string" where
  "slashed p = map (\<lambda>c. if c = CHR 0x5C then CHR ''/'' else c) p"

definition path_to_module :: "string \<Rightarrow> string" where
  "path_to_module p =
     (let q = slashed p; r = (if has_suffix q ''.py'' \<or> has_suffix q ''.js'' \<or> has_suffix q ''.ts'' then take (length q - 3) q else q)
      in map (\<lambda>c. if c = CHR ''/'' then CHR ''.'' else c) r)"

definition dependencies_of :: "FileIndex \<Rightarrow> string list" where
  "dependencies_of fi = sorted_set (map (\<lambda>i. if im_relative i then CHR ''.'' # im_module i else im_module i)
     (filter (\<lambda>i. im_module i \<noteq> []) (fx_imports fi)))"

definition build_module_deps :: "CodebaseIndex \<Rightarrow> (string \<times> string list) list" where
  "build_module_deps ix = py_dict (map (\<lambda>(p, fi). (path_to_module p, dependencies_of fi)) (cx_files ix))"

definition is_entry_point :: "string \<times> FileIndex \<Rightarrow> bool" where
  "is_entry_point = (\<lambda>(p, fi). has_suffix p ''__main__.py'' \<or>
     list_ex (\<lambda>f. fd_name f \<in> {''main'', ''create_app'', ''app''}) (fx_functions fi) \<or>
     file_stem p \<in> {''main'', ''app'', ''cli'', ''service''})"

definition find_entry_points :: "CodebaseIndex \<Rightarrow> string list" where
  "find_entry_points ix = sorted_set (map fst (filter is_entry_point (cx_files ix)))"

definition layer_of :: "string \<Rightarrow> string" where
  "layer_of p = (case find (\<lambda>d. map_of layer_patterns d \<noteq> None) (butlast (split_on CHR ''/'' (slashed p))) of
      None \<Rightarrow> ''other'' | Some d \<Rightarrow> the (map_of layer_patterns d))"

definition add_to_layer :: "string \<Rightarrow> (string \<times> string list) list \<Rightarrow> (string \<times> string list) list" where
  "add_to_layer p d = AList.update (layer_of p) (get_or [] d (layer_of p) @ [p]) d"

definition classify_layers :: "CodebaseIndex \<Rightarrow> (string \<times> string list) list" where
  "classify_layers ix = map (\<lambda>(l, ps). (l, sort ps)) (fold add_to_layer (map fst (cx_files ix)) [])"

definition generate_map :: "CodebaseIndex \<Rightarrow> ArchitectureMap" where
  "generate_map ix = \<lparr>am_modules = build_module_deps ix, am_entry_points = find_entry_points ix, am_layers = classify_layers ix\<rparr>"

section \<open>Conventions\<close>

record ConventionReport =
  cv_naming :: "(string \<times> string) list"
  cv_organization :: "string list"
  cv_patterns :: "string list"
  cv_tests :: "string list"

definition snake_rx :: rx where
  "snake_rx = seqs [At_Start, Cls False [Range (CHR ''a'') (CHR ''z''), Chr (CHR ''_'')],
     many (Cls False [Range (CHR ''a'') (CHR ''z''), Range (CHR ''0'') (CHR ''9''), Chr (CHR ''_'')]), At_End]"

definition pascal_rx :: rx where
  "pascal_rx = seqs [At_Start, Cls False [Range (CHR ''A'') (CHR ''Z'')],
     many (Cls False [Range (CHR ''a'') (CHR ''z''), Range (CHR ''A'') (CHR ''Z''), Range (CHR ''0'') (CHR ''9'')]), At_End]"

definition all_classes :: "CodebaseIndex \<Rightarrow> ClassDef list" where
  "all_classes ix = concat (map (\<lambda>(_, fi). fx_classes fi) (cx_files ix))"

definition all_functions :: "CodebaseIndex \<Rightarrow> FunctionDef list" where
  "all_functions ix = concat (map (\<lambda>(_, fi). fx_functions fi @ concat (map cd_methods (fx_classes fi))) (cx_files ix))"

definition count_of :: "('a \<Rightarrow> bool) \<Rightarrow> 'a list \<Rightarrow> nat" where
  "count_of P xs = length (filter P xs)"

definition percent :: "string \<Rightarrow> nat \<Rightarrow> nat \<Rightarrow> string" where
  "percent style part tot = style @ '' ('' @ nat_str (part * 100 div tot) @ [CHR 0x25] @ '')''"

definition detect_naming :: "CodebaseIndex \<Rightarrow> (string \<times> string) list" where
  "detect_naming ix =
     (let fs = all_functions ix; cs = all_classes ix
      in (if fs = [] then [] else [(''functions'', percent ''snake_case'' (count_of (\<lambda>f. rx_match False snake_rx (fd_name f)) fs) (length fs))]) @
         (if cs = [] then [] else [(''classes'', percent ''PascalCase'' (count_of (\<lambda>c. rx_match False pascal_rx (cd_name c)) cs) (length cs))]))"

text \<open>U+2014, as its UTF-8 bytes.\<close>

definition em_dash :: string where
  "em_dash = [CHR 0xE2, CHR 0x80, CHR 0x94]"

definition known_directories :: "(string \<times> string) list" where
  "known_directories = [(''api'', ''api/ '' @ em_dash @ '' API routes''), (''temporal'', ''temporal/ '' @ em_dash @ '' Temporal workflows''),
     (''tests'', ''tests/ '' @ em_dash @ '' test files''), (''src'', ''src/ '' @ em_dash @ '' source package''),
     (''models'', ''models/ '' @ em_dash @ '' data models'')]"

definition detect_file_organization :: "CodebaseIndex \<Rightarrow> string list" where
  "detect_file_organization ix =
     List.map_filter (map_of known_directories)
       (sorted_set (List.map_filter (\<lambda>(p, _). case split_on CHR ''/'' (slashed p) of d # _ # _ \<Rightarrow> Some d | _ \<Rightarrow> None) (cx_files ix)))"

definition detect_common_patterns :: "CodebaseIndex \<Rightarrow> string list" where
  "detect_common_patterns ix =
     (let a = count_of fd_async (all_functions ix); d = count_of (\<lambda>f. fd_decorators f \<noteq> []) (all_functions ix)
      in (if 0 < a then [''async/await ('' @ nat_str a @ '' async functions)''] else []) @
         (if 0 < d then [''decorators ('' @ nat_str d @ '' decorated functions)''] else []))"

definition detect_test_patterns :: "CodebaseIndex \<Rightarrow> string list" where
  "detect_test_patterns ix =
     (let paths = map fst (cx_files ix); t = count_of (\<lambda>p. occurs_in ''test_'' p \<or> has_suffix p ''_test.py'') paths;
          f = count_of (\<lambda>p. has_suffix p ''conftest.py'') paths
      in (if 0 < t then [''test files: '' @ nat_str t @ '' (test_*.py / *_test.py)''] else []) @
         (if 0 < f then [''conftest.py files: '' @ nat_str f] else []))"

definition extract_conventions :: "CodebaseIndex \<Rightarrow> ConventionReport" where
  "extract_conventions ix = \<lparr>cv_naming = detect_naming ix, cv_organization = detect_file_organization ix,
     cv_patterns = detect_common_patterns ix, cv_tests = detect_test_patterns ix\<rparr>"

section \<open>Routes\<close>

definition index_directory_route ::
    "python_env \<Rightarrow> (string \<Rightarrow> directory) \<Rightarrow> nat \<Rightarrow> string \<Rightarrow> string \<Rightarrow> (exn, index_store, (string \<times> nat \<times> nat) reply) op" where
  "index_directory_route env dirs limit d pattern st =
     (if \<not> dy_is_dir (dirs d) then (Inr (Http_Error 400 (''Not a directory: '' @ d)), st)
      else case index_directory env dirs d pattern limit of
          Inl e \<Rightarrow> (Inl e, st)
        | Inr ix \<Rightarrow> (Inr (Reply (cx_root ix, cx_total_files ix, cx_total_symbols ix)), store_index ix st))"

fun chunks_of_files :: "ts_env \<Rightarrow> languages \<Rightarrow> source_file list \<Rightarrow> exn + CodeChunk list" where
  "chunks_of_files env cache [] = Inr []"
| "chunks_of_files env cache (f # fs) =
     (if \<not> sf_is_file f then chunks_of_files env cache fs
      else case sf_text f of
          None \<Rightarrow> chunks_of_files env cache fs
        | Some source \<Rightarrow>
            (case ts_index_file env source (sf_path f) ''python'' cache of (r, cache) \<Rightarrow>
             bind_sum r (\<lambda>fi. bind_sum (chunks_of_files env cache fs) (\<lambda>cs. Inr (chunk_file default_max_tokens source fi @ cs)))))"

definition embed_index_route ::
    "ts_env \<Rightarrow> (string list \<Rightarrow> exn + vec list) \<Rightarrow> (embedding_row list \<Rightarrow> exn option) \<Rightarrow> (string \<Rightarrow> directory) \<Rightarrow> string \<Rightarrow>
     (exn, embedding_row list, (string \<times> nat \<times> nat) reply) op" where
  "embed_index_route env encode failing dirs d =
     (if \<not> dy_is_dir (dirs d) then ret (Http_Error 400 (''Not a directory: '' @ d))
      else chain (lift_sum (\<lambda>_. chunks_of_files env [] (dy_glob (dirs d) ''**/*.py''))) (\<lambda>cs.
        if cs = [] then ret (Reply (d, 0, 0))
        else chain (lift_sum (\<lambda>_. embed_chunks encode cs)) (\<lambda>es.
             chain (store_embeddings failing d es) (\<lambda>n. ret (Reply (d, length cs, n))))))"

definition semantic_search_route ::
    "(string list \<Rightarrow> exn + vec list) \<Rightarrow> (vec \<Rightarrow> vec \<Rightarrow> rat) \<Rightarrow> string \<Rightarrow> string option \<Rightarrow> nat \<Rightarrow>
     (exn, embedding_row list, EmbeddingResult list \<times> nat) op" where
  "semantic_search_route encode distance query r limit =
     chain (lift_sum (\<lambda>_. embed_query encode query)) (\<lambda>q.
     chain (reads (search_embeddings distance q r limit)) (\<lambda>rs. ret (rs, length rs)))"

definition get_architecture :: "string \<Rightarrow> index_store \<Rightarrow> ArchitectureMap reply" where
  "get_architecture r st = (case get_index r st of
      None \<Rightarrow> Http_Error 404 (''No index found for '' @ r) | Some ix \<Rightarrow> Reply (generate_map ix))"

definition search_symbols_route :: "string \<Rightarrow> int \<Rightarrow> index_store \<Rightarrow> SymbolInfo list \<times> nat" where
  "search_symbols_route query limit st = (let xs = search_symbols st query limit in (xs, length xs))"

section \<open>The indexing activity\<close>

definition extension_languages :: "(string \<times> string) list" where
  "extension_languages = [(''.py'', ''python''), (''.js'', ''javascript''), (''.ts'', ''typescript''), (''.tsx'', ''typescript''), (''.jsx'', ''javascript'')]"

fun ts_scan ::
    "ts_env \<Rightarrow> nat \<Rightarrow> string \<Rightarrow> source_file list \<Rightarrow> languages \<Rightarrow> (string \<times> FileIndex) list \<Rightarrow> nat \<Rightarrow> nat \<Rightarrow>
     exn + languages \<times> (string \<times> FileIndex) list \<times> nat \<times> nat" where
  "ts_scan env limit language [] cache files tot cnt = Inr (cache, files, tot, cnt)"
| "ts_scan env limit language (f # fs) cache files tot cnt =
     (if limit \<le> cnt then Inr (cache, files, tot, cnt)
      else if \<not> sf_is_file f then ts_scan env limit language fs cache files tot cnt
      else case sf_text f of
          None \<Rightarrow> ts_scan env limit language fs cache files tot cnt
        | Some source \<Rightarrow>
            (case ts_index_file env source (sf_path f) language cache of (r, cache) \<Rightarrow>
             bind_sum r (\<lambda>fi. ts_scan env limit language fs cache (AList.update (sf_path f) fi files) (tot + symbols_in fi) (cnt + 1))))"

fun ts_scan_all ::
    "ts_env \<Rightarrow> directory \<Rightarrow> nat \<Rightarrow> (string \<times> string) list \<Rightarrow> languages \<Rightarrow> (string \<times> FileIndex) list \<Rightarrow> nat \<Rightarrow> nat \<Rightarrow>
     exn + (string \<times> FileIndex) list \<times> nat" where
  "ts_scan_all env dir limit [] cache files tot cnt = Inr (files, tot)"
| "ts_scan_all env dir limit ((ext, language) # es) cache files tot cnt =
     bind_sum (ts_scan env limit language (dy_glob dir (''**/*'' @ ext)) cache files tot cnt) (\<lambda>(cache, files, tot, cnt).
       ts_scan_all env dir limit es cache files tot cnt)"

definition index_codebase ::
    "python_env \<Rightarrow> ts_env \<Rightarrow> (string \<Rightarrow> directory) \<Rightarrow> string \<Rightarrow> nat \<Rightarrow> bool \<Rightarrow> exn + CodebaseIndex" where
  "index_codebase penv env dirs d limit use_ts =
     (if \<not> dy_is_dir (dirs d) then Inl (ValueError (''Directory does not exist: '' @ d))
      else if use_ts
      then bind_sum (ts_scan_all env (dirs d) limit extension_languages [] [] 0 0) (\<lambda>(files, tot). Inr (mk_index d files (length files) tot))
      else index_directory penv dirs d ''**/*.py'' limit)"

text \<open>The embeddings of the activity: the files are read again, and any failure is only logged.\<close>

definition chunks_of_index :: "(string \<Rightarrow> string option) \<Rightarrow> CodebaseIndex \<Rightarrow> CodeChunk list" where
  "chunks_of_index read ix = concat (map (\<lambda>(p, fi). case read p of None \<Rightarrow> [] | Some source \<Rightarrow> chunk_file default_max_tokens source fi) (cx_files ix))"

definition generate_embeddings ::
    "(string list \<Rightarrow> exn + vec list) \<Rightarrow> (embedding_row list \<Rightarrow> exn option) \<Rightarrow> (string \<Rightarrow> string option) \<Rightarrow> string \<Rightarrow> CodebaseIndex \<Rightarrow>
     (exn, embedding_row list, nat option) op" where
  "generate_embeddings encode failing read d ix =
     (let cs = chunks_of_index read ix
      in if cs = [] then ret None
         else attempt (chain (lift_sum (\<lambda>_. embed_chunks encode cs)) (\<lambda>es. chain (store_embeddings failing d es) (\<lambda>n. ret (Some n))))
                (\<lambda>_. ret None))"

section \<open>The graph has both directions\<close>

definition all_callers :: "CodebaseIndex \<Rightarrow> (string \<times> string list) list" where
  "all_callers ix = concat (map callers_in (cx_files ix))"

lemma get_add_caller:
  "get_or [] (fold (add_caller caller) callees d) f = get_or [] d f @ map (\<lambda>_. caller) (filter (\<lambda>c. c = f) callees)"
  by (induction callees arbitrary: d) (simp_all add: add_caller_def)

definition graph_of :: "(string \<times> string list) list \<Rightarrow> call_graph \<Rightarrow> call_graph" where
  "graph_of cs g = fold add_calls cs g"

lemma graph_callers:
  "get_callers f (graph_of cs g) = get_callers f g @ concat (map (\<lambda>(caller, callees). map (\<lambda>_. caller) (filter (\<lambda>c. c = f) callees)) cs)"
  by (induction cs arbitrary: g) (simp_all add: graph_of_def add_calls_def get_callers_def get_add_caller split: prod.split)

lemma graph_callees:
  "get_callees k (graph_of cs g) = (case filter (\<lambda>c. fst c = k) cs of [] \<Rightarrow> get_callees k g | xs \<Rightarrow> snd (last xs))"
proof (induction cs arbitrary: g)
  case (Cons c cs)
  show ?case using Cons [of "add_calls c g"]
    by (cases c) (auto simp: graph_of_def add_calls_def get_callees_def split: list.split)
qed (simp add: graph_of_def)

text \<open>
  C32: The callers of a name are the functions and methods of all files that call it, in the order of the index and once for every
  call; the functions called are those of the last definition with the key.
\<close>

theorem call_graph_exact:
  "get_callers f (build_graph ix) = concat (map (\<lambda>(caller, callees). map (\<lambda>_. caller) (filter (\<lambda>c. c = f) callees)) (all_callers ix)) \<and>
   get_callees k (build_graph ix) = (case filter (\<lambda>c. fst c = k) (all_callers ix) of [] \<Rightarrow> [] | xs \<Rightarrow> snd (last xs))"
proof -
  have "build_graph ix = graph_of (all_callers ix) \<lparr>cg_forward = [], cg_reverse = []\<rparr>"
    by (simp add: build_graph_def graph_of_def all_callers_def)
  then show ?thesis by (simp only: graph_callers graph_callees) (simp add: get_callers_def get_callees_def get_or_def split: list.split)
qed

section \<open>The layers partition the files\<close>

lemma get_add_layer: "get_or [] (fold add_to_layer ps d) l = get_or [] d l @ filter (\<lambda>p. layer_of p = l) ps"
  by (induction ps arbitrary: d) (simp_all add: add_to_layer_def)

lemma layers_exact: "get_or [] (classify_layers ix) l = sort (filter (\<lambda>p. layer_of p = l) (map fst (cx_files ix)))"
proof -
  have "get_or [] (map (\<lambda>(l, ps). (l, sort ps)) d) l = sort (get_or [] d l)" for d :: "(string \<times> string list) list"
    by (simp add: get_or_def map_of_map split: option.split)
  then show ?thesis by (simp add: classify_layers_def get_add_layer get_or_def [of "[]" "[]"])
qed

section \<open>Symbols for a task\<close>

lemma of_char_blank: "(of_char (CHR '' '') :: nat) = 32"
  by simp

lemma blank_iff: "c = CHR '' '' \<longleftrightarrow> (of_char c :: nat) = 32"
  by (metis char_of_char [of c] char_of_char [of "CHR '' ''"] of_char_blank)

lemma lower_blank: "lower_char c = CHR '' '' \<longleftrightarrow> c = CHR '' ''"
  by (auto simp: lower_char_def blank_iff)

lemma blank_in_lower: "CHR '' '' \<in> set (lower s) \<longleftrightarrow> CHR '' '' \<in> set s"
  by (induction s) (simp_all add: lower_def lower_blank eq_commute [of "CHR '' ''"])

lemma no_blank_match:
  assumes "CHR '' '' \<in> set query" and "CHR '' '' \<notin> set name"
  shows "\<not> named_like query name"
proof
  assume "named_like query name"
  then obtain u v where "lower name = u @ lower query @ v" by (auto simp: named_like_def occurs_in_iff)
  then have "CHR '' '' \<in> set (lower name)" using assms(1) blank_in_lower [of query] by simp
  with assms(2) blank_in_lower show False by blast
qed

definition one_word_names :: "string \<times> FileIndex \<Rightarrow> bool" where
  "one_word_names = (\<lambda>(_, fi). list_all (\<lambda>f. CHR '' '' \<notin> set (fd_name f)) (fx_functions fi) \<and>
     list_all (\<lambda>c. CHR '' '' \<notin> set (cd_name c) \<and> list_all (\<lambda>m. CHR '' '' \<notin> set (fd_name m)) (cd_methods c)) (fx_classes fi))"

lemma no_hits: "CHR '' '' \<in> set query \<Longrightarrow> one_word_names pf \<Longrightarrow> file_hits query pf = []"
  by (auto simp: file_hits_def one_word_names_def function_hits_def class_hits_def method_hits_def list_all_iff filter_empty_conv no_blank_match split: prod.splits)

text \<open>
  The context of a task of several words has no related symbols at all: the whole description is looked for inside the
  names of the symbols, and these have no blanks.
\<close>

theorem task_finds_no_symbols:
  assumes "CHR '' '' \<in> set task" and "list_all one_word_names (all_files st)"
  shows "cn_symbols (assemble st task) = []"
proof -
  have "concat (map (file_hits task) (all_files st)) = []" using assms by (auto simp: list_all_iff no_hits)
  then show ?thesis by (simp add: assemble_def mk_context_def Let_def search_takes)
qed

definition sample_store :: index_store where
  "sample_store = store_index (mk_index ''/r'' [(''a.py'', mk_file ''a.py'' ''python'' [mk_function ''parse_url'' ''a.py'' 1 [] [] False [] [] []] [] [] 2)] 1 1) []"

theorem task_finds_no_symbols_witness:
  "cn_symbols (assemble sample_store ''fix parse_url'') = [] \<and> cn_files (assemble sample_store ''fix parse_url'') = [''a.py'']"
proof
  show "cn_symbols (assemble sample_store ''fix parse_url'') = []"
    by (rule task_finds_no_symbols) code_simp+
  show "cn_files (assemble sample_store ''fix parse_url'') = [''a.py'']" by code_simp
qed

text \<open>With the store or the generator failing, the semantic context is the one of the keywords.\<close>

lemma semantic_never_fails: "\<exists>c w'. assemble_semantic sem st task r w = (Inr c, w')"
  by (auto simp: assemble_semantic_def chain_def attempt_def ret_def lift_sum_def split: option.split prod.split sum.split)

end
