(* ===== verification/Comm_Bus.thy ===== *)
theory Comm_Bus
  imports Schema
begin

text \<open>
  The Agent Communication Bus (\<^verbatim>\<open>services/agent-comm-bus\<close>): messages over NATS with statistics (\<^verbatim>\<open>bus.py\<close>) and the
  list of failed messages (\<^verbatim>\<open>dead_letter.py\<close>). NATS and the JSON codec of the message model are parameters; NATS acts
  on a world \<open>'w\<close>.
\<close>

section \<open>Messages\<close>

datatype MessageType = TASK_ASSIGNED | TASK_COMPLETED | CONTEXT_REQUEST | CONTEXT_RESPONSE | STATE_PROPOSAL | ESCALATION | DISAGREEMENT | KNOWLEDGE_UPDATE

primrec message_type_value :: "MessageType \<Rightarrow> string" where
  "message_type_value MessageType.TASK_ASSIGNED = ''task.assigned''"
| "message_type_value MessageType.TASK_COMPLETED = ''task.completed''"
| "message_type_value MessageType.CONTEXT_REQUEST = ''context.request''"
| "message_type_value MessageType.CONTEXT_RESPONSE = ''context.response''"
| "message_type_value MessageType.STATE_PROPOSAL = ''state.proposal''"
| "message_type_value MessageType.ESCALATION = ''escalation''"
| "message_type_value MessageType.DISAGREEMENT = ''disagreement''"
| "message_type_value MessageType.KNOWLEDGE_UPDATE = ''knowledge.update''"

record AgentMessage =
  mg_id :: string
  mg_sender :: string
  mg_recipient :: "string option"
  mg_type :: MessageType
  mg_payload :: "(string \<times> json) list"
  mg_correlation :: "string option"
  mg_time :: int
  mg_reply_to :: "string option"

record MessageStats =
  st_published :: nat
  st_received :: nat
  st_by_type :: "(string \<times> nat) list"
  st_dead_letters :: nat
  st_subscriptions :: nat

section \<open>The bus\<close>

datatype reply_or_timeout = Replied string | Timed_Out

record 'w bus_env =
  be_encode :: "AgentMessage \<Rightarrow> string"
  be_decode :: "string \<Rightarrow> exn + AgentMessage"
  be_show :: "rat \<Rightarrow> string"                          \<comment> \<open>\<^verbatim>\<open>str\<close> of a float\<close>
  be_connect :: "(exn, 'w, unit) op"
  be_stream_known :: "string \<Rightarrow> 'w \<Rightarrow> bool"              \<comment> \<open>\<^verbatim>\<open>find_stream_info_by_subject\<close> does not raise\<close>
  be_add_stream :: "string \<Rightarrow> string list \<Rightarrow> (exn, 'w, unit) op"
  be_publish :: "string \<Rightarrow> string \<Rightarrow> (exn, 'w, unit) op"
  be_subscribe :: "string \<Rightarrow> string option \<Rightarrow> (exn, 'w, unit) op"
  be_unsubscribe :: "nat \<Rightarrow> 'w \<Rightarrow> 'w"                     \<comment> \<open>errors are suppressed\<close>
  be_request :: "string \<Rightarrow> string \<Rightarrow> rat \<Rightarrow> (exn, 'w, reply_or_timeout) op"
  be_is_closed :: "'w \<Rightarrow> bool"
  be_close :: "(exn, 'w, unit) op"
  be_ack :: "(exn, 'w, unit) op"

record 'w message_bus =
  mb_world :: 'w
  mb_client :: bool
  mb_jetstream :: bool
  mb_subscriptions :: nat
  mb_stats :: MessageStats

definition no_stats :: MessageStats where
  "no_stats = \<lparr>st_published = 0, st_received = 0, st_by_type = [], st_dead_letters = 0, st_subscriptions = 0\<rparr>"

definition new_bus :: "'w \<Rightarrow> 'w message_bus" where
  "new_bus w = \<lparr>mb_world = w, mb_client = False, mb_jetstream = False, mb_subscriptions = 0, mb_stats = no_stats\<rparr>"

definition on_nats :: "(exn, 'w, 'a) op \<Rightarrow> (exn, 'w message_bus, 'a) op" where
  "on_nats = zoom mb_world (\<lambda>w s. s\<lparr>mb_world := w\<rparr>)"

definition not_connected :: exn where
  "not_connected = CommBusError (''Not connected '' @ [CHR 0xE2, CHR 0x80, CHR 0x94] @ '' call connect() first'')"

definition ensure_stream :: "'w bus_env \<Rightarrow> string \<Rightarrow> (exn, 'w message_bus, unit) op" where
  "ensure_stream env name s =
     (if \<not> mb_jetstream s then (Inr (), s)
      else if be_stream_known env (name @ ''.*'') (mb_world s) then (Inr (), s)
      else on_nats (be_add_stream env name [name @ ''.*'']) s)"

definition connect_bus :: "'w bus_env \<Rightarrow> string \<Rightarrow> (exn, 'w message_bus, unit) op" where
  "connect_bus env name =
     chain (on_nats (be_connect env)) (\<lambda>_.
     chain (writes (\<lambda>s. s\<lparr>mb_client := True, mb_jetstream := True\<rparr>)) (\<lambda>_. ensure_stream env name))"

definition close_bus :: "'w bus_env \<Rightarrow> (exn, 'w message_bus, unit) op" where
  "close_bus env =
     chain (writes (\<lambda>s. s\<lparr>mb_world := fold (be_unsubscribe env) [0..<mb_subscriptions s] (mb_world s), mb_subscriptions := 0,
        mb_stats := (mb_stats s)\<lparr>st_subscriptions := 0\<rparr>\<rparr>)) (\<lambda>_.
     chain (reads (\<lambda>s. mb_client s \<and> \<not> be_is_closed env (mb_world s))) (\<lambda>open_client.
     if open_client
     then chain (on_nats (be_close env)) (\<lambda>_. writes (\<lambda>s. s\<lparr>mb_client := False, mb_jetstream := False\<rparr>))
     else ret ()))"

definition count_published :: "string \<Rightarrow> MessageStats \<Rightarrow> MessageStats" where
  "count_published ty st =
     st\<lparr>st_published := st_published st + 1, st_by_type := AList.update ty (get_or 0 (st_by_type st) ty + 1) (st_by_type st)\<rparr>"

definition change_stats :: "(MessageStats \<Rightarrow> MessageStats) \<Rightarrow> (exn, 'w message_bus, unit) op" where
  "change_stats f = writes (\<lambda>s. s\<lparr>mb_stats := f (mb_stats s)\<rparr>)"

definition publish_message :: "'w bus_env \<Rightarrow> string \<Rightarrow> AgentMessage \<Rightarrow> (exn, 'w message_bus, unit) op" where
  "publish_message env subject m =
     chain (reads mb_jetstream) (\<lambda>js.
     if \<not> js then raise not_connected
     else chain (on_nats (be_publish env subject (be_encode env m))) (\<lambda>_.
          change_stats (count_published (message_type_value (mg_type m)))))"

definition subscribe_bus :: "'w bus_env \<Rightarrow> string \<Rightarrow> string option \<Rightarrow> (exn, 'w message_bus, unit) op" where
  "subscribe_bus env subject queue =
     chain (reads mb_jetstream) (\<lambda>js.
     if \<not> js then raise not_connected
     else chain (on_nats (be_subscribe env subject queue)) (\<lambda>_.
          writes (\<lambda>s. s\<lparr>mb_subscriptions := mb_subscriptions s + 1,
            mb_stats := (mb_stats s)\<lparr>st_subscriptions := mb_subscriptions s + 1\<rparr>\<rparr>)))"

text \<open>The callback of a subscription, for the data of a delivered message.\<close>

definition callback :: "'w bus_env \<Rightarrow> (AgentMessage \<Rightarrow> (exn, 'w, unit) op) \<Rightarrow> string \<Rightarrow> (exn, 'w message_bus, unit) op" where
  "callback env handler data =
     chain (lift_sum (\<lambda>_. be_decode env data)) (\<lambda>m.
     chain (change_stats (\<lambda>st. st\<lparr>st_received := st_received st + 1\<rparr>)) (\<lambda>_.
     chain (on_nats (handler m)) (\<lambda>_. on_nats (be_ack env))))"

definition request_reply :: "'w bus_env \<Rightarrow> string \<Rightarrow> AgentMessage \<Rightarrow> rat \<Rightarrow> (exn, 'w message_bus, AgentMessage) op" where
  "request_reply env subject m timeout =
     chain (reads mb_client) (\<lambda>nc.
     if \<not> nc then raise not_connected
     else chain (on_nats (be_request env subject (be_encode env m) timeout)) (\<lambda>r. case r of
         Timed_Out \<Rightarrow> raise (MessageTimeoutError (''Request to '' @ subject @ '' timed out after '' @ be_show env timeout @ ''s''))
       | Replied data \<Rightarrow>
           chain (change_stats (\<lambda>st. st\<lparr>st_published := st_published st + 1\<rparr>)) (\<lambda>_.
           chain (lift_sum (\<lambda>_. be_decode env data)) (\<lambda>answer.
           chain (change_stats (\<lambda>st. st\<lparr>st_received := st_received st + 1\<rparr>)) (\<lambda>_. ret answer)))))"

text \<open>The route checks the message by its model and answers with its identifier.\<close>

definition publish_route :: "'w bus_env \<Rightarrow> ((string \<times> json) list \<Rightarrow> exn + AgentMessage) \<Rightarrow> string \<Rightarrow> (string \<times> json) list \<Rightarrow> (exn, 'w message_bus, string \<times> string) op" where
  "publish_route env model subject d =
     chain (lift_sum (\<lambda>_. model d)) (\<lambda>m. chain (publish_message env subject m) (\<lambda>_. ret (mg_id m, subject)))"

section \<open>Failed messages\<close>

record DeadLetterEntry =
  dl_message :: AgentMessage
  dl_error :: string
  dl_failed_at :: int
  dl_retries :: nat

type_synonym dead_letters = "DeadLetterEntry list"

definition dead_letter_handle_failure :: "int \<Rightarrow> AgentMessage \<Rightarrow> string \<Rightarrow> dead_letters \<Rightarrow> dead_letters" where
  "dead_letter_handle_failure now m err es = es @ [\<lparr>dl_message = m, dl_error = strip err, dl_failed_at = now, dl_retries = 0\<rparr>]"

text \<open>\<^verbatim>\<open>entries[-limit:]\<close>.\<close>

definition get_entries :: "int \<Rightarrow> dead_letters \<Rightarrow> dead_letters" where
  "get_entries limit es = (if 0 < limit then drop (length es - nat limit) es else drop (nat (- limit)) es)"

fun retry_entry :: "string \<Rightarrow> dead_letters \<Rightarrow> bool \<times> dead_letters" where
  "retry_entry i [] = (False, [])"
| "retry_entry i (e # es) =
     (if mg_id (dl_message e) = i then (True, es) else case retry_entry i es of (found, rest) \<Rightarrow> (found, e # rest))"

section \<open>The statistics\<close>

definition bus_stats_ok :: "'w message_bus \<Rightarrow> bool" where
  "bus_stats_ok s \<longleftrightarrow> sum_list (map snd (st_by_type (mb_stats s))) \<le> st_published (mb_stats s) \<and>
     distinct (keys (st_by_type (mb_stats s))) \<and> st_dead_letters (mb_stats s) = 0 \<and> st_subscriptions (mb_stats s) = mb_subscriptions s"

lemma sum_counted: "sum_list (map snd (AList.update k (Suc (get_or 0 d k)) d)) = Suc (sum_list (map snd d))"
  by (induction d) (auto simp: get_or_def)

lemma keeps_stats_nats: "keeps bus_stats_ok (on_nats m)"
  unfolding on_nats_def by (rule keeps_zoom) (simp add: bus_stats_ok_def)

lemma keeps_count: "keeps bus_stats_ok (change_stats (count_published ty))"
  unfolding change_stats_def by (rule keeps_writes) (simp add: bus_stats_ok_def count_published_def sum_counted)

lemma keeps_received: "keeps bus_stats_ok (change_stats (\<lambda>st. st\<lparr>st_received := st_received st + 1\<rparr>))"
  unfolding change_stats_def by (rule keeps_writes) (simp add: bus_stats_ok_def)

lemma keeps_asked: "keeps bus_stats_ok (change_stats (\<lambda>st. st\<lparr>st_published := st_published st + 1\<rparr>))"
  unfolding change_stats_def by (rule keeps_writes) (simp add: bus_stats_ok_def)

lemmas keeps_stats_change = keeps_count keeps_received keeps_asked

lemmas stats_steps = keeps_chain keeps_ret keeps_raise keeps_reads keeps_lift_sum keeps_if keeps_stats_nats keeps_stats_change

lemma keeps_stats_stream: "keeps bus_stats_ok (ensure_stream env name)"
  by (rule keepsI) (auto simp: ensure_stream_def dest: keepsD [OF keeps_stats_nats])

text \<open>What a service does with its bus.\<close>

datatype 'w bus_call =
    Connect string | Close | Publish string AgentMessage | Subscribe string "string option"
  | Deliver "AgentMessage \<Rightarrow> (exn, 'w, unit) op" string | Request string AgentMessage rat

fun bus_run :: "'w bus_env \<Rightarrow> 'w bus_call \<Rightarrow> 'w message_bus \<Rightarrow> 'w message_bus" where
  "bus_run env (Connect name) s = snd (connect_bus env name s)"
| "bus_run env Close s = snd (close_bus env s)"
| "bus_run env (Publish subject m) s = snd (publish_message env subject m s)"
| "bus_run env (Subscribe subject q) s = snd (subscribe_bus env subject q s)"
| "bus_run env (Deliver h data) s = snd (callback env h data s)"
| "bus_run env (Request subject m t) s = snd (request_reply env subject m t s)"

lemma bus_run_stats: "bus_stats_ok s \<Longrightarrow> bus_stats_ok (bus_run env c s)"
proof (cases c)
  case (Connect name)
  have "keeps bus_stats_ok (connect_bus env name)" unfolding connect_bus_def
    by (intro stats_steps keeps_stats_stream keeps_writes) (simp add: bus_stats_ok_def)
  then show "bus_stats_ok s \<Longrightarrow> ?thesis" by (simp add: Connect keepsD)
next
  case Close
  have "keeps bus_stats_ok (close_bus env)" unfolding close_bus_def
    by (intro stats_steps keeps_writes) (simp_all add: bus_stats_ok_def)
  then show "bus_stats_ok s \<Longrightarrow> ?thesis" by (simp add: Close keepsD)
next
  case (Publish subject m)
  have "keeps bus_stats_ok (publish_message env subject m)" unfolding publish_message_def by (intro stats_steps)
  then show "bus_stats_ok s \<Longrightarrow> ?thesis" by (simp add: Publish keepsD)
next
  case (Subscribe subject q)
  have "keeps bus_stats_ok (subscribe_bus env subject q)" unfolding subscribe_bus_def
    by (intro stats_steps keeps_writes) (simp add: bus_stats_ok_def)
  then show "bus_stats_ok s \<Longrightarrow> ?thesis" by (simp add: Subscribe keepsD)
next
  case (Deliver h data)
  have "keeps bus_stats_ok (callback env h data)" unfolding callback_def by (intro stats_steps)
  then show "bus_stats_ok s \<Longrightarrow> ?thesis" by (simp add: Deliver keepsD)
next
  case (Request subject m t)
  have "keeps bus_stats_ok (request_reply env subject m t)" unfolding request_reply_def
    by (intro stats_steps) (rename_tac r, case_tac r; simp only: reply_or_timeout.case; intro stats_steps)
  then show "bus_stats_ok s \<Longrightarrow> ?thesis" by (simp add: Request keepsD)
qed

text \<open>
  The statistics of the bus stay consistent over any sequence of calls and deliveries: the published messages of all types
  are never more than the total, the subscriptions are the open ones, and the number of dead letters is always zero.
\<close>

theorem bus_statistics_consistent: "bus_stats_ok (fold (bus_run env) calls (new_bus w))"
proof -
  have "bus_stats_ok s \<Longrightarrow> bus_stats_ok (fold (bus_run env) calls s)" for s
    by (induction calls arbitrary: s) (simp_all add: bus_run_stats)
  then show ?thesis by (simp add: bus_stats_ok_def new_bus_def no_stats_def)
qed

text \<open>Asking for no entries gives all of them; a retried message is dropped.\<close>

lemma no_limit: "get_entries 0 es = es"
  by (simp add: get_entries_def)

lemma retry_drops: "retry_entry i es = (found, es') \<Longrightarrow> (found \<longleftrightarrow> i \<in> set (map (mg_id \<circ> dl_message) es)) \<and> length es = length es' + (if found then 1 else 0)"
  by (induction es arbitrary: found es') (auto split: prod.splits if_splits)

text \<open>A message that cannot be read is never acknowledged.\<close>

lemma unreadable_not_acknowledged: "be_decode env data = Inl e \<Longrightarrow> callback env h data s = (Inl e, s)"
  by (simp add: callback_def chain_run)

end
