(* ===== verification/Governor_Workflows.thy ===== *)
theory Governor_Workflows
  imports Governor_Monitor
begin

text \<open>
  The Temporal workflows of the Economic Governor (\<^verbatim>\<open>temporal/workflows.py\<close>) with their activities
  (\<^verbatim>\<open>temporal/activities.py\<close>), and its routes (\<^verbatim>\<open>api/routes.py\<close>), on the state of the monitor, whose tracker
  and scorer they share. An activity is one step: between two activities of a workflow others may run. What Temporal
  adds (retries, timeouts) is left out, the activities cannot fail. What the service does while the monitoring
  workflow sleeps is a parameter.
\<close>

section \<open>Activities\<close>

definition act_get_budget_status :: "moment \<Rightarrow> (exn, 'p monitor, snapshot) op" where
  "act_get_budget_status mo = take_snapshot (mo_now mo)"

definition check_allows :: "int \<Rightarrow> snapshot \<Rightarrow> bool" where
  "check_allows estimated sn \<longleftrightarrow> estimated \<le> sn_allocated sn - sn_consumed sn \<and> sn_level sn \<noteq> EnforcementLevel.HALT"

record budget_check =
  bc_allowed :: bool
  bc_level :: EnforcementLevel
  bc_pct :: rat
  bc_remaining :: int

definition act_check_budget_for_task :: "moment \<Rightarrow> int \<Rightarrow> (exn, 'p monitor, budget_check) op" where
  "act_check_budget_for_task mo estimated =
     chain (take_snapshot (mo_now mo)) (\<lambda>sn.
       ret \<lparr>bc_allowed = check_allows estimated sn, bc_level = sn_level sn, bc_pct = sn_consumed_pct sn,
            bc_remaining = sn_allocated sn - sn_consumed sn\<rparr>)"

definition act_record_consumption :: "moment \<Rightarrow> int \<Rightarrow> rat \<Rightarrow> (exn, 'p monitor, EnforcementLevel) op" where
  "act_record_consumption mo tokens cost = consume_tokens mo tokens cost"

definition act_compute_efficiency :: "int \<Rightarrow> (exn, 'p monitor, leaderboard) op" where
  "act_compute_efficiency now_utc = (\<lambda>m.
     case compute_scores now_utc (mon_scorer m) of (lb, sc) \<Rightarrow> (Inr lb, m\<lparr>mon_scorer := sc\<rparr>))"

text \<open>Nothing is enforced: the activity only says what was asked for.\<close>

definition act_enforce_budget :: "EnforcementLevel \<Rightarrow> (exn, 'p monitor, bool \<times> EnforcementLevel) op" where
  "act_enforce_budget level = ret (level \<noteq> EnforcementLevel.NONE, level)"

section \<open>The monitoring workflow\<close>

record monitoring_params =
  mw_poll :: int
  mw_efficiency :: int
  mw_max :: int

definition default_monitoring :: monitoring_params where
  "default_monitoring = \<lparr>mw_poll = 60, mw_efficiency = 300, mw_max = 1000\<rparr>"

record monitoring_result =
  mr_iterations :: nat
  mr_level :: string
  mr_completed :: bool

text \<open>\<open>n\<close> iterations are left, \<open>i\<close> are done; \<open>clock i\<close> is what the next one reads.\<close>

fun monitoring_loop ::
    "(nat \<Rightarrow> moment \<times> int) \<Rightarrow> (nat \<Rightarrow> 'p monitor \<Rightarrow> 'p monitor) \<Rightarrow> int \<Rightarrow> nat \<Rightarrow> nat \<Rightarrow> EnforcementLevel \<Rightarrow>
     (exn, 'p monitor, nat \<times> EnforcementLevel) op" where
  "monitoring_loop clock rest every 0 i level = ret (i, level)"
| "monitoring_loop clock rest every (Suc n) i level =
     chain (act_get_budget_status (fst (clock i))) (\<lambda>sn.
     chain (if sn_level sn \<noteq> EnforcementLevel.NONE then chain (act_enforce_budget (sn_level sn)) (\<lambda>_. ret ()) else ret ()) (\<lambda>_.
     if sn_level sn = EnforcementLevel.HALT then ret (i + 1, sn_level sn)
     else chain (if int (i + 1) mod max every 1 = 0 then chain (act_compute_efficiency (snd (clock i))) (\<lambda>_. ret ()) else ret ()) (\<lambda>_.
          chain (writes (rest i)) (\<lambda>_.
          monitoring_loop clock rest every n (i + 1) (sn_level sn)))))"

definition budget_monitoring_workflow ::
    "(nat \<Rightarrow> moment \<times> int) \<Rightarrow> (nat \<Rightarrow> 'p monitor \<Rightarrow> 'p monitor) \<Rightarrow> monitoring_params \<Rightarrow> (exn, 'p monitor, monitoring_result) op" where
  "budget_monitoring_workflow clock rest p =
     chain (monitoring_loop clock rest (mw_efficiency p div max (mw_poll p) 1) (nat (mw_max p)) 0 EnforcementLevel.NONE) (\<lambda>(i, level).
     ret \<lparr>mr_iterations = i, mr_level = enforcement_level_value level, mr_completed = mw_max p \<le> int i\<rparr>)"

section \<open>The allocation workflow\<close>

record allocation_params =
  ap_task :: string
  ap_tokens :: int
  ap_agent :: string
  ap_cost :: rat

record allocation_reply =
  re_allowed :: bool
  re_level :: string
  re_pct :: rat
  re_reason :: "string option"

text \<open>Where a workflow stands: before its check, granted with the share that was consumed then, or done.\<close>

datatype allocation_phase = Waiting | Granted rat | Finished allocation_reply

fun allocation_step :: "moment \<Rightarrow> allocation_params \<Rightarrow> allocation_phase \<Rightarrow> (exn, 'p monitor, allocation_phase) op" where
  "allocation_step mo p Waiting =
     chain (act_check_budget_for_task mo (ap_tokens p)) (\<lambda>c.
       ret (if bc_allowed c then Granted (bc_pct c)
            else Finished \<lparr>re_allowed = False, re_level = enforcement_level_value (bc_level c), re_pct = bc_pct c,
                   re_reason = Some ''insufficient budget or budget halted''\<rparr>))"
| "allocation_step mo p (Granted pct) =
     chain (act_record_consumption mo (ap_tokens p) (ap_cost p)) (\<lambda>level.
       ret (Finished \<lparr>re_allowed = True, re_level = enforcement_level_value level, re_pct = pct, re_reason = None\<rparr>))"
| "allocation_step mo p (Finished r) = ret (Finished r)"

text \<open>The workflow with nothing in between.\<close>

definition budget_allocation_workflow :: "moment \<Rightarrow> moment \<Rightarrow> allocation_params \<Rightarrow> (exn, 'p monitor, allocation_phase) op" where
  "budget_allocation_workflow check_time record_time p =
     chain (allocation_step check_time p Waiting) (allocation_step record_time p)"

text \<open>Several workflows on one worker: a schedule says which of them makes its next step, and when.\<close>

type_synonym 'p allocations = "'p monitor \<times> (allocation_params \<times> allocation_phase) list"

definition schedule_step :: "moment \<times> nat \<Rightarrow> 'p allocations \<Rightarrow> 'p allocations" where
  "schedule_step = (\<lambda>(mo, i) (m, fs).
     if i < length fs
     then case allocation_step mo (fst (fs ! i)) (snd (fs ! i)) m of
         (Inl e, m') \<Rightarrow> (m', fs)
       | (Inr ph, m') \<Rightarrow> (m', fs[i := (fst (fs ! i), ph)])
     else (m, fs))"

definition run_schedule :: "(moment \<times> nat) list \<Rightarrow> 'p allocations \<Rightarrow> 'p allocations" where
  "run_schedule sched s = fold schedule_step sched s"

section \<open>Routes\<close>

definition budget_status_route :: "moment \<Rightarrow> (exn, 'p monitor, snapshot) op" where
  "budget_status_route mo = take_snapshot (mo_now mo)"

definition budget_phases_route :: "moment \<Rightarrow> (exn, 'p monitor, phase_status list) op" where
  "budget_phases_route mo = chain (take_snapshot (mo_now mo)) (\<lambda>sn. ret (sn_phases sn))"

definition allocate_budget_route :: "allocation_request \<Rightarrow> (exn, 'p monitor, allocation_result) op" where
  "allocate_budget_route r =
     chain (lift_sum (\<lambda>_. mk_allocation_request r)) (\<lambda>r. reads (\<lambda>m. allocate_project_budget (bt_config (fst (mon_budget m))) r))"

definition record_consumption_route :: "moment \<Rightarrow> int \<Rightarrow> rat \<Rightarrow> (exn, 'p monitor, EnforcementLevel) op" where
  "record_consumption_route mo tokens cost =
     (if 0 \<le> tokens \<and> 0 \<le> cost then consume_tokens mo tokens cost else raise (ValidationError ''RecordConsumptionRequest''))"

definition leaderboard_route :: "int \<Rightarrow> (exn, 'p monitor, leaderboard) op" where
  "leaderboard_route now_utc = act_compute_efficiency now_utc"

definition agent_efficiency_route :: "int \<Rightarrow> string \<Rightarrow> (exn, 'p monitor, score) op" where
  "agent_efficiency_route now_utc agent = (\<lambda>m.
     case get_agent_score now_utc agent (mon_scorer m) of (e, sc) \<Rightarrow> (Inr e, m\<lparr>mon_scorer := sc\<rparr>))"

definition current_level_route :: "moment \<Rightarrow> (exn, 'p monitor, EnforcementLevel \<times> rat) op" where
  "current_level_route mo = chain (take_snapshot (mo_now mo)) (\<lambda>sn. ret (sn_level sn, sn_consumed_pct sn))"

section \<open>How far allocations overdraw the budget\<close>

definition allocated :: "'p monitor \<Rightarrow> int" where
  "allocated m = allocated_tokens (fst (mon_budget m))"

definition consumed :: "'p monitor \<Rightarrow> int" where
  "consumed m = consumed_tokens (fst (mon_budget m))"

definition halted :: "'p monitor \<Rightarrow> bool" where
  "halted m \<longleftrightarrow> enforcement_level (fst (mon_budget m)) = EnforcementLevel.HALT"

lemma take_snapshot_run:
  "\<exists>sn m'. take_snapshot now m = (Inr sn, m') \<and> allocated m' = allocated m \<and> consumed m' = consumed m \<and>
     sn_allocated sn = allocated m \<and> sn_consumed sn = consumed m \<and> sn_level sn = enforcement_level (fst (mon_budget m)) \<and>
     enforcement_level (fst (mon_budget m')) = enforcement_level (fst (mon_budget m)) \<and> mon_enforcer m' = mon_enforcer m"
  by (cases "mon_budget m") (simp add: take_snapshot_def get_snapshot_def Let_def allocated_def consumed_def)

lemma consume_run:
  "\<exists>level m'. consume_tokens mo tokens cost m = (Inr level, m') \<and> allocated m' = allocated m \<and> consumed m' = consumed m + tokens"
  by (cases "mon_budget m")
    (simp add: consume_tokens_def record_consumption_def consume_def Let_def allocated_def consumed_def)

text \<open>What a granted workflow is going to record.\<close>

fun reserved :: "allocation_params \<times> allocation_phase \<Rightarrow> int" where
  "reserved (p, Granted _) = ap_tokens p"
| "reserved (p, _) = 0"

lemma allocation_step_run:
  "\<exists>ph m'. allocation_step mo p before m = (Inr ph, m') \<and> allocated m' = allocated m \<and>
     (before = Waiting \<and> ap_tokens p \<le> allocated m - consumed m \<and> \<not> halted m \<and> (\<exists>pct. ph = Granted pct) \<and> consumed m' = consumed m \<or>
      before = Waiting \<and> \<not> (ap_tokens p \<le> allocated m - consumed m \<and> \<not> halted m) \<and>
        (\<exists>r. ph = Finished r \<and> \<not> re_allowed r) \<and> consumed m' = consumed m \<or>
      (\<exists>pct. before = Granted pct) \<and> (\<exists>r. ph = Finished r \<and> re_allowed r) \<and> consumed m' = consumed m + ap_tokens p \<or>
      (\<exists>r. before = Finished r) \<and> ph = before \<and> consumed m' = consumed m)"
proof (cases before)
  case Waiting
  obtain sn m' where "take_snapshot (mo_now mo) m = (Inr sn, m')" "allocated m' = allocated m" "consumed m' = consumed m"
    "sn_allocated sn = allocated m" "sn_consumed sn = consumed m" "sn_level sn = enforcement_level (fst (mon_budget m))"
    using take_snapshot_run by blast
  then show ?thesis by (simp add: Waiting act_check_budget_for_task_def chain_run check_allows_def halted_def)
next
  case (Granted pct)
  obtain level m' where "consume_tokens mo (ap_tokens p) (ap_cost p) m = (Inr level, m')" "allocated m' = allocated m"
    "consumed m' = consumed m + ap_tokens p" using consume_run by blast
  then show ?thesis by (simp add: Granted act_record_consumption_def chain_run)
qed simp

lemma sum_list_le: "\<forall>x\<in>set xs. x \<le> e \<Longrightarrow> sum_list xs \<le> int (length xs) * e" for xs :: "int list"
  by (induction xs) (auto simp: algebra_simps)

lemma sum_list_changed: "i < length xs \<Longrightarrow> sum_list (xs[i := x]) = sum_list xs + x - xs ! i" for xs :: "int list"
  by (induction xs arbitrary: i) (auto simp: nth_Cons split: nat.split)

lemma sum_but_one:
  fixes xs :: "int list"
  assumes "i < length xs" and "xs ! i = 0" and "\<forall>x\<in>set xs. x \<le> e" and "0 \<le> e"
  shows "sum_list xs + e \<le> int (length xs) * e"
proof -
  have "sum_list (xs[i := e]) = sum_list xs + e" using assms(1,2) by (simp add: sum_list_changed)
  moreover have "\<forall>x\<in>set (xs[i := e]). x \<le> e" using assms(3) by (auto dest: set_update_subset_insert [THEN subsetD])
  ultimately show ?thesis using sum_list_le [of "xs[i := e]" e] by simp
qed

definition overdraft_ok :: "int \<Rightarrow> int \<Rightarrow> nat \<Rightarrow> 'p allocations \<Rightarrow> bool" where
  "overdraft_ok a e n s \<longleftrightarrow> allocated (fst s) = a \<and> length (snd s) = n \<and> list_all (\<lambda>(p, _). 0 \<le> ap_tokens p \<and> ap_tokens p \<le> e) (snd s) \<and>
     consumed (fst s) + sum_list (map reserved (snd s)) \<le> a + (int n - 1) * e"

lemma reserved_bounds: "0 \<le> ap_tokens p \<Longrightarrow> ap_tokens p \<le> e \<Longrightarrow> 0 \<le> reserved (p, ph) \<and> reserved (p, ph) \<le> e"
  by (cases ph) auto

lemma schedule_step_ok:
  assumes "overdraft_ok a e n s"
  shows "overdraft_ok a e n (schedule_step (mo, i) s)"
proof (cases s)
  case (Pair m fs)
  show ?thesis
  proof (cases "i < length fs")
    case True
    obtain p before where f: "fs ! i = (p, before)" by fastforce
    obtain ph m' where run: "allocation_step mo p before m = (Inr ph, m')" "allocated m' = allocated m"
      and step: "before = Waiting \<and> ap_tokens p \<le> allocated m - consumed m \<and> \<not> halted m \<and> (\<exists>pct. ph = Granted pct) \<and> consumed m' = consumed m \<or>
        before = Waiting \<and> \<not> (ap_tokens p \<le> allocated m - consumed m \<and> \<not> halted m) \<and> (\<exists>r. ph = Finished r \<and> \<not> re_allowed r) \<and> consumed m' = consumed m \<or>
        (\<exists>pct. before = Granted pct) \<and> (\<exists>r. ph = Finished r \<and> re_allowed r) \<and> consumed m' = consumed m + ap_tokens p \<or>
        (\<exists>r. before = Finished r) \<and> ph = before \<and> consumed m' = consumed m"
      using allocation_step_run [of mo p before m] by blast
    have ok: "allocated m = a" "length fs = n" "list_all (\<lambda>(p, _). 0 \<le> ap_tokens p \<and> ap_tokens p \<le> e) fs"
      "consumed m + sum_list (map reserved fs) \<le> a + (int n - 1) * e" using assms by (simp_all add: overdraft_ok_def Pair)
    have "(p, before) \<in> set fs" using True f nth_mem by metis
    then have p: "0 \<le> ap_tokens p" "ap_tokens p \<le> e" using ok(3) by (auto simp: list_all_iff)
    have new: "sum_list (map reserved (fs[i := (p, ph)])) = sum_list (map reserved fs) + reserved (p, ph) - reserved (p, before)"
      using True f by (simp add: map_update sum_list_changed)
    have all: "list_all (\<lambda>(p, _). 0 \<le> ap_tokens p \<and> ap_tokens p \<le> e) (fs[i := (p, ph)])"
      using ok(3) p by (auto simp: list_all_iff dest!: set_update_subset_insert [THEN subsetD])
    have "consumed m' + sum_list (map reserved (fs[i := (p, ph)])) \<le> a + (int n - 1) * e"
      using step
    proof (elim disjE)
      assume s: "before = Waiting \<and> ap_tokens p \<le> allocated m - consumed m \<and> \<not> halted m \<and> (\<exists>pct. ph = Granted pct) \<and> consumed m' = consumed m"
      have "\<forall>x\<in>set (map reserved fs). x \<le> e" using ok(3) reserved_bounds by (fastforce simp: list_all_iff)
      then have "sum_list (map reserved fs) + e \<le> int n * e"
        using sum_but_one [of i "map reserved fs" e] True f s ok(2) p by simp
      then show ?thesis using s ok(1) by (auto simp: new algebra_simps)
    qed (unfold new, use ok(4) in auto)
    then show ?thesis using run True f ok(1,2) all by (simp add: overdraft_ok_def schedule_step_def Pair)
  next
    case False
    then show ?thesis using assms by (simp add: schedule_step_def Pair)
  qed
qed

lemma run_schedule_ok: "overdraft_ok a e n s \<Longrightarrow> overdraft_ok a e n (run_schedule sched s)"
  unfolding run_schedule_def
proof (induction sched arbitrary: s)
  case (Cons c sched)
  then show ?case using schedule_step_ok [of a e n s "fst c" "snd c"] by simp
qed simp

definition waiting :: "allocation_params list \<Rightarrow> (allocation_params \<times> allocation_phase) list" where
  "waiting ps = map (\<lambda>p. (p, Waiting)) ps"


text \<open>The bound is reached: two checks, then two records of the whole budget.\<close>

definition small_config :: gov_config where
  "small_config = default_gov_config\<lparr>total_tokens := 100\<rparr>"

definition greedy :: allocation_params where
  "greedy = \<lparr>ap_task = ''t'', ap_tokens = 100, ap_agent = ''a'', ap_cost = 0\<rparr>"

definition noon :: moment where
  "noon = \<lparr>mo_now = 0, mo_db_up = False\<rparr>"


text \<open>An estimate below zero is granted and lowers the consumption.\<close>

lemma negative_estimate_credits:
  assumes "ap_tokens p < 0" and "consumed m \<le> allocated m" and "\<not> halted m"
  shows "\<exists>r m'. budget_allocation_workflow t1 t2 p m = (Inr (Finished r), m') \<and> re_allowed r \<and> consumed m' < consumed m"
proof -
  obtain pct m1 where s1: "allocation_step t1 p Waiting m = (Inr (Granted pct), m1)" "consumed m1 = consumed m"
    using allocation_step_run [of t1 p Waiting m] assms by fastforce
  obtain r m2 where "allocation_step t2 p (Granted pct) m1 = (Inr (Finished r), m2)" "re_allowed r" "consumed m2 = consumed m1 + ap_tokens p"
    using allocation_step_run [of t2 p "Granted pct" m1] by fastforce
  with s1 assms(1) show ?thesis by (simp add: budget_allocation_workflow_def chain_run)
qed

section \<open>Monitoring\<close>

text \<open>
  The monitoring workflow ends after at most the given iterations, and it enforces nothing: whatever the level, the state of the
  enforcer is the one the service leaves it in.
\<close>

lemma enforcer_untouched:
  "(\<And>i m. mon_enforcer (rest i m) = mon_enforcer m) \<Longrightarrow>
    \<exists>i' level' m'. monitoring_loop clock rest every n i level m = (Inr (i', level'), m') \<and> i' \<le> i + n \<and> mon_enforcer m' = mon_enforcer m"
proof (induction n arbitrary: i level m)
  case (Suc n)
  obtain sn m1 where s: "take_snapshot (mo_now (fst (clock i))) m = (Inr sn, m1)" "mon_enforcer m1 = mon_enforcer m"
    using take_snapshot_run [of "mo_now (fst (clock i))" m] by blast
  define m2 where "m2 = (if int (i + 1) mod max every 1 = 0 then m1\<lparr>mon_scorer := snd (compute_scores (snd (clock i)) (mon_scorer m1))\<rparr> else m1)"
  have m2: "mon_enforcer m2 = mon_enforcer m" using s(2) by (simp add: m2_def)
  obtain i' level' m' where r: "monitoring_loop clock rest every n (i + 1) (sn_level sn) (rest i m2) = (Inr (i', level'), m')"
    "i' \<le> i + 1 + n" "mon_enforcer m' = mon_enforcer (rest i m2)" using Suc.IH [OF Suc.prems] by blast
  have "monitoring_loop clock rest every (Suc n) i level m =
      (if sn_level sn = EnforcementLevel.HALT then (Inr (i + 1, sn_level sn), m1)
       else monitoring_loop clock rest every n (i + 1) (sn_level sn) (rest i m2))"
    using s(1) by (simp add: act_get_budget_status_def act_enforce_budget_def act_compute_efficiency_def chain_run m2_def split: prod.split)
  then show ?case using r m2 s(2) Suc.prems by auto
qed simp

end
