(* ===== verification/Ledger_Api.thy ===== *)
theory Ledger_Api
  imports World_Ledger Schema
begin

text \<open>
  The event log (\<^verbatim>\<open>event_log.py\<close>) and the routes (\<^verbatim>\<open>api/routes.py\<close>) of the World State Ledger.
  The table \<^verbatim>\<open>event_log\<close> is the list of its rows in the order of insertion, its constraints are the primary
  key and the unique idempotency key. An append is a query and an insert, between which other appends may run. Rows of the
  same time come in the order of insertion.
\<close>

section \<open>The table\<close>

record event_row =
  ew_id :: string
  ew_type :: string
  ew_timestamp :: int
  ew_version :: "int option"
  ew_proposal :: "string option"
  ew_task :: "string option"
  ew_agent :: "string option"
  ew_payload :: "json option"
  ew_source :: "string option"
  ew_key :: "string option"

text \<open>An entry is a dict; what it does not have is \<open>None\<close>.\<close>

record event_entry =
  en_id :: "string option"
  en_type :: "string option"
  en_timestamp :: "int option"
  en_version :: "int option"
  en_proposal :: "string option"
  en_task :: "string option"
  en_agent :: "string option"
  en_payload :: "json option"
  en_source :: "string option"
  en_key :: "string option"

definition given_or :: "'a \<Rightarrow> 'a option \<Rightarrow> 'a" where
  "given_or d x = (case x of None \<Rightarrow> d | Some y \<Rightarrow> y)"

text \<open>\<^verbatim>\<open>if idempotency_key\<close>: neither missing nor empty.\<close>

definition truthy_key :: "event_entry \<Rightarrow> bool" where
  "truthy_key e \<longleftrightarrow> en_key e \<noteq> None \<and> en_key e \<noteq> Some []"

definition event_id_for :: "string \<Rightarrow> event_entry \<Rightarrow> string" where
  "event_id_for new e = (case en_id e of None \<Rightarrow> new | Some i \<Rightarrow> if i = [] then new else i)"

definition row_data :: "int \<Rightarrow> string \<Rightarrow> event_entry \<Rightarrow> event_row" where
  "row_data now i e =
     \<lparr>ew_id = i, ew_type = given_or ''unknown'' (en_type e), ew_timestamp = given_or now (en_timestamp e),
      ew_version = en_version e, ew_proposal = en_proposal e, ew_task = en_task e, ew_agent = en_agent e,
      ew_payload = en_payload e, ew_source = Some (given_or ''world-state-ledger'' (en_source e)), ew_key = en_key e\<rparr>"

definition find_by_idempotency_key :: "string option \<Rightarrow> event_row list \<Rightarrow> event_row option" where
  "find_by_idempotency_key k t = find (\<lambda>r. ew_key r = k) t"

text \<open>The insert; with \<^verbatim>\<open>ON CONFLICT (idempotency_key) DO NOTHING\<close> a present key is no error.\<close>

definition insert_event :: "bool \<Rightarrow> event_row \<Rightarrow> event_row list \<Rightarrow> exn + event_row list" where
  "insert_event lax r t =
     (if ew_id r \<in> set (map ew_id t) then Inl (ExternalError ''IntegrityError'')
      else if ew_key r \<noteq> None \<and> ew_key r \<in> set (map ew_key t)
      then (if lax then Inr t else Inl (ExternalError ''IntegrityError''))
      else Inr (t @ [r]))"

section \<open>Appending\<close>

text \<open>The two statements of an append, and the append with nothing in between.\<close>

definition look_up :: "event_entry \<Rightarrow> (exn, event_row list, event_row option) op" where
  "look_up e = reads (\<lambda>t. if truthy_key e then find_by_idempotency_key (en_key e) t else None)"

definition do_insert :: "int \<Rightarrow> string \<Rightarrow> event_entry \<Rightarrow> (exn, event_row list, string) op" where
  "do_insert now new e = (\<lambda>t.
     case insert_event (truthy_key e) (row_data now (event_id_for new e) e) t of
       Inl x \<Rightarrow> (Inl x, t) | Inr t' \<Rightarrow> (Inr (event_id_for new e), t'))"

definition append_event :: "int \<Rightarrow> string \<Rightarrow> event_entry \<Rightarrow> (exn, event_row list, string) op" where
  "append_event now new e =
     chain (look_up e) (\<lambda>existing. case existing of Some r \<Rightarrow> ret (ew_id r) | None \<Rightarrow> do_insert now new e)"

section \<open>Reading\<close>

definition wanted :: "string option \<Rightarrow> (event_row \<Rightarrow> string option) \<Rightarrow> event_row \<Rightarrow> bool" where
  "wanted v f r \<longleftrightarrow> v = None \<or> f r = v"

definition query_events :: "string option \<Rightarrow> string option \<Rightarrow> string option \<Rightarrow> nat \<Rightarrow> nat \<Rightarrow> event_row list \<Rightarrow> event_row list" where
  "query_events ty task agent limit offset t =
     page offset limit (sort_key (\<lambda>r. - ew_timestamp r)
       (filter (\<lambda>r. wanted ty (Some \<circ> ew_type) r \<and> wanted task ew_task r \<and> wanted agent ew_agent r) t))"

definition get_event_by_id :: "string \<Rightarrow> event_row list \<Rightarrow> event_row option" where
  "get_event_by_id i t = find (\<lambda>r. ew_id r = i) t"

section \<open>Routes\<close>

definition state_route :: "('c, 'p) wsl_env \<Rightarrow> json \<Rightarrow> (exn, ('c, 'p) ledger, (string \<times> json) list) op" where
  "state_route env now = get_current env now"

definition not_found_404 :: "(exn, 's, 'a reply) op \<Rightarrow> (exn, 's, 'a reply) op" where
  "not_found_404 m = attempt m (\<lambda>e. case e of LedgerVersionNotFoundError msg \<Rightarrow> ret (Http_Error 404 msg) | _ \<Rightarrow> raise e)"

definition state_version_route ::
    "('c, 'p) wsl_env \<Rightarrow> json \<Rightarrow> int \<Rightarrow> (exn, ('c, 'p) ledger, (string \<times> json) list reply) op" where
  "state_version_route env now v =
     not_found_404 (chain (lift_sum (\<lambda>s. get_version (wsl_vf env) now v (l_rows s))) (\<lambda>w. ret (Reply w)))"

definition ledger_submit_route :: "('c, 'p) wsl_env \<Rightarrow> json \<Rightarrow> proposal \<Rightarrow> (exn, ('c, 'p) ledger, string) op" where
  "ledger_submit_route env now p = submit_proposal env now p"

definition commit_proposal_route ::
    "('c, 'p) wsl_env \<Rightarrow> json \<Rightarrow> string \<Rightarrow> (exn, ('c, 'p) ledger, (string \<times> bool) reply) op" where
  "commit_proposal_route env now pid = not_found_404 (chain (validate_and_commit env now pid) (\<lambda>ok. ret (Reply (pid, ok))))"

definition nonempty :: "string option \<Rightarrow> string option" where
  "nonempty x = (if x = Some [] then None else x)"

definition query_events_route ::
    "string option \<Rightarrow> string option \<Rightarrow> string option \<Rightarrow> int \<Rightarrow> int \<Rightarrow> (exn, event_row list, event_row list) op" where
  "query_events_route ty task agent limit offset =
     (if 1 \<le> limit \<and> limit \<le> 1000 \<and> 0 \<le> offset
      then reads (query_events ty (nonempty task) (nonempty agent) (nat limit) (nat offset))
      else raise (ValidationError ''Query''))"

section \<open>Many appends at once\<close>

datatype append_phase = Asking | Missing_Key | Appended string | Refused exn

text \<open>An append: what it reads from outside, its entry, and how far it is.\<close>

record append_flow =
  fl_now :: int
  fl_new :: string
  fl_entry :: event_entry
  fl_phase :: append_phase

fun append_step :: "append_flow \<Rightarrow> event_row list \<Rightarrow> append_flow \<times> event_row list" where
  "append_step f t = (case fl_phase f of
      Asking \<Rightarrow> (case look_up (fl_entry f) t of
          (Inl x, t') \<Rightarrow> (f\<lparr>fl_phase := Refused x\<rparr>, t')
        | (Inr (Some r), t') \<Rightarrow> (f\<lparr>fl_phase := Appended (ew_id r)\<rparr>, t')
        | (Inr None, t') \<Rightarrow> (f\<lparr>fl_phase := Missing_Key\<rparr>, t'))
    | Missing_Key \<Rightarrow> (case do_insert (fl_now f) (fl_new f) (fl_entry f) t of
          (Inl x, t') \<Rightarrow> (f\<lparr>fl_phase := Refused x\<rparr>, t')
        | (Inr i, t') \<Rightarrow> (f\<lparr>fl_phase := Appended i\<rparr>, t'))
    | _ \<Rightarrow> (f, t))"

definition log_step :: "nat \<Rightarrow> append_flow list \<times> event_row list \<Rightarrow> append_flow list \<times> event_row list" where
  "log_step i s = (case s of (fs, t) \<Rightarrow>
     if i < length fs then (case append_step (fs ! i) t of (f, t') \<Rightarrow> (fs[i := f], t')) else s)"

definition log_run :: "nat list \<Rightarrow> append_flow list \<times> event_row list \<Rightarrow> append_flow list \<times> event_row list" where
  "log_run sched s = fold log_step sched s"

definition present_keys :: "event_row list \<Rightarrow> string list" where
  "present_keys t = List.map_filter ew_key t"

definition table_ok :: "event_row list \<Rightarrow> bool" where
  "table_ok t \<longleftrightarrow> distinct (map ew_id t) \<and> distinct (present_keys t)"

text \<open>A finished append is in the table: under its key if it has one, else under the identifier it returned.\<close>

definition recorded :: "event_row list \<Rightarrow> append_flow \<Rightarrow> bool" where
  "recorded t f \<longleftrightarrow> (case fl_phase f of
      Appended i \<Rightarrow> if truthy_key (fl_entry f) then en_key (fl_entry f) \<in> set (map ew_key t) else i \<in> set (map ew_id t)
    | _ \<Rightarrow> True)"

lemma set_present_keys: "k \<in> set (present_keys t) \<longleftrightarrow> Some k \<in> set (map ew_key t)"
  by (induction t) (auto simp: present_keys_def List.map_filter_simps split: option.split)

lemma insert_event_ok: "table_ok t \<Longrightarrow> insert_event lax r t = Inr t' \<Longrightarrow> table_ok t'"
  using set_present_keys [of _ t]
  by (auto simp: insert_event_def table_ok_def present_keys_def List.map_filter_def split: if_splits)

lemma insert_event_prefix: "insert_event lax r t = Inr t' \<Longrightarrow> \<exists>rs. t' = t @ rs"
  by (auto simp: insert_event_def split: if_splits)

lemma find_Some: "find P xs = Some x \<Longrightarrow> x \<in> set xs \<and> P x"
  by (induction xs) (auto split: if_splits)

lemma append_step_ok:
  assumes "table_ok t" and "append_step f t = (f', t')" and "recorded t f"
  shows "table_ok t' \<and> (\<exists>rs. t' = t @ rs) \<and> recorded t' f'"
proof (cases "fl_phase f")
  case Asking
  then show ?thesis
    using assms by (auto simp: look_up_def recorded_def find_by_idempotency_key_def split: option.splits if_splits dest!: find_Some
        intro: image_eqI [OF sym])
next
  case Missing_Key
  show ?thesis
  proof (cases "insert_event (truthy_key (fl_entry f)) (row_data (fl_now f) (event_id_for (fl_new f) (fl_entry f)) (fl_entry f)) t")
    case (Inl x)
    then show ?thesis using assms Missing_Key by (auto simp: do_insert_def recorded_def)
  next
    case (Inr u)
    then have "t' = u" "f' = f\<lparr>fl_phase := Appended (event_id_for (fl_new f) (fl_entry f))\<rparr>"
      using assms(2) Missing_Key by (auto simp: do_insert_def)
    moreover have "table_ok u" using insert_event_ok [OF assms(1) Inr] .
    moreover have "\<exists>rs. u = t @ rs" using insert_event_prefix [OF Inr] .
    moreover have "if truthy_key (fl_entry f) then en_key (fl_entry f) \<in> set (map ew_key u) else event_id_for (fl_new f) (fl_entry f) \<in> set (map ew_id u)"
      using Inr by (auto simp: insert_event_def row_data_def truthy_key_def split: if_splits)
    ultimately show ?thesis by (auto simp: recorded_def image_Un split: if_splits)
  qed
qed (use assms in \<open>auto simp: recorded_def\<close>)

lemma recorded_more: "recorded t f \<Longrightarrow> recorded (t @ rs) f"
  by (auto simp: recorded_def split: append_phase.splits if_splits)

lemma log_step_ok:
  assumes "table_ok t" and "list_all (recorded t) fs" and "log_step i (fs, t) = (fs', t')"
  shows "table_ok t' \<and> (\<exists>rs. t' = t @ rs) \<and> list_all (recorded t') fs'"
proof (cases "i < length fs")
  case True
  obtain f u where step: "append_step (fs ! i) t = (f, u)" by fastforce
  then have new: "fs' = fs[i := f]" "t' = u" using assms(3) True by (simp_all add: log_step_def)
  have "recorded t (fs ! i)" using assms(2) True by (simp add: list_all_length)
  from append_step_ok [OF assms(1) step this] obtain rs where ok: "table_ok u" "u = t @ rs" "recorded u f" by blast
  then have "list_all (recorded u) fs" using assms(2) by (auto simp: list_all_iff recorded_more)
  with ok True show ?thesis unfolding new by (auto simp: list_all_length nth_list_update)
qed (use assms in \<open>simp add: log_step_def\<close>)

lemma log_run_ok:
  "table_ok t \<Longrightarrow> list_all (recorded t) fs \<Longrightarrow> log_run sched (fs, t) = (fs', t') \<Longrightarrow>
    table_ok t' \<and> (\<exists>rs. t' = t @ rs) \<and> list_all (recorded t') fs'"
proof (induction sched arbitrary: fs t)
  case (Cons i sched)
  obtain gs u where s: "log_step i (fs, t) = (gs, u)" by fastforce
  from log_step_ok [OF Cons.prems(1,2) s] obtain rs where ok: "table_ok u" "u = t @ rs" "list_all (recorded u) gs" by blast
  moreover have "log_run sched (gs, u) = (fs', t')" using Cons.prems(3) s by (simp add: log_run_def)
  ultimately show ?case using Cons.IH [of u gs] by auto
qed (simp add: log_run_def)

definition starting :: "(int \<times> string \<times> event_entry) list \<Rightarrow> append_flow list" where
  "starting es = map (\<lambda>(now, new, e). \<lparr>fl_now = now, fl_new = new, fl_entry = e, fl_phase = Asking\<rparr>) es"

text \<open>
  C37: However the queries and inserts of any number of appends are interleaved, the log only grows at its end, no identifier and no
  idempotency key is ever there twice, and an append that returned is in the log, under its key if it has one and
  otherwise under the identifier it returned.
\<close>

theorem event_log_exactly_once:
  assumes "table_ok t"
  shows "case log_run sched (starting es, t) of (fs, t') \<Rightarrow>
    table_ok t' \<and> take (length t) t' = t \<and> list_all (recorded t') fs"
proof -
  obtain fs t' where r: "log_run sched (starting es, t) = (fs, t')" by fastforce
  have "list_all (recorded t) (starting es)" by (auto simp: starting_def recorded_def list_all_iff)
  with log_run_ok [OF assms _ r] show ?thesis by (auto simp: r)
qed

definition keyed_entry :: "string \<Rightarrow> event_entry" where
  "keyed_entry k = \<lparr>en_id = None, en_type = Some ''task.created'', en_timestamp = Some 0, en_version = None, en_proposal = None, en_task = None,
     en_agent = None, en_payload = None, en_source = None, en_key = Some k\<rparr>"

theorem event_log_exactly_once_witness:
  "case log_run [0, 1, 0, 1] (starting [(1, ''evt-1'', keyed_entry ''k''), (2, ''evt-2'', keyed_entry ''k'')], []) of (fs, t') \<Rightarrow>
    table_ok t' \<and> take (length ([] :: event_row list)) t' = [] \<and> list_all (recorded t') fs"
  by (rule event_log_exactly_once) (simp add: table_ok_def present_keys_def List.map_filter_simps)

text \<open>
  The loser of a race gets an identifier that is nowhere in the log; one after the other, the second append
  gets the identifier of the first.
\<close>

lemma race_returns_unknown_id:
  "case log_run [0, 1, 0, 1] (starting [(1, ''evt-1'', keyed_entry ''k''), (2, ''evt-2'', keyed_entry ''k'')], []) of (fs, t') \<Rightarrow>
    map fl_phase fs = [Appended ''evt-1'', Appended ''evt-2''] \<and> map ew_id t' = [''evt-1'']"
  by code_simp

lemma append_twice:
  assumes "truthy_key e" and "en_key e' = en_key e" and "append_event now new e t = (Inr i, t')" and "table_ok t"
  shows "\<exists>j. append_event now' new' e' t' = (Inr j, t') \<and> (find_by_idempotency_key (en_key e) t \<noteq> None \<longrightarrow> j = i)"
proof -
  have k: "truthy_key e'" using assms(1,2) by (simp add: truthy_key_def)
  show ?thesis
  proof (cases "find_by_idempotency_key (en_key e) t")
    case None
    then have "en_key e \<in> set (map ew_key t')"
      using assms(1,3) by (auto simp: append_event_def chain_run look_up_def do_insert_def insert_event_def row_data_def truthy_key_def
          split: sum.splits if_splits)
    then have "find_by_idempotency_key (en_key e) t' \<noteq> None" by (auto simp: find_by_idempotency_key_def find_None_iff)
    then show ?thesis using k None assms(2) by (auto simp: append_event_def chain_run look_up_def)
  next
    case (Some r)
    then have "t' = t" "i = ew_id r" using assms(1,3) by (auto simp: append_event_def chain_run look_up_def)
    then show ?thesis using k Some assms(2) by (simp add: append_event_def chain_run look_up_def)
  qed
qed

text \<open>An empty key is stored, so that the second entry with one is refused.\<close>

lemma empty_key_refused:
  "en_key e = Some [] \<Longrightarrow> en_key e' = Some [] \<Longrightarrow> append_event now new e [] = (Inr i, t) \<Longrightarrow>
    append_event now' new' e' t = (Inl (ExternalError ''IntegrityError''), t)"
  by (auto simp: append_event_def chain_run look_up_def truthy_key_def do_insert_def insert_event_def row_data_def)

text \<open>The pages of a query together are its whole result, newest first.\<close>

lemma query_pages:
  assumes "0 < limit" and "length (query_events ty task agent (length t) 0 t) \<le> n * limit"
  shows "concat (map (\<lambda>i. query_events ty task agent limit (i * limit) t) [0..<n]) = query_events ty task agent (length t) 0 t"
proof -
  let ?xs = "sort_key (\<lambda>r. - ew_timestamp r) (filter (\<lambda>r. wanted ty (Some \<circ> ew_type) r \<and> wanted task ew_task r \<and> wanted agent ew_agent r) t)"
  have "query_events ty task agent (length t) 0 t = ?xs" by (simp add: query_events_def page_def)
  then show ?thesis using pages_cover [OF assms(1), of ?xs n] assms(2) by (simp add: query_events_def)
qed

text \<open>A conflict of versions is no 404: the exception leaves the route.\<close>

lemma conflict_unhandled:
  "validate_and_commit env now pid s = (Inl (OptimisticConcurrencyError a b), s') \<Longrightarrow>
    commit_proposal_route env now pid s = (Inl (OptimisticConcurrencyError a b), s')"
  by (simp add: commit_proposal_route_def not_found_404_def attempt_run chain_run)

end
