(* ===== verification/Host_Workspaces.thy ===== *)
theory Host_Workspaces
  imports Sandbox_Session "HOL-Library.AList"
begin

text \<open>
  The host side of the Execution Sandbox: the workspaces of \<^verbatim>\<open>file_manager.py\<close> and the probes of
  \<^verbatim>\<open>kvm_check.py\<close>. The host below the root of the workspaces is an association list from paths (their parts) to nodes;
  a workspace is a directory of one part, whose fresh name is an argument. A file has a text, or none where it cannot be read as
  text; of a link it is known what opening it reads. The exceptions of the file system are \<open>ExternalError\<close>s.
  The walk lists the files in the order of their creation.
\<close>

section \<open>Host files\<close>

datatype host_node = Dir | File "string option" | Link "string option"

type_synonym host = "(string list \<times> host_node) list"

definition os_error :: "string \<Rightarrow> exn" where
  "os_error n = ExternalError n"

text \<open>\<^verbatim>\<open>os.makedirs(base/parts, exist_ok=True)\<close>, from the outermost directory inwards.\<close>

fun make_dirs :: "string list \<Rightarrow> string list \<Rightarrow> (exn, host, unit) op" where
  "make_dirs base [] h = (Inr (), h)"
| "make_dirs base (c # cs) h =
     (if CHR 0x00 \<in> set c then (Inl (ValueError ''embedded null byte''), h)
      else case map_of h (base @ [c]) of
          None \<Rightarrow> make_dirs (base @ [c]) cs (h @ [(base @ [c], Dir)])
        | Some Dir \<Rightarrow> make_dirs (base @ [c]) cs h
        | Some _ \<Rightarrow> (Inl (os_error (if cs = [] then ''FileExistsError'' else ''NotADirectoryError'')), h))"

definition open_write :: "string list \<Rightarrow> string \<Rightarrow> (exn, host, unit) op" where
  "open_write p content h =
     (if CHR 0x00 \<in> set (last p) then (Inl (ValueError ''embedded null byte''), h)
      else if map_of h p = Some Dir then (Inl (os_error ''IsADirectoryError''), h)
      else (Inr (), AList.update p (File (Some content)) h))"

section \<open>Preparing a workspace\<close>

definition clean_path :: "string \<Rightarrow> string" where
  "clean_path p = dropWhile (\<lambda>c. c = CHR ''/'') p"

text \<open>A path whose last raw part is empty or a dot names a directory.\<close>

definition names_directory :: "string \<Rightarrow> bool" where
  "names_directory p \<longleftrightarrow> last (split_on CHR ''/'' p) \<in> {[], ''.''}"

definition write_workspace_file :: "string \<Rightarrow> string \<times> string \<Rightarrow> (exn, host, unit) op" where
  "write_workspace_file ws = (\<lambda>(path, content).
     let clean = clean_path path; ps = posix_parts clean
     in if occurs_in ''..'' clean then ret ()
        else if names_directory clean
        then chain (make_dirs [ws] ps) (\<lambda>_. raise (os_error ''IsADirectoryError''))
        else chain (make_dirs [ws] (butlast ps)) (\<lambda>_. open_write (ws # ps) content))"

definition prepare_workspace :: "string \<Rightarrow> (string \<times> string) list \<Rightarrow> (exn, host, string) op" where
  "prepare_workspace ws files =
     chain (make_dirs [] [ws]) (\<lambda>_. chain (for_each (write_workspace_file ws) files) (\<lambda>_. ret ws))"

section \<open>Patterns\<close>

text \<open>\<^verbatim>\<open>fnmatch\<close>: a star also matches slashes. In a set, a pair around a dash is a range, and a dash elsewhere is itself.\<close>

datatype glob_part = Star | Any_Char | One_Of bool "(char \<times> char) list" | Exactly char

fun char_ranges :: "string \<Rightarrow> (char \<times> char) list" where
  "char_ranges [] = []"
| "char_ranges [a] = [(a, a)]"
| "char_ranges [a, b] = [(a, a), (b, b)]"
| "char_ranges (a # b # c # s) = (if b = CHR ''-'' then (a, c) # char_ranges s else (a, a) # char_ranges (b # c # s))"

text \<open>The inside of a set that starts here and the rest behind its bracket; a bracket right at the start belongs to the set.\<close>

definition set_body :: "string \<Rightarrow> (bool \<times> string \<times> string) option" where
  "set_body s =
     (let neg = (s \<noteq> [] \<and> hd s = CHR ''!''); s1 = (if neg then tl s else s);
          first = (if s1 \<noteq> [] \<and> hd s1 = CHR '']'' then 1 else 0);
          body = take first s1 @ takeWhile (\<lambda>c. c \<noteq> CHR '']'') (drop first s1); rest = drop (length body) s1
      in if rest = [] then None else Some (neg, body, tl rest))"

lemma set_body_shorter: "set_body s = Some (neg, body, rest) \<Longrightarrow> length rest < length s"
  by (auto simp: set_body_def Let_def split: if_splits)

function parse_glob :: "string \<Rightarrow> glob_part list" where
  "parse_glob [] = []"
| "parse_glob (c # s) =
     (if c = CHR ''*'' then Star # parse_glob s
      else if c = CHR ''?'' then Any_Char # parse_glob s
      else if c = CHR ''['' then (case set_body s of
          None \<Rightarrow> Exactly c # parse_glob s
        | Some (neg, body, rest) \<Rightarrow> One_Of neg (char_ranges body) # parse_glob rest)
      else Exactly c # parse_glob s)"
  by pat_completeness auto

termination
  by (relation "measure length") (auto dest: set_body_shorter)

definition char_in_range :: "char \<Rightarrow> char \<times> char \<Rightarrow> bool" where
  "char_in_range c = (\<lambda>(a, b). (of_char a :: nat) \<le> of_char c \<and> (of_char c :: nat) \<le> of_char b)"

fun glob_match :: "glob_part list \<Rightarrow> string \<Rightarrow> bool" where
  "glob_match [] s \<longleftrightarrow> s = []"
| "glob_match (Star # gs) [] \<longleftrightarrow> glob_match gs []"
| "glob_match (Star # gs) (c # s) \<longleftrightarrow> glob_match gs (c # s) \<or> glob_match (Star # gs) s"
| "glob_match (g # gs) [] \<longleftrightarrow> False"
| "glob_match (Any_Char # gs) (c # s) \<longleftrightarrow> glob_match gs s"
| "glob_match (One_Of neg rs # gs) (c # s) \<longleftrightarrow> list_ex (char_in_range c) rs \<noteq> neg \<and> glob_match gs s"
| "glob_match (Exactly d # gs) (c # s) \<longleftrightarrow> c = d \<and> glob_match gs s"

definition fnmatch :: "string \<Rightarrow> string \<Rightarrow> bool" where
  "fnmatch name pattern = glob_match (parse_glob pattern) name"

section \<open>Collecting and cleaning up\<close>

text \<open>Reading in text mode: every kind of line end becomes a line feed.\<close>

fun universal_newlines :: "string \<Rightarrow> string" where
  "universal_newlines [] = []"
| "universal_newlines [c] = (if c = CHR 0x0D then [CHR 0x0A] else [c])"
| "universal_newlines (c # d # s) =
     (if c = CHR 0x0D then CHR 0x0A # universal_newlines (if d = CHR 0x0A then s else d # s)
      else c # universal_newlines (d # s))"

definition opened :: "host_node \<Rightarrow> string option" where
  "opened n = (case n of Dir \<Rightarrow> None | File c \<Rightarrow> c | Link c \<Rightarrow> c)"

definition below_workspace :: "string \<Rightarrow> string list \<Rightarrow> bool" where
  "below_workspace ws p \<longleftrightarrow> take 1 p = [ws] \<and> 1 < length p"

definition collected_file :: "string \<Rightarrow> string list \<Rightarrow> string list \<times> host_node \<Rightarrow> (string \<times> string) option" where
  "collected_file ws patterns = (\<lambda>(p, n).
     if below_workspace ws p \<and> n \<noteq> Dir \<and> list_ex (fnmatch (join_with ''/'' (tl p))) patterns
     then map_option (\<lambda>c. (join_with ''/'' (tl p), universal_newlines c)) (opened n) else None)"

definition collect_outputs :: "string \<Rightarrow> string list \<Rightarrow> host \<Rightarrow> (string \<times> string) list" where
  "collect_outputs ws patterns h =
     (if map_of h [ws] \<noteq> Some Dir then [] else List.map_filter (collected_file ws patterns) h)"

definition cleanup_workspace :: "string \<Rightarrow> host \<Rightarrow> host" where
  "cleanup_workspace ws h = (if map_of h [ws] \<noteq> Some Dir then h else filter (\<lambda>(p, _). take 1 p \<noteq> [ws]) h)"

section \<open>Probes\<close>

text \<open>What the host says: an error, or an answer.\<close>

definition is_kvm_available :: "bool \<Rightarrow> exn + bool \<Rightarrow> bool \<Rightarrow> bool" where
  "is_kvm_available there char_device accessible =
     (there \<and> (case char_device of Inl e \<Rightarrow> False | Inr c \<Rightarrow> c \<and> accessible))"

definition is_firecracker_available :: "bool \<Rightarrow> bool \<Rightarrow> bool" where
  "is_firecracker_available is_file executable \<longleftrightarrow> is_file \<and> executable"

section \<open>Nothing host_outside is touched\<close>

definition host_outside :: "string \<Rightarrow> host \<Rightarrow> host" where
  "host_outside ws h = filter (\<lambda>(p, _). take 1 p \<noteq> [ws]) h"

lemma host_outside_update: "take 1 p = [ws] \<Longrightarrow> host_outside ws (AList.update p v h) = host_outside ws h"
  by (induction h) (auto simp: host_outside_def)

lemma make_dirs_outside: "take 1 (base @ cs) = [ws] \<Longrightarrow> host_outside ws (snd (make_dirs base cs h)) = host_outside ws h"
proof (induction base cs h rule: make_dirs.induct)
  case (2 base c cs h)
  then have "take 1 (base @ [c]) = [ws]" by (cases base) auto
  then show ?case using 2 by (auto simp: host_outside_def split: option.split host_node.split)
qed simp

lemma open_write_outside: "take 1 p = [ws] \<Longrightarrow> host_outside ws (snd (open_write p c h)) = host_outside ws h"
  by (simp add: open_write_def host_outside_update)

lemma keeps_outside_dirs: "keeps (\<lambda>h. host_outside ws h = kept) (make_dirs [ws] ps)"
  by (rule keepsI) (simp add: make_dirs_outside)

lemma keeps_outside_open: "keeps (\<lambda>h. host_outside ws h = kept) (open_write (ws # ps) c)"
  by (rule keepsI) (simp add: open_write_outside)

lemma keeps_outside_write: "keeps (\<lambda>h. host_outside ws h = kept) (write_workspace_file ws pc)"
  by (cases pc) (auto simp: write_workspace_file_def Let_def
    intro!: keeps_ret keeps_raise keeps_chain keeps_outside_dirs keeps_outside_open)

text \<open>
  Whatever the names of the files, absolute, with dots or empty, preparing a workspace changes nothing host_outside it, also
  when it raises halfway.
\<close>

lemma prepare_confined: "host_outside ws (snd (prepare_workspace ws files h)) = host_outside ws h"
proof -
  have "keeps (\<lambda>h'. host_outside ws h' = host_outside ws h) (prepare_workspace ws files)"
    unfolding prepare_workspace_def
    by (intro keeps_chain keeps_for_each keeps_outside_write keeps_ret keepsI) (simp add: make_dirs_outside del: make_dirs.simps)
  then show ?thesis by (auto dest: keepsD)
qed

section \<open>What was written comes back\<close>

text \<open>A plain name: one part, no two dots, no null byte.\<close>

definition plain_name :: "string \<Rightarrow> bool" where
  "plain_name n \<longleftrightarrow> n \<noteq> [] \<and> n \<noteq> ''.'' \<and> CHR ''/'' \<notin> set n \<and> \<not> occurs_in ''..'' n \<and> CHR 0x00 \<notin> set n"

lemma plain_parts: "plain_name n \<Longrightarrow> clean_path n = n \<and> posix_parts n = [n] \<and> \<not> names_directory n"
  by (cases n) (auto simp: plain_name_def clean_path_def posix_parts_def names_directory_def split_on_single)

lemma write_plain:
  assumes "plain_name n" and "map_of h [ws, n] \<noteq> Some Dir"
  shows "write_workspace_file ws (n, c) h = (Inr (), AList.update [ws, n] (File (Some c)) h)"
proof -
  have "\<not> occurs_in ''..'' n" "CHR 0x00 \<notin> set n" using assms(1) by (simp_all add: plain_name_def)
  with plain_parts [OF assms(1)] assms(2) show ?thesis
    by (simp add: write_workspace_file_def Let_def chain_run open_write_def)
qed

definition as_files :: "string \<Rightarrow> (string \<times> string) list \<Rightarrow> host" where
  "as_files ws files = map (\<lambda>(n, c). ([ws, n], File (Some c))) files"

lemma write_all_plain:
  assumes "list_all (\<lambda>(n, c). plain_name n) files" and "distinct (keys files)" and "set (map (\<lambda>n. [ws, n]) (keys files)) \<inter> set (keys h) = {}"
  shows "for_each (write_workspace_file ws) files h = (Inr (), h @ as_files ws files)"
  using assms
proof (induction files arbitrary: h)
  case (Cons f files)
  obtain n c where f: "f = (n, c)" by fastforce
  have new: "[ws, n] \<notin> set (keys h)" using Cons.prems(3) by (simp add: f)
  then have "map_of h [ws, n] = None" by (simp add: map_of_eq_None_keys)
  then have "write_workspace_file ws f h = (Inr (), h @ [([ws, n], File (Some c))])"
    using write_plain [of n h ws c] Cons.prems(1) update_absent [OF new] by (simp add: f)
  moreover have "for_each (write_workspace_file ws) files (h @ [([ws, n], File (Some c))]) =
      (Inr (), (h @ [([ws, n], File (Some c))]) @ as_files ws files)"
    by (rule Cons.IH) (use Cons.prems in \<open>auto simp: f\<close>)
  ultimately show ?case by (simp add: chain_run as_files_def f)
qed (simp add: as_files_def)

lemma collected_as_files:
  "List.map_filter (collected_file ws [''*'']) (as_files ws files) = map (\<lambda>(n, c). (n, universal_newlines c)) files"
proof -
  have star: "fnmatch n ''*''" for n
    unfolding fnmatch_def by (induction n) simp_all
  have "join_with ''/'' [n] = n" for n by simp
  then show ?thesis
    by (induction files)
      (auto simp: as_files_def List.map_filter_simps collected_file_def below_workspace_def opened_def star split: option.split)
qed

lemma collected_outside: "list_all (\<lambda>(p, _). take 1 p \<noteq> [ws]) h \<Longrightarrow> List.map_filter (collected_file ws patterns) h = []"
  by (induction h) (auto simp: List.map_filter_simps collected_file_def below_workspace_def)

lemma map_filter_append: "List.map_filter f (xs @ ys) = List.map_filter f xs @ List.map_filter f ys"
  by (simp add: List.map_filter_def)



text \<open>A name with two dots anywhere is skipped without a word; a link in the workspace is followed, wherever it points.\<close>

lemma dotted_name_skipped: "snd (prepare_workspace ''ws'' [(''notes..txt'', ''x'')] []) = [([''ws''], Dir)]"
  by code_simp

lemma link_followed:
  "collect_outputs ''ws'' [''*''] [([''ws''], Dir), ([''ws'', ''out''], Link (Some ''root:x:0:0''))] = [(''out'', ''root:x:0:0'')]"
  by code_simp

end
