(* ===== verification/Repositories.thy ===== *)
theory Repositories
  imports Orm_Models Json "HOL-Library.Multiset"
begin

text \<open>
  The repositories of \<^verbatim>\<open>libs/architect-db/src/architect_db/repositories\<close> over the tables of the models, and the
  session they run in (\<^verbatim>\<open>session.py\<close>). A row lists its columns with their values, a timestamp is an integer; a table
  lists its rows in the order in which a scan finds them, so that rows that compare equal come out in that order.
  How text is ordered, how a JSON value reads as text and how floats are rounded are parameters. A write that
  breaks a constraint is refused as a whole. Python's defaults of a model are taken as filled in.
\<close>

section \<open>Queries\<close>

type_synonym table_row = "(string \<times> json) list"

type_synonym database = "string \<Rightarrow> table_row list"

record db_env =
  collate :: "string \<Rightarrow> rat"
  json_text_of :: "json \<Rightarrow> string"
  rounded :: "rat \<Rightarrow> rat"

definition cell :: "table_row \<Rightarrow> string \<Rightarrow> json" where
  "cell r c = get_or JNull r c"

datatype cond = Equals string json | One_In string "json list" | Is_Null string | Not_Null string | Earlier string int | Json_Is string string string

text \<open>Comparing with NULL selects nothing.\<close>

fun holds :: "db_env \<Rightarrow> cond \<Rightarrow> table_row \<Rightarrow> bool" where
  "holds env (Equals c v) r \<longleftrightarrow> cell r c \<noteq> JNull \<and> cell r c = v"
| "holds env (One_In c vs) r \<longleftrightarrow> cell r c \<noteq> JNull \<and> cell r c \<in> set vs"
| "holds env (Is_Null c) r \<longleftrightarrow> cell r c = JNull"
| "holds env (Not_Null c) r \<longleftrightarrow> cell r c \<noteq> JNull"
| "holds env (Earlier c t) r \<longleftrightarrow> (case cell r c of JInt x \<Rightarrow> x < t | _ \<Rightarrow> False)"
| "holds env (Json_Is c k s) r \<longleftrightarrow> (case obj_get (cell r c) k of
      None \<Rightarrow> False
    | Some JNull \<Rightarrow> False
    | Some v \<Rightarrow> json_text_of env v = s)"

datatype ordering = Asc string | Desc string

text \<open>NULL is greater than every value. The values of one column have one kind.\<close>

definition cell_key :: "db_env \<Rightarrow> json \<Rightarrow> nat \<times> rat" where
  "cell_key env v = (case v of
      JNull \<Rightarrow> (3, 0)
    | JStr s \<Rightarrow> (1, collate env s)
    | _ \<Rightarrow> (case number_of v of Some x \<Rightarrow> (0, x) | None \<Rightarrow> (2, 0)))"

definition cell_before :: "db_env \<Rightarrow> json \<Rightarrow> json \<Rightarrow> bool" where
  "cell_before env v w \<longleftrightarrow> (case (cell_key env v, cell_key env w) of ((i, x), (j, y)) \<Rightarrow> i < j \<or> (i = j \<and> x < y))"

fun ordered_before :: "db_env \<Rightarrow> ordering \<Rightarrow> table_row \<Rightarrow> table_row \<Rightarrow> bool" where
  "ordered_before env (Asc c) a b = cell_before env (cell a c) (cell b c)"
| "ordered_before env (Desc c) a b = cell_before env (cell b c) (cell a c)"

fun row_before :: "db_env \<Rightarrow> ordering list \<Rightarrow> table_row \<Rightarrow> table_row \<Rightarrow> bool" where
  "row_before env [] a b \<longleftrightarrow> False"
| "row_before env (o1 # os) a b \<longleftrightarrow>
     ordered_before env o1 a b \<or> (\<not> ordered_before env o1 b a \<and> row_before env os a b)"

fun insert_row :: "(table_row \<Rightarrow> table_row \<Rightarrow> bool) \<Rightarrow> table_row \<Rightarrow> table_row list \<Rightarrow> table_row list" where
  "insert_row before r [] = [r]"
| "insert_row before r (x # xs) = (if before x r then x # insert_row before r xs else r # x # xs)"

definition sort_rows :: "(table_row \<Rightarrow> table_row \<Rightarrow> bool) \<Rightarrow> table_row list \<Rightarrow> table_row list" where
  "sort_rows before rs = foldr (insert_row before) rs []"

record query =
  q_table :: string
  q_where :: "cond list"
  q_order :: "ordering list"
  q_limit :: "int option"
  q_offset :: int

definition matching :: "db_env \<Rightarrow> query \<Rightarrow> database \<Rightarrow> table_row list" where
  "matching env q d = sort_rows (row_before env (q_order q)) (filter (\<lambda>r. list_all (\<lambda>c. holds env c r) (q_where q)) (d (q_table q)))"

definition run_query :: "db_env \<Rightarrow> query \<Rightarrow> database \<Rightarrow> exn + table_row list" where
  "run_query env q d =
     (if q_offset q < 0 \<or> (\<exists>l\<in>set_option (q_limit q). l < 0) then Inl (ExternalError ''DBAPIError'')
      else Inr (let rs = drop (nat (q_offset q)) (matching env q d)
                in case q_limit q of None \<Rightarrow> rs | Some l \<Rightarrow> take (nat l) rs))"

definition select :: "db_env \<Rightarrow> query \<Rightarrow> (exn, database, table_row list) op" where
  "select env q = lift_sum (run_query env q)"

definition select_first :: "db_env \<Rightarrow> query \<Rightarrow> (exn, database, table_row option) op" where
  "select_first env q = chain (select env q) (\<lambda>rs. ret (case rs of [] \<Rightarrow> None | r # _ \<Rightarrow> Some r))"

definition plain_query :: "string \<Rightarrow> cond list \<Rightarrow> query" where
  "plain_query tb cs = \<lparr>q_table = tb, q_where = cs, q_order = [], q_limit = None, q_offset = 0\<rparr>"

definition newest_first :: "query \<Rightarrow> query" where
  "newest_first q = q\<lparr>q_order := [Desc ''created_at'']\<rparr>"

definition oldest_first :: "query \<Rightarrow> query" where
  "oldest_first q = q\<lparr>q_order := [Asc ''created_at'']\<rparr>"

definition limited :: "int \<Rightarrow> query \<Rightarrow> query" where
  "limited l q = q\<lparr>q_limit := Some l\<rparr>"

definition skipping :: "int \<Rightarrow> query \<Rightarrow> query" where
  "skipping n q = q\<lparr>q_offset := n\<rparr>"

definition count_where :: "(table_row \<Rightarrow> bool) \<Rightarrow> table_row list \<Rightarrow> nat" where
  "count_where P rs = length (filter P rs)"

section \<open>Writes and sessions\<close>

definition has_nulls :: "column list \<Rightarrow> table_row \<Rightarrow> bool" where
  "has_nulls cs r \<longleftrightarrow> list_ex (\<lambda>c. \<not> cn_nullable c \<and> cell r (cn_name c) = JNull) cs"

definition values_of :: "string \<Rightarrow> table_row list \<Rightarrow> json list" where
  "values_of c rs = filter (\<lambda>v. v \<noteq> JNull) (map (\<lambda>r. cell r c) rs)"

definition refers_right :: "database \<Rightarrow> table_row list \<Rightarrow> column \<Rightarrow> bool" where
  "refers_right d rs c \<longleftrightarrow> (case cn_refers c of
      None \<Rightarrow> True
    | Some (tb, k) \<Rightarrow> list_all (\<lambda>v. v \<in> set (values_of k (d tb))) (values_of (cn_name c) rs))"

definition table_valid :: "database \<Rightarrow> string \<times> column list \<Rightarrow> bool" where
  "table_valid d = (\<lambda>(tb, cs).
     list_all (\<lambda>r. \<not> has_nulls cs r) (d tb) \<and>
     list_all (\<lambda>c. cn_key c \<or> cn_unique c \<longrightarrow> distinct (values_of (cn_name c) (d tb))) cs \<and>
     list_all (refers_right d (d tb)) cs)"

definition constraints_hold :: "database \<Rightarrow> bool" where
  "constraints_hold d \<longleftrightarrow> list_all (table_valid d) orm_tables"

definition write_table :: "string \<Rightarrow> (table_row list \<Rightarrow> table_row list) \<Rightarrow> (exn, database, unit) op" where
  "write_table tb f = (\<lambda>d.
     let d' = d(tb := f (d tb)) in if constraints_hold d' then (Inr (), d') else (Inl (ExternalError ''IntegrityError''), d))"

definition with_id :: "string \<Rightarrow> table_row \<Rightarrow> bool" where
  "with_id i r \<longleftrightarrow> cell r ''id'' = JStr i"

definition assign :: "table_row \<Rightarrow> table_row \<Rightarrow> table_row" where
  "assign vs r = fold (\<lambda>(c, v). AList.update c v) vs r"

text \<open>\<^verbatim>\<open>update(M).where(M.id == i).values(vs)\<close>.\<close>

definition update_where :: "string \<Rightarrow> (table_row \<Rightarrow> bool) \<Rightarrow> table_row \<Rightarrow> (exn, database, unit) op" where
  "update_where tb P vs = write_table tb (map (\<lambda>r. if P r then assign vs r else r))"

text \<open>\<^verbatim>\<open>get_session\<close>: what the body wrote is kept only when it returns.\<close>

definition with_session :: "(exn, database, 'a) op \<Rightarrow> (exn, database, 'a) op" where
  "with_session body = (\<lambda>d. case body d of (Inl e, _) \<Rightarrow> (Inl e, d) | (Inr x, d') \<Rightarrow> (Inr x, d'))"

section \<open>The base class\<close>

definition server_default :: "int \<Rightarrow> column \<Rightarrow> json" where
  "server_default now c = (case cn_default c of
      None \<Rightarrow> JNull
    | Some t \<Rightarrow> if t = ''now()'' then JInt now else if t = ''false'' then JBool False else JNull)"

definition stored_row :: "int \<Rightarrow> column list \<Rightarrow> table_row \<Rightarrow> table_row" where
  "stored_row now cs r = map (\<lambda>c. (cn_name c, get_or (server_default now c) r (cn_name c))) cs"

definition columns_for :: "string \<Rightarrow> column list" where
  "columns_for tb = get_or [] orm_tables tb"

definition create_entity :: "int \<Rightarrow> string \<Rightarrow> table_row \<Rightarrow> (exn, database, table_row) op" where
  "create_entity now tb r =
     (let row = stored_row now (columns_for tb) r in chain (write_table tb (\<lambda>rs. rs @ [row])) (\<lambda>_. ret row))"

definition get_by_id :: "string \<Rightarrow> string \<Rightarrow> (exn, database, table_row option) op" where
  "get_by_id tb i = reads (\<lambda>d. find (with_id i) (d tb))"

definition list_all_query :: "string \<Rightarrow> int \<Rightarrow> int \<Rightarrow> query" where
  "list_all_query tb l n = skipping n (limited (min l 1000) (plain_query tb []))"

text \<open>\<^verbatim>\<open>merge\<close> inserts a row that is not there.\<close>

definition update_entity :: "int \<Rightarrow> string \<Rightarrow> string \<Rightarrow> table_row \<Rightarrow> (exn, database, table_row) op" where
  "update_entity now tb i r =
     chain (get_by_id tb i) (\<lambda>found. case found of
       None \<Rightarrow> create_entity now tb (AList.update ''id'' (JStr i) r)
     | Some old \<Rightarrow> chain (update_where tb (with_id i) r) (\<lambda>_. ret (assign r old)))"

definition delete_entity :: "string \<Rightarrow> string \<Rightarrow> (exn, database, unit) op" where
  "delete_entity tb i =
     chain (get_by_id tb i) (\<lambda>found. case found of
       None \<Rightarrow> raise (ExternalError ''InvalidRequestError'')
     | Some _ \<Rightarrow> write_table tb (filter (\<lambda>r. \<not> with_id i r)))"

text \<open>A bulk update followed by reading the row, which must be there.\<close>

definition update_found :: "string \<Rightarrow> string \<Rightarrow> string \<Rightarrow> table_row \<Rightarrow> (exn, database, table_row) op" where
  "update_found what tb i vs =
     chain (update_where tb (with_id i) vs) (\<lambda>_. chain (get_by_id tb i) (\<lambda>found. case found of
       None \<Rightarrow> raise (ValueError (what @ '' '' @ quoted i @ '' not found''))
     | Some r \<Rightarrow> ret r))"

text \<open>\<^verbatim>\<open>update(...).returning(M)\<close>: the first of the updated rows.\<close>

definition update_returning :: "string \<Rightarrow> string \<Rightarrow> table_row \<Rightarrow> (exn, database, table_row option) op" where
  "update_returning tb i vs = chain (update_where tb (with_id i) vs) (\<lambda>_. get_by_id tb i)"

section \<open>Tasks, agents, proposals, specifications\<close>

definition by_priority :: "query \<Rightarrow> query" where
  "by_priority q = q\<lparr>q_order := [Desc ''priority'', Asc ''created_at'']\<rparr>"

definition tasks_by_status :: "StatusEnum \<Rightarrow> int \<Rightarrow> query" where
  "tasks_by_status st l = limited l (by_priority (plain_query ''tasks'' [Equals ''status'' (JStr (status_value st))]))"

definition next_pending :: "db_env \<Rightarrow> (exn, database, table_row option) op" where
  "next_pending env = select_first env (tasks_by_status StatusEnum.PENDING 1)"

definition status_values :: "int \<Rightarrow> StatusEnum \<Rightarrow> string option \<Rightarrow> table_row" where
  "status_values now st err =
     [(''status'', JStr (status_value st))] @
     (case err of None \<Rightarrow> [] | Some e \<Rightarrow> [(''error_message'', JStr e)]) @
     (if st = StatusEnum.RUNNING then [(''started_at'', JInt now)]
      else if st \<in> {StatusEnum.COMPLETED, StatusEnum.FAILED, StatusEnum.CANCELLED} then [(''completed_at'', JInt now)] else [])"

definition update_task_status :: "int \<Rightarrow> string \<Rightarrow> StatusEnum \<Rightarrow> string option \<Rightarrow> (exn, database, unit) op" where
  "update_task_status now i st err = update_where ''tasks'' (with_id i) (status_values now st err)"

definition by_start :: "query \<Rightarrow> query" where
  "by_start q = q\<lparr>q_order := [Asc ''started_at'']\<rparr>"

definition active_agents :: query where
  "active_agents = by_start (plain_query ''agent_sessions'' [Equals ''status'' (JStr (status_value StatusEnum.RUNNING))])"

definition agents_of_task :: "string \<Rightarrow> query" where
  "agents_of_task t = by_start (plain_query ''agent_sessions'' [Equals ''current_task'' (JStr t)])"

definition update_agent_status :: "string \<Rightarrow> StatusEnum \<Rightarrow> (exn, database, table_row) op" where
  "update_agent_status i st = update_found ''AgentSession'' ''agent_sessions'' i [(''status'', JStr (status_value st))]"

definition pending_proposals :: query where
  "pending_proposals = oldest_first (plain_query ''proposals'' [Equals ''verdict'' (JStr (proposal_verdict_value ProposalVerdict.PENDING))])"

definition proposals_of_task :: "string \<Rightarrow> query" where
  "proposals_of_task t = oldest_first (plain_query ''proposals'' [Equals ''task_id'' (JStr t)])"

definition update_verdict :: "int \<Rightarrow> string \<Rightarrow> ProposalVerdict \<Rightarrow> (exn, database, table_row) op" where
  "update_verdict now i v =
     update_found ''Proposal'' ''proposals'' i [(''verdict'', JStr (proposal_verdict_value v)), (''verdict_at'', JInt now)]"

definition specs_by_status :: "string \<Rightarrow> int \<Rightarrow> query" where
  "specs_by_status st l = limited l (newest_first (plain_query ''specifications'' [Equals ''status'' (JStr st)]))"

section \<open>Evaluation reports, events, sandboxes\<close>

definition reports_of_task :: "string \<Rightarrow> query" where
  "reports_of_task t = oldest_first (plain_query ''evaluation_reports'' [Equals ''task_id'' (JStr t)])"

definition latest_report :: "db_env \<Rightarrow> string \<Rightarrow> (exn, database, table_row option) op" where
  "latest_report env t = select_first env (limited 1 (newest_first (plain_query ''evaluation_reports'' [Equals ''task_id'' (JStr t)])))"

definition reports_by_verdict :: "EvalVerdict \<Rightarrow> query" where
  "reports_by_verdict v = oldest_first (plain_query ''evaluation_reports'' [Equals ''verdict'' (JStr (eval_verdict_value v))])"

definition append_event_entity :: "int \<Rightarrow> table_row \<Rightarrow> (exn, database, table_row) op" where
  "append_event_entity now r = create_entity now ''event_log'' r"

definition events_by_type :: "string \<Rightarrow> int \<Rightarrow> query" where
  "events_by_type ty l = limited l ((plain_query ''event_log'' [Equals ''type'' (JStr ty)])\<lparr>q_order := [Desc ''timestamp'']\<rparr>)"

definition events_by_task :: "string \<Rightarrow> int \<Rightarrow> query" where
  "events_by_task t l = limited l ((plain_query ''event_log'' [Equals ''task_id'' (JStr t)])\<lparr>q_order := [Asc ''timestamp'']\<rparr>)"

definition active_sandboxes :: query where
  "active_sandboxes = oldest_first (plain_query ''sandbox_sessions''
     [One_In ''status'' (map (\<lambda>s. JStr (sandbox_status_value s)) [SandboxStatus.CREATING, SandboxStatus.READY, SandboxStatus.RUNNING])])"

definition sandboxes_of_task :: "string \<Rightarrow> query" where
  "sandboxes_of_task t = oldest_first (plain_query ''sandbox_sessions'' [Equals ''task_id'' (JStr t)])"

definition audit_log_of :: "string \<Rightarrow> query" where
  "audit_log_of i = (plain_query ''sandbox_audit_log'' [Equals ''session_id'' (JStr i)])\<lparr>q_order := [Asc ''executed_at'']\<rparr>"

section \<open>Budgets and escalations\<close>

definition budgets_of_project :: "string \<Rightarrow> int \<Rightarrow> query" where
  "budgets_of_project p l = limited l (newest_first (plain_query ''budget_records'' [Equals ''project_id'' (JStr p)]))"

definition latest_budget :: "db_env \<Rightarrow> string \<Rightarrow> (exn, database, table_row option) op" where
  "latest_budget env p = select_first env (budgets_of_project p 1)"

definition latest_efficiency :: "db_env \<Rightarrow> string \<Rightarrow> (exn, database, table_row option) op" where
  "latest_efficiency env a = select_first env (limited 1 (newest_first (plain_query ''agent_efficiency_scores'' [Equals ''agent_id'' (JStr a)])))"

definition stored_leaderboard :: "int \<Rightarrow> query" where
  "stored_leaderboard l = limited l ((plain_query ''agent_efficiency_scores'' [])\<lparr>q_order := [Desc ''efficiency_score'']\<rparr>)"

definition actions_by_level :: "string \<Rightarrow> int \<Rightarrow> int \<Rightarrow> query" where
  "actions_by_level lv l n = skipping n (limited l (newest_first (plain_query ''enforcement_actions'' [Equals ''enforcement_level'' (JStr lv)])))"

definition recent_actions :: "int \<Rightarrow> query" where
  "recent_actions l = limited l (newest_first (plain_query ''enforcement_actions'' []))"

definition pending_escalations :: "int \<Rightarrow> query" where
  "pending_escalations l = limited l (newest_first (plain_query ''escalations'' [Equals ''status'' (JStr ''pending'')]))"

definition escalations_by_status :: "string \<Rightarrow> int \<Rightarrow> int \<Rightarrow> query" where
  "escalations_by_status st l n = skipping n (limited l (newest_first (plain_query ''escalations'' [Equals ''status'' (JStr st)])))"

definition escalations_of_task :: "string \<Rightarrow> query" where
  "escalations_of_task t = newest_first (plain_query ''escalations'' [Equals ''source_task_id'' (JStr t)])"

definition optional :: "('a \<Rightarrow> json) \<Rightarrow> 'a option \<Rightarrow> json" where
  "optional f v = (case v of None \<Rightarrow> JNull | Some x \<Rightarrow> f x)"

definition resolve_escalation_row ::
    "int \<Rightarrow> string \<Rightarrow> string \<Rightarrow> string \<Rightarrow> table_row option \<Rightarrow> int option \<Rightarrow> (exn, database, table_row option) op" where
  "resolve_escalation_row now i who resolution details at_time =
     update_returning ''escalations'' i
       [(''status'', JStr ''resolved''), (''resolved_by'', JStr who), (''resolution'', JStr resolution),
        (''resolution_details'', optional JObj details), (''resolved_at'', JInt (case at_time of None \<Rightarrow> now | Some t \<Rightarrow> t))]"

definition expired_pending :: "int \<Rightarrow> query" where
  "expired_pending now = plain_query ''escalations'' [Equals ''status'' (JStr ''pending''), Not_Null ''expires_at'', Earlier ''expires_at'' now]"

definition escalation_row_stats :: "(exn, database, (string \<times> int) list) op" where
  "escalation_row_stats = reads (\<lambda>d.
     let rs = d ''escalations''; n = int (length rs);
         p = int (count_where (\<lambda>r. cell r ''status'' = JStr ''pending'') rs);
         k = int (count_where (\<lambda>r. cell r ''status'' = JStr ''resolved'') rs)
     in [(''total'', n), (''pending'', p), (''resolved'', k), (''expired'', n - p - k)])"

definition of_action :: "string option \<Rightarrow> cond list" where
  "of_action a = (case a of None \<Rightarrow> [] | Some t \<Rightarrow> [Equals ''action_type'' (JStr t)])"

definition pending_gates :: "int \<Rightarrow> string option \<Rightarrow> query" where
  "pending_gates l a = limited l (newest_first (plain_query ''approval_gates'' (Equals ''status'' (JStr ''pending'') # of_action a)))"

definition all_gates :: "int \<Rightarrow> int \<Rightarrow> string option \<Rightarrow> query" where
  "all_gates l n a = skipping n (limited (min l 1000) (newest_first (plain_query ''approval_gates'' (of_action a))))"

definition gates_of_resource :: "string \<Rightarrow> query" where
  "gates_of_resource i = newest_first (plain_query ''approval_gates'' [Equals ''resource_id'' (JStr i)])"

definition votes_of_gate :: "string \<Rightarrow> query" where
  "votes_of_gate g = oldest_first (plain_query ''approval_votes'' [Equals ''gate_id'' (JStr g)])"

section \<open>Failures\<close>

definition failures_where :: "string \<Rightarrow> string \<Rightarrow> query" where
  "failures_where c v = newest_first (plain_query ''failure_records'' [Equals c (JStr v)])"

definition failure_rows_of_task :: "string \<Rightarrow> query" where
  "failure_rows_of_task t = failures_where ''task_id'' t"

definition failure_rows_of_project :: "string \<Rightarrow> int \<Rightarrow> query" where
  "failure_rows_of_project p l = limited l (failures_where ''project_id'' p)"

definition failure_rows_by_code :: "string \<Rightarrow> int \<Rightarrow> query" where
  "failure_rows_by_code c l = limited l (failures_where ''failure_code'' c)"

definition unresolved_failure_rows :: "int \<Rightarrow> query" where
  "unresolved_failure_rows l = limited l (newest_first (plain_query ''failure_records'' [Equals ''resolved'' (JBool False)]))"

definition failure_rows_per_code :: "(exn, database, (json \<times> nat) list) op" where
  "failure_rows_per_code = reads (\<lambda>d.
     let vs = map (\<lambda>r. cell r ''failure_code'') (d ''failure_records'') in map (\<lambda>v. (v, length (filter (\<lambda>w. w = v) vs))) (remdups vs))"

definition recent_failure_rows :: "int \<Rightarrow> query" where
  "recent_failure_rows l = limited l (newest_first (plain_query ''failure_records'' []))"

definition post_mortems_of_project :: "string \<Rightarrow> int \<Rightarrow> query" where
  "post_mortems_of_project p l = limited l (newest_first (plain_query ''post_mortems'' [Equals ''project_id'' (JStr p)]))"

definition latest_post_mortem :: "db_env \<Rightarrow> (exn, database, table_row option) op" where
  "latest_post_mortem env = select_first env (limited 1 (newest_first (plain_query ''post_mortems'' [])))"

definition improvements_of :: "string \<Rightarrow> query" where
  "improvements_of p = newest_first (plain_query ''improvements'' [Equals ''post_mortem_id'' (JStr p)])"

definition unapplied_rows :: "int \<Rightarrow> query" where
  "unapplied_rows l = limited l (newest_first (plain_query ''improvements'' [Equals ''applied'' (JBool False)]))"

definition mark_applied_row :: "int \<Rightarrow> string \<Rightarrow> (exn, database, table_row option) op" where
  "mark_applied_row now i = update_returning ''improvements'' i [(''applied'', JBool True), (''applied_at'', JInt now)]"

definition simulations_by_status :: "string \<Rightarrow> int \<Rightarrow> query" where
  "simulations_by_status st l = limited l (newest_first (plain_query ''simulation_runs'' [Equals ''status'' (JStr st)]))"

definition recent_simulations :: "int \<Rightarrow> query" where
  "recent_simulations l = limited l (newest_first (plain_query ''simulation_runs'' []))"

section \<open>Knowledge\<close>

definition active_entries :: "cond list \<Rightarrow> query" where
  "active_entries cs = plain_query ''knowledge_entries'' (cs @ [Equals ''is_active'' (JBool True)])"

definition entries_by_layer :: "string \<Rightarrow> int \<Rightarrow> int \<Rightarrow> query" where
  "entries_by_layer ly l n = skipping n (limited l (newest_first (active_entries [Equals ''layer'' (JStr ly)])))"

definition entries_by_topic :: "string \<Rightarrow> int \<Rightarrow> query" where
  "entries_by_topic t l = limited l ((active_entries [Equals ''topic'' (JStr t)])\<lparr>q_order := [Desc ''usage_count'']\<rparr>)"

definition all_active_entries :: "int \<Rightarrow> int \<Rightarrow> query" where
  "all_active_entries l n = skipping n (limited l (newest_first (active_entries [])))"

definition plus_one :: "json \<Rightarrow> json" where
  "plus_one v = (case v of JInt n \<Rightarrow> JInt (n + 1) | _ \<Rightarrow> v)"

definition increment_usage_row :: "string \<Rightarrow> (exn, database, unit) op" where
  "increment_usage_row i = write_table ''knowledge_entries''
     (map (\<lambda>r. if with_id i r then AList.update ''usage_count'' (plus_one (cell r ''usage_count'')) r else r))"

definition deactivate_row :: "string \<Rightarrow> (exn, database, unit) op" where
  "deactivate_row i = update_where ''knowledge_entries'' (with_id i) [(''is_active'', JBool False)]"

definition uncompressed_rows :: "string option \<Rightarrow> int \<Rightarrow> query" where
  "uncompressed_rows s l = limited l (oldest_first (plain_query ''knowledge_observations''
     (Is_Null ''compressed_into'' # (case s of None \<Rightarrow> [] | Some v \<Rightarrow> [Json_Is ''context'' ''domain'' v]))))"

definition mark_compressed_rows :: "string list \<Rightarrow> string \<Rightarrow> (exn, database, unit) op" where
  "mark_compressed_rows is p =
     update_where ''knowledge_observations'' (\<lambda>r. list_ex (\<lambda>i. with_id i r) is) [(''compressed_into'', JStr p)]"

definition rules_by_domain :: "string \<Rightarrow> int \<Rightarrow> query" where
  "rules_by_domain s l = limited l ((plain_query ''heuristic_rules'' [Equals ''domain'' (JStr s), Equals ''is_active'' (JBool True)])
     \<lparr>q_order := [Desc ''success_rate'']\<rparr>)"

definition all_active_rules :: "int \<Rightarrow> query" where
  "all_active_rules l = limited l ((plain_query ''heuristic_rules'' [Equals ''is_active'' (JBool True)])\<lparr>q_order := [Desc ''hit_count'']\<rparr>)"

text \<open>The new count and rate of a rule.\<close>

definition next_rate :: "(rat \<Rightarrow> rat) \<Rightarrow> int \<times> rat \<Rightarrow> bool \<Rightarrow> int \<times> rat" where
  "next_rate fl = (\<lambda>(hits, rate) success.
     let new_hits = hits + 1; successes = py_int (fl (rate * of_int hits)) + (if success then 1 else 0)
     in (new_hits, if 0 < new_hits then fl (of_int successes / of_int new_hits) else 0))"

definition record_rule_outcome :: "db_env \<Rightarrow> string \<Rightarrow> bool \<Rightarrow> (exn, database, unit) op" where
  "record_rule_outcome env i success =
     chain (get_by_id ''heuristic_rules'' i) (\<lambda>found. case found of
       None \<Rightarrow> ret ()
     | Some r \<Rightarrow>
         (case (cell r ''hit_count'', number_of (cell r ''success_rate'')) of
           (JInt hits, Some rate) \<Rightarrow>
             (case next_rate (rounded env) (hits, rate) success of (hits', rate') \<Rightarrow>
               update_where ''heuristic_rules'' (with_id i) [(''hit_count'', JInt hits'), (''success_rate'', JFloat rate')])
         | _ \<Rightarrow> raise (RuntimeError ''TypeError'')))"

definition strategies_by_status :: "string \<Rightarrow> int \<Rightarrow> query" where
  "strategies_by_status st l = limited l (newest_first (plain_query ''meta_strategies'' [Equals ''status'' (JStr st)]))"

section \<open>Security\<close>

definition scans_of_target :: "string \<Rightarrow> int \<Rightarrow> query" where
  "scans_of_target t l = limited l (newest_first (plain_query ''security_scans'' [Equals ''target_id'' (JStr t)]))"

definition recent_scans :: "int \<Rightarrow> query" where
  "recent_scans l = limited l (newest_first (plain_query ''security_scans'' []))"

definition findings_of_scan :: "string \<Rightarrow> query" where
  "findings_of_scan i = newest_first (plain_query ''security_findings'' [Equals ''scan_id'' (JStr i)])"

definition findings_by_severity :: "string \<Rightarrow> int \<Rightarrow> query" where
  "findings_by_severity s l = limited l (newest_first (plain_query ''security_findings'' [Equals ''severity'' (JStr s)]))"

definition open_findings :: "int \<Rightarrow> query" where
  "open_findings l = limited l (newest_first (plain_query ''security_findings'' [Equals ''status'' (JStr ''open'')]))"

definition severity_names :: "string list" where
  "severity_names = [''critical'', ''high'', ''medium'', ''low'', ''info'']"

definition findings_per_severity :: "(exn, database, (string \<times> nat) list) op" where
  "findings_per_severity = reads (\<lambda>d.
     let rs = d ''security_findings''
     in (''total'', length rs) # map (\<lambda>s. (s, count_where (\<lambda>r. cell r ''severity'' = JStr s) rs)) severity_names)"

definition update_finding_row :: "string \<Rightarrow> string \<Rightarrow> (exn, database, table_row option) op" where
  "update_finding_row i st = update_returning ''security_findings'' i [(''status'', JStr st)]"

definition enabled_policies :: query where
  "enabled_policies = (plain_query ''security_policies'' [Equals ''enabled'' (JBool True)])\<lparr>q_order := [Asc ''name'']\<rparr>"

definition policy_by_name :: "db_env \<Rightarrow> string \<Rightarrow> (exn, database, table_row option) op" where
  "policy_by_name env n = select_first env (plain_query ''security_policies'' [Equals ''name'' (JStr n)])"

section \<open>What a query returns\<close>

text \<open>A strict order of rows in which rows may be equal.\<close>

locale row_order =
  fixes before :: "table_row \<Rightarrow> table_row \<Rightarrow> bool"
  assumes asym: "before a b \<Longrightarrow> \<not> before b a"
    and neg_trans: "\<not> before a b \<Longrightarrow> \<not> before b c \<Longrightarrow> \<not> before a c"
begin

lemma set_insert_row [simp]: "set (insert_row before r xs) = insert r (set xs)"
  by (induction xs) auto

lemma mset_insert_row [simp]: "mset (insert_row before r xs) = add_mset r (mset xs)"
  by (induction xs) auto

lemma sorted_insert_row:
  "sorted_wrt (\<lambda>a b. \<not> before b a) xs \<Longrightarrow> sorted_wrt (\<lambda>a b. \<not> before b a) (insert_row before r xs)"
proof (induction xs)
  case (Cons x xs)
  show ?case
  proof (cases "before x r")
    case True
    then show ?thesis using Cons asym by auto
  next
    case False
    moreover have "\<not> before y r" if "y \<in> set xs" for y using that Cons.prems False neg_trans by (meson sorted_wrt.simps(2))
    ultimately show ?thesis using Cons.prems by auto
  qed
qed simp

lemma mset_sort_rows [simp]: "mset (sort_rows before rs) = mset rs"
  unfolding sort_rows_def by (induction rs) auto

lemma sorted_sort_rows: "sorted_wrt (\<lambda>a b. \<not> before b a) (sort_rows before rs)"
  unfolding sort_rows_def by (induction rs) (simp_all add: sorted_insert_row)

text \<open>Rows that are equal keep their order.\<close>

lemma insert_row_equal: "list_all (\<lambda>x. \<not> before x r) xs \<Longrightarrow> insert_row before r xs = r # xs"
  by (cases xs) auto

end

lemma cell_before_asym: "cell_before env v w \<Longrightarrow> \<not> cell_before env w v"
  by (cases "cell_key env v"; cases "cell_key env w") (auto simp: cell_before_def)

lemma cell_before_neg_trans: "\<not> cell_before env u v \<Longrightarrow> \<not> cell_before env v w \<Longrightarrow> \<not> cell_before env u w"
  by (cases "cell_key env u"; cases "cell_key env v"; cases "cell_key env w") (auto simp: cell_before_def)

lemma ordered_before_asym: "ordered_before env o1 a b \<Longrightarrow> \<not> ordered_before env o1 b a"
  by (cases o1) (simp_all add: cell_before_asym)

lemma ordered_before_neg_trans:
  assumes "\<not> ordered_before env o1 a b" and "\<not> ordered_before env o1 b c"
  shows "\<not> ordered_before env o1 a c"
proof (cases o1)
  case (Asc k)
  then show ?thesis using assms cell_before_neg_trans [of env "cell a k" "cell b k" "cell c k"] by simp
next
  case (Desc k)
  then show ?thesis using assms cell_before_neg_trans [of env "cell c k" "cell b k" "cell a k"] by simp
qed

lemma row_before_asym: "row_before env os a b \<Longrightarrow> \<not> row_before env os b a"
proof (induction os)
  case (Cons o1 os)
  then show ?case using ordered_before_asym [of env o1 a b] by auto
qed simp

lemma row_before_neg_trans: "\<not> row_before env os a b \<Longrightarrow> \<not> row_before env os b c \<Longrightarrow> \<not> row_before env os a c"
proof (induction os)
  case (Cons o1 os)
  note nt = ordered_before_neg_trans [of env o1]
  from Cons.prems have ab: "\<not> ordered_before env o1 a b" and bc: "\<not> ordered_before env o1 b c" by auto
  then have ac: "\<not> ordered_before env o1 a c" by (rule nt)
  have "\<not> row_before env os a c" if ca: "\<not> ordered_before env o1 c a"
    using Cons nt [OF bc ca] nt [OF ca ab] by auto
  with ac show ?case by auto
qed simp

interpretation ro: row_order "row_before env os" for env os
  by unfold_locales (fact row_before_asym, fact row_before_neg_trans)

lemma matching_rows:
  "mset (matching env q d) = mset (filter (\<lambda>r. list_all (\<lambda>c. holds env c r) (q_where q)) (d (q_table q)))"
  "sorted_wrt (\<lambda>a b. \<not> row_before env (q_order q) b a) (matching env q d)"
  unfolding matching_def by (rule ro.mset_sort_rows ro.sorted_sort_rows)+

lemma run_query_page:
  "0 \<le> l \<Longrightarrow> 0 \<le> n \<Longrightarrow> run_query env (skipping n (limited l q)) d = Inr (take (nat l) (drop (nat n) (matching env q d)))"
  by (simp add: run_query_def skipping_def limited_def matching_def)



definition sample_task :: "string \<Rightarrow> int \<Rightarrow> int \<Rightarrow> StatusEnum \<Rightarrow> table_row" where
  "sample_task i p t st = stored_row t (columns_for ''tasks'')
     [(''id'', JStr i), (''type'', JStr ''implement_feature''), (''status'', JStr (status_value st)), (''priority'', JInt p), (''current_attempt'', JInt 0)]"

definition sample_tables :: database where
  "sample_tables = (\<lambda>tb. if tb = ''tasks''
     then [sample_task ''a'' 1 0 StatusEnum.PENDING, sample_task ''b'' 5 7 StatusEnum.PENDING, sample_task ''c'' 9 1 StatusEnum.COMPLETED,
           sample_task ''d'' 5 3 StatusEnum.PENDING] else [])"

definition exact_env :: db_env where
  "exact_env = \<lparr>collate = (\<lambda>s. 0), json_text_of = (\<lambda>v. []), rounded = (\<lambda>x. x)\<rparr>"


lemma next_pending_sample: "map_option (\<lambda>r. cell r ''id'') (case fst (next_pending exact_env sample_tables) of Inr r \<Rightarrow> r | Inl e \<Rightarrow> None) = Some (JStr ''d'')"
  by code_simp

section \<open>Queries and tables\<close>

fun cond_column :: "cond \<Rightarrow> string" where
  "cond_column (Equals c v) = c"
| "cond_column (One_In c vs) = c"
| "cond_column (Is_Null c) = c"
| "cond_column (Not_Null c) = c"
| "cond_column (Earlier c t) = c"
| "cond_column (Json_Is c k s) = c"

fun ordering_column :: "ordering \<Rightarrow> string" where
  "ordering_column (Asc c) = c"
| "ordering_column (Desc c) = c"

definition query_known :: "query \<Rightarrow> bool" where
  "query_known q \<longleftrightarrow> (q_table q \<in> set (keys orm_tables) \<and>
     list_all (\<lambda>c. c \<in> set (map cn_name (columns_for (q_table q)))) (map cond_column (q_where q) @ map ordering_column (q_order q)))"

definition repository_queries :: "StatusEnum \<Rightarrow> EvalVerdict \<Rightarrow> string \<Rightarrow> int \<Rightarrow> query list" where
  "repository_queries st v s n = [
     tasks_by_status st n, active_agents, agents_of_task s, pending_proposals, proposals_of_task s, specs_by_status s n,
     reports_of_task s, reports_by_verdict v, events_by_type s n, events_by_task s n, active_sandboxes, sandboxes_of_task s, audit_log_of s,
     budgets_of_project s n, stored_leaderboard n, actions_by_level s n n, recent_actions n,
     pending_escalations n, escalations_by_status s n n, escalations_of_task s, expired_pending n,
     pending_gates n (Some s), all_gates n n (Some s), gates_of_resource s, votes_of_gate s,
     failure_rows_of_task s, failure_rows_of_project s n, failure_rows_by_code s n, unresolved_failure_rows n, recent_failure_rows n,
     post_mortems_of_project s n, improvements_of s, unapplied_rows n, simulations_by_status s n, recent_simulations n,
     entries_by_layer s n n, entries_by_topic s n, all_active_entries n n, uncompressed_rows (Some s) n,
     rules_by_domain s n, all_active_rules n, strategies_by_status s n,
     scans_of_target s n, recent_scans n, findings_of_scan s, findings_by_severity s n, open_findings n, enabled_policies]"

text \<open>Unlike the statements of the knowledge store, every query names columns its table has.\<close>

lemma repository_queries_known: "list_all query_known (repository_queries st v s n)"
  by code_simp


section \<open>Rates of rules\<close>

definition rate_after :: "(rat \<Rightarrow> rat) \<Rightarrow> bool list \<Rightarrow> int \<times> rat" where
  "rate_after fl outcomes = foldl (next_rate fl) (0, 0) outcomes"

text \<open>With exact numbers the rate of a rule is the share of its successes.\<close>

lemma next_rate_exact:
  assumes "rate * of_int n = of_int k" and "0 \<le> n"
  shows "next_rate (\<lambda>x. x) (n, rate) b = (n + 1, of_int (k + (if b then 1 else 0)) / of_int (n + 1))"
  using assms by (simp add: next_rate_def)

lemma rate_exact: "rate_after (\<lambda>x. x) outcomes =
    (int (length outcomes), of_int (int (length (filter (\<lambda>b. b) outcomes))) / of_int (int (length outcomes)))"
proof (induction outcomes rule: rev_induct)
  case (snoc b bs)
  have "of_int (int (length (filter (\<lambda>b. b) bs))) / of_int (int (length bs)) * (of_int (int (length bs)) :: rat) = of_int (int (length (filter (\<lambda>b. b) bs)))"
    by (cases bs) simp_all
  from next_rate_exact [OF this, of b] snoc show ?case
    by (simp add: rate_after_def add.commute)
qed (simp add: rate_after_def)

text \<open>The double nearest to a positive number: its magnitude is scaled to 53 bits and rounded.\<close>

fun scaled_double :: "nat \<Rightarrow> rat \<Rightarrow> rat \<Rightarrow> rat" where
  "scaled_double 0 x u = 0"
| "scaled_double (Suc n) x u =
     (if x < 2 ^ 52 then scaled_double n (2 * x) (u / 2)
      else if 2 ^ 53 \<le> x then scaled_double n (x / 2) (2 * u)
      else of_int (round_half_even x) * u)"

definition nearest_double :: "rat \<Rightarrow> rat" where
  "nearest_double x = (if x = 0 then 0 else scaled_double 1100 (x * 2 ^ 52) (1 / 2 ^ 52))"

text \<open>
  Truncating the product of a rounded rate loses successes: a rule that succeeded once in 49 outcomes has no success left after
  one more.
\<close>

lemma scaled_double_step: "0 < n \<Longrightarrow> scaled_double n x u =
     (if x < 2 ^ 52 then scaled_double (n - 1) (2 * x) (u / 2)
      else if 2 ^ 53 \<le> x then scaled_double (n - 1) (x / 2) (2 * u)
      else of_int (round_half_even x) * u)"
  by (cases n) simp_all

lemma success_forgotten: "next_rate nearest_double (49, nearest_double (1 / 49)) False = (50, 0)"
proof -
  have "\<lfloor>288230376151711744 / 49 :: rat\<rfloor> = 5882252574524729" by (rule floor_unique) simp_all
  then have rate: "nearest_double (1 / 49) = 5882252574524729 / 2 ^ 58"
    by (simp add: nearest_double_def scaled_double_step round_half_even_def Let_def)
  have "\<lfloor>288230376151711721 / 32 :: rat\<rfloor> = 9007199254740991" by (rule floor_unique) simp_all
  then have "nearest_double (5882252574524729 / 2 ^ 58 * 49) = 9007199254740991 / 2 ^ 53"
    by (simp add: nearest_double_def scaled_double_step round_half_even_def Let_def)
  moreover have "py_int (9007199254740991 / 2 ^ 53) = 0" by (simp add: py_int_nonneg floor_eq_iff)
  ultimately have "py_int (nearest_double (nearest_double (1 / 49) * of_int 49)) = 0" by (simp only: rate of_int_numeral)
  moreover have "nearest_double 0 = 0" by (simp add: nearest_double_def)
  ultimately show ?thesis by (simp add: next_rate_def)
qed

section \<open>Statuses and counts\<close>

text \<open>The row of a task takes any status from any other; what an earlier run left in it stays.\<close>

definition finished_task :: database where
  "finished_task = sample_tables(''tasks'' := [AList.update ''completed_at'' (JInt 3) (sample_task ''c'' 9 1 StatusEnum.COMPLETED)])"

lemma task_status_unguarded:
  "(case update_task_status 8 ''c'' StatusEnum.RUNNING None finished_task of (r, d) \<Rightarrow>
     (r, map (\<lambda>t. (cell t ''status'', cell t ''started_at'', cell t ''completed_at'')) (d ''tasks''))) =
   (Inr (), [(JStr ''running'', JInt 8, JInt 3)])"
  by code_simp

text \<open>What is neither pending nor resolved counts as expired, escalations that were resolved automatically too.\<close>

lemma escalation_stats_expired:
  "fst (escalation_row_stats d) = Inr [(''total'', int (length (d ''escalations''))),
     (''pending'', int (count_where (\<lambda>r. cell r ''status'' = JStr ''pending'') (d ''escalations''))),
     (''resolved'', int (count_where (\<lambda>r. cell r ''status'' = JStr ''resolved'') (d ''escalations''))),
     (''expired'', int (count_where (\<lambda>r. cell r ''status'' \<notin> {JStr ''pending'', JStr ''resolved''}) (d ''escalations'')))]"
proof -
  have "length rs = count_where (\<lambda>r. cell r c = JStr ''pending'') rs + count_where (\<lambda>r. cell r c = JStr ''resolved'') rs +
      count_where (\<lambda>r. cell r c \<notin> {JStr ''pending'', JStr ''resolved''}) rs" for rs :: "table_row list" and c
    by (induction rs) (auto simp: count_where_def)
  from this [of "d ''escalations''" "''status''"] show ?thesis by (simp add: escalation_row_stats_def Let_def)
qed

text \<open>With one of the five severities in every row, the counts add up.\<close>

lemma severities_add_up:
  assumes "list_all (\<lambda>r. cell r ''severity'' \<in> JStr ` set severity_names) (d ''security_findings'')"
  shows "(case fst (findings_per_severity d) of Inr ((_, n) # counts) \<Rightarrow> n = sum_list (map snd counts) | _ \<Rightarrow> False)"
proof -
  have "length rs = sum_list (map (\<lambda>s. count_where (\<lambda>r. cell r ''severity'' = JStr s) rs) severity_names)"
    if "list_all (\<lambda>r. cell r ''severity'' \<in> JStr ` set severity_names) rs" for rs
    using that by (induction rs) (auto simp: severity_names_def count_where_def)
  from this [OF assms] show ?thesis by (simp add: findings_per_severity_def Let_def comp_def)
qed

text \<open>A session in which anything raises leaves the tables as they were.\<close>

lemma session_all_or_nothing: "fst (with_session body d) = Inl e \<Longrightarrow> snd (with_session body d) = d"
  by (auto simp: with_session_def split: prod.splits sum.splits)

text \<open>A write keeps every constraint, whatever it does.\<close>

lemma writes_keep_constraints: "keeps constraints_hold (write_table tb f)"
  by (simp add: keeps_def write_table_def Let_def)

lemma repositories_keep_constraints:
  "keeps constraints_hold (create_entity now tb r)" "keeps constraints_hold (update_entity now tb i r)"
  "keeps constraints_hold (delete_entity tb i)" "keeps constraints_hold (update_task_status now i st err)"
  "keeps constraints_hold (update_verdict now i v)" "keeps constraints_hold (record_rule_outcome env i success)"
  unfolding create_entity_def update_entity_def delete_entity_def update_task_status_def update_verdict_def record_rule_outcome_def
    update_found_def update_where_def Let_def get_by_id_def
  by (auto intro!: keeps_intros writes_keep_constraints split: option.split json.split prod.split)

end
