(* ===== verification/Ledger_Cache.thy ===== *)
theory Ledger_Cache
  imports Ledger_Properties
begin

text \<open>
  The cache of the World State Ledger (\<^verbatim>\<open>world_state_ledger/cache.py\<close>) over the Redis commands it sends, and what it
  does to the ledger when reads and commits overlap. Redis is a parameter with the contract \<open>text_store\<close>;
  so are \<^verbatim>\<open>json.dumps\<close> and \<^verbatim>\<open>json.loads\<close>, and the random number of a read.
  A read is three steps, between which others may run: asking the cache, loading from the tables, filling the cache.
\<close>

section \<open>The cache\<close>

record 'r text_store =
  ts_get :: "string \<Rightarrow> (exn, 'r, string option) op"
  ts_ttl :: "string \<Rightarrow> (exn, 'r, int) op"
  ts_set :: "(string \<times> string) list \<Rightarrow> int \<Rightarrow> (exn, 'r, unit) op"   \<comment> \<open>one transaction\<close>
  ts_delete :: "string list \<Rightarrow> (exn, 'r, unit) op"

record codec =
  dumps :: "(string \<times> json) list \<Rightarrow> string"
  loads :: "string \<Rightarrow> exn + (string \<times> json) list"
  int_text :: "int \<Rightarrow> string"

definition state_key :: string where "state_key = ''wsl:current_state''"
definition version_key :: string where "version_key = ''wsl:current_version''"
definition field_key :: "string \<Rightarrow> string" where "field_key path = ''wsl:field:'' @ path"

text \<open>Below 30 seconds of life a fifth of the reads find nothing.\<close>

definition get_current_state :: "'r text_store \<Rightarrow> codec \<Rightarrow> rat \<Rightarrow> (exn, 'r, (string \<times> json) list option) op" where
  "get_current_state rs cd roll =
     chain (ts_get rs state_key) (\<lambda>raw. case raw of
       None \<Rightarrow> ret None
     | Some text \<Rightarrow>
         chain (ts_ttl rs state_key) (\<lambda>ttl.
         if 0 < ttl \<and> ttl < 30 \<and> roll < 1/5 then ret None
         else chain (lift_sum (\<lambda>_. loads cd text)) (\<lambda>d. ret (Some d))))"

definition set_current_state :: "'r text_store \<Rightarrow> codec \<Rightarrow> int \<Rightarrow> (string \<times> json) list \<Rightarrow> int \<Rightarrow> (exn, 'r, unit) op" where
  "set_current_state rs cd ttl d v = ts_set rs [(state_key, dumps cd d), (version_key, int_text cd v)] ttl"

definition invalidate_state :: "'r text_store \<Rightarrow> (exn, 'r, unit) op" where
  "invalidate_state rs = ts_delete rs [state_key, version_key]"

definition get_field :: "'r text_store \<Rightarrow> string \<Rightarrow> (exn, 'r, string option) op" where
  "get_field rs path = ts_get rs (field_key path)"

definition set_field :: "'r text_store \<Rightarrow> int \<Rightarrow> string \<Rightarrow> string \<Rightarrow> (exn, 'r, unit) op" where
  "set_field rs ttl path v = ts_set rs [(field_key path, v)] ttl"

text \<open>The ledger with this cache.\<close>

definition cached_by :: "'r text_store \<Rightarrow> codec \<Rightarrow> rat \<Rightarrow> ('c, 'p) wsl_env \<Rightarrow> ('r, 'p) wsl_env" where
  "cached_by rs cd roll env =
     \<lparr>wsl_vf = wsl_vf env, cache_get = get_current_state rs cd roll, cache_set = set_current_state rs cd 300,
      wsl_publish = wsl_publish env, reason_text = reason_text env\<rparr>"

section \<open>The contract of Redis, and what the cache keeps of it\<close>

locale text_store =
  fixes rs :: "'r text_store" and content :: "'r \<Rightarrow> string \<Rightarrow> string option"
  assumes get_law: "ts_get rs k r = (Inr (content r k), r)"
    and ttl_law: "snd (ts_ttl rs k r) = r \<and> (\<exists>t. fst (ts_ttl rs k r) = Inr t)"
    and set_law: "0 < ttl \<Longrightarrow> fst (ts_set rs kvs ttl r) = Inr () \<and>
      content (snd (ts_set rs kvs ttl r)) = fold (\<lambda>(k, v) c. c(k \<mapsto> v)) kvs (content r)"
    and delete_law: "fst (ts_delete rs ks r) = Inr () \<and>
      content (snd (ts_delete rs ks r)) = (\<lambda>k. if k \<in> set ks then None else content r k)"
begin

lemma get_keeps: "snd (get_current_state rs cd roll r) = r"
  using ttl_law [of state_key r] by (auto simp: get_current_state_def chain_run get_law split: option.split prod.split sum.split)

text \<open>What is read back is what was set last, or nothing.\<close>

lemma get_state_cases:
  "content r state_key = Some (dumps cd d) \<Longrightarrow> loads cd (dumps cd d) = Inr d \<Longrightarrow>
     fst (get_current_state rs cd roll r) \<in> {Inr (Some d), Inr None} \<and> (1/5 \<le> roll \<longrightarrow> fst (get_current_state rs cd roll r) = Inr (Some d))"
  using ttl_law [of state_key r] by (auto simp: get_current_state_def chain_run get_law split: option.split prod.split sum.split)

lemma set_then_get:
  assumes "0 < ttl" and "loads cd (dumps cd d) = Inr d"
  shows "fst (get_current_state rs cd roll (snd (set_current_state rs cd ttl d v r))) \<in> {Inr (Some d), Inr None} \<and>
    (1/5 \<le> roll \<longrightarrow> fst (get_current_state rs cd roll (snd (set_current_state rs cd ttl d v r))) = Inr (Some d))"
  by (rule get_state_cases) (use set_law [OF assms(1)] assms(2) in \<open>simp_all add: set_current_state_def state_key_def version_key_def\<close>)

lemma invalidated: "fst (get_current_state rs cd roll (snd (invalidate_state rs r))) = Inr None"
  using delete_law [of "[state_key, version_key]" r] by (simp add: get_current_state_def invalidate_state_def chain_run get_law)

lemma field_roundtrip: "0 < ttl \<Longrightarrow> fst (get_field rs path (snd (set_field rs ttl path v r))) = Inr (Some v)"
  using set_law [of ttl "[(field_key path, v)]" r] by (simp add: get_field_def set_field_def get_law)

text \<open>A field is not the state.\<close>

lemma field_leaves_state: "0 < ttl \<Longrightarrow> content (snd (set_field rs ttl path v r)) state_key = content r state_key"
  using set_law [of ttl "[(field_key path, v)]" r] by (simp add: set_field_def field_key_def state_key_def)

end

text \<open>A keyspace with expiry times and a clock.\<close>

definition keyspace_get :: "int \<times> (string \<times> string \<times> int) list \<Rightarrow> string \<Rightarrow> string option" where
  "keyspace_get = (\<lambda>(now, ks) k. case map_of ks k of None \<Rightarrow> None | Some (v, e) \<Rightarrow> if now < e then Some v else None)"

definition keyspace_ttl :: "int \<times> (string \<times> string \<times> int) list \<Rightarrow> string \<Rightarrow> int" where
  "keyspace_ttl = (\<lambda>(now, ks) k. case map_of ks k of None \<Rightarrow> -2 | Some (v, e) \<Rightarrow> if now < e then e - now else -2)"

definition keyspace_store :: "(int \<times> (string \<times> string \<times> int) list) text_store" where
  "keyspace_store =
     \<lparr>ts_get = (\<lambda>k. reads (\<lambda>r. keyspace_get r k)), ts_ttl = (\<lambda>k. reads (\<lambda>r. keyspace_ttl r k)),
      ts_set = (\<lambda>kvs ttl. writes (\<lambda>(now, ks). (now, fold (\<lambda>(k, v). AList.update k (v, now + ttl)) kvs ks))),
      ts_delete = (\<lambda>gone. writes (\<lambda>(now, ks). (now, filter (\<lambda>(k, _). k \<notin> set gone) ks)))\<rparr>"

lemma keyspace_set:
  "0 < ttl \<Longrightarrow> keyspace_get (now, fold (\<lambda>(k, v). AList.update k (v, now + ttl)) kvs ks) =
     fold (\<lambda>(k, v) c. c(k \<mapsto> v)) kvs (keyspace_get (now, ks))"
proof (induction kvs arbitrary: ks)
  case (Cons kv kvs)
  obtain k v where kv: "kv = (k, v)" by fastforce
  have "keyspace_get (now, AList.update k (v, now + ttl) ks) = (keyspace_get (now, ks))(k \<mapsto> v)"
    using Cons.prems by (auto simp: keyspace_get_def)
  with Cons.IH [OF Cons.prems, of "AList.update k (v, now + ttl) ks"] show ?case by (simp only: kv fold_simps prod.case)
qed simp

lemma keyspace_delete:
  "keyspace_get (now, filter (\<lambda>(k, _). k \<notin> set gone) ks) = (\<lambda>k. if k \<in> set gone then None else keyspace_get (now, ks) k)"
proof
  fix k
  have "map_of (filter (\<lambda>(k, _). k \<notin> set gone) ks) k = (if k \<in> set gone then None else map_of ks k)"
    by (induction ks) auto
  then show "keyspace_get (now, filter (\<lambda>(k, _). k \<notin> set gone) ks) k = (if k \<in> set gone then None else keyspace_get (now, ks) k)"
    by (simp add: keyspace_get_def)
qed

interpretation ks: text_store keyspace_store keyspace_get
  by unfold_locales (auto simp: keyspace_store_def keyspace_set keyspace_delete split: prod.split)

text \<open>As the cache of the ledger: what a commit or a read puts there answers the next read.\<close>

lemma cached_by_roundtrip:
  assumes "loads cd (dumps cd d) = Inr d" and "1/5 \<le> roll"
  shows "let env' = cached_by keyspace_store cd roll env; r' = snd (cache_set env' d v r) in cache_get env' r' = (Inr (Some d), r')"
proof -
  let ?r = "snd (set_current_state keyspace_store cd 300 d v r)"
  have "fst (get_current_state keyspace_store cd roll ?r) = Inr (Some d)"
    using ks.set_then_get [OF _ assms(1), of 300 roll v r] assms(2) by simp
  then show ?thesis using ks.get_keeps [of cd roll ?r] by (simp add: cached_by_def Let_def prod_eq_iff)
qed

section \<open>A read in steps\<close>

datatype reading = Asking | Missed | Loaded "(string \<times> json) list" | Answered "exn + (string \<times> json) list"

fun read_step :: "('c, 'p) wsl_env \<Rightarrow> json \<Rightarrow> reading \<times> ('c, 'p) ledger \<Rightarrow> reading \<times> ('c, 'p) ledger" where
  "read_step env now (Asking, s) = (case with_cache (cache_get env) s of
      (Inl e, s') \<Rightarrow> (Answered (Inl e), s')
    | (Inr (Some d), s') \<Rightarrow> (Answered (model_validate (wsl_vf env) d), s')
    | (Inr None, s') \<Rightarrow> (Missed, s'))"
| "read_step env now (Missed, s) = (case load_current (wsl_vf env) now (l_rows s) of
      Inl e \<Rightarrow> (Answered (Inl e), s)
    | Inr st \<Rightarrow> (Loaded st, s))"
| "read_step env now (Loaded st, s) = (case with_cache (cache_set env st (version_of st)) s of
      (Inl e, s') \<Rightarrow> (Answered (Inl e), s')
    | (Inr _, s') \<Rightarrow> (Answered (Inr st), s'))"
| "read_step env now (Answered r, s) = (Answered r, s)"

text \<open>Three steps with nothing in between are \<^verbatim>\<open>get_current\<close>.\<close>

lemma three_steps:
  "read_step env now (read_step env now (read_step env now (Asking, s))) =
     (case get_current env now s of (r, s') \<Rightarrow> (Answered r, s'))"
  by (auto simp: get_current_def chain_run split: prod.split sum.split option.split)

lemma with_cache_rows: "with_cache m s = (r, s') \<Longrightarrow> l_rows s' = l_rows s"
  using with_cache_tables(1) [of m s] by simp

lemma read_step_rows: "l_rows (snd (read_step env now (ph, s))) = l_rows s"
  by (cases ph) (auto dest: with_cache_rows split: prod.split sum.split option.split)

section \<open>A stale entry\<close>

text \<open>The cache answers with \<open>d\<close>, which is not the newest version, and no pending proposal was submitted at the newest.\<close>

definition stuck :: "('c, 'p) wsl_env \<Rightarrow> (string \<times> json) list \<Rightarrow> ('c, 'p) ledger \<Rightarrow> bool" where
  "stuck env d s \<longleftrightarrow> cache_get env (l_cache s) = (Inr (Some d), l_cache s) \<and> version_of d \<noteq> int (length (l_rows s)) \<and>
     list_all (\<lambda>(pid, p). pr_verdict p = ProposalVerdict.PENDING \<longrightarrow> pr_before p \<noteq> int (length (l_rows s))) (l_proposals s)"

lemma stuck_get: "stuck env d s \<Longrightarrow> get_current env now s = (model_validate (wsl_vf env) d, s)"
  by (simp add: stuck_def get_current_def with_cache_def chain_run zoom_run split: sum.split)

lemma stuck_submit:
  assumes st: "stuck env d s" and v: "model_validate (wsl_vf env) d = Inr d" and r: "submit_proposal env now p s = (r, s')"
  shows "stuck env d s' \<and> l_rows s' = l_rows s \<and> l_cache s' = l_cache s"
proof (cases "map_of (l_proposals s) (p_id p)")
  case (Some q)
  then show ?thesis using st r by (simp add: submit_proposal_def chain_run stuck_get [OF st] v insert_proposal_def)
next
  case None
  let ?s = "s\<lparr>l_proposals := l_proposals s @ [(p_id p, proposal_row_of p (version_of d))]\<rparr>"
  have "\<exists>b. s' = ?s\<lparr>l_bus := b\<rparr>"
    using r None by (auto simp: submit_proposal_def chain_run stuck_get [OF st] v insert_proposal_def announce_def zoom_run split: prod.splits sum.splits)
  then show ?thesis using st by (auto simp: stuck_def proposal_row_of_def)
qed

lemma stuck_commit:
  assumes f: "field_validation (wsl_vf env) stamp" and h: "ledger_inv (wsl_vf env) t0 s" and t: "stamp now" and st: "stuck env d s"
  shows "snd (validate_and_commit env now pid s) = s"
proof -
  obtain cur where cur: "locked_state (wsl_vf env) now (l_rows s) = Inr cur" "version_of cur = int (length (l_rows s))"
    using h field_validation.locked_state_ok [OF f _ t] unfolding ledger_inv_def by blast
  have "pr_before p \<noteq> int (length (l_rows s))" if "map_of (l_proposals s) pid = Some p" "pr_verdict p = ProposalVerdict.PENDING" for p
    using st map_of_SomeD [OF that(1)] that(2) by (auto simp: stuck_def list_all_iff)
  then show ?thesis
    using cur by (auto simp: validate_and_commit_def decide_def chain_run split: option.split)
qed


text \<open>
  How the entry gets there: a reader finds the cache empty and loads the state, a proposal is committed, the reader fills the cache with
  what it loaded.
\<close>

definition raced_ledger :: "((string \<times> json) list option, event list) ledger" where
  "raced_ledger =
     (case read_step sample_wsl noon (read_step sample_wsl noon (Asking, sample_ledger\<lparr>l_cache := None\<rparr>)) of (ph, s) \<Rightarrow>
      snd (read_step sample_wsl noon
        (ph, wsl_exec_all sample_wsl [Submit noon (budget_proposal ''r'' (JInt 70)), Commit noon ''r''] s)))"

definition stale_state :: "(string \<times> json) list" where
  "stale_state = (case l_cache raced_ledger of Some d \<Rightarrow> d | None \<Rightarrow> [])"

lemma raced_ledger_stale:
  "length (l_rows raced_ledger) = 2" "l_cache raced_ledger = Some stale_state" "version_of stale_state = 1"
  "model_validate schema_vf stale_state = Inr stale_state"
  "list_all (\<lambda>(pid, p). pr_verdict p = ProposalVerdict.PENDING \<longrightarrow> pr_before p \<noteq> 2) (l_proposals raced_ledger)"
  by code_simp+

lemma raced_ledger_inv: "ledger_inv schema_vf noon raced_ledger"
proof -
  obtain ph s where s: "read_step sample_wsl noon (read_step sample_wsl noon (Asking, sample_ledger\<lparr>l_cache := None\<rparr>)) = (ph, s)"
    by fastforce
  obtain ph' s' where s': "read_step sample_wsl noon (Asking, sample_ledger\<lparr>l_cache := None\<rparr>) = (ph', s')" by fastforce
  have "l_rows s = l_rows sample_ledger"
    using read_step_rows [of sample_wsl noon ph' s'] read_step_rows [of sample_wsl noon Asking "sample_ledger\<lparr>l_cache := None\<rparr>"] s s' by simp
  then have "ledger_inv schema_vf noon s" using sample_ledger_inv by (simp add: ledger_inv_def)
  then have "ledger_inv schema_vf noon (wsl_exec_all sample_wsl [Submit noon (budget_proposal ''r'' (JInt 70)), Commit noon ''r''] s)"
    by (rule world_models.wsl_exec_all_inv [rotated 2]) (simp_all add: sample_wsl_def noon_def is_stamp_def)
  then show ?thesis unfolding raced_ledger_def s prod.case by (simp only: ledger_inv_def read_step_rows)
qed

definition doomed :: "(string \<times> json) list option wsl_cmd list" where
  "doomed = [Submit noon (budget_proposal ''s'' (JInt 10)), Commit noon ''s'', Read noon]"


end
