(* ===== verification/Spec2Isabelle.thy ===== *)
theory Spec2Isabelle
  imports Task_Properties Task_Recovery Task_Decomposer Task_Workflow Ledger_Properties Governor_Properties LLM_Properties Router_Properties Event_Properties Evaluation_Engine Deployment_Manager Sandbox_Properties Gateway_Properties Human_Properties Failure_Properties Event_Schemas Orm_Models Working_Memory Knowledge_Properties Doc_Fetcher Dependency_Auditor Security_Properties Task_Api Code_Context Coding_Agent Comm_Bus Spec_Engine Governor_Workflows Ledger_Api Host_Workspaces Repositories Ledger_Cache
begin

text \<open>
  ARCHITECT is a set of Python services that together turn a specification into tested code. A request becomes a
  specification (Spec Engine), the specification a graph of tasks (Task Graph Engine), a task a run of an agent that asks a
  language model for files (Coding Agent, LLM library, Multi-Model Router), the files are run in a container (Execution Sandbox),
  judged (Evaluation Engine), rolled out (Deployment Pipeline), and every change of the shared state is a proposal to the
  World State Ledger. Around this loop stand the Economic Governor (budget), the Security Immune System (scans), the Failure
  Taxonomy (classes of failures), Knowledge & Memory (what is learned), Codebase Comprehension (indices of code), the Human
  Interface (escalations and votes) and the API gateway. The services talk over HTTP and over an event bus on Redis
  streams; the Agent Communication Bus is a second one over NATS. Paths below are under \<^verbatim>\<open>src/services/<service>/src\<close>,
  \<^verbatim>\<open>src/libs/<library>/src\<close> and \<^verbatim>\<open>src/apps\<close>.

  How code becomes definitions. A class of data is a record, an enumeration a datatype with its values
  (\<open>Enums\<close>), a JSON document a term of \<open>json\<close> (\<open>Json\<close>), checked against declared classes by \<open>Schema\<close>.
  A coroutine or method is an \<open>op\<close>: it takes the state and returns an exception or a result, and the state
  (\<open>Arch_Prelude\<close>); exceptions are values of \<open>exn\<close>. What lies outside \<^verbatim>\<open>src\<close> (PostgreSQL, Redis, NATS,
  Docker, Temporal, the language model, HTTP) is a parameter, with its documented behaviour as a locale where a property needs it;
  every locale is interpreted on an instance in the same theory. Times are integers (microseconds) or clock readings handed in,
  floats are exact rationals, integers are Python's unbounded ones; strings are lists of characters below 256. Where
  operations overlap, the await points cut them into steps and a schedule says which step comes next.

  The theories, in the order of their imports within each part:
  \<^item> Shared: \<open>Arch_Prelude\<close> (operations, association lists, rounding), \<open>Enums\<close>, \<open>Json\<close>, \<open>Schema\<close>, \<open>Text\<close>
    (strings, regular expressions and JSON text).
  \<^item> Task Graph Engine (\<^verbatim>\<open>task_graph_engine\<close>): \<open>Task_Graph\<close> (\<^verbatim>\<open>models.py\<close>, \<^verbatim>\<open>graph.py\<close>), \<open>Distributed_Lock\<close>, \<open>Task_Scheduler\<close>
    (\<^verbatim>\<open>scheduler.py\<close>), \<open>Task_Ready\<close>, \<open>Scheduler_Safety\<close>, \<open>Scheduler_Claim\<close>, \<open>Task_Recovery\<close>, \<open>Task_Decomposer\<close>, \<open>Task_Workflow\<close>, \<open>Task_Api\<close>,
    \<open>Task_Properties\<close>: readiness and order are exact, statuses follow the transition table under any calls, retries are bounded, two
    schedulers never hold one task, an agent loop completes every acyclic graph, recovery rebuilds the graph.
  \<^item> World State Ledger (\<^verbatim>\<open>world_state_ledger\<close>): \<open>World_State\<close> (documents and mutations), \<open>World_Ledger\<close> (\<^verbatim>\<open>state_manager.py\<close>),
    \<open>Ledger_History\<close>, \<open>Ledger_Properties\<close>, \<open>Ledger_Api\<close> (\<^verbatim>\<open>event_log.py\<close>, routes), \<open>Ledger_Cache\<close> (\<^verbatim>\<open>cache.py\<close>): storing deltas with
    checkpoints refines the replay of all mutations; the log holds each key once; an outdated cache entry stops all commits.
  \<^item> Economic Governor (\<^verbatim>\<open>economic_governor\<close>): \<open>Budget_Tracker\<close>, \<open>Enforcer\<close> (with the spin detector), \<open>Efficiency_Scorer\<close>,
    \<open>Governor_Monitor\<close>, \<open>Governor_Properties\<close>, \<open>Governor_Workflows\<close>: accounting, levels and spins are exact; how far concurrent
    allocations overdraw the budget.
  \<^item> LLM library and router (\<^verbatim>\<open>architect_llm\<close>, \<^verbatim>\<open>multi_model_router\<close>): \<open>Rate_Limiter\<close>, \<open>Cost_Tracker\<close>, \<open>LLM_Client\<close>, \<open>LLM_Properties\<close>,
    \<open>Model_Router\<close>, \<open>Router_Properties\<close>.
  \<^item> Event bus (\<^verbatim>\<open>architect_events\<close>): \<open>Event_Streams\<close>, \<open>Event_Subscriber\<close>, \<open>Event_Properties\<close>, \<open>Event_Schemas\<close> (what a payload of each
    type is, and that validation gives exactly that).
  \<^item> Evaluation and deployment: \<open>Evaluation_Layers\<close>, \<open>Evaluation_Engine\<close>, \<open>Deployment_Workflow\<close>, \<open>Deployment_Properties\<close>,
    \<open>Deployment_Manager\<close>: the verdict of an evaluation, and every way a deployment can end.
  \<^item> Execution Sandbox (\<^verbatim>\<open>execution_sandbox\<close>): \<open>Sandbox_Session\<close> (\<^verbatim>\<open>security.py\<close>), \<open>Sandbox_Api\<close>, \<open>Docker_Executor\<close>,
    \<open>Firecracker_Executor\<close>, \<open>Sandbox_Properties\<close>, \<open>Host_Workspaces\<close>: accepted paths stay in the workspace, audit logs are numbered.
  \<^item> Gateway and people (\<^verbatim>\<open>api_gateway\<close>, \<^verbatim>\<open>human_interface\<close>): \<open>Gateway\<close>, \<open>Gateway_Properties\<close>, \<open>Websocket_Manager\<close>, \<open>Human_Interface\<close>,
    \<open>Human_Properties\<close>.
  \<^item> Failure Taxonomy: \<open>Failure_Classifier\<close>, \<open>Failure_Taxonomy\<close>, \<open>Failure_Properties\<close>.
  \<^item> Knowledge & Memory: \<open>Working_Memory\<close>, \<open>Knowledge_Store\<close>, \<open>Heuristic_Engine\<close>, \<open>Heuristic_Properties\<close>,
    \<open>Knowledge_Compression\<close>, \<open>Knowledge_Properties\<close>, \<open>Doc_Fetcher\<close>.
  \<^item> Security Immune System: \<open>Security_Scans\<close>, \<open>Dependency_Auditor\<close>, \<open>Runtime_Monitor\<close>, \<open>Security_Gate\<close>, \<open>Security_Properties\<close>.
  \<^item> Codebase Comprehension: \<open>Code_Index\<close>, \<open>Tree_Sitter\<close>, \<open>Code_Chunks\<close>, \<open>Code_Context\<close>.
  \<^item> Coding Agent with the sandbox client, Spec Engine, Agent Communication Bus: \<open>Coding_Agent\<close>, \<open>Spec_Engine\<close>, \<open>Comm_Bus\<close>.
  \<^item> Database (\<^verbatim>\<open>architect_db\<close>): \<open>Schema_Migrations\<close>, \<open>Orm_Models\<close>, \<open>Repositories\<close>: the tables the migrations build are those of the
    models, and every query of the repositories names columns that exist.

  This theory adds what spans two services: the events of the scheduler at the Economic Governor. The findings that the properties and
  lemmas prove (a cyclic specification that blocks all later ones, retries that are never delivered again, votes that are lost,
  successes that rounding forgets) are stated as theorems about the code as it is.

  Bounds and fuel. Loops that always end are structural or have a measure. The matcher of regular expressions has fuel for the rest of
  the text and the least number of rounds, the scanner of JSON text two steps per character; in both the fuel is never used
  up. Loops that wait (the scheduling lock, the rate limiter, subscribers, the deployment monitor, the tasks of the
  workflow) read the clock or the schedule from a list: running out of it is a value of its own, and that enough of it
  gives a result is proved as such.

  Not modelled. The dashboard is written in TypeScript. The command line client (\<^verbatim>\<open>apps/cli\<close>) prints what the gateway answers. Logging,
  metrics and tracing (\<^verbatim>\<open>architect_observability\<close>), settings read from the environment, start-up and dependency injection of the
  services, the registration of Temporal workers and health checks hold no logic of their own. \<^verbatim>\<open>architect_testing\<close>
  (factories, mocks) and the tests serve testing. Scripts and \<^verbatim>\<open>infra\<close> are deployment files.
\<close>

section \<open>The scheduler's events at the Economic Governor\<close>

text \<open>A bus that keeps the published events; the other parties of the scheduler are arbitrary.\<close>

definition bus_logging :: "('r, 'd, event list) sched_env \<Rightarrow> bool" where
  "bus_logging env \<longleftrightarrow> (\<forall>e b. publish env e b = (Inr [], b @ [e]))"

definition only_event :: "event list \<Rightarrow> event \<Rightarrow> ('r, 'd, event list) sched \<Rightarrow> bool" where
  "only_event evs e s \<longleftrightarrow> s_bus s = evs \<or> s_bus s = evs @ [e]"

lemma keeps_bus_zoom:
  "keeps (\<lambda>s. s_bus s = evs) (persist env tid st msg)" "keeps (\<lambda>s. s_bus s = evs) (store tid t)"
  "keeps (\<lambda>s. s_bus s = evs) (on_lock m)" "keeps (\<lambda>s. s_bus s = evs) (fetch tid)"
  "keeps (\<lambda>s. s_bus s = evs) (assert_transition t target)"
  by (auto simp: keeps_def persist_def store_def on_lock_def fetch_def assert_transition_def op_simps
      split: prod.splits sum.splits if_splits)

text \<open>An operation that publishes one event at its end.\<close>

lemma one_event_chain:
  assumes "keeps (\<lambda>s. s_bus s = evs) m" and "\<And>x s. s_bus s = evs \<Longrightarrow> only_event evs e (snd (f x s))"
    and "s_bus s = evs"
  shows "only_event evs e (snd (chain m f s))"
proof -
  obtain r s' where m: "m s = (r, s')" by (cases "m s")
  then have "s_bus s' = evs" using keepsD [OF assms(1,3)] by simp
  then show ?thesis
    using assms(2) [of s'] m by (cases r) (simp_all add: chain_run only_event_def)
qed

lemma one_event_publish:
  "bus_logging env \<Longrightarrow> s_bus s = evs \<Longrightarrow>
     only_event evs \<lparr>ev_type = ty, ev_payload = payload\<rparr> (snd (publish_event env ty payload s))"
  by (simp add: publish_event_def op_simps bus_logging_def only_event_def)

lemma mark_failed_event:
  "bus_logging env \<Longrightarrow> only_event (s_bus s)
     \<lparr>ev_type = EventType.TASK_FAILED, ev_payload = [(''task_id'', JStr tid), (''error_message'', JStr err)]\<rparr>
     (snd (mark_failed env now tid err s))"
  unfolding mark_failed_def
  by (rule one_event_chain [OF keeps_bus_zoom(4)] one_event_chain [OF keeps_bus_zoom(5)]
      one_event_chain [OF keeps_lift_sum] one_event_chain [OF keeps_bus_zoom(2)]
      one_event_chain [OF keeps_bus_zoom(1)] one_event_publish | assumption | rule refl)+

lemma mark_completed_event:
  assumes "bus_logging env"
  shows "only_event (s_bus s)
     \<lparr>ev_type = EventType.TASK_COMPLETED,
      ev_payload = [(''task_id'', JStr tid), (''verdict'', JStr (eval_verdict_value v))]\<rparr>
     (snd (mark_completed env now tid v s))"
proof -
  have w: "keeps (\<lambda>s. s_bus s = evs) (writes (\<lambda>s. s\<lparr>s_completed := insert tid (s_completed s)\<rparr>))" for evs
    by (simp add: keeps_def)
  show ?thesis
    unfolding mark_completed_def
    by (rule one_event_chain [OF keeps_bus_zoom(4)] one_event_chain [OF keeps_bus_zoom(5)]
        one_event_chain [OF w] one_event_chain [OF keeps_bus_zoom(2)] one_event_chain [OF keeps_bus_zoom(3)]
        one_event_chain [OF keeps_bus_zoom(1)] one_event_publish [OF assms] | assumption | rule refl)+
qed

text \<open>
  The events the scheduler publishes do not charge any agent at the Economic Governor.
  Its TASK_FAILED events carry no agent, so the handler drops them: no failure is counted
  and no spinning agent is ever detected from them. Its TASK_COMPLETED events are counted
  for the agent with the empty name, with no tokens and no cost.
\<close>

theorem scheduler_events_uncharged:
  assumes "bus_logging env"
  shows "(\<forall>e \<in> set (drop (length (s_bus s)) (s_bus (snd (mark_failed env now tid err s)))).
      Governor_Monitor.handle_task_failed genv mo (ev_payload e) m = (Inr (), m)) \<and>
    (\<forall>e \<in> set (drop (length (s_bus s)) (s_bus (snd (mark_completed env now tid v s)))).
      handle_task_completed (ev_payload e) m =
        (Inr (), m\<lparr>mon_scorer := record_task_completed [] (if v = EvalVerdict.PASS then 1 else 1 / 2) 0 0
           None None (mon_scorer m)\<rparr>))"
proof -
  have "Governor_Monitor.handle_task_failed genv mo [(''task_id'', JStr tid), (''error_message'', JStr err)] m = (Inr (), m)"
    by (simp add: Governor_Monitor.handle_task_failed_def task_failed_payload_def)
  moreover have "handle_task_completed [(''task_id'', JStr tid), (''verdict'', JStr (eval_verdict_value v))] m =
      (Inr (), m\<lparr>mon_scorer := record_task_completed [] (if v = EvalVerdict.PASS then 1 else 1 / 2) 0 0
         None None (mon_scorer m)\<rparr>)"
    by (cases v) (simp_all add: handle_task_completed_def task_completed_payload_def check_float_def lax_float_def
        in_range_def str_field_def int_field_def float_field_def strip_def is_space_def)
  ultimately show ?thesis
    using mark_failed_event [OF assms, of s tid err now] mark_completed_event [OF assms, of s tid v now]
    by (auto simp: only_event_def)
qed

definition logging_env :: "(keyspace, unit, event list) sched_env" where
  "logging_env = \<lparr>env_redis = keyspace_ops, update_status = (\<lambda>tid st msg d. (Inr (), d)),
     publish = (\<lambda>e b. (Inr [], b @ [e]))\<rparr>"

definition running_task :: task where
  "running_task = (default_task ''a'' 0)\<lparr>status := StatusEnum.RUNNING, current_attempt := 1\<rparr>"

theorem scheduler_events_uncharged_witness:
  "s_bus (snd (mark_failed logging_env 5 ''a'' ''boom'' (new_sched (from_tasks [running_task]) None () []))) \<noteq> [] \<and>
   list_all (\<lambda>e. Governor_Monitor.handle_task_failed log_env \<lparr>mo_now = 0, mo_db_up = True\<rparr> (ev_payload e) (new_monitor small_config True []) =
        (Inr (), new_monitor small_config True []))
     (s_bus (snd (mark_failed logging_env 5 ''a'' ''boom'' (new_sched (from_tasks [running_task]) None () []))))"
proof -
  have env: "bus_logging logging_env" by (simp add: bus_logging_def logging_env_def)
  let ?s = "new_sched (from_tasks [running_task]) (None :: keyspace option) () ([] :: event list)"
  have "s_bus (snd (mark_failed logging_env 5 ''a'' ''boom'' ?s)) \<noteq> []"
    by (simp add: mark_failed_def op_simps fetch_def store_def get_task_def update_task_def new_sched_def
        running_task_def sample_defs assert_transition_def persist_def publish_event_def logging_env_def
        failure_record_def mk_retry_record_def replace_node_def)
  then show ?thesis
    using conjunct1 [OF scheduler_events_uncharged [OF env, of ?s]] by (simp add: new_sched_def list_all_iff)
qed


section \<open>Finished evaluations at the Deployment Pipeline\<close>

text \<open>
  No evaluation starts a deployment. Whatever the report, the payload that the evaluator
  publishes with EVAL_COMPLETED has no artifact reference, and the handler of the Deployment
  Pipeline, which deploys on a passing verdict, returns without doing anything.
\<close>

theorem evaluations_never_deploy:
  "\<exists>d. completed_payload r = JObj d \<and> Deployment_Manager.handle_eval_completed env d s = (Inr (), s)"
  by (simp add: completed_payload_def Deployment_Manager.handle_eval_completed_def Let_def get_or_def Deployment_Manager.to_float_def lax_float_def chain_run)

end
